(* ===== verification/Prelude.thy ===== *)
theory Prelude
  imports Complex_Main "HOL-Library.List_Lexorder" "HOL-Library.Char_ord"
    "HOL-Library.Product_Lexorder"
begin

text \<open>
  Shared vocabulary of the RecoveryOS development.

  \<^item> \<open>instant\<close>: a timezone-aware \<open>datetime\<close> as microseconds since the epoch in UTC (Python compares
    and subtracts aware datetimes as instants). \<open>datetime\<close> keeps the naive/aware distinction
    where the code checks it (\<open>value.tzinfo is None or value.utcoffset() is None\<close>).
  \<^item> \<open>paise\<close>: an unbounded Python \<open>int\<close>.
  \<^item> a fallible operation returns \<open>'e + 'a\<close>, with \<open>Inl\<close> for the exception that is raised.
  \<^item> \<open>py_strip\<close>, \<open>py_upper\<close>, \<open>py_lower\<close>: the string methods of Python on ASCII text.
  \<^item> \<open>first_index\<close>: \<open>next(i for i, x in enumerate(xs) if p(x))\<close>, with \<open>None\<close> for StopIteration.
\<close>

named_theorems result_simps \<open>unfolding the error monad\<close>
named_theorems table_simps \<open>look-up and update of database tables\<close>

type_synonym instant = int
type_synonym paise = int
type_synonym ident = string

section \<open>Errors as values\<close>

fun bindE :: "'e + 'a \<Rightarrow> ('a \<Rightarrow> 'e + 'b) \<Rightarrow> 'e + 'b" where
  "bindE (Inl e) f = Inl e"
| "bindE (Inr a) f = f a"

definition guardE :: "bool \<Rightarrow> 'e \<Rightarrow> 'e + unit" where
  "guardE ok e = (if ok then Inr () else Inl e)"

lemma bindE_eq_Inr [result_simps]: "bindE m f = Inr b \<longleftrightarrow> (\<exists>a. m = Inr a \<and> f a = Inr b)"
  by (cases m) auto

lemma bindE_eq_Inl [result_simps]:
  "bindE m f = Inl e \<longleftrightarrow> m = Inl e \<or> (\<exists>a. m = Inr a \<and> f a = Inl e)"
  by (cases m) auto

lemma guardE_Inr [simp]: "guardE ok e = Inr u \<longleftrightarrow> ok"
  by (simp add: guardE_def)

lemma guardE_Inl [simp]: "guardE ok e = Inl e' \<longleftrightarrow> \<not> ok \<and> e' = e"
  by (auto simp: guardE_def)

lemma bindE_guardE: "bindE (guardE ok e) f = (if ok then f () else Inl e)"
  by (simp add: guardE_def)

definition isOk :: "'e + 'a \<Rightarrow> bool" where
  "isOk r = (case r of Inl _ \<Rightarrow> False | Inr _ \<Rightarrow> True)"

lemma isOk_simps [simp]: "isOk (Inr a)" "\<not> isOk (Inl e)"
  by (simp_all add: isOk_def)

lemma isOk_iff: "isOk r \<longleftrightarrow> (\<exists>a. r = Inr a)"
  by (cases r) (auto simp: isOk_def)

lemma isOk_bindE [intro]: "isOk m \<Longrightarrow> (\<And>a. m = Inr a \<Longrightarrow> isOk (f a)) \<Longrightarrow> isOk (bindE m f)"
  by (auto simp: isOk_iff)

section \<open>Datetimes\<close>

datatype datetime = Naive int | Aware instant int

definition is_aware :: "datetime \<Rightarrow> bool" where
  "is_aware d = (case d of Naive _ \<Rightarrow> False | Aware _ _ \<Rightarrow> True)"

fun utc_instant :: "datetime \<Rightarrow> instant" where
  "utc_instant (Naive w) = w"
| "utc_instant (Aware t off) = t"

fun utcoffset :: "datetime \<Rightarrow> int option" where
  "utcoffset (Naive w) = None"
| "utcoffset (Aware t off) = Some off"

lemma is_aware_simps [simp]: "is_aware (Aware t off)" "\<not> is_aware (Naive w)"
  by (simp_all add: is_aware_def)

definition micros_per_second :: int where "micros_per_second = 1000000"
definition seconds :: "int \<Rightarrow> int" where "seconds n = n * micros_per_second"
definition minutes :: "int \<Rightarrow> int" where "minutes n = seconds (60 * n)"
definition hours :: "int \<Rightarrow> int" where "hours n = minutes (60 * n)"
definition days :: "int \<Rightarrow> int" where "days n = hours (24 * n)"

lemmas duration_defs = days_def hours_def minutes_def seconds_def micros_per_second_def

section \<open>Python strings\<close>

definition py_space :: "char \<Rightarrow> bool" where
  "py_space c \<longleftrightarrow> (of_char c :: nat) \<in> {9, 10, 11, 12, 13, 28, 29, 30, 31, 32}"

definition py_strip :: "string \<Rightarrow> string" where
  "py_strip s = rev (dropWhile py_space (rev (dropWhile py_space s)))"

definition upper_char :: "char \<Rightarrow> char" where
  "upper_char c = (let n = (of_char c :: nat) in
     if 97 \<le> n \<and> n \<le> 122 then char_of (n - 32) else c)"

definition lower_char :: "char \<Rightarrow> char" where
  "lower_char c = (let n = (of_char c :: nat) in
     if 65 \<le> n \<and> n \<le> 90 then char_of (n + 32) else c)"

definition py_upper :: "string \<Rightarrow> string" where
  "py_upper s = map upper_char s"

definition py_lower :: "string \<Rightarrow> string" where
  "py_lower s = map lower_char s"

lemma upper_char_idem [simp]: "upper_char (upper_char c) = upper_char c"
proof (cases "97 \<le> (of_char c :: nat) \<and> (of_char c :: nat) \<le> 122")
  case True
  then have "(of_char c :: nat) - 32 < 256" by linarith
  then have "(of_char (char_of ((of_char c :: nat) - 32)) :: nat) = of_char c - 32"
    by (simp only: of_char_of mod_less)
  moreover have "\<not> 97 \<le> (of_char c :: nat) - 32" using True by linarith
  ultimately show ?thesis using True by (simp add: upper_char_def Let_def)
next
  case False
  then show ?thesis by (auto simp add: upper_char_def Let_def)
qed

lemma py_upper_idem [simp]: "py_upper (py_upper s) = py_upper s"
  by (simp add: py_upper_def o_def)

lemma length_py_upper [simp]: "length (py_upper s) = length s"
  by (simp add: py_upper_def)

text \<open>\<open>str(n)\<close> for an integer, in decimal.\<close>

fun digits_of :: "nat \<Rightarrow> string" where
  "digits_of n = (if n < 10 then [char_of (48 + n)] else digits_of (n div 10) @ [char_of (48 + n mod 10)])"

declare digits_of.simps [simp del]

definition int_str :: "int \<Rightarrow> string" where
  "int_str i = (if i < 0 then ''-'' @ digits_of (nat (- i)) else digits_of (nat i))"

text \<open>A JSON scalar, as dictionaries of plain values hold them, and its \<open>str\<close>.\<close>

datatype scalar = S_str string | S_int int | S_bool bool | S_none

fun scalar_str :: "scalar \<Rightarrow> string" where
  "scalar_str (S_str s) = s"
| "scalar_str (S_int n) = int_str n"
| "scalar_str (S_bool b) = (if b then ''True'' else ''False'')"
| "scalar_str S_none = ''None''"

section \<open>Traversing a list with a fallible function\<close>

fun traverseE :: "('a \<Rightarrow> 'e + 'b) \<Rightarrow> 'a list \<Rightarrow> 'e + 'b list" where
  "traverseE f [] = Inr []"
| "traverseE f (x # xs) = bindE (f x) (\<lambda>y. bindE (traverseE f xs) (\<lambda>ys. Inr (y # ys)))"

lemma traverseE_Inr:
  "traverseE f xs = Inr ys \<longleftrightarrow>
     length ys = length xs \<and> (\<forall>i < length xs. f (xs ! i) = Inr (ys ! i))"
proof (induction xs arbitrary: ys)
  case Nil
  then show ?case by auto
next
  case (Cons x xs)
  show ?case
  proof (cases ys)
    case Nil
    then show ?thesis by (auto simp: bindE_eq_Inr)
  next
    case (Cons y ys')
    then show ?thesis using Cons.IH [of ys']
      by (auto simp: bindE_eq_Inr All_less_Suc2)
  qed
qed

lemma traverseE_ok: "(\<And>x. x \<in> set xs \<Longrightarrow> isOk (f x)) \<Longrightarrow> isOk (traverseE f xs)"
proof (induction xs)
  case Nil
  then show ?case by simp
next
  case (Cons x xs)
  then have "isOk (f x)" "isOk (traverseE f xs)" by auto
  then show ?case by (auto simp: isOk_iff)
qed

lemma traverseE_set: "traverseE f xs = Inr ys \<Longrightarrow> y \<in> set ys \<Longrightarrow> \<exists>x \<in> set xs. f x = Inr y"
  by (induction xs arbitrary: ys) (auto simp: bindE_eq_Inr)

lemma snd_in_enumerate: "z \<in> set (enumerate n xs) \<Longrightarrow> snd z \<in> set xs"
  by (metis image_eqI list.set_map map_snd_enumerate)

section \<open>First match\<close>

fun first_index :: "('a \<Rightarrow> bool) \<Rightarrow> 'a list \<Rightarrow> nat option" where
  "first_index P [] = None"
| "first_index P (x # xs) = (if P x then Some 0 else map_option Suc (first_index P xs))"

lemma first_index_None [simp]: "first_index P xs = None \<longleftrightarrow> (\<forall>x \<in> set xs. \<not> P x)"
  by (induction xs) auto

lemma first_index_Some:
  "first_index P xs = Some i \<longleftrightarrow> i < length xs \<and> P (xs ! i) \<and> (\<forall>j < i. \<not> P (xs ! j))"
proof (induction xs arbitrary: i)
  case Nil
  then show ?case by simp
next
  case (Cons x xs)
  show ?case
  proof (cases i)
    case 0
    then show ?thesis by auto
  next
    case (Suc k)
    then show ?thesis using Cons.IH [of k] by (auto simp: less_Suc_eq_0_disj)
  qed
qed

lemma first_index_exists: "\<exists>x \<in> set xs. P x \<Longrightarrow> \<exists>i. first_index P xs = Some i"
  by (cases "first_index P xs") auto

section \<open>Sorting by a key\<close>

text \<open>\<open>sorted(xs, key=f)\<close> of Python is stable, as \<^const>\<open>sort_key\<close> is.\<close>

lemma nth_sort_key_le:
  assumes "i < j" and "j < length xs"
  shows "f (sort_key f xs ! i) \<le> f (sort_key f xs ! j)"
proof -
  have "sorted (map f (sort_key f xs))" by simp
  moreover have "i \<le> j" "j < length (map f (sort_key f xs))" using assms by simp_all
  ultimately have "map f (sort_key f xs) ! i \<le> map f (sort_key f xs) ! j"
    by (rule sorted_nth_mono)
  with assms show ?thesis by simp
qed

section \<open>Tables\<close>

text \<open>
  A database table is a list of rows. \<open>find\<close> is a \<open>SELECT ... LIMIT 1\<close> in row order;
  \<open>update_where\<close> is an \<open>UPDATE ... WHERE\<close>.
\<close>

definition update_where :: "('r \<Rightarrow> bool) \<Rightarrow> ('r \<Rightarrow> 'r) \<Rightarrow> 'r list \<Rightarrow> 'r list" where
  "update_where P f rows = map (\<lambda>r. if P r then f r else r) rows"

lemma length_update_where [simp, table_simps]: "length (update_where P f rows) = length rows"
  by (simp add: update_where_def)

lemma update_where_Nil [simp, table_simps]: "update_where P f [] = []"
  by (simp add: update_where_def)

lemma update_where_Cons [table_simps]:
  "update_where P f (r # rows) = (if P r then f r else r) # update_where P f rows"
  by (simp add: update_where_def)

lemma set_update_where:
  "set (update_where P f rows) = f ` {r \<in> set rows. P r} \<union> {r \<in> set rows. \<not> P r}"
  by (auto simp: update_where_def)

lemma map_update_where:
  "(\<And>r. P r \<Longrightarrow> g (f r) = g r) \<Longrightarrow> map g (update_where P f rows) = map g rows"
  by (simp add: update_where_def)

text \<open>
  \<open>ORDER BY key LIMIT 1\<close>, ascending and descending. \<open>save_row\<close> writes back a row that was read, by
  its primary key.
\<close>

definition first_by :: "('r \<Rightarrow> 'k::linorder) \<Rightarrow> 'r list \<Rightarrow> 'r option" where
  "first_by key rows = (case sort_key key rows of [] \<Rightarrow> None | r # _ \<Rightarrow> Some r)"

definition last_by :: "('r \<Rightarrow> 'k::linorder) \<Rightarrow> 'r list \<Rightarrow> 'r option" where
  "last_by key rows = (case rev (sort_key key rows) of [] \<Rightarrow> None | r # _ \<Rightarrow> Some r)"

definition save_row :: "('r \<Rightarrow> 'k) \<Rightarrow> 'r \<Rightarrow> 'r list \<Rightarrow> 'r list" where
  "save_row key r rows = update_where (\<lambda>x. key x = key r) (\<lambda>_. r) rows"

lemma first_by_mem:
  assumes "first_by key rows = Some r"
  shows "r \<in> set rows"
proof -
  from assms obtain rs where "sort_key key rows = r # rs" by (auto simp: first_by_def split: list.splits)
  then have "r \<in> set (sort_key key rows)" by simp
  then show ?thesis by simp
qed

lemma last_by_mem:
  assumes "last_by key rows = Some r"
  shows "r \<in> set rows"
proof -
  from assms obtain rs where "rev (sort_key key rows) = r # rs" by (auto simp: last_by_def split: list.splits)
  then have "r \<in> set (rev (sort_key key rows))" by simp
  then show ?thesis by simp
qed

lemma map_save_row [simp]: "map key (save_row key r rows) = map key rows"
  by (simp add: save_row_def update_where_def)

lemma set_save_row: "x \<in> set (save_row key r rows) \<Longrightarrow> x = r \<or> x \<in> set rows \<and> key x \<noteq> key r"
  by (auto simp: save_row_def set_update_where)

lemma mem_save_row: "key x \<noteq> key r \<Longrightarrow> x \<in> set rows \<Longrightarrow> x \<in> set (save_row key r rows)"
  by (auto simp: save_row_def set_update_where)

lemma save_row_mem: "key x = key r \<Longrightarrow> x \<in> set rows \<Longrightarrow> r \<in> set (save_row key r rows)"
  by (auto simp: save_row_def set_update_where)

lemma find_SomeD: "find P xs = Some x \<Longrightarrow> x \<in> set xs \<and> P x"
  by (auto simp: find_Some_iff in_set_conv_nth)

lemma find_snoc: "find P (xs @ [x]) = (case find P xs of Some y \<Rightarrow> Some y | None \<Rightarrow> if P x then Some x else None)"
  by (induction xs) auto

lemma find_distinct_key:
  assumes "distinct (map k rows)" and "r \<in> set rows"
  shows "find (\<lambda>x. k x = k r) rows = Some r"
  using assms
proof (induction rows)
  case Nil
  then show ?case by simp
next
  case (Cons a rows)
  then show ?case by (cases "k a = k r") (auto simp: image_iff)
qed

end
