(* ===== verification/Safety_Policy.thy ===== *)
theory Safety_Policy
  imports Domain_Model
begin

text \<open>
  The merchant safety policy: \<open>services/api/app/safety/reasons.py\<close> (structured decisions) and
  \<open>services/api/app/safety/policy.py\<close> (configuration, context, quiet hours, evaluation).

  A time zone is Python's \<open>ZoneInfo\<close>, whose rules come from the tz database and are not part of
  the repository: \<open>timezone\<close> is a parameter with its two look-ups (the offset at a UTC instant,
  and the PEP 495 offset of a wall time with a fold), and \<open>zones\<close> maps an IANA name to it.
  \<open>fixed_zone\<close> is a zone with one offset, such as the default \<open>Asia/Kolkata\<close>.

  The lemmas show the precedence of the safety rules, that terminal controls are always
  allowed, that a delay lies inside the recovery window, and that \<open>SafetyDecision\<close> never raises.
\<close>

section \<open>Structured decisions (reasons.py)\<close>

datatype SafetyReasonCode = GLOBAL_KILL_SWITCH_ENABLED | MERCHANT_KILL_SWITCH_ENABLED
  | CASE_TERMINAL | PAYMENT_ALREADY_CAPTURED | CUSTOMER_OPTED_OUT | WRONG_PERSON_CODE
  | CUSTOMER_DISPUTE | CUSTOMER_REPORTS_ALREADY_PAID | RECOVERY_WINDOW_EXPIRED
  | GATEWAY_RETRY_ACTIVE | WAIT_FOR_PROVIDER_RETRY | CONTACT_LIMIT_REACHED | QUIET_HOURS_ACTIVE
  | ACTION_REQUIRES_APPROVAL | AMOUNT_REQUIRES_APPROVAL | WITHIN_RECOVERY_WINDOW | NO_SUPPRESSION

fun reason_code_value :: "SafetyReasonCode \<Rightarrow> string" where
  "reason_code_value GLOBAL_KILL_SWITCH_ENABLED = ''GLOBAL_KILL_SWITCH_ENABLED''"
| "reason_code_value MERCHANT_KILL_SWITCH_ENABLED = ''MERCHANT_KILL_SWITCH_ENABLED''"
| "reason_code_value CASE_TERMINAL = ''CASE_TERMINAL''"
| "reason_code_value PAYMENT_ALREADY_CAPTURED = ''PAYMENT_ALREADY_CAPTURED''"
| "reason_code_value CUSTOMER_OPTED_OUT = ''CUSTOMER_OPTED_OUT''"
| "reason_code_value WRONG_PERSON_CODE = ''WRONG_PERSON''"
| "reason_code_value CUSTOMER_DISPUTE = ''CUSTOMER_DISPUTE''"
| "reason_code_value CUSTOMER_REPORTS_ALREADY_PAID = ''CUSTOMER_REPORTS_ALREADY_PAID''"
| "reason_code_value RECOVERY_WINDOW_EXPIRED = ''RECOVERY_WINDOW_EXPIRED''"
| "reason_code_value GATEWAY_RETRY_ACTIVE = ''GATEWAY_RETRY_ACTIVE''"
| "reason_code_value WAIT_FOR_PROVIDER_RETRY = ''WAIT_FOR_PROVIDER_RETRY''"
| "reason_code_value CONTACT_LIMIT_REACHED = ''CONTACT_LIMIT_REACHED''"
| "reason_code_value QUIET_HOURS_ACTIVE = ''QUIET_HOURS_ACTIVE''"
| "reason_code_value ACTION_REQUIRES_APPROVAL = ''ACTION_REQUIRES_APPROVAL''"
| "reason_code_value AMOUNT_REQUIRES_APPROVAL = ''AMOUNT_REQUIRES_APPROVAL''"
| "reason_code_value WITHIN_RECOVERY_WINDOW = ''WITHIN_RECOVERY_WINDOW''"
| "reason_code_value NO_SUPPRESSION = ''NO_SUPPRESSION''"

record SafetyReason =
  sr_code :: SafetyReasonCode
  sr_message :: string
  sr_field :: "string option"

definition to_api_dict :: "SafetyReason \<Rightarrow> (string \<times> string) list" where
  "to_api_dict r =
     [(''code'', reason_code_value (sr_code r)), (''message'', sr_message r)]
     @ (case sr_field r of None \<Rightarrow> [] | Some f \<Rightarrow> [(''field'', f)])"

datatype policy_error = No_Reasons | Decision_Code_Mismatch | Decision_Delay_Mismatch
  | Unknown_Timezone | Quiet_Hours_Half_Configured | Quiet_Hours_Equal | Max_Contacts_Not_Positive
  | Threshold_Negative | Retry_Delay_Not_Positive | Not_Aware | Amount_Negative
  | Attempts_Negative | Surface_Required | Quiet_End_Unresolved

record SafetyDecision =
  sd_disposition :: PolicyDisposition
  sd_decision_code :: SafetyReasonCode
  sd_reasons :: "SafetyReason list"
  sd_policy_version :: string
  sd_delay_until :: "instant option"

definition check_safety_decision :: "SafetyDecision \<Rightarrow> policy_error + SafetyDecision" where
  "check_safety_decision d =
     (case sd_reasons d of [] \<Rightarrow> Inl No_Reasons
      | r # _ \<Rightarrow>
        if sr_code r \<noteq> sd_decision_code d then Inl Decision_Code_Mismatch
        else if (sd_disposition d = DELAY) \<noteq> (sd_delay_until d \<noteq> None)
        then Inl Decision_Delay_Mismatch
        else Inr d)"

definition to_contract :: "SafetyDecision \<Rightarrow> PolicyDecision" where
  "to_contract d =
     \<lparr>pd_disposition = sd_disposition d,
      pd_decision_code = reason_code_value (sd_decision_code d),
      pd_reason_codes = map (\<lambda>r. reason_code_value (sr_code r)) (sd_reasons d),
      pd_reasons = map sr_message (sd_reasons d),
      pd_policy_version = sd_policy_version d,
      pd_delay_until = sd_delay_until d\<rparr>"

section \<open>Configuration and context (policy.py)\<close>

record timezone =
  tz_offset_at :: "instant \<Rightarrow> int"
  tz_offset_local :: "int \<Rightarrow> nat \<Rightarrow> int"

definition fixed_zone :: "int \<Rightarrow> timezone" where
  "fixed_zone off = \<lparr>tz_offset_at = (\<lambda>_. off), tz_offset_local = (\<lambda>_ _. off)\<rparr>"

record SafetyPolicyConfig =
  cfg_merchant_timezone :: string
  cfg_quiet_hours_start :: "int option"
  cfg_quiet_hours_end :: "int option"
  cfg_max_contacts_per_window :: "int option"
  cfg_manual_approval_actions :: "RecoveryActionType list"
  cfg_manual_approval_above_paise :: "paise option"
  cfg_global_kill_switch :: bool
  cfg_merchant_kill_switch :: bool
  cfg_gateway_retry_delay :: int
  cfg_policy_version :: string

definition default_config :: SafetyPolicyConfig where
  "default_config =
     \<lparr>cfg_merchant_timezone = ''Asia/Kolkata'',
      cfg_quiet_hours_start = Some (hours 20), cfg_quiet_hours_end = Some (hours 9),
      cfg_max_contacts_per_window = Some 3, cfg_manual_approval_actions = [],
      cfg_manual_approval_above_paise = Some 500000,
      cfg_global_kill_switch = False, cfg_merchant_kill_switch = False,
      cfg_gateway_retry_delay = minutes 15, cfg_policy_version = ''recovery-safety.v2''\<rparr>"

definition validate_config ::
    "(string \<Rightarrow> timezone option) \<Rightarrow> SafetyPolicyConfig \<Rightarrow> policy_error + SafetyPolicyConfig" where
  "validate_config zones g =
     (if zones (cfg_merchant_timezone g) = None then Inl Unknown_Timezone
      else if (cfg_quiet_hours_start g = None) \<noteq> (cfg_quiet_hours_end g = None)
      then Inl Quiet_Hours_Half_Configured
      else if cfg_quiet_hours_start g \<noteq> None \<and> cfg_quiet_hours_start g = cfg_quiet_hours_end g
      then Inl Quiet_Hours_Equal
      else if (case cfg_max_contacts_per_window g of None \<Rightarrow> False | Some n \<Rightarrow> n < 1)
      then Inl Max_Contacts_Not_Positive
      else if (case cfg_manual_approval_above_paise g of None \<Rightarrow> False | Some p \<Rightarrow> p < 0)
      then Inl Threshold_Negative
      else if cfg_gateway_retry_delay g \<le> 0 then Inl Retry_Delay_Not_Positive
      else Inr g)"

record SafetyPolicyContext =
  ctx_now :: datetime
  ctx_recovery_deadline :: datetime
  ctx_case_outcome :: CaseOutcome
  ctx_payment_state :: PaymentState
  ctx_subscription_state :: SubscriptionState
  ctx_contact_disposition :: ContactDisposition
  ctx_action :: RecoveryActionType
  ctx_payment_surface_type :: "PaymentSurfaceType option"
  ctx_amount_at_risk_paise :: paise
  ctx_active_gateway_retries :: bool
  ctx_contact_attempts_in_window :: int
  ctx_contact_limit_resets_at :: "datetime option"

definition require_aware :: "datetime \<Rightarrow> policy_error + unit" where
  "require_aware d = guardE (is_aware d) Not_Aware"

definition validate_context :: "SafetyPolicyContext \<Rightarrow> policy_error + SafetyPolicyContext" where
  "validate_context c =
     bindE (require_aware (ctx_now c)) (\<lambda>_.
     bindE (require_aware (ctx_recovery_deadline c)) (\<lambda>_.
     bindE (case ctx_contact_limit_resets_at c of None \<Rightarrow> Inr () | Some d \<Rightarrow> require_aware d) (\<lambda>_.
       if ctx_amount_at_risk_paise c < 0 then Inl Amount_Negative
       else if ctx_contact_attempts_in_window c < 0 then Inl Attempts_Negative
       else if (ctx_action c = OPEN_CUSTOMER_PAYMENT_SURFACE) \<noteq> (ctx_payment_surface_type c \<noteq> None)
       then Inl Surface_Required
       else Inr c)))"

section \<open>Quiet hours\<close>

text \<open>
  A wall time is a number of microseconds on the local calendar, a \<open>time\<close> its remainder in the
  day and a \<open>date\<close> its day number.
\<close>

definition valid_local_candidates :: "timezone \<Rightarrow> int \<Rightarrow> instant list" where
  "valid_local_candidates tz naive =
     sort (remdups (filter (\<lambda>u. u + tz_offset_at tz u = naive)
       (map (\<lambda>fold. naive - tz_offset_local tz naive fold) [0, 1])))"

fun resolve_quiet_end_from :: "timezone \<Rightarrow> int \<Rightarrow> nat list \<Rightarrow> policy_error + instant" where
  "resolve_quiet_end_from tz naive [] = Inl Quiet_End_Unresolved"
| "resolve_quiet_end_from tz naive (k # ks) =
     (case valid_local_candidates tz (naive + minutes (int k)) of
        [] \<Rightarrow> resolve_quiet_end_from tz naive ks
      | u # us \<Rightarrow> Inr (fold max us u))"

definition resolve_quiet_end :: "int \<Rightarrow> int \<Rightarrow> timezone \<Rightarrow> policy_error + instant" where
  "resolve_quiet_end local_date quiet_end tz =
     resolve_quiet_end_from tz (local_date * days 1 + quiet_end) [0..<181]"

definition quiet_hours_delay_until ::
    "datetime \<Rightarrow> timezone \<Rightarrow> int \<Rightarrow> int \<Rightarrow> policy_error + instant option" where
  "quiet_hours_delay_until now tz start quiet_end =
     bindE (require_aware now) (\<lambda>_.
       let wall = utc_instant now + tz_offset_at tz (utc_instant now);
           local_time = wall mod days 1;
           local_date = wall div days 1
       in if start < quiet_end then
            (if \<not> (start \<le> local_time \<and> local_time < quiet_end) then Inr None
             else bindE (resolve_quiet_end local_date quiet_end tz) (\<lambda>u. Inr (Some u)))
          else if local_time \<ge> start then
            bindE (resolve_quiet_end (local_date + 1) quiet_end tz) (\<lambda>u. Inr (Some u))
          else if local_time < quiet_end then
            bindE (resolve_quiet_end local_date quiet_end tz) (\<lambda>u. Inr (Some u))
          else Inr None)"

section \<open>Evaluation\<close>

definition CUSTOMER_CONTACT_ACTIONS :: "RecoveryActionType set" where
  "CUSTOMER_CONTACT_ACTIONS = {OPEN_CUSTOMER_PAYMENT_SURFACE, START_VOICE, SEND_TO_CUSTOMER_AGENT}"

definition OUTREACH_ACTIONS :: "RecoveryActionType set" where
  "OUTREACH_ACTIONS = {START_VOICE, SEND_TO_CUSTOMER_AGENT}"

definition TERMINAL_CONTROL_ACTIONS :: "RecoveryActionType set" where
  "TERMINAL_CONTROL_ACTIONS = {STOP, ESCALATE_TO_HUMAN}"

lemmas action_sets = CUSTOMER_CONTACT_ACTIONS_def OUTREACH_ACTIONS_def TERMINAL_CONTROL_ACTIONS_def

text \<open>The user-facing texts, named so that they stay folded in proofs.\<close>

definition msg_global_kill :: string where
  "msg_global_kill = ''All recovery execution is disabled by the platform kill switch.''"
definition msg_merchant_kill :: string where
  "msg_merchant_kill = ''Recovery execution is disabled for this merchant.''"
definition msg_terminal :: string where
  "msg_terminal = ''The recovery case is already terminal.''"
definition msg_captured :: string where
  "msg_captured = ''Authoritative payment state already shows captured funds.''"
definition msg_opted_out :: string where
  "msg_opted_out = ''Customer opted out; customer-facing recovery is suppressed.''"
definition msg_wrong_person :: string where
  "msg_wrong_person = ''The contact is not the customer; customer-facing recovery is suppressed.''"
definition msg_dispute :: string where
  "msg_dispute = ''The charge is disputed; automated customer-facing recovery is suppressed.''"
definition msg_already_paid :: string where
  "msg_already_paid = ''Customer-reported payment requires reconciliation before further contact.''"
definition msg_expired :: string where
  "msg_expired = ''The configured recovery deadline has passed.''"
definition msg_retry_active :: string where
  "msg_retry_active = ''Standalone collection is blocked while subscription auto-retries are active.''"
definition msg_provider_retry :: string where
  "msg_provider_retry = ''The payment provider owns the active pending-subscription retry.''"
definition msg_limit_delay :: string where
  "msg_limit_delay = ''The contact limit is reached; outreach is delayed until the window resets.''"
definition msg_limit_block :: string where
  "msg_limit_block =
     ''The contact limit is reached and no safe retry remains in the recovery window.''"
definition msg_quiet_delay :: string where
  "msg_quiet_delay = ''Outreach is delayed until merchant-local quiet hours end.''"
definition msg_quiet_block :: string where
  "msg_quiet_block = ''Quiet hours extend beyond the remaining recovery window.''"
definition msg_action_approval :: string where
  "msg_action_approval = ''Merchant policy requires human approval for this action.''"
definition msg_amount_approval :: string where
  "msg_amount_approval = ''The amount at risk meets the merchant's manual approval threshold.''"
definition msg_within_window :: string where
  "msg_within_window = ''The case is within its configured recovery window.''"
definition msg_no_suppression :: string where
  "msg_no_suppression = ''No higher-priority suppression applies to this action.''"
definition fld_payment_state :: string where "fld_payment_state = ''payment_state''"
definition fld_contact :: string where "fld_contact = ''contact_disposition''"
definition fld_deadline :: string where "fld_deadline = ''recovery_deadline''"
definition fld_surface :: string where "fld_surface = ''payment_surface_type''"
definition fld_subscription :: string where "fld_subscription = ''subscription_state''"
definition fld_attempts :: string where "fld_attempts = ''contact_attempts_in_window''"
definition fld_timezone :: string where "fld_timezone = ''merchant_timezone''"
definition fld_action :: string where "fld_action = ''action''"
definition fld_amount :: string where "fld_amount = ''amount_at_risk_paise''"

definition safety_reason :: "SafetyReasonCode \<Rightarrow> string \<Rightarrow> string option \<Rightarrow> SafetyReason" where
  "safety_reason code message fld = \<lparr>sr_code = code, sr_message = message, sr_field = fld\<rparr>"

definition safety_decision ::
    "SafetyPolicyConfig \<Rightarrow> PolicyDisposition \<Rightarrow> SafetyReason \<Rightarrow> SafetyReason list \<Rightarrow> instant option
       \<Rightarrow> policy_error + SafetyDecision" where
  "safety_decision g disposition r rs delay_until =
     check_safety_decision
       \<lparr>sd_disposition = disposition, sd_decision_code = sr_code r, sd_reasons = r # rs,
        sd_policy_version = cfg_policy_version g, sd_delay_until = delay_until\<rparr>"

abbreviation block_with :: "SafetyPolicyConfig \<Rightarrow> SafetyReason \<Rightarrow> policy_error + SafetyDecision option" where
  "block_with g r \<equiv> bindE (safety_decision g BLOCK r [] None) (\<lambda>d. Inr (Some d))"

abbreviation delay_with ::
    "SafetyPolicyConfig \<Rightarrow> SafetyReason \<Rightarrow> instant \<Rightarrow> policy_error + SafetyDecision option" where
  "delay_with g r t \<equiv> bindE (safety_decision g DELAY r [] (Some t)) (\<lambda>d. Inr (Some d))"

text \<open>
  \<open>evaluate_safety_policy\<close> is a chain of early returns. Each rule gives \<open>Inr (Some d)\<close> where the
  code returns, \<open>Inr None\<close> where it falls through to the next rule, and \<open>Inl\<close> where it raises.
\<close>

definition kill_switch_rule ::
    "SafetyPolicyContext \<Rightarrow> SafetyPolicyConfig \<Rightarrow> policy_error + SafetyDecision option" where
  "kill_switch_rule c g =
     (if cfg_global_kill_switch g \<and> ctx_action c \<notin> TERMINAL_CONTROL_ACTIONS
      then block_with g (safety_reason GLOBAL_KILL_SWITCH_ENABLED msg_global_kill None)
      else if cfg_merchant_kill_switch g \<and> ctx_action c \<notin> TERMINAL_CONTROL_ACTIONS
      then block_with g (safety_reason MERCHANT_KILL_SWITCH_ENABLED msg_merchant_kill None)
      else Inr None)"

definition terminal_state_rule ::
    "SafetyPolicyContext \<Rightarrow> SafetyPolicyConfig \<Rightarrow> policy_error + SafetyDecision option" where
  "terminal_state_rule c g =
     (if ctx_case_outcome c \<noteq> Case_OPEN \<and> ctx_action c \<notin> TERMINAL_CONTROL_ACTIONS
      then block_with g (safety_reason CASE_TERMINAL msg_terminal None)
      else if ctx_payment_state c = Pay_CAPTURED \<and> ctx_action c \<notin> TERMINAL_CONTROL_ACTIONS
      then block_with g (safety_reason PAYMENT_ALREADY_CAPTURED msg_captured (Some fld_payment_state))
      else Inr None)"

definition suppression_reasons :: "ContactDisposition \<Rightarrow> SafetyReason option" where
  "suppression_reasons d =
     (case d of
        OPTED_OUT \<Rightarrow> Some (safety_reason CUSTOMER_OPTED_OUT msg_opted_out (Some fld_contact))
      | WRONG_PERSON \<Rightarrow> Some (safety_reason WRONG_PERSON_CODE msg_wrong_person (Some fld_contact))
      | DISPUTE \<Rightarrow> Some (safety_reason CUSTOMER_DISPUTE msg_dispute (Some fld_contact))
      | ALREADY_PAID \<Rightarrow>
          Some (safety_reason CUSTOMER_REPORTS_ALREADY_PAID msg_already_paid (Some fld_contact))
      | _ \<Rightarrow> None)"

definition suppression_rule ::
    "SafetyPolicyContext \<Rightarrow> SafetyPolicyConfig \<Rightarrow> policy_error + SafetyDecision option" where
  "suppression_rule c g =
     (case suppression_reasons (ctx_contact_disposition c) of
        Some r \<Rightarrow> if ctx_action c \<in> CUSTOMER_CONTACT_ACTIONS then block_with g r else Inr None
      | None \<Rightarrow> Inr None)"

abbreviation now_of :: "SafetyPolicyContext \<Rightarrow> instant" where
  "now_of c \<equiv> utc_instant (ctx_now c)"
abbreviation deadline_of :: "SafetyPolicyContext \<Rightarrow> instant" where
  "deadline_of c \<equiv> utc_instant (ctx_recovery_deadline c)"

definition deadline_rule ::
    "SafetyPolicyContext \<Rightarrow> SafetyPolicyConfig \<Rightarrow> policy_error + SafetyDecision option" where
  "deadline_rule c g =
     (if now_of c \<ge> deadline_of c \<and> ctx_action c \<notin> TERMINAL_CONTROL_ACTIONS
      then block_with g (safety_reason RECOVERY_WINDOW_EXPIRED msg_expired (Some fld_deadline))
      else Inr None)"

definition gateway_retry_rule ::
    "SafetyPolicyContext \<Rightarrow> SafetyPolicyConfig \<Rightarrow> policy_error + SafetyDecision option" where
  "gateway_retry_rule c g =
     (if ctx_action c = OPEN_CUSTOMER_PAYMENT_SURFACE
         \<and> ctx_payment_surface_type c = Some STANDARD_PAYMENT_LINK
         \<and> ctx_subscription_state c = Sub_PENDING \<and> ctx_active_gateway_retries c
      then block_with g (safety_reason GATEWAY_RETRY_ACTIVE msg_retry_active (Some fld_surface))
      else if ctx_action c = WAIT_FOR_GATEWAY_RETRY
         \<and> ctx_subscription_state c = Sub_PENDING \<and> ctx_active_gateway_retries c
      then let delay_until = min (now_of c + cfg_gateway_retry_delay g) (deadline_of c)
           in if delay_until > now_of c
              then delay_with g (safety_reason WAIT_FOR_PROVIDER_RETRY msg_provider_retry (Some fld_subscription))
                     delay_until
              else Inr None
      else Inr None)"

definition contact_limit_rule ::
    "SafetyPolicyContext \<Rightarrow> SafetyPolicyConfig \<Rightarrow> policy_error + SafetyDecision option" where
  "contact_limit_rule c g =
     (case cfg_max_contacts_per_window g of
        None \<Rightarrow> Inr None
      | Some n \<Rightarrow>
          if ctx_action c \<in> OUTREACH_ACTIONS \<and> ctx_contact_attempts_in_window c \<ge> n
          then (case ctx_contact_limit_resets_at c of
                  Some r \<Rightarrow>
                    if now_of c < utc_instant r \<and> utc_instant r < deadline_of c
                    then delay_with g (safety_reason CONTACT_LIMIT_REACHED msg_limit_delay (Some fld_attempts))
                           (utc_instant r)
                    else block_with g (safety_reason CONTACT_LIMIT_REACHED msg_limit_block (Some fld_attempts))
                | None \<Rightarrow>
                    block_with g (safety_reason CONTACT_LIMIT_REACHED msg_limit_block (Some fld_attempts)))
          else Inr None)"

definition quiet_hours_rule ::
    "(string \<Rightarrow> timezone option) \<Rightarrow> SafetyPolicyContext \<Rightarrow> SafetyPolicyConfig
       \<Rightarrow> policy_error + SafetyDecision option" where
  "quiet_hours_rule zones c g =
     (case (cfg_quiet_hours_start g, cfg_quiet_hours_end g) of
        (Some s, Some e) \<Rightarrow>
          if ctx_action c \<in> OUTREACH_ACTIONS then
            (case zones (cfg_merchant_timezone g) of
               None \<Rightarrow> Inl Unknown_Timezone
             | Some tz \<Rightarrow>
                 bindE (quiet_hours_delay_until (ctx_now c) tz s e) (\<lambda>q.
                   case q of
                     None \<Rightarrow> Inr None
                   | Some quiet_end \<Rightarrow>
                       if quiet_end < deadline_of c
                       then delay_with g (safety_reason QUIET_HOURS_ACTIVE msg_quiet_delay (Some fld_timezone))
                              quiet_end
                       else block_with g
                              (safety_reason QUIET_HOURS_ACTIVE msg_quiet_block (Some fld_timezone))))
          else Inr None
      | _ \<Rightarrow> Inr None)"

definition approval_reasons :: "SafetyPolicyContext \<Rightarrow> SafetyPolicyConfig \<Rightarrow> SafetyReason list" where
  "approval_reasons c g =
     (if ctx_action c \<notin> TERMINAL_CONTROL_ACTIONS
         \<and> ctx_action c \<in> set (cfg_manual_approval_actions g)
      then [safety_reason ACTION_REQUIRES_APPROVAL msg_action_approval (Some fld_action)] else [])
     @ (case cfg_manual_approval_above_paise g of
          None \<Rightarrow> []
        | Some t \<Rightarrow>
            if ctx_action c \<in> CUSTOMER_CONTACT_ACTIONS \<and> ctx_amount_at_risk_paise c \<ge> t
            then [safety_reason AMOUNT_REQUIRES_APPROVAL msg_amount_approval (Some fld_amount)] else [])"

definition approval_or_allow ::
    "SafetyPolicyContext \<Rightarrow> SafetyPolicyConfig \<Rightarrow> policy_error + SafetyDecision" where
  "approval_or_allow c g =
     (case approval_reasons c g of
        r # rs \<Rightarrow> safety_decision g REQUIRE_MANUAL_APPROVAL r rs None
      | [] \<Rightarrow> safety_decision g ALLOW
               (safety_reason WITHIN_RECOVERY_WINDOW msg_within_window (Some fld_deadline))
               [safety_reason NO_SUPPRESSION msg_no_suppression None] None)"

fun first_return ::
    "(policy_error + SafetyDecision option) list \<Rightarrow> policy_error + SafetyDecision
       \<Rightarrow> policy_error + SafetyDecision" where
  "first_return [] fallback = fallback"
| "first_return (r # rs) fallback =
     bindE r (\<lambda>x. case x of Some d \<Rightarrow> Inr d | None \<Rightarrow> first_return rs fallback)"

definition evaluate_safety_policy ::
    "(string \<Rightarrow> timezone option) \<Rightarrow> SafetyPolicyContext \<Rightarrow> SafetyPolicyConfig
       \<Rightarrow> policy_error + SafetyDecision" where
  "evaluate_safety_policy zones c g =
     first_return
       [kill_switch_rule c g, terminal_state_rule c g, suppression_rule c g, deadline_rule c g,
        gateway_retry_rule c g, contact_limit_rule c g, quiet_hours_rule zones c g]
       (approval_or_allow c g)"

section \<open>Lemmas\<close>

lemma safety_decision_ok [simp]:
  "(disp = DELAY) = (t \<noteq> None) \<Longrightarrow> safety_decision g disp r rs t =
     Inr \<lparr>sd_disposition = disp, sd_decision_code = sr_code r, sd_reasons = r # rs,
          sd_policy_version = cfg_policy_version g, sd_delay_until = t\<rparr>"
  by (auto simp: safety_decision_def check_safety_decision_def)

lemma sr_code_safety_reason [simp]: "sr_code (safety_reason code m f) = code"
  by (simp add: safety_reason_def)

text \<open>
  Rules compose: the value of the chain is the return of one rule, or the value of the rest
  where every rule fell through.
\<close>

lemma first_return_append: "first_return (es @ ls) z = first_return es (first_return ls z)"
proof (induction es)
  case Nil
  then show ?case by simp
next
  case (Cons r es)
  then show ?case by (cases r) (auto split: option.splits)
qed

lemma first_return_Inr:
  "first_return rs z = Inr d \<Longrightarrow>
     (\<exists>r \<in> set rs. r = Inr (Some d)) \<or> ((\<forall>r \<in> set rs. r = Inr None) \<and> z = Inr d)"
proof (induction rs)
  case Nil
  then show ?case by simp
next
  case (Cons r rs)
  then obtain x where x: "r = Inr x" by (cases r) auto
  with Cons show ?case by (cases x) auto
qed

lemma first_return_ok:
  assumes "\<forall>r \<in> set rs. isOk r" and "isOk z"
  shows "isOk (first_return rs z)"
  using assms
proof (induction rs)
  case Nil
  then show ?case by simp
next
  case (Cons r rs)
  then obtain x where x: "r = Inr x" by (auto simp: isOk_iff)
  with Cons show ?case by (cases x) auto
qed

lemmas rule_defs = kill_switch_rule_def terminal_state_rule_def suppression_rule_def
  deadline_rule_def gateway_retry_rule_def contact_limit_rule_def quiet_hours_rule_def

lemma rules_terminal_control:
  assumes "ctx_action c \<in> TERMINAL_CONTROL_ACTIONS"
  shows "kill_switch_rule c g = Inr None" "terminal_state_rule c g = Inr None"
    "suppression_rule c g = Inr None" "deadline_rule c g = Inr None"
    "gateway_retry_rule c g = Inr None" "contact_limit_rule c g = Inr None"
    "quiet_hours_rule zones c g = Inr None" "approval_reasons c g = []"
  using assms
  by (auto simp: rule_defs approval_reasons_def action_sets split: option.splits)

lemma kill_switch_rule_None:
  "kill_switch_rule c g = Inr None \<longleftrightarrow>
     ctx_action c \<in> TERMINAL_CONTROL_ACTIONS
     \<or> (\<not> cfg_global_kill_switch g \<and> \<not> cfg_merchant_kill_switch g)"
  by (auto simp: kill_switch_rule_def)

lemma terminal_state_rule_None:
  "terminal_state_rule c g = Inr None \<longleftrightarrow>
     ctx_action c \<in> TERMINAL_CONTROL_ACTIONS
     \<or> (ctx_case_outcome c = Case_OPEN \<and> ctx_payment_state c \<noteq> Pay_CAPTURED)"
  by (auto simp: terminal_state_rule_def)

lemma suppression_rule_None:
  "suppression_rule c g = Inr None \<longleftrightarrow>
     ctx_action c \<notin> CUSTOMER_CONTACT_ACTIONS
     \<or> ctx_contact_disposition c \<notin> {OPTED_OUT, WRONG_PERSON, DISPUTE, ALREADY_PAID}"
  by (cases "ctx_contact_disposition c") (auto simp: suppression_rule_def suppression_reasons_def)

lemma deadline_rule_None:
  "deadline_rule c g = Inr None \<longleftrightarrow>
     ctx_action c \<in> TERMINAL_CONTROL_ACTIONS \<or> now_of c < deadline_of c"
  by (auto simp: deadline_rule_def)

lemma early_rules_block:
  "kill_switch_rule c g = Inr (Some d) \<Longrightarrow> sd_disposition d = BLOCK \<and> sd_delay_until d = None"
  "terminal_state_rule c g = Inr (Some d) \<Longrightarrow> sd_disposition d = BLOCK \<and> sd_delay_until d = None"
  "suppression_rule c g = Inr (Some d) \<Longrightarrow> sd_disposition d = BLOCK \<and> sd_delay_until d = None"
  "deadline_rule c g = Inr (Some d) \<Longrightarrow> sd_disposition d = BLOCK \<and> sd_delay_until d = None"
  by (auto simp: rule_defs split: if_splits option.splits)

lemmas early_rule_None = kill_switch_rule_None terminal_state_rule_None suppression_rule_None
  deadline_rule_None

text \<open>The decision after the four highest-severity rules.\<close>

definition late_policy ::
    "(string \<Rightarrow> timezone option) \<Rightarrow> SafetyPolicyContext \<Rightarrow> SafetyPolicyConfig
       \<Rightarrow> policy_error + SafetyDecision" where
  "late_policy zones c g =
     first_return [gateway_retry_rule c g, contact_limit_rule c g, quiet_hours_rule zones c g]
       (approval_or_allow c g)"

lemma evaluate_cases:
  assumes "evaluate_safety_policy zones c g = Inr d"
  obtains (early) "sd_disposition d = BLOCK" "sd_delay_until d = None"
  | (late) "kill_switch_rule c g = Inr None" "terminal_state_rule c g = Inr None"
      "suppression_rule c g = Inr None" "deadline_rule c g = Inr None"
      "late_policy zones c g = Inr d"
proof -
  let ?e = "[kill_switch_rule c g, terminal_state_rule c g, suppression_rule c g, deadline_rule c g]"
  have "evaluate_safety_policy zones c g = first_return ?e (late_policy zones c g)"
    unfolding evaluate_safety_policy_def late_policy_def first_return_append [symmetric]
    by (simp del: first_return.simps)
  with assms have "first_return ?e (late_policy zones c g) = Inr d" by simp
  from first_return_Inr [OF this] show ?thesis
    using early late early_rules_block by auto
qed

lemma late_policy_cases:
  assumes "late_policy zones c g = Inr d"
  obtains (gateway) "gateway_retry_rule c g = Inr (Some d)"
  | (limit) "contact_limit_rule c g = Inr (Some d)"
  | (quiet) "quiet_hours_rule zones c g = Inr (Some d)"
  | (final) "gateway_retry_rule c g = Inr None" "contact_limit_rule c g = Inr None"
      "quiet_hours_rule zones c g = Inr None" "approval_or_allow c g = Inr d"
  using first_return_Inr [OF assms [unfolded late_policy_def]] by auto

lemma approval_or_allow_Inr:
  "approval_or_allow c g = Inr d \<Longrightarrow>
     sd_delay_until d = None \<and>
     sd_disposition d = (if approval_reasons c g = [] then ALLOW else REQUIRE_MANUAL_APPROVAL)"
  by (auto simp: approval_or_allow_def split: list.splits)

lemma late_rule_block_or_delay:
  "gateway_retry_rule c g = Inr (Some d) \<Longrightarrow> sd_disposition d \<in> {BLOCK, DELAY}"
  "contact_limit_rule c g = Inr (Some d) \<Longrightarrow> sd_disposition d \<in> {BLOCK, DELAY}"
  "quiet_hours_rule zones c g = Inr (Some d) \<Longrightarrow> sd_disposition d \<in> {BLOCK, DELAY}"
  by (auto simp: rule_defs Let_def bindE_eq_Inr split: if_splits option.splits)

subsection \<open>Delays stay inside the recovery window\<close>

lemma gateway_retry_delay:
  assumes "gateway_retry_rule c g = Inr (Some d)" and "sd_disposition d = DELAY"
  shows "\<exists>t. sd_delay_until d = Some t \<and> now_of c < t \<and> t \<le> deadline_of c"
  using assms by (auto simp: gateway_retry_rule_def Let_def split: if_splits)

lemma contact_limit_delay:
  assumes "contact_limit_rule c g = Inr (Some d)" and "sd_disposition d = DELAY"
  shows "\<exists>t. sd_delay_until d = Some t \<and> now_of c < t \<and> t \<le> deadline_of c"
  using assms by (auto simp: contact_limit_rule_def split: if_splits option.splits)

lemma quiet_hours_delay:
  assumes "quiet_hours_rule zones c g = Inr (Some d)" and "sd_disposition d = DELAY"
  shows "\<exists>t tz s e. sd_delay_until d = Some t \<and> t < deadline_of c
    \<and> zones (cfg_merchant_timezone g) = Some tz
    \<and> cfg_quiet_hours_start g = Some s \<and> cfg_quiet_hours_end g = Some e
    \<and> quiet_hours_delay_until (ctx_now c) tz s e = Inr (Some t)"
  using assms by (auto simp: quiet_hours_rule_def bindE_eq_Inr split: if_splits option.splits)

subsection \<open>Resolving a wall time\<close>

lemma fold_max_in: "fold max us (u :: 'a :: linorder) \<in> insert u (set us)"
proof (induction us arbitrary: u)
  case Nil
  then show ?case by simp
next
  case (Cons v us)
  show ?case using Cons.IH [of "max v u"] by (auto simp: max_def split: if_splits)
qed

lemma set_valid_local_candidates:
  "u \<in> set (valid_local_candidates tz w) \<Longrightarrow> u + tz_offset_at tz u = w"
  unfolding valid_local_candidates_def set_sort set_remdups set_filter by blast

text \<open>
  Whatever the zone, the resolved instant reads, on the zone's own clock, as the configured
  end of the quiet interval moved forward by at most three hours.
\<close>

lemma resolve_from_sound:
  "resolve_quiet_end_from tz w ks = Inr u \<Longrightarrow>
     \<exists>k \<in> set ks. u + tz_offset_at tz u = w + minutes (int k)"
proof (induction ks)
  case Nil
  then show ?case by simp
next
  case (Cons k ks)
  show ?case
  proof (cases "valid_local_candidates tz (w + minutes (int k))")
    case Nil
    with Cons show ?thesis by simp
  next
    case (Cons v vs)
    with \<open>resolve_quiet_end_from tz w (k # ks) = Inr u\<close>
    have "u \<in> set (valid_local_candidates tz (w + minutes (int k)))"
      using fold_max_in [of vs v] by auto
    then show ?thesis using set_valid_local_candidates by fastforce
  qed
qed

lemma resolve_quiet_end_sound:
  assumes "resolve_quiet_end d e tz = Inr u"
  shows "\<exists>k \<le> 180. u + tz_offset_at tz u = d * days 1 + e + minutes (int k)"
proof -
  obtain k where k: "k \<in> set [0..<181]" "u + tz_offset_at tz u = d * days 1 + e + minutes (int k)"
    using resolve_from_sound [OF assms [unfolded resolve_quiet_end_def]] by blast
  then have "k \<le> 180" by simp
  with k(2) show ?thesis by blast
qed

lemma valid_local_candidates_fixed:
  "valid_local_candidates (fixed_zone off) w = [w - off]"
  by (simp add: valid_local_candidates_def fixed_zone_def)

lemma resolve_quiet_end_fixed:
  "resolve_quiet_end d e (fixed_zone off) = Inr (d * days 1 + e - off)"
proof -
  have "[0..<181] = 0 # [Suc 0..<181]" by (rule upt_conv_Cons) simp
  then show ?thesis
    by (simp add: resolve_quiet_end_def valid_local_candidates_fixed minutes_def seconds_def)
qed

definition in_quiet_interval :: "int \<Rightarrow> int \<Rightarrow> int \<Rightarrow> bool" where
  "in_quiet_interval s e lt = (if s < e then s \<le> lt \<and> lt < e else s \<le> lt \<or> lt < e)"

definition local_time :: "int \<Rightarrow> instant \<Rightarrow> int" where
  "local_time off u = (u + off) mod days 1"

lemma days_pos [simp]: "0 < days 1"
  by (simp add: duration_defs)

lemma tz_offset_at_fixed [simp]: "tz_offset_at (fixed_zone off) u = off"
  by (simp add: fixed_zone_def)

lemma quiet_hours_fixed_eq:
  "quiet_hours_delay_until (Aware now o') (fixed_zone off) s e =
     Inr (let w = now + off; d = w div days 1 in
       if in_quiet_interval s e (local_time off now)
       then Some ((if s < e \<or> local_time off now < s then d else d + 1) * days 1 + e - off)
       else None)"
  by (simp add: quiet_hours_delay_until_def require_aware_def bindE_guardE Let_def
      resolve_quiet_end_fixed in_quiet_interval_def local_time_def)

lemma local_time_of_end:
  "0 \<le> e \<Longrightarrow> e < days 1 \<Longrightarrow> local_time off (d * days 1 + e - off) = e"
  by (simp add: local_time_def)

text \<open>In a fixed-offset zone the delay is the next instant at which the quiet interval ends.\<close>

lemma quiet_hours_fixed:
  assumes "0 \<le> s" "s < days 1" "0 \<le> e" "e < days 1"
    and "quiet_hours_delay_until (Aware now o') (fixed_zone off) s e = Inr (Some t)"
  shows "now < t \<and> t \<le> now + days 1 \<and> local_time off t = e"
proof -
  define d where "d = (now + off) div days 1"
  define lt where "lt = local_time off now"
  have w: "now + off = d * days 1 + lt" by (simp add: d_def lt_def local_time_def)
  have lt: "0 \<le> lt" "lt < days 1" by (simp_all add: lt_def local_time_def)
  from assms(5) have q: "in_quiet_interval s e lt"
    and t: "t = (if s < e \<or> lt < s then d else d + 1) * days 1 + e - off"
    by (auto simp: quiet_hours_fixed_eq Let_def d_def lt_def split: if_splits)
  have "now < t \<and> t \<le> now + days 1"
  proof (cases "s < e \<or> lt < s")
    case True
    with q have "lt < e" by (auto simp: in_quiet_interval_def split: if_splits)
    with True t w lt assms(4) show ?thesis by simp
  next
    case False
    with t w lt assms show ?thesis by (simp add: distrib_right)
  qed
  moreover have "local_time off t = e" unfolding t using assms(3,4) by (rule local_time_of_end)
  ultimately show ?thesis by simp
qed

subsection \<open>Decisions are well formed and evaluation does not raise\<close>

definition decision_wf :: "SafetyDecision \<Rightarrow> bool" where
  "decision_wf d \<longleftrightarrow> sd_reasons d \<noteq> [] \<and> sr_code (hd (sd_reasons d)) = sd_decision_code d
     \<and> (sd_disposition d = DELAY) = (sd_delay_until d \<noteq> None)"

lemma safety_decision_wf: "safety_decision g disp r rs t = Inr d \<Longrightarrow> decision_wf d"
  by (auto simp: safety_decision_def check_safety_decision_def decision_wf_def split: if_splits)

lemma rules_wf:
  "kill_switch_rule c g = Inr (Some d) \<Longrightarrow> decision_wf d"
  "terminal_state_rule c g = Inr (Some d) \<Longrightarrow> decision_wf d"
  "suppression_rule c g = Inr (Some d) \<Longrightarrow> decision_wf d"
  "deadline_rule c g = Inr (Some d) \<Longrightarrow> decision_wf d"
  "gateway_retry_rule c g = Inr (Some d) \<Longrightarrow> decision_wf d"
  "contact_limit_rule c g = Inr (Some d) \<Longrightarrow> decision_wf d"
  "quiet_hours_rule zones c g = Inr (Some d) \<Longrightarrow> decision_wf d"
  "approval_or_allow c g = Inr d \<Longrightarrow> decision_wf d"
  by (auto simp: rule_defs approval_or_allow_def decision_wf_def Let_def bindE_eq_Inr
      split: if_splits option.splits list.splits)

lemma evaluate_wf: "evaluate_safety_policy zones c g = Inr d \<Longrightarrow> decision_wf d"
  unfolding evaluate_safety_policy_def
  by (drule first_return_Inr) (auto dest: rules_wf rules_wf [OF sym])

text \<open>A zone in which every quiet-interval end resolves within the three-hour search.\<close>

definition zone_resolves :: "timezone \<Rightarrow> bool" where
  "zone_resolves tz \<longleftrightarrow> (\<forall>d e. isOk (resolve_quiet_end d e tz))"

lemma zone_resolves_fixed [simp]: "zone_resolves (fixed_zone off)"
  by (simp add: zone_resolves_def resolve_quiet_end_fixed)

definition zone_configured :: "(string \<Rightarrow> timezone option) \<Rightarrow> SafetyPolicyConfig \<Rightarrow> bool" where
  "zone_configured zones g \<longleftrightarrow>
     (case zones (cfg_merchant_timezone g) of None \<Rightarrow> False | Some tz \<Rightarrow> zone_resolves tz)"

lemma quiet_hours_ok:
  assumes "is_aware now" and "zone_resolves tz"
  shows "isOk (quiet_hours_delay_until now tz s e)"
proof -
  have "isOk (bindE (resolve_quiet_end d e tz) (\<lambda>u. Inr (Some u)))" for d
    using assms(2) by (auto simp: zone_resolves_def)
  then show ?thesis using assms(1)
    by (simp add: quiet_hours_delay_until_def require_aware_def bindE_guardE Let_def)
qed

lemma rules_ok:
  "isOk (kill_switch_rule c g)" "isOk (terminal_state_rule c g)" "isOk (suppression_rule c g)"
  "isOk (deadline_rule c g)" "isOk (gateway_retry_rule c g)" "isOk (contact_limit_rule c g)"
  "isOk (approval_or_allow c g)"
  by (auto simp: rule_defs approval_or_allow_def Let_def split: option.splits list.splits)

lemma quiet_hours_rule_ok:
  assumes "is_aware (ctx_now c)" and "zone_configured zones g"
  shows "isOk (quiet_hours_rule zones c g)"
  using assms
  by (auto simp: quiet_hours_rule_def zone_configured_def intro!: isOk_bindE quiet_hours_ok split: option.splits)

lemma evaluate_ok:
  assumes "is_aware (ctx_now c)" and "zone_configured zones g"
  shows "isOk (evaluate_safety_policy zones c g)"
  unfolding evaluate_safety_policy_def
  by (rule first_return_ok) (use quiet_hours_rule_ok [OF assms] in \<open>auto simp: rules_ok\<close>)

section \<open>Properties\<close>

text \<open>A merchant in the default zone: an open case for 1500 rupees at 12:00 UTC (17:30 local time).\<close>

definition kolkata_zones :: "string \<Rightarrow> timezone option" where
  "kolkata_zones name = (if name = ''Asia/Kolkata'' then Some (fixed_zone (minutes 330)) else None)"

definition sample_context :: "RecoveryActionType \<Rightarrow> SafetyPolicyContext" where
  "sample_context a =
     \<lparr>ctx_now = Aware (hours 12) 0, ctx_recovery_deadline = Aware (days 3) 0,
      ctx_case_outcome = Case_OPEN, ctx_payment_state = Pay_FAILED,
      ctx_subscription_state = Sub_PENDING, ctx_contact_disposition = NOT_CONTACTED,
      ctx_action = a,
      ctx_payment_surface_type =
        (if a = OPEN_CUSTOMER_PAYMENT_SURFACE then Some SUBSCRIPTION_INVOICE_LINK else None),
      ctx_amount_at_risk_paise = 150000, ctx_active_gateway_retries = True,
      ctx_contact_attempts_in_window = 0, ctx_contact_limit_resets_at = None\<rparr>"

lemmas sample_simps = sample_context_def default_config_def kolkata_zones_def action_sets
  duration_defs

text \<open>
  \<open>STOP\<close> and \<open>ESCALATE_TO_HUMAN\<close> are always allowed, without delay or approval, whatever the
  kill switches, the state of the case, the deadline, the contact limit and the quiet hours.
\<close>

theorem terminal_controls_always_allowed:
  assumes "ctx_action c \<in> TERMINAL_CONTROL_ACTIONS"
  shows "\<exists>d. evaluate_safety_policy zones c g = Inr d \<and> sd_disposition d = ALLOW
    \<and> sd_delay_until d = None"
  by (simp add: evaluate_safety_policy_def rules_terminal_control [OF assms] approval_or_allow_def)

theorem terminal_controls_always_allowed_witness:
  "\<exists>d. evaluate_safety_policy (\<lambda>_. None)
        ((sample_context STOP)\<lparr>ctx_case_outcome := Case_RECOVERED,
          ctx_contact_disposition := OPTED_OUT\<rparr>)
        (default_config\<lparr>cfg_global_kill_switch := True\<rparr>) = Inr d
     \<and> sd_disposition d = ALLOW \<and> sd_delay_until d = None"
  by (rule terminal_controls_always_allowed) (simp add: sample_simps)

text \<open>
  Strict precedence. If any other action is not blocked then no kill switch is on, the case
  is open, funds are not captured and the deadline lies ahead; and if the action contacts the
  customer, the customer has not opted out, disputed, reported payment or been misidentified.
\<close>

theorem policy_precedence:
  assumes "evaluate_safety_policy zones c g = Inr d" and "sd_disposition d \<noteq> BLOCK"
    and "ctx_action c \<notin> TERMINAL_CONTROL_ACTIONS"
  shows "\<not> cfg_global_kill_switch g \<and> \<not> cfg_merchant_kill_switch g
    \<and> ctx_case_outcome c = Case_OPEN \<and> ctx_payment_state c \<noteq> Pay_CAPTURED
    \<and> utc_instant (ctx_now c) < utc_instant (ctx_recovery_deadline c)
    \<and> (ctx_action c \<in> CUSTOMER_CONTACT_ACTIONS \<longrightarrow>
         ctx_contact_disposition c \<notin> {OPTED_OUT, WRONG_PERSON, DISPUTE, ALREADY_PAID})"
  using assms(1)
proof (cases rule: evaluate_cases)
  case early
  with assms(2) show ?thesis by simp
next
  case late
  with assms(3) show ?thesis by (simp add: early_rule_None)
qed

lemma sample_voice_allowed:
  "\<exists>d. evaluate_safety_policy kolkata_zones (sample_context START_VOICE) default_config = Inr d
     \<and> sd_disposition d = ALLOW"
  by (simp add: evaluate_safety_policy_def rule_defs approval_or_allow_def approval_reasons_def
      suppression_reasons_def quiet_hours_delay_until_def require_aware_def bindE_guardE Let_def
      sample_simps)

theorem policy_precedence_witness:
  "\<exists>d. evaluate_safety_policy kolkata_zones (sample_context START_VOICE) default_config = Inr d
     \<and> sd_disposition d = ALLOW \<and> ctx_payment_state (sample_context START_VOICE) \<noteq> Pay_CAPTURED"
proof -
  obtain d where d: "evaluate_safety_policy kolkata_zones (sample_context START_VOICE) default_config
      = Inr d" "sd_disposition d = ALLOW" using sample_voice_allowed by blast
  then show ?thesis using policy_precedence [OF d(1)] by (simp add: sample_simps)
qed

text \<open>
  C39: a delay lies in the recovery window. Every delayed action has a time no later than the recovery deadline. If the
  merchant's zone has a fixed offset (the default zone has) and the quiet hours are times of a day, that time is
  strictly after now, whichever rule delays the action.
\<close>

theorem delay_inside_recovery_window:
  assumes "evaluate_safety_policy zones c g = Inr d" and "sd_disposition d = DELAY"
  shows "\<exists>t. sd_delay_until d = Some t \<and> t \<le> utc_instant (ctx_recovery_deadline c)
    \<and> ((\<exists>off. zones (cfg_merchant_timezone g) = Some (fixed_zone off))
       \<and> (\<forall>s. cfg_quiet_hours_start g = Some s \<longrightarrow> 0 \<le> s \<and> s < days 1)
       \<and> (\<forall>e. cfg_quiet_hours_end g = Some e \<longrightarrow> 0 \<le> e \<and> e < days 1) \<longrightarrow> utc_instant (ctx_now c) < t)"
  using assms(1)
proof (cases rule: evaluate_cases)
  case early
  with assms(2) show ?thesis by simp
next
  case late
  from late(5) show ?thesis
  proof (cases rule: late_policy_cases)
    case gateway
    then show ?thesis using gateway_retry_delay [OF gateway assms(2)] by blast
  next
    case limit
    then show ?thesis using contact_limit_delay [OF limit assms(2)] by blast
  next
    case quiet
    from quiet_hours_delay [OF quiet assms(2)] obtain t tz s e where t: "sd_delay_until d = Some t" "t < deadline_of c"
      and q: "zones (cfg_merchant_timezone g) = Some tz" "cfg_quiet_hours_start g = Some s" "cfg_quiet_hours_end g = Some e"
        "quiet_hours_delay_until (ctx_now c) tz s e = Inr (Some t)" by auto
    from q(4) obtain n o' where now: "ctx_now c = Aware n o'"
      by (cases "ctx_now c") (auto simp: quiet_hours_delay_until_def require_aware_def guardE_def)
    have "utc_instant (ctx_now c) < t" if "tz = fixed_zone off" "0 \<le> s" "s < days 1" "0 \<le> e" "e < days 1" for off
      using quiet_hours_fixed [of s e n o' off t] q that now by auto
    with t q show ?thesis by auto
  next
    case final
    with approval_or_allow_Inr [OF final(4)] assms(2) show ?thesis by (auto split: if_splits)
  qed
qed

lemma sample_wait_delayed:
  "\<exists>d. evaluate_safety_policy kolkata_zones (sample_context WAIT_FOR_GATEWAY_RETRY) default_config
      = Inr d \<and> sd_disposition d = DELAY"
  by (simp add: evaluate_safety_policy_def rule_defs suppression_reasons_def Let_def sample_simps)

definition evening :: SafetyPolicyContext where
  "evening = (sample_context START_VOICE)\<lparr>ctx_now := Aware (hours 16) 0\<rparr>"

lemma evening_delayed:
  "\<exists>d. evaluate_safety_policy kolkata_zones evening default_config = Inr d \<and> sd_disposition d = DELAY"
  by (simp add: evaluate_safety_policy_def rule_defs suppression_reasons_def approval_or_allow_def approval_reasons_def quiet_hours_delay_until_def require_aware_def bindE_guardE resolve_quiet_end_fixed Let_def evening_def sample_simps)

theorem delay_inside_recovery_window_witness:
  "(\<exists>d t. evaluate_safety_policy kolkata_zones (sample_context WAIT_FOR_GATEWAY_RETRY) default_config
      = Inr d \<and> sd_delay_until d = Some t \<and> hours 12 < t \<and> t \<le> days 3)
   \<and> (\<exists>d t. evaluate_safety_policy kolkata_zones evening default_config = Inr d \<and> sd_delay_until d = Some t
      \<and> hours 16 < t \<and> t \<le> days 3)"
proof
  obtain d where d: "evaluate_safety_policy kolkata_zones (sample_context WAIT_FOR_GATEWAY_RETRY)
      default_config = Inr d" "sd_disposition d = DELAY" using sample_wait_delayed by blast
  from delay_inside_recovery_window [OF d] d(1)
  show "\<exists>d t. evaluate_safety_policy kolkata_zones (sample_context WAIT_FOR_GATEWAY_RETRY) default_config
      = Inr d \<and> sd_delay_until d = Some t \<and> hours 12 < t \<and> t \<le> days 3"
    by (auto simp: sample_simps)
next
  obtain d where d: "evaluate_safety_policy kolkata_zones evening default_config = Inr d" "sd_disposition d = DELAY"
    using evening_delayed by blast
  from delay_inside_recovery_window [OF d] d(1)
  show "\<exists>d t. evaluate_safety_policy kolkata_zones evening default_config = Inr d \<and> sd_delay_until d = Some t
      \<and> hours 16 < t \<and> t \<le> days 3"
    by (auto simp: evening_def sample_simps)
qed

text \<open>
  Human approval cannot be skipped. If an action is allowed outright, the merchant does not
  list it for manual approval (unless it is a terminal control), and if it contacts the
  customer the amount at risk is below the merchant's approval threshold.
\<close>

theorem allowed_needs_no_approval:
  assumes "evaluate_safety_policy zones c g = Inr d" and "sd_disposition d = ALLOW"
  shows "(ctx_action c \<notin> TERMINAL_CONTROL_ACTIONS \<longrightarrow>
      ctx_action c \<notin> set (cfg_manual_approval_actions g))
    \<and> (ctx_action c \<in> CUSTOMER_CONTACT_ACTIONS \<longrightarrow>
      (\<forall>t. cfg_manual_approval_above_paise g = Some t \<longrightarrow> ctx_amount_at_risk_paise c < t))"
  using assms(1)
proof (cases rule: evaluate_cases)
  case early
  with assms(2) show ?thesis by simp
next
  case late
  from late(5) show ?thesis
  proof (cases rule: late_policy_cases)
    case final
    with approval_or_allow_Inr [OF final(4)] assms(2) have "approval_reasons c g = []"
      by (auto split: if_splits)
    then show ?thesis by (auto simp: approval_reasons_def split: if_splits option.splits)
  qed (use late_rule_block_or_delay assms(2) in force)+
qed

theorem allowed_needs_no_approval_witness:
  "\<exists>d. evaluate_safety_policy kolkata_zones (sample_context START_VOICE) default_config = Inr d
     \<and> sd_disposition d = ALLOW \<and> ctx_amount_at_risk_paise (sample_context START_VOICE) < 500000"
proof -
  obtain d where d: "evaluate_safety_policy kolkata_zones (sample_context START_VOICE) default_config
      = Inr d" "sd_disposition d = ALLOW" using sample_voice_allowed by blast
  then show ?thesis using allowed_needs_no_approval [OF d] by (auto simp: sample_simps)
qed

text \<open>
  Quiet hours end on the merchant's own clock. Whatever the time zone does, an action that
  is delayed because of quiet hours is delayed to an instant that reads, in the merchant's zone, as
  the configured end of quiet hours moved forward by at most three hours (through a gap).
\<close>

theorem quiet_hours_delay_reads_as_quiet_end:
  assumes "quiet_hours_delay_until now tz s e = Inr (Some t)"
  shows "\<exists>date. \<exists>k \<le> 180. t + tz_offset_at tz t = date * days 1 + e + minutes (int k)"
proof -
  from assms obtain date where "resolve_quiet_end date e tz = Inr t"
    by (auto simp: quiet_hours_delay_until_def Let_def result_simps split: if_splits)
  from resolve_quiet_end_sound [OF this] show ?thesis by blast
qed

theorem quiet_hours_delay_reads_as_quiet_end_witness:
  "quiet_hours_delay_until (Aware (hours 16) 0) (fixed_zone (minutes 330)) (hours 20) (hours 9)
     = Inr (Some (minutes 1650))
   \<and> (\<exists>date. \<exists>k \<le> 180. minutes 1650 + minutes 330 = date * days 1 + hours 9 + minutes (int k))"
proof -
  have q: "quiet_hours_delay_until (Aware (hours 16) 0) (fixed_zone (minutes 330)) (hours 20) (hours 9)
     = Inr (Some (minutes 1650))"
    by (simp add: quiet_hours_fixed_eq in_quiet_interval_def local_time_def duration_defs)
  then show ?thesis using quiet_hours_delay_reads_as_quiet_end [OF q] by simp
qed

end
