(* ===== verification/Diagnosis_Policy.thy ===== *)
theory Diagnosis_Policy
  imports Safety_Policy
begin

text \<open>
  \<open>services/api/app/services/diagnosis.py\<close> (evidence-conservative diagnosis of a failed payment)
  and \<open>services/api/app/services/policy.py\<close> (the first-generation action policy, exported by the
  services package).

  The lemmas show when a diagnosis can be anything but \<open>UNKNOWN\<close>, the precedence of its token
  classes, and how the first-generation policy relates to the safety policy.
\<close>

section \<open>Diagnosis\<close>

record DiagnosisEvidence =
  ev_payment_state :: PaymentState
  ev_event_type :: string
  ev_invoice_correlated :: bool
  ev_subscription_correlated :: bool
  ev_error_code :: "string option"
  ev_error_source :: "string option"
  ev_error_step :: "string option"
  ev_error_reason :: "string option"

definition INSUFFICIENT_FUNDS_TOKENS :: "string list" where
  "INSUFFICIENT_FUNDS_TOKENS =
     [''BAD_REQUEST_PAYMENT_CARD_INSUFFICIENT_BALANCE'', ''INSUFFICIENT_FUNDS'',
      ''INSUFFICIENT_BALANCE'']"

definition AUTHENTICATION_REQUIRED_TOKENS :: "string list" where
  "AUTHENTICATION_REQUIRED_TOKENS =
     [''BAD_REQUEST_PAYMENT_AUTHENTICATION_FAILED'', ''AUTHENTICATION_FAILED'', ''INCORRECT_OTP'',
      ''OTP_ATTEMPTS_EXCEEDED'', ''3DS_AUTHENTICATION_FAILED'']"

definition INSTRUMENT_INVALID_TOKENS :: "string list" where
  "INSTRUMENT_INVALID_TOKENS =
     [''BAD_REQUEST_PAYMENT_CARD_EXPIRED'', ''BAD_REQUEST_PAYMENT_INVALID_CARD'', ''CARD_EXPIRED'',
      ''INVALID_CARD'', ''CARD_DECLINED'']"

definition TRANSIENT_TOKENS :: "string list" where
  "TRANSIENT_TOKENS =
     [''GATEWAY_ERROR'', ''BAD_REQUEST_PAYMENT_PENDING'', ''BANK_SYSTEM_ERROR'', ''NETWORK_ERROR'',
      ''REQUEST_TIMED_OUT'', ''ISSUER_UNAVAILABLE'']"

definition MERCHANT_ERROR_TOKENS :: "string list" where
  "MERCHANT_ERROR_TOKENS = [''MERCHANT_CONFIGURATION_ERROR'', ''INVALID_MERCHANT_CONFIGURATION'']"

definition RISK_BLOCK_TOKENS :: "string list" where
  "RISK_BLOCK_TOKENS =
     [''RISK_CHECK_FAILED'', ''PAYMENT_RISK_REJECTED'', ''COMPLIANCE_BLOCK'', ''FRAUD_SUSPECTED'']"

fun evidence_token :: "string option \<Rightarrow> string list" where
  "evidence_token None = []"
| "evidence_token (Some t) = (if t \<noteq> [] \<and> py_strip t \<noteq> [] then [py_upper (py_strip t)] else [])"

definition evidence_tokens :: "DiagnosisEvidence \<Rightarrow> string list" where
  "evidence_tokens e =
     concat (map evidence_token [ev_error_code e, ev_error_source e, ev_error_step e, ev_error_reason e])"

definition meets :: "string list \<Rightarrow> string list \<Rightarrow> bool" where
  "meets tokens klass \<longleftrightarrow> (\<exists>t \<in> set tokens. t \<in> set klass)"

definition classify_tokens :: "string list \<Rightarrow> Diagnosis" where
  "classify_tokens tokens =
     (if meets tokens RISK_BLOCK_TOKENS then RISK_OR_COMPLIANCE_BLOCK
      else if meets tokens MERCHANT_ERROR_TOKENS \<or> ''MERCHANT'' \<in> set tokens then MERCHANT_ERROR
      else if meets tokens INSUFFICIENT_FUNDS_TOKENS then INSUFFICIENT_FUNDS
      else if meets tokens AUTHENTICATION_REQUIRED_TOKENS
              \<or> ''PAYMENT_AUTHENTICATION'' \<in> set tokens then AUTHENTICATION_REQUIRED
      else if meets tokens INSTRUMENT_INVALID_TOKENS then INSTRUMENT_INVALID
      else if meets tokens TRANSIENT_TOKENS \<or> ''GATEWAY'' \<in> set tokens \<or> ''BANK'' \<in> set tokens
      then TRANSIENT_RETRYABLE
      else Diag_UNKNOWN)"

definition diagnose_failure :: "DiagnosisEvidence \<Rightarrow> Diagnosis" where
  "diagnose_failure e =
     (if ev_event_type e \<noteq> ''payment.failed'' \<or> ev_payment_state e \<noteq> Pay_FAILED
         \<or> \<not> ev_invoice_correlated e \<or> \<not> ev_subscription_correlated e
      then Diag_UNKNOWN
      else classify_tokens (evidence_tokens e))"

section \<open>The first-generation action policy\<close>

record PolicyContext =
  pc_now :: instant
  pc_recovery_deadline :: instant
  pc_case_outcome :: CaseOutcome
  pc_payment_state :: PaymentState
  pc_subscription_state :: SubscriptionState
  pc_contact_disposition :: ContactDisposition
  pc_action :: RecoveryActionType
  pc_payment_surface_type :: "PaymentSurfaceType option"
  pc_amount_at_risk_paise :: paise
  pc_require_approval_above_paise :: paise
  pc_recovery_kill_switch :: bool
  pc_policy_version :: string

definition policy1_decision ::
    "PolicyContext \<Rightarrow> PolicyDisposition \<Rightarrow> string \<Rightarrow> string \<Rightarrow> instant option \<Rightarrow> PolicyDecision" where
  "policy1_decision c disposition code reason_text delay_until =
     \<lparr>pd_disposition = disposition, pd_decision_code = code, pd_reason_codes = [code],
      pd_reasons = [reason_text], pd_policy_version = pc_policy_version c,
      pd_delay_until = delay_until\<rparr>"

definition msg1_kill :: string where
  "msg1_kill = ''Recovery actions are disabled by the operator kill switch.''"
definition msg1_opted_out :: string where "msg1_opted_out = ''Customer opted out of outreach.''"
definition msg1_wrong_person :: string where "msg1_wrong_person = ''The contact is not the customer.''"
definition msg1_dispute :: string where "msg1_dispute = ''The customer disputes the charge.''"
definition msg1_already_paid :: string where
  "msg1_already_paid = ''Customer-reported payment requires reconciliation before action.''"
definition msg1_retry_active :: string where
  "msg1_retry_active =
     ''Standalone collection is blocked while subscription gateway retries are active.''"
definition msg1_provider_retry :: string where
  "msg1_provider_retry = ''Razorpay owns the retry for a pending subscription.''"

definition suppression_codes :: "ContactDisposition \<Rightarrow> (string \<times> string) option" where
  "suppression_codes d =
     (case d of
        OPTED_OUT \<Rightarrow> Some (''CUSTOMER_OPTED_OUT'', msg1_opted_out)
      | WRONG_PERSON \<Rightarrow> Some (''WRONG_PERSON'', msg1_wrong_person)
      | DISPUTE \<Rightarrow> Some (''CUSTOMER_DISPUTE'', msg1_dispute)
      | ALREADY_PAID \<Rightarrow> Some (''CUSTOMER_REPORTS_ALREADY_PAID'', msg1_already_paid)
      | _ \<Rightarrow> None)"

definition evaluate_policy :: "PolicyContext \<Rightarrow> PolicyDecision" where
  "evaluate_policy c =
     (if pc_recovery_kill_switch c
      then policy1_decision c BLOCK ''RECOVERY_KILL_SWITCH_ENABLED'' msg1_kill None
      else if pc_case_outcome c \<noteq> Case_OPEN
      then policy1_decision c BLOCK ''CASE_TERMINAL'' msg_terminal None
      else if pc_payment_state c = Pay_CAPTURED
      then policy1_decision c BLOCK ''PAYMENT_ALREADY_CAPTURED'' msg_captured None
      else case suppression_codes (pc_contact_disposition c) of
        Some (code, text_of) \<Rightarrow> policy1_decision c BLOCK code text_of None
      | None \<Rightarrow>
        if pc_now c \<ge> pc_recovery_deadline c
        then policy1_decision c BLOCK ''RECOVERY_WINDOW_EXPIRED'' msg_expired None
        else if pc_action c = OPEN_CUSTOMER_PAYMENT_SURFACE
           \<and> pc_payment_surface_type c = Some STANDARD_PAYMENT_LINK
           \<and> pc_subscription_state c = Sub_PENDING
        then policy1_decision c BLOCK ''GATEWAY_RETRY_ACTIVE'' msg1_retry_active None
        else if pc_action c = WAIT_FOR_GATEWAY_RETRY \<and> pc_subscription_state c = Sub_PENDING
        then policy1_decision c DELAY ''WAIT_FOR_PROVIDER_RETRY'' msg1_provider_retry
               (Some (min (pc_now c + minutes 15) (pc_recovery_deadline c)))
        else if pc_amount_at_risk_paise c \<ge> pc_require_approval_above_paise c
        then policy1_decision c REQUIRE_MANUAL_APPROVAL ''AMOUNT_REQUIRES_APPROVAL''
               msg_amount_approval None
        else \<lparr>pd_disposition = ALLOW, pd_decision_code = ''POLICY_ALLOWED'',
              pd_reason_codes = [''WITHIN_RECOVERY_WINDOW'', ''NO_SUPPRESSION''],
              pd_reasons = [''Case is within its recovery window.'',
                            ''Customer has no suppression.''],
              pd_policy_version = pc_policy_version c, pd_delay_until = None\<rparr>)"

section \<open>Lemmas\<close>

lemma meets_iff: "meets tokens klass \<longleftrightarrow> set tokens \<inter> set klass \<noteq> {}"
  by (auto simp: meets_def)

text \<open>Every token is stripped and upper case, so the comparison ignores case and padding.\<close>

lemma evidence_token_upper: "t \<in> set (evidence_token v) \<Longrightarrow> py_upper t = t \<and> t \<noteq> []"
  by (cases v) (auto split: if_splits simp: py_upper_def)

lemma evidence_tokens_upper: "t \<in> set (evidence_tokens e) \<Longrightarrow> py_upper t = t \<and> t \<noteq> []"
  by (auto simp: evidence_tokens_def dest: evidence_token_upper)

lemma classify_tokens_set: "set ts = set us \<Longrightarrow> classify_tokens ts = classify_tokens us"
  by (simp add: classify_tokens_def meets_def)

lemma classify_tokens_Nil [simp]: "classify_tokens [] = Diag_UNKNOWN"
  by (simp add: classify_tokens_def meets_def)

lemma suppression_codes_None:
  "suppression_codes d = None \<longleftrightarrow> d \<notin> {OPTED_OUT, WRONG_PERSON, DISPUTE, ALREADY_PAID}"
  by (cases d) (auto simp: suppression_codes_def)

lemma evaluate_policy_valid: "validate_policy_decision (evaluate_policy c) = Inr (evaluate_policy c)"
  by (auto simp: evaluate_policy_def policy1_decision_def validate_policy_decision_def
      split: option.splits)

lemma evaluate_policy_not_block:
  assumes "pd_disposition (evaluate_policy c) \<noteq> BLOCK"
  shows "\<not> pc_recovery_kill_switch c \<and> pc_case_outcome c = Case_OPEN
    \<and> pc_payment_state c \<noteq> Pay_CAPTURED
    \<and> pc_contact_disposition c \<notin> {OPTED_OUT, WRONG_PERSON, DISPUTE, ALREADY_PAID}
    \<and> pc_now c < pc_recovery_deadline c"
  using assms
  by (auto simp: evaluate_policy_def policy1_decision_def suppression_codes_None
      split: if_splits option.splits)

text \<open>The tokens the classification knows.\<close>

definition known_tokens :: "string list" where
  "known_tokens = RISK_BLOCK_TOKENS @ MERCHANT_ERROR_TOKENS @ INSUFFICIENT_FUNDS_TOKENS
     @ AUTHENTICATION_REQUIRED_TOKENS @ INSTRUMENT_INVALID_TOKENS @ TRANSIENT_TOKENS
     @ [''MERCHANT'', ''PAYMENT_AUTHENTICATION'', ''GATEWAY'', ''BANK'']"

lemma classify_known: "classify_tokens ts \<noteq> Diag_UNKNOWN \<Longrightarrow> meets ts known_tokens"
  by (auto simp: classify_tokens_def meets_def known_tokens_def split: if_splits)

lemma evidence_token_mem:
  "t \<in> set (evidence_tokens e) \<Longrightarrow> \<exists>v \<in> {ev_error_code e, ev_error_source e, ev_error_step e,
      ev_error_reason e}. \<exists>s. v = Some s \<and> py_upper (py_strip s) = t"
proof -
  have "\<exists>s. v = Some s \<and> py_upper (py_strip s) = t" if "t \<in> set (evidence_token v)" for v
    using that by (cases v) (auto split: if_splits)
  then show "t \<in> set (evidence_tokens e) \<Longrightarrow> ?thesis" by (auto simp: evidence_tokens_def)
qed

text \<open>
  A diagnosis is conservative. It is anything but \<open>UNKNOWN\<close> only for a failed payment reported
  by \<open>payment.failed\<close>, correlated with both its invoice and its subscription, of which some error
  field reads, up to case and surrounding white space, as a known failure token; and a risk or
  compliance token in any field decides it, whatever the other fields say.
\<close>

theorem diagnosis_conservative:
  "(diagnose_failure e \<noteq> Diag_UNKNOWN \<longrightarrow>
      ev_event_type e = ''payment.failed'' \<and> ev_payment_state e = Pay_FAILED
      \<and> ev_invoice_correlated e \<and> ev_subscription_correlated e
      \<and> (\<exists>v \<in> {ev_error_code e, ev_error_source e, ev_error_step e, ev_error_reason e}.
           \<exists>s. v = Some s \<and> py_upper (py_strip s) \<in> set known_tokens))
   \<and> (diagnose_failure e \<noteq> Diag_UNKNOWN \<and> meets (evidence_tokens e) RISK_BLOCK_TOKENS \<longrightarrow>
      diagnose_failure e = RISK_OR_COMPLIANCE_BLOCK)"
proof -
  have "\<exists>v \<in> {ev_error_code e, ev_error_source e, ev_error_step e, ev_error_reason e}.
      \<exists>s. v = Some s \<and> py_upper (py_strip s) \<in> set known_tokens"
    if known: "classify_tokens (evidence_tokens e) \<noteq> Diag_UNKNOWN"
  proof -
    obtain t where "t \<in> set (evidence_tokens e)" "t \<in> set known_tokens"
      using classify_known [OF known] by (auto simp: meets_def)
    then show ?thesis using evidence_token_mem [of t e] by blast
  qed
  then show ?thesis by (auto simp: diagnose_failure_def classify_tokens_def split: if_splits)
qed

definition sample_evidence :: DiagnosisEvidence where
  "sample_evidence = \<lparr>ev_payment_state = Pay_FAILED, ev_event_type = ''payment.failed'',
     ev_invoice_correlated = True, ev_subscription_correlated = True,
     ev_error_code = Some '' insufficient_funds '', ev_error_source = Some ''bank'',
     ev_error_step = None, ev_error_reason = Some ''fraud_suspected''\<rparr>"

theorem diagnosis_conservative_witness:
  "diagnose_failure sample_evidence = RISK_OR_COMPLIANCE_BLOCK"
proof -
  have "meets (evidence_tokens sample_evidence) RISK_BLOCK_TOKENS" by code_simp
  moreover have "diagnose_failure sample_evidence \<noteq> Diag_UNKNOWN" by code_simp
  ultimately show ?thesis using diagnosis_conservative [of sample_evidence] by blast
qed

end
