(* ===== verification/Decision_Engine.thy ===== *)
theory Decision_Engine
  imports Diagnosis_Policy "HOL-Library.Multiset"
begin

text \<open>
  \<open>services/api/app/services/decision_engine.py\<close>: enumeration of the technically eligible
  actions, scoring, ranking by integer-paise utility, and the policy gate.

  The scorer is an argument (\<open>RecoveryDecisionEngine(scorer)\<close> of the code): a function from a
  request to a result or an exception. Its probability is a Python float, kept as the rational
  it denotes; the engine only compares and negates it. A feature dictionary is a map.

  The locale \<open>safety_gate\<close> is what the engine needs of its policy: a control action is never
  blocked. It is interpreted on the safety policy of theory \<open>Safety_Policy\<close>.
\<close>

section \<open>Requests, results, contexts\<close>

datatype feature = F_str string | F_int int | F_float rat | F_bool bool | F_none

type_synonym features = "string \<rightharpoonup> feature"

record RecoveryScoreRequest =
  sq_case_id :: ident
  sq_amount_at_risk_paise :: paise
  sq_diagnosis :: Diagnosis
  sq_candidate_action :: RecoveryActionType
  sq_features :: features

record RecoveryScoreResult =
  sc_model_name :: string
  sc_model_version :: string
  sc_artifact_checksum :: "string option"
  sc_recovery_probability :: rat
  sc_expected_recovered_paise :: paise
  sc_expected_utility_paise :: paise
  sc_explanation :: "string list"

text \<open>The field constraints of \<open>RecoveryScoreResult\<close> (providers/contracts.py).\<close>

definition valid_score :: "RecoveryScoreResult \<Rightarrow> bool" where
  "valid_score s \<longleftrightarrow> 0 \<le> sc_recovery_probability s \<and> sc_recovery_probability s \<le> 1
     \<and> 0 \<le> sc_expected_recovered_paise s"

record RecoveryDecisionContext =
  dc_case_id :: ident
  dc_amount_at_risk_paise :: paise
  dc_diagnosis :: Diagnosis
  dc_case_outcome :: CaseOutcome
  dc_payment_state :: PaymentState
  dc_subscription_state :: SubscriptionState
  dc_contact_disposition :: ContactDisposition
  dc_recovery_deadline :: datetime
  dc_now :: datetime
  dc_has_failed_invoice :: bool
  dc_active_gateway_retries :: bool
  dc_standard_payment_link_available :: bool
  dc_voice_action_available :: bool
  dc_voice_consent :: bool
  dc_voice_destination_available :: bool
  dc_customer_agent_action_available :: bool
  dc_customer_agent_available :: bool
  dc_model_features :: "features option"

datatype decide_error = Context_Amount_Negative | Context_Not_Aware | No_Eligible_Action
  | Scorer_Error | Expected_Exceeds_Amount | Policy_Raised policy_error
  | Contract_Raised contract_error | Stop_Iteration | Reasons_Empty

definition validate_decision_context ::
    "RecoveryDecisionContext \<Rightarrow> decide_error + RecoveryDecisionContext" where
  "validate_decision_context x =
     (if dc_amount_at_risk_paise x < 0 then Inl Context_Amount_Negative
      else if \<not> is_aware (dc_now x) \<or> \<not> is_aware (dc_recovery_deadline x)
      then Inl Context_Not_Aware
      else Inr x)"

section \<open>Technically eligible actions\<close>

definition NON_CUSTOMER_REMEDIABLE :: "Diagnosis set" where
  "NON_CUSTOMER_REMEDIABLE = {MERCHANT_ERROR, RISK_OR_COMPLIANCE_BLOCK}"

definition GATEWAY_RETRY_RELEVANT :: "Diagnosis set" where
  "GATEWAY_RETRY_RELEVANT = {TRANSIENT_RETRYABLE, INSUFFICIENT_FUNDS, Diag_UNKNOWN}"

definition surface_preference :: "Diagnosis \<Rightarrow> PaymentSurfaceType" where
  "surface_preference d =
     (case d of
        AUTHENTICATION_REQUIRED \<Rightarrow> SUBSCRIPTION_CARD_UPDATE
      | INSTRUMENT_INVALID \<Rightarrow> SUBSCRIPTION_CARD_UPDATE
      | INSUFFICIENT_FUNDS \<Rightarrow> SUBSCRIPTION_INVOICE_LINK
      | _ \<Rightarrow> SUBSCRIPTION_INVOICE_LINK)"

fun action_tie_priority :: "RecoveryActionType \<Rightarrow> int" where
  "action_tie_priority WAIT_FOR_GATEWAY_RETRY = 0"
| "action_tie_priority OPEN_CUSTOMER_PAYMENT_SURFACE = 10"
| "action_tie_priority SEND_TO_CUSTOMER_AGENT = 20"
| "action_tie_priority START_VOICE = 30"
| "action_tie_priority ESCALATE_TO_HUMAN = 40"
| "action_tie_priority STOP = 50"

record RecoveryActionCandidate =
  cand_action_type :: RecoveryActionType
  cand_payment_surface_type :: "PaymentSurfaceType option"
  cand_technical_reason :: string
  cand_tie_priority :: int

definition candidate_key :: "RecoveryActionCandidate \<Rightarrow> string" where
  "candidate_key k =
     action_value (cand_action_type k) @ '':'' @
     (case cand_payment_surface_type k of None \<Rightarrow> ''none'' | Some s \<Rightarrow> surface_value s)"

definition tr_surface :: string where
  "tr_surface = ''A trusted failed invoice is available for this bounded surface.''"
definition tr_wait :: string where
  "tr_wait = ''The provider owns an active subscription retry.''"
definition tr_voice :: string where
  "tr_voice = ''The deployed voice executor has consent and a tokenized destination.''"
definition tr_agent :: string where
  "tr_agent = ''The customer-agent executor is available for this customer.''"
definition tr_escalate :: string where
  "tr_escalate = ''Human review is always available as a non-customer-facing control.''"
definition tr_stop :: string where
  "tr_stop = ''Stopping automation is always technically available.''"

definition candidate ::
    "RecoveryActionType \<Rightarrow> PaymentSurfaceType option \<Rightarrow> string \<Rightarrow> int \<Rightarrow> RecoveryActionCandidate" where
  "candidate a s t p =
     \<lparr>cand_action_type = a, cand_payment_surface_type = s, cand_technical_reason = t,
      cand_tie_priority = p\<rparr>"

definition eligible_surfaces :: "RecoveryDecisionContext \<Rightarrow> PaymentSurfaceType list" where
  "eligible_surfaces x =
     sort_key (\<lambda>s. (s \<noteq> surface_preference (dc_diagnosis x), surface_value s))
       ([SUBSCRIPTION_CARD_UPDATE, SUBSCRIPTION_INVOICE_LINK]
        @ (if dc_standard_payment_link_available x then [STANDARD_PAYMENT_LINK] else []))"

definition surface_candidates :: "RecoveryDecisionContext \<Rightarrow> RecoveryActionCandidate list" where
  "surface_candidates x =
     (if \<not> dc_has_failed_invoice x then []
      else if dc_diagnosis x \<in> NON_CUSTOMER_REMEDIABLE then []
      else if dc_diagnosis x = TRANSIENT_RETRYABLE \<and> dc_active_gateway_retries x then []
      else map (\<lambda>(i, s). candidate OPEN_CUSTOMER_PAYMENT_SURFACE (Some s) tr_surface
                  (action_tie_priority OPEN_CUSTOMER_PAYMENT_SURFACE + int i))
             (enumerate 0 (eligible_surfaces x)))"

definition generate_technically_eligible_actions ::
    "RecoveryDecisionContext \<Rightarrow> RecoveryActionCandidate list" where
  "generate_technically_eligible_actions x =
     (if dc_active_gateway_retries x \<and> dc_diagnosis x \<in> GATEWAY_RETRY_RELEVANT
      then [candidate WAIT_FOR_GATEWAY_RETRY None tr_wait (action_tie_priority WAIT_FOR_GATEWAY_RETRY)]
      else [])
     @ surface_candidates x
     @ (if dc_diagnosis x \<notin> NON_CUSTOMER_REMEDIABLE \<and> dc_voice_action_available x
           \<and> dc_voice_consent x \<and> dc_voice_destination_available x
        then [candidate START_VOICE None tr_voice (action_tie_priority START_VOICE)] else [])
     @ (if dc_diagnosis x \<notin> NON_CUSTOMER_REMEDIABLE \<and> dc_customer_agent_action_available x
           \<and> dc_customer_agent_available x
        then [candidate SEND_TO_CUSTOMER_AGENT None tr_agent
                (action_tie_priority SEND_TO_CUSTOMER_AGENT)] else [])
     @ [candidate ESCALATE_TO_HUMAN None tr_escalate (action_tie_priority ESCALATE_TO_HUMAN),
        candidate STOP None tr_stop (action_tie_priority STOP)]"

section \<open>The decision\<close>

fun diagnosis_value :: "Diagnosis \<Rightarrow> string" where
  "diagnosis_value TRANSIENT_RETRYABLE = ''TRANSIENT_RETRYABLE''"
| "diagnosis_value INSUFFICIENT_FUNDS = ''INSUFFICIENT_FUNDS''"
| "diagnosis_value AUTHENTICATION_REQUIRED = ''AUTHENTICATION_REQUIRED''"
| "diagnosis_value INSTRUMENT_INVALID = ''INSTRUMENT_INVALID''"
| "diagnosis_value MERCHANT_ERROR = ''MERCHANT_ERROR''"
| "diagnosis_value RISK_OR_COMPLIANCE_BLOCK = ''RISK_OR_COMPLIANCE_BLOCK''"
| "diagnosis_value Diag_UNKNOWN = ''UNKNOWN''"

fun contact_value :: "ContactDisposition \<Rightarrow> string" where
  "contact_value NOT_CONTACTED = ''NOT_CONTACTED''"
| "contact_value CONTACT_SCHEDULED = ''CONTACT_SCHEDULED''"
| "contact_value NO_ANSWER = ''NO_ANSWER''"
| "contact_value BUSY = ''BUSY''"
| "contact_value ENGAGED = ''ENGAGED''"
| "contact_value PROMISE_TO_PAY = ''PROMISE_TO_PAY''"
| "contact_value OPTED_OUT = ''OPTED_OUT''"
| "contact_value WRONG_PERSON = ''WRONG_PERSON''"
| "contact_value DISPUTE = ''DISPUTE''"
| "contact_value ALREADY_PAID = ''ALREADY_PAID''"

definition feature_snapshot ::
    "(string \<Rightarrow> timezone option) \<Rightarrow> RecoveryDecisionContext \<Rightarrow> SafetyPolicyConfig
       \<Rightarrow> decide_error + features" where
  "feature_snapshot zones x g =
     bindE (case (cfg_quiet_hours_start g, cfg_quiet_hours_end g) of
              (Some s, Some e) \<Rightarrow>
                (case zones (cfg_merchant_timezone g) of
                   None \<Rightarrow> Inl (Policy_Raised Unknown_Timezone)
                 | Some tz \<Rightarrow>
                     (case quiet_hours_delay_until (dc_now x) tz s e of
                        Inl err \<Rightarrow> Inl (Policy_Raised err)
                      | Inr q \<Rightarrow> Inr (q \<noteq> None)))
            | _ \<Rightarrow> Inr False)
       (\<lambda>is_quiet_hours.
          Inr ((case dc_model_features x of None \<Rightarrow> Map.empty | Some m \<Rightarrow> m)
            (''amount_at_risk_paise'' \<mapsto> F_int (dc_amount_at_risk_paise x),
             ''diagnosis'' \<mapsto> F_str (diagnosis_value (dc_diagnosis x)),
             ''customer_agent_available'' \<mapsto> F_bool (dc_customer_agent_available x),
             ''voice_consent'' \<mapsto> F_bool (dc_voice_consent x),
             ''is_quiet_hours'' \<mapsto> F_bool is_quiet_hours,
             ''subscription_state'' \<mapsto> F_str (subscription_state_value (dc_subscription_state x)),
             ''payment_state'' \<mapsto> F_str (payment_state_value (dc_payment_state x)),
             ''contact_disposition'' \<mapsto> F_str (contact_value (dc_contact_disposition x)),
             ''active_gateway_retries'' \<mapsto> F_bool (dc_active_gateway_retries x))))"

definition score_request ::
    "RecoveryDecisionContext \<Rightarrow> features \<Rightarrow> RecoveryActionCandidate \<Rightarrow> RecoveryScoreRequest" where
  "score_request x features k =
     \<lparr>sq_case_id = dc_case_id x, sq_amount_at_risk_paise = dc_amount_at_risk_paise x,
      sq_diagnosis = dc_diagnosis x, sq_candidate_action = cand_action_type k,
      sq_features = features(''payment_surface_type'' \<mapsto>
        (case cand_payment_surface_type k of None \<Rightarrow> F_none | Some s \<Rightarrow> F_str (surface_value s)))\<rparr>"

type_synonym scorer = "RecoveryScoreRequest \<Rightarrow> unit + RecoveryScoreResult"
type_synonym scored = "RecoveryActionCandidate \<times> RecoveryScoreResult"

definition score_candidate ::
    "scorer \<Rightarrow> RecoveryDecisionContext \<Rightarrow> features \<Rightarrow> RecoveryActionCandidate
       \<Rightarrow> decide_error + scored" where
  "score_candidate scorer x features k =
     (case scorer (score_request x features k) of
        Inl _ \<Rightarrow> Inl Scorer_Error
      | Inr s \<Rightarrow> Inr (k, s))"

definition rank_key :: "scored \<Rightarrow> int \<times> int \<times> rat \<times> int \<times> string" where
  "rank_key p =
     (- sc_expected_utility_paise (snd p), - sc_expected_recovered_paise (snd p),
      - sc_recovery_probability (snd p), cand_tie_priority (fst p), candidate_key (fst p))"

definition policy_context ::
    "RecoveryDecisionContext \<Rightarrow> RecoveryActionCandidate \<Rightarrow> SafetyPolicyContext" where
  "policy_context x k =
     \<lparr>ctx_now = dc_now x, ctx_recovery_deadline = dc_recovery_deadline x,
      ctx_case_outcome = dc_case_outcome x, ctx_payment_state = dc_payment_state x,
      ctx_subscription_state = dc_subscription_state x,
      ctx_contact_disposition = dc_contact_disposition x, ctx_action = cand_action_type k,
      ctx_payment_surface_type = cand_payment_surface_type k,
      ctx_amount_at_risk_paise = dc_amount_at_risk_paise x,
      ctx_active_gateway_retries = dc_active_gateway_retries x,
      ctx_contact_attempts_in_window = 0, ctx_contact_limit_resets_at = None\<rparr>"

definition candidate_policy ::
    "(string \<Rightarrow> timezone option) \<Rightarrow> SafetyPolicyConfig \<Rightarrow> RecoveryDecisionContext \<Rightarrow> scored
       \<Rightarrow> decide_error + PolicyDecision" where
  "candidate_policy zones g x p =
     (case bindE (validate_context (policy_context x (fst p)))
             (\<lambda>c. evaluate_safety_policy zones c g) of
        Inl err \<Rightarrow> Inl (Policy_Raised err)
      | Inr d \<Rightarrow> (case validate_policy_decision (to_contract d) of
                    Inl err \<Rightarrow> Inl (Contract_Raised err)
                  | Inr pd \<Rightarrow> Inr pd))"

record RankedRecoveryCandidate =
  rk_rank :: nat
  rk_candidate :: RecoveryActionCandidate
  rk_score :: RecoveryScoreResult
  rk_policy :: PolicyDecision
  rk_selected :: bool
  rk_rejection_code :: "string option"
  rk_rejection_reason :: "string option"

definition why_tie :: "RecoveryActionCandidate \<Rightarrow> string" where
  "why_tie k = ''Expected utility tied; the stable, auditable tie-break selected ''
     @ candidate_key k @ ''.''"

definition why_lower :: "int \<Rightarrow> string" where
  "why_lower gap = ''Expected utility was '' @ int_str gap @ '' paise below the selected candidate.''"

text \<open>The code and the reason recorded for a candidate that was not selected.\<close>

definition rejection ::
    "scored \<Rightarrow> scored \<Rightarrow> PolicyDecision \<Rightarrow> decide_error + string \<times> string" where
  "rejection selected p policy =
     (if pd_disposition policy = BLOCK
      then (case pd_reasons policy of [] \<Rightarrow> Inl Reasons_Empty
            | r # _ \<Rightarrow> Inr (pd_decision_code policy, r))
      else if sc_expected_utility_paise (snd p) = sc_expected_utility_paise (snd selected)
      then Inr (''STABLE_TIE_BREAK'', why_tie (fst selected))
      else Inr (''LOWER_EXPECTED_UTILITY'',
                why_lower (sc_expected_utility_paise (snd selected)
                           - sc_expected_utility_paise (snd p))))"

definition ranked_candidate ::
    "nat \<Rightarrow> scored \<Rightarrow> nat \<times> scored \<times> PolicyDecision \<Rightarrow> decide_error + RankedRecoveryCandidate" where
  "ranked_candidate selected_index selected = (\<lambda>(index, p, policy).
     if index = selected_index
     then Inr \<lparr>rk_rank = index + 1, rk_candidate = fst p, rk_score = snd p, rk_policy = policy,
               rk_selected = True, rk_rejection_code = None, rk_rejection_reason = None\<rparr>
     else bindE (rejection selected p policy) (\<lambda>(code, why).
       Inr \<lparr>rk_rank = index + 1, rk_candidate = fst p, rk_score = snd p, rk_policy = policy,
            rk_selected = False, rk_rejection_code = Some code, rk_rejection_reason = Some why\<rparr>))"

definition rejected_alternatives :: "RankedRecoveryCandidate list \<Rightarrow> RejectedAlternative list" where
  "rejected_alternatives rs =
     map (\<lambda>r. \<lparr>rej_action = cand_action_type (rk_candidate r),
               rej_payment_surface_type = cand_payment_surface_type (rk_candidate r),
               rej_reason_code = the (rk_rejection_code r),
               rej_reason = the (rk_rejection_reason r)\<rparr>)
       (filter (\<lambda>r. \<not> rk_selected r) rs)"

definition scoring_mode :: "RecoveryScoreResult \<Rightarrow> string" where
  "scoring_mode s =
     (if sc_model_name s = ''recoverybench-deterministic''
         \<or> take 14 (sc_model_version s) = ''deterministic.'' then ''DETERMINISTIC_FALLBACK''
      else if sc_model_name s = ''recoverybench-catboost'' \<and> truthy (sc_artifact_checksum s)
      then ''CHECKSUM_VERIFIED_MODEL''
      else ''CUSTOM_SCORER'')"

record RecoveryDecisionResult =
  dr_recommendation :: ActionRecommendation
  dr_policy :: PolicyDecision
  dr_ranked_candidates :: "RankedRecoveryCandidate list"
  dr_feature_snapshot :: features

definition recommendation ::
    "scored \<Rightarrow> PolicyDecision \<Rightarrow> RankedRecoveryCandidate list \<Rightarrow> ActionRecommendation" where
  "recommendation selected policy ranked =
     \<lparr>rec_action = cand_action_type (fst selected),
      rec_payment_surface_type = cand_payment_surface_type (fst selected),
      rec_predicted_recovery_probability = sc_recovery_probability (snd selected),
      rec_expected_recovered_paise = sc_expected_recovered_paise (snd selected),
      rec_expected_utility_paise = sc_expected_utility_paise (snd selected),
      rec_confidence = sc_recovery_probability (snd selected),
      rec_reason_codes =
        (if scoring_mode (snd selected) = ''DETERMINISTIC_FALLBACK''
         then ''DETERMINISTIC_FALLBACK_MAX_POLICY_ELIGIBLE_UTILITY''
         else ''MODEL_MAX_POLICY_ELIGIBLE_EXPECTED_UTILITY'') # pd_reason_codes policy,
      rec_reasons = sc_explanation (snd selected) @ pd_reasons policy,
      rec_rejected_alternatives = rejected_alternatives ranked\<rparr>"

text \<open>The ranking with its policies: everything of \<open>decide\<close> before the selection.\<close>

definition score_and_rank ::
    "(string \<Rightarrow> timezone option) \<Rightarrow> scorer \<Rightarrow> RecoveryDecisionContext \<Rightarrow> SafetyPolicyConfig
       \<Rightarrow> decide_error + features \<times> scored list \<times> PolicyDecision list" where
  "score_and_rank zones scorer x g =
     (let candidates = generate_technically_eligible_actions x in
      if candidates = [] then Inl No_Eligible_Action
      else bindE (feature_snapshot zones x g) (\<lambda>features.
        bindE (traverseE (score_candidate scorer x features) candidates) (\<lambda>scores.
          if \<exists>p \<in> set scores. sc_expected_recovered_paise (snd p) > dc_amount_at_risk_paise x
          then Inl Expected_Exceeds_Amount
          else let ranked_pairs = sort_key rank_key scores in
            bindE (traverseE (candidate_policy zones g x) ranked_pairs) (\<lambda>policies.
              Inr (features, ranked_pairs, policies)))))"

definition decide ::
    "(string \<Rightarrow> timezone option) \<Rightarrow> scorer \<Rightarrow> RecoveryDecisionContext \<Rightarrow> SafetyPolicyConfig
       \<Rightarrow> decide_error + RecoveryDecisionResult" where
  "decide zones scorer x g =
     bindE (score_and_rank zones scorer x g) (\<lambda>(features, ranked_pairs, policies).
       case first_index (\<lambda>p. pd_disposition p \<noteq> BLOCK) policies of
         None \<Rightarrow> Inl Stop_Iteration
       | Some i \<Rightarrow>
           bindE (traverseE (ranked_candidate i (ranked_pairs ! i))
                    (enumerate 0 (zip ranked_pairs policies))) (\<lambda>ranked.
           case validate_recommendation (recommendation (ranked_pairs ! i) (policies ! i) ranked) of
             Inl err \<Rightarrow> Inl (Contract_Raised err)
           | Inr r \<Rightarrow> Inr \<lparr>dr_recommendation = r, dr_policy = policies ! i,
                           dr_ranked_candidates = ranked, dr_feature_snapshot = features\<rparr>))"

section \<open>What the engine needs of its policy\<close>

text \<open>
  A gate maps an item to an exception or a verdict. Items that are controls always pass. Then
  the walk down a ranking that holds a control and on which the gate raises nothing finds a
  first item that passes, whatever the ranking is.
\<close>

locale safety_gate =
  fixes gate :: "'i \<Rightarrow> 'e + 'v" and blocks :: "'v \<Rightarrow> bool" and control :: "'i \<Rightarrow> bool"
  assumes control_passes: "control i \<Longrightarrow> gate i = Inr v \<Longrightarrow> \<not> blocks v"
begin

lemma first_pass_exists:
  assumes "traverseE gate items = Inr verdicts" and "\<exists>i \<in> set items. control i"
  shows "\<exists>n. first_index (\<lambda>v. \<not> blocks v) verdicts = Some n \<and> n < length items"
proof -
  from assms(2) obtain k where k: "k < length items" "control (items ! k)"
    by (auto simp: in_set_conv_nth)
  with assms(1) have "gate (items ! k) = Inr (verdicts ! k)" and len: "length verdicts = length items"
    by (auto simp: traverseE_Inr)
  with k have "\<not> blocks (verdicts ! k)" by (auto dest: control_passes)
  with k len have "\<exists>v \<in> set verdicts. \<not> blocks v" by (metis nth_mem)
  then obtain n where "first_index (\<lambda>v. \<not> blocks v) verdicts = Some n"
    using first_index_exists [of verdicts "\<lambda>v. \<not> blocks v"] by blast
  then show ?thesis using len by (auto simp: first_index_Some)
qed

lemma first_pass_least:
  assumes "traverseE gate items = Inr verdicts"
    and "first_index (\<lambda>v. \<not> blocks v) verdicts = Some n" and "m < length items"
    and "gate (items ! m) = Inr v" and "\<not> blocks v"
  shows "n \<le> m"
proof (rule ccontr)
  assume "\<not> n \<le> m"
  then have "blocks (verdicts ! m)" using assms(2) by (auto simp: first_index_Some)
  moreover have "verdicts ! m = v" using assms(1,3,4) by (auto simp: traverseE_Inr)
  ultimately show False using assms(5) by simp
qed

end

lemma evaluate_terminal_control:
  assumes "ctx_action c \<in> TERMINAL_CONTROL_ACTIONS"
  shows "\<exists>d. evaluate_safety_policy zones c g = Inr d \<and> sd_disposition d = ALLOW
    \<and> sd_delay_until d = None"
  by (simp add: evaluate_safety_policy_def rules_terminal_control [OF assms] approval_or_allow_def)

lemma candidate_policy_Inr:
  assumes "candidate_policy zones g x p = Inr pd"
  shows "\<exists>d. evaluate_safety_policy zones (policy_context x (fst p)) g = Inr d \<and> pd = to_contract d"
  using assms
  by (auto simp: candidate_policy_def validate_context_def validate_policy_decision_def result_simps
      split: sum.splits if_splits)

lemma disposition_to_contract [simp]: "pd_disposition (to_contract d) = sd_disposition d"
  by (simp add: to_contract_def)

interpretation engine_gate: safety_gate
  "candidate_policy zones g x" "\<lambda>p. pd_disposition p = BLOCK"
  "\<lambda>p. cand_action_type (fst p) \<in> TERMINAL_CONTROL_ACTIONS" for zones g x
proof
  fix i v
  assume control: "cand_action_type (fst i) \<in> TERMINAL_CONTROL_ACTIONS"
    and "candidate_policy zones g x i = Inr v"
  then obtain d where "evaluate_safety_policy zones (policy_context x (fst i)) g = Inr d"
    "v = to_contract d" using candidate_policy_Inr by blast
  moreover have "ctx_action (policy_context x (fst i)) \<in> TERMINAL_CONTROL_ACTIONS"
    using control by (simp add: policy_context_def)
  ultimately show "pd_disposition v \<noteq> BLOCK"
    using evaluate_terminal_control [of "policy_context x (fst i)" zones g] by auto
qed

section \<open>Lemmas about the candidates\<close>

lemma candidate_sel [simp]:
  "cand_action_type (candidate a s t p) = a"
  "cand_payment_surface_type (candidate a s t p) = s"
  "cand_tie_priority (candidate a s t p) = p"
  by (simp_all add: candidate_def)

lemma set_eligible_surfaces:
  "set (eligible_surfaces x) =
     {SUBSCRIPTION_CARD_UPDATE, SUBSCRIPTION_INVOICE_LINK}
     \<union> (if dc_standard_payment_link_available x then {STANDARD_PAYMENT_LINK} else {})"
  unfolding eligible_surfaces_def set_sort by auto

lemma set_surface_candidates:
  "k \<in> set (surface_candidates x) \<Longrightarrow>
     cand_action_type k = OPEN_CUSTOMER_PAYMENT_SURFACE
     \<and> (\<exists>s \<in> set (eligible_surfaces x). cand_payment_surface_type k = Some s)
     \<and> dc_has_failed_invoice x \<and> dc_diagnosis x \<notin> NON_CUSTOMER_REMEDIABLE
     \<and> \<not> (dc_diagnosis x = TRANSIENT_RETRYABLE \<and> dc_active_gateway_retries x)"
  by (auto simp: surface_candidates_def in_set_enumerate_eq split: if_splits)

lemma eligible_surface_iff:
  assumes "k \<in> set (generate_technically_eligible_actions x)"
  shows "cand_action_type k = OPEN_CUSTOMER_PAYMENT_SURFACE \<longleftrightarrow> cand_payment_surface_type k \<noteq> None"
  using assms
  by (auto simp: generate_technically_eligible_actions_def dest: set_surface_candidates
      split: if_splits)

lemma controls_eligible:
  "candidate ESCALATE_TO_HUMAN None tr_escalate 40 \<in> set (generate_technically_eligible_actions x)"
  "candidate STOP None tr_stop 50 \<in> set (generate_technically_eligible_actions x)"
  by (simp_all add: generate_technically_eligible_actions_def)

lemma generate_not_Nil [simp]: "generate_technically_eligible_actions x \<noteq> []"
  by (simp add: generate_technically_eligible_actions_def)

section \<open>Lemmas about the decision\<close>

lemma score_candidate_Inr: "score_candidate scorer x features k = Inr q \<Longrightarrow> fst q = k"
  by (auto simp: score_candidate_def split: sum.splits)

lemma score_and_rank_Inr:
  assumes "score_and_rank zones scorer x g = Inr (features, pairs, policies)"
  obtains scores where "pairs = sort_key rank_key scores"
    "map fst scores = generate_technically_eligible_actions x"
    "\<And>p. p \<in> set pairs \<Longrightarrow> sc_expected_recovered_paise (snd p) \<le> dc_amount_at_risk_paise x"
    "traverseE (candidate_policy zones g x) pairs = Inr policies"
proof -
  from assms obtain scores where
    sc: "traverseE (score_candidate scorer x features) (generate_technically_eligible_actions x)
           = Inr scores"
    and amt: "\<forall>p \<in> set scores. sc_expected_recovered_paise (snd p) \<le> dc_amount_at_risk_paise x"
    and pairs: "pairs = sort_key rank_key scores"
    and pol: "traverseE (candidate_policy zones g x) pairs = Inr policies"
    by (auto simp: score_and_rank_def Let_def result_simps not_less split: if_splits)
  have "map fst scores = generate_technically_eligible_actions x"
  proof (rule nth_equalityI)
    show "length (map fst scores) = length (generate_technically_eligible_actions x)"
      using sc by (simp add: traverseE_Inr)
    fix i assume "i < length (map fst scores)"
    then show "map fst scores ! i = generate_technically_eligible_actions x ! i"
      using sc by (auto simp: traverseE_Inr intro!: score_candidate_Inr)
  qed
  with amt pairs pol show ?thesis by (intro that [of scores]) auto
qed

lemma decide_Inr:
  assumes "decide zones scorer x g = Inr r"
  obtains features pairs policies i where
    "score_and_rank zones scorer x g = Inr (features, pairs, policies)"
    "first_index (\<lambda>p. pd_disposition p \<noteq> BLOCK) policies = Some i"
    "traverseE (ranked_candidate i (pairs ! i)) (enumerate 0 (zip pairs policies))
       = Inr (dr_ranked_candidates r)"
    "dr_recommendation r = recommendation (pairs ! i) (policies ! i) (dr_ranked_candidates r)"
    "dr_policy r = policies ! i"
proof -
  obtain features pairs policies where
    a: "score_and_rank zones scorer x g = Inr (features, pairs, policies)"
    using assms by (cases "score_and_rank zones scorer x g") (auto simp: decide_def)
  obtain i where b: "first_index (\<lambda>p. pd_disposition p \<noteq> BLOCK) policies = Some i"
    using assms a
    by (cases "first_index (\<lambda>p. pd_disposition p \<noteq> BLOCK) policies") (auto simp: decide_def)
  obtain ranked where
    c: "traverseE (ranked_candidate i (pairs ! i)) (enumerate 0 (zip pairs policies)) = Inr ranked"
    using assms a b
    by (cases "traverseE (ranked_candidate i (pairs ! i)) (enumerate 0 (zip pairs policies))")
      (auto simp: decide_def)
  have "dr_ranked_candidates r = ranked" "dr_policy r = policies ! i"
    "dr_recommendation r = recommendation (pairs ! i) (policies ! i) ranked"
    using assms a b c
    by (auto simp: decide_def validate_recommendation_def split: sum.splits if_splits)
  with a b c that show ?thesis by simp
qed

lemma ranked_candidate_Inr:
  assumes "ranked_candidate i sel (j, p, policy) = Inr c"
  shows "rk_rank c = j + 1 \<and> rk_candidate c = fst p \<and> rk_score c = snd p \<and> rk_policy c = policy
    \<and> rk_selected c = (j = i)"
  using assms by (auto simp: ranked_candidate_def result_simps split: if_splits)

lemma ranked_nth:
  assumes "traverseE (ranked_candidate i sel) (enumerate 0 (zip pairs policies)) = Inr ranked"
    and "length policies = length pairs"
  shows "length ranked = length pairs"
    and "j < length pairs \<Longrightarrow> rk_rank (ranked ! j) = j + 1 \<and> rk_candidate (ranked ! j) = fst (pairs ! j)
      \<and> rk_score (ranked ! j) = snd (pairs ! j) \<and> rk_policy (ranked ! j) = policies ! j
      \<and> rk_selected (ranked ! j) = (j = i)"
proof -
  show "length ranked = length pairs" using assms by (auto simp: traverseE_Inr)
  assume "j < length pairs"
  then have "ranked_candidate i sel (j, pairs ! j, policies ! j) = Inr (ranked ! j)"
    using assms by (auto simp: traverseE_Inr nth_enumerate_eq)
  then show "rk_rank (ranked ! j) = j + 1 \<and> rk_candidate (ranked ! j) = fst (pairs ! j)
      \<and> rk_score (ranked ! j) = snd (pairs ! j) \<and> rk_policy (ranked ! j) = policies ! j
      \<and> rk_selected (ranked ! j) = (j = i)"
    by (rule ranked_candidate_Inr)
qed

text \<open>A smaller rank key has no smaller utility.\<close>

lemma rank_key_utility:
  "rank_key p \<le> rank_key q \<Longrightarrow> sc_expected_utility_paise (snd q) \<le> sc_expected_utility_paise (snd p)"
  by (auto simp: rank_key_def less_eq_prod_def)

lemma filter_single_index:
  assumes "i < length xs" and "\<And>j. j < length xs \<Longrightarrow> P (xs ! j) \<longleftrightarrow> j = i"
  shows "filter P xs = [xs ! i]"
proof -
  have "xs = take i xs @ xs ! i # drop (Suc i) xs" using assms(1) by (rule id_take_nth_drop)
  moreover have "filter P (take i xs) = []"
    using assms by (auto simp: filter_empty_conv in_set_conv_nth)
  moreover have "filter P (drop (Suc i) xs) = []"
    using assms(2) by (auto simp: filter_empty_conv in_set_conv_nth)
  ultimately show ?thesis using assms by (metis append_Nil filter.simps(2) filter_append)
qed

section \<open>Properties\<close>

lemma decide_policy_not_block:
  assumes "decide zones scorer x g = Inr r"
  shows "pd_disposition (dr_policy r) \<noteq> BLOCK"
proof -
  obtain features pairs policies i where
    "first_index (\<lambda>p. pd_disposition p \<noteq> BLOCK) policies = Some i" and "dr_policy r = policies ! i"
    using decide_Inr [OF assms] by metis
  then show ?thesis by (simp add: first_index_Some)
qed

lemma decide_selected:
  assumes "decide zones scorer x g = Inr r"
  obtains k s where "k \<in> set (generate_technically_eligible_actions x)"
    "rec_action (dr_recommendation r) = cand_action_type k"
    "rec_payment_surface_type (dr_recommendation r) = cand_payment_surface_type k"
    "rec_expected_recovered_paise (dr_recommendation r) \<le> dc_amount_at_risk_paise x"
    "evaluate_safety_policy zones (policy_context x k) g = Inr s"
    "dr_policy r = to_contract s" "sd_disposition s \<noteq> BLOCK"
proof -
  obtain features pairs policies i where
    sr: "score_and_rank zones scorer x g = Inr (features, pairs, policies)"
    and i: "first_index (\<lambda>p. pd_disposition p \<noteq> BLOCK) policies = Some i"
    and rec: "dr_recommendation r = recommendation (pairs ! i) (policies ! i) (dr_ranked_candidates r)"
    and pol: "dr_policy r = policies ! i"
    using decide_Inr [OF assms] by metis
  obtain scores where scores: "pairs = sort_key rank_key scores"
    "map fst scores = generate_technically_eligible_actions x"
    and amt: "\<And>p. p \<in> set pairs \<Longrightarrow> sc_expected_recovered_paise (snd p) \<le> dc_amount_at_risk_paise x"
    and tr: "traverseE (candidate_policy zones g x) pairs = Inr policies"
    using score_and_rank_Inr [OF sr] by metis
  from i tr have il: "i < length pairs" and nb: "pd_disposition (policies ! i) \<noteq> BLOCK"
    by (auto simp: first_index_Some traverseE_Inr)
  then have mem: "pairs ! i \<in> set pairs" by simp
  then have "fst (pairs ! i) \<in> set (map fst scores)" using scores(1) by auto
  moreover from tr il have "candidate_policy zones g x (pairs ! i) = Inr (policies ! i)"
    by (simp add: traverseE_Inr)
  then obtain s where "evaluate_safety_policy zones (policy_context x (fst (pairs ! i))) g = Inr s"
    "policies ! i = to_contract s" using candidate_policy_Inr by blast
  ultimately show ?thesis
    using that [of "fst (pairs ! i)" s] scores(2) rec pol amt [OF mem] nb
    by (simp add: recommendation_def)
qed

text \<open>
  C38: the scorer is advisory. Whatever it returns, when a kill switch is on, or the case is
  terminal, or funds are captured, or the deadline has passed, the selected action is one of
  the two non-customer-facing controls; and when the customer opted out, disputes, reports
  payment or is the wrong person, the selected action never contacts the customer.
\<close>

theorem scorer_cannot_bypass_policy:
  assumes "decide zones scorer x g = Inr r"
  shows "(cfg_global_kill_switch g \<or> cfg_merchant_kill_switch g \<or> dc_case_outcome x \<noteq> Case_OPEN
      \<or> dc_payment_state x = Pay_CAPTURED
      \<or> utc_instant (dc_recovery_deadline x) \<le> utc_instant (dc_now x)
      \<longrightarrow> rec_action (dr_recommendation r) \<in> TERMINAL_CONTROL_ACTIONS)
    \<and> (dc_contact_disposition x \<in> {OPTED_OUT, WRONG_PERSON, DISPUTE, ALREADY_PAID}
      \<longrightarrow> rec_action (dr_recommendation r) \<notin> CUSTOMER_CONTACT_ACTIONS)"
proof -
  obtain k s where k: "rec_action (dr_recommendation r) = cand_action_type k"
    and ev: "evaluate_safety_policy zones (policy_context x k) g = Inr s"
    and nb: "sd_disposition s \<noteq> BLOCK"
    using decide_selected [OF assms] by metis
  from ev show ?thesis
  proof (cases rule: evaluate_cases)
    case early
    with nb show ?thesis by simp
  next
    case late
    then show ?thesis using k by (auto simp: early_rule_None policy_context_def)
  qed
qed

text \<open>
  The decision is the best one policy admits. Its policy verdict is not a block, and no
  candidate whose verdict is not a block has a larger expected utility; the amount it expects
  to recover is never more than the amount at risk.
\<close>

theorem decide_max_policy_eligible_utility:
  assumes "decide zones scorer x g = Inr r"
  shows "pd_disposition (dr_policy r) \<noteq> BLOCK
    \<and> (\<forall>c \<in> set (dr_ranked_candidates r). pd_disposition (rk_policy c) \<noteq> BLOCK \<longrightarrow>
        sc_expected_utility_paise (rk_score c) \<le> rec_expected_utility_paise (dr_recommendation r))
    \<and> rec_expected_recovered_paise (dr_recommendation r) \<le> dc_amount_at_risk_paise x"
proof -
  obtain features pairs policies i where
    sr: "score_and_rank zones scorer x g = Inr (features, pairs, policies)"
    and i: "first_index (\<lambda>p. pd_disposition p \<noteq> BLOCK) policies = Some i"
    and rk: "traverseE (ranked_candidate i (pairs ! i)) (enumerate 0 (zip pairs policies))
       = Inr (dr_ranked_candidates r)"
    and rec: "dr_recommendation r = recommendation (pairs ! i) (policies ! i) (dr_ranked_candidates r)"
    and pol: "dr_policy r = policies ! i"
    using decide_Inr [OF assms] by metis
  obtain scores where sorted: "pairs = sort_key rank_key scores"
    and tr: "traverseE (candidate_policy zones g x) pairs = Inr policies"
    using score_and_rank_Inr [OF sr] by metis
  have len: "length policies = length pairs" using tr by (simp add: traverseE_Inr)
  have best: "sc_expected_utility_paise (snd (pairs ! j)) \<le> sc_expected_utility_paise (snd (pairs ! i))"
    if j: "j < length pairs" "pd_disposition (policies ! j) \<noteq> BLOCK" for j
  proof -
    have "i \<le> j"
      using engine_gate.first_pass_least [OF tr i j(1), of "policies ! j"] tr j
      by (simp add: traverseE_Inr)
    then have "rank_key (pairs ! i) \<le> rank_key (pairs ! j)"
      using nth_sort_key_le [of i j scores rank_key] j(1) sorted by (cases "i = j") auto
    then show ?thesis by (rule rank_key_utility)
  qed
  have "sc_expected_utility_paise (rk_score c) \<le> rec_expected_utility_paise (dr_recommendation r)"
    if c: "c \<in> set (dr_ranked_candidates r)" "pd_disposition (rk_policy c) \<noteq> BLOCK" for c
  proof -
    obtain j where "j < length pairs" "c = dr_ranked_candidates r ! j"
      using c(1) ranked_nth(1) [OF rk len] by (auto simp: in_set_conv_nth)
    then show ?thesis using best [of j] ranked_nth(2) [OF rk len, of j] c(2) rec
      by (simp add: recommendation_def)
  qed
  moreover have "pd_disposition (dr_policy r) \<noteq> BLOCK" using i pol by (simp add: first_index_Some)
  moreover have "rec_expected_recovered_paise (dr_recommendation r) \<le> dc_amount_at_risk_paise x"
    using decide_selected [OF assms] by metis
  ultimately show ?thesis by blast
qed

text \<open>
  The audit trail of a decision is complete. The ranked candidates are numbered from 1
  without gaps, are exactly the technically eligible actions, one of them is selected and is
  the recommended action with the recorded policy, and every other one is listed as a
  rejected alternative.
\<close>

theorem decide_audit_complete:
  assumes "decide zones scorer x g = Inr r"
  shows "map rk_rank (dr_ranked_candidates r) = [1..<length (dr_ranked_candidates r) + 1]
    \<and> mset (map rk_candidate (dr_ranked_candidates r)) = mset (generate_technically_eligible_actions x)
    \<and> (\<exists>c. filter rk_selected (dr_ranked_candidates r) = [c] \<and> rk_policy c = dr_policy r
         \<and> cand_action_type (rk_candidate c) = rec_action (dr_recommendation r))
    \<and> length (rec_rejected_alternatives (dr_recommendation r))
        = length (generate_technically_eligible_actions x) - 1"
proof -
  let ?ranked = "dr_ranked_candidates r"
  obtain features pairs policies i where
    sr: "score_and_rank zones scorer x g = Inr (features, pairs, policies)"
    and i: "first_index (\<lambda>p. pd_disposition p \<noteq> BLOCK) policies = Some i"
    and rk: "traverseE (ranked_candidate i (pairs ! i)) (enumerate 0 (zip pairs policies))
       = Inr ?ranked"
    and rec: "dr_recommendation r = recommendation (pairs ! i) (policies ! i) ?ranked"
    and pol: "dr_policy r = policies ! i"
    using decide_Inr [OF assms] by metis
  obtain scores where sorted: "pairs = sort_key rank_key scores"
    and gen: "map fst scores = generate_technically_eligible_actions x"
    and tr: "traverseE (candidate_policy zones g x) pairs = Inr policies"
    using score_and_rank_Inr [OF sr] by metis
  have len: "length policies = length pairs" using tr by (simp add: traverseE_Inr)
  note nth = ranked_nth [OF rk len]
  have il: "i < length ?ranked" using i len nth(1) by (simp add: first_index_Some)
  have ranks: "map rk_rank ?ranked = [1..<length ?ranked + 1]"
    by (rule nth_equalityI) (use nth in \<open>auto simp del: upt_Suc\<close>)
  have "map rk_candidate ?ranked = map fst pairs"
    by (rule nth_equalityI) (use nth in auto)
  then have perm: "mset (map rk_candidate ?ranked) = mset (generate_technically_eligible_actions x)"
    unfolding gen [symmetric] sorted by simp
  then have size: "length ?ranked = length (generate_technically_eligible_actions x)"
    by (metis length_map size_mset)
  have sel: "rk_selected (?ranked ! j) \<longleftrightarrow> j = i" if "j < length ?ranked" for j
    using nth that by simp
  have "filter rk_selected ?ranked = [?ranked ! i]"
    using il sel by (rule filter_single_index)
  then have one: "length (filter rk_selected ?ranked) = 1" by simp
  have "length (filter (\<lambda>c. \<not> rk_selected c) ?ranked) = length ?ranked - 1"
    using one sum_length_filter_compl [of rk_selected ?ranked] by simp
  then have "length (rec_rejected_alternatives (dr_recommendation r))
      = length (generate_technically_eligible_actions x) - 1"
    using rec size by (simp add: recommendation_def rejected_alternatives_def)
  moreover have "rk_policy (?ranked ! i) = dr_policy r
      \<and> cand_action_type (rk_candidate (?ranked ! i)) = rec_action (dr_recommendation r)"
    using nth(2) [of i] il nth(1) pol rec by (simp add: recommendation_def)
  ultimately show ?thesis using ranks perm \<open>filter rk_selected ?ranked = [?ranked ! i]\<close> by blast
qed

lemma candidate_policy_ok:
  assumes "validate_decision_context x = Inr x" and "zone_configured zones g"
    and "fst p \<in> set (generate_technically_eligible_actions x)"
  shows "\<exists>pd. candidate_policy zones g x p = Inr pd \<and> pd_reasons pd \<noteq> []"
proof -
  let ?c = "policy_context x (fst p)"
  from assms(1) have aware: "is_aware (ctx_now ?c)" and "validate_context ?c = Inr ?c"
    using eligible_surface_iff [OF assms(3)]
    by (auto simp: validate_decision_context_def validate_context_def policy_context_def
        require_aware_def bindE_guardE split: if_splits)
  moreover obtain d where d: "evaluate_safety_policy zones ?c g = Inr d"
    using evaluate_ok [OF aware assms(2)] by (auto simp: isOk_iff)
  moreover from evaluate_wf [OF d] have "validate_policy_decision (to_contract d) = Inr (to_contract d)"
    "pd_reasons (to_contract d) \<noteq> []"
    by (auto simp: decision_wf_def validate_policy_decision_def to_contract_def)
  ultimately show ?thesis by (simp add: candidate_policy_def)
qed

text \<open>A scorer that answers every request about this amount within its contract.\<close>

definition scorer_contract :: "scorer \<Rightarrow> paise \<Rightarrow> bool" where
  "scorer_contract scorer amount \<longleftrightarrow> (\<forall>q. sq_amount_at_risk_paise q = amount \<longrightarrow>
     (case scorer q of Inl _ \<Rightarrow> False
      | Inr s \<Rightarrow> valid_score s \<and> sc_expected_recovered_paise s \<le> amount))"

lemma scorer_contractD:
  "scorer_contract scorer amount \<Longrightarrow> sq_amount_at_risk_paise q = amount \<Longrightarrow>
     \<exists>s. scorer q = Inr s \<and> valid_score s \<and> sc_expected_recovered_paise s \<le> amount"
  by (cases "scorer q") (auto simp: scorer_contract_def split: sum.splits)

lemma feature_snapshot_ok:
  assumes "is_aware (dc_now x)" and "zone_configured zones g"
  shows "isOk (feature_snapshot zones x g)"
proof -
  have "isOk (case quiet_hours_delay_until (dc_now x) tz s e of
      Inl err \<Rightarrow> Inl (Policy_Raised err) | Inr q \<Rightarrow> Inr (q \<noteq> None))" if "zone_resolves tz" for tz s e
    using quiet_hours_ok [OF assms(1) that, of s e] by (auto simp: isOk_iff)
  then show ?thesis using assms(2)
    by (auto simp: feature_snapshot_def zone_configured_def intro!: isOk_bindE split: option.splits)
qed

lemma score_and_rank_ok:
  assumes valid: "validate_decision_context x = Inr x"
    and zone: "zone_configured zones g"
    and scorer: "scorer_contract scorer (dc_amount_at_risk_paise x)"
  shows "\<exists>features pairs policies. score_and_rank zones scorer x g = Inr (features, pairs, policies)
    \<and> (\<forall>p \<in> set pairs. valid_score (snd p)) \<and> (\<forall>pd \<in> set policies. pd_reasons pd \<noteq> [])"
proof -
  let ?gen = "generate_technically_eligible_actions x"
  have aware: "is_aware (dc_now x)" using valid by (auto simp: validate_decision_context_def split: if_splits)
  obtain features where features: "feature_snapshot zones x g = Inr features"
    using feature_snapshot_ok [OF aware zone] that by (auto simp: isOk_iff)
  have one: "\<exists>s. score_candidate scorer x features k = Inr (k, s) \<and> valid_score s
      \<and> sc_expected_recovered_paise s \<le> dc_amount_at_risk_paise x" for k
    using scorer_contractD [OF scorer, of "score_request x features k"]
    by (auto simp: score_candidate_def score_request_def)
  then have "isOk (traverseE (score_candidate scorer x features) ?gen)"
    by (intro traverseE_ok) (metis isOk_simps(1))
  then obtain scores where scores: "traverseE (score_candidate scorer x features) ?gen = Inr scores"
    by (auto simp: isOk_iff)
  have good: "valid_score (snd p) \<and> sc_expected_recovered_paise (snd p) \<le> dc_amount_at_risk_paise x
      \<and> fst p \<in> set ?gen" if p: "p \<in> set scores" for p
  proof -
    obtain k where "k \<in> set ?gen" "score_candidate scorer x features k = Inr p"
      using traverseE_set [OF scores p] by blast
    with one [of k] show ?thesis by auto
  qed
  let ?pairs = "sort_key rank_key scores"
  have pol: "\<exists>pd. candidate_policy zones g x p = Inr pd \<and> pd_reasons pd \<noteq> []" if "p \<in> set ?pairs" for p
    using candidate_policy_ok [OF valid zone] good that by simp
  then have "isOk (traverseE (candidate_policy zones g x) ?pairs)"
    by (intro traverseE_ok) (metis isOk_simps(1))
  then obtain policies where policies: "traverseE (candidate_policy zones g x) ?pairs = Inr policies"
    by (auto simp: isOk_iff)
  have "pd_reasons pd \<noteq> []" if mem: "pd \<in> set policies" for pd
  proof -
    obtain q where "q \<in> set ?pairs" "candidate_policy zones g x q = Inr pd"
      using traverseE_set [OF policies mem] by blast
    then show ?thesis using pol [of q] by simp
  qed
  moreover have "score_and_rank zones scorer x g = Inr (features, ?pairs, policies)"
    using good policies features scores by (auto simp: score_and_rank_def Let_def not_less)
  ultimately show ?thesis using good by auto
qed

lemma decide_returns:
  assumes "validate_decision_context x = Inr x"
    and "zone_configured zones g"
    and "scorer_contract scorer (dc_amount_at_risk_paise x)"
  shows "\<exists>r. decide zones scorer x g = Inr r"
proof -
  obtain features pairs policies where
    sr: "score_and_rank zones scorer x g = Inr (features, pairs, policies)"
    and vs: "\<forall>p \<in> set pairs. valid_score (snd p)" and rs: "\<forall>pd \<in> set policies. pd_reasons pd \<noteq> []"
    using score_and_rank_ok [OF assms] by blast
  obtain scores where sorted: "pairs = sort_key rank_key scores"
    and gen: "map fst scores = generate_technically_eligible_actions x"
    and tr: "traverseE (candidate_policy zones g x) pairs = Inr policies"
    using score_and_rank_Inr [OF sr] by metis
  have mem: "fst ` set pairs = set (generate_technically_eligible_actions x)"
    unfolding gen [symmetric] sorted by simp
  then have "\<exists>p \<in> set pairs. cand_action_type (fst p) \<in> TERMINAL_CONTROL_ACTIONS"
    using controls_eligible(2) [of x] by (force simp: TERMINAL_CONTROL_ACTIONS_def)
  then obtain i where i: "first_index (\<lambda>p. pd_disposition p \<noteq> BLOCK) policies = Some i" "i < length pairs"
    using engine_gate.first_pass_exists [OF tr] by blast
  have "isOk (traverseE (ranked_candidate i (pairs ! i)) (enumerate 0 (zip pairs policies)))"
  proof (rule traverseE_ok)
    fix z assume "z \<in> set (enumerate 0 (zip pairs policies))"
    then have "snd z \<in> set (zip pairs policies)" by (rule snd_in_enumerate)
    then have "snd (snd z) \<in> set policies" by (metis prod.collapse set_zip_rightD)
    moreover obtain j p pd where "z = (j, p, pd)" by (rule prod_cases3)
    ultimately show "isOk (ranked_candidate i (pairs ! i) z)"
      using rs by (auto simp: ranked_candidate_def rejection_def split: list.splits)
  qed
  then obtain ranked where
    ranked: "traverseE (ranked_candidate i (pairs ! i)) (enumerate 0 (zip pairs policies)) = Inr ranked"
    by (auto simp: isOk_iff)
  have "valid_score (snd (pairs ! i))" "fst (pairs ! i) \<in> set (generate_technically_eligible_actions x)"
    using vs i(2) mem by auto
  then have "validate_recommendation (recommendation (pairs ! i) (policies ! i) ranked)
      = Inr (recommendation (pairs ! i) (policies ! i) ranked)"
    using eligible_surface_iff [of "fst (pairs ! i)" x]
    by (auto simp: validate_recommendation_def recommendation_def valid_score_def)
  then show ?thesis using sr i ranked by (simp add: decide_def)
qed

text \<open>
  The engine always decides. For a validated context, a known time zone in which the end of
  quiet hours resolves, and a scorer that answers every request within its contract, \<open>decide\<close>
  returns a recommendation: no policy verdict raises and the walk down the ranking always finds
  an action that is not blocked.
\<close>

theorem decide_total:
  assumes "validate_decision_context x = Inr x"
    and "zone_configured zones g"
    and "scorer_contract scorer (dc_amount_at_risk_paise x)"
  shows "\<exists>r. decide zones scorer x g = Inr r"
  using assms by (rule decide_returns)

text \<open>
  The policy context of a candidate counts no contact attempts, so a limit of one or more is
  not reached, whatever was sent before.
\<close>

lemma evaluate_ignores_contact_limit:
  assumes "\<forall>n. cfg_max_contacts_per_window g = Some n \<longrightarrow> 1 \<le> n"
  shows "evaluate_safety_policy zones (policy_context x k) (g\<lparr>cfg_max_contacts_per_window := None\<rparr>)
    = evaluate_safety_policy zones (policy_context x k) g"
proof -
  let ?g = "g\<lparr>cfg_max_contacts_per_window := None\<rparr>" and ?c = "policy_context x k"
  have version: "safety_decision ?g = safety_decision g"
    by (intro ext) (simp add: safety_decision_def)
  have "contact_limit_rule ?c g = Inr None"
    using assms by (cases "cfg_max_contacts_per_window g") (auto simp: contact_limit_rule_def policy_context_def)
  moreover have "contact_limit_rule ?c ?g = Inr None" by (simp add: contact_limit_rule_def)
  moreover have "kill_switch_rule ?c ?g = kill_switch_rule ?c g"
    "terminal_state_rule ?c ?g = terminal_state_rule ?c g"
    "suppression_rule ?c ?g = suppression_rule ?c g" "deadline_rule ?c ?g = deadline_rule ?c g"
    "gateway_retry_rule ?c ?g = gateway_retry_rule ?c g"
    "quiet_hours_rule zones ?c ?g = quiet_hours_rule zones ?c g"
    by (simp_all add: rule_defs version cong: option.case_cong if_cong)
  moreover have "approval_or_allow ?c ?g = approval_or_allow ?c g"
    by (simp add: approval_or_allow_def approval_reasons_def version cong: option.case_cong list.case_cong if_cong)
  ultimately show ?thesis by (simp add: evaluate_safety_policy_def)
qed

lemma validate_context_id: "validate_context c = Inr c' \<Longrightarrow> c' = c"
  by (auto simp: validate_context_def result_simps split: if_splits)

text \<open>
  The merchant's contact limit decides nothing. For every configuration that passes
  validation, with any limit on contacts per window, the engine decides exactly as it does
  without a limit: no history of contacts makes it refuse one more.
\<close>

theorem contact_limit_has_no_effect:
  assumes "validate_config zones g = Inr g"
  shows "decide zones scorer x (g\<lparr>cfg_max_contacts_per_window := None\<rparr>) = decide zones scorer x g"
proof -
  let ?g = "g\<lparr>cfg_max_contacts_per_window := None\<rparr>"
  have "\<forall>n. cfg_max_contacts_per_window g = Some n \<longrightarrow> 1 \<le> n"
    using assms by (auto simp: validate_config_def split: if_splits option.splits)
  then have "evaluate_safety_policy zones (policy_context x k) ?g
      = evaluate_safety_policy zones (policy_context x k) g" for k
    by (rule evaluate_ignores_contact_limit)
  then have "candidate_policy zones ?g x p = candidate_policy zones g x p" for p
    by (cases "validate_context (policy_context x (fst p))")
      (auto simp: candidate_policy_def dest!: validate_context_id)
  then have policy: "candidate_policy zones ?g x = candidate_policy zones g x" by (rule ext)
  have features: "feature_snapshot zones x ?g = feature_snapshot zones x g"
    by (simp add: feature_snapshot_def cong: option.case_cong)
  show ?thesis unfolding decide_def score_and_rank_def policy features ..
qed

section \<open>A concrete decision\<close>

definition even_scorer :: scorer where
  "even_scorer q = Inr \<lparr>sc_model_name = ''recoverybench-deterministic'',
     sc_model_version = ''deterministic.v1'', sc_artifact_checksum = None,
     sc_recovery_probability = 1 / 2,
     sc_expected_recovered_paise = sq_amount_at_risk_paise q div 2,
     sc_expected_utility_paise = sq_amount_at_risk_paise q div 2, sc_explanation = []\<rparr>"

definition sample_decision_context :: "ContactDisposition \<Rightarrow> RecoveryDecisionContext" where
  "sample_decision_context contact =
     \<lparr>dc_case_id = ''case_1'', dc_amount_at_risk_paise = 250000,
      dc_diagnosis = INSUFFICIENT_FUNDS, dc_case_outcome = Case_OPEN,
      dc_payment_state = Pay_FAILED, dc_subscription_state = Sub_PENDING,
      dc_contact_disposition = contact, dc_recovery_deadline = Aware (days 3) 0,
      dc_now = Aware (hours 12) 0, dc_has_failed_invoice = True,
      dc_active_gateway_retries = False, dc_standard_payment_link_available = True,
      dc_voice_action_available = True, dc_voice_consent = True,
      dc_voice_destination_available = True, dc_customer_agent_action_available = False,
      dc_customer_agent_available = False, dc_model_features = None\<rparr>"

lemma even_scorer_contract: "scorer_contract even_scorer 250000"
  by (auto simp: scorer_contract_def even_scorer_def valid_score_def)

lemma sample_decision_valid:
  "validate_decision_context (sample_decision_context c) = Inr (sample_decision_context c)"
  by (simp add: validate_decision_context_def sample_decision_context_def)

lemma kolkata_configured: "zone_configured kolkata_zones default_config"
  by (simp add: zone_configured_def kolkata_zones_def default_config_def)

lemma sample_decision:
  "\<exists>r. decide kolkata_zones even_scorer (sample_decision_context c) default_config = Inr r"
  by (rule decide_returns [OF sample_decision_valid kolkata_configured])
     (simp add: sample_decision_context_def even_scorer_contract)

theorem decide_total_witness:
  "\<exists>r. decide kolkata_zones even_scorer (sample_decision_context NOT_CONTACTED) default_config = Inr r"
  by (rule decide_total [OF sample_decision_valid kolkata_configured])
     (simp add: sample_decision_context_def even_scorer_contract)

theorem scorer_cannot_bypass_policy_witness:
  "\<exists>r. decide kolkata_zones even_scorer (sample_decision_context OPTED_OUT) default_config = Inr r
     \<and> rec_action (dr_recommendation r) \<notin> CUSTOMER_CONTACT_ACTIONS"
proof -
  obtain r where r: "decide kolkata_zones even_scorer (sample_decision_context OPTED_OUT)
      default_config = Inr r" using sample_decision by blast
  from scorer_cannot_bypass_policy [OF r] r show ?thesis by (simp add: sample_decision_context_def)
qed

theorem decide_max_policy_eligible_utility_witness:
  "\<exists>r. decide kolkata_zones even_scorer (sample_decision_context NOT_CONTACTED) default_config = Inr r
     \<and> pd_disposition (dr_policy r) \<noteq> BLOCK
     \<and> rec_expected_recovered_paise (dr_recommendation r) \<le> 250000"
proof -
  obtain r where r: "decide kolkata_zones even_scorer (sample_decision_context NOT_CONTACTED)
      default_config = Inr r" using sample_decision by blast
  from decide_max_policy_eligible_utility [OF r] r show ?thesis
    by (simp add: sample_decision_context_def)
qed

theorem decide_audit_complete_witness:
  "\<exists>r. decide kolkata_zones even_scorer (sample_decision_context NOT_CONTACTED) default_config = Inr r
     \<and> length (rec_rejected_alternatives (dr_recommendation r)) = 5"
proof -
  obtain r where r: "decide kolkata_zones even_scorer (sample_decision_context NOT_CONTACTED)
      default_config = Inr r" using sample_decision by blast
  have "length (generate_technically_eligible_actions (sample_decision_context NOT_CONTACTED)) = 6"
    by (simp add: generate_technically_eligible_actions_def surface_candidates_def
        eligible_surfaces_def sample_decision_context_def NON_CUSTOMER_REMEDIABLE_def)
  with decide_audit_complete [OF r] r show ?thesis by simp
qed

theorem contact_limit_has_no_effect_witness:
  "validate_config kolkata_zones (default_config\<lparr>cfg_max_contacts_per_window := Some 1\<rparr>)
     = Inr (default_config\<lparr>cfg_max_contacts_per_window := Some 1\<rparr>)
   \<and> decide kolkata_zones even_scorer (sample_decision_context NOT_CONTACTED)
       (default_config\<lparr>cfg_max_contacts_per_window := None\<rparr>)
     = decide kolkata_zones even_scorer (sample_decision_context NOT_CONTACTED)
       (default_config\<lparr>cfg_max_contacts_per_window := Some 1\<rparr>)"
proof -
  have "validate_config kolkata_zones (default_config\<lparr>cfg_max_contacts_per_window := Some 1\<rparr>)
     = Inr (default_config\<lparr>cfg_max_contacts_per_window := Some 1\<rparr>)"
    by (simp add: validate_config_def kolkata_zones_def default_config_def duration_defs)
  from contact_limit_has_no_effect [OF this, of even_scorer "sample_decision_context NOT_CONTACTED"] this
  show ?thesis by simp
qed

end
