(* ===== verification/Circuit_Breaker.thy ===== *)
theory Circuit_Breaker
  imports Prelude
begin

text \<open>
  \<open>services/api/app/reliability/circuit_breaker.py\<close> and \<open>registry.py\<close>: the provider circuit
  breaker and the process-level registry that owns the breakers.

  A breaker is a record; a method is a function that returns the updated record with its result.
  The injected clock is the reading it returns, an argument of the methods that call \<open>_now()\<close>.
  A breaker object handed out by the registry is the key under which the registry stores it.
\<close>

section \<open>State and results\<close>

datatype CircuitState = CLOSED | OPEN | HALF_OPEN

datatype FailureKind = RETRYABLE | PERMANENT | UNCERTAIN_SUBMISSION

record FallbackReason =
  fr_code :: string
  fr_provider :: string
  fr_operation :: string
  fr_state :: CircuitState
  fr_failure_count :: int
  fr_retry_after_seconds :: "int option"
  fr_requires_reconciliation :: bool
  fr_automatic_retry_permitted :: bool

record BreakerDecision =
  bd_allowed :: bool
  bd_reason :: "FallbackReason option"

record CircuitBreaker =
  cb_provider :: string
  cb_operation :: string
  cb_failure_threshold :: int
  cb_recovery_timeout :: int
  cb_state :: CircuitState
  cb_failure_count :: int
  cb_opened_at :: "instant option"
  cb_probe_in_flight :: bool
  cb_uncertain :: bool

datatype breaker_error = Threshold_Not_Positive | Timeout_Not_Positive | Clock_Not_Aware
  | No_Uncertain_Submission

section \<open>Operations\<close>

definition new_breaker :: "string \<Rightarrow> string \<Rightarrow> int \<Rightarrow> int \<Rightarrow> breaker_error + CircuitBreaker" where
  "new_breaker provider operation failure_threshold recovery_timeout =
     (if failure_threshold < 1 then Inl Threshold_Not_Positive
      else if recovery_timeout \<le> 0 then Inl Timeout_Not_Positive
      else Inr \<lparr>cb_provider = py_lower provider, cb_operation = py_lower operation,
                cb_failure_threshold = failure_threshold, cb_recovery_timeout = recovery_timeout,
                cb_state = CLOSED, cb_failure_count = 0, cb_opened_at = None,
                cb_probe_in_flight = False, cb_uncertain = False\<rparr>)"

definition breaker_now :: "datetime \<Rightarrow> breaker_error + instant" where
  "breaker_now reading = (if is_aware reading then Inr (utc_instant reading) else Inl Clock_Not_Aware)"

definition breaker_code :: "CircuitBreaker \<Rightarrow> string \<Rightarrow> string" where
  "breaker_code b suffix =
     map (\<lambda>c. if c = CHR ''-'' then CHR ''_'' else c)
       (py_upper (cb_provider b @ ''_'' @ cb_operation b @ ''_'' @ suffix))"

definition suffix_uncertain :: string where
  "suffix_uncertain = ''SUBMISSION_UNCERTAIN_RECONCILE_REQUIRED''"

text \<open>\<open>max(0, int(remaining.total_seconds()))\<close>: truncation and floor agree above zero.\<close>

definition fallback_reason :: "CircuitBreaker \<Rightarrow> instant \<Rightarrow> FallbackReason" where
  "fallback_reason b now =
     (let uncertain = cb_uncertain b;
          retry_after =
            (if uncertain then None
             else map_option (\<lambda>opened. max 0 ((cb_recovery_timeout b - (now - opened))
                                              div micros_per_second)) (cb_opened_at b))
      in \<lparr>fr_code = breaker_code b (if uncertain then suffix_uncertain else ''CIRCUIT_OPEN''),
          fr_provider = cb_provider b, fr_operation = cb_operation b, fr_state = cb_state b,
          fr_failure_count = cb_failure_count b, fr_retry_after_seconds = retry_after,
          fr_requires_reconciliation = uncertain,
          fr_automatic_retry_permitted = (\<not> uncertain)\<rparr>)"

definition open_breaker :: "CircuitBreaker \<Rightarrow> instant \<Rightarrow> CircuitBreaker" where
  "open_breaker b now = b\<lparr>cb_state := OPEN, cb_opened_at := Some now\<rparr>"

definition half_open_when_due :: "CircuitBreaker \<Rightarrow> instant \<Rightarrow> CircuitBreaker" where
  "half_open_when_due b now =
     (if cb_state b = OPEN \<and> \<not> cb_uncertain b then
        (case cb_opened_at b of
           None \<Rightarrow> b
         | Some opened \<Rightarrow>
             if now - opened \<ge> cb_recovery_timeout b
             then b\<lparr>cb_state := HALF_OPEN, cb_probe_in_flight := False\<rparr> else b)
      else b)"

definition before_call ::
    "datetime \<Rightarrow> CircuitBreaker \<Rightarrow> breaker_error + BreakerDecision \<times> CircuitBreaker" where
  "before_call reading b0 =
     bindE (breaker_now reading) (\<lambda>now.
       let b = half_open_when_due b0 now in
       if cb_state b = CLOSED then Inr (\<lparr>bd_allowed = True, bd_reason = None\<rparr>, b)
       else if cb_state b = HALF_OPEN \<and> \<not> cb_probe_in_flight b
       then Inr (\<lparr>bd_allowed = True, bd_reason = None\<rparr>, b\<lparr>cb_probe_in_flight := True\<rparr>)
       else Inr (\<lparr>bd_allowed = False, bd_reason = Some (fallback_reason b now)\<rparr>, b))"

definition record_success :: "CircuitBreaker \<Rightarrow> CircuitBreaker" where
  "record_success b =
     b\<lparr>cb_state := CLOSED, cb_failure_count := 0, cb_opened_at := None,
       cb_probe_in_flight := False, cb_uncertain := False\<rparr>"

definition permanent_rejection :: "CircuitBreaker \<Rightarrow> FallbackReason" where
  "permanent_rejection b =
     \<lparr>fr_code = breaker_code b ''PERMANENT_REJECTION'', fr_provider = cb_provider b,
      fr_operation = cb_operation b, fr_state = cb_state b,
      fr_failure_count = cb_failure_count b, fr_retry_after_seconds = None,
      fr_requires_reconciliation = False, fr_automatic_retry_permitted = False\<rparr>"

definition record_failure ::
    "datetime \<Rightarrow> FailureKind \<Rightarrow> CircuitBreaker
       \<Rightarrow> breaker_error + FallbackReason option \<times> CircuitBreaker" where
  "record_failure reading kind b0 =
     bindE (breaker_now reading) (\<lambda>now.
       let b = b0\<lparr>cb_probe_in_flight := False\<rparr> in
       if kind = PERMANENT then Inr (Some (permanent_rejection b), b)
       else
         let b = b\<lparr>cb_failure_count := cb_failure_count b + 1\<rparr> in
         if kind = UNCERTAIN_SUBMISSION then
           let b = open_breaker (b\<lparr>cb_uncertain := True\<rparr>) now in
           Inr (Some (fallback_reason b now), b)
         else if cb_state b = HALF_OPEN \<or> cb_failure_count b \<ge> cb_failure_threshold b then
           let b = open_breaker b now in Inr (Some (fallback_reason b now), b)
         else Inr (None, b))"

definition reconcile_uncertain :: "bool \<Rightarrow> CircuitBreaker \<Rightarrow> breaker_error + CircuitBreaker" where
  "reconcile_uncertain provider_confirmed_absent b =
     (if \<not> cb_uncertain b then Inl No_Uncertain_Submission
      else if \<not> provider_confirmed_absent then Inr (record_success b)
      else Inr (record_success b))"

section \<open>The registry\<close>

type_synonym breaker_key = "string \<times> string \<times> string"
type_synonym breaker_registry = "breaker_key \<rightharpoonup> CircuitBreaker"

definition registry_key :: "string \<Rightarrow> string \<Rightarrow> string \<Rightarrow> breaker_key" where
  "registry_key provider operation scope = (py_lower provider, py_lower operation, scope)"

definition registry_get ::
    "string \<Rightarrow> string \<Rightarrow> string \<Rightarrow> int \<Rightarrow> int \<Rightarrow> breaker_registry
       \<Rightarrow> breaker_error + breaker_key \<times> breaker_registry" where
  "registry_get provider operation scope failure_threshold recovery_timeout reg =
     (let key = registry_key provider operation scope in
      case reg key of
        Some _ \<Rightarrow> Inr (key, reg)
      | None \<Rightarrow> bindE (new_breaker provider operation failure_threshold recovery_timeout)
                  (\<lambda>b. Inr (key, reg(key \<mapsto> b))))"

section \<open>Histories\<close>

text \<open>
  A caller drives the breaker with its four methods. A method that raises leaves the breaker as
  it was: every raise of the code comes before the first assignment.
\<close>

datatype breaker_op = Before_Call datetime | Record_Success | Record_Failure datetime FailureKind
  | Reconcile bool

fun breaker_step :: "breaker_op \<Rightarrow> CircuitBreaker \<Rightarrow> bool \<times> CircuitBreaker" where
  "breaker_step (Before_Call t) b =
     (case before_call t b of Inl _ \<Rightarrow> (False, b) | Inr (d, b') \<Rightarrow> (bd_allowed d, b'))"
| "breaker_step Record_Success b = (False, record_success b)"
| "breaker_step (Record_Failure t kind) b =
     (case record_failure t kind b of Inl _ \<Rightarrow> (False, b) | Inr (_, b') \<Rightarrow> (False, b'))"
| "breaker_step (Reconcile absent) b =
     (case reconcile_uncertain absent b of Inl _ \<Rightarrow> (False, b) | Inr b' \<Rightarrow> (False, b'))"

fun breaker_run :: "breaker_op list \<Rightarrow> CircuitBreaker \<Rightarrow> bool list \<times> CircuitBreaker" where
  "breaker_run [] b = ([], b)"
| "breaker_run (p # ps) b =
     (let (allowed, b') = breaker_step p b; (rest, b'') = breaker_run ps b'
      in (allowed # rest, b''))"

definition resolves :: "breaker_op \<Rightarrow> bool" where
  "resolves p = (case p of Record_Success \<Rightarrow> True | Reconcile _ \<Rightarrow> True | _ \<Rightarrow> False)"

definition reports :: "breaker_op \<Rightarrow> bool" where
  "reports p = (case p of Before_Call _ \<Rightarrow> False | _ \<Rightarrow> True)"

section \<open>Invariant\<close>

text \<open>
  A closed breaker has no opening time, no probe and fewer failures than the threshold; an open
  or half-open one has an opening time; an uncertain one is open.
\<close>

definition breaker_inv :: "CircuitBreaker \<Rightarrow> bool" where
  "breaker_inv b \<longleftrightarrow> 1 \<le> cb_failure_threshold b \<and> 0 < cb_recovery_timeout b
     \<and> 0 \<le> cb_failure_count b
     \<and> (cb_state b = CLOSED \<longrightarrow> cb_opened_at b = None \<and> \<not> cb_probe_in_flight b
          \<and> cb_failure_count b < cb_failure_threshold b)
     \<and> (cb_state b \<noteq> CLOSED \<longrightarrow> cb_opened_at b \<noteq> None)
     \<and> (cb_state b = OPEN \<longrightarrow> \<not> cb_probe_in_flight b)
     \<and> (cb_uncertain b \<longrightarrow> cb_state b = OPEN)"

lemmas breaker_defs = before_call_def record_failure_def reconcile_uncertain_def
  record_success_def half_open_when_due_def open_breaker_def breaker_now_def Let_def

lemma new_breaker_inv: "new_breaker p q n t = Inr b \<Longrightarrow> breaker_inv b"
  by (auto simp: new_breaker_def breaker_inv_def split: if_splits)

lemma before_call_inv: "before_call t b = Inr (d, b') \<Longrightarrow> breaker_inv b \<Longrightarrow> breaker_inv b'"
  by (auto simp: breaker_defs breaker_inv_def result_simps split: if_splits option.splits)

lemma record_success_inv: "breaker_inv b \<Longrightarrow> breaker_inv (record_success b)"
  by (simp add: record_success_def breaker_inv_def)

lemma record_failure_inv: "record_failure t k b = Inr (r, b') \<Longrightarrow> breaker_inv b \<Longrightarrow> breaker_inv b'"
  by (cases k; cases "cb_state b")
     (auto simp: breaker_defs breaker_inv_def result_simps split: if_splits)

lemma breaker_step_inv: "breaker_inv b \<Longrightarrow> breaker_inv (snd (breaker_step p b))"
  by (cases p)
     (auto simp: reconcile_uncertain_def intro: before_call_inv record_success_inv record_failure_inv
       split: sum.splits)

lemma breaker_run_inv: "breaker_inv b \<Longrightarrow> breaker_inv (snd (breaker_run ps b))"
proof (induction ps arbitrary: b)
  case (Cons p ps)
  have "breaker_inv (snd (breaker_step p b))" using Cons.prems by (rule breaker_step_inv)
  from Cons.IH [OF this] show ?case by (simp add: split_beta Let_def)
qed simp

text \<open>What a call that is let through, and one that is turned away, says of the state.\<close>

lemma before_call_uncertain:
  "breaker_inv b \<Longrightarrow> cb_uncertain b \<Longrightarrow> before_call t b = Inr (d, b') \<Longrightarrow>
     b' = b \<and> \<not> bd_allowed d \<and> (\<exists>r. bd_reason d = Some r \<and> fr_requires_reconciliation r
        \<and> \<not> fr_automatic_retry_permitted r)"
  by (auto simp: breaker_defs breaker_inv_def result_simps fallback_reason_def split: if_splits)

lemma uncertain_step:
  assumes "breaker_inv b" and "cb_uncertain b" and "\<not> resolves p"
  shows "cb_uncertain (snd (breaker_step p b)) \<and> \<not> fst (breaker_step p b)"
proof (cases p)
  case (Before_Call t)
  then show ?thesis using before_call_uncertain [OF assms(1,2), of t] assms(2)
    by (auto split: sum.splits)
next
  case (Record_Failure t k)
  then show ?thesis using assms(2)
    by (auto simp: breaker_defs result_simps split: sum.splits if_splits)
qed (use assms(3) in \<open>simp_all add: resolves_def\<close>)

text \<open>
  An uncertain submission is never retried automatically. From any state the breaker can be
  in, once a submission is recorded as uncertain, every later call is turned away, however much
  time passes and whatever other failures are recorded, until a success is recorded or the
  uncertain submission is reconciled with the provider.
\<close>

theorem uncertain_never_retried:
  assumes "breaker_inv b" and "record_failure t UNCERTAIN_SUBMISSION b = Inr (r, b')"
    and "\<forall>p \<in> set ps. \<not> resolves p"
  shows "fst (breaker_run ps b') = replicate (length ps) False
    \<and> cb_uncertain (snd (breaker_run ps b'))"
proof -
  have inv: "breaker_inv b'" using record_failure_inv assms(1,2) by blast
  have unc: "cb_uncertain b'"
    using assms(2) by (auto simp: breaker_defs result_simps)
  show ?thesis using inv unc assms(3)
  proof (induction ps arbitrary: b')
    case (Cons p ps)
    then show ?case
      using uncertain_step [of b' p] breaker_step_inv [of b' p] by (simp add: split_beta Let_def)
  qed simp
qed

definition sample_breaker :: CircuitBreaker where
  "sample_breaker =
     \<lparr>cb_provider = ''razorpay'', cb_operation = ''payment-link'', cb_failure_threshold = 3,
      cb_recovery_timeout = seconds 30, cb_state = CLOSED, cb_failure_count = 0,
      cb_opened_at = None, cb_probe_in_flight = False, cb_uncertain = False\<rparr>"

lemma sample_breaker_inv: "breaker_inv sample_breaker"
  by (simp add: breaker_inv_def sample_breaker_def duration_defs)

lemma sample_uncertain:
  "\<exists>r b'. record_failure (Aware 0 0) UNCERTAIN_SUBMISSION sample_breaker = Inr (r, b')"
  by (simp add: breaker_defs)

theorem uncertain_never_retried_witness:
  "\<exists>r b'. record_failure (Aware 0 0) UNCERTAIN_SUBMISSION sample_breaker = Inr (r, b')
     \<and> fst (breaker_run [Before_Call (Aware (days 1) 0), Record_Failure (Aware (days 1) 0) RETRYABLE,
           Before_Call (Aware (days 2) 0)] b') = [False, False, False]"
proof -
  obtain r b' where f: "record_failure (Aware 0 0) UNCERTAIN_SUBMISSION sample_breaker = Inr (r, b')"
    using sample_uncertain by blast
  with uncertain_never_retried [OF sample_breaker_inv f, of "[Before_Call (Aware (days 1) 0),
      Record_Failure (Aware (days 1) 0) RETRYABLE, Before_Call (Aware (days 2) 0)]"]
  show ?thesis by (auto simp: resolves_def numeral_3_eq_3)
qed

text \<open>
  The uncertainty is a flag of the breaker, not of the submission. Of two calls in flight at
  once, the success of one clears the uncertainty the other has just recorded, and the breaker
  lets the next call through with nothing reconciled.
\<close>

theorem concurrent_success_clears_uncertainty:
  "fst (breaker_run [Before_Call (Aware 0 0), Before_Call (Aware 0 0),
      Record_Failure (Aware 0 0) UNCERTAIN_SUBMISSION, Record_Success, Before_Call (Aware 0 0)]
      sample_breaker) = [True, True, False, False, True]"
  by (simp add: breaker_defs sample_breaker_def)

section \<open>One probe at a time\<close>

lemma blocked_while_probing:
  assumes "cb_state b = HALF_OPEN" "cb_probe_in_flight b" "\<not> reports p"
  shows "breaker_step p b = (False, b)"
  using assms by (cases p) (auto simp: breaker_defs reports_def split: sum.splits)

lemma allowed_opens_probe:
  assumes "cb_state b \<noteq> CLOSED" "breaker_step p b = (True, b')"
  shows "cb_state b' = HALF_OPEN \<and> cb_probe_in_flight b'"
  using assms
  by (cases p) (auto simp: breaker_defs result_simps split: sum.splits if_splits option.splits prod.splits)

text \<open>
  A tripped breaker lets one probe through. If the breaker is not closed and a call is let
  through, then no further call is let through, however late, until the outcome of that probe
  is reported.
\<close>

theorem half_open_single_probe:
  assumes "cb_state b \<noteq> CLOSED" and "before_call t b = Inr (d, b')" and "bd_allowed d"
    and "\<forall>p \<in> set ps. \<not> reports p"
  shows "breaker_run ps b' = (replicate (length ps) False, b')"
proof -
  have "breaker_step (Before_Call t) b = (True, b')" using assms(2,3) by simp
  from allowed_opens_probe [OF assms(1) this]
  have half: "cb_state b' = HALF_OPEN" "cb_probe_in_flight b'" by simp_all
  show ?thesis using assms(4)
    by (induction ps) (simp_all add: blocked_while_probing [OF half])
qed

definition tripped_breaker :: CircuitBreaker where
  "tripped_breaker = sample_breaker\<lparr>cb_state := OPEN, cb_failure_count := 3, cb_opened_at := Some 0\<rparr>"

theorem half_open_single_probe_witness:
  "\<exists>d b'. before_call (Aware (seconds 30) 0) tripped_breaker = Inr (d, b') \<and> bd_allowed d
     \<and> breaker_run [Before_Call (Aware (seconds 31) 0), Before_Call (Aware (days 1) 0)] b'
         = ([False, False], b')"
proof -
  obtain d b' where c: "before_call (Aware (seconds 30) 0) tripped_breaker = Inr (d, b')" "bd_allowed d"
    by (simp add: breaker_defs tripped_breaker_def sample_breaker_def)
  have "cb_state tripped_breaker \<noteq> CLOSED" by (simp add: tripped_breaker_def)
  from half_open_single_probe [OF this c, of "[Before_Call (Aware (seconds 31) 0),
      Before_Call (Aware (days 1) 0)]"] c
  show ?thesis by (auto simp: reports_def numeral_2_eq_2)
qed

section \<open>Tripping and recovering\<close>

lemma retryable_step:
  assumes "breaker_inv b" "cb_state b = CLOSED" "is_aware t"
  shows "snd (breaker_step (Record_Failure t RETRYABLE) b) =
    (if cb_failure_count b + 1 < cb_failure_threshold b
     then b\<lparr>cb_failure_count := cb_failure_count b + 1\<rparr>
     else b\<lparr>cb_failure_count := cb_failure_count b + 1, cb_state := OPEN,
            cb_opened_at := Some (utc_instant t)\<rparr>)"
  using assms by (auto simp: breaker_defs breaker_inv_def)

lemma closed_failures:
  assumes "breaker_inv b" "cb_state b = CLOSED" "is_aware t"
    and "cb_failure_count b + int n < cb_failure_threshold b"
  shows "snd (breaker_run (replicate n (Record_Failure t RETRYABLE)) b)
    = b\<lparr>cb_failure_count := cb_failure_count b + int n\<rparr>"
  using assms
proof (induction n arbitrary: b)
  case (Suc n)
  let ?b = "b\<lparr>cb_failure_count := cb_failure_count b + 1\<rparr>"
  have step: "snd (breaker_step (Record_Failure t RETRYABLE) b) = ?b"
    using retryable_step [OF Suc.prems(1,2,3)] Suc.prems(4) by simp
  have "breaker_inv ?b" using breaker_step_inv [OF Suc.prems(1), of "Record_Failure t RETRYABLE"]
    unfolding step .
  from Suc.IH [OF this] Suc.prems step show ?case by (simp add: split_beta Let_def algebra_simps)
qed simp

lemma breaker_run_append_snd:
  "snd (breaker_run (ps @ qs) b) = snd (breaker_run qs (snd (breaker_run ps b)))"
  by (induction ps arbitrary: b) (simp_all add: split_beta Let_def)

text \<open>
  The breaker trips at its threshold and recovers after its timeout. A fresh breaker that
  sees one retryable failure fewer than its threshold still lets calls through; the failure
  that reaches the threshold opens it; from then on a call is let through exactly when the
  recovery timeout has passed, and a call that is turned away is told to come back within the
  timeout.
\<close>

theorem breaker_trips_and_recovers:
  assumes "new_breaker provider operation (int n + 1) timeout = Inr b" and "is_aware t"
  shows "fst (breaker_step (Before_Call t')
            (snd (breaker_run (replicate n (Record_Failure t RETRYABLE)) b))) = is_aware t'
    \<and> (let tripped = snd (breaker_run (replicate (n + 1) (Record_Failure t RETRYABLE)) b) in
       cb_state tripped = OPEN
       \<and> (is_aware t' \<longrightarrow> (\<exists>d b'. before_call t' tripped = Inr (d, b')
          \<and> (bd_allowed d \<longleftrightarrow> utc_instant t' - utc_instant t \<ge> timeout)
          \<and> (\<not> bd_allowed d \<and> utc_instant t \<le> utc_instant t' \<longrightarrow>
               (\<exists>r s. bd_reason d = Some r \<and> fr_retry_after_seconds r = Some s
                  \<and> 0 \<le> s \<and> seconds s \<le> timeout)))))"
proof -
  let ?k = "Record_Failure t RETRYABLE"
  let ?a = "b\<lparr>cb_failure_count := int n\<rparr>"
  let ?z = "b\<lparr>cb_failure_count := int n + 1, cb_state := OPEN, cb_opened_at := Some (utc_instant t)\<rparr>"
  have b: "breaker_inv b" "cb_state b = CLOSED" "cb_failure_count b = 0"
    "cb_failure_threshold b = int n + 1" "\<not> cb_uncertain b" "\<not> cb_probe_in_flight b"
    "cb_recovery_timeout b = timeout" "0 < timeout"
    using new_breaker_inv [OF assms(1)] assms(1) by (auto simp: new_breaker_def split: if_splits)
  have before: "snd (breaker_run (replicate n ?k) b) = ?a"
    using closed_failures [OF b(1,2) assms(2), of n] b(3,4) by simp
  have "breaker_inv ?a" using breaker_run_inv [OF b(1), of "replicate n ?k"] unfolding before .
  then have "snd (breaker_step ?k ?a) = ?z"
    using retryable_step [of ?a t] b assms(2) by simp
  then have tripped: "snd (breaker_run (replicate (n + 1) ?k) b) = ?z"
    unfolding replicate_add breaker_run_append_snd before by (simp add: split_beta Let_def)
  have "fst (breaker_step (Before_Call t') ?a) = is_aware t'"
    using b(2) by (simp add: breaker_defs)
  moreover have "max 0 ((timeout - (utc_instant t' - utc_instant t)) div micros_per_second)
      * micros_per_second \<le> timeout" if "utc_instant t \<le> utc_instant t'"
  proof -
    let ?r = "timeout - (utc_instant t' - utc_instant t)"
    have "?r div micros_per_second * micros_per_second \<le> ?r"
      by (simp add: micros_per_second_def)
    with that b(8) show ?thesis by (cases "0 \<le> ?r div micros_per_second") (auto simp: max_def)
  qed
  ultimately show ?thesis unfolding before tripped using b
    by (auto simp: breaker_defs fallback_reason_def seconds_def)
qed

theorem breaker_trips_and_recovers_witness:
  "\<exists>b. new_breaker ''Razorpay'' ''payment-link'' 3 (seconds 30) = Inr b
     \<and> cb_state (snd (breaker_run (replicate 3 (Record_Failure (Aware 0 0) RETRYABLE)) b)) = OPEN"
proof -
  obtain b where b: "new_breaker ''Razorpay'' ''payment-link'' (int 2 + 1) (seconds 30) = Inr b"
    by (auto simp: new_breaker_def duration_defs)
  from breaker_trips_and_recovers [OF b, of "Aware 0 0"] b show ?thesis
    by (auto simp: Let_def numeral_3_eq_3 numeral_2_eq_2)
qed

section \<open>Stable registry\<close>

text \<open>
  Adapters that are built per request share their breaker. Getting a breaker twice under
  names that differ only in letter case gives the same breaker, with the state other callers
  have left in it, and never disturbs any breaker that is already registered.
\<close>

theorem registry_get_stable:
  assumes "registry_get p q scope n t reg = Inr (key, reg')"
    and "py_lower p' = py_lower p" and "py_lower q' = py_lower q"
  shows "registry_get p' q' scope n' t' (reg'(key \<mapsto> b)) = Inr (key, reg'(key \<mapsto> b))
    \<and> reg \<subseteq>\<^sub>m reg' \<and> key \<in> dom reg'"
  using assms
  by (auto simp: registry_get_def registry_key_def Let_def result_simps map_le_def
      split: option.splits)

theorem registry_get_stable_witness:
  "\<exists>key reg. registry_get ''Razorpay'' ''payment-link'' ''m1'' 3 (seconds 30) Map.empty = Inr (key, reg)
     \<and> registry_get ''RAZORPAY'' ''payment-link'' ''m1'' 5 (seconds 9) (reg(key \<mapsto> tripped_breaker))
         = Inr (key, reg(key \<mapsto> tripped_breaker))"
proof -
  obtain key reg where g: "registry_get ''Razorpay'' ''payment-link'' ''m1'' 3 (seconds 30) Map.empty
      = Inr (key, reg)"
    by (auto simp: registry_get_def new_breaker_def duration_defs Let_def)
  have "py_lower ''RAZORPAY'' = py_lower ''Razorpay''"
    by code_simp
  from registry_get_stable [OF g this refl, of 5 "seconds 9" tripped_breaker] g show ?thesis by blast
qed

end
