(* ===== verification/Projections.thy ===== *)
theory Projections
  imports Domain_Model
begin

text \<open>
  \<open>services/api/app/reliability/payment_projection.py\<close> and \<open>voice_projection.py\<close>: convergence of
  duplicated and reordered provider callbacks, and
  \<open>services/api/app/simulator/failure_scenarios.py\<close>, the delivery sequences it is exercised with.

  A method returns its result (or the exception) together with the projection it leaves behind:
  \<open>apply\<close> has already recorded the event when it finds the amount is not an integer. A payload
  value is a JSON scalar. The identifiers of the simulator (\<open>uuid5\<close>) and its jitter (a seeded
  \<open>Random\<close>) are arguments.
\<close>

section \<open>Deliveries\<close>

record SimulatedDelivery =
  sd_delivery_id :: ident
  sd_provider_event_id :: ident
  sd_event_type :: string
  sd_occurred_at :: instant
  sd_delivered_at :: instant
  sd_observed_payment_state :: PaymentState
  sd_authoritative_payment_state :: PaymentState
  sd_evidence_kind :: EvidenceKind
  sd_payload :: "string \<rightharpoonup> scalar"

record DeliveryEffect =
  de_provider_event_id :: ident
  de_duplicate :: bool
  de_stale :: bool
  de_payment_state :: PaymentState
  de_revenue_recorded :: bool

section \<open>The payment projection\<close>

record PaymentEventProjection =
  pj_payment_state :: PaymentState
  pj_arrears_collected_paise :: paise
  pj_latest_occurred_at :: "instant option"
  pj_provider_event_ids :: "ident set"
  pj_recognized_payment_ids :: "ident set"

datatype projection_error = Key_Error string | Amount_Not_Integer

definition empty_projection :: PaymentEventProjection where
  "empty_projection = \<lparr>pj_payment_state = Pay_UNKNOWN, pj_arrears_collected_paise = 0,
     pj_latest_occurred_at = None, pj_provider_event_ids = {}, pj_recognized_payment_ids = {}\<rparr>"

definition is_stale :: "SimulatedDelivery \<Rightarrow> PaymentEventProjection \<Rightarrow> bool" where
  "is_stale d p = (case pj_latest_occurred_at p of None \<Rightarrow> False | Some t \<Rightarrow> sd_occurred_at d < t)"

text \<open>The assignments up to the payment state.\<close>

definition observe_delivery :: "SimulatedDelivery \<Rightarrow> PaymentEventProjection \<Rightarrow> PaymentEventProjection" where
  "observe_delivery d p =
     (let authoritative = sd_authoritative_payment_state d in
      p\<lparr>pj_provider_event_ids := insert (sd_provider_event_id d) (pj_provider_event_ids p),
        pj_latest_occurred_at :=
          (if is_stale d p then pj_latest_occurred_at p else Some (sd_occurred_at d)),
        pj_payment_state :=
          (if pj_payment_state p \<noteq> Pay_CAPTURED \<or> authoritative = Pay_CAPTURED
           then authoritative else pj_payment_state p)\<rparr>)"

definition delivery_effect ::
    "SimulatedDelivery \<Rightarrow> bool \<Rightarrow> bool \<Rightarrow> bool \<Rightarrow> PaymentEventProjection \<Rightarrow> DeliveryEffect" where
  "delivery_effect d duplicate stale revenue p =
     \<lparr>de_provider_event_id = sd_provider_event_id d, de_duplicate = duplicate, de_stale = stale,
      de_payment_state = pj_payment_state p, de_revenue_recorded = revenue\<rparr>"

definition apply_delivery ::
    "SimulatedDelivery \<Rightarrow> PaymentEventProjection
       \<Rightarrow> (projection_error + DeliveryEffect) \<times> PaymentEventProjection" where
  "apply_delivery d p0 =
     (if sd_provider_event_id d \<in> pj_provider_event_ids p0
      then (Inr (delivery_effect d True False False p0), p0)
      else
        let stale = is_stale d p0; p = observe_delivery d p0 in
        case sd_payload d ''payment_id'' of
          None \<Rightarrow> (Inl (Key_Error ''payment_id''), p)
        | Some pid \<Rightarrow>
            if sd_authoritative_payment_state d = Pay_CAPTURED
               \<and> scalar_str pid \<notin> pj_recognized_payment_ids p
            then
              let p = p\<lparr>pj_recognized_payment_ids :=
                          insert (scalar_str pid) (pj_recognized_payment_ids p)\<rparr> in
              case sd_payload d ''amount_paise'' of
                None \<Rightarrow> (Inl (Key_Error ''amount_paise''), p)
              | Some (S_int amount) \<Rightarrow>
                  let p = p\<lparr>pj_arrears_collected_paise := pj_arrears_collected_paise p + amount\<rparr> in
                  (Inr (delivery_effect d False stale True p), p)
              | Some _ \<Rightarrow> (Inl Amount_Not_Integer, p)
            else (Inr (delivery_effect d False stale False p), p))"

definition revenue_entries :: "PaymentEventProjection \<Rightarrow> nat" where
  "revenue_entries p = card (pj_recognized_payment_ids p)"

definition deliver_all :: "SimulatedDelivery list \<Rightarrow> PaymentEventProjection \<Rightarrow> PaymentEventProjection" where
  "deliver_all ds p = fold (\<lambda>d q. snd (apply_delivery d q)) ds p"

lemma deliver_all_simps [simp]:
  "deliver_all [] p = p" "deliver_all (d # ds) p = deliver_all ds (snd (apply_delivery d p))"
  by (simp_all add: deliver_all_def)

section \<open>Convergence of payments\<close>

text \<open>
  A well-formed delivery names its payment and carries the payment's amount. Deliveries agree
  when those of one event carry the same payment and the same authoritative state.
\<close>

definition payment_of :: "SimulatedDelivery \<Rightarrow> ident" where
  "payment_of d = (case sd_payload d ''payment_id'' of None \<Rightarrow> [] | Some pid \<Rightarrow> scalar_str pid)"

definition captures :: "SimulatedDelivery \<Rightarrow> bool" where
  "captures d \<longleftrightarrow> sd_authoritative_payment_state d = Pay_CAPTURED"

definition carries :: "(ident \<Rightarrow> paise) \<Rightarrow> SimulatedDelivery \<Rightarrow> bool" where
  "carries amount d \<longleftrightarrow> sd_payload d ''payment_id'' \<noteq> None
     \<and> sd_payload d ''amount_paise'' = Some (S_int (amount (payment_of d)))"

definition agree :: "SimulatedDelivery \<Rightarrow> SimulatedDelivery \<Rightarrow> bool" where
  "agree d e \<longleftrightarrow> (sd_provider_event_id d = sd_provider_event_id e \<longrightarrow>
     payment_of d = payment_of e \<and> captures d = captures e)"

definition projects :: "(ident \<Rightarrow> paise) \<Rightarrow> SimulatedDelivery set \<Rightarrow> PaymentEventProjection \<Rightarrow> bool" where
  "projects amount seen p \<longleftrightarrow> pj_provider_event_ids p = sd_provider_event_id ` seen
     \<and> pj_recognized_payment_ids p = payment_of ` {d \<in> seen. captures d}
     \<and> pj_arrears_collected_paise p = sum amount (payment_of ` {d \<in> seen. captures d})
     \<and> (pj_payment_state p = Pay_CAPTURED \<longleftrightarrow> (\<exists>d \<in> seen. captures d))"

lemma apply_duplicate:
  "sd_provider_event_id d \<in> pj_provider_event_ids p \<Longrightarrow> snd (apply_delivery d p) = p"
  by (simp add: apply_delivery_def)

lemma apply_fresh:
  assumes "sd_provider_event_id d \<notin> pj_provider_event_ids p" and "carries amount d"
  shows "snd (apply_delivery d p) =
    (let p' = observe_delivery d p in
     if captures d \<and> payment_of d \<notin> pj_recognized_payment_ids p
     then p'\<lparr>pj_recognized_payment_ids := insert (payment_of d) (pj_recognized_payment_ids p),
             pj_arrears_collected_paise := pj_arrears_collected_paise p + amount (payment_of d)\<rparr>
     else p')"
  using assms
  by (auto simp: apply_delivery_def carries_def captures_def payment_of_def Let_def
      observe_delivery_def)

lemma captured_image_insert:
  "payment_of ` {x \<in> insert d seen. captures x} =
     (if captures d then insert (payment_of d) (payment_of ` {x \<in> seen. captures x})
      else payment_of ` {x \<in> seen. captures x})"
  by auto

lemma projects_duplicate:
  assumes "projects amount seen p" and "sd_provider_event_id d \<in> pj_provider_event_ids p"
    and "\<forall>e \<in> seen. agree d e"
  shows "projects amount (insert d seen) p"
proof -
  obtain e where e: "e \<in> seen" "sd_provider_event_id e = sd_provider_event_id d"
    using assms(1,2) by (auto simp: projects_def)
  then have same: "payment_of e = payment_of d" "captures e = captures d"
    using assms(3) by (auto simp: agree_def)
  have "payment_of ` {x \<in> insert d seen. captures x} = payment_of ` {x \<in> seen. captures x}"
  proof -
    have "payment_of d \<in> payment_of ` {x \<in> seen. captures x}" if "captures d"
      using e(1) same that by (intro image_eqI [of _ _ e]) simp_all
    then show ?thesis unfolding captured_image_insert by (simp add: insert_absorb)
  qed
  moreover have "sd_provider_event_id ` insert d seen = sd_provider_event_id ` seen"
    using e by (metis image_insert imageI insert_absorb)
  moreover have "(\<exists>x \<in> insert d seen. captures x) \<longleftrightarrow> (\<exists>x \<in> seen. captures x)"
    using e same by blast
  ultimately show ?thesis using assms(1) unfolding projects_def by metis
qed

lemma projects_fresh:
  assumes "finite seen" and "projects amount seen p" and "carries amount d"
    and "sd_provider_event_id d \<notin> pj_provider_event_ids p"
  shows "projects amount (insert d seen) (snd (apply_delivery d p))"
proof -
  have fin: "finite (payment_of ` {x \<in> seen. captures x})" using assms(1) by simp
  have state: "pj_payment_state (observe_delivery d p) = Pay_CAPTURED \<longleftrightarrow> captures d \<or> (\<exists>x \<in> seen. captures x)"
    using assms(2) by (auto simp: observe_delivery_def projects_def captures_def Let_def)
  show ?thesis
    unfolding apply_fresh [OF assms(4,3)] projects_def captured_image_insert
    using assms(2) fin state
    by (auto simp: projects_def observe_delivery_def Let_def insert_absorb split: if_splits)
qed

lemma deliver_all_projects:
  assumes "projects amount seen p" and "finite seen" and "\<forall>d \<in> set ds. carries amount d"
    and "\<forall>d \<in> set ds \<union> seen. \<forall>e \<in> set ds \<union> seen. agree d e"
  shows "projects amount (set ds \<union> seen) (deliver_all ds p)"
  using assms
proof (induction ds arbitrary: seen p)
  case (Cons d ds)
  have "projects amount (insert d seen) (snd (apply_delivery d p))"
  proof (cases "sd_provider_event_id d \<in> pj_provider_event_ids p")
    case True
    have "\<forall>e \<in> seen. agree d e" using Cons.prems(4) by simp
    with True Cons.prems(1) show ?thesis by (simp add: apply_duplicate projects_duplicate)
  next
    case False
    then show ?thesis using Cons.prems by (simp add: projects_fresh)
  qed
  from Cons.IH [OF this] Cons.prems(2,3,4) show ?case by simp
qed simp

lemma empty_projects: "projects amount {} empty_projection"
  by (simp add: projects_def empty_projection_def)

text \<open>
  The projection converges. However often and in whatever order a set of agreeing deliveries
  arrives, the arrears collected are the sum of the amounts of the captured payments, each
  counted once, and the payment reads as captured exactly when some delivery says so: two
  delivery orders of the same deliveries give the same result.
\<close>

theorem projection_converges:
  assumes "set ds = set es" and "\<forall>d \<in> set ds. carries amount d"
    and "\<forall>d \<in> set ds. \<forall>e \<in> set ds. agree d e"
  shows "pj_arrears_collected_paise (deliver_all ds empty_projection)
      = sum amount (payment_of ` {d \<in> set ds. captures d})
    \<and> revenue_entries (deliver_all ds empty_projection)
      = card (payment_of ` {d \<in> set ds. captures d})
    \<and> (pj_payment_state (deliver_all ds empty_projection) = Pay_CAPTURED \<longleftrightarrow> (\<exists>d \<in> set ds. captures d))
    \<and> pj_arrears_collected_paise (deliver_all es empty_projection)
      = pj_arrears_collected_paise (deliver_all ds empty_projection)
    \<and> revenue_entries (deliver_all es empty_projection)
      = revenue_entries (deliver_all ds empty_projection)"
proof -
  have "projects amount (set xs \<union> {}) (deliver_all xs empty_projection)" if "set xs = set ds" for xs
    using deliver_all_projects [OF empty_projects finite.emptyI, of xs amount] assms(2,3) that by simp
  from this [of ds] this [of es] assms(1) show ?thesis
    by (auto simp: projects_def revenue_entries_def)
qed

section \<open>Captured is final\<close>

lemma apply_state:
  "pj_payment_state (snd (apply_delivery d p)) \<in>
     {pj_payment_state p, pj_payment_state (observe_delivery d p)}"
  by (auto simp: apply_delivery_def Let_def split: option.splits scalar.splits)

lemma apply_arrears:
  assumes "sd_provider_event_id d \<in> pj_provider_event_ids p
    \<or> payment_of d \<in> pj_recognized_payment_ids p \<or> \<not> captures d"
  shows "pj_arrears_collected_paise (snd (apply_delivery d p)) = pj_arrears_collected_paise p
    \<and> pj_recognized_payment_ids (snd (apply_delivery d p)) = pj_recognized_payment_ids p"
  using assms
  by (auto simp: apply_delivery_def captures_def payment_of_def observe_delivery_def Let_def
      split: option.splits scalar.splits)

text \<open>
  A captured payment never regresses and is never counted twice. Once the projection reads
  captured, it reads captured after any further deliveries, malformed ones included; and a
  delivery for a payment that is already recognised, or of an event already received, leaves the
  collected arrears alone.
\<close>

theorem captured_never_regresses:
  assumes "pj_payment_state p = Pay_CAPTURED"
  shows "pj_payment_state (deliver_all ds p) = Pay_CAPTURED
    \<and> (payment_of d \<in> pj_recognized_payment_ids p \<or> sd_provider_event_id d \<in> pj_provider_event_ids p
        \<longrightarrow> pj_arrears_collected_paise (snd (apply_delivery d p)) = pj_arrears_collected_paise p)"
proof -
  have "pj_payment_state (snd (apply_delivery d p)) = Pay_CAPTURED"
    if "pj_payment_state p = Pay_CAPTURED" for d p
    using apply_state [of d p] that by (auto simp: observe_delivery_def Let_def)
  then have "pj_payment_state (deliver_all ds p) = Pay_CAPTURED" using assms
    by (induction ds arbitrary: p) simp_all
  with apply_arrears [of d p] show ?thesis by blast
qed

section \<open>The failure scenarios\<close>

datatype FailureScenario = DUPLICATE_WEBHOOK | OUT_OF_ORDER_WEBHOOK | LATE_SUCCESS
  | CHANGED_AUTHORITATIVE_PAYMENT_STATE

record SimulationCase =
  sim_scenario :: FailureScenario
  sim_seed :: int
  sim_case_id :: ident
  sim_payment_id :: ident
  sim_amount_paise :: paise
  sim_deliveries :: "SimulatedDelivery list"
  sim_expected_final_payment_state :: PaymentState
  sim_expected_revenue_entries :: nat

datatype scenario_error = Base_Time_Not_Aware | Amount_Not_Positive | Evidence_Not_Allowed

type_synonym stable_ids = "int \<Rightarrow> FailureScenario \<Rightarrow> string \<Rightarrow> ident"

definition sim_delivery ::
    "stable_ids \<Rightarrow> int \<Rightarrow> FailureScenario \<Rightarrow> int \<Rightarrow> ident \<Rightarrow> string \<Rightarrow> instant \<Rightarrow> instant
       \<Rightarrow> PaymentState \<Rightarrow> PaymentState \<Rightarrow> EvidenceKind \<Rightarrow> ident \<Rightarrow> ident \<Rightarrow> paise \<Rightarrow> SimulatedDelivery" where
  "sim_delivery stable_id seed scenario index event_id event_type occurred_at delivered_at observed
       authoritative evidence_kind case_id payment_id amount =
     \<lparr>sd_delivery_id = stable_id seed scenario (''delivery:'' @ int_str index),
      sd_provider_event_id = event_id, sd_event_type = event_type, sd_occurred_at = occurred_at,
      sd_delivered_at = delivered_at, sd_observed_payment_state = observed,
      sd_authoritative_payment_state = authoritative, sd_evidence_kind = evidence_kind,
      sd_payload = [''case_id'' \<mapsto> S_str case_id, ''payment_id'' \<mapsto> S_str payment_id,
        ''amount_paise'' \<mapsto> S_int amount, ''synthetic'' \<mapsto> S_bool (evidence_kind = Ev_SIMULATED)]\<rparr>"

definition scenario_deliveries ::
    "stable_ids \<Rightarrow> int \<Rightarrow> int \<Rightarrow> FailureScenario \<Rightarrow> instant \<Rightarrow> paise \<Rightarrow> EvidenceKind
       \<Rightarrow> SimulatedDelivery list \<times> PaymentState \<times> nat" where
  "scenario_deliveries stable_id jitter seed scenario failed_at amount kind =
     (let case_id = ''case_'' @ take 16 (stable_id seed scenario ''case'');
          payment_id = ''pay_'' @ take 14 (stable_id seed scenario ''payment'');
          failed_event_id = ''evt_'' @ take 14 (stable_id seed scenario ''failed'');
          captured_event_id = ''evt_'' @ take 14 (stable_id seed scenario ''captured'');
          captured_at = failed_at + minutes 45;
          mk = (\<lambda>index event_id event_type occurred delivered observed authoritative.
            sim_delivery stable_id seed scenario index event_id event_type occurred delivered
              observed authoritative kind case_id payment_id amount) in
      case scenario of
        DUPLICATE_WEBHOOK \<Rightarrow>
          ([mk 0 failed_event_id ''payment.failed'' failed_at (failed_at + jitter) Pay_FAILED Pay_FAILED,
            mk 1 failed_event_id ''payment.failed'' failed_at (failed_at + jitter + seconds 2)
              Pay_FAILED Pay_FAILED],
           Pay_FAILED, 0)
      | OUT_OF_ORDER_WEBHOOK \<Rightarrow>
          ([mk 0 captured_event_id ''payment.captured'' captured_at (captured_at + jitter)
              Pay_CAPTURED Pay_CAPTURED,
            mk 1 failed_event_id ''payment.failed'' failed_at (captured_at + jitter + seconds 2)
              Pay_FAILED Pay_CAPTURED],
           Pay_CAPTURED, 1)
      | LATE_SUCCESS \<Rightarrow>
          ([mk 0 failed_event_id ''payment.failed'' failed_at (failed_at + jitter) Pay_FAILED Pay_FAILED,
            mk 1 captured_event_id ''payment.captured'' captured_at (captured_at + minutes 30 + jitter)
              Pay_CAPTURED Pay_CAPTURED],
           Pay_CAPTURED, 1)
      | CHANGED_AUTHORITATIVE_PAYMENT_STATE \<Rightarrow>
          ([mk 0 failed_event_id ''payment.failed'' failed_at (captured_at + jitter)
              Pay_FAILED Pay_CAPTURED],
           Pay_CAPTURED, 1))"

definition build_failure_scenario ::
    "stable_ids \<Rightarrow> int \<Rightarrow> FailureScenario \<Rightarrow> int \<Rightarrow> datetime \<Rightarrow> paise \<Rightarrow> EvidenceKind
       \<Rightarrow> scenario_error + SimulationCase" where
  "build_failure_scenario stable_id jitter scenario seed base_time amount kind =
     (if \<not> is_aware base_time then Inl Base_Time_Not_Aware
      else if amount \<le> 0 then Inl Amount_Not_Positive
      else if kind \<notin> {Ev_SIMULATED, Ev_RAZORPAY_TEST_VERIFIED} then Inl Evidence_Not_Allowed
      else
        let (deliveries, final_state, entries) =
              scenario_deliveries stable_id jitter seed scenario (utc_instant base_time) amount kind in
        Inr \<lparr>sim_scenario = scenario, sim_seed = seed,
             sim_case_id = ''case_'' @ take 16 (stable_id seed scenario ''case''),
             sim_payment_id = ''pay_'' @ take 14 (stable_id seed scenario ''payment''),
             sim_amount_paise = amount, sim_deliveries = deliveries,
             sim_expected_final_payment_state = final_state,
             sim_expected_revenue_entries = entries\<rparr>)"

text \<open>The two event identifiers of a scenario do not collide.\<close>

definition separates_events :: "stable_ids \<Rightarrow> int \<Rightarrow> FailureScenario \<Rightarrow> bool" where
  "separates_events stable_id seed scenario \<longleftrightarrow>
     take 14 (stable_id seed scenario ''failed'') \<noteq> take 14 (stable_id seed scenario ''captured'')"

lemmas projection_eval = apply_delivery_def observe_delivery_def is_stale_def empty_projection_def
  sim_delivery_def Let_def

text \<open>
  Every failure scenario ends where the simulator says. For each scenario, seed, start time
  and jitter, delivering its events to a fresh projection reaches the expected payment state with
  the expected number of revenue entries, and the arrears collected are the amount once per entry.
\<close>

theorem scenario_meets_expectation:
  assumes "build_failure_scenario stable_id jitter scenario seed base_time amount kind = Inr sim"
    and "separates_events stable_id seed scenario"
  shows "(let p = deliver_all (sim_deliveries sim) empty_projection in
     pj_payment_state p = sim_expected_final_payment_state sim
     \<and> revenue_entries p = sim_expected_revenue_entries sim
     \<and> pj_arrears_collected_paise p = int (sim_expected_revenue_entries sim) * sim_amount_paise sim)"
proof (cases scenario)
  case LATE_SUCCESS
  then show ?thesis using assms
    by (auto simp: build_failure_scenario_def scenario_deliveries_def separates_events_def
        revenue_entries_def projection_eval split: if_splits)
qed (use assms in \<open>auto simp: build_failure_scenario_def scenario_deliveries_def revenue_entries_def
       separates_events_def projection_eval split: if_splits\<close>)

definition sample_capture :: "ident \<Rightarrow> SimulatedDelivery" where
  "sample_capture event = sim_delivery (\<lambda>_ _ label. label) 7 LATE_SUCCESS 0 event ''payment.captured''
     (minutes 45) (minutes 46) Pay_CAPTURED Pay_CAPTURED Ev_SIMULATED ''case_1'' ''pay_1'' 149900"

lemma sample_capture_sel [simp]:
  "payment_of (sample_capture e) = ''pay_1''" "captures (sample_capture e)"
  "carries (\<lambda>_. 149900) (sample_capture e)" "sd_provider_event_id (sample_capture e) = e"
  by (simp_all add: sample_capture_def sim_delivery_def payment_of_def captures_def carries_def)

theorem projection_converges_witness:
  "pj_arrears_collected_paise (deliver_all [sample_capture ''e1'', sample_capture ''e2'',
      sample_capture ''e1''] empty_projection) = 149900"
proof -
  let ?ds = "[sample_capture ''e1'', sample_capture ''e2'', sample_capture ''e1'']"
  have "{d \<in> set ?ds. captures d} = {sample_capture ''e1'', sample_capture ''e2''}" by auto
  then show ?thesis
    using projection_converges [of ?ds ?ds "\<lambda>_. 149900"] by (simp add: agree_def)
qed

theorem captured_never_regresses_witness:
  "pj_payment_state (deliver_all [sample_capture ''e2'']
     (deliver_all [sample_capture ''e1''] empty_projection)) = Pay_CAPTURED"
  by (rule conjunct1 [OF captured_never_regresses [of _ _ "sample_capture ''e1''"]])
     (simp add: sample_capture_def projection_eval)

definition label_ids :: stable_ids where
  "label_ids seed scenario label = label"

theorem scenario_meets_expectation_witness:
  "\<exists>sim. build_failure_scenario label_ids (seconds 5) LATE_SUCCESS 7 (Aware 0 0) 149900 Ev_SIMULATED = Inr sim
     \<and> pj_arrears_collected_paise (deliver_all (sim_deliveries sim) empty_projection)
         = int (sim_expected_revenue_entries sim) * sim_amount_paise sim"
proof -
  obtain sim where sim: "build_failure_scenario label_ids (seconds 5) LATE_SUCCESS 7 (Aware 0 0) 149900
      Ev_SIMULATED = Inr sim" by (simp add: build_failure_scenario_def split_beta Let_def)
  have "separates_events label_ids 7 LATE_SUCCESS" by (simp add: separates_events_def label_ids_def)
  from scenario_meets_expectation [OF sim this] sim show ?thesis by (auto simp: Let_def)
qed

section \<open>The voice projection\<close>

definition TWILIO_TERMINAL :: "string set" where
  "TWILIO_TERMINAL = {''COMPLETED'', ''BUSY'', ''NO-ANSWER'', ''FAILED'', ''CANCELED''}"

record CallbackEffect =
  ce_duplicate :: bool
  ce_ignored_regression :: bool
  ce_status :: string
  ce_reconciliation_required :: bool
  ce_reason_code :: "string option"

record VoiceCallbackProjection =
  vp_attempt_id :: ident
  vp_status :: string
  vp_transcript :: "string option"
  vp_disposition :: "string option"
  vp_reconciliation_required :: bool
  vp_receipts :: "(string \<times> ident) set"

definition new_voice_projection :: "ident \<Rightarrow> VoiceCallbackProjection" where
  "new_voice_projection attempt_id =
     \<lparr>vp_attempt_id = attempt_id, vp_status = ''SUBMITTED'', vp_transcript = None,
      vp_disposition = None, vp_reconciliation_required = False, vp_receipts = {}\<rparr>"

definition callback_effect ::
    "bool \<Rightarrow> bool \<Rightarrow> string option \<Rightarrow> VoiceCallbackProjection \<Rightarrow> CallbackEffect \<times> VoiceCallbackProjection" where
  "callback_effect duplicate ignored reason_code v =
     (\<lparr>ce_duplicate = duplicate, ce_ignored_regression = ignored, ce_status = vp_status v,
       ce_reconciliation_required = vp_reconciliation_required v, ce_reason_code = reason_code\<rparr>, v)"

definition add_receipt :: "string \<Rightarrow> ident \<Rightarrow> VoiceCallbackProjection \<Rightarrow> bool \<times> VoiceCallbackProjection" where
  "add_receipt provider event_id v =
     (if (provider, event_id) \<in> vp_receipts v then (True, v)
      else (False, v\<lparr>vp_receipts := insert (provider, event_id) (vp_receipts v)\<rparr>))"

definition apply_twilio ::
    "ident \<Rightarrow> string \<Rightarrow> VoiceCallbackProjection \<Rightarrow> CallbackEffect \<times> VoiceCallbackProjection" where
  "apply_twilio event_id status v0 =
     (let (duplicate, v) = add_receipt ''twilio'' event_id v0 in
      if duplicate then callback_effect True False None v
      else
        let normalized = py_upper status; terminal = vp_status v \<in> TWILIO_TERMINAL in
        if terminal \<and> normalized \<notin> TWILIO_TERMINAL then callback_effect False True None v
        else if terminal \<and> normalized \<noteq> vp_status v then callback_effect False True None v
        else
          let v = v\<lparr>vp_status := normalized\<rparr>;
              v = (if normalized \<in> TWILIO_TERMINAL then v\<lparr>vp_disposition := Some normalized\<rparr> else v)
          in callback_effect False False None v)"

definition rc_post_call :: string where
  "rc_post_call = ''ELEVENLABS_POST_CALL_RECONCILIATION_REQUIRED''"
definition rc_missing :: string where
  "rc_missing = ''ELEVENLABS_TRANSCRIPT_MISSING''"
definition rc_unavailable :: string where
  "rc_unavailable = ''ELEVENLABS_TRANSCRIPT_STILL_UNAVAILABLE''"

definition apply_elevenlabs ::
    "ident \<Rightarrow> string option \<Rightarrow> string option \<Rightarrow> VoiceCallbackProjection
       \<Rightarrow> CallbackEffect \<times> VoiceCallbackProjection" where
  "apply_elevenlabs event_id transcript delivery_error_code v0 =
     (let (duplicate, v) = add_receipt ''elevenlabs'' event_id v0 in
      if duplicate then callback_effect True False None v
      else if truthy delivery_error_code
      then callback_effect False False (Some rc_post_call) (v\<lparr>vp_reconciliation_required := True\<rparr>)
      else if transcript = None
      then callback_effect False False (Some rc_missing) (v\<lparr>vp_reconciliation_required := True\<rparr>)
      else
        let v = v\<lparr>vp_transcript := transcript, vp_reconciliation_required := False\<rparr>;
            v = (if vp_status v \<notin> TWILIO_TERMINAL then v\<lparr>vp_status := ''COMPLETED''\<rparr> else v)
        in callback_effect False False None v)"

definition reconcile_elevenlabs ::
    "string option \<Rightarrow> VoiceCallbackProjection \<Rightarrow> CallbackEffect \<times> VoiceCallbackProjection" where
  "reconcile_elevenlabs transcript v =
     (if transcript = None
      then callback_effect False False (Some rc_unavailable) (v\<lparr>vp_reconciliation_required := True\<rparr>)
      else callback_effect False False None
             (v\<lparr>vp_transcript := transcript, vp_reconciliation_required := False\<rparr>))"

datatype voice_callback = Twilio ident string | ElevenLabs ident "string option" "string option"
  | Reconcile_ElevenLabs "string option"

fun voice_step :: "voice_callback \<Rightarrow> VoiceCallbackProjection \<Rightarrow> VoiceCallbackProjection" where
  "voice_step (Twilio e s) v = snd (apply_twilio e s v)"
| "voice_step (ElevenLabs e t err) v = snd (apply_elevenlabs e t err v)"
| "voice_step (Reconcile_ElevenLabs t) v = snd (reconcile_elevenlabs t v)"

lemmas voice_defs = apply_twilio_def apply_elevenlabs_def reconcile_elevenlabs_def
  callback_effect_def add_receipt_def Let_def

text \<open>
  The invariant of an attempt: without a pending reconciliation, an ElevenLabs receipt implies a
  transcript; and a recorded disposition is the attempt's terminal status.
\<close>

definition voice_inv :: "VoiceCallbackProjection \<Rightarrow> bool" where
  "voice_inv v \<longleftrightarrow>
     (\<not> vp_reconciliation_required v \<and> (\<exists>e. (''elevenlabs'', e) \<in> vp_receipts v) \<longrightarrow> vp_transcript v \<noteq> None)
     \<and> (\<forall>s. vp_disposition v = Some s \<longrightarrow> s \<in> TWILIO_TERMINAL \<and> vp_status v = s)"

lemma voice_step_inv: "voice_inv v \<Longrightarrow> voice_inv (voice_step c v)"
  by (cases c) (auto simp: voice_inv_def voice_defs)

lemma voice_step_terminal: "vp_status v \<in> TWILIO_TERMINAL \<Longrightarrow> vp_status (voice_step c v) = vp_status v"
  by (cases c) (auto simp: voice_defs)

lemma voice_step_idem: "(case c of Reconcile_ElevenLabs _ \<Rightarrow> False | _ \<Rightarrow> True) \<Longrightarrow>
    voice_step c (voice_step c v) = voice_step c v"
  by (cases c) (auto simp: voice_defs)

text \<open>
  The voice callbacks of an attempt converge. Whatever callbacks arrive and in whatever order,
  a delivered provider callback has no effect a second time; once the call status is terminal it
  never changes; a recorded disposition is that terminal status; and when no reconciliation is
  pending, an ElevenLabs callback has left a transcript.
\<close>

theorem voice_callbacks_converge:
  "voice_inv (fold voice_step cs (new_voice_projection a))
   \<and> (vp_status (fold voice_step cs (new_voice_projection a)) \<in> TWILIO_TERMINAL \<longrightarrow>
        vp_status (fold voice_step (cs @ es) (new_voice_projection a))
          = vp_status (fold voice_step cs (new_voice_projection a)))
   \<and> voice_step (Twilio e s) (fold voice_step (cs @ [Twilio e s]) (new_voice_projection a))
       = fold voice_step (cs @ [Twilio e s]) (new_voice_projection a)
   \<and> voice_step (ElevenLabs e t err) (fold voice_step (cs @ [ElevenLabs e t err]) (new_voice_projection a))
       = fold voice_step (cs @ [ElevenLabs e t err]) (new_voice_projection a)"
proof -
  have "voice_inv (fold voice_step cs v)" if "voice_inv v" for v
    using that by (induction cs arbitrary: v) (simp_all add: voice_step_inv)
  moreover have "voice_inv (new_voice_projection a)"
    by (simp add: voice_inv_def new_voice_projection_def)
  moreover have "vp_status (fold voice_step es v) = vp_status v" if "vp_status v \<in> TWILIO_TERMINAL" for v
    using that by (induction es arbitrary: v) (simp_all add: voice_step_terminal)
  ultimately show ?thesis using voice_step_idem [of "Twilio e s"] voice_step_idem [of "ElevenLabs e t err"]
    by simp
qed

theorem voice_callbacks_converge_witness:
  "vp_status (fold voice_step [Twilio ''e1'' ''busy'', ElevenLabs ''x'' (Some ''hello'') None,
      Twilio ''e2'' ''ringing''] (new_voice_projection ''a'')) = ''BUSY''"
proof -
  have one: "vp_status (fold voice_step [Twilio ''e1'' ''busy''] (new_voice_projection ''a'')) = ''BUSY''"
    by code_simp
  from voice_callbacks_converge [where cs = "[Twilio ''e1'' ''busy'']" and a = "''a''" and
      es = "[ElevenLabs ''x'' (Some ''hello'') None, Twilio ''e2'' ''ringing'']"]
  show ?thesis unfolding one by (simp add: TWILIO_TERMINAL_def)
qed

end
