(* ===== verification/Razorpay_Events.thy ===== *)
theory Razorpay_Events
  imports Domain_Model
begin

text \<open>
  \<open>services/api/app/integrations/razorpay\<close>: verification of the webhook signature, normalisation
  of the supported webhook shapes, the per-axis event clock, and the reconciliation of a payment
  success against an authoritative read.

  A decoded body is a value of type \<open>json\<close>; an object is an association list and \<open>jget\<close> is
  \<open>dict.get\<close>. HMAC-SHA256 is an argument (\<open>hmac_hex secret body\<close>). An exception of the integration
  is its code; \<open>Validation_Error\<close> is pydantic's.
\<close>

section \<open>JSON values\<close>

datatype json = JNull | JBool bool | JInt int | JFloat rat | JStr string | JList "json list"
  | JObj "(string \<times> json) list"

type_synonym jobject = "(string \<times> json) list"

definition jget :: "jobject \<Rightarrow> string \<Rightarrow> json" where
  "jget ob k = (case map_of ob k of None \<Rightarrow> JNull | Some v \<Rightarrow> v)"

definition as_object :: "json \<Rightarrow> jobject option" where
  "as_object v = (case v of JObj ob \<Rightarrow> Some ob | _ \<Rightarrow> None)"

definition entity_of :: "jobject \<Rightarrow> string \<Rightarrow> jobject" where
  "entity_of payload name =
     (case as_object (jget payload name) of
        None \<Rightarrow> []
      | Some container \<Rightarrow> (case as_object (jget container ''entity'') of None \<Rightarrow> [] | Some e \<Rightarrow> e))"

definition notes_of :: "jobject \<Rightarrow> jobject" where
  "notes_of e = (case as_object (jget e ''notes'') of None \<Rightarrow> [] | Some n \<Rightarrow> n)"

definition text_of :: "json \<Rightarrow> string option" where
  "text_of v = (case v of JStr s \<Rightarrow> if s \<noteq> [] then Some s else None | _ \<Rightarrow> None)"

definition integer_of :: "json \<Rightarrow> int option" where
  "integer_of v = (case v of JInt n \<Rightarrow> Some n | _ \<Rightarrow> None)"

text \<open>\<open>a or b\<close> on optional values: \<open>None\<close>, the empty string and 0 are falsy.\<close>

definition or_text :: "string option \<Rightarrow> string option \<Rightarrow> string option" where
  "or_text a b = (if truthy a then a else b)"

definition or_int :: "int option \<Rightarrow> int option \<Rightarrow> int option" where
  "or_int a b = (case a of None \<Rightarrow> b | Some n \<Rightarrow> if n = 0 then b else a)"

section \<open>Events\<close>

datatype razorpay_error = Razorpay_Error string | Validation_Error | Timestamp_Out_Of_Range
  | Integrity_Error | Runtime_Error | Decide_Failed | Downstream_Failed | Value_Error

definition contract_fail :: "string \<Rightarrow> razorpay_error + 'a" where
  "contract_fail code = Inl (Razorpay_Error code)"

datatype CorrelationKind = INVOICE_AND_SUBSCRIPTION_FROM_PAYMENT | SUBSCRIPTION_ONLY
  | CASE_AND_INVOICE_FROM_NOTES_REQUIRES_RECONCILIATION

record NormalizedRazorpayEvent =
  ne_provider_event_id :: ident
  ne_event_type :: string
  ne_occurred_at :: instant
  ne_account_id :: "string option"
  ne_merchant_reference :: "string option"
  ne_case_id :: "ident option"
  ne_payment_id :: "ident option"
  ne_payment_link_id :: "ident option"
  ne_invoice_id :: "ident option"
  ne_subscription_id :: "ident option"
  ne_amount_paise :: "paise option"
  ne_currency :: "string option"
  ne_payment_state :: PaymentState
  ne_subscription_state :: SubscriptionState
  ne_correlation_kind :: CorrelationKind
  ne_requires_authoritative_fetch :: bool
  ne_provider_payload :: jobject

definition SUPPORTED_EVENTS :: "string list" where
  "SUPPORTED_EVENTS =
     [''payment.failed'', ''subscription.pending'', ''subscription.halted'', ''subscription.charged'',
      ''payment.captured'', ''payment_link.paid'']"

text \<open>\<open>datetime.fromtimestamp(ts, tz=UTC)\<close>: years 1 to 9999.\<close>

definition from_timestamp :: "int \<Rightarrow> razorpay_error + instant" where
  "from_timestamp ts =
     (if -62135596800 \<le> ts \<and> ts \<le> 253402300799 then Inr (seconds ts) else Inl Timestamp_Out_Of_Range)"

definition occurred_at_of :: "jobject \<Rightarrow> jobject \<Rightarrow> razorpay_error + instant" where
  "occurred_at_of payload payment =
     (case or_int (integer_of (jget payment ''created_at'')) (integer_of (jget payload ''created_at'')) of
        None \<Rightarrow> contract_fail ''RAZORPAY_WEBHOOK_TIMESTAMP_MISSING''
      | Some ts \<Rightarrow> from_timestamp ts)"

definition event_payment_state :: "string \<Rightarrow> PaymentState" where
  "event_payment_state event_type =
     (if event_type = ''payment.failed'' then Pay_FAILED
      else if event_type \<in> {''payment.captured'', ''subscription.charged'', ''payment_link.paid''}
      then Pay_CAPTURED else Pay_UNKNOWN)"

definition event_subscription_state :: "string \<Rightarrow> SubscriptionState" where
  "event_subscription_state event_type =
     (if event_type = ''subscription.pending'' then Sub_PENDING
      else if event_type = ''subscription.halted'' then Sub_HALTED
      else if event_type = ''subscription.charged'' then Sub_ACTIVE else Sub_UNKNOWN)"

definition event_correlation_kind :: "string \<Rightarrow> CorrelationKind" where
  "event_correlation_kind event_type =
     (if event_type \<in> {''subscription.pending'', ''subscription.halted''} then SUBSCRIPTION_ONLY
      else if event_type = ''payment_link.paid''
      then CASE_AND_INVOICE_FROM_NOTES_REQUIRES_RECONCILIATION
      else INVOICE_AND_SUBSCRIPTION_FROM_PAYMENT)"

definition event_amount :: "jobject \<Rightarrow> jobject \<Rightarrow> int option" where
  "event_amount payment payment_link =
     (case integer_of (jget payment ''amount'') of
        None \<Rightarrow> integer_of (jget payment_link ''amount_paid'') | Some n \<Rightarrow> Some n)"

definition build_event ::
    "ident \<Rightarrow> string \<Rightarrow> jobject \<Rightarrow> jobject \<Rightarrow> razorpay_error + NormalizedRazorpayEvent" where
  "build_event provider_event_id event_type payload event_payload =
     (let payment = entity_of event_payload ''payment'';
          subscription = entity_of event_payload ''subscription'';
          payment_link = entity_of event_payload ''payment_link'';
          amount = event_amount payment payment_link in
      bindE (occurred_at_of payload payment) (\<lambda>occurred_at.
        if (case amount of None \<Rightarrow> False | Some n \<Rightarrow> n < 0) then Inl Validation_Error
        else Inr
          \<lparr>ne_provider_event_id = provider_event_id, ne_event_type = event_type,
           ne_occurred_at = occurred_at, ne_account_id = text_of (jget payload ''account_id''),
           ne_merchant_reference =
             or_text (text_of (jget (notes_of payment) ''merchant_id''))
               (text_of (jget (notes_of subscription) ''merchant_id'')),
           ne_case_id =
             or_text (text_of (jget (notes_of payment) ''case_id''))
               (text_of (jget (notes_of payment_link) ''case_id'')),
           ne_payment_id = text_of (jget payment ''id''),
           ne_payment_link_id = text_of (jget payment_link ''id''),
           ne_invoice_id =
             or_text (text_of (jget payment ''invoice_id''))
               (text_of (jget (notes_of payment_link) ''invoice_id'')),
           ne_subscription_id =
             or_text (text_of (jget subscription ''id''))
               (or_text (text_of (jget (notes_of payment) ''subscription_id''))
                 (text_of (jget (notes_of payment_link) ''subscription_id''))),
           ne_amount_paise = amount,
           ne_currency =
             or_text (text_of (jget payment ''currency'')) (text_of (jget payment_link ''currency'')),
           ne_payment_state = event_payment_state event_type,
           ne_subscription_state = event_subscription_state event_type,
           ne_correlation_kind = event_correlation_kind event_type,
           ne_requires_authoritative_fetch = (event_payment_state event_type = Pay_CAPTURED),
           ne_provider_payload = payload\<rparr>))"

definition normalize_webhook ::
    "ident \<Rightarrow> jobject \<Rightarrow> razorpay_error + NormalizedRazorpayEvent" where
  "normalize_webhook provider_event_id payload =
     (case text_of (jget payload ''event'') of
        None \<Rightarrow> contract_fail ''RAZORPAY_WEBHOOK_EVENT_MISSING''
      | Some event_type \<Rightarrow>
          if event_type \<notin> set SUPPORTED_EVENTS
          then contract_fail ''RAZORPAY_WEBHOOK_EVENT_UNSUPPORTED''
          else if provider_event_id = [] then contract_fail ''RAZORPAY_EVENT_ID_MISSING''
          else if length provider_event_id > 200 then contract_fail ''RAZORPAY_EVENT_ID_TOO_LONG''
          else case as_object (jget payload ''payload'') of
            None \<Rightarrow> contract_fail ''RAZORPAY_WEBHOOK_PAYLOAD_INVALID''
          | Some event_payload \<Rightarrow> build_event provider_event_id event_type payload event_payload)"

section \<open>The signature\<close>

definition webhook_signature ::
    "(string \<Rightarrow> 'body \<Rightarrow> string) \<Rightarrow> 'body \<Rightarrow> string \<Rightarrow> razorpay_error + string" where
  "webhook_signature hmac_hex raw_body secret =
     (if secret = [] then Inl Value_Error else Inr (hmac_hex secret raw_body))"

definition verify_webhook_signature ::
    "(string \<Rightarrow> 'body \<Rightarrow> string) \<Rightarrow> 'body \<Rightarrow> string \<Rightarrow> string \<Rightarrow> razorpay_error + unit" where
  "verify_webhook_signature hmac_hex raw_body received_signature secret =
     (if received_signature = [] \<or> secret = []
      then contract_fail ''RAZORPAY_WEBHOOK_SIGNATURE_INVALID''
      else bindE (webhook_signature hmac_hex raw_body secret) (\<lambda>expected.
        if expected \<noteq> py_lower (py_strip received_signature)
        then contract_fail ''RAZORPAY_WEBHOOK_SIGNATURE_INVALID'' else Inr ()))"

section \<open>The event clock\<close>

record ProviderStateCursor =
  cur_payment_state :: PaymentState
  cur_payment_observed_at :: "instant option"
  cur_subscription_state :: SubscriptionState
  cur_subscription_observed_at :: "instant option"

definition initial_cursor :: ProviderStateCursor where
  "initial_cursor = \<lparr>cur_payment_state = Pay_UNKNOWN, cur_payment_observed_at = None,
     cur_subscription_state = Sub_UNKNOWN, cur_subscription_observed_at = None\<rparr>"

definition is_newer :: "instant \<Rightarrow> instant option \<Rightarrow> bool" where
  "is_newer occurred observed = (case observed of None \<Rightarrow> True | Some t \<Rightarrow> occurred \<ge> t)"

definition reduce_payment_axis ::
    "ProviderStateCursor \<Rightarrow> NormalizedRazorpayEvent \<Rightarrow> ProviderStateCursor \<Rightarrow> ProviderStateCursor" where
  "reduce_payment_axis cursor event v =
     (if ne_payment_state event \<noteq> Pay_UNKNOWN
         \<and> is_newer (ne_occurred_at event) (cur_payment_observed_at cursor)
         \<and> (cur_payment_state cursor \<noteq> Pay_CAPTURED \<or> ne_payment_state event = Pay_CAPTURED)
      then v\<lparr>cur_payment_state := ne_payment_state event,
             cur_payment_observed_at := Some (ne_occurred_at event)\<rparr>
      else v)"

definition reduce_subscription_axis ::
    "ProviderStateCursor \<Rightarrow> NormalizedRazorpayEvent \<Rightarrow> ProviderStateCursor \<Rightarrow> ProviderStateCursor" where
  "reduce_subscription_axis cursor event v =
     (if ne_subscription_state event \<noteq> Sub_UNKNOWN
         \<and> is_newer (ne_occurred_at event) (cur_subscription_observed_at cursor)
      then v\<lparr>cur_subscription_state := ne_subscription_state event,
             cur_subscription_observed_at := Some (ne_occurred_at event)\<rparr>
      else v)"

definition reduce_provider_state ::
    "ProviderStateCursor \<Rightarrow> NormalizedRazorpayEvent \<Rightarrow> ProviderStateCursor" where
  "reduce_provider_state cursor event =
     reduce_subscription_axis cursor event (reduce_payment_axis cursor event cursor)"

section \<open>Authoritative reads\<close>

record PaymentSnapshot =
  ps_provider :: string
  ps_payment_id :: "ident option"
  ps_invoice_id :: "ident option"
  ps_subscription_id :: "ident option"
  ps_payment_state :: PaymentState
  ps_subscription_state :: SubscriptionState
  ps_amount_paise :: paise
  ps_currency :: string
  ps_observed_at :: instant
  ps_authoritative :: bool

record InvoiceSnapshot =
  is_provider :: string
  is_invoice_id :: ident
  is_subscription_id :: ident
  is_amount_paise :: paise
  is_amount_paid_paise :: paise
  is_currency :: string
  is_invoice_state :: string
  is_due_at :: "instant option"
  is_observed_at :: instant
  is_authoritative :: bool

text \<open>The field constraints and the validator of the two contracts.\<close>

definition valid_payment_snapshot :: "PaymentSnapshot \<Rightarrow> bool" where
  "valid_payment_snapshot s \<longleftrightarrow> 0 \<le> ps_amount_paise s"

definition valid_invoice_snapshot :: "InvoiceSnapshot \<Rightarrow> bool" where
  "valid_invoice_snapshot s \<longleftrightarrow> 0 \<le> is_amount_paise s \<and> 0 \<le> is_amount_paid_paise s
     \<and> length (is_currency s) = 3 \<and> list_all (\<lambda>c. CHR ''A'' \<le> c \<and> c \<le> CHR ''Z'') (is_currency s)
     \<and> is_invoice_state s \<noteq> [] \<and> length (is_invoice_state s) \<le> 32
     \<and> is_amount_paid_paise s \<le> is_amount_paise s"

record PaymentRecoveryOutcome =
  po_provider_event_id :: ident
  po_payment_id :: "ident option"
  po_invoice_id :: ident
  po_subscription_id :: "ident option"
  po_authoritative_payment_state :: PaymentState
  po_authoritative_subscription_state :: SubscriptionState
  po_amount_paise :: paise
  po_arrears_collected :: bool
  po_subscription_reactivated :: bool
  po_late_success :: bool
  po_should_close_case :: bool

definition reconcile_payment_success ::
    "NormalizedRazorpayEvent \<Rightarrow> PaymentSnapshot \<Rightarrow> PaymentState
       \<Rightarrow> razorpay_error + PaymentRecoveryOutcome" where
  "reconcile_payment_success event snapshot current_payment_state =
     (if \<not> ps_authoritative snapshot \<or> ps_provider snapshot \<noteq> ''razorpay''
      then contract_fail ''RAZORPAY_RECONCILIATION_NOT_AUTHORITATIVE''
      else case or_text (ps_invoice_id snapshot) (ne_invoice_id event) of
        None \<Rightarrow> contract_fail ''RAZORPAY_RECONCILIATION_INVOICE_MISSING''
      | Some invoice_id \<Rightarrow>
          if truthy (ne_invoice_id event) \<and> truthy (ps_invoice_id snapshot)
             \<and> ne_invoice_id event \<noteq> ps_invoice_id snapshot
          then contract_fail ''RAZORPAY_RECONCILIATION_INVOICE_MISMATCH''
          else
            let captured = (ps_payment_state snapshot = Pay_CAPTURED) in
            Inr \<lparr>po_provider_event_id = ne_provider_event_id event,
                 po_payment_id = or_text (ps_payment_id snapshot) (ne_payment_id event),
                 po_invoice_id = invoice_id,
                 po_subscription_id = or_text (ps_subscription_id snapshot) (ne_subscription_id event),
                 po_authoritative_payment_state = ps_payment_state snapshot,
                 po_authoritative_subscription_state = ps_subscription_state snapshot,
                 po_amount_paise = ps_amount_paise snapshot, po_arrears_collected = captured,
                 po_subscription_reactivated = (ps_subscription_state snapshot = Sub_ACTIVE),
                 po_late_success = (captured \<and> current_payment_state \<noteq> Pay_CAPTURED),
                 po_should_close_case = captured\<rparr>)"

section \<open>What normalisation guarantees\<close>

lemma text_of_nonempty: "text_of v \<noteq> Some []"
  by (cases v) (auto simp: text_of_def)

lemma or_text_nonempty: "a \<noteq> Some [] \<Longrightarrow> b \<noteq> Some [] \<Longrightarrow> or_text a b \<noteq> Some []"
  by (auto simp: or_text_def)

lemma build_event_Inr:
  assumes "build_event pid ty payload ep = Inr e"
  shows "ne_provider_event_id e = pid \<and> ne_event_type e = ty \<and> ne_provider_payload e = payload
    \<and> ne_payment_state e = event_payment_state ty
    \<and> ne_subscription_state e = event_subscription_state ty
    \<and> ne_requires_authoritative_fetch e = (event_payment_state ty = Pay_CAPTURED)
    \<and> (\<forall>n. ne_amount_paise e = Some n \<longrightarrow> 0 \<le> n)"
    and "ne_invoice_id e \<noteq> Some [] \<and> ne_subscription_id e \<noteq> Some [] \<and> ne_case_id e \<noteq> Some []
    \<and> ne_payment_id e \<noteq> Some []"
proof -
  from assms have *: "ne_invoice_id e = or_text (text_of (jget (entity_of ep ''payment'') ''invoice_id''))
      (text_of (jget (notes_of (entity_of ep ''payment_link'')) ''invoice_id''))"
    "ne_subscription_id e = or_text (text_of (jget (entity_of ep ''subscription'') ''id''))
      (or_text (text_of (jget (notes_of (entity_of ep ''payment'')) ''subscription_id''))
        (text_of (jget (notes_of (entity_of ep ''payment_link'')) ''subscription_id'')))"
    "ne_case_id e = or_text (text_of (jget (notes_of (entity_of ep ''payment'')) ''case_id''))
      (text_of (jget (notes_of (entity_of ep ''payment_link'')) ''case_id''))"
    "ne_payment_id e = text_of (jget (entity_of ep ''payment'') ''id'')"
    by (auto simp: build_event_def Let_def result_simps split: if_splits)
  show "ne_invoice_id e \<noteq> Some [] \<and> ne_subscription_id e \<noteq> Some [] \<and> ne_case_id e \<noteq> Some []
    \<and> ne_payment_id e \<noteq> Some []"
    unfolding * by (intro conjI or_text_nonempty text_of_nonempty)
  show "ne_provider_event_id e = pid \<and> ne_event_type e = ty \<and> ne_provider_payload e = payload
    \<and> ne_payment_state e = event_payment_state ty
    \<and> ne_subscription_state e = event_subscription_state ty
    \<and> ne_requires_authoritative_fetch e = (event_payment_state ty = Pay_CAPTURED)
    \<and> (\<forall>n. ne_amount_paise e = Some n \<longrightarrow> 0 \<le> n)"
    using assms by (auto simp: build_event_def Let_def result_simps split: if_splits option.splits)
qed

lemma normalize_Inr:
  assumes "normalize_webhook pid payload = Inr e"
  obtains ty ep where "ty \<in> set SUPPORTED_EVENTS" "pid \<noteq> []" "length pid \<le> 200"
    "build_event pid ty payload ep = Inr e"
  using assms
  by (auto simp: normalize_webhook_def contract_fail_def split: option.splits if_splits)

text \<open>
  C37: only well-formed events enter the system. A normalised event has a supported type and a
  non-empty identifier that fits the inbox column; its amount is not negative; an identifier it
  carries is never the empty string; it claims a failed payment exactly for \<open>payment.failed\<close>; and
  whenever it claims a capture it demands an authoritative read.
\<close>

theorem normalized_event_well_formed:
  assumes "normalize_webhook pid payload = Inr e"
  shows "ne_event_type e \<in> set SUPPORTED_EVENTS
    \<and> ne_provider_event_id e = pid \<and> pid \<noteq> [] \<and> length pid \<le> 200
    \<and> (\<forall>n. ne_amount_paise e = Some n \<longrightarrow> 0 \<le> n)
    \<and> ne_invoice_id e \<noteq> Some [] \<and> ne_subscription_id e \<noteq> Some [] \<and> ne_case_id e \<noteq> Some []
    \<and> (ne_payment_state e = Pay_FAILED \<longleftrightarrow> ne_event_type e = ''payment.failed'')
    \<and> ne_payment_state e \<in> {Pay_UNKNOWN, Pay_FAILED, Pay_CAPTURED}
    \<and> ne_requires_authoritative_fetch e = (ne_payment_state e = Pay_CAPTURED)"
proof -
  obtain ty ep where n: "ty \<in> set SUPPORTED_EVENTS" "pid \<noteq> []" "length pid \<le> 200"
    "build_event pid ty payload ep = Inr e" using normalize_Inr [OF assms] .
  have "event_payment_state ty = Pay_FAILED \<longleftrightarrow> ty = ''payment.failed''"
    "event_payment_state ty \<in> {Pay_UNKNOWN, Pay_FAILED, Pay_CAPTURED}"
    by (auto simp: event_payment_state_def)
  then show ?thesis using n(1,2,3) build_event_Inr [OF n(4)] by metis
qed

definition sample_body :: jobject where
  "sample_body = [(''event'', JStr ''payment.captured''), (''created_at'', JInt 1700000000),
     (''payload'', JObj [(''payment'', JObj [(''entity'', JObj [(''id'', JStr ''pay_1''),
        (''invoice_id'', JStr ''inv_1''), (''amount'', JInt 149900), (''currency'', JStr ''INR'')])])])]"

lemma sample_body_normalizes: "\<exists>e. normalize_webhook ''evt_1'' sample_body = Inr e"
  by (simp add: normalize_webhook_def sample_body_def text_of_def as_object_def jget_def
      SUPPORTED_EVENTS_def build_event_def occurred_at_of_def entity_of_def or_int_def
      integer_of_def from_timestamp_def event_amount_def Let_def)

theorem normalized_event_well_formed_witness:
  "\<exists>e. normalize_webhook ''evt_1'' sample_body = Inr e
     \<and> ne_requires_authoritative_fetch e = (ne_payment_state e = Pay_CAPTURED)"
proof -
  obtain e where e: "normalize_webhook ''evt_1'' sample_body = Inr e"
    using sample_body_normalizes by blast
  from normalized_event_well_formed [OF e] e show ?thesis by blast
qed

section \<open>The event clock under reordering\<close>

lemma reduce_payment:
  "cur_payment_state (reduce_provider_state c e) =
     (if ne_payment_state e \<noteq> Pay_UNKNOWN \<and> is_newer (ne_occurred_at e) (cur_payment_observed_at c)
         \<and> (cur_payment_state c \<noteq> Pay_CAPTURED \<or> ne_payment_state e = Pay_CAPTURED)
      then ne_payment_state e else cur_payment_state c)"
  by (simp add: reduce_provider_state_def reduce_payment_axis_def reduce_subscription_axis_def)

lemma reduce_subscription:
  "cur_subscription_state (reduce_provider_state c e) =
     (if ne_subscription_state e \<noteq> Sub_UNKNOWN
         \<and> is_newer (ne_occurred_at e) (cur_subscription_observed_at c)
      then ne_subscription_state e else cur_subscription_state c)"
  "cur_subscription_observed_at (reduce_provider_state c e) =
     (if ne_subscription_state e \<noteq> Sub_UNKNOWN
         \<and> is_newer (ne_occurred_at e) (cur_subscription_observed_at c)
      then Some (ne_occurred_at e) else cur_subscription_observed_at c)"
  by (simp_all add: reduce_provider_state_def reduce_payment_axis_def reduce_subscription_axis_def)

text \<open>The subscription axis of a cursor shows the latest of the events it has seen.\<close>

definition lifecycle :: "NormalizedRazorpayEvent \<Rightarrow> bool" where
  "lifecycle e \<longleftrightarrow> ne_subscription_state e \<noteq> Sub_UNKNOWN"

definition shows_latest :: "NormalizedRazorpayEvent set \<Rightarrow> ProviderStateCursor \<Rightarrow> bool" where
  "shows_latest seen c \<longleftrightarrow>
     (if \<exists>e \<in> seen. lifecycle e
      then \<exists>e \<in> seen. lifecycle e \<and> cur_subscription_observed_at c = Some (ne_occurred_at e)
             \<and> cur_subscription_state c = ne_subscription_state e
             \<and> (\<forall>x \<in> seen. lifecycle x \<longrightarrow> ne_occurred_at x \<le> ne_occurred_at e)
      else cur_subscription_observed_at c = None \<and> cur_subscription_state c = Sub_UNKNOWN)"

lemma shows_latestE:
  assumes "shows_latest seen c" and "x \<in> seen" and "lifecycle x"
  obtains e where "e \<in> seen" "lifecycle e" "cur_subscription_observed_at c = Some (ne_occurred_at e)"
    "cur_subscription_state c = ne_subscription_state e"
    "\<And>y. y \<in> seen \<Longrightarrow> lifecycle y \<Longrightarrow> ne_occurred_at y \<le> ne_occurred_at e"
proof -
  have "\<exists>e \<in> seen. lifecycle e" using assms(2,3) by blast
  from assms(1) [unfolded shows_latest_def if_P [OF this]] that show ?thesis by blast
qed

lemma shows_latest_step:
  assumes "shows_latest seen c"
  shows "shows_latest (insert e seen) (reduce_provider_state c e)"
proof (cases "lifecycle e")
  case False
  then have "cur_subscription_observed_at (reduce_provider_state c e) = cur_subscription_observed_at c"
    "cur_subscription_state (reduce_provider_state c e) = cur_subscription_state c"
    by (simp_all add: reduce_subscription lifecycle_def)
  with False assms show ?thesis by (auto simp: shows_latest_def)
next
  case True
  show ?thesis
  proof (cases "is_newer (ne_occurred_at e) (cur_subscription_observed_at c)")
    case newer: True
    have "ne_occurred_at x \<le> ne_occurred_at e" if x: "x \<in> seen" "lifecycle x" for x
      using assms x
    proof (rule shows_latestE)
      fix y assume "cur_subscription_observed_at c = Some (ne_occurred_at y)"
        "\<And>z. z \<in> seen \<Longrightarrow> lifecycle z \<Longrightarrow> ne_occurred_at z \<le> ne_occurred_at y"
      then show ?thesis using newer x by (force simp: is_newer_def)
    qed
    with True newer show ?thesis by (auto simp: shows_latest_def reduce_subscription lifecycle_def)
  next
    case False
    then obtain t where t: "cur_subscription_observed_at c = Some t" "ne_occurred_at e < t"
      by (auto simp: is_newer_def split: option.splits)
    with assms obtain y where "y \<in> seen" "lifecycle y" "t = ne_occurred_at y"
      "cur_subscription_state c = ne_subscription_state y"
      "\<forall>x \<in> seen. lifecycle x \<longrightarrow> ne_occurred_at x \<le> ne_occurred_at y"
      by (auto simp: shows_latest_def split: if_splits)
    with t False True show ?thesis by (auto simp: shows_latest_def reduce_subscription)
  qed
qed

lemma fold_shows_latest:
  "shows_latest seen c \<Longrightarrow> shows_latest (set es \<union> seen) (fold (\<lambda>e c. reduce_provider_state c e) es c)"
proof (induction es arbitrary: seen c)
  case (Cons e es)
  from Cons.IH [OF shows_latest_step [OF Cons.prems, of e]] show ?case by simp
qed simp

definition reduce_all :: "NormalizedRazorpayEvent list \<Rightarrow> ProviderStateCursor" where
  "reduce_all es = fold (\<lambda>e c. reduce_provider_state c e) es initial_cursor"

lemma reduce_all_latest: "shows_latest (set es) (reduce_all es)"
  using fold_shows_latest [of "{}" initial_cursor es]
  by (simp add: reduce_all_def shows_latest_def initial_cursor_def)

text \<open>
  The subscription axis of the event clock is deterministic. If lifecycle events with the same
  time agree on the state, then every delivery order of the same events, with any duplication,
  ends in the same subscription state, that of the latest event.
\<close>

theorem subscription_axis_order_independent:
  assumes "set es = set fs"
    and "\<forall>e \<in> set es. \<forall>f \<in> set es. lifecycle e \<and> lifecycle f \<and> ne_occurred_at e = ne_occurred_at f
      \<longrightarrow> ne_subscription_state e = ne_subscription_state f"
  shows "cur_subscription_state (reduce_all es) = cur_subscription_state (reduce_all fs)
    \<and> cur_subscription_observed_at (reduce_all es) = cur_subscription_observed_at (reduce_all fs)"
proof (cases "\<exists>e \<in> set es. lifecycle e")
  case False
  then have "\<not> (\<exists>e \<in> set fs. lifecycle e)" unfolding assms(1) .
  with False reduce_all_latest [of es] reduce_all_latest [of fs] show ?thesis
    unfolding shows_latest_def by (simp only: if_False)
next
  case True
  then obtain x where x: "x \<in> set es" "lifecycle x" by blast
  obtain e where e: "e \<in> set es" "lifecycle e"
    "cur_subscription_observed_at (reduce_all es) = Some (ne_occurred_at e)"
    "cur_subscription_state (reduce_all es) = ne_subscription_state e"
    "\<And>y. y \<in> set es \<Longrightarrow> lifecycle y \<Longrightarrow> ne_occurred_at y \<le> ne_occurred_at e"
    using shows_latestE [OF reduce_all_latest x] by metis
  have latest_fs: "shows_latest (set es) (reduce_all fs)" unfolding assms(1) by (rule reduce_all_latest)
  obtain f where f: "f \<in> set es" "lifecycle f"
    "cur_subscription_observed_at (reduce_all fs) = Some (ne_occurred_at f)"
    "cur_subscription_state (reduce_all fs) = ne_subscription_state f"
    "\<And>y. y \<in> set es \<Longrightarrow> lifecycle y \<Longrightarrow> ne_occurred_at y \<le> ne_occurred_at f"
    using shows_latestE [OF latest_fs x] by metis
  have same: "ne_occurred_at e = ne_occurred_at f" using e f by (meson order_antisym)
  then have "ne_subscription_state e = ne_subscription_state f" using assms(2) e(1,2) f(1,2) by blast
  with same show ?thesis unfolding e(3,4) f(3,4) by simp
qed

definition sample_event :: "string \<Rightarrow> instant \<Rightarrow> NormalizedRazorpayEvent" where
  "sample_event ty t =
     \<lparr>ne_provider_event_id = ''evt_1'', ne_event_type = ty, ne_occurred_at = t, ne_account_id = None,
      ne_merchant_reference = None, ne_case_id = None, ne_payment_id = Some ''pay_1'',
      ne_payment_link_id = None, ne_invoice_id = Some ''inv_1'', ne_subscription_id = None,
      ne_amount_paise = Some 149900, ne_currency = Some ''INR'',
      ne_payment_state = event_payment_state ty, ne_subscription_state = event_subscription_state ty,
      ne_correlation_kind = event_correlation_kind ty,
      ne_requires_authoritative_fetch = (event_payment_state ty = Pay_CAPTURED),
      ne_provider_payload = []\<rparr>"

theorem subscription_axis_order_independent_witness:
  "cur_subscription_state (reduce_all [sample_event ''subscription.pending'' 1, sample_event ''subscription.halted'' 2])
   = cur_subscription_state (reduce_all [sample_event ''subscription.halted'' 2, sample_event ''subscription.pending'' 1])"
  by (rule conjunct1 [OF subscription_axis_order_independent])
     (auto simp: sample_event_def)

text \<open>
  The payment axis of the event clock never regresses a capture, but it does depend on the
  delivery order: the cursor comment promises a deterministic result under reordering, and a
  failure delivered before an earlier capture hides that capture.
\<close>

theorem payment_axis_capture_final_but_order_dependent:
  "(cur_payment_state (reduce_all es) = Pay_CAPTURED \<longrightarrow> cur_payment_state (reduce_all (es @ fs)) = Pay_CAPTURED)
   \<and> cur_payment_state (reduce_all [sample_event ''payment.captured'' 1, sample_event ''payment.failed'' 2])
       = Pay_CAPTURED
   \<and> cur_payment_state (reduce_all [sample_event ''payment.failed'' 2, sample_event ''payment.captured'' 1])
       = Pay_FAILED"
proof -
  have "cur_payment_state (fold (\<lambda>e c. reduce_provider_state c e) fs c) = Pay_CAPTURED"
    if "cur_payment_state c = Pay_CAPTURED" for c
    using that by (induction fs arbitrary: c) (simp_all add: reduce_payment)
  moreover have "cur_payment_state (reduce_all [sample_event ''payment.captured'' 1,
      sample_event ''payment.failed'' 2]) = Pay_CAPTURED"
    "cur_payment_state (reduce_all [sample_event ''payment.failed'' 2,
      sample_event ''payment.captured'' 1]) = Pay_FAILED"
    by (simp_all add: reduce_all_def reduce_provider_state_def reduce_payment_axis_def
        reduce_subscription_axis_def initial_cursor_def sample_event_def is_newer_def
        event_payment_state_def event_subscription_state_def)
  ultimately show ?thesis by (simp add: reduce_all_def)
qed

theorem payment_axis_capture_final_but_order_dependent_witness:
  "cur_payment_state (reduce_all ([sample_event ''payment.captured'' 1] @ [sample_event ''payment.failed'' 2]))
     = Pay_CAPTURED"
proof -
  have "cur_payment_state (reduce_all [sample_event ''payment.captured'' 1]) = Pay_CAPTURED"
    by (simp add: reduce_all_def reduce_payment initial_cursor_def sample_event_def is_newer_def
        event_payment_state_def)
  then show ?thesis
    using payment_axis_capture_final_but_order_dependent
      [of "[sample_event ''payment.captured'' 1]" "[sample_event ''payment.failed'' 2]"] by blast
qed

end
