(* ===== verification/Entities.thy ===== *)
theory Entities
  imports Razorpay_Events
begin

text \<open>
  Rows of the relational schema, \<open>services/api/app/models/entities.py\<close>. A timestamp column is
  \<open>UTCDateTime\<close>: it holds an instant. A row is a record with the columns the modelled code reads
  or writes; a table is a list of rows, and \<open>database\<close> holds the tables of the webhook processor.
  \<open>insert_row\<close> is an \<open>INSERT\<close>: it fails when a unique key of the new row is taken.
\<close>

section \<open>Rows\<close>

record Merchant =
  mr_id :: ident
  mr_timezone :: string

record MerchantPolicySetting =
  st_merchant_id :: ident
  st_quiet_hours_start :: "string option"
  st_quiet_hours_end :: "string option"
  st_max_contacts_per_7_days :: "int option"
  st_require_approval_above_paise :: "paise option"
  st_require_approval_actions :: "string list"
  st_recovery_kill_switch :: bool

record Customer =
  cu_id :: ident
  cu_merchant_id :: ident
  cu_phone_token :: "string option"
  cu_preferred_language :: string
  cu_voice_consent_at :: "instant option"
  cu_opted_out_at :: "instant option"
  cu_customer_agent_available :: bool
  cu_created_at :: instant

record Subscription =
  sb_id :: ident
  sb_merchant_id :: ident
  sb_customer_id :: ident
  sb_provider_subscription_id :: ident
  sb_plan_name :: string
  sb_currency :: string
  sb_subscription_state :: SubscriptionState
  sb_current_billing_cycle_key :: "string option"

record Invoice =
  iv_id :: ident
  iv_merchant_id :: ident
  iv_subscription_id :: ident
  iv_provider_invoice_id :: ident
  iv_billing_cycle_key :: string
  iv_amount_paise :: paise
  iv_amount_paid_paise :: paise
  iv_currency :: string
  iv_invoice_state :: string
  iv_due_at :: "instant option"

record PaymentAttempt =
  pa_id :: ident
  pa_merchant_id :: ident
  pa_invoice_id :: ident
  pa_subscription_id :: ident
  pa_provider_payment_id :: "ident option"
  pa_amount_paise :: paise
  pa_currency :: string
  pa_payment_state :: PaymentState
  pa_method :: "string option"
  pa_error_code :: "string option"
  pa_error_source :: "string option"
  pa_error_step :: "string option"
  pa_error_reason :: "string option"
  pa_occurred_at :: instant

record RecoveryCase =
  rc_id :: ident
  rc_merchant_id :: ident
  rc_customer_id :: ident
  rc_subscription_id :: ident
  rc_failed_invoice_id :: "ident option"
  rc_billing_cycle_key :: "string option"
  rc_failed_payment_id :: "ident option"
  rc_case_outcome :: CaseOutcome
  rc_payment_state :: PaymentState
  rc_subscription_state :: SubscriptionState
  rc_contact_disposition :: ContactDisposition
  rc_revenue_attribution :: RevenueAttribution
  rc_diagnosis :: Diagnosis
  rc_amount_at_risk_paise :: paise
  rc_arrears_collected_paise :: paise
  rc_case_recovered :: bool
  rc_subscription_reactivated :: bool
  rc_opened_at :: instant
  rc_recovery_deadline :: instant
  rc_recovered_at :: "instant option"
  rc_version :: int

text \<open>The check constraints of the table \<open>recovery_cases\<close>.\<close>

definition case_constraints :: "RecoveryCase \<Rightarrow> bool" where
  "case_constraints c \<longleftrightarrow>
     (rc_failed_invoice_id c \<noteq> None \<or> rc_billing_cycle_key c \<noteq> None)
     \<and> 0 \<le> rc_amount_at_risk_paise c \<and> 0 \<le> rc_arrears_collected_paise c
     \<and> 1 \<le> rc_version c \<and> rc_opened_at c < rc_recovery_deadline c"


record PolicyDecisionRecord =
  pr_id :: ident
  pr_case_id :: ident
  pr_action_id :: "ident option"
  pr_disposition :: PolicyDisposition
  pr_decision_code :: string
  pr_reason_codes :: "string list"
  pr_reasons :: "string list"
  pr_policy_version :: string
  pr_delay_until :: "instant option"
  pr_created_at :: instant

record RecoveryActionRecord =
  ar_id :: ident
  ar_case_id :: ident
  ar_action_type :: RecoveryActionType
  ar_payment_surface_type :: "PaymentSurfaceType option"
  ar_status :: ActionStatus
  ar_idempotency_key :: string
  ar_scheduled_for :: "instant option"
  ar_external_reference :: "string option"
  ar_customer_url :: "string option"
  ar_completed_at :: "instant option"
  ar_created_at :: instant
  ar_updated_at :: instant

text \<open>
  The payload of an event is kept for the rows whose payload is read again, the approvals of an
  operator; it is \<open>None\<close> for the others, which are only displayed.
\<close>

record RecoveryEventRecord =
  re_case_id :: ident
  re_event_type :: string
  re_source :: string
  re_evidence_kind :: EvidenceKind
  re_payload :: "jobject option"
  re_occurred_at :: instant
  re_correlation_id :: string
  re_source_event_id :: "ident option"

record RazorpayOutboxPayload =
  op_merchant_id :: ident
  op_event :: NormalizedRazorpayEvent

record WebhookInboxEntry =
  ib_id :: ident
  ib_merchant_id :: ident
  ib_provider :: string
  ib_provider_event_id :: ident
  ib_event_type :: string
  ib_payload :: jobject
  ib_occurred_at :: "instant option"
  ib_processed_at :: "instant option"
  ib_processing_error_code :: "string option"

text \<open>A stored payload that \<open>RazorpayOutboxPayload\<close> does not validate is \<open>None\<close>.\<close>

record OutboxMessage =
  ob_id :: ident
  ob_aggregate_type :: string
  ob_aggregate_id :: string
  ob_event_type :: string
  ob_payload :: "RazorpayOutboxPayload option"
  ob_deduplication_key :: string
  ob_available_at :: instant
  ob_published_at :: "instant option"
  ob_attempt_count :: nat
  ob_last_error_code :: "string option"
  ob_created_at :: instant

record RevenueRecognitionRecord =
  rg_case_id :: ident
  rg_merchant_id :: ident
  rg_payment_attempt_id :: "ident option"
  rg_provider :: string
  rg_provider_event_id :: ident
  rg_amount_paise :: paise
  rg_attribution :: RevenueAttribution
  rg_arrears_collected :: bool
  rg_subscription_reactivated :: bool
  rg_recognized_at :: instant

record database =
  db_merchants :: "Merchant list"
  db_settings :: "MerchantPolicySetting list"
  db_customers :: "Customer list"
  db_subscriptions :: "Subscription list"
  db_invoices :: "Invoice list"
  db_payments :: "PaymentAttempt list"
  db_cases :: "RecoveryCase list"
  db_policies :: "PolicyDecisionRecord list"
  db_actions :: "RecoveryActionRecord list"
  db_events :: "RecoveryEventRecord list"
  db_inbox :: "WebhookInboxEntry list"
  db_outbox :: "OutboxMessage list"
  db_revenue :: "RevenueRecognitionRecord list"

section \<open>Statements\<close>

definition insert_row :: "('r \<Rightarrow> 'r \<Rightarrow> bool) \<Rightarrow> 'r \<Rightarrow> 'r list \<Rightarrow> razorpay_error + 'r list" where
  "insert_row clash r rows = (if \<exists>x \<in> set rows. clash r x then Inl Integrity_Error else Inr (rows @ [r]))"

lemma insert_row_Inr [simp]:
  "insert_row clash r rows = Inr rows' \<longleftrightarrow> rows' = rows @ [r] \<and> (\<forall>x \<in> set rows. \<not> clash r x)"
  by (auto simp: insert_row_def)

text \<open>
  The primary key and the unique constraints of each table: when two rows clash. A \<open>NULL\<close> in a
  unique constraint clashes with nothing.
\<close>

definition invoice_clash :: "Invoice \<Rightarrow> Invoice \<Rightarrow> bool" where
  "invoice_clash a b \<longleftrightarrow> iv_id a = iv_id b
     \<or> iv_merchant_id a = iv_merchant_id b \<and> iv_provider_invoice_id a = iv_provider_invoice_id b
     \<or> iv_merchant_id a = iv_merchant_id b \<and> iv_subscription_id a = iv_subscription_id b
         \<and> iv_billing_cycle_key a = iv_billing_cycle_key b"

definition payment_clash :: "PaymentAttempt \<Rightarrow> PaymentAttempt \<Rightarrow> bool" where
  "payment_clash a b \<longleftrightarrow> pa_id a = pa_id b
     \<or> pa_merchant_id a = pa_merchant_id b \<and> pa_provider_payment_id a \<noteq> None
         \<and> pa_provider_payment_id a = pa_provider_payment_id b"

definition case_clash :: "RecoveryCase \<Rightarrow> RecoveryCase \<Rightarrow> bool" where
  "case_clash a b \<longleftrightarrow> rc_id a = rc_id b
     \<or> rc_merchant_id a = rc_merchant_id b \<and> rc_failed_invoice_id a \<noteq> None
         \<and> rc_failed_invoice_id a = rc_failed_invoice_id b
     \<or> rc_merchant_id a = rc_merchant_id b \<and> rc_failed_invoice_id a = None
         \<and> rc_failed_invoice_id b = None \<and> rc_billing_cycle_key a \<noteq> None
         \<and> rc_billing_cycle_key a = rc_billing_cycle_key b"

definition policy_clash :: "PolicyDecisionRecord \<Rightarrow> PolicyDecisionRecord \<Rightarrow> bool" where
  "policy_clash a b \<longleftrightarrow> pr_id a = pr_id b"

definition action_clash :: "RecoveryActionRecord \<Rightarrow> RecoveryActionRecord \<Rightarrow> bool" where
  "action_clash a b \<longleftrightarrow> ar_id a = ar_id b \<or> ar_idempotency_key a = ar_idempotency_key b"

definition event_clash :: "RecoveryEventRecord \<Rightarrow> RecoveryEventRecord \<Rightarrow> bool" where
  "event_clash a b \<longleftrightarrow> re_case_id a = re_case_id b \<and> re_source_event_id a \<noteq> None
     \<and> re_source_event_id a = re_source_event_id b"

definition inbox_clash :: "WebhookInboxEntry \<Rightarrow> WebhookInboxEntry \<Rightarrow> bool" where
  "inbox_clash a b \<longleftrightarrow> ib_id a = ib_id b
     \<or> ib_merchant_id a = ib_merchant_id b \<and> ib_provider a = ib_provider b
         \<and> ib_provider_event_id a = ib_provider_event_id b"

definition outbox_clash :: "OutboxMessage \<Rightarrow> OutboxMessage \<Rightarrow> bool" where
  "outbox_clash a b \<longleftrightarrow> ob_id a = ob_id b \<or> ob_deduplication_key a = ob_deduplication_key b"

definition revenue_clash :: "RevenueRecognitionRecord \<Rightarrow> RevenueRecognitionRecord \<Rightarrow> bool" where
  "revenue_clash a b \<longleftrightarrow> rg_merchant_id a = rg_merchant_id b \<and> rg_provider a = rg_provider b
     \<and> rg_provider_event_id a = rg_provider_event_id b"

text \<open>The check constraint of \<open>invoices\<close> on the paid amount.\<close>

definition invoice_constraints :: "Invoice \<Rightarrow> bool" where
  "invoice_constraints i \<longleftrightarrow> 0 \<le> iv_amount_paise i \<and> 0 \<le> iv_amount_paid_paise i
     \<and> iv_amount_paid_paise i \<le> iv_amount_paise i"

end
