(* ===== verification/Optimistic_Update.thy ===== *)
theory Optimistic_Update
  imports Entities
begin

text \<open>
  \<open>services/api/app/reliability/optimistic.py\<close>: compare-and-swap of a versioned recovery case.

  The table is a list of rows. The statement is atomic in the database, so concurrent writers are
  a sequence of calls. A change maps a column name to a value; a value of the wrong type, or one
  that breaks a check constraint of the table, is an error of the database.
\<close>

datatype case_value = V_outcome CaseOutcome | V_payment PaymentState
  | V_subscription SubscriptionState | V_contact ContactDisposition
  | V_attribution RevenueAttribution | V_int int | V_bool bool | V_instant "instant option"

type_synonym case_changes = "(string \<times> case_value) list"

datatype cas_error = Version_Not_Positive | Unsupported_Fields "string list" | No_Changes
  | Version_Conflict ident int | Database_Error

definition ALLOWED_FIELDS :: "string list" where
  "ALLOWED_FIELDS =
     [''case_outcome'', ''payment_state'', ''subscription_state'', ''contact_disposition'',
      ''revenue_attribution'', ''arrears_collected_paise'', ''case_recovered'',
      ''subscription_reactivated'', ''recovered_at'']"

definition set_column :: "string \<times> case_value \<Rightarrow> RecoveryCase \<Rightarrow> RecoveryCase option" where
  "set_column chg c =
     (case snd chg of
        V_outcome v \<Rightarrow> if fst chg = ''case_outcome'' then Some (c\<lparr>rc_case_outcome := v\<rparr>) else None
      | V_payment v \<Rightarrow> if fst chg = ''payment_state'' then Some (c\<lparr>rc_payment_state := v\<rparr>) else None
      | V_subscription v \<Rightarrow>
          if fst chg = ''subscription_state'' then Some (c\<lparr>rc_subscription_state := v\<rparr>) else None
      | V_contact v \<Rightarrow>
          if fst chg = ''contact_disposition'' then Some (c\<lparr>rc_contact_disposition := v\<rparr>) else None
      | V_attribution v \<Rightarrow>
          if fst chg = ''revenue_attribution'' then Some (c\<lparr>rc_revenue_attribution := v\<rparr>) else None
      | V_int v \<Rightarrow>
          if fst chg = ''arrears_collected_paise'' then Some (c\<lparr>rc_arrears_collected_paise := v\<rparr>)
          else None
      | V_bool v \<Rightarrow>
          if fst chg = ''case_recovered'' then Some (c\<lparr>rc_case_recovered := v\<rparr>)
          else if fst chg = ''subscription_reactivated''
          then Some (c\<lparr>rc_subscription_reactivated := v\<rparr>) else None
      | V_instant v \<Rightarrow>
          if fst chg = ''recovered_at'' then Some (c\<lparr>rc_recovered_at := v\<rparr>) else None)"

fun set_columns :: "case_changes \<Rightarrow> RecoveryCase \<Rightarrow> RecoveryCase option" where
  "set_columns [] c = Some c"
| "set_columns (chg # chgs) c =
     (case set_column chg c of None \<Rightarrow> None | Some c' \<Rightarrow> set_columns chgs c')"

text \<open>The row the statement writes: \<open>.values(**changes, version=expected_version + 1)\<close>.\<close>

definition cas_row :: "int \<Rightarrow> case_changes \<Rightarrow> RecoveryCase \<Rightarrow> RecoveryCase option" where
  "cas_row expected_version changes c =
     (case set_columns changes (c\<lparr>rc_version := expected_version + 1\<rparr>) of
        None \<Rightarrow> None | Some c' \<Rightarrow> if case_constraints c' then Some c' else None)"

definition cas_match :: "ident \<Rightarrow> ident \<Rightarrow> int \<Rightarrow> RecoveryCase \<Rightarrow> bool" where
  "cas_match merchant_id case_id expected_version c \<longleftrightarrow>
     rc_id c = case_id \<and> rc_merchant_id c = merchant_id \<and> rc_version c = expected_version"

definition compare_and_swap_case ::
    "ident \<Rightarrow> ident \<Rightarrow> int \<Rightarrow> case_changes \<Rightarrow> RecoveryCase list
       \<Rightarrow> cas_error + int \<times> RecoveryCase list" where
  "compare_and_swap_case merchant_id case_id expected_version changes rows =
     (let unknown = filter (\<lambda>f. f \<notin> set ALLOWED_FIELDS) (map fst changes);
          hit = cas_match merchant_id case_id expected_version in
      if expected_version < 1 then Inl Version_Not_Positive
      else if unknown \<noteq> [] then Inl (Unsupported_Fields (sort unknown))
      else if changes = [] then Inl No_Changes
      else if \<exists>c \<in> set rows. hit c \<and> cas_row expected_version changes c = None
      then Inl Database_Error
      else if length (filter hit rows) \<noteq> 1 then Inl (Version_Conflict case_id expected_version)
      else Inr (expected_version + 1,
                update_where hit (\<lambda>c. the (cas_row expected_version changes c)) rows))"

section \<open>What one write does\<close>

lemma set_column_keeps:
  "set_column chg c = Some c' \<Longrightarrow> rc_id c' = rc_id c \<and> rc_merchant_id c' = rc_merchant_id c
     \<and> rc_version c' = rc_version c \<and> rc_amount_at_risk_paise c' = rc_amount_at_risk_paise c
     \<and> rc_opened_at c' = rc_opened_at c \<and> rc_recovery_deadline c' = rc_recovery_deadline c"
  by (auto simp: set_column_def split: case_value.splits if_splits)

lemma set_columns_keeps:
  "set_columns chgs c = Some c' \<Longrightarrow> rc_id c' = rc_id c \<and> rc_merchant_id c' = rc_merchant_id c
     \<and> rc_version c' = rc_version c \<and> rc_amount_at_risk_paise c' = rc_amount_at_risk_paise c
     \<and> rc_opened_at c' = rc_opened_at c \<and> rc_recovery_deadline c' = rc_recovery_deadline c"
  by (induction chgs arbitrary: c) (auto split: option.splits dest: set_column_keeps)

lemma cas_row_keeps:
  "cas_row v chgs c = Some c' \<Longrightarrow> rc_id c' = rc_id c \<and> rc_merchant_id c' = rc_merchant_id c
     \<and> rc_version c' = v + 1 \<and> rc_amount_at_risk_paise c' = rc_amount_at_risk_paise c
     \<and> case_constraints c'"
  by (auto simp: cas_row_def dest: set_columns_keeps split: option.splits if_splits)

text \<open>The stored version of a case; \<open>None\<close> when the merchant has no such case.\<close>

definition stored_version :: "ident \<Rightarrow> ident \<Rightarrow> RecoveryCase list \<Rightarrow> int option" where
  "stored_version m i rows = map_option rc_version (find (\<lambda>c. rc_id c = i \<and> rc_merchant_id c = m) rows)"

lemma cas_Inr:
  assumes "compare_and_swap_case m i v chgs rows = Inr (w, rows')"
  shows "w = v + 1 \<and> map rc_id rows' = map rc_id rows
    \<and> (\<forall>c \<in> set rows. \<not> cas_match m i v c \<longrightarrow> c \<in> set rows')
    \<and> rows' = update_where (cas_match m i v) (\<lambda>c. the (cas_row v chgs c)) rows
    \<and> (\<forall>c \<in> set rows. cas_match m i v c \<longrightarrow> cas_row v chgs c \<noteq> None)
    \<and> length (filter (cas_match m i v) rows) = 1"
proof -
  from assms have ok: "\<forall>c \<in> set rows. cas_match m i v c \<longrightarrow> cas_row v chgs c \<noteq> None"
    and r: "w = v + 1" "rows' = update_where (cas_match m i v) (\<lambda>c. the (cas_row v chgs c)) rows"
    "length (filter (cas_match m i v) rows) = 1"
    by (auto simp: compare_and_swap_case_def Let_def split: if_splits)
  have "map rc_id rows' = map rc_id rows"
    using ok unfolding r(2) update_where_def by (fastforce dest: cas_row_keeps)
  with ok r show ?thesis by (auto simp: set_update_where)
qed

lemma find_update_where_key:
  assumes "distinct (map k rows)" and "r \<in> set rows" and "P r" and "\<And>x. P x \<Longrightarrow> x \<in> set rows \<Longrightarrow> k (f x) = k x"
  shows "find (\<lambda>x. k x = k r) (update_where P f rows) = Some (f r)"
proof -
  have map: "map k (update_where P f rows) = map k rows"
    using assms(4) by (simp add: update_where_def)
  have "f r \<in> set (update_where P f rows)" using assms(2,3) by (auto simp: set_update_where)
  with map assms(1) have "find (\<lambda>x. k x = k (f r)) (update_where P f rows) = Some (f r)"
    by (intro find_distinct_key) simp_all
  with assms(2,3,4) show ?thesis by simp
qed

definition row_key :: "RecoveryCase \<Rightarrow> ident \<times> ident" where
  "row_key c = (rc_id c, rc_merchant_id c)"

lemma stored_version_key: "stored_version m i rows = map_option rc_version (find (\<lambda>c. row_key c = (i, m)) rows)"
  by (simp add: stored_version_def row_key_def)

lemma distinct_row_key: "distinct (map rc_id rows) \<Longrightarrow> distinct (map row_key rows)"
  by (induction rows) (auto simp: row_key_def)

lemma cas_version:
  assumes "distinct (map rc_id rows)" and "compare_and_swap_case m i v chgs rows = Inr (w, rows')"
  shows "stored_version m i rows = Some v" and "stored_version m i rows' = Some (v + 1)"
    and "distinct (map rc_id rows')"
proof -
  note cas = cas_Inr [OF assms(2)]
  then obtain c where "filter (cas_match m i v) rows = [c]" by (auto simp: length_Suc_conv)
  then have c: "c \<in> set rows" "cas_match m i v c" by (auto simp: filter_eq_Cons_iff)
  then obtain c' where c': "cas_row v chgs c = Some c'" using cas by blast
  from c(2) have key: "row_key c = (i, m)" and v: "rc_version c = v"
    by (simp_all add: cas_match_def row_key_def)
  note d = distinct_row_key [OF assms(1)]
  show "stored_version m i rows = Some v"
    using find_distinct_key [OF d c(1)] key v by (simp add: stored_version_key)
  have "find (\<lambda>x. row_key x = row_key c)
      (update_where (cas_match m i v) (\<lambda>c. the (cas_row v chgs c)) rows) = Some (the (cas_row v chgs c))"
  proof (rule find_update_where_key [OF d c(1), where P = "cas_match m i v"])
    show "row_key (the (cas_row v chgs x)) = row_key x" if "cas_match m i v x" "x \<in> set rows" for x
      using cas that cas_row_keeps [of v chgs x] by (auto simp: row_key_def)
  qed (rule c(2))
  with c' key cas cas_row_keeps [OF c'] show "stored_version m i rows' = Some (v + 1)"
    by (simp add: stored_version_key)
  show "distinct (map rc_id rows')" using cas assms(1) by metis
qed

section \<open>Concurrent writers\<close>

record cas_call =
  cas_merchant :: ident
  cas_case :: ident
  cas_expected :: int
  cas_changes :: case_changes

definition run_cas :: "cas_call \<Rightarrow> RecoveryCase list \<Rightarrow> bool \<times> RecoveryCase list" where
  "run_cas call rows =
     (case compare_and_swap_case (cas_merchant call) (cas_case call) (cas_expected call)
             (cas_changes call) rows of
        Inl _ \<Rightarrow> (False, rows) | Inr (_, rows') \<Rightarrow> (True, rows'))"

text \<open>The expected versions of the calls on one case that succeed, in order, and the final table.\<close>

fun cas_history :: "ident \<Rightarrow> ident \<Rightarrow> cas_call list \<Rightarrow> RecoveryCase list \<Rightarrow> int list \<times> RecoveryCase list" where
  "cas_history m i [] rows = ([], rows)"
| "cas_history m i (call # calls) rows =
     (let (ok, rows') = run_cas call rows; (vs, rows'') = cas_history m i calls rows'
      in ((if ok \<and> cas_merchant call = m \<and> cas_case call = i then [cas_expected call] else []) @ vs,
          rows''))"

lemma run_cas_other:
  assumes "distinct (map rc_id rows)" and "\<not> (cas_merchant call = m \<and> cas_case call = i)"
  shows "stored_version m i (snd (run_cas call rows)) = stored_version m i rows"
    and "distinct (map rc_id (snd (run_cas call rows)))"
proof -
  let ?hit = "cas_match (cas_merchant call) (cas_case call) (cas_expected call)"
  show "distinct (map rc_id (snd (run_cas call rows)))"
    using assms(1) by (auto simp: run_cas_def dest: cas_Inr split: sum.splits)
  have same: "map_option rc_version (find (\<lambda>c. rc_id c = i \<and> rc_merchant_id c = m) (update_where ?hit f rows))
      = map_option rc_version (find (\<lambda>c. rc_id c = i \<and> rc_merchant_id c = m) rows)"
    if f: "\<forall>c \<in> set rows. ?hit c \<longrightarrow> rc_id (f c) = rc_id c \<and> rc_merchant_id (f c) = rc_merchant_id c" for f
    using f assms(2) by (induction rows) (auto simp: update_where_Cons cas_match_def)
  show "stored_version m i (snd (run_cas call rows)) = stored_version m i rows"
  proof (cases "compare_and_swap_case (cas_merchant call) (cas_case call) (cas_expected call)
      (cas_changes call) rows")
    case (Inl e)
    then show ?thesis by (simp add: run_cas_def)
  next
    case (Inr p)
    obtain w rows' where p: "p = (w, rows')" by (rule prod.exhaust)
    note cas = cas_Inr [OF Inr [unfolded p]]
    show ?thesis unfolding stored_version_def
      using cas same [of "\<lambda>c. the (cas_row (cas_expected call) (cas_changes call) c)"]
      by (fastforce simp: run_cas_def Inr p dest: cas_row_keeps)
  qed
qed

text \<open>
  No update is lost. Let any number of writers call compare-and-swap on a table whose
  identifiers are unique, in any interleaving and for any cases. Of the calls on one case, those
  that succeed name the versions from the version at the start to the version at the end, each
  exactly once and in order: of two writers that read the same version, at most one succeeds.
\<close>

theorem cas_linear_history:
  assumes "distinct (map rc_id rows)" and "stored_version m i rows = Some v"
    and "cas_history m i calls rows = (vs, rows')"
  shows "\<exists>w. stored_version m i rows' = Some w \<and> v \<le> w \<and> vs = [v..w - 1]"
  using assms
proof (induction calls arbitrary: rows v vs)
  case (Cons call calls)
  obtain ok rows1 where r1: "run_cas call rows = (ok, rows1)" by (rule prod.exhaust)
  obtain vs1 where h1: "cas_history m i calls rows1 = (vs1, rows')"
    and vs: "vs = (if ok \<and> cas_merchant call = m \<and> cas_case call = i then [cas_expected call] else []) @ vs1"
    using Cons.prems(3) r1 by (auto simp: Let_def split: prod.splits)
  show ?case
  proof (cases "ok \<and> cas_merchant call = m \<and> cas_case call = i")
    case True
    then obtain w where "compare_and_swap_case m i (cas_expected call) (cas_changes call) rows = Inr (w, rows1)"
      using r1 by (auto simp: run_cas_def split: sum.splits)
    note v1 = cas_version [OF Cons.prems(1) this]
    from Cons.IH [OF v1(3,2) h1] v1(1) Cons.prems(2) vs True show ?thesis
      by (auto simp: upto_rec1)
  next
    case False
    then have "stored_version m i rows1 = Some v" "distinct (map rc_id rows1)"
      using run_cas_other [OF Cons.prems(1), of call m i] r1 Cons.prems(1,2)
      by (auto simp: run_cas_def split: sum.splits)
    from Cons.IH [OF this(2,1) h1] vs False show ?thesis by auto
  qed
qed simp

definition sample_case :: RecoveryCase where
  "sample_case =
     \<lparr>rc_id = ''case_1'', rc_merchant_id = ''m1'', rc_customer_id = ''cust_1'',
      rc_subscription_id = ''sub_1'', rc_failed_invoice_id = Some ''inv_1'',
      rc_billing_cycle_key = None, rc_failed_payment_id = None, rc_case_outcome = Case_OPEN,
      rc_payment_state = Pay_FAILED, rc_subscription_state = Sub_PENDING,
      rc_contact_disposition = NOT_CONTACTED, rc_revenue_attribution = Attr_NONE,
      rc_diagnosis = INSUFFICIENT_FUNDS, rc_amount_at_risk_paise = 149900,
      rc_arrears_collected_paise = 0, rc_case_recovered = False,
      rc_subscription_reactivated = False, rc_opened_at = 0, rc_recovery_deadline = days 3,
      rc_recovered_at = None, rc_version = 4\<rparr>"

definition sample_writer :: cas_call where
  "sample_writer = \<lparr>cas_merchant = ''m1'', cas_case = ''case_1'', cas_expected = 4,
     cas_changes = [(''payment_state'', V_payment Pay_CAPTURED)]\<rparr>"

theorem cas_linear_history_witness:
  "fst (cas_history ''m1'' ''case_1'' [sample_writer, sample_writer] [sample_case]) = [4]
   \<and> (\<exists>w. stored_version ''m1'' ''case_1''
         (snd (cas_history ''m1'' ''case_1'' [sample_writer, sample_writer] [sample_case])) = Some w
       \<and> [4] = [4..w - 1])"
proof -
  let ?h = "cas_history ''m1'' ''case_1'' [sample_writer, sample_writer] [sample_case]"
  have one: "fst ?h = [4]"
    by (simp add: run_cas_def compare_and_swap_case_def sample_writer_def sample_case_def
        cas_match_def ALLOWED_FIELDS_def cas_row_def set_column_def case_constraints_def
        update_where_def duration_defs)
  have "\<exists>w. stored_version ''m1'' ''case_1'' (snd ?h) = Some w \<and> 4 \<le> w \<and> fst ?h = [4..w - 1]"
    by (rule cas_linear_history [OF _ _ prod.collapse [symmetric]])
       (simp_all add: stored_version_def sample_case_def)
  with one show ?thesis by auto
qed

end
