(* ===== verification/Webhook_Inbox.thy ===== *)
theory Webhook_Inbox
  imports Entities
begin

text \<open>
  \<open>services/api/app/webhooks/repository.py\<close> and \<open>razorpay.py\<close>: signature-first ingestion and the
  atomic inbox and outbox write.

  A request reads the tables in one state and commits in a later one, since other requests run in
  between: \<open>persist\<close> has the database at the look-up and the database at the commit as arguments.
  SHA-256 (\<open>digest\<close>), HMAC and the JSON decoder are arguments, as are the generated identifiers.
\<close>

section \<open>Operations\<close>

record InboxOutboxWrite =
  iw_inbox_id :: ident
  iw_outbox_id :: ident
  iw_duplicate :: bool

definition inbox_key :: "ident \<Rightarrow> ident \<Rightarrow> WebhookInboxEntry \<Rightarrow> bool" where
  "inbox_key merchant_id provider_event_id r \<longleftrightarrow> ib_merchant_id r = merchant_id
     \<and> ib_provider r = ''razorpay'' \<and> ib_provider_event_id r = provider_event_id"

definition find_existing :: "ident \<Rightarrow> ident \<Rightarrow> database \<Rightarrow> WebhookInboxEntry option" where
  "find_existing merchant_id provider_event_id db = find (inbox_key merchant_id provider_event_id) (db_inbox db)"

definition event_digest :: "(string \<Rightarrow> string) \<Rightarrow> ident \<Rightarrow> ident \<Rightarrow> string" where
  "event_digest sha256 merchant_id provider_event_id = sha256 (merchant_id @ '':'' @ provider_event_id)"

definition dedup_key :: "(string \<Rightarrow> string) \<Rightarrow> ident \<Rightarrow> ident \<Rightarrow> string" where
  "dedup_key sha256 merchant_id provider_event_id =
     ''razorpay:'' @ event_digest sha256 merchant_id provider_event_id"

definition find_outbox :: "(string \<Rightarrow> string) \<Rightarrow> ident \<Rightarrow> ident \<Rightarrow> database \<Rightarrow> OutboxMessage option" where
  "find_outbox sha256 merchant_id provider_event_id db =
     find (\<lambda>r. ob_deduplication_key r = dedup_key sha256 merchant_id provider_event_id) (db_outbox db)"

definition new_inbox :: "ident \<Rightarrow> ident \<Rightarrow> NormalizedRazorpayEvent \<Rightarrow> WebhookInboxEntry" where
  "new_inbox inbox_id merchant_id event =
     \<lparr>ib_id = inbox_id, ib_merchant_id = merchant_id, ib_provider = ''razorpay'',
      ib_provider_event_id = ne_provider_event_id event, ib_event_type = ne_event_type event,
      ib_payload = ne_provider_payload event, ib_occurred_at = Some (ne_occurred_at event),
      ib_processed_at = None, ib_processing_error_code = None\<rparr>"

definition new_outbox ::
    "(string \<Rightarrow> string) \<Rightarrow> ident \<Rightarrow> instant \<Rightarrow> ident \<Rightarrow> NormalizedRazorpayEvent \<Rightarrow> OutboxMessage" where
  "new_outbox sha256 outbox_id now merchant_id event =
     \<lparr>ob_id = outbox_id, ob_aggregate_type = ''razorpay_webhook'',
      ob_aggregate_id = event_digest sha256 merchant_id (ne_provider_event_id event),
      ob_event_type = ''RAZORPAY_WEBHOOK_RECEIVED'',
      ob_payload = Some \<lparr>op_merchant_id = merchant_id, op_event = event\<rparr>,
      ob_deduplication_key = dedup_key sha256 merchant_id (ne_provider_event_id event),
      ob_available_at = now, ob_published_at = None, ob_attempt_count = 0,
      ob_last_error_code = None, ob_created_at = now\<rparr>"

definition commit_pair ::
    "WebhookInboxEntry \<Rightarrow> OutboxMessage \<Rightarrow> database \<Rightarrow> razorpay_error + database" where
  "commit_pair inbox outbox db =
     bindE (insert_row inbox_clash inbox (db_inbox db)) (\<lambda>inboxes.
       bindE (insert_row outbox_clash outbox (db_outbox db)) (\<lambda>outboxes.
         Inr (db\<lparr>db_inbox := inboxes, db_outbox := outboxes\<rparr>)))"

definition persist ::
    "(string \<Rightarrow> string) \<Rightarrow> ident \<Rightarrow> ident \<Rightarrow> instant \<Rightarrow> ident \<Rightarrow> NormalizedRazorpayEvent
       \<Rightarrow> database \<Rightarrow> database \<Rightarrow> razorpay_error + InboxOutboxWrite \<times> database" where
  "persist sha256 inbox_id outbox_id now merchant_id event read db =
     (let event_id = ne_provider_event_id event in
      case find_existing merchant_id event_id read of
        Some existing \<Rightarrow>
          (case find_outbox sha256 merchant_id event_id read of
             None \<Rightarrow> Inl Runtime_Error
           | Some outbox \<Rightarrow>
               Inr (\<lparr>iw_inbox_id = ib_id existing, iw_outbox_id = ob_id outbox, iw_duplicate = True\<rparr>, db))
      | None \<Rightarrow>
          (case commit_pair (new_inbox inbox_id merchant_id event)
                  (new_outbox sha256 outbox_id now merchant_id event) db of
             Inr db' \<Rightarrow>
               Inr (\<lparr>iw_inbox_id = inbox_id, iw_outbox_id = outbox_id, iw_duplicate = False\<rparr>, db')
           | Inl err \<Rightarrow>
               (case (find_existing merchant_id event_id db, find_outbox sha256 merchant_id event_id db) of
                  (Some existing, Some outbox) \<Rightarrow>
                    Inr (\<lparr>iw_inbox_id = ib_id existing, iw_outbox_id = ob_id outbox,
                          iw_duplicate = True\<rparr>, db)
                | _ \<Rightarrow> Inl err)))"

record WebhookIngestionReceipt =
  wr_provider_event_id :: ident
  wr_inbox_id :: ident
  wr_outbox_id :: ident
  wr_accepted :: bool
  wr_duplicate :: bool

text \<open>The elapsed times of the receipt are observations of the clock and are left out.\<close>

definition ingest ::
    "(string \<Rightarrow> string) \<Rightarrow> (string \<Rightarrow> 'body \<Rightarrow> string) \<Rightarrow> ('body \<Rightarrow> json option) \<Rightarrow> ident \<Rightarrow> ident
       \<Rightarrow> instant \<Rightarrow> ident \<Rightarrow> 'body \<Rightarrow> string \<Rightarrow> ident \<Rightarrow> string \<Rightarrow> database \<Rightarrow> database
       \<Rightarrow> razorpay_error + WebhookIngestionReceipt \<times> database" where
  "ingest sha256 hmac_hex loads inbox_id outbox_id now merchant_id raw_body signature
       provider_event_id webhook_secret read db =
     bindE (verify_webhook_signature hmac_hex raw_body signature webhook_secret) (\<lambda>_.
       case loads raw_body of
         Some (JObj decoded) \<Rightarrow>
           bindE (normalize_webhook (py_strip provider_event_id) decoded) (\<lambda>event.
           bindE (persist sha256 inbox_id outbox_id now merchant_id event read db) (\<lambda>(write, db').
             Inr (\<lparr>wr_provider_event_id = ne_provider_event_id event,
                   wr_inbox_id = iw_inbox_id write, wr_outbox_id = iw_outbox_id write,
                   wr_accepted = True, wr_duplicate = iw_duplicate write\<rparr>, db')))
       | _ \<Rightarrow> contract_fail ''RAZORPAY_WEBHOOK_JSON_INVALID'')"

section \<open>Paired tables\<close>

text \<open>
  The invariant of the two tables: the unique keys hold, and every Razorpay receipt has its
  dispatch message. \<open>grows\<close>: what other requests do to the tables between a look-up and a commit;
  rows are only added, and a row keeps its key.
\<close>

definition receipt_key :: "WebhookInboxEntry \<Rightarrow> ident \<times> string \<times> ident" where
  "receipt_key r = (ib_merchant_id r, ib_provider r, ib_provider_event_id r)"

definition paired :: "(string \<Rightarrow> string) \<Rightarrow> database \<Rightarrow> bool" where
  "paired sha256 db \<longleftrightarrow> distinct (map receipt_key (db_inbox db)) \<and> distinct (map ib_id (db_inbox db))
     \<and> distinct (map ob_deduplication_key (db_outbox db))
     \<and> (\<forall>r \<in> set (db_inbox db). ib_provider r = ''razorpay'' \<longrightarrow>
          (\<exists>m \<in> set (db_outbox db). ob_deduplication_key m
             = dedup_key sha256 (ib_merchant_id r) (ib_provider_event_id r)))"

definition grows :: "database \<Rightarrow> database \<Rightarrow> bool" where
  "grows read db \<longleftrightarrow> (\<lambda>r. (ib_id r, receipt_key r)) ` set (db_inbox read)
       \<subseteq> (\<lambda>r. (ib_id r, receipt_key r)) ` set (db_inbox db)
     \<and> (\<lambda>m. (ob_id m, ob_deduplication_key m)) ` set (db_outbox read)
       \<subseteq> (\<lambda>m. (ob_id m, ob_deduplication_key m)) ` set (db_outbox db)"

lemma inbox_key_iff: "inbox_key m e r \<longleftrightarrow> receipt_key r = (m, ''razorpay'', e)"
  by (auto simp: inbox_key_def receipt_key_def)

lemma inbox_key_eq: "inbox_key m e = (\<lambda>r. receipt_key r = (m, ''razorpay'', e))"
  by (rule ext) (rule inbox_key_iff)

lemma commit_pair_Inr:
  "commit_pair i ob db = Inr db' \<longleftrightarrow> db' = db\<lparr>db_inbox := db_inbox db @ [i], db_outbox := db_outbox db @ [ob]\<rparr>
     \<and> (\<forall>x \<in> set (db_inbox db). \<not> inbox_clash i x) \<and> (\<forall>x \<in> set (db_outbox db). \<not> outbox_clash ob x)"
  by (auto simp: commit_pair_def bindE_eq_Inr)

lemma commit_pair_paired:
  assumes "paired sha256 db"
    and "commit_pair (new_inbox i m e) (new_outbox sha256 ob now m e) db = Inr db'"
  shows "paired sha256 db'"
proof -
  from assms(2) have db': "db' = db\<lparr>db_inbox := db_inbox db @ [new_inbox i m e],
      db_outbox := db_outbox db @ [new_outbox sha256 ob now m e]\<rparr>"
    and fresh: "\<forall>x \<in> set (db_inbox db). ib_id x \<noteq> i \<and> receipt_key x \<noteq> (m, ''razorpay'', ne_provider_event_id e)"
    "\<forall>x \<in> set (db_outbox db). ob_deduplication_key x \<noteq> dedup_key sha256 m (ne_provider_event_id e)"
    by (auto simp: commit_pair_Inr inbox_clash_def outbox_clash_def new_inbox_def new_outbox_def
        receipt_key_def)
  then show ?thesis using assms(1)
    by (auto simp: paired_def new_inbox_def new_outbox_def receipt_key_def)
qed

lemma persist_Inr:
  assumes "persist sha256 i ob now m e read db = Inr (w, db')"
  shows "(iw_duplicate w \<and> db' = db
       \<and> (find_existing m (ne_provider_event_id e) read \<noteq> None
          \<or> find_existing m (ne_provider_event_id e) db \<noteq> None))
    \<or> (\<not> iw_duplicate w \<and> commit_pair (new_inbox i m e) (new_outbox sha256 ob now m e) db = Inr db')"
  using assms
  by (auto simp: persist_def Let_def split: option.splits sum.splits)

lemma grows_existing:
  assumes "grows read db" and "find_existing m e read = Some r"
  shows "\<exists>x \<in> set (db_inbox db). receipt_key x = (m, ''razorpay'', e)"
proof -
  have r: "r \<in> set (db_inbox read)" "receipt_key r = (m, ''razorpay'', e)"
    using find_SomeD [OF assms(2) [unfolded find_existing_def]] by (simp_all add: inbox_key_iff)
  then have "(ib_id r, receipt_key r) \<in> (\<lambda>r. (ib_id r, receipt_key r)) ` set (db_inbox db)"
    using assms(1) unfolding grows_def by blast
  then show ?thesis using r(2) by auto
qed

lemma distinct_one:
  assumes "distinct (map k xs)" and "x \<in> set xs" and "k x = v"
  shows "length (filter (\<lambda>y. k y = v) xs) = 1"
  using assms by (induction xs) (auto simp: filter_empty_conv image_iff)

text \<open>
  C34: a webhook is received once. Whatever other requests commit between the look-up and the
  commit, \<open>persist\<close> keeps the two tables paired, leaves exactly one receipt for the event, and adds
  a receipt and its dispatch message together or not at all.
\<close>

theorem persist_receives_once:
  assumes "paired sha256 db" and "grows read db"
    and "persist sha256 i ob now m e read db = Inr (w, db')"
  shows "paired sha256 db'
    \<and> length (filter (inbox_key m (ne_provider_event_id e)) (db_inbox db')) = 1
    \<and> (if iw_duplicate w then db' = db
       else db_inbox db' = db_inbox db @ [new_inbox i m e]
          \<and> db_outbox db' = db_outbox db @ [new_outbox sha256 ob now m e])"
proof (cases "iw_duplicate w")
  case True
  then have same: "db' = db" and "find_existing m (ne_provider_event_id e) read \<noteq> None
      \<or> find_existing m (ne_provider_event_id e) db \<noteq> None"
    using persist_Inr [OF assms(3)] by auto
  moreover have "grows db db" by (simp add: grows_def)
  ultimately obtain x where "x \<in> set (db_inbox db)"
    "receipt_key x = (m, ''razorpay'', ne_provider_event_id e)"
    using grows_existing [OF assms(2)] grows_existing [of db db] by blast
  then have "length (filter (\<lambda>y. receipt_key y = (m, ''razorpay'', ne_provider_event_id e)) (db_inbox db)) = 1"
    using assms(1) distinct_one [of receipt_key] by (simp add: paired_def)
  then show ?thesis using True same assms(1) by (simp add: inbox_key_eq)
next
  case False
  then have cp: "commit_pair (new_inbox i m e) (new_outbox sha256 ob now m e) db = Inr db'"
    using persist_Inr [OF assms(3)] by auto
  then have "filter (inbox_key m (ne_provider_event_id e)) (db_inbox db) = []"
    by (auto simp: commit_pair_Inr inbox_clash_def new_inbox_def inbox_key_def filter_empty_conv)
  moreover have "inbox_key m (ne_provider_event_id e) (new_inbox i m e)"
    by (simp add: inbox_key_def new_inbox_def)
  ultimately show ?thesis using False cp commit_pair_paired [OF assms(1) cp]
    by (auto simp: commit_pair_Inr)
qed

lemma find_outbox_paired:
  assumes "paired sha256 db" and "find_existing m e db = Some r"
  shows "\<exists>x. find_outbox sha256 m e db = Some x"
proof -
  have "r \<in> set (db_inbox db)" "inbox_key m e r"
    using find_SomeD [OF assms(2) [unfolded find_existing_def]] by simp_all
  then have "\<exists>x \<in> set (db_outbox db). ob_deduplication_key x = dedup_key sha256 m e"
    using assms(1) by (auto simp: paired_def inbox_key_def)
  then show ?thesis unfolding find_outbox_def by (metis (mono_tags, lifting) find_None_iff option.exhaust)
qed

text \<open>
  A genuine webhook is never refused by the store. If the tables are paired at both moments
  and the generated identifiers and the digest of a new event are fresh, \<open>persist\<close> always
  returns, also when another request wins the race for the same event.
\<close>

theorem persist_total:
  assumes "paired sha256 read" and "paired sha256 db"
    and "i \<notin> ib_id ` set (db_inbox db)" and "ob \<notin> ob_id ` set (db_outbox db)"
    and "\<forall>x \<in> set (db_outbox db). ob_deduplication_key x = dedup_key sha256 m (ne_provider_event_id e)
      \<longrightarrow> find_existing m (ne_provider_event_id e) db \<noteq> None"
  shows "\<exists>w db'. persist sha256 i ob now m e read db = Inr (w, db')"
proof (cases "find_existing m (ne_provider_event_id e) read")
  case (Some r)
  from find_outbox_paired [OF assms(1) this] Some show ?thesis
    by (auto simp: persist_def Let_def)
next
  case None
  show ?thesis
  proof (cases "find_existing m (ne_provider_event_id e) db")
    case (Some r)
    from find_outbox_paired [OF assms(2) this] Some None show ?thesis
      by (auto simp: persist_def Let_def split: sum.splits)
  next
    case absent: None
    have "\<not> inbox_clash (new_inbox i m e) x" if "x \<in> set (db_inbox db)" for x
      using absent assms(3) that
      by (auto simp: inbox_clash_def new_inbox_def find_existing_def find_None_iff inbox_key_def)
    moreover have "\<not> outbox_clash (new_outbox sha256 ob now m e) x" if "x \<in> set (db_outbox db)" for x
      using absent assms(4,5) that by (auto simp: outbox_clash_def new_outbox_def)
    ultimately have "commit_pair (new_inbox i m e) (new_outbox sha256 ob now m e) db
        = Inr (db\<lparr>db_inbox := db_inbox db @ [new_inbox i m e],
                  db_outbox := db_outbox db @ [new_outbox sha256 ob now m e]\<rparr>)"
      by (simp add: commit_pair_Inr)
    with None show ?thesis by (simp add: persist_def Let_def)
  qed
qed

text \<open>
  C35: nothing is stored before the signature is verified. If \<open>ingest\<close> succeeds, the received
  signature is the HMAC of exactly the received bytes under the merchant's secret, up to case and
  surrounding white space, the event it stores is the one in the body, and it is acknowledged
  under the identifier that is stored.
\<close>

theorem ingest_authenticated:
  assumes "ingest sha256 hmac_hex loads i ob now m body signature event_id secret read db = Inr (rcpt, db')"
  shows "secret \<noteq> [] \<and> hmac_hex secret body = py_lower (py_strip signature)
    \<and> (\<exists>decoded e w. loads body = Some (JObj decoded)
        \<and> normalize_webhook (py_strip event_id) decoded = Inr e
        \<and> persist sha256 i ob now m e read db = Inr (w, db')
        \<and> wr_provider_event_id rcpt = py_strip event_id \<and> wr_duplicate rcpt = iw_duplicate w)"
proof -
  have sig: "secret \<noteq> [] \<and> hmac_hex secret body = py_lower (py_strip signature)"
    using assms by (auto simp: ingest_def verify_webhook_signature_def webhook_signature_def
        contract_fail_def result_simps split: if_splits)
  obtain decoded where body: "loads body = Some (JObj decoded)"
    using assms by (auto simp: ingest_def contract_fail_def result_simps split: option.splits json.splits)
  with assms obtain e w where n: "normalize_webhook (py_strip event_id) decoded = Inr e"
    and p: "persist sha256 i ob now m e read db = Inr (w, db')"
    and r: "wr_provider_event_id rcpt = ne_provider_event_id e" "wr_duplicate rcpt = iw_duplicate w"
    by (auto simp: ingest_def result_simps)
  from n have "ne_provider_event_id e = py_strip event_id"
    by (rule normalize_Inr) (use build_event_Inr(1) in blast)
  with sig body n p r show ?thesis by auto
qed

section \<open>A concrete request\<close>

definition empty_db :: database where
  "empty_db = \<lparr>db_merchants = [], db_settings = [], db_customers = [], db_subscriptions = [],
     db_invoices = [], db_payments = [], db_cases = [], db_policies = [], db_actions = [],
     db_events = [], db_inbox = [], db_outbox = [], db_revenue = []\<rparr>"

lemma empty_db_paired: "paired sha256 empty_db"
  by (simp add: paired_def empty_db_def)

definition toy_hash :: "string \<Rightarrow> string" where "toy_hash s = s"

abbreviation sample_capture_event :: NormalizedRazorpayEvent where
  "sample_capture_event \<equiv> sample_event ''payment.captured'' 1"

lemma sample_persist:
  "\<exists>w db'. persist toy_hash ''i'' ''o'' 0 ''m1'' sample_capture_event empty_db empty_db = Inr (w, db')"
  by (simp add: persist_def find_existing_def commit_pair_def insert_row_def empty_db_def)

theorem persist_receives_once_witness:
  "\<exists>w db'. persist toy_hash ''i'' ''o'' 0 ''m1'' sample_capture_event empty_db empty_db = Inr (w, db')
     \<and> length (filter (inbox_key ''m1'' ''evt_1'') (db_inbox db')) = 1"
proof -
  obtain w db' where p: "persist toy_hash ''i'' ''o'' 0 ''m1'' sample_capture_event empty_db empty_db
      = Inr (w, db')" using sample_persist by blast
  have "grows empty_db empty_db" by (simp add: grows_def)
  from persist_receives_once [OF empty_db_paired this p] p show ?thesis by (simp add: sample_event_def)
qed

theorem persist_total_witness:
  "\<exists>w db'. persist toy_hash ''i'' ''o'' 0 ''m1'' sample_capture_event empty_db empty_db = Inr (w, db')"
  by (rule persist_total) (simp_all add: empty_db_paired, simp_all add: empty_db_def)

definition toy_hmac :: "string \<Rightarrow> string \<Rightarrow> string" where "toy_hmac secret body = ''ab''"

definition toy_loads :: "string \<Rightarrow> json option" where "toy_loads body = Some (JObj sample_body)"

lemma sample_ingest:
  "\<exists>r db'. ingest toy_hash toy_hmac toy_loads ''i'' ''o'' 0 ''m1'' ''body'' ''ab'' ''evt_1'' ''secret''
     empty_db empty_db = Inr (r, db')"
proof -
  obtain e where e: "normalize_webhook ''evt_1'' sample_body = Inr e"
    using sample_body_normalizes by blast
  have "py_lower (py_strip ''ab'') = ''ab''" "py_strip ''evt_1'' = ''evt_1''" by code_simp+
  then show ?thesis using e
    by (simp add: ingest_def verify_webhook_signature_def webhook_signature_def toy_hmac_def
        toy_loads_def persist_def find_existing_def commit_pair_def insert_row_def empty_db_def Let_def)
qed

theorem ingest_authenticated_witness:
  "\<exists>r db'. ingest toy_hash toy_hmac toy_loads ''i'' ''o'' 0 ''m1'' ''body'' ''ab'' ''evt_1'' ''secret''
     empty_db empty_db = Inr (r, db') \<and> toy_hmac ''secret'' ''body'' = py_lower (py_strip ''ab'')"
proof -
  obtain r db' where i: "ingest toy_hash toy_hmac toy_loads ''i'' ''o'' 0 ''m1'' ''body'' ''ab'' ''evt_1''
      ''secret'' empty_db empty_db = Inr (r, db')" using sample_ingest by blast
  from ingest_authenticated [OF i] i show ?thesis by blast
qed

end
