(* ===== verification/Webhook_Processor.thy ===== *)
theory Webhook_Processor
  imports Webhook_Inbox Decision_Engine
begin

text \<open>
  \<open>services/api/app/webhooks/processor.py\<close>: durable processing of the Razorpay outbox and
  convergence of the case state.

  A method that works on the session is a function from the database to an exception or a result
  with the changed database; the \<open>except\<close> of \<open>process_next\<close> goes back to the last committed
  database. A row the code holds and mutates is written back by its primary key.

  The record \<open>processor_env\<close> is what the processor is constructed with or calls outside: the
  provider, the scorer, the time-zone database, SHA-256, the readings of the clock at each call,
  the dispatch callback, and whether the customer-agent executor is configured. Audit payloads
  (\<open>to_audit_payload\<close>, \<open>details\<close>) and the length limits of text columns are not modelled.
\<close>

section \<open>The environment and the results\<close>

type_synonym effects = "(string \<times> scalar) list"

record RazorpayDownstreamSignal =
  sg_idempotency_key :: string
  sg_merchant_id :: ident
  sg_provider_event_id :: ident
  sg_event_type :: string
  sg_case_id :: "ident option"
  sg_normalized_event :: NormalizedRazorpayEvent
  sg_effects :: effects

datatype publication = PUBLISHED | FAILED

record OutboxProcessResult =
  or_outbox_id :: ident
  or_status :: publication
  or_attempt_count :: nat
  or_provider_event_id :: "ident option"
  or_case_id :: "ident option"
  or_error_code :: "string option"

record correlation =
  co_subscription :: "Subscription option"
  co_invoice :: "Invoice option"
  co_recovery_case :: "RecoveryCase option"

record processor_env =
  pe_now :: instant
  pe_evaluated_at :: instant
  pe_utc_now :: instant
  pe_completed_at :: instant
  pe_failed_at :: instant
  pe_retry_base_delay :: int
  pe_dispatch_lease :: int
  pe_global_kill_switch :: bool
  pe_scorer :: scorer
  pe_zones :: "string \<Rightarrow> timezone option"
  pe_sha256 :: "string \<Rightarrow> string"
  pe_payment_snapshot :: "ident \<Rightarrow> ident option \<Rightarrow> ident \<Rightarrow> razorpay_error + PaymentSnapshot"
  pe_invoice_snapshot :: "(ident \<Rightarrow> ident \<Rightarrow> razorpay_error + InvoiceSnapshot) option"
  pe_standard_links :: bool
  pe_agent_ready :: bool
  pe_signal :: "RazorpayDownstreamSignal \<Rightarrow> bool"

definition DEFAULT_RECOVERY_WINDOW :: int where
  "DEFAULT_RECOVERY_WINDOW = days 3"

definition error_code_of :: "razorpay_error \<Rightarrow> string" where
  "error_code_of e =
     (case e of
        Razorpay_Error code \<Rightarrow> take 128 code
      | Downstream_Failed \<Rightarrow> ''RAZORPAY_DOWNSTREAM_SIGNAL_FAILED''
      | _ \<Rightarrow> ''RAZORPAY_OUTBOX_PROCESSING_FAILED'')"

text \<open>What the provider returns is a validated contract model.\<close>

definition fetch_payment_snapshot ::
    "processor_env \<Rightarrow> ident \<Rightarrow> ident option \<Rightarrow> ident \<Rightarrow> razorpay_error + PaymentSnapshot" where
  "fetch_payment_snapshot env m p i =
     bindE (pe_payment_snapshot env m p i) (\<lambda>s. if valid_payment_snapshot s then Inr s else Inl Validation_Error)"

definition fetch_invoice_snapshot ::
    "(ident \<Rightarrow> ident \<Rightarrow> razorpay_error + InvoiceSnapshot) \<Rightarrow> ident \<Rightarrow> ident \<Rightarrow> razorpay_error + InvoiceSnapshot" where
  "fetch_invoice_snapshot fetch m i =
     bindE (fetch m i) (\<lambda>s. if valid_invoice_snapshot s then Inr s else Inl Validation_Error)"

section \<open>Correlation\<close>

definition find_inbox :: "RazorpayOutboxPayload \<Rightarrow> database \<Rightarrow> WebhookInboxEntry option" where
  "find_inbox payload db =
     find (inbox_key (op_merchant_id payload) (ne_provider_event_id (op_event payload))) (db_inbox db)"

definition lock_inbox :: "RazorpayOutboxPayload \<Rightarrow> database \<Rightarrow> razorpay_error + WebhookInboxEntry" where
  "lock_inbox payload db =
     (case find_inbox payload db of
        None \<Rightarrow> contract_fail ''RAZORPAY_INBOX_NOT_FOUND''
      | Some inbox \<Rightarrow>
          if ib_processed_at inbox \<noteq> None then contract_fail ''RAZORPAY_INBOX_ALREADY_PROCESSED''
          else Inr inbox)"

definition invoice_id_of :: "(string \<Rightarrow> string) \<Rightarrow> ident \<Rightarrow> ident \<Rightarrow> ident" where
  "invoice_id_of sha256 merchant_id provider_invoice_id =
     ''invoice_rzp_'' @ take 40 (sha256 (merchant_id @ '':'' @ provider_invoice_id))"

definition invoice_billing_cycle_key :: "(string \<Rightarrow> string) \<Rightarrow> ident \<Rightarrow> string" where
  "invoice_billing_cycle_key sha256 provider_invoice_id =
     (let value = ''razorpay:'' @ provider_invoice_id in
      if length value \<le> 64 then value else ''razorpay:'' @ take 40 (sha256 provider_invoice_id))"

definition case_of_merchant :: "ident \<Rightarrow> ident \<Rightarrow> database \<Rightarrow> RecoveryCase option" where
  "case_of_merchant m i db = find (\<lambda>c. rc_id c = i \<and> rc_merchant_id c = m) (db_cases db)"

definition provider_invoice :: "ident \<Rightarrow> ident \<Rightarrow> database \<Rightarrow> Invoice option" where
  "provider_invoice m i db = find (\<lambda>v. iv_merchant_id v = m \<and> iv_provider_invoice_id v = i) (db_invoices db)"

definition provider_subscription :: "ident \<Rightarrow> ident \<Rightarrow> database \<Rightarrow> Subscription option" where
  "provider_subscription m i db =
     find (\<lambda>s. sb_merchant_id s = m \<and> sb_provider_subscription_id s = i) (db_subscriptions db)"

definition subscription_of_merchant :: "ident \<Rightarrow> ident \<Rightarrow> database \<Rightarrow> Subscription option" where
  "subscription_of_merchant m i db = find (\<lambda>s. sb_id s = i \<and> sb_merchant_id s = m) (db_subscriptions db)"

definition add_invoice ::
    "processor_env \<Rightarrow> ident \<Rightarrow> InvoiceSnapshot \<Rightarrow> Subscription \<Rightarrow> database
       \<Rightarrow> razorpay_error + (Invoice \<times> Subscription) \<times> database" where
  "add_invoice env m snapshot subscription db =
     (let cycle = invoice_billing_cycle_key (pe_sha256 env) (is_invoice_id snapshot);
          invoice = \<lparr>iv_id = invoice_id_of (pe_sha256 env) m (is_invoice_id snapshot),
            iv_merchant_id = m, iv_subscription_id = sb_id subscription,
            iv_provider_invoice_id = is_invoice_id snapshot, iv_billing_cycle_key = cycle,
            iv_amount_paise = is_amount_paise snapshot,
            iv_amount_paid_paise = is_amount_paid_paise snapshot,
            iv_currency = is_currency snapshot, iv_invoice_state = is_invoice_state snapshot,
            iv_due_at = is_due_at snapshot\<rparr>;
          subscription' = (if sb_current_billing_cycle_key subscription = None
            then subscription\<lparr>sb_current_billing_cycle_key := Some cycle\<rparr> else subscription) in
      bindE (insert_row invoice_clash invoice (db_invoices db)) (\<lambda>invoices.
        Inr ((invoice, subscription'),
             db\<lparr>db_invoices := invoices,
                db_subscriptions := save_row sb_id subscription' (db_subscriptions db)\<rparr>)))"

definition hydrate_webhook_invoice ::
    "processor_env \<Rightarrow> RazorpayOutboxPayload \<Rightarrow> database
       \<Rightarrow> razorpay_error + (Invoice \<times> Subscription) \<times> database" where
  "hydrate_webhook_invoice env payload db =
     (let m = op_merchant_id payload; event = op_event payload in
      case (ne_invoice_id event, pe_invoice_snapshot env) of
        (Some invoice_id, Some fetch) \<Rightarrow>
          bindE (fetch_invoice_snapshot fetch m invoice_id) (\<lambda>snapshot.
            if \<not> is_authoritative snapshot \<or> is_provider snapshot \<noteq> ''razorpay''
               \<or> is_invoice_id snapshot \<noteq> invoice_id
            then contract_fail ''RAZORPAY_INVOICE_FETCH_UNTRUSTED''
            else if truthy (ne_subscription_id event)
               \<and> ne_subscription_id event \<noteq> Some (is_subscription_id snapshot)
            then contract_fail ''RAZORPAY_CORRELATION_MISMATCH''
            else case provider_subscription m (is_subscription_id snapshot) db of
              None \<Rightarrow> contract_fail ''RAZORPAY_SUBSCRIPTION_NOT_CORRELATED''
            | Some subscription \<Rightarrow>
                if sb_currency subscription \<noteq> is_currency snapshot
                then contract_fail ''RAZORPAY_INVOICE_CURRENCY_MISMATCH''
                else case provider_invoice m (is_invoice_id snapshot) db of
                  Some existing \<Rightarrow>
                    if iv_subscription_id existing \<noteq> sb_id subscription
                    then contract_fail ''RAZORPAY_INVOICE_SUBSCRIPTION_CONFLICT''
                    else Inr ((existing, subscription), db)
                | None \<Rightarrow> add_invoice env m snapshot subscription db)
      | _ \<Rightarrow> contract_fail ''RAZORPAY_INVOICE_NOT_CORRELATED'')"

definition correlate_case ::
    "RazorpayOutboxPayload \<Rightarrow> database \<Rightarrow> razorpay_error + RecoveryCase option" where
  "correlate_case payload db =
     (case ne_case_id (op_event payload) of
        None \<Rightarrow> Inr None
      | Some i \<Rightarrow>
          if i = [] then Inr None
          else case case_of_merchant (op_merchant_id payload) i db of
            None \<Rightarrow> contract_fail ''RAZORPAY_CASE_NOT_CORRELATED''
          | Some c \<Rightarrow> Inr (Some c))"

definition correlate_invoice ::
    "processor_env \<Rightarrow> RazorpayOutboxPayload \<Rightarrow> RecoveryCase option \<Rightarrow> database
       \<Rightarrow> razorpay_error + Invoice option \<times> database" where
  "correlate_invoice env payload recovery_case db =
     (let m = op_merchant_id payload; event = op_event payload in
      if truthy (ne_invoice_id event) then
        (case provider_invoice m (the (ne_invoice_id event)) db of
           Some invoice \<Rightarrow> Inr (Some invoice, db)
         | None \<Rightarrow> bindE (hydrate_webhook_invoice env payload db)
                     (\<lambda>((invoice, _), db'). Inr (Some invoice, db')))
      else case recovery_case of
        None \<Rightarrow> Inr (None, db)
      | Some c \<Rightarrow>
          if truthy (rc_failed_invoice_id c)
          then Inr (find (\<lambda>v. Some (iv_id v) = rc_failed_invoice_id c \<and> iv_merchant_id v = m)
                      (db_invoices db), db)
          else Inr (None, db))"

definition correlate_subscription ::
    "RazorpayOutboxPayload \<Rightarrow> RecoveryCase option \<Rightarrow> Invoice option \<Rightarrow> database
       \<Rightarrow> razorpay_error + Subscription option" where
  "correlate_subscription payload recovery_case invoice db =
     (let m = op_merchant_id payload; event = op_event payload in
      if truthy (ne_subscription_id event) then
        (case provider_subscription m (the (ne_subscription_id event)) db of
           None \<Rightarrow> contract_fail ''RAZORPAY_SUBSCRIPTION_NOT_CORRELATED''
         | Some s \<Rightarrow> Inr (Some s))
      else case invoice of
        Some v \<Rightarrow> Inr (subscription_of_merchant m (iv_subscription_id v) db)
      | None \<Rightarrow>
          (case recovery_case of
             Some c \<Rightarrow> Inr (subscription_of_merchant m (rc_subscription_id c) db)
           | None \<Rightarrow> Inr None))"

definition correlation_mismatch ::
    "RecoveryCase option \<Rightarrow> Invoice option \<Rightarrow> Subscription option \<Rightarrow> bool" where
  "correlation_mismatch recovery_case invoice subscription \<longleftrightarrow>
     (case (invoice, subscription) of (Some v, Some s) \<Rightarrow> iv_subscription_id v \<noteq> sb_id s | _ \<Rightarrow> False)
     \<or> (case (recovery_case, invoice) of
          (Some c, Some v) \<Rightarrow> rc_failed_invoice_id c \<noteq> Some (iv_id v) | _ \<Rightarrow> False)
     \<or> (case (recovery_case, subscription) of
          (Some c, Some s) \<Rightarrow> rc_subscription_id c \<noteq> sb_id s | _ \<Rightarrow> False)"

definition fallback_case ::
    "ident \<Rightarrow> RecoveryCase option \<Rightarrow> Invoice option \<Rightarrow> Subscription option \<Rightarrow> database
       \<Rightarrow> RecoveryCase option" where
  "fallback_case m recovery_case invoice subscription db =
     (case recovery_case of
        Some c \<Rightarrow> Some c
      | None \<Rightarrow>
          (case invoice of
             Some v \<Rightarrow> find (\<lambda>c. rc_merchant_id c = m \<and> rc_failed_invoice_id c = Some (iv_id v)) (db_cases db)
           | None \<Rightarrow>
               (case subscription of
                  None \<Rightarrow> None
                | Some s \<Rightarrow>
                    last_by (\<lambda>c. (rc_opened_at c, rc_id c))
                      (filter (\<lambda>c. rc_merchant_id c = m \<and> rc_subscription_id c = sb_id s) (db_cases db)))))"

definition correlate ::
    "processor_env \<Rightarrow> RazorpayOutboxPayload \<Rightarrow> database \<Rightarrow> razorpay_error + correlation \<times> database" where
  "correlate env payload db0 =
     bindE (correlate_case payload db0) (\<lambda>recovery_case.
     bindE (correlate_invoice env payload recovery_case db0) (\<lambda>(invoice, db).
     bindE (correlate_subscription payload recovery_case invoice db) (\<lambda>subscription.
       if correlation_mismatch recovery_case invoice subscription
       then contract_fail ''RAZORPAY_CORRELATION_MISMATCH''
       else Inr (\<lparr>co_subscription = subscription, co_invoice = invoice,
                  co_recovery_case =
                    fallback_case (op_merchant_id payload) recovery_case invoice subscription db\<rparr>, db))))"

section \<open>Applying an event\<close>

definition payment_entity :: "NormalizedRazorpayEvent \<Rightarrow> jobject" where
  "payment_entity event =
     (case as_object (jget (ne_provider_payload event) ''payload'') of
        None \<Rightarrow> [] | Some raw \<Rightarrow> entity_of raw ''payment'')"

text \<open>A nullable text column accepts a string or null.\<close>

definition text_column :: "jobject \<Rightarrow> string \<Rightarrow> razorpay_error + string option" where
  "text_column entity k =
     (case jget entity k of JStr s \<Rightarrow> Inr (Some s) | JNull \<Rightarrow> Inr None | _ \<Rightarrow> Inl Value_Error)"

definition payment_attempt_id :: "(string \<Rightarrow> string) \<Rightarrow> ident \<Rightarrow> ident" where
  "payment_attempt_id sha256 provider_payment_id = ''pay_rzp_'' @ take 48 (sha256 provider_payment_id)"

definition payment_attempt :: "ident \<Rightarrow> ident \<Rightarrow> database \<Rightarrow> PaymentAttempt option" where
  "payment_attempt m p db =
     find (\<lambda>r. pa_merchant_id r = m \<and> pa_provider_payment_id r = Some p) (db_payments db)"

definition dots_to_underscores :: "string \<Rightarrow> string" where
  "dots_to_underscores s = map (\<lambda>c. if c = CHR ''.'' then CHR ''_'' else c) s"

definition add_audit_event ::
    "RecoveryCase \<Rightarrow> NormalizedRazorpayEvent \<Rightarrow> database \<Rightarrow> database" where
  "add_audit_event c event db =
     (if \<exists>r \<in> set (db_events db). re_case_id r = rc_id c
          \<and> re_source_event_id r = Some (ne_provider_event_id event)
      then db
      else db\<lparr>db_events := db_events db @
        [\<lparr>re_case_id = rc_id c, re_event_type = dots_to_underscores (py_upper (ne_event_type event)),
          re_source = ''razorpay'', re_evidence_kind = Ev_RAZORPAY_TEST_VERIFIED, re_payload = None,
          re_occurred_at = ne_occurred_at event,
          re_correlation_id = take 128 (''rzp_'' @ rc_id c),
          re_source_event_id = Some (ne_provider_event_id event)\<rparr>]\<rparr>)"

record payment_errors =
  er_code :: "string option"
  er_source :: "string option"
  er_step :: "string option"
  er_reason :: "string option"

definition entity_errors :: "jobject \<Rightarrow> razorpay_error + payment_errors" where
  "entity_errors e =
     bindE (text_column e ''error_code'') (\<lambda>a. bindE (text_column e ''error_source'') (\<lambda>b.
     bindE (text_column e ''error_step'') (\<lambda>c. bindE (text_column e ''error_reason'') (\<lambda>d.
       Inr \<lparr>er_code = a, er_source = b, er_step = c, er_reason = d\<rparr>))))"

text \<open>The payment attempt of a failure: inserted, updated, or left alone when it is captured or newer.\<close>

definition record_failed_payment ::
    "processor_env \<Rightarrow> ident \<Rightarrow> NormalizedRazorpayEvent \<Rightarrow> ident \<Rightarrow> paise \<Rightarrow> string \<Rightarrow> Invoice
       \<Rightarrow> Subscription \<Rightarrow> database \<Rightarrow> razorpay_error + (PaymentAttempt \<times> bool) \<times> database" where
  "record_failed_payment env m event payment_id amount currency invoice subscription db =
     (let entity = payment_entity event in
      case payment_attempt m payment_id db of
        None \<Rightarrow>
          bindE (text_column entity ''method'') (\<lambda>meth.
          bindE (entity_errors entity) (\<lambda>er.
            let payment = \<lparr>pa_id = payment_attempt_id (pe_sha256 env) payment_id,
                  pa_merchant_id = m, pa_invoice_id = iv_id invoice,
                  pa_subscription_id = sb_id subscription,
                  pa_provider_payment_id = Some payment_id, pa_amount_paise = amount,
                  pa_currency = currency, pa_payment_state = Pay_FAILED, pa_method = meth,
                  pa_error_code = er_code er, pa_error_source = er_source er,
                  pa_error_step = er_step er, pa_error_reason = er_reason er,
                  pa_occurred_at = ne_occurred_at event\<rparr> in
            bindE (insert_row payment_clash payment (db_payments db)) (\<lambda>payments.
              Inr ((payment, True), db\<lparr>db_payments := payments\<rparr>))))
      | Some payment \<Rightarrow>
          if pa_invoice_id payment \<noteq> iv_id invoice
          then contract_fail ''RAZORPAY_PAYMENT_CORRELATION_MISMATCH''
          else if pa_payment_state payment \<noteq> Pay_CAPTURED
                  \<and> ne_occurred_at event \<ge> pa_occurred_at payment
          then bindE (entity_errors entity) (\<lambda>er.
            let payment' = payment\<lparr>pa_payment_state := Pay_FAILED, pa_error_code := er_code er,
                  pa_error_source := er_source er, pa_error_step := er_step er,
                  pa_error_reason := er_reason er, pa_occurred_at := ne_occurred_at event\<rparr> in
            Inr ((payment', True), db\<lparr>db_payments := save_row pa_id payment' (db_payments db)\<rparr>))
          else Inr ((payment, False), db))"

definition failure_evidence :: "NormalizedRazorpayEvent \<Rightarrow> payment_errors \<Rightarrow> DiagnosisEvidence" where
  "failure_evidence event er =
     \<lparr>ev_payment_state = Pay_FAILED, ev_event_type = ne_event_type event,
      ev_invoice_correlated = True, ev_subscription_correlated = True,
      ev_error_code = er_code er, ev_error_source = er_source er,
      ev_error_step = er_step er, ev_error_reason = er_reason er\<rparr>"

definition create_case_for_failure ::
    "processor_env \<Rightarrow> ident \<Rightarrow> NormalizedRazorpayEvent \<Rightarrow> Invoice \<Rightarrow> Subscription \<Rightarrow> PaymentAttempt
       \<Rightarrow> database \<Rightarrow> razorpay_error + RecoveryCase \<times> database" where
  "create_case_for_failure env m event invoice subscription payment db =
     (case find (\<lambda>u. cu_id u = sb_customer_id subscription \<and> cu_merchant_id u = m) (db_customers db) of
        None \<Rightarrow> contract_fail ''RAZORPAY_CUSTOMER_NOT_CORRELATED''
      | Some customer \<Rightarrow>
          let amount = iv_amount_paise invoice - iv_amount_paid_paise invoice in
          if amount \<le> 0 then contract_fail ''RAZORPAY_INVOICE_ALREADY_PAID''
          else bindE (entity_errors (payment_entity event)) (\<lambda>er.
            let c = \<lparr>rc_id = ''case_rzp_'' @ take 40 (pe_sha256 env (m @ '':'' @ iv_id invoice)),
                  rc_merchant_id = m, rc_customer_id = cu_id customer,
                  rc_subscription_id = sb_id subscription,
                  rc_failed_invoice_id = Some (iv_id invoice),
                  rc_billing_cycle_key = Some (iv_billing_cycle_key invoice),
                  rc_failed_payment_id = Some (pa_id payment), rc_case_outcome = Case_OPEN,
                  rc_payment_state = Pay_FAILED,
                  rc_subscription_state = sb_subscription_state subscription,
                  rc_contact_disposition = NOT_CONTACTED, rc_revenue_attribution = Attr_NONE,
                  rc_diagnosis = diagnose_failure (failure_evidence event er),
                  rc_amount_at_risk_paise = amount, rc_arrears_collected_paise = 0,
                  rc_case_recovered = False, rc_subscription_reactivated = False,
                  rc_opened_at = ne_occurred_at event,
                  rc_recovery_deadline = ne_occurred_at event + DEFAULT_RECOVERY_WINDOW,
                  rc_recovered_at = None, rc_version = 1\<rparr> in
            bindE (insert_row case_clash c (db_cases db)) (\<lambda>cases.
              Inr (c, db\<lparr>db_cases := cases\<rparr>))))"

definition failed_effects :: "bool \<Rightarrow> bool \<Rightarrow> effects" where
  "failed_effects state_applied case_created =
     [(''payment_state'', S_str ''FAILED''), (''state_applied'', S_bool state_applied),
      (''case_correlated'', S_bool True), (''case_created'', S_bool case_created),
      (''arrears_collected_paise'', S_int 0), (''subscription_reactivated'', S_bool False)]"

definition touch_failed_case :: "bool \<Rightarrow> PaymentAttempt \<Rightarrow> RecoveryCase \<Rightarrow> RecoveryCase" where
  "touch_failed_case state_applied payment c =
     (if state_applied \<and> rc_payment_state c \<noteq> Pay_CAPTURED
      then c\<lparr>rc_payment_state := Pay_FAILED, rc_failed_payment_id := Some (pa_id payment),
             rc_version := rc_version c + 1\<rparr>
      else c)"

definition apply_payment_failed ::
    "processor_env \<Rightarrow> RazorpayOutboxPayload \<Rightarrow> correlation \<Rightarrow> database
       \<Rightarrow> razorpay_error + (effects \<times> correlation) \<times> database" where
  "apply_payment_failed env payload co db0 =
     (let event = op_event payload; m = op_merchant_id payload in
      case (co_invoice co, co_subscription co) of
        (Some invoice, Some subscription) \<Rightarrow>
          (case (ne_payment_id event, ne_amount_paise event, ne_currency event) of
             (Some payment_id, Some amount, Some currency) \<Rightarrow>
               if amount \<le> 0 \<or> amount > iv_amount_paise invoice \<or> currency \<noteq> iv_currency invoice
               then contract_fail ''RAZORPAY_FAILURE_AMOUNT_MISMATCH''
               else
                 bindE (record_failed_payment env m event payment_id amount currency invoice subscription db0)
                   (\<lambda>((payment, state_applied), db1).
                 (case co_recovery_case co of
                    None \<Rightarrow>
                      bindE (create_case_for_failure env m event invoice subscription payment db1)
                        (\<lambda>(c, db2).
                        Inr ((failed_effects state_applied True, co\<lparr>co_recovery_case := Some c\<rparr>),
                             add_audit_event c event db2))
                  | Some c0 \<Rightarrow>
                      let c = touch_failed_case state_applied payment c0 in
                      Inr ((failed_effects state_applied False, co\<lparr>co_recovery_case := Some c\<rparr>),
                           add_audit_event c event
                             (db1\<lparr>db_cases := save_row rc_id c (db_cases db1)\<rparr>))))
           | _ \<Rightarrow> contract_fail ''RAZORPAY_FAILURE_PAYMENT_INVALID'')
      | _ \<Rightarrow> contract_fail ''RAZORPAY_FAILURE_NOT_CORRELATED'')"

subsection \<open>A captured payment\<close>

definition confirm_capture ::
    "processor_env \<Rightarrow> ident \<Rightarrow> NormalizedRazorpayEvent \<Rightarrow> RecoveryCase \<Rightarrow> Invoice \<Rightarrow> Subscription
       \<Rightarrow> razorpay_error + PaymentSnapshot \<times> PaymentRecoveryOutcome \<times> ident" where
  "confirm_capture env m event c invoice subscription =
     bindE (fetch_payment_snapshot env m (ne_payment_id event) (iv_provider_invoice_id invoice)) (\<lambda>snapshot.
     bindE (reconcile_payment_success event snapshot (rc_payment_state c)) (\<lambda>outcome.
       if ps_payment_state snapshot \<noteq> Pay_CAPTURED
       then contract_fail ''RAZORPAY_CAPTURE_NOT_CONFIRMED''
       else if truthy (ps_subscription_id snapshot)
          \<and> ps_subscription_id snapshot \<noteq> Some (sb_provider_subscription_id subscription)
       then contract_fail ''RAZORPAY_CORRELATION_MISMATCH''
       else if ps_currency snapshot \<noteq> iv_currency invoice
       then contract_fail ''RAZORPAY_CAPTURE_CURRENCY_MISMATCH''
       else case or_text (ps_payment_id snapshot) (ne_payment_id event) of
         None \<Rightarrow> contract_fail ''RAZORPAY_CAPTURE_PAYMENT_ID_MISSING''
       | Some p \<Rightarrow> Inr (snapshot, outcome, p)))"

definition capture_payment ::
    "processor_env \<Rightarrow> ident \<Rightarrow> NormalizedRazorpayEvent \<Rightarrow> PaymentSnapshot \<Rightarrow> ident \<Rightarrow> Invoice
       \<Rightarrow> Subscription \<Rightarrow> database \<Rightarrow> razorpay_error + PaymentAttempt \<times> database" where
  "capture_payment env m event snapshot provider_payment_id invoice subscription db =
     (case payment_attempt m provider_payment_id db of
        None \<Rightarrow>
          bindE (text_column (payment_entity event) ''method'') (\<lambda>meth.
            let payment = \<lparr>pa_id = payment_attempt_id (pe_sha256 env) provider_payment_id,
                  pa_merchant_id = m, pa_invoice_id = iv_id invoice,
                  pa_subscription_id = sb_id subscription,
                  pa_provider_payment_id = Some provider_payment_id,
                  pa_amount_paise = ps_amount_paise snapshot, pa_currency = ps_currency snapshot,
                  pa_payment_state = Pay_CAPTURED, pa_method = meth, pa_error_code = None,
                  pa_error_source = None, pa_error_step = None, pa_error_reason = None,
                  pa_occurred_at = ne_occurred_at event\<rparr> in
            bindE (insert_row payment_clash payment (db_payments db)) (\<lambda>payments.
              Inr (payment, db\<lparr>db_payments := payments\<rparr>)))
      | Some payment \<Rightarrow>
          if pa_invoice_id payment \<noteq> iv_id invoice
          then contract_fail ''RAZORPAY_PAYMENT_CORRELATION_MISMATCH''
          else
            let payment' = payment\<lparr>pa_payment_state := Pay_CAPTURED,
                  pa_amount_paise := ps_amount_paise snapshot, pa_currency := ps_currency snapshot,
                  pa_occurred_at := (if ne_occurred_at event \<ge> pa_occurred_at payment
                                     then ne_occurred_at event else pa_occurred_at payment)\<rparr> in
            Inr (payment', db\<lparr>db_payments := save_row pa_id payment' (db_payments db)\<rparr>))"

definition existing_recognition ::
    "ident \<Rightarrow> ident \<Rightarrow> ident \<Rightarrow> database \<Rightarrow> RevenueRecognitionRecord option" where
  "existing_recognition m event_id payment_id db =
     find (\<lambda>g. rg_merchant_id g = m \<and> rg_provider g = ''razorpay''
             \<and> (rg_provider_event_id g = event_id \<or> rg_payment_attempt_id g = Some payment_id))
       (db_revenue db)"

definition secondary_case_change ::
    "PaymentSnapshot \<Rightarrow> PaymentRecoveryOutcome \<Rightarrow> RecoveryCase \<Rightarrow> bool" where
  "secondary_case_change snapshot outcome c \<longleftrightarrow> rc_payment_state c \<noteq> Pay_CAPTURED
     \<or> po_subscription_reactivated outcome \<and> \<not> rc_subscription_reactivated c
     \<or> ps_subscription_state snapshot \<noteq> Sub_UNKNOWN
         \<and> rc_subscription_state c \<noteq> ps_subscription_state snapshot"

text \<open>The amount is checked, the recognition inserted and the invoice credited.\<close>

definition recognition_row ::
    "ident \<Rightarrow> NormalizedRazorpayEvent \<Rightarrow> PaymentSnapshot \<Rightarrow> PaymentRecoveryOutcome \<Rightarrow> RecoveryCase
       \<Rightarrow> PaymentAttempt \<Rightarrow> RevenueRecognitionRecord" where
  "recognition_row m e sn oc c p =
     \<lparr>rg_case_id = rc_id c, rg_merchant_id = m, rg_payment_attempt_id = Some (pa_id p),
      rg_provider = ''razorpay'', rg_provider_event_id = ne_provider_event_id e,
      rg_amount_paise = ps_amount_paise sn, rg_attribution = Attr_RAZORPAY_TEST_VERIFIED,
      rg_arrears_collected = True, rg_subscription_reactivated = po_subscription_reactivated oc,
      rg_recognized_at = ne_occurred_at e\<rparr>"

definition credited_invoice :: "paise \<Rightarrow> Invoice \<Rightarrow> Invoice" where
  "credited_invoice amount invoice =
     (let paid = iv_amount_paid_paise invoice + amount in
      invoice\<lparr>iv_amount_paid_paise := paid,
              iv_invoice_state := (if paid = iv_amount_paise invoice then ''paid''
                                   else iv_invoice_state invoice)\<rparr>)"

definition recognize_revenue ::
    "ident \<Rightarrow> NormalizedRazorpayEvent \<Rightarrow> PaymentSnapshot \<Rightarrow> PaymentRecoveryOutcome \<Rightarrow> RecoveryCase
       \<Rightarrow> Invoice \<Rightarrow> PaymentAttempt \<Rightarrow> database \<Rightarrow> razorpay_error + database" where
  "recognize_revenue m event snapshot outcome c invoice payment db =
     (let remaining_invoice = iv_amount_paise invoice - iv_amount_paid_paise invoice;
          remaining_case = rc_amount_at_risk_paise c - rc_arrears_collected_paise c;
          amount = ps_amount_paise snapshot in
      if amount \<le> 0 \<or> amount > min remaining_invoice remaining_case
      then contract_fail ''RAZORPAY_CAPTURE_AMOUNT_INVALID''
      else bindE (insert_row revenue_clash (recognition_row m event snapshot outcome c payment)
                    (db_revenue db)) (\<lambda>revenue.
        Inr (db\<lparr>db_revenue := revenue,
                db_invoices := save_row iv_id (credited_invoice amount invoice) (db_invoices db)\<rparr>)))"

definition capture_case ::
    "NormalizedRazorpayEvent \<Rightarrow> PaymentSnapshot \<Rightarrow> PaymentRecoveryOutcome \<Rightarrow> bool \<Rightarrow> RecoveryCase
       \<Rightarrow> RecoveryCase" where
  "capture_case event snapshot outcome newly_recognized c =
     (let c1 = (if newly_recognized
                then c\<lparr>rc_arrears_collected_paise := rc_arrears_collected_paise c + ps_amount_paise snapshot,
                       rc_revenue_attribution := Attr_RAZORPAY_TEST_VERIFIED,
                       rc_version := rc_version c + 1\<rparr>
                else if secondary_case_change snapshot outcome c
                then c\<lparr>rc_version := rc_version c + 1\<rparr> else c);
          c2 = c1\<lparr>rc_payment_state := Pay_CAPTURED,
                  rc_subscription_reactivated :=
                    (rc_subscription_reactivated c \<or> po_subscription_reactivated outcome),
                  rc_subscription_state :=
                    (if ps_subscription_state snapshot \<noteq> Sub_UNKNOWN
                     then ps_subscription_state snapshot else rc_subscription_state c),
                  rc_case_recovered :=
                    (rc_arrears_collected_paise c1 \<ge> rc_amount_at_risk_paise c1)\<rparr> in
      if rc_case_recovered c2
      then c2\<lparr>rc_case_outcome := Case_RECOVERED, rc_recovered_at := Some (ne_occurred_at event)\<rparr>
      else if rc_arrears_collected_paise c2 > 0
      then c2\<lparr>rc_case_outcome := Case_PARTIALLY_RECOVERED\<rparr> else c2)"

definition cancel_open_actions :: "ident \<Rightarrow> instant \<Rightarrow> RecoveryActionRecord list \<Rightarrow> RecoveryActionRecord list" where
  "cancel_open_actions case_id t actions =
     update_where (\<lambda>a. ar_case_id a = case_id
         \<and> ar_status a \<in> {Act_PROPOSED, Act_AWAITING_APPROVAL, Act_SCHEDULED, Act_EXECUTING})
       (\<lambda>a. a\<lparr>ar_status := Act_CANCELLED, ar_completed_at := Some t, ar_updated_at := t\<rparr>) actions"

definition captured_effects ::
    "bool \<Rightarrow> paise \<Rightarrow> PaymentRecoveryOutcome \<Rightarrow> RecoveryCase \<Rightarrow> bool \<Rightarrow> effects" where
  "captured_effects newly_recognized amount outcome c dispatch_required =
     [(''payment_state'', S_str ''CAPTURED''), (''newly_recognized'', S_bool newly_recognized),
      (''arrears_collected_paise'', S_int amount),
      (''subscription_reactivated'', S_bool (po_subscription_reactivated outcome)),
      (''case_recovered'', S_bool (rc_case_recovered c)),
      (''dispatch_required'', S_bool dispatch_required)]"

definition save_capture ::
    "NormalizedRazorpayEvent \<Rightarrow> PaymentSnapshot \<Rightarrow> RecoveryCase \<Rightarrow> Subscription \<Rightarrow> database \<Rightarrow> database" where
  "save_capture event snapshot c subscription db =
     add_audit_event c event
       (db\<lparr>db_cases := save_row rc_id c (db_cases db),
           db_subscriptions :=
             (if ps_subscription_state snapshot \<noteq> Sub_UNKNOWN
              then save_row sb_id (subscription\<lparr>sb_subscription_state := ps_subscription_state snapshot\<rparr>)
                     (db_subscriptions db)
              else db_subscriptions db),
           db_actions :=
             (if rc_case_recovered c
              then cancel_open_actions (rc_id c) (ne_occurred_at event) (db_actions db)
              else db_actions db)\<rparr>)"

definition apply_captured ::
    "processor_env \<Rightarrow> RazorpayOutboxPayload \<Rightarrow> correlation \<Rightarrow> database
       \<Rightarrow> razorpay_error + (effects \<times> correlation) \<times> database" where
  "apply_captured env payload co db0 =
     (let event = op_event payload; m = op_merchant_id payload in
      case (co_recovery_case co, co_invoice co, co_subscription co) of
        (Some c0, Some invoice, Some subscription) \<Rightarrow>
          bindE (confirm_capture env m event c0 invoice subscription) (\<lambda>(snapshot, outcome, p).
          bindE (capture_payment env m event snapshot p invoice subscription db0) (\<lambda>(payment, db1).
            let existing = existing_recognition m (ne_provider_event_id event) (pa_id payment) db1;
                newly = (existing = None);
                dispatch_required = (newly \<or> rg_provider_event_id (the existing) = ne_provider_event_id event);
                c = capture_case event snapshot outcome newly c0 in
            bindE (if newly then recognize_revenue m event snapshot outcome c0 invoice payment db1
                   else Inr db1) (\<lambda>db2.
              Inr ((captured_effects newly (if newly then ps_amount_paise snapshot else 0) outcome c
                      dispatch_required,
                    co\<lparr>co_recovery_case := Some c\<rparr>),
                   save_capture event snapshot c subscription db2))))
      | _ \<Rightarrow> contract_fail ''RAZORPAY_CAPTURE_NOT_CORRELATED'')"

subsection \<open>A subscription event\<close>

text \<open>
  The entries are normalised one after the other; an error of the integration skips the entry,
  any other exception leaves the method.
\<close>

fun scan_newer :: "ident \<Rightarrow> WebhookInboxEntry list \<Rightarrow> razorpay_error + bool" where
  "scan_newer s [] = Inr False"
| "scan_newer s (r # rs) =
     (case normalize_webhook (ib_provider_event_id r) (ib_payload r) of
        Inr e \<Rightarrow> if ne_subscription_id e = Some s then Inr True else scan_newer s rs
      | Inl (Razorpay_Error _) \<Rightarrow> scan_newer s rs
      | Inl err \<Rightarrow> Inl err)"

definition newer_processed_subscription_event_exists ::
    "RazorpayOutboxPayload \<Rightarrow> database \<Rightarrow> razorpay_error + bool" where
  "newer_processed_subscription_event_exists payload db =
     (case ne_subscription_id (op_event payload) of
        None \<Rightarrow> Inr False
      | Some s \<Rightarrow>
          scan_newer s (filter (\<lambda>r.
             ib_merchant_id r = op_merchant_id payload \<and> ib_provider r = ''razorpay''
             \<and> ib_processed_at r \<noteq> None
             \<and> ib_event_type r \<in> {''subscription.pending'', ''subscription.halted''}
             \<and> (case ib_occurred_at r of None \<Rightarrow> False | Some t \<Rightarrow> t > ne_occurred_at (op_event payload)))
            (db_inbox db)))"

definition apply_subscription_only ::
    "RazorpayOutboxPayload \<Rightarrow> correlation \<Rightarrow> database
       \<Rightarrow> razorpay_error + (effects \<times> correlation) \<times> database" where
  "apply_subscription_only payload co db =
     (let event = op_event payload; state = ne_subscription_state event in
      case co_subscription co of
        None \<Rightarrow> contract_fail ''RAZORPAY_SUBSCRIPTION_EVENT_NOT_CORRELATED''
      | Some s \<Rightarrow>
          if state = Sub_UNKNOWN then contract_fail ''RAZORPAY_SUBSCRIPTION_EVENT_NOT_CORRELATED''
          else bindE (newer_processed_subscription_event_exists payload db) (\<lambda>stale.
            let db1 = (if stale then db
                       else db\<lparr>db_subscriptions :=
                              save_row sb_id (s\<lparr>sb_subscription_state := state\<rparr>) (db_subscriptions db)\<rparr>);
                eff = (\<lambda>correlated. [(''subscription_state'', S_str (subscription_state_value state)),
                        (''state_applied'', S_bool (\<not> stale)), (''stale_event'', S_bool stale),
                        (''case_correlated'', S_bool correlated), (''arrears_collected_paise'', S_int 0)]) in
            case co_recovery_case co of
              None \<Rightarrow> Inr ((eff False, co), db1)
            | Some c \<Rightarrow>
                let c' = (if stale then c
                          else c\<lparr>rc_subscription_state := state, rc_version := rc_version c + 1\<rparr>) in
                Inr ((eff True, co\<lparr>co_recovery_case := Some c'\<rparr>),
                     add_audit_event c' event (db1\<lparr>db_cases := save_row rc_id c' (db_cases db1)\<rparr>))))"

definition apply_event ::
    "processor_env \<Rightarrow> RazorpayOutboxPayload \<Rightarrow> correlation \<Rightarrow> database
       \<Rightarrow> razorpay_error + (effects \<times> correlation) \<times> database" where
  "apply_event env payload co db =
     (let event = op_event payload in
      if ne_event_type event = ''payment.failed'' then apply_payment_failed env payload co db
      else if ne_payment_state event = Pay_CAPTURED then apply_captured env payload co db
      else if ne_event_type event \<in> {''subscription.pending'', ''subscription.halted''}
      then apply_subscription_only payload co db
      else contract_fail ''RAZORPAY_EVENT_PROCESSOR_UNSUPPORTED'')"

section \<open>The initial recommendation\<close>

text \<open>
  \<open>time.fromisoformat\<close> on the texts a five-character column can hold, without a zone designator:
  \<open>HH:MM\<close>, \<open>HHMM\<close> and \<open>HH\<close>, each also with a leading \<open>T\<close>.
\<close>

definition digit :: "char \<Rightarrow> int option" where
  "digit c = (let n = (of_char c :: nat) in if 48 \<le> n \<and> n \<le> 57 then Some (int n - 48) else None)"

definition two_digits :: "char \<Rightarrow> char \<Rightarrow> int option" where
  "two_digits a b = (case (digit a, digit b) of (Some x, Some y) \<Rightarrow> Some (10 * x + y) | _ \<Rightarrow> None)"

definition clock_time :: "int option \<Rightarrow> int option \<Rightarrow> razorpay_error + int" where
  "clock_time h mi =
     (case (h, mi) of
        (Some x, Some y) \<Rightarrow> if x < 24 \<and> y < 60 then Inr (hours x + minutes y) else Inl Value_Error
      | _ \<Rightarrow> Inl Value_Error)"

definition time_fromisoformat :: "string \<Rightarrow> razorpay_error + int" where
  "time_fromisoformat s0 =
     (let s = (case s0 of c # r \<Rightarrow> if c = CHR ''T'' then r else s0 | [] \<Rightarrow> s0) in
      case s of
        [a, b] \<Rightarrow> clock_time (two_digits a b) (Some 0)
      | [a, b, c, d] \<Rightarrow> clock_time (two_digits a b) (two_digits c d)
      | [a, b, sep, c, d] \<Rightarrow>
          if sep = CHR '':'' then clock_time (two_digits a b) (two_digits c d) else Inl Value_Error
      | _ \<Rightarrow> Inl Value_Error)"

definition optional_time :: "string option \<Rightarrow> razorpay_error + int option" where
  "optional_time v =
     (if truthy v then bindE (time_fromisoformat (the v)) (\<lambda>t. Inr (Some t)) else Inr None)"

definition action_of_value :: "string \<Rightarrow> razorpay_error + RecoveryActionType" where
  "action_of_value s =
     (case find (\<lambda>a. action_value a = s) [WAIT_FOR_GATEWAY_RETRY, OPEN_CUSTOMER_PAYMENT_SURFACE,
          START_VOICE, SEND_TO_CUSTOMER_AGENT, ESCALATE_TO_HUMAN, STOP] of
        None \<Rightarrow> Inl Value_Error | Some a \<Rightarrow> Inr a)"

definition merchant_policy_config ::
    "processor_env \<Rightarrow> Merchant \<Rightarrow> MerchantPolicySetting \<Rightarrow> razorpay_error + SafetyPolicyConfig" where
  "merchant_policy_config env merchant settings =
     bindE (optional_time (st_quiet_hours_start settings)) (\<lambda>quiet_start.
     bindE (optional_time (st_quiet_hours_end settings)) (\<lambda>quiet_end.
     bindE (traverseE action_of_value (st_require_approval_actions settings)) (\<lambda>actions.
       let g = default_config\<lparr>cfg_merchant_timezone := mr_timezone merchant,
             cfg_quiet_hours_start := quiet_start, cfg_quiet_hours_end := quiet_end,
             cfg_max_contacts_per_window := st_max_contacts_per_7_days settings,
             cfg_manual_approval_actions := actions,
             cfg_manual_approval_above_paise := st_require_approval_above_paise settings,
             cfg_global_kill_switch := pe_global_kill_switch env,
             cfg_merchant_kill_switch := st_recovery_kill_switch settings\<rparr> in
       case validate_config (pe_zones env) g of Inl _ \<Rightarrow> Inl Value_Error | Inr g' \<Rightarrow> Inr g')))"

definition count_payments :: "ident \<Rightarrow> ident \<Rightarrow> PaymentState \<Rightarrow> database \<Rightarrow> nat" where
  "count_payments m subscription_id state db =
     length (filter (\<lambda>p. pa_merchant_id p = m \<and> pa_subscription_id p = subscription_id
       \<and> pa_payment_state p = state) (db_payments db))"

definition decision_context ::
    "processor_env \<Rightarrow> ident \<Rightarrow> RecoveryCase \<Rightarrow> Customer \<Rightarrow> database \<Rightarrow> RecoveryDecisionContext" where
  "decision_context env m c customer db =
     (let failed_payment = (if truthy (rc_failed_payment_id c)
            then find (\<lambda>p. Some (pa_id p) = rc_failed_payment_id c) (db_payments db) else None) in
      \<lparr>dc_case_id = rc_id c, dc_amount_at_risk_paise = rc_amount_at_risk_paise c,
       dc_diagnosis = rc_diagnosis c, dc_case_outcome = rc_case_outcome c,
       dc_payment_state = rc_payment_state c, dc_subscription_state = rc_subscription_state c,
       dc_contact_disposition = rc_contact_disposition c,
       dc_recovery_deadline = Aware (rc_recovery_deadline c) 0,
       dc_now = Aware (pe_evaluated_at env) 0,
       dc_has_failed_invoice = (rc_failed_invoice_id c \<noteq> None),
       dc_active_gateway_retries = (rc_subscription_state c = Sub_PENDING),
       dc_standard_payment_link_available = pe_standard_links env,
       dc_voice_action_available = False,
       dc_voice_consent = (cu_voice_consent_at customer \<noteq> None),
       dc_voice_destination_available = (cu_phone_token customer \<noteq> None),
       dc_customer_agent_action_available = pe_agent_ready env,
       dc_customer_agent_available = cu_customer_agent_available customer,
       dc_model_features = Some [
         ''tenure_days'' \<mapsto> F_int (max ((pe_evaluated_at env - cu_created_at customer) div days 1) 0),
         ''prior_successful_payments'' \<mapsto> F_int (int (count_payments m (rc_subscription_id c) Pay_CAPTURED db)),
         ''failed_attempt_count'' \<mapsto> F_int (int (count_payments m (rc_subscription_id c) Pay_FAILED db)),
         ''payment_method'' \<mapsto> (case failed_payment of None \<Rightarrow> F_none
            | Some p \<Rightarrow> (case pa_method p of None \<Rightarrow> F_none | Some s \<Rightarrow> F_str s))]\<rparr>)"

fun action_status_for :: "PolicyDisposition \<Rightarrow> ActionStatus" where
  "action_status_for ALLOW = Act_PROPOSED"
| "action_status_for BLOCK = Act_CANCELLED"
| "action_status_for DELAY = Act_SCHEDULED"
| "action_status_for REQUIRE_MANUAL_APPROVAL = Act_AWAITING_APPROVAL"

definition initial_key :: "ident \<Rightarrow> string" where
  "initial_key case_id = ''case:'' @ case_id @ '':purpose:initial-recommendation:v1''"

definition infix_of :: "string \<Rightarrow> string \<Rightarrow> bool" where
  "infix_of p s \<longleftrightarrow> (\<exists>i \<le> length s. take (length p) (drop i s) = p)"

definition is_initial_action :: "ident \<Rightarrow> RecoveryActionRecord \<Rightarrow> bool" where
  "is_initial_action case_id a \<longleftrightarrow> ar_idempotency_key a = initial_key case_id
     \<or> ar_case_id a = case_id \<and> take 11 (ar_id a) = ''action_rzp_''
         \<and> take (length (''case:'' @ case_id @ '':action:'')) (ar_idempotency_key a)
             = ''case:'' @ case_id @ '':action:''
         \<and> \<not> infix_of '':purpose:'' (ar_idempotency_key a)"

definition policies_of :: "ident \<Rightarrow> ident \<Rightarrow> database \<Rightarrow> PolicyDecisionRecord list" where
  "policies_of case_id action_id db =
     filter (\<lambda>p. pr_case_id p = case_id \<and> pr_action_id p = Some action_id) (db_policies db)"

definition action_row ::
    "processor_env \<Rightarrow> string \<Rightarrow> string \<Rightarrow> RecoveryCase \<Rightarrow> RecoveryDecisionResult \<Rightarrow> RecoveryActionRecord" where
  "action_row env digest key c result =
     (let policy = dr_policy result in
      \<lparr>ar_id = ''action_rzp_'' @ digest, ar_case_id = rc_id c,
       ar_action_type = rec_action (dr_recommendation result),
       ar_payment_surface_type = rec_payment_surface_type (dr_recommendation result),
       ar_status = action_status_for (pd_disposition policy), ar_idempotency_key = key,
       ar_scheduled_for = pd_delay_until policy, ar_external_reference = None, ar_customer_url = None,
       ar_completed_at = (if pd_disposition policy = BLOCK then Some (pe_evaluated_at env) else None),
       ar_created_at = pe_utc_now env, ar_updated_at = pe_utc_now env\<rparr>)"

definition policy_row ::
    "processor_env \<Rightarrow> string \<Rightarrow> RecoveryCase \<Rightarrow> ident \<Rightarrow> PolicyDecision \<Rightarrow> PolicyDecisionRecord" where
  "policy_row env digest c action_id policy =
     \<lparr>pr_id = ''policy_rzp_'' @ digest, pr_case_id = rc_id c, pr_action_id = Some action_id,
      pr_disposition = pd_disposition policy, pr_decision_code = pd_decision_code policy,
      pr_reason_codes = pd_reason_codes policy, pr_reasons = pd_reasons policy,
      pr_policy_version = pd_policy_version policy, pr_delay_until = pd_delay_until policy,
      pr_created_at = pe_evaluated_at env\<rparr>"

definition decision_event_row :: "processor_env \<Rightarrow> RecoveryCase \<Rightarrow> RecoveryEventRecord" where
  "decision_event_row env c =
     \<lparr>re_case_id = rc_id c, re_event_type = ''ACTION_RECOMMENDED'', re_source = ''decision-engine'',
      re_evidence_kind = Ev_SYSTEM_DERIVED, re_payload = None, re_occurred_at = pe_evaluated_at env,
      re_correlation_id = take 128 (''rzp_'' @ rc_id c),
      re_source_event_id = Some (''initial-recommendation:'' @ rc_id c)\<rparr>"

definition store_authorization ::
    "RecoveryActionRecord \<Rightarrow> PolicyDecisionRecord \<Rightarrow> database \<Rightarrow> razorpay_error + database" where
  "store_authorization action policy db =
     bindE (insert_row action_clash action (db_actions db)) (\<lambda>actions.
     bindE (insert_row policy_clash policy (db_policies db)) (\<lambda>policies.
       Inr (db\<lparr>db_actions := actions, db_policies := policies\<rparr>)))"

definition store_initial_action ::
    "processor_env \<Rightarrow> RecoveryCase \<Rightarrow> RecoveryDecisionResult \<Rightarrow> database
       \<Rightarrow> razorpay_error + RecoveryActionRecord \<times> database" where
  "store_initial_action env c result db =
     (let key = initial_key (rc_id c);
          digest = take 40 (pe_sha256 env key);
          action = action_row env digest key c result in
      bindE (store_authorization action
               (policy_row env digest c (ar_id action) (dr_policy result)) db) (\<lambda>db1.
      bindE (insert_row event_clash (decision_event_row env c) (db_events db1)) (\<lambda>events.
        Inr (action, db1\<lparr>db_events := events\<rparr>))))"

definition decide_for_customer ::
    "processor_env \<Rightarrow> ident \<Rightarrow> RecoveryCase \<Rightarrow> SafetyPolicyConfig \<Rightarrow> database
       \<Rightarrow> razorpay_error + RecoveryDecisionResult" where
  "decide_for_customer env m c g db =
     (case find (\<lambda>u. cu_id u = rc_customer_id c) (db_customers db) of
        None \<Rightarrow> contract_fail ''RAZORPAY_CUSTOMER_NOT_CORRELATED''
      | Some customer \<Rightarrow>
          if cu_merchant_id customer \<noteq> m then contract_fail ''RAZORPAY_CUSTOMER_NOT_CORRELATED''
          else case bindE (validate_decision_context (decision_context env m c customer db))
                      (\<lambda>x. decide (pe_zones env) (pe_scorer env) x g) of
            Inl _ \<Rightarrow> Inl Decide_Failed | Inr result \<Rightarrow> Inr result)"

definition decide_initial_action ::
    "processor_env \<Rightarrow> ident \<Rightarrow> RecoveryCase \<Rightarrow> database \<Rightarrow> razorpay_error + RecoveryActionRecord \<times> database" where
  "decide_initial_action env m c db =
     (case find (\<lambda>x. mr_id x = m \<and> mr_id x = rc_merchant_id c
             \<and> (\<exists>s \<in> set (db_settings db). st_merchant_id s = mr_id x)) (db_merchants db) of
        None \<Rightarrow> contract_fail ''RAZORPAY_MERCHANT_POLICY_NOT_CONFIGURED''
      | Some merchant \<Rightarrow>
          (case find (\<lambda>s. st_merchant_id s = mr_id merchant) (db_settings db) of
             None \<Rightarrow> contract_fail ''RAZORPAY_MERCHANT_POLICY_NOT_CONFIGURED''
           | Some settings \<Rightarrow>
               bindE (merchant_policy_config env merchant settings) (\<lambda>g.
               bindE (decide_for_customer env m c g db) (\<lambda>result.
                 store_initial_action env c result db))))"

definition ensure_initial_recommendation ::
    "processor_env \<Rightarrow> ident \<Rightarrow> RecoveryCase \<Rightarrow> database \<Rightarrow> razorpay_error + RecoveryActionRecord \<times> database" where
  "ensure_initial_recommendation env m c db =
     (case first_by (\<lambda>a. (ar_created_at a, ar_id a)) (filter (is_initial_action (rc_id c)) (db_actions db)) of
        Some a \<Rightarrow>
          if ar_case_id a \<noteq> rc_id c then contract_fail ''RAZORPAY_RECOVERY_ACTION_SCOPE_MISMATCH''
          else if length (policies_of (rc_id c) (ar_id a) db) \<noteq> 1
          then contract_fail ''RAZORPAY_RECOVERY_POLICY_CARDINALITY_INVALID''
          else Inr (a, db)
      | None \<Rightarrow> decide_initial_action env m c db)"

section \<open>The reconciliation authorization\<close>

definition reconciliation_key :: "ident \<Rightarrow> string" where
  "reconciliation_key case_id =
     ''case:'' @ case_id @ '':action:WAIT_FOR_GATEWAY_RETRY:surface:none:''
     @ ''purpose:authoritative-success-reconciliation''"

definition wait_only :: "processor_env \<Rightarrow> RecoveryCase \<Rightarrow> database \<Rightarrow> instant" where
  "wait_only env c db =
     (case last_by (\<lambda>a. (ar_created_at a, ar_id a))
             (filter (\<lambda>a. ar_case_id a = rc_id c \<and> ar_action_type a = WAIT_FOR_GATEWAY_RETRY
                        \<and> ar_payment_surface_type a = None) (db_actions db)) of
        None \<Rightarrow> pe_evaluated_at env
      | Some a \<Rightarrow> if pe_evaluated_at env \<le> ar_created_at a then ar_created_at a + 1
                  else pe_evaluated_at env)"

definition reconciliation_policy :: "string \<Rightarrow> ident \<Rightarrow> ident \<Rightarrow> instant \<Rightarrow> PolicyDecisionRecord" where
  "reconciliation_policy digest case_id action_id t =
     \<lparr>pr_id = ''policy_rzp_'' @ digest, pr_case_id = case_id, pr_action_id = Some action_id,
      pr_disposition = ALLOW, pr_decision_code = ''AUTHORITATIVE_PAYMENT_RECONCILIATION_ONLY'',
      pr_reason_codes = [''AUTHORITATIVE_PAYMENT_RECONCILIATION_ONLY'', ''NO_CUSTOMER_FACING_ACTION''],
      pr_reasons = [''Authoritative payment success must converge before workflow cleanup.'',
        ''The WAIT action performs no payment or customer-facing provider call.''],
      pr_policy_version = ''recovery-reconciliation.v1'', pr_delay_until = None, pr_created_at = t\<rparr>"

definition ensure_reconciliation_authorization ::
    "processor_env \<Rightarrow> RecoveryCase \<Rightarrow> database \<Rightarrow> razorpay_error + RecoveryActionRecord \<times> database" where
  "ensure_reconciliation_authorization env c db =
     (let key = reconciliation_key (rc_id c) in
      case find (\<lambda>a. ar_idempotency_key a = key) (db_actions db) of
        Some a \<Rightarrow>
          if ar_case_id a \<noteq> rc_id c \<or> ar_action_type a \<noteq> WAIT_FOR_GATEWAY_RETRY
             \<or> ar_payment_surface_type a \<noteq> None
             \<or> map pr_disposition (policies_of (rc_id c) (ar_id a) db) \<noteq> [ALLOW]
          then contract_fail ''RAZORPAY_RECONCILIATION_POLICY_SCOPE_INVALID''
          else
            let a' = a\<lparr>ar_status := Act_SCHEDULED, ar_scheduled_for := None, ar_completed_at := None\<rparr> in
            Inr (a', db\<lparr>db_actions := save_row ar_id a' (db_actions db)\<rparr>)
      | None \<Rightarrow>
          let t = wait_only env c db;
              digest = take 40 (pe_sha256 env key);
              action = \<lparr>ar_id = ''action_rzp_'' @ digest, ar_case_id = rc_id c,
                ar_action_type = WAIT_FOR_GATEWAY_RETRY, ar_payment_surface_type = None,
                ar_status = Act_SCHEDULED, ar_idempotency_key = key, ar_scheduled_for = None,
                ar_external_reference = None, ar_customer_url = None, ar_completed_at = None, ar_created_at = t, ar_updated_at = t\<rparr> in
          bindE (store_authorization action
                   (reconciliation_policy digest (rc_id c) (ar_id action) t) db) (\<lambda>db1.
            Inr (action, db1)))"

section \<open>One message\<close>

definition select_outbox :: "instant \<Rightarrow> database \<Rightarrow> OutboxMessage option" where
  "select_outbox now db =
     first_by (\<lambda>m. (ob_available_at m, ob_created_at m, ob_id m))
       (filter (\<lambda>m. ob_aggregate_type m = ''razorpay_webhook''
                  \<and> ob_event_type m = ''RAZORPAY_WEBHOOK_RECEIVED''
                  \<and> ob_published_at m = None \<and> ob_available_at m \<le> now) (db_outbox db))"

definition set_effects :: "effects \<Rightarrow> effects \<Rightarrow> effects" where
  "set_effects new old = filter (\<lambda>p. fst p \<notin> set (map fst new)) old @ new"

definition recommendation_effects :: "RecoveryActionRecord \<Rightarrow> effects" where
  "recommendation_effects a =
     [(''recommended_action_id'', S_str (ar_id a)),
      (''recommended_action_type'', S_str (action_value (ar_action_type a))),
      (''recommended_payment_surface_type'',
        (case ar_payment_surface_type a of None \<Rightarrow> S_none | Some s \<Rightarrow> S_str (surface_value s)))]"

definition reconciliation_effects :: "RecoveryActionRecord \<Rightarrow> effects" where
  "reconciliation_effects a =
     [(''reconciliation_action_id'', S_str (ar_id a)),
      (''recommended_action_type'', S_str (action_value (ar_action_type a))),
      (''recommended_payment_surface_type'', S_none)]"

definition authorize ::
    "processor_env \<Rightarrow> RazorpayOutboxPayload \<Rightarrow> correlation \<Rightarrow> effects \<Rightarrow> database
       \<Rightarrow> razorpay_error + (effects \<times> RecoveryActionRecord option) \<times> database" where
  "authorize env payload co eff db =
     (let event = op_event payload in
      if ne_event_type event = ''payment.failed'' then
        (case co_recovery_case co of
           None \<Rightarrow> contract_fail ''RAZORPAY_FAILURE_CASE_NOT_CREATED''
         | Some c \<Rightarrow>
             bindE (ensure_initial_recommendation env (op_merchant_id payload) c db) (\<lambda>(a, db').
               Inr ((set_effects (recommendation_effects a) eff, Some a), db')))
      else if ne_payment_state event = Pay_CAPTURED
              \<and> map_of eff ''dispatch_required'' = Some (S_bool True) then
        (case co_recovery_case co of
           None \<Rightarrow> contract_fail ''RAZORPAY_CAPTURE_CASE_NOT_CORRELATED''
         | Some c \<Rightarrow>
             bindE (ensure_reconciliation_authorization env c db) (\<lambda>(a, db').
               Inr ((set_effects (reconciliation_effects a) eff, Some a), db')))
      else Inr ((eff, None), db))"

text \<open>
  The body of the \<open>try\<close> up to the authorization. An error carries the case identifier the method
  has reached by then; a result carries it with the effects and the authorized action.
\<close>

definition handle_message ::
    "processor_env \<Rightarrow> RazorpayOutboxPayload \<Rightarrow> database
       \<Rightarrow> (razorpay_error \<times> ident option)
          + (ident option \<times> effects \<times> RecoveryActionRecord option) \<times> database" where
  "handle_message env payload db =
     (case bindE (lock_inbox payload db) (\<lambda>_.
           bindE (correlate env payload db) (\<lambda>(co, db1). apply_event env payload co db1)) of
        Inl err \<Rightarrow> Inl (err, None)
      | Inr ((eff, co), db2) \<Rightarrow>
          let case_id = map_option rc_id (co_recovery_case co) in
          (case authorize env payload co eff db2 of
             Inl err \<Rightarrow> Inl (err, case_id)
           | Inr ((eff', a), db3) \<Rightarrow> Inr ((case_id, eff', a), db3)))"

definition backoff :: "int \<Rightarrow> nat \<Rightarrow> int" where
  "backoff base attempt_count = base * int (min (2 ^ (attempt_count - 1)) 64)"

definition record_processing_failure ::
    "processor_env \<Rightarrow> ident \<Rightarrow> RazorpayOutboxPayload option \<Rightarrow> string \<Rightarrow> database
       \<Rightarrow> razorpay_error + nat \<times> database" where
  "record_processing_failure env outbox_id payload error_code db =
     (case find (\<lambda>m. ob_id m = outbox_id) (db_outbox db) of
        None \<Rightarrow> Inl Runtime_Error
      | Some m \<Rightarrow>
          let n = ob_attempt_count m + 1;
              m' = m\<lparr>ob_attempt_count := n, ob_last_error_code := Some error_code,
                     ob_published_at := None,
                     ob_available_at := pe_failed_at env + backoff (pe_retry_base_delay env) n\<rparr>;
              inbox = (case payload of None \<Rightarrow> None | Some p \<Rightarrow> find_inbox p db) in
          Inr (n, db\<lparr>db_outbox := save_row ob_id m' (db_outbox db),
                    db_inbox := (case inbox of
                        None \<Rightarrow> db_inbox db
                      | Some r \<Rightarrow> save_row ib_id (r\<lparr>ib_processing_error_code := Some error_code,
                                     ib_processed_at := None\<rparr>) (db_inbox db))\<rparr>))"

definition fail_message ::
    "processor_env \<Rightarrow> ident \<Rightarrow> RazorpayOutboxPayload option \<Rightarrow> razorpay_error \<Rightarrow> ident option
       \<Rightarrow> database \<Rightarrow> (razorpay_error + OutboxProcessResult option) \<times> database" where
  "fail_message env outbox_id payload err case_id db =
     (case record_processing_failure env outbox_id payload (error_code_of err) db of
        Inl e \<Rightarrow> (Inl e, db)
      | Inr (n, db') \<Rightarrow>
          (Inr (Some \<lparr>or_outbox_id = outbox_id, or_status = FAILED, or_attempt_count = n,
             or_provider_event_id = map_option (\<lambda>p. ne_provider_event_id (op_event p)) payload,
             or_case_id = case_id, or_error_code = Some (error_code_of err)\<rparr>), db'))"

definition publish_message ::
    "processor_env \<Rightarrow> OutboxMessage \<Rightarrow> RazorpayOutboxPayload \<Rightarrow> ident option \<Rightarrow> database
       \<Rightarrow> (razorpay_error + OutboxProcessResult option) \<times> database" where
  "publish_message env outbox payload case_id db =
     (let n = ob_attempt_count outbox + 1;
          outbox' = outbox\<lparr>ob_attempt_count := n, ob_published_at := Some (pe_completed_at env),
                           ob_last_error_code := None\<rparr> in
      (Inr (Some \<lparr>or_outbox_id = ob_id outbox, or_status = PUBLISHED, or_attempt_count = n,
         or_provider_event_id = Some (ne_provider_event_id (op_event payload)),
         or_case_id = case_id, or_error_code = None\<rparr>),
       db\<lparr>db_outbox := save_row ob_id outbox' (db_outbox db),
          db_inbox := (case find_inbox payload db of
              None \<Rightarrow> db_inbox db
            | Some r \<Rightarrow> save_row ib_id (r\<lparr>ib_processed_at := Some (pe_completed_at env),
                           ib_processing_error_code := None\<rparr>) (db_inbox db))\<rparr>))"

definition downstream ::
    "OutboxMessage \<Rightarrow> RazorpayOutboxPayload \<Rightarrow> ident option \<Rightarrow> effects \<Rightarrow> RazorpayDownstreamSignal" where
  "downstream outbox payload case_id eff =
     \<lparr>sg_idempotency_key = ob_deduplication_key outbox, sg_merchant_id = op_merchant_id payload,
      sg_provider_event_id = ne_provider_event_id (op_event payload),
      sg_event_type = ne_event_type (op_event payload), sg_case_id = case_id,
      sg_normalized_event = op_event payload, sg_effects = eff\<rparr>"

definition process_next ::
    "processor_env \<Rightarrow> database \<Rightarrow> (razorpay_error + OutboxProcessResult option) \<times> database" where
  "process_next env db =
     (case select_outbox (pe_now env) db of
        None \<Rightarrow> (Inr None, db)
      | Some outbox \<Rightarrow>
          (case ob_payload outbox of
             None \<Rightarrow> fail_message env (ob_id outbox) None Validation_Error None db
           | Some payload \<Rightarrow>
               (case handle_message env payload db of
                  Inl (err, case_id) \<Rightarrow> fail_message env (ob_id outbox) (Some payload) err case_id db
                | Inr ((case_id, eff, action), db3) \<Rightarrow>
                    let leased = outbox\<lparr>ob_available_at := pe_now env + pe_dispatch_lease env\<rparr>;
                        (held, durable, work) =
                          (if action \<noteq> None
                           then let db4 = db3\<lparr>db_outbox := save_row ob_id leased (db_outbox db3)\<rparr>
                                in (leased, db4, db4)
                           else (outbox, db, db3)) in
                    if pe_signal env (downstream held payload case_id eff)
                    then publish_message env held payload case_id work
                    else fail_message env (ob_id outbox) (Some payload) Downstream_Failed case_id durable)))"

end
