(* ===== verification/Webhook_Ledger.thy ===== *)
theory Webhook_Ledger
  imports Webhook_Processor
begin

text \<open>
  Properties of the webhook processor: the revenue ledger, monotonicity of the case state, atomicity
  of a failed message, the retry schedule, and the authorization that precedes every dispatch.

  The ledger invariant speaks of three tables only, so every step that leaves cases, invoices and
  recognitions alone keeps it by simplification; each step that writes one of them has a lemma.
\<close>

section \<open>The ledger\<close>

definition recognized :: "ident \<Rightarrow> RevenueRecognitionRecord list \<Rightarrow> paise" where
  "recognized i rows = sum_list (map rg_amount_paise (filter (\<lambda>g. rg_case_id g = i) rows))"

definition case_ledger :: "RevenueRecognitionRecord list \<Rightarrow> RecoveryCase \<Rightarrow> bool" where
  "case_ledger rows c \<longleftrightarrow> rc_arrears_collected_paise c = recognized (rc_id c) rows
     \<and> rc_arrears_collected_paise c \<le> rc_amount_at_risk_paise c
     \<and> (rc_arrears_collected_paise c > 0 \<longrightarrow> rc_revenue_attribution c \<noteq> Attr_NONE)"

definition revenue_wf :: "RecoveryCase list \<Rightarrow> RevenueRecognitionRecord list \<Rightarrow> bool" where
  "revenue_wf cases rows \<longleftrightarrow>
     (\<forall>g \<in> set rows. 0 < rg_amount_paise g \<and> rg_attribution g \<noteq> Attr_NONE
        \<and> rg_case_id g \<in> rc_id ` set cases)
     \<and> distinct (map (\<lambda>g. (rg_merchant_id g, rg_provider g, rg_provider_event_id g)) rows)
     \<and> distinct (map (\<lambda>g. (rg_merchant_id g, rg_payment_attempt_id g))
         (filter (\<lambda>g. rg_provider g = ''razorpay'' \<and> rg_payment_attempt_id g \<noteq> None) rows))"

definition ledger :: "RecoveryCase list \<Rightarrow> Invoice list \<Rightarrow> RevenueRecognitionRecord list \<Rightarrow> bool" where
  "ledger cases invoices rows \<longleftrightarrow> distinct (map rc_id cases) \<and> distinct (map iv_id invoices)
     \<and> (\<forall>c \<in> set cases. case_ledger rows c) \<and> (\<forall>i \<in> set invoices. invoice_constraints i)
     \<and> revenue_wf cases rows"

definition ledger_inv :: "database \<Rightarrow> bool" where
  "ledger_inv db \<longleftrightarrow> ledger (db_cases db) (db_invoices db) (db_revenue db)"

lemma recognized_append [simp]:
  "recognized i (rows @ [g]) = recognized i rows + (if rg_case_id g = i then rg_amount_paise g else 0)"
  by (simp add: recognized_def)

lemma recognized_absent: "i \<notin> rg_case_id ` set rows \<Longrightarrow> recognized i rows = 0"
proof -
  assume "i \<notin> rg_case_id ` set rows"
  then have "filter (\<lambda>g. rg_case_id g = i) rows = []" by (auto simp: filter_empty_conv)
  then show ?thesis by (simp add: recognized_def)
qed

lemma ledger_insert_invoice:
  "ledger cases invoices rows \<Longrightarrow> invoice_constraints i \<Longrightarrow> iv_id i \<notin> iv_id ` set invoices
     \<Longrightarrow> ledger cases (invoices @ [i]) rows"
  by (auto simp: ledger_def)

lemma ledger_insert_case:
  assumes "ledger cases invoices rows" and "rc_id c \<notin> rc_id ` set cases"
    and "rc_arrears_collected_paise c = 0" and "0 \<le> rc_amount_at_risk_paise c"
  shows "ledger (cases @ [c]) invoices rows"
proof -
  have "rc_id c \<notin> rg_case_id ` set rows" using assms(1,2) by (auto simp: ledger_def revenue_wf_def)
  then have "case_ledger rows c" using assms(3,4) by (simp add: case_ledger_def recognized_absent)
  then show ?thesis using assms(1,2) by (auto simp: ledger_def revenue_wf_def)
qed

definition same_money :: "RecoveryCase \<Rightarrow> RecoveryCase \<Rightarrow> bool" where
  "same_money c d \<longleftrightarrow> rc_id c = rc_id d
     \<and> rc_amount_at_risk_paise c = rc_amount_at_risk_paise d
     \<and> rc_arrears_collected_paise c = rc_arrears_collected_paise d
     \<and> rc_revenue_attribution c = rc_revenue_attribution d"

lemma same_money_ledger: "same_money c d \<Longrightarrow> case_ledger rows d \<Longrightarrow> case_ledger rows c"
  by (simp add: same_money_def case_ledger_def)

lemma ledger_save_case:
  assumes "ledger cases invoices rows" and "c0 \<in> set cases" and "same_money c c0"
  shows "ledger (save_row rc_id c cases) invoices rows"
proof -
  have ids: "rc_id ` set (save_row rc_id c cases) = rc_id ` set cases"
    by (metis list.set_map map_save_row)
  have "case_ledger rows x" if "x \<in> set (save_row rc_id c cases)" for x
    using set_save_row [OF that] assms same_money_ledger [OF assms(3)] by (auto simp: ledger_def)
  then show ?thesis using assms(1) ids by (simp add: ledger_def revenue_wf_def)
qed

text \<open>A recognition of a positive amount within the remaining arrears of a case and its invoice.\<close>

lemma revenue_wf_append:
  assumes "revenue_wf cases rows" and "0 < rg_amount_paise g" and "rg_attribution g \<noteq> Attr_NONE"
    and "rg_case_id g \<in> rc_id ` set cases" and "\<forall>x \<in> set rows. \<not> revenue_clash g x"
    and "rg_payment_attempt_id g = Some p"
    and "\<forall>x \<in> set rows. \<not> (rg_merchant_id x = rg_merchant_id g \<and> rg_provider x = ''razorpay''
      \<and> rg_payment_attempt_id x = Some p)"
  shows "revenue_wf cases (rows @ [g])"
  using assms by (auto simp: revenue_wf_def revenue_clash_def)

lemma save_row_ids: "rc_id ` set (save_row rc_id c cases) = rc_id ` set cases"
  by (metis list.set_map map_save_row)

lemma ledger_recognize:
  assumes led: "ledger cases invoices rows" and c0: "c0 \<in> set cases" and i0: "i0 \<in> set invoices"
    and wf: "revenue_wf cases (rows @ [g])" and g: "rg_case_id g = rc_id c0"
    and c: "rc_id c = rc_id c0" "rc_amount_at_risk_paise c = rc_amount_at_risk_paise c0"
      "rc_arrears_collected_paise c = rc_arrears_collected_paise c0 + rg_amount_paise g"
      "rc_revenue_attribution c \<noteq> Attr_NONE"
    and i: "iv_id i = iv_id i0" "invoice_constraints i"
    and fits: "rg_amount_paise g \<le> rc_amount_at_risk_paise c0 - rc_arrears_collected_paise c0"
  shows "ledger (save_row rc_id c cases) (save_row iv_id i invoices) (rows @ [g])"
proof -
  have "case_ledger rows c0" using led c0 by (simp add: ledger_def)
  then have new: "case_ledger (rows @ [g]) c" using c g fits by (auto simp: case_ledger_def)
  have "case_ledger (rows @ [g]) x" if "x \<in> set (save_row rc_id c cases)" for x
    using set_save_row [OF that] new led c(1) g by (auto simp: ledger_def case_ledger_def)
  moreover have "invoice_constraints x" if "x \<in> set (save_row iv_id i invoices)" for x
    using set_save_row [OF that] i(2) led by (auto simp: ledger_def)
  moreover have "revenue_wf (save_row rc_id c cases) (rows @ [g])"
    using wf by (simp add: revenue_wf_def save_row_ids)
  ultimately show ?thesis using led by (simp add: ledger_def)
qed

section \<open>Monotone cases\<close>

text \<open>
  What no step undoes: a case keeps its identity and the amount at risk, collects no less, stays
  captured, and its version does not go back. Recognitions are only appended.
\<close>

definition case_advances :: "RecoveryCase \<Rightarrow> RecoveryCase \<Rightarrow> bool" where
  "case_advances c d \<longleftrightarrow> rc_id c = rc_id d \<and> rc_merchant_id c = rc_merchant_id d
     \<and> rc_amount_at_risk_paise c = rc_amount_at_risk_paise d
     \<and> rc_failed_invoice_id c = rc_failed_invoice_id d
     \<and> rc_arrears_collected_paise c \<le> rc_arrears_collected_paise d
     \<and> (rc_payment_state c = Pay_CAPTURED \<longrightarrow> rc_payment_state d = Pay_CAPTURED)
     \<and> rc_contact_disposition c = rc_contact_disposition d
     \<and> rc_version c \<le> rc_version d"

definition advances :: "database \<Rightarrow> database \<Rightarrow> bool" where
  "advances db db' \<longleftrightarrow> (\<forall>c \<in> set (db_cases db). \<exists>d \<in> set (db_cases db'). case_advances c d)
     \<and> (\<exists>extra. db_revenue db' = db_revenue db @ extra)"

lemma case_advances_refl [simp]: "case_advances c c"
  by (simp add: case_advances_def)

lemma case_advances_trans: "case_advances a b \<Longrightarrow> case_advances b c \<Longrightarrow> case_advances a c"
  by (auto simp: case_advances_def)

lemma advances_refl [simp]: "advances db db"
  using case_advances_refl unfolding advances_def by (metis append_Nil2)

lemma advances_trans [trans]: "advances a b \<Longrightarrow> advances b c \<Longrightarrow> advances a c"
  unfolding advances_def by (metis append.assoc case_advances_trans)

lemma advances_same_tables:
  "db_cases db' = db_cases db \<Longrightarrow> db_revenue db' = db_revenue db \<Longrightarrow> advances db db'"
  using case_advances_refl unfolding advances_def by (metis append_Nil2)

lemma advances_save_case:
  assumes "distinct (map rc_id (db_cases db))" and "c0 \<in> set (db_cases db)" and "case_advances c0 c"
    and "db_cases db' = save_row rc_id c (db_cases db)" and "db_revenue db' = db_revenue db @ extra"
  shows "advances db db'"
proof -
  have "\<exists>d \<in> set (db_cases db'). case_advances x d" if x: "x \<in> set (db_cases db)" for x
  proof (cases "rc_id x = rc_id c")
    case True
    then have "x = c0" using assms(1,2,3) x by (auto simp: case_advances_def distinct_map inj_on_def)
    then show ?thesis using assms(3,4) True x by (auto intro: save_row_mem)
  next
    case False
    then have "x \<in> set (db_cases db')" using x assms(4) by (simp add: mem_save_row)
    then show ?thesis using case_advances_refl by blast
  qed
  then show ?thesis using assms(5) by (auto simp: advances_def)
qed

lemma advances_insert_case:
  "db_cases db' = db_cases db @ [c] \<Longrightarrow> db_revenue db' = db_revenue db \<Longrightarrow> advances db db'"
  using case_advances_refl by (force simp: advances_def)

section \<open>Each step\<close>

lemma add_audit_event_tables [simp]:
  "db_cases (add_audit_event c e db) = db_cases db" "db_invoices (add_audit_event c e db) = db_invoices db"
  "db_revenue (add_audit_event c e db) = db_revenue db" "db_actions (add_audit_event c e db) = db_actions db"
  "db_policies (add_audit_event c e db) = db_policies db" "db_outbox (add_audit_event c e db) = db_outbox db"
  "db_inbox (add_audit_event c e db) = db_inbox db" "db_payments (add_audit_event c e db) = db_payments db"
  by (simp_all add: add_audit_event_def)

lemma hydrate_Inr:
  assumes "hydrate_webhook_invoice env payload db = Inr ((invoice, subscription), db')"
  shows "db_cases db' = db_cases db \<and> db_revenue db' = db_revenue db
    \<and> db_actions db' = db_actions db \<and> db_policies db' = db_policies db
    \<and> invoice \<in> set (db_invoices db')
    \<and> (db_invoices db' = db_invoices db
       \<or> (db_invoices db' = db_invoices db @ [invoice] \<and> invoice_constraints invoice
          \<and> iv_id invoice \<notin> iv_id ` set (db_invoices db)))"
proof -
  from assms obtain s where s: "valid_invoice_snapshot s"
    and r: "(\<exists>v. provider_invoice (op_merchant_id payload) (is_invoice_id s) db = Some v
         \<and> invoice = v \<and> db' = db)
      \<or> add_invoice env (op_merchant_id payload) s subscription db = Inr ((invoice, subscription), db')
      \<or> (\<exists>sub. add_invoice env (op_merchant_id payload) s sub db = Inr ((invoice, subscription), db'))"
    by (auto simp: hydrate_webhook_invoice_def fetch_invoice_snapshot_def Let_def contract_fail_def
        result_simps split: option.splits if_splits)
  show ?thesis
  proof (cases "\<exists>v. provider_invoice (op_merchant_id payload) (is_invoice_id s) db = Some v
         \<and> invoice = v \<and> db' = db")
    case True
    then show ?thesis by (auto simp: provider_invoice_def dest: find_SomeD)
  next
    case False
    with r obtain sub where
      a: "add_invoice env (op_merchant_id payload) s sub db = Inr ((invoice, subscription), db')" by blast
    from a s show ?thesis
      by (auto simp: add_invoice_def Let_def result_simps invoice_clash_def invoice_constraints_def
          valid_invoice_snapshot_def image_iff)
  qed
qed

lemma correlate_case_mem: "correlate_case payload db = Inr (Some c) \<Longrightarrow> c \<in> set (db_cases db)"
  by (auto simp: correlate_case_def contract_fail_def case_of_merchant_def dest: find_SomeD
      split: option.splits if_splits)

lemma correlate_invoice_Inr:
  assumes "correlate_invoice env payload rc db = Inr (v, db')" and "ledger_inv db"
  shows "ledger_inv db' \<and> db_cases db' = db_cases db \<and> db_revenue db' = db_revenue db
    \<and> db_actions db' = db_actions db \<and> db_policies db' = db_policies db
    \<and> (\<forall>i. v = Some i \<longrightarrow> i \<in> set (db_invoices db'))"
proof (cases "truthy (ne_invoice_id (op_event payload))
    \<and> provider_invoice (op_merchant_id payload) (the (ne_invoice_id (op_event payload))) db = None")
  case True
  then obtain i s where h: "hydrate_webhook_invoice env payload db = Inr ((i, s), db')" "v = Some i"
    using assms(1) by (auto simp: correlate_invoice_def Let_def result_simps)
  from hydrate_Inr [OF h(1)] h(2) assms(2) show ?thesis
    by (auto simp: ledger_inv_def ledger_insert_invoice)
next
  case False
  then have "db' = db \<and> (\<forall>i. v = Some i \<longrightarrow> i \<in> set (db_invoices db))"
    using assms(1)
    by (auto simp: correlate_invoice_def Let_def provider_invoice_def dest: find_SomeD
        split: option.splits if_splits)
  with assms(2) show ?thesis by simp
qed

lemma fallback_case_mem:
  "fallback_case m rc v s db = Some c \<Longrightarrow> (\<And>x. rc = Some x \<Longrightarrow> x \<in> set (db_cases db)) \<Longrightarrow> c \<in> set (db_cases db)"
  by (auto simp: fallback_case_def dest: find_SomeD last_by_mem split: option.splits)

lemma correlate_Inr:
  assumes "correlate env payload db = Inr (co, db')" and "ledger_inv db"
  shows "ledger_inv db' \<and> db_cases db' = db_cases db \<and> db_revenue db' = db_revenue db
    \<and> db_actions db' = db_actions db \<and> db_policies db' = db_policies db
    \<and> (\<forall>c. co_recovery_case co = Some c \<longrightarrow> c \<in> set (db_cases db'))
    \<and> (\<forall>i. co_invoice co = Some i \<longrightarrow> i \<in> set (db_invoices db'))"
proof -
  from assms(1) obtain rc v s where rc: "correlate_case payload db = Inr rc"
    and v: "correlate_invoice env payload rc db = Inr (v, db')"
    and co: "co = \<lparr>co_subscription = s, co_invoice = v,
      co_recovery_case = fallback_case (op_merchant_id payload) rc v s db'\<rparr>"
    by (auto simp: correlate_def contract_fail_def result_simps split: if_splits)
  note i = correlate_invoice_Inr [OF v assms(2)]
  have "c \<in> set (db_cases db')" if "co_recovery_case co = Some c" for c
    using fallback_case_mem [of "op_merchant_id payload" rc v s db' c] that co rc i
      correlate_case_mem [of payload db] by auto
  with i co show ?thesis by auto
qed

lemma record_failed_payment_tables:
  "record_failed_payment env m e p a cur iv s db = Inr (r, db') \<Longrightarrow>
     db_cases db' = db_cases db \<and> db_invoices db' = db_invoices db \<and> db_revenue db' = db_revenue db
     \<and> db_actions db' = db_actions db \<and> db_policies db' = db_policies db"
  by (auto simp: record_failed_payment_def Let_def contract_fail_def result_simps
      split: option.splits if_splits)

lemma capture_payment_tables:
  "capture_payment env m e sn p iv s db = Inr (r, db') \<Longrightarrow>
     db_cases db' = db_cases db \<and> db_invoices db' = db_invoices db \<and> db_revenue db' = db_revenue db
     \<and> db_actions db' = db_actions db \<and> db_policies db' = db_policies db"
  by (auto simp: capture_payment_def Let_def contract_fail_def result_simps
      split: option.splits if_splits)

lemma create_case_Inr:
  assumes "create_case_for_failure env m e iv s p db = Inr (c, db')"
  shows "db_cases db' = db_cases db @ [c] \<and> db_invoices db' = db_invoices db
    \<and> db_revenue db' = db_revenue db \<and> db_actions db' = db_actions db \<and> db_policies db' = db_policies db
    \<and> rc_id c \<notin> rc_id ` set (db_cases db) \<and> rc_arrears_collected_paise c = 0
    \<and> 0 < rc_amount_at_risk_paise c \<and> rc_case_outcome c = Case_OPEN"
  using assms
  by (auto simp: create_case_for_failure_def Let_def contract_fail_def result_simps case_clash_def
      split: option.splits if_splits)

definition keeps :: "database \<Rightarrow> database \<Rightarrow> bool" where
  "keeps db db' \<longleftrightarrow> ledger_inv db' \<and> advances db db' \<and> db_policies db' = db_policies db
     \<and> ar_id ` set (db_actions db') = ar_id ` set (db_actions db)"

lemma touch_failed_case_money [simp]:
  "same_money (touch_failed_case ap p c) c" "case_advances c (touch_failed_case ap p c)"
  by (auto simp: touch_failed_case_def same_money_def case_advances_def)

lemma apply_payment_failed_keeps:
  assumes "apply_payment_failed env payload co db = Inr ((eff, co'), db')" and "ledger_inv db"
    and "\<And>c. co_recovery_case co = Some c \<Longrightarrow> c \<in> set (db_cases db)"
  shows "keeps db db' \<and> co_recovery_case co' \<noteq> None"
proof (cases "co_recovery_case co")
  case None
  with assms(1) obtain iv s pid amt cur p ap db1 c db2 where
    pay: "record_failed_payment env (op_merchant_id payload) (op_event payload) pid amt cur iv s db
       = Inr ((p, ap), db1)"
    and cc: "create_case_for_failure env (op_merchant_id payload) (op_event payload) iv s p db1 = Inr (c, db2)"
    and r: "co_recovery_case co' = Some c" "db' = add_audit_event c (op_event payload) db2"
    by (auto simp: apply_payment_failed_def Let_def contract_fail_def result_simps
        split: option.splits if_splits)
  note t = record_failed_payment_tables [OF pay]
  have "ledger_inv db'" using create_case_Inr [OF cc] t assms(2) r(2)
    by (simp add: ledger_inv_def ledger_insert_case)
  moreover have "advances db db'" using create_case_Inr [OF cc] t r(2)
    by (simp add: advances_insert_case)
  ultimately show ?thesis using create_case_Inr [OF cc] t r by (simp add: keeps_def)
next
  case (Some c0)
  with assms(1) obtain iv s pid amt cur p ap db1 where
    pay: "record_failed_payment env (op_merchant_id payload) (op_event payload) pid amt cur iv s db
       = Inr ((p, ap), db1)"
    and co': "co_recovery_case co' = Some (touch_failed_case ap p c0)"
    and db': "db' = add_audit_event (touch_failed_case ap p c0) (op_event payload)
           (db1\<lparr>db_cases := save_row rc_id (touch_failed_case ap p c0) (db_cases db1)\<rparr>)"
    by (auto simp: apply_payment_failed_def Let_def contract_fail_def result_simps
        split: option.splits if_splits)
  note t = record_failed_payment_tables [OF pay]
  have mem: "c0 \<in> set (db_cases db)" using assms(3) Some by blast
  have "ledger_inv db'"
    using ledger_save_case [OF assms(2) [unfolded ledger_inv_def] mem] t db' by (simp add: ledger_inv_def)
  moreover have "advances db db'"
    by (rule advances_save_case [OF _ mem touch_failed_case_money(2), where extra = "[]"])
       (use assms(2) t db' in \<open>simp_all add: ledger_inv_def ledger_def\<close>)
  ultimately show ?thesis using t db' co' by (simp add: keeps_def)
qed

lemma capture_case_sel:
  "rc_id (capture_case e sn oc newly c) = rc_id c"
  "rc_amount_at_risk_paise (capture_case e sn oc newly c) = rc_amount_at_risk_paise c"
  "rc_arrears_collected_paise (capture_case e sn oc newly c) =
     rc_arrears_collected_paise c + (if newly then ps_amount_paise sn else 0)"
  "rc_revenue_attribution (capture_case e sn oc newly c) =
     (if newly then Attr_RAZORPAY_TEST_VERIFIED else rc_revenue_attribution c)"
  "rc_payment_state (capture_case e sn oc newly c) = Pay_CAPTURED"
  "rc_case_recovered (capture_case e sn oc newly c) \<longleftrightarrow>
     rc_amount_at_risk_paise c \<le> rc_arrears_collected_paise c + (if newly then ps_amount_paise sn else 0)"
  by (auto simp: capture_case_def Let_def)

lemma capture_case_rest:
  "rc_merchant_id (capture_case e sn oc newly c) = rc_merchant_id c"
  "rc_failed_invoice_id (capture_case e sn oc newly c) = rc_failed_invoice_id c"
  "rc_contact_disposition (capture_case e sn oc newly c) = rc_contact_disposition c"
  "rc_version c \<le> rc_version (capture_case e sn oc newly c)"
  by (auto simp: capture_case_def Let_def)

lemma capture_case_advances:
  "(newly \<Longrightarrow> 0 \<le> ps_amount_paise sn) \<Longrightarrow> case_advances c (capture_case e sn oc newly c)"
  by (auto simp: case_advances_def capture_case_sel capture_case_rest)

lemma capture_case_outcome:
  "rc_case_outcome (capture_case e sn oc newly c) =
     (if rc_amount_at_risk_paise c \<le> rc_arrears_collected_paise c + (if newly then ps_amount_paise sn else 0)
      then Case_RECOVERED
      else if 0 < rc_arrears_collected_paise c + (if newly then ps_amount_paise sn else 0)
      then Case_PARTIALLY_RECOVERED else rc_case_outcome c)"
  by (auto simp: capture_case_def Let_def)

lemma save_capture_tables:
  "db_cases (save_capture e sn c s db) = save_row rc_id c (db_cases db)"
  "db_invoices (save_capture e sn c s db) = db_invoices db"
  "db_revenue (save_capture e sn c s db) = db_revenue db"
  "db_policies (save_capture e sn c s db) = db_policies db"
  "ar_id ` set (db_actions (save_capture e sn c s db)) = ar_id ` set (db_actions db)"
proof -
  have "map ar_id (cancel_open_actions i t as) = map ar_id as" for i t as
    unfolding cancel_open_actions_def by (rule map_update_where) simp
  then have "ar_id ` set (cancel_open_actions i t as) = ar_id ` set as" for i t as
    by (metis list.set_map)
  then show "ar_id ` set (db_actions (save_capture e sn c s db)) = ar_id ` set (db_actions db)"
    by (simp add: save_capture_def)
qed (simp_all add: save_capture_def)

lemma credited_invoice_wf:
  "invoice_constraints iv \<Longrightarrow> 0 < amount \<Longrightarrow> amount \<le> iv_amount_paise iv - iv_amount_paid_paise iv
     \<Longrightarrow> invoice_constraints (credited_invoice amount iv)"
  "iv_id (credited_invoice amount iv) = iv_id iv"
  by (auto simp: credited_invoice_def invoice_constraints_def Let_def)

lemma recognize_revenue_Inr:
  assumes "recognize_revenue m e sn oc c iv p db = Inr db'"
  shows "db' = db\<lparr>db_revenue := db_revenue db @ [recognition_row m e sn oc c p],
               db_invoices := save_row iv_id (credited_invoice (ps_amount_paise sn) iv) (db_invoices db)\<rparr>
    \<and> (\<forall>x \<in> set (db_revenue db). \<not> revenue_clash (recognition_row m e sn oc c p) x)
    \<and> 0 < ps_amount_paise sn
    \<and> ps_amount_paise sn \<le> iv_amount_paise iv - iv_amount_paid_paise iv
    \<and> ps_amount_paise sn \<le> rc_amount_at_risk_paise c - rc_arrears_collected_paise c"
  using assms
  by (auto simp: recognize_revenue_def Let_def contract_fail_def result_simps split: if_splits)

lemma recognition_fresh:
  assumes "existing_recognition m ev pid db = None"
  shows "\<forall>x \<in> set (db_revenue db). \<not> (rg_merchant_id x = m \<and> rg_provider x = ''razorpay''
      \<and> rg_payment_attempt_id x = Some pid)"
  using assms by (auto simp: existing_recognition_def find_None_iff)

lemma apply_captured_Inr:
  assumes "apply_captured env payload co db = Inr ((eff, co'), db')"
  obtains c0 iv s sn oc pid p db1 newly db2 where
    "co_recovery_case co = Some c0" "co_invoice co = Some iv" "co_subscription co = Some s"
    "confirm_capture env (op_merchant_id payload) (op_event payload) c0 iv s = Inr (sn, oc, pid)"
    "capture_payment env (op_merchant_id payload) (op_event payload) sn pid iv s db = Inr (p, db1)"
    "newly \<longleftrightarrow> existing_recognition (op_merchant_id payload) (ne_provider_event_id (op_event payload))
        (pa_id p) db1 = None"
    "(if newly then recognize_revenue (op_merchant_id payload) (op_event payload) sn oc c0 iv p db1
      else Inr db1) = Inr db2"
    "co' = co\<lparr>co_recovery_case := Some (capture_case (op_event payload) sn oc newly c0)\<rparr>"
    "db' = save_capture (op_event payload) sn (capture_case (op_event payload) sn oc newly c0) s db2"
proof -
  let ?m = "op_merchant_id payload" and ?e = "op_event payload"
  obtain c0 iv s where co: "co_recovery_case co = Some c0" "co_invoice co = Some iv" "co_subscription co = Some s"
    using assms by (cases "co_recovery_case co"; cases "co_invoice co"; cases "co_subscription co")
      (simp_all add: apply_captured_def contract_fail_def Let_def)
  note eq = assms [unfolded apply_captured_def Let_def co prod.case option.case]
  obtain sn oc pid where conf: "confirm_capture env ?m ?e c0 iv s = Inr (sn, oc, pid)"
    using eq by (cases "confirm_capture env ?m ?e c0 iv s") auto
  obtain p db1 where pay: "capture_payment env ?m ?e sn pid iv s db = Inr (p, db1)"
    using eq unfolding conf by (cases "capture_payment env ?m ?e sn pid iv s db") auto
  let ?newly = "existing_recognition ?m (ne_provider_event_id ?e) (pa_id p) db1 = None"
  from eq have "\<exists>db2. (if ?newly then recognize_revenue ?m ?e sn oc c0 iv p db1 else Inr db1) = Inr db2
      \<and> co' = co\<lparr>co_recovery_case := Some (capture_case ?e sn oc ?newly c0)\<rparr>
      \<and> db' = save_capture ?e sn (capture_case ?e sn oc ?newly c0) s db2"
    unfolding conf pay bindE.simps prod.case bindE_eq_Inr sum.inject prod.inject by blast
  then show ?thesis using that [OF co conf pay refl] by blast
qed

lemma apply_captured_keeps:
  assumes "apply_captured env payload co db = Inr ((eff, co'), db')" and led: "ledger_inv db"
    and mem: "\<And>c. co_recovery_case co = Some c \<Longrightarrow> c \<in> set (db_cases db)"
      "\<And>i. co_invoice co = Some i \<Longrightarrow> i \<in> set (db_invoices db)"
  shows "keeps db db' \<and> co_recovery_case co' \<noteq> None"
  using assms(1)
proof (rule apply_captured_Inr)
  fix c0 iv s sn oc pid p db1 newly db2
  let ?m = "op_merchant_id payload" and ?e = "op_event payload"
  let ?c = "capture_case ?e sn oc newly c0" and ?g = "recognition_row ?m ?e sn oc c0 p"
  assume co: "co_recovery_case co = Some c0" "co_invoice co = Some iv"
    and pay: "capture_payment env ?m ?e sn pid iv s db = Inr (p, db1)"
    and newly: "newly \<longleftrightarrow> existing_recognition ?m (ne_provider_event_id ?e) (pa_id p) db1 = None"
    and rec: "(if newly then recognize_revenue ?m ?e sn oc c0 iv p db1 else Inr db1) = Inr db2"
    and co': "co' = co\<lparr>co_recovery_case := Some ?c\<rparr>" and db': "db' = save_capture ?e sn ?c s db2"
  note t = capture_payment_tables [OF pay]
  have c0: "c0 \<in> set (db_cases db)" and iv: "iv \<in> set (db_invoices db)" using mem co by blast+
  have dist: "distinct (map rc_id (db_cases db))" using led by (simp add: ledger_inv_def ledger_def)
  show ?thesis
  proof (cases newly)
    case True
    note r = recognize_revenue_Inr [of ?m ?e sn oc c0 iv p db1 db2]
    have r: "db2 = db1\<lparr>db_revenue := db_revenue db1 @ [?g],
        db_invoices := save_row iv_id (credited_invoice (ps_amount_paise sn) iv) (db_invoices db1)\<rparr>"
      "\<forall>x \<in> set (db_revenue db1). \<not> revenue_clash ?g x" "0 < ps_amount_paise sn"
      "ps_amount_paise sn \<le> iv_amount_paise iv - iv_amount_paid_paise iv"
      "ps_amount_paise sn \<le> rc_amount_at_risk_paise c0 - rc_arrears_collected_paise c0"
      using r rec True by simp_all
    have wf: "revenue_wf (db_cases db) (db_revenue db @ [?g])"
      by (rule revenue_wf_append [where p = "pa_id p"])
         (use led r(2,3) c0 t recognition_fresh newly True in
           \<open>auto simp: ledger_inv_def ledger_def recognition_row_def\<close>)
    have ic: "invoice_constraints iv" using led iv by (simp add: ledger_inv_def ledger_def)
    have "ledger (save_row rc_id ?c (db_cases db))
        (save_row iv_id (credited_invoice (ps_amount_paise sn) iv) (db_invoices db)) (db_revenue db @ [?g])"
      by (rule ledger_recognize [OF led [unfolded ledger_inv_def] c0 iv wf])
         (use True r credited_invoice_wf ic in \<open>simp_all add: capture_case_sel recognition_row_def\<close>)
    then have "ledger_inv db'" using db' r(1) t by (simp add: ledger_inv_def save_capture_tables)
    moreover have "advances db db'"
      by (rule advances_save_case [OF dist c0 capture_case_advances, where extra = "[?g]"])
         (use r t db' in \<open>simp_all add: save_capture_tables\<close>)
    ultimately show ?thesis using db' co' r(1) t by (simp add: keeps_def save_capture_tables)
  next
    case False
    then have "db2 = db1" using rec by simp
    moreover have "same_money ?c c0" using False by (simp add: same_money_def capture_case_sel)
    ultimately have "ledger_inv db'"
      using ledger_save_case [OF led [unfolded ledger_inv_def] c0] db' t
      by (simp add: ledger_inv_def save_capture_tables)
    moreover have "advances db db'"
      by (rule advances_save_case [OF dist c0 capture_case_advances, where extra = "[]"])
         (use False \<open>db2 = db1\<close> t db' in \<open>simp_all add: save_capture_tables\<close>)
    ultimately show ?thesis using db' co' \<open>db2 = db1\<close> t by (simp add: keeps_def save_capture_tables)
  qed
qed

lemma keeps_refl: "ledger_inv db \<Longrightarrow> keeps db db"
  by (simp add: keeps_def)

lemma apply_subscription_only_keeps:
  assumes "apply_subscription_only payload co db = Inr ((eff, co'), db')" and led: "ledger_inv db"
    and mem: "\<And>c. co_recovery_case co = Some c \<Longrightarrow> c \<in> set (db_cases db)"
  shows "keeps db db'"
proof -
  let ?state = "ne_subscription_state (op_event payload)"
  from assms(1) obtain s stale where s: "co_subscription co = Some s"
    and st: "newer_processed_subscription_event_exists payload db = Inr stale"
    by (auto simp: apply_subscription_only_def Let_def contract_fail_def result_simps
        split: option.splits if_splits)
  define db1 where "db1 = (if stale then db else db\<lparr>db_subscriptions :=
      save_row sb_id (s\<lparr>sb_subscription_state := ?state\<rparr>) (db_subscriptions db)\<rparr>)"
  have t: "db_cases db1 = db_cases db" "db_invoices db1 = db_invoices db" "db_revenue db1 = db_revenue db"
    "db_policies db1 = db_policies db" "db_actions db1 = db_actions db" by (simp_all add: db1_def)
  show ?thesis
  proof (cases "co_recovery_case co")
    case None
    then have "db' = db1" using assms(1) s st
      by (auto simp: apply_subscription_only_def Let_def contract_fail_def db1_def split: if_splits)
    then show ?thesis using led t by (simp add: keeps_def ledger_inv_def advances_same_tables)
  next
    case (Some c)
    define c' where "c' = (if stale then c else c\<lparr>rc_subscription_state := ?state, rc_version := rc_version c + 1\<rparr>)"
    have db': "db' = add_audit_event c' (op_event payload) (db1\<lparr>db_cases := save_row rc_id c' (db_cases db1)\<rparr>)"
      using assms(1) s st Some
      by (auto simp: apply_subscription_only_def Let_def contract_fail_def db1_def c'_def split: if_splits)
    have c: "c \<in> set (db_cases db)" using mem Some by blast
    have m: "same_money c' c" "case_advances c c'" by (auto simp: c'_def same_money_def case_advances_def)
    have "ledger_inv db'" using ledger_save_case [OF led [unfolded ledger_inv_def] c m(1)] db' t
      by (simp add: ledger_inv_def)
    moreover have "advances db db'"
      by (rule advances_save_case [OF _ c m(2), where extra = "[]"])
         (use led db' t in \<open>simp_all add: ledger_inv_def ledger_def\<close>)
    ultimately show ?thesis using db' t by (simp add: keeps_def)
  qed
qed

lemma apply_event_keeps:
  assumes "apply_event env payload co db = Inr ((eff, co'), db')" and "ledger_inv db"
    and "\<And>c. co_recovery_case co = Some c \<Longrightarrow> c \<in> set (db_cases db)"
    and "\<And>i. co_invoice co = Some i \<Longrightarrow> i \<in> set (db_invoices db)"
  shows "keeps db db'"
  using assms apply_payment_failed_keeps apply_captured_keeps apply_subscription_only_keeps
  by (fastforce simp: apply_event_def Let_def contract_fail_def split: if_splits)

section \<open>Authorizations\<close>

text \<open>A policy decision names an action that exists: the foreign key of \<open>policy_decisions\<close>.\<close>

definition auth_inv :: "database \<Rightarrow> bool" where
  "auth_inv db \<longleftrightarrow> (\<forall>p \<in> set (db_policies db). \<forall>a. pr_action_id p = Some a \<longrightarrow> a \<in> ar_id ` set (db_actions db))"

definition authorized :: "ident \<Rightarrow> RecoveryActionRecord \<Rightarrow> database \<Rightarrow> bool" where
  "authorized i a db \<longleftrightarrow> a \<in> set (db_actions db) \<and> ar_case_id a = i \<and> length (policies_of i (ar_id a) db) = 1"

lemma keeps_auth: "keeps db db' \<Longrightarrow> auth_inv db \<Longrightarrow> auth_inv db'"
  by (simp add: keeps_def auth_inv_def)

lemma store_authorization_Inr:
  assumes "store_authorization a p db = Inr db'"
  shows "db' = db\<lparr>db_actions := db_actions db @ [a], db_policies := db_policies db @ [p]\<rparr>
    \<and> ar_id a \<notin> ar_id ` set (db_actions db)"
  using assms by (auto simp: store_authorization_def result_simps action_clash_def)

lemma store_authorization_authorized:
  assumes "store_authorization a p db = Inr db'" and "auth_inv db"
    and "pr_case_id p = ar_case_id a" and "pr_action_id p = Some (ar_id a)"
  shows "auth_inv db' \<and> authorized (ar_case_id a) a db' \<and> policies_of (ar_case_id a) (ar_id a) db' = [p]"
proof -
  note st = store_authorization_Inr [OF assms(1)]
  have "filter (\<lambda>q. pr_case_id q = ar_case_id a \<and> pr_action_id q = Some (ar_id a)) (db_policies db) = []"
    using st assms(2) by (auto simp: auth_inv_def filter_empty_conv)
  then show ?thesis using st assms
    by (auto simp: auth_inv_def authorized_def policies_of_def)
qed

text \<open>What an authorization leaves alone.\<close>

definition money_same :: "database \<Rightarrow> database \<Rightarrow> bool" where
  "money_same db db' \<longleftrightarrow> db_cases db' = db_cases db \<and> db_invoices db' = db_invoices db
     \<and> db_revenue db' = db_revenue db"

lemma money_same_ledger: "money_same db db' \<Longrightarrow> ledger_inv db \<Longrightarrow> ledger_inv db' \<and> advances db db'"
  by (auto simp: money_same_def ledger_inv_def intro: advances_same_tables)

lemma decide_initial_action_Inr:
  assumes "decide_initial_action env m c db = Inr r"
  shows "\<exists>result. pd_disposition (dr_policy result) \<noteq> BLOCK \<and> store_initial_action env c result db = Inr r"
proof -
  obtain g result where d: "decide_for_customer env m c g db = Inr result"
    and st: "store_initial_action env c result db = Inr r"
    using assms
    by (auto simp: decide_initial_action_def contract_fail_def bindE_eq_Inr split: option.splits)
  obtain customer where "find (\<lambda>u. cu_id u = rc_customer_id c) (db_customers db) = Some customer"
    using d by (cases "find (\<lambda>u. cu_id u = rc_customer_id c) (db_customers db)")
      (simp_all add: decide_for_customer_def contract_fail_def)
  with d have "bindE (validate_decision_context (decision_context env m c customer db))
       (\<lambda>x. decide (pe_zones env) (pe_scorer env) x g) = Inr result"
    by (simp add: decide_for_customer_def contract_fail_def split: if_splits sum.splits)
  then obtain x where "decide (pe_zones env) (pe_scorer env) x g = Inr result"
    by (auto simp: bindE_eq_Inr)
  from decide_policy_not_block [OF this] st show ?thesis by blast
qed

lemma ensure_initial_Inr:
  assumes "ensure_initial_recommendation env m c db = Inr (a, db')" and "auth_inv db"
  shows "money_same db db' \<and> auth_inv db' \<and> authorized (rc_id c) a db'"
proof (cases "first_by (\<lambda>a. (ar_created_at a, ar_id a)) (filter (is_initial_action (rc_id c)) (db_actions db))")
  case (Some x)
  from first_by_mem [OF Some] have "x \<in> set (db_actions db)" by simp
  moreover from assms(1) Some have "a = x" "db' = db" "ar_case_id x = rc_id c"
    "length (policies_of (rc_id c) (ar_id x) db) = 1"
    by (auto simp: ensure_initial_recommendation_def contract_fail_def split: if_splits)
  ultimately show ?thesis using assms(2) by (simp add: money_same_def authorized_def)
next
  case None
  with assms(1) have d: "decide_initial_action env m c db = Inr (a, db')"
    by (simp add: ensure_initial_recommendation_def)
  then obtain result where "store_initial_action env c result db = Inr (a, db')"
    using decide_initial_action_Inr by blast
  then obtain digest key db1 events where
    st: "store_authorization a (policy_row env digest c (ar_id a) (dr_policy result)) db = Inr db1"
    and a: "a = action_row env digest key c result" and db': "db' = db1\<lparr>db_events := events\<rparr>"
    by (auto simp: store_initial_action_def Let_def bindE_eq_Inr)
  have "ar_case_id a = rc_id c" using a by (simp add: action_row_def Let_def)
  with store_authorization_authorized [OF st assms(2)] store_authorization_Inr [OF st] db'
  show ?thesis by (auto simp: policy_row_def money_same_def auth_inv_def authorized_def policies_of_def)
qed

lemma ensure_reconciliation_Inr:
  assumes "ensure_reconciliation_authorization env c db = Inr (a, db')" and "auth_inv db"
  shows "money_same db db' \<and> auth_inv db' \<and> authorized (rc_id c) a db'
    \<and> ar_action_type a = WAIT_FOR_GATEWAY_RETRY
    \<and> map pr_disposition (policies_of (rc_id c) (ar_id a) db') = [ALLOW]"
proof (cases "find (\<lambda>a. ar_idempotency_key a = reconciliation_key (rc_id c)) (db_actions db)")
  case (Some x)
  let ?y = "x\<lparr>ar_status := Act_SCHEDULED, ar_scheduled_for := None, ar_completed_at := None\<rparr>"
  from assms(1) Some have a: "a = ?y" "db' = db\<lparr>db_actions := save_row ar_id ?y (db_actions db)\<rparr>"
    and x: "ar_case_id x = rc_id c" "ar_action_type x = WAIT_FOR_GATEWAY_RETRY"
      "map pr_disposition (policies_of (rc_id c) (ar_id x) db) = [ALLOW]"
    by (auto simp: ensure_reconciliation_authorization_def Let_def contract_fail_def split: if_splits)
  have "x \<in> set (db_actions db)" using find_SomeD [OF Some] by simp
  then have mem: "?y \<in> set (save_row ar_id ?y (db_actions db))" by (rule save_row_mem [rotated]) simp
  have ids: "ar_id ` set (save_row ar_id ?y (db_actions db)) = ar_id ` set (db_actions db)"
    by (metis list.set_map map_save_row)
  have one: "length (policies_of (rc_id c) (ar_id x) db) = 1" using x(3) by (metis length_map length_Cons list.size(3) One_nat_def)
  show ?thesis using a x mem ids one assms(2)
    by (simp add: money_same_def auth_inv_def authorized_def policies_of_def)
next
  case None
  with assms(1) obtain digest t where
    st: "store_authorization a (reconciliation_policy digest (rc_id c) (ar_id a) t) db = Inr db'"
    and a: "ar_case_id a = rc_id c" "ar_action_type a = WAIT_FOR_GATEWAY_RETRY"
    by (auto simp: ensure_reconciliation_authorization_def Let_def result_simps)
  have "auth_inv db' \<and> authorized (rc_id c) a db'
      \<and> policies_of (rc_id c) (ar_id a) db' = [reconciliation_policy digest (rc_id c) (ar_id a) t]"
    using store_authorization_authorized [OF st assms(2)] a(1) by (simp add: reconciliation_policy_def)
  with store_authorization_Inr [OF st] a(2) show ?thesis
    by (simp add: money_same_def reconciliation_policy_def)
qed

lemma authorize_Inr:
  assumes "authorize env payload co eff db = Inr ((eff', a), db')" and "auth_inv db"
  shows "money_same db db' \<and> auth_inv db'
    \<and> (\<forall>x. a = Some x \<longrightarrow> (\<exists>c. co_recovery_case co = Some c \<and> authorized (rc_id c) x db'
        \<and> (ne_event_type (op_event payload) \<noteq> ''payment.failed'' \<longrightarrow>
             ar_action_type x = WAIT_FOR_GATEWAY_RETRY
             \<and> map pr_disposition (policies_of (rc_id c) (ar_id x) db') = [ALLOW])))
    \<and> (a = None \<longrightarrow> ne_event_type (op_event payload) \<noteq> ''payment.failed'')"
proof (cases "ne_event_type (op_event payload) = ''payment.failed''")
  case True
  with assms(1) obtain c x where c: "co_recovery_case co = Some c" "a = Some x"
    "ensure_initial_recommendation env (op_merchant_id payload) c db = Inr (x, db')"
    by (auto simp: authorize_def Let_def contract_fail_def result_simps split: option.splits)
  from ensure_initial_Inr [OF c(3) assms(2)] c True show ?thesis by simp
next
  case False
  show ?thesis
  proof (cases a)
    case None
    with assms(1) False have "db' = db"
      by (auto simp: authorize_def Let_def contract_fail_def result_simps split: option.splits if_splits)
    with None assms(2) False show ?thesis by (simp add: money_same_def)
  next
    case (Some x)
    with assms(1) False obtain c where c: "co_recovery_case co = Some c"
      "ensure_reconciliation_authorization env c db = Inr (x, db')"
      by (auto simp: authorize_def Let_def contract_fail_def result_simps split: option.splits if_splits)
    from ensure_reconciliation_Inr [OF c(2) assms(2)] c Some show ?thesis by simp
  qed
qed

section \<open>One message\<close>

lemma handle_message_Inr:
  assumes "handle_message env payload db = Inr ((cid, eff, a), db3)" and "ledger_inv db" and "auth_inv db"
  shows "ledger_inv db3 \<and> advances db db3 \<and> auth_inv db3
    \<and> (\<forall>x. a = Some x \<longrightarrow> (\<exists>i. cid = Some i \<and> authorized i x db3
        \<and> (ne_event_type (op_event payload) \<noteq> ''payment.failed'' \<longrightarrow>
             ar_action_type x = WAIT_FOR_GATEWAY_RETRY
             \<and> map pr_disposition (policies_of i (ar_id x) db3) = [ALLOW])))
    \<and> (a = None \<longrightarrow> ne_event_type (op_event payload) \<noteq> ''payment.failed'')"
proof -
  from assms(1) obtain co db1 e co' db2 where
    co: "correlate env payload db = Inr (co, db1)"
    and ap: "apply_event env payload co db1 = Inr ((e, co'), db2)"
    and au: "authorize env payload co' e db2 = Inr ((eff, a), db3)"
    and cid: "cid = map_option rc_id (co_recovery_case co')"
    by (auto simp: handle_message_def Let_def result_simps split: sum.splits)
  note c = correlate_Inr [OF co assms(2)]
  have k: "keeps db1 db2" using apply_event_keeps [OF ap] c by blast
  have "auth_inv db1" using c assms(3) by (simp add: auth_inv_def)
  with k have auth2: "auth_inv db2" by (rule keeps_auth)
  note z = authorize_Inr [OF au auth2]
  have "advances db db1" using c by (simp add: advances_same_tables)
  also have "advances db1 db2" using k by (simp add: keeps_def)
  also have "advances db2 db3" using z k money_same_ledger by (auto simp: keeps_def)
  finally have adv: "advances db db3" .
  have "ledger_inv db3" using z k money_same_ledger by (auto simp: keeps_def)
  with adv z cid show ?thesis by auto
qed

lemma bookkeeping_ledger:
  assumes "db' = db\<lparr>db_outbox := ob, db_inbox := ib\<rparr>" and "ledger_inv db" and "auth_inv db"
  shows "ledger_inv db' \<and> auth_inv db' \<and> advances db db'"
  using assms by (auto simp: ledger_inv_def auth_inv_def intro: advances_same_tables)

lemma record_processing_failure_db:
  "record_processing_failure env i payload code db = Inr (n, db') \<Longrightarrow>
     db' = db\<lparr>db_outbox := db_outbox db', db_inbox := db_inbox db'\<rparr>"
  by (auto simp: record_processing_failure_def Let_def split: option.splits)

lemma fail_message_db:
  "snd (fail_message env i payload err cid db) =
     db\<lparr>db_outbox := db_outbox (snd (fail_message env i payload err cid db)),
        db_inbox := db_inbox (snd (fail_message env i payload err cid db))\<rparr>"
  by (cases "record_processing_failure env i payload (error_code_of err) db")
     (auto simp: fail_message_def dest: record_processing_failure_db)

lemma publish_message_db:
  "snd (publish_message env ob0 payload cid db) =
     db\<lparr>db_outbox := db_outbox (snd (publish_message env ob0 payload cid db)),
        db_inbox := db_inbox (snd (publish_message env ob0 payload cid db))\<rparr>"
  by (simp add: publish_message_def Let_def)

lemma fail_message_keeps:
  "ledger_inv db \<Longrightarrow> auth_inv db \<Longrightarrow> ledger_inv (snd (fail_message env i payload err cid db))
     \<and> auth_inv (snd (fail_message env i payload err cid db))
     \<and> advances db (snd (fail_message env i payload err cid db))"
  by (rule bookkeeping_ledger [OF fail_message_db])

lemma publish_message_keeps:
  "ledger_inv db \<Longrightarrow> auth_inv db \<Longrightarrow> ledger_inv (snd (publish_message env ob0 payload cid db))
     \<and> auth_inv (snd (publish_message env ob0 payload cid db))
     \<and> advances db (snd (publish_message env ob0 payload cid db))"
  by (rule bookkeeping_ledger [OF publish_message_db])

lemma process_next_keeps:
  assumes "ledger_inv db" and "auth_inv db"
  shows "ledger_inv (snd (process_next env db)) \<and> auth_inv (snd (process_next env db))
    \<and> advances db (snd (process_next env db))"
proof (cases "select_outbox (pe_now env) db")
  case None
  then show ?thesis using assms by (simp add: process_next_def)
next
  case (Some ob)
  show ?thesis
  proof (cases "ob_payload ob")
    case None
    then show ?thesis using Some assms fail_message_keeps by (simp add: process_next_def)
  next
    case payload: (Some payload)
    show ?thesis
    proof (cases "handle_message env payload db")
      case (Inl e)
      then show ?thesis using Some payload assms fail_message_keeps
        by (cases e) (simp add: process_next_def)
    next
      case (Inr r)
      obtain cid eff a db3 where r: "r = ((cid, eff, a), db3)" by (metis prod.exhaust)
      note h = handle_message_Inr [OF Inr [unfolded r] assms]
      let ?l = "ob\<lparr>ob_available_at := pe_now env + pe_dispatch_lease env\<rparr>"
      let ?db4 = "db3\<lparr>db_outbox := save_row ob_id ?l (db_outbox db3)\<rparr>"
      have four: "ledger_inv ?db4" "auth_inv ?db4" "advances db ?db4"
        using h by (simp_all add: ledger_inv_def auth_inv_def advances_def)
      show ?thesis
      proof (cases a)
        case None
        then show ?thesis
          using Some payload Inr r h assms
            publish_message_keeps [of db3 env ob payload cid] advances_trans [of db db3]
            fail_message_keeps [of db env "ob_id ob" "Some payload" Downstream_Failed cid]
          by (simp add: process_next_def Let_def)
      next
        case act: (Some x)
        then show ?thesis
          using Some payload Inr r four
            publish_message_keeps [OF four(1,2), of env ?l payload cid] advances_trans [OF four(3)]
            fail_message_keeps [OF four(1,2), of env "ob_id ob" "Some payload" Downstream_Failed cid]
          by (simp add: process_next_def Let_def)
      qed
    qed
  qed
qed

definition process_all :: "processor_env list \<Rightarrow> database \<Rightarrow> database" where
  "process_all envs db = fold (\<lambda>env d. snd (process_next env d)) envs db"

lemma process_all_keeps:
  "ledger_inv db \<Longrightarrow> auth_inv db \<Longrightarrow> ledger_inv (process_all envs db) \<and> auth_inv (process_all envs db)
     \<and> advances db (process_all envs db)"
proof (induction envs arbitrary: db)
  case (Cons env envs)
  note k = process_next_keeps [OF Cons.prems, of env]
  from Cons.IH [of "snd (process_next env db)"] k show ?case
    by (auto simp: process_all_def intro: advances_trans)
qed (simp add: process_all_def)

section \<open>Properties\<close>

text \<open>
  The revenue ledger is sound. Whatever messages the outbox holds, whatever the provider, the
  clock, the scorer and the dispatch callback answer, and however often messages are retried, after
  any number of processor runs the arrears of every case are exactly the sum of the amounts
  recognised for it, they lie between zero and the amount at risk, and no provider event and no
  payment is recognised twice.
\<close>

theorem revenue_ledger_sound:
  assumes "ledger_inv db" and "auth_inv db"
  shows "(\<forall>c \<in> set (db_cases (process_all envs db)).
      rc_arrears_collected_paise c = recognized (rc_id c) (db_revenue (process_all envs db))
      \<and> 0 \<le> rc_arrears_collected_paise c \<and> rc_arrears_collected_paise c \<le> rc_amount_at_risk_paise c)
    \<and> distinct (map (\<lambda>g. (rg_merchant_id g, rg_provider g, rg_provider_event_id g))
        (db_revenue (process_all envs db)))
    \<and> distinct (map (\<lambda>g. (rg_merchant_id g, rg_payment_attempt_id g))
        (filter (\<lambda>g. rg_provider g = ''razorpay'' \<and> rg_payment_attempt_id g \<noteq> None)
          (db_revenue (process_all envs db))))
    \<and> (\<forall>i \<in> set (db_invoices (process_all envs db)). iv_amount_paid_paise i \<le> iv_amount_paise i)"
proof -
  let ?d = "process_all envs db"
  have led: "ledger (db_cases ?d) (db_invoices ?d) (db_revenue ?d)"
    using process_all_keeps [OF assms] by (simp add: ledger_inv_def)
  then have "0 \<le> recognized i (db_revenue ?d)" for i
    unfolding recognized_def by (intro sum_list_nonneg) (auto simp: ledger_def revenue_wf_def less_imp_le)
  with led show ?thesis
    by (auto simp: ledger_def case_ledger_def revenue_wf_def invoice_constraints_def)
qed

text \<open>
  C3: processing never takes anything back. Over any number of processor runs a case keeps its
  identity, merchant, invoice, contact disposition and amount at risk, the arrears it has collected
  never shrink, a captured payment stays captured, its version never goes back, and recognitions
  are only appended.
\<close>

theorem processing_is_monotone:
  assumes "ledger_inv db" and "auth_inv db" and "c \<in> set (db_cases db)"
  shows "\<exists>d \<in> set (db_cases (process_all envs db)). rc_id d = rc_id c
      \<and> rc_merchant_id d = rc_merchant_id c \<and> rc_contact_disposition d = rc_contact_disposition c
      \<and> rc_amount_at_risk_paise d = rc_amount_at_risk_paise c
      \<and> rc_arrears_collected_paise c \<le> rc_arrears_collected_paise d
      \<and> (rc_payment_state c = Pay_CAPTURED \<longrightarrow> rc_payment_state d = Pay_CAPTURED)
      \<and> rc_version c \<le> rc_version d
      \<and> (\<exists>extra. db_revenue (process_all envs db) = db_revenue db @ extra)"
proof -
  have adv: "advances db (process_all envs db)" using process_all_keeps [OF assms(1,2)] by simp
  then obtain d where "d \<in> set (db_cases (process_all envs db))" "case_advances c d"
    using assms(3) by (auto simp: advances_def)
  moreover have "\<exists>extra. db_revenue (process_all envs db) = db_revenue db @ extra"
    using adv by (simp add: advances_def)
  ultimately show ?thesis by (auto simp: case_advances_def intro!: bexI [of _ d])
qed

lemma backoff_bounds: "0 \<le> base \<Longrightarrow> base \<le> backoff base n \<and> backoff base n \<le> 64 * base"
proof -
  assume base: "0 \<le> base"
  have "1 \<le> int (min (2 ^ (n - 1)) 64)" "int (min (2 ^ (n - 1)) 64) \<le> 64" by auto
  then show ?thesis using base mult_left_mono [of 1 "int (min (2 ^ (n - 1)) 64)" base]
      mult_left_mono [of "int (min (2 ^ (n - 1)) 64)" 64 base] by (simp add: backoff_def)
qed

lemma fail_message_Inr:
  assumes "fail_message env i payload err cid db = (Inr (Some r), db')"
  shows "or_status r = FAILED \<and> or_outbox_id r = i \<and> or_error_code r = Some (error_code_of err)
    \<and> (\<exists>m \<in> set (db_outbox db'). ob_id m = i \<and> ob_published_at m = None
        \<and> ob_attempt_count m = or_attempt_count r
        \<and> ob_available_at m = pe_failed_at env + backoff (pe_retry_base_delay env) (or_attempt_count r))
    \<and> db' = db\<lparr>db_outbox := db_outbox db', db_inbox := db_inbox db'\<rparr>"
proof -
  obtain n where rf: "record_processing_failure env i payload (error_code_of err) db = Inr (n, db')"
    and r: "or_status r = FAILED" "or_outbox_id r = i" "or_error_code r = Some (error_code_of err)"
      "or_attempt_count r = n"
    using assms by (auto simp: fail_message_def split: sum.splits)
  from rf obtain m where m: "find (\<lambda>m. ob_id m = i) (db_outbox db) = Some m"
    and n: "n = ob_attempt_count m + 1"
    and ob: "db_outbox db' = save_row ob_id (m\<lparr>ob_attempt_count := n,
        ob_last_error_code := Some (error_code_of err), ob_published_at := None,
        ob_available_at := pe_failed_at env + backoff (pe_retry_base_delay env) n\<rparr>) (db_outbox db)"
    by (auto simp: record_processing_failure_def Let_def split: option.splits)
  let ?m = "m\<lparr>ob_attempt_count := n, ob_last_error_code := Some (error_code_of err),
      ob_published_at := None, ob_available_at := pe_failed_at env + backoff (pe_retry_base_delay env) n\<rparr>"
  from find_SomeD [OF m] have "m \<in> set (db_outbox db)" "ob_id m = i" by simp_all
  then have "?m \<in> set (db_outbox db')" unfolding ob by (intro save_row_mem [where x = m]) simp_all
  with r \<open>ob_id m = i\<close> record_processing_failure_db [OF rf] show ?thesis
    by (auto intro!: bexI [of _ ?m])
qed

lemma publish_message_status: "publish_message env ob0 payload cid db = (Inr (Some r), db') \<Longrightarrow> or_status r = PUBLISHED"
  by (auto simp: publish_message_def Let_def)

lemma process_next_failed:
  assumes "process_next env db = (Inr (Some r), db')" and "or_status r = FAILED"
  shows "\<exists>i payload err cid d. fail_message env i payload err cid d = (Inr (Some r), db')
    \<and> (d = db \<or> err = Downstream_Failed \<and> (\<exists>ob p cid eff a db3 obs. select_outbox (pe_now env) db = Some ob
        \<and> ob_payload ob = Some p \<and> handle_message env p db = Inr ((cid, eff, Some a), db3)
        \<and> d = db3\<lparr>db_outbox := obs\<rparr>))"
proof -
  obtain ob where ob: "select_outbox (pe_now env) db = Some ob"
    using assms(1) by (auto simp: process_next_def split: option.splits)
  show ?thesis
  proof (cases "ob_payload ob")
    case None
    with assms ob show ?thesis by (simp add: process_next_def) blast
  next
    case (Some p)
    show ?thesis
    proof (cases "handle_message env p db")
      case (Inl x)
      with assms ob Some show ?thesis by (cases x) (simp add: process_next_def, blast)
    next
      case (Inr y)
      obtain cid eff a db3 where y: "y = ((cid, eff, a), db3)" by (metis prod.exhaust)
      show ?thesis
      proof (cases a)
        case None
        with assms ob Some Inr y show ?thesis
          by (auto simp: process_next_def Let_def split: if_splits dest: publish_message_status)
      next
        case act: (Some x)
        with assms ob Some Inr y show ?thesis
          by (auto simp: process_next_def Let_def split: if_splits dest: publish_message_status) blast
      qed
    qed
  qed
qed

text \<open>
  C4: a failed message leaves no trace but its retry. If processing a message fails, every table but the inbox and
  the outbox is as before, unless it was the callback that failed: then an authorised action may have been committed
  before the call, and the tables are exactly those the handling of the message left. In either case
  the message stays unpublished, its attempt is counted, and it becomes available again after the base delay
  doubled per attempt, never more than 64 times the base.
\<close>

theorem failed_message_rolls_back:
  assumes "process_next env db = (Inr (Some r), db')" and "or_status r = FAILED"
    and "0 \<le> pe_retry_base_delay env"
  shows "(db' = db\<lparr>db_outbox := db_outbox db', db_inbox := db_inbox db'\<rparr>
       \<or> or_error_code r = Some ''RAZORPAY_DOWNSTREAM_SIGNAL_FAILED''
         \<and> (\<exists>ob payload cid eff a db3. select_outbox (pe_now env) db = Some ob \<and> ob_payload ob = Some payload
              \<and> handle_message env payload db = Inr ((cid, eff, Some a), db3)
              \<and> db' = db3\<lparr>db_outbox := db_outbox db', db_inbox := db_inbox db'\<rparr>))
    \<and> (\<exists>m \<in> set (db_outbox db'). ob_id m = or_outbox_id r \<and> ob_published_at m = None
        \<and> ob_attempt_count m = or_attempt_count r
        \<and> pe_failed_at env + pe_retry_base_delay env \<le> ob_available_at m
        \<and> ob_available_at m \<le> pe_failed_at env + 64 * pe_retry_base_delay env)"
proof -
  obtain i payload err cid d where f: "fail_message env i payload err cid d = (Inr (Some r), db')"
    and d: "d = db \<or> err = Downstream_Failed \<and> (\<exists>ob p cid eff a db3 obs. select_outbox (pe_now env) db = Some ob
        \<and> ob_payload ob = Some p \<and> handle_message env p db = Inr ((cid, eff, Some a), db3)
        \<and> d = db3\<lparr>db_outbox := obs\<rparr>)" using process_next_failed [OF assms(1,2)] by blast
  note fm = fail_message_Inr [OF f]
  have "db' = db\<lparr>db_outbox := db_outbox db', db_inbox := db_inbox db'\<rparr>
       \<or> or_error_code r = Some ''RAZORPAY_DOWNSTREAM_SIGNAL_FAILED''
         \<and> (\<exists>ob payload cid eff a db3. select_outbox (pe_now env) db = Some ob \<and> ob_payload ob = Some payload
              \<and> handle_message env payload db = Inr ((cid, eff, Some a), db3)
              \<and> db' = db3\<lparr>db_outbox := db_outbox db', db_inbox := db_inbox db'\<rparr>)"
    using d
  proof
    assume "d = db" with fm show ?thesis by blast
  next
    assume e: "err = Downstream_Failed \<and> (\<exists>ob p cid eff a db3 obs. select_outbox (pe_now env) db = Some ob
        \<and> ob_payload ob = Some p \<and> handle_message env p db = Inr ((cid, eff, Some a), db3)
        \<and> d = db3\<lparr>db_outbox := obs\<rparr>)"
    then obtain ob p cid eff a db3 obs where h: "select_outbox (pe_now env) db = Some ob" "ob_payload ob = Some p"
      "handle_message env p db = Inr ((cid, eff, Some a), db3)" "d = db3\<lparr>db_outbox := obs\<rparr>" by blast
    have "db' = d\<lparr>db_outbox := db_outbox db', db_inbox := db_inbox db'\<rparr>" using fm by blast
    then have "db' = db3\<lparr>db_outbox := db_outbox db', db_inbox := db_inbox db'\<rparr>" using h(4) by simp
    moreover have "or_error_code r = Some ''RAZORPAY_DOWNSTREAM_SIGNAL_FAILED''" using fm e by (simp add: error_code_of_def)
    ultimately show ?thesis using h by blast
  qed
  moreover have "\<exists>m \<in> set (db_outbox db'). ob_id m = or_outbox_id r \<and> ob_published_at m = None
        \<and> ob_attempt_count m = or_attempt_count r
        \<and> pe_failed_at env + pe_retry_base_delay env \<le> ob_available_at m
        \<and> ob_available_at m \<le> pe_failed_at env + 64 * pe_retry_base_delay env"
    using fm backoff_bounds [OF assms(3), of "or_attempt_count r"] by fastforce
  ultimately show ?thesis by blast
qed

text \<open>
  A confirmed capture closes the case exactly when the arrears are covered. After a capture is
  applied the payment of the case is captured; the case is recovered exactly when it has collected
  the amount at risk; and a recovered case has no action left that is proposed, awaiting approval,
  scheduled or executing.
\<close>

theorem capture_closes_covered_case:
  assumes "apply_captured env payload co db = Inr ((eff, co'), db')"
  shows "\<exists>c. co_recovery_case co' = Some c \<and> rc_payment_state c = Pay_CAPTURED
    \<and> (rc_case_recovered c \<longleftrightarrow> rc_amount_at_risk_paise c \<le> rc_arrears_collected_paise c)
    \<and> (rc_case_recovered c \<longrightarrow> rc_case_outcome c = Case_RECOVERED
        \<and> (\<forall>a \<in> set (db_actions db'). ar_case_id a = rc_id c \<longrightarrow>
            ar_status a \<notin> {Act_PROPOSED, Act_AWAITING_APPROVAL, Act_SCHEDULED, Act_EXECUTING}))"
  using assms
proof (rule apply_captured_Inr)
  fix c0 sn oc newly s db2
  let ?c = "capture_case (op_event payload) sn oc newly c0"
  assume co': "co' = co\<lparr>co_recovery_case := Some ?c\<rparr>"
    and db': "db' = save_capture (op_event payload) sn ?c s db2"
  have "ar_status a \<notin> {Act_PROPOSED, Act_AWAITING_APPROVAL, Act_SCHEDULED, Act_EXECUTING}"
    if "rc_case_recovered ?c" "a \<in> set (db_actions db')" "ar_case_id a = rc_id ?c" for a
    using that db' by (auto simp: save_capture_def cancel_open_actions_def set_update_where)
  moreover have "rc_case_recovered ?c \<longleftrightarrow> rc_amount_at_risk_paise ?c \<le> rc_arrears_collected_paise ?c"
    by (simp add: capture_case_sel)
  moreover have "rc_case_recovered ?c \<longrightarrow> rc_case_outcome ?c = Case_RECOVERED"
    by (simp add: capture_case_sel capture_case_outcome)
  ultimately show ?thesis using co' by (auto simp: capture_case_sel(5))
qed

section \<open>A concrete capture\<close>

definition sample_snapshot :: PaymentSnapshot where
  "sample_snapshot = \<lparr>ps_provider = ''razorpay'', ps_payment_id = Some ''pay_1'',
     ps_invoice_id = Some ''inv_1'', ps_subscription_id = None, ps_payment_state = Pay_CAPTURED,
     ps_subscription_state = Sub_ACTIVE, ps_amount_paise = 149900, ps_currency = ''INR'',
     ps_observed_at = 2, ps_authoritative = True\<rparr>"

definition sample_env :: "bool \<Rightarrow> processor_env" where
  "sample_env confirmed = \<lparr>pe_now = 10, pe_evaluated_at = 11, pe_utc_now = 12, pe_completed_at = 13,
     pe_failed_at = 14, pe_retry_base_delay = seconds 5, pe_dispatch_lease = minutes 5,
     pe_global_kill_switch = False, pe_scorer = even_scorer, pe_zones = kolkata_zones,
     pe_sha256 = toy_hash,
     pe_payment_snapshot = (\<lambda>_ _ _. if confirmed then Inr sample_snapshot else Inl (Razorpay_Error ''DOWN'')),
     pe_invoice_snapshot = None, pe_standard_links = True, pe_agent_ready = False,
     pe_signal = (\<lambda>_. True)\<rparr>"

definition ledger_case :: RecoveryCase where
  "ledger_case =
     \<lparr>rc_id = ''case_1'', rc_merchant_id = ''m1'', rc_customer_id = ''cust_1'',
      rc_subscription_id = ''sub_1'', rc_failed_invoice_id = Some ''iv_1'',
      rc_billing_cycle_key = None, rc_failed_payment_id = None, rc_case_outcome = Case_OPEN,
      rc_payment_state = Pay_FAILED, rc_subscription_state = Sub_PENDING,
      rc_contact_disposition = NOT_CONTACTED, rc_revenue_attribution = Attr_NONE,
      rc_diagnosis = INSUFFICIENT_FUNDS, rc_amount_at_risk_paise = 149900,
      rc_arrears_collected_paise = 0, rc_case_recovered = False,
      rc_subscription_reactivated = False, rc_opened_at = 0, rc_recovery_deadline = days 3,
      rc_recovered_at = None, rc_version = 1\<rparr>"

definition sample_db :: database where
  "sample_db = empty_db\<lparr>
     db_subscriptions := [\<lparr>sb_id = ''sub_1'', sb_merchant_id = ''m1'', sb_customer_id = ''cust_1'',
       sb_provider_subscription_id = ''rsub_1'', sb_plan_name = ''Monthly'', sb_currency = ''INR'',
       sb_subscription_state = Sub_PENDING, sb_current_billing_cycle_key = None\<rparr>],
     db_invoices := [\<lparr>iv_id = ''iv_1'', iv_merchant_id = ''m1'', iv_subscription_id = ''sub_1'',
       iv_provider_invoice_id = ''inv_1'', iv_billing_cycle_key = ''k'', iv_amount_paise = 149900,
       iv_amount_paid_paise = 0, iv_currency = ''INR'', iv_invoice_state = ''issued'', iv_due_at = None\<rparr>],
     db_cases := [ledger_case],
     db_inbox := [new_inbox ''i'' ''m1'' sample_capture_event],
     db_outbox := [new_outbox toy_hash ''o'' 0 ''m1'' sample_capture_event]\<rparr>"

lemma sample_db_inv: "ledger_inv sample_db" "auth_inv sample_db"
  by (simp_all add: ledger_inv_def ledger_def auth_inv_def sample_db_def empty_db_def ledger_case_def
      case_ledger_def recognized_def revenue_wf_def invoice_constraints_def)

lemma sample_run:
  "map rc_arrears_collected_paise (db_cases (process_all [sample_env True, sample_env True] sample_db)) = [149900]"
  by code_simp

lemma sample_fail:
  "(case process_next (sample_env False) sample_db of
      (Inr (Some r), _) \<Rightarrow> or_status r = FAILED | _ \<Rightarrow> False)"
  by code_simp

theorem revenue_ledger_sound_witness:
  "map (\<lambda>c. recognized (rc_id c) (db_revenue (process_all [sample_env True, sample_env True] sample_db)))
     (db_cases (process_all [sample_env True, sample_env True] sample_db)) = [149900]"
proof -
  let ?db = "process_all [sample_env True, sample_env True] sample_db"
  have "map (\<lambda>c. recognized (rc_id c) (db_revenue ?db)) (db_cases ?db)
      = map rc_arrears_collected_paise (db_cases ?db)"
    using revenue_ledger_sound [OF sample_db_inv, of "[sample_env True, sample_env True]"] by simp
  with sample_run show ?thesis by simp
qed

theorem processing_is_monotone_witness:
  "\<exists>d \<in> set (db_cases (process_all [sample_env True] sample_db)). rc_id d = ''case_1'' \<and> 1 \<le> rc_version d"
proof -
  have "ledger_case \<in> set (db_cases sample_db)" by (simp add: sample_db_def)
  from processing_is_monotone [OF sample_db_inv this, of "[sample_env True]"] show ?thesis
    by (auto simp: ledger_case_def)
qed

theorem failed_message_rolls_back_witness:
  "\<exists>r db'. process_next (sample_env False) sample_db = (Inr (Some r), db') \<and> or_status r = FAILED
     \<and> (\<exists>m \<in> set (db_outbox db'). ob_published_at m = None \<and> ob_available_at m \<le> 14 + 64 * seconds 5)"
proof -
  obtain r db' where p: "process_next (sample_env False) sample_db = (Inr (Some r), db')" "or_status r = FAILED"
    using sample_fail by (auto split: sum.splits prod.splits option.splits)
  have "0 \<le> pe_retry_base_delay (sample_env False)" by (simp add: sample_env_def duration_defs)
  from failed_message_rolls_back [OF p this] p show ?thesis by (auto simp: sample_env_def)
qed

definition sample_correlation :: correlation where
  "sample_correlation = \<lparr>co_subscription = Some (hd (db_subscriptions sample_db)),
     co_invoice = Some (hd (db_invoices sample_db)), co_recovery_case = Some ledger_case\<rparr>"

lemma sample_captured:
  "isOk (apply_captured (sample_env True) \<lparr>op_merchant_id = ''m1'', op_event = sample_capture_event\<rparr>
     sample_correlation sample_db)"
  by code_simp

theorem capture_closes_covered_case_witness:
  "\<exists>eff co' db' c. apply_captured (sample_env True) \<lparr>op_merchant_id = ''m1'', op_event = sample_capture_event\<rparr>
      sample_correlation sample_db = Inr ((eff, co'), db')
     \<and> co_recovery_case co' = Some c \<and> rc_payment_state c = Pay_CAPTURED"
proof -
  obtain eff co' db' where a: "apply_captured (sample_env True)
      \<lparr>op_merchant_id = ''m1'', op_event = sample_capture_event\<rparr> sample_correlation sample_db = Inr ((eff, co'), db')"
    using sample_captured unfolding isOk_iff by (metis prod.exhaust)
  from capture_closes_covered_case [OF a] a show ?thesis by blast
qed

end
