(* ===== verification/Worker_Contracts.thy ===== *)
theory Worker_Contracts
  imports Razorpay_Events
begin

text \<open>
  The messages of the recovery worker (\<open>services/worker/app/contracts.py\<close>): the input and the
  result of the workflow, the argument and the result of every activity, and the signals.

  An ISO timestamp is kept as the datetime its text denotes: \<open>iso_text\<close> is \<open>None\<close> for a text that
  \<open>datetime.fromisoformat\<close> refuses. Floats are rationals and free-form dictionaries are JSON objects.
\<close>

type_synonym iso_text = "datetime option"

record ProviderEvent =
  pv_event_id :: string
  pv_event_type :: string
  pv_occurred_at :: iso_text
  pv_payload :: jobject

record RecoveryWorkflowInput =
  wi_case_id :: string
  wi_merchant_id :: string
  wi_customer_id :: string
  wi_subscription_id :: string
  wi_failed_invoice_id :: "string option"
  wi_failed_payment_id :: "string option"
  wi_amount_at_risk_paise :: int
  wi_currency :: string
  wi_recovery_deadline :: iso_text
  wi_failure_event :: ProviderEvent
  wi_candidate_action :: string
  wi_payment_surface_type :: "string option"
  wi_payment_surface_reference :: "string option"
  wi_provider_subscription_id :: "string option"
  wi_provider_invoice_id :: "string option"
  wi_recovery_action_id :: "string option"

record NormalizeFailureInput =
  nfi_case_id :: string
  nfi_merchant_id :: string
  nfi_subscription_id :: string
  nfi_failed_invoice_id :: "string option"
  nfi_failed_payment_id :: "string option"
  nfi_event :: ProviderEvent

record NormalizedFailure =
  nf_case_id :: string
  nf_provider_event_id :: string
  nf_payment_state :: string
  nf_subscription_state :: string
  nf_reason_code :: "string option"
  nf_authoritative :: bool
  nf_occurred_at :: iso_text

record DiagnosisInput =
  di_case_id :: string
  di_failure :: NormalizedFailure

record DiagnosisResult =
  dgr_diagnosis :: string
  dgr_confidence :: rat
  dgr_reason_codes :: "string list"

record ScoreInput =
  sci_case_id :: string
  sci_amount_at_risk_paise :: int
  sci_diagnosis :: string
  sci_candidate_action :: string

record ScoreResult =
  scr_model_name :: string
  scr_model_version :: string
  scr_recovery_probability :: rat
  scr_expected_recovered_paise :: int
  scr_expected_utility_paise :: int
  scr_explanation :: "string list"

record PolicyInput =
  pin_case_id :: string
  pin_merchant_id :: string
  pin_amount_at_risk_paise :: int
  pin_diagnosis :: string
  pin_candidate_action :: string
  pin_payment_surface_type :: "string option"
  pin_recovery_deadline :: iso_text

record PolicyResult =
  pr_disposition :: string
  pr_decision_code :: string
  pr_action :: string
  pr_payment_surface_type :: "string option"
  pr_reason_codes :: "string list"
  pr_delay_until :: "iso_text option"

record ExecuteActionInput =
  ea_case_id :: string
  ea_merchant_id :: string
  ea_customer_id :: string
  ea_subscription_id :: string
  ea_failed_invoice_id :: "string option"
  ea_amount_paise :: int
  ea_currency :: string
  ea_action :: string
  ea_payment_surface_type :: "string option"
  ea_recovery_deadline :: iso_text
  ea_idempotency_key :: string
  ea_mandate :: "jobject option"
  ea_provider_subscription_id :: "string option"
  ea_provider_invoice_id :: "string option"
  ea_recovery_action_id :: "string option"

record ActionExecutionResult =
  ax_status :: string
  ax_provider :: string
  ax_provider_reference :: "string option"
  ax_customer_url :: "string option"
  ax_reason_code :: "string option"

record StartA2AAuthorizationInput =
  sa_case_id :: string
  sa_merchant_id :: string
  sa_customer_id :: string
  sa_exact_amount_paise :: int
  sa_currency :: string
  sa_payment_surface_type :: string
  sa_payment_surface_reference :: string
  sa_recovery_deadline :: iso_text
  sa_idempotency_key :: string
  sa_recovery_action_id :: "string option"
  sa_failed_invoice_id :: "string option"
  sa_provider_invoice_id :: "string option"

record A2AAuthorizationResult =
  aar_remote_task_id :: string
  aar_state :: string
  aar_approval_path :: "string option"

record PollA2AMandateInput =
  pm_remote_task_id :: string
  pm_case_id :: string
  pm_merchant_id :: string
  pm_customer_id :: string
  pm_exact_amount_paise :: int
  pm_currency :: string
  pm_payment_surface_type :: string
  pm_payment_surface_reference :: string
  pm_recovery_deadline :: iso_text
  pm_recovery_action_id :: "string option"
  pm_failed_invoice_id :: "string option"
  pm_provider_invoice_id :: "string option"

record A2AMandatePollResult =
  mp_remote_task_id :: string
  mp_task_state :: string
  mp_verification_status :: string
  mp_mandate_id :: "string option"
  mp_verified_artifact :: "jobject option"
  mp_reason_code :: "string option"

record SendA2APaymentReceiptInput =
  spr_remote_task_id :: string
  spr_mandate_id :: string
  spr_merchant_id :: string
  spr_case_id :: string
  spr_exact_amount_paise :: int
  spr_currency :: string
  spr_provider_reference :: string
  spr_observed_at :: instant
  spr_idempotency_key :: string
  spr_recovery_action_id :: "string option"
  spr_failed_invoice_id :: "string option"

record A2APaymentReceiptResult =
  apr_remote_task_id :: string
  apr_task_state :: string
  apr_delivered :: bool

record ReconciliationInput =
  ri_case_id :: string
  ri_merchant_id :: string
  ri_failed_invoice_id :: "string option"
  ri_failed_payment_id :: "string option"
  ri_trigger_event_id :: string
  ri_payment_state_hint :: "string option"
  ri_amount_paise_hint :: "int option"
  ri_authoritative_hint :: bool

record ReconciliationResult =
  rr_payment_state :: string
  rr_subscription_state :: string
  rr_authoritative :: bool
  rr_case_recovered :: bool
  rr_arrears_collected_paise :: int
  rr_subscription_reactivated :: bool
  rr_provider_reference :: "string option"

record AuditInput =
  au_case_id :: string
  au_event_type :: string
  au_correlation_id :: string
  au_details :: jobject

record AuditResult =
  aur_audit_event_id :: string
  aur_recorded :: bool

record CancelActionInput =
  cai_case_id :: string
  cai_provider_reference :: "string option"
  cai_reason :: string
  cai_idempotency_key :: string

record CancelActionResult =
  car_cancelled :: bool
  car_reason_code :: "string option"

record PaymentEventSignal =
  pes_signal_id :: string
  pes_provider_event_id :: string
  pes_payment_state :: string
  pes_amount_paise :: int
  pes_authoritative :: bool

record CustomerIntentSignal =
  cis_signal_id :: string
  cis_intent :: string
  cis_confidence :: "rat option"

record ApprovalSignal =
  aps_signal_id :: string
  aps_approved :: bool
  aps_reviewer_id :: string
  aps_reason :: "string option"

record OptOutSignal =
  oos_signal_id :: string
  oos_source :: string
  oos_reason :: "string option"

record CancellationSignal =
  cns_signal_id :: string
  cns_reason :: string
  cns_requested_by :: string

record OperatorEscalationSignal =
  oes_signal_id :: string
  oes_reason :: string
  oes_requested_by :: string

record A2AUpdateSignal =
  aus_signal_id :: string
  aus_remote_task_id :: string
  aus_state :: string
  aus_artifact :: "jobject option"

record MandateSignal =
  mds_signal_id :: string
  mds_mandate_id :: string
  mds_verified :: bool
  mds_payment_surface_reference :: string
  mds_exact_amount_paise :: int
  mds_expires_at :: iso_text
  mds_artifact :: jobject

text \<open>
  A queued signal is the signal itself: the constructor is its \<open>kind\<close>, the record its \<open>payload\<close>.
\<close>

datatype QueuedSignal =
    PAYMENT_EVENT PaymentEventSignal
  | CUSTOMER_INTENT CustomerIntentSignal
  | APPROVAL ApprovalSignal
  | OPT_OUT OptOutSignal
  | CANCELLATION CancellationSignal
  | OPERATOR_ESCALATION OperatorEscalationSignal
  | A2A_UPDATE A2AUpdateSignal
  | MANDATE MandateSignal

fun signal_id :: "QueuedSignal \<Rightarrow> ident" where
  "signal_id (PAYMENT_EVENT p) = pes_signal_id p"
| "signal_id (CUSTOMER_INTENT p) = cis_signal_id p"
| "signal_id (APPROVAL p) = aps_signal_id p"
| "signal_id (OPT_OUT p) = oos_signal_id p"
| "signal_id (CANCELLATION p) = cns_signal_id p"
| "signal_id (OPERATOR_ESCALATION p) = oes_signal_id p"
| "signal_id (A2A_UPDATE p) = aus_signal_id p"
| "signal_id (MANDATE p) = mds_signal_id p"

record RecoveryWorkflowStatus =
  st_case_id :: string
  st_phase :: string
  st_terminal :: bool
  st_outcome :: "string option"
  st_diagnosis :: "string option"
  st_policy_disposition :: "string option"
  st_action :: "string option"
  st_action_status :: "string option"
  st_provider_reference :: "string option"
  st_payment_state :: string
  st_subscription_state :: string
  st_contact_disposition :: string
  st_approval_required :: bool
  st_approval_received :: "bool option"
  st_outreach_suppressed :: bool
  st_a2a_state :: "string option"
  st_mandate_received :: bool
  st_received_signal_count :: int
  st_duplicate_signal_count :: int
  st_recovery_deadline :: "instant option"

record RecoveryWorkflowResult =
  wres_case_id :: string
  wres_outcome :: string
  wres_payment_state :: string
  wres_subscription_state :: string
  wres_case_recovered :: bool
  wres_arrears_collected_paise :: int
  wres_subscription_reactivated :: bool
  wres_contact_disposition :: string
  wres_processed_signal_count :: int
  wres_duplicate_signal_count :: int

end
