(* ===== verification/Recovery_Workflow.thy ===== *)
theory Recovery_Workflow
  imports Worker_Contracts
begin

text \<open>
  The durable workflow of one recovery case (\<open>services/worker/app/workflow.py\<close>).

  \<^item> \<open>RecoveryCaseWorkflow\<close> holds the fields of the object, and three of the run itself: the
    workflow's clock, the number of times it has been suspended and the activity calls made, each
    with the time it was issued.
  \<^item> \<open>world\<close> is everything outside the workflow: what each activity answers at each suspension
    (\<open>None\<close>: the activity failed, its retries exhausted), which signals are delivered while the
    workflow is suspended, and how much time passes. The theorems hold for every world.
  \<^item> An operation is a function of the world and the state to a result, or the exception that
    ends the run, and the new state. Signals are delivered at every \<open>await\<close>, and only there, as
    the event loop of the workflow runs one task at a time.
  \<^item> The three \<open>while\<close> loops take fuel; running out of it is the exception \<open>Out_Of_Fuel\<close>.
\<close>

section \<open>State\<close>

text \<open>An activity call with the answer, \<open>None\<close> where it failed.\<close>

datatype activity_call =
    NORMALIZE_FAILURE NormalizeFailureInput "NormalizedFailure option"
  | DIAGNOSE_FAILURE DiagnosisInput "DiagnosisResult option"
  | SCORE_RECOVERY ScoreInput "ScoreResult option"
  | EVALUATE_POLICY PolicyInput "PolicyResult option"
  | EXECUTE_RECOVERY_ACTION ExecuteActionInput "ActionExecutionResult option"
  | START_A2A_AUTHORIZATION StartA2AAuthorizationInput "A2AAuthorizationResult option"
  | POLL_A2A_MANDATE PollA2AMandateInput "A2AMandatePollResult option"
  | SEND_A2A_PAYMENT_RECEIPT SendA2APaymentReceiptInput "A2APaymentReceiptResult option"
  | RECONCILE_CASE ReconciliationInput "ReconciliationResult option"
  | RECORD_AUDIT_EVENT AuditInput "AuditResult option"
  | CANCEL_RECOVERY_ACTION CancelActionInput "CancelActionResult option"

record RecoveryCaseWorkflow =
  wf_case_id :: ident
  wf_phase :: string
  wf_terminal :: bool
  wf_outcome :: "string option"
  wf_diagnosis :: "string option"
  wf_policy_disposition :: "string option"
  wf_action :: "string option"
  wf_action_status :: "string option"
  wf_provider_reference :: "string option"
  wf_payment_state :: string
  wf_subscription_state :: string
  wf_contact_disposition :: string
  wf_approval_required :: bool
  wf_approval_received :: "bool option"
  wf_outreach_suppressed :: bool
  wf_a2a_state :: "string option"
  wf_a2a_task_id :: "string option"
  wf_next_a2a_poll_at :: "instant option"
  wf_mandate_received :: bool
  wf_a2a_mandate_id :: "string option"
  wf_a2a_receipt_sent :: bool
  wf_deadline :: "instant option"
  wf_signals :: "QueuedSignal list"
  wf_seen_signal_ids :: "ident set"
  wf_processed_signal_count :: nat
  wf_duplicate_signal_count :: nat
  wf_arrears_collected_paise :: paise
  wf_subscription_reactivated :: bool
  wf_input :: "RecoveryWorkflowInput option"
  wf_now :: instant
  wf_awaits :: nat
  wf_calls :: "(instant \<times> activity_call) list"

definition new_workflow :: "instant \<Rightarrow> RecoveryCaseWorkflow" where
  "new_workflow started =
     \<lparr>wf_case_id = [], wf_phase = ''INITIALIZING'', wf_terminal = False, wf_outcome = None,
      wf_diagnosis = None, wf_policy_disposition = None, wf_action = None, wf_action_status = None,
      wf_provider_reference = None, wf_payment_state = ''FAILED'', wf_subscription_state = ''UNKNOWN'',
      wf_contact_disposition = ''NOT_CONTACTED'', wf_approval_required = False,
      wf_approval_received = None, wf_outreach_suppressed = False, wf_a2a_state = None,
      wf_a2a_task_id = None, wf_next_a2a_poll_at = None, wf_mandate_received = False,
      wf_a2a_mandate_id = None, wf_a2a_receipt_sent = False, wf_deadline = None, wf_signals = [],
      wf_seen_signal_ids = {}, wf_processed_signal_count = 0, wf_duplicate_signal_count = 0,
      wf_arrears_collected_paise = 0, wf_subscription_reactivated = False, wf_input = None,
      wf_now = started, wf_awaits = 0, wf_calls = []\<rparr>"

record world =
  w_workflow_id :: ident
  w_started :: instant
  w_arrivals :: "nat \<Rightarrow> QueuedSignal list"
  w_elapsed :: "nat \<Rightarrow> nat"
  w_normalize_failure :: "nat \<Rightarrow> NormalizeFailureInput \<Rightarrow> NormalizedFailure option"
  w_diagnose_failure :: "nat \<Rightarrow> DiagnosisInput \<Rightarrow> DiagnosisResult option"
  w_score_recovery :: "nat \<Rightarrow> ScoreInput \<Rightarrow> ScoreResult option"
  w_evaluate_policy :: "nat \<Rightarrow> PolicyInput \<Rightarrow> PolicyResult option"
  w_execute_recovery_action :: "nat \<Rightarrow> ExecuteActionInput \<Rightarrow> ActionExecutionResult option"
  w_start_a2a_authorization :: "nat \<Rightarrow> StartA2AAuthorizationInput \<Rightarrow> A2AAuthorizationResult option"
  w_poll_a2a_mandate :: "nat \<Rightarrow> PollA2AMandateInput \<Rightarrow> A2AMandatePollResult option"
  w_send_a2a_payment_receipt :: "nat \<Rightarrow> SendA2APaymentReceiptInput \<Rightarrow> A2APaymentReceiptResult option"
  w_reconcile_case :: "nat \<Rightarrow> ReconciliationInput \<Rightarrow> ReconciliationResult option"
  w_record_audit_event :: "nat \<Rightarrow> AuditInput \<Rightarrow> AuditResult option"
  w_cancel_recovery_action :: "nat \<Rightarrow> CancelActionInput \<Rightarrow> CancelActionResult option"

section \<open>Effects\<close>

datatype workflow_error =
    Invalid_Workflow_Id
  | Invalid_Money_Amount
  | Instant_Invalid
  | Input_Not_Initialized
  | Activity_Error
  | Out_Of_Fuel

type_synonym 'a workflow =
  "world \<Rightarrow> RecoveryCaseWorkflow \<Rightarrow> (workflow_error + 'a) \<times> RecoveryCaseWorkflow"

definition returnW :: "'a \<Rightarrow> 'a workflow" where
  "returnW a w s = (Inr a, s)"

definition raiseW :: "workflow_error \<Rightarrow> 'a workflow" where
  "raiseW e w s = (Inl e, s)"

definition bindW :: "'a workflow \<Rightarrow> ('a \<Rightarrow> 'b workflow) \<Rightarrow> 'b workflow" where
  "bindW m k w s = (case m w s of (Inl e, s') \<Rightarrow> (Inl e, s') | (Inr a, s') \<Rightarrow> k a w s')"

definition seqW :: "'a workflow \<Rightarrow> 'b workflow \<Rightarrow> 'b workflow" where
  "seqW m k = bindW m (\<lambda>_. k)"

definition modifyW :: "(RecoveryCaseWorkflow \<Rightarrow> RecoveryCaseWorkflow) \<Rightarrow> unit workflow" where
  "modifyW f w s = (Inr (), f s)"

definition withW :: "(RecoveryCaseWorkflow \<Rightarrow> 'a workflow) \<Rightarrow> 'a workflow" where
  "withW k w s = k s w s"

text \<open>A signal handler: \<open>_enqueue\<close>.\<close>

definition enqueue :: "QueuedSignal \<Rightarrow> RecoveryCaseWorkflow \<Rightarrow> RecoveryCaseWorkflow" where
  "enqueue sig s =
     (if signal_id sig \<in> wf_seen_signal_ids s
      then s\<lparr>wf_duplicate_signal_count := wf_duplicate_signal_count s + 1\<rparr>
      else s\<lparr>wf_seen_signal_ids := insert (signal_id sig) (wf_seen_signal_ids s),
             wf_signals := wf_signals s @ [sig]\<rparr>)"

text \<open>What a suspension does: signals are delivered in order and time passes.\<close>

definition suspend :: "world \<Rightarrow> RecoveryCaseWorkflow \<Rightarrow> RecoveryCaseWorkflow" where
  "suspend w s =
     (fold enqueue (w_arrivals w (wf_awaits s)) s)
       \<lparr>wf_now := wf_now s + int (w_elapsed w (wf_awaits s)), wf_awaits := Suc (wf_awaits s)\<rparr>"

definition activity ::
    "(world \<Rightarrow> nat \<Rightarrow> 'i \<Rightarrow> 'o option) \<Rightarrow> ('i \<Rightarrow> 'o option \<Rightarrow> activity_call) \<Rightarrow> 'i \<Rightarrow> 'o workflow" where
  "activity perform call argument w s =
     (let answer = perform w (wf_awaits s) argument;
          s' = suspend w (s\<lparr>wf_calls := wf_calls s @ [(wf_now s, call argument answer)]\<rparr>) in
      case answer of None \<Rightarrow> (Inl Activity_Error, s') | Some r \<Rightarrow> (Inr r, s'))"

text \<open>
  \<open>workflow.wait_condition(lambda: bool(self._signals), timeout=...)\<close> with its TimeoutError
  suppressed: it returns at once if a signal is queued, else when one arrives or when the timer
  has fired.
\<close>

definition wait_condition :: "int \<Rightarrow> unit workflow" where
  "wait_condition timeout w s =
     (if wf_signals s \<noteq> [] then (Inr (), s)
      else let s' = suspend w s in
        (Inr (), if wf_signals s' \<noteq> [] then s'
                 else s'\<lparr>wf_now := max (wf_now s') (wf_now s + timeout)\<rparr>))"

section \<open>Helpers of the class\<close>

definition recovery_workflow_id :: "ident \<Rightarrow> ident" where
  "recovery_workflow_id case_id = ''recovery-case:'' @ case_id"

definition A2A_POLL_INTERVAL :: int where
  "A2A_POLL_INTERVAL = seconds 5"

definition parse_instant :: "iso_text \<Rightarrow> instant workflow" where
  "parse_instant t =
     (case t of
        None \<Rightarrow> raiseW Instant_Invalid
      | Some d \<Rightarrow> if is_aware d then returnW (utc_instant d) else raiseW Instant_Invalid)"

definition with_input :: "(RecoveryWorkflowInput \<Rightarrow> 'a workflow) \<Rightarrow> 'a workflow" where
  "with_input k = withW (\<lambda>s.
     case wf_input s of None \<Rightarrow> raiseW Input_Not_Initialized | Some command \<Rightarrow> k command)"

definition finish :: "string \<Rightarrow> string \<Rightarrow> unit workflow" where
  "finish outcome reason = modifyW (\<lambda>s.
     let s' = s\<lparr>wf_outcome := Some outcome, wf_phase := ''TERMINAL_'' @ outcome, wf_terminal := True\<rparr> in
     if outcome = ''RECOVERED'' then s'\<lparr>wf_payment_state := ''CAPTURED''\<rparr> else s')"

definition deadline_outcome :: "RecoveryCaseWorkflow \<Rightarrow> string" where
  "deadline_outcome s = (if wf_outreach_suppressed s then ''STOPPED'' else ''EXPIRED'')"

definition apply_reconciliation :: "ReconciliationResult \<Rightarrow> unit workflow" where
  "apply_reconciliation r = modifyW (\<lambda>s.
     if \<not> rr_authoritative r then s
     else s\<lparr>wf_payment_state := rr_payment_state r, wf_subscription_state := rr_subscription_state r,
            wf_arrears_collected_paise := rr_arrears_collected_paise r,
            wf_subscription_reactivated := rr_subscription_reactivated r\<rparr>)"

definition expected_payment_surface_reference :: "RecoveryWorkflowInput \<Rightarrow> string option" where
  "expected_payment_surface_reference command =
     (if truthy (wi_payment_surface_reference command) then wi_payment_surface_reference command
      else if wi_payment_surface_type command = Some ''SUBSCRIPTION_INVOICE_LINK''
      then py_or (wi_provider_invoice_id command) (wi_failed_invoice_id command)
      else if wi_payment_surface_type command = Some ''SUBSCRIPTION_CARD_UPDATE''
      then Some (wi_subscription_id command)
      else None)"

definition json_text :: "string option \<Rightarrow> json" where
  "json_text t = (case t of None \<Rightarrow> JNull | Some x \<Rightarrow> JStr x)"

definition audit :: "string \<Rightarrow> ident \<Rightarrow> jobject \<Rightarrow> unit workflow" where
  "audit event_type correlation_id details = withW (\<lambda>s.
     seqW (activity w_record_audit_event RECORD_AUDIT_EVENT
             \<lparr>au_case_id = wf_case_id s, au_event_type = event_type,
              au_correlation_id = correlation_id, au_details = details\<rparr>)
       (returnW ()))"

definition cancel_active_action :: "string \<Rightarrow> unit workflow" where
  "cancel_active_action reason = withW (\<lambda>s.
     if wf_action_status s \<in> {Some ''CANCELLED'', Some ''FAILED'', Some ''REJECTED''} then returnW ()
     else if wf_action_status s = None \<and> reason \<noteq> ''AUTHORITATIVE_PAYMENT_SUCCESS'' then returnW ()
     else bindW (activity w_cancel_recovery_action CANCEL_RECOVERY_ACTION
             \<lparr>cai_case_id = wf_case_id s, cai_provider_reference = wf_provider_reference s,
              cai_reason = reason, cai_idempotency_key = wf_case_id s @ '':cancel:action-1''\<rparr>) (\<lambda>r.
       if car_cancelled r then modifyW (\<lambda>s. s\<lparr>wf_action_status := Some ''CANCELLED''\<rparr>)
       else returnW ()))"

section \<open>Actions and customer-agent tasks\<close>

definition start_a2a_authorization :: "unit workflow" where
  "start_a2a_authorization = with_input (\<lambda>command.
     case (wi_payment_surface_type command, expected_payment_surface_reference command,
           wi_recovery_action_id command, wi_failed_invoice_id command) of
       (Some surface_type, Some surface_reference, Some action_id, Some invoice_id) \<Rightarrow>
         bindW (activity w_start_a2a_authorization START_A2A_AUTHORIZATION
             \<lparr>sa_case_id = wi_case_id command, sa_merchant_id = wi_merchant_id command,
              sa_customer_id = wi_customer_id command,
              sa_exact_amount_paise = wi_amount_at_risk_paise command,
              sa_currency = wi_currency command, sa_payment_surface_type = surface_type,
              sa_payment_surface_reference = surface_reference,
              sa_recovery_deadline = wi_recovery_deadline command,
              sa_idempotency_key =
                wi_case_id command @ '':SEND_TO_CUSTOMER_AGENT:'' @ action_id @ '':v2'',
              sa_recovery_action_id = Some action_id, sa_failed_invoice_id = Some invoice_id,
              sa_provider_invoice_id = wi_provider_invoice_id command\<rparr>) (\<lambda>r.
         seqW (modifyW (\<lambda>s. s\<lparr>
             wf_action := Some ''SEND_TO_CUSTOMER_AGENT'', wf_action_status := Some (aar_state r),
             wf_provider_reference := Some (aar_remote_task_id r),
             wf_a2a_task_id := Some (aar_remote_task_id r), wf_a2a_state := Some (aar_state r),
             wf_next_a2a_poll_at := Some (if aar_state r = ''WORKING'' then wf_now s
                                          else wf_now s + A2A_POLL_INTERVAL),
             wf_phase := ''AWAITING_CUSTOMER_AUTHORIZATION''\<rparr>))
           (audit ''A2A_AUTHORIZATION_STARTED'' ''a2a-start''
              ([(''remote_task_id'', JStr (aar_remote_task_id r)), (''state'', JStr (aar_state r))]
               @ (case aar_approval_path r of None \<Rightarrow> [] | Some p \<Rightarrow> [(''approval_path'', JStr p)]))))
     | _ \<Rightarrow>
         (let reason = (if wi_payment_surface_type command = None
                           \<or> expected_payment_surface_reference command = None
                        then ''EXACT_PAYMENT_SURFACE_REQUIRED'' else ''DURABLE_ACTION_SCOPE_REQUIRED'') in
          seqW (audit ''A2A_AUTHORIZATION_REJECTED'' ''a2a-start'' [(''reason_code'', JStr reason)])
            (seqW (modifyW (\<lambda>s. s\<lparr>wf_action_status := Some ''REJECTED''\<rparr>))
               (finish ''ESCALATED'' reason))))"

definition submit_action :: "PolicyResult \<Rightarrow> jobject option \<Rightarrow> unit workflow" where
  "submit_action policy mandate = with_input (\<lambda>command.
     seqW (modifyW (\<lambda>s. s\<lparr>wf_phase := ''EXECUTING_ACTION'', wf_action_status := Some ''EXECUTING''\<rparr>))
       (bindW (activity w_execute_recovery_action EXECUTE_RECOVERY_ACTION
           \<lparr>ea_case_id = wi_case_id command, ea_merchant_id = wi_merchant_id command,
            ea_customer_id = wi_customer_id command, ea_subscription_id = wi_subscription_id command,
            ea_failed_invoice_id = wi_failed_invoice_id command,
            ea_amount_paise = wi_amount_at_risk_paise command, ea_currency = wi_currency command,
            ea_action = pr_action policy, ea_payment_surface_type = pr_payment_surface_type policy,
            ea_recovery_deadline = wi_recovery_deadline command,
            ea_idempotency_key = wi_case_id command @ '':'' @ pr_action policy @ '':1'',
            ea_mandate = mandate,
            ea_provider_subscription_id = wi_provider_subscription_id command,
            ea_provider_invoice_id = wi_provider_invoice_id command,
            ea_recovery_action_id = wi_recovery_action_id command\<rparr>) (\<lambda>r.
        seqW (modifyW (\<lambda>s. s\<lparr>wf_action := Some (pr_action policy),
                wf_action_status := Some (ax_status r),
                wf_provider_reference := ax_provider_reference r\<rparr>))
       (seqW (audit ''ACTION_SUBMITTED'' ''action-1''
                [(''action'', JStr (pr_action policy)), (''status'', JStr (ax_status r)),
                 (''provider'', JStr (ax_provider r)), (''reason_code'', json_text (ax_reason_code r))])
         (if ax_status r \<in> {''FAILED'', ''REJECTED''} then finish ''ESCALATED'' ''PROVIDER_REJECTED''
          else if ax_status r = ''UNCERTAIN''
          then modifyW (\<lambda>s. s\<lparr>wf_phase := ''RECONCILIATION_REQUIRED''\<rparr>)
          else returnW ())))))"

definition execute_action :: "PolicyResult \<Rightarrow> jobject option \<Rightarrow> unit workflow" where
  "execute_action policy mandate =
     (if pr_action policy = ''SEND_TO_CUSTOMER_AGENT'' \<and> mandate = None
      then start_a2a_authorization else submit_action policy mandate)"

text \<open>The verification of a polled task: an accepted mandate opens the payment surface.\<close>

definition conclude_a2a_poll :: "string \<Rightarrow> string \<Rightarrow> A2AMandatePollResult \<Rightarrow> unit workflow" where
  "conclude_a2a_poll task_id surface_type r =
     (let accepted = (mp_verification_status r = ''VERIFIED'' \<and> mp_mandate_id r \<noteq> None
                      \<and> mp_verified_artifact r \<noteq> None) in
      seqW (audit ''MANDATE_VERIFICATION_COMPLETED''
              (case py_or (mp_mandate_id r) (Some (''a2a:'' @ task_id)) of None \<Rightarrow> [] | Some x \<Rightarrow> x)
              [(''accepted'', JBool accepted), (''reason_code'', json_text (mp_reason_code r)),
               (''task_state'', JStr (mp_task_state r))])
        (if \<not> accepted
         then seqW (modifyW (\<lambda>s. s\<lparr>wf_action_status := Some ''REJECTED''\<rparr>))
                (finish ''ESCALATED''
                   (case py_or (mp_reason_code r) (Some ''MANDATE_REJECTED'') of None \<Rightarrow> [] | Some x \<Rightarrow> x))
         else seqW (modifyW (\<lambda>s. s\<lparr>wf_mandate_received := True, wf_a2a_mandate_id := mp_mandate_id r\<rparr>))
                (execute_action
                   \<lparr>pr_disposition = ''ALLOW'', pr_decision_code = ''VERIFIED_MANDATE'',
                    pr_action = ''OPEN_CUSTOMER_PAYMENT_SURFACE'',
                    pr_payment_surface_type = Some surface_type, pr_reason_codes = [],
                    pr_delay_until = None\<rparr> (mp_verified_artifact r))))"

definition settle_a2a_poll :: "string \<Rightarrow> string \<Rightarrow> A2AMandatePollResult \<Rightarrow> unit workflow" where
  "settle_a2a_poll task_id surface_type r =
     seqW (modifyW (\<lambda>s. s\<lparr>wf_a2a_state := Some (mp_task_state r)\<rparr>))
       (if mp_verification_status r = ''PENDING''
        then modifyW (\<lambda>s. s\<lparr>wf_next_a2a_poll_at := Some (wf_now s + A2A_POLL_INTERVAL)\<rparr>)
        else seqW (modifyW (\<lambda>s. s\<lparr>wf_next_a2a_poll_at := None\<rparr>))
               (conclude_a2a_poll task_id surface_type r))"

definition poll_a2a_if_due :: "unit workflow" where
  "poll_a2a_if_due = withW (\<lambda>s.
     case (wf_a2a_task_id s, wf_next_a2a_poll_at s) of
       (Some task_id, Some due) \<Rightarrow>
         if wf_now s < due then returnW ()
         else with_input (\<lambda>command.
           case (wi_payment_surface_type command, expected_payment_surface_reference command,
                 wi_recovery_action_id command, wi_failed_invoice_id command) of
             (Some surface_type, Some surface_reference, Some action_id, Some invoice_id) \<Rightarrow>
               bindW (activity w_poll_a2a_mandate POLL_A2A_MANDATE
                 \<lparr>pm_remote_task_id = task_id, pm_case_id = wi_case_id command,
                  pm_merchant_id = wi_merchant_id command, pm_customer_id = wi_customer_id command,
                  pm_exact_amount_paise = wi_amount_at_risk_paise command,
                  pm_currency = wi_currency command, pm_payment_surface_type = surface_type,
                  pm_payment_surface_reference = surface_reference,
                  pm_recovery_deadline = wi_recovery_deadline command,
                  pm_recovery_action_id = Some action_id, pm_failed_invoice_id = Some invoice_id,
                  pm_provider_invoice_id = wi_provider_invoice_id command\<rparr>)
                 (settle_a2a_poll task_id surface_type)
           | _ \<Rightarrow>
               seqW (modifyW (\<lambda>s. s\<lparr>wf_next_a2a_poll_at := None, wf_action_status := Some ''REJECTED''\<rparr>))
                 (finish ''ESCALATED''
                    (if wi_payment_surface_type command = None
                        \<or> expected_payment_surface_reference command = None
                     then ''EXACT_PAYMENT_SURFACE_REQUIRED'' else ''DURABLE_ACTION_SCOPE_REQUIRED'')))
     | _ \<Rightarrow> returnW ())"

definition send_a2a_receipt_if_applicable :: "ReconciliationResult \<Rightarrow> unit workflow" where
  "send_a2a_receipt_if_applicable r = withW (\<lambda>s.
     case (wf_a2a_receipt_sent s, wf_a2a_task_id s, wf_a2a_mandate_id s) of
       (False, Some task_id, Some mandate_id) \<Rightarrow> with_input (\<lambda>command.
         if rr_payment_state r \<noteq> ''CAPTURED'' \<or> \<not> rr_authoritative r \<or> \<not> rr_case_recovered r
            \<or> rr_arrears_collected_paise r \<noteq> wi_amount_at_risk_paise command
         then returnW ()
         else (case rr_provider_reference r of
             None \<Rightarrow> returnW ()
           | Some provider_reference \<Rightarrow>
               bindW (activity w_send_a2a_payment_receipt SEND_A2A_PAYMENT_RECEIPT
                 \<lparr>spr_remote_task_id = task_id, spr_mandate_id = mandate_id,
                  spr_merchant_id = wi_merchant_id command, spr_case_id = wi_case_id command,
                  spr_exact_amount_paise = wi_amount_at_risk_paise command,
                  spr_currency = wi_currency command, spr_provider_reference = provider_reference,
                  spr_observed_at = wf_now s,
                  spr_idempotency_key = task_id @ '':'' @ mandate_id @ '':recovery.receipt.v2'',
                  spr_recovery_action_id = wi_recovery_action_id command,
                  spr_failed_invoice_id = wi_failed_invoice_id command\<rparr>) (\<lambda>receipt.
               let sent = (apr_delivered receipt \<and> apr_task_state receipt = ''COMPLETED'') in
               seqW (modifyW (\<lambda>s. if sent then s\<lparr>wf_a2a_receipt_sent := True,
                                               wf_a2a_state := Some ''COMPLETED''\<rparr> else s))
                 (audit (if sent then ''A2A_PAYMENT_RECEIPT_DELIVERED'' else ''A2A_PAYMENT_RECEIPT_FAILED'')
                    mandate_id
                    [(''remote_task_id'', JStr (apr_remote_task_id receipt)),
                     (''task_state'', JStr (apr_task_state receipt)),
                     (''provider_reference'', JStr provider_reference)]))))
     | _ \<Rightarrow> returnW ())"

section \<open>Signal handlers\<close>

definition handle_approval :: "ApprovalSignal \<Rightarrow> unit workflow" where
  "handle_approval p = withW (\<lambda>s.
     if \<not> wf_approval_required s \<or> wf_approval_received s \<noteq> None
     then audit ''APPROVAL_IGNORED'' (aps_signal_id p) [(''reason'', JStr ''NOT_AWAITED'')]
     else seqW (modifyW (\<lambda>s. s\<lparr>wf_approval_received := Some (aps_approved p)\<rparr>))
            (audit ''APPROVAL_RECORDED'' (aps_signal_id p)
               [(''approved'', JBool (aps_approved p)), (''reviewer_id'', JStr (aps_reviewer_id p)),
                (''reason'', json_text (aps_reason p))]))"

definition close_if_recovered :: "ReconciliationResult \<Rightarrow> string \<Rightarrow> unit workflow" where
  "close_if_recovered r reason =
     (if rr_case_recovered r \<and> rr_authoritative r
      then seqW (send_a2a_receipt_if_applicable r)
             (seqW (cancel_active_action ''AUTHORITATIVE_PAYMENT_SUCCESS'') (finish ''RECOVERED'' reason))
      else returnW ())"

definition handle_payment :: "PaymentEventSignal \<Rightarrow> unit workflow" where
  "handle_payment p = with_input (\<lambda>command.
     bindW (activity w_reconcile_case RECONCILE_CASE
         \<lparr>ri_case_id = wi_case_id command, ri_merchant_id = wi_merchant_id command,
          ri_failed_invoice_id = wi_failed_invoice_id command,
          ri_failed_payment_id = wi_failed_payment_id command,
          ri_trigger_event_id = pes_provider_event_id p,
          ri_payment_state_hint = Some (pes_payment_state p),
          ri_amount_paise_hint = Some (pes_amount_paise p),
          ri_authoritative_hint = pes_authoritative p\<rparr>) (\<lambda>r.
     seqW (apply_reconciliation r)
    (seqW (audit ''PAYMENT_RECONCILED'' (pes_signal_id p)
             [(''payment_state'', JStr (rr_payment_state r)), (''authoritative'', JBool (rr_authoritative r)),
              (''case_recovered'', JBool (rr_case_recovered r))])
       (close_if_recovered r ''PAYMENT_CAPTURED''))))"

definition suppress_outreach :: "ident \<Rightarrow> string \<Rightarrow> unit workflow" where
  "suppress_outreach sid disposition =
     seqW (modifyW (\<lambda>s. s\<lparr>wf_outreach_suppressed := True\<rparr>))
    (seqW (cancel_active_action disposition)
    (seqW (audit ''SUPPRESSION_PERSIST_REQUESTED'' sid [(''contact_disposition'', JStr disposition)])
       (modifyW (\<lambda>s. s\<lparr>wf_outcome := Some ''STOPPED'', wf_phase := ''OUTREACH_SUPPRESSED''\<rparr>))))"

definition intent_disposition :: "string \<Rightarrow> string" where
  "intent_disposition intent =
     (if intent = ''OPT_OUT'' then ''OPTED_OUT''
      else if intent \<in> {''WRONG_PERSON'', ''DISPUTE'', ''ALREADY_PAID'', ''PROMISE_TO_PAY''} then intent
      else ''ENGAGED'')"

definition handle_customer_intent :: "CustomerIntentSignal \<Rightarrow> unit workflow" where
  "handle_customer_intent p =
     (let intent = py_upper (cis_intent p); disposition = intent_disposition intent in
      seqW (modifyW (\<lambda>s. s\<lparr>wf_contact_disposition := disposition\<rparr>))
     (seqW (audit ''CUSTOMER_INTENT_RECORDED'' (cis_signal_id p)
              [(''intent'', JStr intent),
               (''confidence'', case cis_confidence p of None \<Rightarrow> JNull | Some q \<Rightarrow> JFloat q)])
        (if intent \<in> {''OPT_OUT'', ''WRONG_PERSON''} then suppress_outreach (cis_signal_id p) disposition
         else if intent = ''DISPUTE''
         then seqW (cancel_active_action ''CUSTOMER_DISPUTE'') (finish ''DISPUTED'' ''CUSTOMER_DISPUTE'')
         else if intent = ''ALREADY_PAID''
         then with_input (\<lambda>command.
           bindW (activity w_reconcile_case RECONCILE_CASE
               \<lparr>ri_case_id = wi_case_id command, ri_merchant_id = wi_merchant_id command,
                ri_failed_invoice_id = wi_failed_invoice_id command,
                ri_failed_payment_id = wi_failed_payment_id command,
                ri_trigger_event_id = cis_signal_id p, ri_payment_state_hint = None,
                ri_amount_paise_hint = None, ri_authoritative_hint = False\<rparr>) (\<lambda>r.
           seqW (apply_reconciliation r) (close_if_recovered r ''ALREADY_PAID_RECONCILED'')))
         else returnW ())))"

definition handle_opt_out :: "OptOutSignal \<Rightarrow> unit workflow" where
  "handle_opt_out p =
     seqW (modifyW (\<lambda>s. s\<lparr>wf_contact_disposition := ''OPTED_OUT''\<rparr>))
    (seqW (audit ''OUTREACH_SUPPRESSED'' (oos_signal_id p)
             [(''source'', JStr (oos_source p)), (''reason'', json_text (oos_reason p))])
       (suppress_outreach (oos_signal_id p) ''OPTED_OUT''))"

definition handle_cancellation :: "CancellationSignal \<Rightarrow> unit workflow" where
  "handle_cancellation p =
     seqW (audit ''RECOVERY_CANCELLED'' (cns_signal_id p)
             [(''reason'', JStr (cns_reason p)), (''requested_by'', JStr (cns_requested_by p))])
    (seqW (cancel_active_action (cns_reason p)) (finish ''STOPPED'' ''CANCELLED''))"

definition handle_operator_escalation :: "OperatorEscalationSignal \<Rightarrow> unit workflow" where
  "handle_operator_escalation p =
     seqW (audit ''RECOVERY_ESCALATED'' (oes_signal_id p)
             [(''reason'', JStr (oes_reason p)), (''requested_by'', JStr (oes_requested_by p))])
    (seqW (cancel_active_action ''OPERATOR_ESCALATION'') (finish ''ESCALATED'' ''OPERATOR_ESCALATION''))"

definition handle_a2a_update :: "A2AUpdateSignal \<Rightarrow> unit workflow" where
  "handle_a2a_update p = withW (\<lambda>s.
     if wf_a2a_task_id s \<noteq> Some (aus_remote_task_id p)
     then audit ''A2A_UPDATE_IGNORED'' (aus_signal_id p) [(''reason'', JStr ''TASK_ID_MISMATCH'')]
     else seqW (modifyW (\<lambda>s. s\<lparr>wf_a2a_state := Some (aus_state p)\<rparr>))
         (seqW (audit ''A2A_TASK_UPDATED'' (aus_signal_id p)
                  [(''remote_task_id'', JStr (aus_remote_task_id p)), (''state'', JStr (aus_state p))])
            (modifyW (\<lambda>s. s\<lparr>wf_next_a2a_poll_at := Some (wf_now s)\<rparr>))))"

definition handle_mandate :: "MandateSignal \<Rightarrow> unit workflow" where
  "handle_mandate p =
     seqW (audit ''MANDATE_SIGNAL_IGNORED'' (mds_signal_id p)
             [(''mandate_id'', JStr (mds_mandate_id p)),
              (''reason'', JStr ''ACTIVITY_VERIFICATION_REQUIRED'')])
       (modifyW (\<lambda>s. if wf_a2a_task_id s \<noteq> None then s\<lparr>wf_next_a2a_poll_at := Some (wf_now s)\<rparr> else s))"

fun handle_signal :: "QueuedSignal \<Rightarrow> unit workflow" where
  "handle_signal (APPROVAL p) = handle_approval p"
| "handle_signal (PAYMENT_EVENT p) = handle_payment p"
| "handle_signal (CUSTOMER_INTENT p) = handle_customer_intent p"
| "handle_signal (OPT_OUT p) = handle_opt_out p"
| "handle_signal (CANCELLATION p) = handle_cancellation p"
| "handle_signal (OPERATOR_ESCALATION p) = handle_operator_escalation p"
| "handle_signal (A2A_UPDATE p) = handle_a2a_update p"
| "handle_signal (MANDATE p) = handle_mandate p"

section \<open>Loops\<close>

definition pop_signal :: "unit workflow" where
  "pop_signal = modifyW (\<lambda>s. s\<lparr>wf_signals := tl (wf_signals s),
                              wf_processed_signal_count := wf_processed_signal_count s + 1\<rparr>)"

primrec drain_signals :: "nat \<Rightarrow> unit workflow" where
  "drain_signals 0 = withW (\<lambda>s.
     if wf_signals s = [] \<or> wf_terminal s then returnW () else raiseW Out_Of_Fuel)"
| "drain_signals (Suc n) = withW (\<lambda>s.
     if wf_signals s = [] \<or> wf_terminal s then returnW ()
     else seqW pop_signal (seqW (handle_signal (hd (wf_signals s))) (drain_signals n)))"

text \<open>\<open>if self._terminal: break\<close>, or \<open>return\<close>, before the rest of a block.\<close>

definition until_terminal :: "unit workflow \<Rightarrow> unit workflow" where
  "until_terminal rest = withW (\<lambda>s. if wf_terminal s then returnW () else rest)"

definition deadline_passed :: "RecoveryCaseWorkflow \<Rightarrow> bool" where
  "deadline_passed s = (case wf_deadline s of None \<Rightarrow> False | Some d \<Rightarrow> d \<le> wf_now s)"

definition expire :: "unit workflow" where
  "expire = seqW (cancel_active_action ''RECOVERY_DEADLINE_EXPIRED'')
              (withW (\<lambda>s. finish (deadline_outcome s) ''DEADLINE_EXPIRED''))"

definition wait_for_signal_or_deadline :: "unit workflow" where
  "wait_for_signal_or_deadline = withW (\<lambda>s.
     case wf_deadline s of
       None \<Rightarrow> returnW ()
     | Some d \<Rightarrow>
         let wake_at = (case wf_next_a2a_poll_at s of None \<Rightarrow> d | Some p \<Rightarrow> min d p);
             remaining = wake_at - wf_now s in
         if remaining \<le> 0 then returnW () else wait_condition remaining)"

primrec wait_for_approval_or_terminal :: "nat \<Rightarrow> nat \<Rightarrow> unit workflow" where
  "wait_for_approval_or_terminal fuel 0 = withW (\<lambda>s.
     if wf_approval_received s \<noteq> None \<or> wf_terminal s then returnW () else raiseW Out_Of_Fuel)"
| "wait_for_approval_or_terminal fuel (Suc n) = withW (\<lambda>s.
     if wf_approval_received s \<noteq> None \<or> wf_terminal s then returnW ()
     else seqW wait_for_signal_or_deadline
         (seqW (drain_signals fuel)
         (seqW (withW (\<lambda>s. if deadline_passed s then expire else returnW ()))
            (wait_for_approval_or_terminal fuel n))))"

primrec wait_until_loop :: "nat \<Rightarrow> instant \<Rightarrow> nat \<Rightarrow> unit workflow" where
  "wait_until_loop fuel target 0 = withW (\<lambda>s.
     if wf_terminal s \<or> target \<le> wf_now s then returnW () else raiseW Out_Of_Fuel)"
| "wait_until_loop fuel target (Suc n) = withW (\<lambda>s.
     if wf_terminal s \<or> target \<le> wf_now s then returnW ()
     else let deadline = (case wf_deadline s of None \<Rightarrow> target | Some d \<Rightarrow> d);
              timeout = min target deadline - wf_now s in
       if timeout \<le> 0 then returnW ()
       else seqW (wait_condition timeout)
           (seqW (drain_signals fuel) (wait_until_loop fuel target n)))"

definition wait_until :: "nat \<Rightarrow> instant \<Rightarrow> unit workflow" where
  "wait_until fuel target =
     seqW (wait_until_loop fuel target fuel)
       (withW (\<lambda>s. if deadline_passed s \<and> \<not> wf_terminal s then expire else returnW ()))"

primrec recovery_loop :: "nat \<Rightarrow> nat \<Rightarrow> unit workflow" where
  "recovery_loop fuel 0 = withW (\<lambda>s. if wf_terminal s then returnW () else raiseW Out_Of_Fuel)"
| "recovery_loop fuel (Suc n) =
     until_terminal (seqW (drain_signals fuel)
       (until_terminal (withW (\<lambda>s.
          if deadline_passed s then expire
          else seqW poll_a2a_if_due
            (until_terminal (seqW wait_for_signal_or_deadline
               (seqW (drain_signals fuel) (recovery_loop fuel n))))))))"

section \<open>The run\<close>

definition workflow_result :: "RecoveryCaseWorkflow \<Rightarrow> RecoveryWorkflowResult" where
  "workflow_result s =
     \<lparr>wres_case_id = wf_case_id s,
      wres_outcome = (case py_or (wf_outcome s) (Some ''STOPPED'') of None \<Rightarrow> [] | Some x \<Rightarrow> x),
      wres_payment_state = wf_payment_state s, wres_subscription_state = wf_subscription_state s,
      wres_case_recovered = (wf_outcome s = Some ''RECOVERED''),
      wres_arrears_collected_paise = wf_arrears_collected_paise s,
      wres_subscription_reactivated = wf_subscription_reactivated s,
      wres_contact_disposition = wf_contact_disposition s,
      wres_processed_signal_count = int (wf_processed_signal_count s),
      wres_duplicate_signal_count = int (wf_duplicate_signal_count s)\<rparr>"

definition workflow_status :: "RecoveryCaseWorkflow \<Rightarrow> RecoveryWorkflowStatus" where
  "workflow_status s =
     \<lparr>st_case_id = wf_case_id s, st_phase = wf_phase s, st_terminal = wf_terminal s,
      st_outcome = wf_outcome s, st_diagnosis = wf_diagnosis s,
      st_policy_disposition = wf_policy_disposition s, st_action = wf_action s,
      st_action_status = wf_action_status s, st_provider_reference = wf_provider_reference s,
      st_payment_state = wf_payment_state s, st_subscription_state = wf_subscription_state s,
      st_contact_disposition = wf_contact_disposition s,
      st_approval_required = wf_approval_required s, st_approval_received = wf_approval_received s,
      st_outreach_suppressed = wf_outreach_suppressed s, st_a2a_state = wf_a2a_state s,
      st_mandate_received = wf_mandate_received s,
      st_received_signal_count = int (card (wf_seen_signal_ids s)),
      st_duplicate_signal_count = int (wf_duplicate_signal_count s),
      st_recovery_deadline = wf_deadline s\<rparr>"

text \<open>From the normalised failure to the recorded policy decision.\<close>

definition decide_policy :: "RecoveryWorkflowInput \<Rightarrow> PolicyResult workflow" where
  "decide_policy command =
     bindW (activity w_normalize_failure NORMALIZE_FAILURE
         \<lparr>nfi_case_id = wi_case_id command, nfi_merchant_id = wi_merchant_id command,
          nfi_subscription_id = wi_subscription_id command,
          nfi_failed_invoice_id = wi_failed_invoice_id command,
          nfi_failed_payment_id = wi_failed_payment_id command,
          nfi_event = wi_failure_event command\<rparr>) (\<lambda>normalized.
     seqW (modifyW (\<lambda>s. s\<lparr>wf_payment_state := nf_payment_state normalized,
             wf_subscription_state := nf_subscription_state normalized, wf_phase := ''DIAGNOSING''\<rparr>))
    (bindW (activity w_diagnose_failure DIAGNOSE_FAILURE
         \<lparr>di_case_id = wi_case_id command, di_failure = normalized\<rparr>) (\<lambda>diagnosis.
     seqW (modifyW (\<lambda>s. s\<lparr>wf_diagnosis := Some (dgr_diagnosis diagnosis), wf_phase := ''SCORING''\<rparr>))
    (seqW (activity w_score_recovery SCORE_RECOVERY
         \<lparr>sci_case_id = wi_case_id command, sci_amount_at_risk_paise = wi_amount_at_risk_paise command,
          sci_diagnosis = dgr_diagnosis diagnosis, sci_candidate_action = wi_candidate_action command\<rparr>)
    (seqW (modifyW (\<lambda>s. s\<lparr>wf_phase := ''POLICY''\<rparr>))
    (bindW (activity w_evaluate_policy EVALUATE_POLICY
         \<lparr>pin_case_id = wi_case_id command, pin_merchant_id = wi_merchant_id command,
          pin_amount_at_risk_paise = wi_amount_at_risk_paise command,
          pin_diagnosis = dgr_diagnosis diagnosis,
          pin_candidate_action = wi_candidate_action command,
          pin_payment_surface_type = wi_payment_surface_type command,
          pin_recovery_deadline = wi_recovery_deadline command\<rparr>) (\<lambda>policy.
     seqW (modifyW (\<lambda>s. s\<lparr>wf_policy_disposition := Some (pr_disposition policy),
             wf_action := Some (pr_action policy)\<rparr>))
    (seqW (audit ''POLICY_DECIDED'' ''initial-policy''
             [(''disposition'', JStr (pr_disposition policy)),
              (''decision_code'', JStr (pr_decision_code policy)), (''action'', JStr (pr_action policy)),
              (''reason_codes'', JList (map JStr (pr_reason_codes policy)))])
       (returnW policy)))))))))"

text \<open>The delay or the approval the policy asks for.\<close>

definition await_permission :: "nat \<Rightarrow> PolicyResult \<Rightarrow> unit workflow" where
  "await_permission fuel policy =
     (if pr_disposition policy = ''BLOCK'' then finish ''STOPPED'' ''BLOCKED_BY_POLICY''
      else if pr_disposition policy = ''DELAY''
      then (case pr_delay_until policy of
              None \<Rightarrow> returnW ()
            | Some t \<Rightarrow> seqW (modifyW (\<lambda>s. s\<lparr>wf_phase := ''POLICY_DELAY''\<rparr>))
                         (bindW (parse_instant t) (wait_until fuel)))
      else if pr_disposition policy = ''REQUIRE_MANUAL_APPROVAL''
      then seqW (modifyW (\<lambda>s. s\<lparr>wf_approval_required := True, wf_phase := ''AWAITING_APPROVAL''\<rparr>))
          (seqW (wait_for_approval_or_terminal fuel fuel)
             (until_terminal (withW (\<lambda>s.
                if wf_approval_received s = Some True then returnW ()
                else finish ''STOPPED'' ''APPROVAL_REJECTED''))))
      else returnW ())"

definition act_on_policy :: "PolicyResult \<Rightarrow> unit workflow" where
  "act_on_policy policy =
     (if pr_action policy \<notin> {''WAIT_FOR_GATEWAY_RETRY'', ''STOP''} then execute_action policy None
      else if pr_action policy = ''STOP'' then finish ''STOPPED'' ''POLICY_STOP''
      else modifyW (\<lambda>s. s\<lparr>wf_action_status := Some ''SCHEDULED''\<rparr>))"

definition await_recovery :: "nat \<Rightarrow> unit workflow" where
  "await_recovery fuel =
     seqW (modifyW (\<lambda>s. if wf_action_status s \<noteq> Some ''UNCERTAIN''
                       then s\<lparr>wf_phase := (if wf_a2a_task_id s \<noteq> None
                                          then ''AWAITING_CUSTOMER_AUTHORIZATION''
                                          else ''AWAITING_RECOVERY'')\<rparr>
                       else s))
       (recovery_loop fuel fuel)"

definition run :: "nat \<Rightarrow> RecoveryWorkflowInput \<Rightarrow> RecoveryWorkflowResult workflow" where
  "run fuel command = (\<lambda>w.
     (if w_workflow_id w \<noteq> recovery_workflow_id (wi_case_id command) then raiseW Invalid_Workflow_Id
      else if wi_amount_at_risk_paise command < 0 then raiseW Invalid_Money_Amount
      else seqW (modifyW (\<lambda>s. s\<lparr>wf_case_id := wi_case_id command\<rparr>))
       (bindW (parse_instant (wi_recovery_deadline command)) (\<lambda>deadline.
        seqW (modifyW (\<lambda>s. s\<lparr>wf_deadline := Some deadline, wf_input := Some command\<rparr>))
       (bindW (decide_policy command) (\<lambda>policy.
        seqW (await_permission fuel policy)
       (seqW (until_terminal (act_on_policy policy))
       (seqW (until_terminal (await_recovery fuel))
          (withW (\<lambda>s. returnW (workflow_result s)))))))))) w)"

definition start_workflow ::
    "nat \<Rightarrow> world \<Rightarrow> RecoveryWorkflowInput \<Rightarrow> (workflow_error + RecoveryWorkflowResult) \<times> RecoveryCaseWorkflow" where
  "start_workflow fuel w command = run fuel command w (new_workflow (w_started w))"

end
