(* ===== verification/Workflow_Machine.thy ===== *)
theory Workflow_Machine
  imports Recovery_Workflow
begin

text \<open>
  The state machine of a recovery case and the calculus that shows operations to follow it.

  \<open>step\<close> is the state machine of a case: one activity call, one wait, one signal taken from the
  queue, or one change of the state, each with the condition under which it is allowed. Every
  operation of the workflow is shown to be a path of this machine (\<open>runs\<close>), whatever the world
  does; invariants are then proved by induction on the path.
\<close>

section \<open>The history of calls\<close>

type_synonym history = "(instant \<times> activity_call) list"

definition approval_recorded :: "activity_call \<Rightarrow> bool" where
  "approval_recorded c =
     (case c of RECORD_AUDIT_EVENT a _ \<Rightarrow> au_event_type a = ''APPROVAL_RECORDED'' | _ \<Rightarrow> False)"

definition approved :: "activity_call \<Rightarrow> bool" where
  "approved c =
     (case c of
        RECORD_AUDIT_EVENT a _ \<Rightarrow>
          au_event_type a = ''APPROVAL_RECORDED'' \<and> (''approved'', JBool True) \<in> set (au_details a)
      | _ \<Rightarrow> False)"

definition denoted_instant :: "iso_text \<Rightarrow> instant option" where
  "denoted_instant t = (case t of None \<Rightarrow> None | Some d \<Rightarrow> if is_aware d then Some (utc_instant d) else None)"

text \<open>The policy answer \<open>p\<close> permits an action at time \<open>t\<close>, given the calls made before.\<close>

definition permits :: "history \<Rightarrow> instant \<Rightarrow> PolicyResult \<Rightarrow> bool" where
  "permits calls t p \<longleftrightarrow>
     pr_disposition p \<noteq> ''BLOCK''
     \<and> (pr_disposition p = ''REQUIRE_MANUAL_APPROVAL'' \<longrightarrow> (\<exists>e \<in> set calls. approved (snd e)))
     \<and> (pr_disposition p = ''DELAY'' \<longrightarrow>
          (case pr_delay_until p of
             None \<Rightarrow> True
           | Some d \<Rightarrow> (case denoted_instant d of None \<Rightarrow> False | Some u \<Rightarrow> u \<le> t)))"

definition policy_permits :: "history \<Rightarrow> instant \<Rightarrow> string \<Rightarrow> bool" where
  "policy_permits calls t action \<longleftrightarrow>
     (\<exists>u i p. (u, EVALUATE_POLICY i (Some p)) \<in> set calls \<and> pr_action p = action \<and> permits calls t p)"

definition task_started :: "history \<Rightarrow> string \<Rightarrow> bool" where
  "task_started calls task_id \<longleftrightarrow>
     (\<exists>u i r. (u, START_A2A_AUTHORIZATION i (Some r)) \<in> set calls \<and> aar_remote_task_id r = task_id)"

definition mandate_verified :: "history \<Rightarrow> int \<Rightarrow> jobject \<Rightarrow> bool" where
  "mandate_verified calls amount artifact \<longleftrightarrow>
     (\<exists>u i r. (u, POLL_A2A_MANDATE i (Some r)) \<in> set calls
        \<and> mp_verification_status r = ''VERIFIED'' \<and> mp_mandate_id r \<noteq> None
        \<and> mp_verified_artifact r = Some artifact \<and> pm_exact_amount_paise i = amount)"

definition recovery_confirmed :: "ident \<Rightarrow> history \<Rightarrow> bool" where
  "recovery_confirmed case_id calls \<longleftrightarrow>
     (\<exists>u i r. (u, RECONCILE_CASE i (Some r)) \<in> set calls
        \<and> ri_case_id i = case_id \<and> rr_authoritative r \<and> rr_case_recovered r)"

text \<open>
  When a call may be issued: a submission without a mandate and a customer-agent task need the
  policy's permission, a poll needs the task, and a submission under a mandate needs the
  verification of that mandate for the same amount. Submissions carry the case's amount.
\<close>

definition justified :: "RecoveryWorkflowInput \<Rightarrow> history \<Rightarrow> instant \<Rightarrow> activity_call \<Rightarrow> bool" where
  "justified command calls t c =
     (case c of
        EXECUTE_RECOVERY_ACTION e _ \<Rightarrow>
          ea_case_id e = wi_case_id command \<and> ea_amount_paise e = wi_amount_at_risk_paise command
          \<and> (case ea_mandate e of
               None \<Rightarrow> policy_permits calls t (ea_action e)
                 \<and> ea_action e \<notin> {''WAIT_FOR_GATEWAY_RETRY'', ''STOP'', ''SEND_TO_CUSTOMER_AGENT''}
             | Some m \<Rightarrow> ea_action e = ''OPEN_CUSTOMER_PAYMENT_SURFACE''
                 \<and> mandate_verified calls (ea_amount_paise e) m)
      | START_A2A_AUTHORIZATION i _ \<Rightarrow>
          sa_case_id i = wi_case_id command \<and> sa_exact_amount_paise i = wi_amount_at_risk_paise command
          \<and> policy_permits calls t ''SEND_TO_CUSTOMER_AGENT''
      | POLL_A2A_MANDATE i _ \<Rightarrow>
          pm_exact_amount_paise i = wi_amount_at_risk_paise command
          \<and> task_started calls (pm_remote_task_id i)
      | _ \<Rightarrow> True)"

definition history_ok :: "RecoveryWorkflowInput \<Rightarrow> history \<Rightarrow> bool" where
  "history_ok command calls \<longleftrightarrow>
     (\<forall>n < length calls. justified command (take n calls) (fst (calls ! n)) (snd (calls ! n)))"

lemma history_ok_Nil [simp]: "history_ok command []"
  by (simp add: history_ok_def)

lemma history_ok_snoc [simp]:
  "history_ok command (calls @ [e]) \<longleftrightarrow>
     history_ok command calls \<and> justified command calls (fst e) (snd e)"
  by (auto simp: history_ok_def nth_append less_Suc_eq)

section \<open>The state machine\<close>

definition outcomes :: "string set" where
  "outcomes = {''RECOVERED'', ''STOPPED'', ''ESCALATED'', ''EXPIRED'', ''DISPUTED''}"

text \<open>The fields that only record what was answered, and decide no guard of the machine.\<close>

definition same_core :: "RecoveryCaseWorkflow \<Rightarrow> RecoveryCaseWorkflow \<Rightarrow> bool" where
  "same_core s s' \<longleftrightarrow>
     wf_case_id s' = wf_case_id s \<and> wf_phase s' = wf_phase s
     \<and> wf_terminal s' = wf_terminal s \<and> wf_outcome s' = wf_outcome s
     \<and> wf_payment_state s' = wf_payment_state s
     \<and> wf_approval_required s' = wf_approval_required s
     \<and> wf_approval_received s' = wf_approval_received s
     \<and> wf_a2a_task_id s' = wf_a2a_task_id s
     \<and> wf_next_a2a_poll_at s' = wf_next_a2a_poll_at s \<and> wf_deadline s' = wf_deadline s
     \<and> wf_signals s' = wf_signals s \<and> wf_seen_signal_ids s' = wf_seen_signal_ids s
     \<and> wf_processed_signal_count s' = wf_processed_signal_count s
     \<and> wf_duplicate_signal_count s' = wf_duplicate_signal_count s
     \<and> wf_input s' = wf_input s \<and> wf_now s' = wf_now s \<and> wf_awaits s' = wf_awaits s
     \<and> wf_calls s' = wf_calls s"

definition log_call :: "activity_call \<Rightarrow> RecoveryCaseWorkflow \<Rightarrow> RecoveryCaseWorkflow" where
  "log_call c s = s\<lparr>wf_calls := wf_calls s @ [(wf_now s, c)]\<rparr>"

inductive step ::
    "RecoveryWorkflowInput \<Rightarrow> world \<Rightarrow> RecoveryCaseWorkflow \<Rightarrow> RecoveryCaseWorkflow \<Rightarrow> bool"
  for command :: RecoveryWorkflowInput and w :: world where
  Ask: "justified command (wf_calls s) (wf_now s) c \<Longrightarrow> \<not> approval_recorded c
     \<Longrightarrow> step command w s (suspend w (log_call c s))"
| Wait: "step command w s (snd (wait_condition timeout w s))"
| Take: "wf_signals s = x # xs \<Longrightarrow> \<not> wf_terminal s
     \<Longrightarrow> step command w s (snd (pop_signal w s))"
| Record: "same_core s s' \<Longrightarrow> step command w s s'"
| Phase: "\<not> wf_terminal s \<Longrightarrow> step command w s (s\<lparr>wf_phase := p\<rparr>)"
| Payment: "\<not> wf_terminal s \<Longrightarrow> step command w s (s\<lparr>wf_payment_state := p\<rparr>)"
| Require: "step command w s (s\<lparr>wf_approval_required := True\<rparr>)"
| Approve: "wf_approval_required s \<Longrightarrow> wf_approval_received s = None \<Longrightarrow> au_event_type a = ''APPROVAL_RECORDED''
     \<Longrightarrow> (''approved'', JBool b) \<in> set (au_details a)
     \<Longrightarrow> step command w s (suspend w (log_call (RECORD_AUDIT_EVENT a r) (s\<lparr>wf_approval_received := Some b\<rparr>)))"
| Suppress: "\<not> wf_terminal s
     \<Longrightarrow> step command w s (s\<lparr>wf_outcome := Some ''STOPPED'', wf_phase := p\<rparr>)"
| Finish: "outcome \<in> outcomes
     \<Longrightarrow> (outcome = ''RECOVERED'' \<Longrightarrow> \<not> wf_terminal s \<and> recovery_confirmed (wi_case_id command) (wf_calls s))
     \<Longrightarrow> step command w s (snd (finish outcome reason w s))"
| Task: "task_started (wf_calls s) task_id \<Longrightarrow> step command w s (s\<lparr>wf_a2a_task_id := Some task_id\<rparr>)"
| Schedule: "(t \<noteq> None \<Longrightarrow> wf_a2a_task_id s \<noteq> None)
     \<Longrightarrow> step command w s (s\<lparr>wf_next_a2a_poll_at := t\<rparr>)"


section \<open>Suspensions\<close>

lemma enqueue_frame:
  "enqueue x s = s\<lparr>wf_signals := wf_signals (enqueue x s), wf_seen_signal_ids := wf_seen_signal_ids (enqueue x s),
     wf_duplicate_signal_count := wf_duplicate_signal_count (enqueue x s)\<rparr>"
  by (simp add: enqueue_def)

lemma fold_enqueue_frame:
  "\<exists>q seen d. fold enqueue xs s
     = s\<lparr>wf_signals := q, wf_seen_signal_ids := seen, wf_duplicate_signal_count := d\<rparr>"
proof (induction xs arbitrary: s)
  case Nil
  have "fold enqueue [] s = s\<lparr>wf_signals := wf_signals s, wf_seen_signal_ids := wf_seen_signal_ids s,
      wf_duplicate_signal_count := wf_duplicate_signal_count s\<rparr>" by simp
  then show ?case by blast
next
  case (Cons x xs)
  obtain q seen d where "fold enqueue xs (enqueue x s) = (enqueue x s)\<lparr>wf_signals := q,
      wf_seen_signal_ids := seen, wf_duplicate_signal_count := d\<rparr>" using Cons.IH by blast
  then have "fold enqueue (x # xs) s = s\<lparr>wf_signals := q, wf_seen_signal_ids := seen,
      wf_duplicate_signal_count := d\<rparr>" by (subst (asm) enqueue_frame) simp
  then show ?case by blast
qed

lemma suspend_frame:
  "\<exists>q seen d. suspend w s
     = s\<lparr>wf_signals := q, wf_seen_signal_ids := seen, wf_duplicate_signal_count := d,
         wf_now := wf_now s + int (w_elapsed w (wf_awaits s)), wf_awaits := Suc (wf_awaits s)\<rparr>"
proof -
  obtain q seen d where "fold enqueue (w_arrivals w (wf_awaits s)) s = s\<lparr>wf_signals := q,
      wf_seen_signal_ids := seen, wf_duplicate_signal_count := d\<rparr>" using fold_enqueue_frame by blast
  then have "suspend w s = s\<lparr>wf_signals := q, wf_seen_signal_ids := seen, wf_duplicate_signal_count := d,
      wf_now := wf_now s + int (w_elapsed w (wf_awaits s)), wf_awaits := Suc (wf_awaits s)\<rparr>"
    by (simp add: suspend_def)
  then show ?thesis by blast
qed

lemma suspend_sel [simp]:
  "wf_case_id (suspend w s) = wf_case_id s"
  "wf_phase (suspend w s) = wf_phase s"
  "wf_terminal (suspend w s) = wf_terminal s"
  "wf_outcome (suspend w s) = wf_outcome s"
  "wf_action_status (suspend w s) = wf_action_status s"
  "wf_payment_state (suspend w s) = wf_payment_state s"
  "wf_approval_required (suspend w s) = wf_approval_required s"
  "wf_approval_received (suspend w s) = wf_approval_received s"
  "wf_a2a_task_id (suspend w s) = wf_a2a_task_id s"
  "wf_next_a2a_poll_at (suspend w s) = wf_next_a2a_poll_at s"
  "wf_deadline (suspend w s) = wf_deadline s"
  "wf_processed_signal_count (suspend w s) = wf_processed_signal_count s"
  "wf_input (suspend w s) = wf_input s"
  "wf_calls (suspend w s) = wf_calls s"
  "wf_now (suspend w s) = wf_now s + int (w_elapsed w (wf_awaits s))"
  using suspend_frame [of w s] by auto

lemma log_call_sel [simp]:
  "wf_calls (log_call c s) = wf_calls s @ [(wf_now s, c)]"
  "wf_case_id (log_call c s) = wf_case_id s"
  "wf_phase (log_call c s) = wf_phase s"
  "wf_terminal (log_call c s) = wf_terminal s"
  "wf_outcome (log_call c s) = wf_outcome s"
  "wf_action_status (log_call c s) = wf_action_status s"
  "wf_payment_state (log_call c s) = wf_payment_state s"
  "wf_approval_required (log_call c s) = wf_approval_required s"
  "wf_approval_received (log_call c s) = wf_approval_received s"
  "wf_a2a_task_id (log_call c s) = wf_a2a_task_id s"
  "wf_next_a2a_poll_at (log_call c s) = wf_next_a2a_poll_at s"
  "wf_deadline (log_call c s) = wf_deadline s"
  "wf_processed_signal_count (log_call c s) = wf_processed_signal_count s"
  "wf_input (log_call c s) = wf_input s"
  "wf_signals (log_call c s) = wf_signals s"
  "wf_seen_signal_ids (log_call c s) = wf_seen_signal_ids s"
  "wf_now (log_call c s) = wf_now s"
  "wf_awaits (log_call c s) = wf_awaits s"
  by (simp_all add: log_call_def)

section \<open>Invariants\<close>

text \<open>Every distinct signal id received is in the queue or counted as processed, once.\<close>

definition signals_inv :: "RecoveryCaseWorkflow \<Rightarrow> bool" where
  "signals_inv s \<longleftrightarrow>
     finite (wf_seen_signal_ids s) \<and> distinct (map signal_id (wf_signals s))
     \<and> signal_id ` set (wf_signals s) \<subseteq> wf_seen_signal_ids s
     \<and> wf_processed_signal_count s + length (wf_signals s) = card (wf_seen_signal_ids s)"

definition outcome_inv :: "RecoveryWorkflowInput \<Rightarrow> RecoveryCaseWorkflow \<Rightarrow> bool" where
  "outcome_inv command s \<longleftrightarrow>
     (wf_terminal s \<longrightarrow> (\<exists>x. wf_outcome s = Some x \<and> wf_phase s = ''TERMINAL_'' @ x))
     \<and> (\<forall>x. wf_outcome s = Some x \<longrightarrow> x \<in> outcomes)
     \<and> (wf_outcome s = Some ''RECOVERED'' \<longrightarrow>
          wf_terminal s \<and> wf_payment_state s = ''CAPTURED''
          \<and> recovery_confirmed (wi_case_id command) (wf_calls s))"

definition history_inv :: "RecoveryWorkflowInput \<Rightarrow> RecoveryCaseWorkflow \<Rightarrow> bool" where
  "history_inv command s \<longleftrightarrow>
     history_ok command (wf_calls s)
     \<and> (wf_approval_received s = Some True \<longrightarrow> (\<exists>e \<in> set (wf_calls s). approved (snd e)))
     \<and> (\<forall>t. wf_a2a_task_id s = Some t \<longrightarrow> task_started (wf_calls s) t)
     \<and> (wf_next_a2a_poll_at s \<noteq> None \<longrightarrow> wf_a2a_task_id s \<noteq> None)"

lemma enqueue_signals_inv: "signals_inv s \<Longrightarrow> signals_inv (enqueue x s)"
  by (auto simp: signals_inv_def enqueue_def)

lemma fold_enqueue_signals_inv: "signals_inv s \<Longrightarrow> signals_inv (fold enqueue xs s)"
  by (induction xs arbitrary: s) (auto intro: enqueue_signals_inv)

lemma suspend_signals_inv: "signals_inv s \<Longrightarrow> signals_inv (suspend w s)"
  using fold_enqueue_signals_inv [of s "w_arrivals w (wf_awaits s)"]
  by (simp add: signals_inv_def suspend_def)


definition case_inv :: "RecoveryWorkflowInput \<Rightarrow> RecoveryCaseWorkflow \<Rightarrow> bool" where
  "case_inv command s \<longleftrightarrow> signals_inv s \<and> outcome_inv command s \<and> history_inv command s"

lemmas case_inv_defs = case_inv_def outcome_inv_def history_inv_def

lemma recovery_confirmed_append: "recovery_confirmed i calls \<Longrightarrow> recovery_confirmed i (calls @ more_calls)"
  by (auto simp: recovery_confirmed_def)

lemma task_started_append: "task_started calls t \<Longrightarrow> task_started (calls @ more_calls) t"
  by (auto simp: task_started_def)

lemma wait_condition_snd:
  "snd (wait_condition timeout w s) = s
   \<or> (\<exists>t. wf_now s \<le> t \<and> snd (wait_condition timeout w s) = (suspend w s)\<lparr>wf_now := t\<rparr>)"
proof (cases "wf_signals s = []")
  case True
  let ?s = "suspend w s"
  have same: "?s = ?s\<lparr>wf_now := wf_now ?s\<rparr>" by simp
  show ?thesis
  proof (cases "wf_signals ?s = []")
    case True
    with \<open>wf_signals s = []\<close> have "snd (wait_condition timeout w s)
        = ?s\<lparr>wf_now := max (wf_now ?s) (wf_now s + timeout)\<rparr>"
      by (simp add: wait_condition_def Let_def)
    moreover have "wf_now s \<le> max (wf_now ?s) (wf_now s + timeout)" by simp
    ultimately show ?thesis by blast
  next
    case False
    with \<open>wf_signals s = []\<close> have "snd (wait_condition timeout w s) = ?s\<lparr>wf_now := wf_now ?s\<rparr>"
      by (simp add: wait_condition_def Let_def)
    moreover have "wf_now s \<le> wf_now ?s" by simp
    ultimately show ?thesis by blast
  qed
next
  case False
  then show ?thesis by (simp add: wait_condition_def)
qed

lemma signals_inv_now [simp]: "signals_inv (s\<lparr>wf_now := t\<rparr>) = signals_inv s"
  by (simp add: signals_inv_def)

lemma signals_inv_log [simp]: "signals_inv (log_call c s) = signals_inv s"
  by (simp add: signals_inv_def)

text \<open>A path never forgets a call, keeps the input and the deadline, and its clock never goes back.\<close>

lemma step_frame:
  assumes "step command w s s'"
  shows "set (wf_calls s) \<subseteq> set (wf_calls s') \<and> wf_input s' = wf_input s
    \<and> wf_deadline s' = wf_deadline s \<and> wf_now s \<le> wf_now s'"
  using assms
proof (induction rule: step.induct)
  case (Wait s timeout)
  then show ?case using wait_condition_snd [of timeout w s] by auto
next
  case (Finish outcome s reason)
  then show ?case by (auto simp: finish_def modifyW_def Let_def)
qed (auto simp: same_core_def pop_signal_def modifyW_def)

abbreviation path ::
    "RecoveryWorkflowInput \<Rightarrow> world \<Rightarrow> RecoveryCaseWorkflow \<Rightarrow> RecoveryCaseWorkflow \<Rightarrow> bool" where
  "path command w \<equiv> (step command w)\<^sup>*\<^sup>*"

lemma path_frame:
  assumes "path command w s s'"
  shows "set (wf_calls s) \<subseteq> set (wf_calls s') \<and> wf_input s' = wf_input s
    \<and> wf_deadline s' = wf_deadline s \<and> wf_now s \<le> wf_now s'"
  using assms
proof (induction rule: rtranclp_induct)
  case (step y z)
  then show ?case using step_frame [OF step.hyps(2)] by (auto intro: order_trans)
qed simp

lemma step_signals_inv: "step command w s s' \<Longrightarrow> signals_inv s \<Longrightarrow> signals_inv s'"
proof (induction rule: step.induct)
  case (Wait s timeout)
  then show ?case using wait_condition_snd [of timeout w s] by (auto intro: suspend_signals_inv)
next
  case (Take s x xs)
  then show ?case by (auto simp: signals_inv_def pop_signal_def modifyW_def)
next
  case (Record s s')
  then show ?case by (auto simp: signals_inv_def same_core_def)
next
  case (Finish outcome s reason)
  then show ?case by (auto simp: signals_inv_def finish_def modifyW_def Let_def)
next
  case (Approve s a b r)
  then show ?case by (intro suspend_signals_inv) (simp add: signals_inv_def)
next
  case (Ask s c)
  then show ?case by (intro suspend_signals_inv) simp
qed (auto simp: signals_inv_def)

lemma step_outcome_inv: "step command w s s' \<Longrightarrow> outcome_inv command s \<Longrightarrow> outcome_inv command s'"
proof (induction rule: step.induct)
  case (Wait s timeout)
  then show ?case using wait_condition_snd [of timeout w s] by (auto simp: outcome_inv_def)
next
  case (Finish outcome s reason)
  then show ?case by (auto simp: outcome_inv_def finish_def modifyW_def Let_def)
qed (auto simp: outcome_inv_def same_core_def pop_signal_def modifyW_def recovery_confirmed_append
      outcomes_def)

lemma step_history_inv: "step command w s s' \<Longrightarrow> history_inv command s \<Longrightarrow> history_inv command s'"
proof (induction rule: step.induct)
  case (Wait s timeout)
  then show ?case using wait_condition_snd [of timeout w s] by (auto simp: history_inv_def)
next
  case (Finish outcome s reason)
  then show ?case by (auto simp: history_inv_def finish_def modifyW_def Let_def)
next
  case (Approve s a b r)
  then show ?case
    by (auto simp: history_inv_def task_started_append justified_def approved_def)
qed (auto simp: history_inv_def same_core_def pop_signal_def modifyW_def task_started_append)

lemma path_case_inv: "path command w s s' \<Longrightarrow> case_inv command s \<Longrightarrow> case_inv command s'"
  by (induction rule: rtranclp_induct)
    (auto simp: case_inv_def intro: step_signals_inv step_outcome_inv step_history_inv)

section \<open>Operations are paths\<close>

text \<open>
  \<open>at_case command b E\<close>: the input is set, the invariant holds, the calls \<open>E\<close> have been made and,
  where \<open>b\<close>, the case is open.
\<close>

definition at_case ::
    "RecoveryWorkflowInput \<Rightarrow> bool \<Rightarrow> (instant \<times> activity_call) set \<Rightarrow> RecoveryCaseWorkflow \<Rightarrow> bool" where
  "at_case command b E s \<longleftrightarrow>
     wf_input s = Some command \<and> case_inv command s \<and> E \<subseteq> set (wf_calls s) \<and> (b \<longrightarrow> \<not> wf_terminal s)"

lemma path_at_case:
  assumes "path command w s s'" and "at_case command b E s" and "c \<Longrightarrow> \<not> wf_terminal s'"
  shows "at_case command c E s'"
  using assms path_frame [of command w s s'] path_case_inv [of command w s s']
  by (auto simp: at_case_def)

lemma step_at_case:
  assumes "step command w s s'" and "at_case command b E s" and "c \<Longrightarrow> \<not> wf_terminal s'"
  shows "at_case command c E s'"
  using path_at_case [OF _ assms(2,3)] assms(1) by blast

lemma step_at_case_same:
  assumes "step command w s s'" and "at_case command b E s" and "wf_terminal s' = wf_terminal s"
  shows "at_case command b E s'"
  by (rule step_at_case [OF assms(1,2)]) (use assms(2,3) in \<open>simp add: at_case_def\<close>)

lemma at_case_closed: "at_case command b E s \<Longrightarrow> at_case command False E s"
  by (simp add: at_case_def)

lemma at_case_open: "at_case command b E s \<Longrightarrow> \<not> wf_terminal s \<Longrightarrow> at_case command True E s"
  by (simp add: at_case_def)

lemma at_case_call: "e \<in> E \<Longrightarrow> at_case command b E s \<Longrightarrow> e \<in> set (wf_calls s)"
  by (auto simp: at_case_def)

text \<open>
  \<open>runs command P m Q\<close>: from a state with \<open>P\<close>, the operation \<open>m\<close> moves along a path of the machine,
  also where it raises, and if it returns, \<open>Q\<close> holds of the result.
\<close>

definition runs ::
    "RecoveryWorkflowInput \<Rightarrow> (RecoveryCaseWorkflow \<Rightarrow> bool) \<Rightarrow> 'a workflow
       \<Rightarrow> ('a \<Rightarrow> RecoveryCaseWorkflow \<Rightarrow> bool) \<Rightarrow> bool" where
  "runs command P m Q \<longleftrightarrow>
     (\<forall>w s. P s \<longrightarrow> path command w s (snd (m w s))
        \<and> (\<forall>a. fst (m w s) = Inr a \<longrightarrow> Q a (snd (m w s))))"

named_theorems runs_intros \<open>paths of the combinators and operations\<close>

lemma runs_returnW [runs_intros]: "(\<And>s. P s \<Longrightarrow> Q a s) \<Longrightarrow> runs command P (returnW a) Q"
  by (simp add: runs_def returnW_def)

lemma runs_raiseW [runs_intros]: "runs command P (raiseW e) Q"
  by (simp add: runs_def raiseW_def)

lemma runsD:
  assumes "runs command P m Q" and "P s" and "m w s = (r, s')"
  shows "path command w s s'" and "r = Inr a \<Longrightarrow> Q a s'"
proof -
  from assms(1,2) have "path command w s (snd (m w s))"
    and "\<forall>a. fst (m w s) = Inr a \<longrightarrow> Q a (snd (m w s))" by (simp_all add: runs_def)
  with assms(3) show "path command w s s'" and "r = Inr a \<Longrightarrow> Q a s'" by simp_all
qed

lemma runs_bindW [runs_intros]:
  assumes "runs command P m R" and "\<And>a. runs command (R a) (k a) Q"
  shows "runs command P (bindW m k) Q"
  unfolding runs_def
proof (intro allI impI)
  fix w s assume "P s"
  obtain r s' where m: "m w s = (r, s')" by (cases "m w s")
  note first = runsD [OF assms(1) \<open>P s\<close> m]
  show "path command w s (snd (bindW m k w s))
      \<and> (\<forall>a. fst (bindW m k w s) = Inr a \<longrightarrow> Q a (snd (bindW m k w s)))"
  proof (cases r)
    case (Inl e)
    with m first show ?thesis by (simp add: bindW_def)
  next
    case (Inr a)
    with assms(2) [of a] first have "path command w s' (snd (k a w s'))"
      "\<forall>b. fst (k a w s') = Inr b \<longrightarrow> Q b (snd (k a w s'))" by (auto simp: runs_def)
    with first m Inr show ?thesis by (auto simp: bindW_def)
  qed
qed

lemma runs_seqW [runs_intros]:
  assumes "runs command P m (\<lambda>_. R)" and "runs command R k Q"
  shows "runs command P (seqW m k) Q"
  unfolding seqW_def using assms by (rule runs_bindW)

lemma runs_withW:
  assumes "\<And>s. P s \<Longrightarrow> runs command (\<lambda>x. x = s) (k s) Q"
  shows "runs command P (withW k) Q"
  using assms unfolding runs_def withW_def by blast

lemma runs_consequence:
  assumes "runs command P m Q" and "\<And>s. P' s \<Longrightarrow> P s" and "\<And>a s. Q a s \<Longrightarrow> Q' a s"
  shows "runs command P' m Q'"
  using assms unfolding runs_def by blast

lemma runs_modifyW:
  assumes "\<And>w s. P s \<Longrightarrow> path command w s (f s) \<and> Q () (f s)"
  shows "runs command P (modifyW f) Q"
  using assms by (simp add: runs_def modifyW_def)

lemma runs_if [runs_intros]:
  assumes "b \<Longrightarrow> runs command P m Q" and "\<not> b \<Longrightarrow> runs command P k Q"
  shows "runs command P (if b then m else k) Q"
  using assms by simp


lemma runs_with_input:
  assumes "\<And>s. P s \<Longrightarrow> wf_input s = Some command" and "runs command P (k command) Q"
  shows "runs command P (with_input k) Q"
  unfolding with_input_def
proof (rule runs_withW)
  fix s assume "P s"
  with assms(1) have "wf_input s = Some command" by simp
  moreover have "runs command (\<lambda>x. x = s) (k command) Q"
    using assms(2) by (rule runs_consequence) (simp_all add: \<open>P s\<close>)
  ultimately show "runs command (\<lambda>x. x = s)
      (case wf_input s of None \<Rightarrow> raiseW Input_Not_Initialized | Some c \<Rightarrow> k c) Q" by simp
qed

lemma runs_activity:
  assumes "\<And>s r. P s \<Longrightarrow> justified command (wf_calls s) (wf_now s) (call arg r)"
    and "\<And>r. \<not> approval_recorded (call arg r)"
    and "\<And>w s r. P s \<Longrightarrow> step command w s (suspend w (log_call (call arg (Some r)) s))
          \<Longrightarrow> Q r (suspend w (log_call (call arg (Some r)) s))"
  shows "runs command P (activity perform call arg) Q"
  unfolding runs_def
proof (intro allI impI)
  fix w s assume "P s"
  let ?r = "perform w (wf_awaits s) arg"
  have snd: "snd (activity perform call arg w s) = suspend w (log_call (call arg ?r) s)"
    by (simp add: activity_def log_call_def Let_def split: option.split)
  have "step command w s (suspend w (log_call (call arg ?r) s))"
    using assms(1) [OF \<open>P s\<close>] assms(2) by (rule Ask)
  then have "path command w s (snd (activity perform call arg w s))" unfolding snd by blast
  moreover have "Q a (snd (activity perform call arg w s))"
    if "fst (activity perform call arg w s) = Inr a" for a
  proof -
    have "?r = Some a" using that by (simp add: activity_def Let_def split: option.splits)
    with snd assms(3) [OF \<open>P s\<close>, of w a] Ask [OF assms(1) [OF \<open>P s\<close>] assms(2)]
    show ?thesis by simp
  qed
  ultimately show "path command w s (snd (activity perform call arg w s))
      \<and> (\<forall>a. fst (activity perform call arg w s) = Inr a
           \<longrightarrow> Q a (snd (activity perform call arg w s)))" by blast
qed

text \<open>The same for an activity that needs no justification: its call joins the known ones.\<close>

lemma at_case_step_call:
  assumes "at_case command b E s" and "step command w s (suspend w (log_call c s))"
  shows "\<exists>t. at_case command b (insert (t, c) E) (suspend w (log_call c s))"
proof -
  have "at_case command b E (suspend w (log_call c s))"
    by (rule step_at_case [OF assms(2,1)]) (use assms(1) in \<open>simp add: at_case_def\<close>)
  then show ?thesis by (auto simp: at_case_def)
qed

lemma runs_free_activity:
  assumes "\<And>calls t r. justified command calls t (call arg r)" and "\<And>r. \<not> approval_recorded (call arg r)"
  shows "runs command (at_case command b E) (activity perform call arg)
    (\<lambda>r s. \<exists>t. at_case command b (insert (t, call arg (Some r)) E) s)"
  using assms by (intro runs_activity) (auto intro: at_case_step_call)

lemma runs_exists:
  assumes "\<And>t. runs command (P t) m Q"
  shows "runs command (\<lambda>s. \<exists>t. P t s) m Q"
  using assms unfolding runs_def by blast

lemma at_case_insert: "at_case command b (insert e E) s \<Longrightarrow> at_case command b E s"
  by (simp add: at_case_def)


lemma runs_modify:
  assumes "\<And>w s. at_case command b E s \<Longrightarrow> path command w s (f s)"
    and "\<And>s. at_case command b E s \<Longrightarrow> c \<Longrightarrow> \<not> wf_terminal (f s)"
  shows "runs command (at_case command b E) (modifyW f) (\<lambda>_. at_case command c E)"
proof (rule runs_modifyW)
  fix w s assume s: "at_case command b E s"
  from path_at_case [OF assms(1) s assms(2) [OF s]] s assms(1) [OF s]
  show "path command w s (f s) \<and> at_case command c E (f s)" by blast
qed

lemma runs_record [runs_intros]:
  assumes "\<And>s. same_core s (f s)"
  shows "runs command (at_case command b E) (modifyW f) (\<lambda>_. at_case command b E)"
proof (rule runs_modify)
  show "path command w s (f s)" for w s using Record [OF assms] by blast
  show "\<not> wf_terminal (f s)" if "at_case command b E s" b for s
    using that assms [of s] by (simp add: at_case_def same_core_def)
qed

lemma runs_weaken:
  "runs command (at_case command b E) m (\<lambda>_. at_case command c E)
     \<Longrightarrow> runs command (at_case command b E) m (\<lambda>_. at_case command False E)"
  by (erule runs_consequence) (auto intro: at_case_closed)

lemma runs_audit [runs_intros]:
  assumes "event_type \<noteq> ''APPROVAL_RECORDED''"
  shows "runs command (at_case command b E) (audit event_type i d) (\<lambda>_. at_case command b E)"
  unfolding audit_def
proof (rule runs_withW)
  fix s assume s: "at_case command b E s"
  let ?a = "\<lparr>au_case_id = wf_case_id s, au_event_type = event_type, au_correlation_id = i, au_details = d\<rparr>"
  have "runs command (at_case command b E) (activity w_record_audit_event RECORD_AUDIT_EVENT ?a)
      (\<lambda>r s. \<exists>t. at_case command b (insert (t, RECORD_AUDIT_EVENT ?a (Some r)) E) s)"
    using assms by (intro runs_free_activity) (simp_all add: justified_def approval_recorded_def)
  then have "runs command (\<lambda>x. x = s) (activity w_record_audit_event RECORD_AUDIT_EVENT ?a)
      (\<lambda>_. at_case command b E)"
    by (rule runs_consequence) (use s in \<open>auto intro: at_case_insert\<close>)
  then show "runs command (\<lambda>x. x = s)
      (seqW (activity w_record_audit_event RECORD_AUDIT_EVENT ?a) (returnW ())) (\<lambda>_. at_case command b E)"
    by (rule runs_seqW) (rule runs_returnW, assumption)
qed

text \<open>A step of the program whose arguments are read off the state it starts in.\<close>

lemma runs_withW_at:
  assumes "\<And>s. at_case command b E s \<Longrightarrow> runs command (at_case command b E) (k s) Q"
  shows "runs command (at_case command b E) (withW k) Q"
proof (rule runs_withW)
  fix s assume s: "at_case command b E s"
  from assms [OF s] show "runs command (\<lambda>x. x = s) (k s) Q"
    by (rule runs_consequence) (simp_all add: s)
qed

lemma runs_call [runs_intros]:
  assumes "\<And>calls t r. justified command calls t (call arg r)" and "\<And>r. \<not> approval_recorded (call arg r)"
    and "\<And>t r. runs command (at_case command b (insert (t, call arg (Some r)) E)) (k r) Q"
  shows "runs command (at_case command b E) (bindW (activity perform call arg) k) Q"
  using runs_free_activity [where call = call and arg = arg and command = command, OF assms(1,2)]
  by (rule runs_bindW) (rule runs_exists, rule assms(3))

lemma runs_forget:
  assumes "runs command (at_case command b E) m Q"
  shows "runs command (at_case command b (insert e E)) m Q"
  using assms by (rule runs_consequence) (auto intro: at_case_insert)

lemma runs_cancel_active_action [runs_intros]:
  "runs command (at_case command b E) (cancel_active_action reason) (\<lambda>_. at_case command b E)"
  unfolding cancel_active_action_def
  by (rule runs_withW_at)
    (auto simp: justified_def approval_recorded_def same_core_def
      intro!: runs_returnW runs_if runs_call runs_forget runs_record)

lemma runs_finish:
  assumes "outcome \<in> outcomes"
    and "outcome = ''RECOVERED'' \<Longrightarrow> b \<and> (\<exists>t i r. (t, RECONCILE_CASE i (Some r)) \<in> E
      \<and> ri_case_id i = wi_case_id command \<and> rr_authoritative r \<and> rr_case_recovered r)"
  shows "runs command (at_case command b E) (finish outcome reason) (\<lambda>_. at_case command False E)"
proof -
  have "path command w s (snd (finish outcome reason w s))" if s: "at_case command b E s" for w s
  proof (rule r_into_rtranclp, rule Finish [OF assms(1)])
    assume "outcome = ''RECOVERED''"
    with assms(2) obtain t i r where "b" "(t, RECONCILE_CASE i (Some r)) \<in> set (wf_calls s)"
      "ri_case_id i = wi_case_id command" "rr_authoritative r" "rr_case_recovered r"
      using at_case_call [OF _ s] by blast
    then show "\<not> wf_terminal s \<and> recovery_confirmed (wi_case_id command) (wf_calls s)"
      using s by (auto simp: at_case_def recovery_confirmed_def)
  qed
  then show ?thesis unfolding finish_def by (intro runs_modify) (auto simp: modifyW_def)
qed


lemma at_case_input: "at_case command b E s \<Longrightarrow> wf_input s = Some command"
  by (simp add: at_case_def)

lemma runs_input [runs_intros]:
  "runs command (at_case command b E) (k command) Q
     \<Longrightarrow> runs command (at_case command b E) (with_input k) Q"
  by (rule runs_with_input [OF at_case_input])

lemma runs_option [runs_intros]:
  assumes "v = None \<Longrightarrow> runs command P m Q" and "\<And>x. v = Some x \<Longrightarrow> runs command P (k x) Q"
  shows "runs command P (case v of None \<Rightarrow> m | Some x \<Rightarrow> k x) Q"
  using assms by (cases v) auto

lemma runs_bool [runs_intros]:
  assumes "v \<Longrightarrow> runs command P m Q" and "\<not> v \<Longrightarrow> runs command P k Q"
  shows "runs command P (case v of True \<Rightarrow> m | False \<Rightarrow> k) Q"
  using assms by (cases v) auto

lemmas free_call = justified_def approval_recorded_def

lemma runs_send_receipt [runs_intros]:
  "runs command (at_case command b E) (send_a2a_receipt_if_applicable r) (\<lambda>_. at_case command b E)"
  unfolding send_a2a_receipt_if_applicable_def prod.case Let_def
  by (rule runs_withW_at runs_bool runs_option runs_input runs_if runs_returnW runs_call runs_forget
      runs_seqW runs_record runs_audit
    | simp add: free_call same_core_def)+

lemma runs_close_if_recovered [runs_intros]:
  assumes "(t, RECONCILE_CASE i (Some r)) \<in> E" and "ri_case_id i = wi_case_id command"
  shows "runs command (at_case command True E) (close_if_recovered r reason) (\<lambda>_. at_case command False E)"
  unfolding close_if_recovered_def
proof (rule runs_if)
  assume r: "rr_case_recovered r \<and> rr_authoritative r"
  have "runs command (at_case command True E) (finish ''RECOVERED'' reason) (\<lambda>_. at_case command False E)"
    by (rule runs_finish) (use r assms in \<open>auto simp: outcomes_def\<close>)
  then show "runs command (at_case command True E)
      (seqW (send_a2a_receipt_if_applicable r)
         (seqW (cancel_active_action ''AUTHORITATIVE_PAYMENT_SUCCESS'') (finish ''RECOVERED'' reason)))
      (\<lambda>_. at_case command False E)"
    by (rule runs_seqW [OF runs_send_receipt runs_seqW [OF runs_cancel_active_action]])
next
  show "runs command (at_case command True E) (returnW ()) (\<lambda>_. at_case command False E)"
    by (rule runs_returnW) (rule at_case_closed)
qed

lemma runs_apply_reconciliation [runs_intros]:
  "runs command (at_case command True E) (apply_reconciliation r) (\<lambda>_. at_case command True E)"
  unfolding apply_reconciliation_def
proof (rule runs_modify)
  fix w s assume s: "at_case command True E s"
  let ?s = "s\<lparr>wf_payment_state := rr_payment_state r\<rparr>"
  have "step command w s ?s" using s by (intro Payment) (simp add: at_case_def)
  moreover have "step command w ?s (?s\<lparr>wf_subscription_state := rr_subscription_state r,
      wf_arrears_collected_paise := rr_arrears_collected_paise r,
      wf_subscription_reactivated := rr_subscription_reactivated r\<rparr>)"
    by (rule Record) (simp add: same_core_def)
  ultimately show "path command w s (if \<not> rr_authoritative r then s
     else s\<lparr>wf_payment_state := rr_payment_state r, wf_subscription_state := rr_subscription_state r,
            wf_arrears_collected_paise := rr_arrears_collected_paise r,
            wf_subscription_reactivated := rr_subscription_reactivated r\<rparr>)"
    by auto
next
  show "\<not> wf_terminal (if \<not> rr_authoritative r then s
     else s\<lparr>wf_payment_state := rr_payment_state r, wf_subscription_state := rr_subscription_state r,
            wf_arrears_collected_paise := rr_arrears_collected_paise r,
            wf_subscription_reactivated := rr_subscription_reactivated r\<rparr>)"
    if "at_case command True E s" for s using that by (simp add: at_case_def)
qed

lemma runs_phase:
  "runs command (at_case command True E) (modifyW (\<lambda>s. s\<lparr>wf_phase := p\<rparr>)) (\<lambda>_. at_case command True E)"
  by (rule runs_modify) (auto simp: at_case_def intro!: Phase)

lemma runs_reconciled:
  assumes "ri_case_id i = wi_case_id command"
  shows "runs command (at_case command True (insert (t, RECONCILE_CASE i (Some r)) E))
    (close_if_recovered r reason) (\<lambda>_. at_case command False E)"
  by (rule runs_consequence [OF runs_close_if_recovered [OF insertI1 assms]])
    (auto intro: at_case_insert)

end
