(* ===== verification/Workflow_Safety.thy ===== *)
theory Workflow_Safety
  imports Workflow_Machine
begin

text \<open>
  Every operation of \<open>Recovery_Workflow\<close>, and with them the whole run, is a path of the state
  machine \<open>step\<close>; the properties of a run follow from the invariants of the machine.
\<close>

section \<open>Handlers\<close>

lemma runs_handle_payment:
  "runs command (at_case command True E) (handle_payment p) (\<lambda>_. at_case command False E)"
  unfolding handle_payment_def
  by (rule runs_input, rule runs_call)
    (auto simp: free_call intro!: runs_seqW [OF runs_apply_reconciliation] runs_seqW [OF runs_audit]
      runs_reconciled)

lemma runs_suppress_outreach:
  "runs command (at_case command True E) (suppress_outreach i d) (\<lambda>_. at_case command True E)"
proof -
  have "runs command (at_case command True E)
      (modifyW (\<lambda>s. s\<lparr>wf_outcome := Some ''STOPPED'', wf_phase := ''OUTREACH_SUPPRESSED''\<rparr>))
      (\<lambda>_. at_case command True E)"
    by (rule runs_modify) (auto simp: at_case_def intro!: Suppress)
  then show ?thesis unfolding suppress_outreach_def
    by (auto simp: same_core_def intro!: runs_seqW [OF runs_record] runs_seqW [OF runs_cancel_active_action]
        runs_seqW [OF runs_audit])
qed

lemma runs_handle_customer_intent:
  "runs command (at_case command True E) (handle_customer_intent p) (\<lambda>_. at_case command False E)"
  unfolding handle_customer_intent_def Let_def
  by (rule runs_seqW [OF runs_record], simp add: same_core_def)
    (auto simp: free_call outcomes_def
      intro!: runs_seqW [OF runs_audit] runs_if runs_weaken [OF runs_suppress_outreach]
        runs_seqW [OF runs_cancel_active_action] runs_finish runs_input runs_call
        runs_seqW [OF runs_apply_reconciliation] runs_reconciled runs_returnW intro: at_case_closed)

lemma runs_handle_opt_out:
  "runs command (at_case command True E) (handle_opt_out p) (\<lambda>_. at_case command False E)"
  unfolding handle_opt_out_def
  by (auto simp: same_core_def intro!: runs_seqW [OF runs_record] runs_seqW [OF runs_audit]
      runs_weaken [OF runs_suppress_outreach])

lemma runs_handle_cancellation:
  "runs command (at_case command True E) (handle_cancellation p) (\<lambda>_. at_case command False E)"
  unfolding handle_cancellation_def
  by (auto simp: outcomes_def intro!: runs_seqW [OF runs_audit] runs_seqW [OF runs_cancel_active_action]
      runs_finish)

lemma runs_handle_operator_escalation:
  "runs command (at_case command True E) (handle_operator_escalation p) (\<lambda>_. at_case command False E)"
  unfolding handle_operator_escalation_def
  by (auto simp: outcomes_def intro!: runs_seqW [OF runs_audit] runs_seqW [OF runs_cancel_active_action]
      runs_finish)

lemma runs_handle_approval:
  "runs command (at_case command True E) (handle_approval p) (\<lambda>_. at_case command False E)"
  unfolding handle_approval_def
proof (rule runs_withW)
  fix s assume s: "at_case command True E s"
  show "runs command (\<lambda>x. x = s)
     (if \<not> wf_approval_required s \<or> wf_approval_received s \<noteq> None
      then audit ''APPROVAL_IGNORED'' (aps_signal_id p) [(''reason'', JStr ''NOT_AWAITED'')]
      else seqW (modifyW (\<lambda>s. s\<lparr>wf_approval_received := Some (aps_approved p)\<rparr>))
            (audit ''APPROVAL_RECORDED'' (aps_signal_id p)
               [(''approved'', JBool (aps_approved p)), (''reviewer_id'', JStr (aps_reviewer_id p)),
                (''reason'', json_text (aps_reason p))])) (\<lambda>_. at_case command False E)"
  proof (rule runs_if)
    show "runs command (\<lambda>x. x = s)
        (audit ''APPROVAL_IGNORED'' (aps_signal_id p) [(''reason'', JStr ''NOT_AWAITED'')])
        (\<lambda>_. at_case command False E)"
      by (rule runs_consequence [OF runs_audit]) (use s in \<open>auto intro: at_case_closed\<close>)
    assume "\<not> (\<not> wf_approval_required s \<or> wf_approval_received s \<noteq> None)"
    then have "step command w s (suspend w (log_call (RECORD_AUDIT_EVENT
         \<lparr>au_case_id = wf_case_id s, au_event_type = ''APPROVAL_RECORDED'',
          au_correlation_id = aps_signal_id p,
          au_details = [(''approved'', JBool (aps_approved p)), (''reviewer_id'', JStr (aps_reviewer_id p)),
                (''reason'', json_text (aps_reason p))]\<rparr> r)
         (s\<lparr>wf_approval_received := Some (aps_approved p)\<rparr>)))" for w r
      by (intro Approve) auto
    note step = step_at_case [OF this s, where c = False, simplified] this
    show "runs command (\<lambda>x. x = s)
      (seqW (modifyW (\<lambda>s. s\<lparr>wf_approval_received := Some (aps_approved p)\<rparr>))
            (audit ''APPROVAL_RECORDED'' (aps_signal_id p)
               [(''approved'', JBool (aps_approved p)), (''reviewer_id'', JStr (aps_reviewer_id p)),
                (''reason'', json_text (aps_reason p))])) (\<lambda>_. at_case command False E)"
      using step unfolding runs_def
      by (auto simp: seqW_def bindW_def modifyW_def audit_def withW_def activity_def Let_def
          returnW_def log_call_def split: option.splits)
  qed
qed

lemma runs_schedule:
  "runs command (\<lambda>s. at_case command b E s \<and> wf_a2a_task_id s \<noteq> None)
     (modifyW (\<lambda>s. s\<lparr>wf_next_a2a_poll_at := Some (f s)\<rparr>)) (\<lambda>_. at_case command b E)"
proof (rule runs_modifyW)
  fix w s assume s: "at_case command b E s \<and> wf_a2a_task_id s \<noteq> None"
  then have step: "step command w s (s\<lparr>wf_next_a2a_poll_at := Some (f s)\<rparr>)" by (blast intro: Schedule)
  have "at_case command b E (s\<lparr>wf_next_a2a_poll_at := Some (f s)\<rparr>)"
    by (rule step_at_case [OF step]) (use s in \<open>auto simp: at_case_def\<close>)
  with step show "path command w s (s\<lparr>wf_next_a2a_poll_at := Some (f s)\<rparr>)
      \<and> at_case command b E (s\<lparr>wf_next_a2a_poll_at := Some (f s)\<rparr>)" by blast
qed


lemma runs_stable:
  assumes "runs command P m Q" and "\<And>w s s'. step command w s s' \<Longrightarrow> X s \<Longrightarrow> X s'"
  shows "runs command (\<lambda>s. P s \<and> X s) m (\<lambda>a s. Q a s \<and> X s)"
proof -
  have "X s'" if "path command w s s'" "X s" for w s s'
    using that by (induction rule: rtranclp_induct) (auto intro: assms(2))
  with assms(1) show ?thesis unfolding runs_def by blast
qed

lemma step_task: "step command w s s' \<Longrightarrow> wf_a2a_task_id s \<noteq> None \<Longrightarrow> wf_a2a_task_id s' \<noteq> None"
proof (induction rule: step.induct)
  case (Wait s timeout)
  then show ?case using wait_condition_snd [of timeout w s] by auto
next
  case (Finish outcome s reason)
  then show ?case by (simp add: finish_def modifyW_def Let_def)
qed (auto simp: same_core_def pop_signal_def modifyW_def)

lemma runs_handle_a2a_update:
  "runs command (at_case command True E) (handle_a2a_update p) (\<lambda>_. at_case command False E)"
  unfolding handle_a2a_update_def
proof (rule runs_withW)
  fix s assume s: "at_case command True E s"
  let ?P = "\<lambda>s. at_case command True E s \<and> wf_a2a_task_id s \<noteq> None"
  have noted: "runs command ?P (modifyW (\<lambda>s. s\<lparr>wf_a2a_state := Some (aus_state p)\<rparr>)) (\<lambda>_. ?P)"
    by (rule runs_stable [OF runs_record step_task]) (simp add: same_core_def)
  have audited: "runs command ?P (audit ''A2A_TASK_UPDATED'' i d) (\<lambda>_. ?P)" for i d
    by (rule runs_stable [OF runs_audit step_task]) simp
  show "runs command (\<lambda>x. x = s)
     (if wf_a2a_task_id s \<noteq> Some (aus_remote_task_id p)
      then audit ''A2A_UPDATE_IGNORED'' (aus_signal_id p) [(''reason'', JStr ''TASK_ID_MISMATCH'')]
      else seqW (modifyW (\<lambda>s. s\<lparr>wf_a2a_state := Some (aus_state p)\<rparr>))
         (seqW (audit ''A2A_TASK_UPDATED'' (aus_signal_id p)
                  [(''remote_task_id'', JStr (aus_remote_task_id p)), (''state'', JStr (aus_state p))])
            (modifyW (\<lambda>s. s\<lparr>wf_next_a2a_poll_at := Some (wf_now s)\<rparr>))))
     (\<lambda>_. at_case command False E)"
  proof (rule runs_if)
    show "runs command (\<lambda>x. x = s)
        (audit ''A2A_UPDATE_IGNORED'' (aus_signal_id p) [(''reason'', JStr ''TASK_ID_MISMATCH'')])
        (\<lambda>_. at_case command False E)"
      by (rule runs_consequence [OF runs_audit]) (use s in \<open>auto intro: at_case_closed\<close>)
    assume "\<not> wf_a2a_task_id s \<noteq> Some (aus_remote_task_id p)"
    then show "runs command (\<lambda>x. x = s)
        (seqW (modifyW (\<lambda>s. s\<lparr>wf_a2a_state := Some (aus_state p)\<rparr>))
         (seqW (audit ''A2A_TASK_UPDATED'' (aus_signal_id p)
                  [(''remote_task_id'', JStr (aus_remote_task_id p)), (''state'', JStr (aus_state p))])
            (modifyW (\<lambda>s. s\<lparr>wf_next_a2a_poll_at := Some (wf_now s)\<rparr>)))) (\<lambda>_. at_case command False E)"
      using s by (intro runs_consequence [OF runs_seqW [OF noted runs_seqW [OF audited runs_schedule]]])
        (auto intro: at_case_closed)
  qed
qed

lemma runs_handle_mandate:
  "runs command (at_case command True E) (handle_mandate p) (\<lambda>_. at_case command False E)"
proof -
  have "runs command (at_case command True E)
      (modifyW (\<lambda>s. if wf_a2a_task_id s \<noteq> None then s\<lparr>wf_next_a2a_poll_at := Some (wf_now s)\<rparr> else s))
      (\<lambda>_. at_case command False E)"
    by (rule runs_modify) (auto intro: Schedule)
  then show ?thesis unfolding handle_mandate_def by (auto intro!: runs_seqW [OF runs_audit])
qed

lemma runs_handle_signal:
  "runs command (at_case command True E) (handle_signal x) (\<lambda>_. at_case command False E)"
  by (cases x) (simp_all add: runs_handle_approval runs_handle_payment runs_handle_customer_intent
      runs_handle_opt_out runs_handle_cancellation runs_handle_operator_escalation
      runs_handle_a2a_update runs_handle_mandate)

section \<open>Loops\<close>

lemma runs_withW_open:
  assumes "\<And>s. at_case command False E s \<Longrightarrow> runs command (at_case command (\<not> wf_terminal s) E) (k s) Q"
  shows "runs command (at_case command False E) (withW k) Q"
proof (rule runs_withW)
  fix s assume s: "at_case command False E s"
  from assms [OF s] show "runs command (\<lambda>x. x = s) (k s) Q"
    by (rule runs_consequence) (use s in \<open>simp_all add: at_case_def\<close>)
qed

lemma runs_take:
  "runs command (\<lambda>s. at_case command True E s \<and> wf_signals s \<noteq> []) pop_signal (\<lambda>_. at_case command True E)"
proof -
  have "step command w s (snd (pop_signal w s))" if "at_case command True E s" "wf_signals s \<noteq> []" for w s
    using that by (cases "wf_signals s") (auto simp: at_case_def intro: Take)
  moreover have "wf_terminal (snd (pop_signal w s)) = wf_terminal s" for w s
    by (simp add: pop_signal_def modifyW_def)
  ultimately show ?thesis unfolding runs_def by (blast intro: step_at_case_same)
qed

lemma runs_drain [runs_intros]:
  "runs command (at_case command False E) (drain_signals n) (\<lambda>_. at_case command False E)"
proof (induction n)
  case 0
  show ?case unfolding drain_signals.simps by (rule runs_withW_at runs_if runs_returnW runs_raiseW | assumption)+
next
  case (Suc n)
  show ?case unfolding drain_signals.simps
  proof (rule runs_withW)
    fix s assume s: "at_case command False E s"
    show "runs command (\<lambda>x. x = s)
       (if wf_signals s = [] \<or> wf_terminal s then returnW ()
        else seqW pop_signal (seqW (handle_signal (hd (wf_signals s))) (drain_signals n)))
       (\<lambda>_. at_case command False E)"
    proof (rule runs_if)
      show "runs command (\<lambda>x. x = s) (returnW ()) (\<lambda>_. at_case command False E)"
        using s by (intro runs_returnW) simp
      assume "\<not> (wf_signals s = [] \<or> wf_terminal s)"
      then show "runs command (\<lambda>x. x = s)
          (seqW pop_signal (seqW (handle_signal (hd (wf_signals s))) (drain_signals n)))
          (\<lambda>_. at_case command False E)"
        using s by (intro runs_consequence [OF runs_seqW [OF runs_take
              runs_seqW [OF runs_handle_signal Suc.IH]]]) (auto intro: at_case_open)
    qed
  qed
qed

lemma runs_wait_condition [runs_intros]:
  "runs command (at_case command b E) (wait_condition timeout) (\<lambda>_. at_case command b E)"
proof -
  have "step command w s (snd (wait_condition timeout w s))" for w s by (rule Wait)
  moreover have "wf_terminal (snd (wait_condition timeout w s)) = wf_terminal s" for w s
    using wait_condition_snd [of timeout w s] by auto
  ultimately show ?thesis unfolding runs_def by (blast intro: step_at_case_same)
qed

lemma runs_expire [runs_intros]:
  "runs command (at_case command b E) expire (\<lambda>_. at_case command False E)"
  unfolding expire_def
  by (rule runs_seqW [OF runs_cancel_active_action runs_withW_at [OF runs_finish]])
    (auto simp: deadline_outcome_def outcomes_def split: if_splits)

lemma runs_wait_for_signal_or_deadline [runs_intros]:
  "runs command (at_case command b E) wait_for_signal_or_deadline (\<lambda>_. at_case command b E)"
  unfolding wait_for_signal_or_deadline_def Let_def
  by (rule runs_withW_at runs_option runs_if runs_returnW runs_wait_condition | assumption)+


lemma runs_until_terminal:
  assumes "runs command (at_case command True E) m (\<lambda>_. at_case command False E)"
  shows "runs command (at_case command False E) (until_terminal m) (\<lambda>_. at_case command False E)"
  unfolding until_terminal_def
  by (rule runs_withW_open, rule runs_if) (use assms in \<open>auto intro: runs_returnW at_case_closed\<close>)

lemma runs_approval_loop [runs_intros]:
  "runs command (at_case command False E) (wait_for_approval_or_terminal fuel n)
     (\<lambda>_ s. at_case command False E s \<and> (wf_terminal s \<or> wf_approval_received s \<noteq> None))"
proof (induction n)
  case 0
  show ?case unfolding wait_for_approval_or_terminal.simps
    by (rule runs_withW) (auto intro!: runs_if runs_returnW runs_raiseW)
next
  case (Suc n)
  have "runs command (at_case command False E)
      (withW (\<lambda>s. if deadline_passed s then expire else returnW ())) (\<lambda>_. at_case command False E)"
    by (rule runs_withW_at runs_if runs_expire runs_returnW | assumption)+
  then have body: "runs command (at_case command False E)
     (seqW wait_for_signal_or_deadline
         (seqW (drain_signals fuel)
         (seqW (withW (\<lambda>s. if deadline_passed s then expire else returnW ()))
            (wait_for_approval_or_terminal fuel n))))
     (\<lambda>_ s. at_case command False E s \<and> (wf_terminal s \<or> wf_approval_received s \<noteq> None))"
    using Suc.IH by (blast intro: runs_seqW runs_wait_for_signal_or_deadline runs_drain)
  show ?case unfolding wait_for_approval_or_terminal.simps
    by (rule runs_withW, rule runs_if)
      (auto intro!: runs_returnW intro: runs_consequence [OF body])
qed

lemma runs_wait_until_loop [runs_intros]:
  "runs command (at_case command False E) (wait_until_loop fuel target n)
     (\<lambda>_ s. at_case command False E s \<and> (wf_terminal s \<or> target \<le> wf_now s \<or> deadline_passed s))"
proof (induction n)
  case 0
  show ?case unfolding wait_until_loop.simps
    by (rule runs_withW) (auto intro!: runs_if runs_returnW runs_raiseW)
next
  case (Suc n)
  note body = runs_seqW [OF runs_wait_condition runs_seqW [OF runs_drain Suc.IH]]
  show ?case unfolding wait_until_loop.simps Let_def
    by (rule runs_withW, (rule runs_if)+)
      (auto simp: deadline_passed_def min_def intro!: runs_returnW intro: runs_consequence [OF body]
        split: option.splits if_splits)
qed

lemma finish_terminal: "wf_terminal (snd (finish outcome reason w s))"
  by (simp add: finish_def modifyW_def Let_def)

lemma expire_terminal: "fst (expire w s) = Inr u \<Longrightarrow> wf_terminal (snd (expire w s))"
  by (auto simp: expire_def seqW_def bindW_def withW_def finish_terminal split: prod.splits sum.splits)

lemma runs_wait_until [runs_intros]:
  "runs command (at_case command False E) (wait_until fuel target)
     (\<lambda>_ s. at_case command False E s \<and> (wf_terminal s \<or> target \<le> wf_now s))"
  unfolding wait_until_def
proof (rule runs_seqW [OF runs_wait_until_loop], rule runs_withW)
  fix s assume s: "at_case command False E s \<and> (wf_terminal s \<or> target \<le> wf_now s \<or> deadline_passed s)"
  show "runs command (\<lambda>x. x = s) (if deadline_passed s \<and> \<not> wf_terminal s then expire else returnW ())
     (\<lambda>_ s. at_case command False E s \<and> (wf_terminal s \<or> target \<le> wf_now s))"
    using s runs_expire [of command False E] expire_terminal
    by (auto simp: runs_def returnW_def)
qed

section \<open>Submissions\<close>

lemma permits_mono:
  "permits calls t p \<Longrightarrow> set calls \<subseteq> set calls' \<Longrightarrow> t \<le> t' \<Longrightarrow> permits calls' t' p"
  by (auto simp: permits_def split: option.splits)

lemma policy_permits_mono:
  "policy_permits calls t a \<Longrightarrow> set calls \<subseteq> set calls' \<Longrightarrow> t \<le> t' \<Longrightarrow> policy_permits calls' t' a"
  unfolding policy_permits_def by (metis permits_mono subsetD)

lemma step_policy_permits:
  "step command w s s' \<Longrightarrow> policy_permits (wf_calls s) (wf_now s) a
     \<Longrightarrow> policy_permits (wf_calls s') (wf_now s') a"
  using step_frame policy_permits_mono by blast

lemma runs_start_a2a_authorization:
  "runs command (\<lambda>s. at_case command True E s
       \<and> policy_permits (wf_calls s) (wf_now s) ''SEND_TO_CUSTOMER_AGENT'')
     start_a2a_authorization (\<lambda>_. at_case command False E)"
proof -
  let ?P = "\<lambda>s. at_case command True E s
       \<and> policy_permits (wf_calls s) (wf_now s) ''SEND_TO_CUSTOMER_AGENT''"
  let ?rejected = "\<lambda>reason. seqW (audit ''A2A_AUTHORIZATION_REJECTED'' ''a2a-start'' [(''reason_code'', JStr reason)])
            (seqW (modifyW (\<lambda>s. s\<lparr>wf_action_status := Some ''REJECTED''\<rparr>))
               (finish ''ESCALATED'' reason))"
  have "runs command (at_case command True E) (?rejected reason) (\<lambda>_. at_case command False E)" for reason
    by (auto simp: same_core_def outcomes_def intro!: runs_seqW [OF runs_audit] runs_seqW [OF runs_record] runs_finish)
  then have rejected: "runs command ?P (?rejected reason) (\<lambda>_. at_case command False E)" for reason
    by (rule runs_consequence) auto
  have asked: "runs command ?P (activity w_start_a2a_authorization START_A2A_AUTHORIZATION i)
      (\<lambda>r s. \<exists>t. at_case command True (insert (t, START_A2A_AUTHORIZATION i (Some r)) E) s)"
    if "sa_case_id i = wi_case_id command" "sa_exact_amount_paise i = wi_amount_at_risk_paise command" for i
    using that by (intro runs_activity) (auto simp: justified_def approval_recorded_def intro: at_case_step_call)
  let ?started = "\<lambda>r s. s\<lparr>
             wf_action := Some ''SEND_TO_CUSTOMER_AGENT'', wf_action_status := Some (aar_state r),
             wf_provider_reference := Some (aar_remote_task_id r),
             wf_a2a_task_id := Some (aar_remote_task_id r), wf_a2a_state := Some (aar_state r),
             wf_next_a2a_poll_at := Some (if aar_state r = ''WORKING'' then wf_now s
                                          else wf_now s + A2A_POLL_INTERVAL),
             wf_phase := ''AWAITING_CUSTOMER_AUTHORIZATION''\<rparr>"
  have started: "runs command (at_case command True (insert (t, START_A2A_AUTHORIZATION i (Some r)) E))
      (modifyW (?started r)) (\<lambda>_. at_case command True (insert (t, START_A2A_AUTHORIZATION i (Some r)) E))"
    for t i r
  proof (rule runs_modify)
    fix w s assume s: "at_case command True (insert (t, START_A2A_AUTHORIZATION i (Some r)) E) s"
    let ?a = "s\<lparr>wf_action := Some ''SEND_TO_CUSTOMER_AGENT'', wf_action_status := Some (aar_state r),
      wf_provider_reference := Some (aar_remote_task_id r)\<rparr>"
    let ?b = "?a\<lparr>wf_a2a_task_id := Some (aar_remote_task_id r)\<rparr>"
    let ?e = "?b\<lparr>wf_a2a_state := Some (aar_state r)\<rparr>"
    let ?c = "?e\<lparr>wf_next_a2a_poll_at := Some (if aar_state r = ''WORKING'' then wf_now s
        else wf_now s + A2A_POLL_INTERVAL)\<rparr>"
    let ?d = "?c\<lparr>wf_phase := ''AWAITING_CUSTOMER_AUTHORIZATION''\<rparr>"
    have "step command w s ?a" by (rule Record) (simp add: same_core_def)
    moreover have "step command w ?a ?b"
      using s by (intro Task) (auto simp: task_started_def at_case_def)
    moreover have "step command w ?b ?e" by (rule Record) (simp add: same_core_def)
    moreover have "step command w ?e ?c" by (rule Schedule) simp
    moreover have "step command w ?c ?d" using s by (intro Phase) (simp add: at_case_def)
    ultimately show "path command w s (?started r s)"
      by (meson converse_rtranclp_into_rtranclp r_into_rtranclp)
  qed (simp add: at_case_def)
  have reported: "runs command (at_case command True (insert (t, START_A2A_AUTHORIZATION i (Some r)) E))
      (seqW (modifyW (?started r)) (audit ''A2A_AUTHORIZATION_STARTED'' ''a2a-start'' d))
      (\<lambda>_. at_case command False E)" for t i r d
    by (rule runs_seqW [OF started], rule runs_consequence [OF runs_audit])
      (auto intro: at_case_insert at_case_closed)
  show ?thesis unfolding start_a2a_authorization_def prod.case Let_def
    by (rule runs_with_input, simp add: at_case_def)
      (auto intro!: runs_option rejected runs_bindW [OF asked] runs_exists reported)
qed

lemma runs_submit_action:
  assumes "\<And>s. P s \<Longrightarrow> at_case command True E s"
    and "\<And>s e r. P s \<Longrightarrow> ea_case_id e = wi_case_id command \<Longrightarrow> ea_amount_paise e = wi_amount_at_risk_paise command
      \<Longrightarrow> ea_action e = pr_action policy \<Longrightarrow> ea_mandate e = mandate
      \<Longrightarrow> justified command (wf_calls s) (wf_now s) (EXECUTE_RECOVERY_ACTION e r)"
    and stable: "\<And>w s s'. step command w s s' \<Longrightarrow> \<not> wf_terminal s' \<Longrightarrow> P s \<Longrightarrow> P s'"
  shows "runs command P (submit_action policy mandate) (\<lambda>_. at_case command False E)"
proof -
  let ?f = "\<lambda>s. s\<lparr>wf_phase := ''EXECUTING_ACTION'', wf_action_status := Some ''EXECUTING''\<rparr>"
  have entered: "runs command P (modifyW ?f) (\<lambda>_. P)"
  proof (rule runs_modifyW)
    fix w s assume s: "P s"
    let ?a = "s\<lparr>wf_phase := ''EXECUTING_ACTION''\<rparr>"
    have open_case: "\<not> wf_terminal s" using assms(1) [OF s] by (simp add: at_case_def)
    have a: "step command w s ?a" using open_case by (rule Phase)
    have b: "step command w ?a (?f s)" by (rule Record) (simp add: same_core_def)
    have "P ?a" using stable [OF a _ s] open_case by simp
    then have "P (?f s)" using stable [OF b] open_case by simp
    with a b show "path command w s (?f s) \<and> P (?f s)" by auto
  qed
  have asked: "runs command P (activity w_execute_recovery_action EXECUTE_RECOVERY_ACTION e)
      (\<lambda>r. at_case command True E)"
    if "ea_case_id e = wi_case_id command" "ea_amount_paise e = wi_amount_at_risk_paise command"
      "ea_action e = pr_action policy" "ea_mandate e = mandate" for e
  proof (rule runs_activity)
    show "justified command (wf_calls s) (wf_now s) (EXECUTE_RECOVERY_ACTION e r)" if "P s" for s r
      using assms(2) [OF that] \<open>ea_case_id e = _\<close> \<open>ea_amount_paise e = _\<close> \<open>ea_action e = _\<close> \<open>ea_mandate e = _\<close>
      by blast
  qed (auto simp: approval_recorded_def dest!: assms(1) intro: step_at_case_same)
  show ?thesis unfolding submit_action_def
    by (rule runs_with_input, use assms(1) in \<open>simp add: at_case_def\<close>)
      (auto simp: same_core_def outcomes_def
        intro!: runs_seqW [OF entered] runs_bindW [OF asked] runs_seqW [OF runs_record] runs_seqW [OF runs_audit]
          runs_if runs_finish runs_weaken [OF runs_phase] runs_returnW intro: at_case_closed)
qed


lemma runs_execute_policy:
  "runs command (\<lambda>s. at_case command True E s \<and> policy_permits (wf_calls s) (wf_now s) (pr_action policy))
     (execute_action policy None) (\<lambda>_. at_case command False E)"
  if "pr_action policy \<notin> {''WAIT_FOR_GATEWAY_RETRY'', ''STOP''}"
proof (cases "pr_action policy = ''SEND_TO_CUSTOMER_AGENT''")
  case True
  then show ?thesis using runs_start_a2a_authorization [of command E] by (simp add: execute_action_def)
next
  case False
  have "runs command (\<lambda>s. at_case command True E s \<and> policy_permits (wf_calls s) (wf_now s) (pr_action policy))
     (submit_action policy None) (\<lambda>_. at_case command False E)"
    by (rule runs_submit_action)
      (use that False in \<open>auto simp: justified_def intro: step_policy_permits step_at_case\<close>)
  with False show ?thesis by (simp add: execute_action_def)
qed

lemma runs_execute_mandate:
  assumes "(t, POLL_A2A_MANDATE i (Some r)) \<in> E" "mp_verification_status r = ''VERIFIED''"
    "mp_mandate_id r \<noteq> None" "mp_verified_artifact r = Some m"
    "pm_exact_amount_paise i = wi_amount_at_risk_paise command"
    "pr_action policy = ''OPEN_CUSTOMER_PAYMENT_SURFACE''"
  shows "runs command (at_case command True E) (execute_action policy (Some m)) (\<lambda>_. at_case command False E)"
proof -
  have "mandate_verified (wf_calls s) (wi_amount_at_risk_paise command) m" if "at_case command True E s" for s
    using at_case_call [OF assms(1) that] assms by (auto simp: mandate_verified_def)
  then have "runs command (at_case command True E) (submit_action policy (Some m)) (\<lambda>_. at_case command False E)"
    by (intro runs_submit_action) (auto simp: justified_def assms(6) intro: step_at_case)
  then show ?thesis by (simp add: execute_action_def)
qed

lemma runs_unschedule:
  "runs command (at_case command b E) (modifyW (\<lambda>s. s\<lparr>wf_next_a2a_poll_at := None\<rparr>)) (\<lambda>_. at_case command b E)"
  by (rule runs_modify) (auto simp: at_case_def intro: Schedule)

lemma runs_settle_a2a_poll:
  assumes "(t, POLL_A2A_MANDATE i (Some r)) \<in> E"
    "pm_exact_amount_paise i = wi_amount_at_risk_paise command"
  shows "runs command (\<lambda>s. at_case command True E s \<and> wf_a2a_task_id s \<noteq> None)
     (settle_a2a_poll task_id surface_type r) (\<lambda>_. at_case command False E)"
proof -
  let ?P = "\<lambda>s. at_case command True E s \<and> wf_a2a_task_id s \<noteq> None"
  have noted: "runs command ?P (modifyW (\<lambda>s. s\<lparr>wf_a2a_state := Some (mp_task_state r)\<rparr>)) (\<lambda>_. ?P)"
    by (rule runs_stable [OF runs_record step_task]) (simp add: same_core_def)
  have again: "runs command ?P
      (modifyW (\<lambda>s. s\<lparr>wf_next_a2a_poll_at := Some (wf_now s + A2A_POLL_INTERVAL)\<rparr>)) (\<lambda>_. at_case command False E)"
    by (rule runs_consequence [OF runs_schedule]) (auto intro: at_case_closed)
  have cleared: "runs command ?P (modifyW (\<lambda>s. s\<lparr>wf_next_a2a_poll_at := None\<rparr>)) (\<lambda>_. at_case command True E)"
    by (rule runs_consequence [OF runs_unschedule]) auto
  show ?thesis unfolding settle_a2a_poll_def conclude_a2a_poll_def Let_def
    by (rule runs_seqW [OF noted], rule runs_if, rule again, rule runs_seqW [OF cleared])
      (auto simp: same_core_def outcomes_def intro!: runs_seqW [OF runs_audit] runs_if
        runs_seqW [OF runs_record] runs_finish runs_execute_mandate [OF assms(1) _ _ _ assms(2)])
qed


lemma runs_ask_poll:
  assumes "wf_a2a_task_id s = Some (pm_remote_task_id i)" "at_case command True E s"
    "pm_exact_amount_paise i = wi_amount_at_risk_paise command"
  shows "runs command (\<lambda>x. x = s) (activity w_poll_a2a_mandate POLL_A2A_MANDATE i)
    (\<lambda>r s. \<exists>t. at_case command True (insert (t, POLL_A2A_MANDATE i (Some r)) E) s \<and> wf_a2a_task_id s \<noteq> None)"
proof (rule runs_activity)
  have "task_started (wf_calls s) (pm_remote_task_id i)"
    using assms(1,2) by (simp add: at_case_def case_inv_def history_inv_def)
  then show "justified command (wf_calls x) (wf_now x) (POLL_A2A_MANDATE i r)" if "x = s" for x r
    using that assms(3) by (simp add: justified_def)
  show "\<exists>t. at_case command True (insert (t, POLL_A2A_MANDATE i (Some r)) E)
        (suspend w (log_call (POLL_A2A_MANDATE i (Some r)) x))
      \<and> wf_a2a_task_id (suspend w (log_call (POLL_A2A_MANDATE i (Some r)) x)) \<noteq> None"
    if "x = s" "step command w x (suspend w (log_call (POLL_A2A_MANDATE i (Some r)) x))" for w x r
    using at_case_step_call [OF assms(2)] that assms(1) by simp
qed (simp add: approval_recorded_def)

lemma runs_refuse_poll:
  "runs command (at_case command True E) (seqW (modifyW (\<lambda>s. s\<lparr>wf_next_a2a_poll_at := None,
      wf_action_status := Some ''REJECTED''\<rparr>)) (finish ''ESCALATED'' reason)) (\<lambda>_. at_case command False E)"
proof (rule runs_seqW [OF runs_modify])
  fix w s
  have "step command w s (s\<lparr>wf_next_a2a_poll_at := None\<rparr>)" by (rule Schedule) simp
  moreover have "step command w (s\<lparr>wf_next_a2a_poll_at := None\<rparr>)
      (s\<lparr>wf_next_a2a_poll_at := None, wf_action_status := Some ''REJECTED''\<rparr>)"
    by (rule Record) (simp add: same_core_def)
  ultimately show "path command w s (s\<lparr>wf_next_a2a_poll_at := None, wf_action_status := Some ''REJECTED''\<rparr>)"
    by auto
next
  show "runs command (at_case command True E) (finish ''ESCALATED'' reason) (\<lambda>_. at_case command False E)"
    by (rule runs_finish) (simp_all add: outcomes_def)
qed (simp add: at_case_def)

lemma runs_polled:
  assumes "wf_a2a_task_id s = Some (pm_remote_task_id i)" "at_case command True E s"
    "pm_exact_amount_paise i = wi_amount_at_risk_paise command"
  shows "runs command (\<lambda>x. x = s) (bindW (activity w_poll_a2a_mandate POLL_A2A_MANDATE i)
        (settle_a2a_poll task_id surface_type)) (\<lambda>_. at_case command False E)"
  by (rule runs_bindW [OF runs_ask_poll [OF assms]], rule runs_exists,
      rule runs_consequence [OF runs_settle_a2a_poll [OF insertI1 assms(3)]])
    (auto intro: at_case_insert)

lemma runs_here: "runs command P m Q \<Longrightarrow> P s \<Longrightarrow> runs command (\<lambda>x. x = s) m Q"
  by (erule runs_consequence) auto

lemma runs_poll_a2a_if_due [runs_intros]:
  "runs command (at_case command True E) poll_a2a_if_due (\<lambda>_. at_case command False E)"
  unfolding poll_a2a_if_due_def prod.case
  by (rule runs_withW)
    (auto intro!: runs_option runs_if runs_returnW runs_polled runs_with_input
      runs_here [OF runs_refuse_poll] intro: at_case_closed at_case_input)

lemma runs_recovery_loop [runs_intros]:
  "runs command (at_case command False E) (recovery_loop fuel n) (\<lambda>_. at_case command False E)"
proof (induction n)
  case 0
  show ?case unfolding recovery_loop.simps
    by (rule runs_withW_at runs_if runs_returnW runs_raiseW | assumption)+
next
  case (Suc n)
  have wait: "runs command (at_case command False E) (until_terminal
      (seqW wait_for_signal_or_deadline (seqW (drain_signals fuel) (recovery_loop fuel n))))
      (\<lambda>_. at_case command False E)"
    by (rule runs_until_terminal, rule runs_seqW [OF runs_wait_for_signal_or_deadline],
        rule runs_consequence [OF runs_seqW [OF runs_drain Suc.IH]]) (auto intro: at_case_closed)
  have poll: "runs command (at_case command False E) (until_terminal (withW (\<lambda>s.
      if deadline_passed s then expire else seqW poll_a2a_if_due (until_terminal
      (seqW wait_for_signal_or_deadline (seqW (drain_signals fuel) (recovery_loop fuel n)))))))
      (\<lambda>_. at_case command False E)"
    by (rule runs_until_terminal, rule runs_withW_at)
      (intro runs_if runs_expire runs_seqW [OF runs_poll_a2a_if_due wait])
  show ?case unfolding recovery_loop.simps
    by (rule runs_until_terminal, rule runs_consequence [OF runs_seqW [OF runs_drain poll]])
      (auto intro: at_case_closed)
qed

section \<open>The run\<close>

lemma runs_record_phase:
  assumes "\<And>s. same_core s (g s)" and "\<And>s. f s = (g s)\<lparr>wf_phase := p\<rparr>"
  shows "runs command (at_case command True E) (modifyW f) (\<lambda>_. at_case command True E)"
proof (rule runs_modify)
  fix w s assume s: "at_case command True E s"
  have "\<not> wf_terminal (g s)" using s assms(1) [of s] by (simp add: at_case_def same_core_def)
  then have "step command w (g s) (f s)" unfolding assms(2) by (rule Phase)
  moreover have "step command w s (g s)" using assms(1) by (rule Record)
  ultimately show "path command w s (f s)" by auto
next
  show "\<not> wf_terminal (f s)" if "at_case command True E s" for s
    using that assms(1) [of s] by (simp add: assms(2) at_case_def same_core_def)
qed

lemma runs_normalized:
  "runs command (at_case command True E)
     (modifyW (\<lambda>s. s\<lparr>wf_payment_state := a, wf_subscription_state := b, wf_phase := p\<rparr>))
     (\<lambda>_. at_case command True E)"
proof (rule runs_modify)
  fix w s assume s: "at_case command True E s"
  let ?a = "s\<lparr>wf_payment_state := a\<rparr>" let ?b = "?a\<lparr>wf_subscription_state := b\<rparr>"
  have "step command w s ?a" using s by (intro Payment) (simp add: at_case_def)
  moreover have "step command w ?a ?b" by (rule Record) (simp add: same_core_def)
  moreover have "step command w ?b (?b\<lparr>wf_phase := p\<rparr>)" using s by (intro Phase) (simp add: at_case_def)
  ultimately show "path command w s (s\<lparr>wf_payment_state := a, wf_subscription_state := b, wf_phase := p\<rparr>)"
    by (meson converse_rtranclp_into_rtranclp r_into_rtranclp)
qed (simp add: at_case_def)

lemma runs_policy_recorded:
  "runs command (at_case command True (insert e E))
     (seqW (modifyW (\<lambda>s. s\<lparr>wf_policy_disposition := d, wf_action := a\<rparr>))
        (seqW (audit ''POLICY_DECIDED'' c details) (returnW p)))
     (\<lambda>q s. q = p \<and> at_case command True (insert e E) s)"
  by (auto simp: same_core_def intro!: runs_seqW [OF runs_record] runs_seqW [OF runs_audit] runs_returnW)

lemma runs_diagnosed:
  "runs command (at_case command True E)
     (modifyW (\<lambda>s. s\<lparr>wf_diagnosis := d, wf_phase := p\<rparr>)) (\<lambda>_. at_case command True E)"
  by (rule runs_record_phase [where g = "\<lambda>s. s\<lparr>wf_diagnosis := d\<rparr>"]) (simp_all add: same_core_def)

lemma runs_seq_call:
  assumes "\<And>calls t r. justified command calls t (call arg r)" and "\<And>r. \<not> approval_recorded (call arg r)"
    and "runs command (at_case command b E) k Q"
  shows "runs command (at_case command b E) (seqW (activity perform call arg) k) Q"
  unfolding seqW_def by (rule runs_call [where call = call and arg = arg, OF assms(1,2)])
    (rule runs_forget [OF assms(3)])

lemma runs_decide_policy:
  "runs command (at_case command True E) (decide_policy command)
     (\<lambda>p s. \<exists>t i. at_case command True (insert (t, EVALUATE_POLICY i (Some p)) E) s)"
  unfolding decide_policy_def
  by (rule runs_call, simp add: free_call, simp add: free_call, rule runs_forget,
      rule runs_seqW [OF runs_normalized],
      rule runs_call, simp add: free_call, simp add: free_call, rule runs_forget,
      rule runs_seqW [OF runs_diagnosed],
      rule runs_seq_call, simp add: free_call, simp add: free_call,
      rule runs_seqW [OF runs_phase],
      rule runs_call, simp add: free_call, simp add: free_call,
      rule runs_consequence [OF runs_policy_recorded]) auto

lemma policy_permitsI:
  assumes "at_case command b E s" and "(t, EVALUATE_POLICY i (Some p)) \<in> E" and "permits (wf_calls s) (wf_now s) p"
  shows "policy_permits (wf_calls s) (wf_now s) (pr_action p)"
  using at_case_call [OF assms(2,1)] assms(3) by (auto simp: policy_permits_def)

lemma at_case_approved:
  "at_case command b E s \<Longrightarrow> wf_approval_received s = Some True \<Longrightarrow> \<exists>e \<in> set (wf_calls s). approved (snd e)"
  by (simp add: at_case_def case_inv_def history_inv_def)

lemma runs_require_approval:
  "runs command (at_case command True E)
     (modifyW (\<lambda>s. s\<lparr>wf_approval_required := True, wf_phase := p\<rparr>)) (\<lambda>_. at_case command False E)"
proof (rule runs_modify)
  fix w s assume s: "at_case command True E s"
  have "step command w s (s\<lparr>wf_approval_required := True\<rparr>)" by (rule Require)
  moreover have "step command w (s\<lparr>wf_approval_required := True\<rparr>) (s\<lparr>wf_approval_required := True, wf_phase := p\<rparr>)"
    using s by (intro Phase) (simp add: at_case_def)
  ultimately show "path command w s (s\<lparr>wf_approval_required := True, wf_phase := p\<rparr>)" by auto
qed simp

lemma runs_approval_decided:
  "runs command (\<lambda>s. at_case command False E s \<and> (wf_terminal s \<or> wf_approval_received s \<noteq> None))
     (until_terminal (withW (\<lambda>s. if wf_approval_received s = Some True then returnW ()
        else finish ''STOPPED'' ''APPROVAL_REJECTED'')))
     (\<lambda>_ s. at_case command False E s \<and> (wf_terminal s \<or> wf_approval_received s = Some True))"
proof -
  have "runs command (at_case command False E) (finish ''STOPPED'' reason) (\<lambda>_. at_case command False E)" for reason
    by (rule runs_finish) (simp_all add: outcomes_def)
  then show ?thesis using finish_terminal
    by (auto simp: runs_def until_terminal_def withW_def returnW_def)
qed

lemma runs_await_permission:
  assumes "(t, EVALUATE_POLICY i (Some p)) \<in> E"
  shows "runs command (at_case command True E) (await_permission fuel p)
     (\<lambda>_ s. at_case command False E s
        \<and> (\<not> wf_terminal s \<longrightarrow> policy_permits (wf_calls s) (wf_now s) (pr_action p)))"
    (is "runs command _ _ ?Q")
proof -
  consider "pr_disposition p = ''BLOCK''" | "pr_disposition p = ''DELAY''" "pr_delay_until p = None"
    | d where "pr_disposition p = ''DELAY''" "pr_delay_until p = Some d"
    | "pr_disposition p = ''REQUIRE_MANUAL_APPROVAL''"
    | "pr_disposition p \<notin> {''BLOCK'', ''DELAY'', ''REQUIRE_MANUAL_APPROVAL''}" by fastforce
  then show ?thesis
  proof cases
    case 1
    have "runs command (at_case command True E) (finish ''STOPPED'' ''BLOCKED_BY_POLICY'') (\<lambda>_. at_case command False E)"
      by (rule runs_finish) (simp_all add: outcomes_def)
    with 1 finish_terminal show ?thesis by (auto simp: await_permission_def runs_def)
  next
    case 2
    then show ?thesis using policy_permitsI [OF _ assms]
      by (auto simp: await_permission_def permits_def intro!: runs_returnW intro: at_case_closed)
  next
    case (3 d)
    have "runs command (at_case command False E) (bindW (parse_instant d) (wait_until fuel)) ?Q"
    proof (cases "denoted_instant d")
      case None
      then have "parse_instant d = raiseW Instant_Invalid"
        by (auto simp: parse_instant_def denoted_instant_def split: option.splits if_splits)
      then show ?thesis by (simp add: runs_def bindW_def raiseW_def)
    next
      case (Some u)
      then have "bindW (parse_instant d) (wait_until fuel) = wait_until fuel u"
        by (intro ext) (auto simp: parse_instant_def denoted_instant_def bindW_def returnW_def
            split: option.splits if_splits)
      then show ?thesis using Some 3 policy_permitsI [OF _ assms]
        by (auto simp: permits_def intro!: runs_consequence [OF runs_wait_until [where E = E]])
    qed
    from runs_seqW [OF runs_weaken [OF runs_phase] this] 3 show ?thesis by (simp add: await_permission_def)
  next
    case 4
    have "runs command (at_case command False E) (seqW (wait_for_approval_or_terminal fuel fuel)
        (until_terminal (withW (\<lambda>s. if wf_approval_received s = Some True then returnW ()
          else finish ''STOPPED'' ''APPROVAL_REJECTED'')))) ?Q"
      by (rule runs_consequence [OF runs_seqW [OF runs_approval_loop runs_approval_decided]])
        (use 4 policy_permitsI [OF _ assms] at_case_approved in \<open>auto simp: permits_def\<close>)
    from runs_seqW [OF runs_require_approval this] 4 show ?thesis by (simp add: await_permission_def)
  next
    case 5
    then show ?thesis using policy_permitsI [OF _ assms]
      by (auto simp: await_permission_def permits_def intro!: runs_returnW intro: at_case_closed)
  qed
qed


definition opened_case :: "world \<Rightarrow> RecoveryWorkflowInput \<Rightarrow> instant \<Rightarrow> RecoveryCaseWorkflow" where
  "opened_case w command d = (new_workflow (w_started w))
     \<lparr>wf_case_id := wi_case_id command, wf_deadline := Some d, wf_input := Some command\<rparr>"

definition run_case :: "nat \<Rightarrow> RecoveryWorkflowInput \<Rightarrow> RecoveryWorkflowResult workflow" where
  "run_case fuel command =
     bindW (decide_policy command) (\<lambda>policy.
        seqW (await_permission fuel policy)
       (seqW (until_terminal (act_on_policy policy))
       (seqW (until_terminal (await_recovery fuel))
          (withW (\<lambda>s. returnW (workflow_result s))))))"

lemma start_workflow_cases:
  "(\<exists>e s. start_workflow fuel w command = (Inl e, s) \<and> wf_calls s = [] \<and> signals_inv s \<and> e \<noteq> Out_Of_Fuel)
   \<or> (\<exists>d. denoted_instant (wi_recovery_deadline command) = Some d
        \<and> start_workflow fuel w command = run_case fuel command w (opened_case w command d))"
proof -
  consider "w_workflow_id w \<noteq> recovery_workflow_id (wi_case_id command)"
    | "wi_amount_at_risk_paise command < 0" "w_workflow_id w = recovery_workflow_id (wi_case_id command)"
    | "\<not> wi_amount_at_risk_paise command < 0" "w_workflow_id w = recovery_workflow_id (wi_case_id command)"
    by blast
  then show ?thesis
  proof cases
    case 3
    then show ?thesis
      by (cases "denoted_instant (wi_recovery_deadline command)")
        (auto simp: start_workflow_def run_def run_case_def opened_case_def seqW_def bindW_def modifyW_def
          parse_instant_def raiseW_def returnW_def denoted_instant_def signals_inv_def new_workflow_def
          split: option.splits if_splits)
  qed (auto simp: start_workflow_def run_def raiseW_def signals_inv_def new_workflow_def)
qed

lemma runs_act_on_policy:
  "runs command (\<lambda>s. at_case command True E s \<and> policy_permits (wf_calls s) (wf_now s) (pr_action p))
     (act_on_policy p) (\<lambda>_. at_case command False E)"
  (is "runs command ?P _ _")
proof -
  have "runs command (at_case command True E) (finish ''STOPPED'' reason) (\<lambda>_. at_case command False E)" for reason
    by (rule runs_finish) (simp_all add: outcomes_def)
  then have stopped: "runs command ?P (finish ''STOPPED'' reason) (\<lambda>_. at_case command False E)" for reason
    by (rule runs_consequence) auto
  have "runs command (at_case command True E) (modifyW (\<lambda>s. s\<lparr>wf_action_status := Some ''SCHEDULED''\<rparr>))
      (\<lambda>_. at_case command True E)" by (rule runs_record) (simp add: same_core_def)
  then have scheduled: "runs command ?P (modifyW (\<lambda>s. s\<lparr>wf_action_status := Some ''SCHEDULED''\<rparr>))
      (\<lambda>_. at_case command False E)" by (rule runs_consequence) (auto intro: at_case_closed)
  show ?thesis unfolding act_on_policy_def
    by (intro runs_if runs_execute_policy stopped scheduled)
qed

lemma runs_await_recovery:
  "runs command (at_case command True E) (await_recovery fuel) (\<lambda>_. at_case command False E)"
  unfolding await_recovery_def
proof (rule runs_seqW [OF runs_modify runs_recovery_loop])
  show "path command w s (if wf_action_status s \<noteq> Some ''UNCERTAIN''
       then s\<lparr>wf_phase := (if wf_a2a_task_id s \<noteq> None then ''AWAITING_CUSTOMER_AUTHORIZATION''
                          else ''AWAITING_RECOVERY'')\<rparr> else s)" if "at_case command True E s" for w s
    using that by (auto simp: at_case_def intro!: Phase)
qed simp

lemma runs_acted:
  "runs command (\<lambda>s. at_case command False E s
        \<and> (\<not> wf_terminal s \<longrightarrow> policy_permits (wf_calls s) (wf_now s) (pr_action p)))
      (until_terminal (act_on_policy p)) (\<lambda>_. at_case command False E)"
  unfolding until_terminal_def
proof (rule runs_withW)
  fix s assume s: "at_case command False E s
      \<and> (\<not> wf_terminal s \<longrightarrow> policy_permits (wf_calls s) (wf_now s) (pr_action p))"
  show "runs command (\<lambda>x. x = s) (if wf_terminal s then returnW () else act_on_policy p)
      (\<lambda>_. at_case command False E)"
    by (intro runs_if runs_returnW runs_here [OF runs_act_on_policy])
      (use s in \<open>auto intro: at_case_open\<close>)
qed

lemma runs_run_case:
  "runs command (at_case command True {}) (run_case fuel command)
     (\<lambda>r s. at_case command False {} s \<and> r = workflow_result s)"
proof -
  have "runs command (at_case command True (insert (t, EVALUATE_POLICY i (Some p)) {}))
      (seqW (await_permission fuel p)
       (seqW (until_terminal (act_on_policy p))
       (seqW (until_terminal (await_recovery fuel))
          (withW (\<lambda>s. returnW (workflow_result s))))))
      (\<lambda>r s. at_case command False {} s \<and> r = workflow_result s)" for t i p
    by (rule runs_seqW [OF runs_await_permission [OF insertI1]], rule runs_seqW [OF runs_acted],
        rule runs_seqW [OF runs_until_terminal [OF runs_await_recovery]], rule runs_withW, rule runs_returnW)
      (auto intro: at_case_insert)
  then show ?thesis unfolding run_case_def
    by (intro runs_bindW [OF runs_decide_policy] runs_exists) simp
qed

lemma opened_at_case: "at_case command True {} (opened_case w command d)"
  by (simp add: at_case_def opened_case_def new_workflow_def case_inv_def signals_inv_def
      outcome_inv_def history_inv_def)

lemma run_case_path:
  "path command w (opened_case w command d) (snd (run_case fuel command w (opened_case w command d)))"
  using runs_run_case [of command fuel] opened_at_case by (auto simp: runs_def)

lemma start_workflow_inv:
  "signals_inv (snd (start_workflow fuel w command))
   \<and> history_ok command (wf_calls (snd (start_workflow fuel w command)))"
  using start_workflow_cases [of fuel w command]
proof (elim disjE exE conjE)
  fix d assume "start_workflow fuel w command = run_case fuel command w (opened_case w command d)"
  then show ?thesis
    using path_case_inv [OF run_case_path] opened_at_case [of command w d]
    by (auto simp: at_case_def case_inv_def history_inv_def)
qed simp

text \<open>An operation that returns only with the case closed.\<close>

definition closes :: "'a workflow \<Rightarrow> bool" where
  "closes m \<longleftrightarrow> (\<forall>w s a s'. m w s = (Inr a, s') \<longrightarrow> wf_terminal s')"

lemma closesD: "closes m \<Longrightarrow> m w s = (Inr a, s') \<Longrightarrow> wf_terminal s'"
  unfolding closes_def by blast

lemma closes_bindW: "(\<And>a. closes (k a)) \<Longrightarrow> closes (bindW m k)"
  unfolding closes_def bindW_def by (auto split: prod.splits sum.splits)

lemma closes_seqW: "closes k \<Longrightarrow> closes (seqW m k)"
  unfolding seqW_def by (rule closes_bindW)

lemma closes_until_terminal: "closes m \<Longrightarrow> closes (until_terminal m)"
  by (auto simp: closes_def until_terminal_def withW_def returnW_def split: if_splits)

lemma closes_withW: "(\<And>s. closes (k s)) \<Longrightarrow> closes (withW k)"
  by (auto simp: closes_def withW_def)

lemma closes_expire: "closes expire"
  unfolding closes_def by (metis expire_terminal fst_conv snd_conv)

lemma closes_then_result: "closes m \<Longrightarrow> closes (seqW m (withW (\<lambda>s. returnW (f s))))"
  by (auto simp: seqW_def bindW_def withW_def returnW_def closes_def split: prod.splits sum.splits)

lemma closes_recovery_loop: "closes (recovery_loop fuel n)"
proof (induction n)
  case 0
  show ?case by (auto simp: closes_def withW_def returnW_def raiseW_def split: if_splits)
next
  case (Suc n)
  show ?case unfolding recovery_loop.simps
    by (intro closes_until_terminal closes_seqW closes_withW) (simp add: closes_expire closes_seqW closes_until_terminal Suc.IH)
qed

lemma closes_run_case: "closes (run_case fuel command)"
proof -
  have "closes (until_terminal (await_recovery fuel))"
    unfolding await_recovery_def by (intro closes_until_terminal closes_seqW closes_recovery_loop)
  then show ?thesis unfolding run_case_def by (intro closes_bindW closes_seqW closes_then_result)
qed

lemma start_workflow_returned:
  assumes "start_workflow fuel w command = (Inr r, s)"
  shows "wf_terminal s \<and> r = workflow_result s \<and> outcome_inv command s"
proof -
  obtain d where run: "run_case fuel command w (opened_case w command d) = (Inr r, s)"
    using start_workflow_cases [of fuel w command] assms by auto
  from runsD(2) [OF runs_run_case opened_at_case run] have "at_case command False {} s" "r = workflow_result s"
    by auto
  moreover have "wf_terminal s" using closesD [OF closes_run_case run] .
  ultimately show ?thesis by (auto simp: at_case_def case_inv_def)
qed

section \<open>Properties\<close>

text \<open>
  C18: a run of the workflow is a path of the state machine \<open>step\<close>, from the opened case to the
  state it ends in, whatever the activities answer, whenever signals arrive and wherever an
  activity fails.
\<close>

theorem run_refines_state_machine:
  assumes "w_workflow_id w = recovery_workflow_id (wi_case_id command)"
    and "0 \<le> wi_amount_at_risk_paise command"
    and "denoted_instant (wi_recovery_deadline command) = Some d"
  shows "(step command w)\<^sup>*\<^sup>* (opened_case w command d) (snd (start_workflow fuel w command))"
proof -
  have "start_workflow fuel w command = run_case fuel command w (opened_case w command d)"
    using assms
    by (auto simp: start_workflow_def run_def run_case_def opened_case_def seqW_def bindW_def modifyW_def
        parse_instant_def returnW_def denoted_instant_def split: option.splits if_splits)
  then show ?thesis using run_case_path by simp
qed

text \<open>
  C7: every call of a run is justified by what came before it. An action is submitted to a
  provider only after a policy answer that does not block it, after the approval the policy asks
  for was recorded, not before the end of a delay, for the amount of the case; a submission under
  a mandate follows the verification of that very mandate for that amount, which follows the
  customer-agent task, which the policy permitted.
\<close>

theorem submissions_are_justified:
  "history_ok command (wf_calls (snd (start_workflow fuel w command)))"
  using start_workflow_inv by blast

text \<open>
  C17: the outcome of a run that returns. The case is closed in the phase of its outcome, and it is
  reported as recovered only if an authoritative reconciliation of this case answered that it is
  recovered; then the payment is captured.
\<close>

theorem recovered_only_if_confirmed:
  assumes "start_workflow fuel w command = (Inr r, s)"
  shows "wf_terminal s \<and> wres_outcome r \<in> outcomes \<and> wf_phase s = ''TERMINAL_'' @ wres_outcome r
    \<and> (wres_case_recovered r \<longleftrightarrow> wres_outcome r = ''RECOVERED'')
    \<and> (wres_case_recovered r \<longrightarrow>
         wres_payment_state r = ''CAPTURED'' \<and> recovery_confirmed (wi_case_id command) (wf_calls s))"
proof -
  have s: "wf_terminal s" "r = workflow_result s" "outcome_inv command s"
    using start_workflow_returned [OF assms] by auto
  then obtain x where x: "wf_outcome s = Some x" "x \<in> outcomes" "wf_phase s = ''TERMINAL_'' @ x"
    by (auto simp: outcome_inv_def)
  then have "x \<noteq> []" by (auto simp: outcomes_def)
  with s x show ?thesis by (auto simp: workflow_result_def outcome_inv_def py_or_def truthy_def)
qed

text \<open>
  Signals are handled at most once. At the end of a run, the distinct signal ids received are
  those of the signals processed and of the signals still queued, each counted once; a repeated
  delivery only raises the count of duplicates.
\<close>

theorem signals_processed_once:
  "finite (wf_seen_signal_ids (snd (start_workflow fuel w command)))
   \<and> distinct (map signal_id (wf_signals (snd (start_workflow fuel w command))))
   \<and> wf_processed_signal_count (snd (start_workflow fuel w command))
       + length (wf_signals (snd (start_workflow fuel w command)))
     = card (wf_seen_signal_ids (snd (start_workflow fuel w command)))"
  using start_workflow_inv [of fuel w command] by (simp add: signals_inv_def)

end
