(* ===== verification/Workflow_Termination.thy ===== *)
theory Workflow_Termination
  imports Workflow_Safety
begin

text \<open>
  The workflow of a case ends. If finitely many distinct signals are ever sent to it, every loop
  makes progress: it takes a signal from the queue, or its clock moves towards the recovery
  deadline. The bound on the number of iterations is the number of signals plus the distance to
  the deadline.
\<close>

section \<open>Measures\<close>

definition pending_signals :: "ident set \<Rightarrow> RecoveryCaseWorkflow \<Rightarrow> nat" where
  "pending_signals S s = card (S - wf_seen_signal_ids s) + length (wf_signals s)"

definition time_left :: "instant \<Rightarrow> RecoveryCaseWorkflow \<Rightarrow> nat" where
  "time_left d s = nat (d - wf_now s)"

definition sends_only :: "world \<Rightarrow> ident set \<Rightarrow> bool" where
  "sends_only w S \<longleftrightarrow> finite S \<and> (\<forall>n. signal_id ` set (w_arrivals w n) \<subseteq> S)"

lemma pending_enqueue:
  assumes "finite S" and "signal_id x \<in> S"
  shows "pending_signals S (enqueue x s) = pending_signals S s"
proof (cases "signal_id x \<in> wf_seen_signal_ids s")
  case False
  then have "card (S - wf_seen_signal_ids s) = Suc (card (S - insert (signal_id x) (wf_seen_signal_ids s)))"
    using assms by (metis Diff_iff Diff_insert card_Suc_Diff1 finite_Diff)
  with False show ?thesis by (simp add: pending_signals_def enqueue_def)
qed (simp add: pending_signals_def enqueue_def)

lemma pending_fold_enqueue:
  "finite S \<Longrightarrow> signal_id ` set xs \<subseteq> S \<Longrightarrow> pending_signals S (fold enqueue xs s) = pending_signals S s"
  by (induction xs arbitrary: s) (simp_all add: pending_enqueue)

lemma pending_suspend: "sends_only w S \<Longrightarrow> pending_signals S (suspend w s) = pending_signals S s"
  using pending_fold_enqueue [of S "w_arrivals w (wf_awaits s)" s]
  by (simp add: sends_only_def suspend_def pending_signals_def)

lemma pending_cong:
  "wf_signals s' = wf_signals s \<Longrightarrow> wf_seen_signal_ids s' = wf_seen_signal_ids s
     \<Longrightarrow> pending_signals S s' = pending_signals S s"
  by (simp add: pending_signals_def)

lemma step_pending:
  assumes "sends_only w S" and "step command w s s'"
  shows "pending_signals S s' \<le> pending_signals S s"
  using assms(2)
proof (induction rule: step.induct)
  case (Ask s c)
  then show ?case using pending_suspend [OF assms(1), of "log_call c s"] by (simp add: pending_signals_def)
next
  case (Wait s timeout)
  then show ?case using wait_condition_snd [of timeout w s] pending_suspend [OF assms(1), of s]
    by (auto simp: pending_signals_def)
next
  case (Approve s a b r)
  let ?s = "log_call (RECORD_AUDIT_EVENT a r) (s\<lparr>wf_approval_received := Some b\<rparr>)"
  show ?case using pending_suspend [OF assms(1), of ?s] by (simp add: pending_signals_def)
next
  case (Take s x xs)
  then show ?case by (simp add: pending_signals_def pop_signal_def modifyW_def)
next
  case (Finish outcome s reason)
  then show ?case by (simp add: pending_signals_def finish_def modifyW_def Let_def)
qed (simp_all add: pending_signals_def same_core_def)

lemma path_pending:
  assumes "sends_only w S" and "path command w s s'"
  shows "pending_signals S s' \<le> pending_signals S s"
  using assms(2)
proof (induction rule: rtranclp_induct)
  case (step y z)
  then show ?case using step_pending [OF assms(1)] order_trans by blast
qed simp

lemma path_time_left: "path command w s s' \<Longrightarrow> time_left d s' \<le> time_left d s"
  using path_frame [of command w s s'] by (auto simp: time_left_def)

section \<open>Operations without loops\<close>

text \<open>\<open>steady\<close>: the operation has no loop to run out of fuel in.\<close>

definition steady :: "'a workflow \<Rightarrow> bool" where
  "steady m \<longleftrightarrow> (\<forall>w s. fst (m w s) \<noteq> Inl Out_Of_Fuel)"

named_theorems steady_intros \<open>operations without loops\<close>

lemma steady_basic [steady_intros]:
  "steady (returnW a)" "steady (modifyW f)" "steady (finish outcome reason)"
  by (simp_all add: steady_def returnW_def modifyW_def finish_def)

lemma steady_raiseW: "e \<noteq> Out_Of_Fuel \<Longrightarrow> steady (raiseW e)"
  by (simp add: steady_def raiseW_def)

lemma steady_activity [steady_intros]: "steady (activity perform call arg)"
  by (simp add: steady_def activity_def Let_def split: option.split)

lemma steady_bindW [steady_intros]:
  assumes "steady m" and "\<And>a. steady (k a)"
  shows "steady (bindW m k)"
  unfolding steady_def
proof (intro allI)
  fix w s
  obtain r s' where m: "m w s = (r, s')" by (cases "m w s")
  with assms(1) have "r \<noteq> Inl Out_Of_Fuel" unfolding steady_def by (metis fst_conv)
  then show "fst (bindW m k w s) \<noteq> Inl Out_Of_Fuel"
    using m assms(2) by (cases r) (auto simp: bindW_def steady_def)
qed

lemma steady_seqW [steady_intros]: "steady m \<Longrightarrow> steady k \<Longrightarrow> steady (seqW m k)"
  unfolding seqW_def by (rule steady_bindW)

lemma steady_withW [steady_intros]: "(\<And>s. steady (k s)) \<Longrightarrow> steady (withW k)"
  by (simp add: steady_def withW_def)

lemma steady_with_input [steady_intros]: "(\<And>c. steady (k c)) \<Longrightarrow> steady (with_input k)"
  unfolding with_input_def by (rule steady_withW) (auto intro: steady_raiseW split: option.split)

lemma steady_if [steady_intros]: "steady m \<Longrightarrow> steady k \<Longrightarrow> steady (if b then m else k)"
  by simp

lemma steady_option [steady_intros]:
  "steady m \<Longrightarrow> (\<And>x. steady (k x)) \<Longrightarrow> steady (case v of None \<Rightarrow> m | Some x \<Rightarrow> k x)"
  by (cases v) auto

lemma steady_bool [steady_intros]: "steady m \<Longrightarrow> steady k \<Longrightarrow> steady (case v of True \<Rightarrow> m | False \<Rightarrow> k)"
  by (cases v) auto

lemma steady_wait_condition [steady_intros]: "steady (wait_condition timeout)"
  by (simp add: steady_def wait_condition_def Let_def)

lemma steady_operations [steady_intros]:
  "steady (audit ev i d)" "steady (cancel_active_action reason)" "steady (apply_reconciliation r)"
  unfolding audit_def cancel_active_action_def apply_reconciliation_def by (intro steady_intros)+

lemma steady_send_receipt [steady_intros]: "steady (send_a2a_receipt_if_applicable r)"
  unfolding send_a2a_receipt_if_applicable_def prod.case Let_def by (intro steady_intros)

lemma steady_actions [steady_intros]:
  "steady start_a2a_authorization" "steady (submit_action policy mandate)"
  unfolding start_a2a_authorization_def submit_action_def prod.case Let_def by (intro steady_intros)+

lemma steady_execute [steady_intros]: "steady (execute_action policy mandate)"
  unfolding execute_action_def by (intro steady_intros)

lemma steady_poll [steady_intros]: "steady poll_a2a_if_due"
  unfolding poll_a2a_if_due_def settle_a2a_poll_def conclude_a2a_poll_def prod.case Let_def by (intro steady_intros)

lemma steady_suppress [steady_intros]: "steady (suppress_outreach i d)"
  unfolding suppress_outreach_def by (intro steady_intros)

lemma steady_close [steady_intros]: "steady (close_if_recovered r reason)"
  unfolding close_if_recovered_def by (intro steady_intros)

lemma steady_handle_signal [steady_intros]: "steady (handle_signal x)"
proof (cases x)
qed (simp_all add: handle_approval_def handle_payment_def handle_customer_intent_def handle_opt_out_def
    handle_cancellation_def handle_operator_escalation_def handle_a2a_update_def handle_mandate_def
    Let_def steady_intros)

lemma steady_expire [steady_intros]: "steady expire"
  unfolding expire_def by (intro steady_intros)

lemma steady_wait [steady_intros]: "steady wait_for_signal_or_deadline"
  unfolding wait_for_signal_or_deadline_def Let_def by (intro steady_intros)


section \<open>Draining the queue\<close>

lemma runs_path: "runs command P m Q \<Longrightarrow> P s \<Longrightarrow> m w s = (r, s') \<Longrightarrow> path command w s s'"
  by (rule runsD(1))

lemma seqW_fuel:
  assumes "fst (seqW m k w s) = Inl Out_Of_Fuel" and "fst (m w s) \<noteq> Inl Out_Of_Fuel"
  obtains a s' where "m w s = (Inr a, s')" and "fst (k w s') = Inl Out_Of_Fuel"
  using assms by (auto simp: seqW_def bindW_def split: prod.splits sum.splits)

lemma seqW_Inr:
  assumes "seqW m k w s = (Inr b, s'')"
  obtains a s' where "m w s = (Inr a, s')" and "k w s' = (Inr b, s'')"
  using assms by (auto simp: seqW_def bindW_def split: prod.splits sum.splits)

lemma pop_pending:
  "wf_signals s \<noteq> [] \<Longrightarrow> pending_signals S (snd (pop_signal w s)) < pending_signals S s"
  by (cases "wf_signals s") (simp_all add: pending_signals_def pop_signal_def modifyW_def)

lemma popped:
  assumes "at_case command False E s" "wf_signals s \<noteq> []" "\<not> wf_terminal s"
    and "seqW pop_signal (handle_signal x) w s = (r, s')" and "sends_only w S"
  shows "pending_signals S s' < pending_signals S s" and "r = Inr a \<Longrightarrow> at_case command False E s'"
proof -
  have here: "at_case command True E s \<and> wf_signals s \<noteq> []" using assms by (simp add: at_case_open)
  have popped: "pop_signal w s = (Inr (), snd (pop_signal w s))" by (simp add: pop_signal_def modifyW_def)
  then have at: "at_case command True E (snd (pop_signal w s))"
    using runsD(2) [OF runs_take here] by blast
  have handled: "handle_signal x w (snd (pop_signal w s)) = (r, s')"
    using assms(4) popped by (simp add: seqW_def bindW_def split: prod.splits sum.splits)
  note runs = runsD [OF runs_handle_signal at handled]
  show "pending_signals S s' < pending_signals S s"
    using path_pending [OF assms(5) runs(1)] pop_pending [OF assms(2), of S w] by linarith
  show "r = Inr a \<Longrightarrow> at_case command False E s'" by (rule runs(2))
qed

lemma seqW_assoc: "seqW (seqW m k) l = seqW m (seqW k l)"
  by (intro ext) (simp add: seqW_def bindW_def split: prod.split sum.split)

lemma drain_step:
  "wf_signals s \<noteq> [] \<Longrightarrow> \<not> wf_terminal s \<Longrightarrow>
     drain_signals (Suc n) w s
       = seqW (seqW pop_signal (handle_signal (hd (wf_signals s)))) (drain_signals n) w s"
  by (simp add: withW_def seqW_assoc)

lemma drain_idle:
  "wf_signals s = [] \<or> wf_terminal s \<Longrightarrow> drain_signals n w s = (Inr (), s)"
  by (cases n) (auto simp: withW_def returnW_def)

lemma drain_fuel:
  assumes "at_case command False E s" and "sends_only w S" and "pending_signals S s \<le> n"
  shows "fst (drain_signals n w s) \<noteq> Inl Out_Of_Fuel"
  using assms(1,3)
proof (induction n arbitrary: s)
  case 0
  then have "wf_signals s = []" by (simp add: pending_signals_def)
  then show ?case using drain_idle [of s 0 w] by simp
next
  case (Suc n)
  show ?case
  proof (cases "wf_signals s = [] \<or> wf_terminal s")
    case True
    then show ?thesis using drain_idle [OF True, of "Suc n" w] by simp
  next
    case False
    show ?thesis
    proof
      assume "fst (drain_signals (Suc n) w s) = Inl Out_Of_Fuel"
      then have "fst (seqW (seqW pop_signal (handle_signal (hd (wf_signals s)))) (drain_signals n) w s)
          = Inl Out_Of_Fuel" using False drain_step [of s n w] by simp
      moreover have "steady (seqW pop_signal (handle_signal (hd (wf_signals s))))"
        unfolding pop_signal_def by (intro steady_intros)
      ultimately obtain a s' where step: "seqW pop_signal (handle_signal (hd (wf_signals s))) w s = (Inr a, s')"
        and rest: "fst (drain_signals n w s') = Inl Out_Of_Fuel"
        by (auto simp: steady_def elim: seqW_fuel)
      have "pending_signals S s' < pending_signals S s" "at_case command False E s'"
        using popped [OF Suc.prems(1) _ _ step assms(2)] False by auto
      then have "fst (drain_signals n w s') \<noteq> Inl Out_Of_Fuel" using Suc by simp
      with rest show False by simp
    qed
  qed
qed

lemma drain_progress:
  assumes "at_case command False E s" and "sends_only w S" and "drain_signals n w s = (Inr u, s')"
    and "wf_signals s \<noteq> []" and "\<not> wf_terminal s"
  shows "pending_signals S s' < pending_signals S s"
proof (cases n)
  case 0
  then show ?thesis using assms by (simp add: withW_def raiseW_def)
next
  case (Suc m)
  then have "seqW (seqW pop_signal (handle_signal (hd (wf_signals s)))) (drain_signals m) w s = (Inr u, s')"
    using drain_step [OF assms(4,5), of m w] assms(3) by simp
  then obtain a t where t: "seqW pop_signal (handle_signal (hd (wf_signals s))) w s = (Inr a, t)"
    and rest: "drain_signals m w t = (Inr u, s')" by (rule seqW_Inr)
  note taken = popped [OF assms(1,4,5) t assms(2)]
  have "path command w t s'" using runs_path [OF runs_drain taken(2) rest] by simp
  with path_pending [OF assms(2)] taken(1) show ?thesis by force
qed

section \<open>Waiting\<close>

text \<open>
  A wait of positive length either ends with a signal in the queue or moves the clock to the end
  of the wait.
\<close>

lemma wait_condition_progress:
  assumes "wait_condition timeout w s = (r, s')"
  shows "wf_signals s' \<noteq> [] \<or> wf_now s + timeout \<le> wf_now s'"
  using assms by (auto simp: wait_condition_def Let_def split: if_splits)

lemma wait_then_drain_progress:
  assumes at: "at_case command False E s" and only: "sends_only w S" and "\<not> wf_terminal s"
    and wait: "wait_condition timeout w s = (Inr u, s1)" and drain: "drain_signals n w s1 = (Inr v, s2)"
    and "0 < timeout" and "wf_now s + timeout \<le> d"
  shows "pending_signals S s2 + time_left d s2 < pending_signals S s + time_left d s"
proof -
  have p1: "path command w s s1" using runs_path [OF runs_wait_condition at wait] .
  have at1: "at_case command False E s1" using runsD(2) [OF runs_wait_condition at wait] by simp
  have p2: "path command w s1 s2" using runs_path [OF runs_drain at1 drain] .
  have open1: "wf_terminal s1 = wf_terminal s"
    using wait_condition_snd [of timeout w s] wait by auto
  show ?thesis
  proof (cases "wf_signals s1 = []")
    case True
    then have "wf_now s + timeout \<le> wf_now s1" using wait_condition_progress [OF wait] by simp
    then have "time_left d s1 < time_left d s" using assms(6,7) by (simp add: time_left_def)
    then show ?thesis using path_pending [OF only p1] path_pending [OF only p2] path_time_left [OF p2, of d] by linarith
  next
    case False
    then have "pending_signals S s2 < pending_signals S s1"
      using drain_progress [OF at1 only drain] open1 assms(3) by simp
    then show ?thesis
      using path_pending [OF only p1] path_time_left [OF p1, of d] path_time_left [OF p2, of d] by linarith
  qed
qed


section \<open>The polling schedule\<close>

text \<open>\<open>stays X m\<close>: the property \<open>X\<close> of the state survives the operation \<open>m\<close>.\<close>

definition stays :: "(RecoveryCaseWorkflow \<Rightarrow> bool) \<Rightarrow> 'a workflow \<Rightarrow> bool" where
  "stays X m \<longleftrightarrow> (\<forall>w s. X s \<longrightarrow> X (snd (m w s)))"

named_theorems stays_intros \<open>operations that keep a property of the state\<close>

lemma stays_basic [stays_intros]: "stays X (returnW a)" "stays X (raiseW e)"
  by (simp_all add: stays_def returnW_def raiseW_def)

lemma stays_modifyW: "(\<And>s. X s \<Longrightarrow> X (f s)) \<Longrightarrow> stays X (modifyW f)"
  by (simp add: stays_def modifyW_def)

lemma stays_bindW [stays_intros]:
  assumes "stays X m" and "\<And>a. stays X (k a)"
  shows "stays X (bindW m k)"
  unfolding stays_def
proof (intro allI impI)
  fix w s assume "X s"
  obtain r s' where m: "m w s = (r, s')" by (cases "m w s")
  have "X s'" using assms(1) \<open>X s\<close> m unfolding stays_def by (metis snd_conv)
  then show "X (snd (bindW m k w s))"
    using m assms(2) by (cases r) (auto simp: bindW_def stays_def)
qed

lemma stays_seqW [stays_intros]: "stays X m \<Longrightarrow> stays X k \<Longrightarrow> stays X (seqW m k)"
  unfolding seqW_def by (rule stays_bindW)

lemma stays_withW [stays_intros]: "(\<And>s. X s \<Longrightarrow> stays X (k s)) \<Longrightarrow> stays X (withW k)"
  by (simp add: stays_def withW_def)

lemma stays_with_input [stays_intros]: "(\<And>c. stays X (k c)) \<Longrightarrow> stays X (with_input k)"
  unfolding with_input_def by (rule stays_withW) (auto intro: stays_intros split: option.split)

lemma stays_if [stays_intros]: "(b \<Longrightarrow> stays X m) \<Longrightarrow> (\<not> b \<Longrightarrow> stays X k) \<Longrightarrow> stays X (if b then m else k)"
  by simp

lemma stays_option [stays_intros]:
  "stays X m \<Longrightarrow> (\<And>x. stays X (k x)) \<Longrightarrow> stays X (case v of None \<Rightarrow> m | Some x \<Rightarrow> k x)"
  by (cases v) auto

lemma stays_bool [stays_intros]:
  "stays X m \<Longrightarrow> stays X k \<Longrightarrow> stays X (case v of True \<Rightarrow> m | False \<Rightarrow> k)"
  by (cases v) auto

text \<open>A property that neither a suspension nor a call changes, such as the polling schedule.\<close>

locale schedule_property =
  fixes X :: "RecoveryCaseWorkflow \<Rightarrow> bool"
  assumes depends: "wf_next_a2a_poll_at s' = wf_next_a2a_poll_at s \<Longrightarrow> wf_a2a_task_id s' = wf_a2a_task_id s
    \<Longrightarrow> X s' = X s"
begin

lemma stays_activity: "stays X (activity perform call arg)"
proof -
  have "X (snd (activity perform call arg w s)) = X s" for w s
    by (rule depends) (simp_all add: activity_def Let_def split: option.split)
  then show ?thesis by (simp add: stays_def)
qed

lemma stays_frame:
  assumes "\<And>s. wf_next_a2a_poll_at (f s) = wf_next_a2a_poll_at s" and "\<And>s. wf_a2a_task_id (f s) = wf_a2a_task_id s"
  shows "stays X (modifyW f)"
  using assms depends by (intro stays_modifyW) blast

lemma stays_finish: "stays X (finish outcome reason)"
  unfolding finish_def by (rule stays_frame) (simp_all add: Let_def)

lemma stays_audit: "stays X (audit ev i d)"
  unfolding audit_def by (intro stays_intros stays_activity)

lemma stays_cancel: "stays X (cancel_active_action reason)"
  unfolding cancel_active_action_def by (intro stays_intros stays_activity stays_frame) simp_all

lemma stays_apply_reconciliation: "stays X (apply_reconciliation r)"
  unfolding apply_reconciliation_def by (rule stays_frame) simp_all

lemma stays_send_receipt: "stays X (send_a2a_receipt_if_applicable r)"
  unfolding send_a2a_receipt_if_applicable_def prod.case Let_def
  by (intro stays_intros stays_activity stays_frame stays_audit) simp_all

lemma stays_close_if_recovered: "stays X (close_if_recovered r reason)"
  unfolding close_if_recovered_def by (intro stays_intros stays_send_receipt stays_cancel stays_finish)

lemma stays_suppress: "stays X (suppress_outreach i d)"
  unfolding suppress_outreach_def
  by (intro stays_intros stays_frame stays_cancel stays_audit) simp_all

lemma stays_submit: "stays X (submit_action policy mandate)"
  unfolding submit_action_def
  by (intro stays_intros stays_frame stays_activity stays_audit stays_finish) simp_all

lemmas stays_operations = stays_activity stays_frame stays_finish stays_audit stays_cancel
  stays_apply_reconciliation stays_close_if_recovered stays_suppress

lemma stays_expire: "stays X expire"
  unfolding expire_def by (intro stays_intros stays_cancel stays_finish)

lemma stays_wait_condition: "stays X (wait_condition timeout)"
proof -
  have "X (snd (wait_condition timeout w s)) = X s" for w s
    by (rule depends) (simp_all add: wait_condition_def Let_def)
  then show ?thesis by (simp add: stays_def)
qed

end

definition unscheduled :: "RecoveryCaseWorkflow \<Rightarrow> bool" where
  "unscheduled s \<longleftrightarrow> wf_next_a2a_poll_at s = None"

definition no_task :: "RecoveryCaseWorkflow \<Rightarrow> bool" where
  "no_task s \<longleftrightarrow> wf_a2a_task_id s = None \<and> wf_next_a2a_poll_at s = None"

interpretation unscheduled: schedule_property unscheduled
  by unfold_locales (simp add: unscheduled_def)

interpretation no_task: schedule_property no_task
  by unfold_locales (simp add: no_task_def)

lemma no_task_handle_signal: "stays no_task (handle_signal x)"
proof (cases x)
  case (A2A_UPDATE p)
  have "stays no_task (handle_a2a_update p)" unfolding handle_a2a_update_def
    by (rule stays_withW, rule stays_if) (auto simp: no_task_def intro: no_task.stays_audit)
  with A2A_UPDATE show ?thesis by simp
next
  case (MANDATE p)
  then show ?thesis
    by (auto simp: handle_mandate_def no_task_def intro!: stays_seqW no_task.stays_audit stays_modifyW)
qed (simp_all add: handle_approval_def handle_payment_def handle_customer_intent_def handle_opt_out_def
    handle_cancellation_def handle_operator_escalation_def Let_def stays_intros no_task.stays_operations)

lemma no_task_drain: "stays no_task (drain_signals n)"
proof (induction n)
  case 0
  show ?case unfolding drain_signals.simps by (intro stays_intros)
next
  case (Suc n)
  show ?case unfolding drain_signals.simps pop_signal_def
    by (intro stays_intros no_task_handle_signal Suc.IH no_task.stays_frame) simp_all
qed

text \<open>After \<open>poll_a2a_if_due\<close> no poll is due.\<close>

definition not_due :: "RecoveryCaseWorkflow \<Rightarrow> bool" where
  "not_due s = (case wf_next_a2a_poll_at s of None \<Rightarrow> True | Some t \<Rightarrow> wf_now s < t)"

lemma unscheduled_not_due: "unscheduled s \<Longrightarrow> not_due s"
  by (simp add: unscheduled_def not_due_def)

lemma settle_not_due: "not_due (snd (settle_a2a_poll task_id surface_type r w s))"
proof (cases "mp_verification_status r = ''PENDING''")
  case True
  then show ?thesis
    by (simp add: settle_a2a_poll_def seqW_def bindW_def modifyW_def not_due_def A2A_POLL_INTERVAL_def duration_defs)
next
  case False
  have "stays unscheduled (conclude_a2a_poll task_id surface_type r)"
    by (simp add: conclude_a2a_poll_def Let_def execute_action_def stays_intros unscheduled.stays_operations
        unscheduled.stays_submit)
  then have "unscheduled (snd (conclude_a2a_poll task_id surface_type r w
      (s\<lparr>wf_a2a_state := Some (mp_task_state r), wf_next_a2a_poll_at := None\<rparr>)))"
    by (simp add: stays_def unscheduled_def)
  with False show ?thesis
    by (intro unscheduled_not_due) (simp add: settle_a2a_poll_def seqW_def bindW_def modifyW_def)
qed

lemma poll_not_due:
  assumes "poll_a2a_if_due w s = (Inr u, s')" and "history_inv command s"
  shows "not_due s'"
proof (cases "wf_next_a2a_poll_at s")
  case None
  with assms(1) show ?thesis
    by (auto simp: poll_a2a_if_due_def withW_def returnW_def not_due_def split: option.splits)
next
  case (Some due)
  with assms(2) obtain task_id where task: "wf_a2a_task_id s = Some task_id" by (auto simp: history_inv_def)
  show ?thesis
  proof (cases "wf_now s < due")
    case True
    with assms(1) Some task show ?thesis
      by (auto simp: poll_a2a_if_due_def withW_def returnW_def not_due_def)
  next
    case False
    have settled: "not_due s2" if "bindW m (settle_a2a_poll task_id k) w s = (Inr (), s2)" for m k s2
      using that settle_not_due [of task_id k] by (auto simp: bindW_def split: prod.splits sum.splits) (metis snd_conv)
    have refused: "not_due s2" if "seqW (modifyW (\<lambda>s. s\<lparr>wf_next_a2a_poll_at := None,
        wf_action_status := Some ''REJECTED''\<rparr>)) (finish ''ESCALATED'' reason) w s = (Inr (), s2)" for reason s2
      using that by (auto simp: seqW_def bindW_def modifyW_def finish_def not_due_def)
    from assms(1) Some task False show ?thesis
      by (auto simp: poll_a2a_if_due_def withW_def with_input_def raiseW_def
          split: option.splits dest: settled refused)
  qed
qed


section \<open>The loops end\<close>

lemma wait_for_signal_cases:
  assumes "wf_deadline s = Some d" and "not_due s" and "\<not> deadline_passed s"
  shows "\<exists>timeout. 0 < timeout \<and> wf_now s + timeout \<le> d
    \<and> wait_for_signal_or_deadline w s = wait_condition timeout w s"
proof -
  let ?wake = "case wf_next_a2a_poll_at s of None \<Rightarrow> d | Some p \<Rightarrow> min d p"
  have "0 < ?wake - wf_now s" "wf_now s + (?wake - wf_now s) \<le> d"
    using assms by (auto simp: not_due_def deadline_passed_def split: option.splits)
  moreover have "wait_for_signal_or_deadline w s = wait_condition (?wake - wf_now s) w s"
    using calculation(1) assms(1) by (simp add: wait_for_signal_or_deadline_def withW_def)
  ultimately show ?thesis by blast
qed

lemma wait_drain_progress:
  assumes "at_case command False E s" and "sends_only w S" and "\<not> wf_terminal s"
    and "wf_deadline s = Some d" and "not_due s" and "\<not> deadline_passed s"
    and "wait_for_signal_or_deadline w s = (Inr u, s1)" and "drain_signals n w s1 = (Inr v, s2)"
  shows "pending_signals S s2 + time_left d s2 < pending_signals S s + time_left d s"
proof -
  obtain timeout where "0 < timeout" "wf_now s + timeout \<le> d" "wait_condition timeout w s = (Inr u, s1)"
    using wait_for_signal_cases [OF assms(4-6), of w] assms(7) by auto
  then show ?thesis using wait_then_drain_progress [OF assms(1-3) _ assms(8)] by blast
qed

text \<open>One operation after the other: the rest must run out of fuel if the whole does.\<close>

lemma until_terminal_fuel:
  "fst (until_terminal m w s) = Inl Out_Of_Fuel \<Longrightarrow> \<not> wf_terminal s \<and> fst (m w s) = Inl Out_Of_Fuel"
  by (auto simp: until_terminal_def withW_def returnW_def split: if_splits)

lemma steady_fuel:
  assumes "fst (seqW m k w s) = Inl Out_Of_Fuel" and "steady m"
  obtains a s' where "m w s = (Inr a, s')" and "fst (k w s') = Inl Out_Of_Fuel"
  using seqW_fuel [OF assms(1)] assms(2) by (auto simp: steady_def)

lemma runs_next:
  assumes "runs command (at_case command b E) m (\<lambda>_. at_case command False E)"
    and "at_case command b E s" and "m w s = (Inr a, s')" and "sends_only w S"
  shows "at_case command False E s' \<and> wf_deadline s' = wf_deadline s
    \<and> pending_signals S s' \<le> pending_signals S s \<and> time_left d s' \<le> time_left d s"
  using runsD [OF assms(1,2,3)] path_frame path_pending [OF assms(4)] path_time_left by blast

lemma loop_states:
  assumes "fst (recovery_loop fuel (Suc n) w s) = Inl Out_Of_Fuel"
    and "fst (drain_signals fuel w s) \<noteq> Inl Out_Of_Fuel"
  obtains s1 s2 s3 where "\<not> wf_terminal s" "drain_signals fuel w s = (Inr (), s1)"
    "\<not> wf_terminal s1" "\<not> deadline_passed s1" "poll_a2a_if_due w s1 = (Inr (), s2)" "\<not> wf_terminal s2"
    "wait_for_signal_or_deadline w s2 = (Inr (), s3)"
    "fst (seqW (drain_signals fuel) (recovery_loop fuel n) w s3) = Inl Out_Of_Fuel"
proof -
  let ?tail = "seqW wait_for_signal_or_deadline (seqW (drain_signals fuel) (recovery_loop fuel n))"
  let ?body = "withW (\<lambda>s. if deadline_passed s then expire else seqW poll_a2a_if_due (until_terminal ?tail))"
  have start: "\<not> wf_terminal s" "fst (seqW (drain_signals fuel) (until_terminal ?body) w s) = Inl Out_Of_Fuel"
    using until_terminal_fuel assms(1) by auto
  from start(2) assms(2) obtain s1 where drained: "drain_signals fuel w s = (Inr (), s1)"
    and body: "fst (until_terminal ?body w s1) = Inl Out_Of_Fuel" by (auto elim: seqW_fuel)
  have open1: "\<not> wf_terminal s1" "\<not> deadline_passed s1"
    and polling: "fst (seqW poll_a2a_if_due (until_terminal ?tail) w s1) = Inl Out_Of_Fuel"
    using until_terminal_fuel [OF body] steady_expire by (auto simp: withW_def steady_def split: if_splits)
  from steady_fuel [OF polling steady_poll] obtain s2 where polled: "poll_a2a_if_due w s1 = (Inr (), s2)"
    and tail: "fst (until_terminal ?tail w s2) = Inl Out_Of_Fuel" by auto
  have open2: "\<not> wf_terminal s2" and waiting: "fst (?tail w s2) = Inl Out_Of_Fuel"
    using until_terminal_fuel [OF tail] by auto
  from steady_fuel [OF waiting steady_wait] obtain s3 where "wait_for_signal_or_deadline w s2 = (Inr (), s3)"
    "fst (seqW (drain_signals fuel) (recovery_loop fuel n) w s3) = Inl Out_Of_Fuel" by auto
  with start(1) drained open1 polled open2 show ?thesis by (rule that)
qed

lemma loop_progress:
  assumes at: "at_case command False E s" and only: "sends_only w S" and "wf_deadline s = Some d"
    and "drain_signals fuel w s = (Inr (), s1)" "\<not> wf_terminal s1" "\<not> deadline_passed s1"
    "poll_a2a_if_due w s1 = (Inr (), s2)" "\<not> wf_terminal s2"
    "wait_for_signal_or_deadline w s2 = (Inr (), s3)" "drain_signals fuel w s3 = (Inr (), s4)"
  shows "at_case command False E s4 \<and> wf_deadline s4 = Some d
    \<and> pending_signals S s4 \<le> pending_signals S s
    \<and> pending_signals S s4 + time_left d s4 < pending_signals S s + time_left d s"
proof -
  note n1 = runs_next [OF runs_drain at assms(4) only, of d]
  then have at1: "at_case command True E s1" using assms(5) at_case_open by blast
  note n2 = runs_next [OF runs_poll_a2a_if_due at1 assms(7) only, of d]
  then have at2: "at_case command False E s2" by blast
  note n3 = runs_next [OF runs_wait_for_signal_or_deadline at2 assms(9) only, of d]
  then have at3: "at_case command False E s3" by blast
  note n4 = runs_next [OF runs_drain at3 assms(10) only, of d]
  have "history_inv command s1" using at1 by (simp add: at_case_def case_inv_def)
  then have due: "not_due s2" by (rule poll_not_due [OF assms(7)])
  have "pending_signals S s4 + time_left d s4 < pending_signals S s1 + time_left d s1"
  proof (cases "deadline_passed s2")
    case True
    then have "time_left d s2 < time_left d s1"
      using assms(3,6) n1 n2 by (auto simp: time_left_def deadline_passed_def)
    with n2 n3 n4 show ?thesis by linarith
  next
    case False
    have "wf_deadline s2 = Some d" using n1 n2 assms(3) by simp
    from wait_drain_progress [OF at2 only assms(8) this due False assms(9,10)] n2 show ?thesis by linarith
  qed
  with n1 n2 n3 n4 assms(3) show ?thesis by auto
qed

lemma steady_bind_fuel:
  assumes "fst (bindW m k w s) = Inl Out_Of_Fuel" and "steady m"
  obtains a s' where "m w s = (Inr a, s')" and "fst (k a w s') = Inl Out_Of_Fuel"
proof -
  obtain r s' where m: "m w s = (r, s')" by (cases "m w s")
  with assms(2) have "r \<noteq> Inl Out_Of_Fuel" unfolding steady_def by (metis fst_conv)
  with assms(1) m that show ?thesis by (cases r) (auto simp: bindW_def)
qed

lemma recovery_loop_fuel:
  assumes "at_case command False E s" and only: "sends_only w S" and "wf_deadline s = Some d"
    and "pending_signals S s \<le> fuel" and "pending_signals S s + time_left d s < n"
  shows "fst (recovery_loop fuel n w s) \<noteq> Inl Out_Of_Fuel"
  using assms(1,3,4,5)
proof (induction n arbitrary: s)
  case 0
  then show ?case by simp
next
  case (Suc n)
  show ?case
  proof
    assume "fst (recovery_loop fuel (Suc n) w s) = Inl Out_Of_Fuel"
    from loop_states [OF this drain_fuel [OF Suc.prems(1) only Suc.prems(3)]]
    obtain s1 s2 s3 where states: "drain_signals fuel w s = (Inr (), s1)"
      "\<not> wf_terminal s1" "\<not> deadline_passed s1" "poll_a2a_if_due w s1 = (Inr (), s2)" "\<not> wf_terminal s2"
      "wait_for_signal_or_deadline w s2 = (Inr (), s3)"
      and last: "fst (seqW (drain_signals fuel) (recovery_loop fuel n) w s3) = Inl Out_Of_Fuel" by metis
    have at1: "at_case command True E s1"
      using runs_next [OF runs_drain Suc.prems(1) states(1) only, of d] states(2) at_case_open by blast
    note n2 = runs_next [OF runs_poll_a2a_if_due at1 states(4) only, of d]
    then have "at_case command False E s2" by blast
    note n3 = runs_next [OF runs_wait_for_signal_or_deadline this states(6) only, of d]
    have "at_case command False E s3" "pending_signals S s3 \<le> fuel"
      using runs_next [OF runs_drain Suc.prems(1) states(1) only, of d] n2 n3 Suc.prems(3) by auto
    then have "fst (drain_signals fuel w s3) \<noteq> Inl Out_Of_Fuel" by (rule drain_fuel [OF _ only])
    with last obtain s4 where drained: "drain_signals fuel w s3 = (Inr (), s4)"
      and again: "fst (recovery_loop fuel n w s4) = Inl Out_Of_Fuel" by (auto elim: seqW_fuel)
    have "fst (recovery_loop fuel n w s4) \<noteq> Inl Out_Of_Fuel"
      using loop_progress [OF Suc.prems(1) only Suc.prems(2) states drained] Suc.prems(3,4)
      by (intro Suc.IH) auto
    with again show False by simp
  qed
qed


lemma wait_until_loop_fuel:
  assumes "at_case command False E s" and only: "sends_only w S" and "wf_deadline s = Some d"
    and "pending_signals S s \<le> fuel" and "pending_signals S s + time_left d s < n"
  shows "fst (wait_until_loop fuel target n w s) \<noteq> Inl Out_Of_Fuel"
  using assms(1,3,4,5)
proof (induction n arbitrary: s)
  case 0
  then show ?case by simp
next
  case (Suc n)
  let ?timeout = "min target d - wf_now s"
  show ?case
  proof
    assume "fst (wait_until_loop fuel target (Suc n) w s) = Inl Out_Of_Fuel"
    then have "\<not> wf_terminal s" "0 < ?timeout"
      and "fst (seqW (wait_condition ?timeout) (seqW (drain_signals fuel) (wait_until_loop fuel target n)) w s)
        = Inl Out_Of_Fuel"
      using Suc.prems(2) by (auto simp: withW_def returnW_def Let_def split: if_splits)
    from steady_fuel [OF this(3) steady_wait_condition] obtain s1 where wait: "wait_condition ?timeout w s = (Inr (), s1)"
      and last: "fst (seqW (drain_signals fuel) (wait_until_loop fuel target n) w s1) = Inl Out_Of_Fuel" by auto
    note n1 = runs_next [OF runs_wait_condition Suc.prems(1) wait only, of d]
    then have at1: "at_case command False E s1" and "pending_signals S s1 \<le> fuel"
      using Suc.prems(3) by auto
    from drain_fuel [OF at1 only this(2)] last obtain s2 where drained: "drain_signals fuel w s1 = (Inr (), s2)"
      and again: "fst (wait_until_loop fuel target n w s2) = Inl Out_Of_Fuel" by (auto elim: seqW_fuel)
    have "pending_signals S s2 + time_left d s2 < pending_signals S s + time_left d s"
      using wait_then_drain_progress [OF Suc.prems(1) only \<open>\<not> wf_terminal s\<close> wait drained \<open>0 < ?timeout\<close>] by simp
    then have "fst (wait_until_loop fuel target n w s2) \<noteq> Inl Out_Of_Fuel"
      using runs_next [OF runs_drain at1 drained only, of d] n1 Suc.prems(2,3,4) by (intro Suc.IH) auto
    with again show False by simp
  qed
qed

lemma approval_idle:
  "wf_terminal s \<Longrightarrow> wait_for_approval_or_terminal fuel n w s = (Inr (), s)"
  by (cases n) (simp_all add: withW_def returnW_def)

lemma approval_checked:
  assumes "fst (seqW (withW (\<lambda>s. if deadline_passed s then expire else returnW ()))
      (wait_for_approval_or_terminal fuel n) w s) = Inl Out_Of_Fuel"
  shows "\<not> deadline_passed s \<and> fst (wait_for_approval_or_terminal fuel n w s) = Inl Out_Of_Fuel"
proof -
  have "steady (withW (\<lambda>s. if deadline_passed s then expire else returnW ()))" by (intro steady_intros)
  from steady_fuel [OF assms this] obtain s' where
    s': "withW (\<lambda>s. if deadline_passed s then expire else returnW ()) w s = (Inr (), s')"
    and rest: "fst (wait_for_approval_or_terminal fuel n w s') = Inl Out_Of_Fuel" by auto
  have "\<not> wf_terminal s'" using rest approval_idle [of s' fuel n w] by auto
  then show ?thesis using s' rest closesD [OF closes_expire, of w s]
    by (auto simp: withW_def returnW_def split: if_splits)
qed

lemma deadline_passed_mono:
  "path command w s s' \<Longrightarrow> deadline_passed s \<Longrightarrow> deadline_passed s'"
  using path_frame [of command w s s'] by (auto simp: deadline_passed_def split: option.splits)

lemma stays_snd: "stays X m \<Longrightarrow> X s \<Longrightarrow> m w s = (r, s') \<Longrightarrow> X s'"
  unfolding stays_def by (metis snd_conv)

lemma no_task_wait: "stays no_task wait_for_signal_or_deadline"
  unfolding wait_for_signal_or_deadline_def Let_def by (intro stays_intros no_task.stays_wait_condition)

lemma approval_loop_fuel:
  assumes "at_case command False E s" and only: "sends_only w S" and "wf_deadline s = Some d" and "no_task s"
    and "pending_signals S s \<le> fuel" and "pending_signals S s + time_left d s < n"
  shows "fst (wait_for_approval_or_terminal fuel n w s) \<noteq> Inl Out_Of_Fuel"
  using assms(1,3,4,5,6)
proof (induction n arbitrary: s)
  case 0
  then show ?case by simp
next
  case (Suc n)
  let ?check = "withW (\<lambda>s. if deadline_passed s then expire else returnW ())"
  let ?rest = "seqW ?check (wait_for_approval_or_terminal fuel n)"
  show ?case
  proof
    assume "fst (wait_for_approval_or_terminal fuel (Suc n) w s) = Inl Out_Of_Fuel"
    then have open0: "\<not> wf_terminal s"
      and first: "fst (seqW wait_for_signal_or_deadline (seqW (drain_signals fuel) ?rest) w s) = Inl Out_Of_Fuel"
      by (auto simp: withW_def returnW_def split: if_splits)
    from steady_fuel [OF first steady_wait] obtain s1 where wait: "wait_for_signal_or_deadline w s = (Inr (), s1)"
      and second: "fst (seqW (drain_signals fuel) ?rest w s1) = Inl Out_Of_Fuel" by auto
    note n1 = runs_next [OF runs_wait_for_signal_or_deadline Suc.prems(1) wait only, of d]
    then have at1: "at_case command False E s1" and "pending_signals S s1 \<le> fuel"
      using Suc.prems(4) by auto
    from drain_fuel [OF at1 only this(2)] second obtain s2 where drained: "drain_signals fuel w s1 = (Inr (), s2)"
      and "fst (?rest w s2) = Inl Out_Of_Fuel" by (auto elim: seqW_fuel)
    then have early: "\<not> deadline_passed s2"
      and again: "fst (wait_for_approval_or_terminal fuel n w s2) = Inl Out_Of_Fuel"
      using approval_checked by blast+
    have "\<not> deadline_passed s"
      using early deadline_passed_mono [OF runs_path [OF runs_wait_for_signal_or_deadline Suc.prems(1) wait]]
        deadline_passed_mono [OF runs_path [OF runs_drain at1 drained]] by blast
    moreover have "not_due s" using Suc.prems(3) by (simp add: no_task_def not_due_def)
    ultimately have "pending_signals S s2 + time_left d s2 < pending_signals S s + time_left d s"
      using wait_drain_progress [OF Suc.prems(1) only open0 Suc.prems(2) _ _ wait drained] by blast
    moreover have "no_task s2"
      using stays_snd [OF no_task_drain stays_snd [OF no_task_wait Suc.prems(3) wait] drained] .
    ultimately have "fst (wait_for_approval_or_terminal fuel n w s2) \<noteq> Inl Out_Of_Fuel"
      using runs_next [OF runs_drain at1 drained only, of d] n1 Suc.prems(2,4,5) by (intro Suc.IH) auto
    with again show False by simp
  qed
qed

section \<open>The run ends\<close>

lemma no_task_decide: "stays no_task (decide_policy command)"
  unfolding decide_policy_def by (intro stays_intros no_task.stays_operations) simp_all

lemma steady_decide: "steady (decide_policy command)"
  unfolding decide_policy_def by (intro steady_intros)

lemma steady_act: "steady (act_on_policy p)"
  unfolding act_on_policy_def by (intro steady_intros)

lemma steady_parse: "steady (parse_instant t)"
  unfolding parse_instant_def by (auto intro!: steady_intros steady_raiseW split: option.split)

lemma parse_instant_keeps: "parse_instant t w s = (r, s') \<Longrightarrow> s' = s"
  by (auto simp: parse_instant_def raiseW_def returnW_def split: option.splits if_splits)

text \<open>What the loops need of the state they start in.\<close>

definition fuelled :: "nat \<Rightarrow> RecoveryWorkflowInput \<Rightarrow> world \<Rightarrow> ident set \<Rightarrow> instant
    \<Rightarrow> (instant \<times> activity_call) set \<Rightarrow> RecoveryCaseWorkflow \<Rightarrow> bool" where
  "fuelled fuel command w S d E s \<longleftrightarrow>
     at_case command False E s \<and> sends_only w S \<and> wf_deadline s = Some d
     \<and> pending_signals S s + time_left d s < fuel"

lemma fuelled_next:
  assumes "fuelled fuel command w S d E s" and "path command w s s'" and "at_case command False E s'"
  shows "fuelled fuel command w S d E s'"
  using assms path_frame [OF assms(2)] path_pending [OF _ assms(2), of S] path_time_left [OF assms(2), of d]
  by (auto simp: fuelled_def)

lemma fuelled_runs:
  assumes "fuelled fuel command w S d E s" and "runs command (at_case command False E) m (\<lambda>_. at_case command False E)"
    and "m w s = (Inr a, s')"
  shows "fuelled fuel command w S d E s'"
  using assms(1) by (rule fuelled_next) (use runsD [OF assms(2) _ assms(3)] assms(1) in \<open>auto simp: fuelled_def\<close>)

lemma fuelled_same:
  assumes "fuelled fuel command w S d E s" and "at_case command False E s'" and "wf_deadline s' = wf_deadline s"
    and "wf_signals s' = wf_signals s" "wf_seen_signal_ids s' = wf_seen_signal_ids s" "wf_now s' = wf_now s"
  shows "fuelled fuel command w S d E s'"
  using assms by (simp add: fuelled_def pending_signals_def time_left_def)

lemma await_recovery_fuel:
  assumes "fuelled fuel command w S d E s" and "\<not> wf_terminal s"
  shows "fst (await_recovery fuel w s) \<noteq> Inl Out_Of_Fuel"
proof
  let ?f = "\<lambda>s. if wf_action_status s \<noteq> Some ''UNCERTAIN''
       then s\<lparr>wf_phase := (if wf_a2a_task_id s \<noteq> None then ''AWAITING_CUSTOMER_AUTHORIZATION''
                          else ''AWAITING_RECOVERY'')\<rparr> else s"
  assume "fst (await_recovery fuel w s) = Inl Out_Of_Fuel"
  then have "fst (recovery_loop fuel fuel w (?f s)) = Inl Out_Of_Fuel"
    by (simp add: await_recovery_def seqW_def bindW_def modifyW_def)
  moreover have "path command w s (?f s)" using assms(2) by (auto intro!: Phase)
  with path_at_case [OF this, where b = False and c = False and E = E] assms(1)
  have "fuelled fuel command w S d E (?f s)"
    by (intro fuelled_next [OF assms(1)]) (auto simp: fuelled_def)
  ultimately show False using recovery_loop_fuel [of command E "?f s" w S d fuel fuel] by (simp add: fuelled_def)
qed

lemma await_permission_fuel:
  assumes fuelled: "fuelled fuel command w S d E s" and "\<not> wf_terminal s" and "no_task s"
  shows "fst (await_permission fuel p w s) \<noteq> Inl Out_Of_Fuel"
proof
  assume out: "fst (await_permission fuel p w s) = Inl Out_Of_Fuel"
  have at: "at_case command True E s" using fuelled assms(2) by (auto simp: fuelled_def intro: at_case_open)
  consider t where "pr_disposition p = ''DELAY''" "pr_delay_until p = Some t"
    | "pr_disposition p = ''REQUIRE_MANUAL_APPROVAL''"
    using out by (auto simp: await_permission_def returnW_def finish_def modifyW_def split: if_splits option.splits)
  then show False
  proof cases
    case (1 t)
    let ?s = "s\<lparr>wf_phase := ''POLICY_DELAY''\<rparr>"
    have at': "at_case command True E ?s"
      using runsD(2) [OF runs_phase at] by (auto simp: modifyW_def)
    then have "fuelled fuel command w S d E ?s" by (intro fuelled_same [OF fuelled]) (auto intro: at_case_closed)
    moreover have "fst (bindW (parse_instant t) (wait_until fuel) w ?s) = Inl Out_Of_Fuel"
      using out 1 by (simp add: await_permission_def seqW_def bindW_def modifyW_def)
    then obtain target where "fst (wait_until fuel target w ?s) = Inl Out_Of_Fuel"
      using parse_instant_keeps by (elim steady_bind_fuel [OF _ steady_parse]) blast
    then have "fst (wait_until_loop fuel target fuel w ?s) = Inl Out_Of_Fuel"
      using steady_expire by (auto simp: wait_until_def seqW_def bindW_def withW_def steady_def returnW_def
          split: prod.splits sum.splits if_splits)
    ultimately show False
      using wait_until_loop_fuel [of command E ?s w S d fuel fuel target] by (simp add: fuelled_def)
  next
    case 2
    let ?s = "s\<lparr>wf_approval_required := True, wf_phase := ''AWAITING_APPROVAL''\<rparr>"
    have "at_case command False E ?s"
      using runsD(2) [OF runs_require_approval at] by (auto simp: modifyW_def)
    then have "fuelled fuel command w S d E ?s" by (intro fuelled_same [OF fuelled]) auto
    moreover have "fst (wait_for_approval_or_terminal fuel fuel w ?s) = Inl Out_Of_Fuel"
      using out 2 steady_basic
      by (auto simp: await_permission_def seqW_def bindW_def modifyW_def until_terminal_def withW_def
          returnW_def steady_def split: prod.splits sum.splits if_splits)
    moreover have "no_task ?s" using assms(3) by (simp add: no_task_def)
    ultimately show False
      using approval_loop_fuel [of command E ?s w S d fuel fuel] by (simp add: fuelled_def)
  qed
qed

lemma decided:
  assumes "fuelled fuel command w S d {} s" "\<not> wf_terminal s" "no_task s"
    and "decide_policy command w s = (Inr p, s')"
  obtains t i where "at_case command True {(t, EVALUATE_POLICY i (Some p))} s'"
    "fuelled fuel command w S d {(t, EVALUATE_POLICY i (Some p))} s'" "no_task s'"
proof -
  have at: "at_case command True {} s" using assms(1,2) by (auto simp: fuelled_def intro: at_case_open)
  note decide = runsD [OF runs_decide_policy at assms(4)]
  obtain t i where at': "at_case command True {(t, EVALUATE_POLICY i (Some p))} s'"
    using decide(2) by auto
  have "fuelled fuel command w S d {} s'"
    using at' by (intro fuelled_next [OF assms(1) decide(1)]) (auto simp: at_case_def)
  with at' have "fuelled fuel command w S d {(t, EVALUATE_POLICY i (Some p))} s'"
    by (auto simp: fuelled_def intro: at_case_closed)
  with at' stays_snd [OF no_task_decide assms(3,4)] show ?thesis by (intro that)
qed

lemma run_case_fuel:
  assumes start: "fuelled fuel command w S d {} s" "\<not> wf_terminal s" "no_task s"
  shows "fst (run_case fuel command w s) \<noteq> Inl Out_Of_Fuel"
proof
  let ?finish = "withW (\<lambda>s. returnW (workflow_result s))"
  let ?recover = "seqW (until_terminal (await_recovery fuel)) ?finish"
  assume "fst (run_case fuel command w s) = Inl Out_Of_Fuel"
  then obtain p s1 where decide: "decide_policy command w s = (Inr p, s1)"
    and rest: "fst (seqW (await_permission fuel p) (seqW (until_terminal (act_on_policy p)) ?recover) w s1)
      = Inl Out_Of_Fuel"
    unfolding run_case_def by (rule steady_bind_fuel [OF _ steady_decide])
  obtain t i where at1: "at_case command True {(t, EVALUATE_POLICY i (Some p))} s1"
    and f1: "fuelled fuel command w S d {(t, EVALUATE_POLICY i (Some p))} s1" and "no_task s1"
    using decided [OF start decide] by metis
  then have "fst (await_permission fuel p w s1) \<noteq> Inl Out_Of_Fuel"
    by (intro await_permission_fuel) (auto simp: at_case_def)
  with rest obtain s2 where permit: "await_permission fuel p w s1 = (Inr (), s2)"
    and acting: "fst (seqW (until_terminal (act_on_policy p)) ?recover w s2) = Inl Out_Of_Fuel"
    by (auto elim: seqW_fuel)
  note permitted = runsD [OF runs_await_permission [OF insertI1] at1 permit]
  have f2: "fuelled fuel command w S d {(t, EVALUATE_POLICY i (Some p))} s2"
    by (rule fuelled_next [OF f1 permitted(1)]) (use permitted(2) [OF refl] in blast)
  have "steady (until_terminal (act_on_policy p))"
    unfolding until_terminal_def by (intro steady_intros steady_act)
  from steady_fuel [OF acting this] obtain s3 where act: "until_terminal (act_on_policy p) w s2 = (Inr (), s3)"
    and recovering: "fst (?recover w s3) = Inl Out_Of_Fuel" by auto
  note acted = runsD [OF runs_acted permitted(2) [OF refl] act]
  have f3: "fuelled fuel command w S d {(t, EVALUATE_POLICY i (Some p))} s3"
    by (rule fuelled_next [OF f2 acted(1) acted(2) [OF refl]])
  have "fst (until_terminal (await_recovery fuel) w s3) = Inl Out_Of_Fuel"
    using recovering by (auto simp: seqW_def bindW_def withW_def returnW_def split: prod.splits sum.splits)
  with await_recovery_fuel [OF f3] until_terminal_fuel show False by blast
qed

text \<open>
  C10: every run ends. If the workflow is only ever sent signals with ids of the finite set \<open>S\<close>,
  however often and whenever, then as many iterations of its loops as there are ids in \<open>S\<close> and
  microseconds to the recovery deadline are enough: the run returns a result or raises, and never
  waits on beyond its deadline.
\<close>

theorem workflow_terminates:
  assumes "finite S" and "\<forall>n. signal_id ` set (w_arrivals w n) \<subseteq> S"
    and "denoted_instant (wi_recovery_deadline command) = Some d"
    and "card S + nat (d - w_started w) < fuel"
  shows "fst (start_workflow fuel w command) \<noteq> Inl Out_Of_Fuel"
proof
  assume out: "fst (start_workflow fuel w command) = Inl Out_Of_Fuel"
  let ?s0 = "opened_case w command d"
  have run: "fst (run_case fuel command w ?s0) = Inl Out_Of_Fuel"
    using start_workflow_cases [of fuel w command] out assms(3) by auto
  have start: "fuelled fuel command w S d {} ?s0" "no_task ?s0"
    using assms opened_at_case [of command w d] at_case_closed
    by (auto simp: fuelled_def sends_only_def pending_signals_def time_left_def no_task_def
        opened_case_def new_workflow_def)
  from run_case_fuel [OF start(1) _ start(2)] run show False
    by (simp add: opened_case_def new_workflow_def)
qed

end
