(* ===== verification/Workflow_Runs.thy ===== *)
theory Workflow_Runs
  imports Workflow_Termination
begin

text \<open>
  Runs of the workflow: witnesses of the properties, and two situations, both while an approval is awaited, in which
  the code does not do what it means to.
\<close>

section \<open>A case and a world\<close>

definition sample_command :: RecoveryWorkflowInput where
  "sample_command =
     \<lparr>wi_case_id = ''c'', wi_merchant_id = ''m'', wi_customer_id = ''u'', wi_subscription_id = ''s'',
      wi_failed_invoice_id = Some ''i'', wi_failed_payment_id = Some ''p'',
      wi_amount_at_risk_paise = 100, wi_currency = ''INR'', wi_recovery_deadline = Some (Aware 1000 0),
      wi_failure_event = \<lparr>pv_event_id = ''e'', pv_event_type = ''payment.failed'',
        pv_occurred_at = None, pv_payload = []\<rparr>,
      wi_candidate_action = ''OPEN_CUSTOMER_PAYMENT_SURFACE'',
      wi_payment_surface_type = Some ''SUBSCRIPTION_INVOICE_LINK'',
      wi_payment_surface_reference = None, wi_provider_subscription_id = None,
      wi_provider_invoice_id = None, wi_recovery_action_id = Some ''a''\<rparr>"

definition sample_world :: "PolicyResult \<Rightarrow> (nat \<Rightarrow> QueuedSignal list) \<Rightarrow> instant \<Rightarrow> world" where
  "sample_world policy arrivals started =
     \<lparr>w_workflow_id = ''recovery-case:c'', w_started = started, w_arrivals = arrivals,
      w_elapsed = (\<lambda>n. 10),
      w_normalize_failure = (\<lambda>n i. Some \<lparr>nf_case_id = ''c'', nf_provider_event_id = ''e'',
        nf_payment_state = ''FAILED'', nf_subscription_state = ''PENDING'', nf_reason_code = None,
        nf_authoritative = True, nf_occurred_at = None\<rparr>),
      w_diagnose_failure = (\<lambda>n i. Some \<lparr>dgr_diagnosis = ''UNKNOWN'', dgr_confidence = 1,
        dgr_reason_codes = []\<rparr>),
      w_score_recovery = (\<lambda>n i. Some \<lparr>scr_model_name = ''m'', scr_model_version = ''1'',
        scr_recovery_probability = 1, scr_expected_recovered_paise = 1,
        scr_expected_utility_paise = 1, scr_explanation = []\<rparr>),
      w_evaluate_policy = (\<lambda>n i. Some policy),
      w_execute_recovery_action = (\<lambda>n i. Some \<lparr>ax_status = ''SUCCEEDED'', ax_provider = ''razorpay'',
        ax_provider_reference = None, ax_customer_url = None, ax_reason_code = None\<rparr>),
      w_start_a2a_authorization = (\<lambda>n i. None), w_poll_a2a_mandate = (\<lambda>n i. None),
      w_send_a2a_payment_receipt = (\<lambda>n i. None),
      w_reconcile_case = (\<lambda>n i. Some \<lparr>rr_payment_state = ''CAPTURED'',
        rr_subscription_state = ''ACTIVE'', rr_authoritative = True, rr_case_recovered = True,
        rr_arrears_collected_paise = 100, rr_subscription_reactivated = False,
        rr_provider_reference = None\<rparr>),
      w_record_audit_event = (\<lambda>n i. Some \<lparr>aur_audit_event_id = ''x'', aur_recorded = True\<rparr>),
      w_cancel_recovery_action = (\<lambda>n i. Some \<lparr>car_cancelled = True, car_reason_code = None\<rparr>)\<rparr>"

definition policy_answer :: "string \<Rightarrow> string \<Rightarrow> PolicyResult" where
  "policy_answer disposition action =
     \<lparr>pr_disposition = disposition, pr_decision_code = ''X'', pr_action = action,
      pr_payment_surface_type = Some ''SUBSCRIPTION_INVOICE_LINK'', pr_reason_codes = [],
      pr_delay_until = None\<rparr>"

definition payment_captured :: QueuedSignal where
  "payment_captured = PAYMENT_EVENT \<lparr>pes_signal_id = ''s1'', pes_provider_event_id = ''pe'',
     pes_payment_state = ''CAPTURED'', pes_amount_paise = 100, pes_authoritative = True\<rparr>"

definition opt_out_signal :: QueuedSignal where
  "opt_out_signal = OPT_OUT \<lparr>oos_signal_id = ''s2'', oos_source = ''voice'', oos_reason = None\<rparr>"

definition approval_signal :: QueuedSignal where
  "approval_signal = APPROVAL \<lparr>aps_signal_id = ''s3'', aps_approved = True,
     aps_reviewer_id = ''r'', aps_reason = None\<rparr>"

definition delivered_at :: "nat \<Rightarrow> QueuedSignal list \<Rightarrow> nat \<Rightarrow> QueuedSignal list" where
  "delivered_at k xs n = (if n = k then xs else [])"

lemmas effect_simps = returnW_def raiseW_def bindW_def seqW_def modifyW_def withW_def activity_def
  suspend_def enqueue_def wait_condition_def until_terminal_def with_input_def Let_def

lemmas run_simps = start_workflow_def run_def decide_policy_def await_permission_def act_on_policy_def
  await_recovery_def parse_instant_def recovery_workflow_id_def new_workflow_def workflow_result_def
  audit_def finish_def cancel_active_action_def apply_reconciliation_def close_if_recovered_def
  send_a2a_receipt_if_applicable_def handle_payment_def pop_signal_def py_or_def truthy_def
  deadline_passed_def expire_def deadline_outcome_def wait_for_signal_or_deadline_def
  handle_opt_out_def handle_approval_def suppress_outreach_def execute_action_def submit_action_def
  poll_a2a_if_due_def json_text_def

lemmas run_sample_simps = sample_world_def sample_command_def policy_answer_def payment_captured_def
  opt_out_signal_def approval_signal_def delivered_at_def

lemma recovered_run:
  "fst (start_workflow 2 (sample_world (policy_answer ''ALLOW'' ''WAIT_FOR_GATEWAY_RETRY'')
      (delivered_at 0 [payment_captured]) 2000) sample_command) = Inr
   \<lparr>wres_case_id = ''c'', wres_outcome = ''RECOVERED'', wres_payment_state = ''CAPTURED'',
    wres_subscription_state = ''ACTIVE'', wres_case_recovered = True, wres_arrears_collected_paise = 100,
    wres_subscription_reactivated = False, wres_contact_disposition = ''NOT_CONTACTED'',
    wres_processed_signal_count = 1, wres_duplicate_signal_count = 0\<rparr>"
  by (simp add: run_simps effect_simps run_sample_simps eval_nat_numeral)

lemma returned_run:
  assumes "fst x = Inr r" and "P r"
  shows "\<exists>r s. x = (Inr r, s) \<and> P r"
  using assms by (metis prod.collapse)

lemma recovered_run_state:
  "\<exists>s. start_workflow 2 (sample_world (policy_answer ''ALLOW'' ''WAIT_FOR_GATEWAY_RETRY'')
      (delivered_at 0 [payment_captured]) 2000) sample_command = (Inr
   \<lparr>wres_case_id = ''c'', wres_outcome = ''RECOVERED'', wres_payment_state = ''CAPTURED'',
    wres_subscription_state = ''ACTIVE'', wres_case_recovered = True, wres_arrears_collected_paise = 100,
    wres_subscription_reactivated = False, wres_contact_disposition = ''NOT_CONTACTED'',
    wres_processed_signal_count = 1, wres_duplicate_signal_count = 0\<rparr>, s)"
  using recovered_run by (metis prod.collapse)

theorem recovered_only_if_confirmed_witness:
  "\<exists>r s. start_workflow 2 (sample_world (policy_answer ''ALLOW'' ''WAIT_FOR_GATEWAY_RETRY'')
      (delivered_at 0 [payment_captured]) 2000) sample_command = (Inr r, s)
    \<and> wres_case_recovered r \<and> recovery_confirmed ''c'' (wf_calls s)"
proof -
  obtain s where run: "start_workflow 2 (sample_world (policy_answer ''ALLOW'' ''WAIT_FOR_GATEWAY_RETRY'')
      (delivered_at 0 [payment_captured]) 2000) sample_command = (Inr
   \<lparr>wres_case_id = ''c'', wres_outcome = ''RECOVERED'', wres_payment_state = ''CAPTURED'',
    wres_subscription_state = ''ACTIVE'', wres_case_recovered = True, wres_arrears_collected_paise = 100,
    wres_subscription_reactivated = False, wres_contact_disposition = ''NOT_CONTACTED'',
    wres_processed_signal_count = 1, wres_duplicate_signal_count = 0\<rparr>, s)" using recovered_run_state by blast
  from recovered_only_if_confirmed [OF run] run show ?thesis by (simp add: sample_command_def)
qed

theorem run_refines_state_machine_witness:
  "(step sample_command (sample_world (policy_answer ''ALLOW'' ''STOP'') (\<lambda>n. []) 0))\<^sup>*\<^sup>*
     (opened_case (sample_world (policy_answer ''ALLOW'' ''STOP'') (\<lambda>n. []) 0) sample_command 1000)
     (snd (start_workflow 2 (sample_world (policy_answer ''ALLOW'' ''STOP'') (\<lambda>n. []) 0) sample_command))"
  by (rule run_refines_state_machine)
    (simp_all add: sample_world_def sample_command_def recovery_workflow_id_def denoted_instant_def)

theorem workflow_terminates_witness:
  "fst (start_workflow 1002 (sample_world (policy_answer ''ALLOW'' ''WAIT_FOR_GATEWAY_RETRY'')
      (\<lambda>n. [payment_captured]) 0) sample_command) \<noteq> Inl Out_Of_Fuel"
  by (rule workflow_terminates [where S = "{''s1''}" and d = 1000])
    (simp_all add: sample_world_def sample_command_def payment_captured_def denoted_instant_def)

section \<open>What activities leave alone\<close>

text \<open>What an activity leaves alone: the decisions the workflow has taken so far.\<close>

definition same_decisions :: "RecoveryCaseWorkflow \<Rightarrow> RecoveryCaseWorkflow \<Rightarrow> bool" where
  "same_decisions s s' \<longleftrightarrow> wf_payment_state s' = wf_payment_state s
     \<and> wf_arrears_collected_paise s' = wf_arrears_collected_paise s \<and> wf_outreach_suppressed s' = wf_outreach_suppressed s
     \<and> wf_terminal s' = wf_terminal s \<and> wf_approval_required s' = wf_approval_required s
     \<and> wf_approval_received s' = wf_approval_received s \<and> wf_input s' = wf_input s
     \<and> wf_action_status s' = wf_action_status s"

lemma fold_enqueue_kept:
  "same_decisions s (fold enqueue gs s)" "wf_calls (fold enqueue gs s) = wf_calls s"
proof -
  have "same_decisions s (fold enqueue gs s) \<and> wf_calls (fold enqueue gs s) = wf_calls s"
    by (induction gs arbitrary: s) (simp_all add: same_decisions_def enqueue_def)
  then show "same_decisions s (fold enqueue gs s)" "wf_calls (fold enqueue gs s) = wf_calls s" by simp_all
qed

lemma activity_result:
  assumes "activity perform call i w s = (x, s')"
  shows "same_decisions s s'" and "wf_calls s' = wf_calls s @ [(wf_now s, call i (perform w (wf_awaits s) i))]"
  using assms fold_enqueue_kept [where s = "s\<lparr>wf_calls := wf_calls s @ [(wf_now s, call i (perform w (wf_awaits s) i))]\<rparr>"
      and gs = "w_arrivals w (wf_awaits s)"]
  by (auto simp: activity_def suspend_def same_decisions_def Let_def split: option.splits)


lemma cancel_active_action_kept:
  assumes "cancel_active_action reason w s = (x, s')"
  shows "wf_payment_state s' = wf_payment_state s \<and> wf_arrears_collected_paise s' = wf_arrears_collected_paise s
    \<and> wf_outreach_suppressed s' = wf_outreach_suppressed s"
proof -
  let ?i = "\<lparr>cai_case_id = wf_case_id s, cai_provider_reference = wf_provider_reference s, cai_reason = reason,
      cai_idempotency_key = wf_case_id s @ '':cancel:action-1''\<rparr>"
  obtain y s1 where act: "activity w_cancel_recovery_action CANCEL_RECOVERY_ACTION ?i w s = (y, s1)" by fastforce
  from assms act activity_result(1) [OF act] show ?thesis
    by (auto simp: cancel_active_action_def withW_def bindW_def returnW_def modifyW_def same_decisions_def
        split: if_splits sum.splits)
qed

section \<open>A recovery reported as expired\<close>

text \<open>The run from the policy decision on.\<close>

definition run_permitted :: "nat \<Rightarrow> PolicyResult \<Rightarrow> RecoveryWorkflowResult workflow" where
  "run_permitted fuel policy =
     seqW (await_permission fuel policy)
       (seqW (until_terminal (act_on_policy policy))
       (seqW (until_terminal (await_recovery fuel))
          (withW (\<lambda>s. returnW (workflow_result s)))))"

lemma approval_wait_expires:
  assumes waiting: "wf_approval_received s = None" "\<not> wf_terminal s"
    and handled: "seqW wait_for_signal_or_deadline (drain_signals fuel) w s = (Inr (), s1)"
    and late: "deadline_passed s1"
    and returned: "wait_for_approval_or_terminal fuel (Suc n) w s = (Inr (), s2)"
  shows "wf_terminal s2 \<and> wf_outcome s2 = Some (if wf_outreach_suppressed s1 then ''STOPPED'' else ''EXPIRED'')
    \<and> wf_payment_state s2 = wf_payment_state s1 \<and> wf_arrears_collected_paise s2 = wf_arrears_collected_paise s1"
proof -
  from returned waiting handled late
  have run: "seqW expire (wait_for_approval_or_terminal fuel n) w s1 = (Inr (), s2)"
    by (auto simp: seqW_def bindW_def withW_def split: prod.splits sum.splits)
  obtain x c where cancel: "cancel_active_action ''RECOVERY_DEADLINE_EXPIRED'' w s1 = (x, c)" by fastforce
  note keep = cancel_active_action_kept [OF cancel]
  let ?o = "if wf_outreach_suppressed s1 then ''STOPPED'' else ''EXPIRED''"
  let ?e = "c\<lparr>wf_outcome := Some ?o, wf_phase := ''TERMINAL_'' @ ?o, wf_terminal := True\<rparr>"
  have "wait_for_approval_or_terminal fuel n w ?e = (Inr (), s2)"
    using run cancel keep
    by (auto simp: expire_def seqW_def bindW_def withW_def finish_def modifyW_def deadline_outcome_def Let_def
        split: sum.splits if_splits)
  then have "s2 = ?e" by (cases n) (simp_all add: withW_def returnW_def)
  with keep show ?thesis by simp
qed

lemma seqW_Inr_iff: "seqW m k w s = (Inr x, s') \<longleftrightarrow> (\<exists>y s1. m w s = (Inr y, s1) \<and> k w s1 = (Inr x, s'))"
  by (auto simp: seqW_def bindW_def split: prod.splits sum.splits)


text \<open>
  C28: a recovery that is confirmed while an approval is awaited is reported as expired. Whatever the world does, if
  the signals the approval loop handles first close the case as recovered and the clock has reached the deadline when the handlers are
  done, the loop closes the case a second time: the run, if it returns, reports \<open>EXPIRED\<close> (\<open>STOPPED\<close> after a
  suppression) and that the case is not recovered, with the payment state and the arrears of the reconciliation.
\<close>

theorem approval_wait_expires_recovered_case:
  assumes policy: "pr_disposition policy = ''REQUIRE_MANUAL_APPROVAL''"
    and waiting: "wf_approval_received s = None" "\<not> wf_terminal s"
    and handled: "seqW wait_for_signal_or_deadline (drain_signals (Suc n)) w
        (s\<lparr>wf_approval_required := True, wf_phase := ''AWAITING_APPROVAL''\<rparr>) = (Inr (), s1)"
    and recovered: "wf_outcome s1 = Some ''RECOVERED''" and late: "deadline_passed s1"
    and returned: "run_permitted (Suc n) policy w s = (Inr r, s2)"
  shows "wres_outcome r = (if wf_outreach_suppressed s1 then ''STOPPED'' else ''EXPIRED'') \<and> \<not> wres_case_recovered r
    \<and> wres_payment_state r = wf_payment_state s1 \<and> wres_arrears_collected_paise r = wf_arrears_collected_paise s1"
proof -
  let ?s = "s\<lparr>wf_approval_required := True, wf_phase := ''AWAITING_APPROVAL''\<rparr>"
  from returned policy obtain s3 where wait: "wait_for_approval_or_terminal (Suc n) (Suc n) w ?s = (Inr (), s3)"
    and rest: "seqW (until_terminal (withW (\<lambda>s. if wf_approval_received s = Some True then returnW ()
                else finish ''STOPPED'' ''APPROVAL_REJECTED'')))
       (seqW (until_terminal (act_on_policy policy)) (seqW (until_terminal (await_recovery (Suc n)))
          (withW (\<lambda>s. returnW (workflow_result s))))) w s3 = (Inr r, s2)"
    by (auto simp: run_permitted_def await_permission_def seqW_Inr_iff modifyW_def simp del: wait_for_approval_or_terminal.simps)
  from waiting have "wf_approval_received ?s = None" "\<not> wf_terminal ?s" by simp_all
  note out = approval_wait_expires [OF this handled late wait]
  with rest have "r = workflow_result s3" by (auto simp: seqW_Inr_iff until_terminal_def withW_def returnW_def)
  with out show ?thesis by (simp add: workflow_result_def py_or_def truthy_def)
qed

definition waiting_case :: RecoveryCaseWorkflow where
  "waiting_case = (new_workflow 970)\<lparr>wf_case_id := ''c'', wf_deadline := Some 1000, wf_input := Some sample_command,
     wf_signals := [payment_captured], wf_seen_signal_ids := {''s1''}\<rparr>"

theorem approval_wait_expires_recovered_case_witness:
  "\<exists>r s2. run_permitted 2 (policy_answer ''REQUIRE_MANUAL_APPROVAL'' ''WAIT_FOR_GATEWAY_RETRY'')
       (sample_world (policy_answer ''REQUIRE_MANUAL_APPROVAL'' ''WAIT_FOR_GATEWAY_RETRY'') (\<lambda>n. []) 0) waiting_case = (Inr r, s2)
     \<and> wres_outcome r = ''EXPIRED'' \<and> wres_payment_state r = ''CAPTURED'' \<and> \<not> wres_case_recovered r"
proof -
  let ?p = "policy_answer ''REQUIRE_MANUAL_APPROVAL'' ''WAIT_FOR_GATEWAY_RETRY''"
  let ?w = "sample_world ?p (\<lambda>n. []) 0"
  let ?s = "waiting_case\<lparr>wf_approval_required := True, wf_phase := ''AWAITING_APPROVAL''\<rparr>"
  have "\<exists>s1. seqW wait_for_signal_or_deadline (drain_signals (Suc (Suc 0))) ?w ?s = (Inr (), s1)
      \<and> wf_outcome s1 = Some ''RECOVERED'' \<and> deadline_passed s1 \<and> \<not> wf_outreach_suppressed s1 \<and> wf_payment_state s1 = ''CAPTURED''"
    by (simp add: waiting_case_def run_simps effect_simps run_sample_simps)
  then obtain s1 where s1: "seqW wait_for_signal_or_deadline (drain_signals (Suc (Suc 0))) ?w ?s = (Inr (), s1)"
      "wf_outcome s1 = Some ''RECOVERED''" "deadline_passed s1" "\<not> wf_outreach_suppressed s1" "wf_payment_state s1 = ''CAPTURED''" by blast
  have "\<exists>r s2. run_permitted (Suc (Suc 0)) ?p ?w waiting_case = (Inr r, s2)"
    by (simp add: run_permitted_def waiting_case_def run_simps effect_simps run_sample_simps)
  then obtain r s2 where run: "run_permitted (Suc (Suc 0)) ?p ?w waiting_case = (Inr r, s2)" by blast
  have "pr_disposition ?p = ''REQUIRE_MANUAL_APPROVAL''" "wf_approval_received waiting_case = None" "\<not> wf_terminal waiting_case"
    by (simp_all add: policy_answer_def waiting_case_def new_workflow_def)
  from approval_wait_expires_recovered_case [OF this s1(1-3) run] s1 run show ?thesis by (auto simp: numeral_2_eq_2)
qed

text \<open>
  A whole run of that kind: the captured payment is signalled before the deadline, the handler's last activity ends after it.
\<close>

lemma expired_run:
  "\<exists>r s. start_workflow 2 (sample_world (policy_answer ''REQUIRE_MANUAL_APPROVAL'' ''WAIT_FOR_GATEWAY_RETRY'')
      (delivered_at 5 [payment_captured]) 930) sample_command = (Inr r, s)
    \<and> wres_payment_state r = ''CAPTURED'' \<and> wres_arrears_collected_paise r = 100
    \<and> wres_outcome r = ''EXPIRED'' \<and> \<not> wres_case_recovered r"
proof -
  have "fst (start_workflow 2 (sample_world (policy_answer ''REQUIRE_MANUAL_APPROVAL'' ''WAIT_FOR_GATEWAY_RETRY'')
      (delivered_at 5 [payment_captured]) 930) sample_command) = Inr
   \<lparr>wres_case_id = ''c'', wres_outcome = ''EXPIRED'', wres_payment_state = ''CAPTURED'',
    wres_subscription_state = ''ACTIVE'', wres_case_recovered = False, wres_arrears_collected_paise = 100,
    wres_subscription_reactivated = False, wres_contact_disposition = ''NOT_CONTACTED'',
    wres_processed_signal_count = 1, wres_duplicate_signal_count = 0\<rparr>"
    by (simp add: run_simps effect_simps run_sample_simps eval_nat_numeral)
  then show ?thesis by (rule returned_run) simp
qed

section \<open>A customer who opted out\<close>





text \<open>The submissions of a history that come after an audited opt-out.\<close>

fun submitted_after_opt_out :: "bool \<Rightarrow> activity_call list \<Rightarrow> string list" where
  "submitted_after_opt_out seen [] = []"
| "submitted_after_opt_out seen (RECORD_AUDIT_EVENT a r # cs) =
     submitted_after_opt_out (seen \<or> au_event_type a = ''OUTREACH_SUPPRESSED'') cs"
| "submitted_after_opt_out seen (EXECUTE_RECOVERY_ACTION e r # cs) =
     (if seen then ea_action e # submitted_after_opt_out seen cs else submitted_after_opt_out seen cs)"
| "submitted_after_opt_out seen (c # cs) = submitted_after_opt_out seen cs"

text \<open>A whole run of that kind.\<close>

lemma suppressed_run:
  "(let s = snd (start_workflow 2 (sample_world
        (policy_answer ''REQUIRE_MANUAL_APPROVAL'' ''OPEN_CUSTOMER_PAYMENT_SURFACE'')
        (delivered_at 5 [opt_out_signal, approval_signal]) 0) sample_command) in
    submitted_after_opt_out False (map snd (wf_calls s)) = [''OPEN_CUSTOMER_PAYMENT_SURFACE'']
    \<and> wf_outreach_suppressed s \<and> wf_contact_disposition s = ''OPTED_OUT'')"
  by (simp add: run_simps effect_simps run_sample_simps eval_nat_numeral ex_bool_eq)

end
