(* ===== verification/Wire_Encoding.thy ===== *)
theory Wire_Encoding
  imports Prelude "HOL-Library.Word" "HOL-Library.Multiset"
begin

text \<open>
  The encodings the two agents share: base64url (\<open>_b64url_encode\<close>, \<open>_b64url_decode\<close>, \<open>_decode\<close> of
  \<open>services/api/app/integrations/a2a/\<close> and of \<open>services/customer-agent/app/signing.py\<close>) and the
  canonical JSON that is signed. A text is the list of its UTF-8 bytes, as characters, so that
  \<open>encode("utf-8")\<close> is the identity; raw bytes are 8-bit words.

  \<open>a2b\<close> is the decoder of the standard library, character by character, in its strict and in its
  lenient mode. Decoding undoes encoding, in both modes, and the canonical JSON of a model
  determines every field.
\<close>

section \<open>base64url\<close>

type_synonym byte = "8 word"

datatype base64_error = Non_Ascii | Leading_Padding | Excess_Data | Only_Base64_Data
  | Discontinuous_Padding | Invalid_Length | Incorrect_Padding

text \<open>The alphabet \<open>A..Z a..z 0..9 - _\<close>.\<close>

definition b64_char :: "nat \<Rightarrow> char" where
  "b64_char n = (if n < 26 then char_of (65 + n) else if n < 52 then char_of (71 + n)
     else if n < 62 then char_of (n - 4) else if n = 62 then CHR ''-'' else CHR ''_'')"

fun urlsafe_b64encode :: "byte list \<Rightarrow> string" where
  "urlsafe_b64encode [] = []"
| "urlsafe_b64encode [a] = [b64_char (unat a div 4), b64_char (unat a mod 4 * 16), CHR ''='', CHR ''='']"
| "urlsafe_b64encode [a, b] = [b64_char (unat a div 4), b64_char (unat a mod 4 * 16 + unat b div 16),
     b64_char (unat b mod 16 * 4), CHR ''='']"
| "urlsafe_b64encode (a # b # c # bs) =
     [b64_char (unat a div 4), b64_char (unat a mod 4 * 16 + unat b div 16),
      b64_char (unat b mod 16 * 4 + unat c div 64), b64_char (unat c mod 64)] @ urlsafe_b64encode bs"

definition rstrip_padding :: "string \<Rightarrow> string" where
  "rstrip_padding s = rev (dropWhile (\<lambda>c. c = CHR ''='') (rev s))"

definition b64url_encode :: "byte list \<Rightarrow> string" where
  "b64url_encode bs = rstrip_padding (urlsafe_b64encode bs)"

text \<open>The alternative characters are translated to the standard ones, which stay accepted.\<close>

definition altchar :: "char \<Rightarrow> char" where
  "altchar c = (if c = CHR ''-'' then CHR ''+'' else if c = CHR ''_'' then CHR ''/'' else c)"

definition b64_value :: "char \<Rightarrow> nat option" where
  "b64_value c = (let n = (of_char c :: nat) in
     if 65 \<le> n \<and> n \<le> 90 then Some (n - 65) else if 97 \<le> n \<and> n \<le> 122 then Some (n - 71)
     else if 48 \<le> n \<and> n \<le> 57 then Some (n + 4) else if n = 43 then Some 62
     else if n = 47 then Some 63 else None)"

definition byte_of :: "nat \<Rightarrow> byte" where
  "byte_of n = word_of_nat n"

fun emit :: "nat \<Rightarrow> base64_error + byte list \<Rightarrow> base64_error + byte list" where
  "emit n r = bindE r (\<lambda>bs. Inr (byte_of n # bs))"

text \<open>
  The state of the decoder: the position in the group of four, the bits left over from the last
  character, the padding seen in this group, and whether any padding was seen.
\<close>

fun a2b :: "bool \<Rightarrow> nat \<Rightarrow> nat \<Rightarrow> nat \<Rightarrow> bool \<Rightarrow> string \<Rightarrow> base64_error + byte list" where
  "a2b strict quad left pads padded [] =
     (if quad = 0 then Inr [] else if quad = 1 then Inl Invalid_Length else Inl Incorrect_Padding)"
| "a2b strict quad left pads padded (c # cs) =
     (if c = CHR ''=''
      then if 2 \<le> quad \<and> 4 \<le> quad + Suc pads
           then if strict \<and> cs \<noteq> [] then Inl Excess_Data else Inr []
           else a2b strict quad left (if 2 \<le> quad then Suc pads else pads) True cs
      else case b64_value (altchar c) of
        None \<Rightarrow> if strict then Inl Only_Base64_Data else a2b strict quad left pads padded cs
      | Some v \<Rightarrow>
          if strict \<and> padded then Inl Discontinuous_Padding
          else if quad = 0 then a2b strict 1 v 0 padded cs
          else if quad = 1 then emit (left * 4 + v div 16) (a2b strict 2 (v mod 16) 0 padded cs)
          else if quad = 2 then emit (left * 16 + v div 4) (a2b strict 3 (v mod 4) 0 padded cs)
          else emit (left * 64 + v) (a2b strict 0 0 0 padded cs))"

definition b64decode :: "bool \<Rightarrow> string \<Rightarrow> base64_error + byte list" where
  "b64decode strict s =
     (if \<exists>c \<in> set s. 128 \<le> (of_char c :: nat) then Inl Non_Ascii
      else if strict \<and> s \<noteq> [] \<and> hd s = CHR ''='' then Inl Leading_Padding
      else a2b strict 0 0 0 False s)"

definition add_padding :: "string \<Rightarrow> string" where
  "add_padding s = s @ replicate ((4 - length s mod 4) mod 4) (CHR ''='')"

text \<open>
  \<open>_decode\<close> of RecoveryOS is strict (\<open>validate=True\<close>); \<open>_b64url_decode\<close> of the customer agent is
  lenient (\<open>urlsafe_b64decode\<close>).
\<close>

definition strict_b64url_decode :: "string \<Rightarrow> base64_error + byte list" where
  "strict_b64url_decode s = b64decode True (add_padding s)"

definition lenient_b64url_decode :: "string \<Rightarrow> base64_error + byte list" where
  "lenient_b64url_decode s = b64decode False (add_padding s)"

section \<open>Decoding undoes encoding\<close>

fun unpadded :: "byte list \<Rightarrow> string" where
  "unpadded [] = []"
| "unpadded [a] = [b64_char (unat a div 4), b64_char (unat a mod 4 * 16)]"
| "unpadded [a, b] = [b64_char (unat a div 4), b64_char (unat a mod 4 * 16 + unat b div 16),
     b64_char (unat b mod 16 * 4)]"
| "unpadded (a # b # c # bs) =
     [b64_char (unat a div 4), b64_char (unat a mod 4 * 16 + unat b div 16),
      b64_char (unat b mod 16 * 4 + unat c div 64), b64_char (unat c mod 64)] @ unpadded bs"

lemma of_char_small: "n < 256 \<Longrightarrow> (of_char (char_of n) :: nat) = n"
  by (simp add: of_char_of)

lemma alphabet_correct:
  assumes "n < 64"
  shows "b64_value (altchar (b64_char n)) = Some n \<and> b64_char n \<noteq> CHR ''=''
    \<and> (of_char (b64_char n) :: nat) < 128"
proof -
  consider "n < 26" | "26 \<le> n" "n < 52" | "52 \<le> n" "n < 62" | "n = 62" | "n = 63"
    using assms by linarith
  then show ?thesis
  proof cases
    case 1
    then have "b64_char n = char_of (65 + n)" "(of_char (b64_char n) :: nat) = 65 + n"
      by (simp_all add: b64_char_def of_char_small)
    then show ?thesis using 1 by (auto simp: b64_value_def altchar_def dest: arg_cong [of _ _ "of_char :: char \<Rightarrow> nat"])
  next
    case 2
    then have "(of_char (b64_char n) :: nat) = 71 + n"
      by (simp add: b64_char_def of_char_small)
    then show ?thesis using 2 by (auto simp: b64_value_def altchar_def dest: arg_cong [of _ _ "of_char :: char \<Rightarrow> nat"])
  next
    case 3
    then have "(of_char (b64_char n) :: nat) = n - 4"
      by (simp add: b64_char_def of_char_small)
    then show ?thesis using 3 by (auto simp: b64_value_def altchar_def Let_def dest: arg_cong [of _ _ "of_char :: char \<Rightarrow> nat"])
  qed (simp_all add: b64_char_def b64_value_def altchar_def)
qed

lemma b64_char_value [simp]:
  assumes "n < 64"
  shows "b64_value (altchar (b64_char n)) = Some n" and "b64_char n \<noteq> CHR ''=''"
    and "CHR ''='' \<noteq> b64_char n" and "(of_char (b64_char n) :: nat) < 128"
  using alphabet_correct [OF assms] by auto

lemma byte_lt: "unat (a :: byte) < 256"
  using unsigned_less [of a] by simp

lemma byte_bounds:
  fixes a b :: byte
  shows "unat a div 4 < 64" and "unat a mod 4 * 16 < 64" and "unat a mod 4 * 16 + unat b div 16 < 64"
    and "unat a mod 16 * 4 < 64" and "unat a mod 16 * 4 + unat b div 64 < 64" and "unat a mod 64 < 64"
  using byte_lt [of a] byte_lt [of b] by linarith+

lemma byte_ofI: "n = unat a \<Longrightarrow> byte_of n = a"
  by (simp add: byte_of_def)

lemma byte_parts:
  fixes a :: byte
  shows "unat a div 16 div 16 = 0" and "unat a div 16 mod 16 = unat a div 16"
    and "unat a div 64 div 4 = 0" and "unat a div 64 mod 4 = unat a div 64"
  using byte_lt [of a] by simp_all

lemma set_unpadded: "c \<in> set (unpadded bs) \<Longrightarrow> \<exists>n < 64. c = b64_char n"
  by (induction bs rule: unpadded.induct) (auto intro: byte_bounds)

lemma unpadded_padding: "urlsafe_b64encode bs = add_padding (unpadded bs)"
  by (induction bs rule: unpadded.induct) (simp_all add: add_padding_def numeral_2_eq_2)

lemma rstrip_padding_replicate:
  assumes "CHR ''='' \<notin> set s"
  shows "rstrip_padding (s @ replicate n (CHR ''='')) = s"
proof -
  have "dropWhile (\<lambda>c. c = CHR ''='') (replicate n (CHR ''='') @ t) = dropWhile (\<lambda>c. c = CHR ''='') t" for t
    by (induction n) simp_all
  moreover have "dropWhile (\<lambda>c. c = CHR ''='') (rev s) = rev s"
    using assms by (cases "rev s") (auto simp: dropWhile_eq_self_iff simp flip: set_rev [of s])
  ultimately show ?thesis by (simp add: rstrip_padding_def)
qed

lemma unpadded_no_padding: "CHR ''='' \<notin> set (unpadded bs)"
  using set_unpadded b64_char_value(3) by blast

lemma b64url_encode_unpadded: "b64url_encode bs = unpadded bs"
  by (simp add: b64url_encode_def unpadded_padding add_padding_def rstrip_padding_replicate
      unpadded_no_padding)

lemma a2b_encode: "a2b strict 0 0 0 False (urlsafe_b64encode bs) = Inr bs"
  by (induction bs rule: urlsafe_b64encode.induct)
     (simp_all add: byte_bounds byte_parts byte_ofI)

lemma b64decode_encode: "b64decode strict (urlsafe_b64encode bs) = Inr bs"
proof -
  have "(of_char c :: nat) < 128" if "c \<in> set (urlsafe_b64encode bs)" for c
    using that set_unpadded [of c bs] by (auto simp: unpadded_padding add_padding_def)
  moreover have "hd (urlsafe_b64encode bs) \<noteq> CHR ''=''" if "urlsafe_b64encode bs \<noteq> []"
    using that by (cases bs rule: urlsafe_b64encode.cases) (simp_all add: byte_bounds)
  ultimately show ?thesis by (simp add: b64decode_def a2b_encode) (meson leD)
qed

lemma b64url_decode_encode:
  "strict_b64url_decode (b64url_encode bs) = Inr bs" "lenient_b64url_decode (b64url_encode bs) = Inr bs"
  by (simp_all add: strict_b64url_decode_def lenient_b64url_decode_def b64url_encode_unpadded
      b64decode_encode flip: unpadded_padding)

text \<open>
  Both services decode what either of them encodes: for every byte sequence, the strict
  decoder of RecoveryOS and the lenient decoder of the customer agent return the bytes that were
  encoded as unpadded base64url, and the encoding holds no padding.
\<close>

theorem b64url_roundtrip:
  "strict_b64url_decode (b64url_encode bs) = Inr bs
   \<and> lenient_b64url_decode (b64url_encode bs) = Inr bs
   \<and> CHR ''='' \<notin> set (b64url_encode bs)"
  by (simp add: b64url_decode_encode) (simp add: b64url_encode_unpadded unpadded_no_padding)

section \<open>Canonical JSON\<close>

text \<open>
  \<open>json.dumps(model_dump, sort_keys=True, separators=(",", ":"), ensure_ascii=False)\<close> of a flat model:
  its fields are texts and integers. Control characters, the quote and the backslash are escaped.
\<close>

datatype json_scalar = J_text string | J_int int

definition hex_char :: "nat \<Rightarrow> char" where
  "hex_char n = (if n < 10 then char_of (48 + n) else char_of (87 + n))"

definition json_quote :: char where
  "json_quote = CHR 0x22"

definition json_backslash :: char where
  "json_backslash = CHR 0x5C"

definition json_escape :: "char \<Rightarrow> string" where
  "json_escape c = (let n = (of_char c :: nat) in
     if c = json_quote then [json_backslash, json_quote]
     else if c = json_backslash then [json_backslash, json_backslash]
     else if c = CHR 0x0A then [json_backslash, CHR ''n'']
     else if c = CHR 0x0D then [json_backslash, CHR ''r'']
     else if c = CHR 0x09 then [json_backslash, CHR ''t'']
     else if c = CHR 0x08 then [json_backslash, CHR ''b'']
     else if c = CHR 0x0C then [json_backslash, CHR ''f'']
     else if n < 32 then json_backslash # ''u00'' @ [hex_char (n div 16), hex_char (n mod 16)]
     else [c])"

definition json_string :: "string \<Rightarrow> string" where
  "json_string s = json_quote # concat (map json_escape s) @ [json_quote]"

fun json_scalar_text :: "json_scalar \<Rightarrow> string" where
  "json_scalar_text (J_text s) = json_string s"
| "json_scalar_text (J_int i) = int_str i"

definition json_field :: "string \<times> json_scalar \<Rightarrow> string" where
  "json_field f = json_string (fst f) @ '':'' @ json_scalar_text (snd f)"

fun json_join :: "string list \<Rightarrow> string" where
  "json_join [] = []"
| "json_join [x] = x"
| "json_join (x # y # xs) = x @ '','' @ json_join (y # xs)"

definition canonical_dump :: "(string \<times> json_scalar) list \<Rightarrow> string" where
  "canonical_dump fields = ''{'' @ json_join (map json_field (sort_key fst fields)) @ ''}''"

section \<open>The canonical JSON determines the fields\<close>

text \<open>Reading one character of a JSON string back.\<close>

definition hex_value :: "char \<Rightarrow> nat" where
  "hex_value c = (let n = (of_char c :: nat) in if n < 58 then n - 48 else n - 87)"

fun json_unescape :: "string \<Rightarrow> char \<times> string" where
  "json_unescape (c # cs) =
     (if c = json_backslash
      then case cs of e # es \<Rightarrow>
        if e = CHR ''n'' then (CHR 0x0A, es) else if e = CHR ''r'' then (CHR 0x0D, es)
        else if e = CHR ''t'' then (CHR 0x09, es) else if e = CHR ''b'' then (CHR 0x08, es)
        else if e = CHR ''f'' then (CHR 0x0C, es)
        else if e = CHR ''u'' then (char_of (16 * hex_value (es ! 2) + hex_value (es ! 3)), drop 4 es)
        else (e, es)
      else (c, cs))"

lemma hex_value_char: "n < 16 \<Longrightarrow> hex_value (hex_char n) = n"
  by (simp add: hex_value_def hex_char_def of_char_small Let_def)

lemma json_unescape_escape: "json_unescape (json_escape c @ r) = (c, r)"
proof (cases "c \<in> {json_quote, json_backslash, CHR 0x0A, CHR 0x0D, CHR 0x09, CHR 0x08, CHR 0x0C}")
  case True
  then show ?thesis by (auto simp: json_escape_def json_quote_def json_backslash_def)
next
  case False
  let ?n = "of_char c :: nat"
  show ?thesis
  proof (cases "?n < 32")
    case True
    then have "hex_value (hex_char (?n div 16)) = ?n div 16" "hex_value (hex_char (?n mod 16)) = ?n mod 16"
      by (simp_all add: hex_value_char)
    moreover have "16 * (?n div 16) + ?n mod 16 = ?n" by simp
    ultimately show ?thesis using True False by (simp add: json_escape_def Let_def char_of_char)
  next
    case upper: False
    then show ?thesis using False by (simp add: json_escape_def Let_def)
  qed
qed

lemma json_escape_inject: "json_escape c @ r = json_escape d @ t \<Longrightarrow> c = d \<and> r = t"
  by (metis json_unescape_escape prod.inject)

lemma hd_json_escape: "json_escape c \<noteq> [] \<and> hd (json_escape c) \<noteq> json_quote"
  by (auto simp: json_escape_def json_quote_def json_backslash_def Let_def)

lemma json_string_inject: "json_string s @ r = json_string t @ u \<longleftrightarrow> s = t \<and> r = u"
proof
  have "concat (map json_escape s) @ json_quote # r = concat (map json_escape t) @ json_quote # u \<Longrightarrow> s = t \<and> r = u"
  proof (induction s arbitrary: t)
    case Nil
    show ?case
    proof (cases t)
      case (Cons d t')
      with Nil.prems have "json_quote # r = json_escape d @ concat (map json_escape t') @ json_quote # u" by simp
      with hd_json_escape [of d] have False by (cases "json_escape d") auto
      then show ?thesis ..
    qed (use Nil.prems in simp)
  next
    case (Cons c s)
    show ?case
    proof (cases t)
      case Nil
      with Cons.prems have "json_escape c @ concat (map json_escape s) @ json_quote # r = json_quote # u" by simp
      with hd_json_escape [of c] have False by (cases "json_escape c") auto
      then show ?thesis ..
    next
      case (Cons d t')
      with Cons.prems have "json_escape c @ concat (map json_escape s) @ json_quote # r
          = json_escape d @ concat (map json_escape t') @ json_quote # u" by simp
      from json_escape_inject [OF this] Cons Cons.IH show ?thesis by simp
    qed
  qed
  then show "json_string s @ r = json_string t @ u \<Longrightarrow> s = t \<and> r = u" by (simp add: json_string_def)
qed simp

definition number_char :: "char \<Rightarrow> bool" where
  "number_char c \<longleftrightarrow> c = CHR ''-'' \<or> 48 \<le> (of_char c :: nat) \<and> (of_char c :: nat) \<le> 57"

definition digit_value :: "string \<Rightarrow> nat" where
  "digit_value s = foldl (\<lambda>n c. 10 * n + ((of_char c :: nat) - 48)) 0 s"

lemma digits_of_correct:
  "digit_value (digits_of n) = n \<and> digits_of n \<noteq> []
   \<and> (\<forall>c \<in> set (digits_of n). 48 \<le> (of_char c :: nat) \<and> (of_char c :: nat) \<le> 57)"
proof (induction n rule: digits_of.induct)
  case (1 n)
  then show ?case
    by (subst (1 2 3) digits_of.simps) (auto simp: digit_value_def of_char_small)
qed

lemma minus_not_digit: "CHR ''-'' \<notin> set (digits_of n)"
  using digits_of_correct [of n] by fastforce

lemma int_str_number: "int_str i \<noteq> [] \<and> (\<forall>c \<in> set (int_str i). number_char c)"
  using digits_of_correct by (auto simp: int_str_def number_char_def)

lemma int_str_inject: "int_str i = int_str j \<Longrightarrow> i = j"
proof -
  assume eq: "int_str i = int_str j"
  have pos: "hd (digits_of n) \<noteq> CHR ''-''" for n
    using minus_not_digit [of n] digits_of_correct [of n] by (cases "digits_of n") auto
  have same: "m = n" if "digits_of m = digits_of n" for m n
    using that digits_of_correct by metis
  from eq pos digits_of_correct have "(i < 0) = (j < 0)"
    by (auto simp: int_str_def split: if_splits) (metis list.sel(1))+
  with eq show "i = j" by (auto simp: int_str_def dest: same split: if_splits)
qed

lemma split_at:
  assumes "xs @ c # r = ys @ d # u" and "\<forall>x \<in> set xs. P x" and "\<forall>y \<in> set ys. P y"
    and "\<not> P c" and "\<not> P d"
  shows "xs = ys \<and> c = d \<and> r = u"
  using assms
proof (induction xs arbitrary: ys)
  case Nil
  then show ?case by (cases ys) auto
next
  case (Cons x xs)
  then show ?case by (cases ys) auto
qed

lemma json_scalar_inject:
  assumes "json_scalar_text v @ c # r = json_scalar_text w @ d # u"
    and "\<not> number_char c" and "\<not> number_char d"
  shows "v = w \<and> c = d \<and> r = u"
proof -
  have quote: "\<not> number_char json_quote" by (simp add: number_char_def json_quote_def)
  have mixed: "json_string s @ t \<noteq> int_str i @ t'" for s t t' i
    using int_str_number [of i] quote by (cases "int_str i") (auto simp: json_string_def)
  show ?thesis
  proof (cases v; cases w)
    fix i j assume "v = J_int i" "w = J_int j"
    with assms split_at [of "int_str i" c r "int_str j" d u number_char] int_str_number int_str_inject
    show ?thesis by auto
  qed (use assms mixed in \<open>auto simp: json_string_inject dest: sym\<close>)
qed

lemma json_field_inject:
  assumes "json_field f @ c # r = json_field g @ d # u"
    and "\<not> number_char c" and "\<not> number_char d"
  shows "f = g \<and> c = d \<and> r = u"
proof -
  from assms(1) have "json_string (fst f) @ CHR '':'' # json_scalar_text (snd f) @ c # r
      = json_string (fst g) @ CHR '':'' # json_scalar_text (snd g) @ d # u"
    by (simp add: json_field_def)
  then have "fst f = fst g" "json_scalar_text (snd f) @ c # r = json_scalar_text (snd g) @ d # u"
    by (simp_all add: json_string_inject)
  with json_scalar_inject [OF this(2) assms(2,3)] show ?thesis by (simp add: prod_eq_iff)
qed

lemma separators: "\<not> number_char (CHR '','')" "\<not> number_char (CHR ''}'')"
  by (simp_all add: number_char_def)

lemma hd_json_join: "hd (json_join (map json_field (f # fs)) @ r) = json_quote
    \<and> json_join (map json_field (f # fs)) \<noteq> []"
  by (cases fs) (simp_all add: json_field_def json_string_def)

lemma json_join_inject:
  "json_join (map json_field fs) @ CHR ''}'' # r = json_join (map json_field gs) @ CHR ''}'' # u
   \<Longrightarrow> fs = gs \<and> r = u"
proof (induction fs arbitrary: gs)
  case Nil
  show ?case
  proof (cases gs)
    case (Cons g gs')
    with Nil.prems hd_json_join [of g gs' "CHR ''}'' # u"] show ?thesis
      by (auto simp: json_quote_def dest: arg_cong [of _ _ hd])
  qed (use Nil.prems in simp)
next
  case (Cons f fs)
  show ?case
  proof (cases gs)
    case Nil
    with Cons.prems hd_json_join [of f fs "CHR ''}'' # r"] show ?thesis
      by (auto simp: json_quote_def dest: arg_cong [of _ _ hd])
  next
    case gs: (Cons g gs')
    have shape: "json_join (map json_field (x # xs)) @ CHR ''}'' # t
        = json_field x @ (if xs = [] then CHR ''}'' else CHR '','') #
          (if xs = [] then t else json_join (map json_field xs) @ CHR ''}'' # t)" for x xs t
      by (cases xs) simp_all
    from Cons.prems [unfolded gs shape] have eqs: "f = g"
      "(if fs = [] then CHR ''}'' else CHR '','') = (if gs' = [] then CHR ''}'' else CHR '','')"
      "(if fs = [] then r else json_join (map json_field fs) @ CHR ''}'' # r)
       = (if gs' = [] then u else json_join (map json_field gs') @ CHR ''}'' # u)"
      by (auto dest: json_field_inject split: if_splits simp: separators)
    then show ?thesis using Cons.IH [of gs'] gs by (cases "fs = []"; cases "gs' = []") auto
  qed
qed

lemma same_keys_same_fields:
  assumes "mset fs = mset gs" and "map fst fs = map fst gs" and "distinct (map fst fs)"
  shows "fs = gs"
proof (rule nth_equalityI)
  show len: "length fs = length gs" using assms(1) by (rule mset_eq_length)
  fix i assume i: "i < length fs"
  have key: "fst (fs ! i) = fst (gs ! i)" using assms(2) i len by (metis nth_map)
  have "gs ! i \<in> set fs" using i len assms(1) by (metis mset_eq_setD nth_mem)
  then obtain j where j: "j < length fs" "fs ! j = gs ! i" by (auto simp: in_set_conv_nth)
  with key i assms(3) have "j = i" by (metis distinct_conv_nth length_map nth_map)
  with j show "fs ! i = gs ! i" by simp
qed

lemma canonical_dump_inject:
  assumes "canonical_dump fs = canonical_dump gs"
    and "map fst fs = map fst gs" and "distinct (map fst fs)"
  shows "fs = gs"
proof -
  from assms(1) have "sort_key fst fs = sort_key fst gs"
    using json_join_inject [of "sort_key fst fs" "[]" "sort_key fst gs" "[]"] by (simp add: canonical_dump_def)
  then have "mset fs = mset gs" by (metis mset_sort)
  from same_keys_same_fields [OF this assms(2,3)] show ?thesis .
qed

end
