(* ===== verification/A2A_Mandates.thy ===== *)
theory A2A_Mandates
  imports Wire_Encoding Entities
begin

text \<open>
  Signed customer mandates: \<open>services/api/app/integrations/a2a/models.py\<close>, \<open>mandates.py\<close>,
  \<open>nonce_store.py\<close> and the table of \<open>services/api/app/models/a2a.py\<close>.

  \<open>verify_and_consume\<close> checks a mandate against a pinned key, its time window and the expected
  scope, and consumes its nonce in a store. The two stores, the dictionaries of
  \<open>InMemoryNonceStore\<close> and the table of \<open>SqlAlchemyNonceStore\<close>, both interpret the locale
  \<open>nonce_store\<close>, in which single use, the time window and the idempotence of a retry are proved.

  Ed25519, SHA-256 and the text of a timestamp in JSON are the fields of \<open>crypto\<close>. A mandate
  is the value the wire model holds; \<open>valid_mandate\<close> is its validation, which an instance
  of the model has passed.
\<close>

section \<open>Wire models\<close>

record RecoveryMandateData =
  md_protocol_version :: string
  md_mandate_id :: ident
  md_nonce :: string
  md_signer_key_id :: string
  md_task_id :: ident
  md_merchant_id :: ident
  md_case_id :: ident
  md_customer_id :: ident
  md_recovery_action_id :: ident
  md_failed_invoice_id :: ident
  md_exact_amount_paise :: paise
  md_currency :: string
  md_payment_surface_type :: string
  md_payment_surface_reference :: string
  md_authorized_action :: string
  md_issued_at :: datetime
  md_expires_at :: datetime

definition currency_pattern :: "string \<Rightarrow> bool" where
  "currency_pattern s \<longleftrightarrow> length s = 3 \<and> list_all (\<lambda>c. 65 \<le> (of_char c :: nat) \<and> (of_char c :: nat) \<le> 90) s"

definition validate_window :: "RecoveryMandateData \<Rightarrow> bool" where
  "validate_window d \<longleftrightarrow> is_aware (md_issued_at d) \<and> is_aware (md_expires_at d)
     \<and> utc_instant (md_issued_at d) < utc_instant (md_expires_at d)"

definition valid_mandate_data :: "RecoveryMandateData \<Rightarrow> bool" where
  "valid_mandate_data d \<longleftrightarrow> md_protocol_version d = ''recovery.mandate.v2''
     \<and> md_mandate_id d \<noteq> [] \<and> md_nonce d \<noteq> [] \<and> md_signer_key_id d \<noteq> [] \<and> md_task_id d \<noteq> []
     \<and> md_merchant_id d \<noteq> [] \<and> md_case_id d \<noteq> [] \<and> md_customer_id d \<noteq> []
     \<and> md_recovery_action_id d \<noteq> [] \<and> md_failed_invoice_id d \<noteq> [] \<and> 0 < md_exact_amount_paise d
     \<and> currency_pattern (md_currency d) \<and> md_authorized_action d = ''OPEN_EXACT_PAYMENT_SURFACE''
     \<and> validate_window d"

record SignedMandate =
  sm_algorithm :: string
  sm_data :: RecoveryMandateData
  sm_signature :: string

definition valid_mandate :: "SignedMandate \<Rightarrow> bool" where
  "valid_mandate m \<longleftrightarrow> sm_algorithm m = ''Ed25519'' \<and> valid_mandate_data (sm_data m)"

record ExpectedMandateScope =
  es_task_id :: ident
  es_merchant_id :: ident
  es_case_id :: ident
  es_customer_id :: ident
  es_recovery_action_id :: ident
  es_failed_invoice_id :: ident
  es_exact_amount_paise :: paise
  es_currency :: string
  es_payment_surface_type :: string
  es_payment_surface_reference :: string

section \<open>Signatures\<close>

text \<open>The third-party functions: verification and signing with Ed25519, the SHA-256 digest in
  hexadecimal, and the text pydantic writes for a timestamp.\<close>

record crypto =
  ed25519_verify :: "byte list \<Rightarrow> byte list \<Rightarrow> string \<Rightarrow> bool"
  ed25519_sign :: "byte list \<Rightarrow> string \<Rightarrow> byte list"
  ed25519_public :: "byte list \<Rightarrow> byte list"
  sha256_hexdigest :: "string \<Rightarrow> string"
  timestamp_text :: "datetime \<Rightarrow> string"

definition mandate_dump :: "crypto \<Rightarrow> RecoveryMandateData \<Rightarrow> (string \<times> json_scalar) list" where
  "mandate_dump cr d = [
     (''protocol_version'', J_text (md_protocol_version d)), (''mandate_id'', J_text (md_mandate_id d)),
     (''nonce'', J_text (md_nonce d)), (''signer_key_id'', J_text (md_signer_key_id d)),
     (''task_id'', J_text (md_task_id d)), (''merchant_id'', J_text (md_merchant_id d)),
     (''case_id'', J_text (md_case_id d)), (''customer_id'', J_text (md_customer_id d)),
     (''recovery_action_id'', J_text (md_recovery_action_id d)),
     (''failed_invoice_id'', J_text (md_failed_invoice_id d)),
     (''exact_amount_paise'', J_int (md_exact_amount_paise d)), (''currency'', J_text (md_currency d)),
     (''payment_surface_type'', J_text (md_payment_surface_type d)),
     (''payment_surface_reference'', J_text (md_payment_surface_reference d)),
     (''authorized_action'', J_text (md_authorized_action d)),
     (''issued_at'', J_text (timestamp_text cr (md_issued_at d))),
     (''expires_at'', J_text (timestamp_text cr (md_expires_at d)))]"

definition canonical_json :: "crypto \<Rightarrow> RecoveryMandateData \<Rightarrow> string" where
  "canonical_json cr d = canonical_dump (mandate_dump cr d)"

datatype mandate_error = MandateVerificationError string string | Value_Error string
  | Store_Integrity_Error

definition decode_or_reject :: "string \<Rightarrow> mandate_error + byte list" where
  "decode_or_reject s = (case strict_b64url_decode s of
     Inl _ \<Rightarrow> Inl (MandateVerificationError ''INVALID_ENCODING'' ''invalid base64url value'')
   | Inr bs \<Rightarrow> Inr bs)"

record MandateVerifier =
  mv_keys :: "(string \<times> byte list) list"
  mv_max_clock_skew :: int

definition parse_public_key :: "string \<times> string \<Rightarrow> mandate_error + string \<times> byte list" where
  "parse_public_key k = bindE (decode_or_reject (snd k)) (\<lambda>raw.
     if length raw \<noteq> 32 then Inl (Value_Error ''public key must contain 32 bytes'')
     else Inr (fst k, raw))"

definition default_clock_skew :: int where
  "default_clock_skew = seconds 30"

definition new_verifier :: "(string \<times> string) list \<Rightarrow> int \<Rightarrow> mandate_error + MandateVerifier" where
  "new_verifier pinned_public_keys max_clock_skew =
     (if pinned_public_keys = []
      then Inl (Value_Error ''at least one pinned customer-agent public key is required'')
      else bindE (traverseE parse_public_key pinned_public_keys) (\<lambda>keys.
        Inr \<lparr>mv_keys = keys, mv_max_clock_skew = max_clock_skew\<rparr>))"

section \<open>Claims and stores\<close>

datatype NonceClaimOutcome = CLAIMED | ALREADY_CLAIMED | CONFLICT

record MandateNonceClaim =
  nc_claim_id :: string
  nc_nonce :: string
  nc_mandate_id :: ident
  nc_signer_key_id :: string
  nc_task_id :: ident
  nc_merchant_id :: ident
  nc_case_id :: ident
  nc_customer_id :: ident
  nc_recovery_action_id :: ident
  nc_failed_invoice_id :: ident
  nc_exact_amount_paise :: paise
  nc_currency :: string
  nc_payment_surface_type :: string
  nc_payment_surface_reference :: string
  nc_authorized_action :: string
  nc_issued_at :: instant
  nc_expires_at :: instant
  nc_consumed_at :: instant

subsection \<open>In memory\<close>

record InMemoryNonceStore =
  ns_claims_by_nonce :: "string \<rightharpoonup> MandateNonceClaim"
  ns_nonce_by_mandate_id :: "string \<rightharpoonup> string"

definition new_memory_store :: InMemoryNonceStore where
  "new_memory_store = \<lparr>ns_claims_by_nonce = Map.empty, ns_nonce_by_mandate_id = Map.empty\<rparr>"

definition consume_memory ::
    "InMemoryNonceStore \<Rightarrow> MandateNonceClaim \<Rightarrow> bool \<Rightarrow> mandate_error + NonceClaimOutcome \<times> InMemoryNonceStore" where
  "consume_memory s claim allow_new =
     (let existing = ns_claims_by_nonce s (nc_nonce claim);
          mandate_nonce = ns_nonce_by_mandate_id s (nc_mandate_id claim)
      in if existing = None \<and> mandate_nonce = None \<and> allow_new
         then Inr (CLAIMED, s\<lparr>
           ns_claims_by_nonce := (ns_claims_by_nonce s)(nc_nonce claim \<mapsto> claim),
           ns_nonce_by_mandate_id := (ns_nonce_by_mandate_id s)(nc_mandate_id claim \<mapsto> nc_nonce claim)\<rparr>)
         else case existing of
           Some e \<Rightarrow> if nc_claim_id e = nc_claim_id claim \<and> mandate_nonce = Some (nc_nonce claim)
             then Inr (ALREADY_CLAIMED, s) else Inr (CONFLICT, s)
         | None \<Rightarrow> Inr (CONFLICT, s))"

subsection \<open>In the database\<close>

datatype MandateExecutionStatus = LEGACY | AUTHORIZED | EXECUTING | SUCCEEDED | UNCERTAIN

record A2AMandateNonceConsumption =
  mc_nonce :: string
  mc_mandate_id :: ident
  mc_claim_id :: "string option"
  mc_signer_key_id :: string
  mc_task_id :: "ident option"
  mc_merchant_id :: ident
  mc_case_id :: ident
  mc_customer_id :: "ident option"
  mc_recovery_action_id :: "ident option"
  mc_failed_invoice_id :: "ident option"
  mc_exact_amount_paise :: "paise option"
  mc_currency :: "string option"
  mc_payment_surface_type :: "string option"
  mc_payment_surface_reference :: "string option"
  mc_authorized_action :: "string option"
  mc_issued_at :: "instant option"
  mc_expires_at :: instant
  mc_consumed_at :: instant
  mc_execution_status :: MandateExecutionStatus
  mc_execution_claimed_at :: "instant option"
  mc_executed_at :: "instant option"

record a2a_database = database +
  db_mandates :: "A2AMandateNonceConsumption list"

text \<open>The unique constraints of the table, and the foreign keys of a new row.\<close>

definition mandate_clash :: "A2AMandateNonceConsumption \<Rightarrow> A2AMandateNonceConsumption \<Rightarrow> bool" where
  "mandate_clash a b \<longleftrightarrow> mc_nonce a = mc_nonce b \<or> mc_mandate_id a = mc_mandate_id b
     \<or> mc_claim_id a \<noteq> None \<and> mc_claim_id a = mc_claim_id b
     \<or> mc_recovery_action_id a \<noteq> None \<and> mc_recovery_action_id a = mc_recovery_action_id b"

definition claim_references :: "a2a_database \<Rightarrow> MandateNonceClaim \<Rightarrow> bool" where
  "claim_references db c \<longleftrightarrow> nc_merchant_id c \<in> set (map mr_id (db_merchants db))
     \<and> nc_case_id c \<in> set (map rc_id (db_cases db)) \<and> nc_customer_id c \<in> set (map cu_id (db_customers db))
     \<and> nc_recovery_action_id c \<in> set (map ar_id (db_actions db))
     \<and> nc_failed_invoice_id c \<in> set (map iv_id (db_invoices db))"

definition authorized_row :: "MandateNonceClaim \<Rightarrow> A2AMandateNonceConsumption" where
  "authorized_row c = \<lparr>mc_nonce = nc_nonce c, mc_mandate_id = nc_mandate_id c,
     mc_claim_id = Some (nc_claim_id c), mc_signer_key_id = nc_signer_key_id c,
     mc_task_id = Some (nc_task_id c), mc_merchant_id = nc_merchant_id c, mc_case_id = nc_case_id c,
     mc_customer_id = Some (nc_customer_id c), mc_recovery_action_id = Some (nc_recovery_action_id c),
     mc_failed_invoice_id = Some (nc_failed_invoice_id c),
     mc_exact_amount_paise = Some (nc_exact_amount_paise c), mc_currency = Some (nc_currency c),
     mc_payment_surface_type = Some (nc_payment_surface_type c),
     mc_payment_surface_reference = Some (nc_payment_surface_reference c),
     mc_authorized_action = Some (nc_authorized_action c), mc_issued_at = Some (nc_issued_at c),
     mc_expires_at = nc_expires_at c, mc_consumed_at = nc_consumed_at c,
     mc_execution_status = AUTHORIZED, mc_execution_claimed_at = None, mc_executed_at = None\<rparr>"

definition persisted_claim :: "A2AMandateNonceConsumption \<Rightarrow> MandateNonceClaim \<Rightarrow> bool" where
  "persisted_claim item c \<longleftrightarrow> mc_claim_id item = Some (nc_claim_id c) \<and> mc_nonce item = nc_nonce c
     \<and> mc_mandate_id item = nc_mandate_id c \<and> mc_signer_key_id item = nc_signer_key_id c
     \<and> mc_task_id item = Some (nc_task_id c) \<and> mc_merchant_id item = nc_merchant_id c
     \<and> mc_case_id item = nc_case_id c \<and> mc_customer_id item = Some (nc_customer_id c)
     \<and> mc_recovery_action_id item = Some (nc_recovery_action_id c)
     \<and> mc_failed_invoice_id item = Some (nc_failed_invoice_id c)
     \<and> mc_exact_amount_paise item = Some (nc_exact_amount_paise c)
     \<and> mc_currency item = Some (nc_currency c)
     \<and> mc_payment_surface_type item = Some (nc_payment_surface_type c)
     \<and> mc_payment_surface_reference item = Some (nc_payment_surface_reference c)
     \<and> mc_authorized_action item = Some (nc_authorized_action c)
     \<and> mc_issued_at item = Some (nc_issued_at c) \<and> mc_expires_at item = nc_expires_at c"

definition existing_claims :: "A2AMandateNonceConsumption list \<Rightarrow> MandateNonceClaim \<Rightarrow> A2AMandateNonceConsumption list" where
  "existing_claims rows c = filter (\<lambda>item. mc_nonce item = nc_nonce c \<or> mc_mandate_id item = nc_mandate_id c
     \<or> mc_claim_id item = Some (nc_claim_id c)
     \<or> mc_recovery_action_id item = Some (nc_recovery_action_id c)) rows"

definition recover_claim :: "A2AMandateNonceConsumption list \<Rightarrow> MandateNonceClaim \<Rightarrow> NonceClaimOutcome" where
  "recover_claim rows c =
     (if \<exists>item \<in> set (existing_claims rows c). persisted_claim item c then ALREADY_CLAIMED else CONFLICT)"

text \<open>
  The insert has \<open>ON CONFLICT DO NOTHING\<close>: a taken unique key inserts nothing. The check constraint
  \<open>consumed_before_expiry\<close> and a missing referenced row raise.
\<close>

definition consume_sql ::
    "a2a_database \<Rightarrow> MandateNonceClaim \<Rightarrow> bool \<Rightarrow> mandate_error + NonceClaimOutcome \<times> a2a_database" where
  "consume_sql db c allow_new =
     (if \<not> allow_new then Inr (recover_claim (db_mandates db) c, db)
      else if nc_expires_at c < nc_consumed_at c then Inl Store_Integrity_Error
      else if \<exists>item \<in> set (db_mandates db). mandate_clash (authorized_row c) item
      then Inr (recover_claim (db_mandates db) c, db)
      else if \<not> claim_references db c then Inl Store_Integrity_Error
      else Inr (CLAIMED, db\<lparr>db_mandates := db_mandates db @ [authorized_row c]\<rparr>))"

section \<open>Verification\<close>

record VerifiedMandate =
  vm_data :: RecoveryMandateData
  vm_verified_at :: instant
  vm_claim_id :: string

definition scope_mismatches :: "RecoveryMandateData \<Rightarrow> ExpectedMandateScope \<Rightarrow> string list" where
  "scope_mismatches d e = map fst (filter snd [
     (''task_id'', md_task_id d \<noteq> es_task_id e), (''merchant_id'', md_merchant_id d \<noteq> es_merchant_id e),
     (''case_id'', md_case_id d \<noteq> es_case_id e), (''customer_id'', md_customer_id d \<noteq> es_customer_id e),
     (''recovery_action_id'', md_recovery_action_id d \<noteq> es_recovery_action_id e),
     (''failed_invoice_id'', md_failed_invoice_id d \<noteq> es_failed_invoice_id e),
     (''exact_amount_paise'', md_exact_amount_paise d \<noteq> es_exact_amount_paise e),
     (''currency'', md_currency d \<noteq> es_currency e),
     (''payment_surface_type'', md_payment_surface_type d \<noteq> es_payment_surface_type e),
     (''payment_surface_reference'', md_payment_surface_reference d \<noteq> es_payment_surface_reference e)])"

fun py_join :: "string \<Rightarrow> string list \<Rightarrow> string" where
  "py_join sep [] = []"
| "py_join sep [x] = x"
| "py_join sep (x # y # xs) = x @ sep @ py_join sep (y # xs)"

definition verify_signature :: "crypto \<Rightarrow> MandateVerifier \<Rightarrow> SignedMandate \<Rightarrow> mandate_error + unit" where
  "verify_signature cr v envelope =
     (case map_of (mv_keys v) (md_signer_key_id (sm_data envelope)) of
        None \<Rightarrow> Inl (MandateVerificationError ''UNKNOWN_SIGNER_KEY'' ''signer key is not pinned'')
      | Some public_key \<Rightarrow> bindE (decode_or_reject (sm_signature envelope)) (\<lambda>signature.
          if ed25519_verify cr public_key signature (canonical_json cr (sm_data envelope)) then Inr ()
          else Inl (MandateVerificationError ''INVALID_SIGNATURE'' ''mandate signature is invalid'')))"

definition claim_of :: "crypto \<Rightarrow> RecoveryMandateData \<Rightarrow> instant \<Rightarrow> MandateNonceClaim" where
  "claim_of cr d observed_at = \<lparr>nc_claim_id = sha256_hexdigest cr (canonical_json cr d),
     nc_nonce = md_nonce d, nc_mandate_id = md_mandate_id d, nc_signer_key_id = md_signer_key_id d,
     nc_task_id = md_task_id d, nc_merchant_id = md_merchant_id d, nc_case_id = md_case_id d,
     nc_customer_id = md_customer_id d, nc_recovery_action_id = md_recovery_action_id d,
     nc_failed_invoice_id = md_failed_invoice_id d, nc_exact_amount_paise = md_exact_amount_paise d,
     nc_currency = md_currency d, nc_payment_surface_type = md_payment_surface_type d,
     nc_payment_surface_reference = md_payment_surface_reference d,
     nc_authorized_action = md_authorized_action d, nc_issued_at = utc_instant (md_issued_at d),
     nc_expires_at = utc_instant (md_expires_at d), nc_consumed_at = observed_at\<rparr>"

definition consume_claim ::
    "('s \<Rightarrow> MandateNonceClaim \<Rightarrow> bool \<Rightarrow> mandate_error + NonceClaimOutcome \<times> 's) \<Rightarrow> 's
     \<Rightarrow> MandateNonceClaim \<Rightarrow> bool \<Rightarrow> mandate_error + 's" where
  "consume_claim consume s claim expired =
     bindE (consume s claim (\<not> expired)) (\<lambda>(outcome, s').
       if outcome = CONFLICT
       then if expired then Inl (MandateVerificationError ''EXPIRED'' ''mandate has expired'')
            else Inl (MandateVerificationError ''REPLAYED''
              ''mandate nonce or ID was reused with different signed scope'')
       else if expired \<and> outcome \<noteq> ALREADY_CLAIMED
       then Inl (MandateVerificationError ''EXPIRED'' ''mandate has expired'')
       else Inr s')"

definition verify_and_consume ::
    "crypto \<Rightarrow> MandateVerifier \<Rightarrow> ('s \<Rightarrow> MandateNonceClaim \<Rightarrow> bool \<Rightarrow> mandate_error + NonceClaimOutcome \<times> 's)
     \<Rightarrow> 's \<Rightarrow> SignedMandate \<Rightarrow> ExpectedMandateScope \<Rightarrow> datetime \<Rightarrow> mandate_error + VerifiedMandate \<times> 's" where
  "verify_and_consume cr v consume s envelope expected now =
     (if \<not> valid_mandate envelope
      then Inl (MandateVerificationError ''MALFORMED_MANDATE''
        ''mandate envelope does not match recovery.mandate.v2'')
      else bindE (verify_signature cr v envelope) (\<lambda>_.
        if \<not> is_aware now then Inl (Value_Error ''verification time must be timezone-aware'')
        else let data = sm_data envelope; observed_at = utc_instant now;
                 expired = (utc_instant (md_expires_at data) \<le> observed_at);
                 mismatches = scope_mismatches data expected;
                 claim = claim_of cr data observed_at
          in if observed_at + mv_max_clock_skew v < utc_instant (md_issued_at data)
             then Inl (MandateVerificationError ''NOT_YET_VALID'' ''mandate issue time is in the future'')
             else if mismatches \<noteq> []
             then Inl (MandateVerificationError ''SCOPE_MISMATCH''
               (''mandate does not match expected '' @ py_join '', '' mismatches))
             else bindE (consume_claim consume s claim expired) (\<lambda>s'.
               Inr (\<lparr>vm_data = data, vm_verified_at = observed_at, vm_claim_id = nc_claim_id claim\<rparr>, s'))))"

section \<open>The signed bytes determine the mandate\<close>

lemma canonical_json_inject:
  assumes "inj (timestamp_text cr)" and "canonical_json cr d = canonical_json cr e"
  shows "d = e"
proof -
  have "map fst (mandate_dump cr d) = map fst (mandate_dump cr e)"
    and "distinct (map fst (mandate_dump cr d))"
    by (simp_all add: mandate_dump_def)
  with assms(2) have "mandate_dump cr d = mandate_dump cr e"
    unfolding canonical_json_def by (rule canonical_dump_inject)
  then show ?thesis
    using assms(1) by (auto simp: mandate_dump_def inj_eq intro: RecoveryMandateData.equality)
qed

section \<open>What a successful verification shows\<close>

lemma scope_mismatches_Nil:
  "scope_mismatches d e = [] \<longleftrightarrow>
     md_task_id d = es_task_id e \<and> md_merchant_id d = es_merchant_id e \<and> md_case_id d = es_case_id e
     \<and> md_customer_id d = es_customer_id e \<and> md_recovery_action_id d = es_recovery_action_id e
     \<and> md_failed_invoice_id d = es_failed_invoice_id e \<and> md_exact_amount_paise d = es_exact_amount_paise e
     \<and> md_currency d = es_currency e \<and> md_payment_surface_type d = es_payment_surface_type e
     \<and> md_payment_surface_reference d = es_payment_surface_reference e"
  by (auto simp: scope_mismatches_def)

definition authentic :: "crypto \<Rightarrow> MandateVerifier \<Rightarrow> SignedMandate \<Rightarrow> bool" where
  "authentic cr v envelope \<longleftrightarrow> (\<exists>key signature.
     map_of (mv_keys v) (md_signer_key_id (sm_data envelope)) = Some key
     \<and> strict_b64url_decode (sm_signature envelope) = Inr signature
     \<and> ed25519_verify cr key signature (canonical_json cr (sm_data envelope)))"

lemma verify_signature_ok: "verify_signature cr v envelope = Inr u \<longleftrightarrow> authentic cr v envelope"
  by (auto simp: verify_signature_def authentic_def decode_or_reject_def result_simps
      split: option.splits sum.splits if_splits)

definition in_window :: "MandateVerifier \<Rightarrow> RecoveryMandateData \<Rightarrow> instant \<Rightarrow> bool" where
  "in_window v d t \<longleftrightarrow> utc_instant (md_issued_at d) \<le> t + mv_max_clock_skew v
     \<and> t < utc_instant (md_expires_at d)"

lemma verify_and_consume_Inr:
  "verify_and_consume cr v consume s envelope expected now = Inr (vm, s') \<longleftrightarrow>
     valid_mandate envelope \<and> authentic cr v envelope \<and> is_aware now
     \<and> utc_instant (md_issued_at (sm_data envelope)) \<le> utc_instant now + mv_max_clock_skew v
     \<and> scope_mismatches (sm_data envelope) expected = []
     \<and> consume_claim consume s (claim_of cr (sm_data envelope) (utc_instant now))
         (utc_instant (md_expires_at (sm_data envelope)) \<le> utc_instant now) = Inr s'
     \<and> vm = \<lparr>vm_data = sm_data envelope, vm_verified_at = utc_instant now,
         vm_claim_id = sha256_hexdigest cr (canonical_json cr (sm_data envelope))\<rparr>"
  by (auto simp: verify_and_consume_def result_simps verify_signature_ok claim_of_def Let_def not_less
      split: if_splits)

lemma signed_authentic:
  assumes "ed25519_verify cr (ed25519_public cr key) (ed25519_sign cr key (canonical_json cr (sm_data envelope)))
      (canonical_json cr (sm_data envelope))"
    and "map_of (mv_keys v) (md_signer_key_id (sm_data envelope)) = Some (ed25519_public cr key)"
    and "sm_signature envelope = b64url_encode (ed25519_sign cr key (canonical_json cr (sm_data envelope)))"
  shows "authentic cr v envelope"
  using assms b64url_decode_encode by (auto simp: authentic_def)

section \<open>What a nonce store promises\<close>

definition same_claim :: "MandateNonceClaim \<Rightarrow> MandateNonceClaim \<Rightarrow> bool" where
  "same_claim c d \<longleftrightarrow> nc_claim_id c = nc_claim_id d \<and> nc_nonce c = nc_nonce d
     \<and> nc_mandate_id c = nc_mandate_id d"

type_synonym attempt = "SignedMandate \<times> ExpectedMandateScope \<times> datetime"

text \<open>A sequence of verifications: the results of the successful ones, and the store after.\<close>

fun verify_all ::
    "crypto \<Rightarrow> MandateVerifier \<Rightarrow> ('s \<Rightarrow> MandateNonceClaim \<Rightarrow> bool \<Rightarrow> mandate_error + NonceClaimOutcome \<times> 's)
     \<Rightarrow> 's \<Rightarrow> attempt list \<Rightarrow> VerifiedMandate list \<times> 's" where
  "verify_all cr v consume s [] = ([], s)"
| "verify_all cr v consume s ((envelope, expected, now) # attempts) =
     (case verify_and_consume cr v consume s envelope expected now of
        Inl e \<Rightarrow> verify_all cr v consume s attempts
      | Inr (vm, s') \<Rightarrow> let (vms, s'') = verify_all cr v consume s' attempts in (vm # vms, s''))"

locale nonce_store =
  fixes consume :: "'s \<Rightarrow> MandateNonceClaim \<Rightarrow> bool \<Rightarrow> mandate_error + NonceClaimOutcome \<times> 's"
    and inv :: "'s \<Rightarrow> bool"
    and granted :: "'s \<Rightarrow> MandateNonceClaim set"
    and clash :: "MandateNonceClaim \<Rightarrow> MandateNonceClaim \<Rightarrow> bool"
  assumes consume_inv: "inv s \<Longrightarrow> consume s c a = Inr (res, s') \<Longrightarrow> inv s'"
    and claimed: "inv s \<Longrightarrow> consume s c a = Inr (CLAIMED, s') \<Longrightarrow>
      a \<and> granted s' = insert c (granted s) \<and> (\<forall>d \<in> granted s. \<not> clash c d)"
    and already: "inv s \<Longrightarrow> consume s c a = Inr (ALREADY_CLAIMED, s') \<Longrightarrow>
      s' = s \<and> (\<exists>d \<in> granted s. same_claim d c)"
    and retry: "inv s \<Longrightarrow> consume s c a = Inr (res, s') \<Longrightarrow> res \<noteq> CONFLICT \<Longrightarrow>
      (a' \<Longrightarrow> t \<le> nc_expires_at c) \<Longrightarrow>
      consume s' (c\<lparr>nc_consumed_at := t\<rparr>) a' = Inr (ALREADY_CLAIMED, s')"
    and clash_sym: "clash c d \<Longrightarrow> clash d c"
    and clash_cong: "same_claim c d \<Longrightarrow> nc_recovery_action_id c = nc_recovery_action_id d \<Longrightarrow>
      clash c e = clash d e"
begin

lemma consume_claim_Inr:
  "consume_claim consume s c expired = Inr s' \<longleftrightarrow>
     (\<exists>res. consume s c (\<not> expired) = Inr (res, s') \<and> (res = CLAIMED \<and> \<not> expired \<or> res = ALREADY_CLAIMED))"
proof -
  have "res \<noteq> CONFLICT \<longleftrightarrow> res = CLAIMED \<or> res = ALREADY_CLAIMED" for res by (cases res) auto
  then show ?thesis by (auto simp: consume_claim_def result_simps split: if_splits)
qed

lemma consume_claim_cases:
  assumes "inv s" and "consume_claim consume s c expired = Inr s'"
  shows "inv s' \<and> (\<not> expired \<and> granted s' = insert c (granted s) \<and> (\<forall>d \<in> granted s. \<not> clash c d)
    \<or> s' = s \<and> (\<exists>d \<in> granted s. same_claim d c))"
proof -
  from assms(2) obtain res where res: "consume s c (\<not> expired) = Inr (res, s')"
    and ok: "res = CLAIMED \<and> \<not> expired \<or> res = ALREADY_CLAIMED"
    by (auto simp: consume_claim_Inr)
  from ok show ?thesis
    using claimed [OF assms(1)] already [OF assms(1)] consume_inv [OF assms(1)] res by blast
qed

text \<open>
  The claims the store has granted, each with the mandate that was verified for it, never
  clash; each verified mandate has its claim.
\<close>

definition accounted :: "crypto \<Rightarrow> MandateVerifier \<Rightarrow> 's \<Rightarrow> VerifiedMandate list \<Rightarrow> bool" where
  "accounted cr v s vms \<longleftrightarrow> inv s
     \<and> (\<forall>c \<in> granted s. \<exists>vm \<in> set vms. c = claim_of cr (vm_data vm) (vm_verified_at vm)
          \<and> in_window v (vm_data vm) (vm_verified_at vm))
     \<and> (\<forall>vm \<in> set vms. \<exists>c \<in> granted s. same_claim c (claim_of cr (vm_data vm) (vm_verified_at vm)))
     \<and> (\<forall>c \<in> granted s. \<forall>d \<in> granted s. clash c d \<longrightarrow> c = d)"

lemma accounted_step:
  assumes "accounted cr v s vms"
    and "verify_and_consume cr v consume s envelope expected now = Inr (vm, s')"
  shows "accounted cr v s' (vms @ [vm])"
proof -
  let ?c = "claim_of cr (vm_data vm) (vm_verified_at vm)"
  from assms(2) have cons: "consume_claim consume s ?c
      (utc_instant (md_expires_at (vm_data vm)) \<le> vm_verified_at vm) = Inr s'"
    and issued: "utc_instant (md_issued_at (vm_data vm)) \<le> vm_verified_at vm + mv_max_clock_skew v"
    by (auto simp: verify_and_consume_Inr)
  from assms(1) have "inv s" by (simp add: accounted_def)
  from consume_claim_cases [OF this cons]
  show ?thesis
  proof (elim conjE disjE)
    assume new: "inv s'" "granted s' = insert ?c (granted s)" "\<forall>d \<in> granted s. \<not> clash ?c d"
      "\<not> utc_instant (md_expires_at (vm_data vm)) \<le> vm_verified_at vm"
    have "same_claim ?c ?c" by (simp add: same_claim_def)
    with assms(1) new issued show ?thesis
      by (auto simp: accounted_def in_window_def dest: clash_sym)
  next
    assume "s' = s" "\<exists>d \<in> granted s. same_claim d ?c"
    with assms(1) show ?thesis by (auto simp: accounted_def)
  qed
qed

lemma accounted_all:
  assumes "accounted cr v s vms" and "verify_all cr v consume s attempts = (vms', s')"
  shows "accounted cr v s' (vms @ vms')"
  using assms
proof (induction attempts arbitrary: s vms vms')
  case Nil
  then show ?case by simp
next
  case (Cons a attempts)
  obtain envelope expected now where a: "a = (envelope, expected, now)" by (cases a) auto
  show ?case
  proof (cases "verify_and_consume cr v consume s envelope expected now")
    case (Inl e)
    with Cons a show ?thesis by simp
  next
    case (Inr r)
    obtain vm t where r: "r = (vm, t)" by force
    obtain ws u where rest: "verify_all cr v consume t attempts = (ws, u)" by force
    from Cons.prems(2) a Inr r rest have "vms' = vm # ws" "s' = u" by auto
    with Cons.IH [of t "vms @ [vm]" ws] accounted_step [OF Cons.prems(1) Inr [unfolded r]] rest
    show ?thesis by simp
  qed
qed

lemma verified_accounted:
  assumes "inv s" and "granted s = {}" and "verify_all cr v consume s attempts = (vms, s')"
  shows "accounted cr v s' vms"
proof -
  have "accounted cr v s []" using assms(1,2) by (simp add: accounted_def)
  from accounted_all [OF this assms(3)] show ?thesis by simp
qed

lemma same_digest:
  assumes "inj (timestamp_text cr)" and "inj_on (sha256_hexdigest cr) (canonical_json cr ` vm_data ` set vms)"
    and "vm \<in> set vms" and "wm \<in> set vms"
    and "sha256_hexdigest cr (canonical_json cr (vm_data vm)) = sha256_hexdigest cr (canonical_json cr (vm_data wm))"
  shows "vm_data vm = vm_data wm"
  using assms canonical_json_inject [OF assms(1)] by (meson image_eqI inj_onD)

lemma verified_claim:
  assumes "accounted cr v s' vms" and "inj (timestamp_text cr)"
    and "inj_on (sha256_hexdigest cr) (canonical_json cr ` vm_data ` set vms)" and "vm \<in> set vms"
  shows "\<exists>wm \<in> set vms. claim_of cr (vm_data vm) (vm_verified_at wm) \<in> granted s'
    \<and> vm_data wm = vm_data vm \<and> in_window v (vm_data vm) (vm_verified_at wm)"
proof -
  from assms(1,4) obtain c where c: "c \<in> granted s'" "same_claim c (claim_of cr (vm_data vm) (vm_verified_at vm))"
    by (auto simp: accounted_def)
  with assms(1) obtain wm where wm: "wm \<in> set vms" "c = claim_of cr (vm_data wm) (vm_verified_at wm)"
    "in_window v (vm_data wm) (vm_verified_at wm)"
    by (auto simp: accounted_def)
  with c have "vm_data wm = vm_data vm"
    by (intro same_digest [OF assms(2,3) wm(1) assms(4)]) (auto simp: same_claim_def claim_of_def)
  with c wm show ?thesis by auto
qed

lemma single_use:
  assumes "inv s" and "granted s = {}" and "inj (timestamp_text cr)"
    and "verify_all cr v consume s attempts = (vms, s')"
    and "inj_on (sha256_hexdigest cr) (canonical_json cr ` vm_data ` set vms)"
    and "vm \<in> set vms" and "wm \<in> set vms"
    and "clash (claim_of cr (vm_data vm) (vm_verified_at vm)) (claim_of cr (vm_data wm) (vm_verified_at wm))"
  shows "vm_data vm = vm_data wm"
proof -
  note acc = verified_accounted [OF assms(1,2,4)]
  obtain c and x :: VerifiedMandate where c: "c \<in> granted s'" "c = claim_of cr (vm_data vm) (vm_verified_at x)"
    using verified_claim [OF acc assms(3,5,6)] by auto
  obtain d and y :: VerifiedMandate where d: "d \<in> granted s'" "d = claim_of cr (vm_data wm) (vm_verified_at y)"
    using verified_claim [OF acc assms(3,5,7)] by auto
  have "same_claim c (claim_of cr (vm_data vm) (vm_verified_at vm))"
    "same_claim d (claim_of cr (vm_data wm) (vm_verified_at wm))"
    using c d by (simp_all add: same_claim_def claim_of_def)
  with assms(8) c d have "clash c d"
    using clash_cong clash_sym by (simp add: claim_of_def)
  with acc c d have "c = d" by (auto simp: accounted_def)
  with c d show ?thesis by (intro same_digest [OF assms(3,5-7)]) (auto simp: claim_of_def)
qed

lemma first_use:
  assumes "inv s" and "granted s = {}" and "inj (timestamp_text cr)"
    and "verify_all cr v consume s attempts = (vms, s')"
    and "inj_on (sha256_hexdigest cr) (canonical_json cr ` vm_data ` set vms)" and "vm \<in> set vms"
  shows "\<exists>wm \<in> set vms. vm_data wm = vm_data vm \<and> in_window v (vm_data vm) (vm_verified_at wm)"
  using verified_claim [OF verified_accounted [OF assms(1,2,4)] assms(3,5,6)] by auto

lemma verify_again:
  assumes "inv s" and "verify_and_consume cr v consume s envelope expected now = Inr (vm, s')"
    and "is_aware later" and "utc_instant now \<le> utc_instant later"
  shows "verify_and_consume cr v consume s' envelope expected later
    = Inr (vm\<lparr>vm_verified_at := utc_instant later\<rparr>, s')"
proof -
  let ?c = "claim_of cr (sm_data envelope) (utc_instant now)"
  let ?expired = "\<lambda>t. utc_instant (md_expires_at (sm_data envelope)) \<le> t"
  from assms(2) obtain res where res: "consume s ?c (\<not> ?expired (utc_instant now)) = Inr (res, s')" "res \<noteq> CONFLICT"
    by (auto simp: verify_and_consume_Inr consume_claim_Inr)
  from retry [OF assms(1) res, of "\<not> ?expired (utc_instant later)" "utc_instant later"]
  have "consume s' (claim_of cr (sm_data envelope) (utc_instant later)) (\<not> ?expired (utc_instant later))
      = Inr (ALREADY_CLAIMED, s')"
    by (simp add: claim_of_def)
  with assms(2-4) show ?thesis
    by (auto simp: verify_and_consume_Inr consume_claim_Inr)
qed

end

section \<open>Both stores keep the promise\<close>

definition memory_inv :: "InMemoryNonceStore \<Rightarrow> bool" where
  "memory_inv s \<longleftrightarrow>
     (\<forall>n d. ns_claims_by_nonce s n = Some d \<longrightarrow> nc_nonce d = n \<and> ns_nonce_by_mandate_id s (nc_mandate_id d) = Some n)
     \<and> (\<forall>m n. ns_nonce_by_mandate_id s m = Some n \<longrightarrow> (\<exists>d. ns_claims_by_nonce s n = Some d \<and> nc_mandate_id d = m))"

definition memory_clash :: "MandateNonceClaim \<Rightarrow> MandateNonceClaim \<Rightarrow> bool" where
  "memory_clash c d \<longleftrightarrow> nc_nonce c = nc_nonce d \<or> nc_mandate_id c = nc_mandate_id d"

definition sql_granted :: "a2a_database \<Rightarrow> MandateNonceClaim set" where
  "sql_granted db = {c. \<exists>row \<in> set (db_mandates db). persisted_claim row c \<and> mc_consumed_at row = nc_consumed_at c}"

definition sql_clash :: "MandateNonceClaim \<Rightarrow> MandateNonceClaim \<Rightarrow> bool" where
  "sql_clash c d \<longleftrightarrow> mandate_clash (authorized_row c) (authorized_row d)"

interpretation memory_store: nonce_store consume_memory memory_inv "\<lambda>s. ran (ns_claims_by_nonce s)" memory_clash
proof unfold_locales
  fix s c a res s'
  assume s: "memory_inv s" and c: "consume_memory s c a = Inr (res, s')"
  from s c show "memory_inv s'"
    by (auto simp: consume_memory_def memory_inv_def Let_def split: if_splits option.splits) (metis option.distinct(1))+
next
  fix s c a s'
  assume s: "memory_inv s" and c: "consume_memory s c a = Inr (CLAIMED, s')"
  from c have new: "ns_claims_by_nonce s (nc_nonce c) = None" "ns_nonce_by_mandate_id s (nc_mandate_id c) = None"
    "a" "ns_claims_by_nonce s' = (ns_claims_by_nonce s)(nc_nonce c \<mapsto> c)"
    by (auto simp: consume_memory_def Let_def split: if_splits option.splits)
  have "\<not> memory_clash c d" if "d \<in> ran (ns_claims_by_nonce s)" for d
    using s that new(1,2) by (auto simp: memory_inv_def memory_clash_def ran_def)
  with new show "a \<and> ran (ns_claims_by_nonce s') = insert c (ran (ns_claims_by_nonce s))
      \<and> (\<forall>d \<in> ran (ns_claims_by_nonce s). \<not> memory_clash c d)"
    by simp
next
  fix s c a s'
  assume "memory_inv s" and "consume_memory s c a = Inr (ALREADY_CLAIMED, s')"
  then show "s' = s \<and> (\<exists>d \<in> ran (ns_claims_by_nonce s). same_claim d c)"
    by (auto simp: consume_memory_def memory_inv_def same_claim_def ran_def Let_def split: if_splits option.splits)
       (metis option.inject)
next
  fix s c a res s' a' t
  assume "memory_inv s" and "consume_memory s c a = Inr (res, s')" and "res \<noteq> CONFLICT"
  then show "consume_memory s' (c\<lparr>nc_consumed_at := t\<rparr>) a' = Inr (ALREADY_CLAIMED, s')"
    by (auto simp: consume_memory_def Let_def split: if_splits option.splits)
qed (auto simp: memory_clash_def same_claim_def)

lemma persisted_authorized_row:
  "persisted_claim (authorized_row c) d \<and> nc_consumed_at c = nc_consumed_at d \<longleftrightarrow> d = c"
  by (auto simp: persisted_claim_def authorized_row_def intro: MandateNonceClaim.equality)

lemma persisted_claim_time [simp]:
  "persisted_claim row (c\<lparr>nc_consumed_at := t\<rparr>) = persisted_claim row c"
  "persisted_claim (authorized_row c) c" "mc_consumed_at (authorized_row c) = nc_consumed_at c"
  by (simp_all add: persisted_claim_def authorized_row_def)

lemma authorized_row_clash_time [simp]:
  "mandate_clash (authorized_row (c\<lparr>nc_consumed_at := t\<rparr>)) row = mandate_clash (authorized_row c) row"
  "mandate_clash (authorized_row c) (authorized_row c)"
  by (simp_all add: mandate_clash_def authorized_row_def)

lemma recover_claim_ALREADY:
  "recover_claim rows c = ALREADY_CLAIMED \<longleftrightarrow> (\<exists>row \<in> set rows. persisted_claim row c)"
  by (auto simp: recover_claim_def existing_claims_def persisted_claim_def)

lemma recover_claim_not_CLAIMED: "recover_claim rows c \<noteq> CLAIMED"
  by (simp add: recover_claim_def)

lemma persisted_clash:
  "persisted_claim row d \<Longrightarrow> mandate_clash (authorized_row c) row = sql_clash c d"
  by (auto simp: persisted_claim_def sql_clash_def mandate_clash_def authorized_row_def)

lemma persisted_clashes: "persisted_claim row c \<Longrightarrow> mandate_clash (authorized_row c) row"
  by (simp add: persisted_claim_def mandate_clash_def authorized_row_def)

interpretation sql_store: nonce_store consume_sql "\<lambda>_. True" sql_granted sql_clash
proof unfold_locales
  fix s c a s'
  assume "consume_sql s c a = Inr (CLAIMED, s')"
  then have new: "a" "s' = s\<lparr>db_mandates := db_mandates s @ [authorized_row c]\<rparr>"
    "\<forall>row \<in> set (db_mandates s). \<not> mandate_clash (authorized_row c) row"
    using recover_claim_not_CLAIMED by (auto simp: consume_sql_def split: if_splits)
  have "sql_granted s' = insert c (sql_granted s)"
    using persisted_authorized_row [of c] by (auto simp: new(2) sql_granted_def)
  moreover have "\<not> sql_clash c d" if "d \<in> sql_granted s" for d
    using that new(3) persisted_clash [of _ d c] by (auto simp: sql_granted_def)
  ultimately show "a \<and> sql_granted s' = insert c (sql_granted s) \<and> (\<forall>d \<in> sql_granted s. \<not> sql_clash c d)"
    using new(1) by blast
next
  fix s c a s'
  assume "consume_sql s c a = Inr (ALREADY_CLAIMED, s')"
  then have "s' = s" and "recover_claim (db_mandates s) c = ALREADY_CLAIMED"
    by (auto simp: consume_sql_def split: if_splits)
  then obtain row where row: "row \<in> set (db_mandates s)" "persisted_claim row c" and s': "s' = s"
    by (auto simp: recover_claim_ALREADY)
  then have "c\<lparr>nc_consumed_at := mc_consumed_at row\<rparr> \<in> sql_granted s"
    by (auto simp: sql_granted_def)
  moreover have "same_claim (c\<lparr>nc_consumed_at := mc_consumed_at row\<rparr>) c" by (simp add: same_claim_def)
  ultimately show "s' = s \<and> (\<exists>d \<in> sql_granted s. same_claim d c)" using s' by blast
next
  fix s c a res s' a' t
  assume c: "consume_sql s c a = Inr (res, s')" "res \<noteq> CONFLICT" and t: "a' \<Longrightarrow> t \<le> nc_expires_at c"
  then have "\<exists>row \<in> set (db_mandates s'). persisted_claim row c"
    using recover_claim_ALREADY [of "db_mandates s" c] recover_claim_not_CLAIMED [of "db_mandates s" c]
    by (cases "recover_claim (db_mandates s) c") (auto simp: consume_sql_def split: if_splits)
  then show "consume_sql s' (c\<lparr>nc_consumed_at := t\<rparr>) a' = Inr (ALREADY_CLAIMED, s')"
    using t by (auto simp: consume_sql_def recover_claim_ALREADY not_less dest: persisted_clashes)
qed (auto simp: sql_clash_def mandate_clash_def same_claim_def authorized_row_def)

section \<open>Properties\<close>

text \<open>
  C15: a mandate authorises once. Whatever envelopes, scopes and times are presented to the verifier on an empty
  table, two verified mandates with the same nonce, the same mandate identifier or the same recovery action are the same
  signed mandate; on a new in-memory store, which does not look at the action, two with the same nonce or the same
  mandate identifier are. With either store a mandate that is verified was verified inside its time window the first time. The
  digest is assumed not to collide on the verified mandates, and timestamps to have distinct texts.
\<close>

theorem mandate_single_use:
  assumes "inj (timestamp_text cr)"
    and "verify_all cr v consume_sql db attempts = (vms, db')" and "db_mandates db = []"
    and "inj_on (sha256_hexdigest cr) (canonical_json cr ` vm_data ` set vms)"
    and "verify_all cr v consume_memory new_memory_store attempts' = (ums, s')"
    and "inj_on (sha256_hexdigest cr) (canonical_json cr ` vm_data ` set ums)"
  shows "(\<forall>vm \<in> set vms. \<forall>wm \<in> set vms. md_nonce (vm_data vm) = md_nonce (vm_data wm)
        \<or> md_mandate_id (vm_data vm) = md_mandate_id (vm_data wm)
        \<or> md_recovery_action_id (vm_data vm) = md_recovery_action_id (vm_data wm) \<longrightarrow> vm_data vm = vm_data wm)
    \<and> (\<forall>vm \<in> set vms. \<exists>wm \<in> set vms. vm_data wm = vm_data vm \<and> in_window v (vm_data vm) (vm_verified_at wm))
    \<and> (\<forall>vm \<in> set ums. \<forall>wm \<in> set ums. md_nonce (vm_data vm) = md_nonce (vm_data wm)
        \<or> md_mandate_id (vm_data vm) = md_mandate_id (vm_data wm) \<longrightarrow> vm_data vm = vm_data wm)
    \<and> (\<forall>vm \<in> set ums. \<exists>wm \<in> set ums. vm_data wm = vm_data vm \<and> in_window v (vm_data vm) (vm_verified_at wm))"
proof (intro conjI ballI impI)
  have empty: "sql_granted db = {}" using assms(3) by (simp add: sql_granted_def)
  have new: "memory_inv new_memory_store" "ran (ns_claims_by_nonce new_memory_store) = {}"
    by (simp_all add: memory_inv_def new_memory_store_def)
  note run = assms(1,2,4) and mrun = assms(1,5,6)
  fix vm wm
  show "vm_data vm = vm_data wm" if "vm \<in> set vms" "wm \<in> set vms"
    "md_nonce (vm_data vm) = md_nonce (vm_data wm) \<or> md_mandate_id (vm_data vm) = md_mandate_id (vm_data wm)
      \<or> md_recovery_action_id (vm_data vm) = md_recovery_action_id (vm_data wm)"
    using sql_store.single_use [OF TrueI empty run that(1,2)] that(3)
    by (auto simp: sql_clash_def mandate_clash_def authorized_row_def claim_of_def)
  show "\<exists>wm \<in> set vms. vm_data wm = vm_data vm \<and> in_window v (vm_data vm) (vm_verified_at wm)" if "vm \<in> set vms"
    using sql_store.first_use [OF TrueI empty run that] .
  show "vm_data vm = vm_data wm" if "vm \<in> set ums" "wm \<in> set ums"
    "md_nonce (vm_data vm) = md_nonce (vm_data wm) \<or> md_mandate_id (vm_data vm) = md_mandate_id (vm_data wm)"
    using memory_store.single_use [OF new mrun that(1,2)] that(3) by (auto simp: memory_clash_def claim_of_def)
  show "\<exists>wm \<in> set ums. vm_data wm = vm_data vm \<and> in_window v (vm_data vm) (vm_verified_at wm)" if "vm \<in> set ums"
    using memory_store.first_use [OF new mrun that] .
qed

text \<open>
  A verification that succeeded can be repeated. With either store, the same envelope verified
  again at a later time, also after the mandate has expired, succeeds with the same data
  and the same claim, and leaves the store as it is.
\<close>

theorem verification_is_idempotent:
  assumes "is_aware later" and "utc_instant now \<le> utc_instant later"
  shows "(verify_and_consume cr v consume_sql db envelope expected now = Inr (vm, db') \<longrightarrow>
      verify_and_consume cr v consume_sql db' envelope expected later
        = Inr (vm\<lparr>vm_verified_at := utc_instant later\<rparr>, db'))
    \<and> (memory_inv s \<and> verify_and_consume cr v consume_memory s envelope expected now = Inr (vm, s') \<longrightarrow>
      verify_and_consume cr v consume_memory s' envelope expected later
        = Inr (vm\<lparr>vm_verified_at := utc_instant later\<rparr>, s'))"
  using sql_store.verify_again [OF TrueI _ assms] memory_store.verify_again [OF _ _ assms] by blast

subsection \<open>Concrete runs\<close>

text \<open>
  An instance of the third-party functions: a signature is the key followed by the message, the
  digest is the message itself, and a timestamp is written with its offset.
\<close>

definition toy_sign :: "byte list \<Rightarrow> string \<Rightarrow> byte list" where
  "toy_sign key message = key @ map (\<lambda>c. byte_of (of_char c)) message"

definition toy_timestamp :: "datetime \<Rightarrow> string" where
  "toy_timestamp d = (case d of Naive w \<Rightarrow> int_str w @ ''+'' | Aware t off \<Rightarrow> int_str t @ ''+'' @ int_str off)"

definition toy_crypto :: crypto where
  "toy_crypto = \<lparr>ed25519_verify = \<lambda>key signature message. signature = toy_sign key message,
     ed25519_sign = toy_sign, ed25519_public = \<lambda>key. key, sha256_hexdigest = \<lambda>m. m,
     timestamp_text = toy_timestamp\<rparr>"

definition offset_text :: "datetime \<Rightarrow> string" where
  "offset_text d = (case d of Naive _ \<Rightarrow> [] | Aware _ off \<Rightarrow> int_str off)"

lemma toy_timestamp_eq: "toy_timestamp d = int_str (utc_instant d) @ CHR ''+'' # offset_text d"
  by (cases d) (simp_all add: toy_timestamp_def offset_text_def)

lemma offset_text_inject:
  assumes "utc_instant x = utc_instant y" and "offset_text x = offset_text y"
  shows "x = y"
proof -
  have "int_str i \<noteq> []" "[] \<noteq> int_str i" for i using int_str_number [of i] by auto
  with assms show ?thesis by (cases x; cases y) (auto simp: offset_text_def dest: int_str_inject)
qed

lemma inj_toy_timestamp: "inj toy_timestamp"
proof (rule injI)
  have plus: "\<not> number_char (CHR ''+'')" by (simp add: number_char_def)
  fix x y assume "toy_timestamp x = toy_timestamp y"
  then have "int_str (utc_instant x) @ CHR ''+'' # offset_text x = int_str (utc_instant y) @ CHR ''+'' # offset_text y"
    by (simp add: toy_timestamp_eq)
  from split_at [OF this, of number_char] int_str_number plus
  have "int_str (utc_instant x) = int_str (utc_instant y)" "offset_text x = offset_text y" by blast+
  then show "x = y" by (intro offset_text_inject) (auto dest: int_str_inject)
qed

definition sample_mandate :: RecoveryMandateData where
  "sample_mandate = \<lparr>md_protocol_version = ''recovery.mandate.v2'', md_mandate_id = ''mandate_1'',
     md_nonce = ''nonce_1'', md_signer_key_id = ''key_1'', md_task_id = ''task_1'', md_merchant_id = ''m1'',
     md_case_id = ''case_1'', md_customer_id = ''cust_1'', md_recovery_action_id = ''action_1'',
     md_failed_invoice_id = ''inv_1'', md_exact_amount_paise = 49900, md_currency = ''INR'',
     md_payment_surface_type = ''SUBSCRIPTION_INVOICE_LINK'', md_payment_surface_reference = ''inv_ext_1'',
     md_authorized_action = ''OPEN_EXACT_PAYMENT_SURFACE'', md_issued_at = Aware 0 0,
     md_expires_at = Aware (seconds 900) 0\<rparr>"

definition sample_envelope :: SignedMandate where
  "sample_envelope = \<lparr>sm_algorithm = ''Ed25519'', sm_data = sample_mandate,
     sm_signature = b64url_encode (toy_sign [7] (canonical_json toy_crypto sample_mandate))\<rparr>"

definition sample_scope :: ExpectedMandateScope where
  "sample_scope = \<lparr>es_task_id = ''task_1'', es_merchant_id = ''m1'', es_case_id = ''case_1'',
     es_customer_id = ''cust_1'', es_recovery_action_id = ''action_1'', es_failed_invoice_id = ''inv_1'',
     es_exact_amount_paise = 49900, es_currency = ''INR'',
     es_payment_surface_type = ''SUBSCRIPTION_INVOICE_LINK'', es_payment_surface_reference = ''inv_ext_1''\<rparr>"

definition sample_verifier :: MandateVerifier where
  "sample_verifier = \<lparr>mv_keys = [(''key_1'', [7])], mv_max_clock_skew = default_clock_skew\<rparr>"

definition verified_sample :: "instant \<Rightarrow> VerifiedMandate" where
  "verified_sample t = \<lparr>vm_data = sample_mandate, vm_verified_at = t,
     vm_claim_id = canonical_json toy_crypto sample_mandate\<rparr>"

lemma sample_envelope_authentic: "authentic toy_crypto sample_verifier sample_envelope"
  by (rule signed_authentic [where key = "[7]"])
     (simp_all add: toy_crypto_def sample_verifier_def sample_envelope_def sample_mandate_def)

lemma sample_envelope_valid: "valid_mandate sample_envelope" "scope_mismatches sample_mandate sample_scope = []"
  by (simp_all add: valid_mandate_def valid_mandate_data_def sample_envelope_def sample_mandate_def
      currency_pattern_def validate_window_def duration_defs scope_mismatches_Nil sample_scope_def)

lemma sample_sel [simp]:
  "sm_data sample_envelope = sample_mandate" "utc_instant (md_issued_at sample_mandate) = 0"
  "utc_instant (md_expires_at sample_mandate) = seconds 900"
  "mv_max_clock_skew sample_verifier = default_clock_skew"
  "sha256_hexdigest toy_crypto m = m" "nc_claim_id (claim_of cr d t) = sha256_hexdigest cr (canonical_json cr d)"
  "vm_data (verified_sample t) = sample_mandate" "vm_verified_at (verified_sample t) = t"
  by (simp_all add: sample_envelope_def sample_mandate_def sample_verifier_def toy_crypto_def claim_of_def
      verified_sample_def)

lemma sample_verification:
  assumes "- default_clock_skew \<le> t"
  shows "verify_and_consume toy_crypto sample_verifier consume s sample_envelope sample_scope (Aware t 0)
    = bindE (consume_claim consume s (claim_of toy_crypto sample_mandate t) (seconds 900 \<le> t))
        (\<lambda>s'. Inr (verified_sample t, s'))"
proof -
  have "verify_signature toy_crypto sample_verifier sample_envelope = Inr ()"
    using sample_envelope_authentic by (simp add: verify_signature_ok)
  with assms sample_envelope_valid show ?thesis
    by (simp add: verify_and_consume_def verified_sample_def Let_def)
qed

definition sample_a2a_db :: a2a_database where
  "sample_a2a_db = \<lparr>db_merchants = [\<lparr>mr_id = ''m1'', mr_timezone = ''Asia/Kolkata''\<rparr>], db_settings = [],
     db_customers = [\<lparr>cu_id = ''cust_1'', cu_merchant_id = ''m1'', cu_phone_token = None,
       cu_preferred_language = ''en-IN'', cu_voice_consent_at = None, cu_opted_out_at = None, cu_customer_agent_available = True, cu_created_at = 0\<rparr>],
     db_subscriptions = [\<lparr>sb_id = ''sub_1'', sb_merchant_id = ''m1'', sb_customer_id = ''cust_1'',
       sb_provider_subscription_id = ''sub_ext_1'', sb_plan_name = ''Monthly'', sb_currency = ''INR'', sb_subscription_state = Sub_PENDING,
       sb_current_billing_cycle_key = None\<rparr>],
     db_invoices = [\<lparr>iv_id = ''inv_1'', iv_merchant_id = ''m1'', iv_subscription_id = ''sub_1'',
       iv_provider_invoice_id = ''inv_ext_1'', iv_billing_cycle_key = ''2026-08'', iv_amount_paise = 49900,
       iv_amount_paid_paise = 0, iv_currency = ''INR'', iv_invoice_state = ''issued'', iv_due_at = None\<rparr>],
     db_payments = [],
     db_cases = [\<lparr>rc_id = ''case_1'', rc_merchant_id = ''m1'', rc_customer_id = ''cust_1'',
       rc_subscription_id = ''sub_1'', rc_failed_invoice_id = Some ''inv_1'', rc_billing_cycle_key = None,
       rc_failed_payment_id = None, rc_case_outcome = Case_OPEN, rc_payment_state = Pay_FAILED,
       rc_subscription_state = Sub_PENDING, rc_contact_disposition = NOT_CONTACTED,
       rc_revenue_attribution = Attr_NONE, rc_diagnosis = Diag_UNKNOWN, rc_amount_at_risk_paise = 49900,
       rc_arrears_collected_paise = 0, rc_case_recovered = False, rc_subscription_reactivated = False,
       rc_opened_at = 0, rc_recovery_deadline = days 7, rc_recovered_at = None, rc_version = 1\<rparr>],
     db_policies = [\<lparr>pr_id = ''policy_1'', pr_case_id = ''case_1'', pr_action_id = Some ''action_1'',
       pr_disposition = ALLOW, pr_decision_code = ''ALLOWED'', pr_reason_codes = [], pr_reasons = [],
       pr_policy_version = ''v1'', pr_delay_until = None, pr_created_at = 0\<rparr>],
     db_actions = [\<lparr>ar_id = ''action_1'', ar_case_id = ''case_1'', ar_action_type = SEND_TO_CUSTOMER_AGENT,
       ar_payment_surface_type = None, ar_status = Act_PROPOSED, ar_idempotency_key = ''key'',
       ar_scheduled_for = None, ar_external_reference = None, ar_customer_url = None, ar_completed_at = None, ar_created_at = 0, ar_updated_at = 0\<rparr>],
     db_events = [], db_inbox = [], db_outbox = [], db_revenue = [], db_mandates = []\<rparr>"

lemma sample_references: "claim_references sample_a2a_db (claim_of cr sample_mandate t)"
  by (simp add: claim_references_def sample_a2a_db_def claim_of_def sample_mandate_def)

lemma sample_consume:
  "consume_claim consume_sql sample_a2a_db (claim_of toy_crypto sample_mandate 0) False
   = Inr (sample_a2a_db\<lparr>db_mandates := [authorized_row (claim_of toy_crypto sample_mandate 0)]\<rparr>)"
proof -
  have "db_mandates sample_a2a_db = []" by (simp add: sample_a2a_db_def)
  moreover have "nc_expires_at (claim_of toy_crypto sample_mandate 0) = seconds 900"
    "nc_consumed_at (claim_of toy_crypto sample_mandate 0) = 0"
    by (simp_all add: claim_of_def)
  ultimately show ?thesis
    by (simp add: consume_claim_def consume_sql_def sample_references duration_defs)
qed

lemma sample_verified:
  "verify_and_consume toy_crypto sample_verifier consume_sql sample_a2a_db sample_envelope sample_scope (Aware 0 0)
   = Inr (verified_sample 0, sample_a2a_db\<lparr>db_mandates := [authorized_row (claim_of toy_crypto sample_mandate 0)]\<rparr>)"
  by (simp add: sample_verification sample_consume default_clock_skew_def duration_defs
      del: One_nat_def)

theorem verification_is_idempotent_witness:
  "verify_and_consume toy_crypto sample_verifier consume_sql
     (sample_a2a_db\<lparr>db_mandates := [authorized_row (claim_of toy_crypto sample_mandate 0)]\<rparr>)
     sample_envelope sample_scope (Aware (seconds 3600) 0)
   = Inr (verified_sample (seconds 3600),
       sample_a2a_db\<lparr>db_mandates := [authorized_row (claim_of toy_crypto sample_mandate 0)]\<rparr>)"
  using verification_is_idempotent [of "Aware (seconds 3600) 0" "Aware 0 0" toy_crypto sample_verifier
      sample_a2a_db sample_envelope sample_scope "verified_sample 0" _ new_memory_store _]
  by (auto simp: sample_verified duration_defs verified_sample_def)

lemma sample_memory_verified:
  "\<exists>s. verify_and_consume toy_crypto sample_verifier consume_memory new_memory_store sample_envelope sample_scope (Aware 0 0)
   = Inr (verified_sample 0, s)"
  by (simp add: sample_verification consume_claim_def consume_memory_def new_memory_store_def Let_def
      default_clock_skew_def duration_defs del: One_nat_def)

theorem mandate_single_use_witness:
  "\<exists>vms db' ums s'. verify_all toy_crypto sample_verifier consume_sql sample_a2a_db
       [(sample_envelope, sample_scope, Aware 0 0), (sample_envelope, sample_scope, Aware (seconds 3600) 0)]
       = (vms, db')
     \<and> vms = [verified_sample 0, verified_sample (seconds 3600)]
     \<and> verify_all toy_crypto sample_verifier consume_memory new_memory_store [(sample_envelope, sample_scope, Aware 0 0)] = (ums, s')
     \<and> ums = [verified_sample 0] \<and> in_window sample_verifier sample_mandate 0"
proof -
  let ?attempts = "[(sample_envelope, sample_scope, Aware 0 0), (sample_envelope, sample_scope, Aware (seconds 3600) 0)]"
  let ?db = "sample_a2a_db\<lparr>db_mandates := [authorized_row (claim_of toy_crypto sample_mandate 0)]\<rparr>"
  have again: "verify_and_consume toy_crypto sample_verifier consume_sql ?db sample_envelope sample_scope
      (Aware (seconds 3600) 0) = Inr (verified_sample (seconds 3600), ?db)"
    using sql_store.verify_again [OF TrueI sample_verified, of "Aware (seconds 3600) 0"]
    by (simp add: duration_defs verified_sample_def)
  have run: "verify_all toy_crypto sample_verifier consume_sql sample_a2a_db ?attempts
      = ([verified_sample 0, verified_sample (seconds 3600)], ?db)"
    by (simp add: sample_verified again)
  obtain s where s: "verify_all toy_crypto sample_verifier consume_memory new_memory_store [(sample_envelope, sample_scope, Aware 0 0)]
      = ([verified_sample 0], s)" using sample_memory_verified by auto
  have data: "vm_data (verified_sample t) = sample_mandate" "vm_verified_at (verified_sample t) = t" for t
    by (simp_all add: verified_sample_def)
  have "inj (timestamp_text toy_crypto)" "db_mandates sample_a2a_db = []"
    by (simp_all add: toy_crypto_def inj_toy_timestamp sample_a2a_db_def)
  from mandate_single_use [OF this(1) run this(2) _ s] have "in_window sample_verifier sample_mandate 0"
    by (simp add: data)
  with run s show ?thesis by blast
qed

end
