(* ===== verification/A2A_Signing.thy ===== *)
theory A2A_Signing
  imports A2A_Mandates
begin

text \<open>
  Who signs what between the two agents. The customer agent signs mandates and verifies
  payment receipts (\<open>services/customer-agent/app/signing.py\<close>); RecoveryOS signs receipts
  (\<open>services/api/app/integrations/a2a/receipts.py\<close>) and verifies mandates (theory
  \<open>A2A_Mandates\<close>). A receipt that RecoveryOS signs with a pinned key is accepted, and the
  signed bytes determine the receipt.
\<close>

section \<open>Mandate signer\<close>

record MandateSigner =
  ms_signer_key_id :: string
  ms_private_key :: "byte list"

definition mandate_signer_from_seed :: "string \<Rightarrow> byte list \<Rightarrow> mandate_error + MandateSigner" where
  "mandate_signer_from_seed signer_key_id seed =
     (if length seed \<noteq> 32 then Inl (Value_Error ''Ed25519 private seed must contain exactly 32 bytes'')
      else Inr \<lparr>ms_signer_key_id = signer_key_id, ms_private_key = seed\<rparr>)"

definition mandate_signer_from_base64 :: "string \<Rightarrow> string \<Rightarrow> mandate_error + MandateSigner" where
  "mandate_signer_from_base64 signer_key_id seed = (case lenient_b64url_decode seed of
     Inl _ \<Rightarrow> Inl (Value_Error ''invalid base64'')
   | Inr raw \<Rightarrow> mandate_signer_from_seed signer_key_id raw)"

definition signer_public_key_base64 :: "crypto \<Rightarrow> MandateSigner \<Rightarrow> string" where
  "signer_public_key_base64 cr signer = b64url_encode (ed25519_public cr (ms_private_key signer))"

definition sign_mandate :: "crypto \<Rightarrow> MandateSigner \<Rightarrow> RecoveryMandateData \<Rightarrow> mandate_error + SignedMandate" where
  "sign_mandate cr signer mandate =
     (if md_signer_key_id mandate \<noteq> ms_signer_key_id signer
      then Inl (Value_Error ''mandate signer_key_id does not match the active signer'')
      else Inr \<lparr>sm_algorithm = ''Ed25519'', sm_data = mandate,
        sm_signature = b64url_encode (ed25519_sign cr (ms_private_key signer) (canonical_json cr mandate))\<rparr>)"

section \<open>Receipts\<close>

record RecoveryReceiptData =
  rd_protocol_version :: string
  rd_receipt_id :: ident
  rd_signer_key_id :: string
  rd_task_id :: ident
  rd_mandate_id :: ident
  rd_merchant_id :: ident
  rd_case_id :: ident
  rd_recovery_action_id :: ident
  rd_failed_invoice_id :: ident
  rd_exact_amount_paise :: paise
  rd_currency :: string
  rd_provider_reference :: string
  rd_payment_state :: string
  rd_observed_at :: datetime

definition valid_receipt_data :: "RecoveryReceiptData \<Rightarrow> bool" where
  "valid_receipt_data d \<longleftrightarrow> rd_protocol_version d = ''recovery.receipt.v2'' \<and> rd_receipt_id d \<noteq> []
     \<and> rd_signer_key_id d \<noteq> [] \<and> rd_task_id d \<noteq> [] \<and> rd_mandate_id d \<noteq> [] \<and> rd_merchant_id d \<noteq> []
     \<and> rd_case_id d \<noteq> [] \<and> rd_recovery_action_id d \<noteq> [] \<and> rd_failed_invoice_id d \<noteq> []
     \<and> 0 < rd_exact_amount_paise d \<and> currency_pattern (rd_currency d) \<and> rd_provider_reference d \<noteq> []
     \<and> rd_payment_state d = ''CAPTURED'' \<and> is_aware (rd_observed_at d)"

record SignedRecoveryReceipt =
  sr_algorithm :: string
  sr_data :: RecoveryReceiptData
  sr_signature :: string

definition valid_receipt :: "SignedRecoveryReceipt \<Rightarrow> bool" where
  "valid_receipt r \<longleftrightarrow> sr_algorithm r = ''Ed25519'' \<and> valid_receipt_data (sr_data r) \<and> sr_signature r \<noteq> []"

definition receipt_dump :: "crypto \<Rightarrow> RecoveryReceiptData \<Rightarrow> (string \<times> json_scalar) list" where
  "receipt_dump cr d = [
     (''protocol_version'', J_text (rd_protocol_version d)), (''receipt_id'', J_text (rd_receipt_id d)),
     (''signer_key_id'', J_text (rd_signer_key_id d)), (''task_id'', J_text (rd_task_id d)),
     (''mandate_id'', J_text (rd_mandate_id d)), (''merchant_id'', J_text (rd_merchant_id d)),
     (''case_id'', J_text (rd_case_id d)), (''recovery_action_id'', J_text (rd_recovery_action_id d)),
     (''failed_invoice_id'', J_text (rd_failed_invoice_id d)),
     (''exact_amount_paise'', J_int (rd_exact_amount_paise d)), (''currency'', J_text (rd_currency d)),
     (''provider_reference'', J_text (rd_provider_reference d)),
     (''payment_state'', J_text (rd_payment_state d)),
     (''observed_at'', J_text (timestamp_text cr (rd_observed_at d)))]"

definition canonical_receipt_json :: "crypto \<Rightarrow> RecoveryReceiptData \<Rightarrow> string" where
  "canonical_receipt_json cr d = canonical_dump (receipt_dump cr d)"

record RecoveryReceiptSigner =
  rs_signer_key_id :: string
  rs_private_key :: "byte list"

datatype receipt_error = ReceiptConfigurationError string | Receipt_Value_Error string
  | ReceiptAuthenticationError string

definition receipt_signer_from_seed :: "string \<Rightarrow> byte list \<Rightarrow> receipt_error + RecoveryReceiptSigner" where
  "receipt_signer_from_seed signer_key_id seed =
     (if length seed \<noteq> 32
      then Inl (ReceiptConfigurationError ''recovery receipt Ed25519 seed must contain exactly 32 bytes'')
      else Inr \<lparr>rs_signer_key_id = signer_key_id, rs_private_key = seed\<rparr>)"

definition MOCK_RECEIPT_SIGNER_KEY_ID :: string where
  "MOCK_RECEIPT_SIGNER_KEY_ID = ''recoveryos-receipt-mock-2026-01''"

text \<open>The settings are the environment variables of the signer; the mock seed is a digest.\<close>

definition create_receipt_signer ::
    "byte list \<Rightarrow> string \<Rightarrow> string \<Rightarrow> string \<Rightarrow> receipt_error + RecoveryReceiptSigner" where
  "create_receipt_signer mock_seed signing_mode configured_key_id configured_seed =
     (let mode = py_lower (py_strip signing_mode);
          signer_key_id = py_strip configured_key_id;
          encoded_seed = py_strip configured_seed
      in if mode = ''mock'' then receipt_signer_from_seed MOCK_RECEIPT_SIGNER_KEY_ID mock_seed
         else if mode \<noteq> ''configured''
         then Inl (ReceiptConfigurationError
           ''RECOVERY_AGENT_RECEIPT_SIGNING_MODE must be mock or configured'')
         else if signer_key_id = [] \<or> encoded_seed = []
         then Inl (ReceiptConfigurationError
           ''configured receipt signing requires signer key ID and Ed25519 private key'')
         else case strict_b64url_decode encoded_seed of
           Inl _ \<Rightarrow> Inl (ReceiptConfigurationError
             ''RECOVERY_AGENT_RECEIPT_ED25519_PRIVATE_KEY must be base64url'')
         | Inr seed \<Rightarrow> receipt_signer_from_seed signer_key_id seed)"

definition sign_receipt ::
    "crypto \<Rightarrow> RecoveryReceiptSigner \<Rightarrow> RecoveryReceiptData \<Rightarrow> receipt_error + SignedRecoveryReceipt" where
  "sign_receipt cr signer data =
     (if rd_signer_key_id data \<noteq> rs_signer_key_id signer
      then Inl (Receipt_Value_Error ''receipt signer_key_id does not match the active signer'')
      else Inr \<lparr>sr_algorithm = ''Ed25519'', sr_data = data,
        sr_signature = b64url_encode (ed25519_sign cr (rs_private_key signer) (canonical_receipt_json cr data))\<rparr>)"

definition receipt_public_key_base64 :: "crypto \<Rightarrow> RecoveryReceiptSigner \<Rightarrow> string" where
  "receipt_public_key_base64 cr signer = b64url_encode (ed25519_public cr (rs_private_key signer))"

section \<open>Receipt verifier of the customer agent\<close>

definition public_key_from_base64 :: "string \<Rightarrow> receipt_error + byte list" where
  "public_key_from_base64 s = (case lenient_b64url_decode s of
     Inl _ \<Rightarrow> Inl (Receipt_Value_Error ''invalid base64'')
   | Inr raw \<Rightarrow> if length raw \<noteq> 32
       then Inl (Receipt_Value_Error ''Ed25519 public key must contain exactly 32 bytes'') else Inr raw)"

type_synonym ReceiptVerifier = "(string \<times> byte list) list"

definition new_receipt_verifier :: "(string \<times> string) list \<Rightarrow> receipt_error + ReceiptVerifier" where
  "new_receipt_verifier pinned_public_keys =
     (if pinned_public_keys = []
      then Inl (Receipt_Value_Error ''at least one recovery receipt public key must be pinned'')
      else traverseE (\<lambda>(key_id, encoded). bindE (public_key_from_base64 encoded) (\<lambda>raw. Inr (key_id, raw)))
        pinned_public_keys)"

definition verify_receipt ::
    "crypto \<Rightarrow> ReceiptVerifier \<Rightarrow> SignedRecoveryReceipt \<Rightarrow> receipt_error + RecoveryReceiptData" where
  "verify_receipt cr keys r =
     (case map_of keys (rd_signer_key_id (sr_data r)) of
        None \<Rightarrow> Inl (ReceiptAuthenticationError ''payment receipt signer is not pinned'')
      | Some public_key \<Rightarrow>
          (case lenient_b64url_decode (sr_signature r) of
             Inl _ \<Rightarrow> Inl (ReceiptAuthenticationError ''payment receipt signature is invalid'')
           | Inr signature \<Rightarrow>
               if ed25519_verify cr public_key signature (canonical_receipt_json cr (sr_data r))
               then Inr (sr_data r)
               else Inl (ReceiptAuthenticationError ''payment receipt signature is invalid'')))"

section \<open>What signatures transfer\<close>

text \<open>The contract of Ed25519 the agents rely on: what a key signs, its public key accepts.\<close>

definition signs_correctly :: "crypto \<Rightarrow> bool" where
  "signs_correctly cr \<longleftrightarrow>
     (\<forall>key message. ed25519_verify cr (ed25519_public cr key) (ed25519_sign cr key message) message)"

lemma signs_correctlyD:
  "signs_correctly cr \<Longrightarrow> ed25519_verify cr (ed25519_public cr key) (ed25519_sign cr key message) message"
  by (simp add: signs_correctly_def)

lemma canonical_receipt_json_inject:
  assumes "inj (timestamp_text cr)" and "canonical_receipt_json cr d = canonical_receipt_json cr e"
  shows "d = e"
proof -
  have "map fst (receipt_dump cr d) = map fst (receipt_dump cr e)"
    and "distinct (map fst (receipt_dump cr d))"
    by (simp_all add: receipt_dump_def)
  with assms(2) have "receipt_dump cr d = receipt_dump cr e"
    unfolding canonical_receipt_json_def by (rule canonical_dump_inject)
  then show ?thesis
    using assms(1) by (auto simp: receipt_dump_def inj_eq intro: RecoveryReceiptData.equality)
qed

lemma verify_receipt_Inr:
  "verify_receipt cr keys r = Inr d \<longleftrightarrow> d = sr_data r \<and>
     (\<exists>key signature. map_of keys (rd_signer_key_id (sr_data r)) = Some key
       \<and> lenient_b64url_decode (sr_signature r) = Inr signature
       \<and> ed25519_verify cr key signature (canonical_receipt_json cr (sr_data r)))"
  by (auto simp: verify_receipt_def split: option.splits sum.splits if_splits)

lemma signed_receipt_verifies:
  assumes "signs_correctly cr" and "sign_receipt cr signer data = Inr r"
    and "map_of keys (rs_signer_key_id signer) = Some (ed25519_public cr (rs_private_key signer))"
  shows "verify_receipt cr keys r = Inr data"
  using assms b64url_decode_encode
  by (auto simp: sign_receipt_def verify_receipt_Inr intro: signs_correctlyD split: if_splits)

lemma signed_mandate_authentic:
  assumes "signs_correctly cr" and "sign_mandate cr signer data = Inr envelope"
    and "map_of (mv_keys v) (ms_signer_key_id signer) = Some (ed25519_public cr (ms_private_key signer))"
  shows "authentic cr v envelope"
  using assms
  by (auto simp: sign_mandate_def intro!: signed_authentic [where key = "ms_private_key signer"]
      intro: signs_correctlyD split: if_splits)

lemma toy_signs_correctly: "signs_correctly toy_crypto"
  by (simp add: signs_correctly_def toy_crypto_def)

lemma published_key_is_accepted:
  assumes "mandate_signer_from_seed key_id seed = Inr signer" and "length (ed25519_public cr seed) = 32"
  shows "new_verifier [(key_id, signer_public_key_base64 cr signer)] skew
    = Inr \<lparr>mv_keys = [(key_id, ed25519_public cr seed)], mv_max_clock_skew = skew\<rparr>"
  using assms
  by (auto simp: mandate_signer_from_seed_def new_verifier_def parse_public_key_def decode_or_reject_def
      signer_public_key_base64_def b64url_decode_encode split: if_splits)

end
