(* ===== verification/Task_Store.thy ===== *)
theory Task_Store
  imports A2A_Signing
begin

text \<open>
  Tasks of the customer agent and where they are kept: \<open>services/customer-agent/app/models.py\<close> and
  \<open>store.py\<close>. \<open>InMemoryTaskStore\<close> and \<open>SqlAlchemyTaskStore\<close> implement the protocol
  \<open>TaskStore\<close>; its contract is the locale \<open>task_store\<close>: a task is created once per
  idempotency key and saved only over the revision that was read.
\<close>

section \<open>Messages\<close>

record RecoveryDisplayContext =
  dc_merchant_display_name :: string
  dc_plan_name :: string
  dc_failure_explanation :: string
  dc_invoice_state :: string
  dc_payment_state :: string
  dc_subscription_state :: string
  dc_provider_subscription_state :: string
  dc_preferred_language :: string
  dc_invoice_due_at :: "datetime option"
  dc_recovery_deadline :: datetime

definition text_within :: "nat \<Rightarrow> nat \<Rightarrow> string \<Rightarrow> bool" where
  "text_within least most s \<longleftrightarrow> least \<le> length s \<and> length s \<le> most"

definition valid_display_context :: "RecoveryDisplayContext \<Rightarrow> bool" where
  "valid_display_context c \<longleftrightarrow> text_within 1 200 (dc_merchant_display_name c)
     \<and> text_within 1 200 (dc_plan_name c) \<and> text_within 1 500 (dc_failure_explanation c)
     \<and> text_within 1 64 (dc_invoice_state c) \<and> text_within 1 64 (dc_payment_state c)
     \<and> text_within 1 64 (dc_subscription_state c) \<and> text_within 1 64 (dc_provider_subscription_state c)
     \<and> text_within 2 35 (dc_preferred_language c)"

record RecoveryRequestData =
  rq_protocol_version :: string
  rq_idempotency_key :: string
  rq_case_id :: ident
  rq_merchant_id :: ident
  rq_customer_id :: ident
  rq_recovery_action_id :: ident
  rq_failed_invoice_id :: ident
  rq_exact_amount_paise :: paise
  rq_currency :: string
  rq_payment_surface_type :: string
  rq_payment_surface_reference :: string
  rq_expires_at :: datetime
  rq_context :: RecoveryDisplayContext

definition valid_request :: "RecoveryRequestData \<Rightarrow> bool" where
  "valid_request r \<longleftrightarrow> rq_protocol_version r = ''recovery.request.v2'' \<and> rq_idempotency_key r \<noteq> []
     \<and> rq_case_id r \<noteq> [] \<and> rq_merchant_id r \<noteq> [] \<and> rq_customer_id r \<noteq> [] \<and> rq_recovery_action_id r \<noteq> []
     \<and> rq_failed_invoice_id r \<noteq> [] \<and> 0 < rq_exact_amount_paise r \<and> currency_pattern (rq_currency r)
     \<and> rq_payment_surface_type r \<noteq> [] \<and> rq_payment_surface_reference r \<noteq> []
     \<and> valid_display_context (rq_context r) \<and> is_aware (rq_expires_at r)"

text \<open>The data of a message part, by the protocol version it carries.\<close>

datatype DataPart = Request_Part RecoveryRequestData | Receipt_Part SignedRecoveryReceipt | Other_Part jobject

record Message =
  mg_message_id :: ident
  mg_role :: string
  mg_parts :: "DataPart list"
  mg_task_id :: "ident option"
  mg_context_id :: "string option"

definition valid_message :: "Message \<Rightarrow> bool" where
  "valid_message m \<longleftrightarrow> mg_message_id m \<noteq> [] \<and> mg_role m \<in> {''ROLE_USER'', ''ROLE_AGENT''} \<and> mg_parts m \<noteq> []"

section \<open>Tasks\<close>

datatype TaskState = TASK_STATE_AUTH_REQUIRED | TASK_STATE_WORKING | TASK_STATE_COMPLETED
  | TASK_STATE_FAILED | TASK_STATE_CANCELED

datatype notice = Authorization_Required string ident | Canceled_Notice string | Declined_Notice
  | Granted_Notice ident | Completed_Notice string string

record AgentMessage =
  am_message_id :: ident
  am_task_id :: ident
  am_context_id :: string
  am_data :: notice

record TaskStatus =
  ts_state :: TaskState
  ts_timestamp :: instant
  ts_message :: AgentMessage

datatype Artifact = Mandate_Artifact SignedMandate | Receipt_Artifact ident SignedRecoveryReceipt

record TaskRecord =
  tr_id :: ident
  tr_context_id :: string
  tr_state :: TaskState
  tr_status :: TaskStatus
  tr_artifacts :: "Artifact list"
  tr_history :: "Message list"
  tr_request :: RecoveryRequestData
  tr_created_at :: instant
  tr_updated_at :: instant
  tr_revision :: int

datatype agent_error = TaskNotFoundError ident | TaskConflictError string | TaskAuthorizationError string
  | TaskIdempotencyConflictError | TaskVersionConflictError ident | Agent_Validation_Error
  | Agent_Index_Error | Agent_Key_Error | Agent_Integrity_Error

text \<open>The canonical JSON of a request determines it, so requests are compared as they are.\<close>

definition require_matching_request :: "TaskRecord \<Rightarrow> TaskRecord \<Rightarrow> agent_error + unit" where
  "require_matching_request existing incoming =
     guardE (tr_request existing = tr_request incoming) TaskIdempotencyConflictError"

section \<open>In memory\<close>

record InMemoryTaskStore =
  its_tasks :: "ident \<rightharpoonup> TaskRecord"
  its_idempotency :: "string \<rightharpoonup> ident"

definition new_memory_task_store :: InMemoryTaskStore where
  "new_memory_task_store = \<lparr>its_tasks = Map.empty, its_idempotency = Map.empty\<rparr>"

definition memory_create_once ::
    "InMemoryTaskStore \<Rightarrow> string \<Rightarrow> TaskRecord \<Rightarrow> agent_error + TaskRecord \<times> InMemoryTaskStore" where
  "memory_create_once s key task =
     (let existing_id = its_idempotency s key
      in if truthy existing_id
         then case its_tasks s (the existing_id) of
                None \<Rightarrow> Inl Agent_Key_Error
              | Some existing \<Rightarrow> bindE (require_matching_request existing task) (\<lambda>_. Inr (existing, s))
         else let stored = task\<lparr>tr_revision := 1\<rparr>
              in Inr (stored, s\<lparr>its_tasks := (its_tasks s)(tr_id task \<mapsto> stored),
                   its_idempotency := (its_idempotency s)(key \<mapsto> tr_id task)\<rparr>))"

definition memory_get :: "InMemoryTaskStore \<Rightarrow> ident \<Rightarrow> TaskRecord option" where
  "memory_get s task_id = its_tasks s task_id"

definition memory_save ::
    "InMemoryTaskStore \<Rightarrow> TaskRecord \<Rightarrow> int \<Rightarrow> agent_error + TaskRecord \<times> InMemoryTaskStore" where
  "memory_save s task expected_revision =
     (case its_tasks s (tr_id task) of
        None \<Rightarrow> Inl (TaskVersionConflictError (tr_id task))
      | Some current \<Rightarrow>
          if tr_revision current \<noteq> expected_revision then Inl (TaskVersionConflictError (tr_id task))
          else let saved = task\<lparr>tr_revision := expected_revision + 1\<rparr>
               in Inr (saved, s\<lparr>its_tasks := (its_tasks s)(tr_id task \<mapsto> saved)\<rparr>))"

section \<open>In the database\<close>

text \<open>The payload is the task without its revision, which the column \<open>version\<close> holds.\<close>

record CustomerAgentTaskRow =
  ct_task_id :: ident
  ct_idempotency_key :: string
  ct_state :: TaskState
  ct_payload :: TaskRecord
  ct_version :: int
  ct_created_at :: instant
  ct_updated_at :: instant

definition task_payload :: "TaskRecord \<Rightarrow> TaskRecord" where
  "task_payload task = task\<lparr>tr_revision := 1\<rparr>"

definition task_from_row :: "CustomerAgentTaskRow \<Rightarrow> TaskRecord" where
  "task_from_row row = (ct_payload row)\<lparr>tr_revision := ct_version row\<rparr>"

definition task_row :: "string \<Rightarrow> TaskRecord \<Rightarrow> CustomerAgentTaskRow" where
  "task_row key task = \<lparr>ct_task_id = tr_id task, ct_idempotency_key = key, ct_state = tr_state task,
     ct_payload = task_payload task, ct_version = 1, ct_created_at = tr_created_at task,
     ct_updated_at = tr_updated_at task\<rparr>"

definition task_clash :: "CustomerAgentTaskRow \<Rightarrow> CustomerAgentTaskRow \<Rightarrow> bool" where
  "task_clash a b \<longleftrightarrow> ct_task_id a = ct_task_id b \<or> ct_idempotency_key a = ct_idempotency_key b"

definition sql_create_once ::
    "CustomerAgentTaskRow list \<Rightarrow> string \<Rightarrow> TaskRecord \<Rightarrow> agent_error + TaskRecord \<times> CustomerAgentTaskRow list" where
  "sql_create_once rows key task =
     (let row = task_row key task
      in if \<not> (\<exists>r \<in> set rows. task_clash row r) then Inr (task_from_row row, rows @ [row])
         else case find (\<lambda>r. ct_idempotency_key r = key) rows of
           None \<Rightarrow> Inl Agent_Integrity_Error
         | Some existing \<Rightarrow>
             bindE (require_matching_request (task_from_row existing) task) (\<lambda>_.
               Inr (task_from_row existing, rows)))"

definition sql_get :: "CustomerAgentTaskRow list \<Rightarrow> ident \<Rightarrow> TaskRecord option" where
  "sql_get rows task_id = map_option task_from_row (find (\<lambda>r. ct_task_id r = task_id) rows)"

definition sql_save ::
    "CustomerAgentTaskRow list \<Rightarrow> TaskRecord \<Rightarrow> int \<Rightarrow> agent_error + TaskRecord \<times> CustomerAgentTaskRow list" where
  "sql_save rows task expected_revision =
     (let matches = (\<lambda>r. ct_task_id r = tr_id task \<and> ct_version r = expected_revision)
      in if length (filter matches rows) \<noteq> 1 then Inl (TaskVersionConflictError (tr_id task))
         else Inr (task\<lparr>tr_revision := expected_revision + 1\<rparr>,
           update_where matches (\<lambda>r. r\<lparr>ct_state := tr_state task, ct_payload := task_payload task,
             ct_version := expected_revision + 1, ct_updated_at := tr_updated_at task\<rparr>) rows))"

section \<open>What a task store promises\<close>

record 's TaskStore =
  create_once :: "'s \<Rightarrow> string \<Rightarrow> TaskRecord \<Rightarrow> agent_error + TaskRecord \<times> 's"
  get_stored :: "'s \<Rightarrow> ident \<Rightarrow> TaskRecord option"
  save :: "'s \<Rightarrow> TaskRecord \<Rightarrow> int \<Rightarrow> agent_error + TaskRecord \<times> 's"

definition memory_store_ops :: "InMemoryTaskStore TaskStore" where
  "memory_store_ops = \<lparr>create_once = memory_create_once, get_stored = memory_get, save = memory_save\<rparr>"

definition sql_store_ops :: "CustomerAgentTaskRow list TaskStore" where
  "sql_store_ops = \<lparr>create_once = sql_create_once, get_stored = sql_get, save = sql_save\<rparr>"

locale task_store =
  fixes ops :: "'s TaskStore"
    and inv :: "'s \<Rightarrow> bool"
    and owner :: "'s \<Rightarrow> string \<rightharpoonup> ident"
  assumes get_id: "inv s \<Longrightarrow> get_stored ops s i = Some t \<Longrightarrow> tr_id t = i"
    and create_new: "inv s \<Longrightarrow> owner s key = None \<Longrightarrow> tr_id t \<noteq> [] \<Longrightarrow> get_stored ops s (tr_id t) = None \<Longrightarrow>
      \<exists>s'. create_once ops s key t = Inr (t\<lparr>tr_revision := 1\<rparr>, s') \<and> inv s'
        \<and> get_stored ops s' = (get_stored ops s)(tr_id t \<mapsto> t\<lparr>tr_revision := 1\<rparr>)
        \<and> owner s' = (owner s)(key \<mapsto> tr_id t)"
    and create_again: "inv s \<Longrightarrow> owner s key = Some i \<Longrightarrow>
      \<exists>e. get_stored ops s i = Some e \<and> create_once ops s key t
        = (if tr_request e = tr_request t then Inr (e, s) else Inl TaskIdempotencyConflictError)"
    and save_current: "inv s \<Longrightarrow> get_stored ops s (tr_id t) = Some c \<Longrightarrow> tr_revision c = r \<Longrightarrow>
      \<exists>s'. save ops s t r = Inr (t\<lparr>tr_revision := r + 1\<rparr>, s') \<and> inv s'
        \<and> get_stored ops s' = (get_stored ops s)(tr_id t \<mapsto> t\<lparr>tr_revision := r + 1\<rparr>)
        \<and> owner s' = owner s"
    and save_stale: "inv s \<Longrightarrow> (\<forall>c. get_stored ops s (tr_id t) = Some c \<longrightarrow> tr_revision c \<noteq> r) \<Longrightarrow>
      save ops s t r = Inl (TaskVersionConflictError (tr_id t))"

section \<open>Both stores keep the promise\<close>

definition memory_tasks_inv :: "InMemoryTaskStore \<Rightarrow> bool" where
  "memory_tasks_inv s \<longleftrightarrow> (\<forall>i t. its_tasks s i = Some t \<longrightarrow> tr_id t = i)
     \<and> (\<forall>key i. its_idempotency s key = Some i \<longrightarrow> i \<noteq> [] \<and> its_tasks s i \<noteq> None)"

definition sql_tasks_inv :: "CustomerAgentTaskRow list \<Rightarrow> bool" where
  "sql_tasks_inv rows \<longleftrightarrow> distinct (map ct_task_id rows) \<and> distinct (map ct_idempotency_key rows)
     \<and> (\<forall>r \<in> set rows. tr_id (ct_payload r) = ct_task_id r)"

definition sql_owner :: "CustomerAgentTaskRow list \<Rightarrow> string \<rightharpoonup> ident" where
  "sql_owner rows key = map_option ct_task_id (find (\<lambda>r. ct_idempotency_key r = key) rows)"

interpretation memory_tasks: task_store memory_store_ops memory_tasks_inv its_idempotency
proof unfold_locales
  fix s :: InMemoryTaskStore and key and t :: TaskRecord
  assume "memory_tasks_inv s" "its_idempotency s key = None" "tr_id t \<noteq> []"
    "get_stored memory_store_ops s (tr_id t) = None"
  then show "\<exists>s'. create_once memory_store_ops s key t = Inr (t\<lparr>tr_revision := 1\<rparr>, s') \<and> memory_tasks_inv s'
      \<and> get_stored memory_store_ops s' = (get_stored memory_store_ops s)(tr_id t \<mapsto> t\<lparr>tr_revision := 1\<rparr>)
      \<and> its_idempotency s' = (its_idempotency s)(key \<mapsto> tr_id t)"
    by (auto simp: memory_store_ops_def memory_create_once_def memory_get_def memory_tasks_inv_def
        truthy_def Let_def fun_eq_iff)
qed (auto simp: memory_store_ops_def memory_create_once_def memory_get_def memory_save_def memory_tasks_inv_def
      truthy_def require_matching_request_def bindE_guardE Let_def fun_eq_iff split: option.splits)

lemma find_key_None: "find (\<lambda>r. k r = i) rows = None \<longleftrightarrow> i \<notin> k ` set rows"
  by (auto simp: find_None_iff)

lemma find_update_key:
  assumes "\<And>r. k (f r) = k r"
  shows "find (\<lambda>r. k r = i) (update_where P f rows)
    = map_option (\<lambda>r. if P r then f r else r) (find (\<lambda>r. k r = i) rows)"
  using assms by (induction rows) (auto simp: update_where_Cons)

lemma matching_rows:
  assumes "distinct (map ct_task_id rows)"
  shows "length (filter (\<lambda>r. ct_task_id r = i \<and> ct_version r = v) rows)
    = (case find (\<lambda>r. ct_task_id r = i) rows of None \<Rightarrow> 0 | Some r \<Rightarrow> if ct_version r = v then 1 else 0)"
  using assms
proof (induction rows)
  case (Cons a rows)
  moreover have "filter (\<lambda>r. ct_task_id r = i \<and> ct_version r = v) rows = []" if "ct_task_id a = i"
    using that Cons.prems by (auto simp: filter_empty_conv) (metis image_eqI)
  ultimately show ?case by (auto split: option.splits)
qed simp

interpretation sql_tasks: task_store sql_store_ops sql_tasks_inv sql_owner
proof unfold_locales
  fix s i and t :: TaskRecord
  assume inv: "sql_tasks_inv s" and "get_stored sql_store_ops s i = Some t"
  then obtain r where r: "find (\<lambda>r. ct_task_id r = i) s = Some r" "t = task_from_row r"
    by (auto simp: sql_store_ops_def sql_get_def)
  with inv find_SomeD [OF r(1)] show "tr_id t = i" by (auto simp: sql_tasks_inv_def task_from_row_def)
next
  fix s key and t :: TaskRecord
  assume inv: "sql_tasks_inv s" and fresh: "sql_owner s key = None" "get_stored sql_store_ops s (tr_id t) = None"
  then have none: "key \<notin> ct_idempotency_key ` set s" "tr_id t \<notin> ct_task_id ` set s"
    by (auto simp: sql_owner_def sql_store_ops_def sql_get_def find_key_None)
  then have "create_once sql_store_ops s key t = Inr (t\<lparr>tr_revision := 1\<rparr>, s @ [task_row key t])"
    by (force simp: sql_store_ops_def sql_create_once_def task_clash_def task_row_def task_from_row_def
        task_payload_def Let_def)
  moreover have "sql_tasks_inv (s @ [task_row key t])"
    using inv none by (auto simp: sql_tasks_inv_def task_row_def task_payload_def)
  moreover have "get_stored sql_store_ops (s @ [task_row key t])
      = (get_stored sql_store_ops s)(tr_id t \<mapsto> t\<lparr>tr_revision := 1\<rparr>)"
    using fresh by (auto simp: sql_store_ops_def sql_get_def find_snoc task_row_def task_from_row_def
        task_payload_def fun_eq_iff split: option.splits)
  moreover have "sql_owner (s @ [task_row key t]) = (sql_owner s)(key \<mapsto> tr_id t)"
    using fresh by (auto simp: sql_owner_def find_snoc task_row_def fun_eq_iff split: option.splits)
  ultimately show "\<exists>s'. create_once sql_store_ops s key t = Inr (t\<lparr>tr_revision := 1\<rparr>, s') \<and> sql_tasks_inv s'
      \<and> get_stored sql_store_ops s' = (get_stored sql_store_ops s)(tr_id t \<mapsto> t\<lparr>tr_revision := 1\<rparr>)
      \<and> sql_owner s' = (sql_owner s)(key \<mapsto> tr_id t)" by blast
next
  fix s key i and t :: TaskRecord
  assume inv: "sql_tasks_inv s" and "sql_owner s key = Some i"
  then obtain r where r: "find (\<lambda>r. ct_idempotency_key r = key) s = Some r" "ct_task_id r = i"
    by (auto simp: sql_owner_def)
  note mem = find_SomeD [OF r(1)]
  have "find (\<lambda>x. ct_task_id x = i) s = Some r"
    using inv mem r(2) find_distinct_key [of ct_task_id s r] by (auto simp: sql_tasks_inv_def)
  moreover have "\<exists>x \<in> set s. task_clash (task_row key t) x"
    using mem by (auto simp: task_clash_def task_row_def)
  ultimately show "\<exists>e. get_stored sql_store_ops s i = Some e \<and> create_once sql_store_ops s key t
      = (if tr_request e = tr_request t then Inr (e, s) else Inl TaskIdempotencyConflictError)"
    using r by (auto simp: sql_store_ops_def sql_get_def sql_create_once_def require_matching_request_def
        bindE_guardE Let_def)
next
  fix s r and t c :: TaskRecord
  assume inv: "sql_tasks_inv s" and "get_stored sql_store_ops s (tr_id t) = Some c" and "tr_revision c = r"
  then obtain x where x: "find (\<lambda>x. ct_task_id x = tr_id t) s = Some x" "ct_version x = r"
    by (auto simp: sql_store_ops_def sql_get_def task_from_row_def)
  let ?matches = "\<lambda>x. ct_task_id x = tr_id t \<and> ct_version x = r"
  let ?f = "\<lambda>x. x\<lparr>ct_state := tr_state t, ct_payload := task_payload t, ct_version := r + 1,
    ct_updated_at := tr_updated_at t\<rparr>"
  let ?s = "update_where ?matches ?f s"
  have "save sql_store_ops s t r = Inr (t\<lparr>tr_revision := r + 1\<rparr>, ?s)"
    using x inv matching_rows [of s "tr_id t" r]
    by (simp add: sql_store_ops_def sql_save_def sql_tasks_inv_def Let_def)
  moreover have "sql_tasks_inv ?s"
    using inv by (auto simp: sql_tasks_inv_def map_update_where set_update_where task_payload_def)
  moreover have "get_stored sql_store_ops ?s = (get_stored sql_store_ops s)(tr_id t \<mapsto> t\<lparr>tr_revision := r + 1\<rparr>)"
  proof (rule ext)
    fix i
    show "get_stored sql_store_ops ?s i
        = ((get_stored sql_store_ops s)(tr_id t \<mapsto> t\<lparr>tr_revision := r + 1\<rparr>)) i"
    proof (cases "i = tr_id t")
      case True
      with x find_SomeD [OF x(1)] show ?thesis
        by (simp add: sql_store_ops_def sql_get_def find_update_key task_from_row_def task_payload_def)
    next
      case False
      then have "\<not> ?matches y" if "find (\<lambda>r. ct_task_id r = i) s = Some y" for y
        using find_SomeD [OF that] by simp
      with False show ?thesis
        by (cases "find (\<lambda>r. ct_task_id r = i) s") (auto simp: sql_store_ops_def sql_get_def find_update_key)
    qed
  qed
  moreover have "sql_owner ?s = sql_owner s"
    by (auto simp: sql_owner_def find_update_key fun_eq_iff option.map_comp o_def intro!: option.map_cong)
  ultimately show "\<exists>s'. save sql_store_ops s t r = Inr (t\<lparr>tr_revision := r + 1\<rparr>, s') \<and> sql_tasks_inv s'
      \<and> get_stored sql_store_ops s' = (get_stored sql_store_ops s)(tr_id t \<mapsto> t\<lparr>tr_revision := r + 1\<rparr>)
      \<and> sql_owner s' = sql_owner s" by blast
next
  fix s r and t :: TaskRecord
  assume inv: "sql_tasks_inv s" and "\<forall>c. get_stored sql_store_ops s (tr_id t) = Some c \<longrightarrow> tr_revision c \<noteq> r"
  then show "save sql_store_ops s t r = Inl (TaskVersionConflictError (tr_id t))"
    using matching_rows [of s "tr_id t" r]
    by (auto simp: sql_store_ops_def sql_get_def sql_save_def sql_tasks_inv_def task_from_row_def Let_def
        split: option.splits)
qed

end
