(* ===== verification/Customer_Agent.thy ===== *)
theory Customer_Agent
  imports Task_Store
begin

text \<open>
  The customer agent, \<open>services/customer-agent/app/service.py\<close>: it records a recovery request as a
  task, lets the customer decide it, signs the mandate, and closes the task with an
  authenticated payment receipt.

  A handler reads a task, computes, and saves the task over the revision it read. What other
  requests do to the store in between is an argument \<open>others\<close> of the handler, so that the
  theorems hold for every interleaving; clock readings and fresh identifiers are arguments too.
  The language model is a function that is only asked for advice.
\<close>

section \<open>Service\<close>

record CustomerAgentService =
  ca_crypto :: crypto
  ca_hmac_sha256 :: "string \<Rightarrow> string \<Rightarrow> byte list"
  ca_signer :: MandateSigner
  ca_receipt_verifier :: ReceiptVerifier
  ca_mandate_ttl :: int
  ca_approval_token_secret :: "string option"

record ApprovalDecision =
  dn_approve :: bool
  dn_merchant_id :: ident
  dn_case_id :: ident
  dn_exact_amount_paise :: paise
  dn_payment_surface_reference :: string

definition get_task :: "'s TaskStore \<Rightarrow> 's \<Rightarrow> ident \<Rightarrow> agent_error + TaskRecord" where
  "get_task ops s task_id = (case get_stored ops s task_id of
     None \<Rightarrow> Inl (TaskNotFoundError task_id) | Some t \<Rightarrow> Inr t)"

definition agent_message :: "TaskRecord \<Rightarrow> ident \<Rightarrow> notice \<Rightarrow> AgentMessage" where
  "agent_message task uuid data = \<lparr>am_message_id = ''msg_'' @ uuid, am_task_id = tr_id task,
     am_context_id = tr_context_id task, am_data = data\<rparr>"

definition set_status :: "TaskRecord \<Rightarrow> TaskState \<Rightarrow> instant \<Rightarrow> ident \<Rightarrow> notice \<Rightarrow> TaskRecord" where
  "set_status task state now uuid data = task\<lparr>tr_state := state,
     tr_status := \<lparr>ts_state = state, ts_timestamp = now, ts_message = agent_message task uuid data\<rparr>,
     tr_updated_at := now\<rparr>"

section \<open>Recording a request\<close>

definition new_task :: "Message \<Rightarrow> RecoveryRequestData \<Rightarrow> instant \<Rightarrow> ident \<Rightarrow> ident \<Rightarrow> TaskRecord" where
  "new_task message request now task_uuid message_uuid =
     (let task_id = ''task_'' @ task_uuid;
          context_id = (if truthy (mg_context_id message) then the (mg_context_id message)
            else ''ctx_'' @ rq_case_id request)
      in \<lparr>tr_id = task_id, tr_context_id = context_id, tr_state = TASK_STATE_AUTH_REQUIRED,
         tr_status = \<lparr>ts_state = TASK_STATE_AUTH_REQUIRED, ts_timestamp = now,
           ts_message = \<lparr>am_message_id = ''msg_'' @ message_uuid, am_task_id = task_id,
             am_context_id = context_id,
             am_data = Authorization_Required (''/a2a/'' @ task_id) (rq_case_id request)\<rparr>\<rparr>,
         tr_artifacts = [], tr_history = [message], tr_request = request,
         tr_created_at = now, tr_updated_at = now, tr_revision = 1\<rparr>)"

definition create_authorization_task ::
    "'s TaskStore \<Rightarrow> Message \<Rightarrow> RecoveryRequestData \<Rightarrow> instant \<Rightarrow> ident \<Rightarrow> ident \<Rightarrow> 's
     \<Rightarrow> agent_error + TaskRecord \<times> 's" where
  "create_authorization_task ops message request now task_uuid message_uuid s =
     (if utc_instant (rq_expires_at request) \<le> now
      then Inl (TaskConflictError ''recovery request has expired'')
      else create_once ops s (rq_idempotency_key request) (new_task message request now task_uuid message_uuid))"

section \<open>Closing a task with a receipt\<close>

fun is_duplicate_message :: "Message list \<Rightarrow> Message \<Rightarrow> agent_error + bool" where
  "is_duplicate_message [] message = Inr False"
| "is_duplicate_message (item # history) message =
     (if mg_message_id item \<noteq> mg_message_id message then is_duplicate_message history message
      else if item \<noteq> message
      then Inl (TaskConflictError ''messageId was reused with different receipt data'')
      else Inr True)"

text \<open>\<open>task.artifacts[0]["parts"][0]["data"]["data"]\<close>, of which the keys of a mandate are read.\<close>

definition mandate_of_task :: "TaskRecord \<Rightarrow> agent_error + RecoveryMandateData" where
  "mandate_of_task task = (case tr_artifacts task of
     [] \<Rightarrow> Inl Agent_Index_Error
   | Mandate_Artifact m # _ \<Rightarrow> Inr (sm_data m)
   | Receipt_Artifact _ _ # _ \<Rightarrow> Inl Agent_Key_Error)"

definition receipt_in_scope :: "TaskRecord \<Rightarrow> RecoveryMandateData \<Rightarrow> RecoveryReceiptData \<Rightarrow> bool" where
  "receipt_in_scope task mandate receipt \<longleftrightarrow>
     rd_task_id receipt = tr_id task \<and> rd_mandate_id receipt = md_mandate_id mandate
     \<and> rd_merchant_id receipt = rq_merchant_id (tr_request task)
     \<and> rd_case_id receipt = rq_case_id (tr_request task)
     \<and> rd_recovery_action_id receipt = md_recovery_action_id mandate
     \<and> rd_failed_invoice_id receipt = md_failed_invoice_id mandate
     \<and> rd_exact_amount_paise receipt = rq_exact_amount_paise (tr_request task)
     \<and> rd_currency receipt = rq_currency (tr_request task)"

definition completed_task ::
    "TaskRecord \<Rightarrow> Message \<Rightarrow> SignedRecoveryReceipt \<Rightarrow> instant \<Rightarrow> ident \<Rightarrow> ident \<Rightarrow> TaskRecord" where
  "completed_task task message signed_receipt now artifact_uuid message_uuid =
     (set_status task TASK_STATE_COMPLETED now message_uuid
        (Completed_Notice (rd_payment_state (sr_data signed_receipt)) (rd_provider_reference (sr_data signed_receipt))))
     \<lparr>tr_artifacts := tr_artifacts task @ [Receipt_Artifact (''receipt_'' @ artifact_uuid) signed_receipt],
      tr_history := tr_history task @ [message]\<rparr>"

definition save_completed ::
    "'s TaskStore \<Rightarrow> Message \<Rightarrow> ident \<Rightarrow> TaskRecord \<Rightarrow> int \<Rightarrow> 's \<Rightarrow> agent_error + TaskRecord \<times> 's" where
  "save_completed ops message task_id task expected_revision s =
     (case save ops s task expected_revision of
        Inl (TaskVersionConflictError _) \<Rightarrow>
          bindE (get_task ops s task_id) (\<lambda>latest.
          bindE (is_duplicate_message (tr_history latest) message) (\<lambda>duplicate.
            if duplicate then Inr (latest, s)
            else Inl (TaskConflictError ''task changed concurrently; retry receipt'')))
      | r \<Rightarrow> r)"

definition complete_with_receipt ::
    "'s TaskStore \<Rightarrow> ('s \<Rightarrow> 's) \<Rightarrow> instant \<Rightarrow> ident \<Rightarrow> ident \<Rightarrow> Message \<Rightarrow> SignedRecoveryReceipt \<Rightarrow> RecoveryReceiptData
     \<Rightarrow> 's \<Rightarrow> agent_error + TaskRecord \<times> 's" where
  "complete_with_receipt ops others now artifact_uuid message_uuid message signed_receipt receipt s =
     (let task_id = (if truthy (mg_task_id message) then the (mg_task_id message) else rd_task_id receipt)
      in bindE (get_task ops s task_id) (\<lambda>task.
         bindE (is_duplicate_message (tr_history task) message) (\<lambda>duplicate.
           if duplicate then Inr (task, s)
           else if tr_state task \<noteq> TASK_STATE_WORKING
           then Inl (TaskConflictError ''task is not awaiting a payment receipt'')
           else if mg_message_id message \<noteq> rd_receipt_id receipt
           then Inl (TaskConflictError ''receipt ID does not match the A2A message ID'')
           else bindE (mandate_of_task task) (\<lambda>mandate.
             if \<not> receipt_in_scope task mandate receipt
             then Inl (TaskConflictError ''receipt scope does not match the signed mandate'')
             else save_completed ops message task_id
               (completed_task task message signed_receipt now artifact_uuid message_uuid)
               (tr_revision task) (others s)))))"

definition send_message ::
    "CustomerAgentService \<Rightarrow> 's TaskStore \<Rightarrow> ('s \<Rightarrow> 's) \<Rightarrow> instant \<Rightarrow> ident \<Rightarrow> ident \<Rightarrow> Message \<Rightarrow> 's
     \<Rightarrow> agent_error + TaskRecord \<times> 's" where
  "send_message svc ops others now uuid message_uuid message s =
     (case mg_parts message of
        [] \<Rightarrow> Inl Agent_Index_Error
      | Request_Part request # _ \<Rightarrow>
          if \<not> valid_request request then Inl Agent_Validation_Error
          else create_authorization_task ops message request now uuid message_uuid s
      | Receipt_Part signed_receipt # _ \<Rightarrow>
          if \<not> valid_receipt signed_receipt then Inl Agent_Validation_Error
          else (case verify_receipt (ca_crypto svc) (ca_receipt_verifier svc) signed_receipt of
             Inl (ReceiptAuthenticationError m) \<Rightarrow> Inl (TaskConflictError m)
           | Inl _ \<Rightarrow> Inl Agent_Validation_Error
           | Inr receipt \<Rightarrow> complete_with_receipt ops others now uuid message_uuid message signed_receipt receipt s)
      | Other_Part _ # _ \<Rightarrow> Inl (TaskConflictError ''unsupported recovery DataPart protocol_version''))"

section \<open>The customer's capability\<close>

datatype json_tree = T_text string | T_null | T_int int | T_object "(string \<times> json_tree) list"

function json_tree_text :: "json_tree \<Rightarrow> string" where
  "json_tree_text (T_text s) = json_string s"
| "json_tree_text T_null = ''null''"
| "json_tree_text (T_int i) = int_str i"
| "json_tree_text (T_object fs) = ''{'' @ json_join (map (\<lambda>f. json_string (fst f) @ '':'' @
     json_tree_text (snd f)) (sort_key fst fs)) @ ''}''"
  by pat_completeness auto

lemma size_field: "f \<in> set fs \<Longrightarrow> size (snd f) < Suc (size_list (size_prod (\<lambda>_. 0) size) fs)"
  by (induction fs) auto

termination json_tree_text by (relation "measure size") (auto intro: size_field)

definition display_context_tree :: "(datetime \<Rightarrow> string) \<Rightarrow> RecoveryDisplayContext \<Rightarrow> json_tree" where
  "display_context_tree isoformat c = T_object [
     (''merchant_display_name'', T_text (dc_merchant_display_name c)), (''plan_name'', T_text (dc_plan_name c)),
     (''failure_explanation'', T_text (dc_failure_explanation c)),
     (''invoice_state'', T_text (dc_invoice_state c)), (''payment_state'', T_text (dc_payment_state c)),
     (''subscription_state'', T_text (dc_subscription_state c)),
     (''provider_subscription_state'', T_text (dc_provider_subscription_state c)),
     (''preferred_language'', T_text (dc_preferred_language c)),
     (''invoice_due_at'', case dc_invoice_due_at c of None \<Rightarrow> T_null | Some d \<Rightarrow> T_text (isoformat d)),
     (''recovery_deadline'', T_text (isoformat (dc_recovery_deadline c)))]"

definition request_tree :: "(datetime \<Rightarrow> string) \<Rightarrow> RecoveryRequestData \<Rightarrow> json_tree" where
  "request_tree isoformat r = T_object [
     (''protocol_version'', T_text (rq_protocol_version r)), (''idempotency_key'', T_text (rq_idempotency_key r)),
     (''case_id'', T_text (rq_case_id r)), (''merchant_id'', T_text (rq_merchant_id r)),
     (''customer_id'', T_text (rq_customer_id r)), (''recovery_action_id'', T_text (rq_recovery_action_id r)),
     (''failed_invoice_id'', T_text (rq_failed_invoice_id r)),
     (''exact_amount_paise'', T_int (rq_exact_amount_paise r)), (''currency'', T_text (rq_currency r)),
     (''payment_surface_type'', T_text (rq_payment_surface_type r)),
     (''payment_surface_reference'', T_text (rq_payment_surface_reference r)),
     (''expires_at'', T_text (isoformat (rq_expires_at r))),
     (''context'', display_context_tree isoformat (rq_context r))]"

definition approval_token :: "CustomerAgentService \<Rightarrow> TaskRecord \<Rightarrow> string option" where
  "approval_token svc task = (case ca_approval_token_secret svc of
     None \<Rightarrow> None
   | Some secret \<Rightarrow> Some (b64url_encode (ca_hmac_sha256 svc secret (json_tree_text (T_object [
       (''context_id'', T_text (tr_context_id task)),
       (''request'', request_tree (timestamp_text (ca_crypto svc)) (tr_request task)),
       (''task_id'', T_text (tr_id task)),
       (''version'', T_text ''recoveryos.customer-approval-capability.v1'')])))))"

definition supplied_token :: "string option \<Rightarrow> string" where
  "supplied_token token = (if truthy token then the token else [])"

definition authorized_task ::
    "CustomerAgentService \<Rightarrow> 's TaskStore \<Rightarrow> instant \<Rightarrow> string option \<Rightarrow> ident \<Rightarrow> 's \<Rightarrow> agent_error + TaskRecord" where
  "authorized_task svc ops now token task_id s =
     bindE (get_task ops s task_id) (\<lambda>task.
       case approval_token svc task of
         None \<Rightarrow> Inr task
       | Some expected \<Rightarrow>
           if supplied_token token \<noteq> expected
           then Inl (TaskAuthorizationError ''invalid customer approval capability'')
           else if utc_instant (rq_expires_at (tr_request task)) \<le> now
           then Inl (TaskAuthorizationError ''customer approval capability has expired'')
           else Inr task)"

section \<open>Canceling\<close>

definition canceled_task :: "TaskRecord \<Rightarrow> string \<Rightarrow> instant \<Rightarrow> ident \<Rightarrow> TaskRecord" where
  "canceled_task task reason now uuid = set_status task TASK_STATE_CANCELED now uuid (Canceled_Notice reason)"

text \<open>An attempt: what others do before the write, the clock, and a fresh identifier.\<close>

fun cancel_attempts ::
    "'s TaskStore \<Rightarrow> ident \<Rightarrow> string \<Rightarrow> (('s \<Rightarrow> 's) \<times> instant \<times> ident) list \<Rightarrow> 's \<Rightarrow> agent_error + TaskRecord \<times> 's" where
  "cancel_attempts ops task_id reason [] s =
     Inl (TaskConflictError ''task changed concurrently; retry cancellation'')"
| "cancel_attempts ops task_id reason ((others, now, uuid) # attempts) s =
     bindE (get_task ops s task_id) (\<lambda>task.
       if tr_state task \<in> {TASK_STATE_COMPLETED, TASK_STATE_CANCELED} then Inr (task, s)
       else case save ops (others s) (canceled_task task reason now uuid) (tr_revision task) of
         Inl (TaskVersionConflictError _) \<Rightarrow> cancel_attempts ops task_id reason attempts (others s)
       | r \<Rightarrow> r)"

definition cancel_task ::
    "'s TaskStore \<Rightarrow> ident \<Rightarrow> string \<Rightarrow> (nat \<Rightarrow> ('s \<Rightarrow> 's) \<times> instant \<times> ident) \<Rightarrow> 's \<Rightarrow> agent_error + TaskRecord \<times> 's" where
  "cancel_task ops task_id reason attempt s = cancel_attempts ops task_id reason (map attempt [0..<3]) s"

section \<open>Deciding\<close>

definition decision_in_scope :: "RecoveryRequestData \<Rightarrow> ApprovalDecision \<Rightarrow> bool" where
  "decision_in_scope request decision \<longleftrightarrow> dn_merchant_id decision = rq_merchant_id request
     \<and> dn_case_id decision = rq_case_id request
     \<and> dn_exact_amount_paise decision = rq_exact_amount_paise request
     \<and> dn_payment_surface_reference decision = rq_payment_surface_reference request"

definition mandate_expiry :: "CustomerAgentService \<Rightarrow> RecoveryRequestData \<Rightarrow> instant \<Rightarrow> datetime" where
  "mandate_expiry svc request now = (if now + ca_mandate_ttl svc < utc_instant (rq_expires_at request)
     then Aware (now + ca_mandate_ttl svc) 0 else rq_expires_at request)"

definition mandate_for ::
    "CustomerAgentService \<Rightarrow> TaskRecord \<Rightarrow> instant \<Rightarrow> ident \<Rightarrow> string \<Rightarrow> RecoveryMandateData" where
  "mandate_for svc task now mandate_uuid nonce =
     (let request = tr_request task in
      \<lparr>md_protocol_version = ''recovery.mandate.v2'', md_mandate_id = ''mandate_'' @ mandate_uuid,
       md_nonce = nonce, md_signer_key_id = ms_signer_key_id (ca_signer svc), md_task_id = tr_id task,
       md_merchant_id = rq_merchant_id request, md_case_id = rq_case_id request,
       md_customer_id = rq_customer_id request, md_recovery_action_id = rq_recovery_action_id request,
       md_failed_invoice_id = rq_failed_invoice_id request,
       md_exact_amount_paise = rq_exact_amount_paise request, md_currency = rq_currency request,
       md_payment_surface_type = rq_payment_surface_type request,
       md_payment_surface_reference = rq_payment_surface_reference request,
       md_authorized_action = ''OPEN_EXACT_PAYMENT_SURFACE'', md_issued_at = Aware now 0,
       md_expires_at = mandate_expiry svc request now\<rparr>)"

definition declined_task :: "TaskRecord \<Rightarrow> instant \<Rightarrow> ident \<Rightarrow> TaskRecord" where
  "declined_task task now uuid = set_status task TASK_STATE_CANCELED now uuid Declined_Notice"

definition approved_task :: "TaskRecord \<Rightarrow> SignedMandate \<Rightarrow> instant \<Rightarrow> ident \<Rightarrow> TaskRecord" where
  "approved_task task envelope now uuid =
     (set_status task TASK_STATE_WORKING now uuid (Granted_Notice (md_mandate_id (sm_data envelope))))
     \<lparr>tr_artifacts := [Mandate_Artifact envelope]\<rparr>"

definition save_once ::
    "'s TaskStore \<Rightarrow> TaskRecord \<Rightarrow> int \<Rightarrow> 's \<Rightarrow> agent_error + TaskRecord \<times> 's" where
  "save_once ops task expected_revision s = (case save ops s task expected_revision of
     Inl (TaskVersionConflictError _) \<Rightarrow> Inl (TaskConflictError ''task changed concurrently; retry request'')
   | r \<Rightarrow> r)"

text \<open>The two clock readings are those of the capability check and of the decision.\<close>

definition decide_task ::
    "CustomerAgentService \<Rightarrow> 's TaskStore \<Rightarrow> ('s \<Rightarrow> 's) \<Rightarrow> instant \<Rightarrow> instant \<Rightarrow> ident \<Rightarrow> string \<Rightarrow> ident
     \<Rightarrow> ident \<Rightarrow> ApprovalDecision \<Rightarrow> string option \<Rightarrow> 's \<Rightarrow> agent_error + TaskRecord \<times> 's" where
  "decide_task svc ops others checked_at now mandate_uuid nonce message_uuid task_id decision token s =
     bindE (authorized_task svc ops checked_at token task_id s) (\<lambda>task.
       let request = tr_request task; expected_revision = tr_revision task in
       if tr_state task \<noteq> TASK_STATE_AUTH_REQUIRED
       then Inl (TaskConflictError ''authorization has already been decided'')
       else if \<not> decision_in_scope request decision
       then Inl (TaskConflictError ''approval scope does not match the recovery request'')
       else if utc_instant (rq_expires_at request) \<le> now
       then Inl (TaskConflictError ''recovery request has expired'')
       else if \<not> dn_approve decision
       then save_once ops (declined_task task now message_uuid) expected_revision (others s)
       else let mandate = mandate_for svc task now mandate_uuid nonce in
         if \<not> valid_mandate_data mandate then Inl Agent_Validation_Error
         else case sign_mandate (ca_crypto svc) (ca_signer svc) mandate of
           Inl _ \<Rightarrow> Inl Agent_Validation_Error
         | Inr envelope \<Rightarrow>
             save_once ops (approved_task task envelope now message_uuid) expected_revision (others s))"

section \<open>Reading\<close>

record ApprovalSummary =
  sy_task_id :: ident
  sy_state :: TaskState
  sy_merchant_id :: ident
  sy_case_id :: ident
  sy_recovery_action_id :: ident
  sy_failed_invoice_id :: ident
  sy_exact_amount_paise :: paise
  sy_currency :: string
  sy_payment_surface_type :: string
  sy_payment_surface_reference :: string
  sy_expires_at :: datetime
  sy_merchant_display_name :: string
  sy_plan_name :: string
  sy_failure_explanation :: string
  sy_invoice_state :: string
  sy_payment_state :: string
  sy_subscription_state :: string
  sy_provider_subscription_state :: string
  sy_preferred_language :: string
  sy_invoice_due_at :: "datetime option"
  sy_recovery_deadline :: datetime

definition summary_of_task :: "TaskRecord \<Rightarrow> ApprovalSummary" where
  "summary_of_task task = (let request = tr_request task; display = rq_context request in
     \<lparr>sy_task_id = tr_id task, sy_state = tr_state task,
      sy_merchant_id = rq_merchant_id request,
      sy_case_id = rq_case_id request,
      sy_recovery_action_id = rq_recovery_action_id request,
      sy_failed_invoice_id = rq_failed_invoice_id request,
      sy_exact_amount_paise = rq_exact_amount_paise request,
      sy_currency = rq_currency request,
      sy_payment_surface_type = rq_payment_surface_type request,
      sy_payment_surface_reference = rq_payment_surface_reference request,
      sy_expires_at = rq_expires_at request,
      sy_merchant_display_name = dc_merchant_display_name display,
      sy_plan_name = dc_plan_name display,
      sy_failure_explanation = dc_failure_explanation display,
      sy_invoice_state = dc_invoice_state display,
      sy_payment_state = dc_payment_state display,
      sy_subscription_state = dc_subscription_state display,
      sy_provider_subscription_state = dc_provider_subscription_state display,
      sy_preferred_language = dc_preferred_language display,
      sy_invoice_due_at = dc_invoice_due_at display,
      sy_recovery_deadline = dc_recovery_deadline display\<rparr>)"

definition approval_summary ::
    "CustomerAgentService \<Rightarrow> 's TaskStore \<Rightarrow> instant \<Rightarrow> ident \<Rightarrow> string option \<Rightarrow> 's \<Rightarrow> agent_error + ApprovalSummary" where
  "approval_summary svc ops now task_id token s =
     bindE (authorized_task svc ops now token task_id s) (\<lambda>task.
       if tr_state task \<noteq> TASK_STATE_AUTH_REQUIRED
       then Inl (TaskConflictError ''task is not awaiting customer authorization'')
       else Inr (summary_of_task task))"

datatype CustomerIntent = Intent_APPROVE | Intent_REJECT | Intent_ASK_QUESTION | Intent_UNCLEAR

record LanguageModelInterpretation =
  li_intent :: CustomerIntent
  li_confidence_basis_points :: int
  li_explanation :: string

record AuthoritativeApprovalScope =
  ao_merchant_id :: ident
  ao_case_id :: ident
  ao_recovery_action_id :: ident
  ao_failed_invoice_id :: ident
  ao_exact_amount_paise :: paise
  ao_currency :: string
  ao_payment_surface_type :: string
  ao_payment_surface_reference :: string
  ao_expires_at :: datetime

record CustomerLanguageInterpretation =
  ci_task_id :: ident
  ci_intent :: CustomerIntent
  ci_confidence_basis_points :: int
  ci_explanation :: string
  ci_authoritative_scope :: AuthoritativeApprovalScope

definition scope_of_summary :: "ApprovalSummary \<Rightarrow> AuthoritativeApprovalScope" where
  "scope_of_summary summary = \<lparr>
     ao_merchant_id = sy_merchant_id summary,
     ao_case_id = sy_case_id summary,
     ao_recovery_action_id = sy_recovery_action_id summary,
     ao_failed_invoice_id = sy_failed_invoice_id summary,
     ao_exact_amount_paise = sy_exact_amount_paise summary,
     ao_currency = sy_currency summary,
     ao_payment_surface_type = sy_payment_surface_type summary,
     ao_payment_surface_reference = sy_payment_surface_reference summary,
     ao_expires_at = sy_expires_at summary\<rparr>"

definition interpret_customer_language ::
    "CustomerAgentService \<Rightarrow> 's TaskStore \<Rightarrow> ('s \<Rightarrow> 's) \<Rightarrow> instant \<Rightarrow> (ApprovalSummary \<Rightarrow> agent_error + LanguageModelInterpretation)
     \<Rightarrow> ident \<Rightarrow> string option \<Rightarrow> 's \<Rightarrow> agent_error + CustomerLanguageInterpretation" where
  "interpret_customer_language svc ops others now interpret_text task_id token s =
     bindE (authorized_task svc ops now token task_id s) (\<lambda>task.
       if tr_state task \<noteq> TASK_STATE_AUTH_REQUIRED
       then Inl (TaskConflictError ''task is not awaiting customer authorization'')
       else bindE (interpret_text (summary_of_task task)) (\<lambda>interpretation.
         bindE (get_task ops (others s) task_id) (\<lambda>latest.
           if tr_revision latest \<noteq> tr_revision task \<or> tr_state latest \<noteq> TASK_STATE_AUTH_REQUIRED
           then Inl (TaskConflictError ''authorization changed while language was interpreted'')
           else Inr \<lparr>ci_task_id = tr_id task, ci_intent = li_intent interpretation,
             ci_confidence_basis_points = li_confidence_basis_points interpretation,
             ci_explanation = li_explanation interpretation,
             ci_authoritative_scope = scope_of_summary (summary_of_task task)\<rparr>)))"

end
