(* ===== verification/Agent_Safety.thy ===== *)
theory Agent_Safety
  imports Customer_Agent
begin

text \<open>
  The customer agent refines a task state machine. \<open>task_step\<close> are the transitions a task may
  make; \<open>agent_run\<close> are the runs of the service, in which every handler may be interleaved with
  other runs between its read and its write. Under the contract \<open>task_store\<close> every run moves
  each task along transitions, so that a decided task is never decided again, and a mandate
  states exactly what the customer approved.
\<close>

section \<open>The task state machine\<close>

inductive task_step :: "CustomerAgentService \<Rightarrow> TaskRecord \<Rightarrow> TaskRecord \<Rightarrow> bool" for svc where
  approve: "tr_state t = TASK_STATE_AUTH_REQUIRED \<Longrightarrow> now < utc_instant (rq_expires_at (tr_request t)) \<Longrightarrow>
    valid_mandate_data (mandate_for svc t now mandate_uuid nonce) \<Longrightarrow>
    sign_mandate (ca_crypto svc) (ca_signer svc) (mandate_for svc t now mandate_uuid nonce) = Inr envelope \<Longrightarrow>
    task_step svc t ((approved_task t envelope now uuid)\<lparr>tr_revision := tr_revision t + 1\<rparr>)"
| decline: "tr_state t = TASK_STATE_AUTH_REQUIRED \<Longrightarrow>
    task_step svc t ((declined_task t now uuid)\<lparr>tr_revision := tr_revision t + 1\<rparr>)"
| cancel: "tr_state t \<notin> {TASK_STATE_COMPLETED, TASK_STATE_CANCELED} \<Longrightarrow>
    task_step svc t ((canceled_task t reason now uuid)\<lparr>tr_revision := tr_revision t + 1\<rparr>)"
| complete: "tr_state t = TASK_STATE_WORKING \<Longrightarrow> mandate_of_task t = Inr mandate \<Longrightarrow> valid_receipt r \<Longrightarrow>
    verify_receipt (ca_crypto svc) (ca_receipt_verifier svc) r = Inr (sr_data r) \<Longrightarrow>
    receipt_in_scope t mandate (sr_data r) \<Longrightarrow> mg_message_id message = rd_receipt_id (sr_data r) \<Longrightarrow>
    task_step svc t ((completed_task t message r now artifact_uuid uuid)\<lparr>tr_revision := tr_revision t + 1\<rparr>)"

inductive_cases task_stepE: "task_step svc t u"

definition born :: "TaskRecord \<Rightarrow> bool" where
  "born t \<longleftrightarrow> (\<exists>message request now task_uuid uuid. valid_request request
     \<and> now < utc_instant (rq_expires_at request) \<and> t = new_task message request now task_uuid uuid)"

lemmas task_defs = approved_task_def declined_task_def canceled_task_def completed_task_def set_status_def

lemma task_step_frame:
  assumes "task_step svc t u"
  shows "tr_id u = tr_id t \<and> tr_context_id u = tr_context_id t \<and> tr_request u = tr_request t
    \<and> tr_created_at u = tr_created_at t \<and> tr_revision u = tr_revision t + 1
    \<and> (\<exists>ms. tr_history u = tr_history t @ ms)
    \<and> tr_state t \<notin> {TASK_STATE_COMPLETED, TASK_STATE_CANCELED}"
  using assms by cases (simp_all add: task_defs)

lemma task_steps_frame:
  assumes "(task_step svc)\<^sup>*\<^sup>* t u"
  shows "tr_id u = tr_id t \<and> tr_request u = tr_request t \<and> tr_revision t \<le> tr_revision u
    \<and> (tr_revision u = tr_revision t \<longrightarrow> u = t)"
  using assms by (induction rule: rtranclp_induct) (auto dest: task_step_frame)

lemma closed_task_stays:
  assumes "(task_step svc)\<^sup>*\<^sup>* t u" and "tr_state t \<in> {TASK_STATE_COMPLETED, TASK_STATE_CANCELED}"
  shows "u = t"
  using assms by (induction rule: converse_rtranclp_induct) (auto dest: task_step_frame)

subsection \<open>What every task satisfies\<close>

definition approved_mandate :: "CustomerAgentService \<Rightarrow> TaskRecord \<Rightarrow> SignedMandate \<Rightarrow> bool" where
  "approved_mandate svc t envelope \<longleftrightarrow>
     valid_mandate envelope
     \<and> sign_mandate (ca_crypto svc) (ca_signer svc) (sm_data envelope) = Inr envelope
     \<and> md_task_id (sm_data envelope) = tr_id t
     \<and> md_merchant_id (sm_data envelope) = rq_merchant_id (tr_request t)
     \<and> md_case_id (sm_data envelope) = rq_case_id (tr_request t)
     \<and> md_customer_id (sm_data envelope) = rq_customer_id (tr_request t)
     \<and> md_recovery_action_id (sm_data envelope) = rq_recovery_action_id (tr_request t)
     \<and> md_failed_invoice_id (sm_data envelope) = rq_failed_invoice_id (tr_request t)
     \<and> md_exact_amount_paise (sm_data envelope) = rq_exact_amount_paise (tr_request t)
     \<and> md_currency (sm_data envelope) = rq_currency (tr_request t)
     \<and> md_payment_surface_type (sm_data envelope) = rq_payment_surface_type (tr_request t)
     \<and> md_payment_surface_reference (sm_data envelope) = rq_payment_surface_reference (tr_request t)
     \<and> utc_instant (md_expires_at (sm_data envelope)) \<le> utc_instant (rq_expires_at (tr_request t))
     \<and> utc_instant (md_expires_at (sm_data envelope)) \<le> utc_instant (md_issued_at (sm_data envelope)) + ca_mandate_ttl svc"

fun artifacts_ok :: "CustomerAgentService \<Rightarrow> TaskRecord \<Rightarrow> TaskState \<Rightarrow> Artifact list \<Rightarrow> bool" where
  "artifacts_ok svc t TASK_STATE_AUTH_REQUIRED as = (as = [])"
| "artifacts_ok svc t TASK_STATE_WORKING as = (case as of
     [Mandate_Artifact envelope] \<Rightarrow> approved_mandate svc t envelope | _ \<Rightarrow> False)"
| "artifacts_ok svc t TASK_STATE_COMPLETED as = (case as of
     [Mandate_Artifact envelope, Receipt_Artifact i r] \<Rightarrow> approved_mandate svc t envelope \<and> valid_receipt r
       \<and> verify_receipt (ca_crypto svc) (ca_receipt_verifier svc) r = Inr (sr_data r)
       \<and> receipt_in_scope t (sm_data envelope) (sr_data r)
   | _ \<Rightarrow> False)"
| "artifacts_ok svc t TASK_STATE_FAILED as = False"
| "artifacts_ok svc t TASK_STATE_CANCELED as = (case as of
     [] \<Rightarrow> True | [Mandate_Artifact envelope] \<Rightarrow> approved_mandate svc t envelope | _ \<Rightarrow> False)"

definition task_ok :: "CustomerAgentService \<Rightarrow> TaskRecord \<Rightarrow> bool" where
  "task_ok svc t \<longleftrightarrow> valid_request (tr_request t) \<and> ts_state (tr_status t) = tr_state t
     \<and> 1 \<le> tr_revision t \<and> artifacts_ok svc t (tr_state t) (tr_artifacts t)"

lemma approved_mandate_cong:
  "tr_id u = tr_id t \<Longrightarrow> tr_request u = tr_request t \<Longrightarrow> approved_mandate svc u envelope = approved_mandate svc t envelope"
  by (simp add: approved_mandate_def)

lemma receipt_in_scope_cong:
  "tr_id u = tr_id t \<Longrightarrow> tr_request u = tr_request t \<Longrightarrow> receipt_in_scope u m r = receipt_in_scope t m r"
  by (simp add: receipt_in_scope_def)

lemma sign_mandate_data: "sign_mandate cr signer d = Inr envelope \<Longrightarrow> sm_data envelope = d \<and> sm_algorithm envelope = ''Ed25519''"
  by (auto simp: sign_mandate_def split: if_splits)

lemma approved_mandate_for:
  assumes "valid_mandate_data (mandate_for svc t now mandate_uuid nonce)"
    and "sign_mandate (ca_crypto svc) (ca_signer svc) (mandate_for svc t now mandate_uuid nonce) = Inr envelope"
  shows "approved_mandate svc t envelope"
  using assms sign_mandate_data [OF assms(2)]
  by (auto simp: approved_mandate_def valid_mandate_def mandate_for_def mandate_expiry_def Let_def)

lemma born_ok: "born t \<Longrightarrow> task_ok svc t"
  by (auto simp: born_def task_ok_def new_task_def Let_def)

lemma artifacts_working:
  "artifacts_ok svc t TASK_STATE_WORKING as \<longleftrightarrow> (\<exists>envelope. as = [Mandate_Artifact envelope] \<and> approved_mandate svc t envelope)"
  by (cases as; cases "tl as"; cases "hd as") auto

lemma task_step_ok:
  assumes "task_step svc t u" and "task_ok svc t"
  shows "task_ok svc u"
  using assms(1)
proof cases
  case (approve now mandate_uuid nonce envelope uuid)
  then show ?thesis using assms(2) approved_mandate_for [OF approve(4,5)]
    by (simp add: task_ok_def task_defs approved_mandate_def)
next
  case (decline now uuid)
  then show ?thesis using assms(2) by (simp add: task_ok_def task_defs)
next
  case (cancel reason now uuid)
  then show ?thesis using assms(2)
    by (cases "tr_state t") (auto simp: task_ok_def task_defs approved_mandate_def split: list.splits Artifact.splits)
next
  case (complete mandate r message now artifact_uuid uuid)
  from assms(2) complete(2) obtain envelope where "tr_artifacts t = [Mandate_Artifact envelope]"
    "approved_mandate svc t envelope"
    unfolding task_ok_def artifacts_working [symmetric] using artifacts_working by metis
  with complete assms(2) show ?thesis
    by (simp add: task_ok_def task_defs mandate_of_task_def approved_mandate_def receipt_in_scope_def)
qed

lemma task_steps_ok: "(task_step svc)\<^sup>*\<^sup>* t u \<Longrightarrow> task_ok svc t \<Longrightarrow> task_ok svc u"
  by (induction rule: rtranclp_induct) (auto intro: task_step_ok)

section \<open>Runs of the service\<close>

inductive agent_run :: "CustomerAgentService \<Rightarrow> 's TaskStore \<Rightarrow> 's \<Rightarrow> 's \<Rightarrow> bool" for svc ops where
  idle: "agent_run svc ops s s"
| sent: "agent_run svc ops s s1 \<Longrightarrow> (\<And>x. agent_run svc ops x (others x)) \<Longrightarrow>
    get_stored ops s1 (''task_'' @ uuid) = None \<Longrightarrow>
    send_message svc ops others now uuid message_uuid message s1 = Inr (t, s2) \<Longrightarrow> agent_run svc ops s s2"
| canceled: "agent_run svc ops s s1 \<Longrightarrow> (\<And>k x. agent_run svc ops x (fst (attempt k) x)) \<Longrightarrow>
    cancel_task ops task_id reason attempt s1 = Inr (t, s2) \<Longrightarrow> agent_run svc ops s s2"
| decided: "agent_run svc ops s s1 \<Longrightarrow> (\<And>x. agent_run svc ops x (others x)) \<Longrightarrow>
    decide_task svc ops others checked_at now mandate_uuid nonce message_uuid task_id decision token s1 = Inr (t, s2) \<Longrightarrow>
    agent_run svc ops s s2"

context task_store
begin

definition evolves :: "CustomerAgentService \<Rightarrow> 's \<Rightarrow> 's \<Rightarrow> bool" where
  "evolves svc s s' \<longleftrightarrow> inv s' \<and> (\<forall>i. case get_stored ops s' i of
     None \<Rightarrow> get_stored ops s i = None
   | Some t' \<Rightarrow> (case get_stored ops s i of
       Some t \<Rightarrow> (task_step svc)\<^sup>*\<^sup>* t t'
     | None \<Rightarrow> \<exists>t. born t \<and> tr_id t = i \<and> (task_step svc)\<^sup>*\<^sup>* t t'))"

lemma evolves_refl: "inv s \<Longrightarrow> evolves svc s s"
  by (auto simp: evolves_def split: option.splits)

lemma evolves_trans: "evolves svc s s1 \<Longrightarrow> evolves svc s1 s2 \<Longrightarrow> evolves svc s s2"
  unfolding evolves_def by (fastforce split: option.splits intro: rtranclp_trans)

lemma evolves_inv: "evolves svc s s' \<Longrightarrow> inv s'"
  by (simp add: evolves_def)

lemma evolves_task:
  assumes "evolves svc s s'" and "get_stored ops s i = Some t"
  obtains t' where "get_stored ops s' i = Some t'" and "(task_step svc)\<^sup>*\<^sup>* t t'"
  using assms by (auto simp: evolves_def split: option.splits) (metis option.exhaust)

lemma evolves_update:
  assumes "inv s'" and "get_stored ops s i = Some t" and "get_stored ops s' = (get_stored ops s)(i \<mapsto> u)"
    and "task_step svc t u"
  shows "evolves svc s s'"
  using assms by (auto simp: evolves_def split: option.splits)

text \<open>A write that goes through wrote over the very task that was read.\<close>

lemma save_after_read:
  assumes s: "inv s" "get_stored ops s i = Some t" and "evolves svc s s1"
    and "save ops s1 t' (tr_revision t) = Inr (u, s2)" and "tr_id t' = tr_id t"
    and "task_step svc t (t'\<lparr>tr_revision := tr_revision t + 1\<rparr>)"
  shows "evolves svc s s2 \<and> u = t'\<lparr>tr_revision := tr_revision t + 1\<rparr> \<and> get_stored ops s2 i = Some u"
proof -
  note inv1 = evolves_inv [OF assms(3)]
  have i: "tr_id t = i" using s by (rule get_id)
  obtain c where c: "get_stored ops s1 i = Some c" "(task_step svc)\<^sup>*\<^sup>* t c"
    using evolves_task [OF assms(3) s(2)] by blast
  have "tr_revision c = tr_revision t"
    using save_stale [OF inv1, of t' "tr_revision t"] assms(4,5) c(1) i by fastforce
  with task_steps_frame [OF c(2)] have "c = t" by simp
  with c have current: "get_stored ops s1 (tr_id t') = Some t" using i assms(5) by simp
  from save_current [OF inv1 current refl] assms(4)
  have saved: "u = t'\<lparr>tr_revision := tr_revision t + 1\<rparr>" "inv s2"
    "get_stored ops s2 = (get_stored ops s1)(tr_id t' \<mapsto> u)" by auto
  have "evolves svc s1 s2"
    using saved assms(6) by (intro evolves_update [OF saved(2) current saved(3)]) simp
  with evolves_trans [OF assms(3)] saved i assms(5) show ?thesis by auto
qed

lemma get_task_Inr: "get_task ops s i = Inr t \<longleftrightarrow> get_stored ops s i = Some t"
  by (auto simp: get_task_def split: option.splits)

lemma create_evolves:
  assumes "inv s" and "valid_request request" and "now < utc_instant (rq_expires_at request)"
    and "get_stored ops s (''task_'' @ task_uuid) = None"
    and "create_once ops s key (new_task message request now task_uuid uuid) = Inr (t, s')"
  shows "evolves svc s s'"
proof (cases "owner s key")
  case (Some i)
  with assms(1,5) create_again [OF assms(1) Some, of "new_task message request now task_uuid uuid"]
  show ?thesis by (auto simp: evolves_refl split: if_splits)
next
  case None
  let ?t = "new_task message request now task_uuid uuid"
  have id: "tr_id ?t = ''task_'' @ task_uuid" "tr_revision ?t = 1" by (simp_all add: new_task_def Let_def)
  then have same: "?t\<lparr>tr_revision := 1\<rparr> = ?t" by simp
  from create_new [OF assms(1) None, of ?t] assms(4,5) id same
  have new: "inv s'" "get_stored ops s' = (get_stored ops s)(tr_id ?t \<mapsto> ?t)" by auto
  moreover have "born ?t" unfolding born_def using assms(2,3) by blast
  ultimately show ?thesis using assms(4) id by (auto simp: evolves_def split: option.splits)
qed

lemma cancel_evolves:
  assumes "inv s" and "\<forall>a \<in> set attempts. \<forall>x. inv x \<longrightarrow> evolves svc x (fst a x)"
    and "cancel_attempts ops task_id reason attempts s = Inr (t, s')"
  shows "evolves svc s s' \<and> get_stored ops s' task_id = Some t
    \<and> tr_state t \<in> {TASK_STATE_COMPLETED, TASK_STATE_CANCELED}"
  using assms
proof (induction attempts arbitrary: s)
  case Nil
  then show ?case by simp
next
  case (Cons a attempts)
  obtain others now uuid where a: "a = (others, now, uuid)" by (cases a) auto
  have step: "evolves svc s (others s)" using Cons.prems(1,2) a by auto
  from Cons.prems(3) a obtain task where task: "get_stored ops s task_id = Some task"
    by (auto simp: result_simps get_task_Inr)
  show ?case
  proof (cases "tr_state task \<in> {TASK_STATE_COMPLETED, TASK_STATE_CANCELED}")
    case True
    with Cons.prems(1,3) a task show ?thesis by (auto simp: get_task_def evolves_refl)
  next
    case False
    let ?t = "canceled_task task reason now uuid"
    have id: "tr_id ?t = tr_id task" by (simp add: task_defs)
    have machine: "task_step svc task (?t\<lparr>tr_revision := tr_revision task + 1\<rparr>)"
      using False by (rule task_step.cancel)
    show ?thesis
    proof (cases "save ops (others s) ?t (tr_revision task)")
      case (Inr r)
      with Cons.prems(3) a task False have "save ops (others s) ?t (tr_revision task) = Inr (t, s')"
        by (auto simp: get_task_def)
      from save_after_read [OF Cons.prems(1) task step this id machine]
      show ?thesis by (auto simp: task_defs)
    next
      case (Inl e)
      with Cons.prems(3) a task False have "cancel_attempts ops task_id reason attempts (others s) = Inr (t, s')"
        by (auto simp: get_task_def split: agent_error.splits)
      from Cons.IH [OF evolves_inv [OF step] _ this] Cons.prems(2) step show ?thesis
        by (auto intro: evolves_trans)
    qed
  qed
qed

lemma save_once_evolves:
  assumes "inv s" and "get_stored ops s task_id = Some task" and "evolves svc s s1"
    and "save_once ops t' (tr_revision task) s1 = Inr (t, s')" and "tr_id t' = tr_id task"
    and "task_step svc task (t'\<lparr>tr_revision := tr_revision task + 1\<rparr>)"
  shows "evolves svc s s' \<and> t = t'\<lparr>tr_revision := tr_revision task + 1\<rparr> \<and> get_stored ops s' task_id = Some t"
proof -
  from assms(4) have "save ops s1 t' (tr_revision task) = Inr (t, s')"
    unfolding save_once_def by (cases "save ops s1 t' (tr_revision task)") (simp_all split: agent_error.splits)
  from save_after_read [OF assms(1-3) this assms(5,6)] show ?thesis .
qed

lemma authorized_task_Inr:
  assumes "authorized_task svc ops now token task_id s = Inr task"
  shows "get_stored ops s task_id = Some task
    \<and> (\<forall>expected. approval_token svc task = Some expected \<longrightarrow>
        supplied_token token = expected \<and> now < utc_instant (rq_expires_at (tr_request task)))"
  using assms by (auto simp: authorized_task_def result_simps get_task_Inr split: option.splits if_splits)

lemma decide_accepted:
  assumes "inv s" and "evolves svc s (others s)"
    and "decide_task svc ops others checked_at now mandate_uuid nonce message_uuid task_id decision token s = Inr (t, s')"
  shows "\<exists>task. get_stored ops s task_id = Some task \<and> tr_state task = TASK_STATE_AUTH_REQUIRED
    \<and> decision_in_scope (tr_request task) decision \<and> now < utc_instant (rq_expires_at (tr_request task))
    \<and> (ca_approval_token_secret svc \<noteq> None \<longrightarrow> approval_token svc task = Some (supplied_token token))
    \<and> evolves svc s s' \<and> get_stored ops s' task_id = Some t \<and> task_step svc task t
    \<and> tr_state t = (if dn_approve decision then TASK_STATE_WORKING else TASK_STATE_CANCELED)"
proof -
  from assms(3) obtain task where auth: "authorized_task svc ops checked_at token task_id s = Inr task"
    by (auto simp: decide_task_def result_simps)
  note task = conjunct1 [OF authorized_task_Inr [OF auth]]
  have token: "ca_approval_token_secret svc \<noteq> None \<longrightarrow> approval_token svc task = Some (supplied_token token)"
    using conjunct2 [OF authorized_task_Inr [OF auth]] by (auto simp: approval_token_def)
  from assms(3) auth have open_task: "tr_state task = TASK_STATE_AUTH_REQUIRED"
    and scope: "decision_in_scope (tr_request task) decision"
    and live: "now < utc_instant (rq_expires_at (tr_request task))"
    by (auto simp: decide_task_def Let_def split: if_splits)
  show ?thesis
  proof (cases "dn_approve decision")
    case False
    with assms(3) auth have saved: "save_once ops (declined_task task now message_uuid) (tr_revision task) (others s) = Inr (t, s')"
      by (auto simp: decide_task_def Let_def split: if_splits)
    note machine = task_step.decline [OF open_task, of svc now message_uuid]
    from save_once_evolves [OF assms(1) task assms(2) saved _ machine]
    have "evolves svc s s'" "get_stored ops s' task_id = Some t"
      "t = (declined_task task now message_uuid)\<lparr>tr_revision := tr_revision task + 1\<rparr>"
      by (simp_all add: task_defs)
    with task open_task scope live token machine False show ?thesis by (simp add: task_defs)
  next
    case True
    with assms(3) auth obtain envelope where
      m: "valid_mandate_data (mandate_for svc task now mandate_uuid nonce)"
      "sign_mandate (ca_crypto svc) (ca_signer svc) (mandate_for svc task now mandate_uuid nonce) = Inr envelope"
      and saved: "save_once ops (approved_task task envelope now message_uuid) (tr_revision task) (others s) = Inr (t, s')"
      by (auto simp: decide_task_def Let_def split: if_splits sum.splits)
    note machine = task_step.approve [OF open_task live m, of message_uuid]
    from save_once_evolves [OF assms(1) task assms(2) saved _ machine]
    have "evolves svc s s'" "get_stored ops s' task_id = Some t"
      "t = (approved_task task envelope now message_uuid)\<lparr>tr_revision := tr_revision task + 1\<rparr>"
      by (simp_all add: task_defs)
    with task open_task scope live token machine True show ?thesis by (simp add: task_defs)
  qed
qed

lemma complete_evolves:
  assumes "inv s" and "evolves svc s (others s)" and "valid_receipt r"
    and "verify_receipt (ca_crypto svc) (ca_receipt_verifier svc) r = Inr receipt"
    and "complete_with_receipt ops others now artifact_uuid message_uuid message r receipt s = Inr (t, s')"
  shows "evolves svc s s'"
proof -
  from assms(4) have receipt: "receipt = sr_data r" by (simp add: verify_receipt_Inr)
  define task_id where "task_id = (if truthy (mg_task_id message) then the (mg_task_id message) else rd_task_id receipt)"
  from assms(5) obtain task duplicate where task: "get_stored ops s task_id = Some task"
    and dup: "is_duplicate_message (tr_history task) message = Inr duplicate"
    by (auto simp: complete_with_receipt_def Let_def result_simps get_task_Inr task_id_def)
  show ?thesis
  proof (cases duplicate)
    case True
    with assms(1,5) task dup show ?thesis
      by (auto simp: complete_with_receipt_def Let_def get_task_def evolves_refl simp flip: task_id_def)
  next
    case False
    with assms(5) task dup obtain mandate where m: "tr_state task = TASK_STATE_WORKING"
      "mg_message_id message = rd_receipt_id receipt" "mandate_of_task task = Inr mandate"
      "receipt_in_scope task mandate receipt"
      "save_completed ops message task_id (completed_task task message r now artifact_uuid message_uuid)
         (tr_revision task) (others s) = Inr (t, s')"
      by (auto simp: complete_with_receipt_def Let_def get_task_def result_simps split: if_splits simp flip: task_id_def)
    have machine: "task_step svc task
        ((completed_task task message r now artifact_uuid message_uuid)\<lparr>tr_revision := tr_revision task + 1\<rparr>)"
      using m assms(3,4) by (intro task_step.complete) (simp_all add: receipt)
    show ?thesis
    proof (cases "save ops (others s) (completed_task task message r now artifact_uuid message_uuid) (tr_revision task)")
      case (Inr x)
      with m(5) have "save ops (others s) (completed_task task message r now artifact_uuid message_uuid)
          (tr_revision task) = Inr (t, s')" by (simp add: save_completed_def)
      from save_after_read [OF assms(1) task assms(2) this _ machine] show ?thesis by (simp add: task_defs)
    next
      case (Inl e)
      with m(5) have "s' = others s"
        by (auto simp: save_completed_def result_simps split: agent_error.splits if_splits)
      with assms(2) show ?thesis by simp
    qed
  qed
qed

lemma send_evolves:
  assumes "inv s" and "evolves svc s (others s)" and "get_stored ops s (''task_'' @ uuid) = None"
    and "send_message svc ops others now uuid message_uuid message s = Inr (t, s')"
  shows "evolves svc s s'"
proof (cases "mg_parts message")
  case Nil
  with assms(4) show ?thesis by (simp add: send_message_def)
next
  case (Cons part parts)
  show ?thesis
  proof (cases part)
    case (Request_Part request)
    with Cons assms(4) have "valid_request request" "now < utc_instant (rq_expires_at request)"
      "create_once ops s (rq_idempotency_key request) (new_task message request now uuid message_uuid) = Inr (t, s')"
      by (auto simp: send_message_def create_authorization_task_def split: if_splits)
    from create_evolves [OF assms(1) this(1,2) assms(3) this(3)] show ?thesis .
  next
    case (Receipt_Part r)
    with Cons assms(4) obtain receipt where "valid_receipt r"
      "verify_receipt (ca_crypto svc) (ca_receipt_verifier svc) r = Inr receipt"
      "complete_with_receipt ops others now uuid message_uuid message r receipt s = Inr (t, s')"
      by (cases "verify_receipt (ca_crypto svc) (ca_receipt_verifier svc) r")
         (auto simp: send_message_def split: if_splits receipt_error.splits)
    from complete_evolves [OF assms(1,2) this] show ?thesis .
  next
    case (Other_Part x)
    with Cons assms(4) show ?thesis by (simp add: send_message_def)
  qed
qed

lemma run_evolves: "agent_run svc ops s s' \<Longrightarrow> inv s \<Longrightarrow> evolves svc s s'"
proof (induction rule: agent_run.induct)
  case (idle s)
  then show ?case by (rule evolves_refl)
next
  case (sent s s1 others uuid now message_uuid message t s2)
  then have "evolves svc s s1" by simp
  moreover from this have "inv s1" by (rule evolves_inv)
  then have "evolves svc s1 s2"
    using send_evolves [where others = others, OF _ sent.IH(2) sent.hyps(3,4)] by blast
  ultimately show ?case by (rule evolves_trans)
next
  case (canceled s s1 attempt task_id reason t s2)
  then have "evolves svc s s1" by simp
  moreover have "\<forall>a \<in> set (map attempt [0..<3]). \<forall>x. inv x \<longrightarrow> evolves svc x (fst a x)"
    using canceled.IH(2) by simp
  with cancel_evolves [OF evolves_inv, of svc s s1 "map attempt [0..<3]" svc task_id reason t s2] canceled.hyps(3)
    \<open>evolves svc s s1\<close>
  have "evolves svc s1 s2" by (simp add: cancel_task_def)
  ultimately show ?case by (rule evolves_trans)
next
  case (decided s s1 others checked_at now mandate_uuid nonce message_uuid task_id decision token t s2)
  then have "evolves svc s s1" by simp
  moreover from this have "inv s1" by (rule evolves_inv)
  then have "evolves svc s1 s2"
    using decide_accepted [where others = others, OF _ decided.IH(2) decided.hyps(3)] by blast
  ultimately show ?case by (rule evolves_trans)
qed

lemma run_task:
  assumes "agent_run svc ops s s'" and "inv s" and "get_stored ops s' i = Some u"
  shows "\<exists>t. (case get_stored ops s i of Some t' \<Rightarrow> t = t' | None \<Rightarrow> born t \<and> tr_id t = i) \<and> (task_step svc)\<^sup>*\<^sup>* t u"
proof -
  from run_evolves [OF assms(1,2)] assms(3) have "case get_stored ops s i of Some t \<Rightarrow> (task_step svc)\<^sup>*\<^sup>* t u
      | None \<Rightarrow> \<exists>t. born t \<and> tr_id t = i \<and> (task_step svc)\<^sup>*\<^sup>* t u"
    unfolding evolves_def by (metis (mono_tags, lifting) option.simps(5))
  then show ?thesis by (cases "get_stored ops s i") auto
qed

lemma run_keeps_task:
  assumes "agent_run svc ops s s'" and "inv s" and "get_stored ops s i = Some t"
  shows "\<exists>u. get_stored ops s' i = Some u \<and> (task_step svc)\<^sup>*\<^sup>* t u"
  using evolves_task [OF run_evolves [OF assms(1,2)] assms(3)] by blast

lemma run_ok:
  assumes "agent_run svc ops s s'" and "inv s" and "\<And>i t. get_stored ops s i = Some t \<Longrightarrow> task_ok svc t"
    and "get_stored ops s' i = Some u"
  shows "task_ok svc u"
proof -
  from run_task [OF assms(1,2,4)] obtain t where "(task_step svc)\<^sup>*\<^sup>* t u"
    and "case get_stored ops s i of Some t' \<Rightarrow> t = t' | None \<Rightarrow> born t \<and> tr_id t = i" by blast
  with assms(3) show ?thesis by (auto split: option.splits intro: task_steps_ok born_ok)
qed

lemma closed_for_good:
  assumes "inv s" and "\<And>k x. agent_run svc ops x (fst (attempt k) x)"
    and "cancel_task ops task_id reason attempt s = Inr (t, s')" and "agent_run svc ops s' s''"
  shows "tr_state t \<in> {TASK_STATE_COMPLETED, TASK_STATE_CANCELED} \<and> get_stored ops s'' task_id = Some t"
proof -
  have "\<forall>a \<in> set (map attempt [0..<3]). \<forall>x. inv x \<longrightarrow> evolves svc x (fst a x)"
    using assms(2) run_evolves by simp
  from cancel_evolves [OF assms(1) this assms(3) [unfolded cancel_task_def]] evolves_inv
  have c: "inv s'" "get_stored ops s' task_id = Some t" "tr_state t \<in> {TASK_STATE_COMPLETED, TASK_STATE_CANCELED}"
    by blast+
  from run_keeps_task [OF assms(4) c(1,2)] closed_task_stays [OF _ c(3)] c(3) show ?thesis by blast
qed

end

section \<open>Properties\<close>

text \<open>
  C16: the customer agent refines the task state machine. In every run, however its requests
  interleave, a stored task either was there before and has moved along transitions of the
  machine, or was recorded from a valid unexpired request and has moved since; no task is lost
  and a completed or canceled task stays as it is.
\<close>

theorem agent_refines_task_machine:
  assumes "agent_run svc sql_store_ops rows rows'" and "sql_tasks_inv rows"
  shows "(\<forall>i u. sql_get rows' i = Some u \<longrightarrow> (\<exists>t. (case sql_get rows i of
        Some t' \<Rightarrow> t = t' | None \<Rightarrow> born t \<and> tr_id t = i) \<and> (task_step svc)\<^sup>*\<^sup>* t u))
    \<and> (\<forall>i t. sql_get rows i = Some t \<longrightarrow> (\<exists>u. sql_get rows' i = Some u \<and> (task_step svc)\<^sup>*\<^sup>* t u
        \<and> (tr_state t \<in> {TASK_STATE_COMPLETED, TASK_STATE_CANCELED} \<longrightarrow> u = t)))"
proof -
  have ops: "get_stored sql_store_ops = sql_get" by (simp add: sql_store_ops_def)
  show ?thesis
    using sql_tasks.run_task [OF assms] sql_tasks.run_keeps_task [OF assms] closed_task_stays
    unfolding ops by meson
qed

text \<open>
  A mandate states exactly what was approved. In every run from an empty store, with either
  store, a task that awaits authorization has no artifact; a working or completed one holds a
  mandate signed by the agent for the task and for every field of the request, that expires
  neither after the request nor after its lifetime; a completed one also holds an authenticated
  receipt in the scope of the mandate; and no task ever fails.
\<close>

theorem mandate_states_the_request:
  "(agent_run svc sql_store_ops [] rows \<longrightarrow> sql_get rows i = Some t \<longrightarrow> task_ok svc t)
   \<and> (agent_run svc memory_store_ops new_memory_task_store s \<longrightarrow> memory_get s i = Some u \<longrightarrow> task_ok svc u)"
proof -
  have "sql_tasks_inv []" "\<And>i. get_stored sql_store_ops [] i = None" "get_stored sql_store_ops = sql_get"
    by (simp_all add: sql_tasks_inv_def sql_store_ops_def sql_get_def)
  moreover have "memory_tasks_inv new_memory_task_store"
    "\<And>i. get_stored memory_store_ops new_memory_task_store i = None" "get_stored memory_store_ops = memory_get"
    by (simp_all add: memory_tasks_inv_def new_memory_task_store_def memory_store_ops_def memory_get_def)
  ultimately show ?thesis
    using sql_tasks.run_ok [of svc "[]" rows i t] memory_tasks.run_ok [of svc new_memory_task_store s i u]
    by simp
qed

text \<open>
  An accepted cancellation is final. Whatever other requests do while the agent tries to
  cancel, and whatever follows, a cancellation that returns leaves the task canceled or
  already completed, and no later request changes it: it is not approved any more.
\<close>

theorem accepted_cancellation_is_final:
  assumes "sql_tasks_inv rows" and "\<And>k x. agent_run svc sql_store_ops x (fst (attempt k) x)"
    and "cancel_task sql_store_ops task_id reason attempt rows = Inr (t, rows')"
    and "agent_run svc sql_store_ops rows' rows''"
  shows "tr_state t \<in> {TASK_STATE_COMPLETED, TASK_STATE_CANCELED} \<and> sql_get rows'' task_id = Some t"
  using sql_tasks.closed_for_good [OF assms] by (simp add: sql_store_ops_def)

text \<open>
  An approval needs the capability and the exact scope. When a decision is accepted, the task
  was awaiting authorization in the store the agent read, the decision named its merchant, case, amount
  and surface, the request had not expired, and the customer held the token of the task
  if the agent requires one.
\<close>

theorem decision_needs_capability:
  assumes "sql_tasks_inv rows" and "agent_run svc sql_store_ops rows (others rows)"
    and "decide_task svc sql_store_ops others checked_at now mandate_uuid nonce message_uuid task_id decision token rows
      = Inr (t, rows')"
  shows "\<exists>task. sql_get rows task_id = Some task \<and> tr_state task = TASK_STATE_AUTH_REQUIRED
    \<and> decision_in_scope (tr_request task) decision \<and> now < utc_instant (rq_expires_at (tr_request task))
    \<and> (ca_approval_token_secret svc \<noteq> None \<longrightarrow> approval_token svc task = Some (supplied_token token))
    \<and> sql_get rows' task_id = Some t \<and> task_step svc task t
    \<and> tr_state t = (if dn_approve decision then TASK_STATE_WORKING else TASK_STATE_CANCELED)"
  using sql_tasks.decide_accepted [OF assms(1) sql_tasks.run_evolves [OF assms(2,1)] assms(3)]
  by (auto simp: sql_store_ops_def)

section \<open>A concrete run\<close>

definition sample_request :: RecoveryRequestData where
  "sample_request = \<lparr>rq_protocol_version = ''recovery.request.v2'', rq_idempotency_key = ''idem_1'',
     rq_case_id = ''case_1'', rq_merchant_id = ''m1'', rq_customer_id = ''cust_1'',
     rq_recovery_action_id = ''action_1'', rq_failed_invoice_id = ''inv_1'', rq_exact_amount_paise = 49900,
     rq_currency = ''INR'', rq_payment_surface_type = ''SUBSCRIPTION_INVOICE_LINK'',
     rq_payment_surface_reference = ''inv_ext_1'', rq_expires_at = Aware (days 7) 0,
     rq_context = \<lparr>dc_merchant_display_name = ''Shop'', dc_plan_name = ''Pro'',
       dc_failure_explanation = ''declined'', dc_invoice_state = ''issued'', dc_payment_state = ''FAILED'',
       dc_subscription_state = ''PENDING'', dc_provider_subscription_state = ''PENDING'',
       dc_preferred_language = ''en'', dc_invoice_due_at = None, dc_recovery_deadline = Aware (days 7) 0\<rparr>\<rparr>"

definition sample_message :: Message where
  "sample_message = \<lparr>mg_message_id = ''idem_1'', mg_role = ''ROLE_USER'', mg_parts = [Request_Part sample_request],
     mg_task_id = None, mg_context_id = Some ''recovery:case_1''\<rparr>"

definition sample_agent :: CustomerAgentService where
  "sample_agent = \<lparr>ca_crypto = toy_crypto, ca_hmac_sha256 = \<lambda>secret text. toy_sign [] (secret @ text),
     ca_signer = \<lparr>ms_signer_key_id = ''key_1'', ms_private_key = [7]\<rparr>,
     ca_receipt_verifier = [(''receipt_key'', [9])], ca_mandate_ttl = seconds 900,
     ca_approval_token_secret = Some ''a secret''\<rparr>"

definition sample_approval :: ApprovalDecision where
  "sample_approval = \<lparr>dn_approve = True, dn_merchant_id = ''m1'', dn_case_id = ''case_1'',
     dn_exact_amount_paise = 49900, dn_payment_surface_reference = ''inv_ext_1''\<rparr>"

definition requested_task :: TaskRecord where
  "requested_task = new_task sample_message sample_request 0 ''1'' ''2''"

definition requested_rows :: "CustomerAgentTaskRow list" where
  "requested_rows = [task_row ''idem_1'' requested_task]"

definition sample_token :: "string option" where
  "sample_token = approval_token sample_agent requested_task"

lemma sample_request_valid: "valid_request sample_request"
  by (simp add: valid_request_def sample_request_def valid_display_context_def text_within_def currency_pattern_def)

lemma sample_sent:
  "send_message sample_agent sql_store_ops id 0 ''1'' ''2'' sample_message [] = Inr (requested_task, requested_rows)"
  using sample_request_valid
  by (simp add: send_message_def sample_message_def create_authorization_task_def sql_store_ops_def
      sql_create_once_def Let_def requested_rows_def requested_task_def)
     (simp add: sample_request_def duration_defs task_row_def task_from_row_def task_payload_def new_task_def Let_def)

lemma sample_stored: "sql_get requested_rows ''task_1'' = Some requested_task"
  by (simp add: sql_get_def requested_rows_def task_row_def task_from_row_def task_payload_def requested_task_def
      new_task_def Let_def)

definition sample_signed :: SignedMandate where
  "sample_signed = (let mandate = mandate_for sample_agent requested_task 0 ''3'' ''nonce_1'' in
     \<lparr>sm_algorithm = ''Ed25519'', sm_data = mandate,
      sm_signature = b64url_encode (toy_sign [7] (canonical_json toy_crypto mandate))\<rparr>)"

definition granted_task :: TaskRecord where
  "granted_task = (approved_task requested_task sample_signed 0 ''4'')\<lparr>tr_revision := 2\<rparr>"

definition granted_rows :: "CustomerAgentTaskRow list" where
  "granted_rows = [(task_row ''idem_1'' requested_task)\<lparr>ct_state := TASK_STATE_WORKING,
     ct_payload := task_payload granted_task, ct_version := 2, ct_updated_at := 0\<rparr>]"

lemma supplied_token_Some [simp]: "supplied_token (Some x) = x"
  by (simp add: supplied_token_def truthy_def)

lemma requested_sel [simp]:
  "tr_id requested_task = ''task_1''" "tr_revision requested_task = 1" "tr_request requested_task = sample_request"
  "tr_state requested_task = TASK_STATE_AUTH_REQUIRED"
  by (simp_all add: requested_task_def new_task_def Let_def)

lemma sample_mandate_valid: "valid_mandate_data (mandate_for sample_agent requested_task 0 ''3'' ''nonce_1'')"
  by (simp add: valid_mandate_data_def mandate_for_def sample_agent_def sample_request_def currency_pattern_def
      validate_window_def mandate_expiry_def duration_defs)

lemma sample_mandate_signed:
  "sign_mandate toy_crypto \<lparr>ms_signer_key_id = ''key_1'', ms_private_key = [7]\<rparr>
     (mandate_for sample_agent requested_task 0 ''3'' ''nonce_1'') = Inr sample_signed"
  by (simp add: sign_mandate_def sample_signed_def Let_def mandate_for_def sample_agent_def toy_crypto_def)

lemma sample_granted_saved:
  "save_once sql_store_ops (approved_task requested_task sample_signed 0 ''4'') 1 requested_rows
   = Inr (granted_task, granted_rows)"
  by (simp add: save_once_def sql_store_ops_def sql_save_def requested_rows_def granted_task_def granted_rows_def
      task_row_def task_defs task_payload_def update_where_Cons Let_def)

lemma sample_decided:
  "decide_task sample_agent sql_store_ops id 0 0 ''3'' ''nonce_1'' ''4'' ''task_1'' sample_approval sample_token requested_rows
   = Inr (granted_task, granted_rows)"
proof -
  obtain expected where token: "approval_token sample_agent requested_task = Some expected"
    by (simp add: approval_token_def sample_agent_def)
  have live: "\<not> utc_instant (rq_expires_at sample_request) \<le> 0" by (simp add: sample_request_def duration_defs)
  have "authorized_task sample_agent sql_store_ops 0 sample_token ''task_1'' requested_rows = Inr requested_task"
    using sample_stored token live
    by (simp add: authorized_task_def get_task_def sql_store_ops_def sample_token_def)
  moreover have "decision_in_scope sample_request sample_approval" "dn_approve sample_approval"
    by (simp_all add: decision_in_scope_def sample_request_def sample_approval_def)
  moreover have "ca_crypto sample_agent = toy_crypto"
    "ca_signer sample_agent = \<lparr>ms_signer_key_id = ''key_1'', ms_private_key = [7]\<rparr>"
    by (simp_all add: sample_agent_def)
  ultimately show ?thesis
    using live sample_mandate_valid sample_mandate_signed sample_granted_saved
    by (simp add: decide_task_def Let_def)
qed

lemma granted_stored: "sql_get granted_rows ''task_1'' = Some granted_task"
  by (simp add: sql_get_def granted_rows_def task_row_def task_from_row_def task_payload_def granted_task_def)

lemma requested_inv: "sql_tasks_inv requested_rows"
  by (simp add: sql_tasks_inv_def requested_rows_def task_row_def task_payload_def)

lemma sample_run_requested: "agent_run sample_agent sql_store_ops [] requested_rows"
  by (rule agent_run.sent [OF agent_run.idle _ _ sample_sent])
     (simp_all add: agent_run.idle sql_store_ops_def sql_get_def)

lemma sample_run_granted: "agent_run sample_agent sql_store_ops requested_rows granted_rows"
  by (rule agent_run.decided [OF agent_run.idle _ sample_decided]) (simp add: agent_run.idle)

theorem agent_refines_task_machine_witness:
  "(task_step sample_agent)\<^sup>*\<^sup>* requested_task granted_task"
  using agent_refines_task_machine [OF sample_run_granted requested_inv] sample_stored granted_stored by force

theorem mandate_states_the_request_witness: "task_ok sample_agent granted_task"
proof -
  have "agent_run sample_agent sql_store_ops [] granted_rows"
    by (rule agent_run.decided [OF sample_run_requested _ sample_decided]) (simp add: agent_run.idle)
  with mandate_states_the_request [of sample_agent granted_rows "''task_1''" granted_task] granted_stored
  show ?thesis by blast
qed

theorem decision_needs_capability_witness:
  "approval_token sample_agent requested_task = Some (supplied_token sample_token)
   \<and> task_step sample_agent requested_task granted_task"
proof -
  have "agent_run sample_agent sql_store_ops requested_rows (id requested_rows)" by (simp add: agent_run.idle)
  from decision_needs_capability [OF requested_inv this sample_decided] sample_stored
  show ?thesis by (auto simp: sample_agent_def)
qed

definition canceled_rows :: "CustomerAgentTaskRow list" where
  "canceled_rows = [(task_row ''idem_1'' requested_task)\<lparr>ct_state := TASK_STATE_CANCELED,
     ct_payload := task_payload (canceled_task granted_task ''paid'' 0 ''5''), ct_version := 3, ct_updated_at := 0\<rparr>]"

lemma sample_canceled:
  "cancel_task sql_store_ops ''task_1'' ''paid'' (\<lambda>k. (id, 0, ''5'')) granted_rows
   = Inr ((canceled_task granted_task ''paid'' 0 ''5'')\<lparr>tr_revision := 3\<rparr>, canceled_rows)"
  by (simp add: cancel_task_def upt_rec get_task_def sql_store_ops_def granted_stored)
     (simp add: sql_save_def granted_rows_def canceled_rows_def granted_task_def task_row_def task_defs task_payload_def
       update_where_Cons Let_def)

theorem accepted_cancellation_is_final_witness:
  "sql_get canceled_rows ''task_1'' = Some ((canceled_task granted_task ''paid'' 0 ''5'')\<lparr>tr_revision := 3\<rparr>)"
proof -
  have "sql_tasks_inv granted_rows"
    by (simp add: sql_tasks_inv_def granted_rows_def task_row_def task_payload_def granted_task_def task_defs)
  from accepted_cancellation_is_final [OF this _ sample_canceled agent_run.idle, of sample_agent]
  show ?thesis by (simp add: agent_run.idle)
qed

end
