(* ===== verification/A2A_Activities.thy ===== *)
theory A2A_Activities
  imports Agent_Safety Worker_Contracts
begin

text \<open>
  The A2A activities of the worker, \<open>services/worker/app/a2a_runtime.py\<close>, over the client of
  \<open>services/api/app/integrations/a2a/client.py\<close>: rebuilding the authorization request from the
  database, polling the customer agent and verifying its mandate, sending the payment receipt.

  \<open>map_task\<close> is the client's reading of a task. The columns that only the display context
  needs (names and language) are functions of the row identifiers.
\<close>

datatype activity_error = Activity_Value_Error string | Activity_Validation_Error
  | Multiple_Results_Found | CustomerAgentProtocolError string | Verifier_Error mandate_error
  | Receipt_Error receipt_error | Remote_Error agent_error

section \<open>The client's view of a task\<close>

datatype task_artifact = Mandate_Data SignedMandate | Other_Data

record CustomerAgentTask =
  rt_remote_task_id :: ident
  rt_state :: string
  rt_approval_path :: "string option"
  rt_artifact :: "task_artifact option"
  rt_updated_at :: instant

fun STATE_MAP :: "TaskState \<Rightarrow> string" where
  "STATE_MAP TASK_STATE_WORKING = ''WORKING''"
| "STATE_MAP TASK_STATE_AUTH_REQUIRED = ''AUTH_REQUIRED''"
| "STATE_MAP TASK_STATE_COMPLETED = ''COMPLETED''"
| "STATE_MAP TASK_STATE_FAILED = ''FAILED''"
| "STATE_MAP TASK_STATE_CANCELED = ''CANCELED''"

definition first_artifact :: "Artifact list \<Rightarrow> task_artifact option" where
  "first_artifact as = (case as of
     [] \<Rightarrow> None | Mandate_Artifact m # _ \<Rightarrow> Some (Mandate_Data m) | Receipt_Artifact _ _ # _ \<Rightarrow> Some Other_Data)"

definition approval_path :: "CustomerAgentService \<Rightarrow> TaskRecord \<Rightarrow> string" where
  "approval_path svc task = ''/a2a/'' @ tr_id task @ (case approval_token svc task of
     None \<Rightarrow> [] | Some token \<Rightarrow> ''#token='' @ token)"

definition map_task :: "CustomerAgentService \<Rightarrow> TaskRecord \<Rightarrow> CustomerAgentTask" where
  "map_task svc task = \<lparr>rt_remote_task_id = tr_id task, rt_state = STATE_MAP (ts_state (tr_status task)),
     rt_approval_path = (case am_data (ts_message (tr_status task)) of
       Authorization_Required _ _ \<Rightarrow> Some (approval_path svc task) | _ \<Rightarrow> None),
     rt_artifact = first_artifact (tr_artifacts task), rt_updated_at = tr_updated_at task\<rparr>"

section \<open>The authoritative request\<close>

record display_columns =
  merchant_display_name_of :: "ident \<Rightarrow> string"
  plan_name_of :: "ident \<Rightarrow> string"
  preferred_language_of :: "ident \<Rightarrow> string"

fun failure_explanation :: "Diagnosis \<Rightarrow> string" where
  "failure_explanation TRANSIENT_RETRYABLE = ''The payment provider reported a temporary processing issue.''"
| "failure_explanation INSUFFICIENT_FUNDS =
     ''The payment could not be completed with the payment method's available balance.''"
| "failure_explanation AUTHENTICATION_REQUIRED =
     ''The payment needs customer authentication before it can continue.''"
| "failure_explanation INSTRUMENT_INVALID = ''The saved payment method could not be used.''"
| "failure_explanation MERCHANT_ERROR = ''The payment setup needs merchant review.''"
| "failure_explanation RISK_OR_COMPLIANCE_BLOCK = ''The payment was blocked by a risk or compliance check.''"
| "failure_explanation Diag_UNKNOWN =
     ''The payment could not be completed; no verified reason is available yet.''"

fun py_split_words :: "string \<Rightarrow> string \<Rightarrow> string list" where
  "py_split_words word [] = (if word = [] then [] else [rev word])"
| "py_split_words word (c # cs) =
     (if py_space c then (if word = [] then [] else [rev word]) @ py_split_words [] cs
      else py_split_words (c # word) cs)"

definition clean_display_value :: "string \<Rightarrow> activity_error + string" where
  "clean_display_value s = (let cleaned = py_join '' '' (py_split_words [] s) in
     if cleaned = [] then Inl (Activity_Value_Error ''A2A display context contains an empty display value'')
     else Inr cleaned)"

definition parse_a2a_instant :: "iso_text \<Rightarrow> activity_error + instant" where
  "parse_a2a_instant text = (case text of
     None \<Rightarrow> Inl (Activity_Value_Error ''Invalid isoformat string'')
   | Some d \<Rightarrow> if is_aware d then Inr (utc_instant d)
       else Inl (Activity_Value_Error ''A2A recovery deadline must include a UTC offset''))"

record authoritative_row =
  aw_merchant :: Merchant
  aw_customer :: Customer
  aw_subscription :: Subscription
  aw_case :: RecoveryCase
  aw_invoice :: Invoice
  aw_action :: RecoveryActionRecord
  aw_policy :: PolicyDecisionRecord

definition authoritative_rows :: "a2a_database \<Rightarrow> StartA2AAuthorizationInput \<Rightarrow> authoritative_row list" where
  "authoritative_rows db cmd =
     [\<lparr>aw_merchant = m, aw_customer = cu, aw_subscription = sb, aw_case = c, aw_invoice = iv, aw_action = a,
       aw_policy = p\<rparr>.
      c \<leftarrow> db_cases db, m \<leftarrow> db_merchants db, cu \<leftarrow> db_customers db, sb \<leftarrow> db_subscriptions db,
      iv \<leftarrow> db_invoices db, a \<leftarrow> db_actions db, p \<leftarrow> db_policies db,
      mr_id m = rc_merchant_id c \<and> cu_id cu = rc_customer_id c \<and> sb_id sb = rc_subscription_id c
      \<and> Some (iv_id iv) = rc_failed_invoice_id c \<and> ar_case_id a = rc_id c \<and> pr_action_id p = Some (ar_id a)
      \<and> rc_id c = sa_case_id cmd \<and> rc_merchant_id c = sa_merchant_id cmd \<and> rc_customer_id c = sa_customer_id cmd
      \<and> Some (iv_id iv) = sa_failed_invoice_id cmd \<and> Some (ar_id a) = sa_recovery_action_id cmd
      \<and> pr_case_id p = rc_id c]"

definition outstanding_paise :: "authoritative_row \<Rightarrow> paise" where
  "outstanding_paise row = iv_amount_paise (aw_invoice row) - iv_amount_paid_paise (aw_invoice row)"

definition stale_or_unsafe :: "authoritative_row \<Rightarrow> StartA2AAuthorizationInput \<Rightarrow> instant \<Rightarrow> instant \<Rightarrow> bool" where
  "stale_or_unsafe row cmd now deadline \<longleftrightarrow>
     rc_case_outcome (aw_case row) \<noteq> Case_OPEN \<or> rc_payment_state (aw_case row) = Pay_CAPTURED
     \<or> rc_case_recovered (aw_case row) \<or> rc_recovery_deadline (aw_case row) \<le> now
     \<or> rc_recovery_deadline (aw_case row) \<noteq> deadline
     \<or> rc_amount_at_risk_paise (aw_case row) \<noteq> outstanding_paise row
     \<or> sa_exact_amount_paise cmd \<noteq> outstanding_paise row
     \<or> sa_currency cmd \<noteq> iv_currency (aw_invoice row)
     \<or> sa_payment_surface_type cmd \<noteq> surface_value SUBSCRIPTION_INVOICE_LINK
     \<or> sa_payment_surface_reference cmd \<noteq> iv_provider_invoice_id (aw_invoice row)
     \<or> sa_provider_invoice_id cmd \<noteq> None \<and> sa_provider_invoice_id cmd \<noteq> Some (iv_provider_invoice_id (aw_invoice row))
     \<or> ar_action_type (aw_action row) \<noteq> SEND_TO_CUSTOMER_AGENT
     \<or> ar_status (aw_action row) \<notin> {Act_PROPOSED, Act_SCHEDULED}
     \<or> PolicyDecisionRecord.pr_disposition (aw_policy row) \<notin> {ALLOW, DELAY}"

definition display_context ::
    "display_columns \<Rightarrow> authoritative_row \<Rightarrow> activity_error + RecoveryDisplayContext" where
  "display_context cols row =
     bindE (clean_display_value (merchant_display_name_of cols (mr_id (aw_merchant row)))) (\<lambda>merchant.
     bindE (clean_display_value (plan_name_of cols (sb_id (aw_subscription row)))) (\<lambda>plan.
     let context = \<lparr>dc_merchant_display_name = merchant, dc_plan_name = plan,
           dc_failure_explanation = failure_explanation (rc_diagnosis (aw_case row)),
           dc_invoice_state = iv_invoice_state (aw_invoice row),
           dc_payment_state = payment_state_value (rc_payment_state (aw_case row)),
           dc_subscription_state = subscription_state_value (rc_subscription_state (aw_case row)),
           dc_provider_subscription_state = subscription_state_value (sb_subscription_state (aw_subscription row)),
           dc_preferred_language = preferred_language_of cols (cu_id (aw_customer row)),
           dc_invoice_due_at = map_option (\<lambda>t. Aware t 0) (iv_due_at (aw_invoice row)),
           dc_recovery_deadline = Aware (rc_recovery_deadline (aw_case row)) 0\<rparr>
     in if valid_display_context context then Inr context else Inl Activity_Validation_Error))"

definition load_authoritative_request ::
    "a2a_database \<Rightarrow> display_columns \<Rightarrow> datetime \<Rightarrow> StartA2AAuthorizationInput \<Rightarrow> activity_error + RecoveryRequestData" where
  "load_authoritative_request db cols clock cmd =
     (if sa_recovery_action_id cmd = None \<or> sa_failed_invoice_id cmd = None
      then Inl (Activity_Value_Error ''A2A v2 requires a durable action and failed invoice'')
      else case authoritative_rows db cmd of
        [] \<Rightarrow> Inl (Activity_Value_Error ''A2A authoritative scope does not match persisted recovery data'')
      | [row] \<Rightarrow>
          if \<not> is_aware clock
          then Inl (Activity_Value_Error ''A2A context loader clock must be timezone-aware'')
          else bindE (parse_a2a_instant (sa_recovery_deadline cmd)) (\<lambda>deadline.
            if stale_or_unsafe row cmd (utc_instant clock) deadline
            then Inl (Activity_Value_Error ''A2A authorization scope is stale or no longer safe'')
            else bindE (display_context cols row) (\<lambda>context.
              if outstanding_paise row \<le> 0 then Inl Activity_Validation_Error
              else Inr \<lparr>rq_protocol_version = ''recovery.request.v2'', rq_idempotency_key = sa_idempotency_key cmd,
                rq_case_id = sa_case_id cmd, rq_merchant_id = sa_merchant_id cmd, rq_customer_id = sa_customer_id cmd,
                rq_recovery_action_id = ar_id (aw_action row), rq_failed_invoice_id = iv_id (aw_invoice row),
                rq_exact_amount_paise = outstanding_paise row, rq_currency = iv_currency (aw_invoice row),
                rq_payment_surface_type = surface_value SUBSCRIPTION_INVOICE_LINK,
                rq_payment_surface_reference = iv_provider_invoice_id (aw_invoice row),
                rq_expires_at = Aware (rc_recovery_deadline (aw_case row)) 0, rq_context = context\<rparr>))
      | _ \<Rightarrow> Inl Multiple_Results_Found)"

section \<open>Starting the authorization\<close>

definition recovery_message :: "RecoveryRequestData \<Rightarrow> Message" where
  "recovery_message request = \<lparr>mg_message_id = rq_idempotency_key request, mg_role = ''ROLE_USER'',
     mg_parts = [Request_Part request], mg_task_id = None,
     mg_context_id = Some (''recovery:'' @ rq_case_id request)\<rparr>"

text \<open>The remote call is an argument: it sends the message and returns the mapped task.\<close>

definition start_authorization ::
    "(StartA2AAuthorizationInput \<Rightarrow> activity_error + RecoveryRequestData)
     \<Rightarrow> (Message \<Rightarrow> 'r \<Rightarrow> activity_error + CustomerAgentTask \<times> 'r) \<Rightarrow> StartA2AAuthorizationInput \<Rightarrow> 'r
     \<Rightarrow> activity_error + A2AAuthorizationResult \<times> 'r" where
  "start_authorization loader send cmd remote =
     bindE (loader cmd) (\<lambda>request.
     bindE (send (recovery_message request) remote) (\<lambda>(task, remote').
       Inr (\<lparr>aar_remote_task_id = rt_remote_task_id task, aar_state = rt_state task,
         aar_approval_path = rt_approval_path task\<rparr>, remote')))"

section \<open>Polling and verifying\<close>

definition rejected_poll :: "PollA2AMandateInput \<Rightarrow> string \<Rightarrow> string \<Rightarrow> A2AMandatePollResult" where
  "rejected_poll cmd task_state reason_code = \<lparr>mp_remote_task_id = pm_remote_task_id cmd,
     mp_task_state = task_state, mp_verification_status = ''REJECTED'', mp_mandate_id = None,
     mp_verified_artifact = None, mp_reason_code = Some reason_code\<rparr>"

definition expected_scope :: "PollA2AMandateInput \<Rightarrow> ident \<Rightarrow> ident \<Rightarrow> ExpectedMandateScope" where
  "expected_scope cmd action_id invoice_id = \<lparr>es_task_id = pm_remote_task_id cmd,
     es_merchant_id = pm_merchant_id cmd, es_case_id = pm_case_id cmd, es_customer_id = pm_customer_id cmd,
     es_recovery_action_id = action_id, es_failed_invoice_id = invoice_id,
     es_exact_amount_paise = pm_exact_amount_paise cmd, es_currency = pm_currency cmd,
     es_payment_surface_type = pm_payment_surface_type cmd,
     es_payment_surface_reference = pm_payment_surface_reference cmd\<rparr>"

fun scalar_json :: "json_scalar \<Rightarrow> json" where
  "scalar_json (J_text s) = JStr s"
| "scalar_json (J_int i) = JInt i"

definition mandate_object :: "crypto \<Rightarrow> SignedMandate \<Rightarrow> jobject" where
  "mandate_object cr m = [(''algorithm'', JStr (sm_algorithm m)),
     (''data'', JObj (map (\<lambda>(k, v). (k, scalar_json v)) (mandate_dump cr (sm_data m)))),
     (''signature'', JStr (sm_signature m))]"

definition verify_polled ::
    "crypto \<Rightarrow> MandateVerifier \<Rightarrow> ('s \<Rightarrow> MandateNonceClaim \<Rightarrow> bool \<Rightarrow> mandate_error + NonceClaimOutcome \<times> 's)
     \<Rightarrow> datetime \<Rightarrow> PollA2AMandateInput \<Rightarrow> CustomerAgentTask \<Rightarrow> ident \<Rightarrow> ident \<Rightarrow> SignedMandate \<Rightarrow> 's
     \<Rightarrow> activity_error + A2AMandatePollResult \<times> 's" where
  "verify_polled cr v consume clock cmd task action_id invoice_id envelope s =
     (if \<not> valid_mandate envelope then Inr (rejected_poll cmd (rt_state task) ''MALFORMED_MANDATE'', s)
      else bindE (parse_a2a_instant (pm_recovery_deadline cmd)) (\<lambda>deadline.
        if deadline < utc_instant (md_expires_at (sm_data envelope))
        then Inr (rejected_poll cmd (rt_state task) ''EXPIRES_AFTER_RECOVERY_DEADLINE'', s)
        else if pm_exact_amount_paise cmd \<le> 0 then Inl Activity_Validation_Error
        else case verify_and_consume cr v consume s envelope (expected_scope cmd action_id invoice_id) clock of
          Inl (MandateVerificationError code _) \<Rightarrow> Inr (rejected_poll cmd (rt_state task) code, s)
        | Inl e \<Rightarrow> Inl (Verifier_Error e)
        | Inr (verified, s') \<Rightarrow>
            Inr (\<lparr>mp_remote_task_id = rt_remote_task_id task, mp_task_state = rt_state task,
              mp_verification_status = ''VERIFIED'', mp_mandate_id = Some (md_mandate_id (vm_data verified)),
              mp_verified_artifact = Some (mandate_object cr envelope), mp_reason_code = None\<rparr>, s')))"

definition poll_and_verify_mandate ::
    "crypto \<Rightarrow> MandateVerifier \<Rightarrow> ('s \<Rightarrow> MandateNonceClaim \<Rightarrow> bool \<Rightarrow> mandate_error + NonceClaimOutcome \<times> 's)
     \<Rightarrow> datetime \<Rightarrow> (ident \<Rightarrow> activity_error + CustomerAgentTask) \<Rightarrow> PollA2AMandateInput \<Rightarrow> 's
     \<Rightarrow> activity_error + A2AMandatePollResult \<times> 's" where
  "poll_and_verify_mandate cr v consume clock get_remote cmd s =
     bindE (get_remote (pm_remote_task_id cmd)) (\<lambda>task.
       if rt_remote_task_id task \<noteq> pm_remote_task_id cmd
       then Inr (rejected_poll cmd (rt_state task) ''A2A_TASK_ID_MISMATCH'', s)
       else if rt_state task \<in> {''SUBMITTED'', ''AUTH_REQUIRED''}
       then Inr (\<lparr>mp_remote_task_id = rt_remote_task_id task, mp_task_state = rt_state task,
         mp_verification_status = ''PENDING'', mp_mandate_id = None, mp_verified_artifact = None,
         mp_reason_code = None\<rparr>, s)
       else if rt_state task \<in> {''FAILED'', ''CANCELED'', ''COMPLETED''}
       then Inr (rejected_poll cmd (rt_state task) (''A2A_TASK_'' @ rt_state task), s)
       else case rt_artifact task of
         None \<Rightarrow> Inr (rejected_poll cmd (rt_state task) ''MISSING_MANDATE_ARTIFACT'', s)
       | Some artifact \<Rightarrow>
           (case (pm_recovery_action_id cmd, pm_failed_invoice_id cmd) of
              (Some action_id, Some invoice_id) \<Rightarrow>
                (case artifact of
                   Other_Data \<Rightarrow> Inr (rejected_poll cmd (rt_state task) ''MALFORMED_MANDATE'', s)
                 | Mandate_Data envelope \<Rightarrow>
                     verify_polled cr v consume clock cmd task action_id invoice_id envelope s)
            | _ \<Rightarrow> Inr (rejected_poll cmd (rt_state task) ''DURABLE_ACTION_SCOPE_REQUIRED'', s)))"

section \<open>Sending the receipt\<close>

definition receipt_data :: "RecoveryReceiptSigner \<Rightarrow> SendA2APaymentReceiptInput \<Rightarrow> ident \<Rightarrow> ident \<Rightarrow> RecoveryReceiptData" where
  "receipt_data signer cmd action_id invoice_id = \<lparr>rd_protocol_version = ''recovery.receipt.v2'',
     rd_receipt_id = spr_idempotency_key cmd, rd_signer_key_id = rs_signer_key_id signer,
     rd_task_id = spr_remote_task_id cmd, rd_mandate_id = spr_mandate_id cmd,
     rd_merchant_id = spr_merchant_id cmd, rd_case_id = spr_case_id cmd,
     rd_recovery_action_id = action_id, rd_failed_invoice_id = invoice_id,
     rd_exact_amount_paise = spr_exact_amount_paise cmd, rd_currency = spr_currency cmd,
     rd_provider_reference = spr_provider_reference cmd, rd_payment_state = ''CAPTURED'',
     rd_observed_at = Aware (spr_observed_at cmd) 0\<rparr>"

definition receipt_message :: "SendA2APaymentReceiptInput \<Rightarrow> SignedRecoveryReceipt \<Rightarrow> Message" where
  "receipt_message cmd r = \<lparr>mg_message_id = spr_idempotency_key cmd, mg_role = ''ROLE_USER'',
     mg_parts = [Receipt_Part r], mg_task_id = Some (spr_remote_task_id cmd), mg_context_id = None\<rparr>"

definition send_payment_receipt ::
    "crypto \<Rightarrow> RecoveryReceiptSigner \<Rightarrow> (Message \<Rightarrow> 'r \<Rightarrow> activity_error + CustomerAgentTask \<times> 'r)
     \<Rightarrow> SendA2APaymentReceiptInput \<Rightarrow> 'r \<Rightarrow> activity_error + A2APaymentReceiptResult \<times> 'r" where
  "send_payment_receipt cr signer send cmd remote =
     (case (spr_recovery_action_id cmd, spr_failed_invoice_id cmd) of
        (Some action_id, Some invoice_id) \<Rightarrow>
          (let data = receipt_data signer cmd action_id invoice_id in
           if \<not> valid_receipt_data data then Inl Activity_Validation_Error
           else case sign_receipt cr signer data of
             Inl e \<Rightarrow> Inl (Receipt_Error e)
           | Inr r \<Rightarrow> bindE (send (receipt_message cmd r) remote) (\<lambda>(task, remote').
               if rt_remote_task_id task \<noteq> spr_remote_task_id cmd
               then Inl (CustomerAgentProtocolError ''payment receipt response task ID does not match'')
               else if rt_state task \<noteq> ''COMPLETED''
               then Inl (CustomerAgentProtocolError ''customer task did not complete after payment receipt'')
               else Inr (\<lparr>apr_remote_task_id = rt_remote_task_id task, apr_task_state = rt_state task,
                 apr_delivered = (rt_state task = ''COMPLETED'')\<rparr>, remote')))
      | _ \<Rightarrow> Inl (Activity_Value_Error ''A2A v2 receipt requires durable action and failed invoice scope''))"

section \<open>The request is current\<close>

lemma authoritative_rows_mem:
  assumes "row \<in> set (authoritative_rows db cmd)"
  shows "aw_case row \<in> set (db_cases db) \<and> aw_invoice row \<in> set (db_invoices db)
    \<and> aw_action row \<in> set (db_actions db) \<and> aw_policy row \<in> set (db_policies db)
    \<and> rc_id (aw_case row) = sa_case_id cmd \<and> rc_merchant_id (aw_case row) = sa_merchant_id cmd
    \<and> rc_customer_id (aw_case row) = sa_customer_id cmd
    \<and> rc_failed_invoice_id (aw_case row) = Some (iv_id (aw_invoice row))
    \<and> ar_case_id (aw_action row) = rc_id (aw_case row)
    \<and> pr_action_id (aw_policy row) = Some (ar_id (aw_action row))"
  using assms by (auto simp: authoritative_rows_def)

lemma load_authoritative_request_Inr:
  assumes "load_authoritative_request db cols clock cmd = Inr r"
  shows "\<exists>row deadline. authoritative_rows db cmd = [row] \<and> parse_a2a_instant (sa_recovery_deadline cmd) = Inr deadline
    \<and> \<not> stale_or_unsafe row cmd (utc_instant clock) deadline \<and> 0 < outstanding_paise row
    \<and> rq_case_id r = sa_case_id cmd \<and> rq_recovery_action_id r = ar_id (aw_action row)
    \<and> rq_failed_invoice_id r = iv_id (aw_invoice row) \<and> rq_exact_amount_paise r = outstanding_paise row
    \<and> rq_currency r = iv_currency (aw_invoice row)
    \<and> rq_payment_surface_reference r = iv_provider_invoice_id (aw_invoice row)
    \<and> rq_expires_at r = Aware (rc_recovery_deadline (aw_case row)) 0"
  using assms
  by (auto simp: load_authoritative_request_def result_simps split: if_splits list.splits)

text \<open>
  The customer is only asked for what the database says now. An authorization request is built
  only for an open, unrecovered and uncaptured case before its deadline, from its failed invoice and
  from an action of the case that policy allows and that has not been executed; it asks for
  exactly the outstanding amount of the invoice, which is the amount at risk of the case, and expires at
  the deadline of the case.
\<close>

theorem authoritative_request_is_current:
  assumes "load_authoritative_request db cols clock cmd = Inr r"
  shows "\<exists>c iv a p. c \<in> set (db_cases db) \<and> iv \<in> set (db_invoices db) \<and> a \<in> set (db_actions db) \<and> p \<in> set (db_policies db)
    \<and> rc_id c = rq_case_id r \<and> rc_failed_invoice_id c = Some (iv_id iv) \<and> ar_case_id a = rc_id c
    \<and> pr_action_id p = Some (ar_id a) \<and> rc_case_outcome c = Case_OPEN \<and> rc_payment_state c \<noteq> Pay_CAPTURED
    \<and> \<not> rc_case_recovered c \<and> utc_instant clock < rc_recovery_deadline c
    \<and> rq_expires_at r = Aware (rc_recovery_deadline c) 0
    \<and> rq_exact_amount_paise r = iv_amount_paise iv - iv_amount_paid_paise iv
    \<and> rq_exact_amount_paise r = rc_amount_at_risk_paise c \<and> 0 < rq_exact_amount_paise r
    \<and> rq_currency r = iv_currency iv \<and> rq_payment_surface_reference r = iv_provider_invoice_id iv
    \<and> rq_recovery_action_id r = ar_id a \<and> ar_action_type a = SEND_TO_CUSTOMER_AGENT
    \<and> ar_status a \<in> {Act_PROPOSED, Act_SCHEDULED} \<and> PolicyDecisionRecord.pr_disposition p \<in> {ALLOW, DELAY}"
proof -
  from load_authoritative_request_Inr [OF assms] obtain row deadline where row:
    "authoritative_rows db cmd = [row]" "\<not> stale_or_unsafe row cmd (utc_instant clock) deadline"
    "0 < outstanding_paise row" "rq_case_id r = sa_case_id cmd" "rq_recovery_action_id r = ar_id (aw_action row)"
    "rq_exact_amount_paise r = outstanding_paise row" "rq_currency r = iv_currency (aw_invoice row)"
    "rq_payment_surface_reference r = iv_provider_invoice_id (aw_invoice row)"
    "rq_expires_at r = Aware (rc_recovery_deadline (aw_case row)) 0" by blast
  have "row \<in> set (authoritative_rows db cmd)" using row(1) by simp
  from authoritative_rows_mem [OF this] row(2-) show ?thesis
    by (intro exI [of _ "aw_case row"] exI [of _ "aw_invoice row"] exI [of _ "aw_action row"] exI [of _ "aw_policy row"])
       (simp add: stale_or_unsafe_def outstanding_paise_def)
qed

definition sample_start :: StartA2AAuthorizationInput where
  "sample_start = \<lparr>sa_case_id = ''case_1'', sa_merchant_id = ''m1'', sa_customer_id = ''cust_1'',
     sa_exact_amount_paise = 49900, sa_currency = ''INR'', sa_payment_surface_type = ''SUBSCRIPTION_INVOICE_LINK'',
     sa_payment_surface_reference = ''inv_ext_1'', sa_recovery_deadline = Some (Aware (days 7) 0),
     sa_idempotency_key = ''idem_1'', sa_recovery_action_id = Some ''action_1'',
     sa_failed_invoice_id = Some ''inv_1'', sa_provider_invoice_id = Some ''inv_ext_1''\<rparr>"

definition sample_columns :: display_columns where
  "sample_columns = \<lparr>merchant_display_name_of = \<lambda>_. '' Shop  One '', plan_name_of = \<lambda>_. ''Pro'',
     preferred_language_of = \<lambda>_. ''en''\<rparr>"

lemma sample_loaded: "\<exists>r. load_authoritative_request sample_a2a_db sample_columns (Aware 0 0) sample_start = Inr r
    \<and> rq_exact_amount_paise r = 49900 \<and> dc_merchant_display_name (rq_context r) = ''Shop One''"
  by (simp add: load_authoritative_request_def authoritative_rows_def sample_a2a_db_def sample_start_def
      parse_a2a_instant_def stale_or_unsafe_def outstanding_paise_def display_context_def sample_columns_def
      clean_display_value_def py_space_def valid_display_context_def text_within_def duration_defs Let_def)

theorem authoritative_request_is_current_witness:
  "\<exists>r c. load_authoritative_request sample_a2a_db sample_columns (Aware 0 0) sample_start = Inr r
     \<and> c \<in> set (db_cases sample_a2a_db) \<and> rq_exact_amount_paise r = rc_amount_at_risk_paise c"
  using sample_loaded authoritative_request_is_current [of sample_a2a_db sample_columns "Aware 0 0" sample_start] by metis

end
