(* ===== verification/A2A_Protocol.thy ===== *)
theory A2A_Protocol
  imports A2A_Activities
begin

text \<open>
  The protocol between RecoveryOS and the customer agent, end to end. \<open>json_rpc\<close> is the endpoint
  of \<open>services/customer-agent/app/main.py\<close>; \<open>remote_send\<close> and \<open>remote_get\<close> are the calls of the
  client on it. A mandate that RecoveryOS verifies was approved by the customer for exactly that
  scope, whatever the network delivers; an approved mandate is verified; and the receipt of
  the payment completes the task.
\<close>

section \<open>The endpoint\<close>

definition py_partition_space :: "string \<Rightarrow> string \<times> bool \<times> string" where
  "py_partition_space s = (let scheme = takeWhile (\<lambda>c. c \<noteq> CHR '' '') s; rest = dropWhile (\<lambda>c. c \<noteq> CHR '' '') s
     in (scheme, rest \<noteq> [], drop 1 rest))"

definition bearer_authorized :: "string option \<Rightarrow> string option \<Rightarrow> bool" where
  "bearer_authorized authorization expected_token = (case expected_token of
     None \<Rightarrow> True
   | Some expected \<Rightarrow> (case py_partition_space (case authorization of None \<Rightarrow> [] | Some a \<Rightarrow> a) of
       (scheme, separator, supplied) \<Rightarrow> separator \<and> py_lower scheme = ''bearer'' \<and> supplied = expected))"

definition bearer_token :: "string option \<Rightarrow> string option" where
  "bearer_token authorization = (case py_partition_space (case authorization of None \<Rightarrow> [] | Some a \<Rightarrow> a) of
     (scheme, separator, supplied) \<Rightarrow>
       if \<not> separator \<or> py_lower scheme \<noteq> ''bearer'' \<or> supplied = [] then None else Some supplied)"

fun split_commas :: "string \<Rightarrow> string \<Rightarrow> string list" where
  "split_commas word [] = [rev word]"
| "split_commas word (c # cs) = (if c = CHR '','' then rev word # split_commas [] cs else split_commas (c # word) cs)"

definition declared_extensions :: "string option \<Rightarrow> string list" where
  "declared_extensions extensions =
     filter (\<lambda>v. v \<noteq> []) (map py_strip (split_commas [] (case extensions of None \<Rightarrow> [] | Some e \<Rightarrow> e)))"

definition RECOVERY_MANDATE_EXTENSION_URI :: string where
  "RECOVERY_MANDATE_EXTENSION_URI = ''https://recoveryos.dev/a2a/recovery-mandate/v2''"

definition RECOVERY_RECEIPT_EXTENSION_URI :: string where
  "RECOVERY_RECEIPT_EXTENSION_URI = ''https://recoveryos.dev/a2a/recovery-receipt/v2''"

datatype rpc_call = Rpc_SendMessage Message | Rpc_GetTask ident "int option" | Rpc_CancelTask ident string
  | Rpc_Other string

datatype rpc_answer = Rpc_Unauthorized | Rpc_Failure int string | Rpc_Task TaskRecord

fun rpc_failure :: "agent_error \<Rightarrow> rpc_answer" where
  "rpc_failure Agent_Validation_Error = Rpc_Failure (-32602) ''Invalid params''"
| "rpc_failure (TaskNotFoundError _) = Rpc_Failure (-32001) ''Task not found''"
| "rpc_failure TaskIdempotencyConflictError =
     Rpc_Failure (-32002) ''Idempotency key was reused with a different recovery request''"
| "rpc_failure (TaskConflictError m) = Rpc_Failure (-32002) m"
| "rpc_failure e = Rpc_Failure (-32603) ''Internal error''"

definition rpc_dispatch ::
    "CustomerAgentService \<Rightarrow> 's TaskStore \<Rightarrow> (nat \<Rightarrow> ('s \<Rightarrow> 's) \<times> instant \<times> ident) \<Rightarrow> ident \<Rightarrow> rpc_call \<Rightarrow> 's
     \<Rightarrow> agent_error + TaskRecord \<times> 's" where
  "rpc_dispatch svc ops attempt uuid call s = (case call of
     Rpc_SendMessage message \<Rightarrow>
       if \<not> valid_message message then Inl Agent_Validation_Error
       else (case attempt 0 of (others, now, message_uuid) \<Rightarrow> send_message svc ops others now uuid message_uuid message s)
   | Rpc_GetTask task_id history_length \<Rightarrow>
       if task_id = [] \<or> (\<exists>n. history_length = Some n \<and> n < 0) then Inl Agent_Validation_Error
       else bindE (get_task ops s task_id) (\<lambda>t. Inr (t, s))
   | Rpc_CancelTask task_id reason \<Rightarrow>
       if task_id = [] \<or> \<not> text_within 1 500 reason then Inl Agent_Validation_Error
       else cancel_task ops task_id reason attempt s
   | Rpc_Other _ \<Rightarrow> Inl Agent_Key_Error)"

definition json_rpc ::
    "CustomerAgentService \<Rightarrow> 's TaskStore \<Rightarrow> string option \<Rightarrow> (nat \<Rightarrow> ('s \<Rightarrow> 's) \<times> instant \<times> ident) \<Rightarrow> ident
     \<Rightarrow> string option \<Rightarrow> string option \<Rightarrow> string option \<Rightarrow> rpc_call \<Rightarrow> 's \<Rightarrow> rpc_answer \<times> 's" where
  "json_rpc svc ops s2s_token attempt uuid authorization version extensions call s =
     (if \<not> bearer_authorized authorization s2s_token then (Rpc_Unauthorized, s)
      else if version \<noteq> Some ''1.0'' then (Rpc_Failure (-32008) ''A2A protocol version is not supported'', s)
      else if RECOVERY_MANDATE_EXTENSION_URI \<notin> set (declared_extensions extensions)
      then (Rpc_Failure (-32009) ''Recovery mandate extension support is required'', s)
      else if RECOVERY_RECEIPT_EXTENSION_URI \<notin> set (declared_extensions extensions)
      then (Rpc_Failure (-32009) ''Authenticated recovery receipt extension support is required'', s)
      else case call of
        Rpc_Other _ \<Rightarrow> (Rpc_Failure (-32601) ''Method not found'', s)
      | _ \<Rightarrow> (case rpc_dispatch svc ops attempt uuid call s of
          Inl e \<Rightarrow> (rpc_failure e, s)
        | Inr (t, s') \<Rightarrow> (Rpc_Task t, s')))"

section \<open>The client on the endpoint\<close>

definition client_authorization :: "string option \<Rightarrow> string option" where
  "client_authorization token = map_option (\<lambda>t. ''Bearer '' @ t) token"

definition client_extensions :: string where
  "client_extensions = RECOVERY_MANDATE_EXTENSION_URI @ '','' @ RECOVERY_RECEIPT_EXTENSION_URI"

definition client_rpc ::
    "CustomerAgentService \<Rightarrow> 's TaskStore \<Rightarrow> string option \<Rightarrow> string option \<Rightarrow> (nat \<Rightarrow> ('s \<Rightarrow> 's) \<times> instant \<times> ident) \<Rightarrow> ident
     \<Rightarrow> rpc_call \<Rightarrow> 's \<Rightarrow> activity_error + CustomerAgentTask \<times> 's" where
  "client_rpc svc ops s2s_token client_token attempt uuid call s =
     (case json_rpc svc ops s2s_token attempt uuid (client_authorization client_token) (Some ''1.0'')
         (Some client_extensions) call s of
        (Rpc_Unauthorized, _) \<Rightarrow> Inl (CustomerAgentProtocolError ''401'')
      | (Rpc_Failure _ m, _) \<Rightarrow> Inl (CustomerAgentProtocolError m)
      | (Rpc_Task t, s') \<Rightarrow> Inr (map_task svc t, s'))"

definition remote_get ::
    "CustomerAgentService \<Rightarrow> 's TaskStore \<Rightarrow> string option \<Rightarrow> string option \<Rightarrow> 's \<Rightarrow> ident \<Rightarrow> activity_error + CustomerAgentTask" where
  "remote_get svc ops s2s_token client_token s task_id =
     bindE (client_rpc svc ops s2s_token client_token (\<lambda>_. (id, 0, [])) [] (Rpc_GetTask task_id None) s)
       (\<lambda>(t, _). Inr t)"

definition remote_send ::
    "CustomerAgentService \<Rightarrow> 's TaskStore \<Rightarrow> string option \<Rightarrow> string option \<Rightarrow> ('s \<Rightarrow> 's) \<Rightarrow> instant \<Rightarrow> ident \<Rightarrow> ident
     \<Rightarrow> Message \<Rightarrow> 's \<Rightarrow> activity_error + CustomerAgentTask \<times> 's" where
  "remote_send svc ops s2s_token client_token others now uuid message_uuid message s =
     client_rpc svc ops s2s_token client_token (\<lambda>_. (others, now, message_uuid)) uuid (Rpc_SendMessage message) s"

lemma takeWhile_no_space: "CHR '' '' \<notin> set xs \<Longrightarrow> takeWhile (\<lambda>c. c \<noteq> CHR '' '') (xs @ CHR '' '' # ys) = xs
    \<and> dropWhile (\<lambda>c. c \<noteq> CHR '' '') (xs @ CHR '' '' # ys) = CHR '' '' # ys"
  by (induction xs) auto

lemma lower_bearer: "py_lower ''Bearer'' = ''bearer''"
  by code_simp

lemma client_authorized: "bearer_authorized (client_authorization token) token"
  using takeWhile_no_space [of "''Bearer''" "the token"] lower_bearer
  by (cases token)
     (auto simp: bearer_authorized_def client_authorization_def py_partition_space_def Let_def)

lemma client_extensions_declared:
  "RECOVERY_MANDATE_EXTENSION_URI \<in> set (declared_extensions (Some client_extensions))"
  "RECOVERY_RECEIPT_EXTENSION_URI \<in> set (declared_extensions (Some client_extensions))"
  by (simp_all add: declared_extensions_def client_extensions_def RECOVERY_MANDATE_EXTENSION_URI_def
      RECOVERY_RECEIPT_EXTENSION_URI_def py_strip_def py_space_def)

lemma remote_get_stored:
  assumes "get_stored ops s task_id = Some t" and "task_id \<noteq> []"
  shows "remote_get svc ops token token s task_id = Inr (map_task svc t)"
  using assms client_authorized client_extensions_declared
  by (simp add: remote_get_def client_rpc_def json_rpc_def rpc_dispatch_def get_task_def)

lemma remote_send_message:
  assumes "send_message svc ops others now uuid message_uuid message s = Inr (t, s')" and "valid_message message"
  shows "remote_send svc ops token token others now uuid message_uuid message s = Inr (map_task svc t, s')"
  using assms client_authorized client_extensions_declared
  by (simp add: remote_send_def client_rpc_def json_rpc_def rpc_dispatch_def)

section \<open>What is verified was approved\<close>

definition mandate_in_scope :: "PollA2AMandateInput \<Rightarrow> RecoveryMandateData \<Rightarrow> bool" where
  "mandate_in_scope cmd d \<longleftrightarrow> md_task_id d = pm_remote_task_id cmd \<and> md_merchant_id d = pm_merchant_id cmd
     \<and> md_case_id d = pm_case_id cmd \<and> md_customer_id d = pm_customer_id cmd
     \<and> Some (md_recovery_action_id d) = pm_recovery_action_id cmd
     \<and> Some (md_failed_invoice_id d) = pm_failed_invoice_id cmd
     \<and> md_exact_amount_paise d = pm_exact_amount_paise cmd \<and> md_currency d = pm_currency cmd
     \<and> md_payment_surface_type d = pm_payment_surface_type cmd
     \<and> md_payment_surface_reference d = pm_payment_surface_reference cmd"

lemma verify_polled_VERIFIED:
  assumes "verify_polled cr v consume clock cmd task action_id invoice_id envelope s = Inr (result, s')"
    and "mp_verification_status result = ''VERIFIED''"
  shows "\<exists>verified. verify_and_consume cr v consume s envelope (expected_scope cmd action_id invoice_id) clock = Inr (verified, s')
    \<and> mp_mandate_id result = Some (md_mandate_id (sm_data envelope))
    \<and> mp_verified_artifact result = Some (mandate_object cr envelope)
    \<and> (\<exists>deadline. parse_a2a_instant (pm_recovery_deadline cmd) = Inr deadline
        \<and> utc_instant (md_expires_at (sm_data envelope)) \<le> deadline)"
proof -
  from assms obtain deadline where d: "parse_a2a_instant (pm_recovery_deadline cmd) = Inr deadline"
    by (auto simp: verify_polled_def rejected_poll_def result_simps split: if_splits)
  show ?thesis
  proof (cases "verify_and_consume cr v consume s envelope (expected_scope cmd action_id invoice_id) clock")
    case (Inl e)
    with assms d show ?thesis
      by (cases e) (auto simp: verify_polled_def rejected_poll_def split: if_splits)
  next
    case (Inr r)
    obtain verified t where r: "r = (verified, t)" by force
    with Inr have "vm_data verified = sm_data envelope" by (simp add: verify_and_consume_Inr)
    with assms d Inr r show ?thesis
      by (auto simp: verify_polled_def rejected_poll_def split: if_splits)
  qed
qed

lemma poll_VERIFIED:
  assumes "poll_and_verify_mandate cr v consume clock get_remote cmd s = Inr (result, s')"
    and "mp_verification_status result = ''VERIFIED''"
  shows "\<exists>task action_id invoice_id envelope. get_remote (pm_remote_task_id cmd) = Inr task
    \<and> rt_artifact task = Some (Mandate_Data envelope)
    \<and> pm_recovery_action_id cmd = Some action_id \<and> pm_failed_invoice_id cmd = Some invoice_id
    \<and> verify_polled cr v consume clock cmd task action_id invoice_id envelope s = Inr (result, s')"
  using assms
  by (auto simp: poll_and_verify_mandate_def rejected_poll_def result_simps
      split: if_splits option.splits task_artifact.splits)

lemma poll_VERIFIED_mandate:
  assumes "poll_and_verify_mandate cr v consume clock get_remote cmd s = Inr (result, s')"
    and "mp_verification_status result = ''VERIFIED''"
  shows "\<exists>task envelope deadline. get_remote (pm_remote_task_id cmd) = Inr task
    \<and> rt_artifact task = Some (Mandate_Data envelope) \<and> authentic cr v envelope \<and> mandate_in_scope cmd (sm_data envelope)
    \<and> mp_mandate_id result = Some (md_mandate_id (sm_data envelope))
    \<and> mp_verified_artifact result = Some (mandate_object cr envelope)
    \<and> parse_a2a_instant (pm_recovery_deadline cmd) = Inr deadline
    \<and> utc_instant (md_expires_at (sm_data envelope)) \<le> deadline"
proof -
  from poll_VERIFIED [OF assms] obtain task action_id invoice_id envelope where p:
    "get_remote (pm_remote_task_id cmd) = Inr task" "rt_artifact task = Some (Mandate_Data envelope)"
    "pm_recovery_action_id cmd = Some action_id" "pm_failed_invoice_id cmd = Some invoice_id"
    "verify_polled cr v consume clock cmd task action_id invoice_id envelope s = Inr (result, s')" by blast
  from verify_polled_VERIFIED [OF p(5) assms(2)] obtain verified deadline where q:
    "verify_and_consume cr v consume s envelope (expected_scope cmd action_id invoice_id) clock = Inr (verified, s')"
    "mp_mandate_id result = Some (md_mandate_id (sm_data envelope))"
    "mp_verified_artifact result = Some (mandate_object cr envelope)"
    "parse_a2a_instant (pm_recovery_deadline cmd) = Inr deadline"
    "utc_instant (md_expires_at (sm_data envelope)) \<le> deadline" by blast
  from q(1) have "authentic cr v envelope" "mandate_in_scope cmd (sm_data envelope)"
    using p by (simp_all add: verify_and_consume_Inr scope_mismatches_Nil expected_scope_def mandate_in_scope_def)
  with p q show ?thesis by blast
qed

text \<open>
  What unforgeability of Ed25519 means for one answer of the network: if the mandate it carries has a signature that
  verifies under a pinned key, then the agent has issued a mandate with the same signed bytes. It says
  nothing of signatures nobody presents, so it holds beside \<open>signs_correctly\<close>.
\<close>

definition unforged :: "crypto \<Rightarrow> MandateVerifier \<Rightarrow> SignedMandate set \<Rightarrow> activity_error + CustomerAgentTask \<Rightarrow> bool" where
  "unforged cr v issued answer \<longleftrightarrow> (\<forall>task envelope. answer = Inr task \<longrightarrow>
     rt_artifact task = Some (Mandate_Data envelope) \<longrightarrow> authentic cr v envelope \<longrightarrow>
     (\<exists>signed \<in> issued. canonical_json cr (sm_data envelope) = canonical_json cr (sm_data signed)))"

definition issued_mandates :: "CustomerAgentTaskRow list \<Rightarrow> SignedMandate set" where
  "issued_mandates rows =
     {envelope. \<exists>i t. sql_get rows i = Some t \<and> Mandate_Artifact envelope \<in> set (tr_artifacts t)}"

lemma task_ok_mandate:
  assumes "task_ok svc t" and "Mandate_Artifact envelope \<in> set (tr_artifacts t)"
  shows "approved_mandate svc t envelope \<and> tr_state t \<noteq> TASK_STATE_AUTH_REQUIRED"
  using assms
  by (cases "tr_state t"; cases "tr_artifacts t"; cases "tl (tr_artifacts t)"; cases "tl (tl (tr_artifacts t))")
     (auto simp: task_ok_def split: Artifact.splits list.splits)

text \<open>
  C11: a mandate is verified only if the customer approved it. Whatever task the network presents
  under the polled identifier, with either nonce store, a poll that reports \<open>VERIFIED\<close> means that
  the customer agent holds a task with that identifier which was approved for exactly the merchant, case,
  customer, action, invoice, amount, currency and payment surface of the poll, and whose
  mandate, the reported one, expires no later than the recovery deadline. Assumed are that the
  network has not forged the signature it presents under a pinned key, and that timestamps have distinct texts.
\<close>

theorem verified_mandate_was_approved:
  assumes "agent_run svc sql_store_ops [] rows" and "inj (timestamp_text cr)"
    and "unforged cr v (issued_mandates rows) (get_remote (pm_remote_task_id cmd))"
    and "poll_and_verify_mandate cr v consume clock get_remote cmd s = Inr (result, s')"
    and "mp_verification_status result = ''VERIFIED''"
  shows "\<exists>t envelope deadline. sql_get rows (pm_remote_task_id cmd) = Some t \<and> task_ok svc t
    \<and> tr_state t \<noteq> TASK_STATE_AUTH_REQUIRED \<and> Mandate_Artifact envelope \<in> set (tr_artifacts t)
    \<and> approved_mandate svc t envelope \<and> mandate_in_scope cmd (sm_data envelope)
    \<and> mp_mandate_id result = Some (md_mandate_id (sm_data envelope))
    \<and> parse_a2a_instant (pm_recovery_deadline cmd) = Inr deadline
    \<and> utc_instant (md_expires_at (sm_data envelope)) \<le> deadline"
proof -
  from poll_VERIFIED_mandate [OF assms(4,5)] obtain task polled deadline where p:
    "authentic cr v polled" "mandate_in_scope cmd (sm_data polled)"
    "mp_mandate_id result = Some (md_mandate_id (sm_data polled))"
    "parse_a2a_instant (pm_recovery_deadline cmd) = Inr deadline"
    "utc_instant (md_expires_at (sm_data polled)) \<le> deadline"
    and task: "get_remote (pm_remote_task_id cmd) = Inr task" "rt_artifact task = Some (Mandate_Data polled)" by blast
  from p(1) task assms(3) obtain envelope where "envelope \<in> issued_mandates rows"
    "canonical_json cr (sm_data polled) = canonical_json cr (sm_data envelope)"
    unfolding unforged_def by blast
  with canonical_json_inject [OF assms(2)] obtain i t where t: "sql_get rows i = Some t"
    "Mandate_Artifact envelope \<in> set (tr_artifacts t)" "sm_data polled = sm_data envelope"
    by (auto simp: issued_mandates_def)
  have inv: "sql_tasks_inv []" by (simp add: sql_tasks_inv_def)
  have empty: "get_stored sql_store_ops [] j = Some u \<Longrightarrow> task_ok svc u" for j u
    by (simp add: sql_store_ops_def sql_get_def)
  have ok: "task_ok svc t"
    using sql_tasks.run_ok [of svc "[]" rows i t] assms(1) inv empty t(1) by (simp add: sql_store_ops_def)
  have "tr_id t = i"
    using sql_tasks.get_id [OF sql_tasks.evolves_inv [OF sql_tasks.run_evolves [OF assms(1) inv]], of i t] t(1)
    by (simp add: sql_store_ops_def)
  moreover note task_ok_mandate [OF ok t(2)]
  ultimately have "i = pm_remote_task_id cmd"
    using p(2) t(3) by (simp add: approved_mandate_def mandate_in_scope_def)
  with t p ok task_ok_mandate [OF ok t(2)] show ?thesis by auto
qed

section \<open>What is approved is verified\<close>

definition poll_matches :: "PollA2AMandateInput \<Rightarrow> TaskRecord \<Rightarrow> bool" where
  "poll_matches cmd t \<longleftrightarrow> pm_remote_task_id cmd = tr_id t
     \<and> pm_merchant_id cmd = rq_merchant_id (tr_request t) \<and> pm_case_id cmd = rq_case_id (tr_request t)
     \<and> pm_customer_id cmd = rq_customer_id (tr_request t)
     \<and> pm_recovery_action_id cmd = Some (rq_recovery_action_id (tr_request t))
     \<and> pm_failed_invoice_id cmd = Some (rq_failed_invoice_id (tr_request t))
     \<and> pm_exact_amount_paise cmd = rq_exact_amount_paise (tr_request t)
     \<and> pm_currency cmd = rq_currency (tr_request t)
     \<and> pm_payment_surface_type cmd = rq_payment_surface_type (tr_request t)
     \<and> pm_payment_surface_reference cmd = rq_payment_surface_reference (tr_request t)"

definition fresh_claim :: "a2a_database \<Rightarrow> MandateNonceClaim \<Rightarrow> bool" where
  "fresh_claim db c \<longleftrightarrow> claim_references db c
     \<and> \<not> (\<exists>row \<in> set (db_mandates db). mandate_clash (authorized_row c) row)"

lemma fresh_claim_consumed:
  assumes "fresh_claim db c" and "nc_consumed_at c \<le> nc_expires_at c"
  shows "consume_claim consume_sql db c False = Inr (db\<lparr>db_mandates := db_mandates db @ [authorized_row c]\<rparr>)"
  using assms by (simp add: consume_claim_def consume_sql_def fresh_claim_def)

lemma approved_mandate_verifies:
  assumes "approved_mandate svc t envelope" and "signs_correctly (ca_crypto svc)"
    and "map_of (mv_keys v) (ms_signer_key_id (ca_signer svc))
      = Some (ed25519_public (ca_crypto svc) (ms_private_key (ca_signer svc)))"
    and "poll_matches cmd t" and "is_aware clock" and "in_window v (sm_data envelope) (utc_instant clock)"
    and "fresh_claim db (claim_of (ca_crypto svc) (sm_data envelope) (utc_instant clock))"
  shows "verify_and_consume (ca_crypto svc) v consume_sql db envelope
      (expected_scope cmd (rq_recovery_action_id (tr_request t)) (rq_failed_invoice_id (tr_request t))) clock
    = Inr (\<lparr>vm_data = sm_data envelope, vm_verified_at = utc_instant clock,
        vm_claim_id = sha256_hexdigest (ca_crypto svc) (canonical_json (ca_crypto svc) (sm_data envelope))\<rparr>,
        db\<lparr>db_mandates := db_mandates db
          @ [authorized_row (claim_of (ca_crypto svc) (sm_data envelope) (utc_instant clock))]\<rparr>)"
proof -
  have "authentic (ca_crypto svc) v envelope"
    using assms(1-3) by (auto simp: approved_mandate_def intro: signed_mandate_authentic)
  moreover have "consume_claim consume_sql db (claim_of (ca_crypto svc) (sm_data envelope) (utc_instant clock)) False
      = Inr (db\<lparr>db_mandates := db_mandates db
          @ [authorized_row (claim_of (ca_crypto svc) (sm_data envelope) (utc_instant clock))]\<rparr>)"
    using assms(6,7) by (intro fresh_claim_consumed) (auto simp: in_window_def claim_of_def)
  ultimately show ?thesis
    using assms(1,4-6)
    by (simp add: verify_and_consume_Inr approved_mandate_def in_window_def poll_matches_def scope_mismatches_Nil
        expected_scope_def)
qed

text \<open>
  C24: an approved mandate is verified. When the customer has approved a task, the agent's key is
  pinned, the poll asks for the scope of the request, the clock is inside the window of the
  mandate and no mandate was consumed for the action, the worker's poll of the agent's endpoint reports
  \<open>VERIFIED\<close> and records exactly one new authorization.
\<close>

theorem approved_mandate_is_verified:
  assumes "task_ok svc t" and "tr_state t = TASK_STATE_WORKING" and "sql_get rows (tr_id t) = Some t"
    and "signs_correctly (ca_crypto svc)"
    and "map_of (mv_keys v) (ms_signer_key_id (ca_signer svc))
      = Some (ed25519_public (ca_crypto svc) (ms_private_key (ca_signer svc)))"
    and "poll_matches cmd t" and "pm_recovery_deadline cmd = Some (rq_expires_at (tr_request t))"
    and "tr_artifacts t = [Mandate_Artifact envelope]" and "is_aware clock"
    and "in_window v (sm_data envelope) (utc_instant clock)"
    and "fresh_claim db (claim_of (ca_crypto svc) (sm_data envelope) (utc_instant clock))"
  shows "\<exists>result. poll_and_verify_mandate (ca_crypto svc) v consume_sql clock
        (remote_get svc sql_store_ops token token rows) cmd db
      = Inr (result, db\<lparr>db_mandates := db_mandates db
          @ [authorized_row (claim_of (ca_crypto svc) (sm_data envelope) (utc_instant clock))]\<rparr>)
    \<and> mp_verification_status result = ''VERIFIED''
    \<and> mp_mandate_id result = Some (md_mandate_id (sm_data envelope))"
proof -
  have ok: "approved_mandate svc t envelope"
    using assms(1,2,8) by (simp add: task_ok_def)
  then have id: "tr_id t \<noteq> []" and valid: "valid_mandate envelope"
    and expiry: "utc_instant (md_expires_at (sm_data envelope)) \<le> utc_instant (rq_expires_at (tr_request t))"
    by (auto simp: approved_mandate_def valid_mandate_def valid_mandate_data_def)
  have got: "remote_get svc sql_store_ops token token rows (pm_remote_task_id cmd) = Inr (map_task svc t)"
    using assms(3,6) id by (auto simp: poll_matches_def sql_store_ops_def intro: remote_get_stored)
  have state: "rt_state (map_task svc t) = ''WORKING''" "rt_artifact (map_task svc t) = Some (Mandate_Data envelope)"
    "rt_remote_task_id (map_task svc t) = tr_id t"
    using assms(1,2,8) by (simp_all add: map_task_def task_ok_def first_artifact_def)
  have request: "is_aware (rq_expires_at (tr_request t))" "0 < rq_exact_amount_paise (tr_request t)"
    using assms(1) by (simp_all add: task_ok_def valid_request_def)
  show ?thesis
    using got state request expiry valid assms(6,7) approved_mandate_verifies [OF ok assms(4-6,9-11)]
    by (simp add: poll_and_verify_mandate_def poll_matches_def verify_polled_def parse_a2a_instant_def)
qed

section \<open>The receipt completes the task\<close>

definition receipt_matches :: "SendA2APaymentReceiptInput \<Rightarrow> TaskRecord \<Rightarrow> RecoveryMandateData \<Rightarrow> bool" where
  "receipt_matches cmd t mandate \<longleftrightarrow> spr_remote_task_id cmd = tr_id t \<and> spr_mandate_id cmd = md_mandate_id mandate
     \<and> spr_merchant_id cmd = rq_merchant_id (tr_request t) \<and> spr_case_id cmd = rq_case_id (tr_request t)
     \<and> spr_recovery_action_id cmd = Some (rq_recovery_action_id (tr_request t))
     \<and> spr_failed_invoice_id cmd = Some (rq_failed_invoice_id (tr_request t))
     \<and> spr_exact_amount_paise cmd = rq_exact_amount_paise (tr_request t)
     \<and> spr_currency cmd = rq_currency (tr_request t)
     \<and> spr_idempotency_key cmd \<noteq> [] \<and> spr_provider_reference cmd \<noteq> []"

lemma no_duplicate:
  "mg_message_id message \<notin> mg_message_id ` set history \<Longrightarrow> is_duplicate_message history message = Inr False"
  by (induction history) auto

lemma signature_not_empty: "bs \<noteq> [] \<Longrightarrow> b64url_encode bs \<noteq> []"
  by (cases bs rule: unpadded.cases) (simp_all add: b64url_encode_unpadded)

lemma receipt_accepted:
  assumes "mg_parts message = [Receipt_Part r]" and "mg_task_id message = Some (tr_id t)" and "tr_id t \<noteq> []"
    and "mg_message_id message = rd_receipt_id (sr_data r)" and "valid_receipt r"
    and "verify_receipt (ca_crypto svc) (ca_receipt_verifier svc) r = Inr (sr_data r)"
    and "get_stored ops s (tr_id t) = Some t" and "tr_state t = TASK_STATE_WORKING"
    and "is_duplicate_message (tr_history t) message = Inr False"
    and "mandate_of_task t = Inr mandate" and "receipt_in_scope t mandate (sr_data r)"
    and "save ops (others s) (completed_task t message r now uuid message_uuid) (tr_revision t) = Inr (u, s')"
  shows "send_message svc ops others now uuid message_uuid message s = Inr (u, s')"
  using assms
  by (simp add: send_message_def complete_with_receipt_def truthy_def get_task_def save_completed_def)

lemma receipt_prepared:
  assumes "task_ok svc t" and "approved_mandate svc t envelope" and "rs_signer_key_id signer \<noteq> []"
    and "receipt_matches cmd t (sm_data envelope)"
    and "\<And>m. ed25519_sign (ca_crypto svc) (rs_private_key signer) m \<noteq> []"
  shows "\<exists>r. sign_receipt (ca_crypto svc) signer (receipt_data signer cmd (rq_recovery_action_id (tr_request t))
        (rq_failed_invoice_id (tr_request t))) = Inr r
    \<and> valid_receipt r \<and> receipt_in_scope t (sm_data envelope) (sr_data r)
    \<and> rd_receipt_id (sr_data r) = spr_idempotency_key cmd
    \<and> sr_data r = receipt_data signer cmd (rq_recovery_action_id (tr_request t)) (rq_failed_invoice_id (tr_request t))"
  using assms signature_not_empty [of "ed25519_sign (ca_crypto svc) (rs_private_key signer) _"]
  by (auto simp: sign_receipt_def receipt_data_def valid_receipt_def valid_receipt_data_def receipt_in_scope_def
      receipt_matches_def approved_mandate_def valid_mandate_def valid_mandate_data_def task_ok_def valid_request_def)

text \<open>
  C25: the receipt of the payment closes the loop. When a task is approved and RecoveryOS sends the
  receipt of the captured payment for it, signed with a key the agent has pinned and under a
  message identifier the task has not seen, the agent completes the task with the receipt and the
  activity reports its delivery.
\<close>

theorem payment_receipt_completes_task:
  assumes "task_ok svc t" and "tr_state t = TASK_STATE_WORKING" and "sql_tasks_inv rows"
    and "sql_get rows (tr_id t) = Some t"
    and "signs_correctly (ca_crypto svc)" and "rs_signer_key_id signer \<noteq> []"
    and "\<And>m. ed25519_sign (ca_crypto svc) (rs_private_key signer) m \<noteq> []"
    and "map_of (ca_receipt_verifier svc) (rs_signer_key_id signer)
      = Some (ed25519_public (ca_crypto svc) (rs_private_key signer))"
    and "tr_artifacts t = [Mandate_Artifact envelope]" and "receipt_matches cmd t (sm_data envelope)"
    and "spr_idempotency_key cmd \<notin> mg_message_id ` set (tr_history t)"
  shows "\<exists>result rows' u. send_payment_receipt (ca_crypto svc) signer
        (remote_send svc sql_store_ops token token id now uuid message_uuid) cmd rows = Inr (result, rows')
    \<and> apr_delivered result \<and> sql_get rows' (tr_id t) = Some u \<and> tr_state u = TASK_STATE_COMPLETED
    \<and> task_step svc t u"
proof -
  have ok: "approved_mandate svc t envelope" using assms(1,2,9) by (simp add: task_ok_def)
  then have id: "tr_id t \<noteq> []" by (auto simp: approved_mandate_def valid_mandate_def valid_mandate_data_def)
  from receipt_prepared [OF assms(1) ok assms(6,10,7)] obtain r where r:
    "sign_receipt (ca_crypto svc) signer (receipt_data signer cmd (rq_recovery_action_id (tr_request t))
       (rq_failed_invoice_id (tr_request t))) = Inr r"
    "valid_receipt r" "receipt_in_scope t (sm_data envelope) (sr_data r)"
    "rd_receipt_id (sr_data r) = spr_idempotency_key cmd"
    "sr_data r = receipt_data signer cmd (rq_recovery_action_id (tr_request t)) (rq_failed_invoice_id (tr_request t))"
    by blast
  have verified: "verify_receipt (ca_crypto svc) (ca_receipt_verifier svc) r = Inr (sr_data r)"
    using signed_receipt_verifies [OF assms(5) r(1) assms(8)] r(5) by simp
  let ?message = "receipt_message cmd r"
  define u where "u = (completed_task t ?message r now uuid message_uuid)\<lparr>tr_revision := tr_revision t + 1\<rparr>"
  have new: "is_duplicate_message (tr_history t) ?message = Inr False"
    using assms(11) by (intro no_duplicate) (simp add: receipt_message_def)
  have mandate: "mandate_of_task t = Inr (sm_data envelope)" using assms(9) by (simp add: mandate_of_task_def)
  have stored: "get_stored sql_store_ops rows (tr_id t) = Some t" using assms(4) by (simp add: sql_store_ops_def)
  have uid: "tr_id (completed_task t ?message r now uuid message_uuid) = tr_id t" by (simp add: task_defs)
  from sql_tasks.save_current [OF assms(3), of "completed_task t ?message r now uuid message_uuid" t] stored uid
  obtain rows' where saved:
    "save sql_store_ops rows (completed_task t ?message r now uuid message_uuid) (tr_revision t) = Inr (u, rows')"
    "get_stored sql_store_ops rows' = (get_stored sql_store_ops rows)(tr_id t \<mapsto> u)"
    by (auto simp: u_def)
  have shape: "mg_parts ?message = [Receipt_Part r]" "mg_task_id ?message = Some (tr_id t)"
    "mg_message_id ?message = rd_receipt_id (sr_data r)" "valid_message ?message"
    using assms(10) r(4) by (simp_all add: receipt_message_def receipt_matches_def valid_message_def)
  have machine: "task_step svc t u"
    unfolding u_def using task_step.complete [OF assms(2) mandate r(2) verified r(3) shape(3)] .
  have "send_message svc sql_store_ops id now uuid message_uuid ?message rows = Inr (u, rows')"
    using receipt_accepted [OF shape(1,2) id shape(3) r(2) verified stored assms(2) new mandate r(3)] saved(1) by simp
  from remote_send_message [OF this shape(4)]
  have sent: "remote_send svc sql_store_ops token token id now uuid message_uuid ?message rows
      = Inr (map_task svc u, rows')" .
  have mapped: "rt_state (map_task svc u) = ''COMPLETED''" "rt_remote_task_id (map_task svc u) = spr_remote_task_id cmd"
    "tr_state u = TASK_STATE_COMPLETED"
    using assms(10) by (simp_all add: u_def map_task_def task_defs receipt_matches_def)
  show ?thesis
    using sent mapped r(1,2,5) assms(10) saved(2) machine
    by (simp add: send_payment_receipt_def receipt_matches_def valid_receipt_def sql_store_ops_def)
qed

section \<open>A concrete exchange\<close>

definition sample_poll :: PollA2AMandateInput where
  "sample_poll = \<lparr>pm_remote_task_id = ''task_1'', pm_case_id = ''case_1'', pm_merchant_id = ''m1'',
     pm_customer_id = ''cust_1'', pm_exact_amount_paise = 49900, pm_currency = ''INR'',
     pm_payment_surface_type = ''SUBSCRIPTION_INVOICE_LINK'', pm_payment_surface_reference = ''inv_ext_1'',
     pm_recovery_deadline = Some (Aware (days 7) 0), pm_recovery_action_id = Some ''action_1'',
     pm_failed_invoice_id = Some ''inv_1'', pm_provider_invoice_id = Some ''inv_ext_1''\<rparr>"

definition sample_receipt_command :: SendA2APaymentReceiptInput where
  "sample_receipt_command = \<lparr>spr_remote_task_id = ''task_1'', spr_mandate_id = ''mandate_3'',
     spr_merchant_id = ''m1'', spr_case_id = ''case_1'', spr_exact_amount_paise = 49900, spr_currency = ''INR'',
     spr_provider_reference = ''pay_1'', spr_observed_at = seconds 60, spr_idempotency_key = ''receipt_1'',
     spr_recovery_action_id = Some ''action_1'', spr_failed_invoice_id = Some ''inv_1''\<rparr>"

lemma granted_sel [simp]:
  "tr_id granted_task = ''task_1''" "tr_state granted_task = TASK_STATE_WORKING"
  "tr_artifacts granted_task = [Mandate_Artifact sample_signed]" "tr_request granted_task = sample_request"
  "tr_history granted_task = [sample_message]" "ts_state (tr_status granted_task) = TASK_STATE_WORKING"
  by (simp_all add: granted_task_def task_defs requested_task_def new_task_def Let_def)

lemma granted_run: "agent_run sample_agent sql_store_ops [] granted_rows"
  by (rule agent_run.decided [OF sample_run_requested _ sample_decided]) (simp add: agent_run.idle)

lemma granted_ok: "task_ok sample_agent granted_task"
  using sql_tasks.run_ok [OF granted_run, of "''task_1''" granted_task] granted_stored
  by (simp add: sql_tasks_inv_def sql_store_ops_def sql_get_def [of "[]"])

lemma granted_mandate: "approved_mandate sample_agent granted_task sample_signed"
  using granted_ok by (simp add: task_ok_def)

lemma sample_signed_sel:
  "md_issued_at (sm_data sample_signed) = Aware 0 0" "md_expires_at (sm_data sample_signed) = Aware (seconds 900) 0"
  "md_mandate_id (sm_data sample_signed) = ''mandate_3''" "md_signer_key_id (sm_data sample_signed) = ''key_1''"
  by (simp_all add: sample_signed_def mandate_for_def mandate_expiry_def sample_agent_def sample_request_def
      duration_defs Let_def)

lemma sample_poll_matches: "poll_matches sample_poll granted_task"
  by (simp add: poll_matches_def sample_poll_def sample_request_def)

lemma granted_authentic: "authentic toy_crypto sample_verifier sample_signed"
proof -
  have "sm_signature sample_signed = b64url_encode (toy_sign [7] (canonical_json toy_crypto (sm_data sample_signed)))"
    by (simp add: sample_signed_def Let_def)
  then show ?thesis
    by (simp add: authentic_def sample_signed_sel sample_verifier_def b64url_decode_encode)
       (simp add: toy_crypto_def)
qed

lemma granted_poll:
  "\<exists>result s'. poll_and_verify_mandate toy_crypto sample_verifier consume_memory (Aware 0 0)
     (\<lambda>_. Inr (map_task sample_agent granted_task)) sample_poll new_memory_store = Inr (result, s')
   \<and> mp_verification_status result = ''VERIFIED''"
proof -
  have "\<exists>vm s'. verify_and_consume toy_crypto sample_verifier consume_memory new_memory_store sample_signed
      (expected_scope sample_poll ''action_1'' ''inv_1'') (Aware 0 0) = Inr (vm, s')"
    using granted_mandate granted_authentic sample_poll_matches
    by (simp add: verify_and_consume_Inr approved_mandate_def poll_matches_def scope_mismatches_Nil expected_scope_def
        sample_signed_sel consume_claim_def consume_memory_def new_memory_store_def default_clock_skew_def duration_defs)
       (simp add: sample_poll_def)
  then obtain vm s' where "verify_and_consume toy_crypto sample_verifier consume_memory new_memory_store sample_signed
      (expected_scope sample_poll ''action_1'' ''inv_1'') (Aware 0 0) = Inr (vm, s')" by blast
  moreover have "rt_state (map_task sample_agent granted_task) = ''WORKING''"
    "rt_artifact (map_task sample_agent granted_task) = Some (Mandate_Data sample_signed)"
    "rt_remote_task_id (map_task sample_agent granted_task) = ''task_1''"
    by (simp_all add: map_task_def first_artifact_def)
  moreover have "valid_mandate sample_signed" using granted_mandate by (simp add: approved_mandate_def)
  ultimately show ?thesis
    by (simp add: poll_and_verify_mandate_def sample_poll_def verify_polled_def parse_a2a_instant_def sample_signed_sel
        duration_defs)
qed

lemma granted_unforged:
  "unforged toy_crypto sample_verifier (issued_mandates granted_rows) (Inr (map_task sample_agent granted_task))"
proof -
  have "sample_signed \<in> issued_mandates granted_rows"
    using granted_stored by (auto simp: issued_mandates_def intro!: exI [of _ "''task_1''"])
  then show ?thesis by (auto simp: unforged_def map_task_def first_artifact_def)
qed

theorem verified_mandate_was_approved_witness:
  "signs_correctly toy_crypto
   \<and> (\<exists>t envelope. sql_get granted_rows ''task_1'' = Some t \<and> approved_mandate sample_agent t envelope
       \<and> mandate_in_scope sample_poll (sm_data envelope))"
proof -
  obtain result s' where poll: "poll_and_verify_mandate toy_crypto sample_verifier consume_memory (Aware 0 0)
     (\<lambda>_. Inr (map_task sample_agent granted_task)) sample_poll new_memory_store = Inr (result, s')"
    "mp_verification_status result = ''VERIFIED''" using granted_poll by blast
  have "inj (timestamp_text toy_crypto)" using inj_toy_timestamp by (simp add: toy_crypto_def)
  moreover have "pm_remote_task_id sample_poll = ''task_1''" by (simp add: sample_poll_def)
  ultimately show ?thesis
    using verified_mandate_was_approved [OF granted_run _ granted_unforged poll] toy_signs_correctly by auto
qed

lemma sample_key_pinned: "map_of (mv_keys sample_verifier) (ms_signer_key_id (ca_signer sample_agent))
    = Some (ed25519_public (ca_crypto sample_agent) (ms_private_key (ca_signer sample_agent)))"
  by (simp add: sample_verifier_def sample_agent_def toy_crypto_def)

theorem approved_mandate_is_verified_witness:
  "\<exists>result db'. poll_and_verify_mandate (ca_crypto sample_agent) sample_verifier consume_sql (Aware 0 0)
       (remote_get sample_agent sql_store_ops (Some ''s2s'') (Some ''s2s'') granted_rows) sample_poll sample_a2a_db
       = Inr (result, db')
     \<and> mp_verification_status result = ''VERIFIED'' \<and> length (db_mandates db') = 1"
proof -
  have "fresh_claim sample_a2a_db (claim_of (ca_crypto sample_agent) (sm_data sample_signed) (utc_instant (Aware 0 0)))"
    by (simp add: fresh_claim_def claim_references_def sample_a2a_db_def claim_of_def sample_signed_def mandate_for_def
        sample_request_def Let_def)
  moreover have "in_window sample_verifier (sm_data sample_signed) (utc_instant (Aware 0 0))"
    by (simp add: in_window_def sample_signed_sel default_clock_skew_def duration_defs)
  moreover have "pm_recovery_deadline sample_poll = Some (rq_expires_at (tr_request granted_task))"
    by (simp add: sample_poll_def sample_request_def)
  moreover have "signs_correctly (ca_crypto sample_agent)"
    using toy_signs_correctly by (simp add: sample_agent_def)
  ultimately show ?thesis
    using approved_mandate_is_verified [where token = "Some ''s2s''", OF granted_ok _ _ _ sample_key_pinned sample_poll_matches,
        of granted_rows sample_signed "Aware 0 0" sample_a2a_db] granted_stored
    by (auto simp: sample_a2a_db_def)
qed

theorem payment_receipt_completes_task_witness:
  "\<exists>result rows' u. send_payment_receipt (ca_crypto sample_agent) \<lparr>rs_signer_key_id = ''receipt_key'', rs_private_key = [9]\<rparr>
       (remote_send sample_agent sql_store_ops None None id 0 ''8'' ''9'') sample_receipt_command granted_rows
       = Inr (result, rows')
     \<and> apr_delivered result \<and> sql_get rows' ''task_1'' = Some u \<and> tr_state u = TASK_STATE_COMPLETED"
proof -
  have "sql_tasks_inv granted_rows"
    by (simp add: sql_tasks_inv_def granted_rows_def task_row_def task_payload_def)
  moreover have "receipt_matches sample_receipt_command granted_task (sm_data sample_signed)"
    by (simp add: receipt_matches_def sample_receipt_command_def sample_signed_sel sample_request_def)
  moreover have "signs_correctly (ca_crypto sample_agent)"
    using toy_signs_correctly by (simp add: sample_agent_def)
  ultimately show ?thesis
    using payment_receipt_completes_task [where token = None and now = 0 and uuid = "''8''" and message_uuid = "''9''"
        and signer = "\<lparr>rs_signer_key_id = ''receipt_key'', rs_private_key = [9]\<rparr>",
        OF granted_ok, of granted_rows sample_signed sample_receipt_command] granted_stored
    by (auto simp: sample_agent_def toy_crypto_def toy_sign_def sample_receipt_command_def sample_message_def)
qed

end
