(* ===== verification/Voice_Contact.thy ===== *)
theory Voice_Contact
  imports A2A_Mandates Safety_Policy "HOL-Library.Sublist"
begin

text \<open>
  Voice contact, \<open>services/api/app/voice/\<close> and \<open>services/api/app/integrations/voice/safety.py\<close>: the
  intents and the limits of a call, the two repositories of call attempts, and the service that
  starts, follows and cancels calls.

  \<open>VoiceRepository\<close> is the protocol the service is written against, as a record of operations;
  \<open>memory_repository\<close> and \<open>sql_repository\<close> are its implementations. An operation of the service
  that calls the provider is split at that call, so that callbacks can arrive in between; the
  provider's answer is an argument. A text is ASCII; \<open>now\<close> is a reading of the clock in UTC. Columns
  that only fill the prompt of the agent (names, plan, amount) are left out.
\<close>

section \<open>Intents and limits (safety.py)\<close>

datatype VoiceIntent = Intent_OPT_OUT | Intent_DISPUTE | Intent_WRONG_PERSON | Intent_ALREADY_PAID
  | Intent_CALLBACK | Intent_PROMISE_TO_PAY | Intent_NEED_PAYMENT_HELP | Intent_UNKNOWN

fun intent_value :: "VoiceIntent \<Rightarrow> string" where
  "intent_value Intent_OPT_OUT = ''OPT_OUT''"
| "intent_value Intent_DISPUTE = ''DISPUTE''"
| "intent_value Intent_WRONG_PERSON = ''WRONG_PERSON''"
| "intent_value Intent_ALREADY_PAID = ''ALREADY_PAID''"
| "intent_value Intent_CALLBACK = ''CALLBACK''"
| "intent_value Intent_PROMISE_TO_PAY = ''PROMISE_TO_PAY''"
| "intent_value Intent_NEED_PAYMENT_HELP = ''NEED_PAYMENT_HELP''"
| "intent_value Intent_UNKNOWN = ''UNKNOWN''"

definition intent_of_value :: "string \<Rightarrow> VoiceIntent option" where
  "intent_of_value s = find (\<lambda>i. intent_value i = s) [Intent_OPT_OUT, Intent_DISPUTE, Intent_WRONG_PERSON,
     Intent_ALREADY_PAID, Intent_CALLBACK, Intent_PROMISE_TO_PAY, Intent_NEED_PAYMENT_HELP, Intent_UNKNOWN]"

definition INTENT_PATTERNS :: "(VoiceIntent \<times> string list) list" where
  "INTENT_PATTERNS =
     [(Intent_OPT_OUT, [''stop calling'', ''do not call'', ''don't call'', ''opt out'', ''call mat'']),
      (Intent_DISPUTE, [''dispute'', ''fraud'', ''not my charge'', ''galat charge'', ''scam'']),
      (Intent_WRONG_PERSON, [''wrong person'', ''wrong number'', ''main woh nahi'', ''yeh unka number nahi'']),
      (Intent_ALREADY_PAID, [''already paid'', ''payment kar diya'', ''paid already'', ''ho gaya'']),
      (Intent_CALLBACK, [''call back'', ''later'', ''baad mein'', ''abhi busy'']),
      (Intent_PROMISE_TO_PAY, [''will pay'', ''pay tomorrow'', ''kal pay'', ''kar dunga'']),
      (Intent_NEED_PAYMENT_HELP, [''payment link'', ''card update'', ''help me pay'', ''kaise pay''])]"

text \<open>\<open>re.sub(r"\s+", " ", s)\<close>: every run of white space becomes one blank.\<close>

function squeeze_spaces :: "string \<Rightarrow> string" where
  "squeeze_spaces [] = []"
| "squeeze_spaces (c # s) =
     (if py_space c then CHR '' '' # squeeze_spaces (dropWhile py_space s) else c # squeeze_spaces s)"
  by pat_completeness auto
termination
  by (relation "measure length") (auto simp: le_imp_less_Suc length_dropWhile_le)

definition normalized_transcript :: "string \<Rightarrow> string" where
  "normalized_transcript s = py_strip (squeeze_spaces (py_lower s))"

definition detect_voice_intent :: "string \<Rightarrow> VoiceIntent" where
  "detect_voice_intent transcript =
     (case find (\<lambda>(i, phrases). \<exists>p \<in> set phrases. sublist p (normalized_transcript transcript)) INTENT_PATTERNS of
        Some (i, _) \<Rightarrow> i | None \<Rightarrow> Intent_UNKNOWN)"

text \<open>The wall clock of the merchant is a number of microseconds, a time of day its rest in the day.\<close>

record VoiceSafetyContext =
  vx_now_local :: int
  vx_quiet_hours_start :: "int option"
  vx_quiet_hours_end :: "int option"
  vx_real_calls_enabled :: bool
  vx_operator_authorized :: bool
  vx_kill_switch :: bool
  vx_destination_allowlisted :: bool
  vx_consent_verified_at :: "instant option"
  vx_opted_out_at :: "instant option"
  vx_active_calls :: nat
  vx_calls_today :: nat
  vx_max_duration_seconds :: int

definition inside_quiet_hours :: "int \<Rightarrow> int \<Rightarrow> int \<Rightarrow> bool" where
  "inside_quiet_hours t start stop \<longleftrightarrow>
     (if start = stop then True else if start < stop then start \<le> t \<and> t < stop else t \<ge> start \<or> t < stop)"

definition quiet_now :: "VoiceSafetyContext \<Rightarrow> bool" where
  "quiet_now x \<longleftrightarrow> (case (vx_quiet_hours_start x, vx_quiet_hours_end x) of
     (Some start, Some stop) \<Rightarrow> inside_quiet_hours (vx_now_local x mod days 1) start stop | _ \<Rightarrow> False)"

definition safety_checks :: "VoiceSafetyContext \<Rightarrow> (bool \<times> string) list" where
  "safety_checks x =
     [(\<not> vx_real_calls_enabled x, ''REAL_CALLS_DISABLED''), (\<not> vx_operator_authorized x, ''OPERATOR_AUTH_REQUIRED''),
      (vx_kill_switch x, ''VOICE_KILL_SWITCH''), (\<not> vx_destination_allowlisted x, ''DESTINATION_NOT_ALLOWLISTED''),
      (vx_consent_verified_at x = None, ''CONSENT_NOT_VERIFIED''), (vx_opted_out_at x \<noteq> None, ''CUSTOMER_SUPPRESSED''),
      (vx_active_calls x \<ge> 1, ''CONCURRENT_CALL_LIMIT''), (vx_calls_today x \<ge> 10, ''DAILY_CALL_LIMIT''),
      (vx_max_duration_seconds x > 180, ''DURATION_LIMIT''), (quiet_now x, ''QUIET_HOURS'')]"

text \<open>A decision is the flag \<open>allowed\<close> with a reason code.\<close>

definition evaluate_voice_safety :: "VoiceSafetyContext \<Rightarrow> bool \<times> string" where
  "evaluate_voice_safety x = (case find fst (safety_checks x) of
     Some (_, code) \<Rightarrow> (False, code) | None \<Rightarrow> (True, ''VOICE_CONTACT_ALLOWED''))"

section \<open>The lifecycle of a call (service.py)\<close>

datatype voice_error = Voice_Value_Error string | Voice_Integrity_Error | Voice_Type_Error string
  | Voice_Zone_Not_Found | Voice_Provider_Error

definition AI_DISCLOSURE :: string where
  "AI_DISCLOSURE = ''This is an automated call from a RecoveryOS AI assistant. The assistant will never ask for card details.''"

definition VOICE_TERMINAL_STATUSES :: "string set" where
  "VOICE_TERMINAL_STATUSES = {''BUSY'', ''CANCELED'', ''COMPLETED'', ''FAILED'', ''NO_ANSWER'', ''REJECTED'',
     ''CANCEL_PENDING'', ''CANCEL_UNCERTAIN''}"

definition ACTIVE_VOICE_STATUSES :: "string set" where
  "ACTIVE_VOICE_STATUSES = {''RESERVED'', ''SUBMITTED'', ''RINGING'', ''IN_PROGRESS''}"

definition VOICE_STATUS_ALIASES :: "(string \<times> string) list" where
  "VOICE_STATUS_ALIASES = [(''ANSWERED'', ''IN_PROGRESS''), (''BUSY'', ''BUSY''), (''CANCELED'', ''CANCELED''),
     (''CANCELLED'', ''CANCELED''), (''COMPLETED'', ''COMPLETED''), (''FAILED'', ''FAILED''),
     (''IN-PROGRESS'', ''IN_PROGRESS''), (''IN_PROGRESS'', ''IN_PROGRESS''), (''INITIATED'', ''SUBMITTED''),
     (''NO-ANSWER'', ''NO_ANSWER''), (''NO_ANSWER'', ''NO_ANSWER''), (''QUEUED'', ''SUBMITTED''),
     (''RINGING'', ''RINGING''), (''SUBMITTED'', ''SUBMITTED'')]"

definition VOICE_STATUS_RANK :: "string \<Rightarrow> int" where
  "VOICE_STATUS_RANK s = (case map_of [(''RESERVED'', 0), (''UNCERTAIN'', 0), (''SUBMITTED'', 1), (''RINGING'', 2),
     (''IN_PROGRESS'', 3)] s of None \<Rightarrow> -1 | Some r \<Rightarrow> r)"

definition replace_char :: "char \<Rightarrow> char \<Rightarrow> string \<Rightarrow> string" where
  "replace_char a b s = map (\<lambda>c. if c = a then b else c) s"

definition normalize_voice_status :: "string \<Rightarrow> voice_error + string" where
  "normalize_voice_status v =
     (case map_of VOICE_STATUS_ALIASES (replace_char (CHR '' '') (CHR ''_'') (py_upper (py_strip v))) of
        None \<Rightarrow> Inl (Voice_Value_Error ''unsupported Twilio call status'') | Some s \<Rightarrow> Inr s)"

definition can_advance_voice_status :: "string \<Rightarrow> string \<Rightarrow> bool" where
  "can_advance_voice_status current candidate =
     (let cur = py_upper (py_strip current); cand = py_upper (py_strip candidate) in
      if cur = cand then True
      else if cur \<in> VOICE_TERMINAL_STATUSES then False
      else if cand \<in> VOICE_TERMINAL_STATUSES then True
      else VOICE_STATUS_RANK cand \<ge> VOICE_STATUS_RANK cur)"

record VoiceSubject =
  vj_merchant_id :: ident
  vj_case_id :: ident
  vj_customer_id :: ident
  vj_destination_token :: string
  vj_preferred_language :: string
  vj_consent_verified_at :: "instant option"
  vj_opted_out_at :: "instant option"
  vj_timezone :: string
  vj_kill_switch :: bool
  vj_quiet_hours_start :: "int option"
  vj_quiet_hours_end :: "int option"

record VoiceAttempt =
  va_id :: ident
  va_merchant_id :: ident
  va_case_id :: ident
  va_customer_id :: ident
  va_idempotency_key :: string
  va_provider :: string
  va_status :: string
  va_created_at :: instant
  va_provider_call_id :: "string option"
  va_disposition :: "string option"
  va_transcript :: "string option"
  va_detected_intent :: "string option"
  va_confidence_basis_points :: "int option"
  va_duration_seconds :: "int option"
  va_disclosure_delivered_at :: "instant option"
  va_uncertain_submission :: bool

record VoiceReservationClaim =
  vrc_attempt :: VoiceAttempt
  vrc_claimed :: bool

record VoiceCancellationClaim =
  vcc_attempt :: "VoiceAttempt option"
  vcc_claimed :: bool

record VoiceCancellationResult =
  vc_status :: string
  vc_cancellation_key :: string
  vc_attempt_id :: "ident option"
  vc_provider_submission_performed :: bool
  vc_reason_code :: "string option"

record VoiceContactRequest =
  vq_idempotency_key :: string
  vq_case_id :: ident
  vq_customer_id :: ident
  vq_destination_token :: string
  vq_preferred_language :: string
  vq_consent_verified_at :: instant
  vq_max_duration_seconds :: int
  vq_disclosure_text :: string

definition valid_contact_request :: "VoiceContactRequest \<Rightarrow> bool" where
  "valid_contact_request q \<longleftrightarrow> 0 < vq_max_duration_seconds q \<and> vq_max_duration_seconds q \<le> 180"

record VoiceContactResult =
  vr_provider :: string
  vr_contact_attempt_id :: ident
  vr_provider_call_id :: "string option"
  vr_status :: string
  vr_reason_code :: "string option"

text \<open>The entries of the dictionary \<open>changes\<close> of a callback, in their order.\<close>

datatype voice_change = Set_status string | Set_provider_call_id string | Set_disposition string
  | Set_transcript string | Set_detected_intent string | Set_confidence "int option" | Set_duration int
  | Set_disclosure "instant option"

fun set_change :: "voice_change \<Rightarrow> 'z VoiceAttempt_scheme \<Rightarrow> 'z VoiceAttempt_scheme" where
  "set_change (Set_status s) a = a\<lparr>va_status := s\<rparr>"
| "set_change (Set_provider_call_id s) a = a\<lparr>va_provider_call_id := Some s\<rparr>"
| "set_change (Set_disposition s) a = a\<lparr>va_disposition := Some s\<rparr>"
| "set_change (Set_transcript s) a = a\<lparr>va_transcript := Some s\<rparr>"
| "set_change (Set_detected_intent s) a = a\<lparr>va_detected_intent := Some s\<rparr>"
| "set_change (Set_confidence i) a = a\<lparr>va_confidence_basis_points := i\<rparr>"
| "set_change (Set_duration i) a = a\<lparr>va_duration_seconds := Some i\<rparr>"
| "set_change (Set_disclosure t) a = a\<lparr>va_disclosure_delivered_at := t\<rparr>"

fun incoming_status :: "voice_change list \<Rightarrow> string option" where
  "incoming_status [] = None"
| "incoming_status (Set_status s # _) = Some s"
| "incoming_status (_ # cs) = incoming_status cs"

fun moves_call :: "voice_change \<Rightarrow> bool" where
  "moves_call (Set_status _) = True"
| "moves_call (Set_disposition _) = True"
| "moves_call _ = False"

text \<open>A callback that would move the call backwards keeps its other entries.\<close>

definition admitted_changes :: "string \<Rightarrow> voice_change list \<Rightarrow> voice_change list" where
  "admitted_changes current changes = (case incoming_status changes of
     None \<Rightarrow> changes
   | Some s \<Rightarrow> if can_advance_voice_status current s then changes else filter (\<lambda>c. \<not> moves_call c) changes)"

text \<open>
  The protocol of the service. \<open>Inl\<close> is an exception; the state is then that of the last commit.
  \<open>vp_rolls_back\<close> says whether an exception also undoes what was not committed before it.
\<close>

record 's VoiceRepository =
  vp_load_subject :: "ident \<Rightarrow> 's \<Rightarrow> voice_error + VoiceSubject option"
  vp_configure_subject :: "ident \<Rightarrow> string \<Rightarrow> string \<Rightarrow> bool \<Rightarrow> instant \<Rightarrow> 's \<Rightarrow> voice_error + VoiceSubject option \<times> 's"
  vp_get_by_idempotency :: "string \<Rightarrow> 's \<Rightarrow> VoiceAttempt option"
  vp_active_count :: "'s \<Rightarrow> nat"
  vp_calls_today :: "instant \<Rightarrow> 's \<Rightarrow> nat"
  vp_save_attempt :: "VoiceAttempt option \<Rightarrow> VoiceAttempt \<Rightarrow> 's \<Rightarrow> voice_error + VoiceAttempt \<times> 's"
  vp_reserve_attempt :: "VoiceAttempt \<Rightarrow> 's \<Rightarrow> voice_error + VoiceReservationClaim \<times> 's"
  vp_get_attempt :: "ident \<Rightarrow> 's \<Rightarrow> VoiceAttempt option"
  vp_list_attempts :: "ident \<Rightarrow> 's \<Rightarrow> VoiceAttempt list"
  vp_apply_callback :: "string \<Rightarrow> string \<Rightarrow> ident \<Rightarrow> voice_change list \<Rightarrow> 's
    \<Rightarrow> voice_error + (VoiceAttempt option \<times> bool) \<times> 's"
  vp_suppress :: "instant \<Rightarrow> VoiceAttempt \<Rightarrow> string \<Rightarrow> 's \<Rightarrow> bool \<times> 's"
  vp_claim_payment_cancellation :: "ident \<Rightarrow> string \<Rightarrow> instant \<Rightarrow> 's \<Rightarrow> VoiceCancellationClaim \<times> 's"
  vp_finalize_payment_cancellation :: "ident \<Rightarrow> string \<Rightarrow> bool \<Rightarrow> instant \<Rightarrow> string option \<Rightarrow> 's
    \<Rightarrow> voice_error + VoiceAttempt \<times> 's"
  vp_get_payment_cancellation :: "string \<Rightarrow> 's \<Rightarrow> VoiceAttempt option"
  vp_rolls_back :: bool

section \<open>The in-memory repository (service.py)\<close>

text \<open>A dictionary is the list of its values, in the order of insertion.\<close>

record InMemoryVoiceRepository =
  mv_subjects :: "VoiceSubject list"
  mv_attempts :: "VoiceAttempt list"
  mv_receipts :: "(string \<times> string) set"
  mv_suppressions :: "(ident \<times> ident) set"
  mv_payment_cancellations :: "(string \<times> ident) list"

definition put_row :: "('r \<Rightarrow> 'k) \<Rightarrow> 'r \<Rightarrow> 'r list \<Rightarrow> 'r list" where
  "put_row key r rows = (if key r \<in> key ` set rows then save_row key r rows else rows @ [r])"

definition is_active :: "'z VoiceAttempt_scheme \<Rightarrow> bool" where
  "is_active a \<longleftrightarrow> va_status a \<in> ACTIVE_VOICE_STATUSES"

definition memory_load_subject :: "ident \<Rightarrow> InMemoryVoiceRepository \<Rightarrow> VoiceSubject option" where
  "memory_load_subject case_id s = find (\<lambda>j. vj_case_id j = case_id) (mv_subjects s)"

definition memory_configure_subject ::
    "ident \<Rightarrow> string \<Rightarrow> string \<Rightarrow> bool \<Rightarrow> instant \<Rightarrow> InMemoryVoiceRepository
     \<Rightarrow> VoiceSubject option \<times> InMemoryVoiceRepository" where
  "memory_configure_subject case_id token language consent now s = (case memory_load_subject case_id s of
     None \<Rightarrow> (None, s)
   | Some j \<Rightarrow> (let configured = j\<lparr>vj_destination_token := token, vj_preferred_language := language,
         vj_consent_verified_at := (if consent then Some now else None)\<rparr>
       in (Some configured, s\<lparr>mv_subjects := put_row vj_case_id configured (mv_subjects s)\<rparr>)))"

definition memory_get_by_idempotency :: "string \<Rightarrow> InMemoryVoiceRepository \<Rightarrow> VoiceAttempt option" where
  "memory_get_by_idempotency key s = find (\<lambda>a. va_idempotency_key a = key) (mv_attempts s)"

definition memory_active_count :: "InMemoryVoiceRepository \<Rightarrow> nat" where
  "memory_active_count s = length (filter is_active (mv_attempts s))"

definition same_day :: "instant \<Rightarrow> 'z VoiceAttempt_scheme \<Rightarrow> bool" where
  "same_day now a \<longleftrightarrow> va_created_at a div days 1 = now div days 1"

definition memory_calls_today :: "instant \<Rightarrow> InMemoryVoiceRepository \<Rightarrow> nat" where
  "memory_calls_today now s = length (filter (same_day now) (mv_attempts s))"

definition memory_save_attempt ::
    "VoiceAttempt \<Rightarrow> InMemoryVoiceRepository \<Rightarrow> VoiceAttempt \<times> InMemoryVoiceRepository" where
  "memory_save_attempt a s = (a, s\<lparr>mv_attempts := put_row va_id a (mv_attempts s)\<rparr>)"

definition memory_reserve_attempt ::
    "VoiceAttempt \<Rightarrow> InMemoryVoiceRepository \<Rightarrow> VoiceReservationClaim \<times> InMemoryVoiceRepository" where
  "memory_reserve_attempt a s = (case memory_get_by_idempotency (va_idempotency_key a) s of
     Some existing \<Rightarrow> (\<lparr>vrc_attempt = existing, vrc_claimed = False\<rparr>, s)
   | None \<Rightarrow> (\<lparr>vrc_attempt = a, vrc_claimed = True\<rparr>, snd (memory_save_attempt a s)))"

definition memory_get_attempt :: "ident \<Rightarrow> InMemoryVoiceRepository \<Rightarrow> VoiceAttempt option" where
  "memory_get_attempt i s = find (\<lambda>a. va_id a = i) (mv_attempts s)"

text \<open>\<open>sorted(..., reverse=True)\<close> keeps the order of equal elements.\<close>

definition newest_first :: "VoiceAttempt list \<Rightarrow> VoiceAttempt list" where
  "newest_first = sort_key (\<lambda>a. - va_created_at a)"

definition memory_list_attempts :: "ident \<Rightarrow> InMemoryVoiceRepository \<Rightarrow> VoiceAttempt list" where
  "memory_list_attempts case_id s = newest_first (filter (\<lambda>a. va_case_id a = case_id) (mv_attempts s))"

definition memory_apply_callback ::
    "string \<Rightarrow> string \<Rightarrow> ident \<Rightarrow> voice_change list \<Rightarrow> InMemoryVoiceRepository
     \<Rightarrow> (VoiceAttempt option \<times> bool) \<times> InMemoryVoiceRepository" where
  "memory_apply_callback provider event_id attempt_id changes s =
     (if (provider, event_id) \<in> mv_receipts s then ((memory_get_attempt attempt_id s, True), s)
      else let s1 = s\<lparr>mv_receipts := insert (provider, event_id) (mv_receipts s)\<rparr> in
        case memory_get_attempt attempt_id s1 of
          None \<Rightarrow> ((None, False), s1)
        | Some current \<Rightarrow>
            (let updated = fold set_change (admitted_changes (va_status current) changes) current
             in ((Some updated, False), s1\<lparr>mv_attempts := put_row va_id updated (mv_attempts s1)\<rparr>)))"

definition memory_suppress ::
    "instant \<Rightarrow> VoiceAttempt \<Rightarrow> InMemoryVoiceRepository \<Rightarrow> bool \<times> InMemoryVoiceRepository" where
  "memory_suppress now a s =
     (let k = (va_merchant_id a, va_customer_id a);
          s1 = s\<lparr>mv_suppressions := insert k (mv_suppressions s)\<rparr>
      in (k \<notin> mv_suppressions s, case memory_load_subject (va_case_id a) s1 of
            None \<Rightarrow> s1
          | Some j \<Rightarrow> s1\<lparr>mv_subjects := put_row vj_case_id (j\<lparr>vj_opted_out_at := Some now\<rparr>) (mv_subjects s1)\<rparr>))"

definition memory_claim_payment_cancellation ::
    "ident \<Rightarrow> string \<Rightarrow> InMemoryVoiceRepository \<Rightarrow> VoiceCancellationClaim \<times> InMemoryVoiceRepository" where
  "memory_claim_payment_cancellation case_id key s = (case map_of (mv_payment_cancellations s) key of
     Some i \<Rightarrow> (\<lparr>vcc_attempt = memory_get_attempt i s, vcc_claimed = False\<rparr>, s)
   | None \<Rightarrow> (case find (\<lambda>a. va_case_id a = case_id \<and> is_active a) (newest_first (mv_attempts s)) of
       None \<Rightarrow> (\<lparr>vcc_attempt = None, vcc_claimed = False\<rparr>, s)
     | Some a \<Rightarrow> (let pending = a\<lparr>va_status := ''CANCEL_PENDING'', va_disposition := Some ''PAYMENT_RECOVERED''\<rparr>
         in (\<lparr>vcc_attempt = Some pending, vcc_claimed = True\<rparr>,
             s\<lparr>mv_attempts := put_row va_id pending (mv_attempts s),
               mv_payment_cancellations := (key, va_id a) # mv_payment_cancellations s\<rparr>))))"

definition cancellation_observed :: "bool \<Rightarrow> 'z VoiceAttempt_scheme \<Rightarrow> 'z VoiceAttempt_scheme" where
  "cancellation_observed confirmed a = a\<lparr>va_status := (if confirmed then ''CANCELED'' else ''CANCEL_UNCERTAIN''),
     va_disposition := Some ''PAYMENT_RECOVERED'', va_uncertain_submission := \<not> confirmed\<rparr>"

definition memory_finalize_payment_cancellation ::
    "ident \<Rightarrow> string \<Rightarrow> bool \<Rightarrow> InMemoryVoiceRepository \<Rightarrow> voice_error + VoiceAttempt \<times> InMemoryVoiceRepository" where
  "memory_finalize_payment_cancellation attempt_id key confirmed s =
     (if map_of (mv_payment_cancellations s) key \<noteq> Some attempt_id
      then Inl (Voice_Value_Error ''voice cancellation claim does not match the attempt'')
      else case memory_get_attempt attempt_id s of
        None \<Rightarrow> Inl (Voice_Type_Error ''KeyError'')
      | Some a \<Rightarrow> Inr (cancellation_observed confirmed a,
          s\<lparr>mv_attempts := put_row va_id (cancellation_observed confirmed a) (mv_attempts s)\<rparr>))"

definition memory_get_payment_cancellation :: "string \<Rightarrow> InMemoryVoiceRepository \<Rightarrow> VoiceAttempt option" where
  "memory_get_payment_cancellation key s = (case map_of (mv_payment_cancellations s) key of
     None \<Rightarrow> None | Some i \<Rightarrow> if i = [] then None else memory_get_attempt i s)"

definition memory_repository :: "InMemoryVoiceRepository VoiceRepository" where
  "memory_repository = \<lparr>
     vp_load_subject = (\<lambda>i s. Inr (memory_load_subject i s)),
     vp_configure_subject = (\<lambda>i token language consent now s. Inr (memory_configure_subject i token language consent now s)),
     vp_get_by_idempotency = memory_get_by_idempotency,
     vp_active_count = memory_active_count,
     vp_calls_today = memory_calls_today,
     vp_save_attempt = (\<lambda>held a s. Inr (memory_save_attempt a s)),
     vp_reserve_attempt = (\<lambda>a s. Inr (memory_reserve_attempt a s)),
     vp_get_attempt = memory_get_attempt,
     vp_list_attempts = memory_list_attempts,
     vp_apply_callback = (\<lambda>p e i cs s. Inr (memory_apply_callback p e i cs s)),
     vp_suppress = (\<lambda>now a reason s. memory_suppress now a s),
     vp_claim_payment_cancellation = (\<lambda>i key now s. memory_claim_payment_cancellation i key s),
     vp_finalize_payment_cancellation = (\<lambda>i key confirmed now code s. memory_finalize_payment_cancellation i key confirmed s),
     vp_get_payment_cancellation = memory_get_payment_cancellation,
     vp_rolls_back = False\<rparr>"

section \<open>The database repository (models.py, repository.py)\<close>

text \<open>The entry \<open>payment_cancellation\<close> of the column \<open>provider_payload\<close>, which holds nothing else.\<close>

record PaymentCancellation =
  pc_cancellation_key :: string
  pc_state :: string
  pc_requested_at :: "instant option"
  pc_observed_at :: "instant option"
  pc_error_code :: "string option"

record VoiceContactAttemptRecord = VoiceAttempt +
  vt_destination_token :: string
  vt_payment_cancellation :: "PaymentCancellation option"
  vt_disclosure_text :: string
  vt_consent_verified_at :: instant
  vt_completed_at :: "instant option"
  vt_recording_enabled :: bool
  vt_max_duration_seconds :: int

record VoiceWebhookReceiptRecord =
  wr_provider :: string
  wr_provider_event_id :: string
  wr_attempt_id :: "ident option"

record VoiceSuppressionRecord =
  vsp_merchant_id :: ident
  vsp_customer_id :: ident
  vsp_source_attempt_id :: "ident option"
  vsp_reason_code :: string

record voice_database =
  vd_core :: a2a_database
  vd_attempts :: "VoiceContactAttemptRecord list"
  vd_receipts :: "VoiceWebhookReceiptRecord list"
  vd_suppressions :: "VoiceSuppressionRecord list"

text \<open>
  The unique constraints: the last disjunct is the partial index \<open>uq_voice_contact_one_active\<close>, by
  which at most one attempt is active.
\<close>

definition attempt_clash :: "VoiceContactAttemptRecord \<Rightarrow> VoiceContactAttemptRecord \<Rightarrow> bool" where
  "attempt_clash a b \<longleftrightarrow> va_id a = va_id b \<or> va_idempotency_key a = va_idempotency_key b
     \<or> va_provider_call_id a \<noteq> None \<and> va_provider_call_id a = va_provider_call_id b
     \<or> is_active a \<and> is_active b \<and> vt_recording_enabled a = vt_recording_enabled b"

definition attempt_constraints :: "VoiceContactAttemptRecord \<Rightarrow> bool" where
  "attempt_constraints a \<longleftrightarrow> 0 < vt_max_duration_seconds a \<and> vt_max_duration_seconds a \<le> 180
     \<and> \<not> vt_recording_enabled a
     \<and> (case va_confidence_basis_points a of None \<Rightarrow> True | Some n \<Rightarrow> 0 \<le> n \<and> n \<le> 10000)
     \<and> (case va_duration_seconds a of None \<Rightarrow> True | Some n \<Rightarrow> 0 \<le> n)"

text \<open>\<open>INSERT\<close> and the \<open>UPDATE\<close> of one row by its primary key, with the constraints of the table.\<close>

definition insert_attempt ::
    "VoiceContactAttemptRecord \<Rightarrow> VoiceContactAttemptRecord list \<Rightarrow> voice_error + VoiceContactAttemptRecord list" where
  "insert_attempt a rows =
     (if attempt_constraints a \<and> (\<forall>b \<in> set rows. \<not> attempt_clash a b) then Inr (rows @ [a]) else Inl Voice_Integrity_Error)"

definition update_attempt ::
    "VoiceContactAttemptRecord \<Rightarrow> VoiceContactAttemptRecord list \<Rightarrow> voice_error + VoiceContactAttemptRecord list" where
  "update_attempt a rows =
     (if attempt_constraints a \<and> (\<forall>b \<in> set rows. va_id b \<noteq> va_id a \<longrightarrow> \<not> attempt_clash a b)
      then Inr (save_row va_id a rows) else Inl Voice_Integrity_Error)"

definition receipt_clash :: "VoiceWebhookReceiptRecord \<Rightarrow> VoiceWebhookReceiptRecord \<Rightarrow> bool" where
  "receipt_clash a b \<longleftrightarrow> wr_provider a = wr_provider b \<and> wr_provider_event_id a = wr_provider_event_id b"

definition suppression_clash :: "VoiceSuppressionRecord \<Rightarrow> VoiceSuppressionRecord \<Rightarrow> bool" where
  "suppression_clash a b \<longleftrightarrow> vsp_merchant_id a = vsp_merchant_id b \<and> vsp_customer_id a = vsp_customer_id b"

definition to_attempt :: "VoiceContactAttemptRecord \<Rightarrow> VoiceAttempt" where
  "to_attempt r = VoiceAttempt.truncate r"

text \<open>\<open>datetime.strptime(value, "%H:%M")\<close>: one or two digits on each side of the colon.\<close>

definition clock_digit :: "char \<Rightarrow> int option" where
  "clock_digit c = (let n = (of_char c :: nat) in if 48 \<le> n \<and> n \<le> 57 then Some (int n - 48) else None)"

definition clock_number :: "string \<Rightarrow> int option" where
  "clock_number s = (case s of
     [a] \<Rightarrow> clock_digit a
   | [a, b] \<Rightarrow> (case (clock_digit a, clock_digit b) of (Some x, Some y) \<Rightarrow> Some (10 * x + y) | _ \<Rightarrow> None)
   | _ \<Rightarrow> None)"

definition parse_time :: "string option \<Rightarrow> voice_error + int option" where
  "parse_time v = (case v of None \<Rightarrow> Inr None | Some s \<Rightarrow>
     (let h = takeWhile (\<lambda>c. c \<noteq> CHR '':'') s; rest = dropWhile (\<lambda>c. c \<noteq> CHR '':'') s in
      case (clock_number h, rest) of
        (Some x, _ # m) \<Rightarrow> (case clock_number m of
            Some y \<Rightarrow> if x < 24 \<and> y < 60 then Inr (Some (hours x + minutes y))
              else Inl (Voice_Value_Error ''time data does not match format'')
          | None \<Rightarrow> Inl (Voice_Value_Error ''time data does not match format''))
      | _ \<Rightarrow> Inl (Voice_Value_Error ''time data does not match format'')))"

definition subject_rows :: "a2a_database \<Rightarrow> ident \<Rightarrow> (RecoveryCase \<times> Customer \<times> Merchant) list" where
  "subject_rows db case_id = [(c, u, m). c \<leftarrow> db_cases db, u \<leftarrow> db_customers db, m \<leftarrow> db_merchants db, b \<leftarrow> db_subscriptions db,
     rc_id c = case_id \<and> cu_id u = rc_customer_id c \<and> mr_id m = rc_merchant_id c \<and> sb_id b = rc_subscription_id c]"

definition sql_load_subject :: "ident \<Rightarrow> voice_database \<Rightarrow> voice_error + VoiceSubject option" where
  "sql_load_subject case_id s = (case subject_rows (vd_core s) case_id of
     [] \<Rightarrow> Inr None
   | [(c, u, m)] \<Rightarrow>
       (let setting = find (\<lambda>g. st_merchant_id g = mr_id m) (db_settings (vd_core s)) in
        bindE (parse_time (case setting of None \<Rightarrow> Some ''20:00'' | Some g \<Rightarrow> st_quiet_hours_start g)) (\<lambda>start.
        bindE (parse_time (case setting of None \<Rightarrow> Some ''09:00'' | Some g \<Rightarrow> st_quiet_hours_end g)) (\<lambda>stop.
          Inr (Some \<lparr>vj_merchant_id = rc_merchant_id c, vj_case_id = rc_id c, vj_customer_id = cu_id u,
            vj_destination_token = (case cu_phone_token u of None \<Rightarrow> [] | Some t \<Rightarrow> t),
            vj_preferred_language = cu_preferred_language u, vj_consent_verified_at = cu_voice_consent_at u,
            vj_opted_out_at = cu_opted_out_at u, vj_timezone = mr_timezone m,
            vj_kill_switch = (case setting of None \<Rightarrow> False | Some g \<Rightarrow> st_recovery_kill_switch g),
            vj_quiet_hours_start = start, vj_quiet_hours_end = stop\<rparr>))))
   | _ \<Rightarrow> Inl (Voice_Type_Error ''MultipleResultsFound''))"

text \<open>The customer of the case is updated; the subject is then read again.\<close>

definition sql_configure_subject ::
    "ident \<Rightarrow> string \<Rightarrow> string \<Rightarrow> bool \<Rightarrow> instant \<Rightarrow> voice_database
     \<Rightarrow> voice_error + VoiceSubject option \<times> voice_database" where
  "sql_configure_subject case_id token language consent now s =
     (case [u. c \<leftarrow> db_cases (vd_core s), u \<leftarrow> db_customers (vd_core s), rc_id c = case_id \<and> rc_customer_id c = cu_id u] of
        [] \<Rightarrow> Inr (None, s)
      | u # _ \<Rightarrow>
          (let u' = u\<lparr>cu_phone_token := Some token, cu_preferred_language := language,
                 cu_voice_consent_at := (if consent then Some now else None)\<rparr>;
               s' = s\<lparr>vd_core := (vd_core s)\<lparr>db_customers := save_row cu_id u' (db_customers (vd_core s))\<rparr>\<rparr>
           in bindE (sql_load_subject case_id s') (\<lambda>j. Inr (j, s'))))"

definition find_attempt :: "ident \<Rightarrow> voice_database \<Rightarrow> VoiceContactAttemptRecord option" where
  "find_attempt i s = find (\<lambda>r. va_id r = i) (vd_attempts s)"

definition sql_get_by_idempotency :: "string \<Rightarrow> voice_database \<Rightarrow> VoiceAttempt option" where
  "sql_get_by_idempotency key s = map_option to_attempt (find (\<lambda>r. va_idempotency_key r = key) (vd_attempts s))"

definition sql_active_count :: "voice_database \<Rightarrow> nat" where
  "sql_active_count s = length (filter is_active (vd_attempts s))"

definition sql_calls_today :: "instant \<Rightarrow> voice_database \<Rightarrow> nat" where
  "sql_calls_today now s = (let start = now - now mod days 1 in
     length (filter (\<lambda>r. start \<le> va_created_at r \<and> va_created_at r < start + days 1) (vd_attempts s)))"

definition new_attempt_row :: "VoiceAttempt \<Rightarrow> VoiceSubject \<Rightarrow> instant \<Rightarrow> VoiceContactAttemptRecord" where
  "new_attempt_row a j consent_at = \<lparr>va_id = va_id a, va_merchant_id = va_merchant_id a, va_case_id = va_case_id a,
     va_customer_id = va_customer_id a, va_idempotency_key = va_idempotency_key a, va_provider = va_provider a,
     va_status = va_status a, va_created_at = va_created_at a, va_provider_call_id = None, va_disposition = None,
     va_transcript = None, va_detected_intent = None, va_confidence_basis_points = None, va_duration_seconds = None,
     va_disclosure_delivered_at = None, va_uncertain_submission = va_uncertain_submission a,
     vt_destination_token = vj_destination_token j, vt_payment_cancellation = None, vt_disclosure_text = AI_DISCLOSURE,
     vt_consent_verified_at = consent_at, vt_completed_at = None, vt_recording_enabled = False,
     vt_max_duration_seconds = 180\<rparr>"

text \<open>
  A flush writes the columns that differ from the copy the session holds: \<open>held\<close> is the copy since
  the reservation, if the session still has it, and otherwise the row is read again.
\<close>

definition write_columns :: "VoiceAttempt \<Rightarrow> VoiceAttempt \<Rightarrow> VoiceContactAttemptRecord \<Rightarrow> VoiceContactAttemptRecord" where
  "write_columns loaded a r =
     (let text = (\<lambda>get now. if get a = get loaded then now else get a);
          number = (\<lambda>get now. if get a = get loaded then now else get a) in
      r\<lparr>va_provider_call_id := text va_provider_call_id (va_provider_call_id r),
        va_status := (if va_status a = va_status loaded then va_status r else va_status a),
        va_disposition := text va_disposition (va_disposition r),
        va_transcript := text va_transcript (va_transcript r),
        va_detected_intent := text va_detected_intent (va_detected_intent r),
        va_confidence_basis_points := number va_confidence_basis_points (va_confidence_basis_points r),
        va_duration_seconds := number va_duration_seconds (va_duration_seconds r),
        va_disclosure_delivered_at := number va_disclosure_delivered_at (va_disclosure_delivered_at r),
        va_uncertain_submission := (if va_uncertain_submission a = va_uncertain_submission loaded
          then va_uncertain_submission r else va_uncertain_submission a)\<rparr>)"

definition sql_save_attempt ::
    "VoiceAttempt option \<Rightarrow> VoiceAttempt \<Rightarrow> voice_database \<Rightarrow> voice_error + VoiceAttempt \<times> voice_database" where
  "sql_save_attempt held a s = (case find_attempt (va_id a) s of
     None \<Rightarrow> bindE (sql_load_subject (va_case_id a) s) (\<lambda>subject.
       (case subject of
          Some j \<Rightarrow> (case vj_consent_verified_at j of
              Some t \<Rightarrow> bindE (insert_attempt (new_attempt_row a j t) (vd_attempts s)) (\<lambda>rows.
                Inr (to_attempt (new_attempt_row a j t), s\<lparr>vd_attempts := rows\<rparr>))
            | None \<Rightarrow> Inl (Voice_Value_Error ''voice subject and consent are required before reservation''))
        | None \<Rightarrow> Inl (Voice_Value_Error ''voice subject and consent are required before reservation'')))
   | Some r \<Rightarrow> (let row = write_columns (case held of None \<Rightarrow> to_attempt r | Some h \<Rightarrow> h) a r in
       bindE (update_attempt row (vd_attempts s)) (\<lambda>rows. Inr (to_attempt row, s\<lparr>vd_attempts := rows\<rparr>))))"

text \<open>
  A reservation looks its key up, then inserts and commits. \<open>others\<close> is what other transactions
  commit in between; the unique constraints decide the race.
\<close>

definition sql_reserve_attempt ::
    "(voice_database \<Rightarrow> voice_database) \<Rightarrow> VoiceAttempt \<Rightarrow> voice_database
     \<Rightarrow> voice_error + VoiceReservationClaim \<times> voice_database" where
  "sql_reserve_attempt others a s = (case sql_get_by_idempotency (va_idempotency_key a) s of
     Some existing \<Rightarrow> Inr (\<lparr>vrc_attempt = existing, vrc_claimed = False\<rparr>, s)
   | None \<Rightarrow> (let s1 = others s in case sql_save_attempt None a s1 of
       Inr (reserved, s2) \<Rightarrow> Inr (\<lparr>vrc_attempt = reserved, vrc_claimed = True\<rparr>, s2)
     | Inl e \<Rightarrow> if e \<noteq> Voice_Integrity_Error then Inl e
         else (case sql_get_by_idempotency (va_idempotency_key a) s1 of
           Some existing \<Rightarrow> Inr (\<lparr>vrc_attempt = existing, vrc_claimed = False\<rparr>, s1)
         | None \<Rightarrow> Inl Voice_Integrity_Error)))"

definition sql_get_attempt :: "ident \<Rightarrow> voice_database \<Rightarrow> VoiceAttempt option" where
  "sql_get_attempt i s = map_option to_attempt (find_attempt i s)"

definition sql_list_attempts :: "ident \<Rightarrow> voice_database \<Rightarrow> VoiceAttempt list" where
  "sql_list_attempts case_id s =
     map to_attempt (sort_key (\<lambda>r. - va_created_at r) (filter (\<lambda>r. va_case_id r = case_id) (vd_attempts s)))"

text \<open>
  The changes are stored with the receipt in a JSON column: \<open>json.dumps\<close> raises a \<open>TypeError\<close> for a
  \<open>datetime\<close>, before the statement is sent. A receipt of an unknown attempt violates the foreign key,
  which is taken for a duplicate.
\<close>

fun json_serializable :: "voice_change \<Rightarrow> bool" where
  "json_serializable (Set_disclosure (Some t)) = False"
| "json_serializable _ = True"

definition sql_apply_callback ::
    "string \<Rightarrow> string \<Rightarrow> ident \<Rightarrow> voice_change list \<Rightarrow> voice_database
     \<Rightarrow> voice_error + (VoiceAttempt option \<times> bool) \<times> voice_database" where
  "sql_apply_callback provider event_id attempt_id changes s =
     (let receipt = \<lparr>wr_provider = provider, wr_provider_event_id = event_id, wr_attempt_id = Some attempt_id\<rparr>;
          found = find_attempt attempt_id s
      in if \<not> list_all json_serializable changes
         then Inl (Voice_Type_Error ''Object of type datetime is not JSON serializable'')
         else if found = None \<or> (\<exists>b \<in> set (vd_receipts s). receipt_clash receipt b)
         then Inr ((map_option to_attempt found, True), s)
         else let updated = fold set_change (admitted_changes (va_status (the found)) changes) (the found) in
           bindE (update_attempt updated (vd_attempts s)) (\<lambda>rows.
             Inr ((Some (to_attempt updated), False),
                  s\<lparr>vd_attempts := rows, vd_receipts := vd_receipts s @ [receipt]\<rparr>)))"

definition opt_out_customer :: "instant \<Rightarrow> ident \<Rightarrow> ident \<Rightarrow> a2a_database \<Rightarrow> a2a_database" where
  "opt_out_customer now customer_id case_id db = db\<lparr>
     db_customers := update_where (\<lambda>u. cu_id u = customer_id) (\<lambda>u. u\<lparr>cu_opted_out_at := Some now\<rparr>) (db_customers db),
     db_cases := update_where (\<lambda>c. rc_id c = case_id) (\<lambda>c. c\<lparr>rc_contact_disposition := OPTED_OUT\<rparr>) (db_cases db)\<rparr>"

definition sql_suppress :: "instant \<Rightarrow> VoiceAttempt \<Rightarrow> string \<Rightarrow> voice_database \<Rightarrow> bool \<times> voice_database" where
  "sql_suppress now a reason s =
     (let row = \<lparr>vsp_merchant_id = va_merchant_id a, vsp_customer_id = va_customer_id a,
            vsp_source_attempt_id = Some (va_id a), vsp_reason_code = reason\<rparr>
      in if \<exists>b \<in> set (vd_suppressions s). suppression_clash row b then (False, s)
         else (True, s\<lparr>vd_suppressions := vd_suppressions s @ [row],
           vd_core := opt_out_customer now (va_customer_id a) (va_case_id a) (vd_core s)\<rparr>))"

definition PAYMENT_CANCELLATION_RECEIPT_PROVIDER :: string where
  "PAYMENT_CANCELLATION_RECEIPT_PROVIDER = ''recoveryos-payment''"

definition payment_cancellation_receipt :: "string \<Rightarrow> voice_database \<Rightarrow> VoiceWebhookReceiptRecord option" where
  "payment_cancellation_receipt key s = find (\<lambda>r. wr_provider r = PAYMENT_CANCELLATION_RECEIPT_PROVIDER
     \<and> wr_provider_event_id r = key) (vd_receipts s)"

definition receipt_attempt :: "VoiceWebhookReceiptRecord \<Rightarrow> voice_database \<Rightarrow> VoiceAttempt option" where
  "receipt_attempt receipt s = (if truthy (wr_attempt_id receipt) then sql_get_attempt (the (wr_attempt_id receipt)) s else None)"

text \<open>
  The claim looks its receipt up, locks the newest active attempt and inserts the receipt; \<open>others\<close>
  commits between the look-up and the lock.
\<close>

definition sql_claim_payment_cancellation ::
    "(voice_database \<Rightarrow> voice_database) \<Rightarrow> ident \<Rightarrow> string \<Rightarrow> instant \<Rightarrow> voice_database
     \<Rightarrow> VoiceCancellationClaim \<times> voice_database" where
  "sql_claim_payment_cancellation others case_id key now s = (case payment_cancellation_receipt key s of
     Some existing \<Rightarrow> (\<lparr>vcc_attempt = receipt_attempt existing s, vcc_claimed = False\<rparr>, s)
   | None \<Rightarrow> (let s1 = others s in
       case last_by (\<lambda>r. (va_created_at r, va_id r)) (filter (\<lambda>r. va_case_id r = case_id \<and> is_active r) (vd_attempts s1)) of
         None \<Rightarrow> (\<lparr>vcc_attempt = None, vcc_claimed = False\<rparr>, s1)
       | Some r \<Rightarrow> (case payment_cancellation_receipt key s1 of
           Some existing \<Rightarrow> (\<lparr>vcc_attempt = receipt_attempt existing s1, vcc_claimed = False\<rparr>, s1)
         | None \<Rightarrow>
             (let receipt = \<lparr>wr_provider = PAYMENT_CANCELLATION_RECEIPT_PROVIDER, wr_provider_event_id = key,
                    wr_attempt_id = Some (va_id r)\<rparr>;
                  pending = r\<lparr>va_status := ''CANCEL_PENDING'', va_disposition := Some ''PAYMENT_RECOVERED'',
                    vt_payment_cancellation := Some \<lparr>pc_cancellation_key = key, pc_state = ''PENDING'',
                      pc_requested_at = Some now, pc_observed_at = None, pc_error_code = None\<rparr>\<rparr>
              in (\<lparr>vcc_attempt = Some (to_attempt pending), vcc_claimed = True\<rparr>,
                  s1\<lparr>vd_attempts := save_row va_id pending (vd_attempts s1),
                     vd_receipts := vd_receipts s1 @ [receipt]\<rparr>)))))"

definition sql_finalize_payment_cancellation ::
    "ident \<Rightarrow> string \<Rightarrow> bool \<Rightarrow> instant \<Rightarrow> string option \<Rightarrow> voice_database \<Rightarrow> voice_error + VoiceAttempt \<times> voice_database" where
  "sql_finalize_payment_cancellation attempt_id key confirmed now error_code s =
     (case (find_attempt attempt_id s, payment_cancellation_receipt key s) of
        (Some r, Some receipt) \<Rightarrow>
          if wr_attempt_id receipt \<noteq> Some attempt_id
          then Inl (Voice_Value_Error ''voice cancellation claim does not match the attempt'')
          else let entry = \<lparr>pc_cancellation_key = key, pc_state = (if confirmed then ''CONFIRMED'' else ''UNCERTAIN''),
                   pc_requested_at = (case vt_payment_cancellation r of None \<Rightarrow> None | Some e \<Rightarrow> pc_requested_at e),
                   pc_observed_at = Some now,
                   pc_error_code = (if truthy error_code then map_option (take 128) error_code else None)\<rparr>;
                 row = (cancellation_observed confirmed r)\<lparr>vt_payment_cancellation := Some entry,
                   vt_completed_at := (if confirmed then Some now else None)\<rparr>
             in bindE (update_attempt row (vd_attempts s)) (\<lambda>rows. Inr (to_attempt row, s\<lparr>vd_attempts := rows\<rparr>))
      | _ \<Rightarrow> Inl (Voice_Value_Error ''voice cancellation claim does not match the attempt''))"

definition sql_get_payment_cancellation :: "string \<Rightarrow> voice_database \<Rightarrow> VoiceAttempt option" where
  "sql_get_payment_cancellation key s = (case payment_cancellation_receipt key s of
     None \<Rightarrow> None
   | Some receipt \<Rightarrow> (case wr_attempt_id receipt of None \<Rightarrow> None | Some i \<Rightarrow> sql_get_attempt i s))"

definition sql_repository :: "voice_database VoiceRepository" where
  "sql_repository = \<lparr>
     vp_load_subject = sql_load_subject,
     vp_configure_subject = sql_configure_subject,
     vp_get_by_idempotency = sql_get_by_idempotency,
     vp_active_count = sql_active_count,
     vp_calls_today = sql_calls_today,
     vp_save_attempt = sql_save_attempt,
     vp_reserve_attempt = sql_reserve_attempt (\<lambda>s. s),
     vp_get_attempt = sql_get_attempt,
     vp_list_attempts = sql_list_attempts,
     vp_apply_callback = sql_apply_callback,
     vp_suppress = sql_suppress,
     vp_claim_payment_cancellation = sql_claim_payment_cancellation (\<lambda>s. s),
     vp_finalize_payment_cancellation = sql_finalize_payment_cancellation,
     vp_get_payment_cancellation = sql_get_payment_cancellation,
     vp_rolls_back = True\<rparr>"

section \<open>The service (service.py)\<close>

record VoiceContactService =
  sv_disabled_provider :: bool
  sv_real_calls_enabled :: bool
  sv_operator_token :: string
  sv_allowlisted_destinations :: "string set"
  sv_zones :: "string \<Rightarrow> timezone option"

definition contact_result :: "string \<Rightarrow> ident \<Rightarrow> string option \<Rightarrow> string \<Rightarrow> string option \<Rightarrow> VoiceContactResult" where
  "contact_result provider i call_id status reason = \<lparr>vr_provider = provider, vr_contact_attempt_id = i,
     vr_provider_call_id = call_id, vr_status = status, vr_reason_code = reason\<rparr>"

definition replay_result :: "VoiceAttempt \<Rightarrow> VoiceContactResult" where
  "replay_result a =
     (if va_status a = ''RESERVED'' \<or> va_uncertain_submission a
      then contact_result (va_provider a) (va_id a) (va_provider_call_id a) ''UNCERTAIN''
        (Some ''RESERVATION_RECONCILIATION_REQUIRED'')
      else contact_result (va_provider a) (va_id a) (va_provider_call_id a)
        (if va_status a = ''REJECTED'' then ''REJECTED'' else ''SUBMITTED'') (Some ''IDEMPOTENT_REPLAY''))"

definition safety_context ::
    "VoiceContactService \<Rightarrow> 's VoiceRepository \<Rightarrow> VoiceSubject \<Rightarrow> bool \<Rightarrow> int \<Rightarrow> instant \<Rightarrow> 's
     \<Rightarrow> voice_error + VoiceSafetyContext" where
  "safety_context svc repo j operator_authorized max_duration now s = (case sv_zones svc (vj_timezone j) of
     None \<Rightarrow> Inl Voice_Zone_Not_Found
   | Some tz \<Rightarrow> Inr \<lparr>vx_now_local = now + tz_offset_at tz now, vx_quiet_hours_start = vj_quiet_hours_start j,
       vx_quiet_hours_end = vj_quiet_hours_end j, vx_real_calls_enabled = sv_real_calls_enabled svc,
       vx_operator_authorized = operator_authorized, vx_kill_switch = vj_kill_switch j,
       vx_destination_allowlisted = (vj_destination_token j \<in> sv_allowlisted_destinations svc),
       vx_consent_verified_at = vj_consent_verified_at j, vx_opted_out_at = vj_opted_out_at j,
       vx_active_calls = vp_active_count repo s, vx_calls_today = vp_calls_today repo now s,
       vx_max_duration_seconds = max_duration\<rparr>)"

record VoiceEligibility =
  ve_case_id :: ident
  ve_customer_id :: "ident option"
  ve_eligible :: bool
  ve_reason_code :: string
  ve_destination_configured :: bool
  ve_destination_allowlisted :: bool
  ve_consent_verified_at :: "instant option"
  ve_opted_out_at :: "instant option"
  ve_preferred_language :: "string option"

definition eligibility ::
    "VoiceContactService \<Rightarrow> 's VoiceRepository \<Rightarrow> ident \<Rightarrow> instant \<Rightarrow> 's \<Rightarrow> voice_error + VoiceEligibility" where
  "eligibility svc repo case_id now s = bindE (vp_load_subject repo case_id s) (\<lambda>subject.
     case subject of
       None \<Rightarrow> Inr \<lparr>ve_case_id = case_id, ve_customer_id = None, ve_eligible = False,
         ve_reason_code = ''VOICE_SUBJECT_NOT_FOUND'', ve_destination_configured = False,
         ve_destination_allowlisted = False, ve_consent_verified_at = None, ve_opted_out_at = None,
         ve_preferred_language = None\<rparr>
     | Some j \<Rightarrow> bindE (safety_context svc repo j True 180 now s) (\<lambda>x.
         let decision = evaluate_voice_safety x in
         Inr \<lparr>ve_case_id = case_id, ve_customer_id = Some (vj_customer_id j), ve_eligible = fst decision,
           ve_reason_code = snd decision, ve_destination_configured = (vj_destination_token j \<noteq> []),
           ve_destination_allowlisted = (vj_destination_token j \<in> sv_allowlisted_destinations svc),
           ve_consent_verified_at = vj_consent_verified_at j, ve_opted_out_at = vj_opted_out_at j,
           ve_preferred_language = Some (vj_preferred_language j)\<rparr>))"

record start_command =
  sc_case_id :: ident
  sc_idempotency_key :: string
  sc_supplied_operator_token :: "string option"
  sc_operator_session_authorized :: bool
  sc_max_duration_seconds :: int

definition operator_authorized :: "VoiceContactService \<Rightarrow> start_command \<Rightarrow> bool" where
  "operator_authorized svc cmd \<longleftrightarrow> sv_operator_token svc \<noteq> []
     \<and> (sc_operator_session_authorized cmd \<or> sc_supplied_operator_token cmd = Some (sv_operator_token svc))"

definition reserved_attempt :: "start_command \<Rightarrow> VoiceSubject \<Rightarrow> instant \<Rightarrow> VoiceAttempt" where
  "reserved_attempt cmd j now = \<lparr>va_id = sc_idempotency_key cmd, va_merchant_id = vj_merchant_id j,
     va_case_id = vj_case_id j, va_customer_id = vj_customer_id j, va_idempotency_key = sc_idempotency_key cmd,
     va_provider = ''twilio'', va_status = ''RESERVED'', va_created_at = now, va_provider_call_id = None,
     va_disposition = None, va_transcript = None, va_detected_intent = None, va_confidence_basis_points = None,
     va_duration_seconds = None, va_disclosure_delivered_at = None, va_uncertain_submission = False\<rparr>"

text \<open>Up to the reservation: \<open>start\<close> answers, or it wants to reserve this attempt for this subject.\<close>

definition check_start ::
    "VoiceContactService \<Rightarrow> 's VoiceRepository \<Rightarrow> start_command \<Rightarrow> instant \<Rightarrow> 's
     \<Rightarrow> voice_error + (VoiceContactResult + VoiceSubject \<times> VoiceAttempt)" where
  "check_start svc repo cmd now s = (case vp_get_by_idempotency repo (sc_idempotency_key cmd) s of
     Some existing \<Rightarrow> Inr (Inl (replay_result existing))
   | None \<Rightarrow> bindE (vp_load_subject repo (sc_case_id cmd) s) (\<lambda>subject.
       case subject of
         None \<Rightarrow> Inr (Inl (contact_result ''voice'' (sc_idempotency_key cmd) None ''REJECTED'' (Some ''VOICE_SUBJECT_NOT_FOUND'')))
       | Some j \<Rightarrow> bindE (safety_context svc repo j (operator_authorized svc cmd) (sc_max_duration_seconds cmd) now s) (\<lambda>x.
           let decision = evaluate_voice_safety x in
           if \<not> fst decision
           then Inr (Inl (contact_result ''voice'' (sc_idempotency_key cmd) None ''REJECTED'' (Some (snd decision))))
           else Inr (Inr (j, reserved_attempt cmd j now)))))"

text \<open>The request to the provider; \<open>the\<close> is safe, since a call without consent is refused before.\<close>

definition contact_request :: "start_command \<Rightarrow> VoiceSubject \<Rightarrow> VoiceContactRequest" where
  "contact_request cmd j = \<lparr>vq_idempotency_key = sc_idempotency_key cmd, vq_case_id = sc_case_id cmd,
     vq_customer_id = vj_customer_id j, vq_destination_token = vj_destination_token j,
     vq_preferred_language = vj_preferred_language j, vq_consent_verified_at = the (vj_consent_verified_at j),
     vq_max_duration_seconds = sc_max_duration_seconds cmd, vq_disclosure_text = AI_DISCLOSURE\<rparr>"

text \<open>
  The reservation; the request is built inside the \<open>try\<close> of the call, so an invalid one is handled
  as a call without an answer.
\<close>

datatype reservation = Replayed VoiceContactResult | Call_Provider VoiceContactRequest | Invalid_Request

definition reserve_start ::
    "'s VoiceRepository \<Rightarrow> start_command \<Rightarrow> VoiceSubject \<Rightarrow> VoiceAttempt \<Rightarrow> 's \<Rightarrow> voice_error + reservation \<times> 's" where
  "reserve_start repo cmd j a s = bindE (vp_reserve_attempt repo a s) (\<lambda>(claim, s').
     Inr (if \<not> vrc_claimed claim then Replayed (replay_result (vrc_attempt claim))
          else if valid_contact_request (contact_request cmd j) then Call_Provider (contact_request cmd j)
          else Invalid_Request, s'))"

text \<open>\<open>answer\<close> is the provider's result, \<open>None\<close> for an exception.\<close>

definition finish_start ::
    "'s VoiceRepository \<Rightarrow> VoiceAttempt option \<Rightarrow> VoiceAttempt \<Rightarrow> VoiceContactResult option \<Rightarrow> 's
     \<Rightarrow> voice_error + VoiceContactResult \<times> 's" where
  "finish_start repo held a answer s = (case answer of
     None \<Rightarrow> bindE (vp_save_attempt repo held (a\<lparr>va_status := ''UNCERTAIN'', va_uncertain_submission := True\<rparr>) s) (\<lambda>(_, s').
       Inr (contact_result (va_provider a) (va_id a) None ''UNCERTAIN''
         (Some ''VOICE_SUBMISSION_UNCERTAIN_RECONCILE_REQUIRED''), s'))
   | Some r \<Rightarrow> bindE (vp_save_attempt repo held (a\<lparr>va_status := vr_status r, va_provider_call_id := vr_provider_call_id r,
       va_uncertain_submission := (vr_status r = ''UNCERTAIN'')\<rparr>) s) (\<lambda>(_, s'). Inr (r, s')))"

datatype voice_call = Start_Call VoiceContactRequest | Cancel_Call ident string | Fetch_Call ident

text \<open>An undisturbed start, with the calls it makes.\<close>

definition start_contact ::
    "VoiceContactService \<Rightarrow> 's VoiceRepository \<Rightarrow> VoiceAttempt option \<Rightarrow> (VoiceContactRequest \<Rightarrow> VoiceContactResult option)
     \<Rightarrow> start_command \<Rightarrow> instant \<Rightarrow> 's \<Rightarrow> (voice_error + VoiceContactResult) \<times> 's \<times> voice_call list" where
  "start_contact svc repo held provider cmd now s = (case check_start svc repo cmd now s of
     Inl e \<Rightarrow> (Inl e, s, [])
   | Inr (Inl r) \<Rightarrow> (Inr r, s, [])
   | Inr (Inr (j, a)) \<Rightarrow> (case reserve_start repo cmd j a s of
       Inl e \<Rightarrow> (Inl e, s, [])
     | Inr (Replayed r, s1) \<Rightarrow> (Inr r, s1, [])
     | Inr (Invalid_Request, s1) \<Rightarrow> (case finish_start repo held a None s1 of
         Inl e \<Rightarrow> (Inl e, s1, []) | Inr (r, s2) \<Rightarrow> (Inr r, s2, []))
     | Inr (Call_Provider q, s1) \<Rightarrow> (case finish_start repo held a (provider q) s1 of
         Inl e \<Rightarrow> (Inl e, s1, [Start_Call q]) | Inr (r, s2) \<Rightarrow> (Inr r, s2, [Start_Call q]))))"

definition cancellation_result :: "string \<Rightarrow> string \<Rightarrow> ident option \<Rightarrow> bool \<Rightarrow> string option \<Rightarrow> VoiceCancellationResult" where
  "cancellation_result status key i performed reason = \<lparr>vc_status = status, vc_cancellation_key = key,
     vc_attempt_id = i, vc_provider_submission_performed = performed, vc_reason_code = reason\<rparr>"

text \<open>The claim of a cancellation: an answer, or the attempt whose call is to be cancelled.\<close>

definition begin_cancellation ::
    "VoiceContactService \<Rightarrow> 's VoiceRepository \<Rightarrow> ident \<Rightarrow> string \<Rightarrow> instant \<Rightarrow> 's
     \<Rightarrow> (voice_error + VoiceCancellationResult + ident) \<times> 's" where
  "begin_cancellation svc repo case_id key now s =
     (let (claim, s1) = vp_claim_payment_cancellation repo case_id key now s in
      case vcc_attempt claim of
        None \<Rightarrow> (Inr (Inl (cancellation_result ''NO_ACTIVE_CALL'' key None False (Some ''VOICE_NO_ACTIVE_CALL''))), s1)
      | Some a \<Rightarrow>
          if \<not> vcc_claimed claim
          then (Inr (Inl (cancellation_result ''ALREADY_REQUESTED'' key (Some (va_id a)) False
            (Some ''VOICE_CANCELLATION_ALREADY_REQUESTED''))), s1)
          else if sv_disabled_provider svc \<and> va_provider a \<noteq> ''mock''
          then (case vp_finalize_payment_cancellation repo (va_id a) key False now (Some ''VOICE_PROVIDER_NOT_CONFIGURED'') s1 of
              Inl e \<Rightarrow> (Inl e, s1)
            | Inr (_, s2) \<Rightarrow> (Inr (Inl (cancellation_result ''UNCERTAIN'' key (Some (va_id a)) False
                (Some ''VOICE_CANCELLATION_PROVIDER_NOT_CONFIGURED''))), s2))
          else (Inr (Inr (va_id a)), s1))"

text \<open>\<open>failure\<close> is the name of the exception of the provider's \<open>cancel_contact\<close>, if it raised one.\<close>

definition finish_cancellation ::
    "'s VoiceRepository \<Rightarrow> ident \<Rightarrow> string \<Rightarrow> instant \<Rightarrow> string option \<Rightarrow> 's \<Rightarrow> voice_error + VoiceCancellationResult \<times> 's" where
  "finish_cancellation repo i key now failure s = (case failure of
     Some name \<Rightarrow> bindE (vp_finalize_payment_cancellation repo i key False now (Some name) s) (\<lambda>(_, s').
       Inr (cancellation_result ''UNCERTAIN'' key (Some i) True
         (Some ''VOICE_CANCELLATION_UNCERTAIN_RECONCILE_REQUIRED''), s'))
   | None \<Rightarrow> bindE (vp_finalize_payment_cancellation repo i key True now None s) (\<lambda>(_, s').
       Inr (cancellation_result ''CANCELLED'' key (Some i) True None, s')))"

definition cancel_for_authoritative_payment ::
    "VoiceContactService \<Rightarrow> 's VoiceRepository \<Rightarrow> string option \<Rightarrow> ident \<Rightarrow> string \<Rightarrow> instant \<Rightarrow> 's
     \<Rightarrow> (voice_error + VoiceCancellationResult) \<times> 's \<times> voice_call list" where
  "cancel_for_authoritative_payment svc repo failure case_id key now s =
     (case begin_cancellation svc repo case_id key now s of
        (Inl e, s1) \<Rightarrow> (Inl e, s1, [])
      | (Inr (Inl r), s1) \<Rightarrow> (Inr r, s1, [])
      | (Inr (Inr i), s1) \<Rightarrow> (case finish_cancellation repo i key now failure s1 of
          Inl e \<Rightarrow> (Inl e, s1, [Cancel_Call i ''AUTHORITATIVE_PAYMENT_SUCCESS''])
        | Inr (r, s2) \<Rightarrow> (Inr r, s2, [Cancel_Call i ''AUTHORITATIVE_PAYMENT_SUCCESS''])))"

text \<open>\<open>status\<close> is the call's status at the provider, \<open>None\<close> if it could not be fetched.\<close>

definition reconcile_payment_cancellation ::
    "'s VoiceRepository \<Rightarrow> string option \<Rightarrow> string \<Rightarrow> instant \<Rightarrow> 's
     \<Rightarrow> voice_error + VoiceCancellationResult \<times> 's \<times> voice_call list" where
  "reconcile_payment_cancellation repo status key now s = (case vp_get_payment_cancellation repo key s of
     None \<Rightarrow> Inr (cancellation_result ''NO_ACTIVE_CALL'' key None False (Some ''VOICE_CANCELLATION_NOT_FOUND''), s, [])
   | Some a \<Rightarrow>
       if va_status a = ''CANCELED''
       then Inr (cancellation_result ''CANCELLED'' key (Some (va_id a)) False
         (Some ''VOICE_CANCELLATION_ALREADY_CONFIRMED''), s, [])
       else (case status of
           None \<Rightarrow> Inr (cancellation_result ''UNCERTAIN'' key (Some (va_id a)) False
             (Some ''VOICE_CANCELLATION_RECONCILIATION_FAILED''), s, [Fetch_Call (va_id a)])
         | Some t \<Rightarrow>
             if replace_char (CHR ''-'') (CHR ''_'') (py_upper t) \<notin> VOICE_TERMINAL_STATUSES
             then Inr (cancellation_result ''UNCERTAIN'' key (Some (va_id a)) False
               (Some ''VOICE_CANCELLATION_NOT_YET_CONFIRMED''), s, [Fetch_Call (va_id a)])
             else bindE (vp_finalize_payment_cancellation repo (va_id a) key True now None s) (\<lambda>(_, s').
               Inr (cancellation_result ''CANCELLED'' key (Some (va_id a)) False
                 (Some ''VOICE_CANCELLATION_RECONCILED''), s', [Fetch_Call (va_id a)]))))"

section \<open>Callbacks (service.py)\<close>

definition SAFETY_OVERRIDE_INTENTS :: "VoiceIntent set" where
  "SAFETY_OVERRIDE_INTENTS = {Intent_OPT_OUT, Intent_DISPUTE, Intent_WRONG_PERSON, Intent_ALREADY_PAID}"

definition clamp_confidence :: "int \<Rightarrow> int" where "clamp_confidence n = max 0 (min 10000 n)"
definition clamp_duration :: "int \<Rightarrow> int" where "clamp_duration n = min (max n 0) 180"

text \<open>
  An opt-out is suppressed and committed before the provider is asked to end the call; \<open>ends\<close> says
  whether that call succeeded. The results are the suppression flag and the calls.
\<close>

definition opt_out_effect ::
    "'s VoiceRepository \<Rightarrow> instant \<Rightarrow> VoiceAttempt option \<Rightarrow> VoiceIntent \<Rightarrow> bool \<Rightarrow> 's \<Rightarrow> bool \<times> 's \<times> voice_call list" where
  "opt_out_effect repo now attempt intent duplicate s = (case attempt of
     Some a \<Rightarrow> if intent = Intent_OPT_OUT \<and> \<not> duplicate
       then (let (created, s') = vp_suppress repo now a ''VOICE_OPT_OUT'' s
             in (created, s', [Cancel_Call (va_id a) ''VOICE_OPT_OUT'']))
       else (False, s, [])
   | None \<Rightarrow> (False, s, []))"

definition apply_transcript ::
    "'s VoiceRepository \<Rightarrow> instant \<Rightarrow> bool \<Rightarrow> ident \<Rightarrow> string \<Rightarrow> int \<Rightarrow> string \<Rightarrow> 's
     \<Rightarrow> (voice_error + VoiceIntent \<times> bool \<times> bool) \<times> 's \<times> voice_call list" where
  "apply_transcript repo now ends attempt_id transcript confidence event_id s =
     (let intent = detect_voice_intent transcript in
      case vp_apply_callback repo ''browser'' event_id attempt_id [Set_transcript transcript,
        Set_detected_intent (intent_value intent), Set_confidence (Some confidence), Set_disposition (intent_value intent)] s of
        Inl e \<Rightarrow> (Inl e, s, [])
      | Inr ((attempt, duplicate), s1) \<Rightarrow>
          (let (created, s2, calls) = opt_out_effect repo now attempt intent duplicate s1 in
           if calls \<noteq> [] \<and> \<not> ends
           then (Inl Voice_Provider_Error, if vp_rolls_back repo \<and> \<not> created then s else s2, calls)
           else (Inr (intent, intent \<in> SAFETY_OVERRIDE_INTENTS, created \<and> \<not> duplicate), s2, calls)))"

definition apply_twilio_status ::
    "'s VoiceRepository \<Rightarrow> string \<Rightarrow> ident \<Rightarrow> string \<Rightarrow> int option \<Rightarrow> string option \<Rightarrow> 's \<Rightarrow> voice_error + bool \<times> 's" where
  "apply_twilio_status repo event_id attempt_id status duration call_id s =
     bindE (normalize_voice_status status) (\<lambda>st.
     bindE (vp_apply_callback repo ''twilio'' event_id attempt_id
       (Set_status st # (case duration of None \<Rightarrow> [] | Some d \<Rightarrow> [Set_duration (clamp_duration d)])
         @ (if st \<in> VOICE_TERMINAL_STATUSES then [Set_disposition st] else [])
         @ (if truthy call_id then [Set_provider_call_id (the call_id)] else [])) s) (\<lambda>((_, duplicate), s').
       Inr (duplicate, s')))"

definition apply_live_intent ::
    "'s VoiceRepository \<Rightarrow> instant \<Rightarrow> string \<Rightarrow> ident \<Rightarrow> string \<Rightarrow> int option \<Rightarrow> 's
     \<Rightarrow> voice_error + (VoiceIntent \<times> bool \<times> bool \<times> bool) \<times> 's \<times> voice_call list" where
  "apply_live_intent repo now event_id attempt_id intent_text confidence s =
     (case intent_of_value (py_upper (py_strip intent_text)) of
        None \<Rightarrow> Inl (Voice_Value_Error ''unsupported live ElevenLabs recovery intent'')
      | Some intent \<Rightarrow> bindE (vp_apply_callback repo ''elevenlabs-tool'' event_id attempt_id
          ([Set_detected_intent (intent_value intent), Set_disposition (intent_value intent)]
           @ (case confidence of None \<Rightarrow> [] | Some n \<Rightarrow> [Set_confidence (Some (clamp_confidence n))])) s)
          (\<lambda>((attempt, duplicate), s1).
            let (created, s2, calls) = opt_out_effect repo now attempt intent duplicate s1 in
            Inr ((intent, intent \<in> SAFETY_OVERRIDE_INTENTS, created \<and> \<not> duplicate, duplicate), s2, calls)))"

record post_call =
  pl_event_id :: string
  pl_attempt_id :: ident
  pl_transcript :: string
  pl_intent_transcript :: string
  pl_provider_intent :: "string option"
  pl_confidence_basis_points :: "int option"
  pl_duration_seconds :: int
  pl_disclosure_delivered :: bool
  pl_occurred_at :: instant

text \<open>The empty text counts as no intent; a text of blanks is refused.\<close>

definition analyzed_intent :: "string option \<Rightarrow> voice_error + VoiceIntent" where
  "analyzed_intent provider_intent = (case provider_intent of
     None \<Rightarrow> Inr Intent_UNKNOWN
   | Some t \<Rightarrow> if py_strip t \<noteq> []
       then (case intent_of_value (py_upper (py_strip t)) of
           None \<Rightarrow> Inl (Voice_Value_Error ''unsupported ElevenLabs structured recovery intent'') | Some i \<Rightarrow> Inr i)
       else if t = [] then Inr Intent_UNKNOWN
       else Inl (Voice_Value_Error ''unsupported ElevenLabs structured recovery intent''))"

definition post_call_intent :: "VoiceIntent \<Rightarrow> string \<Rightarrow> VoiceIntent" where
  "post_call_intent analyzed words =
     (let safety_intent = detect_voice_intent words in
      if safety_intent \<in> SAFETY_OVERRIDE_INTENTS then safety_intent else analyzed)"

definition post_call_changes :: "post_call \<Rightarrow> VoiceIntent \<Rightarrow> VoiceIntent \<Rightarrow> voice_change list" where
  "post_call_changes p analyzed intent =
     (let supplied = (case pl_provider_intent p of None \<Rightarrow> False | Some t \<Rightarrow> py_strip t \<noteq> []) in
      [Set_status ''COMPLETED'', Set_transcript (pl_transcript p), Set_detected_intent (intent_value intent),
       Set_confidence (case pl_confidence_basis_points p of None \<Rightarrow> None
         | Some n \<Rightarrow> if supplied \<and> intent = analyzed then Some (clamp_confidence n) else None),
       Set_duration (clamp_duration (pl_duration_seconds p)), Set_disposition (intent_value intent),
       Set_disclosure (if pl_disclosure_delivered p then Some (pl_occurred_at p) else None)])"

definition apply_elevenlabs_post_call ::
    "'s VoiceRepository \<Rightarrow> instant \<Rightarrow> post_call \<Rightarrow> 's \<Rightarrow> voice_error + bool \<times> 's" where
  "apply_elevenlabs_post_call repo now p s =
     bindE (analyzed_intent (pl_provider_intent p)) (\<lambda>analyzed.
       let intent = post_call_intent analyzed (pl_intent_transcript p) in
       bindE (vp_apply_callback repo ''elevenlabs'' (pl_event_id p) (pl_attempt_id p) (post_call_changes p analyzed intent) s)
         (\<lambda>((attempt, duplicate), s1).
           Inr (duplicate, case attempt of
             Some a \<Rightarrow> if intent = Intent_OPT_OUT \<and> \<not> duplicate then snd (vp_suppress repo now a ''VOICE_OPT_OUT'' s1) else s1
           | None \<Rightarrow> s1)))"

end
