(* ===== verification/Action_Runtime.thy ===== *)
theory Action_Runtime
  imports A2A_Activities Voice_Contact
begin

text \<open>
  The execution of a recovery action, \<open>services/worker/app/runtime.py\<close>: the durable policy, the
  claim of an action with and without a mandate, the submission to the payment provider, the
  reconciliation of an uncertain payment link, and the claim of a voice action.

  Every operation is one transaction of the database. The rows a transaction reads \<open>FOR UPDATE\<close>
  are its own until it ends; only the claim without a mandate, whose \<open>UPDATE\<close> repeats the condition
  it has read, is split in its read and its write, so that it is also right without row locks.
  The provider's answers, the clock readings, SHA-256 and the reading of a mandate from its JSON
  object are parameters.
\<close>

section \<open>Requests and results\<close>

record OpenPaymentSurfaceRequest =
  os_idempotency_key :: string
  os_case_id :: ident
  os_merchant_id :: ident
  os_customer_id :: ident
  os_subscription_id :: ident
  os_failed_invoice_id :: ident
  os_surface_type :: PaymentSurfaceType
  os_exact_amount_paise :: paise
  os_currency :: string
  os_recovery_deadline :: instant
  os_expires_at :: "instant option"
  os_callback_url :: "string option"
  os_reference_id :: "string option"
  os_notes :: "(string \<times> string) list"

definition guard_standard_payment_link :: "OpenPaymentSurfaceRequest \<Rightarrow> bool" where
  "guard_standard_payment_link r \<longleftrightarrow> (os_surface_type r = STANDARD_PAYMENT_LINK \<longrightarrow>
     truthy (os_reference_id r)
     \<and> (case os_expires_at r of None \<Rightarrow> False | Some t \<Rightarrow> t \<le> os_recovery_deadline r)
     \<and> map_of (os_notes r) ''case_id'' = Some (os_case_id r)
     \<and> map_of (os_notes r) ''invoice_id'' = Some (os_failed_invoice_id r))"

definition valid_surface_request :: "OpenPaymentSurfaceRequest \<Rightarrow> bool" where
  "valid_surface_request r \<longleftrightarrow> 0 < os_exact_amount_paise r \<and> currency_pattern (os_currency r)
     \<and> (case os_reference_id r of None \<Rightarrow> True | Some s \<Rightarrow> length s \<le> 40) \<and> guard_standard_payment_link r"

record PaymentSurfaceResult =
  sf_provider :: string
  sf_provider_reference :: string
  sf_surface_type :: PaymentSurfaceType
  sf_customer_url :: string
  sf_expires_at :: "instant option"
  sf_authoritative :: bool

text \<open>
  The answers of the provider: to the opening of a surface, to the look-up of a link by its
  reference, to its revocation. An uncertain submission carries the reference in its metadata.
\<close>

datatype surface_answer = Surface_Opened PaymentSurfaceResult | Surface_Uncertain "string option"
  | Surface_Failed
datatype link_lookup = Link_Found PaymentSurfaceResult | Link_Absent | Lookup_Failed
datatype link_revocation = Revocation_Answered string | Revocation_Failed

datatype provider_kind = Mock_Provider | Link_Lifecycle_Provider | Plain_Provider

definition execution_result :: "string \<Rightarrow> string \<Rightarrow> string option \<Rightarrow> string option \<Rightarrow> string option
    \<Rightarrow> ActionExecutionResult" where
  "execution_result status provider reference url reason = \<lparr>ax_status = status, ax_provider = provider,
     ax_provider_reference = reference, ax_customer_url = url, ax_reason_code = reason\<rparr>"

definition rejected_execution :: "string \<Rightarrow> ActionExecutionResult" where
  "rejected_execution reason = execution_result ''REJECTED'' ''none'' None None (Some reason)"

definition uncertain_execution :: "string option \<Rightarrow> string \<Rightarrow> ActionExecutionResult" where
  "uncertain_execution reference reason =
     execution_result ''UNCERTAIN'' ''unknown'' reference None (Some reason)"

definition already_executed :: "RecoveryActionRecord \<Rightarrow> ActionExecutionResult" where
  "already_executed a = execution_result ''SUCCEEDED'' ''persisted'' (ar_external_reference a)
     (ar_customer_url a) (Some ''ALREADY_EXECUTED'')"

definition parse_activity_instant :: "iso_text \<Rightarrow> activity_error + instant" where
  "parse_activity_instant text = (case text of
     None \<Rightarrow> Inl (Activity_Value_Error ''Invalid isoformat string'')
   | Some d \<Rightarrow> if is_aware d then Inr (utc_instant d)
       else Inl (Activity_Value_Error ''activity timestamp must include a UTC offset''))"

definition surface_of_value :: "string \<Rightarrow> PaymentSurfaceType option" where
  "surface_of_value s = find (\<lambda>t. surface_value t = s)
     [SUBSCRIPTION_CARD_UPDATE, SUBSCRIPTION_INVOICE_LINK, STANDARD_PAYMENT_LINK]"

definition action_type_of_value :: "string \<Rightarrow> RecoveryActionType option" where
  "action_type_of_value s = find (\<lambda>t. action_value t = s) [WAIT_FOR_GATEWAY_RETRY,
     OPEN_CUSTOMER_PAYMENT_SURFACE, START_VOICE, SEND_TO_CUSTOMER_AGENT, ESCALATE_TO_HUMAN, STOP]"

fun disposition_value :: "PolicyDisposition \<Rightarrow> string" where
  "disposition_value ALLOW = ''ALLOW''"
| "disposition_value BLOCK = ''BLOCK''"
| "disposition_value DELAY = ''DELAY''"
| "disposition_value REQUIRE_MANUAL_APPROVAL = ''REQUIRE_MANUAL_APPROVAL''"

section \<open>The durable policy\<close>

definition effective_delay :: "RecoveryActionRecord \<Rightarrow> PolicyDecisionRecord \<Rightarrow> instant option" where
  "effective_delay a p = (case (ar_scheduled_for a, PolicyDecisionRecord.pr_delay_until p) of
     (None, d) \<Rightarrow> d | (Some t, None) \<Rightarrow> Some t | (Some t, Some u) \<Rightarrow> Some (max t u))"

definition blocked_policy :: "PolicyInput \<Rightarrow> string \<Rightarrow> PolicyResult" where
  "blocked_policy cmd code = \<lparr>PolicyResult.pr_disposition = ''BLOCK'', pr_decision_code = code,
     pr_action = pin_candidate_action cmd, pr_payment_surface_type = pin_payment_surface_type cmd,
     pr_reason_codes = [code], pr_delay_until = None\<rparr>"

text \<open>The joined rows of an action, its policy decisions and its case.\<close>

definition action_rows ::
    "a2a_database \<Rightarrow> (RecoveryActionRecord \<Rightarrow> RecoveryCase \<Rightarrow> bool)
     \<Rightarrow> (RecoveryActionRecord \<times> PolicyDecisionRecord \<times> RecoveryCase) list" where
  "action_rows db P = [(a, p, c). a \<leftarrow> db_actions db, c \<leftarrow> db_cases db, p \<leftarrow> db_policies db,
     rc_id c = ar_case_id a \<and> pr_action_id p = Some (ar_id a) \<and> P a c]"

definition evaluate_policy_activity :: "a2a_database \<Rightarrow> PolicyInput \<Rightarrow> PolicyResult" where
  "evaluate_policy_activity db cmd =
     (case (action_type_of_value (pin_candidate_action cmd),
            case pin_payment_surface_type cmd of None \<Rightarrow> Some None
            | Some s \<Rightarrow> map_option Some (surface_of_value s)) of
        (Some action_type, Some surface_type) \<Rightarrow>
          (let persisted = (if action_type = OPEN_CUSTOMER_PAYMENT_SURFACE then surface_type else None)
           in case last_by (\<lambda>(a, p, c). (ar_created_at a, PolicyDecisionRecord.pr_created_at p))
             (action_rows db (\<lambda>a c. ar_case_id a = pin_case_id cmd \<and> rc_merchant_id c = pin_merchant_id cmd
                \<and> ar_action_type a = action_type \<and> ar_payment_surface_type a = persisted)) of
             None \<Rightarrow> blocked_policy cmd ''PERSISTED_POLICY_NOT_FOUND''
           | Some (a, p, c) \<Rightarrow>
               if rc_amount_at_risk_paise c \<noteq> pin_amount_at_risk_paise cmd
               then blocked_policy cmd ''PERSISTED_CASE_SCOPE_MISMATCH''
               else \<lparr>PolicyResult.pr_disposition = disposition_value (PolicyDecisionRecord.pr_disposition p),
                 pr_decision_code = PolicyDecisionRecord.pr_decision_code p,
                 pr_action = action_value (ar_action_type a),
                 pr_payment_surface_type = map_option surface_value (ar_payment_surface_type a),
                 pr_reason_codes = PolicyDecisionRecord.pr_reason_codes p,
                 pr_delay_until = map_option (\<lambda>t. Some (Aware t 0)) (effective_delay a p)\<rparr>)
      | _ \<Rightarrow> blocked_policy cmd ''PERSISTED_ACTION_SCOPE_INVALID'')"

section \<open>Claiming an action without a mandate\<close>

text \<open>A claim is the action with the flag \<open>reconcile_before_submission\<close>, or the result that refuses it.\<close>

datatype payment_claim = Claimed RecoveryActionRecord bool | Refused ActionExecutionResult

text \<open>What the read of the claim has found: the claim is decided, or the row is to be updated.\<close>

datatype direct_read = Decided payment_claim | Claimable RecoveryActionRecord instant

definition claimable_statuses :: "PolicyDisposition \<Rightarrow> ActionStatus set" where
  "claimable_statuses d = (case d of
     ALLOW \<Rightarrow> {Act_PROPOSED, Act_SCHEDULED} | DELAY \<Rightarrow> {Act_SCHEDULED}
   | REQUIRE_MANUAL_APPROVAL \<Rightarrow> {Act_SCHEDULED} | BLOCK \<Rightarrow> {})"

definition reconciliation_required :: "RecoveryActionRecord \<Rightarrow> payment_claim" where
  "reconciliation_required a =
     Refused (uncertain_execution (ar_external_reference a) ''SUBMISSION_RECONCILIATION_REQUIRED'')"

definition latest_surface_action ::
    "a2a_database \<Rightarrow> ExecuteActionInput \<Rightarrow> PaymentSurfaceType
     \<Rightarrow> (RecoveryActionRecord \<times> PolicyDecisionRecord \<times> RecoveryCase) option" where
  "latest_surface_action db cmd surface = last_by (\<lambda>(a, p, c). ar_created_at a)
     (action_rows db (\<lambda>a c. ar_case_id a = ea_case_id cmd \<and> rc_merchant_id c = ea_merchant_id cmd
        \<and> ar_action_type a = OPEN_CUSTOMER_PAYMENT_SURFACE \<and> ar_payment_surface_type a = Some surface))"

definition read_direct_claim ::
    "ident set \<Rightarrow> datetime \<Rightarrow> PaymentSurfaceType \<Rightarrow> ExecuteActionInput \<Rightarrow> a2a_database
     \<Rightarrow> activity_error + direct_read" where
  "read_direct_claim in_flight clock surface cmd db =
     (case latest_surface_action db cmd surface of
        None \<Rightarrow> Inr (Decided (Refused (rejected_execution ''PERSISTED_POLICY_NOT_FOUND'')))
      | Some (a, p, c) \<Rightarrow>
          if ar_status a = Act_SUCCEEDED then Inr (Decided (Refused (already_executed a)))
          else if ar_status a = Act_EXECUTING
          then if ar_id a \<in> in_flight then Inr (Decided (reconciliation_required a))
               else if surface = STANDARD_PAYMENT_LINK then Inr (Decided (Claimed a True))
               else Inr (Decided (reconciliation_required a))
          else if PolicyDecisionRecord.pr_disposition p = BLOCK
          then Inr (Decided (Refused (rejected_execution ''POLICY_BLOCKED'')))
          else if ar_status a = Act_CANCELLED
          then Inr (Decided (Refused (rejected_execution ''ACTION_CANCELLED'')))
          else if ar_status a \<notin> claimable_statuses (PolicyDecisionRecord.pr_disposition p)
          then Inr (Decided (Refused (rejected_execution ''ACTION_NOT_AUTHORIZED'')))
          else if \<not> is_aware clock
          then Inl (Activity_Value_Error ''activity clock must return an offset-aware instant'')
          else (case effective_delay a p of
             None \<Rightarrow> Inr (Claimable a (utc_instant clock))
           | Some due \<Rightarrow> if utc_instant clock < due
               then Inr (Decided (Refused (rejected_execution ''ACTION_NOT_DUE'')))
               else Inr (Claimable a (utc_instant clock))))"

definition claim_matches :: "RecoveryActionRecord \<Rightarrow> instant \<Rightarrow> RecoveryActionRecord \<Rightarrow> bool" where
  "claim_matches a claimed_at r \<longleftrightarrow> ar_id r = ar_id a \<and> ar_status r = ar_status a
     \<and> (case ar_scheduled_for r of None \<Rightarrow> True | Some t \<Rightarrow> t \<le> claimed_at)"

definition find_action :: "a2a_database \<Rightarrow> ident \<Rightarrow> RecoveryActionRecord option" where
  "find_action db i = find (\<lambda>r. ar_id r = i) (db_actions db)"

definition write_direct_claim ::
    "ident set \<Rightarrow> PaymentSurfaceType \<Rightarrow> RecoveryActionRecord \<Rightarrow> instant \<Rightarrow> a2a_database
     \<Rightarrow> payment_claim \<times> a2a_database" where
  "write_direct_claim in_flight surface a claimed_at db =
     (if \<exists>r \<in> set (db_actions db). claim_matches a claimed_at r
      then (Claimed (a\<lparr>ar_status := Act_EXECUTING, ar_updated_at := claimed_at\<rparr>) False,
            db\<lparr>db_actions := update_where (claim_matches a claimed_at)
              (\<lambda>r. r\<lparr>ar_status := Act_EXECUTING, ar_updated_at := claimed_at\<rparr>) (db_actions db)\<rparr>)
      else (case find_action db (ar_id a) of
          None \<Rightarrow> Refused (uncertain_execution None ''SUBMISSION_RECONCILIATION_REQUIRED'')
        | Some current \<Rightarrow>
            if ar_status current = Act_SUCCEEDED then Refused (already_executed current)
            else if ar_status current = Act_EXECUTING \<and> ar_id current \<notin> in_flight
              \<and> surface = STANDARD_PAYMENT_LINK then Claimed current True
            else reconciliation_required current, db))"

section \<open>Claiming an action with a mandate\<close>

record runtime =
  rt_provider :: provider_kind
  rt_crypto :: crypto
  rt_read_mandate :: "jobject \<Rightarrow> SignedMandate option"

text \<open>
  The scope of a payment, compared as one tuple: action, invoice, case, merchant, customer, amount,
  currency, surface type and surface reference; a nullable column is \<open>None\<close>.
\<close>

type_synonym payment_scope = "ident option \<times> ident option \<times> ident \<times> ident \<times> ident option \<times> paise option
  \<times> string option \<times> string option \<times> string option"

definition command_scope :: "ExecuteActionInput \<Rightarrow> PaymentSurfaceType \<Rightarrow> payment_scope" where
  "command_scope cmd surface = (ea_recovery_action_id cmd, ea_failed_invoice_id cmd, ea_case_id cmd,
     ea_merchant_id cmd, Some (ea_customer_id cmd), Some (ea_amount_paise cmd), Some (ea_currency cmd),
     Some (surface_value surface), py_or (ea_provider_invoice_id cmd) (ea_failed_invoice_id cmd))"

definition signed_scope :: "RecoveryMandateData \<Rightarrow> payment_scope" where
  "signed_scope d = (Some (md_recovery_action_id d), Some (md_failed_invoice_id d), md_case_id d,
     md_merchant_id d, Some (md_customer_id d), Some (md_exact_amount_paise d), Some (md_currency d),
     Some (md_payment_surface_type d), Some (md_payment_surface_reference d))"

definition persisted_scope :: "A2AMandateNonceConsumption \<Rightarrow> payment_scope" where
  "persisted_scope m = (mc_recovery_action_id m, mc_failed_invoice_id m, mc_case_id m, mc_merchant_id m,
     mc_customer_id m, mc_exact_amount_paise m, mc_currency m, mc_payment_surface_type m,
     mc_payment_surface_reference m)"

definition current_scope ::
    "RecoveryActionRecord \<Rightarrow> Invoice \<Rightarrow> RecoveryCase \<Rightarrow> PaymentSurfaceType \<Rightarrow> payment_scope" where
  "current_scope a iv c surface = (Some (ar_id a), Some (iv_id iv), rc_id c, rc_merchant_id c,
     Some (rc_customer_id c), Some (rc_amount_at_risk_paise c), Some (iv_currency iv),
     Some (surface_value surface), Some (iv_provider_invoice_id iv))"

record mandate_row =
  mw_action :: RecoveryActionRecord
  mw_policy :: PolicyDecisionRecord
  mw_case :: RecoveryCase
  mw_invoice :: Invoice
  mw_authorization :: A2AMandateNonceConsumption

definition mandate_rows ::
    "crypto \<Rightarrow> a2a_database \<Rightarrow> ExecuteActionInput \<Rightarrow> RecoveryMandateData \<Rightarrow> mandate_row list" where
  "mandate_rows cr db cmd d =
     [\<lparr>mw_action = a, mw_policy = p, mw_case = c, mw_invoice = iv, mw_authorization = m\<rparr>.
      a \<leftarrow> db_actions db, c \<leftarrow> db_cases db, p \<leftarrow> db_policies db, iv \<leftarrow> db_invoices db, m \<leftarrow> db_mandates db,
      rc_id c = ar_case_id a \<and> pr_action_id p = Some (ar_id a) \<and> Some (iv_id iv) = rc_failed_invoice_id c
      \<and> mc_recovery_action_id m = Some (ar_id a)
      \<and> Some (ar_id a) = ea_recovery_action_id cmd \<and> ar_case_id a = ea_case_id cmd
      \<and> pr_case_id p = ea_case_id cmd \<and> mc_mandate_id m = md_mandate_id d
      \<and> mc_claim_id m = Some (sha256_hexdigest cr (canonical_json cr d))]"

text \<open>The disjuncts are evaluated in order: the deadline is parsed only if none before it holds.\<close>

definition unsafe_authorization ::
    "mandate_row \<Rightarrow> RecoveryMandateData \<Rightarrow> ExecuteActionInput \<Rightarrow> PaymentSurfaceType \<Rightarrow> instant
     \<Rightarrow> activity_error + bool" where
  "unsafe_authorization row d cmd surface now =
     (let a = mw_action row; c = mw_case row; iv = mw_invoice row; m = mw_authorization row in
      if persisted_scope m \<noteq> signed_scope d \<or> current_scope a iv c surface \<noteq> signed_scope d
         \<or> mc_task_id m \<noteq> Some (md_task_id d) \<or> mc_signer_key_id m \<noteq> md_signer_key_id d
         \<or> mc_authorized_action m \<noteq> Some ''OPEN_EXACT_PAYMENT_SURFACE''
         \<or> mc_issued_at m \<noteq> Some (utc_instant (md_issued_at d))
         \<or> mc_expires_at m \<noteq> utc_instant (md_expires_at d)
         \<or> utc_instant (md_expires_at d) \<le> now \<or> rc_recovery_deadline c < utc_instant (md_expires_at d)
      then Inr True
      else bindE (parse_activity_instant (ea_recovery_deadline cmd)) (\<lambda>deadline.
        Inr (deadline \<noteq> rc_recovery_deadline c
          \<or> iv_amount_paise iv - iv_amount_paid_paise iv \<noteq> md_exact_amount_paise d
          \<or> rc_case_outcome c \<noteq> Case_OPEN \<or> rc_payment_state c = Pay_CAPTURED \<or> rc_case_recovered c
          \<or> ar_action_type a \<noteq> SEND_TO_CUSTOMER_AGENT
          \<or> PolicyDecisionRecord.pr_disposition (mw_policy row) \<notin> {ALLOW, DELAY})))"

definition executing_row :: "instant \<Rightarrow> RecoveryActionRecord \<Rightarrow> RecoveryActionRecord" where
  "executing_row now a = a\<lparr>ar_status := Act_EXECUTING, ar_updated_at := now\<rparr>"

definition executing_mandate :: "instant \<Rightarrow> A2AMandateNonceConsumption \<Rightarrow> A2AMandateNonceConsumption" where
  "executing_mandate now m = m\<lparr>mc_execution_status := EXECUTING, mc_execution_claimed_at := Some now\<rparr>"

definition claim_mandate_row ::
    "mandate_row \<Rightarrow> PaymentSurfaceType \<Rightarrow> instant \<Rightarrow> a2a_database \<Rightarrow> payment_claim \<times> a2a_database" where
  "claim_mandate_row row surface now db =
     (let a = mw_action row; m = mw_authorization row in
      if ar_status a = Act_SUCCEEDED then (Refused (already_executed a), db)
      else if ar_status a = Act_CANCELLED then (Refused (rejected_execution ''ACTION_CANCELLED''), db)
      else if mc_execution_status m \<in> {EXECUTING, UNCERTAIN}
      then (if surface = STANDARD_PAYMENT_LINK then Claimed a True else reconciliation_required a, db)
      else if mc_execution_status m = SUCCEEDED then (Refused (already_executed a), db)
      else if mc_execution_status m \<noteq> AUTHORIZED
      then (Refused (rejected_execution ''A2A_AUTHORIZATION_NOT_EXECUTABLE''), db)
      else if ar_status a \<notin> {Act_PROPOSED, Act_SCHEDULED}
      then (Refused (rejected_execution ''ACTION_NOT_AUTHORIZED''), db)
      else if (case effective_delay a (mw_policy row) of None \<Rightarrow> False | Some due \<Rightarrow> now < due)
      then (Refused (rejected_execution ''ACTION_NOT_DUE''), db)
      else (Claimed (executing_row now a) False,
            db\<lparr>db_actions := update_where (\<lambda>r. ar_id r = ar_id a) (executing_row now) (db_actions db),
               db_mandates := update_where (\<lambda>r. mc_nonce r = mc_nonce m) (executing_mandate now)
                 (db_mandates db)\<rparr>))"

definition claim_a2a_payment_action ::
    "runtime \<Rightarrow> datetime \<Rightarrow> PaymentSurfaceType \<Rightarrow> ExecuteActionInput \<Rightarrow> jobject \<Rightarrow> a2a_database
     \<Rightarrow> (activity_error + payment_claim) \<times> a2a_database" where
  "claim_a2a_payment_action rt clock surface cmd mandate db =
     (if ea_recovery_action_id cmd = None \<or> ea_failed_invoice_id cmd = None
      then (Inr (Refused (rejected_execution ''A2A_DURABLE_SCOPE_MISSING'')), db)
      else case rt_read_mandate rt mandate of
        None \<Rightarrow> (Inr (Refused (rejected_execution ''A2A_MANDATE_MALFORMED'')), db)
      | Some signed_mandate \<Rightarrow>
          if \<not> valid_mandate signed_mandate
          then (Inr (Refused (rejected_execution ''A2A_MANDATE_MALFORMED'')), db)
          else if \<not> is_aware clock
          then (Inl (Activity_Value_Error ''activity clock must return an offset-aware instant''), db)
          else let d = sm_data signed_mandate; now = utc_instant clock in
            if signed_scope d \<noteq> command_scope cmd surface
            then (Inr (Refused (rejected_execution ''A2A_MANDATE_COMMAND_SCOPE_MISMATCH'')), db)
            else case mandate_rows (rt_crypto rt) db cmd d of
              [] \<Rightarrow> (Inr (Refused (rejected_execution ''A2A_VERIFIED_AUTHORIZATION_NOT_FOUND'')), db)
            | row # _ \<Rightarrow>
                (case unsafe_authorization row d cmd surface now of
                   Inl e \<Rightarrow> (Inl e, db)
                 | Inr True \<Rightarrow> (Inr (Refused (rejected_execution ''A2A_AUTHORIZATION_STALE_OR_MISMATCHED'')), db)
                 | Inr False \<Rightarrow> (let (claim, db') = claim_mandate_row row surface now db in (Inr claim, db'))))"

definition claim_payment_action ::
    "runtime \<Rightarrow> ident set \<Rightarrow> datetime \<Rightarrow> ExecuteActionInput \<Rightarrow> a2a_database
     \<Rightarrow> (activity_error + payment_claim) \<times> a2a_database" where
  "claim_payment_action rt in_flight clock cmd db =
     (case ea_payment_surface_type cmd of
        None \<Rightarrow> (Inr (Refused (rejected_execution ''PAYMENT_SURFACE_SCOPE_MISSING'')), db)
      | Some value \<Rightarrow> (case surface_of_value value of
          None \<Rightarrow> (Inl (Activity_Value_Error ''not a valid PaymentSurfaceType''), db)
        | Some surface \<Rightarrow> (case ea_mandate cmd of
            Some mandate \<Rightarrow> claim_a2a_payment_action rt clock surface cmd mandate db
          | None \<Rightarrow> (case read_direct_claim in_flight clock surface cmd db of
              Inl e \<Rightarrow> (Inl e, db)
            | Inr (Decided claim) \<Rightarrow> (Inr claim, db)
            | Inr (Claimable a claimed_at) \<Rightarrow>
                (let (claim, db') = write_direct_claim in_flight surface a claimed_at db
                 in (Inr claim, db'))))))"

section \<open>Submitting to the provider\<close>

definition standard_payment_link_reference :: "crypto \<Rightarrow> string \<Rightarrow> string" where
  "standard_payment_link_reference cr key = ''rec_'' @ take 32 (sha256_hexdigest cr key)"

text \<open>
  What an execution does next: it asks the provider to open the surface, or it goes on without:
  it is answered, reconciles an earlier submission of the link, or stores an opened surface.
\<close>

datatype continuation = Answered ActionExecutionResult
  | Reconcile ident OpenPaymentSurfaceRequest
  | Persist ident PaymentSurfaceResult

datatype execution = Submit ident OpenPaymentSurfaceRequest | Continue continuation

text \<open>The provider's identifiers of the subscription and of the invoice.\<close>

definition provider_scope :: "runtime \<Rightarrow> ExecuteActionInput \<Rightarrow> ident \<Rightarrow> (ident \<times> ident) option" where
  "provider_scope rt cmd invoice_id =
     (if rt_provider rt = Mock_Provider
      then Some (the (py_or (ea_provider_subscription_id cmd) (Some (ea_subscription_id cmd))),
                 the (py_or (ea_provider_invoice_id cmd) (Some invoice_id)))
      else case (ea_provider_subscription_id cmd, ea_provider_invoice_id cmd) of
        (Some s, Some i) \<Rightarrow> Some (s, i) | _ \<Rightarrow> None)"

definition surface_request ::
    "runtime \<Rightarrow> ExecuteActionInput \<Rightarrow> PaymentSurfaceType \<Rightarrow> ident \<times> ident \<Rightarrow> instant \<Rightarrow> RecoveryActionRecord
     \<Rightarrow> OpenPaymentSurfaceRequest" where
  "surface_request rt cmd surface scope deadline a =
     (let link = (surface = STANDARD_PAYMENT_LINK) in
      \<lparr>os_idempotency_key = ar_idempotency_key a, os_case_id = ea_case_id cmd, os_merchant_id = ea_merchant_id cmd,
       os_customer_id = ea_customer_id cmd, os_subscription_id = fst scope, os_failed_invoice_id = snd scope,
       os_surface_type = surface, os_exact_amount_paise = ea_amount_paise cmd, os_currency = ea_currency cmd,
       os_recovery_deadline = deadline, os_expires_at = (if link then Some deadline else None), os_callback_url = None,
       os_reference_id = (if link
         then Some (standard_payment_link_reference (rt_crypto rt) (ar_idempotency_key a)) else None),
       os_notes = (if link then [(''case_id'', ea_case_id cmd), (''invoice_id'', snd scope),
         (''subscription_id'', fst scope)] else [])\<rparr>)"

text \<open>The part of \<open>execute_recovery_action\<close> between the claim and the first call of the provider.\<close>

definition continue_claim ::
    "runtime \<Rightarrow> ExecuteActionInput \<Rightarrow> PaymentSurfaceType \<Rightarrow> ident \<times> ident \<Rightarrow> payment_claim
     \<Rightarrow> activity_error + execution" where
  "continue_claim rt cmd surface scope claim = (case claim of
     Refused r \<Rightarrow> Inr (Continue (Answered r))
   | Claimed a reconcile_first \<Rightarrow>
       bindE (parse_activity_instant (ea_recovery_deadline cmd)) (\<lambda>deadline.
         let request = surface_request rt cmd surface scope deadline a in
         if \<not> valid_surface_request request then Inl Activity_Validation_Error
         else if \<not> reconcile_first then Inr (Submit (ar_id a) request)
         else if surface \<noteq> STANDARD_PAYMENT_LINK
         then Inr (Continue (Answered (uncertain_execution (ar_external_reference a)
           ''SUBMISSION_RECONCILIATION_REQUIRED'')))
         else Inr (Continue (Reconcile (ar_id a) request))))"

text \<open>The checks of the command before the claim: an answer, or the surface and the provider's scope.\<close>

definition check_command ::
    "runtime \<Rightarrow> ExecuteActionInput
     \<Rightarrow> activity_error + (ActionExecutionResult + PaymentSurfaceType \<times> ident \<times> ident)" where
  "check_command rt cmd =
     (if ea_action cmd \<in> {''WAIT_FOR_GATEWAY_RETRY'', ''STOP'', ''ESCALATE_TO_HUMAN''}
      then Inr (Inl (execution_result ''SUCCEEDED'' ''workflow'' None None None))
      else if ea_action cmd \<noteq> ''OPEN_CUSTOMER_PAYMENT_SURFACE''
      then Inr (Inl (rejected_execution ''ACTIVITY_PROVIDER_NOT_CONFIGURED''))
      else case (ea_failed_invoice_id cmd, ea_payment_surface_type cmd) of
        (Some invoice_id, Some value) \<Rightarrow>
          (case surface_of_value value of
             None \<Rightarrow> Inl (Activity_Value_Error ''not a valid PaymentSurfaceType'')
           | Some surface \<Rightarrow> (case provider_scope rt cmd invoice_id of
               None \<Rightarrow> Inr (Inl (rejected_execution ''PAYMENT_PROVIDER_SCOPE_MISSING''))
             | Some scope \<Rightarrow> Inr (Inr (surface, scope))))
      | _ \<Rightarrow> Inr (Inl (rejected_execution ''PAYMENT_SURFACE_SCOPE_MISSING'')))"

definition begin_execution ::
    "runtime \<Rightarrow> ident set \<Rightarrow> datetime \<Rightarrow> ExecuteActionInput \<Rightarrow> a2a_database
     \<Rightarrow> (activity_error + execution) \<times> a2a_database" where
  "begin_execution rt in_flight clock cmd db = (case check_command rt cmd of
     Inl e \<Rightarrow> (Inl e, db)
   | Inr (Inl r) \<Rightarrow> (Inr (Continue (Answered r)), db)
   | Inr (Inr (surface, scope)) \<Rightarrow>
       (let (claim, db') = claim_payment_action rt in_flight clock cmd db
        in (bindE claim (continue_claim rt cmd surface scope), db')))"

definition submission_answered ::
    "ident \<Rightarrow> OpenPaymentSurfaceRequest \<Rightarrow> surface_answer \<Rightarrow> activity_error + continuation" where
  "submission_answered action_id request answer = (case answer of
     Surface_Opened result \<Rightarrow> Inr (Persist action_id result)
   | Surface_Uncertain reference \<Rightarrow>
       if os_surface_type request \<noteq> STANDARD_PAYMENT_LINK \<or> os_reference_id request = None
          \<or> reference \<noteq> os_reference_id request
       then Inr (Answered (execution_result ''UNCERTAIN'' ''razorpay'' None None
         (Some ''SUBMISSION_REFERENCE_MISMATCH'')))
       else Inr (Reconcile action_id request)
   | Surface_Failed \<Rightarrow> Inl (Activity_Value_Error ''provider call failed''))"

definition succeeded_row :: "PaymentSurfaceResult \<Rightarrow> instant \<Rightarrow> RecoveryActionRecord \<Rightarrow> RecoveryActionRecord" where
  "succeeded_row result now a = a\<lparr>ar_status := Act_SUCCEEDED,
     ar_external_reference := Some (sf_provider_reference result),
     ar_customer_url := Some (sf_customer_url result), ar_completed_at := Some now\<rparr>"

definition succeeded_mandate :: "instant \<Rightarrow> A2AMandateNonceConsumption \<Rightarrow> A2AMandateNonceConsumption" where
  "succeeded_mandate now m = m\<lparr>mc_execution_status := SUCCEEDED, mc_executed_at := Some now\<rparr>"

text \<open>The action and the authorization of its mandate, if it has one, succeed together.\<close>

definition store_success :: "ident \<Rightarrow> PaymentSurfaceResult \<Rightarrow> instant \<Rightarrow> a2a_database \<Rightarrow> a2a_database" where
  "store_success action_id result now db =
     db\<lparr>db_actions := update_where (\<lambda>r. ar_id r = action_id) (succeeded_row result now) (db_actions db),
        db_mandates := update_where (\<lambda>m. mc_recovery_action_id m = Some action_id) (succeeded_mandate now)
          (db_mandates db)\<rparr>"

definition opened_surface :: "PaymentSurfaceResult \<Rightarrow> string option \<Rightarrow> ActionExecutionResult" where
  "opened_surface result reason = execution_result ''SUCCEEDED'' (sf_provider result)
     (Some (sf_provider_reference result)) (Some (sf_customer_url result)) reason"

definition persist_payment_surface ::
    "ident \<Rightarrow> PaymentSurfaceResult \<Rightarrow> instant \<Rightarrow> a2a_database \<Rightarrow> ActionExecutionResult \<times> a2a_database" where
  "persist_payment_surface action_id result now db = (case find_action db action_id of
     None \<Rightarrow> (execution_result ''UNCERTAIN'' (sf_provider result) (Some (sf_provider_reference result)) None
       (Some ''ACTION_RECORD_MISSING_AFTER_SUBMISSION''), db)
   | Some persisted \<Rightarrow>
       if ar_status persisted = Act_CANCELLED
       then (execution_result ''REJECTED'' (sf_provider result) (Some (sf_provider_reference result)) None
         (Some ''ACTION_CANCELLED_AFTER_SUBMISSION''), db)
       else if ar_status persisted = Act_SUCCEEDED then (already_executed persisted, db)
       else (opened_surface result None, store_success action_id result now db))"

text \<open>
  The calls of the provider, as they are made. The flag of a submission says that it follows a
  look-up that found the reference absent.
\<close>

datatype provider_call = Open_Surface ident OpenPaymentSurfaceRequest bool
  | Look_Up_Link ident string link_lookup

definition reconcile_or_resume ::
    "runtime \<Rightarrow> ident \<Rightarrow> OpenPaymentSurfaceRequest \<Rightarrow> link_lookup \<Rightarrow> surface_answer \<Rightarrow> instant \<Rightarrow> a2a_database
     \<Rightarrow> (activity_error + ActionExecutionResult) \<times> a2a_database \<times> provider_call list" where
  "reconcile_or_resume rt action_id request lookup answer now db =
     (if rt_provider rt \<noteq> Link_Lifecycle_Provider
      then (Inr (uncertain_execution None ''PAYMENT_LINK_RECONCILIATION_UNSUPPORTED''), db, [])
      else case find_action db action_id of
        None \<Rightarrow> (Inr (uncertain_execution None ''ACTION_RECORD_MISSING_DURING_RECONCILIATION''), db, [])
      | Some persisted \<Rightarrow>
          if ar_status persisted = Act_SUCCEEDED then (Inr (already_executed persisted), db, [])
          else if ar_status persisted = Act_CANCELLED
          then (Inr (rejected_execution ''ACTION_CANCELLED''), db, [])
          else if ar_status persisted \<noteq> Act_EXECUTING
          then (Inr (uncertain_execution None ''ACTION_STATE_CHANGED_DURING_RECONCILIATION''), db, [])
          else case os_reference_id request of
            None \<Rightarrow> (Inl (Activity_Value_Error ''assertion failed''), db, [])
          | Some reference \<Rightarrow>
              (let call = Look_Up_Link action_id reference lookup;
                   unresolved = (\<lambda>reason. Inr (execution_result ''UNCERTAIN'' ''razorpay'' None None (Some reason)))
               in case lookup of
                 Lookup_Failed \<Rightarrow> (unresolved ''PAYMENT_LINK_RECONCILIATION_UNRESOLVED'', db, [call])
               | Link_Found result \<Rightarrow>
                   (Inr (opened_surface result (Some ''SUBMISSION_RECONCILED'')),
                    store_success action_id result now db, [call])
               | Link_Absent \<Rightarrow>
                   (case answer of
                      Surface_Opened result \<Rightarrow>
                        (Inr (opened_surface result (Some ''CONFIRMED_ABSENT_RESUBMITTED'')),
                         store_success action_id result now db, [call, Open_Surface action_id request True])
                    | _ \<Rightarrow> (unresolved ''CONFIRMED_ABSENT_RESUBMISSION_UNCERTAIN'', db,
                        [call, Open_Surface action_id request True]))))"

section \<open>The whole activity\<close>

text \<open>
  The state of a worker process: the database, the submissions it has in flight, and, for the
  statements, the calls of the provider so far.
\<close>

record worker_state =
  ws_db :: a2a_database
  ws_in_flight :: "ident set"
  ws_calls :: "provider_call list"

text \<open>
  What one execution meets: the clock at the claim and when the result is stored, and the provider's
  answers to the first submission, to the look-up and to the second submission. Nothing else runs
  between its transactions here; the interleavings are those of the step relation \<open>activity_step\<close>.
\<close>

record execution_run =
  er_clock :: datetime
  er_answer :: surface_answer
  er_lookup :: link_lookup
  er_second_answer :: surface_answer
  er_stored_at :: instant

definition finish_execution ::
    "runtime \<Rightarrow> execution_run \<Rightarrow> continuation \<Rightarrow> worker_state \<Rightarrow> (activity_error + ActionExecutionResult) \<times> worker_state" where
  "finish_execution rt run rest s = (case rest of
     Answered r \<Rightarrow> (Inr r, s)
   | Persist i result \<Rightarrow>
       (let (r, db') = persist_payment_surface i result (er_stored_at run) (ws_db s) in (Inr r, s\<lparr>ws_db := db'\<rparr>))
   | Reconcile i request \<Rightarrow>
       (let (r, db', calls) = reconcile_or_resume rt i request (er_lookup run) (er_second_answer run)
          (er_stored_at run) (ws_db s) in (r, s\<lparr>ws_db := db', ws_calls := ws_calls s @ calls\<rparr>)))"

definition in_flight_after :: "ident \<Rightarrow> worker_state \<Rightarrow> worker_state" where
  "in_flight_after i s = s\<lparr>ws_in_flight := ws_in_flight s - {i}\<rparr>"

definition submit_surface ::
    "runtime \<Rightarrow> execution_run \<Rightarrow> ident \<Rightarrow> OpenPaymentSurfaceRequest \<Rightarrow> worker_state
     \<Rightarrow> (activity_error + ActionExecutionResult) \<times> worker_state" where
  "submit_surface rt run i request s =
     (let s1 = s\<lparr>ws_in_flight := insert i (ws_in_flight s), ws_calls := ws_calls s @ [Open_Surface i request False]\<rparr>
      in case submission_answered i request (er_answer run) of
           Inl e \<Rightarrow> (Inl e, in_flight_after i s1)
         | Inr (Persist j result) \<Rightarrow> finish_execution rt run (Persist j result) (in_flight_after i s1)
         | Inr rest \<Rightarrow> (let (r, s2) = finish_execution rt run rest s1 in (r, in_flight_after i s2)))"

definition execute_payment_action ::
    "runtime \<Rightarrow> execution_run \<Rightarrow> ExecuteActionInput \<Rightarrow> worker_state
     \<Rightarrow> (activity_error + ActionExecutionResult) \<times> worker_state" where
  "execute_payment_action rt run cmd s =
     (let (begun, db') = begin_execution rt (ws_in_flight s) (er_clock run) cmd (ws_db s);
          s' = s\<lparr>ws_db := db'\<rparr>
      in case begun of
           Inl e \<Rightarrow> (Inl e, s')
         | Inr (Submit i request) \<Rightarrow> submit_surface rt run i request s'
         | Inr (Continue rest) \<Rightarrow> finish_execution rt run rest s')"

section \<open>Claiming a voice action\<close>

datatype voice_claim = Voice_Claimed RecoveryActionRecord | Voice_Refused ActionExecutionResult

definition approval_persisted :: "a2a_database \<Rightarrow> ident \<Rightarrow> RecoveryActionRecord \<Rightarrow> bool" where
  "approval_persisted db case_id a \<longleftrightarrow> (\<exists>e \<in> set (db_events db). re_case_id e = case_id
     \<and> re_event_type e = ''ACTION_APPROVED'' \<and> re_source e = ''operator''
     \<and> (case re_payload e of None \<Rightarrow> False | Some payload \<Rightarrow>
          jget payload ''action_id'' = JStr (ar_id a)
          \<and> jget payload ''action_type'' = JStr (action_value START_VOICE)))"

definition claim_voice_action ::
    "bool \<Rightarrow> instant \<Rightarrow> ExecuteActionInput \<Rightarrow> a2a_database \<Rightarrow> voice_claim \<times> a2a_database" where
  "claim_voice_action provider_ready now cmd db =
     (case last_by (\<lambda>(a, p, c). ar_created_at a) (action_rows db (\<lambda>a c. ar_case_id a = ea_case_id cmd
        \<and> rc_merchant_id c = ea_merchant_id cmd \<and> rc_customer_id c = ea_customer_id cmd
        \<and> rc_subscription_id c = ea_subscription_id cmd \<and> rc_amount_at_risk_paise c = ea_amount_paise cmd
        \<and> ar_action_type a = START_VOICE)) of
        None \<Rightarrow> (Voice_Refused (rejected_execution ''VOICE_PERSISTED_POLICY_NOT_FOUND''), db)
      | Some (a, p, c) \<Rightarrow>
          if PolicyDecisionRecord.pr_disposition p \<noteq> REQUIRE_MANUAL_APPROVAL
          then (Voice_Refused (rejected_execution ''VOICE_MANUAL_APPROVAL_POLICY_REQUIRED''), db)
          else if \<not> approval_persisted db (ea_case_id cmd) a
          then (Voice_Refused (rejected_execution ''VOICE_OPERATOR_APPROVAL_NOT_PERSISTED''), db)
          else if ar_status a = Act_SUCCEEDED
          then (Voice_Refused (execution_result ''SUCCEEDED'' ''persisted'' (ar_external_reference a) None
            (Some ''ALREADY_EXECUTED'')), db)
          else if ar_status a = Act_CANCELLED
          then (Voice_Refused (rejected_execution ''ACTION_CANCELLED''), db)
          else if ar_status a = Act_EXECUTING
          then if \<not> provider_ready
            then (Voice_Refused (uncertain_execution (ar_external_reference a)
              ''VOICE_SUBMISSION_RECONCILIATION_REQUIRED''), db)
            else (Voice_Claimed a, db)
          else if ar_status a \<noteq> Act_SCHEDULED
          then (Voice_Refused (rejected_execution ''VOICE_ACTION_NOT_MANUALLY_APPROVED''), db)
          else if \<not> provider_ready
          then (Voice_Refused (rejected_execution ''VOICE_PROVIDER_NOT_READY''), db)
          else (Voice_Claimed (executing_row now a),
            db\<lparr>db_actions := update_where (\<lambda>r. ar_id r = ar_id a) (executing_row now) (db_actions db)\<rparr>))"

definition finalize_voice_action ::
    "ident \<Rightarrow> ActionStatus \<Rightarrow> string option \<Rightarrow> instant \<Rightarrow> a2a_database \<Rightarrow> a2a_database" where
  "finalize_voice_action action_id status reference now db = (case find_action db action_id of
     None \<Rightarrow> db
   | Some a \<Rightarrow> if ar_status a = Act_SUCCEEDED then db
       else db\<lparr>db_actions := update_where (\<lambda>r. ar_id r = action_id) (\<lambda>r. r\<lparr>ar_status := status,
         ar_external_reference := reference,
         ar_completed_at := (if status \<noteq> Act_EXECUTING then Some now else None)\<rparr>) (db_actions db)\<rparr>)"

text \<open>\<open>start_voice\<close> starts the call; what it does to the shared tables is part of the argument.\<close>

definition execute_voice_action ::
    "bool \<Rightarrow> instant \<Rightarrow> instant \<Rightarrow> (a2a_database \<Rightarrow> (activity_error + VoiceContactResult) \<times> a2a_database)
     \<Rightarrow> ExecuteActionInput \<Rightarrow> a2a_database \<Rightarrow> (activity_error + ActionExecutionResult) \<times> a2a_database" where
  "execute_voice_action provider_ready claimed_at now start_voice cmd db =
     (case claim_voice_action provider_ready claimed_at cmd db of
        (Voice_Refused r, db1) \<Rightarrow> (Inr r, db1)
      | (Voice_Claimed a, db1) \<Rightarrow>
          (case start_voice db1 of
             (Inl e, db2) \<Rightarrow> (Inl e, db2)
           | (Inr result, db2) \<Rightarrow>
               (let reference = py_or (vr_provider_call_id result) (Some (vr_contact_attempt_id result)) in
                if vr_status result = ''SUBMITTED''
                then (Inr (execution_result ''SUCCEEDED'' (vr_provider result) reference None (vr_reason_code result)),
                      finalize_voice_action (ar_id a) Act_SUCCEEDED reference now db2)
                else if vr_status result = ''REJECTED''
                then (Inr (execution_result ''REJECTED'' (vr_provider result) None None (vr_reason_code result)),
                      finalize_voice_action (ar_id a) Act_CANCELLED None now db2)
                else (Inr (execution_result ''UNCERTAIN'' (vr_provider result) reference None
                  (py_or (vr_reason_code result) (Some ''VOICE_SUBMISSION_RECONCILIATION_REQUIRED''))), db2))))"

section \<open>Dispatch by the kind of action\<close>

record voice_run =
  vn_provider_ready :: bool
  vn_claimed_at :: instant
  vn_now :: instant
  vn_start :: "a2a_database \<Rightarrow> (activity_error + VoiceContactResult) \<times> a2a_database"

definition execute_recovery_action ::
    "runtime \<Rightarrow> execution_run \<Rightarrow> voice_run \<Rightarrow> ExecuteActionInput \<Rightarrow> worker_state
     \<Rightarrow> (activity_error + ActionExecutionResult) \<times> worker_state" where
  "execute_recovery_action rt run voice cmd s =
     (if ea_action cmd = ''START_VOICE''
      then let (r, db') = execute_voice_action (vn_provider_ready voice) (vn_claimed_at voice) (vn_now voice)
             (vn_start voice) cmd (ws_db s) in (r, s\<lparr>ws_db := db'\<rparr>)
      else execute_payment_action rt run cmd s)"

section \<open>Canceling the actions of a case\<close>

definition cancelled_row :: "instant \<Rightarrow> RecoveryActionRecord \<Rightarrow> RecoveryActionRecord" where
  "cancelled_row now a = a\<lparr>ar_status := Act_CANCELLED, ar_completed_at := Some now\<rparr>"

record link_provider =
  lp_lookup :: "string \<Rightarrow> link_lookup"
  lp_revoke :: "string \<Rightarrow> link_revocation"

text \<open>The revocation of a link whose reference is known; the flag says that a payment is present.\<close>

definition revoke_link ::
    "link_provider \<Rightarrow> instant \<Rightarrow> string \<Rightarrow> RecoveryActionRecord \<Rightarrow> string + RecoveryActionRecord \<times> bool" where
  "revoke_link lp now reference a = (case lp_revoke lp reference of
     Revocation_Failed \<Rightarrow> Inl ''PAYMENT_LINK_CLEANUP_UNRESOLVED''
   | Revocation_Answered answer \<Rightarrow>
       if answer = ''PAYMENT_PRESENT'' then Inr (a, True)
       else if answer \<notin> {''CANCELLED'', ''ALREADY_INACTIVE''}
       then Inl ''PAYMENT_LINK_CLEANUP_STATUS_UNRESOLVED''
       else Inr (cancelled_row now a, False))"

definition cleanup_link ::
    "runtime \<Rightarrow> link_provider \<Rightarrow> instant \<Rightarrow> RecoveryActionRecord \<Rightarrow> string + RecoveryActionRecord \<times> bool" where
  "cleanup_link rt lp now a = (case ar_external_reference a of
     Some reference \<Rightarrow> revoke_link lp now reference a
   | None \<Rightarrow>
       (case lp_lookup lp (standard_payment_link_reference (rt_crypto rt) (ar_idempotency_key a)) of
          Lookup_Failed \<Rightarrow> Inl ''PAYMENT_LINK_CLEANUP_RECONCILIATION_UNRESOLVED''
        | Link_Absent \<Rightarrow> Inr (cancelled_row now a, False)
        | Link_Found result \<Rightarrow> revoke_link lp now (sf_provider_reference result)
            (a\<lparr>ar_status := Act_SUCCEEDED, ar_external_reference := Some (sf_provider_reference result),
               ar_customer_url := Some (sf_customer_url result)\<rparr>)))"

definition open_link :: "ident \<Rightarrow> RecoveryActionRecord \<Rightarrow> bool" where
  "open_link case_id a \<longleftrightarrow> ar_case_id a = case_id \<and> ar_payment_surface_type a = Some STANDARD_PAYMENT_LINK
     \<and> ar_status a \<in> {Act_EXECUTING, Act_SUCCEEDED}"

text \<open>The rows are written back by their primary key, all of them or none.\<close>

definition save_actions :: "RecoveryActionRecord list \<Rightarrow> a2a_database \<Rightarrow> a2a_database" where
  "save_actions rows db = db\<lparr>db_actions := fold (save_row ar_id) rows (db_actions db)\<rparr>"

definition cleanup_standard_payment_links ::
    "runtime \<Rightarrow> link_provider \<Rightarrow> instant \<Rightarrow> ident \<Rightarrow> a2a_database \<Rightarrow> (bool \<times> string option) \<times> a2a_database" where
  "cleanup_standard_payment_links rt lp now case_id db =
     (let actions = filter (open_link case_id) (db_actions db) in
      if actions = [] then ((True, None), db)
      else case rt_provider rt of
        Mock_Provider \<Rightarrow>
          ((True, Some ''PAYMENT_LINK_MOCK_CANCELLED''), save_actions (map (cancelled_row now) actions) db)
      | Plain_Provider \<Rightarrow> ((False, Some ''PAYMENT_LINK_CLEANUP_UNSUPPORTED''), db)
      | Link_Lifecycle_Provider \<Rightarrow>
          (case traverseE (cleanup_link rt lp now) actions of
             Inl reason \<Rightarrow> ((False, Some reason), db)
           | Inr rows \<Rightarrow>
               ((True, Some (if \<exists>r \<in> set rows. snd r then ''PAYMENT_LINK_PAYMENT_PRESENT_RECONCILIATION_REQUIRED''
                   else ''PAYMENT_LINK_REVOKED'')), save_actions (map fst rows) db)))"

definition cancellable :: "ident \<Rightarrow> RecoveryActionRecord \<Rightarrow> bool" where
  "cancellable case_id a \<longleftrightarrow> ar_case_id a = case_id
     \<and> ar_status a \<in> {Act_PROPOSED, Act_AWAITING_APPROVAL, Act_SCHEDULED, Act_EXECUTING, Act_SUCCEEDED}"

definition cancel_actions :: "instant \<Rightarrow> ident \<Rightarrow> RecoveryActionRecord list \<Rightarrow> RecoveryActionRecord list" where
  "cancel_actions now case_id = update_where (\<lambda>a. cancellable case_id a
     \<and> ar_payment_surface_type a \<noteq> Some STANDARD_PAYMENT_LINK \<and> ar_status a \<noteq> Act_SUCCEEDED) (cancelled_row now)"

text \<open>
  An active call is only cancelled after an authoritative payment. \<open>svc\<close> is the voice service of the environment,
  \<open>failure\<close> the exception of the provider's \<open>cancel_contact\<close>, if it raised one; an exception of the voice service is the
  activity's.
\<close>

definition voice_cancellation_key :: "CancelActionInput \<Rightarrow> string" where
  "voice_cancellation_key cmd = ''voice:'' @ cai_idempotency_key cmd @ '':'' @ py_lower (cai_reason cmd)"

definition cancel_recovery_action ::
    "runtime \<Rightarrow> link_provider \<Rightarrow> instant \<Rightarrow> VoiceContactService \<Rightarrow> string option \<Rightarrow> instant
     \<Rightarrow> CancelActionInput \<Rightarrow> voice_database \<Rightarrow> (voice_error + CancelActionResult) \<times> voice_database" where
  "cancel_recovery_action rt lp now svc failure voice_now cmd s =
     (let ((cleanup_ok, link_reason), db1) = cleanup_standard_payment_links rt lp now (cai_case_id cmd) (vd_core s);
          any_action = (\<exists>a \<in> set (db_actions db1). cancellable (cai_case_id cmd) a);
          s2 = s\<lparr>vd_core := db1\<lparr>db_actions := cancel_actions now (cai_case_id cmd) (db_actions db1)\<rparr>\<rparr>;
          conclude = (\<lambda>voice_reason.
            if \<not> cleanup_ok
            then \<lparr>car_cancelled = False, car_reason_code = py_or link_reason (Some ''PAYMENT_LINK_CLEANUP_UNRESOLVED'')\<rparr>
            else \<lparr>car_cancelled = True, car_reason_code = py_or voice_reason (py_or link_reason
               (Some (if any_action then ''CANCELLED'' else ''NO_ACTIVE_ACTION'')))\<rparr>)
      in if cai_reason cmd \<noteq> ''AUTHORITATIVE_PAYMENT_SUCCESS'' then (Inr (conclude None), s2)
         else (case cancel_for_authoritative_payment svc sql_repository failure (cai_case_id cmd)
               (voice_cancellation_key cmd) voice_now s2 of
             (Inl e, s3, _) \<Rightarrow> (Inl e, s3)
           | (Inr voice, s3, _) \<Rightarrow>
               let voice_reason = py_or (vc_reason_code voice) (Some (''VOICE_'' @ vc_status voice)) in
               (Inr (if vc_status voice = ''UNCERTAIN'' then \<lparr>car_cancelled = False, car_reason_code = voice_reason\<rparr>
                     else conclude voice_reason), s3)))"

end
