(* ===== verification/Execution_Safety.thy ===== *)
theory Execution_Safety
  imports Action_Runtime "HOL-Library.Multiset"
begin

text \<open>
  Any number of worker processes execute recovery actions at the same time: \<open>activity_step\<close>
  interleaves the transactions and provider calls of \<open>Action_Runtime\<close>, loses the executions of a
  process that crashes, and lets the rest of the system write the tables. The invariant \<open>executions_inv\<close>
  of its reachable states gives that an action is submitted blindly at most once, and a lemma
  shows that an activity that runs undisturbed is a path of the relation.
\<close>

section \<open>What the rest of the system may do to an action\<close>

definition unclaimed :: "ActionStatus set" where
  "unclaimed = {Act_PROPOSED, Act_AWAITING_APPROVAL, Act_SCHEDULED}"

text \<open>
  A claimed action is never made claimable again, except the wait for the gateway's own retry,
  which the webhook processor reopens and which is never submitted.
\<close>

definition action_advances :: "RecoveryActionRecord \<Rightarrow> RecoveryActionRecord \<Rightarrow> bool" where
  "action_advances a b \<longleftrightarrow> ar_id b = ar_id a \<and> ar_action_type b = ar_action_type a
     \<and> (ar_action_type a \<noteq> WAIT_FOR_GATEWAY_RETRY \<longrightarrow> ar_status a \<notin> unclaimed \<longrightarrow> ar_status b \<notin> unclaimed)"

definition actions_advance :: "RecoveryActionRecord list \<Rightarrow> RecoveryActionRecord list \<Rightarrow> bool" where
  "actions_advance as bs \<longleftrightarrow> (distinct (map ar_id as) \<longrightarrow> distinct (map ar_id bs))
     \<and> (\<forall>a \<in> set as. \<exists>b \<in> set bs. action_advances a b)"

lemma action_advances_refl [simp]: "action_advances a a"
  by (simp add: action_advances_def)

lemma action_advances_trans: "action_advances a b \<Longrightarrow> action_advances b c \<Longrightarrow> action_advances a c"
  by (auto simp: action_advances_def)

lemma actions_advance_refl [simp]: "actions_advance as as"
  unfolding actions_advance_def using action_advances_refl by blast

lemma actions_advance_trans: "actions_advance as bs \<Longrightarrow> actions_advance bs cs \<Longrightarrow> actions_advance as cs"
  unfolding actions_advance_def by (meson action_advances_trans)

lemma actions_advance_update_where:
  assumes "\<And>a. a \<in> set as \<Longrightarrow> P a \<Longrightarrow> action_advances a (f a)"
  shows "actions_advance as (update_where P f as)"
proof -
  have "map ar_id (update_where P f as) = map ar_id as"
    using assms unfolding update_where_def by (auto simp: action_advances_def)
  moreover have "\<exists>b \<in> set (update_where P f as). action_advances a b" if "a \<in> set as" for a
    by (rule bexI [of _ "if P a then f a else a"]) (use assms that in \<open>auto simp: update_where_def\<close>)
  ultimately show ?thesis by (simp add: actions_advance_def)
qed

lemma actions_advance_save_row:
  assumes "\<And>a. a \<in> set as \<Longrightarrow> ar_id a = ar_id r \<Longrightarrow> action_advances a r"
  shows "actions_advance as (save_row ar_id r as)"
  unfolding save_row_def using assms by (rule actions_advance_update_where)

lemma actions_advance_snoc:
  assumes "\<And>a. a \<in> set as \<Longrightarrow> ar_id a \<noteq> ar_id r"
  shows "actions_advance as (as @ [r])"
  using assms by (fastforce simp: actions_advance_def)

section \<open>Executions side by side\<close>

text \<open>
  Where an execution stands: it has read a claimable action, it is about to call the provider, it
  waits for the answer, or it goes on; the flag says that it is still registered as in flight.
\<close>

datatype phase = Claiming ExecuteActionInput PaymentSurfaceType "ident \<times> ident" RecoveryActionRecord instant
  | Submitting ident OpenPaymentSurfaceRequest
  | Waiting ident OpenPaymentSurfaceRequest
  | Continuing "ident option" continuation

type_synonym worker = nat

record cluster =
  cl_db :: a2a_database
  cl_in_flight :: "worker \<Rightarrow> ident set"
  cl_running :: "(worker \<times> phase) multiset"
  cl_calls :: "provider_call list"

definition with_db :: "a2a_database \<Rightarrow> cluster \<Rightarrow> cluster" where
  "with_db db s = s\<lparr>cl_db := db\<rparr>"

definition enter :: "worker \<Rightarrow> phase \<Rightarrow> cluster \<Rightarrow> cluster" where
  "enter w p s = s\<lparr>cl_running := add_mset (w, p) (cl_running s)\<rparr>"

definition leave :: "worker \<Rightarrow> phase \<Rightarrow> cluster \<Rightarrow> cluster" where
  "leave w p s = s\<lparr>cl_running := cl_running s - {#(w, p)#}\<rparr>"

definition register :: "worker \<Rightarrow> ident \<Rightarrow> cluster \<Rightarrow> cluster" where
  "register w i s = s\<lparr>cl_in_flight := (cl_in_flight s)(w := insert i (cl_in_flight s w))\<rparr>"

definition unregister :: "worker \<Rightarrow> ident option \<Rightarrow> cluster \<Rightarrow> cluster" where
  "unregister w i s = s\<lparr>cl_in_flight := (cl_in_flight s)(w := cl_in_flight s w - set_option i)\<rparr>"

definition log_calls :: "provider_call list \<Rightarrow> cluster \<Rightarrow> cluster" where
  "log_calls cs s = s\<lparr>cl_calls := cl_calls s @ cs\<rparr>"

lemmas cluster_defs = with_db_def enter_def leave_def register_def unregister_def log_calls_def

text \<open>After the claim: an execution that raised or was answered is over.\<close>

definition after_claim :: "worker \<Rightarrow> activity_error + execution \<Rightarrow> cluster \<Rightarrow> cluster" where
  "after_claim w next s = (case next of
     Inl _ \<Rightarrow> s
   | Inr (Submit i request) \<Rightarrow> enter w (Submitting i request) (register w i s)
   | Inr (Continue rest) \<Rightarrow> enter w (Continuing None rest) s)"

definition after_answer :: "worker \<Rightarrow> ident \<Rightarrow> activity_error + continuation \<Rightarrow> cluster \<Rightarrow> cluster" where
  "after_answer w i next s = (case next of
     Inl _ \<Rightarrow> unregister w (Some i) s
   | Inr (Persist j result) \<Rightarrow> enter w (Continuing None (Persist j result)) (unregister w (Some i) s)
   | Inr rest \<Rightarrow> enter w (Continuing (Some i) rest) s)"

inductive activity_step :: "runtime \<Rightarrow> cluster \<Rightarrow> cluster \<Rightarrow> bool" for rt where
  read_claim: "activity_step rt s (enter w (Claiming cmd surface scope a t) s)"
    if "check_command rt cmd = Inr (Inr (surface, scope))" "ea_mandate cmd = None"
      "read_direct_claim (cl_in_flight s w) clock surface cmd (cl_db s) = Inr (Claimable a t)"
| decided_claim: "activity_step rt s (after_claim w (continue_claim rt cmd surface scope claim) s)"
    if "check_command rt cmd = Inr (Inr (surface, scope))" "ea_mandate cmd = None"
      "read_direct_claim (cl_in_flight s w) clock surface cmd (cl_db s) = Inr (Decided claim)"
| write_claim: "activity_step rt s (after_claim w (continue_claim rt cmd surface scope claim)
      (with_db db' (leave w (Claiming cmd surface scope a t) s)))"
    if "(w, Claiming cmd surface scope a t) \<in># cl_running s"
      "write_direct_claim (cl_in_flight s w) surface a t (cl_db s) = (claim, db')"
| mandate_claim: "activity_step rt s (after_claim w (bindE claim (continue_claim rt cmd surface scope)) (with_db db' s))"
    if "check_command rt cmd = Inr (Inr (surface, scope))" "ea_mandate cmd = Some mandate"
      "claim_a2a_payment_action rt clock surface cmd mandate (cl_db s) = (claim, db')"
| call: "activity_step rt s (enter w (Waiting i request)
      (log_calls [Open_Surface i request False] (leave w (Submitting i request) s)))"
    if "(w, Submitting i request) \<in># cl_running s"
| answer: "activity_step rt s (after_answer w i (submission_answered i request answer) (leave w (Waiting i request) s))"
    if "(w, Waiting i request) \<in># cl_running s"
| store: "activity_step rt s (with_db db' (unregister w registered (leave w (Continuing registered (Persist i result)) s)))"
    if "(w, Continuing registered (Persist i result)) \<in># cl_running s"
      "persist_payment_surface i result now (cl_db s) = (r, db')"
| reconcile: "activity_step rt s (log_calls calls (with_db db'
      (unregister w registered (leave w (Continuing registered (Reconcile i request)) s))))"
    if "(w, Continuing registered (Reconcile i request)) \<in># cl_running s"
      "reconcile_or_resume rt i request lookup answer now (cl_db s) = (r, db', calls)"
| respond: "activity_step rt s (unregister w registered (leave w (Continuing registered (Answered r)) s))"
    if "(w, Continuing registered (Answered r)) \<in># cl_running s"
| crash: "activity_step rt s (s\<lparr>cl_running := filter_mset (\<lambda>x. fst x \<noteq> w) (cl_running s),
      cl_in_flight := (cl_in_flight s)(w := {})\<rparr>)"
| elsewhere: "activity_step rt s (with_db db' s)"
    if "actions_advance (db_actions (cl_db s)) (db_actions db')"

inductive_cases activity_stepE: "activity_step rt s s'"

section \<open>What the operations do to the actions\<close>

lemma find_action_mem: "find_action db i = Some a \<Longrightarrow> a \<in> set (db_actions db) \<and> ar_id a = i"
  by (auto simp: find_action_def dest: find_SomeD)

lemma same_id_same_row: "distinct (map ar_id as) \<Longrightarrow> a \<in> set as \<Longrightarrow> b \<in> set as \<Longrightarrow> ar_id a = ar_id b \<Longrightarrow> a = b"
  by (auto simp: distinct_map inj_on_def)

definition taken :: "ident \<Rightarrow> RecoveryActionRecord list \<Rightarrow> bool" where
  "taken i as \<longleftrightarrow> (\<exists>a \<in> set as. ar_id a = i \<and> ar_action_type a \<noteq> WAIT_FOR_GATEWAY_RETRY \<and> ar_status a \<notin> unclaimed)"

lemma taken_advance: "taken i as \<Longrightarrow> actions_advance as bs \<Longrightarrow> taken i bs"
  unfolding taken_def actions_advance_def action_advances_def by metis

text \<open>The row of a claim that was read before: still there, possibly further on.\<close>

definition read_before :: "RecoveryActionRecord list \<Rightarrow> RecoveryActionRecord \<Rightarrow> bool" where
  "read_before as a \<longleftrightarrow> ar_action_type a \<noteq> WAIT_FOR_GATEWAY_RETRY \<and> ar_status a \<in> unclaimed
     \<and> (\<exists>b \<in> set as. action_advances a b)"

lemma read_before_advance: "read_before as a \<Longrightarrow> actions_advance as bs \<Longrightarrow> read_before bs a"
  unfolding read_before_def actions_advance_def using action_advances_trans by meson

lemma action_rows_mem:
  "(a, p, c) \<in> set (action_rows db P) \<longleftrightarrow> a \<in> set (db_actions db) \<and> p \<in> set (db_policies db) \<and> c \<in> set (db_cases db)
     \<and> rc_id c = ar_case_id a \<and> pr_action_id p = Some (ar_id a) \<and> P a c"
  by (auto simp: action_rows_def)

lemma latest_surface_actionD:
  assumes "latest_surface_action db cmd surface = Some (a, p, c)"
  shows "a \<in> set (db_actions db)" "p \<in> set (db_policies db)" "c \<in> set (db_cases db)"
    "rc_id c = ar_case_id a" "pr_action_id p = Some (ar_id a)" "ar_case_id a = ea_case_id cmd"
    "rc_merchant_id c = ea_merchant_id cmd" "ar_action_type a = OPEN_CUSTOMER_PAYMENT_SURFACE"
    "ar_payment_surface_type a = Some surface"
  using last_by_mem [OF assms [unfolded latest_surface_action_def]] by (auto simp: action_rows_mem)

lemma claimable_unclaimed: "st \<in> claimable_statuses d \<Longrightarrow> st \<in> {Act_PROPOSED, Act_SCHEDULED}"
  by (auto simp: claimable_statuses_def split: PolicyDisposition.splits)

text \<open>What a claimable action has when it is read: its policy admits it and it is due.\<close>

lemma read_direct_claim_Claimable:
  assumes "read_direct_claim in_flight clock surface cmd db = Inr (Claimable a t)"
  obtains p c where "latest_surface_action db cmd surface = Some (a, p, c)" "t = utc_instant clock"
    "ar_status a \<in> claimable_statuses (PolicyDecisionRecord.pr_disposition p)"
    "\<And>due. effective_delay a p = Some due \<Longrightarrow> due \<le> t"
proof (cases "latest_surface_action db cmd surface")
  case None
  with assms show ?thesis by (simp add: read_direct_claim_def)
next
  case (Some x)
  obtain b p c where x: "x = (b, p, c)" by (cases x) auto
  show ?thesis
    using assms that [of p c] unfolding read_direct_claim_def Some x
    by (auto split: if_splits option.splits)
qed

lemma read_direct_claim_Claimed:
  assumes "read_direct_claim in_flight clock surface cmd db = Inr (Decided (Claimed a first))"
  shows "first \<and> surface = STANDARD_PAYMENT_LINK"
proof (cases "latest_surface_action db cmd surface")
  case None
  with assms show ?thesis by (simp add: read_direct_claim_def)
next
  case (Some x)
  obtain b p c where x: "x = (b, p, c)" by (cases x) auto
  show ?thesis
    using assms unfolding read_direct_claim_def Some x reconciliation_required_def
    by (auto split: if_splits option.splits)
qed

lemma read_direct_claim_read_before:
  assumes "read_direct_claim in_flight clock surface cmd db = Inr (Claimable a t)"
  shows "read_before (db_actions db) a"
proof -
  obtain p c where r: "latest_surface_action db cmd surface = Some (a, p, c)"
    "ar_status a \<in> claimable_statuses (PolicyDecisionRecord.pr_disposition p)"
    using read_direct_claim_Claimable [OF assms] by blast
  have "a \<in> set (db_actions db)" "ar_action_type a = OPEN_CUSTOMER_PAYMENT_SURFACE" "ar_status a \<in> unclaimed"
    using latest_surface_actionD [OF r(1)] claimable_unclaimed [OF r(2)] by (auto simp: unclaimed_def)
  then show ?thesis by (auto simp: read_before_def intro: bexI [of _ a])
qed

lemma write_direct_claim_cases:
  assumes "write_direct_claim in_flight surface a t db = (claim, db')"
  shows "(\<exists>r \<in> set (db_actions db). claim_matches a t r) \<and> claim = Claimed (executing_row t a) False
      \<and> db_actions db' = update_where (claim_matches a t) (executing_row t) (db_actions db)
    \<or> db' = db \<and> (\<forall>b first. claim = Claimed b first \<longrightarrow> first \<and> surface = STANDARD_PAYMENT_LINK)"
proof (cases "\<exists>r \<in> set (db_actions db). claim_matches a t r")
  case True
  have "(\<lambda>r. r\<lparr>ar_status := Act_EXECUTING, ar_updated_at := t\<rparr>) = executing_row t"
    by (simp add: executing_row_def fun_eq_iff)
  with True assms show ?thesis by (auto simp: write_direct_claim_def executing_row_def)
next
  case False
  with assms show ?thesis
    by (auto simp: write_direct_claim_def reconciliation_required_def split: option.splits if_splits)
qed

lemma executing_advances [simp]: "action_advances a (executing_row t a)"
  by (simp add: action_advances_def executing_row_def unclaimed_def)

lemma claim_mandate_row_cases:
  assumes "claim_mandate_row row surface now db = (claim, db')"
  shows "ar_status (mw_action row) \<in> {Act_PROPOSED, Act_SCHEDULED} \<and> mc_execution_status (mw_authorization row) = AUTHORIZED
      \<and> (\<forall>due. effective_delay (mw_action row) (mw_policy row) = Some due \<longrightarrow> due \<le> now)
      \<and> claim = Claimed (executing_row now (mw_action row)) False
      \<and> db' = db\<lparr>db_actions := update_where (\<lambda>r. ar_id r = ar_id (mw_action row)) (executing_row now) (db_actions db),
          db_mandates := update_where (\<lambda>r. mc_nonce r = mc_nonce (mw_authorization row)) (executing_mandate now)
            (db_mandates db)\<rparr>
    \<or> db' = db \<and> (\<forall>b first. claim = Claimed b first \<longrightarrow> first \<and> surface = STANDARD_PAYMENT_LINK)"
  using assms unfolding claim_mandate_row_def Let_def reconciliation_required_def
  by (auto split: if_splits option.splits)

lemma mandate_rows_mem:
  assumes "row \<in> set (mandate_rows cr db cmd d)"
  shows "mw_action row \<in> set (db_actions db)" "mw_policy row \<in> set (db_policies db)" "mw_case row \<in> set (db_cases db)"
    "mw_invoice row \<in> set (db_invoices db)" "mw_authorization row \<in> set (db_mandates db)"
    "rc_id (mw_case row) = ar_case_id (mw_action row)" "pr_action_id (mw_policy row) = Some (ar_id (mw_action row))"
    "Some (iv_id (mw_invoice row)) = rc_failed_invoice_id (mw_case row)"
    "mc_recovery_action_id (mw_authorization row) = Some (ar_id (mw_action row))"
    "Some (ar_id (mw_action row)) = ea_recovery_action_id cmd" "pr_case_id (mw_policy row) = ea_case_id cmd"
    "mc_mandate_id (mw_authorization row) = md_mandate_id d"
    "mc_claim_id (mw_authorization row) = Some (sha256_hexdigest cr (canonical_json cr d))"
  using assms by (auto simp: mandate_rows_def)

text \<open>A claim with a mandate that goes on had a safe authorization.\<close>

lemma claim_a2a_cases:
  assumes "claim_a2a_payment_action rt clock surface cmd mandate db = (r, db')"
  obtains (kept) "db' = db" "\<And>b first. r = Inr (Claimed b first) \<Longrightarrow> first \<and> surface = STANDARD_PAYMENT_LINK"
  | (claimed) envelope row where "rt_read_mandate rt mandate = Some envelope" "valid_mandate envelope"
      "signed_scope (sm_data envelope) = command_scope cmd surface"
      "row \<in> set (mandate_rows (rt_crypto rt) db cmd (sm_data envelope))"
      "unsafe_authorization row (sm_data envelope) cmd surface (utc_instant clock) = Inr False"
      "ar_status (mw_action row) \<in> {Act_PROPOSED, Act_SCHEDULED}" "mc_execution_status (mw_authorization row) = AUTHORIZED"
      "\<And>due. effective_delay (mw_action row) (mw_policy row) = Some due \<Longrightarrow> due \<le> utc_instant clock"
      "r = Inr (Claimed (executing_row (utc_instant clock) (mw_action row)) False)"
      "db' = db\<lparr>db_actions := update_where (\<lambda>r. ar_id r = ar_id (mw_action row))
            (executing_row (utc_instant clock)) (db_actions db),
          db_mandates := update_where (\<lambda>r. mc_nonce r = mc_nonce (mw_authorization row))
            (executing_mandate (utc_instant clock)) (db_mandates db)\<rparr>"
proof (cases "ea_recovery_action_id cmd = None \<or> ea_failed_invoice_id cmd = None")
  case True
  with assms kept show ?thesis by (auto simp: claim_a2a_payment_action_def)
next
  case scope: False
  show ?thesis
  proof (cases "rt_read_mandate rt mandate")
    case None
    with assms scope kept show ?thesis by (auto simp: claim_a2a_payment_action_def)
  next
    case (Some envelope)
    let ?rows = "mandate_rows (rt_crypto rt) db cmd (sm_data envelope)"
    let ?unsafe = "\<lambda>row. unsafe_authorization row (sm_data envelope) cmd surface (utc_instant clock)"
    show ?thesis
    proof (cases "\<exists>row rows. valid_mandate envelope \<and> is_aware clock
        \<and> signed_scope (sm_data envelope) = command_scope cmd surface \<and> ?rows = row # rows \<and> ?unsafe row = Inr False")
      case True
      then obtain row rows where r: "valid_mandate envelope" "is_aware clock"
        "signed_scope (sm_data envelope) = command_scope cmd surface" "?rows = row # rows" "?unsafe row = Inr False"
        by blast
      obtain claim db1 where c: "claim_mandate_row row surface (utc_instant clock) db = (claim, db1)" by fastforce
      with assms scope Some r have eq: "r = Inr claim" "db' = db1"
        unfolding claim_a2a_payment_action_def Let_def by auto
      have row: "row \<in> set ?rows" using r(4) by simp
      from claim_mandate_row_cases [OF c] show ?thesis
      proof (elim disjE conjE)
        assume "db1 = db" "\<forall>b first. claim = Claimed b first \<longrightarrow> first \<and> surface = STANDARD_PAYMENT_LINK"
        then show ?thesis using eq by (intro kept) auto
      next
        assume "ar_status (mw_action row) \<in> {Act_PROPOSED, Act_SCHEDULED}"
          and "mc_execution_status (mw_authorization row) = AUTHORIZED"
          and "\<forall>due. effective_delay (mw_action row) (mw_policy row) = Some due \<longrightarrow> due \<le> utc_instant clock"
          and "claim = Claimed (executing_row (utc_instant clock) (mw_action row)) False"
          and "db1 = db\<lparr>db_actions := update_where (\<lambda>r. ar_id r = ar_id (mw_action row))
              (executing_row (utc_instant clock)) (db_actions db),
            db_mandates := update_where (\<lambda>r. mc_nonce r = mc_nonce (mw_authorization row))
              (executing_mandate (utc_instant clock)) (db_mandates db)\<rparr>"
        then show ?thesis using eq by (intro claimed [OF Some r(1,3) row r(5)]) simp_all
      qed
    next
      case False
      with assms scope Some have "db' = db \<and> (\<forall>b first. r \<noteq> Inr (Claimed b first))"
        unfolding claim_a2a_payment_action_def Let_def
        by (auto split: if_splits list.splits sum.splits bool.splits)
      with kept show ?thesis by blast
    qed
  qed
qed

lemma unsafe_authorization_False:
  assumes "unsafe_authorization row d cmd surface now = Inr False"
  shows "persisted_scope (mw_authorization row) = signed_scope d"
    "current_scope (mw_action row) (mw_invoice row) (mw_case row) surface = signed_scope d"
    "now < utc_instant (md_expires_at d)" "utc_instant (md_expires_at d) \<le> rc_recovery_deadline (mw_case row)"
    "iv_amount_paise (mw_invoice row) - iv_amount_paid_paise (mw_invoice row) = md_exact_amount_paise d"
    "rc_case_outcome (mw_case row) = Case_OPEN" "rc_payment_state (mw_case row) \<noteq> Pay_CAPTURED"
    "\<not> rc_case_recovered (mw_case row)" "ar_action_type (mw_action row) = SEND_TO_CUSTOMER_AGENT"
    "PolicyDecisionRecord.pr_disposition (mw_policy row) \<in> {ALLOW, DELAY}"
  using assms unfolding unsafe_authorization_def Let_def by (auto simp: bindE_eq_Inr split: if_splits)

lemma succeeded_advances [simp]: "action_advances a (succeeded_row result t a)"
  by (simp add: action_advances_def succeeded_row_def unclaimed_def)

lemma store_success_advances: "actions_advance (db_actions db) (db_actions (store_success i result t db))"
  by (simp add: store_success_def actions_advance_update_where)

lemma persist_advances:
  "persist_payment_surface i result t db = (r, db') \<Longrightarrow> actions_advance (db_actions db) (db_actions db')"
  by (auto simp: persist_payment_surface_def store_success_advances split: option.splits if_splits)

lemma reconcile_cases:
  assumes "reconcile_or_resume rt i request lookup answer t db = (r, db', calls)"
  shows "actions_advance (db_actions db) (db_actions db')
    \<and> (calls = [] \<or> (\<exists>reference. os_reference_id request = Some reference
        \<and> (calls = [Look_Up_Link i reference lookup]
           \<or> lookup = Link_Absent \<and> calls = [Look_Up_Link i reference Link_Absent, Open_Surface i request True])))"
  using assms unfolding reconcile_or_resume_def Let_def
  by (auto simp: store_success_advances split: if_splits option.splits link_lookup.splits surface_answer.splits)

section \<open>The invariant\<close>

fun is_blind :: "ident \<Rightarrow> provider_call \<Rightarrow> bool" where
  "is_blind i (Open_Surface j request confirmed_absent) \<longleftrightarrow> j = i \<and> \<not> confirmed_absent"
| "is_blind i (Look_Up_Link j reference answer) \<longleftrightarrow> False"

fun is_submitting :: "ident \<Rightarrow> phase \<Rightarrow> bool" where
  "is_submitting i (Submitting j request) \<longleftrightarrow> j = i"
| "is_submitting i p \<longleftrightarrow> False"

text \<open>The submissions of an action that follow no look-up, those included that are about to be made.\<close>

definition blind_submissions :: "ident \<Rightarrow> cluster \<Rightarrow> nat" where
  "blind_submissions i s = length (filter (is_blind i) (cl_calls s))
     + size (filter_mset (\<lambda>x. is_submitting i (snd x)) (cl_running s))"

text \<open>Every other submission is of a payment link whose reference was looked up just before and was absent.\<close>

definition confirmed_by :: "provider_call list \<Rightarrow> provider_call \<Rightarrow> bool" where
  "confirmed_by before c \<longleftrightarrow> (case c of
     Open_Surface i request True \<Rightarrow> os_surface_type request = STANDARD_PAYMENT_LINK \<and> before \<noteq> []
       \<and> (\<exists>reference. os_reference_id request = Some reference \<and> last before = Look_Up_Link i reference Link_Absent)
   | _ \<Rightarrow> True)"

definition resubmissions_confirmed :: "provider_call list \<Rightarrow> bool" where
  "resubmissions_confirmed calls \<longleftrightarrow>
     (\<forall>before c after. calls = before @ c # after \<longrightarrow> confirmed_by before c)"

fun phase_ok :: "RecoveryActionRecord list \<Rightarrow> phase \<Rightarrow> bool" where
  "phase_ok as (Claiming cmd surface scope a t) \<longleftrightarrow> read_before as a"
| "phase_ok as (Continuing registered (Reconcile i request)) \<longleftrightarrow> os_surface_type request = STANDARD_PAYMENT_LINK"
| "phase_ok as p \<longleftrightarrow> True"

definition executions_inv :: "cluster \<Rightarrow> bool" where
  "executions_inv s \<longleftrightarrow> distinct (map ar_id (db_actions (cl_db s)))
     \<and> (\<forall>i. blind_submissions i s \<le> 1 \<and> (blind_submissions i s = 1 \<longrightarrow> taken i (db_actions (cl_db s))))
     \<and> (\<forall>x \<in># cl_running s. phase_ok (db_actions (cl_db s)) (snd x))
     \<and> resubmissions_confirmed (cl_calls s)"

lemma phase_ok_advance: "phase_ok as p \<Longrightarrow> actions_advance as bs \<Longrightarrow> phase_ok bs p"
  by (induction as p rule: phase_ok.induct) (auto intro: read_before_advance)

lemma resubmissions_confirmed_Nil [simp]: "resubmissions_confirmed []"
  by (simp add: resubmissions_confirmed_def)

lemma resubmissions_confirmed_snoc [simp]:
  "resubmissions_confirmed (calls @ [c]) \<longleftrightarrow> resubmissions_confirmed calls \<and> confirmed_by calls c"
proof -
  have "calls @ [c] = before @ d # after \<longleftrightarrow> after = [] \<and> before = calls \<and> d = c
      \<or> (\<exists>rest. after = rest @ [c] \<and> calls = before @ d # rest)" for before d after
    by (cases after rule: rev_cases) auto
  then have "(\<forall>before d after. calls @ [c] = before @ d # after \<longrightarrow> Q before d) \<longleftrightarrow>
      (\<forall>before d after. calls = before @ d # after \<longrightarrow> Q before d) \<and> Q calls c" for Q
    by (simp only:) metis
  then show ?thesis unfolding resubmissions_confirmed_def .
qed

lemma resubmissions_confirmed_two [simp]:
  "resubmissions_confirmed (calls @ [c, d]) \<longleftrightarrow>
     resubmissions_confirmed calls \<and> confirmed_by calls c \<and> confirmed_by (calls @ [c]) d"
  using resubmissions_confirmed_snoc [of "calls @ [c]" d] by simp

lemma filter_mset_diff_single:
  "x \<in># M \<Longrightarrow> filter_mset P (M - {#x#}) = filter_mset P M - (if P x then {#x#} else {#})"
  by (auto dest!: multi_member_split)

lemma inv_kept:
  assumes "executions_inv s" and "actions_advance (db_actions (cl_db s)) (db_actions (cl_db s'))"
    and "\<And>i. blind_submissions i s' \<le> blind_submissions i s"
    and "\<And>x. x \<in># cl_running s' \<Longrightarrow> x \<in># cl_running s \<or> phase_ok (db_actions (cl_db s')) (snd x)"
    and "resubmissions_confirmed (cl_calls s')"
  shows "executions_inv s'"
  unfolding executions_inv_def
proof (intro conjI allI ballI)
  show "distinct (map ar_id (db_actions (cl_db s')))"
    using assms(1,2) by (simp add: executions_inv_def actions_advance_def)
  show "blind_submissions i s' \<le> 1" for i
    using assms(1) assms(3) [of i] unfolding executions_inv_def by (meson le_trans)
  show "blind_submissions i s' = 1 \<longrightarrow> taken i (db_actions (cl_db s'))" for i
  proof
    assume "blind_submissions i s' = 1"
    with assms(1) assms(3) [of i] have "blind_submissions i s = 1"
      unfolding executions_inv_def by (metis le_antisym)
    with assms(1) have "taken i (db_actions (cl_db s))" by (simp add: executions_inv_def)
    then show "taken i (db_actions (cl_db s'))" using assms(2) by (rule taken_advance)
  qed
  show "phase_ok (db_actions (cl_db s')) (snd x)" if "x \<in># cl_running s'" for x
    using assms(1) assms(4) [OF that] phase_ok_advance [OF _ assms(2)] by (auto simp: executions_inv_def)
  show "resubmissions_confirmed (cl_calls s')" by (rule assms(5))
qed

lemma inv_claimed:
  assumes "executions_inv s" and "actions_advance (db_actions (cl_db s)) (db_actions db')"
    and "\<not> taken i (db_actions (cl_db s))" and "taken i (db_actions db')"
    and "cl_db s' = db'" "cl_calls s' = cl_calls s" "cl_running s' = add_mset (w, Submitting i request) M"
    and "M \<subseteq># cl_running s"
  shows "executions_inv s'"
proof -
  have M: "size (filter_mset P M) \<le> size (filter_mset P (cl_running s))" for P
    by (rule size_mset_mono [OF multiset_filter_mono [OF assms(8)]])
  have zero: "blind_submissions i s = 0" using assms(1,3) unfolding executions_inv_def by (metis One_nat_def le_SucE le_zero_eq)
  have "blind_submissions j s' \<le> blind_submissions j s" if "j \<noteq> i" for j
    using M [of "\<lambda>x. is_submitting j (snd x)"] that assms(6,7) by (simp add: blind_submissions_def)
  moreover have "blind_submissions i s' = 1"
    using zero assms(6-8) by (auto simp: blind_submissions_def dest: mset_subset_eqD)
  ultimately have "blind_submissions j s' \<le> 1 \<and> (blind_submissions j s' = 1 \<longrightarrow> taken j (db_actions db'))" for j
    using assms(1,4) taken_advance [OF _ assms(2), of j] unfolding executions_inv_def
    by (cases "j = i") (simp, metis le_antisym le_trans)
  moreover have "phase_ok (db_actions db') (snd x)" if "x \<in># cl_running s'" for x
  proof (cases "x = (w, Submitting i request)")
    case False
    with that assms(7,8) have "x \<in># cl_running s" by (auto dest: mset_subset_eqD)
    with assms(1) show ?thesis using phase_ok_advance [OF _ assms(2)] by (auto simp: executions_inv_def)
  qed simp
  ultimately show ?thesis
    using assms(1,2,5,6) by (simp add: executions_inv_def actions_advance_def)
qed

text \<open>An execution that leaves a phase it is not about to submit in, and perhaps enters another.\<close>

lemma blind_leave: "blind_submissions i (leave w p s) \<le> blind_submissions i s"
  by (simp add: blind_submissions_def leave_def size_mset_mono multiset_filter_mono)

lemma blind_call:
  assumes "(w, Submitting i request) \<in># cl_running s"
  shows "blind_submissions j (log_calls [Open_Surface i request False] (leave w (Submitting i request) s))
    = blind_submissions j s"
  using assms by (auto simp: blind_submissions_def cluster_defs filter_mset_diff_single size_Diff_singleton
      dest!: multi_member_split)

lemma running_leave: "x \<in># cl_running (leave w p s) \<Longrightarrow> x \<in># cl_running s"
  by (auto simp: leave_def dest: in_diffD)

lemma cluster_sel [simp]:
  "cl_db (with_db db s) = db" "cl_calls (with_db db s) = cl_calls s" "cl_running (with_db db s) = cl_running s"
  "cl_db (enter w p s) = cl_db s" "cl_calls (enter w p s) = cl_calls s"
  "cl_running (enter w p s) = add_mset (w, p) (cl_running s)"
  "cl_db (leave w p s) = cl_db s" "cl_calls (leave w p s) = cl_calls s"
  "cl_db (register w i s) = cl_db s" "cl_calls (register w i s) = cl_calls s"
  "cl_running (register w i s) = cl_running s"
  "cl_db (unregister w r s) = cl_db s" "cl_calls (unregister w r s) = cl_calls s"
  "cl_running (unregister w r s) = cl_running s"
  "cl_db (log_calls cs s) = cl_db s" "cl_calls (log_calls cs s) = cl_calls s @ cs"
  "cl_running (log_calls cs s) = cl_running s"
  by (simp_all add: cluster_defs)

lemma blind_cong:
  "cl_calls s' = cl_calls s \<Longrightarrow> cl_running s' = cl_running s \<Longrightarrow> blind_submissions i s' = blind_submissions i s"
  by (simp add: blind_submissions_def)

lemma blind_sel [simp]:
  "blind_submissions i (with_db db s) = blind_submissions i s"
  "blind_submissions i (register w j s) = blind_submissions i s"
  "blind_submissions i (unregister w r s) = blind_submissions i s"
  "blind_submissions i (enter w p s) = blind_submissions i s + (if is_submitting i p then 1 else 0)"
  by (simp_all add: blind_submissions_def)

lemma continue_claim_cases:
  assumes "continue_claim rt cmd surface scope claim = Inr ex"
  obtains (answered) r where "ex = Continue (Answered r)"
  | (submit) a request where "claim = Claimed a False" "ex = Submit (ar_id a) request"
  | (reconcile) a request where "claim = Claimed a True" "ex = Continue (Reconcile (ar_id a) request)"
      "os_surface_type request = STANDARD_PAYMENT_LINK"
  using assms unfolding continue_claim_def
  by (auto simp: bindE_eq_Inr surface_request_def Let_def split: payment_claim.splits if_splits)

lemma submission_answered_Reconcile:
  "submission_answered i request answer = Inr (Reconcile j request') \<Longrightarrow>
     request' = request \<and> os_surface_type request = STANDARD_PAYMENT_LINK"
  by (auto simp: submission_answered_def split: surface_answer.splits if_splits)

text \<open>After a claim that changed nothing, or that took the action it submits.\<close>

lemma inv_after_claim:
  assumes inv: "executions_inv s"
    and base: "cl_calls s1 = cl_calls s" "cl_running s1 \<subseteq># cl_running s"
    and claim: "cl_db s1 = cl_db s \<and> (\<forall>b first. claim = Inr (Claimed b first) \<longrightarrow> first)
      \<or> (\<exists>b. claim = Inr (Claimed b False) \<and> \<not> taken (ar_id b) (db_actions (cl_db s))
           \<and> taken (ar_id b) (db_actions (cl_db s1))
           \<and> actions_advance (db_actions (cl_db s)) (db_actions (cl_db s1)))"
  shows "executions_inv (after_claim w (bindE claim (continue_claim rt cmd surface scope)) s1)"
proof -
  have adv: "actions_advance (db_actions (cl_db s)) (db_actions (cl_db s1))" using claim by auto
  have blind1: "blind_submissions i s1 \<le> blind_submissions i s" for i
    using base size_mset_mono [OF multiset_filter_mono [OF base(2), of "\<lambda>x. is_submitting i (snd x)"]]
    by (simp add: blind_submissions_def)
  have run1: "x \<in># cl_running s1 \<Longrightarrow> x \<in># cl_running s" for x using base(2) by (rule mset_subset_eqD)
  have calls1: "resubmissions_confirmed (cl_calls s1)" using inv base(1) by (simp add: executions_inv_def)
  let ?next = "bindE claim (continue_claim rt cmd surface scope)"
  show ?thesis
  proof (cases ?next)
    case (Inl e)
    then show ?thesis
      using inv_kept [OF inv adv blind1 disjI1 [OF run1] calls1] by (simp add: after_claim_def)
  next
    case (Inr ex)
    then obtain c where c: "claim = Inr c" "continue_claim rt cmd surface scope c = Inr ex"
      by (auto simp: bindE_eq_Inr)
    from c(2) show ?thesis
    proof (cases rule: continue_claim_cases)
      case (submit a request)
      with claim c(1) have t: "\<not> taken (ar_id a) (db_actions (cl_db s))" "taken (ar_id a) (db_actions (cl_db s1))" by auto
      have "executions_inv (enter w (Submitting (ar_id a) request) (register w (ar_id a) s1))"
        by (rule inv_claimed [OF inv adv t]) (use base in simp_all)
      then show ?thesis using Inr submit by (simp add: after_claim_def)
    next
      case (answered r)
      have "executions_inv (enter w (Continuing None (Answered r)) s1)"
        by (rule inv_kept [OF inv]) (use adv blind1 run1 calls1 in auto)
      then show ?thesis using Inr answered by (simp add: after_claim_def)
    next
      case (reconcile a request)
      have "executions_inv (enter w (Continuing None (Reconcile (ar_id a) request)) s1)"
        by (rule inv_kept [OF inv]) (use adv blind1 run1 calls1 reconcile in auto)
      then show ?thesis using Inr reconcile by (simp add: after_claim_def)
    qed
  qed
qed

lemma write_claim_takes:
  assumes inv: "executions_inv s" and p: "(w, Claiming cmd surface scope a t) \<in># cl_running s"
    and wr: "write_direct_claim in_flight surface a t (cl_db s) = (claim, db')"
  shows "db' = cl_db s \<and> (\<forall>b first. claim = Claimed b first \<longrightarrow> first)
    \<or> (\<exists>b. claim = Claimed b False \<and> \<not> taken (ar_id b) (db_actions (cl_db s)) \<and> taken (ar_id b) (db_actions db')
        \<and> actions_advance (db_actions (cl_db s)) (db_actions db'))"
  using write_direct_claim_cases [OF wr]
proof (elim disjE conjE bexE)
  fix r assume r: "r \<in> set (db_actions (cl_db s))" "claim_matches a t r"
    and c: "claim = Claimed (executing_row t a) False"
    and db': "db_actions db' = update_where (claim_matches a t) (executing_row t) (db_actions (cl_db s))"
  have d: "distinct (map ar_id (db_actions (cl_db s)))" using inv by (simp add: executions_inv_def)
  have "read_before (db_actions (cl_db s)) a" using inv p by (force simp: executions_inv_def)
  then obtain b where b: "b \<in> set (db_actions (cl_db s))" "action_advances a b"
    "ar_action_type a \<noteq> WAIT_FOR_GATEWAY_RETRY" "ar_status a \<in> unclaimed" by (auto simp: read_before_def)
  have "r = b" using same_id_same_row [OF d r(1) b(1)] r(2) b(2) by (simp add: claim_matches_def action_advances_def)
  with b r(2) have row: "ar_id r = ar_id a" "ar_action_type r \<noteq> WAIT_FOR_GATEWAY_RETRY" "ar_status r \<in> unclaimed"
    by (auto simp: claim_matches_def action_advances_def)
  have "\<not> taken (ar_id a) (db_actions (cl_db s))"
    using same_id_same_row [OF d _ r(1)] row by (auto simp: taken_def)
  moreover have "executing_row t r \<in> set (db_actions db')" using r db' by (auto simp: set_update_where)
  then have "taken (ar_id a) (db_actions db')"
    using row by (auto simp: taken_def executing_row_def unclaimed_def intro!: bexI [of _ "executing_row t r"])
  moreover have "actions_advance (db_actions (cl_db s)) (db_actions db')"
    unfolding db' by (rule actions_advance_update_where) simp
  ultimately show ?thesis using c by (auto simp: executing_row_def)
next
  assume "db' = cl_db s" "\<forall>b first. claim = Claimed b first \<longrightarrow> first \<and> surface = STANDARD_PAYMENT_LINK"
  then show ?thesis by blast
qed

lemma mandate_claim_takes:
  assumes d: "distinct (map ar_id (db_actions db))"
    and cl: "claim_a2a_payment_action rt clock surface cmd mandate db = (claim, db')"
  shows "db' = db \<and> (\<forall>b first. claim = Inr (Claimed b first) \<longrightarrow> first)
    \<or> (\<exists>b. claim = Inr (Claimed b False) \<and> \<not> taken (ar_id b) (db_actions db) \<and> taken (ar_id b) (db_actions db')
        \<and> actions_advance (db_actions db) (db_actions db'))"
  using cl
proof (cases rule: claim_a2a_cases)
  case kept
  then show ?thesis by blast
next
  case (claimed envelope row)
  let ?a = "mw_action row" and ?t = "utc_instant clock"
  have a: "?a \<in> set (db_actions db)" using mandate_rows_mem(1) [OF claimed(4)] .
  have ty: "ar_action_type ?a = SEND_TO_CUSTOMER_AGENT" using unsafe_authorization_False(9) [OF claimed(5)] .
  have "\<not> taken (ar_id ?a) (db_actions db)"
    using same_id_same_row [OF d _ a] claimed(6) by (auto simp: taken_def unclaimed_def)
  moreover have "executing_row ?t ?a \<in> set (db_actions db')" using a claimed(10) by (auto simp: set_update_where)
  then have "taken (ar_id ?a) (db_actions db')"
    using ty by (auto simp: taken_def executing_row_def unclaimed_def intro!: bexI [of _ "executing_row ?t ?a"])
  moreover have "actions_advance (db_actions db) (db_actions db')"
    using claimed(10) by (simp add: actions_advance_update_where)
  ultimately show ?thesis using claimed(9) by (auto simp: executing_row_def)
qed

lemma after_answer_inv:
  assumes inv: "executions_inv s" and p: "(w, Waiting i request) \<in># cl_running s"
  shows "executions_inv (after_answer w i (submission_answered i request answer) (leave w (Waiting i request) s))"
proof -
  let ?s = "leave w (Waiting i request) s" and ?next = "submission_answered i request answer"
  have kept: "executions_inv s'" if "cl_db s' = cl_db s" "cl_calls s' = cl_calls s"
    and "cl_running s' = cl_running ?s \<or> (\<exists>registered c. cl_running s' = add_mset (w, Continuing registered c) (cl_running ?s)
      \<and> phase_ok (db_actions (cl_db s)) (Continuing registered c))" for s'
  proof (rule inv_kept [OF inv])
    show "blind_submissions j s' \<le> blind_submissions j s" for j
      using that(2,3) blind_leave [of j w "Waiting i request" s] by (auto simp: blind_submissions_def)
    show "x \<in># cl_running s \<or> phase_ok (db_actions (cl_db s')) (snd x)" if "x \<in># cl_running s'" for x
      using that \<open>cl_db s' = cl_db s\<close>
        \<open>cl_running s' = cl_running ?s \<or> (\<exists>registered c. cl_running s' = add_mset (w, Continuing registered c) (cl_running ?s)
          \<and> phase_ok (db_actions (cl_db s)) (Continuing registered c))\<close>
      by (auto dest: running_leave)
  qed (use that inv in \<open>simp_all add: executions_inv_def\<close>)
  show ?thesis
  proof (cases ?next)
    case (Inr c)
    show ?thesis
    proof (cases c)
      case (Reconcile j request')
      then show ?thesis using Inr submission_answered_Reconcile [of i request answer j request']
        by (intro kept) (auto simp: after_answer_def)
    qed (use Inr in \<open>auto intro!: kept simp: after_answer_def\<close>)
  qed (auto intro!: kept simp: after_answer_def)
qed

lemma activity_step_inv:
  assumes "activity_step rt s s'" and inv: "executions_inv s"
  shows "executions_inv s'"
  using assms(1)
proof cases
  case (read_claim cmd surface scope w clock a t)
  show ?thesis unfolding read_claim(1)
    by (rule inv_kept [OF inv])
       (use inv read_direct_claim_read_before [OF read_claim(4)] in \<open>auto simp: executions_inv_def\<close>)
next
  case (decided_claim cmd surface scope w clock claim)
  have "executions_inv (after_claim w (bindE (Inr claim) (continue_claim rt cmd surface scope)) s)"
    by (rule inv_after_claim [OF inv]) (use decided_claim(4) in \<open>auto dest: read_direct_claim_Claimed\<close>)
  then show ?thesis using decided_claim(1) by simp
next
  case (write_claim w cmd surface scope a t claim db')
  let ?s = "with_db db' (leave w (Claiming cmd surface scope a t) s)"
  have "executions_inv (after_claim w (bindE (Inr claim) (continue_claim rt cmd surface scope)) ?s)"
    by (rule inv_after_claim [OF inv])
       (use write_claim_takes [OF inv write_claim(2,3)] in \<open>auto simp: leave_def\<close>)
  then show ?thesis using write_claim(1) by simp
next
  case (mandate_claim cmd surface scope mandate clock claim db' w)
  have "distinct (map ar_id (db_actions (cl_db s)))" using inv by (simp add: executions_inv_def)
  from mandate_claim_takes [OF this mandate_claim(4)] show ?thesis unfolding mandate_claim(1)
    by (intro inv_after_claim [OF inv]) auto
next
  case (call w i request)
  show ?thesis unfolding call(1)
    by (rule inv_kept [OF inv])
       (use inv blind_call [OF call(2)] in \<open>auto simp: executions_inv_def confirmed_by_def dest: running_leave\<close>)
next
  case (answer w i request answer)
  show ?thesis unfolding answer(1) by (rule after_answer_inv [OF inv answer(2)])
next
  case (store w registered i result now r db')
  show ?thesis unfolding store(1)
    by (rule inv_kept [OF inv])
       (use inv blind_leave persist_advances [OF store(3)] in \<open>auto simp: executions_inv_def dest: running_leave\<close>)
next
  case (reconcile w registered i request lookup answer now r db' calls)
  have link: "os_surface_type request = STANDARD_PAYMENT_LINK"
    using inv reconcile(2) by (force simp: executions_inv_def)
  have calls: "calls = [] \<or> (\<exists>reference. os_reference_id request = Some reference
        \<and> (calls = [Look_Up_Link i reference lookup]
           \<or> calls = [Look_Up_Link i reference Link_Absent, Open_Surface i request True]))"
    and adv: "actions_advance (db_actions (cl_db s)) (db_actions db')"
    using reconcile_cases [OF reconcile(3)] by auto
  let ?s = "leave w (Continuing registered (Reconcile i request)) s"
  have "blind_submissions j (log_calls calls (with_db db' (unregister w registered ?s))) = blind_submissions j ?s" for j
    using calls by (auto simp: blind_submissions_def)
  moreover have "resubmissions_confirmed (cl_calls s @ calls)"
    using calls inv link by (auto simp: executions_inv_def confirmed_by_def)
  ultimately show ?thesis unfolding reconcile(1)
    by (intro inv_kept [OF inv]) (use adv blind_leave in \<open>auto dest: running_leave\<close>)
next
  case (respond w registered r)
  show ?thesis unfolding respond(1)
    by (rule inv_kept [OF inv]) (use inv blind_leave in \<open>auto simp: executions_inv_def dest: running_leave\<close>)
next
  case (crash w)
  have "blind_submissions i s' \<le> blind_submissions i s" for i
    unfolding crash(1) blind_submissions_def
    by (simp add: size_mset_mono multiset_filter_mono del: filter_filter_mset)
  note kept = this
  show ?thesis
    by (rule inv_kept [OF inv _ kept]) (use inv crash in \<open>auto simp: executions_inv_def\<close>)
next
  case (elsewhere db')
  show ?thesis unfolding elsewhere(1)
    by (rule inv_kept [OF inv]) (use inv elsewhere in \<open>auto simp: executions_inv_def\<close>)
qed

section \<open>An activity that runs undisturbed\<close>

definition worker_view :: "worker \<Rightarrow> cluster \<Rightarrow> worker_state" where
  "worker_view w s = \<lparr>ws_db = cl_db s, ws_in_flight = cl_in_flight s w, ws_calls = cl_calls s\<rparr>"

text \<open>The cluster after process \<open>w\<close> has gone on to the given state.\<close>

definition worker_done :: "worker \<Rightarrow> worker_state \<Rightarrow> cluster \<Rightarrow> cluster" where
  "worker_done w v s = s\<lparr>cl_db := ws_db v, cl_in_flight := (cl_in_flight s)(w := ws_in_flight v), cl_calls := ws_calls v\<rparr>"

lemma worker_sel [simp]:
  "ws_db (worker_view w s) = cl_db s" "ws_in_flight (worker_view w s) = cl_in_flight s w"
  "ws_calls (worker_view w s) = cl_calls s" "worker_done w (worker_view w s) s = s"
  by (simp_all add: worker_view_def worker_done_def)

lemma finish_path:
  assumes "finish_execution rt run rest (worker_view w s) = (r, v)"
  shows "(activity_step rt)\<^sup>*\<^sup>* (enter w (Continuing registered rest) s)
    (worker_done w (v\<lparr>ws_in_flight := ws_in_flight v - set_option registered\<rparr>) s)"
    (is "(activity_step rt)\<^sup>*\<^sup>* ?s ?s'")
proof (rule r_into_rtranclp, cases rest)
  let ?t = "unregister w registered (leave w (Continuing registered rest) ?s)"
  case (Answered x)
  have "activity_step rt ?s ?t" unfolding Answered by (rule activity_step.respond) simp
  moreover have "?t = ?s'" using assms Answered
    by (intro cluster.equality) (auto simp: finish_execution_def worker_done_def cluster_defs worker_view_def)
  ultimately show "activity_step rt ?s ?s'" by simp
next
  case (Persist i result)
  obtain x db' where p: "persist_payment_surface i result (er_stored_at run) (cl_db s) = (x, db')" by fastforce
  let ?t = "with_db db' (unregister w registered (leave w (Continuing registered rest) ?s))"
  have "activity_step rt ?s ?t" unfolding Persist by (rule activity_step.store) (use p in simp_all)
  moreover have "?t = ?s'" using assms p Persist
    by (intro cluster.equality) (auto simp: finish_execution_def worker_done_def cluster_defs worker_view_def)
  ultimately show "activity_step rt ?s ?s'" by simp
next
  case (Reconcile i request)
  obtain x db' calls where p: "reconcile_or_resume rt i request (er_lookup run) (er_second_answer run)
      (er_stored_at run) (cl_db s) = (x, db', calls)" by (metis prod_cases3)
  let ?t = "log_calls calls (with_db db' (unregister w registered (leave w (Continuing registered rest) ?s)))"
  have "activity_step rt ?s ?t" unfolding Reconcile by (rule activity_step.reconcile) (use p in simp_all)
  moreover have "?t = ?s'" using assms p Reconcile
    by (intro cluster.equality) (auto simp: finish_execution_def worker_done_def cluster_defs worker_view_def)
  ultimately show "activity_step rt ?s ?s'" by simp
qed

text \<open>From the call of the provider on.\<close>

lemma submit_path:
  assumes "submit_surface rt run i request (worker_view w s) = (r, v)"
  shows "(activity_step rt)\<^sup>*\<^sup>* (enter w (Submitting i request) (register w i s)) (worker_done w v s)"
proof -
  let ?s1 = "log_calls [Open_Surface i request False] (register w i s)"
  let ?next = "submission_answered i request (er_answer run)"
  let ?v1 = "worker_view w ?s1"
  have v1: "(worker_view w s)\<lparr>ws_in_flight := insert i (ws_in_flight (worker_view w s)),
      ws_calls := ws_calls (worker_view w s) @ [Open_Surface i request False]\<rparr> = ?v1"
    by (simp add: worker_view_def cluster_defs)
  have "activity_step rt (enter w (Submitting i request) (register w i s)) (enter w (Waiting i request) ?s1)"
    using activity_step.call [of w i request "enter w (Submitting i request) (register w i s)" rt]
    by (simp add: cluster_defs)
  moreover have "activity_step rt (enter w (Waiting i request) ?s1) (after_answer w i ?next ?s1)"
    using activity_step.answer [of w i request "enter w (Waiting i request) ?s1" rt "er_answer run"]
    by (simp add: cluster_defs)
  moreover have "(activity_step rt)\<^sup>*\<^sup>* (after_answer w i ?next ?s1) (worker_done w v s)"
  proof (cases ?next)
    case (Inl e)
    then have "after_answer w i ?next ?s1 = worker_done w v s"
      using assms by (intro cluster.equality)
        (auto simp: submit_surface_def in_flight_after_def after_answer_def worker_done_def cluster_defs worker_view_def)
    then show ?thesis by simp
  next
    case (Inr c)
    show ?thesis
    proof (cases "\<exists>j result. c = Persist j result")
      case True
      have view: "worker_view w (unregister w (Some i) ?s1) = in_flight_after i ?v1"
        by (simp add: worker_view_def in_flight_after_def cluster_defs)
      have "finish_execution rt run c (worker_view w (unregister w (Some i) ?s1)) = (r, v)"
        using assms True Inr unfolding view submit_surface_def Let_def v1 by auto
      from finish_path [OF this, of None] True Inr show ?thesis
        by (auto simp: after_answer_def worker_done_def cluster_defs)
    next
      case False
      obtain v2 where f: "finish_execution rt run c ?v1 = (r, v2)" "v = in_flight_after i v2"
        using assms False Inr unfolding submit_surface_def v1 Let_def
        by (cases c) (auto split: prod.splits)
      from finish_path [OF f(1), of "Some i"] f(2) False Inr show ?thesis
        by (cases c) (auto simp: after_answer_def worker_done_def cluster_defs in_flight_after_def)
    qed
  qed
  ultimately show ?thesis by (meson converse_rtranclp_into_rtranclp)
qed

lemma claim_path:
  assumes "check_command rt cmd = Inr (Inr (surface, scope))"
    and "claim_payment_action rt (cl_in_flight s w) clock cmd (cl_db s) = (claim, db')"
  shows "(activity_step rt)\<^sup>*\<^sup>* s (after_claim w (bindE claim (continue_claim rt cmd surface scope)) (with_db db' s))"
proof -
  have sf: "\<exists>value. ea_payment_surface_type cmd = Some value \<and> surface_of_value value = Some surface"
    using assms(1) by (auto simp: check_command_def split: if_splits option.splits)
  show ?thesis
  proof (cases "ea_mandate cmd")
    case (Some mandate)
    with sf assms(2) have "claim_a2a_payment_action rt clock surface cmd mandate (cl_db s) = (claim, db')"
      by (auto simp: claim_payment_action_def)
    from activity_step.mandate_claim [OF assms(1) Some this] show ?thesis by blast
  next
    case None
    let ?read = "read_direct_claim (cl_in_flight s w) clock surface cmd (cl_db s)"
    have claim: "(claim, db') = (case ?read of
        Inl e \<Rightarrow> (Inl e, cl_db s) | Inr (Decided c) \<Rightarrow> (Inr c, cl_db s)
      | Inr (Claimable a t) \<Rightarrow>
          (let (c, db1) = write_direct_claim (cl_in_flight s w) surface a t (cl_db s) in (Inr c, db1)))"
      using sf None assms(2) by (auto simp: claim_payment_action_def)
    have same: "with_db (cl_db s) s = s" by (simp add: with_db_def)
    show ?thesis
    proof (cases ?read)
      case (Inl e)
      with claim same show ?thesis by (simp add: after_claim_def)
    next
      case (Inr x)
      show ?thesis
      proof (cases x)
        case (Decided c)
        with Inr claim same activity_step.decided_claim [OF assms(1) None, of s w clock c] show ?thesis by auto
      next
        case (Claimable a t)
        obtain c db1 where wr: "write_direct_claim (cl_in_flight s w) surface a t (cl_db s) = (c, db1)" by fastforce
        let ?s = "enter w (Claiming cmd surface scope a t) s"
        have "activity_step rt s ?s"
          using activity_step.read_claim [OF assms(1) None] Inr Claimable by blast
        moreover have "activity_step rt ?s (after_claim w (continue_claim rt cmd surface scope c)
            (with_db db1 (leave w (Claiming cmd surface scope a t) ?s)))"
          by (rule activity_step.write_claim) (use wr in \<open>simp_all add: enter_def\<close>)
        moreover have "leave w (Claiming cmd surface scope a t) ?s = s" by (simp add: leave_def enter_def)
        ultimately show ?thesis using claim Inr Claimable wr by (auto intro: rtranclp.intros)
      qed
    qed
  qed
qed

lemma view_with_db [simp]: "worker_view w (with_db db s) = (worker_view w s)\<lparr>ws_db := db\<rparr>"
  by (simp add: worker_view_def with_db_def)

lemma done_with_db [simp]: "worker_done w v (with_db db s) = worker_done w v s"
  by (simp add: worker_done_def with_db_def)

lemma execution_path:
  assumes "execute_payment_action rt run cmd (worker_view w s) = (r, v)"
  shows "(activity_step rt)\<^sup>*\<^sup>* s (worker_done w v s)"
proof -
  obtain begun db' where b: "begin_execution rt (cl_in_flight s w) (er_clock run) cmd (cl_db s) = (begun, db')" by fastforce
  have ex: "(r, v) = (case begun of Inl e \<Rightarrow> (Inl e, worker_view w (with_db db' s))
      | Inr (Submit i request) \<Rightarrow> submit_surface rt run i request (worker_view w (with_db db' s))
      | Inr (Continue rest) \<Rightarrow> finish_execution rt run rest (worker_view w (with_db db' s)))"
    using assms b unfolding view_with_db by (auto simp: execute_payment_action_def Let_def)
  have rest_path: "(activity_step rt)\<^sup>*\<^sup>* (after_claim w begun (with_db db' s)) (worker_done w v s)"
  proof (cases begun)
    case (Inl e)
    with ex have "v = worker_view w (with_db db' s)" by simp
    then show ?thesis using Inl worker_sel(4) [of w "with_db db' s"] by (simp add: after_claim_def)
  next
    case (Inr x)
    show ?thesis
    proof (cases x)
      case (Submit i request)
      with Inr ex have "submit_surface rt run i request (worker_view w (with_db db' s)) = (r, v)" by simp
      from submit_path [OF this] Inr Submit show ?thesis by (simp add: after_claim_def)
    next
      case (Continue rest)
      with Inr ex have "finish_execution rt run rest (worker_view w (with_db db' s)) = (r, v)" by simp
      from finish_path [OF this, of None] Inr Continue show ?thesis by (simp add: after_claim_def)
    qed
  qed
  show ?thesis
  proof (cases "\<exists>surface scope. check_command rt cmd = Inr (Inr (surface, scope))")
    case True
    then obtain surface scope where c: "check_command rt cmd = Inr (Inr (surface, scope))" by blast
    obtain claim db1 where cl: "claim_payment_action rt (cl_in_flight s w) (er_clock run) cmd (cl_db s) = (claim, db1)"
      by fastforce
    have "begun = bindE claim (continue_claim rt cmd surface scope)" "db' = db1"
      using b c cl by (auto simp: begin_execution_def)
    with claim_path [OF c cl] rest_path show ?thesis by auto
  next
    case False
    with b have "db' = cl_db s \<and> (\<forall>x. begun = Inr x \<longrightarrow> (\<exists>y. x = Continue (Answered y)))"
      by (auto simp: begin_execution_def split: sum.splits)
    then have "v = worker_view w s" using ex by (cases begun) (auto simp: finish_execution_def with_db_def)
    then show ?thesis by simp
  qed
qed

section \<open>Properties\<close>

definition fresh_cluster :: "a2a_database \<Rightarrow> cluster" where
  "fresh_cluster db = \<lparr>cl_db = db, cl_in_flight = (\<lambda>_. {}), cl_running = {#}, cl_calls = []\<rparr>"

lemma fresh_cluster_inv: "distinct (map ar_id (db_actions db)) \<Longrightarrow> executions_inv (fresh_cluster db)"
  by (simp add: executions_inv_def fresh_cluster_def blind_submissions_def)

lemma reachable_inv:
  assumes "(activity_step rt)\<^sup>*\<^sup>* s s'" and "executions_inv s"
  shows "executions_inv s'"
  using assms by (induction rule: rtranclp_induct) (auto intro: activity_step_inv)

definition submissions_of :: "ident \<Rightarrow> provider_call list \<Rightarrow> OpenPaymentSurfaceRequest list" where
  "submissions_of i calls = concat (map (\<lambda>c. case c of
     Open_Surface j request _ \<Rightarrow> if j = i then [request] else [] | _ \<Rightarrow> []) calls)"

lemma submissions_all_blind:
  assumes "resubmissions_confirmed calls"
    and "\<forall>request \<in> set (submissions_of i calls). os_surface_type request \<noteq> STANDARD_PAYMENT_LINK"
  shows "length (submissions_of i calls) = length (filter (is_blind i) calls)"
  using assms
proof (induction calls rule: rev_induct)
  case (snoc c calls)
  then show ?case
    by (cases c) (auto simp: submissions_of_def confirmed_by_def split: if_splits bool.splits)
qed (simp add: submissions_of_def)

text \<open>
  C5: an action is submitted blindly at most once. Whatever executions of whatever commands run side by
  side in any number of worker processes, whatever the provider answers, whichever processes crash
  and whatever the rest of the system writes, the provider is asked at most once to open a surface for
  an action without a look-up before it; every further request is for a payment link, immediately
  after the provider has reported its reference as absent. For the surfaces that cannot be looked up
  there is at most one request.
\<close>

theorem at_most_one_blind_submission:
  assumes "distinct (map ar_id (db_actions db))" and "(activity_step rt)\<^sup>*\<^sup>* (fresh_cluster db) s"
  shows "length (filter (is_blind i) (cl_calls s)) \<le> 1 \<and> resubmissions_confirmed (cl_calls s)
    \<and> ((\<forall>request \<in> set (submissions_of i (cl_calls s)). os_surface_type request \<noteq> STANDARD_PAYMENT_LINK) \<longrightarrow>
        length (submissions_of i (cl_calls s)) \<le> 1)"
proof -
  have "executions_inv s" using reachable_inv [OF assms(2) fresh_cluster_inv [OF assms(1)]] .
  then have "blind_submissions i s \<le> 1" "resubmissions_confirmed (cl_calls s)" by (simp_all add: executions_inv_def)
  moreover from this have "length (filter (is_blind i) (cl_calls s)) \<le> 1" by (simp add: blind_submissions_def)
  ultimately show ?thesis using submissions_all_blind by metis
qed

text \<open>
  C19: the activity is a path of the interleaving machine. An execution that starts in a reachable
  state and runs to its end without interruption, with the database, the submissions in flight and
  the provider calls it leaves behind, is a sequence of steps of the machine; so it keeps the invariant.
\<close>

theorem execution_refines_machine:
  assumes "(activity_step rt)\<^sup>*\<^sup>* (fresh_cluster db) s" and "distinct (map ar_id (db_actions db))"
    and "execute_payment_action rt run cmd (worker_view w s) = (r, v)"
  shows "(activity_step rt)\<^sup>*\<^sup>* (fresh_cluster db) (worker_done w v s) \<and> executions_inv (worker_done w v s)"
  using execution_path [OF assms(3)] assms(1) reachable_inv [OF _ fresh_cluster_inv [OF assms(2)]]
  by (meson rtranclp_trans)
end
