(* ===== verification/Action_Safety.thy ===== *)
theory Action_Safety
  imports Execution_Safety
begin

text \<open>
  What a claim, the policy activity and a cancellation guarantee (\<open>services/worker/app/runtime.py\<close>):
  only a persisted and permitted action is submitted, a mandate that is claimed reaches the provider,
  the policy answer is the stored one, and a cancellation leaves no action open but a payment
  link that was not submitted yet. A concrete database gives the witnesses.
\<close>

section \<open>Claims\<close>

text \<open>What the tables hold when an action is claimed for submission.\<close>

definition permitted_claim :: "a2a_database \<Rightarrow> instant \<Rightarrow> ExecuteActionInput \<Rightarrow> RecoveryActionRecord
    \<Rightarrow> PolicyDecisionRecord \<Rightarrow> RecoveryCase \<Rightarrow> bool" where
  "permitted_claim db now cmd a p c \<longleftrightarrow> a \<in> set (db_actions db) \<and> p \<in> set (db_policies db) \<and> c \<in> set (db_cases db)
     \<and> rc_id c = ea_case_id cmd \<and> rc_merchant_id c = ea_merchant_id cmd
     \<and> ar_case_id a = rc_id c \<and> pr_action_id p = Some (ar_id a)
     \<and> ar_status a \<in> {Act_PROPOSED, Act_SCHEDULED}
     \<and> PolicyDecisionRecord.pr_disposition p \<noteq> BLOCK
     \<and> (PolicyDecisionRecord.pr_disposition p = REQUIRE_MANUAL_APPROVAL \<longrightarrow> ar_status a = Act_SCHEDULED)
     \<and> (\<forall>due. effective_delay a p = Some due \<longrightarrow> due \<le> now)"

definition permitted_mandate :: "crypto \<Rightarrow> a2a_database \<Rightarrow> instant \<Rightarrow> ExecuteActionInput \<Rightarrow> SignedMandate
    \<Rightarrow> RecoveryActionRecord \<Rightarrow> RecoveryCase \<Rightarrow> bool" where
  "permitted_mandate cr db now cmd envelope a c \<longleftrightarrow>
     (\<exists>m \<in> set (db_mandates db). \<exists>iv \<in> set (db_invoices db). let d = sm_data envelope in
        mc_claim_id m = Some (sha256_hexdigest cr (canonical_json cr d)) \<and> mc_execution_status m = AUTHORIZED
        \<and> mc_recovery_action_id m = Some (ar_id a) \<and> md_recovery_action_id d = ar_id a
        \<and> md_case_id d = rc_id c \<and> md_exact_amount_paise d = ea_amount_paise cmd
        \<and> md_exact_amount_paise d = iv_amount_paise iv - iv_amount_paid_paise iv
        \<and> md_exact_amount_paise d = rc_amount_at_risk_paise c \<and> rc_failed_invoice_id c = Some (iv_id iv)
        \<and> now < utc_instant (md_expires_at d) \<and> utc_instant (md_expires_at d) \<le> rc_recovery_deadline c
        \<and> rc_case_outcome c = Case_OPEN \<and> rc_payment_state c \<noteq> Pay_CAPTURED \<and> \<not> rc_case_recovered c)"

lemma direct_claim_permitted:
  assumes "read_direct_claim in_flight clock surface cmd db = Inr (Claimable a t)"
  shows "\<exists>p c. permitted_claim db (utc_instant clock) cmd a p c \<and> ar_action_type a = OPEN_CUSTOMER_PAYMENT_SURFACE
    \<and> ar_payment_surface_type a = Some surface"
proof -
  obtain p c where r: "latest_surface_action db cmd surface = Some (a, p, c)" "t = utc_instant clock"
    "ar_status a \<in> claimable_statuses (PolicyDecisionRecord.pr_disposition p)"
    "\<And>due. effective_delay a p = Some due \<Longrightarrow> due \<le> t"
    using read_direct_claim_Claimable [OF assms] by blast
  have "permitted_claim db (utc_instant clock) cmd a p c"
    using latest_surface_actionD [OF r(1)] r(2-4) claimable_unclaimed [OF r(3)]
    by (auto simp: permitted_claim_def claimable_statuses_def split: PolicyDisposition.splits)
  with latest_surface_actionD [OF r(1)] show ?thesis by blast
qed

lemma mandate_claim_permitted:
  assumes "claim_a2a_payment_action rt clock surface cmd mandate db = (Inr (Claimed a False), db')"
  obtains envelope row where "rt_read_mandate rt mandate = Some envelope" "valid_mandate envelope"
    "signed_scope (sm_data envelope) = command_scope cmd surface" "a = executing_row (utc_instant clock) (mw_action row)"
    "unsafe_authorization row (sm_data envelope) cmd surface (utc_instant clock) = Inr False"
    "permitted_claim db (utc_instant clock) cmd (mw_action row) (mw_policy row) (mw_case row)"
    "permitted_mandate (rt_crypto rt) db (utc_instant clock) cmd envelope (mw_action row) (mw_case row)"
    "db_actions db' = update_where (\<lambda>r. ar_id r = ar_id (mw_action row)) (executing_row (utc_instant clock)) (db_actions db)"
  using assms
proof (cases rule: claim_a2a_cases)
  case (claimed envelope row)
  note row = mandate_rows_mem [OF claimed(4)] and safe = unsafe_authorization_False [OF claimed(5)]
  have scope: "md_recovery_action_id (sm_data envelope) = ar_id (mw_action row)"
    "md_case_id (sm_data envelope) = rc_id (mw_case row)" "md_case_id (sm_data envelope) = ea_case_id cmd"
    "md_merchant_id (sm_data envelope) = rc_merchant_id (mw_case row)" "md_merchant_id (sm_data envelope) = ea_merchant_id cmd"
    "md_exact_amount_paise (sm_data envelope) = ea_amount_paise cmd"
    "md_exact_amount_paise (sm_data envelope) = rc_amount_at_risk_paise (mw_case row)"
    using safe(2) claimed(3) by (auto simp: current_scope_def signed_scope_def command_scope_def)
  have "permitted_claim db (utc_instant clock) cmd (mw_action row) (mw_policy row) (mw_case row)"
    unfolding permitted_claim_def using row safe(10) scope claimed(6,8) by auto
  moreover have "permitted_mandate (rt_crypto rt) db (utc_instant clock) cmd envelope (mw_action row) (mw_case row)"
    unfolding permitted_mandate_def Let_def
    by (rule bexI [OF bexI [OF _ row(4)] row(5)]) (use row safe scope claimed(7) in auto)
  ultimately show ?thesis using that claimed by auto
qed blast

text \<open>
  C9: only a permitted action is submitted. When an execution claims an action for submission, the
  action belongs to the command's case and merchant, its stored policy decision does not block it and is
  approved where it demands an approval, its delay has elapsed, and the row is marked as executing.
  With a mandate, the verified claim of exactly its bytes is stored for that action and unused, the
  case is open and unpaid, the signed amount is what the command, the case and the invoice say is owed,
  and the mandate has not expired and does not outlive the recovery deadline.
\<close>

theorem claim_is_permitted:
  assumes "claim_payment_action rt in_flight clock cmd db = (Inr (Claimed a False), db')"
  shows "\<exists>a0 p c. permitted_claim db (utc_instant clock) cmd a0 p c \<and> ar_id a0 = ar_id a
    \<and> (\<exists>b \<in> set (db_actions db'). ar_id b = ar_id a \<and> ar_status b = Act_EXECUTING)
    \<and> (\<forall>mandate. ea_mandate cmd = Some mandate \<longrightarrow> (\<exists>envelope. rt_read_mandate rt mandate = Some envelope
         \<and> permitted_mandate (rt_crypto rt) db (utc_instant clock) cmd envelope a0 c))"
proof -
  obtain sf surface where v: "ea_payment_surface_type cmd = Some sf" "surface_of_value sf = Some surface"
    using assms by (auto simp: claim_payment_action_def split: option.splits)
  show ?thesis
  proof (cases "ea_mandate cmd")
    case (Some mandate)
    with assms v have "claim_a2a_payment_action rt clock surface cmd mandate db = (Inr (Claimed a False), db')"
      by (simp add: claim_payment_action_def)
    then obtain envelope and row :: mandate_row where r: "rt_read_mandate rt mandate = Some envelope"
      "a = executing_row (utc_instant clock) (mw_action row)"
      "permitted_claim db (utc_instant clock) cmd (mw_action row) (mw_policy row) (mw_case row)"
      "permitted_mandate (rt_crypto rt) db (utc_instant clock) cmd envelope (mw_action row) (mw_case row)"
      "db_actions db' = update_where (\<lambda>r. ar_id r = ar_id (mw_action row)) (executing_row (utc_instant clock)) (db_actions db)"
      by (rule mandate_claim_permitted) blast
    have "executing_row (utc_instant clock) (mw_action row) \<in> set (db_actions db')"
      using r(3,5) by (auto simp: permitted_claim_def set_update_where)
    with r Some show ?thesis
      by (intro exI [of _ "mw_action row"] exI [of _ "mw_policy row"] exI [of _ "mw_case row"])
         (auto simp: executing_row_def intro!: bexI [of _ "executing_row (utc_instant clock) (mw_action row)"])
  next
    case None
    let ?read = "read_direct_claim in_flight clock surface cmd db"
    have claim: "(Inr (Claimed a False), db') = (case ?read of
        Inl e \<Rightarrow> (Inl e, db) | Inr (Decided c) \<Rightarrow> (Inr c, db)
      | Inr (Claimable b t) \<Rightarrow> (let (c, db1) = write_direct_claim in_flight surface b t db in (Inr c, db1)))"
      using assms None v by (simp add: claim_payment_action_def)
    obtain b t where read: "?read = Inr (Claimable b t)"
      using claim read_direct_claim_Claimed [of in_flight clock surface cmd db a False]
      by (auto split: sum.splits direct_read.splits)
    with claim have wr: "write_direct_claim in_flight surface b t db = (Claimed a False, db')"
      by (auto split: prod.splits)
    from write_direct_claim_cases [OF wr] obtain r where r: "r \<in> set (db_actions db)" "claim_matches b t r"
      "a = executing_row t b" "db_actions db' = update_where (claim_matches b t) (executing_row t) (db_actions db)" by auto
    have "executing_row t r \<in> set (db_actions db')" using r by (auto simp: set_update_where)
    moreover have "ar_id (executing_row t r) = ar_id a" "ar_status (executing_row t r) = Act_EXECUTING" "ar_id b = ar_id a"
      using r by (simp_all add: executing_row_def claim_matches_def)
    ultimately show ?thesis using direct_claim_permitted [OF read] None by auto
  qed
qed

text \<open>
  A claim of a mandate is never burnt. Once the database has marked the action and its mandate as
  executing, the request to the provider is built from validated data and is sent: no later check of
  the command can raise.
\<close>

theorem claimed_mandate_is_submitted:
  assumes "check_command rt cmd = Inr (Inr (surface, scope))" and "ea_mandate cmd = Some mandate"
    and "claim_payment_action rt in_flight clock cmd db = (Inr (Claimed a False), db')"
  shows "\<exists>request. begin_execution rt in_flight clock cmd db = (Inr (Submit (ar_id a) request), db')
    \<and> os_exact_amount_paise request = ea_amount_paise cmd \<and> os_idempotency_key request = ar_idempotency_key a"
proof -
  obtain sf where v: "ea_payment_surface_type cmd = Some sf" "surface_of_value sf = Some surface"
    using assms(1) by (auto simp: check_command_def split: if_splits option.splits)
  with assms(2,3) have "claim_a2a_payment_action rt clock surface cmd mandate db = (Inr (Claimed a False), db')"
    by (simp add: claim_payment_action_def)
  then obtain envelope and row :: mandate_row where r: "valid_mandate envelope" "signed_scope (sm_data envelope) = command_scope cmd surface"
    "unsafe_authorization row (sm_data envelope) cmd surface (utc_instant clock) = Inr False"
    by (rule mandate_claim_permitted) blast
  have "0 < ea_amount_paise cmd" "currency_pattern (ea_currency cmd)"
    using r(1,2) by (auto simp: signed_scope_def command_scope_def valid_mandate_def valid_mandate_data_def)
  moreover obtain deadline where deadline: "parse_activity_instant (ea_recovery_deadline cmd) = Inr deadline"
    using r(3) unfolding unsafe_authorization_def Let_def by (auto simp: bindE_eq_Inr split: if_splits)
  moreover have "length (standard_payment_link_reference (rt_crypto rt) k) \<le> 40" for k
    by (simp add: standard_payment_link_reference_def)
  moreover have "truthy (Some (standard_payment_link_reference (rt_crypto rt) k))" for k
    by (simp add: standard_payment_link_reference_def truthy_def)
  ultimately have "valid_surface_request (surface_request rt cmd surface scope deadline a)"
    by (simp add: valid_surface_request_def guard_standard_payment_link_def surface_request_def Let_def)
  with assms(1,3) deadline show ?thesis
    by (auto simp: begin_execution_def continue_claim_def surface_request_def Let_def)
qed

section \<open>The policy activity\<close>

text \<open>
  C22: the policy activity fails closed. It answers anything but \<open>BLOCK\<close> only if the database holds a
  decision for an action of that type, surface, case and merchant, and the case still has the amount of
  the command; the answer is that decision, with the later of the stored delays.
\<close>

theorem policy_fails_closed:
  assumes "PolicyResult.pr_disposition (evaluate_policy_activity db cmd) \<noteq> ''BLOCK''"
  shows "\<exists>a \<in> set (db_actions db). \<exists>p \<in> set (db_policies db). \<exists>c \<in> set (db_cases db).
    pr_action_id p = Some (ar_id a) \<and> ar_case_id a = rc_id c \<and> rc_id c = pin_case_id cmd
    \<and> rc_merchant_id c = pin_merchant_id cmd \<and> action_value (ar_action_type a) = pin_candidate_action cmd
    \<and> rc_amount_at_risk_paise c = pin_amount_at_risk_paise cmd
    \<and> PolicyDecisionRecord.pr_disposition p \<noteq> BLOCK
    \<and> PolicyResult.pr_disposition (evaluate_policy_activity db cmd)
        = disposition_value (PolicyDecisionRecord.pr_disposition p)
    \<and> PolicyResult.pr_delay_until (evaluate_policy_activity db cmd)
        = map_option (\<lambda>t. Some (Aware t 0)) (effective_delay a p)"
proof -
  let ?surface = "case pin_payment_surface_type cmd of None \<Rightarrow> Some None | Some s \<Rightarrow> map_option Some (surface_of_value s)"
  obtain ty sf where t: "action_type_of_value (pin_candidate_action cmd) = Some ty" "?surface = Some sf"
    using assms by (cases "action_type_of_value (pin_candidate_action cmd)"; cases ?surface)
      (simp_all add: evaluate_policy_activity_def blocked_policy_def)
  have ty: "action_value ty = pin_candidate_action cmd"
    using find_SomeD [OF t(1) [unfolded action_type_of_value_def]] by simp
  let ?rows = "action_rows db (\<lambda>a c. ar_case_id a = pin_case_id cmd \<and> rc_merchant_id c = pin_merchant_id cmd
      \<and> ar_action_type a = ty \<and> ar_payment_surface_type a = (if ty = OPEN_CUSTOMER_PAYMENT_SURFACE then sf else None))"
  let ?last = "last_by (\<lambda>(a, p, c). (ar_created_at a, PolicyDecisionRecord.pr_created_at p)) ?rows"
  have eq: "evaluate_policy_activity db cmd = (case ?last of None \<Rightarrow> blocked_policy cmd ''PERSISTED_POLICY_NOT_FOUND''
      | Some (a, p, c) \<Rightarrow> if rc_amount_at_risk_paise c \<noteq> pin_amount_at_risk_paise cmd
          then blocked_policy cmd ''PERSISTED_CASE_SCOPE_MISMATCH''
          else \<lparr>PolicyResult.pr_disposition = disposition_value (PolicyDecisionRecord.pr_disposition p),
            pr_decision_code = PolicyDecisionRecord.pr_decision_code p, pr_action = action_value (ar_action_type a),
            pr_payment_surface_type = map_option surface_value (ar_payment_surface_type a),
            pr_reason_codes = PolicyDecisionRecord.pr_reason_codes p,
            pr_delay_until = map_option (\<lambda>t. Some (Aware t 0)) (effective_delay a p)\<rparr>)"
    unfolding evaluate_policy_activity_def t by (simp add: Let_def)
  from assms eq obtain a p c where l: "?last = Some (a, p, c)"
    "rc_amount_at_risk_paise c = pin_amount_at_risk_paise cmd"
    by (auto simp: blocked_policy_def split: option.splits if_splits)
  have row: "a \<in> set (db_actions db)" "p \<in> set (db_policies db)" "c \<in> set (db_cases db)"
    "rc_id c = ar_case_id a" "pr_action_id p = Some (ar_id a)" "ar_case_id a = pin_case_id cmd"
    "rc_merchant_id c = pin_merchant_id cmd" "ar_action_type a = ty"
    using last_by_mem [OF l(1)] by (auto simp: action_rows_mem)
  have "PolicyDecisionRecord.pr_disposition p \<noteq> BLOCK" using assms eq l by auto
  with row l ty eq show ?thesis by (intro bexI [of _ a] bexI [of _ p] bexI [of _ c]) auto
qed

section \<open>Cancellation\<close>

lemma cancel_actions_mem:
  assumes "b \<in> set (cancel_actions now case_id as)"
  obtains (kept) "b \<in> set as" "\<not> cancellable case_id b \<or> ar_payment_surface_type b = Some STANDARD_PAYMENT_LINK
      \<or> ar_status b = Act_SUCCEEDED"
  | (cancelled) a where "a \<in> set as" "b = cancelled_row now a" "ar_payment_surface_type a \<noteq> Some STANDARD_PAYMENT_LINK"
  using assms by (auto simp: cancel_actions_def set_update_where)

lemma cancelled_row_sel [simp]:
  "ar_status (cancelled_row now a) = Act_CANCELLED" "ar_id (cancelled_row now a) = ar_id a"
  "ar_case_id (cancelled_row now a) = ar_case_id a" "ar_action_type (cancelled_row now a) = ar_action_type a"
  "ar_payment_surface_type (cancelled_row now a) = ar_payment_surface_type a"
  "ar_idempotency_key (cancelled_row now a) = ar_idempotency_key a"
  by (simp_all add: cancelled_row_def)

text \<open>A link of the provider that is reported as paid.\<close>

definition paid_link :: "link_provider \<Rightarrow> RecoveryActionRecord \<Rightarrow> bool" where
  "paid_link lp a \<longleftrightarrow> (\<exists>reference. ar_external_reference a = Some reference
     \<and> lp_revoke lp reference = Revocation_Answered ''PAYMENT_PRESENT'')"

lemma cleanup_link_Inr:
  assumes "cleanup_link rt lp now a = Inr (b, present)"
  shows "ar_id b = ar_id a \<and> ar_case_id b = ar_case_id a \<and> ar_action_type b = ar_action_type a
    \<and> ar_payment_surface_type b = ar_payment_surface_type a
    \<and> (ar_status b = Act_CANCELLED \<or> present \<and> ar_status b \<in> {ar_status a, Act_SUCCEEDED} \<and> paid_link lp b)"
  using assms unfolding cleanup_link_def revoke_link_def
  by (auto simp: paid_link_def split: option.splits link_lookup.splits link_revocation.splits if_splits)

lemma fold_save_rows:
  assumes "distinct (map ar_id as)" and "distinct (map ar_id rs)"
  shows "set (fold (save_row ar_id) rs as)
    = {b \<in> set as. ar_id b \<notin> ar_id ` set rs} \<union> {r \<in> set rs. ar_id r \<in> ar_id ` set as}"
  using assms
proof (induction rs arbitrary: as)
  case (Cons r rs)
  have ids: "map ar_id (save_row ar_id r as) = map ar_id as" by simp
  then have same: "ar_id ` set (save_row ar_id r as) = ar_id ` set as" by (metis list.set_map)
  have "set (fold (save_row ar_id) (r # rs) as) = {b \<in> set (save_row ar_id r as). ar_id b \<notin> ar_id ` set rs}
      \<union> {x \<in> set rs. ar_id x \<in> ar_id ` set as}"
    using Cons.IH [of "save_row ar_id r as"] Cons.prems ids same by simp
  moreover have "b \<in> set (save_row ar_id r as) \<longleftrightarrow> b \<in> set as \<and> ar_id b \<noteq> ar_id r \<or> b = r \<and> ar_id r \<in> ar_id ` set as" for b
    by (auto simp: save_row_def set_update_where image_iff) metis+
  ultimately show ?case using Cons.prems(2) by auto
qed simp

text \<open>
  The actions after a clean-up of the links that succeeded: each open link of the case is cancelled, or the
  provider reports a payment for it; the other rows are as they were.
\<close>

lemma cleanup_actions:
  assumes "cleanup_standard_payment_links rt lp now case_id db = ((ok, reason), db')"
    and d: "distinct (map ar_id (db_actions db))"
  shows "(\<forall>a \<in> set (db_actions db). \<not> open_link case_id a \<longrightarrow> a \<in> set (db_actions db'))
    \<and> (\<forall>b \<in> set (db_actions db'). b \<in> set (db_actions db) \<and> (ok \<longrightarrow> \<not> open_link case_id b)
        \<or> ar_payment_surface_type b = Some STANDARD_PAYMENT_LINK \<and> (ar_status b = Act_CANCELLED
           \<or> ar_status b \<in> {Act_EXECUTING, Act_SUCCEEDED} \<and> paid_link lp b))
    \<and> map ar_id (db_actions db') = map ar_id (db_actions db)"
proof -
  let ?open = "filter (open_link case_id) (db_actions db)"
  have saved: ?thesis if db': "db' = save_actions rs db" and ids: "map ar_id rs = map ar_id ?open"
    and ok: "\<And>r. r \<in> set rs \<Longrightarrow> ar_payment_surface_type r = Some STANDARD_PAYMENT_LINK \<and> (ar_status r = Act_CANCELLED
      \<or> ar_status r \<in> {Act_EXECUTING, Act_SUCCEEDED} \<and> paid_link lp r)" for rs
  proof -
    have ids': "ar_id ` set rs = ar_id ` set ?open" using ids by (metis list.set_map)
    have "distinct (map ar_id rs)" unfolding ids using d by (simp add: distinct_map_filter)
    from fold_save_rows [OF d this] have mem: "set (db_actions db') = {b \<in> set (db_actions db). ar_id b \<notin> ar_id ` set ?open}
        \<union> {r \<in> set rs. ar_id r \<in> ar_id ` set (db_actions db)}" unfolding db' save_actions_def ids' [symmetric] by simp
    have "map ar_id (fold (save_row ar_id) rs as) = map ar_id as" for as
      by (induction rs arbitrary: as) simp_all
    then have "map ar_id (db_actions db') = map ar_id (db_actions db)" by (simp add: db' save_actions_def)
    moreover have "a \<in> set (db_actions db')" if "a \<in> set (db_actions db)" "\<not> open_link case_id a" for a
      unfolding mem using that same_id_same_row [OF d that(1)] by auto
    moreover have "b \<in> set (db_actions db) \<and> \<not> open_link case_id b \<or> b \<in> set rs" if "b \<in> set (db_actions db')" for b
      using that unfolding mem by auto
    ultimately show ?thesis using ok by blast
  qed
  show ?thesis
  proof (cases "?open = []")
    case True
    with assms(1) have "db' = db" by (simp add: cleanup_standard_payment_links_def)
    with True show ?thesis by (auto simp: filter_empty_conv)
  next
    case False
    show ?thesis
    proof (cases "rt_provider rt")
      case Mock_Provider
      with assms(1) False have db': "db' = save_actions (map (cancelled_row now) ?open) db"
        by (simp add: cleanup_standard_payment_links_def Let_def)
      show ?thesis by (rule saved [OF db']) (auto simp: comp_def open_link_def)
    next
      case Plain_Provider
      with assms(1) False show ?thesis by (auto simp: cleanup_standard_payment_links_def Let_def)
    next
      case Link_Lifecycle_Provider
      show ?thesis
      proof (cases "traverseE (cleanup_link rt lp now) ?open")
        case (Inl reason)
        with assms(1) False Link_Lifecycle_Provider show ?thesis
          by (auto simp: cleanup_standard_payment_links_def Let_def)
      next
        case (Inr rows)
        with assms(1) False Link_Lifecycle_Provider have db': "db' = save_actions (map fst rows) db"
          by (simp add: cleanup_standard_payment_links_def Let_def)
        have all: "list_all2 (\<lambda>a r. cleanup_link rt lp now a = Inr r) ?open rows"
          using Inr by (simp add: traverseE_Inr list_all2_conv_all_nth)
        have "map ar_id (map fst rows) = map ar_id ?open"
          using all by (induction rule: list_all2_induct) (auto dest: cleanup_link_Inr)
        moreover have "\<exists>a \<in> set ?open. cleanup_link rt lp now a = Inr r" if "r \<in> set rows" for r
          using traverseE_set [OF Inr that] .
        ultimately show ?thesis
          by (intro saved [OF db']) (fastforce dest: cleanup_link_Inr simp: open_link_def)+
      qed
    qed
  qed
qed

text \<open>The voice service leaves the actions alone: its cancellation writes only the tables of the voice module.\<close>

lemma sql_cancellation_core:
  assumes "cancel_for_authoritative_payment svc sql_repository failure case_id key now s = (r, s', calls)"
  shows "vd_core s' = vd_core s"
proof -
  have claim: "vd_core (snd (sql_claim_payment_cancellation (\<lambda>s. s) i k t u)) = vd_core u" for i k t u
    by (simp add: sql_claim_payment_cancellation_def Let_def split: option.split)
  have final: "sql_finalize_payment_cancellation i k c t e u = Inr (x, u') \<Longrightarrow> vd_core u' = vd_core u" for i k c t e u x u'
    by (auto simp: sql_finalize_payment_cancellation_def Let_def bindE_eq_Inr split: option.splits if_splits)
  have ops: "vp_claim_payment_cancellation sql_repository = sql_claim_payment_cancellation (\<lambda>s. s)"
    "vp_finalize_payment_cancellation sql_repository = sql_finalize_payment_cancellation" by (simp_all add: sql_repository_def)
  obtain x s1 where begun: "begin_cancellation svc sql_repository case_id key now s = (x, s1)" by fastforce
  obtain c u where cu: "sql_claim_payment_cancellation (\<lambda>s. s) case_id key now s = (c, u)" by fastforce
  with claim [of case_id key now s] have u: "vd_core u = vd_core s" by simp
  with begun cu have s1: "vd_core s1 = vd_core s"
    by (auto simp: begin_cancellation_def ops Let_def dest: final split: option.splits if_splits sum.splits prod.splits)
  have finish: "vd_core v' = vd_core v" if "finish_cancellation sql_repository i key now failure v = Inr (y, v')" for i v y v'
    using that by (auto simp: finish_cancellation_def ops bindE_eq_Inr dest: final split: option.splits)
  from assms begun s1 show ?thesis
    by (auto simp: cancel_for_authoritative_payment_def dest: finish split: sum.splits prod.splits)
qed

lemma cancel_recovery_action_actions:
  assumes "cancel_recovery_action rt lp now svc failure voice_now cmd s = (r, s')"
  obtains ok reason db1 where "cleanup_standard_payment_links rt lp now (cai_case_id cmd) (vd_core s) = ((ok, reason), db1)"
    "db_actions (vd_core s') = cancel_actions now (cai_case_id cmd) (db_actions db1)"
    "\<And>x. r = Inr x \<Longrightarrow> car_cancelled x \<Longrightarrow> ok"
proof -
  obtain ok reason db1 where c: "cleanup_standard_payment_links rt lp now (cai_case_id cmd) (vd_core s) = ((ok, reason), db1)"
    by (metis prod.collapse)
  let ?s2 = "s\<lparr>vd_core := db1\<lparr>db_actions := cancel_actions now (cai_case_id cmd) (db_actions db1)\<rparr>\<rparr>"
  obtain v s3 calls where voice: "cancel_for_authoritative_payment svc sql_repository failure (cai_case_id cmd)
      (voice_cancellation_key cmd) voice_now ?s2 = (v, s3, calls)" by (metis prod.exhaust)
  note core = sql_cancellation_core [OF voice]
  have "vd_core s' = vd_core ?s2" "\<forall>x. r = Inr x \<longrightarrow> car_cancelled x \<longrightarrow> ok"
    using assms c voice core unfolding cancel_recovery_action_def Let_def
    by (auto split: sum.splits if_splits)
  with c that show ?thesis by auto
qed

text \<open>
  C30: what a cancellation that reports success has done. Every action of the case other than a payment
  link is cancelled, failed or had already succeeded. A payment link is cancelled or failed, or the provider reports that very
  link as paid, or it is still as it was before it was ever submitted.
\<close>

theorem cancellation_closes_actions:
  assumes "cancel_recovery_action rt lp now svc failure voice_now cmd s = (Inr r, s')" and "car_cancelled r"
    and "distinct (map ar_id (db_actions (vd_core s)))"
    and "b \<in> set (db_actions (vd_core s'))" and "ar_case_id b = cai_case_id cmd"
  shows "if ar_payment_surface_type b = Some STANDARD_PAYMENT_LINK
    then ar_status b \<in> {Act_CANCELLED, Act_FAILED} \<or> ar_status b \<in> {Act_EXECUTING, Act_SUCCEEDED} \<and> paid_link lp b
      \<or> ar_status b \<in> unclaimed \<and> b \<in> set (db_actions (vd_core s))
    else ar_status b \<in> {Act_CANCELLED, Act_FAILED, Act_SUCCEEDED}"
proof -
  obtain ok reason db1 where c: "cleanup_standard_payment_links rt lp now (cai_case_id cmd) (vd_core s) = ((ok, reason), db1)"
    "db_actions (vd_core s') = cancel_actions now (cai_case_id cmd) (db_actions db1)" "ok"
    using cancel_recovery_action_actions [OF assms(1)] assms(2) by metis
  have links: "b \<in> set (db_actions (vd_core s)) \<and> \<not> open_link (cai_case_id cmd) b
        \<or> ar_payment_surface_type b = Some STANDARD_PAYMENT_LINK \<and> (ar_status b = Act_CANCELLED
           \<or> ar_status b \<in> {Act_EXECUTING, Act_SUCCEEDED} \<and> paid_link lp b)"
    if "b \<in> set (db_actions db1)" for b
    using cleanup_actions [OF c(1) assms(3)] that c(3) by blast
  from assms(4) c(2) have "b \<in> set (cancel_actions now (cai_case_id cmd) (db_actions db1))" by simp
  then show ?thesis
  proof (cases rule: cancel_actions_mem)
    case (cancelled a)
    then show ?thesis by simp
  next
    case kept
    from links [OF kept(1)] show ?thesis
      using kept(2) assms(5)
      by (cases "ar_status b") (auto simp: open_link_def cancellable_def unclaimed_def)
  qed
qed

text \<open>
  A payment link that was not submitted yet survives a cancellation. Whatever the provider answers
  and whether or not the cancellation reports success, such an action of the case keeps its row, its status
  included, so it can still be claimed.
\<close>

theorem unsubmitted_link_survives_cancellation:
  assumes "cancel_recovery_action rt lp now svc failure voice_now cmd s = (r, s')"
    and "distinct (map ar_id (db_actions (vd_core s)))" and "a \<in> set (db_actions (vd_core s))"
    and "ar_payment_surface_type a = Some STANDARD_PAYMENT_LINK" and "ar_status a \<in> unclaimed"
  shows "a \<in> set (db_actions (vd_core s'))"
proof -
  obtain ok reason db1 where c: "cleanup_standard_payment_links rt lp now (cai_case_id cmd) (vd_core s) = ((ok, reason), db1)"
    "db_actions (vd_core s') = cancel_actions now (cai_case_id cmd) (db_actions db1)"
    using cancel_recovery_action_actions [OF assms(1)] by metis
  have "\<not> open_link (cai_case_id cmd) a" using assms(5) by (auto simp: open_link_def unclaimed_def)
  then have "a \<in> set (db_actions db1)" using cleanup_actions [OF c(1) assms(2)] assms(3) by blast
  then show ?thesis unfolding c(2) cancel_actions_def using assms(4) by (auto simp: set_update_where)
qed

section \<open>A concrete database\<close>

definition sample_runtime :: runtime where
  "sample_runtime = \<lparr>rt_provider = Link_Lifecycle_Provider, rt_crypto = toy_crypto,
     rt_read_mandate = \<lambda>_. Some sample_envelope\<rparr>"

definition link_action :: RecoveryActionRecord where
  "link_action = \<lparr>ar_id = ''action_1'', ar_case_id = ''case_1'', ar_action_type = OPEN_CUSTOMER_PAYMENT_SURFACE,
     ar_payment_surface_type = Some STANDARD_PAYMENT_LINK, ar_status = Act_SCHEDULED, ar_idempotency_key = ''key'',
     ar_scheduled_for = None, ar_external_reference = None, ar_customer_url = None, ar_completed_at = None,
     ar_created_at = 0, ar_updated_at = 0\<rparr>"

definition link_db :: a2a_database where
  "link_db = sample_a2a_db\<lparr>db_actions := [link_action]\<rparr>"

definition link_command :: ExecuteActionInput where
  "link_command = \<lparr>ea_case_id = ''case_1'', ea_merchant_id = ''m1'', ea_customer_id = ''cust_1'',
     ea_subscription_id = ''sub_1'', ea_failed_invoice_id = Some ''inv_1'', ea_amount_paise = 49900,
     ea_currency = ''INR'', ea_action = ''OPEN_CUSTOMER_PAYMENT_SURFACE'',
     ea_payment_surface_type = Some ''STANDARD_PAYMENT_LINK'', ea_recovery_deadline = Some (Aware (days 7) 0),
     ea_idempotency_key = ''key'', ea_mandate = None, ea_provider_subscription_id = Some ''sub_ext_1'',
     ea_provider_invoice_id = Some ''inv_ext_1'', ea_recovery_action_id = Some ''action_1''\<rparr>"

definition link_request :: OpenPaymentSurfaceRequest where
  "link_request = surface_request sample_runtime link_command STANDARD_PAYMENT_LINK (''sub_ext_1'', ''inv_ext_1'')
     (days 7) link_action"

definition opened_link :: PaymentSurfaceResult where
  "opened_link = \<lparr>sf_provider = ''razorpay'', sf_provider_reference = ''plink_1'', sf_surface_type = STANDARD_PAYMENT_LINK,
     sf_customer_url = ''https://rzp.io/1'', sf_expires_at = None, sf_authoritative = False\<rparr>"

definition link_run :: execution_run where
  "link_run = \<lparr>er_clock = Aware 0 0, er_answer = Surface_Opened opened_link, er_lookup = Link_Absent,
     er_second_answer = Surface_Failed, er_stored_at = 1\<rparr>"

lemmas link_simps = link_db_def sample_a2a_db_def link_command_def sample_runtime_def link_action_def

lemma link_checked:
  "check_command sample_runtime link_command = Inr (Inr (STANDARD_PAYMENT_LINK, ''sub_ext_1'', ''inv_ext_1''))"
  by (simp add: check_command_def provider_scope_def surface_of_value_def link_command_def sample_runtime_def)

lemma link_rows: "action_rows link_db (\<lambda>a c. ar_case_id a = ''case_1'' \<and> rc_merchant_id c = ''m1''
    \<and> ar_action_type a = OPEN_CUSTOMER_PAYMENT_SURFACE \<and> ar_payment_surface_type a = Some STANDARD_PAYMENT_LINK)
  = [(link_action, hd (db_policies link_db), hd (db_cases link_db))]"
  by (simp add: action_rows_def link_db_def sample_a2a_db_def link_action_def)

lemma link_claimed:
  "claim_payment_action sample_runtime {} (Aware 0 0) link_command link_db
   = (Inr (Claimed (executing_row 0 link_action) False), link_db\<lparr>db_actions := [executing_row 0 link_action]\<rparr>)"
proof -
  have "latest_surface_action link_db link_command STANDARD_PAYMENT_LINK
      = Some (link_action, hd (db_policies link_db), hd (db_cases link_db))"
    using link_rows by (simp add: latest_surface_action_def link_command_def last_by_def)
  then have "read_direct_claim {} (Aware 0 0) STANDARD_PAYMENT_LINK link_command link_db = Inr (Claimable link_action 0)"
    by (simp add: read_direct_claim_def link_action_def claimable_statuses_def effective_delay_def link_db_def sample_a2a_db_def)
  then show ?thesis
    by (simp add: claim_payment_action_def link_command_def surface_of_value_def write_direct_claim_def
        link_db_def claim_matches_def link_action_def update_where_def executing_row_def)
qed

lemma link_begun:
  "begin_execution sample_runtime {} (Aware 0 0) link_command link_db
   = (Inr (Submit ''action_1'' link_request), link_db\<lparr>db_actions := [executing_row 0 link_action]\<rparr>)"
proof -
  have "valid_surface_request link_request"
    by (simp add: valid_surface_request_def guard_standard_payment_link_def link_request_def surface_request_def
        link_command_def standard_payment_link_reference_def truthy_def Let_def currency_pattern_def)
  moreover have "surface_request sample_runtime link_command STANDARD_PAYMENT_LINK (''sub_ext_1'', ''inv_ext_1'')
      (days 7) (executing_row 0 link_action) = link_request"
    by (simp add: link_request_def surface_request_def executing_row_def)
  moreover have "parse_activity_instant (ea_recovery_deadline link_command) = Inr (days 7)"
    by (simp add: parse_activity_instant_def link_command_def)
  ultimately show ?thesis
    by (simp add: begin_execution_def link_checked link_claimed continue_claim_def Let_def executing_row_def link_action_def)
qed

definition link_state :: worker_state where
  "link_state = \<lparr>ws_db = link_db, ws_in_flight = {}, ws_calls = []\<rparr>"

lemma link_executed:
  "\<exists>db'. execute_payment_action sample_runtime link_run link_command link_state
     = (Inr (opened_surface opened_link None), \<lparr>ws_db = db', ws_in_flight = {},
          ws_calls = [Open_Surface ''action_1'' link_request False]\<rparr>)"
  by (simp add: execute_payment_action_def link_begun link_run_def link_state_def submit_surface_def
      submission_answered_def finish_execution_def in_flight_after_def persist_payment_surface_def find_action_def
      executing_row_def link_action_def Let_def)

lemma link_view: "worker_view 0 (fresh_cluster link_db) = link_state"
  by (simp add: worker_view_def fresh_cluster_def link_state_def)

lemma link_ids: "distinct (map ar_id (db_actions link_db))"
  by (simp add: link_db_def)

theorem at_most_one_blind_submission_witness:
  "\<exists>s. (activity_step sample_runtime)\<^sup>*\<^sup>* (fresh_cluster link_db) s
     \<and> submissions_of ''action_1'' (cl_calls s) = [link_request]
     \<and> length (filter (is_blind ''action_1'') (cl_calls s)) \<le> 1"
proof -
  obtain db' where e: "execute_payment_action sample_runtime link_run link_command (worker_view 0 (fresh_cluster link_db))
      = (Inr (opened_surface opened_link None), \<lparr>ws_db = db', ws_in_flight = {},
          ws_calls = [Open_Surface ''action_1'' link_request False]\<rparr>)"
    using link_executed link_view by auto
  note path = execution_path [OF e]
  from at_most_one_blind_submission [OF link_ids path, of "''action_1''"] path show ?thesis
    by (intro exI) (auto simp: worker_done_def submissions_of_def)
qed

theorem execution_refines_machine_witness:
  "\<exists>v. execute_payment_action sample_runtime link_run link_command link_state = (Inr (opened_surface opened_link None), v)
     \<and> executions_inv (worker_done 0 v (fresh_cluster link_db))"
proof -
  obtain v where e: "execute_payment_action sample_runtime link_run link_command (worker_view 0 (fresh_cluster link_db))
      = (Inr (opened_surface opened_link None), v)" using link_executed link_view by auto
  from execution_refines_machine [OF rtranclp.rtrancl_refl link_ids e] e link_view show ?thesis by auto
qed

theorem claim_is_permitted_witness:
  "\<exists>a0 p c. permitted_claim link_db 0 link_command a0 p c \<and> ar_id a0 = ''action_1''"
  using claim_is_permitted [OF link_claimed] by (auto simp: executing_row_def link_action_def)

definition mandate_db :: a2a_database where
  "mandate_db = sample_a2a_db\<lparr>db_mandates := [authorized_row (claim_of toy_crypto sample_mandate 0)]\<rparr>"

definition mandate_command :: ExecuteActionInput where
  "mandate_command = link_command\<lparr>ea_payment_surface_type := Some ''SUBSCRIPTION_INVOICE_LINK'', ea_mandate := Some []\<rparr>"

lemma mandate_claim_row:
  "mandate_rows toy_crypto mandate_db mandate_command sample_mandate
   = [\<lparr>mw_action = hd (db_actions sample_a2a_db), mw_policy = hd (db_policies sample_a2a_db),
       mw_case = hd (db_cases sample_a2a_db), mw_invoice = hd (db_invoices sample_a2a_db),
       mw_authorization = authorized_row (claim_of toy_crypto sample_mandate 0)\<rparr>]"
  by (simp add: mandate_rows_def mandate_db_def sample_a2a_db_def mandate_command_def link_command_def
      authorized_row_def claim_of_def sample_mandate_def)

lemma mandate_safe:
  "unsafe_authorization \<lparr>mw_action = hd (db_actions sample_a2a_db), mw_policy = hd (db_policies sample_a2a_db),
       mw_case = hd (db_cases sample_a2a_db), mw_invoice = hd (db_invoices sample_a2a_db),
       mw_authorization = authorized_row (claim_of toy_crypto sample_mandate 0)\<rparr>
     sample_mandate mandate_command SUBSCRIPTION_INVOICE_LINK 0 = Inr False"
  by (simp add: unsafe_authorization_def Let_def sample_a2a_db_def mandate_command_def link_command_def
      authorized_row_def claim_of_def sample_mandate_def persisted_scope_def signed_scope_def current_scope_def
      parse_activity_instant_def duration_defs)

lemma mandate_claimed:
  "\<exists>db'. claim_payment_action sample_runtime {} (Aware 0 0) mandate_command mandate_db
     = (Inr (Claimed (executing_row 0 (hd (db_actions sample_a2a_db))) False), db')"
proof -
  have "signed_scope sample_mandate = command_scope mandate_command SUBSCRIPTION_INVOICE_LINK"
    by (simp add: signed_scope_def command_scope_def sample_mandate_def mandate_command_def link_command_def
        py_or_def truthy_def)
  then show ?thesis
    using sample_envelope_valid(1) mandate_claim_row mandate_safe
    by (simp add: claim_payment_action_def claim_a2a_payment_action_def mandate_command_def link_command_def
        surface_of_value_def sample_runtime_def claim_mandate_row_def sample_a2a_db_def authorized_row_def
        effective_delay_def Let_def)
qed

theorem claimed_mandate_is_submitted_witness:
  "\<exists>request db'. begin_execution sample_runtime {} (Aware 0 0) mandate_command mandate_db
     = (Inr (Submit ''action_1'' request), db') \<and> os_exact_amount_paise request = 49900"
proof -
  obtain db' where c: "claim_payment_action sample_runtime {} (Aware 0 0) mandate_command mandate_db
     = (Inr (Claimed (executing_row 0 (hd (db_actions sample_a2a_db))) False), db')" using mandate_claimed by blast
  have k: "check_command sample_runtime mandate_command
      = Inr (Inr (SUBSCRIPTION_INVOICE_LINK, ''sub_ext_1'', ''inv_ext_1''))"
    by (simp add: check_command_def provider_scope_def surface_of_value_def mandate_command_def link_command_def
        sample_runtime_def)
  have "ea_mandate mandate_command = Some []" by (simp add: mandate_command_def)
  from claimed_mandate_is_submitted [OF k this c] show ?thesis
    by (auto simp: executing_row_def sample_a2a_db_def mandate_command_def link_command_def)
qed

definition link_policy_input :: PolicyInput where
  "link_policy_input = \<lparr>pin_case_id = ''case_1'', pin_merchant_id = ''m1'', pin_amount_at_risk_paise = 49900,
     pin_diagnosis = ''UNKNOWN'', pin_candidate_action = ''OPEN_CUSTOMER_PAYMENT_SURFACE'',
     pin_payment_surface_type = Some ''STANDARD_PAYMENT_LINK'', pin_recovery_deadline = None\<rparr>"

theorem policy_fails_closed_witness:
  "\<exists>p \<in> set (db_policies link_db). PolicyResult.pr_disposition (evaluate_policy_activity link_db link_policy_input)
     = disposition_value (PolicyDecisionRecord.pr_disposition p)"
proof -
  have "PolicyResult.pr_disposition (evaluate_policy_activity link_db link_policy_input) = ''ALLOW''"
    using link_rows by (simp add: evaluate_policy_activity_def link_policy_input_def action_type_of_value_def
        surface_of_value_def last_by_def Let_def link_db_def sample_a2a_db_def)
  with policy_fails_closed [of link_db link_policy_input] show ?thesis by auto
qed

definition link_cancellation :: CancelActionInput where
  "link_cancellation = \<lparr>cai_case_id = ''case_1'', cai_provider_reference = None, cai_reason = ''CUSTOMER_OPTED_OUT'',
     cai_idempotency_key = ''cancel''\<rparr>"

definition idle_provider :: link_provider where
  "idle_provider = \<lparr>lp_lookup = \<lambda>_. Link_Absent, lp_revoke = \<lambda>_. Revocation_Answered ''CANCELLED''\<rparr>"

definition voice_state :: "a2a_database \<Rightarrow> voice_database" where
  "voice_state db = \<lparr>vd_core = db, vd_attempts = [], vd_receipts = [], vd_suppressions = []\<rparr>"

lemma link_cancelled:
  "cancel_recovery_action sample_runtime idle_provider 5 svc None 5 link_cancellation (voice_state link_db)
   = (Inr \<lparr>car_cancelled = True, car_reason_code = Some ''CANCELLED''\<rparr>, voice_state link_db)"
  by (simp add: cancel_recovery_action_def cleanup_standard_payment_links_def open_link_def link_cancellation_def voice_state_def
      link_db_def link_action_def cancel_actions_def update_where_def cancellable_def py_or_def truthy_def Let_def)

theorem unsubmitted_link_survives_cancellation_witness:
  "link_action \<in> set (db_actions link_db)
   \<and> (\<forall>svc. fst (cancel_recovery_action sample_runtime idle_provider 5 svc None 5 link_cancellation (voice_state link_db))
       = Inr \<lparr>car_cancelled = True, car_reason_code = Some ''CANCELLED''\<rparr>
   \<and> fst (begin_execution sample_runtime {} (Aware 0 0) link_command
       (vd_core (snd (cancel_recovery_action sample_runtime idle_provider 5 svc None 5 link_cancellation (voice_state link_db)))))
     = Inr (Submit ''action_1'' link_request))"
proof -
  have "link_action \<in> set (db_actions (vd_core (voice_state link_db)))" "ar_payment_surface_type link_action = Some STANDARD_PAYMENT_LINK"
    "ar_status link_action \<in> unclaimed" by (simp_all add: voice_state_def link_db_def link_action_def unclaimed_def)
  from unsubmitted_link_survives_cancellation [OF link_cancelled _ this] link_ids
  show ?thesis by (simp add: link_cancelled link_begun) (simp add: voice_state_def link_begun)
qed

definition submitted_db :: a2a_database where
  "submitted_db = link_db\<lparr>db_actions := [executing_row 0 link_action]\<rparr>"

definition paid_cancellation :: CancelActionInput where
  "paid_cancellation = link_cancellation\<lparr>cai_reason := ''AUTHORITATIVE_PAYMENT_SUCCESS''\<rparr>"

theorem cancellation_closes_actions_witness:
  "\<forall>svc. \<exists>r s'. cancel_recovery_action sample_runtime idle_provider 5 svc None 5 paid_cancellation (voice_state submitted_db) = (Inr r, s')
     \<and> car_cancelled r \<and> (\<forall>b \<in> set (db_actions (vd_core s')). ar_status b = Act_CANCELLED)"
proof
  fix svc
  let ?b = "cancelled_row 5 (executing_row 0 link_action)"
  have c: "cancel_recovery_action sample_runtime idle_provider 5 svc None 5 paid_cancellation (voice_state submitted_db)
     = (Inr \<lparr>car_cancelled = True, car_reason_code = Some ''VOICE_NO_ACTIVE_CALL''\<rparr>, voice_state (submitted_db\<lparr>db_actions := [?b]\<rparr>))"
    by (simp add: cancel_recovery_action_def cleanup_standard_payment_links_def open_link_def paid_cancellation_def link_cancellation_def
        submitted_db_def link_db_def link_action_def executing_row_def sample_runtime_def cleanup_link_def voice_state_def
        idle_provider_def save_actions_def save_row_def cancelled_row_def cancel_actions_def update_where_def
        cancel_for_authoritative_payment_def begin_cancellation_def sql_repository_def sql_claim_payment_cancellation_def
        payment_cancellation_receipt_def last_by_def cancellation_result_def
        cancellable_def py_or_def truthy_def Let_def)
  have d: "distinct (map ar_id (db_actions (vd_core (voice_state submitted_db))))" by (simp add: submitted_db_def voice_state_def)
  have b: "?b \<in> set (db_actions (vd_core (voice_state (submitted_db\<lparr>db_actions := [?b]\<rparr>))))" by (simp add: voice_state_def)
  from cancellation_closes_actions [OF c _ d b] c
  show "\<exists>r s'. cancel_recovery_action sample_runtime idle_provider 5 svc None 5 paid_cancellation (voice_state submitted_db) = (Inr r, s')
     \<and> car_cancelled r \<and> (\<forall>b \<in> set (db_actions (vd_core s')). ar_status b = Act_CANCELLED)"
    by (auto simp: voice_state_def)
qed

end
