(* ===== verification/Case_Reconciliation.thy ===== *)
theory Case_Reconciliation
  imports Action_Safety Decision_Engine
begin

text \<open>
  The remaining activities of \<open>services/worker/app/runtime.py\<close>: the authoritative reconciliation of a
  case, the audit trail and the scoring, with the mock services of \<open>services/worker/app/activities.py\<close>
  they fall back on. The payment provider and the scorer are parameters.
\<close>

section \<open>The mock services\<close>

text \<open>\<open>str\<close> of a JSON value of the failure event; only the shapes the events have are written out.\<close>

definition payload_text :: "(json \<Rightarrow> string) \<Rightarrow> jobject \<Rightarrow> string \<Rightarrow> string \<Rightarrow> string" where
  "payload_text str payload key absent = (case map_of payload key of
     None \<Rightarrow> absent | Some (JStr s) \<Rightarrow> s | Some v \<Rightarrow> str v)"

definition json_truthy :: "json \<Rightarrow> bool" where
  "json_truthy v = (case v of JNull \<Rightarrow> False | JBool b \<Rightarrow> b | JInt i \<Rightarrow> i \<noteq> 0 | JFloat r \<Rightarrow> r \<noteq> 0
     | JStr s \<Rightarrow> s \<noteq> [] | JList xs \<Rightarrow> xs \<noteq> [] | JObj fs \<Rightarrow> fs \<noteq> [])"

definition mock_normalize_failure :: "(json \<Rightarrow> string) \<Rightarrow> NormalizeFailureInput \<Rightarrow> NormalizedFailure" where
  "mock_normalize_failure str cmd = (let payload = pv_payload (nfi_event cmd) in
     \<lparr>nf_case_id = nfi_case_id cmd, nf_provider_event_id = pv_event_id (nfi_event cmd),
      nf_payment_state = payload_text str payload ''payment_state'' ''FAILED'',
      nf_subscription_state = payload_text str payload ''subscription_state'' ''PENDING'',
      nf_reason_code = (if json_truthy (jget payload ''reason_code'')
        then Some (payload_text str payload ''reason_code'' []) else None),
      nf_authoritative = (case map_of payload ''authoritative'' of None \<Rightarrow> False | Some v \<Rightarrow> json_truthy v),
      nf_occurred_at = pv_occurred_at (nfi_event cmd)\<rparr>)"

definition mock_diagnosis :: "string \<Rightarrow> string" where
  "mock_diagnosis reason = (case map_of [
     (''BAD_REQUEST_PAYMENT_CARD_INSUFFICIENT_BALANCE'', ''INSUFFICIENT_FUNDS''),
     (''BAD_REQUEST_PAYMENT_AUTHENTICATION_FAILED'', ''AUTHENTICATION_REQUIRED''),
     (''BAD_REQUEST_PAYMENT_CARD_EXPIRED'', ''INSTRUMENT_INVALID''),
     (''GATEWAY_ERROR'', ''TRANSIENT_RETRYABLE'')] reason of None \<Rightarrow> ''UNKNOWN'' | Some d \<Rightarrow> d)"

definition mock_diagnose_failure :: "DiagnosisInput \<Rightarrow> DiagnosisResult" where
  "mock_diagnose_failure cmd =
     (let reason = nf_reason_code (di_failure cmd);
          diagnosis = mock_diagnosis (if truthy reason then the reason else []) in
      \<lparr>dgr_diagnosis = diagnosis, dgr_confidence = (if diagnosis \<noteq> ''UNKNOWN'' then 9 / 10 else 35 / 100),
       dgr_reason_codes = (if truthy reason then [the reason] else [''MISSING_PROVIDER_REASON''])\<rparr>)"

definition fallback_probability :: "string \<Rightarrow> rat" where
  "fallback_probability diagnosis = (case map_of [
     (''INSUFFICIENT_FUNDS'', 71 / 100), (''AUTHENTICATION_REQUIRED'', 76 / 100), (''INSTRUMENT_INVALID'', 62 / 100),
     (''TRANSIENT_RETRYABLE'', 82 / 100), (''UNKNOWN'', 40 / 100)] diagnosis of None \<Rightarrow> 40 / 100 | Some p \<Rightarrow> p)"

text \<open>\<open>Decimal.quantize\<close> to an integer with \<open>ROUND_HALF_UP\<close>: halves are rounded away from zero.\<close>

definition round_half_up :: "rat \<Rightarrow> int" where
  "round_half_up x = (if 0 \<le> x then \<lfloor>x + 1 / 2\<rfloor> else - \<lfloor>- x + 1 / 2\<rfloor>)"

definition mock_score_recovery :: "ScoreInput \<Rightarrow> ScoreResult" where
  "mock_score_recovery cmd =
     (let probability = fallback_probability (sci_diagnosis cmd);
          expected = round_half_up (of_int (sci_amount_at_risk_paise cmd) * probability) in
      \<lparr>scr_model_name = ''deterministic-fallback'', scr_model_version = ''phase-1'',
       scr_recovery_probability = probability, scr_expected_recovered_paise = expected,
       scr_expected_utility_paise = expected - 1500, scr_explanation = [''Fixed Phase 1 fallback score'']\<rparr>)"

definition mock_evaluate_policy :: "bool \<Rightarrow> PolicyInput \<Rightarrow> PolicyResult" where
  "mock_evaluate_policy require_manual_approval cmd =
     (if pin_amount_at_risk_paise cmd \<le> 0
      then \<lparr>PolicyResult.pr_disposition = ''BLOCK'', pr_decision_code = ''INVALID_AMOUNT'', pr_action = ''STOP'',
        pr_payment_surface_type = None, pr_reason_codes = [''NON_POSITIVE_AMOUNT''], pr_delay_until = None\<rparr>
      else \<lparr>PolicyResult.pr_disposition = (if require_manual_approval then ''REQUIRE_MANUAL_APPROVAL'' else ''ALLOW''),
        pr_decision_code = (if require_manual_approval then ''DEMO_APPROVAL_REQUIRED'' else ''MOCK_PROVIDER_ALLOWED''),
        pr_action = pin_candidate_action cmd, pr_payment_surface_type = pin_payment_surface_type cmd,
        pr_reason_codes = [''MOCK_MODE''], pr_delay_until = None\<rparr>)"

record MockRecoveryActivityServices =
  mk_require_manual_approval :: bool
  mk_audits :: "AuditInput list"
  mk_executed_actions :: "(string \<times> ActionExecutionResult) list"
  mk_executed_commands :: "ExecuteActionInput list"
  mk_cancelled_keys :: "string set"

definition mock_execute_recovery_action ::
    "ExecuteActionInput \<Rightarrow> MockRecoveryActivityServices \<Rightarrow> ActionExecutionResult \<times> MockRecoveryActivityServices" where
  "mock_execute_recovery_action cmd s = (case map_of (mk_executed_actions s) (ea_idempotency_key cmd) of
     Some existing \<Rightarrow> (existing, s)
   | None \<Rightarrow> (let result = execution_result ''SUCCEEDED'' ''mock'' (Some (''mock:'' @ ea_case_id cmd @ '':surface''))
         (Some (''https://mock.recovery.invalid/pay/'' @ ea_case_id cmd)) None
       in (result, s\<lparr>mk_executed_commands := mk_executed_commands s @ [cmd],
            mk_executed_actions := (ea_idempotency_key cmd, result) # mk_executed_actions s\<rparr>)))"

definition mock_reconcile_case :: "ReconciliationInput \<Rightarrow> ReconciliationResult" where
  "mock_reconcile_case cmd =
     (let recovered = (ri_authoritative_hint cmd \<and> ri_payment_state_hint cmd = Some ''CAPTURED'') in
      \<lparr>rr_payment_state = (if recovered then ''CAPTURED''
         else if truthy (ri_payment_state_hint cmd) then the (ri_payment_state_hint cmd) else ''UNKNOWN''),
       rr_subscription_state = (if recovered then ''ACTIVE'' else ''PENDING''),
       rr_authoritative = ri_authoritative_hint cmd, rr_case_recovered = recovered,
       rr_arrears_collected_paise = (if recovered then (case ri_amount_paise_hint cmd of None \<Rightarrow> 0 | Some i \<Rightarrow> i) else 0),
       rr_subscription_reactivated = recovered, rr_provider_reference = Some (ri_trigger_event_id cmd)\<rparr>)"

definition mock_record_audit_event ::
    "AuditInput \<Rightarrow> MockRecoveryActivityServices \<Rightarrow> AuditResult \<times> MockRecoveryActivityServices" where
  "mock_record_audit_event cmd s =
     (\<lparr>aur_audit_event_id = ''audit:'' @ au_case_id cmd @ '':'' @ au_correlation_id cmd, aur_recorded = True\<rparr>,
      s\<lparr>mk_audits := mk_audits s @ [cmd]\<rparr>)"

definition mock_cancel_recovery_action ::
    "CancelActionInput \<Rightarrow> MockRecoveryActivityServices \<Rightarrow> CancelActionResult \<times> MockRecoveryActivityServices" where
  "mock_cancel_recovery_action cmd s =
     (if cai_idempotency_key cmd \<in> mk_cancelled_keys s
      then (\<lparr>car_cancelled = True, car_reason_code = Some ''ALREADY_CANCELLED''\<rparr>, s)
      else (\<lparr>car_cancelled = True, car_reason_code = None\<rparr>,
            s\<lparr>mk_cancelled_keys := insert (cai_idempotency_key cmd) (mk_cancelled_keys s)\<rparr>))"

section \<open>Scoring\<close>

text \<open>The scorer raises a \<open>ValueError\<close> or a missing file (\<open>Inl True\<close>) or another exception (\<open>Inl False\<close>).\<close>

definition diagnosis_of_value :: "string \<Rightarrow> Diagnosis option" where
  "diagnosis_of_value s = find (\<lambda>d. diagnosis_value d = s) [TRANSIENT_RETRYABLE, INSUFFICIENT_FUNDS,
     AUTHENTICATION_REQUIRED, INSTRUMENT_INVALID, MERCHANT_ERROR, RISK_OR_COMPLIANCE_BLOCK, Diag_UNKNOWN]"

definition score_recovery ::
    "(RecoveryScoreRequest \<Rightarrow> bool + RecoveryScoreResult) \<Rightarrow> ScoreInput \<Rightarrow> activity_error + ScoreResult" where
  "score_recovery scorer cmd =
     (case (diagnosis_of_value (sci_diagnosis cmd), action_type_of_value (sci_candidate_action cmd)) of
        (Some diagnosis, Some action) \<Rightarrow>
          if sci_amount_at_risk_paise cmd < 0 then Inr (mock_score_recovery cmd)
          else (case scorer \<lparr>sq_case_id = sci_case_id cmd, sq_amount_at_risk_paise = sci_amount_at_risk_paise cmd,
              sq_diagnosis = diagnosis, sq_candidate_action = action, sq_features = Map.empty\<rparr> of
             Inl recoverable \<Rightarrow> if recoverable then Inr (mock_score_recovery cmd)
               else Inl (Activity_Value_Error ''scorer failed'')
           | Inr r \<Rightarrow> Inr \<lparr>scr_model_name = sc_model_name r, scr_model_version = sc_model_version r,
               scr_recovery_probability = sc_recovery_probability r,
               scr_expected_recovered_paise = sc_expected_recovered_paise r,
               scr_expected_utility_paise = sc_expected_utility_paise r, scr_explanation = sc_explanation r\<rparr>)
      | _ \<Rightarrow> Inr (mock_score_recovery cmd))"

section \<open>Reconciliation\<close>

definition unreconciled_case :: ReconciliationResult where
  "unreconciled_case = \<lparr>rr_payment_state = ''UNKNOWN'', rr_subscription_state = ''UNKNOWN'',
     rr_authoritative = False, rr_case_recovered = False, rr_arrears_collected_paise = 0,
     rr_subscription_reactivated = False, rr_provider_reference = None\<rparr>"

text \<open>The rows of the case: itself, its failed invoice and its subscription, of the command's merchant.\<close>

definition reconciled_rows ::
    "a2a_database \<Rightarrow> ReconciliationInput \<Rightarrow> ident \<Rightarrow> (RecoveryCase \<times> Invoice \<times> Subscription) option" where
  "reconciled_rows db cmd invoice_id =
     (case find (\<lambda>c. rc_id c = ri_case_id cmd \<and> rc_merchant_id c = ri_merchant_id cmd
        \<and> rc_failed_invoice_id c = Some invoice_id) (db_cases db) of
        None \<Rightarrow> None
      | Some c \<Rightarrow>
          (case (find (\<lambda>i. iv_id i = invoice_id \<and> iv_merchant_id i = ri_merchant_id cmd
                   \<and> iv_subscription_id i = rc_subscription_id c) (db_invoices db),
                 find (\<lambda>s. sb_id s = rc_subscription_id c \<and> sb_merchant_id s = ri_merchant_id cmd) (db_subscriptions db)) of
             (Some i, Some s) \<Rightarrow> Some (c, i, s)
           | _ \<Rightarrow> None))"

text \<open>The recognised revenue that the webhook processor stored for the invoice, the latest first.\<close>

definition recognized_payment ::
    "a2a_database \<Rightarrow> ReconciliationInput \<Rightarrow> RecoveryCase \<Rightarrow> Invoice
     \<Rightarrow> (RevenueRecognitionRecord \<times> PaymentAttempt) option" where
  "recognized_payment db cmd c i = last_by (\<lambda>(g, p). rg_recognized_at g)
     [(g, p). g \<leftarrow> db_revenue db, p \<leftarrow> db_payments db, rg_payment_attempt_id g = Some (pa_id p)
      \<and> rg_case_id g = rc_id c \<and> rg_merchant_id g = ri_merchant_id cmd \<and> rg_provider g = ''razorpay''
      \<and> rg_attribution g = Attr_RAZORPAY_TEST_VERIFIED \<and> rg_arrears_collected g
      \<and> pa_invoice_id p = iv_id i \<and> pa_payment_state p = Pay_CAPTURED
      \<and> (rc_case_recovered c \<or> rg_provider_event_id g = ri_trigger_event_id cmd)]"

definition recognized_result ::
    "ReconciliationInput \<Rightarrow> RecoveryCase \<Rightarrow> PaymentAttempt \<Rightarrow> ReconciliationResult" where
  "recognized_result cmd c p = \<lparr>rr_payment_state = payment_state_value (rc_payment_state c),
     rr_subscription_state = subscription_state_value (rc_subscription_state c), rr_authoritative = True,
     rr_case_recovered = rc_case_recovered c, rr_arrears_collected_paise = rc_arrears_collected_paise c,
     rr_subscription_reactivated = rc_subscription_reactivated c,
     rr_provider_reference = py_or (pa_provider_payment_id p) (Some (ri_trigger_event_id cmd))\<rparr>"

text \<open>The payment a stored webhook names for this invoice: \<open>None\<close> if its scope does not match.\<close>

definition webhook_payment ::
    "RecoveryCase \<Rightarrow> Invoice \<Rightarrow> Subscription \<Rightarrow> NormalizedRazorpayEvent \<Rightarrow> ident option" where
  "webhook_payment c i s e =
     (let invoice_matches = (ne_invoice_id e = Some (iv_provider_invoice_id i));
          subscription_matches = (ne_subscription_id e \<in> {None, Some (sb_provider_subscription_id s)});
          scope_matches = (if ne_event_type e = ''payment_link.paid''
            then ne_case_id e = Some (rc_id c) \<and> invoice_matches \<and> subscription_matches
            else ne_payment_state e = Pay_CAPTURED \<and> invoice_matches \<and> subscription_matches
              \<and> ne_case_id e \<in> {None, Some (rc_id c)})
      in if \<not> scope_matches \<or> ne_payment_state e \<noteq> Pay_CAPTURED then None else ne_payment_id e)"

text \<open>Which payment the provider is asked for; \<open>None\<close> leaves the case unreconciled.\<close>

definition payment_to_confirm ::
    "a2a_database \<Rightarrow> ReconciliationInput \<Rightarrow> RecoveryCase \<Rightarrow> Invoice \<Rightarrow> Subscription
     \<Rightarrow> razorpay_error + ident option option" where
  "payment_to_confirm db cmd c i s =
     (case find (\<lambda>b. ib_merchant_id b = ri_merchant_id cmd \<and> ib_provider b = ''razorpay''
        \<and> ib_provider_event_id b = ri_trigger_event_id cmd) (db_inbox db) of
        Some b \<Rightarrow>
          (case normalize_webhook (ib_provider_event_id b) (ib_payload b) of
             Inl (Razorpay_Error _) \<Rightarrow> Inr None
           | Inl e \<Rightarrow> Inl e
           | Inr event \<Rightarrow> Inr (map_option Some (webhook_payment c i s event)))
      | None \<Rightarrow> Inr (if ri_authoritative_hint cmd then None else Some None))"

definition snapshot_recovers ::
    "RecoveryCase \<Rightarrow> Invoice \<Rightarrow> Subscription \<Rightarrow> ident option \<Rightarrow> PaymentSnapshot \<Rightarrow> bool" where
  "snapshot_recovers c i s payment_id snapshot \<longleftrightarrow>
     (let required = max (rc_amount_at_risk_paise c - rc_arrears_collected_paise c) 0 in
      ps_authoritative snapshot \<and> ps_payment_state snapshot = Pay_CAPTURED
      \<and> ps_invoice_id snapshot = Some (iv_provider_invoice_id i)
      \<and> ps_subscription_id snapshot = Some (sb_provider_subscription_id s) \<and> ps_currency snapshot = iv_currency i
      \<and> ps_amount_paise snapshot = required \<and> 0 < required
      \<and> (payment_id = None \<or> ps_payment_id snapshot = payment_id))"

definition snapshot_result ::
    "RecoveryCase \<Rightarrow> Invoice \<Rightarrow> Subscription \<Rightarrow> ident option \<Rightarrow> PaymentSnapshot \<Rightarrow> ReconciliationResult" where
  "snapshot_result c i s payment_id snapshot =
     (let recovered = snapshot_recovers c i s payment_id snapshot in
      \<lparr>rr_payment_state = payment_state_value (ps_payment_state snapshot),
       rr_subscription_state = subscription_state_value (ps_subscription_state snapshot),
       rr_authoritative = ps_authoritative snapshot, rr_case_recovered = recovered,
       rr_arrears_collected_paise = (if recovered then rc_arrears_collected_paise c + ps_amount_paise snapshot else 0),
       rr_subscription_reactivated = (recovered \<and> subscription_state_value (ps_subscription_state snapshot) = ''ACTIVE''),
       rr_provider_reference = py_or (ps_payment_id snapshot) (ps_invoice_id snapshot)\<rparr>)"

definition reconcile_case ::
    "runtime \<Rightarrow> (ident \<Rightarrow> ident option \<Rightarrow> ident \<Rightarrow> razorpay_error + PaymentSnapshot) \<Rightarrow> ReconciliationInput
     \<Rightarrow> a2a_database \<Rightarrow> razorpay_error + ReconciliationResult" where
  "reconcile_case rt fetch cmd db =
     (if rt_provider rt = Mock_Provider then Inr (mock_reconcile_case cmd)
      else case ri_failed_invoice_id cmd of
        None \<Rightarrow> Inr unreconciled_case
      | Some invoice_id \<Rightarrow>
          (case reconciled_rows db cmd invoice_id of
             None \<Rightarrow> Inr unreconciled_case
           | Some (c, i, s) \<Rightarrow>
               (case recognized_payment db cmd c i of
                  Some (g, p) \<Rightarrow> Inr (recognized_result cmd c p)
                | None \<Rightarrow> bindE (payment_to_confirm db cmd c i s) (\<lambda>payment.
                    case payment of
                      None \<Rightarrow> Inr unreconciled_case
                    | Some payment_id \<Rightarrow>
                        bindE (fetch (ri_merchant_id cmd) payment_id (iv_provider_invoice_id i)) (\<lambda>snapshot.
                          Inr (snapshot_result c i s payment_id snapshot))))))"

section \<open>The audit trail\<close>

text \<open>\<open>event_id\<close> is the primary key of a row, \<open>now\<close> the clock.\<close>

definition audit_source_event_id :: "AuditInput \<Rightarrow> string" where
  "audit_source_event_id cmd = ''temporal:'' @ au_event_type cmd @ '':'' @ au_correlation_id cmd"

definition audit_row :: "instant \<Rightarrow> AuditInput \<Rightarrow> RecoveryEventRecord" where
  "audit_row now cmd = \<lparr>re_case_id = au_case_id cmd, re_event_type = au_event_type cmd, re_source = ''temporal-workflow'',
     re_evidence_kind = (if jget (au_details cmd) ''provider'' = JStr ''razorpay''
       then Ev_RAZORPAY_TEST_VERIFIED else Ev_SYSTEM_DERIVED),
     re_payload = Some (au_details cmd), re_occurred_at = now, re_correlation_id = au_correlation_id cmd,
     re_source_event_id = Some (audit_source_event_id cmd)\<rparr>"

definition find_audit :: "AuditInput \<Rightarrow> a2a_database \<Rightarrow> RecoveryEventRecord option" where
  "find_audit cmd db = find (\<lambda>e. re_case_id e = au_case_id cmd
     \<and> re_source_event_id e = Some (audit_source_event_id cmd)) (db_events db)"

definition record_audit_event ::
    "(RecoveryEventRecord \<Rightarrow> ident) \<Rightarrow> instant \<Rightarrow> AuditInput \<Rightarrow> a2a_database \<Rightarrow> AuditResult \<times> a2a_database" where
  "record_audit_event event_id now cmd db =
     (if au_case_id cmd \<notin> set (map rc_id (db_cases db)) \<or> (\<exists>e \<in> set (db_events db). event_clash (audit_row now cmd) e)
      then (case find_audit cmd db of
          Some e \<Rightarrow> (\<lparr>aur_audit_event_id = event_id e, aur_recorded = True\<rparr>, db)
        | None \<Rightarrow> (\<lparr>aur_audit_event_id = audit_source_event_id cmd, aur_recorded = False\<rparr>, db))
      else (\<lparr>aur_audit_event_id = event_id (audit_row now cmd), aur_recorded = True\<rparr>,
            db\<lparr>db_events := db_events db @ [audit_row now cmd]\<rparr>))"

section \<open>Properties\<close>

lemma reconciled_rowsD:
  assumes "reconciled_rows db cmd invoice_id = Some (c, i, s)"
  shows "c \<in> set (db_cases db)" "i \<in> set (db_invoices db)" "s \<in> set (db_subscriptions db)"
    "rc_id c = ri_case_id cmd" "rc_merchant_id c = ri_merchant_id cmd" "rc_failed_invoice_id c = Some (iv_id i)"
    "sb_id s = rc_subscription_id c" "iv_subscription_id i = sb_id s"
  using assms unfolding reconciled_rows_def by (auto split: option.splits dest!: find_SomeD)

lemma recognized_paymentD:
  assumes "recognized_payment db cmd c i = Some (g, p)"
  shows "g \<in> set (db_revenue db)" "p \<in> set (db_payments db)" "rg_payment_attempt_id g = Some (pa_id p)"
    "rg_case_id g = rc_id c" "rg_arrears_collected g" "pa_invoice_id p = iv_id i" "pa_payment_state p = Pay_CAPTURED"
  using last_by_mem [OF assms [unfolded recognized_payment_def]] by auto

text \<open>Where a payment that is to be confirmed comes from: a stored webhook, or nobody claims anything.\<close>

lemma payment_to_confirmD:
  assumes "payment_to_confirm db cmd c i s = Inr (Some payment_id)"
  shows "(\<exists>b \<in> set (db_inbox db). \<exists>e. ib_provider_event_id b = ri_trigger_event_id cmd
      \<and> normalize_webhook (ib_provider_event_id b) (ib_payload b) = Inr e \<and> ne_payment_state e = Pay_CAPTURED
      \<and> ne_invoice_id e = Some (iv_provider_invoice_id i) \<and> ne_payment_id e = payment_id)
    \<or> payment_id = None \<and> \<not> ri_authoritative_hint cmd"
proof (cases "find (\<lambda>b. ib_merchant_id b = ri_merchant_id cmd \<and> ib_provider b = ''razorpay''
    \<and> ib_provider_event_id b = ri_trigger_event_id cmd) (db_inbox db)")
  case None
  with assms show ?thesis by (auto simp: payment_to_confirm_def split: if_splits)
next
  case (Some b)
  have b: "b \<in> set (db_inbox db)" "ib_provider_event_id b = ri_trigger_event_id cmd" using find_SomeD [OF Some] by auto
  from assms Some obtain e where e: "normalize_webhook (ib_provider_event_id b) (ib_payload b) = Inr e"
    "map_option Some (webhook_payment c i s e) = Some payment_id"
    by (auto simp: payment_to_confirm_def split: sum.splits razorpay_error.splits)
  from e(2) have "ne_payment_state e = Pay_CAPTURED" "ne_invoice_id e = Some (iv_provider_invoice_id i)"
    "ne_payment_id e = payment_id"
    by (auto simp: webhook_payment_def Let_def split: if_splits)
  with b e(1) show ?thesis by blast
qed

text \<open>
  C13: with a provider other than the mock one, a recovery is reported on evidence only. If the
  reconciliation of a case reports it as recovered, the answer is authoritative and concerns the case's own failed invoice, and either the database holds a
  captured payment of that invoice with its recognised revenue and the case is already recovered, or the
  provider itself reports the invoice as paid, in its currency, with exactly the arrears still owed, so
  that the arrears reported are the amount at risk; that is asked only for a payment a stored webhook
  names, or when nobody has asserted a success. A hint alone never recovers a case there (the mock
  provider of the demonstration accepts a hint, which is why it is excluded).
\<close>

theorem recovery_needs_evidence:
  assumes "rt_provider rt \<noteq> Mock_Provider" and "reconcile_case rt fetch cmd db = Inr r" and "rr_case_recovered r"
  shows "rr_authoritative r \<and> (\<exists>c i. c \<in> set (db_cases db) \<and> i \<in> set (db_invoices db) \<and> rc_id c = ri_case_id cmd
    \<and> rc_merchant_id c = ri_merchant_id cmd \<and> rc_failed_invoice_id c = Some (iv_id i)
    \<and> ((rc_case_recovered c \<and> (\<exists>g \<in> set (db_revenue db). \<exists>p \<in> set (db_payments db). rg_case_id g = rc_id c
           \<and> rg_payment_attempt_id g = Some (pa_id p) \<and> pa_invoice_id p = iv_id i \<and> pa_payment_state p = Pay_CAPTURED))
       \<or> (\<exists>payment_id snapshot. fetch (ri_merchant_id cmd) payment_id (iv_provider_invoice_id i) = Inr snapshot
           \<and> ps_authoritative snapshot \<and> ps_payment_state snapshot = Pay_CAPTURED
           \<and> ps_invoice_id snapshot = Some (iv_provider_invoice_id i) \<and> ps_currency snapshot = iv_currency i
           \<and> ps_amount_paise snapshot = rc_amount_at_risk_paise c - rc_arrears_collected_paise c
           \<and> rr_arrears_collected_paise r = rc_amount_at_risk_paise c
           \<and> ((\<exists>b \<in> set (db_inbox db). ib_provider_event_id b = ri_trigger_event_id cmd)
              \<or> \<not> ri_authoritative_hint cmd))))"
proof -
  obtain invoice_id c i s where inv: "ri_failed_invoice_id cmd = Some invoice_id"
    and rows: "reconciled_rows db cmd invoice_id = Some (c, i, s)"
    using assms by (auto simp: reconcile_case_def unreconciled_case_def split: option.splits)
  note d = reconciled_rowsD [OF rows]
  show ?thesis
  proof (cases "recognized_payment db cmd c i")
    case (Some x)
    obtain g p where x: "x = (g, p)" by (cases x) auto
    with assms inv rows Some have "r = recognized_result cmd c p" by (simp add: reconcile_case_def)
    with assms(3) have "rr_authoritative r" "rc_case_recovered c" by (simp_all add: recognized_result_def)
    with recognized_paymentD [OF Some [unfolded x]] d show ?thesis by blast
  next
    case None
    with assms inv rows obtain payment_id snapshot where p: "payment_to_confirm db cmd c i s = Inr (Some payment_id)"
      "fetch (ri_merchant_id cmd) payment_id (iv_provider_invoice_id i) = Inr snapshot"
      "r = snapshot_result c i s payment_id snapshot"
      by (auto simp: reconcile_case_def bindE_eq_Inr unreconciled_case_def split: option.splits)
    with assms(3) have ok: "snapshot_recovers c i s payment_id snapshot" by (simp add: snapshot_result_def Let_def)
    then have "rr_authoritative r" "rr_arrears_collected_paise r = rc_amount_at_risk_paise c"
      "ps_amount_paise snapshot = rc_amount_at_risk_paise c - rc_arrears_collected_paise c"
      using p(3) by (auto simp: snapshot_recovers_def snapshot_result_def Let_def)
    moreover have "ps_authoritative snapshot" "ps_payment_state snapshot = Pay_CAPTURED"
      "ps_invoice_id snapshot = Some (iv_provider_invoice_id i)" "ps_currency snapshot = iv_currency i"
      using ok by (simp_all add: snapshot_recovers_def Let_def)
    moreover have "(\<exists>b \<in> set (db_inbox db). ib_provider_event_id b = ri_trigger_event_id cmd) \<or> \<not> ri_authoritative_hint cmd"
      using payment_to_confirmD [OF p(1)] by blast
    ultimately show ?thesis using p(2) d(1,2,4-6) by blast
  qed
qed

text \<open>
  An audit event is recorded once. A recorded event can be reported again, also later and with other
  details: the activity answers with the row that is there and adds none. No call changes anything but
  the events.
\<close>

theorem audit_recorded_once:
  assumes "record_audit_event event_id now cmd db = (r, db')" and "aur_recorded r"
    and "au_case_id cmd' = au_case_id cmd" and "audit_source_event_id cmd' = audit_source_event_id cmd"
  shows "\<exists>e \<in> set (db_events db'). re_case_id e = au_case_id cmd \<and> re_source_event_id e = Some (audit_source_event_id cmd)
    \<and> event_id e = aur_audit_event_id r
    \<and> record_audit_event event_id now' cmd' db' = (\<lparr>aur_audit_event_id = aur_audit_event_id r, aur_recorded = True\<rparr>, db')
    \<and> db' = db\<lparr>db_events := db_events db'\<rparr>"
proof -
  obtain e where e: "find_audit cmd db' = Some e" "event_id e = aur_audit_event_id r"
    and db': "db' = db \<or> (\<exists>es. db' = db\<lparr>db_events := es\<rparr>)"
  proof (cases "find_audit cmd db")
    case None
    with assms(1,2) have "db' = db\<lparr>db_events := db_events db @ [audit_row now cmd]\<rparr>"
      "event_id (audit_row now cmd) = aur_audit_event_id r"
      by (auto simp: record_audit_event_def split: if_splits)
    moreover have "find_audit cmd (db\<lparr>db_events := db_events db @ [audit_row now cmd]\<rparr>) = Some (audit_row now cmd)"
      using None by (simp add: find_audit_def find_snoc audit_row_def)
    ultimately show ?thesis using that by blast
  next
    case (Some e)
    then have "e \<in> set (db_events db)" "event_clash (audit_row now cmd) e"
      unfolding find_audit_def event_clash_def audit_row_def by (auto dest: find_SomeD)
    then have "\<exists>b \<in> set (db_events db). event_clash (audit_row now cmd) b" by blast
    with Some assms(1) have "(\<lparr>aur_audit_event_id = event_id e, aur_recorded = True\<rparr>, db) = (r, db')"
      by (simp add: record_audit_event_def)
    then have "event_id e = aur_audit_event_id r" "db' = db" by auto
    with Some that show ?thesis by blast
  qed
  have mem: "e \<in> set (db_events db')" "re_case_id e = au_case_id cmd"
    "re_source_event_id e = Some (audit_source_event_id cmd)"
    using e(1) unfolding find_audit_def by (auto dest: find_SomeD)
  have "find_audit cmd' db' = Some e" using e(1) assms(3,4) by (simp add: find_audit_def)
  moreover have "event_clash (audit_row now' cmd') e" using mem assms(3,4) by (simp add: event_clash_def audit_row_def)
  ultimately have "record_audit_event event_id now' cmd' db' = (\<lparr>aur_audit_event_id = event_id e, aur_recorded = True\<rparr>, db')"
    using mem(1) by (auto simp: record_audit_event_def)
  moreover have "db' = db\<lparr>db_events := db_events db'\<rparr>" using db' by (elim disjE exE) simp_all
  ultimately show ?thesis using mem e(2) by auto
qed

section \<open>A concrete reconciliation\<close>

definition paid_snapshot :: PaymentSnapshot where
  "paid_snapshot = \<lparr>ps_provider = ''razorpay'', ps_payment_id = Some ''pay_2'', ps_invoice_id = Some ''inv_ext_1'',
     ps_subscription_id = Some ''sub_ext_1'', ps_payment_state = Pay_CAPTURED, ps_subscription_state = Sub_ACTIVE,
     ps_amount_paise = 49900, ps_currency = ''INR'', ps_observed_at = 0, ps_authoritative = True\<rparr>"

definition sample_reconciliation :: ReconciliationInput where
  "sample_reconciliation = \<lparr>ri_case_id = ''case_1'', ri_merchant_id = ''m1'', ri_failed_invoice_id = Some ''inv_1'',
     ri_failed_payment_id = None, ri_trigger_event_id = ''deadline'', ri_payment_state_hint = None,
     ri_amount_paise_hint = None, ri_authoritative_hint = False\<rparr>"

lemma sample_reconciled:
  "\<exists>r. reconcile_case sample_runtime (\<lambda>_ _ _. Inr paid_snapshot) sample_reconciliation sample_a2a_db = Inr r
     \<and> rr_case_recovered r \<and> rr_arrears_collected_paise r = 49900"
  by (simp add: reconcile_case_def sample_runtime_def sample_reconciliation_def reconciled_rows_def sample_a2a_db_def
      recognized_payment_def last_by_def payment_to_confirm_def snapshot_result_def snapshot_recovers_def
      paid_snapshot_def Let_def)

theorem recovery_needs_evidence_witness:
  "\<exists>r. reconcile_case sample_runtime (\<lambda>_ _ _. Inr paid_snapshot) sample_reconciliation sample_a2a_db = Inr r
     \<and> rr_case_recovered r \<and> rr_authoritative r"
proof -
  obtain r where r: "reconcile_case sample_runtime (\<lambda>_ _ _. Inr paid_snapshot) sample_reconciliation sample_a2a_db = Inr r"
    "rr_case_recovered r" using sample_reconciled by blast
  have "rt_provider sample_runtime \<noteq> Mock_Provider" by (simp add: sample_runtime_def)
  from recovery_needs_evidence [OF this r] r show ?thesis by auto
qed

definition sample_audit :: AuditInput where
  "sample_audit = \<lparr>au_case_id = ''case_1'', au_event_type = ''CASE_OPENED'', au_correlation_id = ''c1'', au_details = []\<rparr>"

theorem audit_recorded_once_witness:
  "\<exists>db'. record_audit_event re_correlation_id 3 sample_audit sample_a2a_db
       = (\<lparr>aur_audit_event_id = ''c1'', aur_recorded = True\<rparr>, db')
     \<and> record_audit_event re_correlation_id 9 sample_audit db'
       = (\<lparr>aur_audit_event_id = ''c1'', aur_recorded = True\<rparr>, db') \<and> length (db_events db') = 1"
proof -
  obtain db' where r: "record_audit_event re_correlation_id 3 sample_audit sample_a2a_db
       = (\<lparr>aur_audit_event_id = ''c1'', aur_recorded = True\<rparr>, db')" "length (db_events db') = 1"
    by (simp add: record_audit_event_def sample_audit_def sample_a2a_db_def audit_row_def)
  from audit_recorded_once [OF r(1) _ refl refl, of 9] r show ?thesis by auto
qed

end
