(* ===== verification/Voice_Safety.thy ===== *)
theory Voice_Safety
  imports Voice_Contact
begin

text \<open>
  What voice contact guarantees: a call is placed only within the limits, once per key, and a call is
  cancelled once per cancellation key, however the requests interleave; callbacks move a call forward
  and count once. \<open>voice_system_step\<close> is the interleaving machine: a request is in one of the phases between
  its transactions, callbacks arrive at any time, and a request can stop in any phase. The laws the
  service needs of a repository are the locale \<open>voice_ledger\<close>, which both repositories satisfy.
\<close>

section \<open>The limits of a call\<close>

lemma evaluate_voice_safety_allowed:
  "fst (evaluate_voice_safety x) \<longleftrightarrow> vx_real_calls_enabled x \<and> vx_operator_authorized x \<and> \<not> vx_kill_switch x
     \<and> vx_destination_allowlisted x \<and> vx_consent_verified_at x \<noteq> None \<and> vx_opted_out_at x = None
     \<and> vx_active_calls x = 0 \<and> vx_calls_today x < 10 \<and> vx_max_duration_seconds x \<le> 180 \<and> \<not> quiet_now x"
  by (auto simp: evaluate_voice_safety_def safety_checks_def not_le not_less)

text \<open>What \<open>start\<close> has checked when it reserves an attempt.\<close>

definition call_permitted ::
    "VoiceContactService \<Rightarrow> 's VoiceRepository \<Rightarrow> start_command \<Rightarrow> VoiceSubject \<Rightarrow> instant \<Rightarrow> 's \<Rightarrow> bool" where
  "call_permitted svc repo cmd j now s \<longleftrightarrow>
     vp_get_by_idempotency repo (sc_idempotency_key cmd) s = None
     \<and> vp_load_subject repo (sc_case_id cmd) s = Inr (Some j)
     \<and> sv_real_calls_enabled svc \<and> operator_authorized svc cmd \<and> \<not> vj_kill_switch j
     \<and> vj_destination_token j \<in> sv_allowlisted_destinations svc \<and> vj_consent_verified_at j \<noteq> None
     \<and> vj_opted_out_at j = None \<and> vp_active_count repo s = 0 \<and> vp_calls_today repo now s < 10
     \<and> sc_max_duration_seconds cmd \<le> 180
     \<and> (\<exists>tz. sv_zones svc (vj_timezone j) = Some tz
          \<and> (\<forall>start stop. vj_quiet_hours_start j = Some start \<and> vj_quiet_hours_end j = Some stop
               \<longrightarrow> \<not> inside_quiet_hours ((now + tz_offset_at tz now) mod days 1) start stop))"

lemma check_start_permitted:
  "check_start svc repo cmd now s = Inr (Inr (j, a)) \<longleftrightarrow>
     call_permitted svc repo cmd j now s \<and> a = reserved_attempt cmd j now"
proof (cases "vp_get_by_idempotency repo (sc_idempotency_key cmd) s")
  case (Some x)
  then show ?thesis by (simp add: check_start_def call_permitted_def)
next
  case key: None
  show ?thesis
  proof (cases "\<exists>k tz. vp_load_subject repo (sc_case_id cmd) s = Inr (Some k) \<and> sv_zones svc (vj_timezone k) = Some tz")
    case True
    then obtain k tz where k: "vp_load_subject repo (sc_case_id cmd) s = Inr (Some k)" "sv_zones svc (vj_timezone k) = Some tz"
      by blast
    obtain x where x: "safety_context svc repo k (operator_authorized svc cmd) (sc_max_duration_seconds cmd) now s = Inr x"
      using k(2) by (simp add: safety_context_def)
    have "check_start svc repo cmd now s = Inr (Inr (j, a)) \<longleftrightarrow>
        fst (evaluate_voice_safety x) \<and> j = k \<and> a = reserved_attempt cmd j now"
      using key k(1) x by (auto simp: check_start_def Let_def)
    also have "\<dots> \<longleftrightarrow> call_permitted svc repo cmd j now s \<and> a = reserved_attempt cmd j now"
      using key k x unfolding evaluate_voice_safety_allowed
      by (auto simp: call_permitted_def safety_context_def quiet_now_def split: option.splits)
    finally show ?thesis .
  next
    case False
    then show ?thesis using key
      by (auto simp: check_start_def call_permitted_def safety_context_def bindE_eq_Inr split: option.splits)
  qed
qed

section \<open>Changes of a call\<close>

lemma set_change_keys [simp]:
  "va_id (set_change c a) = va_id a" "va_idempotency_key (set_change c a) = va_idempotency_key a"
  by (cases c; simp)+

lemma fold_set_change_keys [simp]:
  "va_id (fold set_change cs a) = va_id a" "va_idempotency_key (fold set_change cs a) = va_idempotency_key a"
  by (induction cs arbitrary: a) simp_all

definition new_status :: "string \<Rightarrow> voice_change list \<Rightarrow> string" where
  "new_status current cs = (case incoming_status (rev cs) of None \<Rightarrow> current | Some s \<Rightarrow> s)"

lemma incoming_status_append:
  "incoming_status (cs @ ds) = (case incoming_status cs of None \<Rightarrow> incoming_status ds | Some s \<Rightarrow> Some s)"
  by (induction cs rule: incoming_status.induct) auto

lemma set_change_status: "va_status (set_change c a) = new_status (va_status a) [c]"
  by (cases c) (simp_all add: new_status_def)

lemma fold_set_change_status: "va_status (fold set_change cs a) = new_status (va_status a) cs"
proof (induction cs arbitrary: a)
  case Nil
  then show ?case by (simp add: new_status_def)
next
  case (Cons c cs)
  then show ?case by (auto simp: set_change_status new_status_def incoming_status_append split: option.splits)
qed

lemma incoming_status_unmoved: "incoming_status (rev (filter (\<lambda>c. \<not> moves_call c) cs)) = None"
proof (induction cs)
  case Nil
  then show ?case by simp
next
  case (Cons c cs)
  then show ?case by (cases c) (simp_all add: incoming_status_append)
qed

text \<open>Entries of a dictionary: at most one of them is the status.\<close>

definition single_status :: "voice_change list \<Rightarrow> bool" where
  "single_status cs \<longleftrightarrow> incoming_status (rev cs) = incoming_status cs"

lemma admitted_status:
  assumes "single_status cs"
  shows "va_status (fold set_change (admitted_changes (va_status a) cs) a) = va_status a
    \<or> (\<exists>s. incoming_status cs = Some s \<and> can_advance_voice_status (va_status a) s
        \<and> va_status (fold set_change (admitted_changes (va_status a) cs) a) = s)"
proof (cases "incoming_status cs")
  case None
  with assms show ?thesis
    by (simp add: admitted_changes_def fold_set_change_status new_status_def single_status_def)
next
  case (Some s)
  show ?thesis
  proof (cases "can_advance_voice_status (va_status a) s")
    case True
    with Some assms show ?thesis
      by (simp add: admitted_changes_def fold_set_change_status new_status_def single_status_def)
  next
    case False
    with Some show ?thesis
      by (simp add: admitted_changes_def fold_set_change_status new_status_def incoming_status_unmoved)
  qed
qed

section \<open>Callbacks as operations of the repository\<close>

datatype service_callback = Twilio_Status string ident string "int option" "string option"
  | Live_Intent string ident string "int option"
  | Browser_Transcript bool ident string int string
  | Post_Call post_call

fun deliver_callback ::
    "'s VoiceRepository \<Rightarrow> instant \<Rightarrow> service_callback \<Rightarrow> 's \<Rightarrow> (voice_error + bool) \<times> 's" where
  "deliver_callback repo now (Twilio_Status e i status duration call_id) s =
     (case apply_twilio_status repo e i status duration call_id s of Inl x \<Rightarrow> (Inl x, s) | Inr (d, s') \<Rightarrow> (Inr d, s'))"
| "deliver_callback repo now (Live_Intent e i intent confidence) s =
     (case apply_live_intent repo now e i intent confidence s of
        Inl x \<Rightarrow> (Inl x, s) | Inr ((_, _, _, d), s', _) \<Rightarrow> (Inr d, s'))"
| "deliver_callback repo now (Browser_Transcript ends i transcript confidence e) s =
     (case apply_transcript repo now ends i transcript confidence e s of
        (Inl x, s', _) \<Rightarrow> (Inl x, s') | (Inr (_, _, fresh), s', _) \<Rightarrow> (Inr (\<not> fresh), s'))"
| "deliver_callback repo now (Post_Call p) s =
     (case apply_elevenlabs_post_call repo now p s of Inl x \<Rightarrow> (Inl x, s) | Inr (d, s') \<Rightarrow> (Inr d, s'))"

text \<open>The statuses that callbacks report are written as they are stored.\<close>

definition well_formed_changes :: "voice_change list \<Rightarrow> bool" where
  "well_formed_changes cs \<longleftrightarrow> single_status cs
     \<and> (\<forall>s. incoming_status cs = Some s \<longrightarrow> s \<in> snd ` set VOICE_STATUS_ALIASES)"

lemma normalize_voice_status_range: "normalize_voice_status v = Inr s \<Longrightarrow> s \<in> snd ` set VOICE_STATUS_ALIASES"
  by (force simp: normalize_voice_status_def split: option.splits dest: map_of_SomeD)

text \<open>A delivered callback is one application of its changes, and perhaps a suppression after it.\<close>

definition callback_effect_of :: "'s VoiceRepository \<Rightarrow> instant \<Rightarrow> 's \<Rightarrow> 's \<Rightarrow> bool" where
  "callback_effect_of repo now s s' \<longleftrightarrow> s' = s
     \<or> (\<exists>p e i cs out s1. well_formed_changes cs \<and> vp_apply_callback repo p e i cs s = Inr (out, s1)
          \<and> (s' = s1 \<or> (\<exists>a. fst out = Some a \<and> s' = snd (vp_suppress repo now a ''VOICE_OPT_OUT'' s1))))"

lemma callback_effect_refl [simp]: "callback_effect_of repo now s s"
  by (simp add: callback_effect_of_def)

lemma opt_out_effect_state:
  "fst (snd (opt_out_effect repo now attempt intent duplicate s)) = s
   \<or> (\<exists>a. attempt = Some a \<and> fst (snd (opt_out_effect repo now attempt intent duplicate s)) = snd (vp_suppress repo now a ''VOICE_OPT_OUT'' s))"
  by (auto simp: opt_out_effect_def split: option.splits prod.splits)

lemma callback_effectI:
  assumes "vp_apply_callback repo p e i cs s = Inr ((attempt, d), s1)" and "well_formed_changes cs"
  shows "callback_effect_of repo now s (fst (snd (opt_out_effect repo now attempt intent d s1)))"
  using opt_out_effect_state [of repo now attempt intent d s1] assms unfolding callback_effect_of_def by fastforce

lemma twilio_effect:
  assumes "apply_twilio_status repo e i status duration call_id s = Inr (d, s')"
  shows "callback_effect_of repo now s s'"
proof -
  from assms obtain st cs out where st: "normalize_voice_status status = Inr st"
    and cs: "cs = Set_status st # (case duration of None \<Rightarrow> [] | Some d \<Rightarrow> [Set_duration (clamp_duration d)])
         @ (if st \<in> VOICE_TERMINAL_STATUSES then [Set_disposition st] else [])
         @ (if truthy call_id then [Set_provider_call_id (the call_id)] else [])"
    and call: "vp_apply_callback repo ''twilio'' e i cs s = Inr (out, s')"
    by (auto simp: apply_twilio_status_def bindE_eq_Inr split: prod.splits)
  have "well_formed_changes cs"
    using normalize_voice_status_range [OF st]
    by (auto simp: cs well_formed_changes_def single_status_def split: option.splits)
  with call show ?thesis unfolding callback_effect_of_def by blast
qed

lemma live_intent_effect:
  assumes "apply_live_intent repo now e i intent confidence s = Inr (x, s', calls)"
  shows "callback_effect_of repo now s s'"
proof -
  from assms obtain v where v: "intent_of_value (py_upper (py_strip intent)) = Some v"
    by (auto simp: apply_live_intent_def split: option.splits)
  define cs where "cs = [Set_detected_intent (intent_value v), Set_disposition (intent_value v)]
    @ (case confidence of None \<Rightarrow> [] | Some n \<Rightarrow> [Set_confidence (Some (clamp_confidence n))])"
  from assms v obtain y where y: "vp_apply_callback repo ''elevenlabs-tool'' e i cs s = Inr y"
    by (auto simp: apply_live_intent_def cs_def bindE_eq_Inr)
  obtain attempt d s1 where "y = ((attempt, d), s1)" by (metis prod.exhaust)
  with y have call: "vp_apply_callback repo ''elevenlabs-tool'' e i cs s = Inr ((attempt, d), s1)" by simp
  with assms v have s': "s' = fst (snd (opt_out_effect repo now attempt v d s1))"
    by (simp add: apply_live_intent_def cs_def split: prod.splits)
  have "well_formed_changes cs"
    by (auto simp: cs_def well_formed_changes_def single_status_def split: option.splits)
  from callback_effectI [OF call this] s' show ?thesis by simp
qed

lemma transcript_effect:
  assumes "apply_transcript repo now ends i transcript confidence e s = (x, s', calls)"
  shows "callback_effect_of repo now s s'"
proof -
  define v where "v = detect_voice_intent transcript"
  define cs where "cs = [Set_transcript transcript, Set_detected_intent (intent_value v),
    Set_confidence (Some confidence), Set_disposition (intent_value v)]"
  have wf: "well_formed_changes cs" by (simp add: cs_def well_formed_changes_def single_status_def)
  show ?thesis
  proof (cases "vp_apply_callback repo ''browser'' e i cs s")
    case (Inl x)
    with assms have "s' = s" by (simp add: apply_transcript_def v_def cs_def Let_def)
    then show ?thesis by (simp add: callback_effect_of_def)
  next
    case (Inr y)
    obtain attempt d s1 where y: "y = ((attempt, d), s1)" by (metis prod.exhaust)
    from assms Inr y have "s' = s \<or> s' = fst (snd (opt_out_effect repo now attempt v d s1))"
      by (auto simp: apply_transcript_def v_def cs_def Let_def split: prod.splits if_splits)
    with callback_effectI [OF Inr [unfolded y] wf] show ?thesis by (auto simp: callback_effect_of_def)
  qed
qed

lemma post_call_effect:
  assumes "apply_elevenlabs_post_call repo now p s = Inr (d, s')"
  shows "callback_effect_of repo now s s'"
proof -
  from assms obtain analyzed where an: "analyzed_intent (pl_provider_intent p) = Inr analyzed"
    by (auto simp: apply_elevenlabs_post_call_def bindE_eq_Inr)
  define cs where "cs = post_call_changes p analyzed (post_call_intent analyzed (pl_intent_transcript p))"
  from assms an obtain out s1 where call: "vp_apply_callback repo ''elevenlabs'' (pl_event_id p) (pl_attempt_id p) cs s = Inr (out, s1)"
    and s': "s' = s1 \<or> (\<exists>a. fst out = Some a \<and> s' = snd (vp_suppress repo now a ''VOICE_OPT_OUT'' s1))"
    by (auto simp: apply_elevenlabs_post_call_def cs_def Let_def bindE_eq_Inr split: prod.splits option.splits if_splits)
  have "well_formed_changes cs"
    by (auto simp: cs_def post_call_changes_def well_formed_changes_def single_status_def Let_def VOICE_STATUS_ALIASES_def)
  with call s' show ?thesis unfolding callback_effect_of_def by blast
qed

lemma deliver_callback_effect:
  assumes "deliver_callback repo now cb s = (r, s')"
  shows "callback_effect_of repo now s s'"
proof (cases cb)
  case (Twilio_Status e i status duration call_id)
  then show ?thesis using assms
    by (auto split: sum.splits prod.splits intro: twilio_effect)
next
  case (Live_Intent e i intent confidence)
  then show ?thesis using assms
    by (auto split: sum.splits prod.splits intro: live_intent_effect)
next
  case (Browser_Transcript ends i transcript confidence e)
  then show ?thesis using assms by (auto split: sum.splits prod.splits intro: transcript_effect)
next
  case (Post_Call p)
  then show ?thesis using assms
    by (auto split: sum.splits prod.splits intro: post_call_effect)
qed

section \<open>Requests and callbacks interleaved\<close>

text \<open>
  A start is checking, has its attempt to reserve, or is at the provider; a cancellation is at the
  provider. \<open>vy_started\<close> and \<open>vy_cancelled\<close> log the calls of the provider, a cancellation with its key.
\<close>

datatype voice_phase = Reserving start_command VoiceSubject VoiceAttempt | Starting VoiceAttempt
  | Cancelling ident string

record 's voice_system =
  vy_store :: 's
  vy_phase :: "nat \<Rightarrow> voice_phase option"
  vy_started :: "VoiceContactRequest list"
  vy_cancelled :: "(string \<times> ident) list"

definition phase_after :: "reservation \<Rightarrow> VoiceAttempt \<Rightarrow> voice_phase option" where
  "phase_after r a = (case r of Replayed _ \<Rightarrow> None | _ \<Rightarrow> Some (Starting a))"

definition placed_call :: "reservation \<Rightarrow> VoiceContactRequest list" where
  "placed_call r = (case r of Call_Provider q \<Rightarrow> [q] | _ \<Rightarrow> [])"

inductive voice_system_step ::
    "VoiceContactService \<Rightarrow> 's VoiceRepository \<Rightarrow> ('s \<Rightarrow> 's \<Rightarrow> bool) \<Rightarrow> 's voice_system \<Rightarrow> 's voice_system \<Rightarrow> bool"
    for svc :: VoiceContactService and repo :: "'s VoiceRepository" and elsewhere :: "'s \<Rightarrow> 's \<Rightarrow> bool" where
  checked: "voice_system_step svc repo elsewhere y (y\<lparr>vy_phase := (vy_phase y)(w \<mapsto> Reserving cmd j a)\<rparr>)"
    if "vy_phase y w = None" and "check_start svc repo cmd now (vy_store y) = Inr (Inr (j, a))"
| reserved: "voice_system_step svc repo elsewhere y (y\<lparr>vy_store := s', vy_phase := (vy_phase y)(w := phase_after r a),
      vy_started := vy_started y @ placed_call r\<rparr>)"
    if "vy_phase y w = Some (Reserving cmd j a)" and "reserve_start repo cmd j a (vy_store y) = Inr (r, s')"
| finished: "voice_system_step svc repo elsewhere y (y\<lparr>vy_store := s', vy_phase := (vy_phase y)(w := None)\<rparr>)"
    if "vy_phase y w = Some (Starting a)" and "finish_start repo held a answer (vy_store y) = Inr (r, s')"
| cancelling: "voice_system_step svc repo elsewhere y (y\<lparr>vy_store := s', vy_phase := (vy_phase y)(w \<mapsto> Cancelling i key),
      vy_cancelled := vy_cancelled y @ [(key, i)]\<rparr>)"
    if "vy_phase y w = None" and "begin_cancellation svc repo case_id key now (vy_store y) = (Inr (Inr i), s')"
| cancel_answered: "voice_system_step svc repo elsewhere y (y\<lparr>vy_store := s'\<rparr>)"
    if "begin_cancellation svc repo case_id key now (vy_store y) = (r, s')" and "\<nexists>i. r = Inr (Inr i)"
| cancelled: "voice_system_step svc repo elsewhere y (y\<lparr>vy_store := s', vy_phase := (vy_phase y)(w := None)\<rparr>)"
    if "vy_phase y w = Some (Cancelling i key)" and "finish_cancellation repo i key now failure (vy_store y) = Inr (r, s')"
| reconciled: "voice_system_step svc repo elsewhere y (y\<lparr>vy_store := s'\<rparr>)"
    if "reconcile_payment_cancellation repo status key now (vy_store y) = Inr (r, s', calls)"
| callback: "voice_system_step svc repo elsewhere y (y\<lparr>vy_store := s'\<rparr>)"
    if "deliver_callback repo now cb (vy_store y) = (r, s')"
| configured: "voice_system_step svc repo elsewhere y (y\<lparr>vy_store := s'\<rparr>)"
    if "vp_configure_subject repo case_id token language consent now (vy_store y) = Inr (j, s')"
| stopped: "voice_system_step svc repo elsewhere y (y\<lparr>vy_phase := (vy_phase y)(w := None)\<rparr>)"
| other: "voice_system_step svc repo elsewhere y (y\<lparr>vy_store := s'\<rparr>)" if "elsewhere (vy_store y) s'"

inductive_cases voice_system_stepE: "voice_system_step svc repo elsewhere y y'"

definition quiet_system :: "'s \<Rightarrow> 's voice_system" where
  "quiet_system s = \<lparr>vy_store = s, vy_phase = Map.empty, vy_started = [], vy_cancelled = []\<rparr>"

section \<open>What the service needs of a repository\<close>

text \<open>
  \<open>keys\<close> and \<open>claims\<close> are the idempotency keys and the cancellation keys a state has seen. They only
  grow; a reservation or a claim is granted only for a new key. The attempts of the service have the
  idempotency key as their primary key.
\<close>

definition keyed :: "'z VoiceAttempt_scheme \<Rightarrow> bool" where
  "keyed a \<longleftrightarrow> va_id a = va_idempotency_key a"

definition grows_to :: "('s \<Rightarrow> 'k set) \<Rightarrow> ('s \<Rightarrow> 'k set) \<Rightarrow> ('s \<Rightarrow> bool) \<Rightarrow> 's \<Rightarrow> 's \<Rightarrow> bool" where
  "grows_to f g valid s s' \<longleftrightarrow> f s \<subseteq> f s' \<and> g s \<subseteq> g s' \<and> (valid s \<longrightarrow> valid s')"

lemma grows_to_refl [simp]: "grows_to f g valid s s"
  by (simp add: grows_to_def)

lemma grows_to_trans: "grows_to f g valid s s' \<Longrightarrow> grows_to f g valid s' s'' \<Longrightarrow> grows_to f g valid s s''"
  by (auto simp: grows_to_def)

definition calls_recorded ::
    "('s \<Rightarrow> string set) \<Rightarrow> ('s \<Rightarrow> string set) \<Rightarrow> ('s \<Rightarrow> bool) \<Rightarrow> 's voice_system \<Rightarrow> bool" where
  "calls_recorded keys claims valid y \<longleftrightarrow> valid (vy_store y)
     \<and> distinct (map vq_idempotency_key (vy_started y)) \<and> set (map vq_idempotency_key (vy_started y)) \<subseteq> keys (vy_store y)
     \<and> distinct (map fst (vy_cancelled y)) \<and> set (map fst (vy_cancelled y)) \<subseteq> claims (vy_store y)
     \<and> (\<forall>w a. vy_phase y w = Some (Starting a) \<longrightarrow> keyed a \<and> va_idempotency_key a \<in> keys (vy_store y))
     \<and> (\<forall>w cmd j a. vy_phase y w = Some (Reserving cmd j a) \<longrightarrow> keyed a \<and> va_idempotency_key a = sc_idempotency_key cmd)"

locale voice_ledger =
  fixes repo :: "'s VoiceRepository"
    and keys :: "'s \<Rightarrow> string set"
    and claims :: "'s \<Rightarrow> string set"
    and valid :: "'s \<Rightarrow> bool"
  assumes reserve_grows: "valid s \<Longrightarrow> keyed a \<Longrightarrow> vp_reserve_attempt repo a s = Inr (c, s') \<Longrightarrow> grows_to keys claims valid s s'"
    and reserve_new: "valid s \<Longrightarrow> keyed a \<Longrightarrow> vp_reserve_attempt repo a s = Inr (c, s') \<Longrightarrow> vrc_claimed c
      \<Longrightarrow> va_idempotency_key a \<notin> keys s \<and> va_idempotency_key a \<in> keys s'"
    and save_grows: "valid s \<Longrightarrow> keyed a \<Longrightarrow> va_idempotency_key a \<in> keys s
      \<Longrightarrow> vp_save_attempt repo held a s = Inr (b, s') \<Longrightarrow> grows_to keys claims valid s s'"
    and callback_grows: "valid s \<Longrightarrow> vp_apply_callback repo p e i cs s = Inr (out, s') \<Longrightarrow> grows_to keys claims valid s s'"
    and suppress_grows: "valid s \<Longrightarrow> grows_to keys claims valid s (snd (vp_suppress repo now a reason s))"
    and claim_grows: "valid s \<Longrightarrow> vp_claim_payment_cancellation repo case_id key now s = (cc, s') \<Longrightarrow> grows_to keys claims valid s s'"
    and claim_new: "valid s \<Longrightarrow> vp_claim_payment_cancellation repo case_id key now s = (cc, s') \<Longrightarrow> vcc_claimed cc
      \<Longrightarrow> key \<notin> claims s \<and> key \<in> claims s'"
    and finalize_grows: "valid s \<Longrightarrow> vp_finalize_payment_cancellation repo i key confirmed now code s = Inr (b, s')
      \<Longrightarrow> grows_to keys claims valid s s'"
    and configure_grows: "valid s \<Longrightarrow> vp_configure_subject repo case_id token language consent now s = Inr (j, s')
      \<Longrightarrow> grows_to keys claims valid s s'"
begin

text \<open>A step that grows the store and adds no call keeps the invariant, if its phases are sound.\<close>

lemma recorded_grow:
  assumes rec: "calls_recorded keys claims valid y" and grow: "grows_to keys claims valid (vy_store y) s'"
    and start: "\<And>w a. ph w = Some (Starting a) \<Longrightarrow> vy_phase y w = Some (Starting a) \<or> keyed a \<and> va_idempotency_key a \<in> keys s'"
    and res: "\<And>w cmd j a. ph w = Some (Reserving cmd j a)
      \<Longrightarrow> vy_phase y w = Some (Reserving cmd j a) \<or> keyed a \<and> va_idempotency_key a = sc_idempotency_key cmd"
  shows "calls_recorded keys claims valid (y\<lparr>vy_store := s', vy_phase := ph\<rparr>)"
proof -
  have "keys (vy_store y) \<subseteq> keys s'" "claims (vy_store y) \<subseteq> claims s'" "valid s'"
    using rec grow by (auto simp: calls_recorded_def grows_to_def)
  moreover have "keyed a \<and> va_idempotency_key a \<in> keys s'" if "ph w = Some (Starting a)" for w a
    using start [OF that] rec grow by (auto simp: calls_recorded_def grows_to_def)
  moreover have "keyed a \<and> va_idempotency_key a = sc_idempotency_key cmd" if "ph w = Some (Reserving cmd j a)" for w cmd j a
    using res [OF that] rec by (auto simp: calls_recorded_def)
  ultimately show ?thesis using rec by (simp add: calls_recorded_def) blast
qed

lemma callback_effect_grows:
  assumes "valid s" and "callback_effect_of repo now s s'"
  shows "grows_to keys claims valid s s'"
proof (cases "s' = s")
  case False
  with assms(2) obtain p e i cs out s1 where
    call: "vp_apply_callback repo p e i cs s = Inr (out, s1)" and
    s': "s' = s1 \<or> (\<exists>a. s' = snd (vp_suppress repo now a ''VOICE_OPT_OUT'' s1))"
    unfolding callback_effect_of_def by blast
  have g: "grows_to keys claims valid s s1" using callback_grows [OF assms(1) call] .
  then have "valid s1" using assms(1) by (simp add: grows_to_def)
  with s' g show ?thesis by (metis suppress_grows grows_to_trans)
qed simp

lemma begin_cancellation_grows:
  assumes "valid s" and "begin_cancellation svc repo case_id key now s = (r, s')"
  shows "grows_to keys claims valid s s'" and "r = Inr (Inr i) \<Longrightarrow> key \<notin> claims s \<and> key \<in> claims s'"
proof -
  obtain c s1 where c: "vp_claim_payment_cancellation repo case_id key now s = (c, s1)" by (metis prod.exhaust)
  have g: "grows_to keys claims valid s s1" using claim_grows [OF assms(1) c] .
  then have "valid s1" using assms(1) by (simp add: grows_to_def)
  then have fin: "grows_to keys claims valid s s2" if "vp_finalize_payment_cancellation repo i key confirmed now code s1 = Inr (b, s2)"
    for i confirmed code b s2 using that finalize_grows g grows_to_trans by metis
  show "grows_to keys claims valid s s'"
    using assms(2) c g fin
    by (auto simp: begin_cancellation_def split: option.splits if_splits sum.splits prod.splits)
  show "key \<notin> claims s \<and> key \<in> claims s'" if "r = Inr (Inr i)"
  proof -
    from assms(2) c that have "vcc_claimed c" "s' = s1"
      by (auto simp: begin_cancellation_def split: option.splits if_splits sum.splits prod.splits)
    with claim_new [OF assms(1) c] show ?thesis by simp
  qed
qed

lemma finish_start_grows:
  assumes "valid s" and "keyed a" and "va_idempotency_key a \<in> keys s" and "finish_start repo held a answer s = Inr (r, s')"
  shows "grows_to keys claims valid s s'"
proof -
  from assms(4) obtain b a' where "vp_save_attempt repo held a' s = Inr (b, s')" "keyed a'" "va_idempotency_key a' = va_idempotency_key a"
    using assms(2) by (auto simp: finish_start_def bindE_eq_Inr keyed_def split: option.splits prod.splits)
  with save_grows assms(1,3) show ?thesis by metis
qed

lemma finish_cancellation_grows:
  assumes "valid s" and "finish_cancellation repo i key now failure s = Inr (r, s')"
  shows "grows_to keys claims valid s s'"
  using assms finalize_grows by (fastforce simp: finish_cancellation_def bindE_eq_Inr split: option.splits prod.splits)

lemma reconcile_grows:
  assumes "valid s" and "reconcile_payment_cancellation repo status key now s = Inr (r, s', calls)"
  shows "grows_to keys claims valid s s'"
  using assms finalize_grows
  by (fastforce simp: reconcile_payment_cancellation_def bindE_eq_Inr split: option.splits prod.splits if_splits)

lemma recorded_reserved:
  assumes rec: "calls_recorded keys claims valid y" and w: "vy_phase y w = Some (Reserving cmd j a)"
    and res: "reserve_start repo cmd j a (vy_store y) = Inr (r, s')"
  shows "calls_recorded keys claims valid (y\<lparr>vy_store := s', vy_phase := (vy_phase y)(w := phase_after r a),
    vy_started := vy_started y @ placed_call r\<rparr>)"
proof -
  from rec w have v: "valid (vy_store y)" "keyed a" "va_idempotency_key a = sc_idempotency_key cmd"
    by (auto simp: calls_recorded_def)
  from res obtain c where c: "vp_reserve_attempt repo a (vy_store y) = Inr (c, s')"
    and r: "r = (if \<not> vrc_claimed c then Replayed (replay_result (vrc_attempt c))
          else if valid_contact_request (contact_request cmd j) then Call_Provider (contact_request cmd j)
          else Invalid_Request)"
    by (auto simp: reserve_start_def bindE_eq_Inr split: prod.splits)
  have key: "va_idempotency_key a \<notin> keys (vy_store y) \<and> va_idempotency_key a \<in> keys s'" if "vrc_claimed c"
    using reserve_new [OF v(1,2) c that] .
  have base: "calls_recorded keys claims valid (y\<lparr>vy_store := s', vy_phase := (vy_phase y)(w := phase_after r a)\<rparr>)"
    by (rule recorded_grow [OF rec reserve_grows [OF v(1,2) c]])
      (use r key v in \<open>auto simp: phase_after_def split: if_splits\<close>)
  have "placed_call r = [] \<or> placed_call r = [contact_request cmd j] \<and> vrc_claimed c"
    by (simp add: r placed_call_def)
  moreover have "\<forall>q \<in> set (vy_started y). vq_idempotency_key q \<noteq> sc_idempotency_key cmd" if "vrc_claimed c"
    using rec key [OF that] v(3) by (auto simp: calls_recorded_def)
  moreover have "vq_idempotency_key (contact_request cmd j) = sc_idempotency_key cmd" by (simp add: contact_request_def)
  ultimately show ?thesis using base key v(3) by (auto simp: calls_recorded_def)
qed

lemma recorded_cancelling:
  assumes rec: "calls_recorded keys claims valid y"
    and beg: "begin_cancellation svc repo case_id key now (vy_store y) = (Inr (Inr i), s')"
  shows "calls_recorded keys claims valid (y\<lparr>vy_store := s', vy_phase := (vy_phase y)(w \<mapsto> Cancelling i key),
    vy_cancelled := vy_cancelled y @ [(key, i)]\<rparr>)"
proof -
  from rec have v: "valid (vy_store y)" by (simp add: calls_recorded_def)
  note g = begin_cancellation_grows [OF v beg]
  have "calls_recorded keys claims valid (y\<lparr>vy_store := s', vy_phase := (vy_phase y)(w \<mapsto> Cancelling i key)\<rparr>)"
    by (rule recorded_grow [OF rec g(1)]) (auto split: if_splits)
  moreover have "key \<notin> fst ` set (vy_cancelled y)" using rec g(2) by (auto simp: calls_recorded_def)
  ultimately show ?thesis using g(2) by (auto simp: calls_recorded_def)
qed

lemma recorded_phase:
  assumes "calls_recorded keys claims valid y" and "grows_to keys claims valid (vy_store y) s'"
  shows "calls_recorded keys claims valid (y\<lparr>vy_store := s', vy_phase := (vy_phase y)(w := None)\<rparr>)"
    and "calls_recorded keys claims valid (y\<lparr>vy_store := s'\<rparr>)"
    and "calls_recorded keys claims valid (y\<lparr>vy_phase := (vy_phase y)(w := None)\<rparr>)"
proof -
  show "calls_recorded keys claims valid (y\<lparr>vy_store := s', vy_phase := (vy_phase y)(w := None)\<rparr>)"
    by (rule recorded_grow [OF assms]) (auto split: if_splits)
  show "calls_recorded keys claims valid (y\<lparr>vy_store := s'\<rparr>)"
    using recorded_grow [OF assms, of "vy_phase y"] by simp
  have "calls_recorded keys claims valid (y\<lparr>vy_store := vy_store y, vy_phase := (vy_phase y)(w := None)\<rparr>)"
    by (rule recorded_grow [OF assms(1) grows_to_refl]) (auto split: if_splits)
  then show "calls_recorded keys claims valid (y\<lparr>vy_phase := (vy_phase y)(w := None)\<rparr>)" by simp
qed

lemma recorded_step:
  assumes "voice_system_step svc repo elsewhere y y'" and rec: "calls_recorded keys claims valid y"
    and other: "\<And>s s'. elsewhere s s' \<Longrightarrow> grows_to keys claims valid s s'"
  shows "calls_recorded keys claims valid y'"
proof -
  have v: "valid (vy_store y)" using rec by (simp add: calls_recorded_def)
  from assms(1) show ?thesis
  proof cases
    case (checked w cmd now j a)
    then have "keyed a" "va_idempotency_key a = sc_idempotency_key cmd"
      by (auto simp: check_start_permitted reserved_attempt_def keyed_def)
    then have "calls_recorded keys claims valid
        (y\<lparr>vy_store := vy_store y, vy_phase := (vy_phase y)(w \<mapsto> Reserving cmd j a)\<rparr>)"
      by (intro recorded_grow [OF rec grows_to_refl]) (auto split: if_splits)
    with checked(1) show ?thesis by simp
  next
    case (reserved w cmd j a r s')
    then show ?thesis using recorded_reserved [OF rec] by simp
  next
    case (finished w a held answer r s')
    moreover from finished(2) rec have "keyed a" "va_idempotency_key a \<in> keys (vy_store y)"
      by (auto simp: calls_recorded_def)
    ultimately show ?thesis using recorded_phase(1) [OF rec finish_start_grows [OF v]] by simp
  next
    case (cancelling w case_id key now i s')
    then show ?thesis using recorded_cancelling [OF rec] by simp
  next
    case (cancel_answered case_id key now r s')
    then show ?thesis using recorded_phase(2) [OF rec begin_cancellation_grows(1) [OF v]] by simp
  next
    case (cancelled w i key now failure r s')
    then show ?thesis using recorded_phase(1) [OF rec finish_cancellation_grows [OF v]] by simp
  next
    case (reconciled status key now r s' calls)
    then show ?thesis using recorded_phase(2) [OF rec reconcile_grows [OF v]] by simp
  next
    case (callback now cb r s')
    then show ?thesis using recorded_phase(2) [OF rec callback_effect_grows [OF v deliver_callback_effect]] by simp
  next
    case (configured case_id token language consent now j s')
    then show ?thesis using recorded_phase(2) [OF rec configure_grows [OF v]] by simp
  next
    case (stopped w)
    then show ?thesis using recorded_phase(3) [OF rec grows_to_refl] by simp
  next
    case (other s')
    then show ?thesis using recorded_phase(2) [OF rec assms(3)] by simp
  qed
qed

theorem calls_once:
  assumes "(voice_system_step svc repo elsewhere)\<^sup>*\<^sup>* (quiet_system s) y" and "valid s"
    and "\<And>s s'. elsewhere s s' \<Longrightarrow> grows_to keys claims valid s s'"
  shows "distinct (map vq_idempotency_key (vy_started y))" and "distinct (map fst (vy_cancelled y))"
proof -
  have "calls_recorded keys claims valid (quiet_system s)" using assms(2) by (simp add: calls_recorded_def quiet_system_def)
  with assms(1) have "calls_recorded keys claims valid y"
    by (induction rule: rtranclp_induct) (auto intro: recorded_step assms(3))
  then show "distinct (map vq_idempotency_key (vy_started y))" "distinct (map fst (vy_cancelled y))"
    by (simp_all add: calls_recorded_def)
qed

end

section \<open>Both repositories\<close>

definition all_keyed :: "'z VoiceAttempt_scheme list \<Rightarrow> bool" where
  "all_keyed rows \<longleftrightarrow> (\<forall>a \<in> set rows. keyed a)"

definition keys_of :: "'z VoiceAttempt_scheme list \<Rightarrow> string set" where
  "keys_of rows = va_idempotency_key ` set rows"

lemma keys_save_row:
  assumes "all_keyed rows" and "keyed a"
  shows "keys_of rows \<subseteq> keys_of (save_row va_id a rows)" and "all_keyed (save_row va_id a rows)"
proof -
  show "keys_of rows \<subseteq> keys_of (save_row va_id a rows)"
  proof
    fix k assume "k \<in> keys_of rows"
    then obtain b where b: "b \<in> set rows" "k = va_idempotency_key b" by (auto simp: keys_of_def)
    show "k \<in> keys_of (save_row va_id a rows)"
    proof (cases "va_id b = va_id a")
      case True
      with b assms have "k = va_idempotency_key a" by (auto simp: all_keyed_def keyed_def)
      with save_row_mem [of va_id b a rows, OF True b(1)] show ?thesis by (simp add: keys_of_def)
    next
      case False
      with mem_save_row [of va_id b a rows, OF _ b(1)] b(2) show ?thesis by (simp add: keys_of_def)
    qed
  qed
  show "all_keyed (save_row va_id a rows)"
    using assms by (auto simp: all_keyed_def dest: set_save_row)
qed

lemma keys_put_row:
  assumes "all_keyed rows" and "keyed a"
  shows "keys_of rows \<subseteq> keys_of (put_row va_id a rows)" and "all_keyed (put_row va_id a rows)"
    and "va_idempotency_key a \<in> keys_of (put_row va_id a rows)"
  using keys_save_row [OF assms] assms save_row_mem [of va_id _ a rows]
  by (auto simp: put_row_def keys_of_def all_keyed_def image_iff)

lemma find_idempotency_None: "find (\<lambda>a. va_idempotency_key a = k) rows = None \<longleftrightarrow> k \<notin> keys_of rows"
  by (auto simp: find_None_iff keys_of_def)

definition memory_keys :: "InMemoryVoiceRepository \<Rightarrow> string set" where
  "memory_keys s = keys_of (mv_attempts s)"
definition memory_claims :: "InMemoryVoiceRepository \<Rightarrow> string set" where
  "memory_claims s = fst ` set (mv_payment_cancellations s)"
definition memory_valid :: "InMemoryVoiceRepository \<Rightarrow> bool" where
  "memory_valid s \<longleftrightarrow> all_keyed (mv_attempts s)"

lemmas memory_ledger_defs = memory_keys_def memory_claims_def memory_valid_def

lemma memory_grows:
  assumes "memory_valid s" and "keyed a"
  shows "grows_to memory_keys memory_claims memory_valid s (s\<lparr>mv_attempts := put_row va_id a (mv_attempts s)\<rparr>)"
  using assms keys_put_row [of "mv_attempts s" a] by (simp add: grows_to_def memory_ledger_defs)

lemma memory_grows_same:
  "mv_attempts s' = mv_attempts s \<Longrightarrow> mv_payment_cancellations s' = mv_payment_cancellations s
    \<Longrightarrow> grows_to memory_keys memory_claims memory_valid s s'"
  by (simp add: grows_to_def memory_ledger_defs)

lemma memory_get_attempt_keyed: "memory_valid s \<Longrightarrow> memory_get_attempt i s = Some a \<Longrightarrow> keyed a"
  by (auto simp: memory_get_attempt_def memory_valid_def all_keyed_def dest: find_SomeD)

lemma memory_callback_grows:
  assumes "memory_valid s" and "memory_apply_callback p e i cs s = (out, s')"
  shows "grows_to memory_keys memory_claims memory_valid s s'"
proof (cases "(p, e) \<in> mv_receipts s")
  case True
  with assms(2) show ?thesis by (simp add: memory_apply_callback_def)
next
  case False
  define s1 where "s1 = s\<lparr>mv_receipts := insert (p, e) (mv_receipts s)\<rparr>"
  have g: "grows_to memory_keys memory_claims memory_valid s s1" by (simp add: s1_def memory_grows_same)
  show ?thesis
  proof (cases "memory_get_attempt i s1")
    case None
    with False assms(2) g show ?thesis by (simp add: memory_apply_callback_def s1_def Let_def)
  next
    case (Some a)
    have v: "memory_valid s1" using assms(1) g by (simp add: grows_to_def)
    from False Some assms(2) have s': "s' = s1\<lparr>mv_attempts := put_row va_id
        (fold set_change (admitted_changes (va_status a) cs) a) (mv_attempts s1)\<rparr>"
      by (simp add: memory_apply_callback_def s1_def Let_def)
    have "keyed (fold set_change (admitted_changes (va_status a) cs) a)"
      using memory_get_attempt_keyed [OF v Some] by (simp add: keyed_def)
    from grows_to_trans [OF g memory_grows [OF v this]] s' show ?thesis by simp
  qed
qed

lemma memory_claim:
  assumes "memory_valid s" and "memory_claim_payment_cancellation case_id key s = (c, s')"
  shows "grows_to memory_keys memory_claims memory_valid s s'"
    and "vcc_claimed c \<Longrightarrow> key \<notin> memory_claims s \<and> key \<in> memory_claims s'"
proof -
  show "grows_to memory_keys memory_claims memory_valid s s'"
  proof (cases "s' = s")
    case False
    with assms(2) obtain a where a: "find (\<lambda>a. va_case_id a = case_id \<and> is_active a) (newest_first (mv_attempts s)) = Some a"
      and s': "s' = s\<lparr>mv_attempts := put_row va_id (a\<lparr>va_status := ''CANCEL_PENDING'', va_disposition := Some ''PAYMENT_RECOVERED''\<rparr>)
          (mv_attempts s), mv_payment_cancellations := (key, va_id a) # mv_payment_cancellations s\<rparr>"
      by (auto simp: memory_claim_payment_cancellation_def Let_def split: option.splits)
    from find_SomeD [OF a] assms(1) have "keyed a" by (auto simp: memory_valid_def all_keyed_def newest_first_def)
    then have "keyed (a\<lparr>va_status := ''CANCEL_PENDING'', va_disposition := Some ''PAYMENT_RECOVERED''\<rparr>)" by (simp add: keyed_def)
    from memory_grows [OF assms(1) this] s' show ?thesis by (auto simp: grows_to_def memory_ledger_defs)
  qed simp
  show "key \<notin> memory_claims s \<and> key \<in> memory_claims s'" if "vcc_claimed c"
  proof -
    from that assms(2) have "map_of (mv_payment_cancellations s) key = None"
      "mv_payment_cancellations s' \<noteq> mv_payment_cancellations s \<longrightarrow> key \<in> memory_claims s'" "key \<in> memory_claims s'"
      by (auto simp: memory_claim_payment_cancellation_def Let_def memory_claims_def split: option.splits)
    then show ?thesis by (simp add: memory_claims_def map_of_eq_None_iff)
  qed
qed

interpretation memory: voice_ledger memory_repository memory_keys memory_claims memory_valid
proof
  fix s a c s' held b p e i cs out now reason case_id key cc confirmed code token language consent j
  show "memory_valid s \<Longrightarrow> keyed a \<Longrightarrow> vp_reserve_attempt memory_repository a s = Inr (c, s')
      \<Longrightarrow> grows_to memory_keys memory_claims memory_valid s s'"
    by (auto simp: memory_repository_def memory_reserve_attempt_def memory_save_attempt_def memory_grows split: option.splits)
  show "memory_valid s \<Longrightarrow> keyed a \<Longrightarrow> vp_reserve_attempt memory_repository a s = Inr (c, s') \<Longrightarrow> vrc_claimed c
      \<Longrightarrow> va_idempotency_key a \<notin> memory_keys s \<and> va_idempotency_key a \<in> memory_keys s'"
    by (auto simp: memory_repository_def memory_reserve_attempt_def memory_save_attempt_def memory_get_by_idempotency_def
        find_idempotency_None memory_keys_def memory_valid_def keys_put_row split: option.splits)
  show "memory_valid s \<Longrightarrow> keyed a \<Longrightarrow> va_idempotency_key a \<in> memory_keys s
      \<Longrightarrow> vp_save_attempt memory_repository held a s = Inr (b, s') \<Longrightarrow> grows_to memory_keys memory_claims memory_valid s s'"
    by (auto simp: memory_repository_def memory_save_attempt_def memory_grows)
  show "memory_valid s \<Longrightarrow> vp_apply_callback memory_repository p e i cs s = Inr (out, s')
      \<Longrightarrow> grows_to memory_keys memory_claims memory_valid s s'"
    by (simp add: memory_repository_def memory_callback_grows)
  show "memory_valid s \<Longrightarrow> grows_to memory_keys memory_claims memory_valid s (snd (vp_suppress memory_repository now a reason s))"
    by (auto simp: memory_repository_def memory_suppress_def Let_def intro!: memory_grows_same split: option.splits)
  show "memory_valid s \<Longrightarrow> vp_claim_payment_cancellation memory_repository case_id key now s = (cc, s')
      \<Longrightarrow> grows_to memory_keys memory_claims memory_valid s s'"
    by (simp add: memory_repository_def memory_claim)
  show "memory_valid s \<Longrightarrow> vp_claim_payment_cancellation memory_repository case_id key now s = (cc, s') \<Longrightarrow> vcc_claimed cc
      \<Longrightarrow> key \<notin> memory_claims s \<and> key \<in> memory_claims s'"
    using memory_claim(2) by (simp add: memory_repository_def)
  show "memory_valid s \<Longrightarrow> vp_finalize_payment_cancellation memory_repository i key confirmed now code s = Inr (b, s')
      \<Longrightarrow> grows_to memory_keys memory_claims memory_valid s s'"
    using memory_get_attempt_keyed [of s i]
    by (auto simp: memory_repository_def memory_finalize_payment_cancellation_def cancellation_observed_def keyed_def
        intro!: memory_grows split: if_splits option.splits)
  show "memory_valid s \<Longrightarrow> vp_configure_subject memory_repository case_id token language consent now s = Inr (j, s')
      \<Longrightarrow> grows_to memory_keys memory_claims memory_valid s s'"
    by (auto simp: memory_repository_def memory_configure_subject_def Let_def intro!: memory_grows_same split: option.splits)
qed

definition sql_keys :: "voice_database \<Rightarrow> string set" where
  "sql_keys s = keys_of (vd_attempts s)"
definition sql_claims :: "voice_database \<Rightarrow> string set" where
  "sql_claims s = wr_provider_event_id ` {r \<in> set (vd_receipts s). wr_provider r = PAYMENT_CANCELLATION_RECEIPT_PROVIDER}"
definition sql_valid :: "voice_database \<Rightarrow> bool" where
  "sql_valid s \<longleftrightarrow> all_keyed (vd_attempts s)"

lemmas sql_ledger_defs = sql_keys_def sql_claims_def sql_valid_def

lemma sql_grows:
  assumes "all_keyed (vd_attempts s) \<Longrightarrow> keys_of (vd_attempts s) \<subseteq> keys_of (vd_attempts s')"
    and "all_keyed (vd_attempts s) \<Longrightarrow> all_keyed (vd_attempts s')"
    and "set (vd_receipts s) \<subseteq> set (vd_receipts s')" and "sql_valid s"
  shows "grows_to sql_keys sql_claims sql_valid s s'"
  using assms by (auto simp: grows_to_def sql_ledger_defs)

lemma update_attempt_grows:
  assumes "update_attempt a rows = Inr rows'" and "all_keyed rows" and "keyed a"
  shows "keys_of rows \<subseteq> keys_of rows'" and "all_keyed rows'"
  using assms keys_save_row [of rows a] by (auto simp: update_attempt_def split: if_splits)

lemma insert_attempt_grows:
  assumes "insert_attempt a rows = Inr rows'" and "all_keyed rows" and "keyed a"
  shows "keys_of rows \<subseteq> keys_of rows'" and "all_keyed rows'"
  using assms by (auto simp: insert_attempt_def keys_of_def all_keyed_def split: if_splits)

lemma find_attempt_keyed: "sql_valid s \<Longrightarrow> find_attempt i s = Some r \<Longrightarrow> keyed r"
  by (auto simp: find_attempt_def sql_valid_def all_keyed_def dest: find_SomeD)

lemma write_columns_keys [simp]:
  "va_id (write_columns l a r) = va_id r" "va_idempotency_key (write_columns l a r) = va_idempotency_key r"
  by (simp_all add: write_columns_def)

lemma new_attempt_row_keys [simp]:
  "va_id (new_attempt_row a j t) = va_id a" "va_idempotency_key (new_attempt_row a j t) = va_idempotency_key a"
  by (simp_all add: new_attempt_row_def)

lemma sql_save_insert:
  assumes "sql_save_attempt held a s = Inr (b, s')" and "find_attempt (va_id a) s = None"
  obtains j t rows where "sql_load_subject (va_case_id a) s = Inr (Some j)" "vj_consent_verified_at j = Some t"
    "insert_attempt (new_attempt_row a j t) (vd_attempts s) = Inr rows" "s' = s\<lparr>vd_attempts := rows\<rparr>"
proof -
  from assms obtain x where x: "sql_load_subject (va_case_id a) s = Inr x"
    by (auto simp: sql_save_attempt_def bindE_eq_Inr)
  from assms x obtain j where j: "x = Some j" by (cases x) (auto simp: sql_save_attempt_def)
  from assms x j obtain t where "vj_consent_verified_at j = Some t"
    by (cases "vj_consent_verified_at j") (auto simp: sql_save_attempt_def)
  with assms x j that show ?thesis by (auto simp: sql_save_attempt_def bindE_eq_Inr)
qed

lemma sql_save_grows:
  assumes "sql_valid s" and "keyed a" and save: "sql_save_attempt held a s = Inr (b, s')"
  shows "grows_to sql_keys sql_claims sql_valid s s'"
proof (cases "find_attempt (va_id a) s")
  case None
  then obtain j t rows where "insert_attempt (new_attempt_row a j t) (vd_attempts s) = Inr rows" "s' = s\<lparr>vd_attempts := rows\<rparr>"
    using sql_save_insert [OF save] by metis
  moreover have "keyed (new_attempt_row a j t)" using assms(2) by (simp add: keyed_def)
  ultimately show ?thesis using assms(1) insert_attempt_grows by (intro sql_grows) auto
next
  case (Some r)
  then obtain rows l where "update_attempt (write_columns l a r) (vd_attempts s) = Inr rows" "s' = s\<lparr>vd_attempts := rows\<rparr>"
    using save by (auto simp: sql_save_attempt_def Let_def bindE_eq_Inr)
  moreover have "keyed (write_columns l a r)" using find_attempt_keyed [OF assms(1) Some] by (simp add: keyed_def)
  ultimately show ?thesis using assms(1) update_attempt_grows by (intro sql_grows) auto
qed

lemma sql_get_by_idempotency_None: "sql_get_by_idempotency k s = None \<longleftrightarrow> k \<notin> sql_keys s"
  by (simp add: sql_get_by_idempotency_def find_idempotency_None sql_keys_def)

lemma sql_reserve_claimed:
  assumes "sql_reserve_attempt (\<lambda>s. s) a s = Inr (c, s')" and "vrc_claimed c"
  shows "va_idempotency_key a \<notin> sql_keys s" and "sql_save_attempt None a s = Inr (vrc_attempt c, s')"
  using assms by (auto simp: sql_reserve_attempt_def sql_get_by_idempotency_None [symmetric] Let_def
      split: option.splits sum.splits prod.splits if_splits)

lemma sql_reserve:
  assumes "sql_valid s" and "keyed a" and res: "sql_reserve_attempt (\<lambda>s. s) a s = Inr (c, s')"
  shows "grows_to sql_keys sql_claims sql_valid s s'"
    and "vrc_claimed c \<Longrightarrow> va_idempotency_key a \<notin> sql_keys s \<and> va_idempotency_key a \<in> sql_keys s'"
proof -
  show "grows_to sql_keys sql_claims sql_valid s s'"
  proof (cases "vrc_claimed c")
    case True
    from sql_save_grows [OF assms(1,2) sql_reserve_claimed(2) [OF res True]] show ?thesis .
  next
    case False
    with res have "s' = s"
      by (auto simp: sql_reserve_attempt_def Let_def split: option.splits sum.splits prod.splits if_splits)
    then show ?thesis by simp
  qed
  show "va_idempotency_key a \<notin> sql_keys s \<and> va_idempotency_key a \<in> sql_keys s'" if cl: "vrc_claimed c"
  proof -
    note r = sql_reserve_claimed [OF res cl]
    have "find_attempt (va_id a) s = None"
      using r(1) assms(1,2) by (force simp: find_attempt_def find_None_iff sql_keys_def keys_of_def sql_valid_def all_keyed_def keyed_def)
    then obtain j t rows where "insert_attempt (new_attempt_row a j t) (vd_attempts s) = Inr rows" "s' = s\<lparr>vd_attempts := rows\<rparr>"
      using sql_save_insert [OF r(2)] by metis
    then show ?thesis using r(1) by (auto simp: insert_attempt_def sql_keys_def keys_of_def split: if_splits)
  qed
qed

lemma sql_callback_applied:
  assumes "sql_apply_callback p e i cs s = Inr (out, s')" and "s' \<noteq> s"
  obtains r rows where "find_attempt i s = Some r"
    "update_attempt (fold set_change (admitted_changes (va_status r) cs) r) (vd_attempts s) = Inr rows"
    "s' = s\<lparr>vd_attempts := rows, vd_receipts := vd_receipts s @ [\<lparr>wr_provider = p, wr_provider_event_id = e, wr_attempt_id = Some i\<rparr>]\<rparr>"
    "\<forall>b \<in> set (vd_receipts s). \<not> receipt_clash \<lparr>wr_provider = p, wr_provider_event_id = e, wr_attempt_id = Some i\<rparr> b"
    "fst out = Some (to_attempt (fold set_change (admitted_changes (va_status r) cs) r))" "\<not> snd out"
  using assms by (auto simp: sql_apply_callback_def Let_def bindE_eq_Inr split: if_splits)

lemma sql_callback_grows:
  assumes "sql_valid s" and call: "sql_apply_callback p e i cs s = Inr (out, s')"
  shows "grows_to sql_keys sql_claims sql_valid s s'"
proof (cases "s' = s")
  case False
  obtain r rows where r: "find_attempt i s = Some r"
    "update_attempt (fold set_change (admitted_changes (va_status r) cs) r) (vd_attempts s) = Inr rows"
    "s' = s\<lparr>vd_attempts := rows, vd_receipts := vd_receipts s @ [\<lparr>wr_provider = p, wr_provider_event_id = e, wr_attempt_id = Some i\<rparr>]\<rparr>"
    using sql_callback_applied [OF call False] by metis
  have "keyed (fold set_change (admitted_changes (va_status r) cs) r)" using find_attempt_keyed [OF assms(1) r(1)] by (simp add: keyed_def)
  with r assms(1) update_attempt_grows show ?thesis by (intro sql_grows) auto
qed simp

lemma sql_claim:
  assumes "sql_valid s" and "sql_claim_payment_cancellation (\<lambda>s. s) case_id key now s = (c, s')"
  shows "grows_to sql_keys sql_claims sql_valid s s'"
    and "vcc_claimed c \<Longrightarrow> key \<notin> sql_claims s \<and> key \<in> sql_claims s'"
proof -
  consider "s' = s" "\<not> vcc_claimed c"
    | r x where "payment_cancellation_receipt key s = None"
      "last_by (\<lambda>r. (va_created_at r, va_id r)) (filter (\<lambda>r. va_case_id r = case_id \<and> is_active r) (vd_attempts s)) = Some r"
      "s' = s\<lparr>vd_attempts := save_row va_id (r\<lparr>va_status := ''CANCEL_PENDING'', va_disposition := Some ''PAYMENT_RECOVERED'',
          vt_payment_cancellation := Some x\<rparr>) (vd_attempts s),
        vd_receipts := vd_receipts s @ [\<lparr>wr_provider = PAYMENT_CANCELLATION_RECEIPT_PROVIDER, wr_provider_event_id = key,
          wr_attempt_id = Some (va_id r)\<rparr>]\<rparr>"
    using assms(2) by (auto simp: sql_claim_payment_cancellation_def Let_def split: option.splits)
  then have "grows_to sql_keys sql_claims sql_valid s s' \<and> (vcc_claimed c \<longrightarrow> key \<notin> sql_claims s \<and> key \<in> sql_claims s')"
  proof cases
    case (2 r x)
    from last_by_mem [OF 2(2)] assms(1) have "keyed r" by (auto simp: sql_valid_def all_keyed_def)
    then have "keyed (r\<lparr>va_status := ''CANCEL_PENDING'', va_disposition := Some ''PAYMENT_RECOVERED'', vt_payment_cancellation := Some x\<rparr>)"
      by (simp add: keyed_def)
    then have "grows_to sql_keys sql_claims sql_valid s s'"
      using 2(3) assms(1) keys_save_row by (intro sql_grows) auto
    moreover have "key \<notin> sql_claims s" using 2(1) by (auto simp: payment_cancellation_receipt_def sql_claims_def find_None_iff)
    moreover have "key \<in> sql_claims s'" unfolding sql_claims_def using 2(3)
      by (intro rev_image_eqI [of "\<lparr>wr_provider = PAYMENT_CANCELLATION_RECEIPT_PROVIDER, wr_provider_event_id = key,
          wr_attempt_id = Some (va_id r)\<rparr>"]) simp_all
    ultimately show ?thesis by simp
  qed simp
  then show "grows_to sql_keys sql_claims sql_valid s s'"
    and "vcc_claimed c \<Longrightarrow> key \<notin> sql_claims s \<and> key \<in> sql_claims s'" by simp_all
qed

lemma sql_finalize_grows:
  assumes "sql_valid s" and fin: "sql_finalize_payment_cancellation i key confirmed now code s = Inr (b, s')"
  shows "grows_to sql_keys sql_claims sql_valid s s'"
proof -
  from fin obtain r where r: "find_attempt i s = Some r"
    by (auto simp: sql_finalize_payment_cancellation_def split: option.splits)
  with fin obtain row rows where row: "update_attempt row (vd_attempts s) = Inr rows" "s' = s\<lparr>vd_attempts := rows\<rparr>"
    "va_id row = va_id r" "va_idempotency_key row = va_idempotency_key r"
    by (auto simp: sql_finalize_payment_cancellation_def Let_def bindE_eq_Inr cancellation_observed_def
        split: option.splits if_splits)
  then have "keyed row" using find_attempt_keyed [OF assms(1) r] by (simp add: keyed_def)
  with row assms(1) update_attempt_grows show ?thesis by (intro sql_grows) auto
qed

interpretation sql: voice_ledger sql_repository sql_keys sql_claims sql_valid
proof
  fix s a c s' held b p e i cs out now reason case_id key cc confirmed code token language consent j
  show "sql_valid s \<Longrightarrow> keyed a \<Longrightarrow> vp_reserve_attempt sql_repository a s = Inr (c, s')
      \<Longrightarrow> grows_to sql_keys sql_claims sql_valid s s'"
    using sql_reserve(1) by (simp add: sql_repository_def)
  show "sql_valid s \<Longrightarrow> keyed a \<Longrightarrow> vp_reserve_attempt sql_repository a s = Inr (c, s') \<Longrightarrow> vrc_claimed c
      \<Longrightarrow> va_idempotency_key a \<notin> sql_keys s \<and> va_idempotency_key a \<in> sql_keys s'"
    using sql_reserve(2) by (simp add: sql_repository_def)
  show "sql_valid s \<Longrightarrow> keyed a \<Longrightarrow> va_idempotency_key a \<in> sql_keys s
      \<Longrightarrow> vp_save_attempt sql_repository held a s = Inr (b, s') \<Longrightarrow> grows_to sql_keys sql_claims sql_valid s s'"
    using sql_save_grows by (simp add: sql_repository_def)
  show "sql_valid s \<Longrightarrow> vp_apply_callback sql_repository p e i cs s = Inr (out, s')
      \<Longrightarrow> grows_to sql_keys sql_claims sql_valid s s'"
    using sql_callback_grows by (simp add: sql_repository_def)
  show "sql_valid s \<Longrightarrow> grows_to sql_keys sql_claims sql_valid s (snd (vp_suppress sql_repository now a reason s))"
    by (auto simp: sql_repository_def sql_suppress_def Let_def intro!: sql_grows)
  show "sql_valid s \<Longrightarrow> vp_claim_payment_cancellation sql_repository case_id key now s = (cc, s')
      \<Longrightarrow> grows_to sql_keys sql_claims sql_valid s s'"
    using sql_claim(1) by (simp add: sql_repository_def)
  show "sql_valid s \<Longrightarrow> vp_claim_payment_cancellation sql_repository case_id key now s = (cc, s') \<Longrightarrow> vcc_claimed cc
      \<Longrightarrow> key \<notin> sql_claims s \<and> key \<in> sql_claims s'"
    using sql_claim(2) by (simp add: sql_repository_def)
  show "sql_valid s \<Longrightarrow> vp_finalize_payment_cancellation sql_repository i key confirmed now code s = Inr (b, s')
      \<Longrightarrow> grows_to sql_keys sql_claims sql_valid s s'"
    using sql_finalize_grows by (simp add: sql_repository_def)
  show "sql_valid s \<Longrightarrow> vp_configure_subject sql_repository case_id token language consent now s = Inr (j, s')
      \<Longrightarrow> grows_to sql_keys sql_claims sql_valid s s'"
    by (auto simp: sql_repository_def sql_configure_subject_def Let_def bindE_eq_Inr intro!: sql_grows split: list.splits)
qed

section \<open>The subject of a call\<close>

lemma start_call_permitted:
  assumes "start_contact svc repo held provider cmd now s = (r, s', calls)" and "Start_Call q \<in> set calls"
  obtains j where "call_permitted svc repo cmd j now s" "q = contact_request cmd j" "valid_contact_request q"
proof -
  from assms obtain j a s1 where chk: "check_start svc repo cmd now s = Inr (Inr (j, a))"
    and res: "reserve_start repo cmd j a s = Inr (Call_Provider q, s1)"
    by (auto simp: start_contact_def split: sum.splits prod.splits reservation.splits)
  from res have "q = contact_request cmd j" "valid_contact_request q"
    by (auto simp: reserve_start_def bindE_eq_Inr split: prod.splits if_splits)
  moreover have "call_permitted svc repo cmd j now s" using chk by (simp add: check_start_permitted)
  ultimately show ?thesis using that by blast
qed

lemma sql_subject:
  assumes "sql_load_subject case_id s = Inr (Some j)"
  obtains c u m where "subject_rows (vd_core s) case_id = [(c, u, m)]" "vj_customer_id j = cu_id u"
    "vj_consent_verified_at j = cu_voice_consent_at u" "vj_opted_out_at j = cu_opted_out_at u" "vj_timezone j = mr_timezone m"
    "vj_destination_token j = (case cu_phone_token u of None \<Rightarrow> [] | Some t \<Rightarrow> t)"
    "vj_kill_switch j = (case find (\<lambda>g. st_merchant_id g = mr_id m) (db_settings (vd_core s)) of
       None \<Rightarrow> False | Some g \<Rightarrow> st_recovery_kill_switch g)"
proof -
  from assms obtain c u m where "subject_rows (vd_core s) case_id = [(c, u, m)]"
    by (auto simp: sql_load_subject_def split: list.splits)
  with assms that show ?thesis by (auto simp: sql_load_subject_def bindE_eq_Inr Let_def)
qed

section \<open>Properties\<close>

text \<open>What other components do to the state: they leave the tables of the voice module alone.\<close>

definition voice_tables_kept :: "voice_database \<Rightarrow> voice_database \<Rightarrow> bool" where
  "voice_tables_kept s s' \<longleftrightarrow> vd_attempts s' = vd_attempts s \<and> vd_receipts s' = vd_receipts s
     \<and> vd_suppressions s' = vd_suppressions s"

text \<open>
  C6: calls and cancellations are submitted once. However starts, cancellations, callbacks and changes of
  the other tables interleave, and wherever requests stop, the provider is asked at most once per
  idempotency key to start a call and at most once per cancellation key to cancel one, with the
  database and with the in-memory repository, if the reads and the write of a reservation are one step.
\<close>

theorem calls_submitted_once:
  assumes "(voice_system_step svc sql_repository voice_tables_kept)\<^sup>*\<^sup>* (quiet_system db) y" and "sql_valid db"
    and "(voice_system_step svc' memory_repository (\<lambda>s s'. s' = s))\<^sup>*\<^sup>* (quiet_system m) z" and "memory_valid m"
  shows "distinct (map vq_idempotency_key (vy_started y)) \<and> distinct (map fst (vy_cancelled y))
    \<and> distinct (map vq_idempotency_key (vy_started z)) \<and> distinct (map fst (vy_cancelled z))"
proof -
  have kept: "grows_to sql_keys sql_claims sql_valid s s'" if "voice_tables_kept s s'" for s s'
    using that by (simp add: voice_tables_kept_def grows_to_def sql_ledger_defs)
  have same: "grows_to memory_keys memory_claims memory_valid s s'" if "s' = s" for s s'
    using that by simp
  show ?thesis
    using sql.calls_once [OF assms(1,2) kept] memory.calls_once [OF assms(3,4) same] by simp
qed

text \<open>
  C23: a call needs consent. \<open>start\<close> places a call only if real calls are enabled, the operator is
  authorised, and the database says that the customer of the case has given consent, has not opted
  out and has an allow-listed number, that the merchant's kill switch is off, that no call is
  active and fewer than ten were placed on the day, and that the merchant's clock is outside the
  quiet hours; the call is at most 180 seconds long, and its key is reserved for the first time.
\<close>

theorem call_needs_consent:
  assumes "start_contact svc sql_repository held provider cmd now s = (r, s', calls)" and "Start_Call q \<in> set calls"
  shows "\<exists>c u m tz. (c, u, m) \<in> set (subject_rows (vd_core s) (sc_case_id cmd))
    \<and> cu_voice_consent_at u = Some (vq_consent_verified_at q) \<and> cu_opted_out_at u = None \<and> vq_customer_id q = cu_id u
    \<and> (case cu_phone_token u of None \<Rightarrow> [] | Some t \<Rightarrow> t) = vq_destination_token q
    \<and> vq_destination_token q \<in> sv_allowlisted_destinations svc
    \<and> sv_real_calls_enabled svc \<and> operator_authorized svc cmd
    \<and> (\<forall>g. find (\<lambda>g. st_merchant_id g = mr_id m) (db_settings (vd_core s)) = Some g \<longrightarrow> \<not> st_recovery_kill_switch g)
    \<and> sql_active_count s = 0 \<and> sql_calls_today now s < 10
    \<and> 0 < vq_max_duration_seconds q \<and> vq_max_duration_seconds q \<le> 180
    \<and> sv_zones svc (mr_timezone m) = Some tz
    \<and> (\<forall>j start stop. sql_load_subject (sc_case_id cmd) s = Inr (Some j) \<and> vj_quiet_hours_start j = Some start
         \<and> vj_quiet_hours_end j = Some stop \<longrightarrow> \<not> inside_quiet_hours ((now + tz_offset_at tz now) mod days 1) start stop)
    \<and> sc_idempotency_key cmd \<notin> sql_keys s"
proof -
  obtain j where ok: "call_permitted svc sql_repository cmd j now s" and q: "q = contact_request cmd j" "valid_contact_request q"
    using start_call_permitted [OF assms] by blast
  then have j: "sql_load_subject (sc_case_id cmd) s = Inr (Some j)" and key: "sc_idempotency_key cmd \<notin> sql_keys s"
    by (simp_all add: call_permitted_def sql_repository_def sql_get_by_idempotency_None)
  obtain c u m where rows: "subject_rows (vd_core s) (sc_case_id cmd) = [(c, u, m)]" and sel: "vj_customer_id j = cu_id u"
    "vj_consent_verified_at j = cu_voice_consent_at u" "vj_opted_out_at j = cu_opted_out_at u" "vj_timezone j = mr_timezone m"
    "vj_destination_token j = (case cu_phone_token u of None \<Rightarrow> [] | Some t \<Rightarrow> t)"
    "vj_kill_switch j = (case find (\<lambda>g. st_merchant_id g = mr_id m) (db_settings (vd_core s)) of
       None \<Rightarrow> False | Some g \<Rightarrow> st_recovery_kill_switch g)"
    using sql_subject [OF j] by blast
  from ok obtain tz where tz: "sv_zones svc (mr_timezone m) = Some tz"
    "\<forall>start stop. vj_quiet_hours_start j = Some start \<and> vj_quiet_hours_end j = Some stop
       \<longrightarrow> \<not> inside_quiet_hours ((now + tz_offset_at tz now) mod days 1) start stop"
    unfolding call_permitted_def sel by blast
  have "(c, u, m) \<in> set (subject_rows (vd_core s) (sc_case_id cmd))" by (simp add: rows)
  moreover have "cu_voice_consent_at u = Some (vq_consent_verified_at q)"
    using ok sel q(1) by (auto simp: call_permitted_def contact_request_def)
  moreover have "cu_opted_out_at u = None" "sv_real_calls_enabled svc" "operator_authorized svc cmd"
    "vq_destination_token q \<in> sv_allowlisted_destinations svc" "vq_customer_id q = cu_id u"
    "(case cu_phone_token u of None \<Rightarrow> [] | Some t \<Rightarrow> t) = vq_destination_token q"
    using ok sel q(1) by (auto simp: call_permitted_def contact_request_def)
  moreover have "\<forall>g. find (\<lambda>g. st_merchant_id g = mr_id m) (db_settings (vd_core s)) = Some g \<longrightarrow> \<not> st_recovery_kill_switch g"
    using ok sel by (auto simp: call_permitted_def)
  moreover have "sql_active_count s = 0" "sql_calls_today now s < 10"
    using ok by (simp_all add: call_permitted_def sql_repository_def)
  moreover have "0 < vq_max_duration_seconds q" "vq_max_duration_seconds q \<le> 180"
    using q(2) by (simp_all add: valid_contact_request_def)
  ultimately show ?thesis using tz j key by auto
qed

subsection \<open>Callbacks\<close>

lemma find_saved_attempt:
  "find (\<lambda>r. va_id r = i) (save_row va_id a rows) =
     (if i = va_id a then map_option (\<lambda>_. a) (find (\<lambda>r. va_id r = i) rows) else find (\<lambda>r. va_id r = i) rows)"
  by (induction rows) (auto simp: save_row_def table_simps)

lemma stored_status_fixed:
  assumes "s \<in> VOICE_TERMINAL_STATUSES \<union> snd ` set VOICE_STATUS_ALIASES"
  shows "py_upper (py_strip s) = s"
  using assms unfolding VOICE_TERMINAL_STATUSES_def VOICE_STATUS_ALIASES_def
  by (elim UnE insertE) (auto simp: py_upper_def py_strip_def py_space_def upper_char_def)

lemma terminal_is_final:
  assumes "current \<in> VOICE_TERMINAL_STATUSES" and "s \<in> snd ` set VOICE_STATUS_ALIASES"
    and "can_advance_voice_status current s"
  shows "s = current"
  using assms stored_status_fixed [of current] stored_status_fixed [of s]
  by (auto simp: can_advance_voice_status_def Let_def split: if_splits)

text \<open>
  The course of a call: reserved, submitted, ringing, in progress, ended. A call whose cancellation was requested
  counts as ended.
\<close>

definition call_stage :: "string \<Rightarrow> nat" where
  "call_stage s =
     (if s = ''SUBMITTED'' then 1 else if s = ''RINGING'' then 2 else if s = ''IN_PROGRESS'' then 3
      else if s \<in> {''BUSY'', ''CANCELED'', ''COMPLETED'', ''FAILED'', ''NO_ANSWER'', ''REJECTED'',
        ''CANCEL_PENDING'', ''CANCEL_UNCERTAIN''} then 4 else 0)"

definition moves_on :: "string \<Rightarrow> string \<Rightarrow> bool" where
  "moves_on st st' \<longleftrightarrow> call_stage st \<le> call_stage st' \<and> (call_stage st = 4 \<longrightarrow> st' = st)"

lemma moves_on_refl [simp]: "moves_on st st"
  by (simp add: moves_on_def)

lemma call_stage_known: "call_stage s \<noteq> 0 \<Longrightarrow> s \<in> VOICE_TERMINAL_STATUSES \<union> snd ` set VOICE_STATUS_ALIASES"
  by (auto simp: call_stage_def VOICE_TERMINAL_STATUSES_def VOICE_STATUS_ALIASES_def split: if_splits)

lemma advance_moves_on:
  assumes "can_advance_voice_status st s" and "s \<in> snd ` set VOICE_STATUS_ALIASES"
  shows "moves_on st s"
proof (cases "call_stage st = 0")
  case True
  then show ?thesis by (simp add: moves_on_def)
next
  case False
  have fixed: "py_upper (py_strip st) = st" "py_upper (py_strip s) = s"
    using stored_status_fixed call_stage_known [OF False] assms(2) by blast+
  consider "st \<in> VOICE_TERMINAL_STATUSES" | "st \<notin> VOICE_TERMINAL_STATUSES" "st \<in> {''SUBMITTED'', ''RINGING'', ''IN_PROGRESS''}"
    using False by (auto simp: call_stage_def VOICE_TERMINAL_STATUSES_def split: if_splits)
  then show ?thesis
  proof cases
    case 1
    then have "s = st" using terminal_is_final assms by blast
    then show ?thesis by simp
  next
    case 2
    show ?thesis
    proof (cases "s \<in> VOICE_TERMINAL_STATUSES")
      case True
      then have "call_stage s = 4" by (auto simp: call_stage_def VOICE_TERMINAL_STATUSES_def)
      moreover have "call_stage st \<le> 3" using 2(2) by (auto simp: call_stage_def)
      ultimately show ?thesis by (simp add: moves_on_def)
    next
      case False
      then have s: "s \<in> {''SUBMITTED'', ''RINGING'', ''IN_PROGRESS''}"
        using assms(2) by (auto simp: VOICE_STATUS_ALIASES_def VOICE_TERMINAL_STATUSES_def)
      have "VOICE_STATUS_RANK st \<le> VOICE_STATUS_RANK s"
        using assms(1) 2(1) False unfolding can_advance_voice_status_def Let_def fixed by (simp split: if_splits)
      with s 2(2) show ?thesis by (elim insertE) (simp_all add: moves_on_def call_stage_def VOICE_STATUS_RANK_def)
    qed
  qed
qed

lemma callback_moves_on:
  assumes "well_formed_changes cs"
  shows "moves_on (va_status a) (va_status (fold set_change (admitted_changes (va_status a) cs) a))"
  using admitted_status [of cs a] assms advance_moves_on by (auto simp: well_formed_changes_def)

lemma vd_suppress_tables:
  "vd_attempts (snd (sql_suppress now a reason s)) = vd_attempts s"
  "vd_receipts (snd (sql_suppress now a reason s)) = vd_receipts s"
  by (simp_all add: sql_suppress_def Let_def)

text \<open>A callback that is delivered again is recognised by its receipt.\<close>

lemma sql_callback_replayed:
  assumes call: "sql_apply_callback p e i cs s = Inr (out, s1)"
    and same: "vd_attempts s' = vd_attempts s1" "vd_receipts s' = vd_receipts s1"
  shows "\<exists>x. sql_apply_callback p e i cs s' = Inr ((x, True), s')"
proof -
  let ?r = "\<lparr>wr_provider = p, wr_provider_event_id = e, wr_attempt_id = Some i\<rparr>"
  have ser: "list_all json_serializable cs" using call by (auto simp: sql_apply_callback_def Let_def split: if_splits)
  have "(find_attempt i s = None \<or> (\<exists>b \<in> set (vd_receipts s). receipt_clash ?r b)) \<and> s1 = s
      \<or> (\<exists>rows. s1 = s\<lparr>vd_attempts := rows, vd_receipts := vd_receipts s @ [?r]\<rparr>)"
    using call by (auto simp: sql_apply_callback_def Let_def bindE_eq_Inr split: if_splits)
  then have "find_attempt i s' = None \<or> (\<exists>b \<in> set (vd_receipts s'). receipt_clash ?r b)"
    using same by (auto simp: find_attempt_def receipt_clash_def)
  with ser show ?thesis by (auto simp: sql_apply_callback_def Let_def)
qed

lemma opt_out_effect_replayed [simp]: "opt_out_effect repo now x v True s = (False, s, [])"
  by (simp add: opt_out_effect_def split: option.splits)

lemma sql_repository_ops [simp]:
  "vp_apply_callback sql_repository = sql_apply_callback" "vp_suppress sql_repository = sql_suppress"
  "vp_rolls_back sql_repository" "vp_save_attempt sql_repository = sql_save_attempt"
  "vp_reserve_attempt sql_repository = sql_reserve_attempt (\<lambda>s. s)"
  by (simp_all add: sql_repository_def)

text \<open>
  What the callbacks rely on, of either repository: a callback moves a call on, its receipt makes it a duplicate when it comes
  again, and an opt-out leaves attempts and receipts alone.
\<close>

locale callback_log =
  fixes repo :: "'s VoiceRepository" and status_of :: "ident \<Rightarrow> 's \<Rightarrow> string option" and kept :: "'s \<Rightarrow> 's \<Rightarrow> bool"
  assumes callback_moves: "vp_apply_callback repo p e i cs s = Inr (out, s') \<Longrightarrow> well_formed_changes cs
      \<Longrightarrow> status_of k s = Some st \<Longrightarrow> \<exists>st'. status_of k s' = Some st' \<and> moves_on st st'"
    and callback_replayed: "vp_apply_callback repo p e i cs s = Inr (out, s1) \<Longrightarrow> kept s1 s'
      \<Longrightarrow> \<exists>x. vp_apply_callback repo p e i cs s' = Inr ((x, True), s')"
    and suppress_kept: "kept s (snd (vp_suppress repo now a reason s))"
    and kept_refl: "kept s s"
    and kept_status: "kept s s' \<Longrightarrow> status_of k s' = status_of k s"
begin

lemma opt_out_kept: "kept s (fst (snd (opt_out_effect repo now x v d s)))"
  using suppress_kept kept_refl
  by (auto simp: opt_out_effect_def split: option.splits prod.splits) (metis snd_conv)

lemma delivered_moves:
  assumes "deliver_callback repo now cb s = (r, s')" and "status_of k s = Some st"
  shows "\<exists>st'. status_of k s' = Some st' \<and> moves_on st st'"
proof -
  have "callback_effect_of repo now s s'" using deliver_callback_effect [OF assms(1)] .
  then consider "s' = s"
    | p e i cs out s1 where "well_formed_changes cs" "vp_apply_callback repo p e i cs s = Inr (out, s1)" "kept s1 s'"
    unfolding callback_effect_of_def using suppress_kept kept_refl by blast
  then show ?thesis
  proof cases
    case 2
    from callback_moves [OF 2(2,1) assms(2)] kept_status [OF 2(3)] show ?thesis by simp
  qed (simp add: assms(2))
qed

lemma live_intent_replayed:
  assumes "apply_live_intent repo now e i intent confidence s = Inr (x, s', calls)"
  shows "\<exists>v ends fresh. apply_live_intent repo now' e i intent confidence s' = Inr ((v, ends, fresh, True), s', [])"
proof -
  obtain v where v: "intent_of_value (py_upper (py_strip intent)) = Some v"
    using assms by (auto simp: apply_live_intent_def split: option.splits)
  define cs where "cs = [Set_detected_intent (intent_value v), Set_disposition (intent_value v)]
    @ (case confidence of None \<Rightarrow> [] | Some n \<Rightarrow> [Set_confidence (Some (clamp_confidence n))])"
  from assms v obtain y where y: "vp_apply_callback repo ''elevenlabs-tool'' e i cs s = Inr y"
    by (cases "vp_apply_callback repo ''elevenlabs-tool'' e i cs s") (auto simp: apply_live_intent_def cs_def)
  obtain a d1 s1 where yd: "y = ((a, d1), s1)" by (metis prod.exhaust)
  have "s' = fst (snd (opt_out_effect repo now a v d1 s1))"
    using assms v y yd by (simp add: apply_live_intent_def cs_def split: prod.splits)
  then have "kept s1 s'" by (simp add: opt_out_kept)
  from callback_replayed [OF y [unfolded yd] this] v show ?thesis by (auto simp: apply_live_intent_def cs_def)
qed

lemma transcript_replayed:
  assumes "apply_transcript repo now ends i transcript confidence e s = (Inr x, s', calls)"
  shows "\<exists>v safe. apply_transcript repo now' ends i transcript confidence e s' = (Inr (v, safe, False), s', [])"
proof -
  define v where "v = detect_voice_intent transcript"
  define cs where "cs = [Set_transcript transcript, Set_detected_intent (intent_value v),
    Set_confidence (Some confidence), Set_disposition (intent_value v)]"
  from assms obtain y where y: "vp_apply_callback repo ''browser'' e i cs s = Inr y"
    by (cases "vp_apply_callback repo ''browser'' e i cs s") (auto simp: apply_transcript_def v_def cs_def Let_def)
  obtain a d1 s1 where yd: "y = ((a, d1), s1)" by (metis prod.exhaust)
  have "s' = fst (snd (opt_out_effect repo now a v d1 s1))"
    using assms y yd by (auto simp: apply_transcript_def v_def [symmetric] cs_def Let_def split: prod.splits if_splits)
  then have "kept s1 s'" by (simp add: opt_out_kept)
  from callback_replayed [OF y [unfolded yd] this] show ?thesis
    by (auto simp: apply_transcript_def v_def cs_def Let_def)
qed

lemma post_call_replayed:
  assumes "apply_elevenlabs_post_call repo now p s = Inr (d, s')"
  shows "apply_elevenlabs_post_call repo now' p s' = Inr (True, s')"
proof -
  from assms obtain analyzed where an: "analyzed_intent (pl_provider_intent p) = Inr analyzed"
    by (auto simp: apply_elevenlabs_post_call_def bindE_eq_Inr)
  define cs where "cs = post_call_changes p analyzed (post_call_intent analyzed (pl_intent_transcript p))"
  from assms an obtain out s1 where
    call: "vp_apply_callback repo ''elevenlabs'' (pl_event_id p) (pl_attempt_id p) cs s = Inr (out, s1)"
    and s': "s' = s1 \<or> (\<exists>a. fst out = Some a \<and> s' = snd (vp_suppress repo now a ''VOICE_OPT_OUT'' s1))"
    by (auto simp: apply_elevenlabs_post_call_def cs_def Let_def bindE_eq_Inr split: prod.splits option.splits if_splits)
  from s' have "kept s1 s'" using suppress_kept kept_refl by auto
  from callback_replayed [OF call this] an show ?thesis
    by (auto simp: apply_elevenlabs_post_call_def cs_def Let_def split: option.splits)
qed

lemma delivered_again:
  assumes "deliver_callback repo now cb s = (Inr d, s')"
  shows "deliver_callback repo now' cb s' = (Inr True, s')"
proof (cases cb)
  case (Twilio_Status e i status duration call_id)
  with assms obtain st out where st: "normalize_voice_status status = Inr st"
    and call: "vp_apply_callback repo ''twilio'' e i
         (Set_status st # (case duration of None \<Rightarrow> [] | Some d \<Rightarrow> [Set_duration (clamp_duration d)])
         @ (if st \<in> VOICE_TERMINAL_STATUSES then [Set_disposition st] else [])
         @ (if truthy call_id then [Set_provider_call_id (the call_id)] else [])) s = Inr (out, s')"
    by (auto simp: apply_twilio_status_def bindE_eq_Inr split: prod.splits sum.splits)
  from callback_replayed [OF call kept_refl] Twilio_Status st show ?thesis by (auto simp: apply_twilio_status_def)
next
  case (Live_Intent e i intent confidence)
  with assms obtain x calls where "apply_live_intent repo now e i intent confidence s = Inr (x, s', calls)"
    by (auto split: sum.splits prod.splits)
  from live_intent_replayed [OF this, of now'] Live_Intent show ?thesis by auto
next
  case (Browser_Transcript ends i transcript confidence e)
  with assms obtain x calls where "apply_transcript repo now ends i transcript confidence e s = (Inr x, s', calls)"
    by (auto split: sum.splits prod.splits)
  from transcript_replayed [OF this, of now'] Browser_Transcript show ?thesis by auto
next
  case (Post_Call p)
  with assms have "apply_elevenlabs_post_call repo now p s = Inr (d, s')" by (auto split: sum.splits prod.splits)
  from post_call_replayed [OF this, of now'] Post_Call show ?thesis by simp
qed

end

interpretation sql_log: callback_log sql_repository "\<lambda>i s. map_option va_status (find_attempt i s)"
  "\<lambda>s s'. vd_attempts s' = vd_attempts s \<and> vd_receipts s' = vd_receipts s"
proof unfold_locales
  fix p e i cs s out s' k st
  assume call: "vp_apply_callback sql_repository p e i cs s = Inr (out, s')" and wf: "well_formed_changes cs"
    and st: "map_option va_status (find_attempt k s) = Some st"
  show "\<exists>st'. map_option va_status (find_attempt k s') = Some st' \<and> moves_on st st'"
  proof (cases "s' = s")
    case False
    obtain r rows where r: "find_attempt i s = Some r"
      "update_attempt (fold set_change (admitted_changes (va_status r) cs) r) (vd_attempts s) = Inr rows"
      "s' = s\<lparr>vd_attempts := rows, vd_receipts := vd_receipts s @ [\<lparr>wr_provider = p, wr_provider_event_id = e, wr_attempt_id = Some i\<rparr>]\<rparr>"
      using sql_callback_applied [of p e i cs s out s'] call False by (metis sql_repository_ops(1))
    have rows: "rows = save_row va_id (fold set_change (admitted_changes (va_status r) cs) r) (vd_attempts s)"
      using r(2) by (simp add: update_attempt_def split: if_splits)
    have id: "va_id r = i" using r(1) by (auto simp: find_attempt_def dest: find_SomeD)
    show ?thesis using st r(1,3) rows id callback_moves_on [OF wf, of r]
      by (cases "k = i") (auto simp: find_attempt_def find_saved_attempt)
  qed (use st in auto)
next
  fix p e i cs s out s1 and s' :: voice_database
  assume "vp_apply_callback sql_repository p e i cs s = Inr (out, s1)"
    "vd_attempts s' = vd_attempts s1 \<and> vd_receipts s' = vd_receipts s1"
  then show "\<exists>x. vp_apply_callback sql_repository p e i cs s' = Inr ((x, True), s')"
    using sql_callback_replayed [of p e i cs s out s1 s'] by simp
qed (simp_all add: vd_suppress_tables find_attempt_def)

lemma memory_repository_ops [simp]:
  "vp_apply_callback memory_repository p e i cs s = Inr (memory_apply_callback p e i cs s)"
  "vp_suppress memory_repository now a reason s = memory_suppress now a s"
  by (simp_all add: memory_repository_def)

lemma find_put_attempt:
  "find (\<lambda>r. va_id r = i) (put_row va_id a rows)
   = (if i = va_id a then Some a else find (\<lambda>r. va_id r = i) rows)"
proof (cases "va_id a \<in> va_id ` set rows")
  case True
  then have "find (\<lambda>r. va_id r = va_id a) rows \<noteq> None" unfolding find_None_iff by (metis imageE)
  with True show ?thesis by (auto simp: put_row_def find_saved_attempt)
next
  case False
  then have "find (\<lambda>r. va_id r = va_id a) rows = None" unfolding find_None_iff by (metis imageI)
  with False show ?thesis by (auto simp: put_row_def find_snoc split: option.splits)
qed

interpretation memory_log: callback_log memory_repository "\<lambda>i s. map_option va_status (memory_get_attempt i s)"
  "\<lambda>s s'. mv_attempts s' = mv_attempts s \<and> mv_receipts s' = mv_receipts s"
proof unfold_locales
  fix p e i cs s out s' k st
  assume call: "vp_apply_callback memory_repository p e i cs s = Inr (out, s')" and wf: "well_formed_changes cs"
    and st: "map_option va_status (memory_get_attempt k s) = Some st"
  show "\<exists>st'. map_option va_status (memory_get_attempt k s') = Some st' \<and> moves_on st st'"
  proof (cases "(p, e) \<in> mv_receipts s \<or> memory_get_attempt i s = None")
    case True
    with call have "mv_attempts s' = mv_attempts s"
      by (auto simp: memory_apply_callback_def memory_get_attempt_def Let_def split: if_splits)
    with st show ?thesis by (auto simp: memory_get_attempt_def)
  next
    case False
    then obtain c where c: "memory_get_attempt i s = Some c" by auto
    then have id: "va_id c = i" by (auto simp: memory_get_attempt_def dest: find_SomeD)
    from call False c have "mv_attempts s' = put_row va_id (fold set_change (admitted_changes (va_status c) cs) c) (mv_attempts s)"
      by (auto simp: memory_apply_callback_def memory_get_attempt_def Let_def)
    with st c id callback_moves_on [OF wf, of c] show ?thesis
      by (cases "k = i") (auto simp: memory_get_attempt_def find_put_attempt)
  qed
next
  fix p e i cs s out s1 and s' :: InMemoryVoiceRepository
  assume call: "vp_apply_callback memory_repository p e i cs s = Inr (out, s1)"
    and same: "mv_attempts s' = mv_attempts s1 \<and> mv_receipts s' = mv_receipts s1"
  have "(p, e) \<in> mv_receipts (snd (memory_apply_callback p e i cs s))"
    by (simp add: memory_apply_callback_def Let_def split: option.split)
  with call same have "(p, e) \<in> mv_receipts s'" by simp
  then show "\<exists>x. vp_apply_callback memory_repository p e i cs s' = Inr ((x, True), s')"
    by (simp add: memory_apply_callback_def)
qed (auto simp: memory_suppress_def memory_get_attempt_def Let_def split: option.splits)

text \<open>
  C21: callbacks move a call forward and count once. With the database and with the in-memory repository, a
  callback of the telephony provider, of the voice agent or of the browser never moves an attempt back in the course of a
  call, never out of a terminal status, and the same callback delivered again after it was accepted is answered as a
  duplicate and changes nothing.
\<close>

theorem callbacks_advance_once:
  assumes "deliver_callback sql_repository now cb s = (r, s')"
    and "deliver_callback memory_repository now cb m = (q, m')"
  shows "(find_attempt i s = Some a \<longrightarrow> (\<exists>a'. find_attempt i s' = Some a'
        \<and> call_stage (va_status a) \<le> call_stage (va_status a')
        \<and> (call_stage (va_status a) = 4 \<longrightarrow> va_status a' = va_status a)))
    \<and> (r = Inr d \<longrightarrow> deliver_callback sql_repository now' cb s' = (Inr True, s'))
    \<and> (memory_get_attempt i m = Some b \<longrightarrow> (\<exists>b'. memory_get_attempt i m' = Some b'
        \<and> call_stage (va_status b) \<le> call_stage (va_status b')
        \<and> (call_stage (va_status b) = 4 \<longrightarrow> va_status b' = va_status b)))
    \<and> (q = Inr d \<longrightarrow> deliver_callback memory_repository now' cb m' = (Inr True, m'))"
  using sql_log.delivered_moves [OF assms(1), of i "va_status a"] sql_log.delivered_again [of now cb s d s' now']
    memory_log.delivered_moves [OF assms(2), of i "va_status b"] memory_log.delivered_again [of now cb m d m' now'] assms
  by (auto simp: moves_on_def)

end
