(* ===== verification/Voice_Runs.thy ===== *)
theory Voice_Runs
  imports Voice_Safety
begin

text \<open>
  Opt-outs and intents, what goes wrong at the edges of voice contact (a start that finishes after a
  callback, two reservations of one key, a post-call report with a time stamp), and concrete runs.
\<close>

section \<open>Opt-out\<close>

text \<open>A suppressed customer is marked as opted out.\<close>

definition suppressions_marked :: "voice_database \<Rightarrow> bool" where
  "suppressions_marked s \<longleftrightarrow> (\<forall>p \<in> set (vd_suppressions s). \<forall>u \<in> set (db_customers (vd_core s)).
     cu_id u = vsp_customer_id p \<longrightarrow> cu_opted_out_at u \<noteq> None)"

lemma suppress_marks:
  assumes "suppressions_marked s" and "sql_suppress now a reason s = (created, s')"
  shows "\<forall>u \<in> set (db_customers (vd_core s')). cu_id u = va_customer_id a \<longrightarrow> cu_opted_out_at u \<noteq> None"
    and "suppressions_marked s'"
  using assms
  by (auto simp: sql_suppress_def Let_def suppressions_marked_def suppression_clash_def opt_out_customer_def
      set_update_where split: if_splits)

lemma subject_rowsD: "(c, u, m) \<in> set (subject_rows db i) \<Longrightarrow> u \<in> set (db_customers db) \<and> cu_id u = rc_customer_id c"
  by (auto simp: subject_rows_def split: if_splits)

lemma callback_keeps_owner:
  assumes "sql_apply_callback p e i cs s = Inr ((Some b, False), s1)" and "find_attempt i s = Some a"
  shows "va_customer_id b = va_customer_id a" and "vd_core s1 = vd_core s" and "vd_suppressions s1 = vd_suppressions s"
proof -
  have owner: "va_customer_id (fold set_change cs a) = va_customer_id a" for cs and a :: VoiceContactAttemptRecord
  proof (induction cs arbitrary: a)
    case (Cons c cs)
    then show ?case by (cases c) simp_all
  qed simp
  show "va_customer_id b = va_customer_id a" "vd_core s1 = vd_core s" "vd_suppressions s1 = vd_suppressions s"
    using assms owner
    by (auto simp: sql_apply_callback_def Let_def bindE_eq_Inr to_attempt_def VoiceAttempt.defs split: if_splits)
qed

text \<open>
  C12: no call after an opt-out. With the database repository, in which suppressed customers are marked as opted out:
  once the voice agent's live tool has reported the opt-out of a customer for a known attempt, in an event that was not
  received before, an undisturbed start in the resulting state places no call for any case of that customer, and suppressed
  customers are still marked.
\<close>

theorem no_call_after_opt_out:
  assumes "suppressions_marked s" and "find_attempt i s = Some a"
    and "apply_live_intent sql_repository now e i intent confidence s = Inr ((Intent_OPT_OUT, ends, fresh, False), s1, stops)"
    and "start_contact svc sql_repository held provider cmd now' s1 = (r, s2, calls)"
    and "(c, u, m) \<in> set (subject_rows (vd_core s1) (sc_case_id cmd))" and "rc_customer_id c = va_customer_id a"
  shows "(\<forall>q. Start_Call q \<notin> set calls) \<and> suppressions_marked s1"
proof -
  obtain v where v: "intent_of_value (py_upper (py_strip intent)) = Some v"
    using assms(3) by (auto simp: apply_live_intent_def split: option.splits)
  define cs where "cs = [Set_detected_intent (intent_value v), Set_disposition (intent_value v)]
    @ (case confidence of None \<Rightarrow> [] | Some n \<Rightarrow> [Set_confidence (Some (clamp_confidence n))])"
  from assms(3) v obtain y where y: "sql_apply_callback ''elevenlabs-tool'' e i cs s = Inr y"
    by (cases "sql_apply_callback ''elevenlabs-tool'' e i cs s") (auto simp: apply_live_intent_def cs_def)
  obtain x d1 s0 where yd: "y = ((x, d1), s0)" by (metis prod.exhaust)
  with assms(3) v y have opt: "v = Intent_OPT_OUT" "\<not> d1" "s1 = fst (snd (opt_out_effect sql_repository now x v d1 s0))"
    by (auto simp: apply_live_intent_def cs_def split: prod.splits)
  from y yd opt(2) assms(2) obtain b where b: "x = Some b"
    by (auto simp: sql_apply_callback_def Let_def bindE_eq_Inr split: if_splits)
  have call: "sql_apply_callback ''elevenlabs-tool'' e i cs s = Inr ((Some b, False), s0)" using y yd b opt(2) by simp
  note keep = callback_keeps_owner [OF call assms(2)]
  have "suppressions_marked s0" using assms(1) keep by (simp add: suppressions_marked_def)
  moreover obtain created where "sql_suppress now b ''VOICE_OPT_OUT'' s0 = (created, s1)"
    using opt b by (auto simp: opt_out_effect_def split: prod.splits)
  ultimately have marked: "\<forall>u \<in> set (db_customers (vd_core s1)). cu_id u = va_customer_id a \<longrightarrow> cu_opted_out_at u \<noteq> None"
    and still: "suppressions_marked s1" using suppress_marks keep(1) by metis+
  have False if q: "Start_Call q \<in> set calls" for q
  proof -
    obtain j where "call_permitted svc sql_repository cmd j now' s1" using start_call_permitted [OF assms(4) q] by blast
    then have j: "sql_load_subject (sc_case_id cmd) s1 = Inr (Some j)" "vj_opted_out_at j = None"
      by (simp_all add: call_permitted_def sql_repository_def)
    obtain c' u' m' where "subject_rows (vd_core s1) (sc_case_id cmd) = [(c', u', m')]" "vj_opted_out_at j = cu_opted_out_at u'"
      using sql_subject [OF j(1)] by metis
    with assms(5) j(2) have "cu_opted_out_at u = None" by simp
    with marked subject_rowsD [OF assms(5)] assms(6) show False by metis
  qed
  with still show ?thesis by blast
qed

section \<open>Words that stop a call\<close>

definition says :: "string \<Rightarrow> VoiceIntent \<Rightarrow> bool" where
  "says words intent \<longleftrightarrow> (\<exists>phrases. (intent, phrases) \<in> set INTENT_PATTERNS
     \<and> (\<exists>p \<in> set phrases. sublist p (normalized_transcript words)))"

lemma says_iff:
  "says words intent \<longleftrightarrow> (case map_of INTENT_PATTERNS intent of None \<Rightarrow> False
     | Some phrases \<Rightarrow> \<exists>p \<in> set phrases. sublist p (normalized_transcript words))"
  by (cases intent) (auto simp: says_def INTENT_PATTERNS_def)

lemma detect_says:
  "detect_voice_intent words = (case find (says words) [Intent_OPT_OUT, Intent_DISPUTE, Intent_WRONG_PERSON,
     Intent_ALREADY_PAID, Intent_CALLBACK, Intent_PROMISE_TO_PAY, Intent_NEED_PAYMENT_HELP] of
       Some i \<Rightarrow> i | None \<Rightarrow> Intent_UNKNOWN)"
  unfolding detect_voice_intent_def says_iff by (simp add: INTENT_PATTERNS_def)

text \<open>
  Words that stop a call win. If the customer's words contain a phrase of an opt-out, the report after
  the call counts as an opt-out, and if they contain a phrase of a dispute, a wrong person or a payment
  already made, it counts as one of the four intents that end the contact, whatever the analysis of
  the voice agent says; without such words the analysis stands.
\<close>

theorem stopping_words_win:
  "(says words Intent_OPT_OUT \<longrightarrow> post_call_intent analyzed words = Intent_OPT_OUT)
   \<and> ((\<exists>i \<in> SAFETY_OVERRIDE_INTENTS. says words i) \<longrightarrow> post_call_intent analyzed words \<in> SAFETY_OVERRIDE_INTENTS)
   \<and> ((\<forall>i \<in> SAFETY_OVERRIDE_INTENTS. \<not> says words i) \<longrightarrow> post_call_intent analyzed words = analyzed)"
  by (auto simp: post_call_intent_def detect_says SAFETY_OVERRIDE_INTENTS_def Let_def)

section \<open>At the edges\<close>

text \<open>
  A post-call report with a delivered disclosure cannot be stored. The changes of a callback are stored as
  JSON, and the time of the disclosure is a datetime: with the database repository every such report
  raises, in every state, so that its transcript and its opt-out are lost. The in-memory repository,
  which the tests use, stores it.
\<close>

theorem disclosed_post_call_fails:
  assumes "pl_disclosure_delivered p" and "analyzed_intent (pl_provider_intent p) = Inr analyzed"
  shows "apply_elevenlabs_post_call sql_repository now p s
      = Inl (Voice_Type_Error ''Object of type datetime is not JSON serializable'')
    \<and> (\<exists>d m'. apply_elevenlabs_post_call memory_repository now p m = Inr (d, m'))"
proof
  show "apply_elevenlabs_post_call sql_repository now p s
      = Inl (Voice_Type_Error ''Object of type datetime is not JSON serializable'')"
    using assms by (simp add: apply_elevenlabs_post_call_def post_call_changes_def sql_apply_callback_def Let_def)
  obtain x d m1 where "memory_apply_callback ''elevenlabs'' (pl_event_id p) (pl_attempt_id p)
      (post_call_changes p analyzed (post_call_intent analyzed (pl_intent_transcript p))) m = ((x, d), m1)"
    by (metis prod.exhaust)
  then show "\<exists>d m'. apply_elevenlabs_post_call memory_repository now p m = Inr (d, m')"
    using assms by (simp add: apply_elevenlabs_post_call_def Let_def memory_repository_def)
qed

text \<open>
  A start overwrites what callbacks have stored. When \<open>start\<close> stores the provider's answer, it writes the
  status of the reservation over the status in the database, whatever callbacks and cancellations have
  made of it: a call that is completed or cancelled by then is active again, and no further call
  can be started.
\<close>

theorem start_overwrites_callbacks:
  assumes "find_attempt (va_id a) s = Some row" and "va_status a = ''RESERVED''"
    and "held \<in> {None, Some a}" and "vr_status r = ''SUBMITTED''"
    and "finish_start sql_repository held a (Some r) s = Inr (x, s')"
  shows "\<exists>row'. find_attempt (va_id a) s' = Some row' \<and> va_status row' = ''SUBMITTED''
    \<and> (\<forall>cmd now'. check_start svc sql_repository cmd now' s' \<noteq> Inr (Inr (j, b)))"
proof -
  define a' where "a' = a\<lparr>va_status := vr_status r, va_provider_call_id := vr_provider_call_id r,
    va_uncertain_submission := (vr_status r = ''UNCERTAIN'')\<rparr>"
  define row' where "row' = write_columns (case held of None \<Rightarrow> to_attempt row | Some h \<Rightarrow> h) a' row"
  have id: "va_id row = va_id a" using assms(1) by (auto simp: find_attempt_def dest: find_SomeD)
  have "va_id a' = va_id a" by (simp add: a'_def)
  then have "sql_save_attempt held a' s = bindE (update_attempt row' (vd_attempts s)) (\<lambda>rows. Inr (to_attempt row', s\<lparr>vd_attempts := rows\<rparr>))"
    using assms(1) by (simp add: sql_save_attempt_def row'_def Let_def)
  with assms(5) obtain rows where "update_attempt row' (vd_attempts s) = Inr rows" "s' = s\<lparr>vd_attempts := rows\<rparr>"
    by (auto simp: finish_start_def a'_def [symmetric] bindE_eq_Inr)
  then have s': "s' = s\<lparr>vd_attempts := save_row va_id row' (vd_attempts s)\<rparr>"
    by (auto simp: update_attempt_def split: if_splits)
  have st: "va_status row' = ''SUBMITTED''"
    using assms(2,3,4) by (auto simp: row'_def a'_def write_columns_def to_attempt_def VoiceAttempt.defs)
  have f: "find_attempt (va_id a) s' = Some row'"
    using assms(1) id by (simp add: s' find_attempt_def find_saved_attempt row'_def)
  then have "row' \<in> set (vd_attempts s')" "is_active row'"
    using st by (auto simp: find_attempt_def is_active_def ACTIVE_VOICE_STATUSES_def dest: find_SomeD)
  then have "sql_active_count s' \<noteq> 0" by (auto simp: sql_active_count_def filter_empty_conv)
  then have "\<forall>cmd now'. check_start svc sql_repository cmd now' s' \<noteq> Inr (Inr (j, b))"
    by (auto simp: check_start_permitted call_permitted_def sql_repository_def)
  with f st show ?thesis by blast
qed

text \<open>
  Two reservations of one key can both be granted. If another request commits its reservation of the
  same key between the look-up of the key and the read of the row by its primary key, the row is found
  and overwritten instead of clashing, and both requests go on to the provider.
\<close>

theorem reservation_race_claims_twice:
  assumes "sql_valid s" and "keyed a" and "a = reserved_attempt cmd j now"
    and first: "sql_reserve_attempt (\<lambda>s. s) a s = Inr (c1, s1)" "vrc_claimed c1"
  shows "\<exists>c2 s2. sql_reserve_attempt (\<lambda>_. s1) a s = Inr (c2, s2) \<and> vrc_claimed c2"
proof -
  note r = sql_reserve_claimed [OF first]
  have none: "find_attempt (va_id a) s = None"
    using r(1) assms(1,2) by (force simp: find_attempt_def find_None_iff sql_keys_def keys_of_def sql_valid_def all_keyed_def keyed_def)
  obtain k t rows where ins: "insert_attempt (new_attempt_row a k t) (vd_attempts s) = Inr rows" and s1: "s1 = s\<lparr>vd_attempts := rows\<rparr>"
    using sql_save_insert [OF r(2) none] by metis
  define row where "row = new_attempt_row a k t"
  have rows: "rows = vd_attempts s @ [row]" "attempt_constraints row" "\<forall>b \<in> set (vd_attempts s). \<not> attempt_clash row b"
    using ins by (auto simp: insert_attempt_def row_def split: if_splits)
  have f: "find_attempt (va_id a) s1 = Some row"
    using none by (simp add: s1 rows(1) find_attempt_def row_def find_snoc)
  have same: "write_columns (to_attempt row) a row = row"
    by (simp add: write_columns_def row_def new_attempt_row_def to_attempt_def VoiceAttempt.defs assms(3) reserved_attempt_def Let_def)
  have "update_attempt row (vd_attempts s1) = Inr (save_row va_id row rows)"
    using rows by (auto simp: update_attempt_def s1)
  then have "sql_save_attempt None a s1 = Inr (to_attempt row, s1\<lparr>vd_attempts := save_row va_id row rows\<rparr>)"
    using f same by (simp add: sql_save_attempt_def Let_def)
  moreover have "sql_get_by_idempotency (va_idempotency_key a) s = None" using r(1) by (simp add: sql_get_by_idempotency_None)
  ultimately show ?thesis by (auto simp: sql_reserve_attempt_def Let_def)
qed

section \<open>A concrete call\<close>

definition voice_db :: voice_database where
  "voice_db = \<lparr>vd_core = sample_a2a_db\<lparr>db_customers := [\<lparr>cu_id = ''cust_1'', cu_merchant_id = ''m1'',
       cu_phone_token = Some ''+919800000000'', cu_preferred_language = ''en-IN'', cu_voice_consent_at = Some 5,
       cu_opted_out_at = None, cu_customer_agent_available = True, cu_created_at = 0\<rparr>]\<rparr>,
     vd_attempts = [], vd_receipts = [], vd_suppressions = []\<rparr>"

definition voice_service :: VoiceContactService where
  "voice_service = \<lparr>sv_disabled_provider = False, sv_real_calls_enabled = True, sv_operator_token = ''secret'',
     sv_allowlisted_destinations = {''+919800000000''}, sv_zones = (\<lambda>_. Some (fixed_zone 0))\<rparr>"

definition voice_command :: start_command where
  "voice_command = \<lparr>sc_case_id = ''case_1'', sc_idempotency_key = ''k1'', sc_supplied_operator_token = Some ''secret'',
     sc_operator_session_authorized = False, sc_max_duration_seconds = 180\<rparr>"

definition voice_subject :: VoiceSubject where
  "voice_subject = \<lparr>vj_merchant_id = ''m1'', vj_case_id = ''case_1'', vj_customer_id = ''cust_1'',
     vj_destination_token = ''+919800000000'', vj_preferred_language = ''en-IN'', vj_consent_verified_at = Some 5,
     vj_opted_out_at = None, vj_timezone = ''Asia/Kolkata'', vj_kill_switch = False,
     vj_quiet_hours_start = Some (hours 20 + minutes 0), vj_quiet_hours_end = Some (hours 9 + minutes 0)\<rparr>"

definition noon :: instant where "noon = hours 12"

definition voice_attempt :: VoiceAttempt where
  "voice_attempt = reserved_attempt voice_command voice_subject noon"

definition voice_row :: VoiceContactAttemptRecord where
  "voice_row = new_attempt_row voice_attempt voice_subject 5"

definition reserved_db :: voice_database where
  "reserved_db = voice_db\<lparr>vd_attempts := [voice_row]\<rparr>"

definition placed :: VoiceContactResult where
  "placed = contact_result ''twilio'' ''k1'' (Some ''CA1'') ''SUBMITTED'' None"

lemma parse_default_hours:
  "parse_time (Some ''20:00'') = Inr (Some (hours 20 + minutes 0))" "parse_time (Some ''09:00'') = Inr (Some (hours 9 + minutes 0))"
  by (simp_all add: parse_time_def clock_number_def clock_digit_def)

lemma voice_subject_loaded: "sql_load_subject ''case_1'' voice_db = Inr (Some voice_subject)"
  by (simp add: sql_load_subject_def subject_rows_def voice_db_def sample_a2a_db_def parse_default_hours voice_subject_def)

lemma voice_checked:
  "check_start voice_service sql_repository voice_command noon voice_db = Inr (Inr (voice_subject, voice_attempt))"
proof -
  have "sql_get_by_idempotency ''k1'' voice_db = None" "sql_active_count voice_db = 0" "sql_calls_today noon voice_db = 0"
    by (simp_all add: sql_get_by_idempotency_def sql_active_count_def sql_calls_today_def voice_db_def)
  then have "call_permitted voice_service sql_repository voice_command voice_subject noon voice_db"
    using voice_subject_loaded
    by (simp add: call_permitted_def sql_repository_def voice_service_def voice_command_def operator_authorized_def
        voice_subject_def fixed_zone_def inside_quiet_hours_def noon_def duration_defs)
  then show ?thesis by (simp add: check_start_permitted voice_attempt_def)
qed

lemma voice_reserved:
  "sql_reserve_attempt (\<lambda>s. s) voice_attempt voice_db = Inr (\<lparr>vrc_attempt = to_attempt voice_row, vrc_claimed = True\<rparr>, reserved_db)"
proof -
  have "sql_load_subject (va_case_id voice_attempt) voice_db = Inr (Some voice_subject)"
    using voice_subject_loaded by (simp add: voice_attempt_def reserved_attempt_def voice_subject_def)
  moreover have "vj_consent_verified_at voice_subject = Some 5" by (simp add: voice_subject_def)
  moreover have "insert_attempt voice_row [] = Inr [voice_row]"
    by (simp add: insert_attempt_def attempt_constraints_def voice_row_def new_attempt_row_def)
  ultimately show ?thesis
    by (simp add: sql_reserve_attempt_def sql_get_by_idempotency_def sql_save_attempt_def find_attempt_def voice_row_def
        reserved_db_def voice_db_def Let_def)
qed

lemma voice_reserve_start:
  "reserve_start sql_repository voice_command voice_subject voice_attempt voice_db
   = Inr (Call_Provider (contact_request voice_command voice_subject), reserved_db)"
proof -
  have q: "valid_contact_request (contact_request voice_command voice_subject)"
    by (simp add: valid_contact_request_def contact_request_def voice_command_def)
  have r: "vp_reserve_attempt sql_repository voice_attempt voice_db
      = Inr (\<lparr>vrc_attempt = to_attempt voice_row, vrc_claimed = True\<rparr>, reserved_db)"
    using voice_reserved by (simp add: sql_repository_def)
  show ?thesis unfolding reserve_start_def r using q by simp
qed

lemma voice_row_facts: "va_id voice_row = ''k1''" "va_idempotency_key voice_row = ''k1''" "va_customer_id voice_row = ''cust_1''"
  "va_status voice_row = ''RESERVED''"
  by (simp_all add: voice_row_def new_attempt_row_def voice_attempt_def reserved_attempt_def voice_command_def voice_subject_def)

lemma voice_finished:
  "\<exists>r s'. finish_start sql_repository None voice_attempt (Some placed) reserved_db = Inr (r, s')"
  by (simp add: finish_start_def sql_save_attempt_def find_attempt_def reserved_db_def voice_row_facts voice_attempt_def
      reserved_attempt_def voice_command_def update_attempt_def attempt_constraints_def write_columns_def placed_def
      contact_result_def Let_def to_attempt_def VoiceAttempt.defs voice_row_def new_attempt_row_def)

theorem call_needs_consent_witness:
  "\<exists>calls r s'. start_contact voice_service sql_repository None (\<lambda>_. Some placed) voice_command noon voice_db = (r, s', calls)
     \<and> calls \<noteq> [] \<and> (\<exists>c u m. (c, u, m) \<in> set (subject_rows (vd_core voice_db) ''case_1'') \<and> cu_voice_consent_at u = Some 5)"
proof -
  obtain r s' where fin: "finish_start sql_repository None voice_attempt (Some placed) reserved_db = Inr (r, s')"
    using voice_finished by blast
  have st: "start_contact voice_service sql_repository None (\<lambda>_. Some placed) voice_command noon voice_db
      = (Inr r, s', [Start_Call (contact_request voice_command voice_subject)])"
    by (simp add: start_contact_def voice_checked voice_reserve_start fin)
  from call_needs_consent [OF st, of "contact_request voice_command voice_subject"] st show ?thesis
    by (fastforce simp: contact_request_def voice_subject_def voice_command_def)
qed

text \<open>A run of the machine that places the call; the in-memory one stands still.\<close>

theorem calls_submitted_once_witness:
  "\<exists>y. (voice_system_step voice_service sql_repository voice_tables_kept)\<^sup>*\<^sup>* (quiet_system voice_db) y
     \<and> map vq_idempotency_key (vy_started y) = [''k1''] \<and> distinct (map fst (vy_cancelled y))"
proof -
  let ?y0 = "quiet_system voice_db"
  let ?y1 = "?y0\<lparr>vy_phase := (vy_phase ?y0)(0 \<mapsto> Reserving voice_command voice_subject voice_attempt)\<rparr>"
  have 1: "voice_system_step voice_service sql_repository voice_tables_kept ?y0 ?y1"
    by (rule voice_system_step.checked [where now = noon]) (simp_all add: quiet_system_def voice_checked)
  obtain y2 where y2: "voice_system_step voice_service sql_repository voice_tables_kept ?y1 y2"
    "map vq_idempotency_key (vy_started y2) = [''k1'']"
  proof
    show "voice_system_step voice_service sql_repository voice_tables_kept ?y1 (?y1\<lparr>vy_store := reserved_db,
        vy_phase := (vy_phase ?y1)(0 := phase_after (Call_Provider (contact_request voice_command voice_subject)) voice_attempt),
        vy_started := vy_started ?y1 @ placed_call (Call_Provider (contact_request voice_command voice_subject))\<rparr>)"
      by (rule voice_system_step.reserved [where cmd = voice_command and j = voice_subject]) (simp_all add: quiet_system_def voice_reserve_start)
  qed (simp add: quiet_system_def placed_call_def contact_request_def voice_command_def)
  have run: "(voice_system_step voice_service sql_repository voice_tables_kept)\<^sup>*\<^sup>* ?y0 y2" using 1 y2(1) by simp
  have v: "sql_valid voice_db" by (simp add: sql_valid_def all_keyed_def voice_db_def)
  define m where "m = \<lparr>mv_subjects = [], mv_attempts = [], mv_receipts = {}, mv_suppressions = {}, mv_payment_cancellations = []\<rparr>"
  have "memory_valid m" by (simp add: memory_valid_def all_keyed_def m_def)
  from calls_submitted_once [OF run v rtranclp.rtrancl_refl this]
  have "distinct (map fst (vy_cancelled y2))" by simp
  with run y2(2) show ?thesis by metis
qed

definition completed :: service_callback where
  "completed = Twilio_Status ''e1'' ''k1'' ''completed'' (Some 42) None"

definition completed_db :: voice_database where
  "completed_db = snd (deliver_callback sql_repository noon completed reserved_db)"

lemma completed_normalized: "normalize_voice_status ''completed'' = Inr ''COMPLETED''"
  by code_simp

lemma completed_delivered:
  "deliver_callback sql_repository noon completed reserved_db = (Inr False, completed_db)"
  "\<exists>r. vd_attempts completed_db = [r] \<and> find_attempt ''k1'' completed_db = Some r \<and> va_status r = ''COMPLETED''
     \<and> attempt_constraints r"
proof -
  have adv: "can_advance_voice_status ''RESERVED'' ''COMPLETED''" by code_simp
  have "\<exists>s'. deliver_callback sql_repository noon completed reserved_db = (Inr False, s')
      \<and> (\<exists>r. vd_attempts s' = [r] \<and> find_attempt ''k1'' s' = Some r \<and> va_status r = ''COMPLETED'' \<and> attempt_constraints r)"
    using adv
    by (simp add: completed_def completed_normalized apply_twilio_status_def sql_apply_callback_def
        find_attempt_def reserved_db_def voice_row_facts admitted_changes_def Let_def update_attempt_def attempt_constraints_def
        VOICE_TERMINAL_STATUSES_def voice_db_def save_row_def update_where_def truthy_def clamp_duration_def)
      (simp add: voice_row_def new_attempt_row_def)
  then show "deliver_callback sql_repository noon completed reserved_db = (Inr False, completed_db)"
    "\<exists>r. vd_attempts completed_db = [r] \<and> find_attempt ''k1'' completed_db = Some r \<and> va_status r = ''COMPLETED''
       \<and> attempt_constraints r"
    by (auto simp: completed_db_def)
qed

definition ringing_memory :: InMemoryVoiceRepository where
  "ringing_memory = \<lparr>mv_subjects = [], mv_attempts = [voice_attempt\<lparr>va_status := ''RINGING''\<rparr>], mv_receipts = {},
     mv_suppressions = {}, mv_payment_cancellations = []\<rparr>"

theorem callbacks_advance_once_witness:
  "\<exists>r b m'. find_attempt ''k1'' completed_db = Some r \<and> va_status r = ''COMPLETED''
     \<and> deliver_callback sql_repository noon completed completed_db = (Inr True, completed_db)
     \<and> deliver_callback memory_repository noon completed ringing_memory = (Inr False, m')
     \<and> memory_get_attempt ''k1'' m' = Some b \<and> 2 \<le> call_stage (va_status b)
     \<and> deliver_callback memory_repository noon completed m' = (Inr True, m')"
proof -
  have memory: "\<exists>m'. deliver_callback memory_repository noon completed ringing_memory = (Inr False, m')"
    by (simp add: completed_def completed_normalized apply_twilio_status_def memory_apply_callback_def ringing_memory_def Let_def
        split: option.split)
  then obtain m' where m': "deliver_callback memory_repository noon completed ringing_memory = (Inr False, m')" by blast
  let ?a = "voice_attempt\<lparr>va_status := ''RINGING''\<rparr>"
  have a: "memory_get_attempt ''k1'' ringing_memory = Some ?a"
    by (simp add: memory_get_attempt_def ringing_memory_def voice_attempt_def reserved_attempt_def voice_command_def)
  have stage: "call_stage (va_status ?a) = 2" by (simp add: call_stage_def)
  note once = callbacks_advance_once [OF completed_delivered(1) m', of "''k1''" voice_row False noon ?a]
  have "deliver_callback sql_repository noon completed completed_db = (Inr True, completed_db)" using once by simp
  moreover have "\<exists>b. memory_get_attempt ''k1'' m' = Some b \<and> 2 \<le> call_stage (va_status b)"
    "deliver_callback memory_repository noon completed m' = (Inr True, m')" using once a stage by auto
  moreover obtain r where "find_attempt ''k1'' completed_db = Some r" "va_status r = ''COMPLETED''"
    using completed_delivered(2) by blast
  ultimately show ?thesis using m' by blast
qed

text \<open>The provider's answer is stored after the call was reported as completed.\<close>

lemma write_columns_constraints:
  "attempt_constraints r \<Longrightarrow> va_confidence_basis_points a = None \<Longrightarrow> va_duration_seconds a = None
    \<Longrightarrow> attempt_constraints (write_columns l a r)"
  by (auto simp: attempt_constraints_def write_columns_def Let_def split: option.splits)

theorem start_overwrites_callbacks_witness:
  "\<exists>r r' s' x. find_attempt ''k1'' completed_db = Some r \<and> va_status r = ''COMPLETED''
     \<and> finish_start sql_repository None voice_attempt (Some placed) completed_db = Inr (x, s')
     \<and> find_attempt ''k1'' s' = Some r' \<and> va_status r' = ''SUBMITTED''"
proof -
  obtain r where r: "vd_attempts completed_db = [r]" "find_attempt ''k1'' completed_db = Some r" "va_status r = ''COMPLETED''"
    "attempt_constraints r" using completed_delivered(2) by blast
  have id: "va_id voice_attempt = ''k1''" "va_status voice_attempt = ''RESERVED''"
    by (simp_all add: voice_attempt_def reserved_attempt_def voice_command_def)
  have "va_id r = ''k1''" using r(2) by (auto simp: find_attempt_def dest: find_SomeD)
  moreover define a' where "a' = voice_attempt\<lparr>va_status := vr_status placed, va_provider_call_id := vr_provider_call_id placed,
    va_uncertain_submission := (vr_status placed = ''UNCERTAIN'')\<rparr>"
  ultimately have "isOk (update_attempt (write_columns (to_attempt r) a' r) (vd_attempts completed_db))"
    using r(1) write_columns_constraints [OF r(4), of a' "to_attempt r"]
    by (simp add: update_attempt_def a'_def voice_attempt_def reserved_attempt_def)
  then obtain x s' where fin: "finish_start sql_repository None voice_attempt (Some placed) completed_db = Inr (x, s')"
    using r(2) id(1) by (auto simp: finish_start_def sql_save_attempt_def a'_def isOk_iff Let_def)
  have "vr_status placed = ''SUBMITTED''" by (simp add: placed_def contact_result_def)
  then obtain r' where "find_attempt ''k1'' s' = Some r'" "va_status r' = ''SUBMITTED''"
    using start_overwrites_callbacks [OF _ id(2) _ _ fin, of r voice_service voice_subject voice_attempt] r(2) id(1) by auto
  with r(2,3) fin show ?thesis by blast
qed

theorem reservation_race_claims_twice_witness:
  "\<exists>c s2. sql_reserve_attempt (\<lambda>_. reserved_db) voice_attempt voice_db = Inr (c, s2) \<and> vrc_claimed c"
proof (rule reservation_race_claims_twice [OF _ _ _ voice_reserved])
  show "sql_valid voice_db" by (simp add: sql_valid_def all_keyed_def voice_db_def)
  show "keyed voice_attempt" by (simp add: keyed_def voice_attempt_def reserved_attempt_def)
  show "voice_attempt = reserved_attempt voice_command voice_subject noon" by (simp add: voice_attempt_def)
qed simp

definition spoken_opt_out :: post_call where
  "spoken_opt_out = \<lparr>pl_event_id = ''e2'', pl_attempt_id = ''k1'', pl_transcript = ''please stop calling me'',
     pl_intent_transcript = ''please stop calling me'', pl_provider_intent = None, pl_confidence_basis_points = None,
     pl_duration_seconds = 30, pl_disclosure_delivered = True, pl_occurred_at = noon\<rparr>"

theorem disclosed_post_call_fails_witness:
  "apply_elevenlabs_post_call sql_repository noon spoken_opt_out reserved_db
   = Inl (Voice_Type_Error ''Object of type datetime is not JSON serializable'')"
proof -
  have "pl_disclosure_delivered spoken_opt_out" "analyzed_intent (pl_provider_intent spoken_opt_out) = Inr Intent_UNKNOWN"
    by (simp_all add: spoken_opt_out_def analyzed_intent_def)
  from disclosed_post_call_fails [OF this] show ?thesis by blast
qed

theorem stopping_words_win_witness:
  "post_call_intent Intent_PROMISE_TO_PAY ''I will pay, but please STOP  calling me'' = Intent_OPT_OUT"
proof -
  have "says ''I will pay, but please STOP  calling me'' Intent_OPT_OUT" unfolding says_iff by code_simp
  with stopping_words_win show ?thesis by blast
qed

lemma voice_row_constraints: "attempt_constraints (set_change c (set_change d voice_row))"
  if "moves_call c \<or> (\<exists>i. c = Set_detected_intent i)" and "moves_call d \<or> (\<exists>i. d = Set_detected_intent i)"
  using that by (cases c; cases d) (auto simp: attempt_constraints_def voice_row_def new_attempt_row_def)

lemma opt_out_delivered:
  "\<exists>s1 stops. apply_live_intent sql_repository noon ''e3'' ''k1'' ''opt_out'' None reserved_db
      = Inr ((Intent_OPT_OUT, True, True, False), s1, stops)
    \<and> vd_core s1 = opt_out_customer noon ''cust_1'' ''case_1'' (vd_core voice_db)"
proof -
  have "intent_of_value (py_upper (py_strip ''opt_out'')) = Some Intent_OPT_OUT" by code_simp
  moreover have "\<exists>rows b. sql_apply_callback ''elevenlabs-tool'' ''e3'' ''k1'' [Set_detected_intent ''OPT_OUT'', Set_disposition ''OPT_OUT''] reserved_db
      = Inr ((Some b, False), reserved_db\<lparr>vd_attempts := rows,
          vd_receipts := [\<lparr>wr_provider = ''elevenlabs-tool'', wr_provider_event_id = ''e3'', wr_attempt_id = Some ''k1''\<rparr>]\<rparr>)
        \<and> va_merchant_id b = ''m1'' \<and> va_customer_id b = ''cust_1'' \<and> va_case_id b = ''case_1''"
    using voice_row_constraints [of "Set_disposition ''OPT_OUT''" "Set_detected_intent ''OPT_OUT''"]
    by (simp add: sql_apply_callback_def find_attempt_def reserved_db_def voice_row_facts admitted_changes_def update_attempt_def
        voice_db_def Let_def to_attempt_def VoiceAttempt.defs)
      (simp add: voice_row_def new_attempt_row_def voice_attempt_def reserved_attempt_def voice_subject_def)
  ultimately show ?thesis
    by (auto simp: apply_live_intent_def opt_out_effect_def sql_suppress_def reserved_db_def voice_db_def
        SAFETY_OVERRIDE_INTENTS_def Let_def)
qed

theorem no_call_after_opt_out_witness:
  "\<exists>s1 stops r s2 calls. apply_live_intent sql_repository noon ''e3'' ''k1'' ''opt_out'' None reserved_db
      = Inr ((Intent_OPT_OUT, True, True, False), s1, stops)
    \<and> start_contact voice_service sql_repository None (\<lambda>_. Some placed) (voice_command\<lparr>sc_idempotency_key := ''k2''\<rparr>) noon s1
      = (r, s2, calls) \<and> (\<forall>q. Start_Call q \<notin> set calls)"
proof -
  obtain s1 stops where live: "apply_live_intent sql_repository noon ''e3'' ''k1'' ''opt_out'' None reserved_db
      = Inr ((Intent_OPT_OUT, True, True, False), s1, stops)"
    and core: "vd_core s1 = opt_out_customer noon ''cust_1'' ''case_1'' (vd_core voice_db)" using opt_out_delivered by blast
  obtain r s2 calls where st: "start_contact voice_service sql_repository None (\<lambda>_. Some placed)
      (voice_command\<lparr>sc_idempotency_key := ''k2''\<rparr>) noon s1 = (r, s2, calls)" by (metis prod.exhaust)
  have marked: "suppressions_marked reserved_db" by (simp add: suppressions_marked_def reserved_db_def voice_db_def)
  have row: "find_attempt ''k1'' reserved_db = Some voice_row" by (simp add: find_attempt_def reserved_db_def voice_row_facts)
  obtain c u m where "(c, u, m) \<in> set (subject_rows (vd_core s1) (sc_case_id (voice_command\<lparr>sc_idempotency_key := ''k2''\<rparr>)))"
    "rc_customer_id c = va_customer_id voice_row"
    by (simp add: core opt_out_customer_def subject_rows_def voice_db_def sample_a2a_db_def voice_command_def voice_row_facts
        update_where_def)
  from no_call_after_opt_out [OF marked row live st this] live st show ?thesis by blast
qed

end
