(* ===== verification/Case_Repository.thy ===== *)
theory Case_Repository
  imports Webhook_Processor
begin

text \<open>
  The repository of the case service, \<open>services/api/app/repositories/cases.py\<close>: look-ups of a case with
  the rows around it, the writes that happen once (an event, a recognition), the cancellation of
  the open actions of a case, and the figures of the dashboard.

  The operations work on any extension of \<open>database\<close>, so that they compose with the worker's. A
  \<open>flush\<close> that violates a constraint raises; one inside \<open>begin_nested\<close> rolls back to its savepoint.
  The listing of cases is in \<open>Case_Listing\<close>; \<open>timeline\<close> and \<open>recent_events\<close>, which sort events by
  columns nothing else reads, are not modelled.
\<close>

section \<open>Errors\<close>

datatype case_error = Case_Not_Found | Case_Conflict string | Case_Already_Recovered
  | Case_Runtime_Error string | Case_Value_Error | Case_Integrity_Error | Case_Decision_Error

text \<open>The code and the HTTP status of the application errors; the others have none.\<close>

fun error_status :: "case_error \<Rightarrow> (string \<times> nat) option" where
  "error_status Case_Not_Found = Some (''RESOURCE_NOT_FOUND'', 404)"
| "error_status (Case_Conflict _) = Some (''VERSION_CONFLICT'', 409)"
| "error_status Case_Already_Recovered = Some (''CASE_ALREADY_RECOVERED'', 409)"
| "error_status _ = None"

section \<open>Look-ups\<close>

definition get_merchant_policy_settings ::
    "ident \<Rightarrow> 'z database_scheme \<Rightarrow> (Merchant \<times> MerchantPolicySetting) option" where
  "get_merchant_policy_settings m db =
     (case (find (\<lambda>x. mr_id x = m) (db_merchants db), find (\<lambda>s. st_merchant_id s = m) (db_settings db)) of
        (Some merchant, Some settings) \<Rightarrow> Some (merchant, settings) | _ \<Rightarrow> None)"

definition get_case :: "ident \<Rightarrow> ident \<Rightarrow> 'z database_scheme \<Rightarrow> RecoveryCase option" where
  "get_case m i db = find (\<lambda>c. rc_id c = i \<and> rc_merchant_id c = m) (db_cases db)"

record CaseAggregate =
  ag_recovery_case :: RecoveryCase
  ag_customer :: Customer
  ag_subscription :: Subscription
  ag_invoice :: "Invoice option"
  ag_failed_payment :: "PaymentAttempt option"
  ag_latest_action :: "RecoveryActionRecord option"
  ag_latest_policy :: "PolicyDecisionRecord option"

definition latest_action :: "ident \<Rightarrow> 'z database_scheme \<Rightarrow> RecoveryActionRecord option" where
  "latest_action case_id db =
     last_by (\<lambda>a. (ar_created_at a, ar_id a)) (filter (\<lambda>a. ar_case_id a = case_id) (db_actions db))"

definition latest_policy :: "ident \<Rightarrow> 'z database_scheme \<Rightarrow> PolicyDecisionRecord option" where
  "latest_policy case_id db =
     last_by (\<lambda>p. (pr_created_at p, pr_id p)) (filter (\<lambda>p. pr_case_id p = case_id) (db_policies db))"

definition get_case_aggregate :: "ident \<Rightarrow> ident \<Rightarrow> 'z database_scheme \<Rightarrow> case_error + CaseAggregate option" where
  "get_case_aggregate m i db = (case get_case m i db of
     None \<Rightarrow> Inr None
   | Some c \<Rightarrow>
       (let invoice = (if truthy (rc_failed_invoice_id c)
              then find (\<lambda>x. Some (iv_id x) = rc_failed_invoice_id c) (db_invoices db) else None);
            payment = (if truthy (rc_failed_payment_id c)
              then find (\<lambda>x. Some (pa_id x) = rc_failed_payment_id c) (db_payments db) else None)
        in case (find (\<lambda>u. cu_id u = rc_customer_id c) (db_customers db),
              find (\<lambda>s. sb_id s = rc_subscription_id c) (db_subscriptions db)) of
          (Some customer, Some subscription) \<Rightarrow>
            Inr (Some \<lparr>ag_recovery_case = c, ag_customer = customer, ag_subscription = subscription,
              ag_invoice = invoice, ag_failed_payment = payment,
              ag_latest_action = latest_action i db, ag_latest_policy = latest_policy i db\<rparr>)
        | _ \<Rightarrow> Inl (Case_Runtime_Error ''recovery case has broken customer/subscription references'')))"

definition get_action :: "ident \<Rightarrow> ident \<Rightarrow> 'z database_scheme \<Rightarrow> RecoveryActionRecord option" where
  "get_action case_id action_id db =
     find (\<lambda>a. ar_id a = action_id \<and> ar_case_id a = case_id) (db_actions db)"

definition get_action_by_idempotency_key :: "string \<Rightarrow> 'z database_scheme \<Rightarrow> RecoveryActionRecord option" where
  "get_action_by_idempotency_key key db = find (\<lambda>a. ar_idempotency_key a = key) (db_actions db)"

definition get_policy_for_action :: "ident \<Rightarrow> 'z database_scheme \<Rightarrow> PolicyDecisionRecord option" where
  "get_policy_for_action action_id db =
     last_by pr_created_at (filter (\<lambda>p. pr_action_id p = Some action_id) (db_policies db))"

section \<open>Writes\<close>

definition add_event :: "RecoveryEventRecord \<Rightarrow> 'z database_scheme \<Rightarrow> bool \<times> 'z database_scheme" where
  "add_event e db =
     (if truthy (re_source_event_id e) \<and> (\<exists>x \<in> set (db_events db). re_case_id x = re_case_id e
           \<and> re_source_event_id x = re_source_event_id e)
      then (False, db)
      else if \<exists>x \<in> set (db_events db). event_clash e x then (False, db)
      else (True, db\<lparr>db_events := db_events db @ [e]\<rparr>))"

definition action_surface_matches_type :: "RecoveryActionRecord \<Rightarrow> bool" where
  "action_surface_matches_type a \<longleftrightarrow>
     (ar_action_type a = OPEN_CUSTOMER_PAYMENT_SURFACE) = (ar_payment_surface_type a \<noteq> None)"

definition add_action_with_policy ::
    "RecoveryActionRecord \<Rightarrow> PolicyDecisionRecord \<Rightarrow> 'z database_scheme \<Rightarrow> case_error + 'z database_scheme" where
  "add_action_with_policy action policy db =
     (if \<not> action_surface_matches_type action \<or> (\<exists>x \<in> set (db_actions db). action_clash action x)
      then Inl Case_Integrity_Error
      else let policy' = policy\<lparr>pr_action_id := Some (ar_id action)\<rparr> in
        if \<exists>x \<in> set (db_policies db). policy_clash policy' x then Inl Case_Integrity_Error
        else Inr (db\<lparr>db_actions := db_actions db @ [action], db_policies := db_policies db @ [policy']\<rparr>))"

definition find_revenue_recognition ::
    "ident \<Rightarrow> string \<Rightarrow> ident \<Rightarrow> 'z database_scheme \<Rightarrow> RevenueRecognitionRecord option" where
  "find_revenue_recognition m provider event_id db =
     find (\<lambda>g. rg_merchant_id g = m \<and> rg_provider g = provider \<and> rg_provider_event_id g = event_id) (db_revenue db)"

definition recognize_revenue_once ::
    "RevenueRecognitionRecord \<Rightarrow> 'z database_scheme \<Rightarrow> bool \<times> 'z database_scheme" where
  "recognize_revenue_once g db =
     (if find_revenue_recognition (rg_merchant_id g) (rg_provider g) (rg_provider_event_id g) db \<noteq> None
      then (False, db)
      else if \<exists>x \<in> set (db_revenue db). revenue_clash g x then (False, db)
      else (True, db\<lparr>db_revenue := db_revenue db @ [g]\<rparr>))"

definition add_payment_attempt :: "PaymentAttempt \<Rightarrow> 'z database_scheme \<Rightarrow> case_error + 'z database_scheme" where
  "add_payment_attempt p db =
     (if \<exists>x \<in> set (db_payments db). payment_clash p x then Inl Case_Integrity_Error
      else Inr (db\<lparr>db_payments := db_payments db @ [p]\<rparr>))"

definition collected_invoice :: "paise \<Rightarrow> Invoice \<Rightarrow> Invoice" where
  "collected_invoice amount i =
     (let paid = min (iv_amount_paise i) (iv_amount_paid_paise i + amount) in
      i\<lparr>iv_amount_paid_paise := paid,
        iv_invoice_state := (if paid = iv_amount_paise i then ''paid'' else iv_invoice_state i)\<rparr>)"

definition add_invoice_collection ::
    "ident \<Rightarrow> paise \<Rightarrow> 'z database_scheme \<Rightarrow> case_error + 'z database_scheme" where
  "add_invoice_collection invoice_id amount db = (case find (\<lambda>x. iv_id x = invoice_id) (db_invoices db) of
     None \<Rightarrow> Inl (Case_Runtime_Error ''recovery case has no persisted invoice'')
   | Some i \<Rightarrow> Inr (db\<lparr>db_invoices := save_row iv_id (collected_invoice amount i) (db_invoices db)\<rparr>))"

definition open_statuses :: "ActionStatus set" where
  "open_statuses = {Act_PROPOSED, Act_AWAITING_APPROVAL, Act_SCHEDULED, Act_EXECUTING}"

definition cancel_nonterminal_actions :: "ident \<Rightarrow> instant \<Rightarrow> 'z database_scheme \<Rightarrow> 'z database_scheme" where
  "cancel_nonterminal_actions case_id t db = db\<lparr>db_actions :=
     update_where (\<lambda>a. ar_case_id a = case_id \<and> ar_status a \<in> open_statuses)
       (\<lambda>a. a\<lparr>ar_status := Act_CANCELLED, ar_completed_at := Some t, ar_updated_at := t\<rparr>) (db_actions db)\<rparr>"

text \<open>The row of a case that the session holds and mutates, written at the next flush.\<close>

definition save_case :: "RecoveryCase \<Rightarrow> 'z database_scheme \<Rightarrow> 'z database_scheme" where
  "save_case c db = db\<lparr>db_cases := save_row rc_id c (db_cases db)\<rparr>"

section \<open>The dashboard\<close>

definition active_outcomes :: "CaseOutcome set" where
  "active_outcomes = {Case_OPEN, Case_PARTIALLY_RECOVERED}"

definition verified_revenue :: "ident \<Rightarrow> 'z database_scheme \<Rightarrow> RevenueRecognitionRecord list" where
  "verified_revenue m db = filter (\<lambda>g. rg_merchant_id g = m \<and> rg_arrears_collected g
     \<and> rg_attribution g \<in> {Attr_RAZORPAY_TEST_VERIFIED, Attr_VERIFIED_EXTERNAL}) (db_revenue db)"

definition remaining_at_risk :: "RecoveryCase \<Rightarrow> paise" where
  "remaining_at_risk c = (if rc_amount_at_risk_paise c > rc_arrears_collected_paise c
     then rc_amount_at_risk_paise c - rc_arrears_collected_paise c else 0)"

record DashboardMetrics =
  dm_revenue_at_risk_paise :: paise
  dm_verified_recovered_revenue_paise :: paise
  dm_simulated_incremental_recovery_paise :: paise
  dm_net_recovered_value_paise :: paise
  dm_active_cases :: nat
  dm_recovered_cases :: nat
  dm_total_cases :: nat
  dm_recovery_rate_basis_points :: nat

definition dashboard_metrics :: "ident \<Rightarrow> 'z database_scheme \<Rightarrow> DashboardMetrics" where
  "dashboard_metrics m db =
     (let cases = filter (\<lambda>c. rc_merchant_id c = m) (db_cases db);
          active = filter (\<lambda>c. rc_case_outcome c \<in> active_outcomes) cases;
          recovered = length (filter (\<lambda>c. rc_case_outcome c = Case_RECOVERED) cases);
          verified = sum_list (map rg_amount_paise (verified_revenue m db))
      in \<lparr>dm_revenue_at_risk_paise = sum_list (map remaining_at_risk active),
          dm_verified_recovered_revenue_paise = verified,
          dm_simulated_incremental_recovery_paise = 0, dm_net_recovered_value_paise = verified - 0,
          dm_active_cases = length active, dm_recovered_cases = recovered, dm_total_cases = length cases,
          dm_recovery_rate_basis_points = (if length cases \<noteq> 0 then recovered * 10000 div length cases else 0)\<rparr>)"

text \<open>The groups of a \<open>GROUP BY\<close> in the order of their first rows; the code fixes no order for the channels.\<close>

definition diagnosis_distribution :: "ident \<Rightarrow> 'z database_scheme \<Rightarrow> (Diagnosis \<times> nat) list" where
  "diagnosis_distribution m db =
     (let cases = filter (\<lambda>c. rc_merchant_id c = m) (db_cases db)
      in map (\<lambda>d. (d, length (filter (\<lambda>c. rc_diagnosis c = d) cases)))
           (sort_key diagnosis_value (remdups (map rc_diagnosis cases))))"

fun channel_of :: "RecoveryActionType \<Rightarrow> PaymentSurfaceType option \<Rightarrow> string option" where
  "channel_of START_VOICE _ = Some ''VOICE''"
| "channel_of SEND_TO_CUSTOMER_AGENT _ = Some ''CUSTOMER_AGENT''"
| "channel_of OPEN_CUSTOMER_PAYMENT_SURFACE (Some s) = Some (surface_value s)"
| "channel_of _ _ = None"

text \<open>Each case of the merchant with its latest action and its verified recognitions.\<close>

definition channel_rows ::
    "ident \<Rightarrow> 'z database_scheme \<Rightarrow> (RecoveryCase \<times> RecoveryActionRecord \<times> RevenueRecognitionRecord list) list" where
  "channel_rows m db = [(c, a, filter (\<lambda>g. rg_case_id g = rc_id c) (verified_revenue m db)).
     c \<leftarrow> db_cases db, rc_merchant_id c = m, a \<leftarrow> db_actions db,
     map_option ar_id (latest_action (rc_id c) db) = Some (ar_id a)]"

definition recovery_by_channel :: "ident \<Rightarrow> 'z database_scheme \<Rightarrow> (string \<times> nat \<times> paise) list" where
  "recovery_by_channel m db =
     (let rows = channel_rows m db;
          kinds = remdups (map (\<lambda>(c, a, gs). (ar_action_type a, ar_payment_surface_type a)) rows);
          group = (\<lambda>k. filter (\<lambda>(c, a, gs). (ar_action_type a, ar_payment_surface_type a) = k) rows)
      in concat (map (\<lambda>k. case channel_of (fst k) (snd k) of
             None \<Rightarrow> []
           | Some channel \<Rightarrow> [(channel, card (set (map (\<lambda>(c, a, gs). rc_id c) (group k))),
               sum_list (map (\<lambda>(c, a, gs). sum_list (map rg_amount_paise gs)) (group k)))]) kinds))"

definition review_and_block_counts :: "ident \<Rightarrow> 'z database_scheme \<Rightarrow> nat \<times> nat" where
  "review_and_block_counts m db =
     (let owned = (\<lambda>i. length (filter (\<lambda>c. rc_id c = i \<and> rc_merchant_id c = m) (db_cases db)))
      in (sum_list (map (\<lambda>a. owned (ar_case_id a)) (filter (\<lambda>a. ar_status a = Act_AWAITING_APPROVAL) (db_actions db))),
          sum_list (map (\<lambda>p. owned (pr_case_id p)) (filter (\<lambda>p. pr_disposition p = BLOCK) (db_policies db)))))"

section \<open>What the writes change\<close>

lemma truthy_Some: "truthy (Some s) \<longleftrightarrow> s \<noteq> []"
  by (simp add: truthy_def)

lemma add_event_tables [simp]:
  "db_cases (snd (add_event e db)) = db_cases db" "db_actions (snd (add_event e db)) = db_actions db"
  "db_policies (snd (add_event e db)) = db_policies db" "db_invoices (snd (add_event e db)) = db_invoices db"
  "db_revenue (snd (add_event e db)) = db_revenue db" "db_customers (snd (add_event e db)) = db_customers db"
  "db_payments (snd (add_event e db)) = db_payments db"
  by (simp_all add: add_event_def)

lemma cancel_tables [simp]:
  "db_cases (cancel_nonterminal_actions i t db) = db_cases db"
  "db_policies (cancel_nonterminal_actions i t db) = db_policies db"
  "db_invoices (cancel_nonterminal_actions i t db) = db_invoices db"
  "db_revenue (cancel_nonterminal_actions i t db) = db_revenue db"
  "db_customers (cancel_nonterminal_actions i t db) = db_customers db"
  "db_payments (cancel_nonterminal_actions i t db) = db_payments db"
  "db_events (cancel_nonterminal_actions i t db) = db_events db"
  by (simp_all add: cancel_nonterminal_actions_def)

lemma save_case_tables [simp]:
  "db_cases (save_case c db) = save_row rc_id c (db_cases db)"
  "db_actions (save_case c db) = db_actions db" "db_policies (save_case c db) = db_policies db"
  "db_invoices (save_case c db) = db_invoices db" "db_revenue (save_case c db) = db_revenue db"
  "db_customers (save_case c db) = db_customers db" "db_payments (save_case c db) = db_payments db"
  "db_events (save_case c db) = db_events db"
  by (simp_all add: save_case_def)

lemma get_case_Some: "get_case m i db = Some c \<Longrightarrow> c \<in> set (db_cases db) \<and> rc_id c = i \<and> rc_merchant_id c = m"
  by (auto simp: get_case_def dest: find_SomeD)

lemma get_action_Some: "get_action case_id i db = Some a \<Longrightarrow> a \<in> set (db_actions db) \<and> ar_id a = i \<and> ar_case_id a = case_id"
  by (auto simp: get_action_def dest: find_SomeD)

lemma aggregate_Some:
  assumes "get_case_aggregate m i db = Inr (Some g)"
  shows "get_case m i db = Some (ag_recovery_case g)" and "ag_latest_action g = latest_action i db"
  using assms by (auto simp: get_case_aggregate_def Let_def split: option.splits)

lemma add_action_with_policy_Inr:
  "add_action_with_policy a p db = Inr db' \<longleftrightarrow> action_surface_matches_type a
     \<and> (\<forall>x \<in> set (db_actions db). \<not> action_clash a x)
     \<and> (\<forall>x \<in> set (db_policies db). \<not> policy_clash (p\<lparr>pr_action_id := Some (ar_id a)\<rparr>) x)
     \<and> db' = db\<lparr>db_actions := db_actions db @ [a],
         db_policies := db_policies db @ [p\<lparr>pr_action_id := Some (ar_id a)\<rparr>]\<rparr>"
  by (auto simp: add_action_with_policy_def Let_def)

lemma cancelled_not_open [simp]: "Act_CANCELLED \<notin> open_statuses" "Act_SUCCEEDED \<notin> open_statuses"
  by (simp_all add: open_statuses_def)

text \<open>A row after the cancellation is cancelled, or it was there and is not an open action of the case.\<close>

lemma cancel_mem:
  assumes "a \<in> set (db_actions (cancel_nonterminal_actions i t db))"
  obtains (cancelled) "ar_status a = Act_CANCELLED"
  | (kept) "a \<in> set (db_actions db)" and "ar_case_id a = i \<Longrightarrow> ar_status a \<notin> open_statuses"
proof -
  from assms consider b where "a = b\<lparr>ar_status := Act_CANCELLED, ar_completed_at := Some t, ar_updated_at := t\<rparr>"
    | "a \<in> set (db_actions db)" "\<not> (ar_case_id a = i \<and> ar_status a \<in> open_statuses)"
    by (auto simp: cancel_nonterminal_actions_def set_update_where)
  then show thesis using that by cases auto
qed

lemma cancel_closes:
  assumes "a \<in> set (db_actions (cancel_nonterminal_actions i t db))" and "ar_case_id a = i"
  shows "ar_status a \<notin> open_statuses"
  using assms(1) by (cases rule: cancel_mem) (use assms(2) in auto)

end
