(* ===== verification/Case_Service.thy ===== *)
theory Case_Service
  imports Case_Repository
begin

text \<open>
  The case service, \<open>services/api/app/services/cases.py\<close>: what an operator does to a case (recommend,
  approve, reject, stop, escalate, record a safety disposition), and the simulated payment events of the
  mock mode. Every operation is one transaction: it raises and changes nothing, or it commits.

  The record \<open>case_env\<close> is what the service is constructed with or reads outside: the scorer, the
  time-zone database, SHA-256, the kill switch, whether the provider has payment links and the customer
  agent is configured, the clock and the fresh identifiers. Payloads of events are kept where they are
  read again, in approvals.
\<close>

section \<open>The environment\<close>

record case_env =
  ce_now :: instant
  ce_utc_now :: instant
  ce_action_id :: ident
  ce_policy_id :: ident
  ce_global_kill_switch :: bool
  ce_scorer :: scorer
  ce_zones :: "string \<Rightarrow> timezone option"
  ce_sha256 :: "string \<Rightarrow> string"
  ce_standard_links :: bool
  ce_agent_ready :: bool

definition case_event ::
    "ident \<Rightarrow> string \<Rightarrow> string \<Rightarrow> EvidenceKind \<Rightarrow> jobject option \<Rightarrow> instant \<Rightarrow> ident \<Rightarrow> RecoveryEventRecord" where
  "case_event case_id event_type source kind payload t source_event_id =
     \<lparr>re_case_id = case_id, re_event_type = event_type, re_source = source, re_evidence_kind = kind,
      re_payload = payload, re_occurred_at = t, re_correlation_id = ''corr_'' @ case_id,
      re_source_event_id = Some source_event_id\<rparr>"

definition require_case :: "ident \<Rightarrow> ident \<Rightarrow> 'z database_scheme \<Rightarrow> case_error + RecoveryCase" where
  "require_case m i db = (case get_case m i db of None \<Rightarrow> Inl Case_Not_Found | Some c \<Rightarrow> Inr c)"

definition service_get_case :: "ident \<Rightarrow> ident \<Rightarrow> 'z database_scheme \<Rightarrow> case_error + CaseAggregate" where
  "service_get_case m i db = bindE (get_case_aggregate m i db) (\<lambda>g. case g of
     None \<Rightarrow> Inl Case_Not_Found | Some aggregate \<Rightarrow> Inr aggregate)"

definition require_action :: "ident \<Rightarrow> ident \<Rightarrow> 'z database_scheme \<Rightarrow> case_error + RecoveryActionRecord" where
  "require_action i action_id db =
     (case get_action i action_id db of None \<Rightarrow> Inl Case_Not_Found | Some a \<Rightarrow> Inr a)"

definition get_action_for_command ::
    "ident \<Rightarrow> ident \<Rightarrow> ident \<Rightarrow> 'z database_scheme \<Rightarrow> case_error + RecoveryActionRecord" where
  "get_action_for_command m i action_id db =
     bindE (service_get_case m i db) (\<lambda>_. require_action i action_id db)"

section \<open>The recommendation\<close>

definition policy_config ::
    "case_env \<Rightarrow> Merchant \<Rightarrow> MerchantPolicySetting \<Rightarrow> case_error + SafetyPolicyConfig" where
  "policy_config env merchant settings =
     (case bindE (optional_time (st_quiet_hours_start settings)) (\<lambda>quiet_start.
           bindE (optional_time (st_quiet_hours_end settings)) (\<lambda>quiet_end.
           bindE (traverseE action_of_value (st_require_approval_actions settings)) (\<lambda>actions.
             Inr (quiet_start, quiet_end, actions)))) of
        Inl _ \<Rightarrow> Inl Case_Value_Error
      | Inr (quiet_start, quiet_end, actions) \<Rightarrow>
          (let g = default_config\<lparr>cfg_merchant_timezone := mr_timezone merchant,
                 cfg_quiet_hours_start := quiet_start, cfg_quiet_hours_end := quiet_end,
                 cfg_max_contacts_per_window := st_max_contacts_per_7_days settings,
                 cfg_manual_approval_actions := actions,
                 cfg_manual_approval_above_paise := st_require_approval_above_paise settings,
                 cfg_global_kill_switch := ce_global_kill_switch env,
                 cfg_merchant_kill_switch := st_recovery_kill_switch settings\<rparr>
           in case validate_config (ce_zones env) g of Inl _ \<Rightarrow> Inl Case_Value_Error | Inr g' \<Rightarrow> Inr g'))"

definition decision_model_features :: "case_env \<Rightarrow> CaseAggregate \<Rightarrow> 'z database_scheme \<Rightarrow> features" where
  "decision_model_features env g db =
     (let c = ag_recovery_case g;
          payments = (\<lambda>state. F_int (int (count_payments (rc_merchant_id c) (rc_subscription_id c) state
            (database.truncate db))))
      in [''tenure_days'' \<mapsto> F_int (max ((ce_now env - cu_created_at (ag_customer g)) div days 1) 0),
          ''prior_successful_payments'' \<mapsto> payments Pay_CAPTURED,
          ''failed_attempt_count'' \<mapsto> payments Pay_FAILED,
          ''payment_method'' \<mapsto> (case ag_failed_payment g of None \<Rightarrow> F_none
             | Some p \<Rightarrow> (case pa_method p of None \<Rightarrow> F_none | Some s \<Rightarrow> F_str s)),
          ''plan_name'' \<mapsto> F_str (sb_plan_name (ag_subscription g))])"

definition service_decision_context :: "case_env \<Rightarrow> CaseAggregate \<Rightarrow> 'z database_scheme \<Rightarrow> RecoveryDecisionContext" where
  "service_decision_context env g db =
     (let c = ag_recovery_case g in
      \<lparr>dc_case_id = rc_id c, dc_amount_at_risk_paise = rc_amount_at_risk_paise c,
       dc_diagnosis = rc_diagnosis c, dc_case_outcome = rc_case_outcome c,
       dc_payment_state = rc_payment_state c, dc_subscription_state = rc_subscription_state c,
       dc_contact_disposition = rc_contact_disposition c,
       dc_recovery_deadline = Aware (rc_recovery_deadline c) 0, dc_now = Aware (ce_now env) 0,
       dc_has_failed_invoice = (ag_invoice g \<noteq> None),
       dc_active_gateway_retries = (rc_subscription_state c = Sub_PENDING),
       dc_standard_payment_link_available = ce_standard_links env,
       dc_voice_action_available = False,
       dc_voice_consent = (cu_voice_consent_at (ag_customer g) \<noteq> None),
       dc_voice_destination_available = (cu_phone_token (ag_customer g) \<noteq> None),
       dc_customer_agent_action_available = ce_agent_ready env,
       dc_customer_agent_available = cu_customer_agent_available (ag_customer g),
       dc_model_features = Some (decision_model_features env g db)\<rparr>)"

definition requested_context ::
    "case_env \<Rightarrow> RecoveryCase \<Rightarrow> RecoveryActionType \<Rightarrow> PaymentSurfaceType option \<Rightarrow> SafetyPolicyContext" where
  "requested_context env c action surface =
     \<lparr>ctx_now = Aware (ce_now env) 0, ctx_recovery_deadline = Aware (rc_recovery_deadline c) 0,
      ctx_case_outcome = rc_case_outcome c, ctx_payment_state = rc_payment_state c,
      ctx_subscription_state = rc_subscription_state c, ctx_contact_disposition = rc_contact_disposition c,
      ctx_action = action, ctx_payment_surface_type = surface,
      ctx_amount_at_risk_paise = rc_amount_at_risk_paise c,
      ctx_active_gateway_retries = (rc_subscription_state c = Sub_PENDING),
      ctx_contact_attempts_in_window = 0, ctx_contact_limit_resets_at = None\<rparr>"

text \<open>
  The action with its decision: ranked by the engine, or evaluated for the action an operator asks for.
\<close>

definition choose_action ::
    "case_env \<Rightarrow> CaseAggregate \<Rightarrow> SafetyPolicyConfig \<Rightarrow> RecoveryActionType option \<Rightarrow> PaymentSurfaceType option
     \<Rightarrow> 'z database_scheme \<Rightarrow> case_error + RecoveryActionType \<times> PaymentSurfaceType option \<times> PolicyDecision" where
  "choose_action env g config action_type surface db = (case action_type of
     None \<Rightarrow>
       (case bindE (validate_decision_context (service_decision_context env g db))
               (\<lambda>x. decide (ce_zones env) (ce_scorer env) x config) of
          Inl _ \<Rightarrow> Inl Case_Decision_Error
        | Inr ranked \<Rightarrow> Inr (rec_action (dr_recommendation ranked),
            rec_payment_surface_type (dr_recommendation ranked), dr_policy ranked))
   | Some action \<Rightarrow>
       if (action = OPEN_CUSTOMER_PAYMENT_SURFACE) \<noteq> (surface \<noteq> None)
       then Inl (Case_Conflict ''Payment surface type must be set only for customer payment surface actions.'')
       else (case bindE (validate_context (requested_context env (ag_recovery_case g) action surface))
               (\<lambda>c. evaluate_safety_policy (ce_zones env) c config) of
           Inl _ \<Rightarrow> Inl Case_Value_Error
         | Inr d \<Rightarrow> (case validate_policy_decision (to_contract d) of
             Inl _ \<Rightarrow> Inl Case_Value_Error | Inr decision \<Rightarrow> Inr (action, surface, decision))))"

definition recommendation_key :: "ident \<Rightarrow> RecoveryActionType \<Rightarrow> PaymentSurfaceType option \<Rightarrow> string" where
  "recommendation_key case_id action surface =
     ''case:'' @ case_id @ '':action:'' @ action_value action @ '':surface:''
     @ (case surface of None \<Rightarrow> ''none'' | Some s \<Rightarrow> surface_value s)"

definition recommended_action ::
    "case_env \<Rightarrow> ident \<Rightarrow> RecoveryActionType \<Rightarrow> PaymentSurfaceType option \<Rightarrow> PolicyDecision \<Rightarrow> RecoveryActionRecord" where
  "recommended_action env case_id action surface decision =
     \<lparr>ar_id = ce_action_id env, ar_case_id = case_id, ar_action_type = action, ar_payment_surface_type = surface,
      ar_status = action_status_for (pd_disposition decision),
      ar_idempotency_key = recommendation_key case_id action surface,
      ar_scheduled_for = pd_delay_until decision, ar_external_reference = None, ar_customer_url = None,
      ar_completed_at = (if pd_disposition decision = BLOCK then Some (ce_now env) else None),
      ar_created_at = ce_utc_now env, ar_updated_at = ce_utc_now env\<rparr>"

definition recommended_policy :: "case_env \<Rightarrow> ident \<Rightarrow> PolicyDecision \<Rightarrow> PolicyDecisionRecord" where
  "recommended_policy env case_id decision =
     \<lparr>pr_id = ce_policy_id env, pr_case_id = case_id, pr_action_id = None,
      pr_disposition = pd_disposition decision, pr_decision_code = pd_decision_code decision,
      pr_reason_codes = pd_reason_codes decision, pr_reasons = pd_reasons decision,
      pr_policy_version = pd_policy_version decision, pr_delay_until = pd_delay_until decision,
      pr_created_at = ce_utc_now env\<rparr>"

definition existing_recommendation ::
    "RecoveryActionRecord \<Rightarrow> 'z database_scheme
     \<Rightarrow> case_error + (RecoveryActionRecord \<times> PolicyDecisionRecord) \<times> 'z database_scheme" where
  "existing_recommendation a db = (case get_policy_for_action (ar_id a) db of
     None \<Rightarrow> Inl (Case_Runtime_Error ''persisted recovery action has no policy decision'')
   | Some p \<Rightarrow> Inr ((a, p), db))"

definition store_recommendation ::
    "case_env \<Rightarrow> ident \<Rightarrow> RecoveryActionType \<Rightarrow> PaymentSurfaceType option \<Rightarrow> PolicyDecision \<Rightarrow> 'z database_scheme
     \<Rightarrow> case_error + (RecoveryActionRecord \<times> PolicyDecisionRecord) \<times> 'z database_scheme" where
  "store_recommendation env case_id action surface decision db =
     (case get_action_by_idempotency_key (recommendation_key case_id action surface) db of
        Some a \<Rightarrow> existing_recommendation a db
      | None \<Rightarrow>
          (let a = recommended_action env case_id action surface decision;
               p = recommended_policy env case_id decision
           in bindE (add_action_with_policy a p db) (\<lambda>db1.
             Inr ((a, p\<lparr>pr_action_id := Some (ar_id a)\<rparr>), snd (add_event
               (case_event case_id ''ACTION_RECOMMENDED'' ''decision-engine'' Ev_SYSTEM_DERIVED None (ce_now env)
                 (''recommendation:'' @ ar_id a)) db1)))))"

definition recommend_action ::
    "case_env \<Rightarrow> ident \<Rightarrow> ident \<Rightarrow> RecoveryActionType option \<Rightarrow> PaymentSurfaceType option \<Rightarrow> 'z database_scheme
     \<Rightarrow> case_error + (RecoveryActionRecord \<times> PolicyDecisionRecord) \<times> 'z database_scheme" where
  "recommend_action env m i action_type surface db =
     bindE (service_get_case m i db) (\<lambda>g.
       case (action_type, ag_latest_action g) of
         (None, Some a) \<Rightarrow> existing_recommendation a db
       | _ \<Rightarrow> (case get_merchant_policy_settings m db of
           None \<Rightarrow> Inl Case_Not_Found
         | Some (merchant, settings) \<Rightarrow>
             bindE (policy_config env merchant settings) (\<lambda>config.
             bindE (choose_action env g config action_type surface db) (\<lambda>(action, surface', decision).
               store_recommendation env i action surface' decision db))))"

section \<open>Approval and rejection\<close>

definition approval_payload :: "RecoveryActionRecord \<Rightarrow> jobject" where
  "approval_payload a = [(''action_id'', JStr (ar_id a)),
     (''action_type'', JStr (action_value (ar_action_type a))), (''execution_owner'', JStr ''temporal'')]"

definition approve_action ::
    "case_env \<Rightarrow> ident \<Rightarrow> ident \<Rightarrow> ident \<Rightarrow> 'z database_scheme
     \<Rightarrow> case_error + RecoveryActionRecord \<times> 'z database_scheme" where
  "approve_action env m i action_id db =
     bindE (service_get_case m i db) (\<lambda>g.
     bindE (require_action i action_id db) (\<lambda>a.
       if ar_status a \<noteq> Act_AWAITING_APPROVAL
       then Inl (Case_Conflict ''Only the current approval-pending action can be approved.'')
       else if ar_action_type a = OPEN_CUSTOMER_PAYMENT_SURFACE
           \<and> (ar_payment_surface_type a = None \<or> ag_invoice g = None)
       then Inl (Case_Conflict ''The recovery case has no payable failed invoice.'')
       else let a' = a\<lparr>ar_status := Act_SCHEDULED, ar_completed_at := None, ar_updated_at := ce_utc_now env\<rparr> in
         Inr (a', snd (add_event
           (case_event i ''ACTION_APPROVED'' ''operator'' Ev_SYSTEM_DERIVED (Some (approval_payload a)) (ce_now env)
             (''approval:'' @ ar_id a)) (db\<lparr>db_actions := save_row ar_id a' (db_actions db)\<rparr>)))))"

definition reject_action ::
    "case_env \<Rightarrow> ident \<Rightarrow> ident \<Rightarrow> ident \<Rightarrow> 'z database_scheme
     \<Rightarrow> case_error + RecoveryActionRecord \<times> 'z database_scheme" where
  "reject_action env m i action_id db =
     bindE (service_get_case m i db) (\<lambda>_.
     bindE (require_action i action_id db) (\<lambda>a.
       if ar_status a = Act_CANCELLED then Inr (a, db)
       else if ar_status a \<notin> {Act_PROPOSED, Act_AWAITING_APPROVAL, Act_SCHEDULED}
       then Inl (Case_Conflict ''This recovery action can no longer be rejected.'')
       else let a' = a\<lparr>ar_status := Act_CANCELLED, ar_completed_at := Some (ce_now env), ar_updated_at := ce_utc_now env\<rparr> in
         Inr (a', snd (add_event
           (case_event i ''ACTION_REJECTED'' ''operator'' Ev_SYSTEM_DERIVED None (ce_now env) (''rejection:'' @ ar_id a))
           (db\<lparr>db_actions := save_row ar_id a' (db_actions db)\<rparr>)))))"

section \<open>Closing a case\<close>

definition terminal_conflict :: case_error where
  "terminal_conflict = Case_Conflict ''The recovery case is already terminal.''"

definition stop_case ::
    "case_env \<Rightarrow> ident \<Rightarrow> ident \<Rightarrow> 'z database_scheme \<Rightarrow> case_error + RecoveryCase \<times> 'z database_scheme" where
  "stop_case env m i db = bindE (require_case m i db) (\<lambda>c.
     if rc_case_outcome c = Case_STOPPED then Inr (c, db)
     else if rc_case_outcome c \<noteq> Case_OPEN then Inl terminal_conflict
     else let c' = c\<lparr>rc_case_outcome := Case_STOPPED, rc_version := rc_version c + 1\<rparr> in
       Inr (c', snd (add_event
         (case_event i ''CASE_STOPPED'' ''operator'' Ev_SYSTEM_DERIVED None (ce_now env)
           (''stop:'' @ i @ '':'' @ int_str (rc_version c')))
         (cancel_nonterminal_actions i (ce_now env) (save_case c' db)))))"

definition escalation_action :: "case_env \<Rightarrow> RecoveryCase \<Rightarrow> RecoveryActionRecord" where
  "escalation_action env c =
     \<lparr>ar_id = ce_action_id env, ar_case_id = rc_id c, ar_action_type = ESCALATE_TO_HUMAN,
      ar_payment_surface_type = None, ar_status = Act_SUCCEEDED,
      ar_idempotency_key = ''case:'' @ rc_id c @ '':escalation:'' @ int_str (rc_version c),
      ar_scheduled_for = None, ar_external_reference = None, ar_customer_url = None,
      ar_completed_at = Some (ce_now env), ar_created_at = ce_utc_now env, ar_updated_at = ce_utc_now env\<rparr>"

definition escalation_policy :: "case_env \<Rightarrow> RecoveryCase \<Rightarrow> string \<Rightarrow> PolicyDecisionRecord" where
  "escalation_policy env c reason =
     \<lparr>pr_id = ce_policy_id env, pr_case_id = rc_id c, pr_action_id = None, pr_disposition = ALLOW,
      pr_decision_code = ''OPERATOR_ESCALATION'', pr_reason_codes = [''OPERATOR_ESCALATION''], pr_reasons = [reason],
      pr_policy_version = ''operator.v1'', pr_delay_until = None, pr_created_at = ce_utc_now env\<rparr>"

definition escalate_case ::
    "case_env \<Rightarrow> ident \<Rightarrow> ident \<Rightarrow> string \<Rightarrow> 'z database_scheme \<Rightarrow> case_error + RecoveryCase \<times> 'z database_scheme" where
  "escalate_case env m i reason db = bindE (require_case m i db) (\<lambda>c.
     if rc_case_outcome c = Case_ESCALATED then Inr (c, db)
     else if rc_case_outcome c \<noteq> Case_OPEN then Inl terminal_conflict
     else let c' = c\<lparr>rc_case_outcome := Case_ESCALATED, rc_version := rc_version c + 1\<rparr>;
              a = escalation_action env c' in
       bindE (add_action_with_policy a (escalation_policy env c' reason) (save_case c' db)) (\<lambda>db1.
       Inr (c', snd (add_event
         (case_event i ''CASE_ESCALATED'' ''operator'' Ev_SYSTEM_DERIVED None (ce_now env) (''escalation:'' @ ar_id a))
         (cancel_nonterminal_actions i (ce_now env) db1)))))"

fun terminal_outcome :: "ContactDisposition \<Rightarrow> CaseOutcome option" where
  "terminal_outcome DISPUTE = Some Case_DISPUTED"
| "terminal_outcome OPTED_OUT = Some Case_STOPPED"
| "terminal_outcome WRONG_PERSON = Some Case_STOPPED"
| "terminal_outcome ALREADY_PAID = Some Case_ESCALATED"
| "terminal_outcome _ = None"

definition mark_opted_out ::
    "instant \<Rightarrow> ContactDisposition \<Rightarrow> ident \<Rightarrow> 'z database_scheme \<Rightarrow> case_error + 'z database_scheme" where
  "mark_opted_out t disposition customer_id db =
     (if disposition \<noteq> OPTED_OUT then Inr db
      else if find (\<lambda>u. cu_id u = customer_id) (db_customers db) = None
      then Inl (Case_Runtime_Error ''recovery case has a missing customer'')
      else Inr (db\<lparr>db_customers := update_where (\<lambda>u. cu_id u = customer_id)
        (\<lambda>u. u\<lparr>cu_opted_out_at := Some t\<rparr>) (db_customers db)\<rparr>))"

definition record_safety_disposition ::
    "case_env \<Rightarrow> ident \<Rightarrow> ident \<Rightarrow> ContactDisposition \<Rightarrow> 'z database_scheme
     \<Rightarrow> case_error + RecoveryCase \<times> 'z database_scheme" where
  "record_safety_disposition env m i disposition db = (case terminal_outcome disposition of
     None \<Rightarrow> Inl (Case_Conflict ''This contact disposition is not a safety terminal.'')
   | Some target \<Rightarrow> bindE (require_case m i db) (\<lambda>c.
       if rc_case_outcome c \<noteq> Case_OPEN
       then if rc_case_outcome c = target \<and> rc_contact_disposition c = disposition then Inr (c, db)
         else Inl terminal_conflict
       else let c' = c\<lparr>rc_contact_disposition := disposition, rc_case_outcome := target, rc_version := rc_version c + 1\<rparr> in
         bindE (mark_opted_out (ce_now env) disposition (rc_customer_id c) (save_case c' db)) (\<lambda>db1.
         Inr (c', snd (add_event
           (case_event i (''SAFETY_'' @ contact_value disposition) ''operator'' Ev_SYSTEM_DERIVED None (ce_now env)
             (''safety:'' @ i @ '':'' @ contact_value disposition))
           (cancel_nonterminal_actions i (ce_now env) db1))))))"

section \<open>Simulated payment events\<close>

record PaymentSuccessResult =
  sr_recovery_case :: RecoveryCase
  sr_newly_recognized :: bool
  sr_recognized_amount_paise :: paise

definition mock_payment :: "case_env \<Rightarrow> RecoveryCase \<Rightarrow> ident \<Rightarrow> ident \<Rightarrow> paise \<Rightarrow> PaymentAttempt" where
  "mock_payment env c invoice_id event_id amount =
     \<lparr>pa_id = ''pay_mock_'' @ take 24 (ce_sha256 env event_id), pa_merchant_id = rc_merchant_id c,
      pa_invoice_id = invoice_id, pa_subscription_id = rc_subscription_id c,
      pa_provider_payment_id = Some (''mock_'' @ take 32 (ce_sha256 env event_id)), pa_amount_paise = amount,
      pa_currency = ''INR'', pa_payment_state = Pay_CAPTURED, pa_method = Some ''mock'', pa_error_code = None,
      pa_error_source = None, pa_error_step = None, pa_error_reason = None, pa_occurred_at = ce_now env\<rparr>"

definition mock_recognition :: "case_env \<Rightarrow> RecoveryCase \<Rightarrow> ident \<Rightarrow> ident \<Rightarrow> paise \<Rightarrow> bool \<Rightarrow> RevenueRecognitionRecord" where
  "mock_recognition env c payment_id event_id amount reactivated =
     \<lparr>rg_case_id = rc_id c, rg_merchant_id = rc_merchant_id c, rg_payment_attempt_id = Some payment_id,
      rg_provider = ''mock'', rg_provider_event_id = event_id, rg_amount_paise = amount,
      rg_attribution = Attr_SIMULATED, rg_arrears_collected = True, rg_subscription_reactivated = reactivated,
      rg_recognized_at = ce_now env\<rparr>"

definition mock_captured_case :: "case_env \<Rightarrow> paise \<Rightarrow> bool \<Rightarrow> RecoveryCase \<Rightarrow> RecoveryCase" where
  "mock_captured_case env amount reactivated c =
     (let collected = rc_arrears_collected_paise c + amount;
          recovered = (collected \<ge> rc_amount_at_risk_paise c)
      in c\<lparr>rc_arrears_collected_paise := collected, rc_revenue_attribution := Attr_SIMULATED,
           rc_case_recovered := recovered, rc_payment_state := Pay_CAPTURED,
           rc_subscription_reactivated := reactivated,
           rc_case_outcome := (if recovered then Case_RECOVERED else Case_PARTIALLY_RECOVERED),
           rc_recovered_at := Some (ce_now env), rc_version := rc_version c + 1\<rparr>)"

definition recognize_mock_success ::
    "case_env \<Rightarrow> RecoveryCase \<Rightarrow> ident \<Rightarrow> ident \<Rightarrow> paise \<Rightarrow> bool \<Rightarrow> 'z database_scheme
     \<Rightarrow> PaymentSuccessResult \<times> 'z database_scheme" where
  "recognize_mock_success env c payment_id event_id amount reactivated db =
     (let (fresh, db1) = recognize_revenue_once (mock_recognition env c payment_id event_id amount reactivated) db;
          c' = mock_captured_case env amount reactivated c
      in if fresh
         then (\<lparr>sr_recovery_case = c', sr_newly_recognized = True, sr_recognized_amount_paise = amount\<rparr>,
           snd (add_event (case_event (rc_id c) ''PAYMENT_CAPTURED'' ''mock-payment-provider'' Ev_SIMULATED None
               (ce_now env) event_id)
             (cancel_nonterminal_actions (rc_id c) (ce_now env) (save_case c' db1))))
         else (\<lparr>sr_recovery_case = c, sr_newly_recognized = False, sr_recognized_amount_paise = amount\<rparr>, db1))"

definition apply_mock_payment_success ::
    "case_env \<Rightarrow> ident \<Rightarrow> ident \<Rightarrow> ident \<Rightarrow> paise option \<Rightarrow> bool \<Rightarrow> 'z database_scheme
     \<Rightarrow> case_error + PaymentSuccessResult \<times> 'z database_scheme" where
  "apply_mock_payment_success env m i event_id amount_paise reactivated db = bindE (require_case m i db) (\<lambda>c.
     case find_revenue_recognition m ''mock'' event_id db of
       Some g \<Rightarrow> Inr (\<lparr>sr_recovery_case = c, sr_newly_recognized = False,
         sr_recognized_amount_paise = rg_amount_paise g\<rparr>, db)
     | None \<Rightarrow>
         (let remaining = rc_amount_at_risk_paise c - rc_arrears_collected_paise c;
              amount = (case amount_paise of None \<Rightarrow> remaining | Some n \<Rightarrow> n)
          in if remaining \<le> 0 then Inl Case_Already_Recovered
             else if amount \<le> 0 \<or> amount > remaining
             then Inl (Case_Conflict ''Mock success amount must be positive and no greater than remaining arrears.'')
             else case rc_failed_invoice_id c of
               None \<Rightarrow> Inl (Case_Conflict ''Mock success requires a correlated failed invoice.'')
             | Some invoice_id \<Rightarrow>
                 (let p = mock_payment env c invoice_id event_id amount in
                  bindE (add_payment_attempt p db) (\<lambda>db1.
                  bindE (add_invoice_collection invoice_id amount db1) (\<lambda>db2.
                    Inr (recognize_mock_success env c (pa_id p) event_id amount reactivated db2))))))"

definition apply_late_failure_event ::
    "case_env \<Rightarrow> ident \<Rightarrow> ident \<Rightarrow> ident \<Rightarrow> 'z database_scheme \<Rightarrow> case_error + bool \<times> 'z database_scheme" where
  "apply_late_failure_event env m i event_id db = bindE (require_case m i db) (\<lambda>c.
     let (inserted, db1) = add_event (case_event i ''PAYMENT_FAILED'' ''mock-payment-provider'' Ev_SIMULATED None
           (ce_now env) event_id) db
     in Inr (inserted, if inserted \<and> rc_payment_state c \<noteq> Pay_CAPTURED
       then save_case (c\<lparr>rc_payment_state := Pay_FAILED, rc_version := rc_version c + 1\<rparr>) db1 else db1))"

section \<open>Commands\<close>

datatype case_command = Recommend "RecoveryActionType option" "PaymentSurfaceType option" | Approve ident | Reject ident
  | Stop_Case | Escalate string | Record_Disposition ContactDisposition
  | Mock_Success ident "paise option" bool | Late_Failure ident

fun run_command ::
    "case_env \<Rightarrow> ident \<Rightarrow> ident \<Rightarrow> case_command \<Rightarrow> 'z database_scheme \<Rightarrow> case_error + 'z database_scheme" where
  "run_command env m i (Recommend a s) db = bindE (recommend_action env m i a s db) (\<lambda>(_, db'). Inr db')"
| "run_command env m i (Approve a) db = bindE (approve_action env m i a db) (\<lambda>(_, db'). Inr db')"
| "run_command env m i (Reject a) db = bindE (reject_action env m i a db) (\<lambda>(_, db'). Inr db')"
| "run_command env m i Stop_Case db = bindE (stop_case env m i db) (\<lambda>(_, db'). Inr db')"
| "run_command env m i (Escalate reason) db = bindE (escalate_case env m i reason db) (\<lambda>(_, db'). Inr db')"
| "run_command env m i (Record_Disposition d) db = bindE (record_safety_disposition env m i d db) (\<lambda>(_, db'). Inr db')"
| "run_command env m i (Mock_Success e n r) db = bindE (apply_mock_payment_success env m i e n r db) (\<lambda>(_, db'). Inr db')"
| "run_command env m i (Late_Failure e) db = bindE (apply_late_failure_event env m i e db) (\<lambda>(_, db'). Inr db')"

text \<open>The database after a request: that of the commit, or the old one when the command raises.\<close>

definition after_command :: "case_env \<Rightarrow> ident \<Rightarrow> ident \<Rightarrow> case_command \<Rightarrow> 'z database_scheme \<Rightarrow> 'z database_scheme" where
  "after_command env m i cmd db = (case run_command env m i cmd db of Inl _ \<Rightarrow> db | Inr db' \<Rightarrow> db')"

end
