(* ===== verification/Case_Safety.thy ===== *)
theory Case_Safety
  imports Case_Service Action_Safety Webhook_Ledger
begin

text \<open>
  What the case service guarantees, alone and together with the webhook processor and the worker:
  a closed case has no open action that reaches the customer, the books balance under any
  sequence of webhook messages and commands, and the commands of operators are steps of the machine
  of concurrent executions, so an action is still submitted blindly at most once. What goes wrong: a
  command that closes a case takes a payment link that is being opened out of the reach of its
  revocation.

  The locale \<open>command_log\<close> is the contract of a family of transactions with an invariant.
\<close>

section \<open>Sequences of transactions\<close>

definition run_log :: "('c \<Rightarrow> 's \<Rightarrow> 'e + 's) \<Rightarrow> 'c list \<Rightarrow> 's \<Rightarrow> 's" where
  "run_log run cmds s = fold (\<lambda>c s. case run c s of Inl _ \<Rightarrow> s | Inr s' \<Rightarrow> s') cmds s"

locale command_log =
  fixes run :: "'c \<Rightarrow> 's \<Rightarrow> 'e + 's" and valid :: "'s \<Rightarrow> bool"
  assumes run_keeps: "valid s \<Longrightarrow> run c s = Inr s' \<Longrightarrow> valid s'"
begin

lemma log_keeps: "valid s \<Longrightarrow> valid (run_log run cmds s)"
proof (induction cmds arbitrary: s)
  case (Cons c cmds)
  then have "valid (case run c s of Inl _ \<Rightarrow> s | Inr s' \<Rightarrow> s')"
    by (auto dest: run_keeps split: sum.splits)
  with Cons.IH show ?case by (simp add: run_log_def)
qed (simp add: run_log_def)

end

section \<open>What the operations do\<close>

lemma require_case_Inr: "require_case m i db = Inr c \<longleftrightarrow> get_case m i db = Some c"
  by (auto simp: require_case_def split: option.splits)

lemma require_action_Inr: "require_action i a db = Inr x \<longleftrightarrow> get_action i a db = Some x"
  by (auto simp: require_action_def split: option.splits)

lemma service_get_case_Inr: "service_get_case m i db = Inr g \<longleftrightarrow> get_case_aggregate m i db = Inr (Some g)"
  by (auto simp: service_get_case_def bindE_eq_Inr split: option.splits)

lemmas service_simps = require_case_Inr require_action_Inr service_get_case_Inr bindE_eq_Inr

text \<open>An action that is not blocked belongs to an open case, unless it only ends the recovery.\<close>

lemma evaluate_open:
  assumes "evaluate_safety_policy zones c g = Inr d" and "sd_disposition d \<noteq> BLOCK"
    and "ctx_action c \<notin> TERMINAL_CONTROL_ACTIONS"
  shows "ctx_case_outcome c = Case_OPEN"
  using assms(1) by (cases rule: evaluate_cases) (use assms(2,3) in \<open>simp_all add: early_rule_None\<close>)

lemma choose_action_open:
  assumes "choose_action env g config asked sf db = Inr (action, surface, decision)"
    and "pd_disposition decision \<noteq> BLOCK" and "action \<notin> TERMINAL_CONTROL_ACTIONS"
  shows "rc_case_outcome (ag_recovery_case g) = Case_OPEN"
proof (cases asked)
  case None
  define x where "x = service_decision_context env g db"
  with assms(1) None obtain x' r where r: "validate_decision_context x = Inr x'"
    "decide (ce_zones env) (ce_scorer env) x' config = Inr r"
    "action = rec_action (dr_recommendation r)" "decision = dr_policy r"
    by (auto simp: choose_action_def bindE_eq_Inr split: sum.splits)
  obtain k s where k: "rec_action (dr_recommendation r) = cand_action_type k"
    "evaluate_safety_policy (ce_zones env) (policy_context x' k) config = Inr s" "dr_policy r = to_contract s"
    using decide_selected [OF r(2)] by metis
  have "ctx_case_outcome (policy_context x' k) = Case_OPEN"
    using evaluate_open [OF k(2)] assms(2,3) r(3,4) k(1,3) by (simp add: policy_context_def)
  moreover have "x' = x"
    using r(1) by (auto simp: validate_decision_context_def bindE_eq_Inr split: if_splits)
  ultimately show ?thesis by (simp add: policy_context_def x_def service_decision_context_def Let_def)
next
  case (Some a)
  let ?c = "requested_context env (ag_recovery_case g) a sf"
  have valid: "validate_context ?c = Inr c \<Longrightarrow> c = ?c" for c
    by (auto simp: validate_context_def bindE_eq_Inr split: if_splits)
  from assms(1) Some obtain c d where c: "validate_context ?c = Inr c"
    and d: "evaluate_safety_policy (ce_zones env) c config = Inr d"
      "validate_policy_decision (to_contract d) = Inr decision" "action = a"
    by (auto simp: choose_action_def bindE_eq_Inr split: sum.splits if_splits)
  note d = d [unfolded valid [OF c]]
  have "decision = to_contract d"
    using d(2) by (auto simp: validate_policy_decision_def split: if_splits)
  then show ?thesis
    using evaluate_open [OF d(1)] assms(2,3) d(3) by (simp add: requested_context_def)
qed

lemma recommend_action_cases:
  assumes "recommend_action env m i asked sf db = Inr (r, db')"
  obtains (same) "db' = db"
  | (stored) c action surface decision e db1 where "get_case m i db = Some c"
      "pd_disposition decision \<noteq> BLOCK \<Longrightarrow> action \<notin> TERMINAL_CONTROL_ACTIONS \<Longrightarrow> rc_case_outcome c = Case_OPEN"
      "add_action_with_policy (recommended_action env i action surface decision)
         (recommended_policy env i decision) db = Inr db1"
      "db' = snd (add_event e db1)"
proof -
  obtain g where g: "get_case_aggregate m i db = Inr (Some g)"
    using assms by (auto simp: recommend_action_def service_simps)
  have ex: "db' = db" if "existing_recommendation a db = Inr (r, db')" for a
    using that by (auto simp: existing_recommendation_def split: option.splits)
  show thesis
  proof (cases "asked = None \<and> ag_latest_action g \<noteq> None")
    case True
    with assms g show ?thesis
      by (intro same) (auto simp: recommend_action_def service_get_case_def intro: ex)
  next
    case False
    with assms g obtain merchant settings config action surface decision where
      d: "choose_action env g config asked sf db = Inr (action, surface, decision)"
        "store_recommendation env i action surface decision db = Inr (r, db')"
      by (auto simp: recommend_action_def service_get_case_def bindE_eq_Inr split: option.splits)
    show ?thesis
    proof (cases "get_action_by_idempotency_key (recommendation_key i action surface) db")
      case (Some a)
      with d(2) show ?thesis by (intro same) (auto simp: store_recommendation_def intro: ex)
    next
      case None
      with d(2) obtain db1 e where "add_action_with_policy (recommended_action env i action surface decision)
          (recommended_policy env i decision) db = Inr db1" "db' = snd (add_event e db1)"
        by (auto simp: store_recommendation_def Let_def bindE_eq_Inr)
      then show ?thesis
        using stored [of "ag_recovery_case g" decision action] aggregate_Some(1) [OF g] choose_action_open [OF d(1)]
        by blast
    qed
  qed
qed

lemma approve_action_Inr:
  assumes "approve_action env m i x db = Inr (a', db')"
  obtains a e where "get_action i x db = Some a" "ar_status a = Act_AWAITING_APPROVAL"
    "a' = a\<lparr>ar_status := Act_SCHEDULED, ar_completed_at := None, ar_updated_at := ce_utc_now env\<rparr>"
    "db' = snd (add_event e (db\<lparr>db_actions := save_row ar_id a' (db_actions db)\<rparr>))"
  using assms by (auto simp: approve_action_def service_simps Let_def split: if_splits)

lemma reject_action_cases:
  assumes "reject_action env m i x db = Inr (a', db')"
  obtains (same) "db' = db"
  | (rejected) a e where "get_action i x db = Some a"
      "a' = a\<lparr>ar_status := Act_CANCELLED, ar_completed_at := Some (ce_now env), ar_updated_at := ce_utc_now env\<rparr>"
      "db' = snd (add_event e (db\<lparr>db_actions := save_row ar_id a' (db_actions db)\<rparr>))"
proof -
  obtain a where a: "get_action i x db = Some a" using assms by (auto simp: reject_action_def service_simps)
  show thesis
  proof (cases "ar_status a = Act_CANCELLED")
    case True
    with assms a show ?thesis by (intro same) (auto simp: reject_action_def service_simps)
  next
    case False
    with assms a show ?thesis
      by (intro rejected [OF a]) (auto simp: reject_action_def service_simps Let_def split: if_splits)
  qed
qed

text \<open>The commands that close a case save it, perhaps add an action that has succeeded, and cancel what is open.\<close>

lemma stop_case_cases:
  assumes "stop_case env m i db = Inr (c', db')"
  obtains (same) "db' = db"
  | (closed) c e where "get_case m i db = Some c" "rc_case_outcome c = Case_OPEN"
      "c' = c\<lparr>rc_case_outcome := Case_STOPPED, rc_version := rc_version c + 1\<rparr>"
      "db' = snd (add_event e (cancel_nonterminal_actions i (ce_now env) (save_case c' db)))"
proof -
  obtain c where c: "get_case m i db = Some c" using assms by (auto simp: stop_case_def service_simps)
  show thesis
  proof (cases "rc_case_outcome c = Case_OPEN")
    case True
    with assms c show ?thesis by (intro closed [OF c True]) (auto simp: stop_case_def service_simps Let_def)
  next
    case False
    with assms c show ?thesis
      by (intro same) (auto simp: stop_case_def service_simps split: if_splits)
  qed
qed

lemma escalate_case_cases:
  assumes "escalate_case env m i reason db = Inr (c', db')"
  obtains (same) "db' = db"
  | (closed) c e db1 where "get_case m i db = Some c"
      "c' = c\<lparr>rc_case_outcome := Case_ESCALATED, rc_version := rc_version c + 1\<rparr>"
      "add_action_with_policy (escalation_action env c') (escalation_policy env c' reason) (save_case c' db) = Inr db1"
      "db' = snd (add_event e (cancel_nonterminal_actions i (ce_now env) db1))"
proof -
  obtain c where c: "get_case m i db = Some c" using assms by (auto simp: escalate_case_def service_simps)
  show thesis
  proof (cases "rc_case_outcome c = Case_OPEN")
    case True
    let ?c = "c\<lparr>rc_case_outcome := Case_ESCALATED, rc_version := rc_version c + 1\<rparr>"
    from True assms c obtain db1 where "add_action_with_policy (escalation_action env ?c) (escalation_policy env ?c reason) (save_case ?c db) = Inr db1"
      "c' = ?c" "\<exists>e. db' = snd (add_event e (cancel_nonterminal_actions i (ce_now env) db1))"
      by (auto simp: escalate_case_def service_simps Let_def)
    then show ?thesis using closed [OF c] by blast
  next
    case False
    with assms c show ?thesis
      by (intro same) (auto simp: escalate_case_def service_simps split: if_splits)
  qed
qed

lemma mark_opted_out_tables:
  assumes "mark_opted_out t d u db = Inr db'"
  shows "db_cases db' = db_cases db" "db_actions db' = db_actions db" "db_policies db' = db_policies db"
    "db_invoices db' = db_invoices db" "db_revenue db' = db_revenue db"
  using assms by (auto simp: mark_opted_out_def split: if_splits)

lemma record_safety_disposition_cases:
  assumes "record_safety_disposition env m i d db = Inr (c', db')"
  obtains (same) "db' = db"
  | (closed) c e target db1 where "get_case m i db = Some c" "terminal_outcome d = Some target"
      "c' = c\<lparr>rc_contact_disposition := d, rc_case_outcome := target, rc_version := rc_version c + 1\<rparr>"
      "mark_opted_out (ce_now env) d (rc_customer_id c) (save_case c' db) = Inr db1"
      "db' = snd (add_event e (cancel_nonterminal_actions i (ce_now env) db1))"
proof -
  obtain c target where c: "get_case m i db = Some c" "terminal_outcome d = Some target"
    using assms by (auto simp: record_safety_disposition_def service_simps split: option.splits)
  show thesis
  proof (cases "rc_case_outcome c = Case_OPEN")
    case True
    let ?c = "c\<lparr>rc_contact_disposition := d, rc_case_outcome := target, rc_version := rc_version c + 1\<rparr>"
    from True assms c obtain db1 where "mark_opted_out (ce_now env) d (rc_customer_id c) (save_case ?c db) = Inr db1"
      "c' = ?c" "\<exists>e. db' = snd (add_event e (cancel_nonterminal_actions i (ce_now env) db1))"
      by (auto simp: record_safety_disposition_def service_simps Let_def)
    then show ?thesis using closed [OF c] by blast
  next
    case False
    with assms c show ?thesis
      by (intro same) (auto simp: record_safety_disposition_def service_simps split: if_splits)
  qed
qed

lemma recognize_mock_success_cases:
  assumes "recognize_mock_success env c payment_id event_id amount reactivated db = (r, db')"
  obtains (known) "db' = db"
  | (fresh) e where
      "\<forall>x \<in> set (db_revenue db). \<not> revenue_clash (mock_recognition env c payment_id event_id amount reactivated) x"
      "db' = snd (add_event e (cancel_nonterminal_actions (rc_id c) (ce_now env)
         (save_case (mock_captured_case env amount reactivated c)
           (db\<lparr>db_revenue := db_revenue db @ [mock_recognition env c payment_id event_id amount reactivated]\<rparr>))))"
proof (cases "fst (recognize_revenue_once (mock_recognition env c payment_id event_id amount reactivated) db)")
  case True
  let ?g = "mock_recognition env c payment_id event_id amount reactivated"
  from True have "\<forall>x \<in> set (db_revenue db). \<not> revenue_clash ?g x"
    "recognize_revenue_once ?g db = (True, db\<lparr>db_revenue := db_revenue db @ [?g]\<rparr>)"
    by (auto simp: recognize_revenue_once_def split: if_splits)
  with assms show thesis by (auto simp: recognize_mock_success_def Let_def intro: fresh)
next
  case False
  then have "recognize_revenue_once (mock_recognition env c payment_id event_id amount reactivated) db = (False, db)"
    by (auto simp: recognize_revenue_once_def split: if_splits)
  with assms show thesis by (auto simp: recognize_mock_success_def Let_def intro: known)
qed

lemma mock_success_cases:
  assumes "apply_mock_payment_success env m i event_id amount_paise reactivated db = Inr (r, db')"
  obtains (same) "db' = db"
  | (paid) c invoice amount p where "get_case m i db = Some c" "invoice \<in> set (db_invoices db)"
      "0 < amount" "amount \<le> rc_amount_at_risk_paise c - rc_arrears_collected_paise c"
      "recognize_mock_success env c (pa_id p) event_id amount reactivated
         (db\<lparr>db_payments := db_payments db @ [p],
             db_invoices := save_row iv_id (collected_invoice amount invoice) (db_invoices db)\<rparr>) = (r, db')"
proof -
  obtain c where c: "get_case m i db = Some c"
    using assms by (auto simp: apply_mock_payment_success_def service_simps)
  show thesis
  proof (cases "find_revenue_recognition m ''mock'' event_id db")
    case (Some g)
    with assms c show ?thesis by (intro same) (auto simp: apply_mock_payment_success_def require_case_def)
  next
    case None
    define remaining where "remaining = rc_amount_at_risk_paise c - rc_arrears_collected_paise c"
    define amount where "amount = (case amount_paise of None \<Rightarrow> remaining | Some n \<Rightarrow> n)"
    from assms c None obtain invoice_id db1 db2 where
      a: "0 < amount" "amount \<le> remaining" and
      db: "add_payment_attempt (mock_payment env c invoice_id event_id amount) db = Inr db1"
        "add_invoice_collection invoice_id amount db1 = Inr db2"
        "recognize_mock_success env c (pa_id (mock_payment env c invoice_id event_id amount)) event_id amount reactivated db2 = (r, db')"
      by (auto simp: apply_mock_payment_success_def require_case_def bindE_eq_Inr Let_def amount_def remaining_def
          split: if_splits option.splits)
    let ?p = "mock_payment env c invoice_id event_id amount"
    from db(1) have db1: "db1 = db\<lparr>db_payments := db_payments db @ [?p]\<rparr>"
      by (auto simp: add_payment_attempt_def split: if_splits)
    with db(2) obtain invoice where "invoice \<in> set (db_invoices db)"
      "db2 = db\<lparr>db_payments := db_payments db @ [?p],
         db_invoices := save_row iv_id (collected_invoice amount invoice) (db_invoices db)\<rparr>"
      by (auto simp: add_invoice_collection_def split: option.splits dest: find_SomeD)
    then show ?thesis using paid [of c invoice amount ?p] c a db(3) by (simp add: remaining_def)
  qed
qed

lemma late_failure_cases:
  assumes "apply_late_failure_event env m i event_id db = Inr (r, db')"
  obtains (same) e where "db' = snd (add_event e db)"
  | (failed) c e where "get_case m i db = Some c" "rc_payment_state c \<noteq> Pay_CAPTURED"
      "db' = save_case (c\<lparr>rc_payment_state := Pay_FAILED, rc_version := rc_version c + 1\<rparr>) (snd (add_event e db))"
proof -
  obtain c where c: "get_case m i db = Some c"
    using assms by (auto simp: apply_late_failure_event_def service_simps)
  define e where "e = case_event i ''PAYMENT_FAILED'' ''mock-payment-provider'' Ev_SIMULATED None (ce_now env) event_id"
  from assms c have db': "db' = (if fst (add_event e db) \<and> rc_payment_state c \<noteq> Pay_CAPTURED
      then save_case (c\<lparr>rc_payment_state := Pay_FAILED, rc_version := rc_version c + 1\<rparr>) (snd (add_event e db))
      else snd (add_event e db))"
    by (auto simp: apply_late_failure_event_def require_case_def Let_def e_def split_beta split: if_splits)
  then show thesis using same failed [OF c] by (auto split: if_splits)
qed

section \<open>Closed cases\<close>

text \<open>
  A case that is not open has no open action, except one that only ends the recovery. The rows of
  cases and actions are identified by their keys.
\<close>

definition quiet_case :: "RecoveryActionRecord list \<Rightarrow> RecoveryCase \<Rightarrow> bool" where
  "quiet_case as c \<longleftrightarrow> (rc_case_outcome c \<noteq> Case_OPEN \<longrightarrow>
     (\<forall>a \<in> set as. ar_case_id a = rc_id c \<longrightarrow> ar_status a \<in> open_statuses \<longrightarrow> ar_action_type a \<in> TERMINAL_CONTROL_ACTIONS))"

definition closed_cases_quiet :: "'z database_scheme \<Rightarrow> bool" where
  "closed_cases_quiet db \<longleftrightarrow> distinct (map rc_id (db_cases db)) \<and> distinct (map ar_id (db_actions db))
     \<and> (\<forall>c \<in> set (db_cases db). quiet_case (db_actions db) c)"

lemma same_case: "distinct (map rc_id cs) \<Longrightarrow> c \<in> set cs \<Longrightarrow> d \<in> set cs \<Longrightarrow> rc_id c = rc_id d \<Longrightarrow> c = d"
  by (auto simp: distinct_map inj_on_def)

text \<open>What keeps the invariant: new actions of open cases, actions that become no more open, closed cases without open actions.\<close>

lemma quiet_case_mono:
  assumes "quiet_case as c"
    and "\<And>b. b \<in> set bs \<Longrightarrow> ar_status b \<in> open_statuses \<Longrightarrow> \<exists>a \<in> set as. ar_case_id a = ar_case_id b
      \<and> ar_status a \<in> open_statuses \<and> ar_action_type a = ar_action_type b"
  shows "quiet_case bs c"
  using assms unfolding quiet_case_def by metis

lemma cancel_keeps_open:
  assumes "b \<in> set (db_actions (cancel_nonterminal_actions i t db))" and "ar_status b \<in> open_statuses"
  shows "b \<in> set (db_actions db)"
  using assms(1) by (cases rule: cancel_mem) (use assms(2) in auto)

lemma cancel_ids: "map ar_id (db_actions (cancel_nonterminal_actions i t db)) = map ar_id (db_actions db)"
  by (simp add: cancel_nonterminal_actions_def map_update_where)

lemma close_case_quiet:
  assumes "closed_cases_quiet db" and "db_cases db1 = save_row rc_id c' (db_cases db)"
    and "distinct (map ar_id (db_actions db1))"
    and "\<And>b. b \<in> set (db_actions db1) \<Longrightarrow> ar_status b \<in> open_statuses \<Longrightarrow> b \<in> set (db_actions db)"
  shows "closed_cases_quiet (cancel_nonterminal_actions (rc_id c') t db1)"
proof -
  let ?db2 = "cancel_nonterminal_actions (rc_id c') t db1"
  have "quiet_case (db_actions ?db2) c" if "c \<in> set (db_cases ?db2)" for c
  proof -
    from that assms(2) have "c \<in> set (save_row rc_id c' (db_cases db))" by simp
    from set_save_row [OF this] show ?thesis
    proof
      assume "c = c'"
      then show ?thesis using cancel_closes [of _ "rc_id c'" t db1] by (auto simp: quiet_case_def)
    next
      assume "c \<in> set (db_cases db) \<and> rc_id c \<noteq> rc_id c'"
      with assms(1) have "quiet_case (db_actions db) c" by (simp add: closed_cases_quiet_def)
      then show ?thesis by (rule quiet_case_mono) (metis cancel_keeps_open assms(4))
    qed
  qed
  then show ?thesis using assms(1-3) by (simp add: closed_cases_quiet_def cancel_ids)
qed

lemma add_action_quiet:
  assumes "closed_cases_quiet db" and "add_action_with_policy a p db = Inr db'" and "c \<in> set (db_cases db)"
    and "ar_case_id a = rc_id c"
    and "ar_status a \<in> open_statuses \<Longrightarrow> ar_action_type a \<notin> TERMINAL_CONTROL_ACTIONS \<Longrightarrow> rc_case_outcome c = Case_OPEN"
  shows "closed_cases_quiet db'"
proof -
  have db': "db_actions db' = db_actions db @ [a]" "db_cases db' = db_cases db" "ar_id a \<notin> ar_id ` set (db_actions db)"
    using assms(2) by (auto simp: add_action_with_policy_Inr action_clash_def)
  have "quiet_case (db_actions db @ [a]) x" if "x \<in> set (db_cases db)" for x
  proof -
    have old: "quiet_case (db_actions db) x" and ids: "distinct (map rc_id (db_cases db))"
      using that assms(1) by (simp_all add: closed_cases_quiet_def)
    have "ar_action_type a \<in> TERMINAL_CONTROL_ACTIONS"
      if "rc_case_outcome x \<noteq> Case_OPEN" "ar_case_id a = rc_id x" "ar_status a \<in> open_statuses"
      using same_case [OF ids \<open>x \<in> set (db_cases db)\<close> assms(3)] that assms(4,5) by auto
    with old show ?thesis by (auto simp: quiet_case_def)
  qed
  with assms(1) db' show ?thesis by (simp add: closed_cases_quiet_def)
qed

lemma save_action_quiet:
  assumes "closed_cases_quiet db" and "a \<in> set (db_actions db)" and "ar_id b = ar_id a" and "ar_case_id b = ar_case_id a"
    and "ar_action_type b = ar_action_type a" and "ar_status b \<in> open_statuses \<Longrightarrow> ar_status a \<in> open_statuses"
  shows "closed_cases_quiet (db\<lparr>db_actions := save_row ar_id b (db_actions db)\<rparr>)"
proof -
  have "quiet_case (save_row ar_id b (db_actions db)) x" if "x \<in> set (db_cases db)" for x
  proof -
    have "quiet_case (db_actions db) x" using that assms(1) by (simp add: closed_cases_quiet_def)
    then show ?thesis
      by (rule quiet_case_mono) (use assms(2-) in \<open>auto dest!: set_save_row\<close>)
  qed
  with assms(1) show ?thesis by (simp add: closed_cases_quiet_def)
qed

lemma closed_cases_quiet_tables:
  "db_cases db' = db_cases db \<Longrightarrow> db_actions db' = db_actions db \<Longrightarrow> closed_cases_quiet db' = closed_cases_quiet db"
  by (simp add: closed_cases_quiet_def)

lemma add_event_quiet [simp]: "closed_cases_quiet (snd (add_event e db)) = closed_cases_quiet db"
  by (rule closed_cases_quiet_tables) simp_all

lemma save_case_quiet:
  assumes "closed_cases_quiet db" and "c \<in> set (db_cases db)" and "rc_id c' = rc_id c"
    and "rc_case_outcome c' = rc_case_outcome c"
  shows "closed_cases_quiet (save_case c' db)"
proof -
  have "quiet_case (db_actions db) x" if "x \<in> set (save_row rc_id c' (db_cases db))" for x
    using set_save_row [OF that] assms by (auto simp: closed_cases_quiet_def quiet_case_def)
  with assms(1) show ?thesis by (simp add: closed_cases_quiet_def)
qed

lemma recommended_open:
  "ar_status (recommended_action env i action surface decision) \<in> open_statuses \<longleftrightarrow> pd_disposition decision \<noteq> BLOCK"
  by (cases "pd_disposition decision") (simp_all add: recommended_action_def open_statuses_def)

lemma recommend_quiet:
  assumes "closed_cases_quiet db" and "recommend_action env m i asked sf db = Inr (r, db')"
  shows "closed_cases_quiet db'"
  using assms(2)
proof (cases rule: recommend_action_cases)
  case (stored c action surface decision e db1)
  have "closed_cases_quiet db1"
    by (rule add_action_quiet [OF assms(1) stored(3), of c])
       (use get_case_Some [OF stored(1)] stored(2) in \<open>auto simp: recommended_open\<close>, simp_all add: recommended_action_def)
  then show ?thesis by (simp add: stored(4))
qed (use assms(1) in simp)

lemma approve_quiet:
  assumes "closed_cases_quiet db" and "approve_action env m i x db = Inr (a', db')"
  shows "closed_cases_quiet db'"
proof -
  obtain a e where a: "get_action i x db = Some a" "ar_status a = Act_AWAITING_APPROVAL"
    "a' = a\<lparr>ar_status := Act_SCHEDULED, ar_completed_at := None, ar_updated_at := ce_utc_now env\<rparr>"
    "db' = snd (add_event e (db\<lparr>db_actions := save_row ar_id a' (db_actions db)\<rparr>))"
    using approve_action_Inr [OF assms(2)] by metis
  have "closed_cases_quiet (db\<lparr>db_actions := save_row ar_id a' (db_actions db)\<rparr>)"
    by (rule save_action_quiet [OF assms(1), of a]) (use get_action_Some [OF a(1)] a(2,3) in \<open>simp_all add: open_statuses_def\<close>)
  then show ?thesis by (simp add: a(4))
qed

lemma reject_quiet:
  assumes "closed_cases_quiet db" and "reject_action env m i x db = Inr (a', db')"
  shows "closed_cases_quiet db'"
  using assms(2)
proof (cases rule: reject_action_cases)
  case (rejected a e)
  have "closed_cases_quiet (db\<lparr>db_actions := save_row ar_id a' (db_actions db)\<rparr>)"
    by (rule save_action_quiet [OF assms(1), of a]) (use get_action_Some [OF rejected(1)] rejected(2) in simp_all)
  then show ?thesis by (simp add: rejected(3))
qed (use assms(1) in simp)

lemma closing_quiet:
  assumes "closed_cases_quiet db" and "rc_id c' = i" and "db_cases db1 = save_row rc_id c' (db_cases db)"
    and "db_actions db1 = db_actions db"
  shows "closed_cases_quiet (cancel_nonterminal_actions i t db1)"
  using close_case_quiet [OF assms(1,3)] assms by (simp add: closed_cases_quiet_def)

lemma stop_quiet:
  assumes "closed_cases_quiet db" and "stop_case env m i db = Inr (c', db')"
  shows "closed_cases_quiet db'"
  using assms(2)
proof (cases rule: stop_case_cases)
  case (closed c e)
  then show ?thesis using closing_quiet [OF assms(1), of c' i "save_case c' db"] get_case_Some [OF closed(1)] by simp
qed (use assms(1) in simp)

lemma escalate_quiet:
  assumes "closed_cases_quiet db" and "escalate_case env m i reason db = Inr (c', db')"
  shows "closed_cases_quiet db'"
  using assms(2)
proof (cases rule: escalate_case_cases)
  case (closed c e db1)
  let ?a = "escalation_action env c'"
  have db1: "db_cases db1 = save_row rc_id c' (db_cases db)" "db_actions db1 = db_actions db @ [?a]"
    "ar_id ?a \<notin> ar_id ` set (db_actions db)"
    using closed(3) by (auto simp: add_action_with_policy_Inr action_clash_def)
  moreover have "ar_status ?a \<notin> open_statuses" by (simp add: escalation_action_def)
  moreover have "rc_id c' = i" using get_case_Some [OF closed(1)] closed(2) by simp
  ultimately show ?thesis
    using close_case_quiet [OF assms(1) db1(1)] assms(1) closed(4) by (auto simp: closed_cases_quiet_def)
qed (use assms(1) in simp)

lemma disposition_quiet:
  assumes "closed_cases_quiet db" and "record_safety_disposition env m i d db = Inr (c', db')"
  shows "closed_cases_quiet db'"
  using assms(2)
proof (cases rule: record_safety_disposition_cases)
  case (closed c e target db1)
  have "rc_id c' = i" using get_case_Some [OF closed(1)] closed(3) by simp
  then show ?thesis
    using closing_quiet [OF assms(1), of c' i db1] mark_opted_out_tables [OF closed(4)] closed(5) by simp
qed (use assms(1) in simp)

lemma mock_captured_case_sel [simp]:
  "rc_id (mock_captured_case env amount reactivated c) = rc_id c"
  "rc_merchant_id (mock_captured_case env amount reactivated c) = rc_merchant_id c"
  "rc_failed_invoice_id (mock_captured_case env amount reactivated c) = rc_failed_invoice_id c"
  "rc_contact_disposition (mock_captured_case env amount reactivated c) = rc_contact_disposition c"
  "rc_payment_state (mock_captured_case env amount reactivated c) = Pay_CAPTURED"
  "rc_version (mock_captured_case env amount reactivated c) = rc_version c + 1"
  "rc_revenue_attribution (mock_captured_case env amount reactivated c) = Attr_SIMULATED"
  "rc_amount_at_risk_paise (mock_captured_case env amount reactivated c) = rc_amount_at_risk_paise c"
  "rc_arrears_collected_paise (mock_captured_case env amount reactivated c) = rc_arrears_collected_paise c + amount"
  by (simp_all add: mock_captured_case_def Let_def)

lemma mock_quiet:
  assumes "closed_cases_quiet db" and "apply_mock_payment_success env m i event_id n reactivated db = Inr (r, db')"
  shows "closed_cases_quiet db'"
  using assms(2)
proof (cases rule: mock_success_cases)
  case (paid c invoice amount p)
  let ?db1 = "db\<lparr>db_payments := db_payments db @ [p], db_invoices := save_row iv_id (collected_invoice amount invoice) (db_invoices db)\<rparr>"
  let ?g = "mock_recognition env c (pa_id p) event_id amount reactivated"
  let ?c = "mock_captured_case env amount reactivated c"
  from paid(5) show ?thesis
  proof (cases rule: recognize_mock_success_cases)
    case known
    then show ?thesis using assms(1) by (simp add: closed_cases_quiet_def)
  next
    case (fresh e)
    then show ?thesis
      using closing_quiet [OF assms(1), of ?c "rc_id c" "save_case ?c (?db1\<lparr>db_revenue := db_revenue ?db1 @ [?g]\<rparr>)"]
      by simp
  qed
qed (use assms(1) in simp)

lemma late_failure_quiet:
  assumes "closed_cases_quiet db" and "apply_late_failure_event env m i event_id db = Inr (r, db')"
  shows "closed_cases_quiet db'"
  using assms(2)
proof (cases rule: late_failure_cases)
  case (failed c e)
  then show ?thesis using save_case_quiet [of "snd (add_event e db)" c] assms(1) get_case_Some [OF failed(1)] by simp
qed (use assms(1) in simp)

definition operate :: "case_env \<times> ident \<times> ident \<times> case_command \<Rightarrow> 'z database_scheme \<Rightarrow> case_error + 'z database_scheme" where
  "operate = (\<lambda>(env, m, i, cmd). run_command env m i cmd)"

interpretation operators: command_log operate closed_cases_quiet
proof
  fix db db' :: "'z database_scheme" and x
  assume "closed_cases_quiet db" "operate x db = Inr db'"
  obtain env m i cmd where x: "x = (env, m, i, cmd)" by (metis prod.exhaust)
  with \<open>operate x db = Inr db'\<close> have "run_command env m i cmd db = Inr db'" by (simp add: operate_def)
  with \<open>closed_cases_quiet db\<close> show "closed_cases_quiet db'"
    by (cases cmd) (auto simp: bindE_eq_Inr intro: recommend_quiet approve_quiet reject_quiet stop_quiet escalate_quiet
        disposition_quiet mock_quiet late_failure_quiet)
qed

text \<open>
  C14: a closed case stays quiet. Whatever commands operators send, in any order and for any cases, and
  whatever the scorer ranks, a case that has been stopped, escalated, disputed or paid has no action that
  can still reach the customer: what is left open only ends the recovery.
\<close>

theorem closed_case_stays_quiet:
  assumes "closed_cases_quiet db" and "c \<in> set (db_cases (run_log operate cmds db))" and "rc_case_outcome c \<noteq> Case_OPEN"
    and "a \<in> set (db_actions (run_log operate cmds db))" and "ar_case_id a = rc_id c"
    and "ar_action_type a \<notin> TERMINAL_CONTROL_ACTIONS"
  shows "ar_status a \<in> {Act_SUCCEEDED, Act_FAILED, Act_CANCELLED}"
proof -
  have "quiet_case (db_actions (run_log operate cmds db)) c"
    using operators.log_keeps [OF assms(1), of cmds] assms(2) by (simp add: closed_cases_quiet_def)
  then have "ar_status a \<notin> open_statuses" using assms(3-) by (auto simp: quiet_case_def)
  then show ?thesis by (cases "ar_status a") (simp_all add: open_statuses_def)
qed

section \<open>The books\<close>

lemma collected_invoice_wf:
  "invoice_constraints i \<Longrightarrow> 0 \<le> amount \<Longrightarrow> invoice_constraints (collected_invoice amount i) \<and> iv_id (collected_invoice amount i) = iv_id i"
  by (auto simp: invoice_constraints_def collected_invoice_def Let_def)

lemma ledger_save_invoice:
  assumes "ledger cases invoices rows" and "invoice_constraints i"
  shows "ledger cases (save_row iv_id i invoices) rows"
  using assms by (auto simp: ledger_def dest!: set_save_row)

text \<open>A command leaves the three tables of the ledger alone, or saves a case with the same money, or recognises a simulated payment.\<close>

lemma mock_ledger:
  assumes "ledger_inv db" and "apply_mock_payment_success env m i event_id n reactivated db = Inr (r, db')"
  shows "ledger_inv db'"
  using assms(2)
proof (cases rule: mock_success_cases)
  case (paid c invoice amount p)
  let ?i = "collected_invoice amount invoice"
  let ?g = "mock_recognition env c (pa_id p) event_id amount reactivated"
  let ?c = "mock_captured_case env amount reactivated c"
  have led: "ledger (db_cases db) (db_invoices db) (db_revenue db)" using assms(1) by (simp add: ledger_inv_def)
  have c: "c \<in> set (db_cases db)" using get_case_Some [OF paid(1)] by simp
  have i: "invoice_constraints ?i" "iv_id ?i = iv_id invoice"
    using led paid(2,3) collected_invoice_wf [of invoice amount] by (simp_all add: ledger_def)
  from paid(5) show ?thesis
  proof (cases rule: recognize_mock_success_cases)
    case known
    then show ?thesis using ledger_save_invoice [OF led i(1)] by (simp add: ledger_inv_def)
  next
    case (fresh e)
    have "revenue_wf (db_cases db) (db_revenue db @ [?g])"
      using led fresh(1) paid(3) c by (auto simp: ledger_def revenue_wf_def mock_recognition_def revenue_clash_def)
    then have "ledger (save_row rc_id ?c (db_cases db)) (save_row iv_id ?i (db_invoices db)) (db_revenue db @ [?g])"
      by (rule ledger_recognize [OF led c paid(2)]) (use paid(4) i in \<open>simp_all add: mock_recognition_def\<close>)
    then show ?thesis using fresh(2) by (simp add: ledger_inv_def)
  qed
qed (use assms(1) in simp)

lemma saved_case_ledger:
  assumes "ledger_inv db" and "get_case m i db = Some c" and "same_money c' c"
    and "db_cases db' = save_row rc_id c' (db_cases db)" and "db_invoices db' = db_invoices db" and "db_revenue db' = db_revenue db"
  shows "ledger_inv db'"
  using ledger_save_case [OF assms(1) [unfolded ledger_inv_def] _ assms(3)] get_case_Some [OF assms(2)] assms(4-)
  by (simp add: ledger_inv_def)

lemma added_action_tables:
  assumes "add_action_with_policy a p db = Inr db'"
  shows "db_cases db' = db_cases db" "db_invoices db' = db_invoices db" "db_revenue db' = db_revenue db"
  using assms by (auto simp: add_action_with_policy_Inr)

lemma same_tables_ledger:
  "ledger_inv db \<Longrightarrow> db_cases db' = db_cases db \<Longrightarrow> db_invoices db' = db_invoices db \<Longrightarrow> db_revenue db' = db_revenue db \<Longrightarrow> ledger_inv db'"
  by (simp add: ledger_inv_def)

lemma recommend_ledger:
  assumes "ledger_inv db" and "recommend_action env m i asked sf db = Inr (r, db')"
  shows "ledger_inv db'"
  using assms(2)
proof (cases rule: recommend_action_cases)
  case (stored c action surface decision e db1)
  then show ?thesis by (intro same_tables_ledger [OF assms(1)]) (simp_all add: added_action_tables [OF stored(3)])
qed (use assms(1) in simp)

lemma decide_on_action_ledger:
  "ledger_inv db \<Longrightarrow> approve_action env m i x db = Inr (a, db') \<Longrightarrow> ledger_inv db'"
  "ledger_inv db \<Longrightarrow> reject_action env m i x db = Inr (a, db') \<Longrightarrow> ledger_inv db'"
  by (erule approve_action_Inr, rule same_tables_ledger, simp_all)
     (erule reject_action_cases, simp, rule same_tables_ledger, simp_all)

lemma close_ledger:
  assumes "ledger_inv db"
  shows "stop_case env m i db = Inr (c', db') \<Longrightarrow> ledger_inv db'"
    and "escalate_case env m i reason db = Inr (c', db') \<Longrightarrow> ledger_inv db'"
    and "record_safety_disposition env m i d db = Inr (c', db') \<Longrightarrow> ledger_inv db'"
    and "apply_late_failure_event env m i event_id db = Inr (b, db') \<Longrightarrow> ledger_inv db'"
proof -
  show "ledger_inv db'" if "stop_case env m i db = Inr (c', db')"
    using that
  proof (cases rule: stop_case_cases)
    case (closed c e)
    then show ?thesis by (intro saved_case_ledger [OF assms closed(1), of c']) (simp_all add: same_money_def)
  qed (use assms in simp)
  show "ledger_inv db'" if "escalate_case env m i reason db = Inr (c', db')"
    using that
  proof (cases rule: escalate_case_cases)
    case (closed c e db1)
    then show ?thesis
      by (intro saved_case_ledger [OF assms closed(1), of c']) (simp_all add: same_money_def added_action_tables [OF closed(3)])
  qed (use assms in simp)
  show "ledger_inv db'" if "record_safety_disposition env m i d db = Inr (c', db')"
    using that
  proof (cases rule: record_safety_disposition_cases)
    case (closed c e target db1)
    then show ?thesis
      by (intro saved_case_ledger [OF assms closed(1), of c']) (simp_all add: same_money_def mark_opted_out_tables [OF closed(4)])
  qed (use assms in simp)
  show "ledger_inv db'" if "apply_late_failure_event env m i event_id db = Inr (b, db')"
    using that
  proof (cases rule: late_failure_cases)
    case (same e)
    then show ?thesis using same_tables_ledger [OF assms] by simp
  next
    case (failed c e)
    then show ?thesis
      by (intro saved_case_ledger [OF assms failed(1), of "c\<lparr>rc_payment_state := Pay_FAILED, rc_version := rc_version c + 1\<rparr>"])
         (simp_all add: same_money_def)
  qed
qed

lemma command_ledger: "ledger_inv db \<Longrightarrow> run_command env m i cmd db = Inr db' \<Longrightarrow> ledger_inv db'"
  by (cases cmd) (auto simp: bindE_eq_Inr intro: recommend_ledger decide_on_action_ledger close_ledger mock_ledger)

text \<open>The foreign key of the policy decisions.\<close>

lemma add_action_auth:
  assumes "auth_inv db" and "add_action_with_policy a p db1 = Inr db'" and "db_actions db1 = db_actions db"
    and "db_policies db1 = db_policies db"
  shows "auth_inv db'"
  using assms by (auto simp: auth_inv_def add_action_with_policy_Inr)

lemma auth_same:
  "auth_inv db \<Longrightarrow> map ar_id (db_actions db') = map ar_id (db_actions db) \<Longrightarrow> db_policies db' = db_policies db \<Longrightarrow> auth_inv db'"
  unfolding auth_inv_def by (metis list.set_map)

lemma auth_event [simp]: "auth_inv (snd (add_event e db)) = auth_inv db"
  by (simp add: auth_inv_def)

lemma auth_cancel [simp]: "auth_inv (cancel_nonterminal_actions i t db) = auth_inv db"
  using cancel_ids [of i t db] unfolding auth_inv_def by (metis cancel_tables(2) list.set_map)

lemma auth_other_tables [simp]:
  "auth_inv (db\<lparr>db_payments := ps\<rparr>) = auth_inv db" "auth_inv (db\<lparr>db_invoices := is\<rparr>) = auth_inv db"
  "auth_inv (db\<lparr>db_revenue := gs\<rparr>) = auth_inv db"
  by (simp_all add: auth_inv_def)

lemma auth_save_case [simp]: "auth_inv (save_case c db) = auth_inv db"
  by (simp add: auth_inv_def)

lemma command_auth:
  assumes "auth_inv db" and "run_command env m i cmd db = Inr db'"
  shows "auth_inv db'"
proof (cases cmd)
  case (Recommend x y)
  with assms(2) obtain r where "recommend_action env m i x y db = Inr (r, db')" by (auto simp: bindE_eq_Inr)
  then show ?thesis
    by (cases rule: recommend_action_cases) (use assms(1) add_action_auth [OF assms(1)] in auto)
next
  case (Approve x)
  with assms(2) obtain r where "approve_action env m i x db = Inr (r, db')" by (auto simp: bindE_eq_Inr)
  then obtain a e where "db' = snd (add_event e (db\<lparr>db_actions := save_row ar_id a (db_actions db)\<rparr>))"
    by (rule approve_action_Inr) blast
  then show ?thesis using auth_same [OF assms(1)] by simp
next
  case (Reject x)
  with assms(2) obtain r where "reject_action env m i x db = Inr (r, db')" by (auto simp: bindE_eq_Inr)
  then show ?thesis
    by (cases rule: reject_action_cases) (use assms(1) auth_same [OF assms(1)] in auto)
next
  case Stop_Case
  with assms(2) obtain r where "stop_case env m i db = Inr (r, db')" by (auto simp: bindE_eq_Inr)
  then show ?thesis by (cases rule: stop_case_cases) (use assms(1) in simp_all)
next
  case (Escalate reason)
  with assms(2) obtain r where "escalate_case env m i reason db = Inr (r, db')" by (auto simp: bindE_eq_Inr)
  then show ?thesis
    by (cases rule: escalate_case_cases) (use assms(1) add_action_auth [OF assms(1)] in auto)
next
  case (Record_Disposition d)
  with assms(2) obtain r where "record_safety_disposition env m i d db = Inr (r, db')" by (auto simp: bindE_eq_Inr)
  then show ?thesis
  proof (cases rule: record_safety_disposition_cases)
    case (closed c e target db1)
    then have "auth_inv db1" using assms(1) mark_opted_out_tables [OF closed(4)] by (simp add: auth_inv_def)
    with closed(5) show ?thesis by simp
  qed (use assms(1) in simp)
next
  case (Mock_Success x n y)
  with assms(2) obtain r where "apply_mock_payment_success env m i x n y db = Inr (r, db')" by (auto simp: bindE_eq_Inr)
  then show ?thesis
  proof (cases rule: mock_success_cases)
    case (paid c invoice amount p)
    from paid(5) show ?thesis
      by (cases rule: recognize_mock_success_cases) (use assms(1) in simp_all)
  qed (use assms(1) in simp)
next
  case (Late_Failure x)
  with assms(2) obtain r where "apply_late_failure_event env m i x db = Inr (r, db')" by (auto simp: bindE_eq_Inr)
  then show ?thesis by (cases rule: late_failure_cases) (use assms(1) in simp_all)
qed

text \<open>Messages of the outbox and commands of operators, in any order.\<close>

datatype ledger_step = Process_Message processor_env | Operator_Command case_env ident ident case_command

fun ledger_run :: "ledger_step \<Rightarrow> database \<Rightarrow> case_error + database" where
  "ledger_run (Process_Message env) db = Inr (snd (process_next env db))"
| "ledger_run (Operator_Command env m i cmd) db = run_command env m i cmd db"

interpretation books: command_log ledger_run "\<lambda>db. ledger_inv db \<and> auth_inv db"
proof
  fix db db' x assume inv: "ledger_inv db \<and> auth_inv db" and run: "ledger_run x db = Inr db'"
  show "ledger_inv db' \<and> auth_inv db'"
  proof (cases x)
    case (Process_Message env)
    with inv run show ?thesis using process_next_keeps [of db env] by auto
  next
    case (Operator_Command env m i cmd)
    with inv run show ?thesis using command_ledger command_auth by auto
  qed
qed

text \<open>
  C1: the books balance. Whatever sequence of outbox messages and operator commands is processed, whatever
  the provider, the clock, the scorer and the dispatch callback answer, and however often messages are
  retried, the arrears of every case are exactly the sum of the amounts recognised for it, verified or
  simulated, they lie between zero and the amount at risk, no provider event and no payment is
  recognised twice, and no invoice is paid beyond its amount.
\<close>

theorem books_balance:
  assumes "ledger_inv db" and "auth_inv db"
  shows "(\<forall>c \<in> set (db_cases (run_log ledger_run steps db)).
      rc_arrears_collected_paise c = recognized (rc_id c) (db_revenue (run_log ledger_run steps db))
      \<and> 0 \<le> rc_arrears_collected_paise c \<and> rc_arrears_collected_paise c \<le> rc_amount_at_risk_paise c)
    \<and> distinct (map (\<lambda>g. (rg_merchant_id g, rg_provider g, rg_provider_event_id g))
        (db_revenue (run_log ledger_run steps db)))
    \<and> distinct (map (\<lambda>g. (rg_merchant_id g, rg_payment_attempt_id g))
        (filter (\<lambda>g. rg_provider g = ''razorpay'' \<and> rg_payment_attempt_id g \<noteq> None)
          (db_revenue (run_log ledger_run steps db))))
    \<and> (\<forall>i \<in> set (db_invoices (run_log ledger_run steps db)). iv_amount_paid_paise i \<le> iv_amount_paise i)"
proof -
  let ?d = "run_log ledger_run steps db"
  have led: "ledger (db_cases ?d) (db_invoices ?d) (db_revenue ?d)"
    using books.log_keeps [of db steps] assms by (simp add: ledger_inv_def)
  then have "0 \<le> recognized i (db_revenue ?d)" for i
    unfolding recognized_def by (intro sum_list_nonneg) (auto simp: ledger_def revenue_wf_def less_imp_le)
  with led show ?thesis
    by (auto simp: ledger_def case_ledger_def revenue_wf_def invoice_constraints_def)
qed

end
