(* ===== verification/Execution_Writers.thy ===== *)
theory Execution_Writers
  imports Case_Safety
begin

text \<open>
  The other writers of the actions. \<open>Execution_Safety\<close> lets the rest of the system write whatever never
  makes a claimed action claimable again; here that is shown of the code that writes: every command
  of the case service and every message of the webhook processor. So the guarantees of concurrent
  executions hold beside them.
\<close>

section \<open>Commands\<close>

lemma actions_advance_cancel: "actions_advance (db_actions db) (db_actions (cancel_nonterminal_actions i t db))"
  unfolding cancel_nonterminal_actions_def
  by (simp, rule actions_advance_update_where) (simp add: action_advances_def unclaimed_def)

lemma actions_advance_saved:
  assumes "distinct (map ar_id as)" and "a \<in> set as" and "ar_id b = ar_id a" and "ar_action_type b = ar_action_type a"
    and "ar_status a \<in> unclaimed \<or> ar_status b \<notin> unclaimed"
  shows "actions_advance as (save_row ar_id b as)"
proof (rule actions_advance_save_row)
  fix x assume "x \<in> set as" "ar_id x = ar_id b"
  then have "x = a" using same_id_same_row [OF assms(1)] assms(2,3) by simp
  then show "action_advances x b" using assms(3-) by (auto simp: action_advances_def)
qed

lemma actions_advance_new: "ar_id r \<notin> ar_id ` set as \<Longrightarrow> actions_advance as (as @ [r])"
  by (rule actions_advance_snoc) (metis image_eqI)

lemma actions_advance_added:
  assumes "add_action_with_policy a p db = Inr db'"
  shows "actions_advance (db_actions db) (db_actions db')"
proof -
  from assms have "db_actions db' = db_actions db @ [a]" "ar_id a \<notin> ar_id ` set (db_actions db)"
    by (auto simp: add_action_with_policy_Inr action_clash_def)
  then show ?thesis by (simp add: actions_advance_new)
qed

lemma command_actions_advance:
  assumes "distinct (map ar_id (db_actions db))" and "run_command env m i cmd db = Inr db'"
  shows "actions_advance (db_actions db) (db_actions db')"
proof (cases cmd)
  case (Recommend x y)
  with assms(2) obtain r where "recommend_action env m i x y db = Inr (r, db')" by (auto simp: bindE_eq_Inr)
  then show ?thesis by (cases rule: recommend_action_cases) (auto dest: actions_advance_added)
next
  case (Approve x)
  with assms(2) obtain r where "approve_action env m i x db = Inr (r, db')" by (auto simp: bindE_eq_Inr)
  then obtain a e where a: "get_action i x db = Some a" "ar_status a = Act_AWAITING_APPROVAL"
    "r = a\<lparr>ar_status := Act_SCHEDULED, ar_completed_at := None, ar_updated_at := ce_utc_now env\<rparr>"
    "db' = snd (add_event e (db\<lparr>db_actions := save_row ar_id r (db_actions db)\<rparr>))"
    by (rule approve_action_Inr) blast
  show ?thesis
    using actions_advance_saved [OF assms(1), of a r] get_action_Some [OF a(1)] a(2-) by (simp add: unclaimed_def)
next
  case (Reject x)
  with assms(2) obtain r where "reject_action env m i x db = Inr (r, db')" by (auto simp: bindE_eq_Inr)
  then show ?thesis
  proof (cases rule: reject_action_cases)
    case (rejected a e)
    then show ?thesis
      using actions_advance_saved [OF assms(1), of a r] get_action_Some [OF rejected(1)] by (simp add: unclaimed_def)
  qed simp
next
  case Stop_Case
  with assms(2) obtain r where "stop_case env m i db = Inr (r, db')" by (auto simp: bindE_eq_Inr)
  then show ?thesis
    by (cases rule: stop_case_cases) (use actions_advance_cancel [of "save_case r db"] in auto)
next
  case (Escalate reason)
  with assms(2) obtain r where "escalate_case env m i reason db = Inr (r, db')" by (auto simp: bindE_eq_Inr)
  then show ?thesis
  proof (cases rule: escalate_case_cases)
    case (closed c e db1)
    have "actions_advance (db_actions db) (db_actions db1)" using actions_advance_added [OF closed(3)] by simp
    then show ?thesis using actions_advance_trans [OF _ actions_advance_cancel] closed(4) by simp
  qed simp
next
  case (Record_Disposition d)
  with assms(2) obtain r where "record_safety_disposition env m i d db = Inr (r, db')" by (auto simp: bindE_eq_Inr)
  then show ?thesis
  proof (cases rule: record_safety_disposition_cases)
    case (closed c e target db1)
    then show ?thesis using actions_advance_cancel [of db1] mark_opted_out_tables [OF closed(4)] by simp
  qed simp
next
  case (Mock_Success x n y)
  with assms(2) obtain r where "apply_mock_payment_success env m i x n y db = Inr (r, db')" by (auto simp: bindE_eq_Inr)
  then show ?thesis
  proof (cases rule: mock_success_cases)
    case (paid c invoice amount p)
    from paid(5) show ?thesis
    proof (cases rule: recognize_mock_success_cases)
      case (fresh e)
      let ?db1 = "db\<lparr>db_payments := db_payments db @ [p], db_invoices := save_row iv_id (collected_invoice amount invoice) (db_invoices db)\<rparr>"
      let ?g = "mock_recognition env c (pa_id p) x amount y"
      show ?thesis
        using actions_advance_cancel [of "save_case (mock_captured_case env amount y c) (?db1\<lparr>db_revenue := db_revenue ?db1 @ [?g]\<rparr>)"]
          fresh(2) by simp
    qed simp
  qed simp
next
  case (Late_Failure x)
  with assms(2) obtain r where "apply_late_failure_event env m i x db = Inr (r, db')" by (auto simp: bindE_eq_Inr)
  then show ?thesis by (cases rule: late_failure_cases) simp_all
qed

section \<open>Webhook messages\<close>

lemma correlate_actions: "correlate env payload db = Inr (co, db') \<Longrightarrow> db_actions db' = db_actions db"
  by (auto simp: correlate_def correlate_invoice_def contract_fail_def Let_def bindE_eq_Inr
      split: if_splits option.splits dest!: hydrate_Inr)

lemma cancel_open_actions_advance: "actions_advance as (cancel_open_actions i t as)"
  unfolding cancel_open_actions_def
  by (rule actions_advance_update_where) (simp add: action_advances_def unclaimed_def)

lemma captured_actions_advance:
  assumes "apply_captured env payload co db = Inr ((eff, co'), db')"
  shows "actions_advance (db_actions db) (db_actions db')"
  using assms
proof (rule apply_captured_Inr)
  fix c0 iv s sn oc pid p db1 newly db2
  let ?m = "op_merchant_id payload" and ?e = "op_event payload"
  assume pay: "capture_payment env ?m ?e sn pid iv s db = Inr (p, db1)"
    and rec: "(if newly then recognize_revenue ?m ?e sn oc c0 iv p db1 else Inr db1) = Inr db2"
    and db': "db' = save_capture ?e sn (capture_case ?e sn oc newly c0) s db2"
  have "db_actions db2 = db_actions db1"
    using rec by (auto simp: recognize_revenue_def Let_def contract_fail_def bindE_eq_Inr split: if_splits)
  then show ?thesis
    using capture_payment_tables [OF pay] db' cancel_open_actions_advance by (simp add: save_capture_def)
qed

lemma failed_actions_advance:
  assumes "apply_payment_failed env payload co db = Inr ((eff, co'), db')"
  shows "db_actions db' = db_actions db"
  using assms
  by (auto simp: apply_payment_failed_def Let_def contract_fail_def bindE_eq_Inr
      split: option.splits if_splits dest!: record_failed_payment_tables create_case_Inr)

lemma subscription_only_actions:
  "apply_subscription_only payload co db = Inr ((eff, co'), db') \<Longrightarrow> db_actions db' = db_actions db"
  by (auto simp: apply_subscription_only_def Let_def contract_fail_def bindE_eq_Inr split: option.splits if_splits)

lemma apply_event_actions_advance:
  assumes "apply_event env payload co db = Inr ((eff, co'), db')"
  shows "actions_advance (db_actions db) (db_actions db')"
  using assms captured_actions_advance failed_actions_advance subscription_only_actions
  by (fastforce simp: apply_event_def Let_def contract_fail_def split: if_splits)

lemma stored_actions_advance:
  "store_authorization a p db = Inr db' \<Longrightarrow> actions_advance (db_actions db) (db_actions db')"
  by (auto dest!: store_authorization_Inr intro: actions_advance_new)

lemma initial_actions_advance:
  assumes "ensure_initial_recommendation env m c db = Inr (a, db')"
  shows "actions_advance (db_actions db) (db_actions db')"
proof (cases "first_by (\<lambda>a. (ar_created_at a, ar_id a)) (filter (is_initial_action (rc_id c)) (db_actions db))")
  case (Some x)
  with assms have "db' = db"
    by (auto simp: ensure_initial_recommendation_def contract_fail_def split: if_splits)
  then show ?thesis by simp
next
  case None
  with assms obtain result where "store_initial_action env c result db = Inr (a, db')"
    using decide_initial_action_Inr by (fastforce simp: ensure_initial_recommendation_def)
  then show ?thesis
    by (auto simp: store_initial_action_def Let_def bindE_eq_Inr dest: stored_actions_advance)
qed

lemma reconciliation_actions_advance:
  assumes "ensure_reconciliation_authorization env c db = Inr (a, db')" and "distinct (map ar_id (db_actions db))"
  shows "actions_advance (db_actions db) (db_actions db')"
proof (cases "find (\<lambda>a. ar_idempotency_key a = reconciliation_key (rc_id c)) (db_actions db)")
  case (Some x)
  let ?y = "x\<lparr>ar_status := Act_SCHEDULED, ar_scheduled_for := None, ar_completed_at := None\<rparr>"
  from assms(1) Some have db': "db' = db\<lparr>db_actions := save_row ar_id ?y (db_actions db)\<rparr>"
    and x: "ar_action_type x = WAIT_FOR_GATEWAY_RETRY"
    by (auto simp: ensure_reconciliation_authorization_def Let_def contract_fail_def split: if_splits)
  have "action_advances z ?y" if "z \<in> set (db_actions db)" "ar_id z = ar_id ?y" for z
  proof -
    have "z = x" using same_id_same_row [OF assms(2) that(1), of x] find_SomeD [OF Some] that(2) by simp
    then show ?thesis using x by (simp add: action_advances_def)
  qed
  then show ?thesis using actions_advance_save_row [of "db_actions db" ?y] db' by simp
next
  case None
  with assms(1) show ?thesis
    by (auto simp: ensure_reconciliation_authorization_def Let_def bindE_eq_Inr dest: stored_actions_advance)
qed

lemma authorize_actions_advance:
  assumes "authorize env payload co eff db = Inr (r, db')" and "distinct (map ar_id (db_actions db))"
  shows "actions_advance (db_actions db) (db_actions db')"
  using assms
  by (auto simp: authorize_def Let_def contract_fail_def bindE_eq_Inr
      split: option.splits if_splits dest: initial_actions_advance reconciliation_actions_advance)

lemma handled_actions_advance:
  assumes "handle_message env payload db = Inr (r, db3)" and "distinct (map ar_id (db_actions db))"
  shows "actions_advance (db_actions db) (db_actions db3)"
proof -
  from assms(1) obtain co db1 e co' db2 y where
    co: "correlate env payload db = Inr (co, db1)"
    and ap: "apply_event env payload co db1 = Inr ((e, co'), db2)"
    and au: "authorize env payload co' e db2 = Inr (y, db3)"
    by (auto simp: handle_message_def Let_def result_simps split: sum.splits)
  have one: "actions_advance (db_actions db) (db_actions db2)"
    using apply_event_actions_advance [OF ap] correlate_actions [OF co] by simp
  with assms(2) have "distinct (map ar_id (db_actions db2))" by (simp add: actions_advance_def)
  from authorize_actions_advance [OF au this] one show ?thesis by (rule actions_advance_trans [rotated])
qed

lemma bookkeeping_actions [simp]:
  "db_actions (snd (fail_message env i payload err cid db)) = db_actions db"
  "db_actions (snd (publish_message env ob payload' cid db)) = db_actions db"
proof -
  show "db_actions (snd (fail_message env i payload err cid db)) = db_actions db"
    by (subst fail_message_db) simp
  show "db_actions (snd (publish_message env ob payload' cid db)) = db_actions db"
    by (subst publish_message_db) simp
qed

lemma message_actions_advance:
  assumes "distinct (map ar_id (db_actions db))"
  shows "actions_advance (db_actions db) (db_actions (snd (process_next env db)))"
proof (cases "select_outbox (pe_now env) db")
  case (Some ob)
  show ?thesis
  proof (cases "ob_payload ob")
    case payload: (Some payload)
    show ?thesis
    proof (cases "handle_message env payload db")
      case (Inl e)
      then show ?thesis using Some payload by (cases e) (simp add: process_next_def)
    next
      case (Inr r)
      obtain cid eff a db3 where r: "r = ((cid, eff, a), db3)" by (metis prod.exhaust)
      have "actions_advance (db_actions db) (db_actions db3)" using handled_actions_advance [OF Inr [unfolded r] assms] .
      then show ?thesis using Some payload Inr r by (cases a) (simp_all add: process_next_def Let_def)
    qed
  qed (use Some in \<open>simp add: process_next_def\<close>)
qed (simp add: process_next_def)

section \<open>The writers are steps of the machine\<close>

text \<open>The webhook processor works on the tables it knows and leaves the others.\<close>

definition process_message :: "processor_env \<Rightarrow> 'z database_scheme \<Rightarrow> 'z database_scheme" where
  "process_message env db = database.extend (snd (process_next env (database.truncate db))) (database.more db)"

lemma db_actions_extend [simp]: "db_actions (database.extend r x) = db_actions r"
  by (cases r) (simp add: database.defs)

lemma db_actions_truncate [simp]: "db_actions (database.truncate db) = db_actions db"
  by (cases db) (simp add: database.defs)

text \<open>
  C20: executions and the other writers refine one machine. In every state that executions of activities can reach,
  whatever a command of the case service commits and whatever the webhook processor does with a message is
  a step of the machine of concurrent executions, so it keeps its invariant: nothing the API writes
  makes an action that was claimed for submission claimable again.
\<close>

theorem writers_refine_machine:
  assumes "(activity_step rt)\<^sup>*\<^sup>* (fresh_cluster db0) s" and "distinct (map ar_id (db_actions db0))"
    and "db' = process_message env (cl_db s) \<or> run_command cenv m i cmd (cl_db s) = Inr db'"
  shows "activity_step rt s (with_db db' s) \<and> executions_inv (with_db db' s)"
proof -
  have inv: "executions_inv s" using reachable_inv [OF assms(1) fresh_cluster_inv [OF assms(2)]] .
  then have dist: "distinct (map ar_id (db_actions (cl_db s)))" by (simp add: executions_inv_def)
  have "actions_advance (db_actions (cl_db s)) (db_actions db')"
    using assms(3) message_actions_advance [of "database.truncate (cl_db s)" env] dist
      command_actions_advance [OF dist] by (auto simp: process_message_def)
  then have step: "activity_step rt s (with_db db' s)" by (rule activity_step.elsewhere)
  then show ?thesis using activity_step_inv [OF step inv] by simp
qed

end
