(* ===== verification/Case_Runs.thy ===== *)
theory Case_Runs
  imports Execution_Writers
begin

text \<open>
  Operators and the worker together: an approval reaches the worker, and what is lost when a
  case is closed while a payment link is being opened. Then concrete runs.
\<close>

section \<open>From the operator to the worker\<close>

lemma add_event_stored:
  assumes "\<forall>x \<in> set (db_events db). re_case_id x = re_case_id e \<longrightarrow> re_source_event_id x \<noteq> re_source_event_id e"
  shows "snd (add_event e db) = db\<lparr>db_events := db_events db @ [e]\<rparr>"
  using assms by (auto simp: add_event_def event_clash_def)

text \<open>
  An approved call is placed. After an operator has approved a voice action for the first time, the
  worker that executes the action of that case finds the approval, takes the action and starts the call: the
  event the service writes is the one the worker looks for.
\<close>

theorem approved_voice_action_is_claimed:
  fixes db db' :: a2a_database
  assumes "approve_action env m i x db = Inr (a', db')" and "ar_action_type a' = START_VOICE"
    and "\<forall>e \<in> set (db_events db). re_case_id e = i \<longrightarrow> re_source_event_id e \<noteq> Some (''approval:'' @ ar_id a')"
    and "ea_case_id cmd = i"
    and "last_by (\<lambda>(a, p, c). ar_created_at a) (action_rows db' (\<lambda>a c. ar_case_id a = ea_case_id cmd
        \<and> rc_merchant_id c = ea_merchant_id cmd \<and> rc_customer_id c = ea_customer_id cmd
        \<and> rc_subscription_id c = ea_subscription_id cmd \<and> rc_amount_at_risk_paise c = ea_amount_paise cmd
        \<and> ar_action_type a = START_VOICE)) = Some (a', p, c)"
    and "PolicyDecisionRecord.pr_disposition p = REQUIRE_MANUAL_APPROVAL"
  shows "\<exists>db''. claim_voice_action True now cmd db' = (Voice_Claimed (executing_row now a'), db'')
    \<and> (\<forall>r \<in> set (db_actions db''). ar_id r = ar_id a' \<longrightarrow> ar_status r = Act_EXECUTING)"
proof -
  obtain a where a: "get_action i x db = Some a"
    "a' = a\<lparr>ar_status := Act_SCHEDULED, ar_completed_at := None, ar_updated_at := ce_utc_now env\<rparr>"
    using approve_action_Inr [OF assms(1)] by metis
  let ?e = "case_event i ''ACTION_APPROVED'' ''operator'' Ev_SYSTEM_DERIVED (Some (approval_payload a)) (ce_now env)
    (''approval:'' @ ar_id a)"
  from assms(1) a have "db' = snd (add_event ?e (db\<lparr>db_actions := save_row ar_id a' (db_actions db)\<rparr>))"
    by (auto simp: approve_action_def service_simps Let_def split: if_splits)
  then have "?e \<in> set (db_events db')"
    using add_event_stored [of "db\<lparr>db_actions := save_row ar_id a' (db_actions db)\<rparr>" ?e] assms(3) a(2)
    by (simp add: case_event_def)
  then have "approval_persisted db' i a'"
    unfolding approval_persisted_def
    by (rule bexI [rotated]) (use assms(2) a(2) in \<open>simp add: case_event_def approval_payload_def jget_def\<close>)
  then show ?thesis
    using assms(4-) a(2) by (auto simp: claim_voice_action_def set_update_where executing_row_def)
qed

text \<open>
  C31: closing a case strands a link that is being opened. If an operator stops an open case while one
  of its payment links is being opened, the action is cancelled in the database; then neither the cancellation the
  worker runs for the case nor the execution itself asks the provider to revoke the link: the
  clean-up finds nothing to do whatever the provider would answer, and an answer that says the link was opened is
  discarded. The customer can still pay it.
\<close>

theorem stop_strands_opening_link:
  fixes db db' :: a2a_database
  assumes "stop_case env m i db = Inr (c', db')" and "get_case m i db = Some c" and "rc_case_outcome c = Case_OPEN"
    and "distinct (map ar_id (db_actions db))"
    and "a \<in> set (db_actions db)" and "ar_case_id a = i" and "ar_payment_surface_type a = Some STANDARD_PAYMENT_LINK"
    and "ar_status a = Act_EXECUTING"
    and "\<forall>b \<in> set (db_actions db). ar_case_id b = i \<longrightarrow> ar_payment_surface_type b = Some STANDARD_PAYMENT_LINK
      \<longrightarrow> ar_status b \<noteq> Act_SUCCEEDED"
  shows "cleanup_standard_payment_links rt lp now i db' = ((True, None), db')
    \<and> persist_payment_surface (ar_id a) result t db'
      = (execution_result ''REJECTED'' (sf_provider result) (Some (sf_provider_reference result)) None
           (Some ''ACTION_CANCELLED_AFTER_SUBMISSION''), db')"
proof -
  from assms(1-3) obtain e where db': "db' = snd (add_event e (cancel_nonterminal_actions i (ce_now env) (save_case c' db)))"
    by (auto simp: stop_case_def service_simps Let_def)
  let ?db1 = "cancel_nonterminal_actions i (ce_now env) (save_case c' db)"
  have none: "filter (open_link i) (db_actions db') = []"
  proof -
    have "\<not> open_link i b" if "b \<in> set (db_actions ?db1)" for b
      using that
    proof (cases rule: cancel_mem)
      case kept
      then show ?thesis using assms(9) by (auto simp: open_link_def open_statuses_def)
    qed (simp add: open_link_def)
    then show ?thesis by (simp add: db' filter_empty_conv)
  qed
  let ?b = "a\<lparr>ar_status := Act_CANCELLED, ar_completed_at := Some (ce_now env), ar_updated_at := ce_now env\<rparr>"
  have "?b \<in> set (db_actions db')"
    using assms(5,6,8) by (auto simp: db' cancel_nonterminal_actions_def set_update_where open_statuses_def)
  moreover have "distinct (map ar_id (db_actions db'))"
    using assms(4) cancel_ids [of i "ce_now env" "save_case c' db"] by (simp add: db')
  ultimately have "find_action db' (ar_id a) = Some ?b"
    using find_distinct_key [of ar_id "db_actions db'" ?b] by (simp add: find_action_def)
  with none show ?thesis by (simp add: cleanup_standard_payment_links_def persist_payment_surface_def)
qed

section \<open>Concrete runs\<close>

definition office :: case_env where
  "office = \<lparr>ce_now = hours 1, ce_utc_now = hours 1, ce_action_id = ''action_9'', ce_policy_id = ''policy_9'',
     ce_global_kill_switch = False, ce_scorer = even_scorer, ce_zones = kolkata_zones, ce_sha256 = id,
     ce_standard_links = True, ce_agent_ready = False\<rparr>"

lemma link_db_quiet: "closed_cases_quiet link_db"
  by (simp add: closed_cases_quiet_def quiet_case_def link_db_def sample_a2a_db_def)

lemma link_db_stopped:
  "\<exists>c db'. stop_case office ''m1'' ''case_1'' link_db = Inr (c, db') \<and> c \<in> set (db_cases db') \<and> rc_id c = ''case_1''
     \<and> rc_case_outcome c = Case_STOPPED
     \<and> (\<exists>a \<in> set (db_actions db'). ar_case_id a = ''case_1'' \<and> ar_action_type a = OPEN_CUSTOMER_PAYMENT_SURFACE)"
  by (simp add: stop_case_def require_case_def get_case_def link_db_def sample_a2a_db_def Let_def save_row_def update_where_def
      cancel_nonterminal_actions_def link_action_def)

theorem closed_case_stays_quiet_witness:
  "\<exists>a \<in> set (db_actions (run_log operate [(office, ''m1'', ''case_1'', Stop_Case)] link_db)).
     ar_case_id a = ''case_1'' \<and> ar_status a \<in> {Act_SUCCEEDED, Act_FAILED, Act_CANCELLED}"
proof -
  obtain c db' a where s: "stop_case office ''m1'' ''case_1'' link_db = Inr (c, db')" "c \<in> set (db_cases db')"
    "rc_id c = ''case_1''" "rc_case_outcome c = Case_STOPPED" "a \<in> set (db_actions db')" "ar_case_id a = ''case_1''"
    "ar_action_type a = OPEN_CUSTOMER_PAYMENT_SURFACE" using link_db_stopped by blast
  then have "run_log operate [(office, ''m1'', ''case_1'', Stop_Case)] link_db = db'"
    by (simp add: run_log_def operate_def)
  with closed_case_stays_quiet [OF link_db_quiet, of c "[(office, ''m1'', ''case_1'', Stop_Case)]" a] s
  show ?thesis by (auto simp: TERMINAL_CONTROL_ACTIONS_def)
qed

lemma books_run:
  "map rc_arrears_collected_paise (db_cases (run_log ledger_run
     [Operator_Command office ''m1'' ''case_1'' (Mock_Success ''evt_1'' (Some 50000) False),
      Operator_Command office ''m1'' ''case_1'' (Mock_Success ''evt_1'' (Some 50000) False),
      Process_Message (sample_env True)] sample_db)) = [50000]"
  by code_simp

theorem books_balance_witness:
  "map (\<lambda>c. recognized (rc_id c) (db_revenue (run_log ledger_run
     [Operator_Command office ''m1'' ''case_1'' (Mock_Success ''evt_1'' (Some 50000) False),
      Operator_Command office ''m1'' ''case_1'' (Mock_Success ''evt_1'' (Some 50000) False),
      Process_Message (sample_env True)] sample_db)))
    (db_cases (run_log ledger_run
     [Operator_Command office ''m1'' ''case_1'' (Mock_Success ''evt_1'' (Some 50000) False),
      Operator_Command office ''m1'' ''case_1'' (Mock_Success ''evt_1'' (Some 50000) False),
      Process_Message (sample_env True)] sample_db)) = [50000]"
  (is "map ?f (db_cases ?d) = _")
proof -
  have "\<forall>c \<in> set (db_cases ?d). rc_arrears_collected_paise c = recognized (rc_id c) (db_revenue ?d)"
    using books_balance [OF sample_db_inv] by blast
  then have "map ?f (db_cases ?d) = map rc_arrears_collected_paise (db_cases ?d)" by simp
  then show ?thesis using books_run by simp
qed

theorem writers_refine_machine_witness:
  "\<exists>db'. run_command office ''m1'' ''case_1'' Stop_Case link_db = Inr db'
     \<and> activity_step sample_runtime (fresh_cluster link_db) (with_db db' (fresh_cluster link_db))"
proof -
  obtain db' where "run_command office ''m1'' ''case_1'' Stop_Case link_db = Inr db'" using link_db_stopped by fastforce
  moreover have "cl_db (fresh_cluster link_db) = link_db" by (simp add: fresh_cluster_def)
  ultimately show ?thesis
    using writers_refine_machine [OF rtranclp.rtrancl_refl link_ids,
      where db' = db' and cenv = office and m = "''m1''" and i = "''case_1''" and cmd = Stop_Case] by auto
qed

theorem stop_strands_opening_link_witness:
  "\<exists>c db'. stop_case office ''m1'' ''case_1'' submitted_db = Inr (c, db')
     \<and> (\<forall>lp. cleanup_standard_payment_links sample_runtime lp 5 ''case_1'' db' = ((True, None), db'))"
proof -
  let ?c = "hd (db_cases submitted_db)"
  have c: "get_case ''m1'' ''case_1'' submitted_db = Some ?c" "rc_case_outcome ?c = Case_OPEN"
    by (simp_all add: get_case_def submitted_db_def link_db_def sample_a2a_db_def)
  then obtain c' db' where s: "stop_case office ''m1'' ''case_1'' submitted_db = Inr (c', db')"
    by (simp add: stop_case_def require_case_def Let_def)
  have a: "distinct (map ar_id (db_actions submitted_db))" "executing_row 0 link_action \<in> set (db_actions submitted_db)"
    "ar_case_id (executing_row 0 link_action) = ''case_1''"
    "ar_payment_surface_type (executing_row 0 link_action) = Some STANDARD_PAYMENT_LINK"
    "ar_status (executing_row 0 link_action) = Act_EXECUTING"
    "\<forall>b \<in> set (db_actions submitted_db). ar_case_id b = ''case_1''
       \<longrightarrow> ar_payment_surface_type b = Some STANDARD_PAYMENT_LINK \<longrightarrow> ar_status b \<noteq> Act_SUCCEEDED"
    by (simp_all add: submitted_db_def executing_row_def link_action_def)
  show ?thesis using s stop_strands_opening_link [OF s c a] by blast
qed

definition call_action :: RecoveryActionRecord where
  "call_action = link_action\<lparr>ar_action_type := START_VOICE, ar_payment_surface_type := None, ar_status := Act_AWAITING_APPROVAL\<rparr>"

definition call_db :: a2a_database where
  "call_db = sample_a2a_db\<lparr>db_actions := [call_action],
     db_policies := [PolicyDecisionRecord.pr_disposition_update (\<lambda>_. REQUIRE_MANUAL_APPROVAL) (hd (db_policies sample_a2a_db))]\<rparr>"

theorem approved_voice_action_is_claimed_witness:
  "\<exists>a db' db''. approve_action office ''m1'' ''case_1'' ''action_1'' call_db = Inr (a, db')
     \<and> claim_voice_action True 5 link_command db' = (Voice_Claimed (executing_row 5 a), db'')"
proof -
  let ?a = "call_action\<lparr>ar_status := Act_SCHEDULED, ar_completed_at := None, ar_updated_at := hours 1\<rparr>"
  let ?e = "case_event ''case_1'' ''ACTION_APPROVED'' ''operator'' Ev_SYSTEM_DERIVED (Some (approval_payload call_action))
    (hours 1) ''approval:action_1''"
  let ?db = "call_db\<lparr>db_actions := [?a], db_events := [?e]\<rparr>"
  have approved: "approve_action office ''m1'' ''case_1'' ''action_1'' call_db = Inr (?a, ?db)"
    by (simp add: approve_action_def service_get_case_def get_case_aggregate_def get_case_def require_action_def get_action_def
        call_db_def sample_a2a_db_def call_action_def link_action_def truthy_def save_row_def update_where_def add_event_def office_def Let_def)
  have rows: "last_by (\<lambda>(a, p, c). ar_created_at a) (action_rows ?db (\<lambda>a c. ar_case_id a = ea_case_id link_command
        \<and> rc_merchant_id c = ea_merchant_id link_command \<and> rc_customer_id c = ea_customer_id link_command
        \<and> rc_subscription_id c = ea_subscription_id link_command \<and> rc_amount_at_risk_paise c = ea_amount_paise link_command
        \<and> ar_action_type a = START_VOICE)) = Some (?a, hd (db_policies call_db), hd (db_cases call_db))"
    by (simp add: action_rows_def call_db_def sample_a2a_db_def call_action_def link_action_def link_command_def last_by_def)
  have "ar_action_type ?a = START_VOICE" "\<forall>e \<in> set (db_events call_db). re_case_id e = ''case_1''
      \<longrightarrow> re_source_event_id e \<noteq> Some (''approval:'' @ ar_id ?a)" "ea_case_id link_command = ''case_1''"
    "PolicyDecisionRecord.pr_disposition (hd (db_policies call_db)) = REQUIRE_MANUAL_APPROVAL"
    by (simp_all add: call_action_def call_db_def sample_a2a_db_def link_command_def)
  from approved_voice_action_is_claimed [OF approved this(1-3) rows this(4)] approved show ?thesis by blast
qed

end
