(* ===== verification/Console_Commands.thy ===== *)
theory Console_Commands
  imports Case_Service Recovery_Workflow
begin

text \<open>
  The commands of an operator end to end: the routes of \<open>services/api/app/api/router.py\<close> that change a case
  commit the change with the case service and then hand a signal to the workflow of the case, through the
  commander of \<open>services/api/app/workflows/commands.py\<close>.

  What Temporal answers is an argument: the description of the workflow (whether it is running, or the failure
  of the call) and the outcome of the signal. A request yields its answer or its error, the database and
  the signals Temporal has acknowledged. The dependencies of a route (operator authentication, demonstration
  mode) and the printed messages are left out.
\<close>

section \<open>The commander\<close>

datatype temporal_failure = RPC_NOT_FOUND | RPC_FAILED_PRECONDITION | RPC_OTHER | Other_Exception

record temporal_answer =
  ta_running :: "temporal_failure + bool"
  ta_signal :: "temporal_failure option"

datatype delivery_status = ALREADY_TERMINAL | DELIVERED

record WorkflowCommandDelivery =
  wd_workflow_id :: string
  wd_signal_id :: string
  wd_status :: delivery_status

fun unavailable_reason :: "temporal_failure \<Rightarrow> string" where
  "unavailable_reason RPC_NOT_FOUND = ''WORKFLOW_NOT_FOUND''"
| "unavailable_reason RPC_FAILED_PRECONDITION = ''WORKFLOW_CLOSED_DURING_DELIVERY''"
| "unavailable_reason RPC_OTHER = ''TEMPORAL_RPC_FAILED''"
| "unavailable_reason Other_Exception = ''DELIVERY_FAILED''"

definition deliver :: "temporal_answer \<Rightarrow> ident \<Rightarrow> QueuedSignal
    \<Rightarrow> (string + WorkflowCommandDelivery) \<times> QueuedSignal list" where
  "deliver ta case_id s =
     (let delivery = (\<lambda>st. \<lparr>wd_workflow_id = recovery_workflow_id case_id, wd_signal_id = signal_id s, wd_status = st\<rparr>)
      in case ta_running ta of
        Inl f \<Rightarrow> (Inl (unavailable_reason f), [])
      | Inr running \<Rightarrow>
          if \<not> running then (Inr (delivery ALREADY_TERMINAL), [])
          else (case ta_signal ta of
            Some f \<Rightarrow> (Inl (unavailable_reason f), [])
          | None \<Rightarrow> (Inr (delivery DELIVERED), [s])))"

definition approval_signal_of :: "ident \<Rightarrow> bool \<Rightarrow> string option \<Rightarrow> QueuedSignal" where
  "approval_signal_of action_id ok reason = APPROVAL
     \<lparr>aps_signal_id = ''operator:'' @ (if ok then ''approve'' else ''reject'') @ '':'' @ action_id,
      aps_approved = ok, aps_reviewer_id = ''merchant-operator'', aps_reason = reason\<rparr>"

definition stop_signal_of :: "ident \<Rightarrow> string \<Rightarrow> QueuedSignal" where
  "stop_signal_of case_id reason = CANCELLATION
     \<lparr>cns_signal_id = ''operator:stop:'' @ case_id, cns_reason = reason, cns_requested_by = ''merchant-operator''\<rparr>"

definition escalation_signal_of :: "ident \<Rightarrow> string \<Rightarrow> QueuedSignal" where
  "escalation_signal_of case_id reason = OPERATOR_ESCALATION
     \<lparr>oes_signal_id = ''operator:escalate:'' @ case_id, oes_reason = reason, oes_requested_by = ''merchant-operator''\<rparr>"

definition payment_captured_signal :: "ident \<Rightarrow> paise \<Rightarrow> QueuedSignal" where
  "payment_captured_signal event_id amount = PAYMENT_EVENT
     \<lparr>pes_signal_id = ''mock-payment:'' @ event_id, pes_provider_event_id = event_id, pes_payment_state = ''CAPTURED'',
      pes_amount_paise = amount, pes_authoritative = True\<rparr>"

section \<open>The routes\<close>

datatype console_error = Service_Error case_error | Workflow_Unavailable string

text \<open>The change is committed before the signal; a failure of the delivery keeps it.\<close>

definition commit_then_signal ::
    "temporal_answer \<Rightarrow> ident \<Rightarrow> ('r \<Rightarrow> QueuedSignal) \<Rightarrow> case_error + 'r \<times> 'z database_scheme \<Rightarrow> 'z database_scheme
     \<Rightarrow> (console_error + 'r) \<times> 'z database_scheme \<times> QueuedSignal list" where
  "commit_then_signal ta i sig outcome db = (case outcome of
     Inl e \<Rightarrow> (Inl (Service_Error e), db, [])
   | Inr (r, db') \<Rightarrow> (case deliver ta i (sig r) of
       (Inl reason, sent) \<Rightarrow> (Inl (Workflow_Unavailable reason), db', sent)
     | (Inr _, sent) \<Rightarrow> (Inr r, db', sent)))"

definition approve_recovery_action where
  "approve_recovery_action env ta m i action_id db =
     commit_then_signal ta i (\<lambda>_. approval_signal_of action_id True None)
       (bindE (get_action_for_command m i action_id db) (\<lambda>_. approve_action env m i action_id db)) db"

definition reject_recovery_action where
  "reject_recovery_action env ta m i action_id reason db =
     commit_then_signal ta i (\<lambda>_. approval_signal_of action_id False (Some reason))
       (bindE (get_action_for_command m i action_id db) (\<lambda>_. reject_action env m i action_id db)) db"

definition stop_recovery_case where
  "stop_recovery_case env ta m i reason db =
     commit_then_signal ta i (\<lambda>_. stop_signal_of i reason)
       (bindE (service_get_case m i db) (\<lambda>_. stop_case env m i db)) db"

definition escalate_recovery_case where
  "escalate_recovery_case env ta m i reason db =
     commit_then_signal ta i (\<lambda>_. escalation_signal_of i reason)
       (bindE (service_get_case m i db) (\<lambda>_. escalate_case env m i reason db)) db"

definition open_mock_payment_surface where
  "open_mock_payment_surface env ta m i action_id db = approve_recovery_action env ta m i action_id db"

definition mock_payment_success_route where
  "mock_payment_success_route env ta m i event_id amount reactivated db =
     commit_then_signal ta i (\<lambda>r. payment_captured_signal event_id (sr_recognized_amount_paise r))
       (apply_mock_payment_success env m i event_id amount reactivated db) db"

text \<open>The command of the console: approval and rejection are for the action that is displayed.\<close>

datatype operator_command = Command_APPROVE ident | Command_REJECT ident | Command_STOP | Command_ESCALATE

definition displayed_action :: "ident \<Rightarrow> ident \<Rightarrow> ident \<Rightarrow> 'z database_scheme \<Rightarrow> case_error + RecoveryActionRecord" where
  "displayed_action m i action_id db = bindE (service_get_case m i db) (\<lambda>g.
     case ag_latest_action g of
       Some a \<Rightarrow> if ar_id a = action_id then Inr a
         else Inl (Case_Conflict ''The displayed recovery action is missing or no longer current.'')
     | None \<Rightarrow> Inl (Case_Conflict ''The displayed recovery action is missing or no longer current.''))"

definition forget_result :: "'e + 'r \<times> 'd \<Rightarrow> 'e + unit \<times> 'd" where
  "forget_result x = bindE x (\<lambda>(_, db). Inr ((), db))"

fun execute_operator_command ::
    "case_env \<Rightarrow> temporal_answer \<Rightarrow> ident \<Rightarrow> ident \<Rightarrow> operator_command \<Rightarrow> 'z database_scheme
     \<Rightarrow> (console_error + unit) \<times> 'z database_scheme \<times> QueuedSignal list" where
  "execute_operator_command env ta m i (Command_APPROVE x) db =
     commit_then_signal ta i (\<lambda>_. approval_signal_of x True None)
       (bindE (displayed_action m i x db) (\<lambda>a. forget_result (approve_action env m i (ar_id a) db))) db"
| "execute_operator_command env ta m i (Command_REJECT x) db =
     commit_then_signal ta i (\<lambda>_. approval_signal_of x False (Some ''Rejected by the merchant operator.''))
       (bindE (displayed_action m i x db) (\<lambda>a. forget_result (reject_action env m i (ar_id a) db))) db"
| "execute_operator_command env ta m i Command_STOP db =
     commit_then_signal ta i (\<lambda>_. stop_signal_of i ''Stopped by the merchant operator.'')
       (forget_result (stop_case env m i db)) db"
| "execute_operator_command env ta m i Command_ESCALATE db =
     commit_then_signal ta i (\<lambda>_. escalation_signal_of i ''Escalated by the merchant operator.'')
       (forget_result (escalate_case env m i ''Escalated by the merchant operator.'' db)) db"

text \<open>The safety controls: an escalation is signalled, the other dispositions only change the case.\<close>

datatype safety_control = ESCALATE_CONTROL | MARK ContactDisposition

fun safety_disposition_route ::
    "case_env \<Rightarrow> temporal_answer \<Rightarrow> ident \<Rightarrow> ident \<Rightarrow> safety_control \<Rightarrow> 'z database_scheme
     \<Rightarrow> (console_error + RecoveryCase) \<times> 'z database_scheme \<times> QueuedSignal list" where
  "safety_disposition_route env ta m i ESCALATE_CONTROL db =
     commit_then_signal ta i
       (\<lambda>_. escalation_signal_of i ''Escalated by the merchant operator from the safety controls.'')
       (escalate_case env m i ''Escalated by the merchant operator from the safety controls.'' db) db"
| "safety_disposition_route env ta m i (MARK d) db =
     (case record_safety_disposition env m i d db of
        Inl e \<Rightarrow> (Inl (Service_Error e), db, [])
      | Inr (c, db') \<Rightarrow> (Inr c, db', []))"

section \<open>The commands a case offers\<close>

definition available_commands :: "CaseAggregate \<Rightarrow> string list" where
  "available_commands g =
     (if rc_case_outcome (ag_recovery_case g) \<noteq> Case_OPEN then []
      else [''STOP'', ''ESCALATE_TO_HUMAN''] @ (case ag_latest_action g of
          None \<Rightarrow> []
        | Some a \<Rightarrow> (if ar_status a = Act_AWAITING_APPROVAL then [''APPROVE''] else [])
            @ (if ar_status a \<in> {Act_PROPOSED, Act_AWAITING_APPROVAL, Act_SCHEDULED} then [''REJECT''] else [])))"

end
