(* ===== verification/Case_Listing.thy ===== *)
theory Case_Listing
  imports Case_Repository Wire_Encoding
begin

text \<open>
  The listing of cases, \<open>list_cases\<close> of \<open>services/api/app/repositories/cases.py\<close>, with its opaque cursor:
  the key of the last row of a page, as JSON in base64url.

  The JSON reader and the two conversions of timestamps are arguments. \<open>cc_loads\<close> is \<open>decode()\<close> followed
  by \<open>json.loads\<close>, \<open>None\<close> for any \<open>ValueError\<close>. The writer is \<open>Wire_Encoding\<close>'s: a case's identifier and
  an ISO timestamp are printable ASCII, on which \<open>json.dumps\<close> escapes the quote and the backslash only.
  The router admits limits from 1 to 100.

  Rows are listed by descending time and identifier. A reader who follows the cursors while other
  transactions change the table never sees a case twice, and sees every case that matches
  throughout; on an unchanged table the pages together are the sorted list of all matching cases.
\<close>

section \<open>Cursors\<close>

datatype cursor_error = Invalid_Cursor | Cursor_Attribute_Error

record cursor_codec =
  cc_loads :: "string \<Rightarrow> json option"
  cc_isoformat :: "instant \<Rightarrow> string"
  cc_fromisoformat :: "string \<Rightarrow> datetime option"

definition byte_of_char :: "char \<Rightarrow> byte" where
  "byte_of_char c = byte_of (of_char c)"

definition char_of_byte :: "byte \<Rightarrow> char" where
  "char_of_byte b = char_of (unat b)"

definition cursor_text :: "cursor_codec \<Rightarrow> instant \<Rightarrow> ident \<Rightarrow> string" where
  "cursor_text cc opened_at case_id =
     ''{'' @ json_join (map json_field
       [(''v'', J_int 1), (''opened_at'', J_text (cc_isoformat cc opened_at)), (''id'', J_text case_id)]) @ ''}''"

definition encode_cursor :: "cursor_codec \<Rightarrow> instant \<Rightarrow> ident \<Rightarrow> string" where
  "encode_cursor cc opened_at case_id = b64url_encode (map byte_of_char (cursor_text cc opened_at case_id))"

text \<open>\<open>value == 1\<close> on a decoded value: \<open>True\<close> and \<open>1.0\<close> are equal to 1.\<close>

fun equals_one :: "json \<Rightarrow> bool" where
  "equals_one (JInt n) = (n = 1)"
| "equals_one (JBool b) = b"
| "equals_one (JFloat r) = (r = 1)"
| "equals_one _ = False"

definition cursor_position :: "cursor_codec \<Rightarrow> jobject \<Rightarrow> cursor_error + instant \<times> ident" where
  "cursor_position cc payload =
     (case (jget payload ''id'', jget payload ''opened_at'') of
        (JStr case_id, opened_at) \<Rightarrow>
          if \<not> equals_one (jget payload ''v'') then Inl Invalid_Cursor
          else (case opened_at of
            JStr s \<Rightarrow> (case cc_fromisoformat cc s of
                Some (Aware t off) \<Rightarrow> Inr (t, case_id)
              | _ \<Rightarrow> Inl Invalid_Cursor)
          | _ \<Rightarrow> Inl Invalid_Cursor)
      | _ \<Rightarrow> Inl Invalid_Cursor)"

text \<open>\<open>payload.get\<close> of a value that is not an object raises \<open>AttributeError\<close>, which is not caught.\<close>

definition decode_cursor :: "cursor_codec \<Rightarrow> string \<Rightarrow> cursor_error + instant \<times> ident" where
  "decode_cursor cc cursor = (case lenient_b64url_decode cursor of
     Inl _ \<Rightarrow> Inl Invalid_Cursor
   | Inr bytes \<Rightarrow> (case cc_loads cc (map char_of_byte bytes) of
       None \<Rightarrow> Inl Invalid_Cursor
     | Some (JObj payload) \<Rightarrow> cursor_position cc payload
     | Some _ \<Rightarrow> Inl Cursor_Attribute_Error))"

section \<open>Pages\<close>

record CaseFilters =
  cf_outcomes :: "CaseOutcome list"
  cf_diagnoses :: "Diagnosis list"
  cf_subscription_states :: "SubscriptionState list"
  cf_opened_from :: "instant option"
  cf_opened_to :: "instant option"

record CasePage =
  cp_items :: "RecoveryCase list"
  cp_next_cursor :: "string option"
  cp_has_more :: bool

definition matches_filters :: "ident \<Rightarrow> CaseFilters \<Rightarrow> RecoveryCase \<Rightarrow> bool" where
  "matches_filters m f c \<longleftrightarrow> rc_merchant_id c = m
     \<and> (cf_outcomes f \<noteq> [] \<longrightarrow> rc_case_outcome c \<in> set (cf_outcomes f))
     \<and> (cf_diagnoses f \<noteq> [] \<longrightarrow> rc_diagnosis c \<in> set (cf_diagnoses f))
     \<and> (cf_subscription_states f \<noteq> [] \<longrightarrow> rc_subscription_state c \<in> set (cf_subscription_states f))
     \<and> (case cf_opened_from f of None \<Rightarrow> True | Some t \<Rightarrow> t \<le> rc_opened_at c)
     \<and> (case cf_opened_to f of None \<Rightarrow> True | Some t \<Rightarrow> rc_opened_at c \<le> t)"

definition listing_key :: "RecoveryCase \<Rightarrow> instant \<times> ident" where
  "listing_key c = (rc_opened_at c, rc_id c)"

definition before_cursor :: "(instant \<times> ident) option \<Rightarrow> RecoveryCase \<Rightarrow> bool" where
  "before_cursor pos c = (case pos of
     None \<Rightarrow> True
   | Some (opened_at, case_id) \<Rightarrow>
       rc_opened_at c < opened_at \<or> rc_opened_at c = opened_at \<and> rc_id c < case_id)"

definition cursor_of :: "cursor_codec \<Rightarrow> string option \<Rightarrow> cursor_error + (instant \<times> ident) option" where
  "cursor_of cc cursor = (case cursor of
     None \<Rightarrow> Inr None
   | Some s \<Rightarrow> if s = [] then Inr None else bindE (decode_cursor cc s) (\<lambda>p. Inr (Some p)))"

definition page_of :: "cursor_codec \<Rightarrow> nat \<Rightarrow> RecoveryCase list \<Rightarrow> CasePage" where
  "page_of cc limit rows = (let items = take limit rows; has_more = limit < length rows in
     \<lparr>cp_items = items,
      cp_next_cursor = (if has_more \<and> items \<noteq> []
        then Some (encode_cursor cc (rc_opened_at (last items)) (rc_id (last items))) else None),
      cp_has_more = has_more\<rparr>)"

definition list_cases ::
    "cursor_codec \<Rightarrow> ident \<Rightarrow> CaseFilters \<Rightarrow> string option \<Rightarrow> nat \<Rightarrow> 'z database_scheme
     \<Rightarrow> cursor_error + CasePage" where
  "list_cases cc m f cursor limit db =
     bindE (cursor_of cc cursor) (\<lambda>pos.
       Inr (page_of cc limit (take (Suc limit) (rev (sort_key listing_key
         (filter (\<lambda>c. matches_filters m f c \<and> before_cursor pos c) (db_cases db)))))))"

text \<open>A reader who follows the cursors; each page is read from the table as it is then.\<close>

fun follow ::
    "cursor_codec \<Rightarrow> ident \<Rightarrow> CaseFilters \<Rightarrow> nat \<Rightarrow> string option \<Rightarrow> 'z database_scheme list
     \<Rightarrow> cursor_error + CasePage list" where
  "follow cc m f limit cursor [] = Inr []"
| "follow cc m f limit cursor (db # dbs) =
     bindE (list_cases cc m f cursor limit db) (\<lambda>p.
       if cp_has_more p
       then bindE (follow cc m f limit (cp_next_cursor p) dbs) (\<lambda>ps. Inr (p # ps))
       else Inr [p])"

definition listed :: "CasePage list \<Rightarrow> RecoveryCase list" where
  "listed pages = concat (map cp_items pages)"

definition listing_complete :: "CasePage list \<Rightarrow> bool" where
  "listing_complete pages \<longleftrightarrow> pages \<noteq> [] \<and> \<not> cp_has_more (last pages)"

text \<open>
  What is relied on of \<open>json.loads\<close> and of the conversions of timestamps: they read back what was
  written for a row.
\<close>

definition reads_back :: "cursor_codec \<Rightarrow> RecoveryCase \<Rightarrow> bool" where
  "reads_back cc c \<longleftrightarrow>
     cc_loads cc (cursor_text cc (rc_opened_at c) (rc_id c)) =
       Some (JObj [(''v'', JInt 1), (''opened_at'', JStr (cc_isoformat cc (rc_opened_at c))),
                   (''id'', JStr (rc_id c))])
     \<and> cc_fromisoformat cc (cc_isoformat cc (rc_opened_at c)) = Some (Aware (rc_opened_at c) 0)"

definition table_reads_back :: "cursor_codec \<Rightarrow> 'z database_scheme \<Rightarrow> bool" where
  "table_reads_back cc db \<longleftrightarrow> distinct (map rc_id (db_cases db)) \<and> (\<forall>c \<in> set (db_cases db). reads_back cc c)"

section \<open>The cursor of a row is read back\<close>

lemma char_byte [simp]: "char_of_byte (byte_of_char c) = c"
proof -
  have "(of_char c :: nat) < 256" by (rule nat_of_char_less_256) 
  then show ?thesis
    by (simp add: char_of_byte_def byte_of_char_def byte_of_def unat_of_nat take_bit_nat_eq_self)
qed

lemma encode_cursor_nonempty: "encode_cursor cc t i \<noteq> []"
proof
  assume "encode_cursor cc t i = []"
  then have "lenient_b64url_decode [] = Inr (map byte_of_char (cursor_text cc t i))"
    using b64url_decode_encode(2) [of "map byte_of_char (cursor_text cc t i)"] by (simp add: encode_cursor_def)
  then show False
    by (simp add: lenient_b64url_decode_def b64decode_def add_padding_def cursor_text_def)
qed

lemma decode_encode_cursor:
  assumes "reads_back cc c"
  shows "decode_cursor cc (encode_cursor cc (rc_opened_at c) (rc_id c)) = Inr (listing_key c)"
  using assms
  by (simp add: decode_cursor_def encode_cursor_def b64url_decode_encode comp_def reads_back_def
      cursor_position_def jget_def listing_key_def)

lemma cursor_of_row:
  assumes "reads_back cc c"
  shows "cursor_of cc (Some (encode_cursor cc (rc_opened_at c) (rc_id c))) = Inr (Some (listing_key c))"
  using assms by (simp add: cursor_of_def encode_cursor_nonempty decode_encode_cursor)

section \<open>The rows of a page\<close>

abbreviation newest_to_oldest :: "RecoveryCase list \<Rightarrow> bool" where
  "newest_to_oldest \<equiv> sorted_wrt (\<lambda>c d. listing_key d < listing_key c)"

definition rows_from :: "ident \<Rightarrow> CaseFilters \<Rightarrow> (instant \<times> ident) option \<Rightarrow> 'z database_scheme \<Rightarrow> RecoveryCase list" where
  "rows_from m f pos db = rev (sort_key listing_key
     (filter (\<lambda>c. matches_filters m f c \<and> before_cursor pos c) (db_cases db)))"

lemma before_cursor_Some: "before_cursor (Some k) c \<longleftrightarrow> listing_key c < k"
  by (cases k) (auto simp: before_cursor_def listing_key_def)

lemma before_cursor_None [simp]: "before_cursor None c"
  by (simp add: before_cursor_def)

lemma before_cursor_less:
  assumes "before_cursor pos l" "listing_key c < listing_key l"
  shows "before_cursor pos c"
  using assms by (cases pos) (auto simp: before_cursor_Some)

lemma set_rows_from:
  "set (rows_from m f pos db) = {c \<in> set (db_cases db). matches_filters m f c \<and> before_cursor pos c}"
  by (simp add: rows_from_def)

lemma listing_key_inj:
  assumes "distinct (map rc_id (db_cases db))"
  shows "inj_on listing_key (set (db_cases db))"
  using assms by (auto simp: distinct_map listing_key_def inj_on_def)

lemma rows_from_newest_to_oldest:
  assumes "distinct (map rc_id (db_cases db))"
  shows "newest_to_oldest (rows_from m f pos db)"
proof -
  let ?xs = "sort_key listing_key (filter (\<lambda>c. matches_filters m f c \<and> before_cursor pos c) (db_cases db))"
  have "distinct (map listing_key (db_cases db))"
    using assms listing_key_inj [OF assms] by (simp add: distinct_map)
  then have "distinct (map listing_key ?xs)"
    by (simp add: distinct_map_filter distinct_map) (auto simp: inj_on_def)
  moreover have "sorted (map listing_key ?xs)" by simp
  ultimately have "sorted_wrt (<) (map listing_key ?xs)"
    by (simp only: strict_sorted_iff)
  then show ?thesis by (simp add: rows_from_def sorted_wrt_rev sorted_wrt_map)
qed

lemma list_cases_rows:
  assumes "cursor_of cc cursor = Inr pos"
  shows "list_cases cc m f cursor limit db = Inr (page_of cc limit (take (Suc limit) (rows_from m f pos db)))"
  using assms by (simp add: list_cases_def rows_from_def)

lemma page_fields:
  "cp_items (page_of cc limit (take (Suc limit) rows)) = take limit rows"
  "cp_has_more (page_of cc limit (take (Suc limit) rows)) \<longleftrightarrow> limit < length rows"
  by (auto simp: page_of_def Let_def min_def)

text \<open>The cursor of a page is the key of its last row; the rows after the page are those before it.\<close>

lemma next_page:
  assumes table: "table_reads_back cc db" and limit: "0 < limit"
    and more: "limit < length (rows_from m f pos db)"
  obtains l where "l \<in> set (rows_from m f pos db)" "l \<in> set (take limit (rows_from m f pos db))"
    "cursor_of cc (cp_next_cursor (page_of cc limit (take (Suc limit) (rows_from m f pos db))))
       = Inr (Some (listing_key l))"
    "\<forall>c \<in> set (take limit (rows_from m f pos db)). listing_key l \<le> listing_key c"
    "\<forall>c \<in> set (drop limit (rows_from m f pos db)). listing_key c < listing_key l"
proof -
  let ?rows = "rows_from m f pos db" and ?items = "take limit (rows_from m f pos db)"
  let ?l = "last ?items"
  from more limit have items: "?items \<noteq> []" by auto
  then have l: "?l \<in> set ?items" by (rule last_in_set)
  then have row: "?l \<in> set ?rows" by (rule in_set_takeD)
  then have "reads_back cc ?l" using table by (auto simp: table_reads_back_def set_rows_from)
  moreover have "cp_next_cursor (page_of cc limit (take (Suc limit) ?rows))
      = Some (encode_cursor cc (rc_opened_at ?l) (rc_id ?l))"
    using more items by (simp add: page_of_def Let_def min_def)
  ultimately have cursor: "cursor_of cc (cp_next_cursor (page_of cc limit (take (Suc limit) ?rows)))
      = Inr (Some (listing_key ?l))"
    by (simp add: cursor_of_row)
  have ordered: "newest_to_oldest ?rows"
    using table by (intro rows_from_newest_to_oldest) (simp add: table_reads_back_def)
  then have "newest_to_oldest (?items @ drop limit ?rows)" by simp
  then have after: "\<forall>c \<in> set (drop limit ?rows). listing_key c < listing_key ?l"
    using l unfolding sorted_wrt_append by blast
  have "newest_to_oldest (butlast ?items @ [?l])"
    using ordered items by (simp add: sorted_wrt_take)
  then have "\<forall>c \<in> set (butlast ?items). listing_key ?l < listing_key c"
    unfolding sorted_wrt_append by simp
  moreover have "set ?items = insert ?l (set (butlast ?items))"
    using items append_butlast_last_id [of ?items] by (metis list.simps(15) rotate1.simps(2) set_rotate1)
  ultimately have before: "\<forall>c \<in> set ?items. listing_key ?l \<le> listing_key c"
    by (metis insertE order.strict_implies_order order_refl)
  show thesis by (rule that [OF row l cursor before after])
qed

section \<open>Following the cursors\<close>

declare follow.simps(2) [simp del]

lemma follow_step:
  assumes "cursor_of cc cursor = Inr pos"
  shows "follow cc m f limit cursor (db # dbs) =
    (let p = page_of cc limit (take (Suc limit) (rows_from m f pos db)) in
     if limit < length (rows_from m f pos db)
     then bindE (follow cc m f limit (cp_next_cursor p) dbs) (\<lambda>ps. Inr (p # ps)) else Inr [p])"
  using assms by (simp add: follow.simps(2) list_cases_rows page_fields Let_def)

lemma listed_Cons [simp]: "listed (p # ps) = cp_items p @ listed ps"
  by (simp add: listed_def)

lemma listed_Nil [simp]: "listed [] = []"
  by (simp add: listed_def)

text \<open>A key that a matching row carries in every one of the tables.\<close>

definition always_listed :: "ident \<Rightarrow> CaseFilters \<Rightarrow> (instant \<times> ident) option \<Rightarrow> 'z database_scheme list
    \<Rightarrow> instant \<times> ident \<Rightarrow> bool" where
  "always_listed m f pos dbs k \<longleftrightarrow> (\<forall>db \<in> set dbs. k \<in> listing_key ` set (rows_from m f pos db))"

lemma always_listed_after:
  assumes "always_listed m f pos (db # dbs) (listing_key c)" and "listing_key c < listing_key l"
  shows "always_listed m f (Some (listing_key l)) dbs (listing_key c)"
  unfolding always_listed_def
proof
  fix db' assume "db' \<in> set dbs"
  with assms(1) obtain c' where "c' \<in> set (rows_from m f pos db')" "listing_key c = listing_key c'"
    by (auto simp: always_listed_def)
  with assms(2) show "listing_key c \<in> listing_key ` set (rows_from m f (Some (listing_key l)) db')"
    by (auto simp: set_rows_from before_cursor_Some)
qed

definition good_listing :: "ident \<Rightarrow> CaseFilters \<Rightarrow> (instant \<times> ident) option \<Rightarrow> 'z database_scheme list
    \<Rightarrow> CasePage list \<Rightarrow> bool" where
  "good_listing m f pos dbs pages \<longleftrightarrow> newest_to_oldest (listed pages)
     \<and> (\<forall>c \<in> set (listed pages). before_cursor pos c \<and> (\<exists>db \<in> set dbs. c \<in> set (rows_from m f pos db)))
     \<and> (listing_complete pages \<longrightarrow> (\<forall>k. always_listed m f pos dbs k \<longrightarrow> k \<in> listing_key ` set (listed pages)))"

lemma good_last_page:
  assumes table: "table_reads_back cc db" and last: "\<not> limit < length (rows_from m f pos db)"
  shows "good_listing m f pos (db # dbs) [page_of cc limit (take (Suc limit) (rows_from m f pos db))]"
proof -
  have "newest_to_oldest (rows_from m f pos db)"
    using table by (intro rows_from_newest_to_oldest) (simp add: table_reads_back_def)
  moreover have "listed [page_of cc limit (take (Suc limit) (rows_from m f pos db))] = rows_from m f pos db"
    using last unfolding listed_Cons listed_Nil page_fields by simp
  ultimately show ?thesis
    unfolding good_listing_def always_listed_def by (simp add: set_rows_from)
qed

lemma good_page_then:
  assumes table: "table_reads_back cc db" and limit: "0 < limit"
    and rows: "rows = rows_from m f pos db" and more: "limit < length rows"
    and l: "l \<in> set rows" "\<forall>c \<in> set (take limit rows). listing_key l \<le> listing_key c"
      "\<forall>c \<in> set (drop limit rows). listing_key c < listing_key l"
    and rest: "good_listing m f (Some (listing_key l)) dbs ps"
  shows "good_listing m f pos (db # dbs) (page_of cc limit (take (Suc limit) rows) # ps)"
  unfolding good_listing_def
proof (intro conjI impI allI)
  have ordered: "newest_to_oldest rows"
    using table unfolding rows by (intro rows_from_newest_to_oldest) (simp add: table_reads_back_def)
  have below: "listing_key c < listing_key l" if "c \<in> set (listed ps)" for c
    using rest that by (auto simp: good_listing_def before_cursor_Some)
  show "newest_to_oldest (listed (page_of cc limit (take (Suc limit) rows) # ps))"
    using ordered rest below l(2)
    by (auto simp: page_fields sorted_wrt_append sorted_wrt_take good_listing_def intro: less_le_trans)
  have pos: "before_cursor pos l" using l(1) by (simp add: rows set_rows_from)
  show "\<forall>c \<in> set (listed (page_of cc limit (take (Suc limit) rows) # ps)).
      before_cursor pos c \<and> (\<exists>db' \<in> set (db # dbs). c \<in> set (rows_from m f pos db'))"
    using rest before_cursor_less [OF pos below]
    by (auto simp: page_fields good_listing_def rows set_rows_from dest!: in_set_takeD)
  fix k assume complete: "listing_complete (page_of cc limit (take (Suc limit) rows) # ps)"
    and always: "always_listed m f pos (db # dbs) k"
  from always obtain c where c: "c \<in> set rows" "k = listing_key c" by (auto simp: always_listed_def rows)
  then have "c \<in> set (take limit rows) \<or> c \<in> set (drop limit rows)"
    by (metis Un_iff append_take_drop_id set_append)
  then show "k \<in> listing_key ` set (listed (page_of cc limit (take (Suc limit) rows) # ps))"
  proof
    assume "c \<in> set (drop limit rows)"
    then have "always_listed m f (Some (listing_key l)) dbs k"
      using always l(3) c(2) by (auto intro: always_listed_after)
    moreover have "listing_complete ps"
      using complete more by (auto simp: listing_complete_def page_fields split: if_splits)
    ultimately have "k \<in> listing_key ` set (listed ps)" using rest unfolding good_listing_def by blast
    then show ?thesis by auto
  qed (simp add: page_fields c(2))
qed

lemma follow_good:
  assumes "0 < limit" and "\<forall>db \<in> set dbs. table_reads_back cc db" and "cursor_of cc cursor = Inr pos"
  shows "\<exists>pages. follow cc m f limit cursor dbs = Inr pages \<and> good_listing m f pos dbs pages"
  using assms
proof (induction dbs arbitrary: cursor pos)
  case Nil
  then show ?case by (simp add: good_listing_def listing_complete_def)
next
  case (Cons db dbs)
  let ?rows = "rows_from m f pos db"
  let ?p = "page_of cc limit (take (Suc limit) ?rows)"
  from Cons.prems have table: "table_reads_back cc db" by simp
  show ?case
  proof (cases "limit < length ?rows")
    case True
    obtain l where l: "l \<in> set ?rows" "cursor_of cc (cp_next_cursor ?p) = Inr (Some (listing_key l))"
        "\<forall>c \<in> set (take limit ?rows). listing_key l \<le> listing_key c"
        "\<forall>c \<in> set (drop limit ?rows). listing_key c < listing_key l"
      by (rule next_page [OF table Cons.prems(1) True]) blast
    with Cons obtain ps where ps: "follow cc m f limit (cp_next_cursor ?p) dbs = Inr ps"
        "good_listing m f (Some (listing_key l)) dbs ps" by force
    have "good_listing m f pos (db # dbs) (?p # ps)"
      by (rule good_page_then [OF table Cons.prems(1) refl True l(1,3,4) ps(2)])
    with ps(1) True show ?thesis by (simp add: follow_step [OF Cons.prems(3)] Let_def)
  next
    case False
    with good_last_page [OF table False] show ?thesis
      by (simp add: follow_step [OF Cons.prems(3)] Let_def)
  qed
qed

text \<open>On an unchanged table the reader is done after at most as many pages as there are rows.\<close>

lemma follow_completes:
  assumes "0 < limit" and table: "table_reads_back cc db" and "cursor_of cc cursor = Inr pos"
    and "length (rows_from m f pos db) < n"
  shows "\<exists>pages. follow cc m f limit cursor (replicate n db) = Inr pages \<and> listing_complete pages"
  using assms
proof (induction n arbitrary: cursor pos)
  case (Suc n)
  let ?rows = "rows_from m f pos db"
  let ?p = "page_of cc limit (take (Suc limit) ?rows)"
  show ?case
  proof (cases "limit < length ?rows")
    case True
    obtain l where l: "l \<in> set ?rows" "cursor_of cc (cp_next_cursor ?p) = Inr (Some (listing_key l))"
      by (rule next_page [OF table Suc.prems(1) True]) blast
    define later where "later = filter (\<lambda>c. matches_filters m f c \<and> before_cursor pos c) (db_cases db)"
    have "filter (\<lambda>c. matches_filters m f c \<and> before_cursor (Some (listing_key l)) c) (db_cases db)
        = filter (\<lambda>c. listing_key c < listing_key l) later"
      using l(1) by (auto simp: later_def before_cursor_Some set_rows_from intro!: filter_cong
          dest: before_cursor_less)
    moreover have "length (filter (\<lambda>c. listing_key c < listing_key l) later) < length later"
      using l(1) by (intro length_filter_less [of l]) (auto simp: later_def set_rows_from)
    ultimately have "length (rows_from m f (Some (listing_key l)) db) < length ?rows"
      by (simp add: rows_from_def later_def)
    with Suc.prems(4) have "length (rows_from m f (Some (listing_key l)) db) < n" by simp
    with Suc.IH [OF Suc.prems(1) table l(2)] obtain ps where
      "follow cc m f limit (cp_next_cursor ?p) (replicate n db) = Inr ps" "listing_complete ps" by blast
    with True show ?thesis
      by (auto simp: follow_step [OF Suc.prems(3)] Let_def listing_complete_def)
  next
    case False
    then have "\<not> cp_has_more ?p" unfolding page_fields .
    with False show ?thesis
      by (simp add: follow_step [OF Suc.prems(3)] Let_def listing_complete_def)
  qed
qed simp

lemma newest_to_oldest_unique:
  assumes "newest_to_oldest xs" "newest_to_oldest ys" "set xs = set ys" "inj_on listing_key (set xs)"
  shows "xs = ys"
proof -
  have strict: "sorted_wrt (<) (rev (map listing_key zs))" if "newest_to_oldest zs" for zs
    using that by (simp add: rev_map sorted_wrt_map sorted_wrt_rev)
  have "rev (map listing_key xs) = rev (map listing_key ys)"
    using strict assms(1-3) by (intro strict_sorted_equal) auto
  then have "map listing_key xs = map listing_key ys" by simp
  then show ?thesis using assms(3,4) by (simp add: inj_on_map_eq_map)
qed

lemma newest_to_oldest_distinct:
  assumes "newest_to_oldest xs"
  shows "distinct (map listing_key xs)"
  using assms by (induction xs) auto

text \<open>On an unchanged table the pages make up the sorted list of the matching cases.\<close>

lemma pages_make_up_the_list:
  assumes limit: "0 < limit" and table: "table_reads_back cc db" and "length (db_cases db) < n"
  shows "\<exists>pages. follow cc m f limit None (replicate n db) = Inr pages
    \<and> listed pages = rev (sort_key listing_key (filter (matches_filters m f) (db_cases db)))"
proof -
  have start: "cursor_of cc None = Inr None" by (simp add: cursor_of_def)
  have short: "length (rows_from m f None db) < n"
    using le_less_trans [OF length_filter_le assms(3)] by (simp add: rows_from_def)
  obtain pages where pages: "follow cc m f limit None (replicate n db) = Inr pages" "listing_complete pages"
    using follow_completes [OF limit table start short] by blast
  with follow_good [OF limit _ start, of "replicate n db" m f] table
  have good: "good_listing m f None (replicate n db) pages" by (auto simp: set_replicate_conv_if)
  from short have "0 < n" by simp
  have keys: "inj_on listing_key (set (db_cases db))"
    using table by (intro listing_key_inj) (simp add: table_reads_back_def)
  have sub: "set (listed pages) \<subseteq> set (rows_from m f None db)"
    using good by (auto simp: good_listing_def set_replicate_conv_if split: if_splits)
  have "set (rows_from m f None db) \<subseteq> set (listed pages)"
  proof
    fix c assume c: "c \<in> set (rows_from m f None db)"
    then have "always_listed m f None (replicate n db) (listing_key c)" by (auto simp: always_listed_def)
    with good pages(2) have "listing_key c \<in> listing_key ` set (listed pages)"
      unfolding good_listing_def by blast
    then obtain d where "d \<in> set (listed pages)" "listing_key c = listing_key d" by blast
    with keys c sub show "c \<in> set (listed pages)" by (auto simp: inj_on_def set_rows_from)
  qed
  with sub have same: "set (listed pages) = set (rows_from m f None db)" by blast
  have "listed pages = rows_from m f None db"
  proof (rule newest_to_oldest_unique)
    show "newest_to_oldest (listed pages)" using good by (simp add: good_listing_def)
    show "newest_to_oldest (rows_from m f None db)"
      using table by (intro rows_from_newest_to_oldest) (simp add: table_reads_back_def)
    show "inj_on listing_key (set (listed pages))"
      using keys by (rule inj_on_subset) (auto simp: same set_rows_from)
  qed (rule same)
  with pages(1) show ?thesis by (simp add: rows_from_def)
qed

text \<open>
  C36: whatever is committed between the pages, a reader who follows the cursors gets every page,
  sees no row twice and sees only matching cases; and if the last page says that there is no more,
  every case that matched, with the same opening time, in all the tables read has been listed. On an
  unchanged table, read for more pages than it has cases, the pages together are exactly the list of
  all matching cases, newest first.
\<close>

theorem listing_is_stable:
  assumes "0 < limit" and "\<forall>db \<in> set dbs. table_reads_back cc db"
  shows "\<exists>pages. follow cc m f limit None dbs = Inr pages
    \<and> distinct (map listing_key (listed pages))
    \<and> (\<forall>c \<in> set (listed pages). matches_filters m f c \<and> (\<exists>db \<in> set dbs. c \<in> set (db_cases db)))
    \<and> (listing_complete pages \<longrightarrow> (\<forall>t i.
         (\<forall>db \<in> set dbs. \<exists>c \<in> set (db_cases db). matches_filters m f c \<and> rc_opened_at c = t \<and> rc_id c = i)
         \<longrightarrow> (t, i) \<in> listing_key ` set (listed pages)))
    \<and> (\<forall>db. dbs = replicate (length dbs) db \<and> length (db_cases db) < length dbs \<longrightarrow>
         listed pages = rev (sort_key listing_key (filter (matches_filters m f) (db_cases db))))"
proof -
  have start: "cursor_of cc None = Inr None" by (simp add: cursor_of_def)
  obtain pages where pages: "follow cc m f limit None dbs = Inr pages" "good_listing m f None dbs pages"
    using follow_good [OF assms start] by blast
  have "always_listed m f None dbs (t, i)"
    if "\<forall>db \<in> set dbs. \<exists>c \<in> set (db_cases db). matches_filters m f c \<and> rc_opened_at c = t \<and> rc_id c = i" for t i
    using that unfolding always_listed_def by (force simp: set_rows_from listing_key_def)
  moreover have "listed pages = rev (sort_key listing_key (filter (matches_filters m f) (db_cases db)))"
    if same: "dbs = replicate (length dbs) db" and short: "length (db_cases db) < length dbs" for db
  proof -
    have "db \<in> set dbs" using same short by (metis in_set_replicate length_greater_0_conv not_less_zero)
    then have "table_reads_back cc db" using assms(2) by blast
    from pages_make_up_the_list [OF assms(1) this short, of m f] pages(1) show ?thesis
      by (simp flip: same)
  qed
  ultimately show ?thesis using pages(2)
    by (intro exI [of _ pages]) (auto simp: pages(1) good_listing_def newest_to_oldest_distinct set_rows_from)
qed

text \<open>
  A cursor whose payload is valid JSON but not an object is not reported as an invalid cursor: the
  listing fails with the \<open>AttributeError\<close> of \<open>payload.get\<close>.
\<close>

lemma cursor_of_other_value_crashes:
  assumes payload: "cc_loads cc body = Some v" "as_object v = None" "body \<noteq> []"
  shows "list_cases cc m f (Some (b64url_encode (map byte_of_char body))) limit db = Inl Cursor_Attribute_Error"
proof -
  let ?s = "b64url_encode (map byte_of_char body)"
  have decoded: "lenient_b64url_decode ?s = Inr (map byte_of_char body)" by (rule b64url_decode_encode(2))
  have "?s \<noteq> []"
  proof
    assume "?s = []"
    with decoded payload(3) show False
      by (simp add: lenient_b64url_decode_def b64decode_def add_padding_def)
  qed
  moreover have "decode_cursor cc ?s = Inl Cursor_Attribute_Error"
    using payload by (simp add: decode_cursor_def decoded comp_def as_object_def split: json.splits)
  ultimately show ?thesis by (simp add: list_cases_def cursor_of_def)
qed

section \<open>Three cases, two to a page\<close>

definition listing_case :: "instant \<Rightarrow> ident \<Rightarrow> RecoveryCase" where
  "listing_case t i =
     \<lparr>rc_id = i, rc_merchant_id = ''m1'', rc_customer_id = ''cust_1'', rc_subscription_id = ''sub_1'',
      rc_failed_invoice_id = None, rc_billing_cycle_key = Some ''k'', rc_failed_payment_id = None,
      rc_case_outcome = Case_OPEN, rc_payment_state = Pay_FAILED, rc_subscription_state = Sub_PENDING,
      rc_contact_disposition = NOT_CONTACTED, rc_revenue_attribution = Attr_NONE,
      rc_diagnosis = INSUFFICIENT_FUNDS, rc_amount_at_risk_paise = 149900,
      rc_arrears_collected_paise = 0, rc_case_recovered = False,
      rc_subscription_reactivated = False, rc_opened_at = t, rc_recovery_deadline = t + days 3,
      rc_recovered_at = None, rc_version = 1\<rparr>"

definition listing_cases :: "RecoveryCase list" where
  "listing_cases = [listing_case 1 ''a'', listing_case 2 ''b'', listing_case 1 ''c'']"

definition no_filters :: CaseFilters where
  "no_filters = \<lparr>cf_outcomes = [], cf_diagnoses = [], cf_subscription_states = [], cf_opened_from = None,
     cf_opened_to = None\<rparr>"

definition listing_db :: database where
  "listing_db = \<lparr>db_merchants = [], db_settings = [], db_customers = [], db_subscriptions = [],
     db_invoices = [], db_payments = [], db_cases = listing_cases, db_policies = [], db_actions = [],
     db_events = [], db_inbox = [], db_outbox = [], db_revenue = []\<rparr>"

text \<open>A reader of JSON that knows the cursors of these cases.\<close>

definition sample_iso :: "instant \<Rightarrow> string" where
  "sample_iso t = (if t = 1 then ''1970-01-01T00:00:01+00:00'' else ''1970-01-01T00:00:02+00:00'')"

definition written_cursor :: "RecoveryCase \<Rightarrow> string \<times> json" where
  "written_cursor c =
     (cursor_text \<lparr>cc_loads = (\<lambda>_. None), cc_isoformat = sample_iso, cc_fromisoformat = (\<lambda>_. None)\<rparr>
        (rc_opened_at c) (rc_id c),
      JObj [(''v'', JInt 1), (''opened_at'', JStr (sample_iso (rc_opened_at c))), (''id'', JStr (rc_id c))])"

definition sample_codec :: cursor_codec where
  "sample_codec = \<lparr>cc_loads = map_of (map written_cursor listing_cases), cc_isoformat = sample_iso,
     cc_fromisoformat = (\<lambda>s. if s = sample_iso 1 then Some (Aware 1 0)
       else if s = sample_iso 2 then Some (Aware 2 0) else None)\<rparr>"

lemma listing_db_reads_back: "table_reads_back sample_codec listing_db"
  by code_simp

theorem listing_is_stable_witness:
  "\<exists>pages. follow sample_codec ''m1'' no_filters 2 None (replicate 4 listing_db) = Inr pages
    \<and> listed pages = [listing_case 2 ''b'', listing_case 1 ''c'', listing_case 1 ''a'']"
proof -
  have "rev (sort_key listing_key (filter (matches_filters ''m1'' no_filters) (db_cases listing_db)))
      = [listing_case 2 ''b'', listing_case 1 ''c'', listing_case 1 ''a'']" by code_simp
  moreover have "length (db_cases listing_db) < length (replicate 4 listing_db)" by code_simp
  ultimately show ?thesis
    using listing_is_stable [of 2 "replicate 4 listing_db" sample_codec "''m1''" no_filters]
      listing_db_reads_back by auto
qed

end
