(* ===== verification/Approval_Queue.thy ===== *)
theory Approval_Queue
  imports Case_Listing Case_Service
begin

text \<open>
  The queue of actions that await an operator, \<open>get_approval_queue\<close> of \<open>services/api/app/api/router.py\<close>:
  the newest hundred cases of the merchant are read, and those whose latest action awaits approval
  are shown. The customer's name, which is only displayed, is left out. Of a case's timeline the queue
  asks only whether some event carries evidence verified with the provider, so its order is left out.

  The queue is exact for the cases it reads; an action of an older case is never shown.
\<close>

section \<open>The queue\<close>

record ApprovalQueueItem =
  aq_case_id :: ident
  aq_action_id :: ident
  aq_plan_name :: string
  aq_amount_at_risk_paise :: paise
  aq_recommended_action :: RecoveryActionType
  aq_payment_surface_type :: "PaymentSurfaceType option"
  aq_policy_reason :: string
  aq_deadline :: instant
  aq_evidence_kind :: EvidenceKind
  aq_provider :: string

definition provider_verified :: "ident \<Rightarrow> 'z database_scheme \<Rightarrow> bool" where
  "provider_verified i db \<longleftrightarrow>
     (\<exists>e \<in> set (db_events db). re_case_id e = i \<and> re_evidence_kind e = Ev_RAZORPAY_TEST_VERIFIED)"

definition queue_item ::
    "RecoveryCase \<Rightarrow> CaseAggregate \<Rightarrow> RecoveryActionRecord \<Rightarrow> PolicyDecisionRecord \<Rightarrow> bool \<Rightarrow> ApprovalQueueItem" where
  "queue_item c g a p verified =
     \<lparr>aq_case_id = rc_id c, aq_action_id = ar_id a, aq_plan_name = sb_plan_name (ag_subscription g),
      aq_amount_at_risk_paise = rc_amount_at_risk_paise c, aq_recommended_action = ar_action_type a,
      aq_payment_surface_type = ar_payment_surface_type a,
      aq_policy_reason = (case PolicyDecisionRecord.pr_reasons p of
        reason # _ \<Rightarrow> reason | [] \<Rightarrow> ''Merchant policy requires an operator decision.''),
      aq_deadline = rc_recovery_deadline c,
      aq_evidence_kind = (if verified then Ev_RAZORPAY_TEST_VERIFIED else Ev_SYSTEM_DERIVED),
      aq_provider = (if verified then ''RAZORPAY_TEST'' else ''RECOVERYOS'')\<rparr>"

definition queue_entry :: "ident \<Rightarrow> 'z database_scheme \<Rightarrow> RecoveryCase \<Rightarrow> case_error + ApprovalQueueItem option" where
  "queue_entry m db c = bindE (service_get_case m (rc_id c) db) (\<lambda>g.
     case (ag_latest_action g, ag_latest_policy g) of
       (Some a, Some p) \<Rightarrow>
         if ar_status a \<noteq> Act_AWAITING_APPROVAL then Inr None
         else Inr (Some (queue_item c g a p (provider_verified (rc_id c) db)))
     | _ \<Rightarrow> Inr None)"

definition queue_page :: "cursor_codec \<Rightarrow> ident \<Rightarrow> 'z database_scheme \<Rightarrow> RecoveryCase list" where
  "queue_page cc m db = (case list_cases cc m no_filters None 100 db of Inr p \<Rightarrow> cp_items p | Inl _ \<Rightarrow> [])"

definition get_approval_queue :: "cursor_codec \<Rightarrow> ident \<Rightarrow> 'z database_scheme \<Rightarrow> case_error + ApprovalQueueItem list" where
  "get_approval_queue cc m db =
     bindE (traverseE (queue_entry m db) (queue_page cc m db)) (\<lambda>entries. Inr (List.map_filter (\<lambda>x. x) entries))"

section \<open>What is shown\<close>

text \<open>The action of a case awaits an operator: it is the latest, and a decision has been recorded.\<close>

definition awaits_operator :: "'z database_scheme \<Rightarrow> ident \<Rightarrow> ident \<Rightarrow> bool" where
  "awaits_operator db case_id action_id \<longleftrightarrow> (\<exists>a. latest_action case_id db = Some a
     \<and> ar_id a = action_id \<and> ar_status a = Act_AWAITING_APPROVAL) \<and> latest_policy case_id db \<noteq> None"

definition newer_cases :: "ident \<Rightarrow> RecoveryCase \<Rightarrow> 'z database_scheme \<Rightarrow> RecoveryCase list" where
  "newer_cases m c db = filter (\<lambda>d. rc_merchant_id d = m \<and> listing_key c < listing_key d) (db_cases db)"

lemma matches_no_filters [simp]: "matches_filters m no_filters c \<longleftrightarrow> rc_merchant_id c = m"
  by (simp add: matches_filters_def no_filters_def)

lemma queue_page_rows: "queue_page cc m db = take 100 (rows_from m no_filters None db)"
proof -
  have start: "cursor_of cc None = Inr None" by (simp add: cursor_of_def)
  show ?thesis unfolding queue_page_def list_cases_rows [OF start]
    by (simp only: sum.case page_fields)
qed

text \<open>A row is among the first \<open>n\<close> of a descending list iff fewer than \<open>n\<close> rows are newer.\<close>

lemma newest_to_oldest_take:
  assumes "newest_to_oldest xs" "x \<in> set xs"
  shows "x \<in> set (take n xs) \<longleftrightarrow> length (filter (\<lambda>y. listing_key x < listing_key y) xs) < n"
  using assms
proof (induction xs arbitrary: n)
  case (Cons y ys)
  show ?case
  proof (cases "x = y")
    case True
    with Cons.prems have "filter (\<lambda>z. listing_key x < listing_key z) (y # ys) = []"
      by (auto simp: filter_empty_conv)
    with True show ?thesis by (cases n) auto
  next
    case False
    with Cons.prems have "x \<in> set ys" "listing_key x < listing_key y" "newest_to_oldest ys" by auto
    with Cons.IH [of "n - 1"] False show ?thesis by (cases n) auto
  qed
qed simp

lemma queue_page_iff:
  assumes "distinct (map rc_id (db_cases db))" "c \<in> set (db_cases db)" "rc_merchant_id c = m"
  shows "c \<in> set (queue_page cc m db) \<longleftrightarrow> length (newer_cases m c db) < 100"
proof -
  have "length (filter (\<lambda>d. listing_key c < listing_key d) (rows_from m no_filters None db))
      = length (newer_cases m c db)"
    by (simp add: rows_from_def newer_cases_def filter_sort flip: rev_filter)
  then show ?thesis
    using assms newest_to_oldest_take [OF rows_from_newest_to_oldest [OF assms(1)], of c m no_filters None 100]
    by (simp add: queue_page_rows set_rows_from)
qed

lemma service_get_case_latest:
  assumes "service_get_case m i db = Inr g"
  shows "ag_latest_action g = latest_action i db" "ag_latest_policy g = latest_policy i db"
  using assms
  by (auto simp: service_get_case_def get_case_aggregate_def bindE_eq_Inr Let_def split: option.splits)

lemma queue_entry_shows:
  assumes "queue_entry m db c = Inr entry"
  shows "(\<exists>x. entry = Some x \<and> aq_case_id x = i \<and> aq_action_id x = a) \<longleftrightarrow> rc_id c = i \<and> awaits_operator db i a"
proof -
  from assms obtain g where g: "service_get_case m (rc_id c) db = Inr g"
    by (auto simp: queue_entry_def bindE_eq_Inr)
  note latest = service_get_case_latest [OF g]
  show ?thesis
  proof (cases "latest_action (rc_id c) db")
    case None
    with assms g latest show ?thesis by (auto simp: queue_entry_def awaits_operator_def)
  next
    case (Some a')
    with assms g latest show ?thesis
      by (cases "latest_policy (rc_id c) db")
        (auto simp: queue_entry_def awaits_operator_def queue_item_def split: if_splits)
  qed
qed

lemma traverseE_in:
  assumes "traverseE f xs = Inr ys"
  shows "x \<in> set xs \<Longrightarrow> \<exists>y \<in> set ys. f x = Inr y"
  using assms by (induction xs arbitrary: ys) (auto simp: bindE_eq_Inr)

text \<open>
  The approval queue shows an action of a case exactly if it is the latest action of the case,
  awaits approval with a recorded decision, and fewer than a hundred cases of the merchant are newer.
  An action of an older case that awaits approval is not shown.
\<close>

theorem approval_queue_exact:
  assumes queue: "get_approval_queue cc m db = Inr items" and ids: "distinct (map rc_id (db_cases db))"
  shows "(\<exists>x \<in> set items. aq_case_id x = i \<and> aq_action_id x = a) \<longleftrightarrow>
    (\<exists>c \<in> set (db_cases db). rc_id c = i \<and> rc_merchant_id c = m
       \<and> length (newer_cases m c db) < 100 \<and> awaits_operator db i a)"
proof -
  from queue obtain entries where entries: "traverseE (queue_entry m db) (queue_page cc m db) = Inr entries"
      "items = List.map_filter (\<lambda>x. x) entries"
    by (auto simp: get_approval_queue_def bindE_eq_Inr)
  have "(\<exists>x \<in> set items. aq_case_id x = i \<and> aq_action_id x = a)
      \<longleftrightarrow> (\<exists>e \<in> set entries. \<exists>x. e = Some x \<and> aq_case_id x = i \<and> aq_action_id x = a)"
    by (force simp: entries(2) map_filter_def)
  also have "\<dots> \<longleftrightarrow> (\<exists>c \<in> set (queue_page cc m db). rc_id c = i \<and> awaits_operator db i a)"
  proof (intro iffI; elim bexE)
    fix e assume e: "e \<in> set entries" "\<exists>x. e = Some x \<and> aq_case_id x = i \<and> aq_action_id x = a"
    obtain c where c: "c \<in> set (queue_page cc m db)" "queue_entry m db c = Inr e"
      using traverseE_set [OF entries(1) e(1)] by (elim bexE)
    from e(2) have "rc_id c = i \<and> awaits_operator db i a" unfolding queue_entry_shows [OF c(2)] .
    with c(1) show "\<exists>c \<in> set (queue_page cc m db). rc_id c = i \<and> awaits_operator db i a" by (intro bexI)
  next
    fix c assume c: "c \<in> set (queue_page cc m db)" "rc_id c = i \<and> awaits_operator db i a"
    obtain e where e: "e \<in> set entries" "queue_entry m db c = Inr e"
      using traverseE_in [OF entries(1) c(1)] by (elim bexE)
    from c(2) have "\<exists>x. e = Some x \<and> aq_case_id x = i \<and> aq_action_id x = a"
      unfolding queue_entry_shows [OF e(2)] .
    with e(1) show "\<exists>e \<in> set entries. \<exists>x. e = Some x \<and> aq_case_id x = i \<and> aq_action_id x = a"
      by (intro bexI)
  qed
  also have "\<dots> \<longleftrightarrow> (\<exists>c \<in> set (db_cases db). rc_id c = i \<and> rc_merchant_id c = m
      \<and> length (newer_cases m c db) < 100 \<and> awaits_operator db i a)"
  proof -
    have "c \<in> set (db_cases db) \<and> rc_merchant_id c = m" if "c \<in> set (queue_page cc m db)" for c
      using that by (auto simp: queue_page_rows set_rows_from dest!: in_set_takeD)
    then show ?thesis using queue_page_iff [OF ids] by blast
  qed
  finally show ?thesis .
qed

section \<open>A queue with one entry\<close>

definition queue_db :: database where
  "queue_db = listing_db\<lparr>
     db_customers := [\<lparr>cu_id = ''cust_1'', cu_merchant_id = ''m1'', cu_phone_token = None,
       cu_preferred_language = ''en'', cu_voice_consent_at = None, cu_opted_out_at = None,
       cu_customer_agent_available = False, cu_created_at = 0\<rparr>],
     db_subscriptions := [\<lparr>sb_id = ''sub_1'', sb_merchant_id = ''m1'', sb_customer_id = ''cust_1'',
       sb_provider_subscription_id = ''rsub_1'', sb_plan_name = ''Monthly'', sb_currency = ''INR'',
       sb_subscription_state = Sub_PENDING, sb_current_billing_cycle_key = None\<rparr>],
     db_actions := [\<lparr>ar_id = ''act_1'', ar_case_id = ''a'', ar_action_type = ESCALATE_TO_HUMAN,
       ar_payment_surface_type = None, ar_status = Act_AWAITING_APPROVAL, ar_idempotency_key = ''key'',
       ar_scheduled_for = None, ar_external_reference = None, ar_customer_url = None,
       ar_completed_at = None, ar_created_at = 2, ar_updated_at = 2\<rparr>],
     db_policies := [\<lparr>pr_id = ''pol_1'', pr_case_id = ''a'', pr_action_id = Some ''act_1'',
       pr_disposition = REQUIRE_MANUAL_APPROVAL, pr_decision_code = ''MANUAL'', pr_reason_codes = [],
       pr_reasons = [], pr_policy_version = ''v1'', pr_delay_until = None, pr_created_at = 2\<rparr>]\<rparr>"

theorem approval_queue_exact_witness:
  "\<exists>items. get_approval_queue sample_codec ''m1'' queue_db = Inr items
    \<and> (\<exists>x \<in> set items. aq_case_id x = ''a'' \<and> aq_action_id x = ''act_1'')"
proof -
  have ok: "isOk (get_approval_queue sample_codec ''m1'' queue_db)" by code_simp
  then obtain items where items: "get_approval_queue sample_codec ''m1'' queue_db = Inr items"
    by (auto simp: isOk_iff)
  have ids: "distinct (map rc_id (db_cases queue_db))" by code_simp
  have cases: "listing_case 1 ''a'' \<in> set (db_cases queue_db)" by code_simp
  have row: "rc_id (listing_case 1 ''a'') = ''a'' \<and> rc_merchant_id (listing_case 1 ''a'') = ''m1''"
    by code_simp
  have few: "length (newer_cases ''m1'' (listing_case 1 ''a'') queue_db) < 100" by code_simp
  have "latest_action ''a'' queue_db \<noteq> None" "map_option ar_id (latest_action ''a'' queue_db) = Some ''act_1''"
    "map_option ar_status (latest_action ''a'' queue_db) = Some Act_AWAITING_APPROVAL"
    "latest_policy ''a'' queue_db \<noteq> None" by code_simp+
  then have "awaits_operator queue_db ''a'' ''act_1''" by (auto simp: awaits_operator_def)
  with cases row few items approval_queue_exact [OF items ids, of "''a''" "''act_1''"] show ?thesis by blast
qed

end
