(* ===== verification/Console_Safety.thy ===== *)
theory Console_Safety
  imports Console_Commands Case_Safety Approval_Queue
begin

text \<open>
  What an operator can rely on: a workflow is signalled only what the database already says; a rejection, a
  stop or an escalation whose signal could not be delivered can be sent again; an approval cannot.
\<close>

section \<open>Rows after a command\<close>

lemma find_save_row:
  assumes "find P rows = Some r" and "key r' = key r" and "P r'"
  shows "find P (save_row key r' rows) = Some r'"
  using assms(1)
proof (induction rows)
  case (Cons y ys)
  show ?case
  proof (cases "P y \<or> key y = key r'")
    case True
    moreover have "key y = key r'" if "P y" using that Cons.prems assms(2) by simp
    ultimately show ?thesis using assms(3) by (auto simp: save_row_def update_where_def)
  next
    case False
    with Cons show ?thesis by (simp add: save_row_def update_where_def)
  qed
qed simp

lemma insort_key_map:
  assumes "\<forall>r \<in> insert x (set ys). key (f r) = key r"
  shows "insort_key key (f x) (map f ys) = map f (insort_key key x ys)"
  using assms by (induction ys) auto

lemma sort_key_map:
  assumes "\<forall>r \<in> set rows. key (f r) = key r"
  shows "sort_key key (map f rows) = map f (sort_key key rows)"
  using assms
proof (induction rows)
  case (Cons x rows)
  then have "insort_key key (f x) (map f (sort_key key rows)) = map f (insort_key key x (sort_key key rows))"
    by (intro insort_key_map) simp
  with Cons show ?case by simp
qed simp

lemma last_by_map:
  assumes "\<forall>r \<in> set rows. key (f r) = key r"
  shows "last_by key (map f rows) = map_option f (last_by key rows)"
  unfolding last_by_def sort_key_map [OF assms] rev_map by (simp split: list.splits)

text \<open>Rewriting the status of an action does not change which action of a case is the latest.\<close>

lemma latest_action_saved:
  assumes "distinct (map ar_id (db_actions db))" and "a \<in> set (db_actions db)"
    and "ar_id a' = ar_id a" "ar_case_id a' = ar_case_id a" "ar_created_at a' = ar_created_at a"
  shows "map_option ar_id (latest_action i (db\<lparr>db_actions := save_row ar_id a' (db_actions db)\<rparr>))
    = map_option ar_id (latest_action i db)"
proof -
  let ?f = "\<lambda>r. if ar_id r = ar_id a' then a' else r"
  have same: "\<forall>r \<in> set (db_actions db). ar_case_id (?f r) = ar_case_id r
      \<and> (ar_created_at (?f r), ar_id (?f r)) = (ar_created_at r, ar_id r)"
  proof
    fix r assume "r \<in> set (db_actions db)"
    with assms(1,2) have "ar_id r = ar_id a \<Longrightarrow> r = a" by (simp add: distinct_map inj_on_def)
    then show "ar_case_id (?f r) = ar_case_id r \<and> (ar_created_at (?f r), ar_id (?f r)) = (ar_created_at r, ar_id r)"
      using assms(3-5) by auto
  qed
  have "filter (\<lambda>r. ar_case_id (?f r) = i) (db_actions db) = filter (\<lambda>r. ar_case_id r = i) (db_actions db)"
    using same by (intro filter_cong) simp_all
  then have "filter (\<lambda>r. ar_case_id r = i) (save_row ar_id a' (db_actions db))
      = map ?f (filter (\<lambda>r. ar_case_id r = i) (db_actions db))"
    by (simp add: save_row_def update_where_def filter_map comp_def)
  moreover have "\<forall>r \<in> set (filter (\<lambda>r. ar_case_id r = i) (db_actions db)).
      (ar_created_at (?f r), ar_id (?f r)) = (ar_created_at r, ar_id r)" using same by simp
  ultimately have "latest_action i (db\<lparr>db_actions := save_row ar_id a' (db_actions db)\<rparr>) = map_option ?f (latest_action i db)"
    unfolding latest_action_def
    using last_by_map [of "filter (\<lambda>r. ar_case_id r = i) (db_actions db)" "\<lambda>a. (ar_created_at a, ar_id a)" ?f] by simp
  then show ?thesis by (cases "latest_action i db") auto
qed

lemma get_action_saved:
  assumes "get_action i x db = Some a" and "ar_id a' = ar_id a" "ar_case_id a' = ar_case_id a"
  shows "get_action i x (db\<lparr>db_actions := save_row ar_id a' (db_actions db)\<rparr>) = Some a'"
  using assms find_SomeD [OF assms(1) [unfolded get_action_def]] unfolding get_action_def
  by (auto intro!: find_save_row)

lemma get_case_saved:
  assumes "get_case m i db = Some c" and "rc_id c' = rc_id c" "rc_merchant_id c' = rc_merchant_id c"
  shows "get_case m i (save_case c' db) = Some c'"
  using assms find_SomeD [OF assms(1) [unfolded get_case_def]] unfolding get_case_def save_case_def
  by (auto intro!: find_save_row)

lemma get_action_event [simp]: "get_action i x (snd (add_event e db)) = get_action i x db"
  by (simp add: get_action_def add_event_def)

lemma get_case_event [simp]: "get_case m i (snd (add_event e db)) = get_case m i db"
  by (simp add: get_case_def add_event_def)

lemma get_case_cancel [simp]: "get_case m i (cancel_nonterminal_actions j t db) = get_case m i db"
  by (simp add: get_case_def cancel_nonterminal_actions_def)

lemma add_event_recorded:
  assumes "re_source_event_id e \<noteq> None"
  shows "\<exists>x \<in> set (db_events (snd (add_event e db))). re_case_id x = re_case_id e
    \<and> re_source_event_id x = re_source_event_id e"
  using assms by (auto simp: add_event_def event_clash_def)

section \<open>Signals are backed by the database\<close>

definition signal_backed :: "ident \<Rightarrow> ident \<Rightarrow> QueuedSignal \<Rightarrow> 'z database_scheme \<Rightarrow> bool" where
  "signal_backed m i s db = (case s of
     APPROVAL p \<Rightarrow> (\<exists>x a. s = approval_signal_of x (aps_approved p) (aps_reason p) \<and> get_action i x db = Some a
       \<and> (if aps_approved p then ar_status a = Act_SCHEDULED
            \<and> (\<exists>e \<in> set (db_events db). re_case_id e = i \<and> re_source_event_id e = Some (''approval:'' @ x))
          else ar_status a = Act_CANCELLED))
   | CANCELLATION p \<Rightarrow> (\<exists>c. get_case m i db = Some c \<and> rc_case_outcome c = Case_STOPPED)
   | OPERATOR_ESCALATION p \<Rightarrow> (\<exists>c. get_case m i db = Some c \<and> rc_case_outcome c = Case_ESCALATED)
   | _ \<Rightarrow> False)"

lemma commit_then_signal_Inr:
  assumes "commit_then_signal ta i sig outcome db = (r, db', sent)" and "s \<in> set sent"
  obtains x where "outcome = Inr (x, db')" "s = sig x"
  using assms
  by (cases outcome) (auto simp: commit_then_signal_def deliver_def Let_def split: sum.splits if_splits option.splits)

lemma approved_backed:
  assumes "approve_action env m i x db = Inr (a', db')"
  shows "signal_backed m i (approval_signal_of x True None) db'"
proof -
  from assms obtain a where a: "get_action i x db = Some a"
      "a' = a\<lparr>ar_status := Act_SCHEDULED, ar_completed_at := None, ar_updated_at := ce_utc_now env\<rparr>"
      "db' = snd (add_event (case_event i ''ACTION_APPROVED'' ''operator'' Ev_SYSTEM_DERIVED (Some (approval_payload a))
         (ce_now env) (''approval:'' @ ar_id a)) (db\<lparr>db_actions := save_row ar_id a' (db_actions db)\<rparr>))"
    by (auto simp: approve_action_def service_simps Let_def split: if_splits)
  have "ar_id a = x" using find_SomeD [OF a(1) [unfolded get_action_def]] by simp
  moreover have "get_action i x db' = Some a'"
    unfolding a(3) get_action_event using a(1,2) by (auto intro: get_action_saved)
  moreover have "\<exists>e \<in> set (db_events db'). re_case_id e = i \<and> re_source_event_id e = Some (''approval:'' @ ar_id a)"
    unfolding a(3) using add_event_recorded [of "case_event i ''ACTION_APPROVED'' ''operator'' Ev_SYSTEM_DERIVED
      (Some (approval_payload a)) (ce_now env) (''approval:'' @ ar_id a)"] by (simp add: case_event_def)
  ultimately show ?thesis using a(2) by (auto simp: signal_backed_def approval_signal_of_def)
qed

lemma reject_action_stored:
  assumes "reject_action env m i x db = Inr (a', db')"
  shows "get_action i x db' = Some a'" "ar_status a' = Act_CANCELLED"
proof -
  obtain a where a: "get_action i x db = Some a" using assms by (auto simp: reject_action_def service_simps)
  show "get_action i x db' = Some a'" "ar_status a' = Act_CANCELLED"
    using assms a get_action_saved [OF a, of a']
    by (auto simp: reject_action_def service_simps Let_def split: if_splits)
qed

lemma stop_case_stored:
  assumes "stop_case env m i db = Inr (c', db')"
  shows "get_case m i db' = Some c'" "rc_case_outcome c' = Case_STOPPED"
proof -
  obtain c where c: "get_case m i db = Some c" using assms by (auto simp: stop_case_def service_simps)
  show "get_case m i db' = Some c'" "rc_case_outcome c' = Case_STOPPED"
    using assms c get_case_saved [OF c, of c']
    by (auto simp: stop_case_def service_simps Let_def split: if_splits)
qed

lemma added_action_cases: "add_action_with_policy a p db = Inr db1 \<Longrightarrow> get_case m i db1 = get_case m i db"
  by (auto simp: add_action_with_policy_def get_case_def bindE_eq_Inr Let_def split: if_splits)

lemma escalate_case_stored:
  assumes "escalate_case env m i reason db = Inr (c', db')"
  shows "get_case m i db' = Some c'" "rc_case_outcome c' = Case_ESCALATED"
proof -
  obtain c where c: "get_case m i db = Some c" using assms by (auto simp: escalate_case_def service_simps)
  show "get_case m i db' = Some c'" "rc_case_outcome c' = Case_ESCALATED"
    using assms c get_case_saved [OF c, of c']
    by (auto simp: escalate_case_def service_simps Let_def added_action_cases split: if_splits)
qed

lemma displayed_action_id: "displayed_action m i x db = Inr a \<Longrightarrow> ar_id a = x"
  by (auto simp: displayed_action_def bindE_eq_Inr split: option.splits if_splits)

lemma displayed_command_Inr:
  "bindE (displayed_action m i x db) (\<lambda>a. forget_result (f (ar_id a))) = Inr (u, db')
     \<longleftrightarrow> (\<exists>a r. displayed_action m i x db = Inr a \<and> f x = Inr (r, db'))"
  by (auto simp: bindE_eq_Inr forget_result_def displayed_action_id)

lemmas displayed_simps =
  displayed_command_Inr [where f = "\<lambda>x. approve_action env m' i' x db''" for env m' i' db'']
  displayed_command_Inr [where f = "\<lambda>x. reject_action env m' i' x db''" for env m' i' db'']

lemma forget_result_Inr: "forget_result x = Inr (u, db) \<longleftrightarrow> (\<exists>r. x = Inr (r, db))"
  by (auto simp: forget_result_def bindE_eq_Inr)

lemma command_backed:
  assumes run: "execute_operator_command env ta m i cmd db = (r, db', sent)" and s: "s \<in> set sent"
  shows "signal_backed m i s db'"
proof (cases cmd)
  case (Command_APPROVE x)
  with run s obtain a' where "approve_action env m i x db = Inr (a', db')" "s = approval_signal_of x True None"
    by (auto elim!: commit_then_signal_Inr simp: displayed_simps)
  then show ?thesis using approved_backed by simp
next
  case (Command_REJECT x)
  with run s obtain a' where "reject_action env m i x db = Inr (a', db')"
      "s = approval_signal_of x False (Some ''Rejected by the merchant operator.'')"
    by (auto elim!: commit_then_signal_Inr simp: displayed_simps)
  then show ?thesis by (auto simp: signal_backed_def approval_signal_of_def dest: reject_action_stored)
next
  case Command_STOP
  with run s obtain c' where "stop_case env m i db = Inr (c', db')"
      "s = stop_signal_of i ''Stopped by the merchant operator.''"
    by (auto elim!: commit_then_signal_Inr simp: forget_result_Inr)
  then show ?thesis by (auto simp: signal_backed_def stop_signal_of_def dest: stop_case_stored)
next
  case Command_ESCALATE
  with run s obtain c' where "escalate_case env m i ''Escalated by the merchant operator.'' db = Inr (c', db')"
      "s = escalation_signal_of i ''Escalated by the merchant operator.''"
    by (auto elim!: commit_then_signal_Inr simp: forget_result_Inr)
  then show ?thesis by (auto simp: signal_backed_def escalation_signal_of_def dest: escalate_case_stored)
qed

text \<open>
  A workflow is signalled only what has been committed. Whatever command an operator sends and whatever
  Temporal answers, an approval reaches the workflow only when the action is scheduled and the approval is
  recorded, a rejection only when the action is cancelled, a stop and an escalation only when the case is closed so.
\<close>

theorem signals_are_backed:
  assumes "execute_operator_command env ta m i cmd db = (r, db', sent)" and "s \<in> set sent"
  shows "signal_backed m i s db'"
  using assms by (rule command_backed)

section \<open>Sending a command again\<close>

lemma commit_then_signal_unavailable:
  assumes "commit_then_signal ta i sig outcome db = (Inl (Workflow_Unavailable reason), db', sent)"
  obtains x where "outcome = Inr (x, db')" "sent = []"
  using assms
  by (cases outcome) (auto simp: commit_then_signal_def deliver_def Let_def split: sum.splits if_splits option.splits)

lemma commit_then_signal_delivered:
  assumes "ta_running ta = Inr True" "ta_signal ta = None" "outcome = Inr (x, db')"
  shows "commit_then_signal ta i sig outcome db = (Inr x, db', [sig x])"
  using assms by (simp add: commit_then_signal_def deliver_def)

lemma aggregate_other_tables:
  assumes "get_case m i db' = get_case m i db" "db_customers db' = db_customers db"
    "db_subscriptions db' = db_subscriptions db" "db_invoices db' = db_invoices db" "db_payments db' = db_payments db"
  shows "\<exists>g. get_case_aggregate m i db = Inr (Some g)
    \<Longrightarrow> \<exists>g. get_case_aggregate m i db' = Inr (Some g) \<and> ag_latest_action g = latest_action i db'"
  using assms by (auto simp: get_case_aggregate_def Let_def split: option.splits)

lemma rejected_still_displayed:
  assumes "displayed_action m i x db = Inr a" and "reject_action env m i x db = Inr (a', db')"
    and "distinct (map ar_id (db_actions db))"
  shows "\<exists>b. displayed_action m i x db' = Inr b"
  using assms(2)
proof (cases rule: reject_action_cases)
  case (rejected b e)
  from assms(1) have x: "ar_id a = x" and g: "\<exists>g. get_case_aggregate m i db = Inr (Some g)"
    and latest: "latest_action i db = Some a"
    by (auto simp: displayed_action_def service_simps get_case_aggregate_def Let_def split: option.splits if_splits)
  have b: "b \<in> set (db_actions db)" using find_SomeD [OF rejected(1) [unfolded get_action_def]] by simp
  have "map_option ar_id (latest_action i db') = Some x"
    using latest_action_saved [OF assms(3) b, of a' i] rejected(2) latest x
    unfolding rejected(3) by (simp add: latest_action_def)
  moreover have "\<exists>g. get_case_aggregate m i db' = Inr (Some g) \<and> ag_latest_action g = latest_action i db'"
    by (rule aggregate_other_tables [OF _ _ _ _ _ g]) (simp_all add: rejected(3) get_case_def add_event_def)
  ultimately show ?thesis by (auto simp: displayed_action_def service_get_case_def)
qed (use assms(1) in blast)

lemma reject_again:
  assumes "reject_action env m i x db = Inr (a', db')" "\<exists>g. service_get_case m i db' = Inr g"
  shows "reject_action env' m i x db' = Inr (a', db')"
  using assms(2) reject_action_stored [OF assms(1)] by (auto simp: reject_action_def require_action_def)

text \<open>
  C27: a rejection, a stop or an escalation whose signal could not be delivered can simply be sent again: the
  database stays as it is and the workflow receives the signal, which is backed by the database.
\<close>

theorem undelivered_command_can_be_resent:
  assumes run: "execute_operator_command env ta m i cmd db = (Inl (Workflow_Unavailable reason), db', sent)"
    and cmd: "\<forall>x. cmd \<noteq> Command_APPROVE x" and ids: "distinct (map ar_id (db_actions db))"
    and up: "ta_running ta' = Inr True" "ta_signal ta' = None"
  shows "\<exists>s. execute_operator_command env' ta' m i cmd db' = (Inr (), db', [s]) \<and> signal_backed m i s db'"
proof -
  have "\<exists>s. execute_operator_command env' ta' m i cmd db' = (Inr (), db', [s])"
  proof (cases cmd)
    case (Command_APPROVE x)
    with cmd show ?thesis by blast
  next
    case (Command_REJECT x)
    with run obtain a a' where a: "displayed_action m i x db = Inr a" "reject_action env m i x db = Inr (a', db')"
      by (auto elim!: commit_then_signal_unavailable simp: displayed_simps)
    obtain b where b: "displayed_action m i x db' = Inr b" using rejected_still_displayed [OF a ids] by blast
    then have "\<exists>g. service_get_case m i db' = Inr g" by (auto simp: displayed_action_def bindE_eq_Inr)
    from reject_again [OF a(2) this, of env'] b displayed_action_id [OF b]
    have "bindE (displayed_action m i x db') (\<lambda>a. forget_result (reject_action env' m i (ar_id a) db')) = Inr ((), db')"
      by (simp add: forget_result_def)
    with Command_REJECT show ?thesis by (auto intro: commit_then_signal_delivered [OF up])
  next
    case Command_STOP
    with run obtain c' where "stop_case env m i db = Inr (c', db')"
      by (auto elim!: commit_then_signal_unavailable simp: forget_result_Inr)
    from stop_case_stored [OF this] have "forget_result (stop_case env' m i db') = Inr ((), db')"
      by (simp add: forget_result_def stop_case_def require_case_def)
    with Command_STOP show ?thesis by (auto intro: commit_then_signal_delivered [OF up])
  next
    case Command_ESCALATE
    let ?why = "''Escalated by the merchant operator.''"
    from Command_ESCALATE run obtain c' where "escalate_case env m i ?why db = Inr (c', db')"
      by (auto elim!: commit_then_signal_unavailable simp: forget_result_Inr)
    from escalate_case_stored [OF this] have "forget_result (escalate_case env' m i ?why db') = Inr ((), db')"
      by (simp add: forget_result_def escalate_case_def require_case_def)
    with Command_ESCALATE show ?thesis by (auto intro: commit_then_signal_delivered [OF up])
  qed
  then obtain s where again: "execute_operator_command env' ta' m i cmd db' = (Inr (), db', [s])" by blast
  then have "signal_backed m i s db'" by (rule command_backed) simp
  with again show ?thesis by blast
qed

text \<open>
  C32: an approval whose signal could not be delivered is lost. The database says that the action is approved, and
  the workflow was not told; every further approval of the action, whatever Temporal answers then, is
  refused before it signals anything, so the workflow waits for an approval it can never receive.
\<close>

theorem undelivered_approval_is_lost:
  assumes run: "execute_operator_command env ta m i (Command_APPROVE x) db = (Inl (Workflow_Unavailable reason), db', sent)"
  shows "sent = [] \<and> (\<exists>a. get_action i x db' = Some a \<and> ar_status a = Act_SCHEDULED)
    \<and> (\<exists>e. execute_operator_command env' ta' m i (Command_APPROVE x) db' = (Inl (Service_Error e), db', []))
    \<and> (\<exists>e. approve_recovery_action env' ta' m i x db' = (Inl (Service_Error e), db', []))"
proof -
  from run obtain a' where a': "approve_action env m i x db = Inr (a', db')" "sent = []"
    by (auto elim!: commit_then_signal_unavailable simp: displayed_simps)
  from approved_backed [OF a'(1)] obtain a where a: "get_action i x db' = Some a" "ar_status a = Act_SCHEDULED"
    by (auto simp: signal_backed_def approval_signal_of_def)
  then have refused: "\<exists>e. approve_action env' m i x db' = Inl e"
    by (cases "service_get_case m i db'") (auto simp: approve_action_def require_action_def)
  have "\<exists>e. bindE (displayed_action m i x db') (\<lambda>a. forget_result (approve_action env' m i (ar_id a) db')) = Inl e"
    using refused by (cases "displayed_action m i x db'") (auto simp: forget_result_def dest: displayed_action_id)
  moreover have "\<exists>e. bindE (get_action_for_command m i x db') (\<lambda>_. approve_action env' m i x db') = Inl e"
    using refused by (cases "get_action_for_command m i x db'") auto
  ultimately show ?thesis using a a'(2)
    by (auto simp: approve_recovery_action_def commit_then_signal_def)
qed

section \<open>One action, with Temporal down and up again\<close>

definition desk :: case_env where
  "desk = \<lparr>ce_now = hours 1, ce_utc_now = hours 1, ce_action_id = ''action_9'', ce_policy_id = ''policy_9'',
     ce_global_kill_switch = False, ce_scorer = even_scorer, ce_zones = kolkata_zones, ce_sha256 = id,
     ce_standard_links = True, ce_agent_ready = False\<rparr>"

definition temporal_down :: temporal_answer where
  "temporal_down = \<lparr>ta_running = Inl RPC_OTHER, ta_signal = None\<rparr>"

definition temporal_up :: temporal_answer where
  "temporal_up = \<lparr>ta_running = Inr True, ta_signal = None\<rparr>"

lemma desk_runs:
  "fst (execute_operator_command desk temporal_up ''m1'' ''a'' (Command_APPROVE ''act_1'') queue_db) = Inr ()"
  "snd (snd (execute_operator_command desk temporal_up ''m1'' ''a'' (Command_APPROVE ''act_1'') queue_db)) \<noteq> []"
  "fst (execute_operator_command desk temporal_down ''m1'' ''a'' (Command_APPROVE ''act_1'') queue_db)
     = Inl (Workflow_Unavailable ''TEMPORAL_RPC_FAILED'')"
  "fst (execute_operator_command desk temporal_down ''m1'' ''a'' (Command_REJECT ''act_1'') queue_db)
     = Inl (Workflow_Unavailable ''TEMPORAL_RPC_FAILED'')"
  by code_simp+

theorem signals_are_backed_witness:
  "\<exists>db' s. execute_operator_command desk temporal_up ''m1'' ''a'' (Command_APPROVE ''act_1'') queue_db = (Inr (), db', [s])
    \<and> signal_backed ''m1'' ''a'' s db'"
proof -
  obtain db' sent where run: "execute_operator_command desk temporal_up ''m1'' ''a'' (Command_APPROVE ''act_1'') queue_db
      = (Inr (), db', sent)" "sent \<noteq> []"
    using desk_runs(1,2) by (metis fst_conv prod.exhaust snd_conv)
  moreover from run obtain s where "sent = [s]"
    by (auto simp: commit_then_signal_def deliver_def temporal_up_def split: sum.splits prod.splits)
  ultimately show ?thesis using signals_are_backed [OF run(1)] by auto
qed

theorem undelivered_command_can_be_resent_witness:
  "\<exists>db' s. snd (execute_operator_command desk temporal_down ''m1'' ''a'' (Command_REJECT ''act_1'') queue_db) = (db', [])
    \<and> execute_operator_command desk temporal_up ''m1'' ''a'' (Command_REJECT ''act_1'') db' = (Inr (), db', [s])"
proof -
  obtain db' sent where run: "execute_operator_command desk temporal_down ''m1'' ''a'' (Command_REJECT ''act_1'') queue_db
      = (Inl (Workflow_Unavailable ''TEMPORAL_RPC_FAILED''), db', sent)"
    using desk_runs(4) by (metis fst_conv prod.exhaust)
  moreover have "distinct (map ar_id (db_actions queue_db))" by code_simp
  ultimately have "\<exists>s. execute_operator_command desk temporal_up ''m1'' ''a'' (Command_REJECT ''act_1'') db' = (Inr (), db', [s])"
    using undelivered_command_can_be_resent [OF run, of temporal_up desk] by (auto simp: temporal_up_def)
  moreover have "sent = []" using run by (auto elim!: commit_then_signal_unavailable)
  ultimately show ?thesis using run by auto
qed

theorem undelivered_approval_is_lost_witness:
  "\<exists>db'. snd (execute_operator_command desk temporal_down ''m1'' ''a'' (Command_APPROVE ''act_1'') queue_db) = (db', [])
    \<and> (\<exists>e. execute_operator_command desk temporal_up ''m1'' ''a'' (Command_APPROVE ''act_1'') db'
         = (Inl (Service_Error e), db', []))"
proof -
  obtain db' sent where run: "execute_operator_command desk temporal_down ''m1'' ''a'' (Command_APPROVE ''act_1'') queue_db
      = (Inl (Workflow_Unavailable ''TEMPORAL_RPC_FAILED''), db', sent)"
    using desk_runs(3) by (metis fst_conv prod.exhaust)
  from undelivered_approval_is_lost [OF run, of desk temporal_up] run show ?thesis by auto
qed

end
