(* ===== verification/Signal_Dispatch.thy ===== *)
theory Signal_Dispatch
  imports Case_Repository Webhook_Ledger Recovery_Workflow
begin

text \<open>
  The hand-over from the webhook processor to the workflows, \<open>TemporalRazorpaySignalDispatcher\<close> of
  \<open>services/worker/app/outbox.py\<close>: the callback the processor calls with a signal. It starts the workflow of
  the case, or signals the one that is running.

  What Temporal answers to a start and to a signal is an argument; \<open>isoformat\<close> of a stored timestamp is
  the aware datetime it denotes. The polling loop of the process is not modelled.
\<close>

section \<open>Workflow input\<close>











section \<open>Dispatch\<close>






section \<open>What the processor authorises can be dispatched\<close>










lemma action_value_wait: "action_value WAIT_FOR_GATEWAY_RETRY = ''WAIT_FOR_GATEWAY_RETRY''"
  by simp


section \<open>What is dropped is superseded\<close>










section \<open>The callback is called with what is committed\<close>






section \<open>A captured payment is handed over\<close>








end
