(* ===== verification/Razorpay_Client.thy ===== *)
theory Razorpay_Client
  imports Action_Runtime Circuit_Breaker
begin

text \<open>
  The HTTP adapter of Razorpay, \<open>services/api/app/integrations/razorpay/client.py\<close>: what is asked of the
  provider, how an answer is read, and how the answer to the creation of a payment link is classified.

  A method is a function on the state of the client, which is the circuit breaker of the creation of
  payment links and the log of the requests that were sent with their answers. What the provider answers is an
  argument, a function of that log, so a second request can be answered differently; a
  request can also be cancelled while it is awaited. \<open>urlsplit\<close> is written out; its checks of a bracketed
  host (the syntax of an IP address) and of a host outside ASCII (the tables of Unicode) are an argument.
  The metadata of errors and the messages are left out; the lengths of texts are those of their bytes.
\<close>

section \<open>Requests and answers\<close>

record http_request =
  rq_method :: string
  rq_path :: string
  rq_params :: "(string \<times> string) list"
  rq_json :: "jobject option"

datatype http_answer = Transport_Error | Request_Cancelled | Response int "json option"

datatype client_error = Contract_Error string | Request_Error string "int option" bool
  | Uncertain_Submission string | Client_Type_Error | Client_Value_Error | Client_Cancelled
  | Client_Assertion_Error | Breaker_Error breaker_error

record client_state =
  ck_breaker :: CircuitBreaker
  ck_log :: "(http_request \<times> http_answer) list"

record client_env =
  rz_key_id :: string
  rz_checkout_origin :: string
  rz_http :: "(http_request \<times> http_answer) list \<Rightarrow> http_request \<Rightarrow> http_answer"
  rz_before :: datetime
  rz_after :: datetime
  rz_now :: instant
  rz_host_ok :: "string \<Rightarrow> bool"

type_synonym 'a client = "client_state \<Rightarrow> (client_error + 'a) \<times> client_state"

definition returnC :: "'a \<Rightarrow> 'a client" where
  "returnC x s = (Inr x, s)"

definition raiseC :: "client_error \<Rightarrow> 'a client" where
  "raiseC e s = (Inl e, s)"

definition bindC :: "'a client \<Rightarrow> ('a \<Rightarrow> 'b client) \<Rightarrow> 'b client" where
  "bindC f g s = (case f s of (Inl e, s') \<Rightarrow> (Inl e, s') | (Inr x, s') \<Rightarrow> g x s')"

definition liftC :: "client_error + 'a \<Rightarrow> 'a client" where
  "liftC r s = (r, s)"

definition failC :: "string \<Rightarrow> 'a client" where
  "failC code = raiseC (Contract_Error code)"

text \<open>An answer that may follow a committed write is uncertain if the request was a write with a reference.\<close>

definition read_answer :: "string option \<Rightarrow> http_answer \<Rightarrow> client_error + jobject" where
  "read_answer uncertain_reference answer =
     (let unsure = (\<lambda>e. case uncertain_reference of Some r \<Rightarrow> Inl (Uncertain_Submission r) | None \<Rightarrow> Inl e) in
      case answer of
        Transport_Error \<Rightarrow> unsure (Request_Error ''RAZORPAY_TRANSPORT_ERROR'' None True)
      | Request_Cancelled \<Rightarrow> Inl Client_Cancelled
      | Response status body \<Rightarrow>
          if 400 \<le> status \<and> status \<le> 599 then
            let e = Request_Error ''RAZORPAY_API_ERROR'' (Some status) (500 \<le> status) in
            if 500 \<le> status then unsure e else Inl e
          else (case body of
              Some (JObj ob) \<Rightarrow> Inr ob
            | _ \<Rightarrow> unsure (Contract_Error ''RAZORPAY_RESPONSE_INVALID'')))"

definition request_json :: "client_env \<Rightarrow> string \<Rightarrow> string \<Rightarrow> (string \<times> string) list \<Rightarrow> jobject option
    \<Rightarrow> string option \<Rightarrow> jobject client" where
  "request_json env m path params body uncertain_reference s =
     (let rq = \<lparr>rq_method = m, rq_path = path, rq_params = params, rq_json = body\<rparr>;
          answer = rz_http env (ck_log s) rq
      in (read_answer uncertain_reference answer, s\<lparr>ck_log := ck_log s @ [(rq, answer)]\<rparr>))"

abbreviation get_json :: "client_env \<Rightarrow> string \<Rightarrow> jobject client" where
  "get_json env path \<equiv> request_json env ''GET'' path [] None None"

section \<open>URLs\<close>

record SplitResult =
  us_scheme :: string
  us_netloc :: string
  us_query :: string
  us_fragment :: string

definition scheme_char :: "char \<Rightarrow> bool" where
  "scheme_char c = (let n = (of_char c :: nat) in 65 \<le> n \<and> n \<le> 90 \<or> 97 \<le> n \<and> n \<le> 122 \<or> 48 \<le> n \<and> n \<le> 57
     \<or> c \<in> {CHR ''+'', CHR ''-'', CHR ''.''})"

definition ascii_alpha :: "char \<Rightarrow> bool" where
  "ascii_alpha c = (let n = (of_char c :: nat) in 65 \<le> n \<and> n \<le> 90 \<or> 97 \<le> n \<and> n \<le> 122)"

text \<open>\<open>s.partition(c)\<close> and the last component of \<open>s.rpartition(c)\<close>.\<close>

definition before_char :: "char \<Rightarrow> string \<Rightarrow> string" where
  "before_char c s = takeWhile (\<lambda>x. x \<noteq> c) s"

definition after_char :: "char \<Rightarrow> string \<Rightarrow> string" where
  "after_char c s = drop 1 (dropWhile (\<lambda>x. x \<noteq> c) s)"

definition after_last :: "char \<Rightarrow> string \<Rightarrow> string" where
  "after_last c s = rev (takeWhile (\<lambda>x. x \<noteq> c) (rev s))"

definition strip_url :: "string \<Rightarrow> string" where
  "strip_url url = filter (\<lambda>c. c \<notin> {CHR 0x09, CHR 0x0A, CHR 0x0D}) (dropWhile (\<lambda>c. (of_char c :: nat) \<le> 32) url)"

definition split_scheme :: "string \<Rightarrow> string \<times> string" where
  "split_scheme url = (let scheme = before_char (CHR '':'') url in
     if CHR '':'' \<in> set url \<and> scheme \<noteq> [] \<and> ascii_alpha (hd scheme) \<and> list_all scheme_char scheme
     then (py_lower scheme, after_char (CHR '':'') url) else ([], url))"

definition valid_netloc :: "(string \<Rightarrow> bool) \<Rightarrow> string \<Rightarrow> bool" where
  "valid_netloc host_ok netloc \<longleftrightarrow>
     (CHR ''['' \<in> set netloc \<longleftrightarrow> CHR '']'' \<in> set netloc)
     \<and> (CHR ''['' \<in> set netloc \<or> \<not> list_all (\<lambda>c. (of_char c :: nat) < 128) netloc \<longrightarrow> host_ok netloc)"

definition urlsplit :: "(string \<Rightarrow> bool) \<Rightarrow> string \<Rightarrow> SplitResult option" where
  "urlsplit host_ok url0 =
     (let (scheme, url) = split_scheme (strip_url url0);
          has_netloc = (take 2 url = ''//'');
          netloc = (if has_netloc then takeWhile (\<lambda>c. c \<notin> {CHR ''/'', CHR ''?'', CHR ''#''}) (drop 2 url) else []);
          rest = (if has_netloc then dropWhile (\<lambda>c. c \<notin> {CHR ''/'', CHR ''?'', CHR ''#''}) (drop 2 url) else url);
          fragment = after_char (CHR ''#'') rest;
          query = after_char (CHR ''?'') (before_char (CHR ''#'') rest)
      in if \<not> valid_netloc host_ok netloc then None
         else Some \<lparr>us_scheme = scheme, us_netloc = netloc, us_query = query, us_fragment = fragment\<rparr>)"

definition us_hostname :: "SplitResult \<Rightarrow> string option" where
  "us_hostname u =
     (let hostinfo = after_last (CHR ''@'') (us_netloc u);
          host = (if CHR ''['' \<in> set hostinfo then before_char (CHR '']'') (after_char (CHR ''['') hostinfo)
                  else before_char (CHR '':'') hostinfo)
      in if host = [] then None else Some (py_lower host))"

text \<open>\<open>username\<close> or \<open>password\<close> is present iff the authority has user information.\<close>

definition us_userinfo :: "SplitResult \<Rightarrow> bool" where
  "us_userinfo u \<longleftrightarrow> CHR ''@'' \<in> set (us_netloc u)"

definition provider_https_url :: "(string \<Rightarrow> bool) \<Rightarrow> string \<Rightarrow> json \<Rightarrow> client_error + string" where
  "provider_https_url host_ok code v = (case v of
     JStr url \<Rightarrow>
       if length url > 2048 then Inl (Contract_Error code)
       else (case urlsplit host_ok url of
           None \<Rightarrow> Inl Client_Value_Error
         | Some u \<Rightarrow> if us_scheme u \<noteq> ''https'' \<or> us_hostname u = None \<or> us_userinfo u
             then Inl (Contract_Error code) else Inr url)
   | _ \<Rightarrow> Inl (Contract_Error code))"

definition checkout_origin :: "(string \<Rightarrow> bool) \<Rightarrow> string \<Rightarrow> client_error + string" where
  "checkout_origin host_ok v = (case urlsplit host_ok v of
     None \<Rightarrow> Inl Client_Value_Error
   | Some u \<Rightarrow>
       let local_http = (us_scheme u = ''http'' \<and> us_hostname u \<in> {Some ''localhost'', Some ''127.0.0.1''}) in
       if us_scheme u \<noteq> ''https'' \<and> \<not> local_http \<or> us_hostname u = None \<or> us_userinfo u
          \<or> us_query u \<noteq> [] \<or> us_fragment u \<noteq> []
       then Inl (Contract_Error ''RAZORPAY_CHECKOUT_ORIGIN_INVALID'')
       else Inr (rev (dropWhile (\<lambda>c. c = CHR ''/'') (rev v))))"

text \<open>\<open>urlencode\<close>: every byte but the unreserved ones is escaped, a space becomes a plus.\<close>

definition upper_hex :: "nat \<Rightarrow> char" where
  "upper_hex n = (if n < 10 then char_of (48 + n) else char_of (55 + n))"

definition quote_plus_char :: "char \<Rightarrow> string" where
  "quote_plus_char c = (let n = (of_char c :: nat) in
     if ascii_alpha c \<or> 48 \<le> n \<and> n \<le> 57 \<or> c \<in> {CHR ''_'', CHR ''.'', CHR ''-'', CHR ''~''} then [c]
     else if c = CHR '' '' then ''+'' else [CHR ''%'', upper_hex (n div 16), upper_hex (n mod 16)])"

definition quote_plus :: "string \<Rightarrow> string" where
  "quote_plus s = concat (map quote_plus_char s)"

section \<open>States\<close>

text \<open>A look-up in a dictionary raises for a list or an object, which have no hash.\<close>

definition payment_state_of :: "json \<Rightarrow> client_error + PaymentState" where
  "payment_state_of v = (case v of
     JStr s \<Rightarrow> Inr (if s = ''failed'' then Pay_FAILED else if s = ''created'' then Pay_PENDING
       else if s = ''authorized'' then Pay_AUTHORIZED else if s = ''captured'' then Pay_CAPTURED
       else if s = ''refunded'' then Pay_REFUNDED else Pay_UNKNOWN)
   | JList _ \<Rightarrow> Inl Client_Type_Error | JObj _ \<Rightarrow> Inl Client_Type_Error | _ \<Rightarrow> Inr Pay_UNKNOWN)"

definition subscription_states :: "SubscriptionState list" where
  "subscription_states = [Sub_UNKNOWN, Sub_CREATED, Sub_AUTHENTICATED, Sub_ACTIVE, Sub_PENDING, Sub_HALTED,
     Sub_PAUSED, Sub_CANCELLED, Sub_COMPLETED]"

definition subscription_state_of :: "json \<Rightarrow> client_error + SubscriptionState" where
  "subscription_state_of v = (case v of
     JStr s \<Rightarrow> Inr (case find (\<lambda>st. py_lower (subscription_state_value st) = s) subscription_states of
       Some st \<Rightarrow> st | None \<Rightarrow> Sub_UNKNOWN)
   | JList _ \<Rightarrow> Inl Client_Type_Error | JObj _ \<Rightarrow> Inl Client_Type_Error | _ \<Rightarrow> Inr Sub_UNKNOWN)"

section \<open>References\<close>

definition ascii_alnum :: "char \<Rightarrow> bool" where
  "ascii_alnum c \<longleftrightarrow> ascii_alpha c \<or> 48 \<le> (of_char c :: nat) \<and> (of_char c :: nat) \<le> 57"

definition build_reference_id :: "(string \<Rightarrow> string) \<Rightarrow> ident \<Rightarrow> string \<Rightarrow> string" where
  "build_reference_id sha256 case_id key =
     (let kept = filter ascii_alnum case_id; fragment = drop (length kept - 18) kept
      in take 40 (''rc_'' @ fragment @ ''_'' @ take 16 (sha256 key)))"

text \<open>The limit of forty characters never cuts the digest off.\<close>

lemma build_reference_id_whole:
  "\<exists>fragment. build_reference_id sha256 case_id key = ''rc_'' @ fragment @ ''_'' @ take 16 (sha256 key)"
proof -
  let ?kept = "filter ascii_alnum case_id"
  let ?text = "''rc_'' @ drop (length ?kept - 18) ?kept @ ''_'' @ take 16 (sha256 key)"
  have "length ?text \<le> 40" by simp
  then have "take 40 ?text = ?text" by simp
  then show ?thesis unfolding build_reference_id_def Let_def by blast
qed

section \<open>Reading a collection\<close>

definition removesuffix :: "string \<Rightarrow> string \<Rightarrow> string" where
  "removesuffix ending s =
     (if ending \<noteq> [] \<and> length ending \<le> length s \<and> drop (length s - length ending) s = ending
      then take (length s - length ending) s else s)"

definition page_size :: "nat \<Rightarrow> nat \<Rightarrow> nat" where
  "page_size maximum_items seen = min 100 (maximum_items + 1 - seen)"

definition object_page :: "json list \<Rightarrow> jobject list option" where
  "object_page page = those (map as_object page)"

lemma object_page_length: "object_page page = Some objects \<Longrightarrow> length objects = length page"
proof (induction page arbitrary: objects)
  case (Cons v page)
  then show ?case by (auto simp: object_page_def split: option.splits)
qed (simp add: object_page_def)

function list_objects :: "client_env \<Rightarrow> string \<Rightarrow> (string \<times> string) list \<Rightarrow> string \<Rightarrow> string \<Rightarrow> nat
    \<Rightarrow> jobject list \<Rightarrow> jobject list client" where
  "list_objects env path params field invalid_code maximum_items items s =
     (if maximum_items < length items then (Inl Client_Assertion_Error, s)
      else let size = page_size maximum_items (length items) in
        case request_json env ''GET'' path
            (params @ [(''count'', int_str (int size)), (''skip'', int_str (int (length items)))]) None None s of
          (Inl e, s') \<Rightarrow> (Inl e, s')
        | (Inr collection, s') \<Rightarrow> (case jget collection field of
            JList page \<Rightarrow> (case object_page page of
                None \<Rightarrow> (Inl (Contract_Error invalid_code), s')
              | Some objects \<Rightarrow>
                  if size < length page then (Inl (Contract_Error invalid_code), s')
                  else if maximum_items < length (items @ objects)
                  then (Inl (Contract_Error (removesuffix ''_INVALID'' invalid_code @ ''_TOO_LARGE'')), s')
                  else if length page < size then (Inr (items @ objects), s')
                  else list_objects env path params field invalid_code maximum_items (items @ objects) s')
          | _ \<Rightarrow> (Inl (Contract_Error invalid_code), s')))"
  by pat_completeness auto

termination list_objects
  by (relation "measure (\<lambda>(env, path, params, field, invalid_code, maximum_items, items, s). Suc maximum_items - length items)")
    (auto simp: page_size_def dest!: object_page_length)

record OnboardingBundle =
  ob_subscription :: jobject
  ob_plan :: jobject
  ob_invoices :: "jobject list"

definition fetch_onboarding_bundle :: "client_env \<Rightarrow> ident \<Rightarrow> OnboardingBundle client" where
  "fetch_onboarding_bundle env subscription_id =
     (if take 9 (rz_key_id env) \<noteq> ''rzp_test_'' then failC ''RAZORPAY_TEST_MODE_REQUIRED''
      else bindC (get_json env (''/v1/subscriptions/'' @ subscription_id)) (\<lambda>subscription.
        if jget subscription ''id'' \<noteq> JStr subscription_id then failC ''RAZORPAY_SUBSCRIPTION_RESPONSE_MISMATCH''
        else case text_of (jget subscription ''plan_id'') of
          None \<Rightarrow> failC ''RAZORPAY_SUBSCRIPTION_PLAN_MISSING''
        | Some plan_id \<Rightarrow>
            bindC (get_json env (''/v1/plans/'' @ plan_id)) (\<lambda>plan.
              if jget plan ''id'' \<noteq> JStr plan_id then failC ''RAZORPAY_PLAN_RESPONSE_MISMATCH''
              else bindC (list_objects env ''/v1/invoices'' [(''subscription_id'', subscription_id)] ''items''
                  ''RAZORPAY_INVOICE_COLLECTION_INVALID'' 1000 []) (\<lambda>invoices.
                returnC \<lparr>ob_subscription = subscription, ob_plan = plan, ob_invoices = invoices\<rparr>))))"

section \<open>Snapshots\<close>

definition due_at_of :: "jobject \<Rightarrow> client_error + instant option" where
  "due_at_of invoice =
     (let stamp = (\<lambda>k. case integer_of (jget invoice k) of Some n \<Rightarrow> if 0 \<le> n then Some n else None | None \<Rightarrow> None);
          due = (case stamp ''expire_by'' of None \<Rightarrow> stamp ''billing_end'' | Some n \<Rightarrow> Some n)
      in case due of
        None \<Rightarrow> Inr None
      | Some n \<Rightarrow> (case from_timestamp n of
          Inl _ \<Rightarrow> Inl (Contract_Error ''RAZORPAY_INVOICE_TIMESTAMP_INVALID'') | Inr t \<Rightarrow> Inr (Some t)))"

definition read_invoice :: "instant \<Rightarrow> ident \<Rightarrow> jobject \<Rightarrow> client_error + InvoiceSnapshot" where
  "read_invoice now invoice_id invoice =
     (if jget invoice ''id'' \<noteq> JStr invoice_id then Inl (Contract_Error ''RAZORPAY_INVOICE_RESPONSE_MISMATCH'')
      else case text_of (jget invoice ''subscription_id'') of
        None \<Rightarrow> Inl (Contract_Error ''RAZORPAY_INVOICE_SUBSCRIPTION_MISSING'')
      | Some subscription_id \<Rightarrow>
        if take 4 subscription_id \<noteq> ''sub_'' \<or> length subscription_id > 128
        then Inl (Contract_Error ''RAZORPAY_INVOICE_SUBSCRIPTION_MISSING'')
        else case integer_of (jget invoice ''amount'') of
          None \<Rightarrow> Inl (Contract_Error ''RAZORPAY_INVOICE_AMOUNT_INVALID'')
        | Some amount \<Rightarrow>
          if amount < 0 then Inl (Contract_Error ''RAZORPAY_INVOICE_AMOUNT_INVALID'')
          else case integer_of (jget invoice ''amount_paid'') of
            None \<Rightarrow> Inl (Contract_Error ''RAZORPAY_INVOICE_AMOUNT_INVALID'')
          | Some paid \<Rightarrow>
            if paid < 0 \<or> paid > amount then Inl (Contract_Error ''RAZORPAY_INVOICE_AMOUNT_INVALID'')
            else case text_of (jget invoice ''currency'') of
              None \<Rightarrow> Inl (Contract_Error ''RAZORPAY_INVOICE_CURRENCY_INVALID'')
            | Some currency \<Rightarrow>
              if length currency \<noteq> 3 then Inl (Contract_Error ''RAZORPAY_INVOICE_CURRENCY_INVALID'')
              else case text_of (jget invoice ''status'') of
                None \<Rightarrow> Inl (Contract_Error ''RAZORPAY_INVOICE_STATE_INVALID'')
              | Some state \<Rightarrow>
                if length state > 32 then Inl (Contract_Error ''RAZORPAY_INVOICE_STATE_INVALID'')
                else bindE (due_at_of invoice) (\<lambda>due_at.
                  let snapshot = \<lparr>is_provider = ''razorpay'', is_invoice_id = invoice_id, is_subscription_id = subscription_id,
                    is_amount_paise = amount, is_amount_paid_paise = paid, is_currency = py_upper currency,
                    is_invoice_state = py_lower state, is_due_at = due_at, is_observed_at = now, is_authoritative = True\<rparr>
                  in if valid_invoice_snapshot snapshot then Inr snapshot else Inl Client_Value_Error))"

definition client_invoice_snapshot :: "client_env \<Rightarrow> ident \<Rightarrow> InvoiceSnapshot client" where
  "client_invoice_snapshot env invoice_id =
     (if take 4 invoice_id \<noteq> ''inv_'' \<or> length invoice_id > 128 then failC ''RAZORPAY_INVOICE_ID_INVALID''
      else bindC (get_json env (''/v1/invoices/'' @ invoice_id)) (\<lambda>invoice.
        liftC (read_invoice (rz_now env) invoice_id invoice)))"

definition fetch_payment :: "client_env \<Rightarrow> ident \<Rightarrow> ident option \<Rightarrow> jobject client" where
  "fetch_payment env invoice_id payment_id =
     (if \<not> truthy payment_id then returnC []
      else bindC (get_json env (''/v1/payments/'' @ the payment_id)) (\<lambda>payment.
        if jget payment ''id'' \<noteq> JStr (the payment_id) then failC ''RAZORPAY_PAYMENT_RESPONSE_MISMATCH''
        else case text_of (jget payment ''invoice_id'') of
          Some i \<Rightarrow> if i \<noteq> invoice_id then failC ''RAZORPAY_PAYMENT_INVOICE_MISMATCH'' else returnC payment
        | None \<Rightarrow> returnC payment))"

definition fetch_subscription :: "client_env \<Rightarrow> ident option \<Rightarrow> jobject client" where
  "fetch_subscription env subscription_id =
     (if \<not> truthy subscription_id then returnC []
      else bindC (get_json env (''/v1/subscriptions/'' @ the subscription_id)) (\<lambda>subscription.
        if jget subscription ''id'' \<noteq> JStr (the subscription_id) then failC ''RAZORPAY_SUBSCRIPTION_RESPONSE_MISMATCH''
        else returnC subscription))"

definition read_payment :: "instant \<Rightarrow> ident \<Rightarrow> ident option \<Rightarrow> ident option \<Rightarrow> jobject \<Rightarrow> jobject \<Rightarrow> jobject
    \<Rightarrow> client_error + PaymentSnapshot" where
  "read_payment now invoice_id payment_id subscription_id invoice payment subscription =
     (let amount = (case integer_of (jget payment ''amount'') of
            None \<Rightarrow> integer_of (jget invoice ''amount'') | Some n \<Rightarrow> Some n);
          currency = or_text (text_of (jget payment ''currency'')) (text_of (jget invoice ''currency''))
      in case amount of
        None \<Rightarrow> Inl (Contract_Error ''RAZORPAY_PAYMENT_AMOUNT_INVALID'')
      | Some n \<Rightarrow>
          if n < 0 then Inl (Contract_Error ''RAZORPAY_PAYMENT_AMOUNT_INVALID'')
          else (case currency of
              None \<Rightarrow> Inl (Contract_Error ''RAZORPAY_PAYMENT_CURRENCY_INVALID'')
            | Some cur \<Rightarrow>
                if length cur \<noteq> 3 then Inl (Contract_Error ''RAZORPAY_PAYMENT_CURRENCY_INVALID'')
                else bindE (payment_state_of (jget payment ''status'')) (\<lambda>pst.
                  bindE (subscription_state_of (jget subscription ''status'')) (\<lambda>sst.
                    Inr \<lparr>ps_provider = ''razorpay'', ps_payment_id = payment_id, ps_invoice_id = Some invoice_id,
                      ps_subscription_id = subscription_id, ps_payment_state = pst, ps_subscription_state = sst,
                      ps_amount_paise = n, ps_currency = py_upper cur, ps_observed_at = now,
                      ps_authoritative = True\<rparr>))))"

definition client_payment_snapshot :: "client_env \<Rightarrow> ident option \<Rightarrow> ident \<Rightarrow> PaymentSnapshot client" where
  "client_payment_snapshot env payment_id invoice_id =
     bindC (get_json env (''/v1/invoices/'' @ invoice_id)) (\<lambda>invoice.
       if jget invoice ''id'' \<noteq> JStr invoice_id then failC ''RAZORPAY_INVOICE_RESPONSE_MISMATCH''
       else let provider_payment_id = or_text payment_id (text_of (jget invoice ''payment_id''));
                subscription_id = text_of (jget invoice ''subscription_id'') in
         bindC (fetch_payment env invoice_id provider_payment_id) (\<lambda>payment.
         bindC (fetch_subscription env subscription_id) (\<lambda>subscription.
           liftC (read_payment (rz_now env) invoice_id provider_payment_id subscription_id invoice payment subscription))))"

section \<open>Payment surfaces\<close>

definition surface_result :: "OpenPaymentSurfaceRequest \<Rightarrow> string \<Rightarrow> string \<Rightarrow> instant option \<Rightarrow> bool \<Rightarrow> PaymentSurfaceResult" where
  "surface_result r reference url expires_at authoritative =
     \<lparr>sf_provider = ''razorpay'', sf_provider_reference = reference, sf_surface_type = os_surface_type r,
      sf_customer_url = url, sf_expires_at = expires_at, sf_authoritative = authoritative\<rparr>"

definition open_card_update :: "client_env \<Rightarrow> OpenPaymentSurfaceRequest \<Rightarrow> PaymentSurfaceResult client" where
  "open_card_update env r =
     (if os_surface_type r \<noteq> SUBSCRIPTION_CARD_UPDATE then failC ''RAZORPAY_SURFACE_MISMATCH''
      else bindC (liftC (checkout_origin (rz_host_ok env) (rz_checkout_origin env))) (\<lambda>origin.
        returnC (surface_result r (os_subscription_id r)
          (origin @ ''/payments/razorpay/card-update?case_id='' @ quote_plus (os_case_id r)
             @ ''&subscription_id='' @ quote_plus (os_subscription_id r) @ ''&key_id='' @ quote_plus (rz_key_id env))
          (Some (os_recovery_deadline r)) False)))"

definition open_invoice_link :: "client_env \<Rightarrow> OpenPaymentSurfaceRequest \<Rightarrow> PaymentSurfaceResult client" where
  "open_invoice_link env r =
     bindC (get_json env (''/v1/invoices/'' @ os_failed_invoice_id r)) (\<lambda>invoice.
       if jget invoice ''id'' \<noteq> JStr (os_failed_invoice_id r)
          \<or> jget invoice ''subscription_id'' \<noteq> JStr (os_subscription_id r)
       then failC ''RAZORPAY_INVOICE_SCOPE_MISMATCH''
       else case jget invoice ''status'' of
         JList _ \<Rightarrow> raiseC Client_Type_Error
       | JObj _ \<Rightarrow> raiseC Client_Type_Error
       | status \<Rightarrow>
           if status \<in> {JStr ''paid'', JStr ''cancelled''} \<or> text_of (jget invoice ''short_url'') = None
           then failC ''RAZORPAY_UNPAID_INVOICE_LINK_NOT_FOUND''
           else bindC (liftC (provider_https_url (rz_host_ok env) ''RAZORPAY_INVOICE_URL_INVALID'' (jget invoice ''short_url''))) (\<lambda>url.
             returnC (surface_result r (os_failed_invoice_id r) url (Some (os_recovery_deadline r)) True)))"

definition liftB :: "(CircuitBreaker \<Rightarrow> breaker_error + 'a \<times> CircuitBreaker) \<Rightarrow> 'a client" where
  "liftB f s = (case f (ck_breaker s) of
     Inl e \<Rightarrow> (Inl (Breaker_Error e), s) | Inr (x, b) \<Rightarrow> (Inr x, s\<lparr>ck_breaker := b\<rparr>))"

definition recordF :: "client_env \<Rightarrow> FailureKind \<Rightarrow> client_error \<Rightarrow> 'a client" where
  "recordF env kind e = bindC (liftB (record_failure (rz_after env) kind)) (\<lambda>_. raiseC e)"

definition valid_notes :: "(string \<times> string) list \<Rightarrow> bool" where
  "valid_notes notes \<longleftrightarrow> length notes \<le> 15
     \<and> (\<forall>(k, v) \<in> set notes. k \<noteq> [] \<and> length k \<le> 256 \<and> length v \<le> 256)"

definition unix_seconds :: "instant \<Rightarrow> int" where
  "unix_seconds t = (if 0 \<le> t then t div micros_per_second else - ((- t) div micros_per_second))"

definition link_body :: "OpenPaymentSurfaceRequest \<Rightarrow> string \<Rightarrow> instant \<Rightarrow> jobject" where
  "link_body r reference expires_at =
     [(''amount'', JInt (os_exact_amount_paise r)), (''currency'', JStr (os_currency r)),
      (''accept_partial'', JBool False), (''expire_by'', JInt (unix_seconds expires_at)),
      (''reference_id'', JStr reference), (''description'', JStr (''Recovery for invoice '' @ os_failed_invoice_id r)),
      (''notify'', JObj [(''sms'', JBool False), (''email'', JBool False)]), (''reminder_enable'', JBool False),
      (''notes'', JObj (map (\<lambda>(k, v). (k, JStr v)) (os_notes r)))]
     @ (if truthy (os_callback_url r)
        then [(''callback_url'', JStr (the (os_callback_url r))), (''callback_method'', JStr ''get'')] else [])"

text \<open>The body of an accepted creation: without a usable link, what happened is not known.\<close>

definition link_created :: "client_env \<Rightarrow> OpenPaymentSurfaceRequest \<Rightarrow> string \<Rightarrow> instant \<Rightarrow> jobject \<Rightarrow> PaymentSurfaceResult client" where
  "link_created env r reference expires_at link =
     (let unsure = recordF env UNCERTAIN_SUBMISSION (Uncertain_Submission reference) in
      case (text_of (jget link ''id''), text_of (jget link ''short_url'')) of
        (Some link_id, Some short_url) \<Rightarrow>
          if take 6 link_id \<noteq> ''plink_'' \<or> length link_id > 128 then unsure
          else (case provider_https_url (rz_host_ok env) ''RAZORPAY_PAYMENT_LINK_URL_INVALID'' (JStr short_url) of
              Inl (Contract_Error _) \<Rightarrow> unsure
            | Inl e \<Rightarrow> raiseC e
            | Inr url \<Rightarrow> bindC (liftB (\<lambda>b. Inr ((), record_success b))) (\<lambda>_.
                returnC (surface_result r link_id url (Some expires_at) True)))
      | _ \<Rightarrow> unsure)"

definition post_link :: "client_env \<Rightarrow> OpenPaymentSurfaceRequest \<Rightarrow> string \<Rightarrow> instant \<Rightarrow> PaymentSurfaceResult client" where
  "post_link env r reference expires_at s =
     (case request_json env ''POST'' ''/v1/payment_links'' [] (Some (link_body r reference expires_at)) (Some reference) s of
        (Inl (Uncertain_Submission x), s') \<Rightarrow> recordF env UNCERTAIN_SUBMISSION (Uncertain_Submission x) s'
      | (Inl (Request_Error code st retriable), s') \<Rightarrow>
          recordF env (if retriable then RETRYABLE else PERMANENT) (Request_Error code st retriable) s'
      | (Inl e, s') \<Rightarrow> (Inl e, s')
      | (Inr link, s') \<Rightarrow> link_created env r reference expires_at link s')"

definition open_standard_payment_link :: "client_env \<Rightarrow> OpenPaymentSurfaceRequest \<Rightarrow> PaymentSurfaceResult client" where
  "open_standard_payment_link env r =
     bindC (get_json env (''/v1/subscriptions/'' @ os_subscription_id r)) (\<lambda>subscription.
       if jget subscription ''status'' \<noteq> JStr ''halted''
       then failC ''RAZORPAY_STANDARD_LINK_REQUIRES_HALTED_SUBSCRIPTION''
       else case (os_expires_at r, os_reference_id r) of
         (Some expires, Some reference) \<Rightarrow>
           if \<not> valid_notes (os_notes r) then failC ''RAZORPAY_PAYMENT_LINK_NOTES_INVALID''
           else bindC (liftB (before_call (rz_before env))) (\<lambda>decision.
             if \<not> bd_allowed decision
             then (case bd_reason decision of
                 None \<Rightarrow> raiseC Client_Assertion_Error
               | Some reason \<Rightarrow> raiseC (Request_Error (fr_code reason) (Some 503) (fr_automatic_retry_permitted reason)))
             else post_link env r reference (min expires (os_recovery_deadline r)))
       | _ \<Rightarrow> failC ''RAZORPAY_PAYMENT_LINK_CONTRACT_INVALID'')"

definition open_customer_payment_surface :: "client_env \<Rightarrow> OpenPaymentSurfaceRequest \<Rightarrow> PaymentSurfaceResult client" where
  "open_customer_payment_surface env r = (case os_surface_type r of
     SUBSCRIPTION_CARD_UPDATE \<Rightarrow> open_card_update env r
   | SUBSCRIPTION_INVOICE_LINK \<Rightarrow> open_invoice_link env r
   | STANDARD_PAYMENT_LINK \<Rightarrow> open_standard_payment_link env r)"

section \<open>Reconciliation and revocation\<close>

definition link_items :: "jobject \<Rightarrow> json" where
  "link_items collection = (case map_of collection ''payment_links'' of
     Some v \<Rightarrow> v | None \<Rightarrow> jget collection ''items'')"

definition matching_links :: "string \<Rightarrow> json list \<Rightarrow> jobject list" where
  "matching_links reference items =
     filter (\<lambda>ob. jget ob ''reference_id'' = JStr reference) (List.map_filter as_object items)"

definition resolve_uncertain :: "bool \<Rightarrow> unit client" where
  "resolve_uncertain absent s =
     (if cb_uncertain (ck_breaker s)
      then liftB (\<lambda>b. bindE (reconcile_uncertain absent b) (\<lambda>b'. Inr ((), b'))) s else (Inr (), s))"

definition found_link :: "client_env \<Rightarrow> jobject \<Rightarrow> PaymentSurfaceResult option client" where
  "found_link env link = (case (text_of (jget link ''id''), text_of (jget link ''short_url'')) of
     (Some link_id, Some short_url) \<Rightarrow>
       if take 6 link_id \<noteq> ''plink_'' \<or> length link_id > 128 then failC ''RAZORPAY_PAYMENT_LINK_RESPONSE_INVALID''
       else bindC (resolve_uncertain False) (\<lambda>_.
         bindC (liftC (case integer_of (jget link ''expire_by'') of
             Some n \<Rightarrow> if n = 0 then Inr None
               else (case from_timestamp n of Inl _ \<Rightarrow> Inl Client_Value_Error | Inr t \<Rightarrow> Inr (Some t))
           | None \<Rightarrow> Inr None)) (\<lambda>expires_at.
         bindC (liftC (provider_https_url (rz_host_ok env) ''RAZORPAY_PAYMENT_LINK_URL_INVALID'' (JStr short_url))) (\<lambda>url.
           returnC (Some \<lparr>sf_provider = ''razorpay'', sf_provider_reference = link_id,
             sf_surface_type = STANDARD_PAYMENT_LINK, sf_customer_url = url, sf_expires_at = expires_at,
             sf_authoritative = True\<rparr>))))
   | _ \<Rightarrow> failC ''RAZORPAY_PAYMENT_LINK_RESPONSE_INVALID'')"

definition reconcile_payment_link :: "client_env \<Rightarrow> string \<Rightarrow> PaymentSurfaceResult option client" where
  "reconcile_payment_link env reference =
     bindC (request_json env ''GET'' ''/v1/payment_links'' [(''reference_id'', reference)] None None) (\<lambda>collection.
       case link_items collection of
         JList items \<Rightarrow> (case matching_links reference items of
             [] \<Rightarrow> bindC (resolve_uncertain True) (\<lambda>_. returnC None)
           | [link] \<Rightarrow> found_link env link
           | _ \<Rightarrow> failC ''RAZORPAY_PAYMENT_LINK_REFERENCE_AMBIGUOUS'')
       | _ \<Rightarrow> failC ''RAZORPAY_PAYMENT_LINK_COLLECTION_INVALID'')"

definition terminal_link_state :: "jobject \<Rightarrow> string option" where
  "terminal_link_state link = (case text_of (jget link ''status'') of
     Some st \<Rightarrow> if st \<in> {''cancelled'', ''expired''} then Some ''ALREADY_INACTIVE''
       else if st \<in> {''paid'', ''partially_paid''} then Some ''PAYMENT_PRESENT'' else None
   | None \<Rightarrow> None)"

definition cancel_link :: "client_env \<Rightarrow> string \<Rightarrow> string client" where
  "cancel_link env path s =
     (case request_json env ''POST'' (path @ ''/cancel'') [] None None s of
        (Inl (Request_Error code st retriable), s') \<Rightarrow>
          bindC (get_json env path) (\<lambda>link. case terminal_link_state link of
            Some x \<Rightarrow> returnC x | None \<Rightarrow> raiseC (Request_Error code st retriable)) s'
      | (Inl e, s') \<Rightarrow> (Inl e, s')
      | (Inr cancelled, s') \<Rightarrow>
          (if jget cancelled ''status'' \<noteq> JStr ''cancelled'' then failC ''RAZORPAY_PAYMENT_LINK_CANCEL_UNCONFIRMED''
           else returnC ''CANCELLED'') s')"

definition revoke_payment_link :: "client_env \<Rightarrow> string \<Rightarrow> string client" where
  "revoke_payment_link env reference =
     (let path = ''/v1/payment_links/'' @ reference in
      bindC (get_json env path) (\<lambda>link. case terminal_link_state link of
          Some x \<Rightarrow> returnC x
        | None \<Rightarrow> if jget link ''status'' \<noteq> JStr ''created'' then failC ''RAZORPAY_PAYMENT_LINK_STATUS_UNRESOLVED''
            else cancel_link env path))"

end
