(* ===== verification/Client_Safety.thy ===== *)
theory Client_Safety
  imports Razorpay_Client
begin

text \<open>
  What the rest of the system can rely on of the Razorpay client: a collection is read completely, the answer to the
  creation of a payment link is classified so that a link that may exist is never reported as refused, and a revocation
  is confirmed by the provider. A probe of the circuit breaker that is cancelled blocks payment links for good.
\<close>

section \<open>Collections\<close>

text \<open>A provider that serves the list \<open>xs\<close> page by page.\<close>

definition serves :: "client_env \<Rightarrow> string \<Rightarrow> (string \<times> string) list \<Rightarrow> string \<Rightarrow> jobject list \<Rightarrow> bool" where
  "serves env path params field xs \<longleftrightarrow> (\<forall>log count skip. count \<le> 100 \<longrightarrow> skip \<le> length xs \<longrightarrow>
     rz_http env log \<lparr>rq_method = ''GET'', rq_path = path,
       rq_params = params @ [(''count'', int_str (int count)), (''skip'', int_str (int skip))], rq_json = None\<rparr>
     = Response 200 (Some (JObj [(field, JList (map JObj (take count (drop skip xs))))])))"

lemma object_page_objects: "object_page (map JObj xs) = Some xs"
  by (induction xs) (simp_all add: object_page_def as_object_def)

lemma served_page:
  assumes "serves env path params field xs" "n \<le> 100" "k \<le> length xs"
  shows "request_json env ''GET'' path (params @ [(''count'', int_str (int n)), (''skip'', int_str (int k))]) None None s
    = (Inr [(field, JList (map JObj (take n (drop k xs))))],
       snd (request_json env ''GET'' path (params @ [(''count'', int_str (int n)), (''skip'', int_str (int k))]) None None s))"
  using assms by (simp add: serves_def request_json_def Let_def read_answer_def)

declare list_objects.simps [simp del]

lemma list_objects_reads:
  assumes "serves env path params field xs" and "k \<le> length xs" "k \<le> maximum"
  shows "fst (list_objects env path params field code maximum (take k xs) s)
    = (if length xs \<le> maximum then Inr xs else Inl (Contract_Error (removesuffix ''_INVALID'' code @ ''_TOO_LARGE'')))"
  using assms(2,3)
proof (induction "Suc maximum - k" arbitrary: k s rule: less_induct)
  case less
  let ?n = "page_size maximum k" and ?page = "take (page_size maximum k) (drop k xs)"
  have len: "length (take k xs) = k" using less.prems by simp
  have pos: "0 < ?n" using less.prems by (simp add: page_size_def)
  have app: "take k xs @ ?page = take (k + ?n) xs" by (simp add: take_add)
  obtain s' where req: "request_json env ''GET'' path (params @ [(''count'', int_str (int ?n)), (''skip'', int_str (int k))]) None None s
      = (Inr [(field, JList (map JObj ?page))], s')"
    using served_page [OF assms(1), of ?n k s] less.prems(1) by (auto simp: page_size_def)
  have step: "list_objects env path params field code maximum (take k xs) s =
      (if maximum < length (take (k + ?n) xs) then (Inl (Contract_Error (removesuffix ''_INVALID'' code @ ''_TOO_LARGE'')), s')
       else if length ?page < ?n then (Inr (take (k + ?n) xs), s')
       else list_objects env path params field code maximum (take (k + ?n) xs) s')"
    by (subst list_objects.simps)
      (use less.prems in \<open>simp add: len req jget_def object_page_objects app Let_def\<close>)
  show ?case
  proof (cases "maximum < length (take (k + ?n) xs) \<or> length ?page < ?n")
    case True
    then show ?thesis unfolding step using less.prems
      by (auto simp: page_size_def min_def split: if_splits)
  next
    case False
    then have k: "k + ?n \<le> length xs" "k + ?n \<le> maximum" using less.prems by auto
    have "Suc maximum - (k + ?n) < Suc maximum - k" using pos less.prems by simp
    from less.hyps [OF this k] False show ?thesis unfolding step by simp
  qed
qed

text \<open>
  A collection is read completely or refused: from a provider that serves a list page by page the client reads
  exactly that list, whatever the number of pages, and a list longer than the bound is an error, never a prefix.
\<close>

theorem collection_read_completely:
  assumes "serves env path params field xs"
  shows "fst (list_objects env path params field code maximum [] s)
    = (if length xs \<le> maximum then Inr xs else Inl (Contract_Error (removesuffix ''_INVALID'' code @ ''_TOO_LARGE'')))"
  using list_objects_reads [OF assms, of 0] by simp

section \<open>The creation of a payment link\<close>

lemma bindC_result:
  "bindC f g s = (r, s') \<longleftrightarrow> (\<exists>e. f s = (Inl e, s') \<and> r = Inl e) \<or> (\<exists>x s1. f s = (Inr x, s1) \<and> g x s1 = (r, s'))"
  by (auto simp: bindC_def split: prod.splits sum.splits)

lemmas client_simps = bindC_result returnC_def raiseC_def failC_def liftC_def

definition posts :: "(http_request \<times> http_answer) list \<Rightarrow> (http_request \<times> http_answer) list" where
  "posts new = filter (\<lambda>x. rq_method (fst x) = ''POST'') new"

definition refused :: "http_answer \<Rightarrow> bool" where
  "refused a \<longleftrightarrow> (\<exists>st body. a = Response st body \<and> 400 \<le> st \<and> st < 500)"

lemma record_failure_aware:
  assumes "is_aware t"
  shows "\<exists>x b'. record_failure t kind b = Inr (x, b') \<and> (kind = UNCERTAIN_SUBMISSION \<longrightarrow> cb_uncertain b' \<and> cb_state b' = OPEN)"
  using assms by (cases kind) (simp_all add: record_failure_def breaker_now_def open_breaker_def Let_def)

definition uncertain_open :: "client_state \<Rightarrow> bool" where
  "uncertain_open s \<longleftrightarrow> cb_uncertain (ck_breaker s) \<and> cb_state (ck_breaker s) = OPEN"

lemma recordF_result:
  assumes "is_aware (rz_after env)" and "recordF env kind e s = (res, s')"
  shows "res = Inl e \<and> ck_log s' = ck_log s \<and> (kind = UNCERTAIN_SUBMISSION \<longrightarrow> uncertain_open s')"
  using record_failure_aware [OF assms(1), of kind "ck_breaker s"] assms(2)
  by (auto simp: recordF_def bindC_def liftB_def raiseC_def uncertain_open_def)

text \<open>What an accepted creation ends in, given its body.\<close>

lemma provider_https_url_errors:
  "provider_https_url host_ok code v = Inl e \<Longrightarrow> (\<exists>c. e = Contract_Error c) \<or> e = Client_Value_Error"
  by (auto simp: provider_https_url_def split: json.splits if_splits option.splits)

lemma link_created_cases:
  assumes run: "link_created env r reference t link s = (res, s')" and clock: "is_aware (rz_after env)"
  shows "ck_log s' = ck_log s"
    and "res = Inr x \<Longrightarrow> text_of (jget link ''id'') = Some (sf_provider_reference x) \<and> \<not> cb_uncertain (ck_breaker s')"
    and "res = Inl e \<Longrightarrow> e = Uncertain_Submission reference \<and> uncertain_open s' \<or> e = Client_Value_Error"
proof -
  let ?unsure = "recordF env UNCERTAIN_SUBMISSION (Uncertain_Submission reference) s"
  have "ck_log s' = ck_log s \<and> (\<forall>x. res = Inr x \<longrightarrow> text_of (jget link ''id'') = Some (sf_provider_reference x) \<and> \<not> cb_uncertain (ck_breaker s'))
    \<and> (\<forall>e. res = Inl e \<longrightarrow> e = Uncertain_Submission reference \<and> uncertain_open s' \<or> e = Client_Value_Error)"
  proof (cases "link_created env r reference t link s = ?unsure")
    case True
    with run recordF_result [OF clock, of UNCERTAIN_SUBMISSION "Uncertain_Submission reference" s res s'] show ?thesis by auto
  next
    case False
    then obtain link_id url where link: "text_of (jget link ''id'') = Some link_id" "text_of (jget link ''short_url'') = Some url"
      "take 6 link_id = ''plink_''" "\<not> length link_id > 128"
      by (auto simp: link_created_def Let_def split: option.splits if_splits)
    show ?thesis
    proof (cases "provider_https_url (rz_host_ok env) ''RAZORPAY_PAYMENT_LINK_URL_INVALID'' (JStr url)")
      case (Inl e)
      with provider_https_url_errors [OF this] run link False show ?thesis
        by (auto simp: link_created_def Let_def raiseC_def)
    next
      case (Inr u)
      with run link show ?thesis
        by (auto simp: link_created_def Let_def client_simps liftB_def record_success_def surface_result_def)
    qed
  qed
  then show "ck_log s' = ck_log s"
    and "res = Inr x \<Longrightarrow> text_of (jget link ''id'') = Some (sf_provider_reference x) \<and> \<not> cb_uncertain (ck_breaker s')"
    and "res = Inl e \<Longrightarrow> e = Uncertain_Submission reference \<and> uncertain_open s' \<or> e = Client_Value_Error" by auto
qed

text \<open>What the request for a link ends in, given its answer.\<close>

definition classified :: "string \<Rightarrow> http_answer \<Rightarrow> client_error + PaymentSurfaceResult \<Rightarrow> client_state \<Rightarrow> bool" where
  "classified reference a res s \<longleftrightarrow> (case res of
     Inr x \<Rightarrow> (\<exists>st link. a = Response st (Some (JObj link)) \<and> text_of (jget link ''id'') = Some (sf_provider_reference x)
       \<and> \<not> cb_uncertain (ck_breaker s))
   | Inl (Uncertain_Submission x) \<Rightarrow> x = reference \<and> uncertain_open s
   | Inl e \<Rightarrow> refused a \<or> a = Request_Cancelled
       \<or> e = Client_Value_Error \<and> (\<exists>st link. a = Response st (Some (JObj link))))"

lemma read_answer_cases:
  obtains (link) st link where "a = Response st (Some (JObj link))" "read_answer (Some reference) a = Inr link"
  | (unsure) "read_answer (Some reference) a = Inl (Uncertain_Submission reference)"
  | (refused) st where "read_answer (Some reference) a = Inl (Request_Error ''RAZORPAY_API_ERROR'' (Some st) False)" "refused a"
  | (cancelled) "a = Request_Cancelled" "read_answer (Some reference) a = Inl Client_Cancelled"
proof (cases a)
  case (Response st body)
  consider "400 \<le> st" "st < 500" | "500 \<le> st" "st \<le> 599" | "st < 400 \<or> 599 < st" by linarith
  then show thesis
  proof cases
    case 1
    with Response show thesis by (intro refused [of st]) (simp_all add: read_answer_def refused_def)
  next
    case 2
    with Response show thesis by (intro unsure) (simp add: read_answer_def)
  next
    case 3
    show thesis
    proof (cases "\<exists>ob. body = Some (JObj ob)")
      case True
      with 3 Response link show thesis by (auto simp: read_answer_def)
    next
      case False
      with 3 Response show thesis
        by (intro unsure) (auto simp: read_answer_def split: option.splits json.splits)
    qed
  qed
qed (simp_all add: read_answer_def unsure cancelled)

lemma post_link_classified:
  assumes run: "post_link env r reference t s = (res, s')" and clock: "is_aware (rz_after env)"
  shows "\<exists>rq a. rq_method rq = ''POST'' \<and> rq_path rq = ''/v1/payment_links'' \<and> rq_json rq = Some (link_body r reference t)
    \<and> ck_log s' = ck_log s @ [(rq, a)] \<and> classified reference a res s'"
proof -
  define rq where "rq = \<lparr>rq_method = ''POST'', rq_path = ''/v1/payment_links'', rq_params = [], rq_json = Some (link_body r reference t)\<rparr>"
  define a where "a = rz_http env (ck_log s) rq"
  define s1 where "s1 = s\<lparr>ck_log := ck_log s @ [(rq, a)]\<rparr>"
  have req: "request_json env ''POST'' ''/v1/payment_links'' [] (Some (link_body r reference t)) (Some reference) s
      = (read_answer (Some reference) a, s1)"
    by (simp add: request_json_def Let_def rq_def a_def s1_def)
  have "ck_log s' = ck_log s1 \<and> classified reference a res s'"
  proof (cases a rule: read_answer_cases [where reference = reference])
    case (link st ob)
    with run req have "link_created env r reference t ob s1 = (res, s')" by (simp add: post_link_def)
    from link_created_cases [OF this clock] link(1) show ?thesis
      by (cases res) (auto simp: classified_def split: client_error.splits)
  next
    case unsure
    with run req have "recordF env UNCERTAIN_SUBMISSION (Uncertain_Submission reference) s1 = (res, s')"
      by (simp add: post_link_def)
    from recordF_result [OF clock this] show ?thesis by (simp add: classified_def)
  next
    case (refused st)
    with run req have "recordF env PERMANENT (Request_Error ''RAZORPAY_API_ERROR'' (Some st) False) s1 = (res, s')"
      by (simp add: post_link_def)
    from recordF_result [OF clock this] refused(2) show ?thesis by (simp add: classified_def)
  next
    case cancelled
    with run req show ?thesis by (auto simp: post_link_def classified_def)
  qed
  then show ?thesis by (auto simp: s1_def rq_def intro!: exI [of _ rq])
qed

lemma read_only_answer: "read_answer None a \<noteq> Inl (Uncertain_Submission x)"
  by (cases a) (auto simp: read_answer_def split: option.splits json.splits)

lemma get_json_log:
  assumes "request_json env m path params body None s = (res, s')"
  shows "\<exists>rq a. ck_log s' = ck_log s @ [(rq, a)] \<and> rq_method rq = m \<and> (\<forall>x. res \<noteq> Inl (Uncertain_Submission x))
    \<and> ck_breaker s' = ck_breaker s"
  using assms read_only_answer by (auto simp: request_json_def Let_def)

lemma before_call_result:
  assumes "liftB (before_call t) s = (res, s')"
  shows "ck_log s' = ck_log s \<and> (\<forall>x. res \<noteq> Inl (Uncertain_Submission x))"
  using assms by (auto simp: liftB_def split: sum.splits)

text \<open>What a request for a link asks for: exactly the amount owed, in one payment, until the deadline at the latest.\<close>

definition exact_link_request :: "OpenPaymentSurfaceRequest \<Rightarrow> string \<Rightarrow> http_request \<Rightarrow> bool" where
  "exact_link_request r reference rq \<longleftrightarrow> rq_path rq = ''/v1/payment_links'' \<and> (\<exists>body n. rq_json rq = Some body
     \<and> jget body ''amount'' = JInt (os_exact_amount_paise r) \<and> jget body ''currency'' = JStr (os_currency r)
     \<and> jget body ''accept_partial'' = JBool False \<and> jget body ''reference_id'' = JStr reference
     \<and> jget body ''expire_by'' = JInt n
     \<and> (0 \<le> os_recovery_deadline r \<longrightarrow> n * micros_per_second \<le> os_recovery_deadline r))"

lemma unix_seconds_within:
  assumes "t \<le> d" and "0 \<le> d"
  shows "unix_seconds t * micros_per_second \<le> d"
proof (cases "0 \<le> t")
  case True
  then have "unix_seconds t * micros_per_second \<le> t"
    by (simp add: unix_seconds_def micros_per_second_def)
  with assms show ?thesis by simp
next
  case False
  then have "unix_seconds t \<le> 0" by (simp add: unix_seconds_def micros_per_second_def pos_imp_zdiv_nonneg_iff)
  then have "unix_seconds t * micros_per_second \<le> 0" by (simp add: micros_per_second_def)
  with assms(2) show ?thesis by simp
qed

lemma link_body_exact:
  assumes "rq_path rq = ''/v1/payment_links''" and "rq_json rq = Some (link_body r reference t)" and "t \<le> os_recovery_deadline r"
  shows "exact_link_request r reference rq"
  using assms unix_seconds_within [OF assms(3)] by (simp add: exact_link_request_def link_body_def jget_def)

definition conclusive :: "OpenPaymentSurfaceRequest \<Rightarrow> (http_request \<times> http_answer) list
    \<Rightarrow> client_error + PaymentSurfaceResult \<Rightarrow> client_state \<Rightarrow> bool" where
  "conclusive r new res s \<longleftrightarrow>
     posts new = [] \<and> (\<forall>x. res \<noteq> Inr x) \<and> (\<forall>x. res \<noteq> Inl (Uncertain_Submission x))
     \<or> (\<exists>rq a reference. posts new = [(rq, a)] \<and> os_reference_id r = Some reference
          \<and> exact_link_request r reference rq \<and> classified reference a res s)"

lemma not_posted:
  assumes "ck_log s1 = ck_log s @ [(rq, a)]" "rq_method rq = ''GET''" "ck_log s' = ck_log s1"
    "\<forall>x. res \<noteq> Inr x" "\<forall>x. res \<noteq> Inl (Uncertain_Submission x)"
  shows "\<exists>new. ck_log s' = ck_log s @ new \<and> conclusive r new res s'"
  using assms by (intro exI [of _ "[(rq, a)]"]) (simp add: conclusive_def posts_def)

lemma posted_once:
  assumes "post_link env r reference expires s = (res, s')" and "is_aware (rz_after env)"
    and "rq_method rq = ''GET''" and "os_reference_id r = Some reference"
    and "expires \<le> os_recovery_deadline r"
  shows "\<exists>new. ck_log s' = ck_log s @ new \<and> conclusive r ((rq, a) # new) res s'"
proof -
  from post_link_classified [OF assms(1,2)] obtain rq' a' where post: "rq_method rq' = ''POST''"
    "rq_path rq' = ''/v1/payment_links''" "rq_json rq' = Some (link_body r reference expires)"
    "ck_log s' = ck_log s @ [(rq', a')]" "classified reference a' res s'" by blast
  have "conclusive r ((rq, a) # [(rq', a')]) res s'"
    unfolding conclusive_def posts_def using post assms(3,4) link_body_exact [OF post(2,3) assms(5)]
    by (intro disjI2 exI [of _ rq'] exI [of _ a'] exI [of _ reference]) simp
  with post(4) show ?thesis by blast
qed

text \<open>
  C8: the creation of a payment link is classified. Opening a standard link posts at most one request: for exactly the
  amount and currency of the request, without partial payments, and with an expiry within the recovery window. If it
  succeeds, the provider named the link. If it fails as uncertain, the breaker is open until the submission is
  reconciled. If it fails in another way, nothing was posted, or the provider refused the request with a client
  error, with two exceptions in which a link may exist and the breaker does not know: the request was cancelled while it was awaited,
  or the provider answered with an object whose URL \<open>urlsplit\<close> refuses with a \<open>ValueError\<close>.
\<close>

theorem link_creation_is_classified:
  assumes run: "open_standard_payment_link env r s = (res, s')" and clock: "is_aware (rz_after env)"
  shows "\<exists>new. ck_log s' = ck_log s @ new \<and> conclusive r new res s'"
proof -
  obtain sub s1 where get: "get_json env (''/v1/subscriptions/'' @ os_subscription_id r) s = (sub, s1)" by fastforce
  from get_json_log [OF get] obtain rq a where log: "ck_log s1 = ck_log s @ [(rq, a)]" "rq_method rq = ''GET''"
      "\<forall>x. sub \<noteq> Inl (Uncertain_Submission x)" by blast
  note none = not_posted [OF log(1,2)]
  show ?thesis
  proof (cases sub)
    case (Inl e)
    with run get have "res = Inl e" "s' = s1" by (auto simp: open_standard_payment_link_def bindC_def)
    with log(3) Inl show ?thesis by (intro none) auto
  next
    case (Inr ob)
    show ?thesis
    proof (cases "jget ob ''status'' = JStr ''halted'' \<and> os_expires_at r \<noteq> None \<and> os_reference_id r \<noteq> None \<and> valid_notes (os_notes r)")
      case False
      with run get Inr show ?thesis
        by (intro none) (auto simp: open_standard_payment_link_def bindC_def failC_def raiseC_def split: if_splits option.splits)
    next
      case True
      then obtain expires reference where r: "os_expires_at r = Some expires" "os_reference_id r = Some reference" by auto
      obtain d s2 where call: "liftB (before_call (rz_before env)) s1 = (d, s2)" by fastforce
      note dec = before_call_result [OF call]
      show ?thesis
      proof (cases "\<exists>x. d = Inr x \<and> bd_allowed x")
        case False
        with run get Inr True r call dec show ?thesis
          by (cases d; intro none)
            (auto simp: open_standard_payment_link_def bindC_def raiseC_def split: if_splits option.splits)
      next
        case allowed: True
        with run get Inr True r call have "post_link env r reference (min expires (os_recovery_deadline r)) s2 = (res, s')"
          by (auto simp: open_standard_payment_link_def bindC_def)
        from posted_once [OF this clock log(2) r(2) min.cobounded2] obtain new where
          "ck_log s' = ck_log s2 @ new" "conclusive r ((rq, a) # new) res s'" by blast
        with dec log(1) show ?thesis by (intro exI [of _ "(rq, a) # new"]) simp
      qed
    qed
  qed
qed

section \<open>A cancelled probe\<close>

text \<open>A breaker whose probe is in flight refuses every call, and stays as it is.\<close>

definition probing :: "CircuitBreaker \<Rightarrow> bool" where
  "probing b \<longleftrightarrow> cb_state b = HALF_OPEN \<and> cb_probe_in_flight b"

lemma probing_refuses:
  assumes "probing (ck_breaker s)" and "liftB (before_call t) s = (d, s')"
  shows "s' = s \<and> (\<forall>x. d = Inr x \<longrightarrow> \<not> bd_allowed x)"
  using assms
  by (auto simp: probing_def liftB_def before_call_def half_open_when_due_def bindE_eq_Inr Let_def split: sum.splits)

lemma probing_blocks:
  assumes probing: "probing (ck_breaker s)" and run: "open_standard_payment_link env r s = (res, s')"
  shows "(\<forall>x. res \<noteq> Inr x) \<and> ck_breaker s' = ck_breaker s \<and> (\<exists>new. ck_log s' = ck_log s @ new \<and> posts new = [])"
proof -
  obtain sub s1 where get: "get_json env (''/v1/subscriptions/'' @ os_subscription_id r) s = (sub, s1)" by fastforce
  from get_json_log [OF get] obtain rq a where log: "ck_log s1 = ck_log s @ [(rq, a)]" "rq_method rq = ''GET''"
      "ck_breaker s1 = ck_breaker s" by blast
  have "(\<forall>x. res \<noteq> Inr x) \<and> s' = s1"
  proof (cases sub)
    case (Inl e)
    with run get show ?thesis by (auto simp: open_standard_payment_link_def bindC_def)
  next
    case (Inr ob)
    obtain d s2 where call: "liftB (before_call (rz_before env)) s1 = (d, s2)" by fastforce
    from probing_refuses [OF _ call] log(3) probing have d: "s2 = s1" "\<And>x. d = Inr x \<Longrightarrow> \<not> bd_allowed x" by auto
    show ?thesis
      using run get Inr call d
      by (cases d) (auto simp: open_standard_payment_link_def bindC_def raiseC_def failC_def split: if_splits option.splits)
  qed
  with log show ?thesis by (auto simp: posts_def)
qed

text \<open>Any number of attempts to open links, one after the other.\<close>

fun attempts :: "(client_env \<times> OpenPaymentSurfaceRequest) list \<Rightarrow> client_state \<Rightarrow> client_state" where
  "attempts [] s = s"
| "attempts ((env, r) # rest) s = attempts rest (snd (open_standard_payment_link env r s))"

lemma probing_blocks_all:
  assumes "probing (ck_breaker s)"
  shows "ck_breaker (attempts tries s) = ck_breaker s \<and> (\<exists>new. ck_log (attempts tries s) = ck_log s @ new \<and> posts new = [])"
  using assms
proof (induction tries arbitrary: s)
  case Nil
  then show ?case by (simp add: posts_def)
next
  case (Cons x tries)
  obtain env r where x: "x = (env, r)" by (cases x)
  obtain res s1 where run: "open_standard_payment_link env r s = (res, s1)" by fastforce
  from probing_blocks [OF Cons.prems run] obtain new where b: "ck_breaker s1 = ck_breaker s"
      "ck_log s1 = ck_log s @ new" "posts new = []" by blast
  from Cons.IH [of s1] Cons.prems b(1) obtain new' where
    "ck_breaker (attempts tries s1) = ck_breaker s" "ck_log (attempts tries s1) = ck_log s1 @ new'" "posts new' = []" by auto
  with b x run show ?case by (auto simp: posts_def)
qed

lemma recordF_error: "recordF env kind e s = (Inl x, s') \<Longrightarrow> x = e \<or> (\<exists>b. x = Breaker_Error b)"
  by (auto simp: recordF_def bindC_def liftB_def raiseC_def split: sum.splits)

lemma link_created_not_cancelled: "link_created env r reference t link s \<noteq> (Inl Client_Cancelled, s')"
proof
  assume run: "link_created env r reference t link s = (Inl Client_Cancelled, s')"
  have "recordF env UNCERTAIN_SUBMISSION (Uncertain_Submission reference) s \<noteq> (Inl Client_Cancelled :: client_error + PaymentSurfaceResult, s')"
    using recordF_error by fastforce
  with run show False
    by (auto simp: link_created_def Let_def client_simps liftB_def split: option.splits if_splits sum.splits client_error.splits
        dest: provider_https_url_errors)
qed

lemma cancelled_keeps_breaker:
  assumes "post_link env r reference t s = (Inl Client_Cancelled, s')"
  shows "ck_breaker s' = ck_breaker s"
proof -
  obtain a s1 where req: "request_json env ''POST'' ''/v1/payment_links'' [] (Some (link_body r reference t)) (Some reference) s
      = (read_answer (Some reference) a, s1)" "ck_breaker s1 = ck_breaker s"
    by (simp add: request_json_def Let_def)
  show ?thesis
  proof (cases a rule: read_answer_cases [where reference = reference])
    case (link st ob)
    with assms req(1) link_created_not_cancelled show ?thesis by (simp add: post_link_def)
  next
    case unsure
    with assms req(1) show ?thesis by (auto simp: post_link_def dest!: recordF_error)
  next
    case (refused st)
    with assms req(1) show ?thesis by (auto simp: post_link_def dest!: recordF_error)
  next
    case cancelled
    with assms req show ?thesis by (simp add: post_link_def)
  qed
qed

text \<open>
  C33: a cancelled probe blocks payment links for good. If the request that probes a breaker that is not closed is cancelled
  while it is awaited, the breaker waits for the probe's result for ever: however often and however much later
  links are opened with this client, nothing is posted any more.
\<close>

theorem cancelled_probe_blocks_links:
  assumes run: "open_standard_payment_link env r s = (Inl Client_Cancelled, s')"
    and posted: "posts (drop (length (ck_log s)) (ck_log s')) \<noteq> []"
    and trouble: "cb_state (ck_breaker s) \<noteq> CLOSED"
  shows "ck_breaker (attempts tries s') = ck_breaker s'
    \<and> (\<exists>new. ck_log (attempts tries s') = ck_log s' @ new \<and> posts new = [])"
proof -
  obtain sub s1 where get: "get_json env (''/v1/subscriptions/'' @ os_subscription_id r) s = (sub, s1)" by fastforce
  from get_json_log [OF get] obtain rq a where log: "ck_log s1 = ck_log s @ [(rq, a)]" "rq_method rq = ''GET''"
      "ck_breaker s1 = ck_breaker s" by blast
  obtain ob where ob: "sub = Inr ob" using run get posted log
    by (cases sub) (auto simp: open_standard_payment_link_def bindC_def posts_def)
  obtain d s2 where call: "liftB (before_call (rz_before env)) s1 = (d, s2)" by fastforce
  have dec: "ck_log s2 = ck_log s1" using before_call_result [OF call] by simp
  obtain x reference t where x: "d = Inr x" "bd_allowed x" "post_link env r reference t s2 = (Inl Client_Cancelled, s')"
    using run get ob call posted log dec
    by (cases d) (auto simp: open_standard_payment_link_def bindC_def raiseC_def failC_def posts_def split: if_splits option.splits)
  from call x(1,2) trouble log(3) have "probing (ck_breaker s2)"
    by (auto simp: liftB_def before_call_def bindE_eq_Inr Let_def probing_def half_open_when_due_def
        split: sum.splits if_splits option.splits)
  moreover have "ck_breaker s' = ck_breaker s2"
    using x(3) by (rule cancelled_keeps_breaker)
  ultimately have "probing (ck_breaker s')" by simp
  then show ?thesis by (rule probing_blocks_all)
qed

section \<open>Reconciliation and revocation\<close>

text \<open>
  The breaker remembers that some submission is uncertain, not which one: looking up another reference, which the
  provider does not know, closes it.
\<close>

lemma other_reference_clears_uncertainty:
  assumes "cb_uncertain (ck_breaker s)"
    and "rz_http env (ck_log s) \<lparr>rq_method = ''GET'', rq_path = ''/v1/payment_links'', rq_params = [(''reference_id'', other)],
      rq_json = None\<rparr> = Response 200 (Some (JObj [(''payment_links'', JList [])]))"
  shows "\<exists>s'. reconcile_payment_link env other s = (Inr None, s') \<and> cb_state (ck_breaker s') = CLOSED \<and> \<not> cb_uncertain (ck_breaker s')"
  using assms
  by (simp add: reconcile_payment_link_def bindC_def request_json_def Let_def read_answer_def link_items_def matching_links_def
      map_filter_def resolve_uncertain_def liftB_def reconcile_uncertain_def record_success_def returnC_def)

text \<open>The last answer of the provider.\<close>

definition last_answer :: "client_state \<Rightarrow> jobject \<Rightarrow> bool" where
  "last_answer s ob \<longleftrightarrow> (\<exists>log rq st. ck_log s = log @ [(rq, Response st (Some (JObj ob)))])"

lemma request_json_Inr:
  "request_json env m path params body uncertain s = (Inr ob, s') \<Longrightarrow> last_answer s' ob"
  by (auto simp: request_json_def Let_def read_answer_def last_answer_def split: http_answer.splits option.splits if_splits json.splits)

lemma terminal_link_state_Some:
  assumes "terminal_link_state link = Some x"
  shows "x = ''ALREADY_INACTIVE'' \<and> jget link ''status'' \<in> {JStr ''cancelled'', JStr ''expired''}
    \<or> x = ''PAYMENT_PRESENT'' \<and> jget link ''status'' \<in> {JStr ''paid'', JStr ''partially_paid''}"
  using assms by (auto simp: terminal_link_state_def text_of_def split: option.splits if_splits json.splits)

text \<open>
  A revocation is confirmed. When the client answers that a link is cancelled or was inactive already, the last thing the
  provider said about the link is that it is cancelled or expired; when it answers that there is a payment, that it is paid, in full or in part.
\<close>

theorem revocation_is_confirmed:
  assumes run: "revoke_payment_link env reference s = (Inr x, s')"
  shows "\<exists>link. last_answer s' link
    \<and> (x \<in> {''CANCELLED'', ''ALREADY_INACTIVE''} \<and> jget link ''status'' \<in> {JStr ''cancelled'', JStr ''expired''}
       \<or> x = ''PAYMENT_PRESENT'' \<and> jget link ''status'' \<in> {JStr ''paid'', JStr ''partially_paid''})"
proof -
  let ?path = "''/v1/payment_links/'' @ reference"
  have told: ?thesis if "get_json env ?path s1 = (Inr link, s')" "terminal_link_state link = Some x" for s1 link
    using request_json_Inr [OF that(1)] terminal_link_state_Some [OF that(2)] by blast
  from run obtain link s1 where get: "get_json env ?path s = (Inr link, s1)"
    by (auto simp: revoke_payment_link_def Let_def bindC_result)
  show ?thesis
  proof (cases "terminal_link_state link")
    case (Some y)
    with run get have "y = x" "s' = s1" by (auto simp: revoke_payment_link_def Let_def bindC_def returnC_def)
    with told get Some show ?thesis by blast
  next
    case None
    with run get have cancel: "cancel_link env ?path s1 = (Inr x, s')"
      by (auto simp: revoke_payment_link_def Let_def bindC_def failC_def raiseC_def split: if_splits)
    obtain res s2 where post: "request_json env ''POST'' (?path @ ''/cancel'') [] None None s1 = (res, s2)" by fastforce
    show ?thesis
    proof (cases res)
      case (Inl e)
      with cancel post obtain code st retriable where "bindC (get_json env ?path) (\<lambda>link. case terminal_link_state link of
          Some x \<Rightarrow> returnC x | None \<Rightarrow> raiseC (Request_Error code st retriable)) s2 = (Inr x, s')"
        by (cases e) (auto simp: cancel_link_def)
      then obtain link' where "get_json env ?path s2 = (Inr link', s')" "terminal_link_state link' = Some x"
        by (auto simp: client_simps split: option.splits)
      then show ?thesis by (rule told)
    next
      case (Inr ob)
      with cancel post have "x = ''CANCELLED''" "s' = s2" "jget ob ''status'' = JStr ''cancelled''"
        by (auto simp: cancel_link_def failC_def raiseC_def returnC_def split: if_splits)
      with request_json_Inr [of env "''POST''" "?path @ ''/cancel''" "[]" None None s1 ob s2] post Inr show ?thesis by blast
    qed
  qed
qed

section \<open>A small provider\<close>

definition read_number :: "string \<Rightarrow> nat" where
  "read_number s = (case find (\<lambda>n. int_str (int n) = s) [0..<101] of Some n \<Rightarrow> n | None \<Rightarrow> 0)"

lemma read_number_int_str:
  assumes "n \<le> 100"
  shows "read_number (int_str (int n)) = n"
proof (cases "find (\<lambda>k. int_str (int k) = int_str (int n)) [0..<101]")
  case None
  then have "\<forall>k < 101. int_str (int k) \<noteq> int_str (int n)" by (simp add: find_None_iff)
  then have "\<not> n < 101" by blast
  with assms show ?thesis by simp
next
  case (Some k)
  then have "int_str (int k) = int_str (int n)" by (auto simp: find_Some_iff)
  then have "k = n" by (auto dest: int_str_inject)
  with Some show ?thesis by (simp add: read_number_def)
qed

definition two_invoices :: "jobject list" where
  "two_invoices = [[(''id'', JStr ''inv_1'')], [(''id'', JStr ''inv_2'')]]"

text \<open>It serves two invoices, knows a halted subscription, answers the creation of a link with \<open>a\<close> and cancels a link.\<close>

definition small_provider :: "http_answer \<Rightarrow> (http_request \<times> http_answer) list \<Rightarrow> http_request \<Rightarrow> http_answer" where
  "small_provider a sent rq =
     (if rq_path rq = ''/v1/invoices'' then
        (case rq_params rq of
           [(_, wanted), (_, seen)] \<Rightarrow> Response 200 (Some (JObj [(''items'',
             JList (map JObj (take (read_number wanted) (drop (read_number seen) two_invoices))))]))
         | _ \<Rightarrow> Response 400 None)
      else if rq_path rq = ''/v1/subscriptions/sub_1'' then Response 200 (Some (JObj [(''status'', JStr ''halted'')]))
      else if rq_path rq = ''/v1/payment_links'' then a
      else if rq_method rq = ''POST'' then Response 200 (Some (JObj [(''status'', JStr ''cancelled'')]))
      else Response 200 (Some (JObj [(''status'', JStr ''created'')])))"

definition small_env :: "http_answer \<Rightarrow> client_env" where
  "small_env a = \<lparr>rz_key_id = ''rzp_test_1'', rz_checkout_origin = ''https://pay.example'', rz_http = small_provider a,
     rz_before = Aware (seconds 100) 0, rz_after = Aware (seconds 101) 0, rz_now = seconds 101, rz_host_ok = (\<lambda>_. False)\<rparr>"

definition small_breaker :: CircuitBreaker where
  "small_breaker = \<lparr>cb_provider = ''razorpay'', cb_operation = ''create_payment_link'', cb_failure_threshold = 3,
     cb_recovery_timeout = seconds 30, cb_state = OPEN, cb_failure_count = 3, cb_opened_at = Some 0,
     cb_probe_in_flight = False, cb_uncertain = False\<rparr>"

definition small_client :: client_state where
  "small_client = \<lparr>ck_breaker = small_breaker, ck_log = []\<rparr>"

definition small_request :: OpenPaymentSurfaceRequest where
  "small_request = \<lparr>os_idempotency_key = ''key'', os_case_id = ''case_1'', os_merchant_id = ''m1'', os_customer_id = ''cust_1'',
     os_subscription_id = ''sub_1'', os_failed_invoice_id = ''inv_1'', os_surface_type = STANDARD_PAYMENT_LINK,
     os_exact_amount_paise = 149900, os_currency = ''INR'', os_recovery_deadline = days 2, os_expires_at = Some (days 3),
     os_callback_url = None, os_reference_id = Some ''rc_1'', os_notes = [(''case_id'', ''case_1'')]\<rparr>"

lemma small_provider_serves: "serves (small_env a) ''/v1/invoices'' [] ''items'' two_invoices"
  by (auto simp: serves_def small_env_def small_provider_def read_number_int_str two_invoices_def)

theorem collection_read_completely_witness:
  "fst (list_objects (small_env Transport_Error) ''/v1/invoices'' [] ''items'' ''INVOICES'' 1000 [] small_client) = Inr two_invoices"
proof -
  have "length two_invoices \<le> 1000" by code_simp
  with collection_read_completely [OF small_provider_serves, of Transport_Error "''INVOICES''" 1000 small_client] show ?thesis by simp
qed

lemma small_runs:
  "fst (open_standard_payment_link (small_env Transport_Error) small_request small_client) = Inl (Uncertain_Submission ''rc_1'')"
  "fst (open_standard_payment_link (small_env Request_Cancelled) small_request small_client) = Inl Client_Cancelled"
  "length (posts (ck_log (snd (open_standard_payment_link (small_env Request_Cancelled) small_request small_client)))) = 1"
  "fst (revoke_payment_link (small_env Transport_Error) ''plink_1'' small_client) = Inr ''CANCELLED''"
  by code_simp+

theorem link_creation_is_classified_witness:
  "\<exists>s' new. open_standard_payment_link (small_env Transport_Error) small_request small_client
      = (Inl (Uncertain_Submission ''rc_1''), s')
    \<and> ck_log s' = new \<and> conclusive small_request new (Inl (Uncertain_Submission ''rc_1'')) s'"
proof -
  obtain s' where run: "open_standard_payment_link (small_env Transport_Error) small_request small_client
      = (Inl (Uncertain_Submission ''rc_1''), s')" using small_runs(1) by (metis fst_conv prod.exhaust)
  have "is_aware (rz_after (small_env Transport_Error))" by (simp add: small_env_def)
  from link_creation_is_classified [OF run this] run show ?thesis by (auto simp: small_client_def)
qed

theorem cancelled_probe_blocks_links_witness:
  "\<exists>s'. open_standard_payment_link (small_env Request_Cancelled) small_request small_client = (Inl Client_Cancelled, s')
    \<and> (\<exists>new. ck_log (attempts [(small_env (Response 200 None), small_request)] s') = ck_log s' @ new \<and> posts new = [])"
proof -
  obtain s' where run: "open_standard_payment_link (small_env Request_Cancelled) small_request small_client
      = (Inl Client_Cancelled, s')" using small_runs(2) by (metis fst_conv prod.exhaust)
  have "posts (drop (length (ck_log small_client)) (ck_log s')) \<noteq> []"
    using small_runs(3) run by (auto simp: small_client_def)
  moreover have "cb_state (ck_breaker small_client) \<noteq> CLOSED" by (simp add: small_client_def small_breaker_def)
  ultimately show ?thesis
    using cancelled_probe_blocks_links [OF run, of "[(small_env (Response 200 None), small_request)]"] run by blast
qed

theorem revocation_is_confirmed_witness:
  "\<exists>s' link. revoke_payment_link (small_env Transport_Error) ''plink_1'' small_client = (Inr ''CANCELLED'', s')
    \<and> last_answer s' link \<and> jget link ''status'' \<in> {JStr ''cancelled'', JStr ''expired''}"
proof -
  obtain s' where run: "revoke_payment_link (small_env Transport_Error) ''plink_1'' small_client = (Inr ''CANCELLED'', s')"
    using small_runs(4) by (metis fst_conv prod.exhaust)
  from revocation_is_confirmed [OF run] run show ?thesis by auto
qed

end
