(* ===== verification/Spec2Isabelle.thy ===== *)
theory Spec2Isabelle
  imports Decision_Engine Circuit_Breaker Projections Optimistic_Update Webhook_Ledger Workflow_Runs A2A_Protocol Case_Reconciliation Voice_Runs Case_Runs Console_Safety Signal_Dispatch Client_Safety
begin

text \<open>
  RecoveryOS recovers failed subscription payments. Razorpay webhooks are received, stored and
  processed by the API service; a durable workflow of the worker service decides with a safety policy,
  a diagnosis and a scorer what to do about a case, and opens a payment surface, places a voice call or asks the
  customer's own agent for a signed mandate; payments are reconciled with the provider before any
  revenue is recognised. This library models these parts as functions on explicit states and proves
  what makes them correct.

  \<^bold>\<open>The parts, their theories and their sources\<close> (paths below \<open>src/services/\<close>).

  \<^item> Shared vocabulary: \<open>Prelude\<close> (errors as sums, instants, tables as lists of rows), \<open>Domain_Model\<close>
    (\<open>api/app/domain/\<close>: enumerations and validated contracts), \<open>Entities\<close> (\<open>api/app/models/entities.py\<close>: rows,
    unique keys and check constraints; \<open>database\<close> is the record of the tables), \<open>Worker_Contracts\<close>
    (\<open>worker/app/contracts.py\<close>), \<open>Wire_Encoding\<close> (base64url and JSON texts).
  \<^item> Deciding: \<open>Safety_Policy\<close> (\<open>api/app/safety/\<close>), \<open>Diagnosis_Policy\<close> (\<open>api/app/services/diagnosis.py\<close> and
    \<open>policy.py\<close>), \<open>Decision_Engine\<close> (\<open>api/app/services/decision_engine.py\<close>: candidates, scores, ranking, policy).
  \<^item> Webhooks: \<open>Razorpay_Events\<close> (\<open>api/app/integrations/razorpay/\<close>: signature, normalisation, event clock),
    \<open>Webhook_Inbox\<close> (\<open>api/app/webhooks/repository.py\<close> and \<open>razorpay.py\<close>: the atomic receipt), \<open>Webhook_Processor\<close>
    (\<open>api/app/webhooks/processor.py\<close>: correlation, failures, captures, recognition of revenue, the durable
    authorization, the outbox loop), with its properties in \<open>Webhook_Ledger\<close>.
  \<^item> Reliability: \<open>Circuit_Breaker\<close>, \<open>Projections\<close>, \<open>Optimistic_Update\<close> (\<open>api/app/reliability/\<close>, \<open>api/app/simulator/\<close>).
  \<^item> The workflow: \<open>Recovery_Workflow\<close> (\<open>worker/app/workflow.py\<close>) is the whole program of a case, in a
    monad over the workflow's state with signals delivered at every await; \<open>Workflow_Machine\<close> is the abstract
    state machine of a case, \<open>Workflow_Safety\<close> shows that every run is a path of it and what a run
    guarantees, \<open>Workflow_Termination\<close> that it ends, \<open>Workflow_Runs\<close> what goes wrong while an
    approval is awaited, and concrete runs.
  \<^item> The activities: \<open>Action_Runtime\<close> and \<open>Case_Reconciliation\<close> (\<open>worker/app/runtime.py\<close> and the mock services of
    \<open>activities.py\<close>): claims, submissions, resumption, cancellation, reconciliation, audit. \<open>Execution_Safety\<close> is
    the machine of concurrent executions, \<open>Action_Safety\<close> what claims and cancellations guarantee.
  \<^item> The customer agent: \<open>A2A_Mandates\<close>, \<open>A2A_Signing\<close> (\<open>api/app/integrations/a2a/\<close>, \<open>customer-agent/app/signing.py\<close>),
    \<open>Task_Store\<close>, \<open>Customer_Agent\<close> (\<open>customer-agent/app/\<close>), \<open>A2A_Activities\<close> (\<open>worker/app/a2a_runtime.py\<close>), with
    \<open>Agent_Safety\<close> (the agent refines a task machine) and \<open>A2A_Protocol\<close> (both sides together).
  \<^item> Voice: \<open>Voice_Contact\<close> (\<open>api/app/voice/\<close>, \<open>api/app/integrations/voice/safety.py\<close>), \<open>Voice_Safety\<close> (the interface of
    the two repositories as the locales \<open>voice_ledger\<close> and \<open>callback_log\<close>, the machine of concurrent requests), \<open>Voice_Runs\<close>.
  \<^item> The console: \<open>Case_Repository\<close> and \<open>Case_Listing\<close> (\<open>api/app/repositories/cases.py\<close>: look-ups, writes that
    happen once, the dashboard's figures, the paged list with its cursor), \<open>Case_Service\<close>
    (\<open>api/app/services/cases.py\<close>: recommendation, approval, rejection, stop, escalation, the simulated payment),
    \<open>Approval_Queue\<close> and \<open>Console_Commands\<close> (the routes of \<open>api/app/api/router.py\<close> that show and change a case, with
    the signals of \<open>api/app/workflows/commands.py\<close>), with \<open>Console_Safety\<close> on retried commands. \<open>Case_Safety\<close> proves what every command keeps,
    once, in the locale \<open>command_log\<close>, and interprets it for the closed cases and, together with the
    webhook processor, for the books; \<open>Execution_Writers\<close> shows that commands and messages are steps of the
    machine of executions, which discharges what that machine assumes of other writers; \<open>Case_Runs\<close> holds
    concrete runs of commands and activities.
  \<^item> Between the parts: \<open>Signal_Dispatch\<close> (\<open>worker/app/outbox.py\<close>: from a processed message to the workflow) shows that what
    the processor authorises is what the workflow is started with; \<open>Razorpay_Client\<close>
    (\<open>api/app/integrations/razorpay/client.py\<close>) is the adapter behind the provider's answers, with its circuit breaker,
    and \<open>Client_Safety\<close> what its callers can rely on.
  \<^bold>\<open>How the model corresponds to the code.\<close> A class or table row is a record with the source's
  fields, an enumeration a datatype, an operation a function from its state to an exception (\<open>Inl\<close>)
  or a result with the new state; a transaction that raises leaves the state of the last commit. Where
  other requests can commit between a read and a write of an operation, what they do is an argument
  of the operation (the customer agent's writes, the SQL voice repository) or a step of an inductive relation: \<open>activity_step\<close> interleaves
  executions of activities, crashes and foreign writes at every database access and provider call, and
  \<open>voice_system_step\<close> does so for calls. Money is an unbounded integer as in Python; times are
  microseconds.

  \<^bold>\<open>Parameters\<close> stand for code outside the repository: Ed25519, SHA-256 and HMAC; the text of a
  timestamp; the JSON decoder of a webhook body; the tz database; the model behind the scorer and the language model;
  the answers of the payment and the voice provider and of Temporal; readings of the clock and fresh identifiers.
  Theorems that need a property of one have it as a hypothesis (\<open>scorer_contract\<close>, \<open>signs_correctly\<close>,
  \<open>unforged\<close>, \<open>separates_events\<close>), and their witnesses instantiate it.

  \<^bold>\<open>Fuel.\<close> Only the workflow has fuel: a run makes progress with each signal it is sent and with
  each microsecond up to the deadline, and \<open>workflow_terminates\<close> shows that the number of distinct
  signals plus that distance is enough, so the theorems about runs are not vacuous. All other
  loops are structural recursions or have a termination proof.

  \<^bold>\<open>What the theorems show.\<close> Money: a case has collected exactly what was recognised for it, once per event
  and per payment, never more than was at risk, and a recovery is reported on authoritative evidence only.
  Permission: nothing is dispatched, claimed, submitted or called without a stored decision, an
  approval where one is needed, consent, or a verified mandate for exactly the amount that is owed.
  At most once: receipts, mandates, payment submissions, calls, cancellations and signals, under every
  interleaving. Progress: runs end, the agents' protocol completes, failed messages are retried.
  The theorems of kind \<open>error\<close> prove behaviour of the code that contradicts its purpose or its comments.

  \<^bold>\<open>Not modelled\<close>: HTTP routing, authentication of operators and request schemas (the routes of \<open>api/app/api/\<close> that only read, the routers of \<open>voice\<close>, \<open>a2a\<close>,
  \<open>lab\<close>), which parse, call the services and print; the HTTP clients of Twilio and
  ElevenLabs, whose answers are parameters; the onboarding of a test subscription; process set-up, health
  checks, configuration and seeds; Alembic migrations; the training and evaluation of the scorer; the web front end.
  Audit payloads, log lines, elapsed times and lengths of text columns are left out of what is modelled.
\<close>

end
